(* ===== verification/Prelude.thy ===== *)
theory Prelude
  imports Main "HOL-Library.Char_ord" "HOL-Library.List_Lexorder"
begin

text \<open>
  Shared vocabulary of the development: the Go string and number formatting routines the
  server uses, Go error values, the lookup/insert/update interface of a database table
  with its list implementation, and the interface of a machine with terminal states.

  A Go string is a sequence of bytes and is modelled by \<^typ>\<open>string\<close>. Case mapping and
  white space follow the Go standard library on ASCII, which is what addresses, statuses,
  operation names and identifiers consist of; bytes from 128 on are left unchanged.
\<close>

named_theorems err_iff \<open>when an operation of the model succeeds\<close>
named_theorems frame \<open>which part of the state an operation leaves alone\<close>

section \<open>Strings\<close>

definition is_space :: "char \<Rightarrow> bool" where
  "is_space c \<longleftrightarrow> c \<in> {CHR 0x09, CHR 0x0A, CHR 0x0B, CHR 0x0C, CHR 0x0D, CHR '' ''}"

definition lower_char :: "char \<Rightarrow> char" where
  "lower_char c =
     (let n = (of_char c :: nat) in if 65 \<le> n \<and> n \<le> 90 then char_of (n + 32) else c)"

definition ToLower :: "string \<Rightarrow> string" where
  "ToLower s = map lower_char s"

definition TrimSpace :: "string \<Rightarrow> string" where
  "TrimSpace s = rev (dropWhile is_space (rev (dropWhile is_space s)))"

definition EqualFold :: "string \<Rightarrow> string \<Rightarrow> bool" where
  "EqualFold a b \<longleftrightarrow> ToLower a = ToLower b"

definition HasPrefix :: "string \<Rightarrow> string \<Rightarrow> bool" where
  "HasPrefix s p \<longleftrightarrow> take (length p) s = p"

definition HasSuffix :: "string \<Rightarrow> string \<Rightarrow> bool" where
  "HasSuffix s p \<longleftrightarrow> HasPrefix (rev s) (rev p)"

fun Contains :: "string \<Rightarrow> string \<Rightarrow> bool" where
  "Contains [] p = (p = [])"
| "Contains (c # s) p = (HasPrefix (c # s) p \<or> Contains s p)"

fun Split :: "char \<Rightarrow> string \<Rightarrow> string list" where
  "Split d [] = [[]]"
| "Split d (c # s) =
     (if c = d then [] # Split d s
      else case Split d s of [] \<Rightarrow> [[c]] | w # ws \<Rightarrow> (c # w) # ws)"

fun Join :: "string list \<Rightarrow> string \<Rightarrow> string" where
  "Join [] sep = []"
| "Join [s] sep = s"
| "Join (s # t # ss) sep = s @ sep @ Join (t # ss) sep"

definition blank :: "string \<Rightarrow> bool" where
  "blank s \<longleftrightarrow> TrimSpace s = []"

definition digit_char :: "nat \<Rightarrow> char" where
  "digit_char n = char_of (48 + n)"

fun nat_str :: "nat \<Rightarrow> string" where
  "nat_str n = (if n < 10 then [digit_char n] else nat_str (n div 10) @ [digit_char (n mod 10)])"

declare nat_str.simps [simp del]

definition int_str :: "int \<Rightarrow> string" where
  "int_str i = (if i < 0 then CHR ''-'' # nat_str (nat (- i)) else nat_str (nat i))"

section \<open>Parsing numbers\<close>

definition digit_val :: "char \<Rightarrow> nat option" where
  "digit_val c = (let n = (of_char c :: nat) in if 48 \<le> n \<and> n \<le> 57 then Some (n - 48) else None)"

fun digits_val :: "nat \<Rightarrow> string \<Rightarrow> nat option" where
  "digits_val acc [] = Some acc"
| "digits_val acc (c # s) =
     (case digit_val c of None \<Rightarrow> None | Some v \<Rightarrow> digits_val (10 * acc + v) s)"

definition parse_nat :: "string \<Rightarrow> nat option" where
  "parse_nat s = (if s = [] then None else digits_val 0 s)"

text \<open>\<open>big.Int.SetString(s, 10)\<close>: an optional sign and at least one digit.\<close>

definition SetString10 :: "string \<Rightarrow> int option" where
  "SetString10 s =
     (case s of
        [] \<Rightarrow> None
      | c # t \<Rightarrow> if c = CHR ''-'' then map_option (\<lambda>n. - int n) (parse_nat t)
                else if c = CHR ''+'' then map_option int (parse_nat t)
                else map_option int (parse_nat s))"

text \<open>\<open>strconv.ParseInt(s, 10, 64)\<close>, which is \<open>Atoi\<close> on 64 bits, and \<open>ParseUint(s, 10, 64)\<close>.\<close>

definition ParseInt64 :: "string \<Rightarrow> int option" where
  "ParseInt64 s =
     (case SetString10 s of None \<Rightarrow> None
      | Some i \<Rightarrow> if - (2 ^ 63) \<le> i \<and> i < 2 ^ 63 then Some i else None)"

definition ParseUint64 :: "string \<Rightarrow> nat option" where
  "ParseUint64 s =
     (case parse_nat s of None \<Rightarrow> None | Some n \<Rightarrow> if n < 2 ^ 64 then Some n else None)"

section \<open>Go errors\<close>

text \<open>
  A \<open>Sentinel\<close> is a package-level error variable (its qualified name gives it its
  identity); an \<open>Errorf\<close> value carries its formatted message and the errors it wraps,
  none for \<open>errors.New\<close>. \<open>errors_is\<close> is \<open>errors.Is\<close> for a sentinel target.
\<close>

datatype gerr = Sentinel string string | Errorf string "gerr list"

fun err_msg :: "gerr \<Rightarrow> string" where
  "err_msg (Sentinel q m) = m"
| "err_msg (Errorf m es) = m"

fun errors_is :: "gerr \<Rightarrow> gerr \<Rightarrow> bool" where
  "errors_is (Sentinel q m) t = (t = Sentinel q m)"
| "errors_is (Errorf m es) t = list_ex (\<lambda>e. errors_is e t) es"

definition errors_New :: "string \<Rightarrow> gerr" where
  "errors_New m = Errorf m []"

definition wrap :: "string \<Rightarrow> gerr \<Rightarrow> gerr" where
  "wrap prefix e = Errorf (prefix @ '': '' @ err_msg e) [e]"

definition detail :: "gerr \<Rightarrow> string \<Rightarrow> gerr" where
  "detail e msg = Errorf (err_msg e @ '': '' @ msg) [e]"

definition errors_Join :: "gerr \<Rightarrow> gerr \<Rightarrow> gerr" where
  "errors_Join a b = Errorf (err_msg a @ [CHR 0x0A] @ err_msg b) [a, b]"

definition ErrNoRows :: gerr where
  "ErrNoRows = Sentinel ''sql.ErrNoRows'' ''sql: no rows in result set''"

lemma errors_is_simps [simp]:
  "\<not> errors_is (errors_New m) t"
  "errors_is (wrap p e) t = errors_is e t"
  "errors_is (detail e m) t = errors_is e t"
  "errors_is (errors_Join a b) t = (errors_is a t \<or> errors_is b t)"
  by (simp_all add: errors_New_def wrap_def detail_def errors_Join_def)

section \<open>Rows of a table\<close>

text \<open>
  The part of the SQL interface the services rely on: select by key, insert of a row with
  a fresh key, and \<open>UPDATE .. SET .. WHERE\<close> with an assignment that keeps the key.
\<close>

locale row_store =
  fixes key :: "'r \<Rightarrow> 'k"
    and get :: "'s \<Rightarrow> 'k \<Rightarrow> 'r option"
    and add :: "'r \<Rightarrow> 's \<Rightarrow> 's"
    and upd :: "('r \<Rightarrow> bool) \<Rightarrow> ('r \<Rightarrow> 'r) \<Rightarrow> 's \<Rightarrow> 's"
  assumes get_key: "get s k = Some r \<Longrightarrow> key r = k"
    and get_add: "get s (key r) = None \<Longrightarrow>
      get (add r s) k = (if k = key r then Some r else get s k)"
    and get_upd: "(\<And>r. key (f r) = key r) \<Longrightarrow>
      get (upd p f s) k = map_option (\<lambda>r. if p r then f r else r) (get s k)"
begin

lemma get_add_same: "get s (key r) = None \<Longrightarrow> get (add r s) (key r) = Some r"
  by (simp add: get_add)

lemma get_add_old: "get s (key r) = None \<Longrightarrow> get s k = Some q \<Longrightarrow> get (add r s) k = Some q"
  by (auto simp: get_add)

lemma get_upd_some:
  "(\<And>r. key (f r) = key r) \<Longrightarrow> get s k = Some r \<Longrightarrow>
     get (upd p f s) k = Some (if p r then f r else r)"
  by (simp add: get_upd)

lemma get_upd_none:
  "(\<And>r. key (f r) = key r) \<Longrightarrow> (get (upd p f s) k = None) = (get s k = None)"
  by (simp add: get_upd)

text \<open>A property of a row that the assignment keeps is kept for every key.\<close>

lemma upd_stable:
  assumes "\<And>r. key (f r) = key r" and "\<And>r. P r \<Longrightarrow> P (f r)"
    and "get s k = Some r" and "P r"
  shows "\<exists>r'. get (upd p f s) k = Some r' \<and> P r'"
  using assms(2) [OF assms(4)] assms(4) get_upd_some [of f s k r p, OF assms(1) assms(3)]
  by (cases "p r") auto

end

definition row_get :: "('r \<Rightarrow> 'k) \<Rightarrow> 'r list \<Rightarrow> 'k \<Rightarrow> 'r option" where
  "row_get key rows k = find (\<lambda>r. key r = k) rows"

definition row_add :: "'r \<Rightarrow> 'r list \<Rightarrow> 'r list" where
  "row_add r rows = rows @ [r]"

definition row_upd :: "('r \<Rightarrow> bool) \<Rightarrow> ('r \<Rightarrow> 'r) \<Rightarrow> 'r list \<Rightarrow> 'r list" where
  "row_upd p f rows = map (\<lambda>r. if p r then f r else r) rows"

lemma row_get_Nil [simp]: "row_get key [] k = None"
  by (simp add: row_get_def)

lemma row_get_Cons [simp]:
  "row_get key (r # rows) k = (if key r = k then Some r else row_get key rows k)"
  by (simp add: row_get_def)

lemma row_get_append:
  "row_get key (xs @ ys) k = (case row_get key xs k of None \<Rightarrow> row_get key ys k | Some r \<Rightarrow> Some r)"
  by (induction xs) auto

lemma row_get_Some: "row_get key rows k = Some r \<Longrightarrow> r \<in> set rows \<and> key r = k"
  by (induction rows) (auto split: if_splits)

lemma row_get_None: "row_get key rows k = None \<longleftrightarrow> k \<notin> key ` set rows"
  by (induction rows) auto

lemma row_get_upd:
  "(\<And>r. key (f r) = key r) \<Longrightarrow>
     row_get key (row_upd p f rows) k = map_option (\<lambda>r. if p r then f r else r) (row_get key rows k)"
  by (induction rows) (auto simp: row_upd_def)

lemma set_row_upd: "set (row_upd p f rows) = (\<lambda>r. if p r then f r else r) ` set rows"
  by (simp add: row_upd_def)

interpretation rows: row_store key "row_get key" row_add row_upd for key
  by unfold_locales (auto dest: row_get_Some simp: row_add_def row_get_append row_get_upd split: option.splits)

section \<open>Machines with terminal states\<close>

text \<open>
  Several components keep a status that must not move once it is terminal. The interface is
  one step function, an invariant of its states and the set of terminal statuses; the run lemma
  is proved once here.
\<close>

locale terminal_machine =
  fixes step :: "'s \<Rightarrow> 'e \<Rightarrow> 's"
    and inv :: "'s \<Rightarrow> bool"
    and status :: "'s \<Rightarrow> 'st"
    and terminal :: "'st \<Rightarrow> bool"
  assumes inv_step: "inv s \<Longrightarrow> inv (step s e)"
    and terminal_step: "inv s \<Longrightarrow> terminal (status s) \<Longrightarrow> status (step s e) = status s"
begin

lemma inv_run: "inv s \<Longrightarrow> inv (foldl step s es)"
  by (induction es arbitrary: s) (simp_all add: inv_step)

lemma terminal_run: "inv s \<Longrightarrow> terminal (status s) \<Longrightarrow> status (foldl step s es) = status s"
proof (induction es arbitrary: s)
  case (Cons e es)
  then have "status (step s e) = status s" by (simp add: terminal_step)
  with Cons show ?case by (simp add: inv_step)
qed simp

end

section \<open>Facts about strings\<close>

lemma lower_char_idem [simp]: "lower_char (lower_char c) = lower_char c"
  by (auto simp: lower_char_def Let_def)

lemma ToLower_idem [simp]: "ToLower (ToLower s) = ToLower s"
  by (simp add: ToLower_def)

lemma ToLower_Nil [simp]: "ToLower [] = []"
  by (simp add: ToLower_def)

lemma ToLower_eq_Nil [simp]: "ToLower s = [] \<longleftrightarrow> s = []"
  by (simp add: ToLower_def)

lemma EqualFold_refl [simp]: "EqualFold s s"
  by (simp add: EqualFold_def)

lemma EqualFold_sym: "EqualFold a b \<Longrightarrow> EqualFold b a"
  by (simp add: EqualFold_def)

lemma EqualFold_trans: "EqualFold a b \<Longrightarrow> EqualFold b c \<Longrightarrow> EqualFold a c"
  by (simp add: EqualFold_def)

lemma EqualFold_ToLower [simp]: "EqualFold (ToLower a) b = EqualFold a b"
  "EqualFold a (ToLower b) = EqualFold a b"
  by (simp_all add: EqualFold_def)

lemma char_eq_of_char: "c = d \<longleftrightarrow> (of_char c :: nat) = of_char d"
  by simp

lemma is_space_code: "is_space c \<longleftrightarrow> (of_char c :: nat) \<in> {9, 10, 11, 12, 13, 32}"
  unfolding is_space_def insert_iff empty_iff char_eq_of_char by simp

lemma is_space_lower [simp]: "is_space (lower_char c) = is_space c"
  by (auto simp: lower_char_def Let_def is_space_code)

lemma dropWhile_lower: "dropWhile is_space (map lower_char s) = map lower_char (dropWhile is_space s)"
  by (induction s) auto

lemma TrimSpace_ToLower: "TrimSpace (ToLower s) = ToLower (TrimSpace s)"
  by (simp add: TrimSpace_def ToLower_def dropWhile_lower rev_map)

lemma dropWhile_idem: "dropWhile p (dropWhile p xs) = dropWhile p xs"
  by (induction xs) auto

lemma TrimSpace_Nil [simp]: "TrimSpace [] = []"
  by (simp add: TrimSpace_def)

lemma hd_dropWhile_append:
  "dropWhile p xs = xs \<Longrightarrow> xs = us @ vs \<Longrightarrow> dropWhile p us = us"
  unfolding dropWhile_eq_self_iff by (cases us) auto

lemma TrimSpace_idem [simp]: "TrimSpace (TrimSpace s) = TrimSpace s"
proof -
  define a where "a = dropWhile is_space s"
  define b where "b = dropWhile is_space (rev a)"
  have a: "dropWhile is_space a = a" by (simp add: a_def dropWhile_idem)
  have "rev a = takeWhile is_space (rev a) @ b" by (simp add: b_def)
  then have "a = rev b @ rev (takeWhile is_space (rev a))"
    by (metis rev_append rev_rev_ident)
  with a have "dropWhile is_space (rev b) = rev b" by (rule hd_dropWhile_append)
  moreover have "dropWhile is_space b = b" by (simp add: b_def dropWhile_idem)
  ultimately show ?thesis by (simp add: TrimSpace_def a_def b_def)
qed

section \<open>Facts about numbers\<close>

lemma digit_val_digit: "n < 10 \<Longrightarrow> digit_val (digit_char n) = Some n"
  by (simp add: digit_val_def digit_char_def Let_def of_char_of)

lemma digits_val_append:
  "digits_val acc (s @ t) = (case digits_val acc s of None \<Rightarrow> None | Some v \<Rightarrow> digits_val v t)"
  by (induction acc s rule: digits_val.induct) (auto split: option.splits)

lemma digits_val_nat_str: "digits_val acc (nat_str n) = Some (acc * 10 ^ length (nat_str n) + n)"
proof (induction n arbitrary: acc rule: nat_str.induct)
  case (1 n)
  show ?case
  proof (cases "n < 10")
    case True
    then show ?thesis by (simp add: nat_str.simps [of n] digit_val_digit)
  next
    case False
    have "10 * (n div 10) + n mod 10 = n" by simp
    with 1 [OF False, of acc] False show ?thesis
      by (simp add: nat_str.simps [of n] digits_val_append digit_val_digit algebra_simps)
  qed
qed

lemma nat_str_nonempty [simp]: "nat_str n \<noteq> []"
  by (simp add: nat_str.simps [of n])

lemma parse_nat_str [simp]: "parse_nat (nat_str n) = Some n"
  by (simp add: parse_nat_def digits_val_nat_str)

lemma nat_str_inject [simp]: "nat_str m = nat_str n \<longleftrightarrow> m = n"
  by (metis option.inject parse_nat_str)

end
