(* ===== verification/Numconv.thy ===== *)
theory Numconv
  imports Prelude "HOL-Library.Word"
begin

text \<open>
  \<open>internal/numconv/numconv.go\<close>: checked conversions between the 64-bit and 8-bit integer
  types, on words of their width (\<open>int\<close> and \<open>uint\<close> are 64 bits wide), and the optional
  bytes32 hex parser with the standard library's \<open>hex.DecodeString\<close>. A conversion
  succeeds exactly when the value is representable, and then keeps it.
\<close>

type_synonym int64 = "64 word"
type_synonym uint64 = "64 word"
type_synonym byte = "8 word"

section \<open>Integer conversions\<close>

definition MaxInt64 :: uint64 where
  "MaxInt64 = 0x7FFFFFFFFFFFFFFF"

definition range_err :: "string \<Rightarrow> string \<Rightarrow> string \<Rightarrow> gerr" where
  "range_err field what v = errors_New (field @ what @ v)"

definition Uint64ToInt64 :: "uint64 \<Rightarrow> string \<Rightarrow> gerr + int64" where
  "Uint64ToInt64 v field =
     (if v > MaxInt64 then Inl (range_err field '' out of range for int64: '' (nat_str (unat v)))
      else Inr v)"

definition Int64ToUint64 :: "int64 \<Rightarrow> string \<Rightarrow> gerr + uint64" where
  "Int64ToUint64 v field =
     (if v <s 0 then Inl (range_err field '' cannot be negative: '' (int_str (sint v)))
      else Inr v)"

definition IntToUint8 :: "int64 \<Rightarrow> string \<Rightarrow> gerr + byte" where
  "IntToUint8 v field =
     (if v <s 0 \<or> 255 <s v then Inl (range_err field '' out of range for uint8: '' (int_str (sint v)))
      else Inr (ucast v))"

definition UintToInt :: "uint64 \<Rightarrow> string \<Rightarrow> gerr + int64" where
  "UintToInt v field =
     (if v > MaxInt64 then Inl (range_err field '' out of range for int: '' (nat_str (unat v)))
      else Inr v)"

section \<open>Hex\<close>

text \<open>\<open>hex.DecodeString\<close>: two digits of either case per byte, an error on any other
  character and on an odd length.\<close>

definition from_hex :: "char \<Rightarrow> nat option" where
  "from_hex c =
     (let n = (of_char c :: nat) in
      if 48 \<le> n \<and> n \<le> 57 then Some (n - 48)
      else if 97 \<le> n \<and> n \<le> 102 then Some (n - 87)
      else if 65 \<le> n \<and> n \<le> 70 then Some (n - 55)
      else None)"

fun DecodeString :: "string \<Rightarrow> gerr + byte list" where
  "DecodeString [] = Inr []"
| "DecodeString [c] =
     (if from_hex c = None then Inl (errors_New ''encoding/hex: invalid byte'')
      else Inl (errors_New ''encoding/hex: odd length hex string''))"
| "DecodeString (a # b # s) =
     (case from_hex a of
        None \<Rightarrow> Inl (errors_New ''encoding/hex: invalid byte'')
      | Some h \<Rightarrow>
        (case from_hex b of
           None \<Rightarrow> Inl (errors_New ''encoding/hex: invalid byte'')
         | Some l \<Rightarrow>
           (case DecodeString s of
              Inl e \<Rightarrow> Inl e
            | Inr bs \<Rightarrow> Inr (word_of_nat (16 * h + l) # bs))))"

definition hex_digit_char :: "nat \<Rightarrow> char" where
  "hex_digit_char n = (if n < 10 then char_of (48 + n) else char_of (87 + n))"

fun EncodeToString :: "byte list \<Rightarrow> string" where
  "EncodeToString [] = []"
| "EncodeToString (b # bs) =
     hex_digit_char (unat b div 16) # hex_digit_char (unat b mod 16) # EncodeToString bs"

definition zero_bytes32 :: "byte list" where
  "zero_bytes32 = replicate 32 0"

definition ParseOptionalBytes32Hex :: "string \<Rightarrow> gerr + byte list" where
  "ParseOptionalBytes32Hex raw =
     (if raw = [] then Inr zero_bytes32
      else if \<not> HasPrefix raw ''0x'' then Inl (errors_New ''expected 0x-prefixed hex'')
      else
        let normalized = drop 2 raw in
        if length normalized \<noteq> 64
        then Inl (errors_New (''expected 32-byte hex (64 chars), got '' @ nat_str (length normalized)))
        else DecodeString normalized)"

section \<open>Lemmas\<close>

lemma bit63_iff: "bit (v :: int64) 63 = (MaxInt64 < v)"
proof -
  have "uint v < 2 ^ 64" using unsigned_less [of v] by simp
  then have "uint v div 2 ^ 63 = (if uint v < 2 ^ 63 then 0 else 1)"
    using int_div_pos_eq [of "uint v" "2 ^ 63" 1 "uint v - 2 ^ 63"] by auto
  then have "bit (uint v) 63 = (2 ^ 63 \<le> uint v)"
    by (simp add: bit_iff_odd not_less)
  then show ?thesis
    by (simp add: bit_uint_iff MaxInt64_def word_less_def) presburger
qed

lemma signed_nonneg_iff: "(0 \<le> sint (v :: int64)) = (v \<le> MaxInt64)"
proof -
  have "sint v = signed_take_bit 63 (uint v)" by (simp add: sint_uint)
  then have "(0 \<le> sint v) = (\<not> bit (uint v) 63)" by simp
  then show ?thesis using bit63_iff [of v] by (auto simp: bit_uint_iff not_less)
qed

lemma from_hex_digit: "n < 16 \<Longrightarrow> from_hex (hex_digit_char n) = Some n"
  by (auto simp: from_hex_def hex_digit_char_def Let_def of_char_of)

lemma decode_encode: "DecodeString (EncodeToString bs) = Inr bs"
proof (induction bs)
  case (Cons b bs)
  have b: "unat b < 256" using unsigned_less [of b, where ?'a = nat] by simp
  then have "unat b div 16 < 16" by (simp add: less_mult_imp_div_less)
  with Cons show ?case by (simp add: from_hex_digit)
qed simp

lemma length_encode: "length (EncodeToString bs) = 2 * length bs"
  by (induction bs) auto

lemma length_decode: "DecodeString s = Inr bs \<Longrightarrow> length s = 2 * length bs"
  by (induction s arbitrary: bs rule: DecodeString.induct) (auto split: option.splits sum.splits if_splits)

lemma sint_below: "(v :: int64) \<le> MaxInt64 \<Longrightarrow> sint v = uint v"
  using bit63_iff [of v] by (simp add: sint_uint signed_take_bit_eq_if_positive bit_uint_iff not_less
      take_bit_int_eq_self MaxInt64_def word_le_def)

lemma MaxInt64_uint: "(v \<le> MaxInt64) = (uint v < 2 ^ 63)"
  by (simp add: MaxInt64_def word_le_def) presburger

lemma sless_zero: "(v <s (0 :: int64)) = (sint v < 0)"
  by (simp add: word_sless_alt)

lemma IntToUint8_ok: "IntToUint8 v f = Inr b \<Longrightarrow> 0 \<le> sint v \<and> sint v \<le> 255 \<and> uint b = sint v"
proof -
  assume "IntToUint8 v f = Inr b"
  then have v: "\<not> sint v < 0" "\<not> 255 < sint v" "b = ucast v"
    by (auto simp: IntToUint8_def sless_zero word_sless_alt split: if_splits)
  then have "sint v = uint v" using signed_nonneg_iff [of v] by (simp add: sint_below)
  then show ?thesis using v by (simp add: unsigned_ucast_eq take_bit_int_eq_self)
qed


section \<open>Properties\<close>

text \<open>The integer conversions are exact and total: each succeeds exactly when the value is
  representable in the target type, and then keeps it, read with the target's signedness.\<close>

theorem conversions_exact:
  "(case Uint64ToInt64 v f of Inr w \<Rightarrow> sint w = uint v | Inl e \<Rightarrow> \<not> uint v < 2 ^ 63)
   \<and> (case Int64ToUint64 v f of Inr w \<Rightarrow> uint w = sint v | Inl e \<Rightarrow> sint v < 0)
   \<and> (case IntToUint8 v f of Inr b \<Rightarrow> uint b = sint v | Inl e \<Rightarrow> sint v < 0 \<or> 255 < sint v)
   \<and> (case UintToInt v f of Inr w \<Rightarrow> sint w = uint v | Inl e \<Rightarrow> \<not> uint v < 2 ^ 63)"
proof -
  have nonneg: "sint v = uint v" if "\<not> sint v < 0" for v :: int64
    using that signed_nonneg_iff [of v] by (simp add: sint_below)
  have "uint (ucast v :: byte) = sint v" if "\<not> sint v < 0" "\<not> 255 < sint v" for v :: int64
    using that nonneg [of v] by (simp add: unsigned_ucast_eq take_bit_int_eq_self)
  then show ?thesis
    by (simp add: Uint64ToInt64_def UintToInt_def Int64ToUint64_def IntToUint8_def sless_zero
        word_sless_alt sint_below MaxInt64_uint nonneg not_less flip: not_le)
qed

text \<open>The optional bytes32 parser accepts exactly the empty string, which is the zero value,
  and \<open>0x\<close> with 64 hexadecimal digits: an accepted string always yields 32 bytes, the encoding
  of any 32 bytes parses back to them, and a string without the prefix or with another number of
  digits is an error.\<close>

theorem ParseOptionalBytes32Hex_spec:
  "ParseOptionalBytes32Hex [] = Inr (replicate 32 0)
   \<and> (case ParseOptionalBytes32Hex s of Inr bs \<Rightarrow> length bs = 32 | Inl e \<Rightarrow> s \<noteq> [])
   \<and> ParseOptionalBytes32Hex (''0x'' @ EncodeToString (take 32 (bs @ replicate 32 0)))
       = Inr (take 32 (bs @ replicate 32 0))
   \<and> (case ParseOptionalBytes32Hex s of
        Inr bs \<Rightarrow> s = [] \<or> HasPrefix s ''0x'' \<and> length s = 66 | Inl e \<Rightarrow> True)"
  by (auto simp: ParseOptionalBytes32Hex_def zero_bytes32_def HasPrefix_def length_encode
      decode_encode Let_def dest: length_decode split: sum.splits if_splits)

end
