(* ===== verification/Eth.thy ===== *)
theory Eth
  imports Numconv
begin

text \<open>
  The functions of go-ethereum the server calls, as a record of parameters: address parsing
  and printing, Keccak-256, and signature recovery. Nothing is assumed of them except where a
  lemma names it. \<open>sample_eth\<close> is one concrete instance, used by witnesses only.
\<close>

type_synonym addr = "byte list"
type_synonym hash = "byte list"

record eth_lib =
  IsHexAddress :: "string \<Rightarrow> bool"
  HexToAddress :: "string \<Rightarrow> addr"
  AddressHex :: "addr \<Rightarrow> string"
  BytesToAddress :: "byte list \<Rightarrow> addr"
  Keccak256Hash :: "string \<Rightarrow> hash"
  HashHex :: "hash \<Rightarrow> string"
  HexToHash :: "string \<Rightarrow> hash"
  FromHex :: "string \<Rightarrow> byte list"
  Ecrecover :: "hash \<Rightarrow> byte list \<Rightarrow> gerr + byte list"
  UnmarshalPubkey :: "byte list \<Rightarrow> gerr + byte list"
  PubkeyToAddress :: "byte list \<Rightarrow> addr"

definition recover_err :: "string \<Rightarrow> gerr" where
  "recover_err m = errors_New m"

text \<open>
  The check both attestation kinds share: 65 signature bytes, a recovery id of 27 or 28 brought
  to 0 or 1, recovery of the public key from the Keccak hash of the message, and the address of
  that key compared with the expected one.
\<close>

definition adjust_v :: "byte list \<Rightarrow> byte list" where
  "adjust_v sig = (if sig ! 64 \<ge> 27 then sig[64 := sig ! 64 - 27] else sig)"

definition verify_signature ::
    "eth_lib \<Rightarrow> string \<Rightarrow> string \<Rightarrow> string \<Rightarrow> string \<Rightarrow> gerr option" where
  "verify_signature L msg signature expected who =
     (let sigBytes = FromHex L signature in
      if length sigBytes \<noteq> 65
      then Some (errors_New (''invalid signature length: expected 65 bytes, got '' @ nat_str (length sigBytes)))
      else
        case Ecrecover L (Keccak256Hash L msg) (adjust_v sigBytes) of
          Inl e \<Rightarrow> Some (wrap ''signature recovery failed'' e)
        | Inr pubKey \<Rightarrow>
            (case UnmarshalPubkey L pubKey of
               Inl e \<Rightarrow> Some (wrap ''unmarshal public key'' e)
             | Inr pub \<Rightarrow>
                 let recoveredAddr = PubkeyToAddress L pub; expectedAddr = HexToAddress L expected in
                 if recoveredAddr \<noteq> expectedAddr
                 then Some (errors_New (''signature mismatch: recovered '' @ AddressHex L recoveredAddr
                            @ '', expected '' @ who @ '' '' @ AddressHex L expectedAddr))
                 else None))"

definition signed_by :: "eth_lib \<Rightarrow> string \<Rightarrow> string \<Rightarrow> addr \<Rightarrow> bool" where
  "signed_by L msg signature a \<longleftrightarrow>
     length (FromHex L signature) = 65
     \<and> (\<exists>k pub. Ecrecover L (Keccak256Hash L msg) (adjust_v (FromHex L signature)) = Inr k
          \<and> UnmarshalPubkey L k = Inr pub \<and> PubkeyToAddress L pub = a)"

lemma verify_signature_ok:
  "verify_signature L msg sg expected who = None \<longleftrightarrow> signed_by L msg sg (HexToAddress L expected)"
  by (auto simp: verify_signature_def signed_by_def Let_def split: sum.splits)

section \<open>A concrete instance\<close>

text \<open>Addresses are the lower-case text after \<open>0x\<close>, hashes are the text itself, and a signature
  recovers to the address spelled by its bytes before the last.\<close>

definition bytes_of :: "string \<Rightarrow> byte list" where
  "bytes_of s = map (\<lambda>c. word_of_nat (of_char c)) s"

definition text_of :: "byte list \<Rightarrow> string" where
  "text_of bs = map (\<lambda>b. char_of (unat b)) bs"

definition sample_eth :: eth_lib where
  "sample_eth =
     \<lparr>IsHexAddress = (\<lambda>s. HasPrefix s ''0x'' \<and> length s \<le> 42),
      HexToAddress = (\<lambda>s. bytes_of (ToLower s)),
      AddressHex = text_of, BytesToAddress = (\<lambda>bs. drop (length bs - 20) bs),
      Keccak256Hash = bytes_of,
      HashHex = text_of, HexToHash = bytes_of,
      FromHex = (\<lambda>s. bytes_of (take 64 (s @ replicate 64 CHR ''.'')) @ [27]),
      Ecrecover = (\<lambda>h s. Inr (take 64 s)),
      UnmarshalPubkey = Inr,
      PubkeyToAddress = (\<lambda>k. takeWhile (\<lambda>b. b \<noteq> 46) k)\<rparr>"

lemma sample_eth_sel [simp]:
  "IsHexAddress sample_eth s = (HasPrefix s ''0x'' \<and> length s \<le> 42)"
  "HexToAddress sample_eth s = bytes_of (ToLower s)"
  "AddressHex sample_eth a = text_of a"
  "Keccak256Hash sample_eth s = bytes_of s"
  "HashHex sample_eth h = text_of h"
  "HexToHash sample_eth s = bytes_of s"
  by (simp_all add: sample_eth_def)

end
