(* ===== verification/Json.thy ===== *)
theory Json
  imports Prelude
begin

text \<open>
  The fragment of \<open>encoding/json\<close> the services store their lists in: \<open>json.Marshal\<close> and
  \<open>json.Unmarshal\<close> at type \<open>[]string\<close>, and \<open>json.Marshal\<close> of a map from strings to
  strings. The encoder escapes as Go does (HTML escaping included); the decoder accepts
  white space, every escape of the grammar, \<open>null\<close> and surrogate pairs. Strings are valid
  UTF-8 without U+2028 and U+2029 (Go rewrites other byte sequences). The codec
  interface is the locale \<open>string_codec\<close>, interpreted on these two functions.
\<close>

locale string_codec =
  fixes enc :: "'a \<Rightarrow> string" and dec :: "string \<Rightarrow> 'a option"
  assumes dec_enc: "dec (enc x) = Some x"
begin

lemma enc_inject: "enc x = enc y \<longleftrightarrow> x = y"
  by (metis dec_enc option.inject)

end

section \<open>Encoding\<close>

definition hex_digit :: "nat \<Rightarrow> char" where
  "hex_digit n = (if n < 10 then char_of (48 + n) else char_of (87 + n))"

definition esc_char :: "char \<Rightarrow> string" where
  "esc_char c =
     (if c = CHR 0x22 then [CHR 0x5C, CHR 0x22]
      else if c = CHR 0x5C then [CHR 0x5C, CHR 0x5C]
      else if c = CHR 0x08 then [CHR 0x5C, CHR ''b'']
      else if c = CHR 0x0C then [CHR 0x5C, CHR ''f'']
      else if c = CHR 0x0A then [CHR 0x5C, CHR ''n'']
      else if c = CHR 0x0D then [CHR 0x5C, CHR ''r'']
      else if c = CHR 0x09 then [CHR 0x5C, CHR ''t'']
      else let n = (of_char c :: nat) in
        if n < 32 \<or> c \<in> {CHR ''<'', CHR ''>'', CHR ''&''}
        then [CHR 0x5C, CHR ''u'', CHR ''0'', CHR ''0'', hex_digit (n div 16), hex_digit (n mod 16)]
        else [c])"

definition json_quote :: "string \<Rightarrow> string" where
  "json_quote s = CHR 0x22 # concat (map esc_char s) @ [CHR 0x22]"

text \<open>\<open>strconv.Quote\<close>, which is the verb \<open>%q\<close>; bytes from 128 on are taken to be printable.\<close>

definition quote_char :: "char \<Rightarrow> string" where
  "quote_char c =
     (if c = CHR 0x22 then [CHR 0x5C, CHR 0x22]
      else if c = CHR 0x5C then [CHR 0x5C, CHR 0x5C]
      else if c = CHR 0x07 then [CHR 0x5C, CHR ''a'']
      else if c = CHR 0x08 then [CHR 0x5C, CHR ''b'']
      else if c = CHR 0x0C then [CHR 0x5C, CHR ''f'']
      else if c = CHR 0x0A then [CHR 0x5C, CHR ''n'']
      else if c = CHR 0x0D then [CHR 0x5C, CHR ''r'']
      else if c = CHR 0x09 then [CHR 0x5C, CHR ''t'']
      else if c = CHR 0x0B then [CHR 0x5C, CHR ''v'']
      else let n = (of_char c :: nat) in
        if n < 32 \<or> n = 127 then [CHR 0x5C, CHR ''x'', hex_digit (n div 16), hex_digit (n mod 16)]
        else [c])"

definition Quote :: "string \<Rightarrow> string" where
  "Quote s = CHR 0x22 # concat (map quote_char s) @ [CHR 0x22]"

definition marshal_strings :: "string list \<Rightarrow> string" where
  "marshal_strings xs = ''['' @ Join (map json_quote xs) '','' @ '']''"

text \<open>A \<open>map[string]any\<close> with string values: keys are written in sorted order.\<close>

definition marshal_object :: "(string \<times> string) list \<Rightarrow> string" where
  "marshal_object kvs =
     ''{'' @ Join (map (\<lambda>(k, v). json_quote k @ '':'' @ json_quote v) (sort_key fst kvs)) '','' @ ''}''"

section \<open>Decoding\<close>

definition json_ws :: "char \<Rightarrow> bool" where
  "json_ws c \<longleftrightarrow> c \<in> {CHR 0x20, CHR 0x09, CHR 0x0A, CHR 0x0D}"

definition skip_ws :: "string \<Rightarrow> string" where
  "skip_ws = dropWhile json_ws"

definition hex_val :: "char \<Rightarrow> nat option" where
  "hex_val c =
     (let n = (of_char c :: nat) in
      if 48 \<le> n \<and> n \<le> 57 then Some (n - 48)
      else if 97 \<le> n \<and> n \<le> 102 then Some (n - 87)
      else if 65 \<le> n \<and> n \<le> 70 then Some (n - 55)
      else None)"

definition hex4 :: "string \<Rightarrow> nat option" where
  "hex4 s =
     (case map hex_val (take 4 s) of
        [Some a, Some b, Some c, Some d] \<Rightarrow> Some (((a * 16 + b) * 16 + c) * 16 + d)
      | _ \<Rightarrow> None)"

definition utf8 :: "nat \<Rightarrow> string" where
  "utf8 n =
     (if n < 0x80 then [char_of n]
      else if n < 0x800 then [char_of (0xC0 + n div 64), char_of (0x80 + n mod 64)]
      else if n < 0x10000 then
        [char_of (0xE0 + n div 4096), char_of (0x80 + n div 64 mod 64), char_of (0x80 + n mod 64)]
      else [char_of (0xF0 + n div 262144), char_of (0x80 + n div 4096 mod 64),
            char_of (0x80 + n div 64 mod 64), char_of (0x80 + n mod 64)])"

text \<open>
  The text after \<open>\u\<close>: the bytes it denotes and how many characters it takes. A high
  surrogate joins with a following low one; a lone surrogate is U+FFFD.
\<close>

definition u_escape :: "string \<Rightarrow> (string \<times> nat) option" where
  "u_escape s =
     (case hex4 s of
        None \<Rightarrow> None
      | Some n \<Rightarrow>
          if 0xD800 \<le> n \<and> n < 0xE000 then
            (case (if HasPrefix (drop 4 s) [CHR 0x5C, CHR ''u''] then hex4 (drop 6 s) else None) of
               Some m \<Rightarrow>
                 if n < 0xDC00 \<and> 0xDC00 \<le> m \<and> m < 0xE000
                 then Some (utf8 (0x10000 + (n - 0xD800) * 1024 + (m - 0xDC00)), 10)
                 else Some (utf8 0xFFFD, 4)
             | None \<Rightarrow> Some (utf8 0xFFFD, 4))
          else Some (utf8 n, 4))"

definition simple_escape :: "char \<Rightarrow> char option" where
  "simple_escape e =
     (if e \<in> {CHR 0x22, CHR 0x5C, CHR ''/''} then Some e
      else if e = CHR ''b'' then Some (CHR 0x08)
      else if e = CHR ''f'' then Some (CHR 0x0C)
      else if e = CHR ''n'' then Some (CHR 0x0A)
      else if e = CHR ''r'' then Some (CHR 0x0D)
      else if e = CHR ''t'' then Some (CHR 0x09)
      else None)"

text \<open>The text after an opening quote: the decoded string and what follows the closing one.\<close>

function scan_str :: "string \<Rightarrow> (string \<times> string) option" where
  "scan_str [] = None"
| "scan_str (c # s) =
     (if c = CHR 0x22 then Some ([], s)
      else if c = CHR 0x5C then
        (case s of
           [] \<Rightarrow> None
         | e # t \<Rightarrow>
             if e = CHR ''u'' then
               (case u_escape t of
                  None \<Rightarrow> None
                | Some (bs, n) \<Rightarrow> map_option (apfst ((@) bs)) (scan_str (drop n t)))
             else (case simple_escape e of
                     None \<Rightarrow> None
                   | Some d \<Rightarrow> map_option (apfst ((#) d)) (scan_str t)))
      else if (of_char c :: nat) < 32 then None
      else map_option (apfst ((#) c)) (scan_str s))"
  by pat_completeness auto
termination by (relation "measure length") auto

lemma scan_str_shorter: "scan_str s = Some (v, r) \<Longrightarrow> length r < length s"
proof (induction s arbitrary: v r rule: scan_str.induct)
  case (2 c s)
  then show ?case
    by (fastforce split: if_splits list.splits option.splits prod.splits)
qed simp

definition scan_elem :: "string \<Rightarrow> (string \<times> string) option" where
  "scan_elem s =
     (if HasPrefix s ''null'' then Some ([], drop 4 s)
      else case s of [] \<Rightarrow> None | c # r \<Rightarrow> if c = CHR 0x22 then scan_str r else None)"

lemma scan_elem_shorter: "scan_elem s = Some (v, r) \<Longrightarrow> length r < length s"
  by (cases s) (auto simp: scan_elem_def HasPrefix_def split: if_splits dest: scan_str_shorter)

function scan_elems :: "string \<Rightarrow> (string list \<times> string) option" where
  "scan_elems s =
     (case scan_elem (skip_ws s) of
        None \<Rightarrow> None
      | Some (v, r) \<Rightarrow>
          (case skip_ws r of
             [] \<Rightarrow> None
           | c # t \<Rightarrow>
               if c = CHR '']'' then Some ([v], t)
               else if c = CHR '','' then map_option (apfst ((#) v)) (scan_elems t)
               else None))"
  by pat_completeness auto
termination
proof (relation "measure length")
  fix s v r c t and p :: "string \<times> string"
  assume "scan_elem (skip_ws s) = Some p" and "(v, r) = p" and "skip_ws r = c # t"
  then have "length r < length (skip_ws s)" by (auto dest: scan_elem_shorter)
  moreover have "length (skip_ws s) \<le> length s" "length (skip_ws r) \<le> length r"
    by (simp_all add: skip_ws_def length_dropWhile_le)
  ultimately show "(t, s) \<in> measure length"
    using \<open>skip_ws r = c # t\<close> by simp
qed simp

declare scan_elems.simps [simp del]

definition unmarshal_strings :: "string \<Rightarrow> string list option" where
  "unmarshal_strings raw =
     (let s = skip_ws raw in
      if HasPrefix s ''null'' \<and> skip_ws (drop 4 s) = [] then Some []
      else case s of
        [] \<Rightarrow> None
      | c # r \<Rightarrow>
          if c = CHR ''['' then
            (case skip_ws r of
               [] \<Rightarrow> None
             | d # t \<Rightarrow>
                 if d = CHR '']'' then (if skip_ws t = [] then Some [] else None)
                 else (case scan_elems (d # t) of
                         None \<Rightarrow> None
                       | Some (vs, u) \<Rightarrow> if skip_ws u = [] then Some vs else None))
          else None)"

section \<open>Round trip\<close>

lemma hex_val_digit: "n < 16 \<Longrightarrow> hex_val (hex_digit n) = Some n"
  by (auto simp: hex_digit_def hex_val_def Let_def)

lemma hex4_byte:
  assumes "n < 256"
  shows "hex4 (CHR ''0'' # CHR ''0'' # hex_digit (n div 16) # hex_digit (n mod 16) # t) = Some n"
proof -
  have "n div 16 < 16" using assms by simp
  moreover have "n mod 16 < 16" by simp
  moreover have "hex_val (CHR ''0'') = Some 0" by (simp add: hex_val_def)
  ultimately show ?thesis
    by (simp add: hex4_def hex_val_digit)
qed

lemma u_escape_byte:
  "n < 128 \<Longrightarrow>
     u_escape (CHR ''0'' # CHR ''0'' # hex_digit (n div 16) # hex_digit (n mod 16) # t) =
       Some ([char_of n], 4)"
  by (simp add: u_escape_def hex4_byte utf8_def)

definition short_escape :: "char \<Rightarrow> bool" where
  "short_escape c \<longleftrightarrow> c \<in> {CHR 0x22, CHR 0x5C, CHR 0x08, CHR 0x0C, CHR 0x0A, CHR 0x0D, CHR 0x09}"

lemma scan_str_esc_char:
  "scan_str (esc_char c @ t) = map_option (apfst ((#) c)) (scan_str t)"
proof (cases "short_escape c")
  case True
  then consider "c = CHR 0x22" | "c = CHR 0x5C" | "c = CHR 0x08" | "c = CHR 0x0C" | "c = CHR 0x0A"
    | "c = CHR 0x0D" | "c = CHR 0x09"
    by (auto simp: short_escape_def)
  then show ?thesis
    by cases (simp_all add: esc_char_def simple_escape_def)
next
  case False
  let ?n = "of_char c :: nat"
  show ?thesis
  proof (cases "?n < 32 \<or> c \<in> {CHR ''<'', CHR ''>'', CHR ''&''}")
    case True
    then have small: "?n < 128" by auto
    from True False have "esc_char c =
      [CHR 0x5C, CHR ''u'', CHR ''0'', CHR ''0'', hex_digit (?n div 16), hex_digit (?n mod 16)]"
      by (auto simp: esc_char_def short_escape_def Let_def)
    then show ?thesis by (simp add: u_escape_byte [OF small] fun_eq_iff apfst_def map_prod_def case_prod_unfold)
  next
    case plain: False
    with False have "esc_char c = [c]" by (auto simp: esc_char_def short_escape_def Let_def)
    with plain False show ?thesis by (simp add: short_escape_def)
  qed
qed

lemma scan_str_quoted: "scan_str (concat (map esc_char s) @ CHR 0x22 # r) = Some (s, r)"
  by (induction s) (simp_all add: scan_str_esc_char)

lemma json_quote_append: "json_quote s @ r = CHR 0x22 # concat (map esc_char s) @ CHR 0x22 # r"
  by (simp add: json_quote_def)

lemma scan_elem_quote: "scan_elem (json_quote s @ r) = Some (s, r)"
  by (simp add: scan_elem_def json_quote_append HasPrefix_def scan_str_quoted)

lemma skip_ws_quote [simp]: "skip_ws (json_quote s @ r) = json_quote s @ r"
  by (simp add: skip_ws_def json_quote_append json_ws_def)

lemma skip_ws_punct [simp]:
  "skip_ws (CHR '']'' # r) = CHR '']'' # r" "skip_ws (CHR '','' # r) = CHR '','' # r"
  "skip_ws (CHR ''['' # r) = CHR ''['' # r" "skip_ws [] = []"
  by (simp_all add: skip_ws_def json_ws_def)

lemma scan_elems_marshal:
  "xs \<noteq> [] \<Longrightarrow> scan_elems (Join (map json_quote xs) '','' @ CHR '']'' # r) = Some (xs, r)"
proof (induction xs)
  case (Cons x xs)
  show ?case
  proof (cases xs)
    case Nil
    then show ?thesis by (subst scan_elems.simps) (simp add: scan_elem_quote)
  next
    case (Cons y ys)
    with Cons.IH show ?thesis by (subst scan_elems.simps) (simp add: scan_elem_quote)
  qed
qed simp

lemma unmarshal_marshal_strings: "unmarshal_strings (marshal_strings xs) = Some xs"
proof (cases xs)
  case Nil
  then show ?thesis by (simp add: unmarshal_strings_def marshal_strings_def HasPrefix_def)
next
  case (Cons x ys)
  obtain u where u: "Join (map json_quote xs) '','' = CHR 0x22 # u"
    unfolding Cons by (cases ys) (simp_all add: json_quote_def)
  have "scan_elems (CHR 0x22 # u @ '']'') = Some (xs, [])"
    using scan_elems_marshal [of xs "[]"] Cons u by simp
  moreover have "skip_ws (CHR 0x22 # u @ '']'') = CHR 0x22 # u @ '']''"
    by (simp add: skip_ws_def json_ws_def)
  ultimately show ?thesis
    by (simp add: unmarshal_strings_def marshal_strings_def HasPrefix_def u)
qed

interpretation json: string_codec marshal_strings unmarshal_strings
  by unfold_locales (rule unmarshal_marshal_strings)

end
