(* ===== verification/JsonValue.thy ===== *)
theory JsonValue
  imports Json
begin

text \<open>
  General JSON values, for the documents the services decode into structs: the parser of
  \<open>encoding/json\<close> (a number keeps its literal), the compact encoder, and the decoding of an
  object into struct fields (a key matches a field up to letter case, a later key overrides an
  earlier one, \<open>null\<close> leaves a field alone, a value of another type is an error). The parser
  recurses on a fuel; the length of the text plus one is always enough, since every nested
  call has consumed a character. The limit of 10000 nested levels of Go's parser is not modelled.
\<close>

datatype json = JNull | JBool bool | JNum string | JStr string | JArr "json list"
  | JObj "(string \<times> json) list"

section \<open>Parsing\<close>

definition is_digit :: "char \<Rightarrow> bool" where
  "is_digit c = (digit_val c \<noteq> None)"

definition scan_int :: "string \<Rightarrow> (string \<times> string) option" where
  "scan_int s =
     (case s of
        [] \<Rightarrow> None
      | c # t \<Rightarrow> if c = CHR ''0'' then Some ([c], t)
                else if is_digit c then Some (takeWhile is_digit s, dropWhile is_digit s)
                else None)"

definition scan_frac :: "string \<Rightarrow> (string \<times> string) option" where
  "scan_frac s =
     (case s of
        [] \<Rightarrow> Some ([], [])
      | c # t \<Rightarrow> if c = CHR ''.''
                then (if takeWhile is_digit t = [] then None
                      else Some (c # takeWhile is_digit t, dropWhile is_digit t))
                else Some ([], s))"

definition scan_exp :: "string \<Rightarrow> (string \<times> string) option" where
  "scan_exp s =
     (case s of
        [] \<Rightarrow> Some ([], [])
      | c # t \<Rightarrow>
          if c \<in> {CHR ''e'', CHR ''E''} then
            (let (sg, u) = (case t of [] \<Rightarrow> ([], [])
                            | d # v \<Rightarrow> if d \<in> {CHR ''+'', CHR ''-''} then ([d], v) else ([], t)) in
             if takeWhile is_digit u = [] then None
             else Some (c # sg @ takeWhile is_digit u, dropWhile is_digit u))
          else Some ([], s))"

definition scan_num :: "string \<Rightarrow> (string \<times> string) option" where
  "scan_num s =
     (let (sg, t) = (case s of [] \<Rightarrow> ([], []) | c # u \<Rightarrow> if c = CHR ''-'' then ([c], u) else ([], s)) in
      case scan_int t of None \<Rightarrow> None
      | Some (i, t1) \<Rightarrow>
        (case scan_frac t1 of None \<Rightarrow> None
         | Some (f, t2) \<Rightarrow>
           (case scan_exp t2 of None \<Rightarrow> None
            | Some (x, t3) \<Rightarrow> Some (sg @ i @ f @ x, t3))))"

fun parse_value :: "nat \<Rightarrow> string \<Rightarrow> (json \<times> string) option"
and parse_elems :: "nat \<Rightarrow> string \<Rightarrow> (json list \<times> string) option"
and parse_members :: "nat \<Rightarrow> string \<Rightarrow> ((string \<times> json) list \<times> string) option" where
  "parse_value 0 s = None"
| "parse_value (Suc n) s =
     (case skip_ws s of
        [] \<Rightarrow> None
      | c # r \<Rightarrow>
          if c = CHR 0x22 then map_option (apfst JStr) (scan_str r)
          else if c = CHR ''['' then
            (case skip_ws r of [] \<Rightarrow> None
             | d # t \<Rightarrow> if d = CHR '']'' then Some (JArr [], t)
                       else map_option (apfst JArr) (parse_elems n (d # t)))
          else if c = CHR ''{'' then
            (case skip_ws r of [] \<Rightarrow> None
             | d # t \<Rightarrow> if d = CHR ''}'' then Some (JObj [], t)
                       else map_option (apfst JObj) (parse_members n (d # t)))
          else if HasPrefix (c # r) ''null'' then Some (JNull, drop 4 (c # r))
          else if HasPrefix (c # r) ''true'' then Some (JBool True, drop 4 (c # r))
          else if HasPrefix (c # r) ''false'' then Some (JBool False, drop 5 (c # r))
          else map_option (apfst JNum) (scan_num (c # r)))"
| "parse_elems 0 s = None"
| "parse_elems (Suc n) s =
     (case parse_value n s of None \<Rightarrow> None
      | Some (v, r) \<Rightarrow>
        (case skip_ws r of [] \<Rightarrow> None
         | c # t \<Rightarrow> if c = CHR '']'' then Some ([v], t)
                   else if c = CHR '','' then map_option (apfst ((#) v)) (parse_elems n t)
                   else None))"
| "parse_members 0 s = None"
| "parse_members (Suc n) s =
     (case skip_ws s of [] \<Rightarrow> None
      | q # r0 \<Rightarrow>
        if q \<noteq> CHR 0x22 then None
        else case scan_str r0 of None \<Rightarrow> None
        | Some (k, r1) \<Rightarrow>
          (case skip_ws r1 of [] \<Rightarrow> None
           | cl # r2 \<Rightarrow>
             if cl \<noteq> CHR '':'' then None
             else case parse_value n r2 of None \<Rightarrow> None
             | Some (v, r3) \<Rightarrow>
               (case skip_ws r3 of [] \<Rightarrow> None
                | c # t \<Rightarrow> if c = CHR ''}'' then Some ([(k, v)], t)
                          else if c = CHR '','' then map_option (apfst ((#) (k, v))) (parse_members n t)
                          else None)))"

definition parse_json :: "string \<Rightarrow> json option" where
  "parse_json s =
     (case parse_value (Suc (length s)) s of
        None \<Rightarrow> None | Some (v, r) \<Rightarrow> if skip_ws r = [] then Some v else None)"

section \<open>Encoding\<close>

fun render :: "json \<Rightarrow> string" where
  "render JNull = ''null''"
| "render (JBool b) = (if b then ''true'' else ''false'')"
| "render (JNum s) = s"
| "render (JStr s) = json_quote s"
| "render (JArr vs) = ''['' @ Join (map render vs) '','' @ '']''"
| "render (JObj kvs) = ''{'' @ Join (map (\<lambda>(k, v). json_quote k @ '':'' @ render v) kvs) '','' @ ''}''"

section \<open>Struct fields\<close>

fun str_field :: "string \<Rightarrow> (string \<times> json) list \<Rightarrow> string \<Rightarrow> string option" where
  "str_field name [] acc = Some acc"
| "str_field name ((k, v) # kvs) acc =
     (if EqualFold k name then
        (case v of JStr s \<Rightarrow> str_field name kvs s | JNull \<Rightarrow> str_field name kvs acc | _ \<Rightarrow> None)
      else str_field name kvs acc)"

fun int_field :: "string \<Rightarrow> (string \<times> json) list \<Rightarrow> int \<Rightarrow> int option" where
  "int_field name [] acc = Some acc"
| "int_field name ((k, v) # kvs) acc =
     (if EqualFold k name then
        (case v of
           JNum s \<Rightarrow> (case ParseInt64 s of None \<Rightarrow> None | Some i \<Rightarrow> int_field name kvs i)
         | JNull \<Rightarrow> int_field name kvs acc | _ \<Rightarrow> None)
      else int_field name kvs acc)"

fun optint_field :: "string \<Rightarrow> (string \<times> json) list \<Rightarrow> int option \<Rightarrow> int option option" where
  "optint_field name [] acc = Some acc"
| "optint_field name ((k, v) # kvs) acc =
     (if EqualFold k name then
        (case v of
           JNum s \<Rightarrow> (case ParseInt64 s of None \<Rightarrow> None | Some i \<Rightarrow> optint_field name kvs (Some i))
         | JNull \<Rightarrow> optint_field name kvs None | _ \<Rightarrow> None)
      else optint_field name kvs acc)"

fun str_elems :: "json list \<Rightarrow> string list option" where
  "str_elems [] = Some []"
| "str_elems (v # vs) =
     (case v of JStr s \<Rightarrow> map_option ((#) s) (str_elems vs)
      | JNull \<Rightarrow> map_option ((#) []) (str_elems vs) | _ \<Rightarrow> None)"

fun strs_field :: "string \<Rightarrow> (string \<times> json) list \<Rightarrow> string list \<Rightarrow> string list option" where
  "strs_field name [] acc = Some acc"
| "strs_field name ((k, v) # kvs) acc =
     (if EqualFold k name then
        (case v of
           JArr vs \<Rightarrow> (case str_elems vs of None \<Rightarrow> None | Some ss \<Rightarrow> strs_field name kvs ss)
         | JNull \<Rightarrow> strs_field name kvs [] | _ \<Rightarrow> None)
      else strs_field name kvs acc)"

text \<open>A slice of structs: \<open>null\<close> elements are zero values, a \<open>null\<close> document is the nil slice.\<close>

fun struct_elems :: "((string \<times> json) list \<Rightarrow> 'a option) \<Rightarrow> json list \<Rightarrow> 'a list option" where
  "struct_elems f [] = Some []"
| "struct_elems f (v # vs) =
     (case (case v of JObj kvs \<Rightarrow> f kvs | JNull \<Rightarrow> f [] | _ \<Rightarrow> None) of
        None \<Rightarrow> None | Some x \<Rightarrow> map_option ((#) x) (struct_elems f vs))"

definition unmarshal_structs ::
    "((string \<times> json) list \<Rightarrow> 'a option) \<Rightarrow> string \<Rightarrow> 'a list option option" where
  "unmarshal_structs f raw =
     (case parse_json raw of
        Some JNull \<Rightarrow> Some None
      | Some (JArr vs) \<Rightarrow> map_option Some (struct_elems f vs)
      | _ \<Rightarrow> None)"

definition json_err :: gerr where
  "json_err = errors_New ''json: invalid document or type mismatch''"

section \<open>Round trip\<close>

text \<open>Values whose numbers are integers, which is what the server encodes; a number ends before a
  comma, a closing bracket or the end of the document.\<close>

definition int_text :: "string \<Rightarrow> bool" where
  "int_text s = (case SetString10 s of None \<Rightarrow> False | Some i \<Rightarrow> s = int_str i)"

fun int_numbers :: "json \<Rightarrow> bool" where
  "int_numbers (JNum s) = int_text s"
| "int_numbers (JArr vs) = list_all int_numbers vs"
| "int_numbers (JObj kvs) = list_all (\<lambda>(k, v). int_numbers v) kvs"
| "int_numbers _ = True"

definition num_end :: "string \<Rightarrow> bool" where
  "num_end r \<longleftrightarrow> r = [] \<or> hd r \<in> {CHR '','', CHR '']'', CHR ''}''}"

lemma num_end_simps [simp]:
  "num_end []" "num_end (CHR '','' # r)" "num_end (CHR '']'' # r)" "num_end (CHR ''}'' # r)"
  by (simp_all add: num_end_def)

lemma digit_char_facts:
  "n < 10 \<Longrightarrow> is_digit (digit_char n)"
  "n < 10 \<Longrightarrow> digit_char n = CHR ''0'' \<longleftrightarrow> n = 0"
  by (simp_all add: is_digit_def digit_val_digit) (simp add: digit_char_def char_eq_of_char of_char_of)

lemma digits_nat_str: "list_all is_digit (nat_str n)"
proof (induction n rule: nat_str.induct)
  case (1 n)
  then show ?case by (cases "n < 10") (simp_all add: nat_str.simps [of n] digit_char_facts)
qed

lemma hd_nat_str: "hd (nat_str n) = CHR ''0'' \<longleftrightarrow> n = 0"
proof (induction n rule: nat_str.induct)
  case (1 n)
  show ?case
  proof (cases "n < 10")
    case False
    with 1 [OF False] show ?thesis by (simp add: nat_str.simps [of n])
  qed (simp add: nat_str.simps [of n] digit_char_facts)
qed

lemma not_digit_end: "num_end r \<Longrightarrow> takeWhile is_digit r = [] \<and> dropWhile is_digit r = r"
  by (cases r) (auto simp: num_end_def is_digit_def digit_val_def Let_def)

lemma takeWhile_all_append: "list_all p xs \<Longrightarrow> takeWhile p (xs @ ys) = xs @ takeWhile p ys
    \<and> dropWhile p (xs @ ys) = dropWhile p ys"
  by (induction xs) simp_all

lemma scan_nat_str: "num_end r \<Longrightarrow> scan_int (nat_str n @ r) = Some (nat_str n, r)"
proof -
  assume r: "num_end r"
  obtain c s where n: "nat_str n = c # s" by (cases "nat_str n") auto
  have "c = CHR ''0'' \<Longrightarrow> s = []" using hd_nat_str [of n] n by (simp add: nat_str.simps [of 0] digit_char_def)
  with n digits_nat_str [of n] takeWhile_all_append [of is_digit s r] not_digit_end [OF r] show ?thesis
    by (auto simp: scan_int_def)
qed

lemma scan_int_str: "num_end r \<Longrightarrow> scan_num (int_str i @ r) = Some (int_str i, r)"
proof -
  assume r: "num_end r"
  have rest: "scan_frac r = Some ([], r)" "scan_exp r = Some ([], r)"
    using r by (auto simp: scan_frac_def scan_exp_def num_end_def split: list.splits)
  have "hd (nat_str n) \<noteq> CHR ''-''" for n
    using digits_nat_str [of n] by (cases "nat_str n") (auto simp: is_digit_def digit_val_def Let_def)
  then have "(case nat_str n @ r of [] \<Rightarrow> ([], []) | c # u \<Rightarrow> if c = CHR ''-'' then ([c], u) else ([], nat_str n @ r))
      = ([], nat_str n @ r)" for n
    by (cases "nat_str n") (auto dest: meta_spec [of _ n])
  with rest scan_nat_str [OF r] show ?thesis by (simp add: scan_num_def int_str_def)
qed

lemma int_str_starts:
  "\<exists>c s. int_str i = c # s \<and> (c = CHR ''-'' \<or> is_digit c)"
  using digits_nat_str [of "nat i"] by (cases "nat_str (nat i)") (auto simp: int_str_def)

lemma SetString10_int_str: "SetString10 (int_str i) = Some i"
proof -
  have "nat_str n = c # s \<Longrightarrow> c \<noteq> CHR ''-'' \<and> c \<noteq> CHR ''+''" for n c s
    using digits_nat_str [of n] by (auto simp: is_digit_def digit_val_def Let_def)
  then show ?thesis
    using parse_nat_str [of "nat i"] by (cases "nat_str (nat i)") (auto simp: SetString10_def int_str_def)
qed

lemma int_text_str [simp]: "int_text (int_str i)"
  by (simp add: int_text_def SetString10_int_str)

lemma int_textE: "int_text s \<Longrightarrow> (\<And>i. s = int_str i \<Longrightarrow> thesis) \<Longrightarrow> thesis"
  by (auto simp: int_text_def split: option.splits)

lemma skip_ws_solid: "\<not> json_ws c \<Longrightarrow> skip_ws (c # s) = c # s"
  by (simp add: skip_ws_def)

lemma solid_chars [simp]:
  "\<not> json_ws (CHR 0x22)" "\<not> json_ws (CHR ''['')" "\<not> json_ws (CHR ''{'')" "\<not> json_ws (CHR '']'')"
  "\<not> json_ws (CHR ''}'')" "\<not> json_ws (CHR '','')" "\<not> json_ws (CHR '':'')" "\<not> json_ws (CHR ''n'')"
  "\<not> json_ws (CHR ''t'')" "\<not> json_ws (CHR ''f'')"
  by (simp_all add: json_ws_def)

lemma render_starts: "int_numbers v \<Longrightarrow> \<exists>c s. render v = c # s \<and> \<not> json_ws c \<and> c \<notin> {CHR '']'', CHR ''}''}"
proof (cases v)
  case (JNum s)
  assume "int_numbers v"
  with JNum obtain i where "s = int_str i" by (auto elim: int_textE)
  with JNum int_str_starts [of i] show ?thesis by (auto simp: json_ws_def is_digit_def digit_val_def Let_def)
qed (auto simp: json_quote_def)

lemma render_nonempty: "int_numbers v \<Longrightarrow> 0 < length (render v)"
  using render_starts [of v] by auto

lemma skip_render: "int_numbers v \<Longrightarrow> skip_ws (render v @ r) = render v @ r"
  using render_starts [of v] by (auto simp: skip_ws_solid)

lemma quote_append: "json_quote k @ r = CHR 0x22 # (concat (map esc_char k) @ CHR 0x22 # r)"
  by (simp add: json_quote_def)

lemma parse_elems_render:
  assumes "\<And>v n r. v \<in> set vs \<Longrightarrow> length (render v) < n \<Longrightarrow> num_end r \<Longrightarrow> parse_value n (render v @ r) = Some (v, r)"
    and "vs \<noteq> []" and "\<And>v. v \<in> set vs \<Longrightarrow> int_numbers v"
    and "length (Join (map render vs) '','') + 1 < m"
  shows "parse_elems m (Join (map render vs) '','' @ CHR '']'' # r) = Some (vs, r)"
  using assms
proof (induction vs arbitrary: m)
  case (Cons v vs)
  from Cons.prems(4) obtain k where m: "m = Suc k" by (cases m) auto
  have v: "int_numbers v" "0 < length (render v)" using Cons.prems(3) render_nonempty by auto
  show ?case
  proof (cases vs)
    case Nil
    with Cons.prems(1) [of v k] Cons.prems(4) show ?thesis by (simp add: m skip_ws_solid)
  next
    case (Cons w ws)
    with Cons.prems(4) have k: "length (render v) < k" "length (Join (map render vs) '','') + 1 < k"
      using v by (auto simp: m)
    have "parse_elems k (Join (map render vs) '','' @ CHR '']'' # r) = Some (vs, r)"
      by (rule Cons.IH) (use Cons.prems k Cons in auto)
    with Cons.prems(1) [of v k] k(1) Cons show ?thesis by (simp add: m skip_ws_solid)
  qed
qed simp

abbreviation render_member :: "string \<times> json \<Rightarrow> string" where
  "render_member \<equiv> (\<lambda>(k, v). json_quote k @ '':'' @ render v)"

lemma parse_members_render:
  assumes "\<And>k v n r. (k, v) \<in> set kvs \<Longrightarrow> length (render v) < n \<Longrightarrow> num_end r \<Longrightarrow> parse_value n (render v @ r) = Some (v, r)"
    and "kvs \<noteq> []" and "\<And>k v. (k, v) \<in> set kvs \<Longrightarrow> int_numbers v"
    and "length (Join (map render_member kvs) '','') + 1 < m"
  shows "parse_members m (Join (map render_member kvs) '','' @ CHR ''}'' # r) = Some (kvs, r)"
  using assms
proof (induction kvs arbitrary: m)
  case (Cons kv kvs)
  obtain key v where kv: "kv = (key, v)" by (cases kv)
  from Cons.prems(4) obtain k where m: "m = Suc k" by (cases m) auto
  have v: "int_numbers v" using Cons.prems(3) kv by auto
  show ?case
  proof (cases kvs)
    case Nil
    have "length (render v) < k" using Cons.prems(4) by (simp add: m kv Nil)
    with Cons.prems(1) [of key v k] show ?thesis
      by (simp add: m kv Nil quote_append skip_ws_solid scan_str_quoted)
  next
    case (Cons w ws)
    with Cons.prems(4) have k: "length (render v) < k" "length (Join (map render_member kvs) '','') + 1 < k"
      by (auto simp: m kv json_quote_def)
    have "parse_members k (Join (map render_member kvs) '','' @ CHR ''}'' # r) = Some (kvs, r)"
    proof (rule Cons.IH)
      fix a b n r assume "(a, b) \<in> set kvs" "length (render b) < n" "num_end r"
      then show "parse_value n (render b @ r) = Some (b, r)" by (intro Cons.prems(1) [of a]) simp_all
    next
      fix a b assume "(a, b) \<in> set kvs"
      then show "int_numbers b" by (intro Cons.prems(3) [of a]) simp
    qed (use k Cons in simp_all)
    with Cons.prems(1) [of key v k] k(1) Cons show ?thesis
      by (simp add: m kv quote_append skip_ws_solid scan_str_quoted)
  qed
qed simp

lemma Join_solid:
  "vs \<noteq> [] \<Longrightarrow> \<exists>c s. f (hd vs) = c # s \<and> \<not> json_ws c \<and> c \<noteq> CHR '']'' \<and> c \<noteq> CHR ''}'' \<Longrightarrow>
     \<exists>c s. Join (map f vs) '','' = c # s \<and> \<not> json_ws c \<and> c \<noteq> CHR '']'' \<and> c \<noteq> CHR ''}''"
  by (cases vs; cases "tl vs") auto

lemma parse_value_render:
  "int_numbers v \<Longrightarrow> length (render v) < n \<Longrightarrow> num_end r \<Longrightarrow> parse_value n (render v @ r) = Some (v, r)"
proof (induction v arbitrary: n r)
  case JNull
  then show ?case by (cases n) (simp_all add: skip_ws_solid HasPrefix_def)
next
  case (JBool b)
  then show ?case by (cases n) (simp_all add: skip_ws_solid HasPrefix_def)
next
  case (JNum s)
  then obtain i where s: "s = int_str i" by (auto elim: int_textE)
  obtain m where n: "n = Suc m" using JNum.prems(2) by (cases n) auto
  obtain c t where c: "int_str i = c # t" "c = CHR ''-'' \<or> is_digit c" using int_str_starts by blast
  then have "c \<noteq> CHR 0x22" "c \<noteq> CHR ''['' " "c \<noteq> CHR ''{''" "c \<noteq> CHR ''n''" "c \<noteq> CHR ''t''" "c \<noteq> CHR ''f''"
      "\<not> json_ws c"
    by (auto simp: is_digit_def digit_val_def Let_def json_ws_def)
  with c(1) scan_int_str [OF JNum.prems(3), of i] show ?case
    by (simp add: n s skip_ws_solid HasPrefix_def)
next
  case (JStr s)
  then show ?case by (cases n) (simp_all add: quote_append skip_ws_solid scan_str_quoted)
next
  case (JArr vs)
  then obtain m where n: "n = Suc m" by (cases n) auto
  show ?case
  proof (cases vs)
    case Nil
    then show ?thesis by (simp add: n skip_ws_solid)
  next
    case (Cons w ws)
    have nf: "\<And>v. v \<in> set vs \<Longrightarrow> int_numbers v" using JArr.prems(1) by (auto simp: list_all_iff)
    have "parse_elems m (Join (map render vs) '','' @ CHR '']'' # r) = Some (vs, r)"
      by (rule parse_elems_render) (use JArr nf Cons n in auto)
    moreover have "\<exists>c s. Join (map render vs) '','' = c # s \<and> \<not> json_ws c \<and> c \<noteq> CHR '']'' \<and> c \<noteq> CHR ''}''"
      using Join_solid [of vs render] render_starts [of w] nf Cons by auto
    ultimately show ?thesis by (auto simp: n skip_ws_solid)
  qed
next
  case (JObj kvs)
  then obtain m where n: "n = Suc m" by (cases n) auto
  show ?case
  proof (cases kvs)
    case Nil
    then show ?thesis by (simp add: n skip_ws_solid)
  next
    case (Cons w ws)
    have nf: "\<And>k v. (k, v) \<in> set kvs \<Longrightarrow> int_numbers v" using JObj.prems(1) by (auto simp: list_all_iff)
    have IH: "\<And>k v n r. (k, v) \<in> set kvs \<Longrightarrow> length (render v) < n \<Longrightarrow> num_end r \<Longrightarrow> parse_value n (render v @ r) = Some (v, r)"
      using JObj.IH nf by fastforce
    have "parse_members m (Join (map render_member kvs) '','' @ CHR ''}'' # r) = Some (kvs, r)"
      by (rule parse_members_render) (use IH nf Cons n JObj.prems(2) in auto)
    moreover have "\<exists>c s. Join (map render_member kvs) '','' = c # s \<and> \<not> json_ws c \<and> c \<noteq> CHR '']'' \<and> c \<noteq> CHR ''}''"
      by (rule Join_solid) (use Cons in \<open>auto simp: json_quote_def split: prod.splits\<close>)
    ultimately show ?thesis by (auto simp: n skip_ws_solid)
  qed
qed

lemma parse_render: "int_numbers v \<Longrightarrow> parse_json (render v) = Some v"
  using parse_value_render [of v "Suc (length (render v))" "[]"] by (simp add: parse_json_def)

end
