(* ===== verification/Attestation.thy ===== *)
theory Attestation
  imports Eth JsonValue "HOL-Library.List_Lexorder" "HOL-Library.Char_ord" "HOL-Library.Multiset"
begin

text \<open>
  \<open>internal/attestation/attestation.go\<close>: chains of signed completion attestations. Validation
  checks every link, that a link's parent exists and passed the work on, that the links form no
  cycle (a depth-first search with the colours of the code) and that every child escrow is
  covered; a valid chain gets a root hash over its sorted canonical messages. The recursion of
  the search goes only into unvisited links, so its fuel is the number of links plus one.
\<close>

section \<open>Links\<close>

definition CompletionAttestationV1 :: string where
  "CompletionAttestationV1 = ''completion-attestation-v1''"

record completion_attestation =
  at_Profile :: string
  at_LinkID :: string
  at_ParentLinkID :: string
  at_FromAddress :: string
  at_ToAddress :: string
  at_ChildEscrowID :: "int option"
  at_TaskSpecHash :: string
  at_OutcomeHash :: string
  at_IssuedAt :: int
  at_ExpiresAt :: int
  at_Nonce :: string
  at_Signature :: string

definition CanonicalCompletionMessage :: "eth_lib \<Rightarrow> completion_attestation \<Rightarrow> string" where
  "CanonicalCompletionMessage L a =
     (let childEscrowStr = (case at_ChildEscrowID a of None \<Rightarrow> [] | Some i \<Rightarrow> int_str i) in
      Join [CompletionAttestationV1, at_LinkID a, at_ParentLinkID a,
            ToLower (AddressHex L (HexToAddress L (at_FromAddress a))),
            ToLower (AddressHex L (HexToAddress L (at_ToAddress a))),
            childEscrowStr, at_TaskSpecHash a, at_OutcomeHash a,
            int_str (at_IssuedAt a), int_str (at_ExpiresAt a), at_Nonce a] ''|'')"

definition VerifyCompletionSignature :: "eth_lib \<Rightarrow> completion_attestation \<Rightarrow> gerr option" where
  "VerifyCompletionSignature L a =
     (if at_Profile a \<noteq> CompletionAttestationV1
      then Some (errors_New (''unsupported profile: '' @ Quote (at_Profile a) @ '' (expected ''
                   @ Quote CompletionAttestationV1 @ '')''))
      else if \<not> IsHexAddress L (at_FromAddress a) then Some (errors_New ''invalid from_address'')
      else if \<not> IsHexAddress L (at_ToAddress a) then Some (errors_New ''invalid to_address'')
      else verify_signature L (CanonicalCompletionMessage L a) (at_Signature a) (at_FromAddress a)
             ''from_address'')"

definition ValidateCompletionAttestation ::
    "eth_lib \<Rightarrow> completion_attestation \<Rightarrow> int \<Rightarrow> gerr option" where
  "ValidateCompletionAttestation L a now =
     (if at_Profile a \<noteq> CompletionAttestationV1
      then Some (errors_New (''unsupported profile: '' @ Quote (at_Profile a)))
      else if blank (at_LinkID a) then Some (errors_New ''link_id is required'')
      else if blank (at_Nonce a) then Some (errors_New ''nonce is required'')
      else if \<not> IsHexAddress L (at_FromAddress a) then Some (errors_New ''invalid from_address'')
      else if \<not> IsHexAddress L (at_ToAddress a) then Some (errors_New ''invalid to_address'')
      else if at_IssuedAt a > now then Some (errors_New ''issued_at is in the future'')
      else if at_ExpiresAt a \<le> now then Some (errors_New ''attestation has expired'')
      else VerifyCompletionSignature L a)"

section \<open>Cycle detection\<close>

datatype colour = Unvisited | InProgress | Done

type_synonym colours = "string \<Rightarrow> colour"

definition children :: "completion_attestation list \<Rightarrow> string \<Rightarrow> string list" where
  "children atts i = map at_LinkID (filter (\<lambda>a. at_ParentLinkID a \<noteq> [] \<and> at_ParentLinkID a = i) atts)"

text \<open>The result is the message, empty when no cycle is reached; \<open>None\<close> stands for fuel that ran out.\<close>

fun dfs :: "nat \<Rightarrow> completion_attestation list \<Rightarrow> string \<Rightarrow> colours \<Rightarrow> (colours \<times> string) option"
and dfs_children :: "nat \<Rightarrow> completion_attestation list \<Rightarrow> string list \<Rightarrow> colours \<Rightarrow> (colours \<times> string) option" where
  "dfs 0 atts i visited = None"
| "dfs (Suc n) atts i visited =
     (if visited i = InProgress then Some (visited, ''cycle detected at link_id '' @ i)
      else if visited i = Done then Some (visited, [])
      else
        case dfs_children n atts (children atts i) (visited(i := InProgress)) of
          None \<Rightarrow> None
        | Some (visited1, msg) \<Rightarrow>
            if msg \<noteq> [] then Some (visited1, msg) else Some (visited1(i := Done), []))"
| "dfs_children n atts [] visited = Some (visited, [])"
| "dfs_children 0 atts (c # cs) visited = None"
| "dfs_children (Suc n) atts (c # cs) visited =
     (case dfs (Suc n) atts c visited of
        None \<Rightarrow> None
      | Some (visited1, msg) \<Rightarrow>
          if msg \<noteq> [] then Some (visited1, msg) else dfs_children (Suc n) atts cs visited1)"

definition detectCycles :: "completion_attestation list \<Rightarrow> string option" where
  "detectCycles atts =
     map_option snd (dfs_children (Suc (length atts)) atts (map at_LinkID atts) (\<lambda>_. Unvisited))"

section \<open>Chain validation\<close>

record chain_result =
  cr_Valid :: bool
  cr_RootHash :: string
  cr_LinkCount :: nat
  cr_Reasons :: "string list"
  cr_CoveredEscrows :: "int list"

text \<open>Each loop of \<open>ValidateChain\<close> appends at most one reason and returns: its first reason, if any.\<close>

fun first_some :: "('a \<Rightarrow> 'b option) \<Rightarrow> 'a list \<Rightarrow> 'b option" where
  "first_some f [] = None"
| "first_some f (x # xs) = (case f x of Some y \<Rightarrow> Some y | None \<Rightarrow> first_some f xs)"

fun duplicate_link :: "string set \<Rightarrow> completion_attestation list \<Rightarrow> string option" where
  "duplicate_link seen [] = None"
| "duplicate_link seen (a # as) =
     (if at_LinkID a \<in> seen then Some (''duplicate link_id: '' @ at_LinkID a)
      else duplicate_link (insert (at_LinkID a) seen) as)"

definition invalid_link :: "eth_lib \<Rightarrow> int \<Rightarrow> completion_attestation \<Rightarrow> string option" where
  "invalid_link L now a =
     map_option (\<lambda>e. ''link '' @ at_LinkID a @ '': '' @ err_msg e) (ValidateCompletionAttestation L a now)"

definition parent_problem :: "completion_attestation list \<Rightarrow> completion_attestation \<Rightarrow> string option" where
  "parent_problem atts a =
     (if at_ParentLinkID a = [] then None
      else case row_get at_LinkID atts (at_ParentLinkID a) of
        None \<Rightarrow> Some (''link '' @ at_LinkID a @ '' references missing parent_link_id '' @ at_ParentLinkID a)
      | Some parent \<Rightarrow>
          if \<not> EqualFold (at_FromAddress a) (at_ToAddress parent)
          then Some (''link '' @ at_LinkID a @ '' has from_address '' @ at_FromAddress a
                     @ '' which does not match parent '' @ at_ParentLinkID a @ '' to_address '' @ at_ToAddress parent)
          else None)"

definition unknown_child :: "int list \<Rightarrow> completion_attestation \<Rightarrow> string option" where
  "unknown_child childEscrowIDs a =
     (case at_ChildEscrowID a of
        None \<Rightarrow> None
      | Some c \<Rightarrow> if childEscrowIDs \<noteq> [] \<and> c \<notin> set childEscrowIDs
                  then Some (''attestation link '' @ at_LinkID a @ '' references unknown child escrow '' @ int_str c)
                  else None)"

definition covered :: "completion_attestation list \<Rightarrow> int list" where
  "covered atts = List.map_filter at_ChildEscrowID atts"

definition uncovered :: "completion_attestation list \<Rightarrow> int \<Rightarrow> string option" where
  "uncovered atts c =
     (if c \<in> set (covered atts) then None
      else Some (''child escrow '' @ int_str c @ '' not covered by any attestation link''))"

definition chain_problem ::
    "eth_lib \<Rightarrow> completion_attestation list \<Rightarrow> int list \<Rightarrow> int \<Rightarrow> string option" where
  "chain_problem L atts childEscrowIDs now =
     (case duplicate_link {} atts of Some r \<Rightarrow> Some r | None \<Rightarrow>
      case first_some (invalid_link L now) atts of Some r \<Rightarrow> Some r | None \<Rightarrow>
      case first_some (parent_problem atts) atts of Some r \<Rightarrow> Some r | None \<Rightarrow>
      case detectCycles atts of
        None \<Rightarrow> Some ''out of fuel''
      | Some cyc \<Rightarrow>
          if cyc \<noteq> [] then Some cyc
          else case first_some (unknown_child childEscrowIDs) atts of Some r \<Rightarrow> Some r | None \<Rightarrow>
               first_some (uncovered atts) childEscrowIDs)"

definition root_hash :: "eth_lib \<Rightarrow> completion_attestation list \<Rightarrow> string" where
  "root_hash L atts =
     HashHex L (Keccak256Hash L (Join (sort (map (CanonicalCompletionMessage L) atts)) [CHR 0x0A]))"

definition ValidateChain ::
    "eth_lib \<Rightarrow> completion_attestation list \<Rightarrow> int list \<Rightarrow> int \<Rightarrow> chain_result" where
  "ValidateChain L atts childEscrowIDs now =
     (let result = \<lparr>cr_Valid = False, cr_RootHash = [], cr_LinkCount = length atts, cr_Reasons = [],
                    cr_CoveredEscrows = []\<rparr> in
      if atts = [] then result\<lparr>cr_Valid := True\<rparr>
      else case chain_problem L atts childEscrowIDs now of
        Some r \<Rightarrow> result\<lparr>cr_Reasons := [r]\<rparr>
      | None \<Rightarrow> result\<lparr>cr_RootHash := root_hash L atts,
                      cr_CoveredEscrows := sorted_list_of_set (set (covered atts)), cr_Valid := True\<rparr>)"

section \<open>JSON\<close>

definition decode_completion :: "(string \<times> json) list \<Rightarrow> completion_attestation option" where
  "decode_completion kvs =
     (case (str_field ''profile'' kvs [], str_field ''link_id'' kvs [], str_field ''parent_link_id'' kvs [],
            str_field ''from_address'' kvs [], str_field ''to_address'' kvs [],
            optint_field ''child_escrow_id'' kvs None) of
        (Some profile, Some link, Some parent, Some from, Some to, Some child) \<Rightarrow>
          (case (str_field ''task_spec_hash'' kvs [], str_field ''outcome_hash'' kvs [],
                 int_field ''issued_at'' kvs 0, int_field ''expires_at'' kvs 0, str_field ''nonce'' kvs [],
                 str_field ''signature'' kvs []) of
             (Some spec, Some outcome, Some iss, Some expi, Some nonce, Some sig) \<Rightarrow>
               Some \<lparr>at_Profile = profile, at_LinkID = link, at_ParentLinkID = parent,
                     at_FromAddress = from, at_ToAddress = to, at_ChildEscrowID = child,
                     at_TaskSpecHash = spec, at_OutcomeHash = outcome, at_IssuedAt = iss,
                     at_ExpiresAt = expi, at_Nonce = nonce, at_Signature = sig\<rparr>
           | _ \<Rightarrow> None)
      | _ \<Rightarrow> None)"

definition ParseCompletionAttestations :: "string \<Rightarrow> gerr + completion_attestation list" where
  "ParseCompletionAttestations raw =
     (if raw = [] \<or> raw = ''[]'' then Inr []
      else case unmarshal_structs decode_completion raw of
        None \<Rightarrow> Inl (wrap ''parse completion attestations'' json_err)
      | Some None \<Rightarrow> Inr []
      | Some (Some atts) \<Rightarrow> Inr atts)"

definition MarshalChainValidationResult :: "chain_result \<Rightarrow> string" where
  "MarshalChainValidationResult r =
     render (JObj ([(''valid'', JBool (cr_Valid r)), (''root_hash'', JStr (cr_RootHash r)),
                    (''link_count'', JNum (nat_str (cr_LinkCount r)))]
       @ (if cr_Reasons r = [] then [] else [(''reasons'', JArr (map JStr (cr_Reasons r)))])
       @ (if cr_CoveredEscrows r = [] then []
          else [(''covered_escrows'', JArr (map (\<lambda>i. JNum (int_str i)) (cr_CoveredEscrows r)))])))"

section \<open>The search is exact\<close>

definition edges :: "completion_attestation list \<Rightarrow> (string \<times> string) set" where
  "edges atts = {(i, c). c \<in> set (children atts i)}"

definition unvisited :: "completion_attestation list \<Rightarrow> colours \<Rightarrow> string set" where
  "unvisited atts v = {i \<in> at_LinkID ` set atts. v i = Unvisited}"

lemma children_ids: "set (children atts i) \<subseteq> at_LinkID ` set atts"
  by (auto simp: children_def)

lemma unvisited_finite [simp]: "finite (unvisited atts v)"
  by (simp add: unvisited_def)

text \<open>The fuel suffices: each call that goes deeper has marked one more link.\<close>

lemma unvisited_mark:
  "i \<in> at_LinkID ` set atts \<Longrightarrow> v i = Unvisited \<Longrightarrow>
     card (unvisited atts v) = Suc (card (unvisited atts (v(i := InProgress))))"
proof -
  assume "i \<in> at_LinkID ` set atts" "v i = Unvisited"
  then have "unvisited atts v = insert i (unvisited atts (v(i := InProgress)))"
    and "i \<notin> unvisited atts (v(i := InProgress))"
    by (auto simp: unvisited_def split: if_splits)
  then show ?thesis by simp
qed

lemma dfs_fuel:
  "i \<in> at_LinkID ` set atts \<Longrightarrow> card (unvisited atts v) < n \<Longrightarrow>
     \<exists>w msg. dfs n atts i v = Some (w, msg) \<and> unvisited atts w \<subseteq> unvisited atts v"
  "set cs \<subseteq> at_LinkID ` set atts \<Longrightarrow> card (unvisited atts v) < n \<Longrightarrow>
     \<exists>w msg. dfs_children n atts cs v = Some (w, msg) \<and> unvisited atts w \<subseteq> unvisited atts v"
proof (induction n atts i v and n atts cs v rule: dfs_dfs_children.induct)
  case (2 n atts i v)
  show ?case
  proof (cases "v i = Unvisited")
    case True
    have "card (unvisited atts (v(i := InProgress))) < n"
      using unvisited_mark [of i atts v] True 2 by simp
    then obtain w msg where w: "dfs_children n atts (children atts i) (v(i := InProgress)) = Some (w, msg)"
        "unvisited atts w \<subseteq> unvisited atts (v(i := InProgress))"
      using 2(1) [OF _ _ children_ids] True by (metis colour.distinct(1,3))
    then have "unvisited atts (w(i := Done)) \<subseteq> unvisited atts v" "unvisited atts w \<subseteq> unvisited atts v"
      by (auto simp: unvisited_def split: if_splits)
    then show ?thesis using w True by auto
  qed (cases "v i"; simp)
next
  case (5 n atts c cs v)
  then obtain w msg where w: "dfs (Suc n) atts c v = Some (w, msg)"
      "unvisited atts w \<subseteq> unvisited atts v" by auto
  then have "card (unvisited atts w) < Suc n"
    using 5(4) by (meson card_mono order_le_less_trans unvisited_finite)
  then show ?case using 5 w by fastforce
qed auto

lemma card_unvisited: "card (unvisited atts v) \<le> length atts"
proof -
  have "card (unvisited atts v) \<le> card (at_LinkID ` set atts)"
    by (intro card_mono) (auto simp: unvisited_def)
  also have "\<dots> \<le> length atts"
    using card_length [of "map at_LinkID atts"] by simp
  finally show ?thesis .
qed

lemma detectCycles_total: "\<exists>msg. detectCycles atts = Some msg"
  using dfs_fuel(2) [of "map at_LinkID atts" atts "\<lambda>_. Unvisited" "Suc (length atts)"]
    card_unvisited [of atts "\<lambda>_. Unvisited"]
  by (auto simp: detectCycles_def)

text \<open>No message: every visited link is done, and the done links have a rank below which all
  their children lie.\<close>

definition ranked :: "completion_attestation list \<Rightarrow> colours \<Rightarrow> bool" where
  "ranked atts v \<longleftrightarrow>
     (\<exists>rank :: string \<Rightarrow> nat. \<forall>i. v i = Done \<longrightarrow> (\<forall>c \<in> set (children atts i). v c = Done \<and> rank c < rank i))"

definition grows :: "colours \<Rightarrow> colours \<Rightarrow> bool" where
  "grows v w \<longleftrightarrow> (\<forall>i. v i = Done \<longrightarrow> w i = Done) \<and> (\<forall>i. w i = InProgress \<longleftrightarrow> v i = InProgress)"

lemma grows_refl [simp]: "grows v v"
  by (simp add: grows_def)

lemma grows_trans: "grows u v \<Longrightarrow> grows v w \<Longrightarrow> grows u w"
  by (simp add: grows_def)

lemma grows_visit: "v i = Unvisited \<Longrightarrow> grows (v(i := InProgress)) u \<Longrightarrow> grows v (u(i := Done)) \<and> (u(i := Done)) i = Done"
  by (auto simp: grows_def fun_upd_def split: if_splits)

lemma ranked_mark: "ranked atts v \<Longrightarrow> v i = Unvisited \<Longrightarrow> ranked atts (v(i := InProgress))"
  unfolding ranked_def by (metis colour.distinct(1,3,5) fun_upd_apply)

lemma ranked_finish:
  assumes "ranked atts v" "v i \<noteq> Done" "\<forall>c \<in> set (children atts i). v c = Done"
  shows "ranked atts (v(i := Done))"
proof -
  obtain rank :: "string \<Rightarrow> nat"
    where r: "\<And>j c. v j = Done \<Longrightarrow> c \<in> set (children atts j) \<Longrightarrow> v c = Done \<and> rank c < rank j"
    using assms(1) by (auto simp: ranked_def)
  have "rank c < Suc (Max (insert 0 (rank ` set (children atts i))))" if "c \<in> set (children atts i)" for c
    using that by (simp add: less_Suc_eq_le)
  then show ?thesis
    unfolding ranked_def using r assms(2,3)
    by (intro exI [of _ "rank(i := Suc (Max (insert 0 (rank ` set (children atts i)))))"]) auto
qed

lemma dfs_done:
  "dfs n atts i v = Some (w, []) \<Longrightarrow> ranked atts v \<Longrightarrow> ranked atts w \<and> grows v w \<and> w i = Done"
  "dfs_children n atts cs v = Some (w, []) \<Longrightarrow> ranked atts v \<Longrightarrow>
     ranked atts w \<and> grows v w \<and> (\<forall>c \<in> set cs. w c = Done)"
proof (induction n atts i v and n atts cs v arbitrary: w and w rule: dfs_dfs_children.induct)
  case (2 n atts i v)
  show ?case
  proof (cases "v i")
    case Unvisited
    then obtain u where u: "dfs_children n atts (children atts i) (v(i := InProgress)) = Some (u, [])"
        "w = u(i := Done)"
      using 2(2) by (auto split: option.splits if_splits)
    then have "ranked atts u \<and> grows (v(i := InProgress)) u \<and> (\<forall>c \<in> set (children atts i). u c = Done)"
      using 2(1) [OF _ _ u(1) ranked_mark [OF 2(3) Unvisited]] Unvisited by (metis colour.distinct(1,3))
    then have "ranked atts u" "grows (v(i := InProgress)) u" "\<forall>c \<in> set (children atts i). u c = Done"
      by blast+
    moreover from this have "u i \<noteq> Done" by (metis colour.distinct(5) fun_upd_same grows_def)
    ultimately show ?thesis
      using u(2) Unvisited ranked_finish [of atts u i] grows_visit by blast
  qed (use 2 in auto)
next
  case (5 n atts c cs v)
  obtain u where u: "dfs (Suc n) atts c v = Some (u, [])" "dfs_children (Suc n) atts cs u = Some (w, [])"
    using 5(3) by (auto split: option.splits if_splits)
  then have c: "ranked atts u" "grows v u" "u c = Done" using 5(1) [OF u(1) 5(4)] by blast+
  then have "ranked atts w" "grows u w" "\<forall>d \<in> set cs. w d = Done"
    using 5(2) [OF u(1) refl _ u(2)] by blast+
  then show ?case using c grows_trans [of v u w] by (simp add: grows_def)
qed auto

lemma no_cycle_acyclic:
  assumes "detectCycles atts = Some []"
  shows "acyclic (edges atts)"
proof -
  obtain w where "dfs_children (Suc (length atts)) atts (map at_LinkID atts) (\<lambda>_. Unvisited) = Some (w, [])"
    using assms by (auto simp: detectCycles_def)
  then have w: "ranked atts w" "\<forall>a \<in> set atts. w (at_LinkID a) = Done"
    using dfs_done(2) by (force simp: ranked_def)+
  then obtain rank :: "string \<Rightarrow> nat"
    where r: "\<And>i c. w i = Done \<Longrightarrow> c \<in> set (children atts i) \<Longrightarrow> rank c < rank i"
    by (auto simp: ranked_def)
  let ?f = "\<lambda>i. if w i = Done then rank i else Suc (Max (rank ` at_LinkID ` set atts))"
  have "?f c < ?f i" if "c \<in> set (children atts i)" for c i
  proof -
    have "c \<in> at_LinkID ` set atts" using that children_ids by blast
    then have "w c = Done" "rank c \<le> Max (rank ` at_LinkID ` set atts)" using w(2) by auto
    then show ?thesis using r that by auto
  qed
  then have "edges atts \<subseteq> (measure ?f)\<inverse>" by (auto simp: edges_def)
  then show ?thesis using acyclic_subset acyclic_converse wf_acyclic wf_measure by metis
qed

text \<open>A message: the links in progress lead to the one in hand, so meeting one again is a cycle.\<close>

lemma dfs_cycle:
  "dfs n atts i v = Some (w, msg) \<Longrightarrow> \<forall>j. v j = InProgress \<longrightarrow> (j, i) \<in> (edges atts)\<^sup>+ \<Longrightarrow>
     acyclic (edges atts) \<Longrightarrow> msg = [] \<and> (\<forall>j. w j = InProgress \<longrightarrow> v j = InProgress)"
  "dfs_children n atts cs v = Some (w, msg) \<Longrightarrow> \<forall>j. v j = InProgress \<longrightarrow> (\<forall>c \<in> set cs. (j, c) \<in> (edges atts)\<^sup>+) \<Longrightarrow>
     acyclic (edges atts) \<Longrightarrow> msg = [] \<and> (\<forall>j. w j = InProgress \<longrightarrow> v j = InProgress)"
proof (induction n atts i v and n atts cs v arbitrary: w msg and w msg rule: dfs_dfs_children.induct)
  case (2 n atts i v)
  show ?case
  proof (cases "v i")
    case Unvisited
    then obtain u m where u: "dfs_children n atts (children atts i) (v(i := InProgress)) = Some (u, m)"
        "if m \<noteq> [] then w = u \<and> msg = m else w = u(i := Done) \<and> msg = []"
      using 2(2) by (auto split: option.splits if_splits)
    have "(i, c) \<in> edges atts" if "c \<in> set (children atts i)" for c
      using that by (simp add: edges_def)
    then have "\<forall>j. (v(i := InProgress)) j = InProgress \<longrightarrow> (\<forall>c \<in> set (children atts i). (j, c) \<in> (edges atts)\<^sup>+)"
      using 2(3) by (auto intro: trancl_into_trancl)
    then have "m = [] \<and> (\<forall>j. u j = InProgress \<longrightarrow> (v(i := InProgress)) j = InProgress)"
      using 2(1) [OF _ _ u(1) _ 2(4)] Unvisited by (metis colour.distinct(1,3))
    then show ?thesis using u(2) by (auto split: if_splits)
  next
    case InProgress
    then show ?thesis using 2 by (auto simp: acyclic_def)
  qed (use 2 in auto)
next
  case (5 n atts c cs v)
  obtain u m where u: "dfs (Suc n) atts c v = Some (u, m)"
      "if m \<noteq> [] then w = u \<and> msg = m else dfs_children (Suc n) atts cs u = Some (w, msg)"
    using 5(3) by (auto split: option.splits if_splits)
  have "\<forall>j. v j = InProgress \<longrightarrow> (j, c) \<in> (edges atts)\<^sup>+" using 5(4) by simp
  then have m: "m = []" "\<forall>j. u j = InProgress \<longrightarrow> v j = InProgress" using 5(1) [OF u(1) _ 5(5)] by blast+
  then have p: "\<forall>j. u j = InProgress \<longrightarrow> (\<forall>d \<in> set cs. (j, d) \<in> (edges atts)\<^sup>+)" using 5(4) by simp
  have "dfs_children (Suc n) atts cs u = Some (w, msg)" using u(2) m(1) by simp
  then have "msg = [] \<and> (\<forall>j. w j = InProgress \<longrightarrow> u j = InProgress)"
    using 5(2) [OF u(1) refl _ _ p 5(5)] m(1) by blast
  then show ?case using m(2) by blast
qed auto

lemma detectCycles_exact: "detectCycles atts = Some [] \<longleftrightarrow> acyclic (edges atts)"
proof
  assume ac: "acyclic (edges atts)"
  obtain msg where "detectCycles atts = Some msg" using detectCycles_total by blast
  then obtain w where
      "dfs_children (Suc (length atts)) atts (map at_LinkID atts) (\<lambda>_. Unvisited) = Some (w, msg)"
      "detectCycles atts = Some msg"
    by (auto simp: detectCycles_def)
  then show "detectCycles atts = Some []" using dfs_cycle(2) ac by fastforce
qed (rule no_cycle_acyclic)

section \<open>What a valid chain is\<close>

definition link_ok :: "eth_lib \<Rightarrow> int \<Rightarrow> completion_attestation \<Rightarrow> bool" where
  "link_ok L now a \<longleftrightarrow>
     at_Profile a = CompletionAttestationV1 \<and> \<not> blank (at_LinkID a) \<and> \<not> blank (at_Nonce a)
     \<and> IsHexAddress L (at_FromAddress a) \<and> IsHexAddress L (at_ToAddress a)
     \<and> at_IssuedAt a \<le> now \<and> now < at_ExpiresAt a
     \<and> signed_by L (CanonicalCompletionMessage L a) (at_Signature a) (HexToAddress L (at_FromAddress a))"

lemma link_ok_iff: "ValidateCompletionAttestation L a now = None \<longleftrightarrow> link_ok L now a"
  by (auto simp: ValidateCompletionAttestation_def VerifyCompletionSignature_def verify_signature_ok link_ok_def)

definition handed_on :: "completion_attestation \<Rightarrow> completion_attestation \<Rightarrow> bool" where
  "handed_on p c \<longleftrightarrow> at_ParentLinkID c = at_LinkID p \<and> EqualFold (at_FromAddress c) (at_ToAddress p)"

lemma first_some_None [simp]: "first_some f xs = None \<longleftrightarrow> (\<forall>x \<in> set xs. f x = None)"
  by (induction xs) (auto split: option.splits)

lemma duplicate_link_None:
  "duplicate_link seen atts = None \<longleftrightarrow> distinct (map at_LinkID atts) \<and> at_LinkID ` set atts \<inter> seen = {}"
  by (induction atts arbitrary: seen) auto

lemma parent_problem_None:
  assumes "distinct (map at_LinkID atts)"
  shows "parent_problem atts a = None \<longleftrightarrow> at_ParentLinkID a = [] \<or> (\<exists>p \<in> set atts. handed_on p a)"
proof (cases "row_get at_LinkID atts (at_ParentLinkID a)")
  case None
  then have "\<not> (\<exists>p \<in> set atts. handed_on p a)" unfolding row_get_None handed_on_def by (metis imageI)
  then show ?thesis using None by (simp add: parent_problem_def)
next
  case (Some q)
  then have q: "q \<in> set atts" "at_LinkID q = at_ParentLinkID a" using row_get_Some by metis+
  then have "p = q" if "p \<in> set atts" "at_LinkID p = at_ParentLinkID a" for p
    using assms that by (metis distinct_map inj_onD)
  then have "(\<exists>p \<in> set atts. handed_on p a) \<longleftrightarrow> EqualFold (at_FromAddress a) (at_ToAddress q)"
    using q unfolding handed_on_def by metis
  then show ?thesis using Some by (simp add: parent_problem_def)
qed

lemma unknown_child_None:
  "unknown_child kids a = None \<longleftrightarrow> kids = [] \<or> (\<forall>c. at_ChildEscrowID a = Some c \<longrightarrow> c \<in> set kids)"
  by (auto simp: unknown_child_def split: option.splits)

lemma set_covered: "set (covered atts) = {c. \<exists>a \<in> set atts. at_ChildEscrowID a = Some c}"
  by (force simp: covered_def map_filter_def)

definition chain_ok :: "eth_lib \<Rightarrow> completion_attestation list \<Rightarrow> int list \<Rightarrow> int \<Rightarrow> bool" where
  "chain_ok L atts kids now \<longleftrightarrow>
     distinct (map at_LinkID atts)
     \<and> (\<forall>a \<in> set atts. link_ok L now a)
     \<and> (\<forall>a \<in> set atts. at_ParentLinkID a = [] \<or> (\<exists>p \<in> set atts. handed_on p a))
     \<and> acyclic (edges atts)
     \<and> (kids = [] \<or> set (covered atts) = set kids)"

lemma or_else_None [simp]: "(case x of Some r \<Rightarrow> Some r | None \<Rightarrow> y) = None \<longleftrightarrow> x = None \<and> y = None"
  by (cases x) simp_all

lemma chain_problem_None: "chain_problem L atts kids now = None \<longleftrightarrow> chain_ok L atts kids now"
proof -
  obtain m where m: "detectCycles atts = Some m" using detectCycles_total by blast
  have kids: "(\<forall>a \<in> set atts. unknown_child kids a = None) \<and> (\<forall>c \<in> set kids. uncovered atts c = None)
      \<longleftrightarrow> kids = [] \<or> set (covered atts) = set kids"
    by (auto simp: unknown_child_None uncovered_def set_covered)
  have "chain_problem L atts kids now = None \<longleftrightarrow>
      distinct (map at_LinkID atts) \<and> (\<forall>a \<in> set atts. link_ok L now a)
      \<and> (\<forall>a \<in> set atts. parent_problem atts a = None) \<and> m = []
      \<and> ((\<forall>a \<in> set atts. unknown_child kids a = None) \<and> (\<forall>c \<in> set kids. uncovered atts c = None))"
    unfolding chain_problem_def m by (simp add: duplicate_link_None invalid_link_def link_ok_iff)
  moreover have "m = [] \<longleftrightarrow> acyclic (edges atts)" using detectCycles_exact m by force
  ultimately show ?thesis
    unfolding kids chain_ok_def
    by (cases "distinct (map at_LinkID atts)") (simp_all add: parent_problem_None del: distinct_map)
qed

lemma ValidateChain_cases:
  "cr_Valid (ValidateChain L atts kids now) \<longleftrightarrow> atts = [] \<or> chain_ok L atts kids now"
  "cr_RootHash (ValidateChain L atts kids now) =
     (if atts \<noteq> [] \<and> chain_ok L atts kids now then root_hash L atts else [])"
  "cr_CoveredEscrows (ValidateChain L atts kids now) =
     (if atts \<noteq> [] \<and> chain_ok L atts kids now then sorted_list_of_set (set (covered atts)) else [])"
  "cr_LinkCount (ValidateChain L atts kids now) = length atts"
  "cr_Reasons (ValidateChain L atts kids now) = [] \<longleftrightarrow> cr_Valid (ValidateChain L atts kids now)"
  by (auto simp: ValidateChain_def Let_def simp flip: chain_problem_None split: option.splits)

lemma chain_ok_perm:
  assumes "mset atts = mset bts" "chain_ok L atts kids now"
  shows "chain_ok L bts kids now"
proof -
  have "set atts = set bts" using assms(1) by (metis set_mset_mset)
  then have "edges atts = edges bts" "set (covered atts) = set (covered bts)"
    by (auto simp: edges_def children_def set_covered)
  moreover have "distinct (map at_LinkID bts)"
    using assms by (metis chain_ok_def mset_eq_imp_distinct_iff mset_map)
  ultimately show ?thesis using assms(2) \<open>set atts = set bts\<close> by (simp add: chain_ok_def)
qed

lemma root_hash_perm: "mset atts = mset bts \<Longrightarrow> root_hash L atts = root_hash L bts"
  unfolding root_hash_def by (metis mset_map mset_sort properties_for_sort sorted_sort)

text \<open>The chain of custody of a link: from a root down to it, each link handed on by the one before.\<close>

definition custody :: "completion_attestation list \<Rightarrow> completion_attestation \<Rightarrow> completion_attestation list \<Rightarrow> bool" where
  "custody atts a path \<longleftrightarrow>
     path \<noteq> [] \<and> last path = a \<and> at_ParentLinkID (hd path) = [] \<and> set path \<subseteq> set atts \<and> distinct path
     \<and> successively handed_on path"

lemma edges_finite: "finite (edges atts)"
proof (rule finite_subset)
  show "edges atts \<subseteq> (at_ParentLinkID ` set atts) \<times> (at_LinkID ` set atts)"
    by (auto simp: edges_def children_def)
qed simp

lemma custody_exists:
  assumes ok: "chain_ok L atts kids now" and a: "a \<in> set atts"
  shows "\<exists>path. custody atts a path"
proof -
  have wf: "wf (edges atts)" using ok finite_acyclic_wf [OF edges_finite] by (simp add: chain_ok_def)
  have "\<exists>path. custody atts a path \<and> (\<forall>p \<in> set path. (at_LinkID p, i) \<in> (edges atts)\<^sup>*)"
    if "a \<in> set atts" "at_LinkID a = i" for a i
    using wf that
  proof (induction i arbitrary: a rule: wf_induct_rule)
    case (less i)
    show ?case
    proof (cases "at_ParentLinkID a = []")
      case True
      then have "custody atts a [a]" using less by (simp add: custody_def)
      then show ?thesis using less(3) by (intro exI [of _ "[a]"]) simp
    next
      case False
      then obtain p where p: "p \<in> set atts" "handed_on p a"
        using ok less(2) by (auto simp: chain_ok_def)
      then have e: "(at_LinkID p, i) \<in> edges atts"
        using False less by (auto simp: edges_def children_def handed_on_def)
      then obtain path where path: "custody atts p path"
          "\<forall>q \<in> set path. (at_LinkID q, at_LinkID p) \<in> (edges atts)\<^sup>*"
        using less(1) p(1) by blast
      then have r: "\<forall>q \<in> set path. (at_LinkID q, i) \<in> (edges atts)\<^sup>+"
        using e by (meson rtrancl_into_trancl1)
      then have "a \<notin> set path" using ok less(3) by (auto simp: chain_ok_def acyclic_def)
      then have "custody atts a (path @ [a])"
        using path(1) p less(2) by (auto simp: custody_def successively_append_iff hd_append)
      then show ?thesis using r less(3)
        by (intro exI [of _ "path @ [a]"]) (auto dest: trancl_into_rtrancl)
    qed
  qed
  then show ?thesis using a by blast
qed

section \<open>Properties\<close>

definition link_a :: completion_attestation where
  "link_a = \<lparr>at_Profile = CompletionAttestationV1, at_LinkID = ''l1'', at_ParentLinkID = [],
     at_FromAddress = ''0xa'', at_ToAddress = ''0xB'', at_ChildEscrowID = Some 7, at_TaskSpecHash = ''s'',
     at_OutcomeHash = ''o'', at_IssuedAt = 10, at_ExpiresAt = 200, at_Nonce = ''n1'', at_Signature = ''0xa''\<rparr>"

definition link_b :: completion_attestation where
  "link_b = \<lparr>at_Profile = CompletionAttestationV1, at_LinkID = ''l2'', at_ParentLinkID = ''l1'',
     at_FromAddress = ''0xb'', at_ToAddress = ''0xc'', at_ChildEscrowID = None, at_TaskSpecHash = ''s'',
     at_OutcomeHash = ''o'', at_IssuedAt = 20, at_ExpiresAt = 300, at_Nonce = ''n2'', at_Signature = ''0xb''\<rparr>"

lemma sample_links_ok: "link_ok sample_eth 100 link_a \<and> link_ok sample_eth 100 link_b"
proof -
  have *: "FromHex sample_eth s = bytes_of (take 64 (s @ replicate 64 CHR ''.'')) @ [27]"
    "Ecrecover sample_eth h t = Inr (take 64 t)" "UnmarshalPubkey sample_eth t = Inr t"
    "PubkeyToAddress sample_eth t = takeWhile (\<lambda>b. b \<noteq> 46) t" for s h t
    by (simp_all add: sample_eth_def)
  have k: "takeWhile (\<lambda>b. b \<noteq> 46) (take 64 (adjust_v (bytes_of (take 64 (''0xa'' @ replicate 64 CHR ''.'')) @ [27])))
      = bytes_of (ToLower ''0xa'')"
    "takeWhile (\<lambda>b. b \<noteq> 46) (take 64 (adjust_v (bytes_of (take 64 (''0xb'' @ replicate 64 CHR ''.'')) @ [27])))
      = bytes_of (ToLower ''0xb'')"
    "length (bytes_of (take 64 (''0xa'' @ replicate 64 CHR ''.'')) @ [27]) = 65"
    "length (bytes_of (take 64 (''0xb'' @ replicate 64 CHR ''.'')) @ [27]) = 65"
    by code_simp+
  have b: "\<not> blank ''l1'' \<and> \<not> blank ''l2'' \<and> \<not> blank ''n1'' \<and> \<not> blank ''n2''
      \<and> HasPrefix ''0xa'' ''0x'' \<and> HasPrefix ''0xb'' ''0x'' \<and> HasPrefix ''0xB'' ''0x'' \<and> HasPrefix ''0xc'' ''0x''"
    by code_simp
  show ?thesis
    unfolding link_ok_def signed_by_def * link_a_def link_b_def completion_attestation.simps
    using b k by (simp del: take_append append_take_drop_id)
qed

lemma sample_chain_ok: "chain_ok sample_eth [link_a, link_b] [7] 100"
proof -
  have "handed_on link_a link_b" by code_simp
  moreover have "detectCycles [link_a, link_b] = Some []" "map at_LinkID [link_a, link_b] = [''l1'', ''l2'']"
      "covered [link_a, link_b] = [7]" "at_ParentLinkID link_a = []"
    by code_simp+
  ultimately show ?thesis
    unfolding chain_ok_def detectCycles_exact [symmetric] using sample_links_ok by simp
qed

text \<open>C18: \<open>ValidateChain\<close> accepts a non-empty list exactly when its link ids are distinct, every link
  is well formed, in its time window and signed by its sender, every link that names a parent was
  handed on by a link of the list, the links form no cycle, and, when child escrows are given,
  exactly they are covered. The depth-first search needs no more fuel than it is given. An empty
  list is accepted whatever the child escrows are.\<close>

theorem ValidateChain_exact:
  "cr_Valid (ValidateChain L atts kids now) \<longleftrightarrow>
     atts = [] \<or>
     distinct (map at_LinkID atts)
     \<and> (\<forall>a \<in> set atts. link_ok L now a)
     \<and> (\<forall>a \<in> set atts. at_ParentLinkID a = [] \<or> (\<exists>p \<in> set atts. handed_on p a))
     \<and> acyclic (edges atts)
     \<and> (kids = [] \<or> set (covered atts) = set kids)"
  by (simp add: ValidateChain_cases chain_ok_def)

theorem ValidateChain_exact_witness: "cr_Valid (ValidateChain sample_eth [link_a, link_b] [7] 100)"
  unfolding ValidateChain_exact using sample_chain_ok by (simp add: chain_ok_def)

text \<open>In a valid chain every link has a chain of custody: distinct links from one without a parent
  down to it, each sent by the recipient of the one before.\<close>

theorem valid_chain_custody:
  assumes "cr_Valid (ValidateChain L atts kids now)" and "a \<in> set atts"
  shows "\<exists>path. custody atts a path"
  using assms custody_exists by (auto simp: ValidateChain_cases)

theorem valid_chain_custody_witness: "\<exists>path. custody [link_a, link_b] link_b path"
  by (rule valid_chain_custody [of sample_eth _ "[7]" 100])
    (simp_all add: ValidateChain_cases sample_chain_ok)

text \<open>The verdict, root hash and covered escrows do not depend on the order of the links.\<close>

theorem ValidateChain_order:
  assumes "mset atts = mset bts"
  shows "cr_Valid (ValidateChain L atts kids now) = cr_Valid (ValidateChain L bts kids now)
    \<and> cr_RootHash (ValidateChain L atts kids now) = cr_RootHash (ValidateChain L bts kids now)
    \<and> cr_CoveredEscrows (ValidateChain L atts kids now) = cr_CoveredEscrows (ValidateChain L bts kids now)
    \<and> cr_LinkCount (ValidateChain L atts kids now) = cr_LinkCount (ValidateChain L bts kids now)"
proof -
  have "chain_ok L atts kids now = chain_ok L bts kids now"
    using chain_ok_perm assms by (metis)
  moreover have "atts = [] \<longleftrightarrow> bts = []" using assms by auto
  moreover have "set (covered atts) = set (covered bts)"
    using assms by (auto simp: set_covered dest: mset_eq_setD)
  ultimately show ?thesis
    using root_hash_perm [OF assms] mset_eq_length [OF assms] by (simp add: ValidateChain_cases)
qed

theorem ValidateChain_order_witness:
  "cr_RootHash (ValidateChain sample_eth [link_a, link_b] [7] 100) = cr_RootHash (ValidateChain sample_eth [link_b, link_a] [7] 100)"
  using ValidateChain_order [of "[link_a, link_b]" "[link_b, link_a]" sample_eth "[7]" 100] by simp

text \<open>The signed message does not fix the fields: text may move over the separator from one to the
  next, and the signature of the one attestation is good for the other.\<close>

theorem completion_message_ambiguous:
  "VerifyCompletionSignature L (a\<lparr>at_TaskSpecHash := x @ ''|'' @ y, at_OutcomeHash := z\<rparr>)
     = VerifyCompletionSignature L (a\<lparr>at_TaskSpecHash := x, at_OutcomeHash := y @ ''|'' @ z\<rparr>)
   \<and> a\<lparr>at_TaskSpecHash := x @ ''|'' @ y, at_OutcomeHash := z\<rparr> \<noteq> a\<lparr>at_TaskSpecHash := x, at_OutcomeHash := y @ ''|'' @ z\<rparr>"
proof -
  have "at_OutcomeHash (a\<lparr>at_TaskSpecHash := x @ ''|'' @ y, at_OutcomeHash := z\<rparr>)
      \<noteq> at_OutcomeHash (a\<lparr>at_TaskSpecHash := x, at_OutcomeHash := y @ ''|'' @ z\<rparr>)"
    by (simp add: append_eq_Cons_conv)
  moreover have "VerifyCompletionSignature L (a\<lparr>at_TaskSpecHash := x @ ''|'' @ y, at_OutcomeHash := z\<rparr>)
     = VerifyCompletionSignature L (a\<lparr>at_TaskSpecHash := x, at_OutcomeHash := y @ ''|'' @ z\<rparr>)"
    by (simp add: VerifyCompletionSignature_def CanonicalCompletionMessage_def)
  ultimately show ?thesis by metis
qed

end
