(* ===== verification/Models.thy ===== *)
theory Models
  imports Prelude
begin

text \<open>
  The rows of the server's SQLite database: one record per struct of
  \<open>internal/storage/models.go\<close> (and the audit row of \<open>internal/authz/audit.go\<close>), with the
  struct's fields in its order, and \<open>db\<close>, the database itself, one list of rows per table
  in insertion order. A pointer field is an option, a time is its Unix second, and a
  nullable text column that the code reads as the empty string is a string.
\<close>

section \<open>Row types\<close>

record task =
  tsk_ID :: int
  tsk_Title :: string
  tsk_Description :: string
  tsk_SpecHash :: string
  tsk_CreatedAt :: int

record escrow =
  esc_ID :: int
  esc_TaskID :: int
  esc_ChainID :: int
  esc_FactoryAddress :: string
  esc_EscrowAddress :: string
  esc_EscrowID :: int
  esc_CreateIntentID :: string
  esc_CreateTxHash :: string
  esc_Buyer :: string
  esc_Worker :: string
  esc_Verifier :: string
  esc_VerifierPanelJSON :: string
  esc_QuorumThreshold :: int
  esc_QuorumVerifierCount :: int
  esc_VerifierStakePerVerifier :: string
  esc_Arbitrator :: string
  esc_Amount :: string
  esc_WorkerStake :: string
  esc_Token :: string
  esc_Status :: string
  esc_SubmissionDeadline :: int
  esc_ReviewPeriodSeconds :: int
  esc_DisputePeriodSeconds :: int
  esc_ArbitratorTimeoutSeconds :: int
  esc_MilestoneCount :: int
  esc_CurrentMilestone :: int
  esc_BackupWorker :: string
  esc_BackupDeadlineExtension :: int
  esc_ActiveWorker :: string
  esc_BackupActivated :: bool
  esc_Frozen :: bool
  esc_ServiceTier :: int
  esc_ZKVerifier :: string
  esc_CircuitID :: string
  esc_ParentEscrowID :: "int option"
  esc_CreatedAt :: int
  esc_UpdatedAt :: int

record milestone =
  ms_ID :: int
  ms_EscrowID :: int
  ms_MilestoneIndex :: int
  ms_Amount :: string
  ms_SubmissionDeadline :: int
  ms_Status :: string
  ms_SubmissionHash :: string
  ms_SubmissionURI :: string
  ms_ProofHash :: string
  ms_SubmittedAt :: "int option"
  ms_ApprovedAt :: "int option"
  ms_DisputedAt :: "int option"
  ms_DisputeReasonURI :: string
  ms_CreatedAt :: int
  ms_UpdatedAt :: int

record submission =
  sub_ID :: int
  sub_EscrowID :: int
  sub_SubmissionHash :: string
  sub_SubmissionURI :: string
  sub_ProofHash :: string
  sub_SubmittedAt :: int

record dispute =
  dsp_ID :: int
  dsp_EscrowID :: int
  dsp_RaisedBy :: string
  dsp_ReasonURI :: string
  dsp_ResolutionURI :: string
  dsp_WorkerAwardBps :: "int option"
  dsp_Status :: string
  dsp_CreatedAt :: int
  dsp_ResolvedAt :: "int option"

record reputation =
  rep_ID :: int
  rep_Address :: string
  rep_Role :: string
  rep_Completed :: int
  rep_Disputed :: int
  rep_Failed :: int
  rep_UpdatedAt :: int

record reputation_event =
  rev_ID :: int
  rev_Address :: string
  rev_Role :: string
  rev_Outcome :: string
  rev_TxHash :: string
  rev_LogIndex :: int
  rev_BlockNumber :: int
  rev_OccurredAt :: int
  rev_CreatedAt :: int

record rfq =
  rfq_ID :: int
  rfq_Title :: string
  rfq_Description :: string
  rfq_SpecHash :: string
  rfq_Buyer :: string
  rfq_Token :: string
  rfq_BudgetMin :: string
  rfq_BudgetMax :: string
  rfq_Deadline :: int
  rfq_ReviewPeriodSeconds :: int
  rfq_DisputePeriodSeconds :: int
  rfq_ArbitratorTimeoutSeconds :: int
  rfq_Verifier :: string
  rfq_Arbitrator :: string
  rfq_WorkerStake :: string
  rfq_MilestonesJSON :: string
  rfq_RequirementsJSON :: string
  rfq_RequiredCredentialsJSON :: string
  rfq_BiddingMode :: string
  rfq_CommitDeadline :: int
  rfq_RevealDeadline :: int
  rfq_SealedBidStatus :: string
  rfq_SealedBidSelectionRule :: string
  rfq_BestBidID :: "int option"
  rfq_SealedBidFinalizedAt :: int
  rfq_ServiceTier :: int
  rfq_ParentEscrowID :: "int option"
  rfq_Status :: string
  rfq_ExpiresAt :: int
  rfq_CreatedAt :: int
  rfq_UpdatedAt :: int

record decomposition =
  dcp_ID :: int
  dcp_Buyer :: string
  dcp_Title :: string
  dcp_Description :: string
  dcp_SpecHash :: string
  dcp_Status :: string
  dcp_ValidationErrorsJSON :: string
  dcp_RFQIDsJSON :: string
  dcp_CreatedAt :: int
  dcp_UpdatedAt :: int

record decomposition_node =
  nd_ID :: int
  nd_DecompositionID :: int
  nd_ParentNodeID :: "int option"
  nd_Title :: string
  nd_Description :: string
  nd_VerificationType :: string
  nd_DelegatePreference :: string
  nd_VerificationDetailsJSON :: string
  nd_Depth :: int
  nd_RequiresFurtherDecomposition :: bool
  nd_RFQID :: "int option"
  nd_CreatedAt :: int

record bid =
  bid_ID :: int
  bid_RFQID :: int
  bid_Bidder :: string
  bid_Amount :: string
  bid_EstimatedDuration :: int
  bid_ReputationBond :: string
  bid_MilestonesJSON :: string
  bid_Message :: string
  bid_Status :: string
  bid_EscrowID :: "int option"
  bid_ExpiresAt :: int
  bid_StakeMandateID :: string
  bid_CredentialsJSON :: string
  bid_CredentialVerified :: bool
  bid_CredentialMatchSummary :: string
  bid_CreatedAt :: int
  bid_UpdatedAt :: int

record bid_commit =
  bc_ID :: int
  bc_RFQID :: int
  bc_Bidder :: string
  bc_Commitment :: string
  bc_Nonce :: string
  bc_Status :: string
  bc_RevealedBidID :: "int option"
  bc_CreatedAt :: int
  bc_UpdatedAt :: int

record discipline =
  dis_Bidder :: string
  dis_NonRevealCount :: int
  dis_CooldownUntil :: int
  dis_CreatedAt :: int
  dis_UpdatedAt :: int

record a2a_task =
  a2a_ID :: int
  a2a_A2ATaskID :: string
  a2a_SessionID :: string
  a2a_EscrowID :: "int option"
  a2a_DelegatorAgent :: string
  a2a_DelegateeAgent :: string
  a2a_VerificationPolicyJSON :: string
  a2a_EscrowTrigger :: bool
  a2a_A2AStatus :: string
  a2a_MetadataJSON :: string
  a2a_CreatedAt :: int
  a2a_UpdatedAt :: int

record ap2_mandate =
  man_ID :: string
  man_MandateType :: string
  man_MandateHash :: string
  man_SignerAddress :: string
  man_BudgetAmount :: string
  man_BudgetCurrency :: string
  man_ExpiresAt :: string
  man_EscrowID :: "int option"
  man_FundingTxHash :: string
  man_Status :: string
  man_RawPayload :: string
  man_CreatedAt :: int

record ucp_session =
  ucp_ID :: int
  ucp_CheckoutID :: string
  ucp_SessionID :: string
  ucp_EscrowID :: int
  ucp_UCPStatus :: string
  ucp_IdempotencyKey :: string
  ucp_LastOperation :: string
  ucp_LastRequestHash :: string
  ucp_LastTxHash :: string
  ucp_CreatedAt :: int
  ucp_UpdatedAt :: int

record ucp_idempotency =
  idem_ID :: int
  idem_IdempotencyKey :: string
  idem_Operation :: string
  idem_RequestHash :: string
  idem_ResponseJSON :: string
  idem_CheckoutID :: string
  idem_CreatedAt :: int

record frozen_address =
  fz_Address :: string
  fz_FrozenAt :: int
  fz_Reason :: string
  fz_FrozenBy :: string

record emergency_action =
  em_ID :: int
  em_Action :: string
  em_Target :: string
  em_EscrowID :: string
  em_Reason :: string
  em_CreatedAt :: int
  em_TxHash :: string

record chain_log =
  cl_ID :: int
  cl_TxHash :: string
  cl_LogIndex :: int
  cl_BlockNumber :: int
  cl_EventName :: string
  cl_ContractAddress :: string
  cl_RawData :: string
  cl_CreatedAt :: int

record chain_cursor =
  cc_ID :: int
  cc_ChainID :: int
  cc_CursorKey :: string
  cc_BlockNumber :: int
  cc_UpdatedAt :: int

record attestation_chain =
  ac_ID :: int
  ac_EscrowID :: int
  ac_MilestoneIndex :: "int option"
  ac_RootHash :: string
  ac_Verified :: bool
  ac_VerificationSummaryJSON :: string
  ac_CreatedAt :: int
  ac_UpdatedAt :: int

record attestation_link =
  al_ID :: int
  al_ChainID :: int
  al_LinkID :: string
  al_ParentLinkID :: string
  al_FromAddress :: string
  al_ToAddress :: string
  al_ChildEscrowID :: "int option"
  al_TaskSpecHash :: string
  al_OutcomeHash :: string
  al_IssuedAt :: int
  al_ExpiresAt :: int
  al_Nonce :: string
  al_Signature :: string
  al_PayloadJSON :: string
  al_CreatedAt :: int

record checkpoint =
  cp_ID :: int
  cp_EscrowID :: int
  cp_MilestoneIndex :: "int option"
  cp_StateSnapshotURI :: string
  cp_SnapshotHash :: string
  cp_SchemaVersion :: string
  cp_CommittedBy :: string
  cp_CompletionPct :: "int option"
  cp_MetadataJSON :: string
  cp_CreatedAt :: int

record dct_token =
  dct_ID :: int
  dct_TokenID :: string
  dct_TokenHash :: string
  dct_ParentTokenID :: string
  dct_EscrowID :: int
  dct_Subject :: string
  dct_Issuer :: string
  dct_OperationsJSON :: string
  dct_ResourcesJSON :: string
  dct_Profile :: string
  dct_CaveatsJSON :: string
  dct_Depth :: int
  dct_ExpiresAt :: int
  dct_RevokedAt :: "int option"
  dct_RevocationReason :: string
  dct_RevokedBy :: string
  dct_CreatedAt :: int
  dct_UpdatedAt :: int


record audit_record =
  aud_ID :: int
  aud_Timestamp :: int
  aud_Operation :: string
  aud_Allowed :: bool
  aud_CallerAddress :: string
  aud_EscrowID :: int
  aud_TokenID :: string
  aud_ParentTokenID :: string
  aud_Reason :: string
  aud_RequestID :: string
  aud_Metadata :: string

section \<open>The database\<close>

record db =
  tasks :: "task list"
  escrows :: "escrow list"
  milestones :: "milestone list"
  submissions :: "submission list"
  disputes :: "dispute list"
  reputations :: "reputation list"
  reputation_events :: "reputation_event list"
  rfqs :: "rfq list"
  decompositions :: "decomposition list"
  decomposition_nodes :: "decomposition_node list"
  bids :: "bid list"
  bid_commits :: "bid_commit list"
  disciplines :: "discipline list"
  a2a_tasks :: "a2a_task list"
  ap2_mandates :: "ap2_mandate list"
  ucp_sessions :: "ucp_session list"
  ucp_idempotencies :: "ucp_idempotency list"
  frozen_addresses :: "frozen_address list"
  emergency_actions :: "emergency_action list"
  chain_logs :: "chain_log list"
  chain_cursors :: "chain_cursor list"
  attestation_chains :: "attestation_chain list"
  attestation_links :: "attestation_link list"
  checkpoints :: "checkpoint list"
  dct_tokens :: "dct_token list"
  dct_audit :: "audit_record list"

definition empty_db :: db where
  "empty_db = \<lparr>tasks = [], escrows = [], milestones = [], submissions = [], disputes = [],
     reputations = [], reputation_events = [], rfqs = [], decompositions = [],
     decomposition_nodes = [], bids = [], bid_commits = [], disciplines = [], a2a_tasks = [],
     ap2_mandates = [], ucp_sessions = [], ucp_idempotencies = [], frozen_addresses = [],
     emergency_actions = [], chain_logs = [], chain_cursors = [], attestation_chains = [],
     attestation_links = [], checkpoints = [], dct_tokens = [], dct_audit = []\<rparr>"

text \<open>Go's zero values.\<close>

definition blank_escrow :: escrow where
  "blank_escrow =
     \<lparr>esc_ID = 0, esc_TaskID = 0, esc_ChainID = 0, esc_FactoryAddress = [],
      esc_EscrowAddress = [], esc_EscrowID = 0, esc_CreateIntentID = [], esc_CreateTxHash = [],
      esc_Buyer = [], esc_Worker = [], esc_Verifier = [], esc_VerifierPanelJSON = [],
      esc_QuorumThreshold = 0, esc_QuorumVerifierCount = 0, esc_VerifierStakePerVerifier = [],
      esc_Arbitrator = [], esc_Amount = [], esc_WorkerStake = [], esc_Token = [], esc_Status = [],
      esc_SubmissionDeadline = 0, esc_ReviewPeriodSeconds = 0, esc_DisputePeriodSeconds = 0,
      esc_ArbitratorTimeoutSeconds = 0, esc_MilestoneCount = 0, esc_CurrentMilestone = 0,
      esc_BackupWorker = [], esc_BackupDeadlineExtension = 0, esc_ActiveWorker = [],
      esc_BackupActivated = False, esc_Frozen = False, esc_ServiceTier = 0, esc_ZKVerifier = [],
      esc_CircuitID = [], esc_ParentEscrowID = None, esc_CreatedAt = 0, esc_UpdatedAt = 0\<rparr>"

definition blank_milestone :: milestone where
  "blank_milestone =
     \<lparr>ms_ID = 0, ms_EscrowID = 0, ms_MilestoneIndex = 0, ms_Amount = [],
      ms_SubmissionDeadline = 0, ms_Status = [], ms_SubmissionHash = [], ms_SubmissionURI = [],
      ms_ProofHash = [], ms_SubmittedAt = None, ms_ApprovedAt = None, ms_DisputedAt = None,
      ms_DisputeReasonURI = [], ms_CreatedAt = 0, ms_UpdatedAt = 0\<rparr>"

text \<open>The next value of an \<open>INTEGER PRIMARY KEY AUTOINCREMENT\<close> column; no code path deletes
  a row of a table that has one.\<close>

definition next_id :: "('r \<Rightarrow> int) \<Rightarrow> 'r list \<Rightarrow> int" where
  "next_id key rows = 1 + foldr max (map key rows) 0"

lemma foldr_max_upper: "x \<in> set xs \<Longrightarrow> x \<le> foldr max xs (0 :: int)"
  by (induction xs) auto

lemma foldr_max_nonneg: "0 \<le> foldr max xs (0 :: int)"
  by (induction xs) auto

lemma next_id_above: "r \<in> set rows \<Longrightarrow> key r < next_id key rows"
  using foldr_max_upper [of "key r" "map key rows"] by (simp add: next_id_def)

lemma next_id_pos: "0 < next_id key rows"
  using foldr_max_nonneg [of "map key rows"] by (simp add: next_id_def)

lemma next_id_fresh: "row_get key rows (next_id key rows) = None"
  using next_id_above [of _ rows key] by (force simp: row_get_None)

text \<open>Adding a row under the next id: the new row is found, and the old ones stay.\<close>

lemma row_get_add_new:
  "key r = next_id key rows \<Longrightarrow> row_get key (row_add r rows) (next_id key rows) = Some r"
  using rows.get_add_same [of key rows r] by (simp add: next_id_fresh)

lemma row_get_add_kept:
  "row_get key rows (key r) = None \<Longrightarrow> row_get key rows k = Some q \<Longrightarrow>
     row_get key (row_add r rows) k = Some q"
  by (rule rows.get_add_old)

section \<open>SQL helpers\<close>

text \<open>\<open>ORDER BY id\<close> is the insertion order of the lists; \<open>ORDER BY id DESC\<close> reverses it.\<close>

definition select_where :: "('r \<Rightarrow> bool) \<Rightarrow> 'r list \<Rightarrow> 'r list" where
  "select_where p rows = filter p rows"

definition rows_affected :: "('r \<Rightarrow> bool) \<Rightarrow> 'r list \<Rightarrow> nat" where
  "rows_affected p rows = length (filter p rows)"

lemma rows_affected_0: "rows_affected p rows = 0 \<longleftrightarrow> (\<forall>r \<in> set rows. \<not> p r)"
  by (simp add: rows_affected_def filter_empty_conv)

definition first_where :: "('r \<Rightarrow> bool) \<Rightarrow> 'r list \<Rightarrow> 'r option" where
  "first_where p rows = find p rows"

definition last_where :: "('r \<Rightarrow> bool) \<Rightarrow> 'r list \<Rightarrow> 'r option" where
  "last_where p rows = find p (rev rows)"

text \<open>\<open>row.Scan\<close> on a query without a row, wrapped by the query function.\<close>

definition found :: "string \<Rightarrow> 'r option \<Rightarrow> gerr + 'r" where
  "found what o1 = (case o1 of None \<Rightarrow> Inl (wrap what ErrNoRows) | Some r \<Rightarrow> Inr r)"

lemma found_simps [simp]:
  "found what (Some r) = Inr r"
  "found what None = Inl (wrap what ErrNoRows)"
  "(found what o1 = Inr r) = (o1 = Some r)"
  by (simp_all add: found_def split: option.splits)

end
