(* ===== verification/Storage.thy ===== *)
theory Storage
  imports Models
begin

text \<open>
  The queries of \<open>internal/storage/queries.go\<close>, \<open>dct_queries.go\<close> and \<open>emergency_tx.go\<close> on
  tasks, escrows, submissions, disputes, milestones, reputation, chain logs, cursors,
  emergency records and capability tokens, as functions on \<^typ>\<open>db\<close>. A query that writes
  returns the new database with its Go result; \<open>now\<close> is SQLite's \<open>datetime('now')\<close>. UNIQUE
  indexes, CHECK constraints and foreign keys of the migrations are checked as SQLite does
  (CHECK constraints first, then UNIQUE indexes, the latest before the older ones, then
  foreign keys, which are enforced); other I/O failures of the database are not modelled.
\<close>

type_synonym 'a result = "db \<times> (gerr + 'a)"

text \<open>
  Go's \<open>if err != nil { return err }\<close> after a call that may have written (\<open>andThen\<close>) and after
  a pure one (\<open>orFail\<close>, with what is done to the error); \<open>mapErr\<close> wraps the error of a call. The
  state is the database, or whatever contains it in the services that keep more.
\<close>

definition andThen ::
    "'s \<times> (gerr + 'a) \<Rightarrow> ('s \<Rightarrow> 'a \<Rightarrow> 's \<times> (gerr + 'b)) \<Rightarrow> 's \<times> (gerr + 'b)" where
  "andThen m k = (case m of (d, Inl e) \<Rightarrow> (d, Inl e) | (d, Inr x) \<Rightarrow> k d x)"

definition orFail ::
    "'s \<Rightarrow> (gerr \<Rightarrow> gerr) \<Rightarrow> gerr + 'a \<Rightarrow> ('a \<Rightarrow> 's \<times> (gerr + 'b)) \<Rightarrow> 's \<times> (gerr + 'b)" where
  "orFail d w r k = (case r of Inl e \<Rightarrow> (d, Inl (w e)) | Inr x \<Rightarrow> k x)"

definition mapErr :: "(gerr \<Rightarrow> gerr) \<Rightarrow> 's \<times> (gerr + 'a) \<Rightarrow> 's \<times> (gerr + 'a)" where
  "mapErr w m = (case m of (d, Inl e) \<Rightarrow> (d, Inl (w e)) | (d, Inr x) \<Rightarrow> (d, Inr x))"

lemma andThen_simps [simp]:
  "andThen (d, Inl e) k = (d, Inl e)"
  "andThen (d, Inr x) k = k d x"
  by (simp_all add: andThen_def)

lemma orFail_simps [simp]:
  "orFail d w (Inl e) k = (d, Inl (w e))"
  "orFail d w (Inr x) k = k x"
  by (simp_all add: orFail_def)

lemma mapErr_simps [simp]:
  "mapErr w (d, Inl e) = (d, Inl (w e))"
  "mapErr w (d, Inr x) = (d, Inr x)"
  by (simp_all add: mapErr_def)

text \<open>What no part of a composition touches, the composition does not touch.\<close>

lemma andThen_frame: "(\<And>d x. g (fst (k d x)) = g d) \<Longrightarrow> g (fst (andThen m k)) = g (fst m)"
  by (cases m; cases "snd m") auto

lemma orFail_frame: "(\<And>x. g (fst (k x)) = g d) \<Longrightarrow> g (fst (orFail d w r k)) = g d"
  by (cases r) auto

lemma andThen_Inr [err_iff]:
  "andThen m k = (d', Inr y) \<longleftrightarrow> (\<exists>d x. m = (d, Inr x) \<and> k d x = (d', Inr y))"
  by (auto simp: andThen_def split: prod.splits sum.splits)

lemma andThen_Inl [err_iff]:
  "andThen m k = (d', Inl e) \<longleftrightarrow>
     m = (d', Inl e) \<or> (\<exists>d x. m = (d, Inr x) \<and> k d x = (d', Inl e))"
  by (auto simp: andThen_def split: prod.splits sum.splits)

lemma orFail_Inr [err_iff]:
  "orFail d w r k = (d', Inr y) \<longleftrightarrow> (\<exists>x. r = Inr x \<and> k x = (d', Inr y))"
  by (auto simp: orFail_def split: sum.splits)

lemma orFail_Inl [err_iff]:
  "orFail d w r k = (d', Inl e) \<longleftrightarrow>
     (\<exists>e0. r = Inl e0 \<and> e = w e0 \<and> d' = d) \<or> (\<exists>x. r = Inr x \<and> k x = (d', Inl e))"
  by (auto simp: orFail_def split: sum.splits)

lemma mapErr_Inr [err_iff]: "mapErr w m = (d', Inr y) \<longleftrightarrow> m = (d', Inr y)"
  by (auto simp: mapErr_def split: prod.splits sum.splits)

lemma mapErr_Inl [err_iff]: "mapErr w m = (d', Inl e) \<longleftrightarrow> (\<exists>e0. m = (d', Inl e0) \<and> e = w e0)"
  by (auto simp: mapErr_def split: prod.splits sum.splits)

lemma if_fail_Inr [err_iff]:
  "(if c then (d, Inl e) else r) = (d', Inr y) \<longleftrightarrow> \<not> c \<and> r = (d', Inr y)"
  by simp

definition unique_err :: "string \<Rightarrow> gerr" where
  "unique_err col = Sentinel (''sqlite.UNIQUE '' @ col) (''UNIQUE constraint failed: '' @ col)"

definition foreign_key_err :: gerr where
  "foreign_key_err = Sentinel ''sqlite.FOREIGNKEY'' ''FOREIGN KEY constraint failed''"

text \<open>\<open>database/sql\<close> refuses a \<open>uint64\<close> argument that has its high bit set.\<close>

definition uint64_high_bit_err :: gerr where
  "uint64_high_bit_err = errors_New ''uint64 values with high bit set are not supported''"

definition zero_address :: string where
  "zero_address = ''0x0000000000000000000000000000000000000000''"

definition zero_hash :: string where
  "zero_hash = ''0x0000000000000000000000000000000000000000000000000000000000000000''"

definition check_err :: "string \<Rightarrow> gerr" where
  "check_err col = Sentinel (''sqlite.CHECK '' @ col) (''CHECK constraint failed: '' @ col)"

text \<open>The column checks of migration 020: \<open>0x\<close> followed by hexadecimal digits, of a fixed
  length.\<close>

definition is_hex_char :: "char \<Rightarrow> bool" where
  "is_hex_char c = (let n = (of_char c :: nat) in
     48 \<le> n \<and> n \<le> 57 \<or> 65 \<le> n \<and> n \<le> 70 \<or> 97 \<le> n \<and> n \<le> 102)"

definition hex_check :: "nat \<Rightarrow> string \<Rightarrow> bool" where
  "hex_check n s \<longleftrightarrow> length s = n \<and> take 2 s = ''0x'' \<and> list_all is_hex_char (drop 2 s)"

text \<open>SQL \<open>LIKE\<close> with its two wildcards, case-insensitive on ASCII.\<close>

fun sql_like :: "string \<Rightarrow> string \<Rightarrow> bool" where
  "sql_like [] s = (s = [])"
| "sql_like (c # p) [] = (c = CHR ''%'' \<and> sql_like p [])"
| "sql_like (c # p) (x # s) =
     (if c = CHR ''%'' then sql_like p (x # s) \<or> sql_like (c # p) s
      else (c = CHR ''_'' \<or> lower_char c = lower_char x) \<and> sql_like p s)"

section \<open>Tasks\<close>

definition createTaskOn :: "int \<Rightarrow> string \<Rightarrow> string \<Rightarrow> string \<Rightarrow> db \<Rightarrow> task result" where
  "createTaskOn now title description specHash d =
     (let t = \<lparr>tsk_ID = next_id tsk_ID (tasks d), tsk_Title = title,
               tsk_Description = description, tsk_SpecHash = specHash, tsk_CreatedAt = now\<rparr>
      in (d\<lparr>tasks := row_add t (tasks d)\<rparr>, Inr t))"

definition GetTask :: "db \<Rightarrow> int \<Rightarrow> gerr + task" where
  "GetTask d id1 = found ''get task'' (row_get tsk_ID (tasks d) id1)"

section \<open>Escrows\<close>

definition ErrDuplicateEscrowCreateIntent :: gerr where
  "ErrDuplicateEscrowCreateIntent =
     Sentinel ''storage.ErrDuplicateEscrowCreateIntent'' ''duplicate escrow create intent''"

definition escrow_row :: "int \<Rightarrow> escrow \<Rightarrow> db \<Rightarrow> escrow" where
  "escrow_row now e d =
     (let msCount = (if esc_MilestoneCount e = 0 then 1 else esc_MilestoneCount e);
          activeWorker = (if esc_ActiveWorker e = [] then esc_Worker e else esc_ActiveWorker e);
          zkVerifier = (if esc_ZKVerifier e = [] then zero_address else esc_ZKVerifier e);
          circuitID = (if esc_CircuitID e = [] then zero_hash else esc_CircuitID e)
      in e\<lparr>esc_ID := next_id esc_ID (escrows d), esc_MilestoneCount := msCount,
           esc_ActiveWorker := activeWorker, esc_ZKVerifier := zkVerifier,
           esc_CircuitID := circuitID, esc_CreatedAt := now, esc_UpdatedAt := now\<rparr>)"

definition createEscrowOn :: "int \<Rightarrow> escrow \<Rightarrow> db \<Rightarrow> escrow result" where
  "createEscrowOn now e d =
     (let row = escrow_row now e d in
      if esc_ServiceTier e \<notin> {0, 1}
      then (d, Inl (wrap ''insert escrow'' (check_err ''service_tier'')))
      else if \<not> hex_check 42 (esc_ZKVerifier row)
      then (d, Inl (wrap ''insert escrow'' (check_err ''zk_verifier'')))
      else if \<not> hex_check 66 (esc_CircuitID row)
      then (d, Inl (wrap ''insert escrow'' (check_err ''circuit_id'')))
      else if esc_CreateIntentID e \<noteq> []
              \<and> list_ex (\<lambda>r. esc_CreateIntentID r = esc_CreateIntentID e) (escrows d)
      then (d, Inl (wrap ''insert escrow'' ErrDuplicateEscrowCreateIntent))
      else if list_ex (\<lambda>r. esc_EscrowAddress r = esc_EscrowAddress e) (escrows d)
      then (d, Inl (wrap ''insert escrow'' (unique_err ''escrows.escrow_address'')))
      else if row_get tsk_ID (tasks d) (esc_TaskID e) = None
              \<or> (case esc_ParentEscrowID e of
                    None \<Rightarrow> False
                  | Some p \<Rightarrow> row_get esc_ID (escrows d) p = None \<and> p \<noteq> esc_ID row)
      then (d, Inl (wrap ''insert escrow'' foreign_key_err))
      else (d\<lparr>escrows := row_add row (escrows d)\<rparr>, Inr row))"

definition GetEscrow :: "db \<Rightarrow> int \<Rightarrow> gerr + escrow" where
  "GetEscrow d id1 = found ''get escrow'' (row_get esc_ID (escrows d) id1)"

definition GetEscrowByAddress :: "db \<Rightarrow> string \<Rightarrow> gerr + escrow" where
  "GetEscrowByAddress d addr =
     found ''get escrow by address'' (row_get esc_EscrowAddress (escrows d) addr)"

definition GetEscrowByCreateIntentID :: "db \<Rightarrow> string \<Rightarrow> gerr + escrow" where
  "GetEscrowByCreateIntentID d intent =
     found ''get escrow by create intent'' (row_get esc_CreateIntentID (escrows d) intent)"

definition GetEscrowByOnChainID :: "db \<Rightarrow> int \<Rightarrow> int \<Rightarrow> gerr + escrow" where
  "GetEscrowByOnChainID d chainID escrowID =
     found ''get escrow by on-chain ID''
       (first_where (\<lambda>e. esc_ChainID e = chainID \<and> esc_EscrowID e = escrowID) (escrows d))"

definition upd_escrows :: "(escrow \<Rightarrow> bool) \<Rightarrow> (escrow \<Rightarrow> escrow) \<Rightarrow> db \<Rightarrow> db" where
  "upd_escrows p f d = d\<lparr>escrows := row_upd p f (escrows d)\<rparr>"

definition UpdateEscrowStatus :: "int \<Rightarrow> int \<Rightarrow> string \<Rightarrow> db \<Rightarrow> db" where
  "UpdateEscrowStatus now id1 status d =
     upd_escrows (\<lambda>e. esc_ID e = id1) (\<lambda>e. e\<lparr>esc_Status := status, esc_UpdatedAt := now\<rparr>) d"

definition TransitionEscrowStatus :: "int \<Rightarrow> int \<Rightarrow> string \<Rightarrow> string \<Rightarrow> db \<Rightarrow> db \<times> bool" where
  "TransitionEscrowStatus now id1 fromStatus toStatus d =
     (let p = (\<lambda>e. esc_ID e = id1 \<and> esc_Status e = fromStatus) in
      (upd_escrows p (\<lambda>e. e\<lparr>esc_Status := toStatus, esc_UpdatedAt := now\<rparr>) d,
       rows_affected p (escrows d) = 1))"

definition SetEscrowCreateTxHash ::
    "int \<Rightarrow> int \<Rightarrow> string \<Rightarrow> string \<Rightarrow> string \<Rightarrow> db \<Rightarrow> unit result" where
  "SetEscrowCreateTxHash now id1 txHash fromStatus toStatus d =
     (let p = (\<lambda>e. esc_ID e = id1 \<and> esc_Status e = fromStatus) in
      if rows_affected p (escrows d) = 0
      then (d, Inl (wrap (''SetEscrowCreateTxHash id='' @ int_str id1
                          @ '' expected_status='' @ fromStatus) ErrNoRows))
      else (upd_escrows p (\<lambda>e. e\<lparr>esc_CreateTxHash := txHash, esc_Status := toStatus,
                                 esc_UpdatedAt := now\<rparr>) d, Inr ()))"

definition FinalizeEscrowCreateTx ::
    "int \<Rightarrow> int \<Rightarrow> string \<Rightarrow> int \<Rightarrow> string \<Rightarrow> db \<Rightarrow> unit result" where
  "FinalizeEscrowCreateTx now id1 escrowAddress escrowID status d =
     (let p = (\<lambda>e. esc_ID e = id1 \<and> esc_Status e = ''pending_confirmation'') in
      if list_ex p (escrows d)
         \<and> list_ex (\<lambda>e. esc_ID e \<noteq> id1 \<and> esc_EscrowAddress e = escrowAddress) (escrows d)
      then (d, Inl (wrap ''FinalizeEscrowCreateTx'' (unique_err ''escrows.escrow_address'')))
      else if rows_affected p (escrows d) = 0
      then (d, Inl (wrap (''FinalizeEscrowCreateTx id='' @ int_str id1
                          @ '': not in pending_confirmation state or not found'') ErrNoRows))
      else (upd_escrows p (\<lambda>e. e\<lparr>esc_EscrowAddress := escrowAddress, esc_EscrowID := escrowID,
                                 esc_Status := status, esc_UpdatedAt := now\<rparr>) d, Inr ()))"

definition UpdateEscrowOnChainFields :: "int \<Rightarrow> int \<Rightarrow> string \<Rightarrow> int \<Rightarrow> db \<Rightarrow> unit result" where
  "UpdateEscrowOnChainFields now id1 escrowAddress escrowID d =
     (if row_get esc_ID (escrows d) id1 \<noteq> None
         \<and> list_ex (\<lambda>e. esc_ID e \<noteq> id1 \<and> esc_EscrowAddress e = escrowAddress) (escrows d)
      then (d, Inl (wrap ''UpdateEscrowOnChainFields'' (unique_err ''escrows.escrow_address'')))
      else (upd_escrows (\<lambda>e. esc_ID e = id1)
              (\<lambda>e. e\<lparr>esc_EscrowAddress := escrowAddress, esc_EscrowID := escrowID,
                     esc_UpdatedAt := now\<rparr>) d, Inr ()))"

definition ListEscrows :: "db \<Rightarrow> string \<Rightarrow> string \<Rightarrow> string \<Rightarrow> gerr + escrow list" where
  "ListEscrows d role address status =
     (let rows = rev (filter (\<lambda>e. status = [] \<or> esc_Status e = status) (escrows d)) in
      if role \<noteq> [] \<and> address \<noteq> [] then
        if role = ''buyer'' then Inr (filter (\<lambda>e. esc_Buyer e = address) rows)
        else if role = ''worker'' then Inr (filter (\<lambda>e. esc_Worker e = address) rows)
        else if role = ''verifier'' then
          (let a = ToLower address in
           Inr (filter (\<lambda>e. esc_Verifier e = a
                  \<or> sql_like (''%'' @ [CHR 0x22] @ a @ [CHR 0x22] @ ''%'') (esc_VerifierPanelJSON e)) rows))
        else if role = ''arbitrator'' then Inr (filter (\<lambda>e. esc_Arbitrator e = address) rows)
        else Inl (errors_New (''invalid role: '' @ role))
      else Inr rows)"

definition ListEscrowsByChainID :: "db \<Rightarrow> int \<Rightarrow> escrow list" where
  "ListEscrowsByChainID d chainID = rev (filter (\<lambda>e. esc_ChainID e = chainID) (escrows d))"

definition UpdateEscrowMilestoneProgress :: "int \<Rightarrow> int \<Rightarrow> int \<Rightarrow> db \<Rightarrow> unit result" where
  "UpdateEscrowMilestoneProgress now id1 currentMilestone d =
     (if row_get esc_ID (escrows d) id1 = None
      then (d, Inl (wrap (''UpdateEscrowMilestoneProgress id='' @ int_str id1) ErrNoRows))
      else (upd_escrows (\<lambda>e. esc_ID e = id1)
              (\<lambda>e. e\<lparr>esc_CurrentMilestone := currentMilestone, esc_UpdatedAt := now\<rparr>) d, Inr ()))"

definition UpdateEscrowBackupActivated :: "int \<Rightarrow> int \<Rightarrow> string \<Rightarrow> int \<Rightarrow> db \<Rightarrow> unit result" where
  "UpdateEscrowBackupActivated now id1 activeWorker newDeadline d =
     (if newDeadline \<ge> 2 ^ 63
      then (d, Inl (wrap ''UpdateEscrowBackupActivated'' uint64_high_bit_err))
      else if row_get esc_ID (escrows d) id1 = None
      then (d, Inl (wrap (''UpdateEscrowBackupActivated id='' @ int_str id1) ErrNoRows))
      else (upd_escrows (\<lambda>e. esc_ID e = id1)
              (\<lambda>e. e\<lparr>esc_ActiveWorker := activeWorker, esc_BackupActivated := True,
                     esc_SubmissionDeadline := newDeadline, esc_UpdatedAt := now\<rparr>) d, Inr ()))"

definition UpdateEscrowFrozen :: "int \<Rightarrow> int \<Rightarrow> bool \<Rightarrow> db \<Rightarrow> db" where
  "UpdateEscrowFrozen now id1 frozen d =
     upd_escrows (\<lambda>e. esc_ID e = id1) (\<lambda>e. e\<lparr>esc_Frozen := frozen, esc_UpdatedAt := now\<rparr>) d"

definition ListChildEscrows :: "db \<Rightarrow> int \<Rightarrow> escrow list" where
  "ListChildEscrows d parentEscrowID =
     filter (\<lambda>e. esc_ParentEscrowID e = Some parentEscrowID) (escrows d)"

section \<open>Submissions and disputes\<close>

definition CreateSubmission :: "int \<Rightarrow> int \<Rightarrow> string \<Rightarrow> string \<Rightarrow> string \<Rightarrow> db \<Rightarrow> submission result" where
  "CreateSubmission now escrowID submissionHash submissionURI proofHash d =
     (let proofHash = (if proofHash = [] then zero_hash else proofHash);
          s = \<lparr>sub_ID = next_id sub_ID (submissions d), sub_EscrowID = escrowID,
               sub_SubmissionHash = submissionHash, sub_SubmissionURI = submissionURI,
               sub_ProofHash = proofHash, sub_SubmittedAt = now\<rparr>
      in if \<not> hex_check 66 proofHash
         then (d, Inl (wrap ''insert submission'' (check_err ''proof_hash'')))
         else if row_get esc_ID (escrows d) escrowID = None
         then (d, Inl (wrap ''insert submission'' foreign_key_err))
         else (d\<lparr>submissions := row_add s (submissions d)\<rparr>, Inr s))"

definition GetSubmissionsByEscrow :: "db \<Rightarrow> int \<Rightarrow> submission list" where
  "GetSubmissionsByEscrow d escrowID = filter (\<lambda>s. sub_EscrowID s = escrowID) (submissions d)"

definition CreateDispute :: "int \<Rightarrow> int \<Rightarrow> string \<Rightarrow> string \<Rightarrow> db \<Rightarrow> dispute result" where
  "CreateDispute now escrowID raisedBy reasonURI d =
     (let r = \<lparr>dsp_ID = next_id dsp_ID (disputes d), dsp_EscrowID = escrowID,
               dsp_RaisedBy = raisedBy, dsp_ReasonURI = reasonURI, dsp_ResolutionURI = [],
               dsp_WorkerAwardBps = None, dsp_Status = ''open'', dsp_CreatedAt = now,
               dsp_ResolvedAt = None\<rparr>
      in if row_get esc_ID (escrows d) escrowID = None
         then (d, Inl (wrap ''insert dispute'' foreign_key_err))
         else (d\<lparr>disputes := row_add r (disputes d)\<rparr>, Inr r))"

definition UpdateDispute :: "int \<Rightarrow> int \<Rightarrow> string \<Rightarrow> int \<Rightarrow> db \<Rightarrow> db" where
  "UpdateDispute now id1 resolutionURI workerAwardBps d =
     d\<lparr>disputes := row_upd (\<lambda>r. dsp_ID r = id1)
         (\<lambda>r. r\<lparr>dsp_ResolutionURI := resolutionURI, dsp_WorkerAwardBps := Some workerAwardBps,
                 dsp_Status := ''resolved'', dsp_ResolvedAt := Some now\<rparr>) (disputes d)\<rparr>"

definition GetDispute :: "db \<Rightarrow> int \<Rightarrow> gerr + dispute" where
  "GetDispute d id1 = found ''get dispute'' (row_get dsp_ID (disputes d) id1)"

definition GetDisputeByEscrowID :: "db \<Rightarrow> int \<Rightarrow> gerr + dispute" where
  "GetDisputeByEscrowID d escrowID =
     (case last_where (\<lambda>r. dsp_EscrowID r = escrowID \<and> dsp_Status r \<noteq> ''resolved'') (disputes d) of
        None \<Rightarrow> Inl (wrap ''get dispute by escrow id'' ErrNoRows)
      | Some r \<Rightarrow> GetDispute d (dsp_ID r))"

section \<open>Milestones\<close>

definition createMilestoneOn :: "int \<Rightarrow> milestone \<Rightarrow> db \<Rightarrow> milestone result" where
  "createMilestoneOn now m d =
     (let row = \<lparr>ms_ID = next_id ms_ID (milestones d), ms_EscrowID = ms_EscrowID m,
                 ms_MilestoneIndex = ms_MilestoneIndex m, ms_Amount = ms_Amount m,
                 ms_SubmissionDeadline = ms_SubmissionDeadline m, ms_Status = ms_Status m,
                 ms_SubmissionHash = [], ms_SubmissionURI = [], ms_ProofHash = zero_hash,
                 ms_SubmittedAt = None, ms_ApprovedAt = None, ms_DisputedAt = None,
                 ms_DisputeReasonURI = [], ms_CreatedAt = now, ms_UpdatedAt = now\<rparr>
      in if list_ex (\<lambda>r. ms_EscrowID r = ms_EscrowID m \<and> ms_MilestoneIndex r = ms_MilestoneIndex m)
              (milestones d)
         then (d, Inl (wrap ''insert milestone'' (unique_err ''milestones.escrow_id, milestones.milestone_index'')))
         else if row_get esc_ID (escrows d) (ms_EscrowID m) = None
         then (d, Inl (wrap ''insert milestone'' foreign_key_err))
         else (d\<lparr>milestones := row_add row (milestones d)\<rparr>, Inr row))"

definition GetMilestone :: "db \<Rightarrow> int \<Rightarrow> gerr + milestone" where
  "GetMilestone d id1 = found ''get milestone'' (row_get ms_ID (milestones d) id1)"

definition GetMilestonesByEscrow :: "db \<Rightarrow> int \<Rightarrow> milestone list" where
  "GetMilestonesByEscrow d escrowID =
     sort_key ms_MilestoneIndex (filter (\<lambda>m. ms_EscrowID m = escrowID) (milestones d))"

definition is_milestone :: "int \<Rightarrow> int \<Rightarrow> milestone \<Rightarrow> bool" where
  "is_milestone escrowID milestoneIndex m \<longleftrightarrow>
     ms_EscrowID m = escrowID \<and> ms_MilestoneIndex m = milestoneIndex"

definition milestone_missing :: "string \<Rightarrow> int \<Rightarrow> int \<Rightarrow> gerr" where
  "milestone_missing f escrowID milestoneIndex =
     wrap (f @ '' escrow_id='' @ int_str escrowID @ '' milestone_index='' @ int_str milestoneIndex)
       ErrNoRows"

definition UpdateMilestoneStatus :: "int \<Rightarrow> int \<Rightarrow> int \<Rightarrow> string \<Rightarrow> db \<Rightarrow> unit result" where
  "UpdateMilestoneStatus now escrowID milestoneIndex status d =
     (if rows_affected (is_milestone escrowID milestoneIndex) (milestones d) = 0
      then (d, Inl (milestone_missing ''UpdateMilestoneStatus'' escrowID milestoneIndex))
      else (d\<lparr>milestones := row_upd (is_milestone escrowID milestoneIndex)
                 (\<lambda>m. m\<lparr>ms_Status := status, ms_UpdatedAt := now\<rparr>) (milestones d)\<rparr>, Inr ()))"

definition UpdateMilestoneSubmission ::
    "int \<Rightarrow> int \<Rightarrow> int \<Rightarrow> string \<Rightarrow> string \<Rightarrow> string \<Rightarrow> db \<Rightarrow> unit result" where
  "UpdateMilestoneSubmission now escrowID milestoneIndex hash uri proofHash d =
     (let proofHash = (if proofHash = [] then zero_hash else proofHash) in
      if rows_affected (is_milestone escrowID milestoneIndex) (milestones d) = 0
      then (d, Inl (milestone_missing ''UpdateMilestoneSubmission'' escrowID milestoneIndex))
      else if \<not> hex_check 66 proofHash
      then (d, Inl (wrap ''UpdateMilestoneSubmission'' (check_err ''proof_hash'')))
      else (d\<lparr>milestones := row_upd (is_milestone escrowID milestoneIndex)
                 (\<lambda>m. m\<lparr>ms_SubmissionHash := hash, ms_SubmissionURI := uri, ms_ProofHash := proofHash,
                         ms_SubmittedAt := Some now, ms_Status := ''submitted'',
                         ms_UpdatedAt := now\<rparr>) (milestones d)\<rparr>, Inr ()))"

section \<open>Chain logs and cursors\<close>

definition ChainLogExists :: "db \<Rightarrow> string \<Rightarrow> int \<Rightarrow> bool" where
  "ChainLogExists d txHash logIndex =
     list_ex (\<lambda>l. cl_TxHash l = txHash \<and> cl_LogIndex l = logIndex) (chain_logs d)"

definition CreateChainLog ::
    "int \<Rightarrow> string \<Rightarrow> int \<Rightarrow> int \<Rightarrow> string \<Rightarrow> string \<Rightarrow> string \<Rightarrow> db \<Rightarrow> db" where
  "CreateChainLog now txHash logIndex blockNumber eventName contractAddress rawData d =
     (if list_ex (\<lambda>l. cl_TxHash l = txHash \<and> cl_LogIndex l = logIndex) (chain_logs d) then d
      else d\<lparr>chain_logs := row_add
             \<lparr>cl_ID = next_id cl_ID (chain_logs d), cl_TxHash = txHash, cl_LogIndex = logIndex,
              cl_BlockNumber = blockNumber, cl_EventName = eventName,
              cl_ContractAddress = contractAddress, cl_RawData = rawData, cl_CreatedAt = now\<rparr>
             (chain_logs d)\<rparr>)"

definition EventExistsForContract :: "db \<Rightarrow> string \<Rightarrow> string \<Rightarrow> bool" where
  "EventExistsForContract d contractAddress eventName =
     list_ex (\<lambda>l. cl_ContractAddress l = contractAddress \<and> cl_EventName l = eventName) (chain_logs d)"

definition is_cursor :: "int \<Rightarrow> string \<Rightarrow> chain_cursor \<Rightarrow> bool" where
  "is_cursor chainID cursorKey c \<longleftrightarrow> cc_ChainID c = chainID \<and> cc_CursorKey c = cursorKey"

definition GetCursor :: "db \<Rightarrow> int \<Rightarrow> string \<Rightarrow> int" where
  "GetCursor d chainID cursorKey =
     (case first_where (is_cursor chainID cursorKey) (chain_cursors d) of
        None \<Rightarrow> 0 | Some c \<Rightarrow> cc_BlockNumber c)"

definition SetCursor :: "int \<Rightarrow> int \<Rightarrow> string \<Rightarrow> int \<Rightarrow> db \<Rightarrow> db" where
  "SetCursor now chainID cursorKey blockNumber d =
     (if rows_affected (is_cursor chainID cursorKey) (chain_cursors d) = 0
      then d\<lparr>chain_cursors := row_add
             \<lparr>cc_ID = next_id cc_ID (chain_cursors d), cc_ChainID = chainID, cc_CursorKey = cursorKey,
              cc_BlockNumber = blockNumber, cc_UpdatedAt = now\<rparr> (chain_cursors d)\<rparr>
      else d\<lparr>chain_cursors := row_upd (is_cursor chainID cursorKey)
             (\<lambda>c. c\<lparr>cc_BlockNumber := blockNumber, cc_UpdatedAt := now\<rparr>) (chain_cursors d)\<rparr>)"

section \<open>Reputation\<close>

text \<open>Go's zero time as a Unix second.\<close>

definition zero_time :: int where
  "zero_time = - 62135596800"

definition norm_addr :: "string \<Rightarrow> string" where
  "norm_addr s = ToLower (TrimSpace s)"

definition GetReputation :: "db \<Rightarrow> string \<Rightarrow> string \<Rightarrow> gerr + reputation" where
  "GetReputation d address role =
     found ''get reputation''
       (first_where (\<lambda>r. rep_Address r = norm_addr address \<and> rep_Role r = role) (reputations d))"

definition validateReputationRole :: "string \<Rightarrow> gerr option" where
  "validateReputationRole role =
     (if role \<in> {''worker'', ''buyer''} then None else Some (errors_New (''invalid role: '' @ role)))"

definition validateReputationOutcome :: "string \<Rightarrow> gerr option" where
  "validateReputationOutcome outcome =
     (if outcome \<in> {''completed'', ''disputed'', ''failed''} then None
      else Some (errors_New (''invalid outcome: '' @ outcome)))"

definition bump :: "string \<Rightarrow> int \<Rightarrow> reputation \<Rightarrow> reputation" where
  "bump outcome now r =
     (if outcome = ''completed'' then r\<lparr>rep_Completed := rep_Completed r + 1, rep_UpdatedAt := now\<rparr>
      else if outcome = ''disputed'' then r\<lparr>rep_Disputed := rep_Disputed r + 1, rep_UpdatedAt := now\<rparr>
      else r\<lparr>rep_Failed := rep_Failed r + 1, rep_UpdatedAt := now\<rparr>)"

definition upsertReputationOn :: "int \<Rightarrow> string \<Rightarrow> string \<Rightarrow> string \<Rightarrow> db \<Rightarrow> unit result" where
  "upsertReputationOn now address role outcome d =
     (case validateReputationOutcome outcome of
        Some e \<Rightarrow> (d, Inl e)
      | None \<Rightarrow>
        (let p = (\<lambda>r. rep_Address r = address \<and> rep_Role r = role) in
         if role \<notin> {''worker'', ''buyer''}
         then (d, Inl (wrap ''upsert reputation'' (check_err ''role'')))
         else if rows_affected p (reputations d) = 0
         then (d\<lparr>reputations := row_add
                 (bump outcome now \<lparr>rep_ID = next_id rep_ID (reputations d), rep_Address = address,
                    rep_Role = role, rep_Completed = 0, rep_Disputed = 0, rep_Failed = 0,
                    rep_UpdatedAt = now\<rparr>) (reputations d)\<rparr>, Inr ())
         else (d\<lparr>reputations := row_upd p (bump outcome now) (reputations d)\<rparr>, Inr ())))"

definition UpsertReputation :: "int \<Rightarrow> string \<Rightarrow> string \<Rightarrow> string \<Rightarrow> db \<Rightarrow> unit result" where
  "UpsertReputation now address role outcome d =
     (if norm_addr address = [] then (d, Inl (errors_New ''address is required''))
      else case validateReputationRole role of
        Some e \<Rightarrow> (d, Inl e)
      | None \<Rightarrow> upsertReputationOn now (norm_addr address) role outcome d)"

text \<open>\<open>INSERT OR IGNORE\<close> under the unique index on (tx_hash, log_index, lower(address),
  role); \<open>gonow\<close> is Go's clock, used for an event without a time.\<close>

definition insertReputationEventOn ::
    "int \<Rightarrow> int \<Rightarrow> reputation_event option \<Rightarrow> db \<Rightarrow> bool result" where
  "insertReputationEventOn now gonow ev d =
     (case ev of None \<Rightarrow> (d, Inl (errors_New ''reputation event is required''))
      | Some e \<Rightarrow>
        (case validateReputationRole (rev_Role e) of Some x \<Rightarrow> (d, Inl x)
         | None \<Rightarrow>
           (case validateReputationOutcome (rev_Outcome e) of Some x \<Rightarrow> (d, Inl x)
            | None \<Rightarrow>
              if blank (rev_Address e)
              then (d, Inl (errors_New ''reputation event address is required''))
              else if blank (rev_TxHash e)
              then (d, Inl (errors_New ''reputation event tx_hash is required''))
              else
                let row = e\<lparr>rev_ID := next_id rev_ID (reputation_events d),
                            rev_Address := norm_addr (rev_Address e),
                            rev_TxHash := norm_addr (rev_TxHash e),
                            rev_OccurredAt := (if rev_OccurredAt e = zero_time then gonow
                                               else rev_OccurredAt e),
                            rev_CreatedAt := now\<rparr>
                in if list_ex (\<lambda>r. rev_TxHash r = rev_TxHash row \<and> rev_LogIndex r = rev_LogIndex row
                          \<and> ToLower (rev_Address r) = ToLower (rev_Address row)
                          \<and> rev_Role r = rev_Role row) (reputation_events d)
                   then (d, Inr False)
                   else (d\<lparr>reputation_events := row_add row (reputation_events d)\<rparr>, Inr True))))"

text \<open>One transaction: on an error the database is the one before it.\<close>

definition RecordReputationOutcome ::
    "int \<Rightarrow> int \<Rightarrow> reputation_event option \<Rightarrow> db \<Rightarrow> unit result" where
  "RecordReputationOutcome now gonow ev d =
     (case insertReputationEventOn now gonow ev d of
        (_, Inl x) \<Rightarrow> (d, Inl x)
      | (d1, Inr False) \<Rightarrow> (d1, Inr ())
      | (d1, Inr True) \<Rightarrow>
          (case ev of None \<Rightarrow> (d1, Inr ())
           | Some e \<Rightarrow>
             (case upsertReputationOn now (norm_addr (rev_Address e)) (rev_Role e) (rev_Outcome e) d1 of
                (_, Inl x) \<Rightarrow> (d, Inl x)
              | (d2, Inr _) \<Rightarrow> (d2, Inr ()))))"

definition maxReputationEvents :: int where
  "maxReputationEvents = 10000"

definition ListReputationEvents :: "db \<Rightarrow> string \<Rightarrow> string \<Rightarrow> int \<Rightarrow> gerr + reputation_event list" where
  "ListReputationEvents d address role limit =
     (case validateReputationRole role of Some e \<Rightarrow> Inl e
      | None \<Rightarrow>
        let limit = (if limit \<le> 0 then 1 else if limit > maxReputationEvents then maxReputationEvents
                     else limit);
            newest_first = rev (sort_key rev_OccurredAt
              (filter (\<lambda>r. rev_Address r = norm_addr address \<and> rev_Role r = role) (reputation_events d)))
        in Inr (rev (take (nat limit) newest_first)))"

section \<open>Emergency records\<close>

definition UpsertFrozenAddress :: "int \<Rightarrow> string \<Rightarrow> string \<Rightarrow> string \<Rightarrow> db \<Rightarrow> db" where
  "UpsertFrozenAddress now address reason frozenBy d =
     (let row = \<lparr>fz_Address = address, fz_FrozenAt = now, fz_Reason = reason, fz_FrozenBy = frozenBy\<rparr>
      in if row_get fz_Address (frozen_addresses d) address = None
         then d\<lparr>frozen_addresses := row_add row (frozen_addresses d)\<rparr>
         else d\<lparr>frozen_addresses := row_upd (\<lambda>r. fz_Address r = address) (\<lambda>_. row) (frozen_addresses d)\<rparr>)"

definition DeleteFrozenAddress :: "string \<Rightarrow> db \<Rightarrow> db" where
  "DeleteFrozenAddress address d =
     d\<lparr>frozen_addresses := filter (\<lambda>r. fz_Address r \<noteq> address) (frozen_addresses d)\<rparr>"

definition IsFrozenAddress :: "db \<Rightarrow> string \<Rightarrow> bool" where
  "IsFrozenAddress d address = (row_get fz_Address (frozen_addresses d) address \<noteq> None)"

definition CreateEmergencyAction ::
    "int \<Rightarrow> string \<Rightarrow> string \<Rightarrow> string \<Rightarrow> string \<Rightarrow> string \<Rightarrow> db \<Rightarrow> db" where
  "CreateEmergencyAction now action target escrowID reason txHash d =
     d\<lparr>emergency_actions := row_add
         \<lparr>em_ID = next_id em_ID (emergency_actions d), em_Action = action, em_Target = target,
          em_EscrowID = escrowID, em_Reason = reason, em_CreatedAt = now, em_TxHash = txHash\<rparr>
         (emergency_actions d)\<rparr>"

definition ListEmergencyActions :: "db \<Rightarrow> int \<Rightarrow> int \<Rightarrow> emergency_action list" where
  "ListEmergencyActions d limit offset =
     take (nat (if limit \<le> 0 then 50 else limit))
       (drop (nat (if offset < 0 then 0 else offset)) (rev (emergency_actions d)))"

section \<open>Capability tokens\<close>

definition CreateDCTToken :: "int \<Rightarrow> dct_token \<Rightarrow> db \<Rightarrow> dct_token result" where
  "CreateDCTToken now t d =
     (let row = t\<lparr>dct_ID := next_id dct_ID (dct_tokens d), dct_RevokedAt := None,
                  dct_RevocationReason := [], dct_RevokedBy := [],
                  dct_CreatedAt := now, dct_UpdatedAt := now\<rparr>
      in if list_ex (\<lambda>r. dct_TokenHash r = dct_TokenHash t) (dct_tokens d)
         then (d, Inl (wrap ''insert dct token'' (unique_err ''dct_tokens.token_hash'')))
         else if row_get dct_TokenID (dct_tokens d) (dct_TokenID t) \<noteq> None
         then (d, Inl (wrap ''insert dct token'' (unique_err ''dct_tokens.token_id'')))
         else if row_get esc_ID (escrows d) (dct_EscrowID t) = None
         then (d, Inl (wrap ''insert dct token'' foreign_key_err))
         else (d\<lparr>dct_tokens := row_add row (dct_tokens d)\<rparr>, Inr row))"

definition GetDCTTokenByID :: "db \<Rightarrow> int \<Rightarrow> gerr + dct_token" where
  "GetDCTTokenByID d id1 = found ''get dct token by id'' (row_get dct_ID (dct_tokens d) id1)"

definition GetDCTTokenByTokenID :: "db \<Rightarrow> string \<Rightarrow> gerr + dct_token" where
  "GetDCTTokenByTokenID d tokenID =
     found ''get dct token by token_id'' (row_get dct_TokenID (dct_tokens d) tokenID)"

definition GetDCTTokenByTokenHash :: "db \<Rightarrow> string \<Rightarrow> gerr + dct_token" where
  "GetDCTTokenByTokenHash d tokenHash =
     found ''get dct token by token_hash'' (row_get dct_TokenHash (dct_tokens d) tokenHash)"

definition mark_revoked :: "int \<Rightarrow> string \<Rightarrow> string \<Rightarrow> dct_token \<Rightarrow> dct_token" where
  "mark_revoked now reason revokedBy t =
     t\<lparr>dct_RevokedAt := Some now, dct_RevocationReason := reason, dct_RevokedBy := revokedBy,
       dct_UpdatedAt := now\<rparr>"

definition revoke_where ::
    "(dct_token \<Rightarrow> bool) \<Rightarrow> int \<Rightarrow> string \<Rightarrow> string \<Rightarrow> db \<Rightarrow> db" where
  "revoke_where p now reason revokedBy d =
     d\<lparr>dct_tokens := row_upd (\<lambda>t. p t \<and> dct_RevokedAt t = None) (mark_revoked now reason revokedBy)
                     (dct_tokens d)\<rparr>"

definition RevokeDCTToken :: "int \<Rightarrow> string \<Rightarrow> string \<Rightarrow> string \<Rightarrow> db \<Rightarrow> unit result" where
  "RevokeDCTToken now tokenID reason revokedBy d =
     (if rows_affected (\<lambda>t. dct_TokenID t = tokenID \<and> dct_RevokedAt t = None) (dct_tokens d) > 0
      then (revoke_where (\<lambda>t. dct_TokenID t = tokenID) now reason revokedBy d, Inr ())
      else case row_get dct_TokenID (dct_tokens d) tokenID of
        None \<Rightarrow> (d, Inl ErrNoRows)
      | Some t \<Rightarrow> if dct_RevokedAt t \<noteq> None then (d, Inr ()) else (d, Inl ErrNoRows))"

definition RevokeDCTTokensByEscrow :: "int \<Rightarrow> int \<Rightarrow> string \<Rightarrow> string \<Rightarrow> db \<Rightarrow> db \<times> nat" where
  "RevokeDCTTokensByEscrow now escrowID reason revokedBy d =
     (revoke_where (\<lambda>t. dct_EscrowID t = escrowID) now reason revokedBy d,
      rows_affected (\<lambda>t. dct_EscrowID t = escrowID \<and> dct_RevokedAt t = None) (dct_tokens d))"

definition ListDCTTokensByEscrow :: "db \<Rightarrow> int \<Rightarrow> dct_token list" where
  "ListDCTTokensByEscrow d escrowID = rev (filter (\<lambda>t. dct_EscrowID t = escrowID) (dct_tokens d))"

section \<open>Emergency transactions\<close>

definition RecordFreezeEscrowAndRevokeDCT :: "int \<Rightarrow> int \<Rightarrow> string \<Rightarrow> string \<Rightarrow> db \<Rightarrow> db" where
  "RecordFreezeEscrowAndRevokeDCT now escrowID escrowAddress txHash d =
     CreateEmergencyAction now ''freeze_escrow'' escrowAddress [] [] txHash
       (revoke_where (\<lambda>t. dct_EscrowID t = escrowID) now ''escrow_frozen'' ''emergency''
         (UpdateEscrowFrozen now escrowID True d))"

definition RecordEmergencyResolveAndRevokeDCT ::
    "int \<Rightarrow> int \<Rightarrow> string \<Rightarrow> nat \<Rightarrow> string \<Rightarrow> db \<Rightarrow> db" where
  "RecordEmergencyResolveAndRevokeDCT now escrowID escrowAddress workerAwardBps txHash d =
     CreateEmergencyAction now ''emergency_resolve'' escrowAddress []
       (''workerAwardBps='' @ nat_str workerAwardBps) txHash
       (revoke_where (\<lambda>t. dct_EscrowID t = escrowID) now ''emergency_resolve'' ''emergency''
         (UpdateEscrowStatus now escrowID ''resolved'' d))"

section \<open>Lemmas\<close>

lemma frame_tables [simp, frame]:
  "escrows (revoke_where p now reason rb d) = escrows d"
  "dct_audit (revoke_where p now reason rb d) = dct_audit d"
  "escrows (CreateEmergencyAction now a t i r h d) = escrows d"
  "dct_tokens (CreateEmergencyAction now a t i r h d) = dct_tokens d"
  "dct_tokens (upd_escrows q f d) = dct_tokens d"
  "dct_tokens (UpdateEscrowFrozen now n b d) = dct_tokens d"
  "dct_tokens (UpdateEscrowStatus now n st d) = dct_tokens d"
  by (simp_all add: revoke_where_def CreateEmergencyAction_def upd_escrows_def
      UpdateEscrowFrozen_def UpdateEscrowStatus_def)

lemma mark_revoked_simps [simp]:
  "dct_TokenID (mark_revoked now r b t) = dct_TokenID t"
  "dct_EscrowID (mark_revoked now r b t) = dct_EscrowID t"
  "dct_ParentTokenID (mark_revoked now r b t) = dct_ParentTokenID t"
  "dct_OperationsJSON (mark_revoked now r b t) = dct_OperationsJSON t"
  "dct_ResourcesJSON (mark_revoked now r b t) = dct_ResourcesJSON t"
  "dct_ExpiresAt (mark_revoked now r b t) = dct_ExpiresAt t"
  "dct_TokenHash (mark_revoked now r b t) = dct_TokenHash t"
  "dct_RevokedAt (mark_revoked now r b t) = Some now"
  by (simp_all add: mark_revoked_def)

lemma token_revoke_where [simp]:
  "row_get dct_TokenID (dct_tokens (revoke_where p now r b d)) k =
     map_option (\<lambda>t. if p t \<and> dct_RevokedAt t = None then mark_revoked now r b t else t)
       (row_get dct_TokenID (dct_tokens d) k)"
  by (simp add: revoke_where_def row_get_upd)

lemma escrow_upd_escrows:
  "(\<And>e. esc_ID (f e) = esc_ID e) \<Longrightarrow>
     row_get esc_ID (escrows (upd_escrows p f d)) k =
       map_option (\<lambda>e. if p e then f e else e) (row_get esc_ID (escrows d) k)"
  by (simp add: upd_escrows_def row_get_upd)

lemma escrow_after_freeze [simp]:
  "row_get esc_ID (escrows (UpdateEscrowFrozen now i b d)) k =
     map_option (\<lambda>e. if esc_ID e = i then e\<lparr>esc_Frozen := b, esc_UpdatedAt := now\<rparr> else e)
       (row_get esc_ID (escrows d) k)"
  by (simp add: UpdateEscrowFrozen_def escrow_upd_escrows)

lemma escrow_after_status [simp]:
  "row_get esc_ID (escrows (UpdateEscrowStatus now i st d)) k =
     map_option (\<lambda>e. if esc_ID e = i then e\<lparr>esc_Status := st, esc_UpdatedAt := now\<rparr> else e)
       (row_get esc_ID (escrows d) k)"
  by (simp add: UpdateEscrowStatus_def escrow_upd_escrows)

lemma CreateDCTToken_ok:
  "CreateDCTToken now t d = (d', Inr row) \<Longrightarrow>
     d' = d\<lparr>dct_tokens := row_add row (dct_tokens d)\<rparr>
     \<and> row = t\<lparr>dct_ID := next_id dct_ID (dct_tokens d), dct_RevokedAt := None,
               dct_RevocationReason := [], dct_RevokedBy := [],
               dct_CreatedAt := now, dct_UpdatedAt := now\<rparr>
     \<and> row_get dct_TokenID (dct_tokens d) (dct_TokenID t) = None
     \<and> row_get esc_ID (escrows d) (dct_EscrowID t) \<noteq> None"
  by (auto simp: CreateDCTToken_def Let_def split: if_splits)

lemma CreateDCTToken_err: "CreateDCTToken now t d = (d', Inl e) \<Longrightarrow> d' = d"
  by (auto simp: CreateDCTToken_def Let_def split: if_splits)

lemma escrow_row_ID [simp]: "esc_ID (escrow_row now e d) = next_id esc_ID (escrows d)"
  by (simp add: escrow_row_def Let_def)

lemma if_resultE:
  "(if c then (d, Inl x) else m) = (d', r) \<Longrightarrow> (c \<Longrightarrow> d' = d \<Longrightarrow> r = Inl x \<Longrightarrow> P) \<Longrightarrow>
     (\<not> c \<Longrightarrow> m = (d', r) \<Longrightarrow> P) \<Longrightarrow> P"
  by (auto split: if_splits)

lemma createEscrowOn_cases:
  "createEscrowOn now e d = (d', r) \<Longrightarrow>
     d' = d \<and> (\<exists>x. r = Inl x)
     \<or> d' = d\<lparr>escrows := row_add (escrow_row now e d) (escrows d)\<rparr> \<and> r = Inr (escrow_row now e d)"
  unfolding createEscrowOn_def Let_def by (elim if_resultE) blast+

end
