(* ===== verification/BidStore.thy ===== *)
theory BidStore
  imports Storage JsonValue
begin

text \<open>
  The queries of \<open>internal/storage/queries.go\<close> on RFQs, bids, bid commits and the discipline of
  sealed bidders, in the style of theory \<open>Storage\<close>. A commit moves from \<open>committed\<close> to \<open>revealed\<close>,
  \<open>superseded\<close>, \<open>rejected\<close> or \<open>expired\<close>, and from \<open>revealed\<close> to \<open>accepted\<close> or \<open>rejected\<close>; each UPDATE
  guards the status it leaves, except the one that marks the commit of an accepted bid.
\<close>

section \<open>Transactions\<close>

text \<open>A failed transaction is rolled back to the database it started from.\<close>

definition in_tx :: "db \<Rightarrow> 'a result \<Rightarrow> 'a result" where
  "in_tx d r = (case r of (_, Inl e) \<Rightarrow> (d, Inl e) | (d', Inr x) \<Rightarrow> (d', Inr x))"

lemma in_tx_Inr [err_iff]: "in_tx d r = (d', Inr x) \<longleftrightarrow> r = (d', Inr x)"
  by (auto simp: in_tx_def split: prod.splits sum.splits)

lemma in_tx_Inl [err_iff]: "in_tx d r = (d', Inl e) \<longleftrightarrow> d' = d \<and> (\<exists>d1. r = (d1, Inl e))"
  by (auto simp: in_tx_def split: prod.splits sum.splits)

lemma in_tx_error: "snd (in_tx d r) = Inl e \<Longrightarrow> fst (in_tx d r) = d"
  by (auto simp: in_tx_def split: prod.splits sum.splits)

section \<open>RFQs\<close>

definition rfq_row :: "int \<Rightarrow> rfq \<Rightarrow> db \<Rightarrow> rfq" where
  "rfq_row now r d = r\<lparr>rfq_ID := next_id rfq_ID (rfqs d), rfq_CreatedAt := now, rfq_UpdatedAt := now\<rparr>"

definition createRFQOn :: "int \<Rightarrow> rfq \<Rightarrow> db \<Rightarrow> rfq result" where
  "createRFQOn now r d =
     (let row = rfq_row now r d in
      if rfq_Status r \<notin> {''open'', ''closed'', ''cancelled'', ''expired''}
      then (d, Inl (wrap ''insert rfq'' (check_err ''status'')))
      else if rfq_ServiceTier r \<notin> {0, 1}
      then (d, Inl (wrap ''insert rfq'' (check_err ''service_tier'')))
      else if (case rfq_ParentEscrowID r of None \<Rightarrow> False | Some p \<Rightarrow> row_get esc_ID (escrows d) p = None)
              \<or> (case rfq_BestBidID r of None \<Rightarrow> False | Some b \<Rightarrow> row_get bid_ID (bids d) b = None)
      then (d, Inl (wrap ''insert rfq'' foreign_key_err))
      else (d\<lparr>rfqs := row_add row (rfqs d)\<rparr>, Inr row))"

definition GetRFQ :: "db \<Rightarrow> int \<Rightarrow> gerr + rfq" where
  "GetRFQ d id1 = found ''get rfq'' (row_get rfq_ID (rfqs d) id1)"

definition UpdateRFQSealedBiddingState ::
    "int \<Rightarrow> int \<Rightarrow> string \<Rightarrow> string \<Rightarrow> int option \<Rightarrow> int \<Rightarrow> db \<Rightarrow> unit result" where
  "UpdateRFQSealedBiddingState now rfqID sealedBidStatus selectionRule bestBidID finalizedAt d =
     (if rows_affected (\<lambda>r. rfq_ID r = rfqID) (rfqs d) \<noteq> 0
         \<and> (case bestBidID of None \<Rightarrow> False | Some b \<Rightarrow> row_get bid_ID (bids d) b = None)
      then (d, Inl (wrap ''update rfq sealed bidding state'' foreign_key_err))
      else if rows_affected (\<lambda>r. rfq_ID r = rfqID) (rfqs d) = 0
      then (d, Inl (wrap (''update rfq sealed bidding state id='' @ int_str rfqID) ErrNoRows))
      else (d\<lparr>rfqs := row_upd (\<lambda>r. rfq_ID r = rfqID)
                 (\<lambda>r. r\<lparr>rfq_SealedBidStatus := sealedBidStatus, rfq_SealedBidSelectionRule := selectionRule,
                        rfq_BestBidID := bestBidID, rfq_SealedBidFinalizedAt := finalizedAt,
                        rfq_UpdatedAt := now\<rparr>) (rfqs d)\<rparr>, Inr ()))"

text \<open>The latest by creation time, then by id.\<close>

definition GetLatestRFQByParentEscrow :: "db \<Rightarrow> int \<Rightarrow> rfq option" where
  "GetLatestRFQByParentEscrow d p =
     (case rev (sort_key rfq_CreatedAt (sort_key rfq_ID (filter (\<lambda>r. rfq_ParentEscrowID r = Some p) (rfqs d)))) of
        [] \<Rightarrow> None | r # _ \<Rightarrow> Some r)"

definition ParentRFQCooldownError :: "int \<Rightarrow> int \<Rightarrow> gerr" where
  "ParentRFQCooldownError p cooldown =
     Sentinel ''storage.ParentRFQCooldownError''
       (''parent rfq cooldown active for parent_escrow_id '' @ int_str p @ '' (cooldown_seconds=''
        @ int_str cooldown @ '')'')"

definition CreateRFQWithParentCooldown :: "int \<Rightarrow> rfq \<Rightarrow> int \<Rightarrow> db \<Rightarrow> rfq result" where
  "CreateRFQWithParentCooldown now r cooldown d =
     (if rfq_ParentEscrowID r = None \<or> cooldown \<le> 0 then createRFQOn now r d
      else let p = the (rfq_ParentEscrowID r) in
        (case GetLatestRFQByParentEscrow d p of
           None \<Rightarrow> in_tx d (createRFQOn now r d)
         | Some latest \<Rightarrow>
             if now < rfq_CreatedAt latest + cooldown then (d, Inl (ParentRFQCooldownError p cooldown))
             else in_tx d (createRFQOn now r d)))"

definition ListRFQs :: "db \<Rightarrow> string \<Rightarrow> string \<Rightarrow> rfq list" where
  "ListRFQs d status buyer =
     rev (sort_key rfq_ID (filter (\<lambda>r. (status = [] \<or> rfq_Status r = status) \<and> (buyer = [] \<or> rfq_Buyer r = buyer))
       (rfqs d)))"

definition UpdateRFQStatus :: "int \<Rightarrow> int \<Rightarrow> string \<Rightarrow> db \<Rightarrow> unit result" where
  "UpdateRFQStatus now id1 status d =
     (if rows_affected (\<lambda>r. rfq_ID r = id1) (rfqs d) = 0
      then (d, Inl (wrap (''UpdateRFQStatus id='' @ int_str id1) ErrNoRows))
      else if status \<notin> {''open'', ''closed'', ''cancelled'', ''expired''}
      then (d, Inl (wrap ''UpdateRFQStatus'' (check_err ''status'')))
      else (d\<lparr>rfqs := row_upd (\<lambda>r. rfq_ID r = id1) (\<lambda>r. r\<lparr>rfq_Status := status, rfq_UpdatedAt := now\<rparr>)
                 (rfqs d)\<rparr>, Inr ()))"

section \<open>Bids\<close>

definition bid_row :: "int \<Rightarrow> bid \<Rightarrow> db \<Rightarrow> bid" where
  "bid_row now b d =
     b\<lparr>bid_ID := next_id bid_ID (bids d), bid_EscrowID := None,
       bid_CredentialsJSON := (if bid_CredentialsJSON b = [] then ''[]'' else bid_CredentialsJSON b),
       bid_CredentialMatchSummary :=
         (if bid_CredentialMatchSummary b = [] then ''{}'' else bid_CredentialMatchSummary b),
       bid_CreatedAt := now, bid_UpdatedAt := now\<rparr>"

definition bid_statuses :: "string list" where
  "bid_statuses = [''pending'', ''accepted'', ''rejected'', ''withdrawn'', ''expired'']"

definition createBidOn :: "int \<Rightarrow> bid \<Rightarrow> db \<Rightarrow> bid result" where
  "createBidOn now b d =
     (let row = bid_row now b d in
      if bid_Status b \<notin> set bid_statuses then (d, Inl (wrap ''insert bid'' (check_err ''status'')))
      else if row_get rfq_ID (rfqs d) (bid_RFQID b) = None
              \<or> bid_StakeMandateID b \<noteq> [] \<and> row_get man_ID (ap2_mandates d) (bid_StakeMandateID b) = None
      then (d, Inl (wrap ''insert bid'' foreign_key_err))
      else (d\<lparr>bids := row_add row (bids d)\<rparr>, Inr row))"

definition GetBid :: "db \<Rightarrow> int \<Rightarrow> gerr + bid" where
  "GetBid d id1 = found ''get bid'' (row_get bid_ID (bids d) id1)"

definition ListBidsByRFQ :: "db \<Rightarrow> int \<Rightarrow> bid list" where
  "ListBidsByRFQ d rfqID = rev (sort_key bid_ID (filter (\<lambda>b. bid_RFQID b = rfqID) (bids d)))"

definition ListBidsByBidder :: "db \<Rightarrow> string \<Rightarrow> bid list" where
  "ListBidsByBidder d bidder = rev (sort_key bid_ID (filter (\<lambda>b. bid_Bidder b = bidder) (bids d)))"

definition UpdateBidStatus :: "int \<Rightarrow> int \<Rightarrow> string \<Rightarrow> db \<Rightarrow> unit result" where
  "UpdateBidStatus now id1 status d =
     (if rows_affected (\<lambda>b. bid_ID b = id1) (bids d) = 0
      then (d, Inl (wrap (''UpdateBidStatus id='' @ int_str id1) ErrNoRows))
      else if status \<notin> set bid_statuses then (d, Inl (wrap ''UpdateBidStatus'' (check_err ''status'')))
      else (d\<lparr>bids := row_upd (\<lambda>b. bid_ID b = id1) (\<lambda>b. b\<lparr>bid_Status := status, bid_UpdatedAt := now\<rparr>)
                 (bids d)\<rparr>, Inr ()))"

definition UpdateBidCredentialVerification :: "int \<Rightarrow> int \<Rightarrow> bool \<Rightarrow> string \<Rightarrow> db \<Rightarrow> unit result" where
  "UpdateBidCredentialVerification now bidID verified matchSummary d =
     (let summary = (if matchSummary = [] then ''{}'' else matchSummary) in
      if parse_json summary = None
      then (d, Inl (errors_New (''UpdateBidCredentialVerification bid='' @ int_str bidID
                     @ '': matchSummary is not valid JSON'')))
      else if rows_affected (\<lambda>b. bid_ID b = bidID) (bids d) = 0
      then (d, Inl (wrap (''UpdateBidCredentialVerification bid='' @ int_str bidID) ErrNoRows))
      else (d\<lparr>bids := row_upd (\<lambda>b. bid_ID b = bidID)
                 (\<lambda>b. b\<lparr>bid_CredentialVerified := verified, bid_CredentialMatchSummary := summary,
                        bid_UpdatedAt := now\<rparr>) (bids d)\<rparr>, Inr ()))"

definition acceptable :: "int \<Rightarrow> bid \<Rightarrow> bool" where
  "acceptable bidID b \<longleftrightarrow> bid_ID b = bidID \<and> bid_Status b = ''pending''"

definition acceptBidOn :: "int \<Rightarrow> int \<Rightarrow> int \<Rightarrow> db \<Rightarrow> unit result" where
  "acceptBidOn now bidID escrowID d =
     (if rows_affected (acceptable bidID) (bids d) = 0
      then (d, Inl (wrap (''AcceptBid bid='' @ int_str bidID @ '': not pending or does not exist'') ErrNoRows))
      else if row_get esc_ID (escrows d) escrowID = None
      then (d, Inl (wrap ''AcceptBid'' foreign_key_err))
      else (d\<lparr>bids := row_upd (acceptable bidID)
                 (\<lambda>b. b\<lparr>bid_Status := ''accepted'', bid_EscrowID := Some escrowID, bid_UpdatedAt := now\<rparr>)
                 (bids d)\<rparr>, Inr ()))"

definition RejectPendingBids :: "int \<Rightarrow> int \<Rightarrow> int \<Rightarrow> db \<Rightarrow> db" where
  "RejectPendingBids now rfqID exceptBidID d =
     d\<lparr>bids := row_upd (\<lambda>b. bid_RFQID b = rfqID \<and> bid_ID b \<noteq> exceptBidID \<and> bid_Status b = ''pending'')
                 (\<lambda>b. b\<lparr>bid_Status := ''rejected'', bid_UpdatedAt := now\<rparr>) (bids d)\<rparr>"

section \<open>Bid commits\<close>

definition ErrDuplicateBidCommitNonce :: gerr where
  "ErrDuplicateBidCommitNonce =
     Sentinel ''storage.ErrDuplicateBidCommitNonce'' ''duplicate bid commit nonce''"

definition ErrDuplicateBidCommitCommitment :: gerr where
  "ErrDuplicateBidCommitCommitment =
     Sentinel ''storage.ErrDuplicateBidCommitCommitment'' ''duplicate bid commit commitment''"

definition ErrSealedBidCooldownActive :: gerr where
  "ErrSealedBidCooldownActive =
     Sentinel ''storage.ErrSealedBidCooldownActive'' ''sealed bid cooldown active''"

definition commit_statuses :: "string list" where
  "commit_statuses =
     [''committed'', ''revealed'', ''accepted'', ''rejected'', ''withdrawn'', ''expired'', ''superseded'']"

definition commit_by_nonce :: "int \<Rightarrow> string \<Rightarrow> string \<Rightarrow> bid_commit \<Rightarrow> bool" where
  "commit_by_nonce rfqID bidder nonce c \<longleftrightarrow> bc_RFQID c = rfqID \<and> bc_Bidder c = bidder \<and> bc_Nonce c = nonce"

definition commit_by_commitment :: "int \<Rightarrow> string \<Rightarrow> string \<Rightarrow> bid_commit \<Rightarrow> bool" where
  "commit_by_commitment rfqID bidder commitment c \<longleftrightarrow>
     bc_RFQID c = rfqID \<and> bc_Bidder c = bidder \<and> bc_Commitment c = commitment"

definition commit_row :: "int \<Rightarrow> bid_commit \<Rightarrow> db \<Rightarrow> bid_commit" where
  "commit_row now c d =
     c\<lparr>bc_ID := next_id bc_ID (bid_commits d), bc_CreatedAt := now, bc_UpdatedAt := now\<rparr>"

definition createBidCommitOn :: "int \<Rightarrow> bid_commit \<Rightarrow> db \<Rightarrow> bid_commit result" where
  "createBidCommitOn now c d =
     (let row = commit_row now c d in
      if bc_Status c \<notin> set commit_statuses then (d, Inl (wrap ''insert bid_commit'' (check_err ''status'')))
      else if bc_RevealedBidID c \<noteq> None
              \<and> list_ex (\<lambda>r. bc_RevealedBidID r = bc_RevealedBidID c) (bid_commits d)
      then (d, Inl (wrap ''insert bid_commit'' (unique_err ''bid_commits.revealed_bid_id'')))
      else if list_ex (commit_by_commitment (bc_RFQID c) (bc_Bidder c) (bc_Commitment c)) (bid_commits d)
      then (d, Inl (wrap ''insert bid_commit'' ErrDuplicateBidCommitCommitment))
      else if list_ex (commit_by_nonce (bc_RFQID c) (bc_Bidder c) (bc_Nonce c)) (bid_commits d)
      then (d, Inl (wrap ''insert bid_commit'' ErrDuplicateBidCommitNonce))
      else if row_get rfq_ID (rfqs d) (bc_RFQID c) = None
              \<or> (case bc_RevealedBidID c of None \<Rightarrow> False | Some b \<Rightarrow> row_get bid_ID (bids d) b = None)
      then (d, Inl (wrap ''insert bid_commit'' foreign_key_err))
      else (d\<lparr>bid_commits := row_add row (bid_commits d)\<rparr>, Inr row))"

definition GetBidCommit :: "db \<Rightarrow> int \<Rightarrow> gerr + bid_commit" where
  "GetBidCommit d id1 = found ''get bid_commit'' (row_get bc_ID (bid_commits d) id1)"

definition GetBidCommitByRFQBidderNonce :: "db \<Rightarrow> int \<Rightarrow> string \<Rightarrow> string \<Rightarrow> gerr + bid_commit" where
  "GetBidCommitByRFQBidderNonce d rfqID bidder nonce =
     found ''get bid_commit by nonce'' (first_where (commit_by_nonce rfqID bidder nonce) (bid_commits d))"

definition GetBidCommitByRFQBidderCommitment :: "db \<Rightarrow> int \<Rightarrow> string \<Rightarrow> string \<Rightarrow> gerr + bid_commit" where
  "GetBidCommitByRFQBidderCommitment d rfqID bidder commitment =
     found ''get bid_commit by commitment''
       (first_where (commit_by_commitment rfqID bidder commitment) (bid_commits d))"

definition GetBidCommitByRevealedBidID :: "db \<Rightarrow> int \<Rightarrow> gerr + bid_commit" where
  "GetBidCommitByRevealedBidID d bidID =
     found ''get bid_commit by revealed bid id''
       (first_where (\<lambda>c. bc_RevealedBidID c = Some bidID) (bid_commits d))"

definition ListBidCommitsByRFQ :: "db \<Rightarrow> int \<Rightarrow> bid_commit list" where
  "ListBidCommitsByRFQ d rfqID = rev (sort_key bc_ID (filter (\<lambda>c. bc_RFQID c = rfqID) (bid_commits d)))"

definition revealable :: "int \<Rightarrow> bid_commit \<Rightarrow> bool" where
  "revealable id1 c \<longleftrightarrow> bc_ID c = id1 \<and> bc_Status c = ''committed''"

definition UpdateBidCommitReveal :: "int \<Rightarrow> int \<Rightarrow> int \<Rightarrow> db \<Rightarrow> unit result" where
  "UpdateBidCommitReveal now id1 revealedBidID d =
     (if rows_affected (revealable id1) (bid_commits d) = 0
      then (d, Inl (wrap (''UpdateBidCommitReveal id='' @ int_str id1) ErrNoRows))
      else if list_ex (\<lambda>c. bc_RevealedBidID c = Some revealedBidID \<and> \<not> revealable id1 c) (bid_commits d)
      then (d, Inl (wrap ''UpdateBidCommitReveal'' (unique_err ''bid_commits.revealed_bid_id'')))
      else if row_get bid_ID (bids d) revealedBidID = None
      then (d, Inl (wrap ''UpdateBidCommitReveal'' foreign_key_err))
      else (d\<lparr>bid_commits := row_upd (revealable id1)
                 (\<lambda>c. c\<lparr>bc_Status := ''revealed'', bc_RevealedBidID := Some revealedBidID, bc_UpdatedAt := now\<rparr>)
                 (bid_commits d)\<rparr>, Inr ()))"

definition set_commit_status :: "int \<Rightarrow> string \<Rightarrow> (bid_commit \<Rightarrow> bool) \<Rightarrow> db \<Rightarrow> db" where
  "set_commit_status now status p d =
     d\<lparr>bid_commits := row_upd p (\<lambda>c. c\<lparr>bc_Status := status, bc_UpdatedAt := now\<rparr>) (bid_commits d)\<rparr>"

definition outstanding :: "int \<Rightarrow> bid_commit \<Rightarrow> bool" where
  "outstanding rfqID c \<longleftrightarrow> bc_RFQID c = rfqID \<and> bc_Status c = ''committed''"

definition SupersedeCommittedBidCommits :: "int \<Rightarrow> int \<Rightarrow> string \<Rightarrow> db \<Rightarrow> db" where
  "SupersedeCommittedBidCommits now rfqID bidder d =
     set_commit_status now ''superseded'' (\<lambda>c. outstanding rfqID c \<and> bc_Bidder c = bidder) d"

definition UpdateBidCommitStatusByRevealedBid :: "int \<Rightarrow> int \<Rightarrow> string \<Rightarrow> db \<Rightarrow> db" where
  "UpdateBidCommitStatusByRevealedBid now bidID status d =
     set_commit_status now status (\<lambda>c. bc_RevealedBidID c = Some bidID) d"

definition RejectUnacceptedBidCommits :: "int \<Rightarrow> int \<Rightarrow> int \<Rightarrow> db \<Rightarrow> db" where
  "RejectUnacceptedBidCommits now rfqID acceptedBidID d =
     set_commit_status now ''rejected''
       (\<lambda>c. bc_RFQID c = rfqID \<and> bc_Status c \<in> {''committed'', ''revealed''}
            \<and> bc_RevealedBidID c \<noteq> Some acceptedBidID) d"

definition CountActiveBidCommitsByRFQBidder :: "db \<Rightarrow> int \<Rightarrow> string \<Rightarrow> gerr + nat" where
  "CountActiveBidCommitsByRFQBidder d rfqID bidder =
     (if rfqID \<le> 0 then Inl (errors_New ''count active bid_commits: rfqID must be > 0'')
      else if bidder = [] then Inl (errors_New ''count active bid_commits: bidder must be non-empty'')
      else Inr (length (filter (\<lambda>c. bc_RFQID c = rfqID \<and> bc_Bidder c = bidder
                  \<and> bc_Status c \<in> {''committed'', ''revealed''}) (bid_commits d))))"

definition ListCommittedBidCommitsByRFQ :: "db \<Rightarrow> int \<Rightarrow> bid_commit list" where
  "ListCommittedBidCommitsByRFQ d rfqID = sort_key bc_ID (filter (outstanding rfqID) (bid_commits d))"

definition CountRecentBidCommitsByRFQBidder :: "db \<Rightarrow> int \<Rightarrow> string \<Rightarrow> int \<Rightarrow> int \<Rightarrow> gerr + nat" where
  "CountRecentBidCommitsByRFQBidder d rfqID bidder windowSeconds now =
     (if windowSeconds \<le> 0 then Inl (errors_New ''count recent bid_commits: windowSeconds must be > 0'')
      else Inr (length (filter (\<lambda>c. bc_RFQID c = rfqID \<and> bc_Bidder c = bidder
                  \<and> now - windowSeconds \<le> bc_CreatedAt c) (bid_commits d))))"

definition ExpireCommittedBidCommits :: "int \<Rightarrow> int \<Rightarrow> db \<Rightarrow> db" where
  "ExpireCommittedBidCommits now rfqID d = set_commit_status now ''expired'' (outstanding rfqID) d"

section \<open>Sealed bidder discipline\<close>

definition GetSealedBidderDiscipline :: "db \<Rightarrow> string \<Rightarrow> gerr + discipline" where
  "GetSealedBidderDiscipline d bidder =
     found ''get sealed bidder discipline'' (row_get dis_Bidder (disciplines d) bidder)"

definition UpsertSealedBidderDiscipline :: "int \<Rightarrow> string \<Rightarrow> int \<Rightarrow> db \<Rightarrow> db" where
  "UpsertSealedBidderDiscipline now bidder cooldownUntil d =
     (if row_get dis_Bidder (disciplines d) bidder = None
      then d\<lparr>disciplines := row_add \<lparr>dis_Bidder = bidder, dis_NonRevealCount = 1,
               dis_CooldownUntil = cooldownUntil, dis_CreatedAt = now, dis_UpdatedAt = now\<rparr> (disciplines d)\<rparr>
      else d\<lparr>disciplines := row_upd (\<lambda>r. dis_Bidder r = bidder)
               (\<lambda>r. r\<lparr>dis_NonRevealCount := dis_NonRevealCount r + 1,
                      dis_CooldownUntil := max cooldownUntil (dis_CooldownUntil r),
                      dis_UpdatedAt := now\<rparr>) (disciplines d)\<rparr>)"

section \<open>Lemmas\<close>

lemma in_set_row_upd: "r \<in> set (row_upd p f rows) \<longleftrightarrow> (\<exists>q \<in> set rows. r = (if p q then f q else q))"
  by (auto simp: set_row_upd)

lemma strikes_after_upsert:
  "row_get dis_Bidder (disciplines (UpsertSealedBidderDiscipline now b c d)) b' =
     (if b' = b then
        Some (case row_get dis_Bidder (disciplines d) b of
                None \<Rightarrow> \<lparr>dis_Bidder = b, dis_NonRevealCount = 1, dis_CooldownUntil = c,
                         dis_CreatedAt = now, dis_UpdatedAt = now\<rparr>
              | Some r \<Rightarrow> r\<lparr>dis_NonRevealCount := dis_NonRevealCount r + 1,
                           dis_CooldownUntil := max c (dis_CooldownUntil r), dis_UpdatedAt := now\<rparr>)
      else row_get dis_Bidder (disciplines d) b')"
  by (auto simp: UpsertSealedBidderDiscipline_def row_add_def row_get_append row_get_upd dest: row_get_Some
      split: option.splits)

end
