(* ===== verification/Chain.thy ===== *)
theory Chain
  imports Eth Json
begin

text \<open>
  The parts of \<open>internal/chain\<close> the services share: the parameters of \<open>CreateEscrow\<close>, waiting for a
  receipt and reading the \<open>EscrowCreated\<close> event out of it (\<open>receipt.go\<close>), and the complexity floor
  (\<open>validation.go\<close>). The node behind \<open>ChainClient\<close> is the record \<open>node\<close> of parameters: what it answers
  to a transaction and to each poll for a receipt; the cancellation of a request while it waits is not modelled.
\<close>

record milestone_param =
  mp_Amount :: int
  mp_SubmissionDeadline :: uint64

record create_escrow_params =
  ce_Buyer :: addr
  ce_Worker :: addr
  ce_VerifierPanel :: "addr list"
  ce_QuorumThreshold :: byte
  ce_QuorumVerifierCount :: byte
  ce_VerifierStakePerVerifier :: int
  ce_Arbitrator :: addr
  ce_Amount :: int
  ce_WorkerStake :: int
  ce_SubmissionDeadline :: uint64
  ce_ReviewPeriodSeconds :: uint64
  ce_DisputePeriodSeconds :: uint64
  ce_TaskSpecHash :: hash
  ce_ArbitratorTimeoutSeconds :: uint64
  ce_Token :: addr
  ce_ServiceTier :: byte
  ce_Milestones :: "milestone_param list"
  ce_BackupWorker :: addr
  ce_BackupDeadlineExtension :: uint64
  ce_ZKVerifier :: addr
  ce_CircuitID :: hash
  ce_ParentEscrow :: addr

definition zero_addr :: addr where
  "zero_addr = replicate 20 0"

record log_entry =
  lg_Address :: addr
  lg_Topics :: "hash list"
  lg_Data :: "byte list"

record receipt =
  rc_Status :: nat
  rc_Logs :: "log_entry list"
  rc_TxHash :: hash

text \<open>The n-th poll for the receipt of a transaction answers \<open>node_Receipt hash n\<close>.\<close>

record node =
  node_CreateEscrow :: "addr \<Rightarrow> create_escrow_params \<Rightarrow> gerr + hash"
  node_Receipt :: "hash \<Rightarrow> nat \<Rightarrow> receipt option"
  node_EscrowCreatedID :: hash

definition maxAttempts :: nat where
  "maxAttempts = 60"

fun poll :: "node \<Rightarrow> hash \<Rightarrow> nat \<Rightarrow> nat \<Rightarrow> receipt option" where
  "poll N h i 0 = None"
| "poll N h i (Suc n) = (case node_Receipt N h i of Some r \<Rightarrow> Some r | None \<Rightarrow> poll N h (Suc i) n)"

definition WaitMined :: "eth_lib \<Rightarrow> node \<Rightarrow> hash \<Rightarrow> gerr + receipt" where
  "WaitMined L N h =
     (case poll N h 0 maxAttempts of
        Some r \<Rightarrow> Inr r
      | None \<Rightarrow> Inl (errors_New (''receipt not found after '' @ nat_str maxAttempts @ '' attempts for tx '' @ HashHex L h)))"

text \<open>Big-endian bytes as a number.\<close>

definition SetBytes :: "byte list \<Rightarrow> int" where
  "SetBytes bs = foldl (\<lambda>n b. 256 * n + uint b) 0 bs"

record create_escrow_result =
  cer_EscrowAddress :: addr
  cer_EscrowID :: int

fun parse_logs :: "eth_lib \<Rightarrow> hash \<Rightarrow> log_entry list \<Rightarrow> gerr + create_escrow_result option" where
  "parse_logs L created [] = Inr None"
| "parse_logs L created (lg # lgs) =
     (if length (lg_Topics lg) < 3 \<or> hd (lg_Topics lg) \<noteq> created then parse_logs L created lgs
      else let n = SetBytes (lg_Topics lg ! 1) in
        if n \<ge> 2 ^ 63 then Inl (errors_New (''escrowID overflows int64: '' @ int_str n))
        else Inr (Some \<lparr>cer_EscrowAddress = BytesToAddress L (lg_Topics lg ! 2), cer_EscrowID = n\<rparr>))"

definition parseEscrowCreated :: "eth_lib \<Rightarrow> node \<Rightarrow> receipt \<Rightarrow> gerr + create_escrow_result" where
  "parseEscrowCreated L N r =
     (case parse_logs L (node_EscrowCreatedID N) (rc_Logs r) of
        Inl e \<Rightarrow> Inl e
      | Inr (Some x) \<Rightarrow> Inr x
      | Inr None \<Rightarrow> Inl (errors_New (''EscrowCreated event not found in receipt (tx '' @ HashHex L (rc_TxHash r) @ '')'')))"

definition WaitMinedAndParseEscrow :: "eth_lib \<Rightarrow> node \<Rightarrow> hash \<Rightarrow> gerr + create_escrow_result" where
  "WaitMinedAndParseEscrow L N h =
     (case WaitMined L N h of
        Inl e \<Rightarrow> Inl e
      | Inr r \<Rightarrow> if rc_Status r \<noteq> 1
                 then Inl (errors_New (''transaction reverted (status '' @ nat_str (rc_Status r) @ '')''))
                 else parseEscrowCreated L N r)"

definition ValidateComplexityFloor :: "int option \<Rightarrow> string \<Rightarrow> gerr option" where
  "ValidateComplexityFloor amount floorStr =
     (if floorStr = [] \<or> floorStr = ''0'' then None
      else case SetString10 floorStr of
        None \<Rightarrow> Some (errors_New (''invalid complexity floor '' @ Quote floorStr @ '': must be a non-negative integer''))
      | Some fl \<Rightarrow>
          if fl < 0 then Some (errors_New (''invalid complexity floor '' @ Quote floorStr @ '': must be non-negative''))
          else (case amount of
                  None \<Rightarrow> Some (errors_New ''amount is nil'')
                | Some a \<Rightarrow>
                    if a < fl then Some (errors_New (''amount '' @ int_str a @ '' is below complexity floor '' @ int_str fl))
                    else None))"

section \<open>Lemmas\<close>

text \<open>A result comes from a successful receipt within the attempts, and its id is an \<open>int64\<close>.\<close>

lemma poll_Some: "poll N h i n = Some r \<longleftrightarrow>
    (\<exists>k < n. node_Receipt N h (i + k) = Some r \<and> (\<forall>j < k. node_Receipt N h (i + j) = None))"
proof (induction n arbitrary: i)
  case (Suc n)
  show ?case
  proof (cases "node_Receipt N h i")
    case None
    have "(\<exists>k < n. node_Receipt N h (Suc i + k) = Some r \<and> (\<forall>j < k. node_Receipt N h (Suc i + j) = None))
        \<longleftrightarrow> (\<exists>k < Suc n. node_Receipt N h (i + k) = Some r \<and> (\<forall>j < k. node_Receipt N h (i + j) = None))"
      (is "?l \<longleftrightarrow> ?r")
    proof
      assume ?l
      then obtain k where "k < n" "node_Receipt N h (Suc i + k) = Some r"
          "\<forall>j < k. node_Receipt N h (Suc i + j) = None" by blast
      then show ?r using None by (intro exI [of _ "Suc k"]) (auto simp: less_Suc_eq_0_disj)
    next
      assume ?r
      then obtain k where k: "k < Suc n" "node_Receipt N h (i + k) = Some r"
          "\<forall>j < k. node_Receipt N h (i + j) = None" by blast
      then have "k \<noteq> 0" using None by (metis add_0_right option.distinct(1))
      then obtain m where "k = Suc m" by (metis not0_implies_Suc)
      then show ?l using k by (intro exI [of _ m]) auto
    qed
    then show ?thesis using None Suc by simp
  next
    case (Some q)
    have "q = r" if "node_Receipt N h (i + k) = Some r" "\<forall>j < k. node_Receipt N h (i + j) = None" for k
      using that Some by (cases k) (auto dest: spec [of _ 0])
    then show ?thesis using Some by (auto intro: exI [of _ 0])
  qed
qed simp

lemma SetBytes_nonneg: "0 \<le> SetBytes bs"
proof -
  have "0 \<le> n \<Longrightarrow> 0 \<le> foldl (\<lambda>n b. 256 * n + uint b) n bs" for n :: int
    by (induction bs arbitrary: n) auto
  then show ?thesis by (simp add: SetBytes_def)
qed

lemma parse_logs_id: "parse_logs L c lgs = Inr (Some x) \<Longrightarrow> 0 \<le> cer_EscrowID x \<and> cer_EscrowID x < 2 ^ 63"
  by (induction lgs) (auto simp: Let_def not_le SetBytes_nonneg split: if_splits)

lemma WaitMinedAndParseEscrow_ok:
  assumes "WaitMinedAndParseEscrow L N h = Inr x"
  shows "0 \<le> cer_EscrowID x \<and> cer_EscrowID x < 2 ^ 63
    \<and> (\<exists>k < maxAttempts. \<exists>r. node_Receipt N h k = Some r \<and> rc_Status r = 1 \<and> parseEscrowCreated L N r = Inr x)"
proof -
  obtain r where r: "poll N h 0 maxAttempts = Some r" "rc_Status r = 1" "parseEscrowCreated L N r = Inr x"
    using assms by (auto simp: WaitMinedAndParseEscrow_def WaitMined_def split: sum.splits option.splits if_splits)
  then obtain k where "k < maxAttempts" "node_Receipt N h k = Some r" by (auto simp: poll_Some)
  moreover have "parse_logs L (node_EscrowCreatedID N) (rc_Logs r) = Inr (Some x)"
    using r(3) by (auto simp: parseEscrowCreated_def split: sum.splits option.splits)
  ultimately show ?thesis using r parse_logs_id by blast
qed

lemma ValidateComplexityFloor_None:
  "ValidateComplexityFloor (Some a) fl = None \<longleftrightarrow>
     fl = [] \<or> fl = ''0'' \<or> (\<exists>n. SetString10 fl = Some n \<and> 0 \<le> n \<and> n \<le> a)"
  by (auto simp: ValidateComplexityFloor_def split: option.splits)

end
