(* ===== verification/Credentials.thy ===== *)
theory Credentials
  imports Eth JsonValue "HOL-Library.List_Lexorder" "HOL-Library.Char_ord" "HOL-Library.Multiset"
begin

text \<open>
  \<open>internal/bidding/credentials.go\<close>: signed capability attestations of bidders and the credential
  requirements of an RFQ. Strings compare by their normal form (trimmed, lower case), addresses
  by their bytes. The lemmas say what a verified result means for each requirement, and that the
  signed message fixes neither the capability list nor the domain.
\<close>

section \<open>Attestations\<close>

definition attestationV1Profile :: string where
  "attestationV1Profile = ''attestation-v1''"

record attestation =
  cre_Profile :: string
  cre_IssuerAddress :: string
  cre_IssuerDID :: string
  cre_SubjectAddress :: string
  cre_Domain :: string
  cre_Capabilities :: "string list"
  cre_IssuedAt :: int
  cre_ExpiresAt :: int
  cre_Nonce :: string
  cre_Signature :: string

record credential_requirement =
  crq_Domain :: string
  crq_Capabilities :: "string list"
  crq_TrustedIssuers :: "string list"

record verification_result =
  vr_Verified :: bool
  vr_Reasons :: "string list"
  vr_Matched :: nat
  vr_Required :: nat

definition norm :: "string \<Rightarrow> string" where
  "norm s = ToLower (TrimSpace s)"

definition CanonicalAttestationMessage :: "eth_lib \<Rightarrow> attestation \<Rightarrow> string" where
  "CanonicalAttestationMessage L a =
     Join [attestationV1Profile,
           ToLower (AddressHex L (HexToAddress L (cre_IssuerAddress a))),
           ToLower (AddressHex L (HexToAddress L (cre_SubjectAddress a))),
           norm (cre_Domain a),
           Join (sort (map norm (cre_Capabilities a))) '','',
           int_str (cre_IssuedAt a), int_str (cre_ExpiresAt a), cre_Nonce a] ''|''"

definition VerifyAttestationSignature :: "eth_lib \<Rightarrow> attestation \<Rightarrow> gerr option" where
  "VerifyAttestationSignature L a =
     (if cre_Profile a \<noteq> attestationV1Profile
      then Some (errors_New (''unsupported attestation profile: '' @ Quote (cre_Profile a) @ '' (expected ''
                   @ Quote attestationV1Profile @ '')''))
      else if \<not> IsHexAddress L (cre_IssuerAddress a) then Some (errors_New ''invalid issuer_address'')
      else if \<not> IsHexAddress L (cre_SubjectAddress a) then Some (errors_New ''invalid subject_address'')
      else verify_signature L (CanonicalAttestationMessage L a) (cre_Signature a) (cre_IssuerAddress a)
             ''issuer'')"

definition ValidateAttestation :: "eth_lib \<Rightarrow> attestation \<Rightarrow> string \<Rightarrow> int \<Rightarrow> gerr option" where
  "ValidateAttestation L a bidder now =
     (if cre_Profile a \<noteq> attestationV1Profile
      then Some (errors_New (''unsupported profile: '' @ Quote (cre_Profile a)))
      else if blank (cre_Domain a) then Some (errors_New ''attestation domain is required'')
      else if list_all blank (cre_Capabilities a)
      then Some (errors_New ''attestation must include at least one capability'')
      else if blank (cre_Nonce a) then Some (errors_New ''attestation nonce is required'')
      else if cre_IssuedAt a > now then Some (errors_New ''attestation issued_at is in the future'')
      else if cre_ExpiresAt a \<le> now then Some (errors_New ''attestation has expired'')
      else let bidderAddr = HexToAddress L bidder; subjectAddr = HexToAddress L (cre_SubjectAddress a) in
        if bidderAddr \<noteq> subjectAddr
        then Some (errors_New (''attestation subject_address '' @ AddressHex L subjectAddr
                   @ '' does not match bidder '' @ AddressHex L bidderAddr))
        else VerifyAttestationSignature L a)"

section \<open>Matching\<close>

definition capabilitiesCovered :: "string list \<Rightarrow> string list \<Rightarrow> bool" where
  "capabilitiesCovered required provided = list_all (\<lambda>c. norm c \<in> set (map norm provided)) required"

definition issuerTrusted :: "eth_lib \<Rightarrow> string \<Rightarrow> string list \<Rightarrow> bool" where
  "issuerTrusted L issuer trusted = list_ex (\<lambda>t. HexToAddress L t = HexToAddress L issuer) trusted"

fun matchSingleRequirement :: "eth_lib \<Rightarrow> credential_requirement \<Rightarrow> attestation list \<Rightarrow> bool" where
  "matchSingleRequirement L req [] = False"
| "matchSingleRequirement L req (att # atts) =
     (if norm (cre_Domain att) \<noteq> norm (crq_Domain req) then matchSingleRequirement L req atts
      else if \<not> capabilitiesCovered (crq_Capabilities req) (cre_Capabilities att)
      then matchSingleRequirement L req atts
      else if crq_TrustedIssuers req \<noteq> [] \<and> \<not> issuerTrusted L (cre_IssuerAddress att) (crq_TrustedIssuers req)
      then matchSingleRequirement L req atts
      else True)"

definition unmet :: "credential_requirement \<Rightarrow> string" where
  "unmet req = ''unmet requirement: domain='' @ crq_Domain req @ '', capabilities=[''
     @ Join (crq_Capabilities req) '' '' @ '']''"

fun match_loop :: "eth_lib \<Rightarrow> attestation list \<Rightarrow> credential_requirement list \<Rightarrow>
    verification_result \<Rightarrow> verification_result" where
  "match_loop L atts [] result = result"
| "match_loop L atts (req # reqs) result =
     (if matchSingleRequirement L req atts
      then match_loop L atts reqs (result\<lparr>vr_Matched := vr_Matched result + 1\<rparr>)
      else match_loop L atts reqs (result\<lparr>vr_Reasons := vr_Reasons result @ [unmet req]\<rparr>))"

definition MatchRequirements ::
    "eth_lib \<Rightarrow> credential_requirement list \<Rightarrow> attestation list \<Rightarrow> verification_result" where
  "MatchRequirements L requirements attestations =
     (if requirements = [] then \<lparr>vr_Verified = True, vr_Reasons = [], vr_Matched = 0, vr_Required = 0\<rparr>
      else let result = match_loop L attestations requirements
                 \<lparr>vr_Verified = False, vr_Reasons = [], vr_Matched = 0, vr_Required = length requirements\<rparr>
           in result\<lparr>vr_Verified := (vr_Matched result = vr_Required result)\<rparr>)"

section \<open>Documents\<close>

definition decode_requirement :: "(string \<times> json) list \<Rightarrow> credential_requirement option" where
  "decode_requirement kvs =
     (case (str_field ''domain'' kvs [], strs_field ''capabilities'' kvs [],
            strs_field ''trusted_issuers'' kvs []) of
        (Some d, Some cs, Some ts) \<Rightarrow>
          Some \<lparr>crq_Domain = d, crq_Capabilities = cs, crq_TrustedIssuers = ts\<rparr>
      | _ \<Rightarrow> None)"

fun bad_issuer :: "eth_lib \<Rightarrow> nat \<Rightarrow> nat \<Rightarrow> string list \<Rightarrow> gerr option" where
  "bad_issuer L i j [] = None"
| "bad_issuer L i j (t # ts) =
     (if \<not> IsHexAddress L t
      then Some (errors_New (''credential requirement '' @ nat_str i @ '': trusted_issuers['' @ nat_str j @ ''] ''
                   @ Quote t @ '' is not a valid hex Ethereum address''))
      else bad_issuer L i (Suc j) ts)"

fun bad_requirement :: "eth_lib \<Rightarrow> nat \<Rightarrow> credential_requirement list \<Rightarrow> gerr option" where
  "bad_requirement L i [] = None"
| "bad_requirement L i (req # reqs) =
     (if blank (crq_Domain req)
      then Some (errors_New (''credential requirement '' @ nat_str i @ '': selector.Domain must not be empty''))
      else if list_all blank (crq_Capabilities req)
      then Some (errors_New (''credential requirement '' @ nat_str i
                   @ '': selector.Capabilities must include at least one non-empty entry''))
      else case bad_issuer L i 0 (crq_TrustedIssuers req) of
        Some e \<Rightarrow> Some e
      | None \<Rightarrow> bad_requirement L (Suc i) reqs)"

definition ParseCredentialRequirements :: "eth_lib \<Rightarrow> string \<Rightarrow> gerr + credential_requirement list" where
  "ParseCredentialRequirements L raw =
     (if raw = [] \<or> raw = ''[]'' then Inr []
      else case unmarshal_structs decode_requirement raw of
        None \<Rightarrow> Inl (wrap ''parse credential requirements'' json_err)
      | Some doc \<Rightarrow>
          let reqs = (case doc of None \<Rightarrow> [] | Some rs \<Rightarrow> rs) in
          (case bad_requirement L 0 reqs of Some e \<Rightarrow> Inl e | None \<Rightarrow> Inr reqs))"

definition decode_attestation :: "(string \<times> json) list \<Rightarrow> attestation option" where
  "decode_attestation kvs =
     (case (str_field ''profile'' kvs [], str_field ''issuer_address'' kvs [], str_field ''issuer_did'' kvs [],
            str_field ''subject_address'' kvs [], str_field ''domain'' kvs []) of
        (Some profile, Some issuer, Some did, Some subject, Some dm) \<Rightarrow>
          (case (strs_field ''capabilities'' kvs [], int_field ''issued_at'' kvs 0, int_field ''expires_at'' kvs 0,
                 str_field ''nonce'' kvs [], str_field ''signature'' kvs []) of
             (Some caps, Some iss, Some expi, Some nonce, Some sig) \<Rightarrow>
               Some \<lparr>cre_Profile = profile, cre_IssuerAddress = issuer, cre_IssuerDID = did,
                     cre_SubjectAddress = subject, cre_Domain = dm, cre_Capabilities = caps,
                     cre_IssuedAt = iss, cre_ExpiresAt = expi, cre_Nonce = nonce, cre_Signature = sig\<rparr>
           | _ \<Rightarrow> None)
      | _ \<Rightarrow> None)"

definition ParseAttestations :: "string \<Rightarrow> gerr + attestation list" where
  "ParseAttestations raw =
     (if raw = [] \<or> raw = ''[]'' then Inr []
      else case unmarshal_structs decode_attestation raw of
        None \<Rightarrow> Inl (wrap ''parse attestations'' json_err)
      | Some None \<Rightarrow> Inr []
      | Some (Some atts) \<Rightarrow> Inr atts)"

definition MarshalVerificationResult :: "verification_result \<Rightarrow> string" where
  "MarshalVerificationResult vr =
     render (JObj ([(''verified'', JBool (vr_Verified vr))]
       @ (if vr_Reasons vr = [] then [] else [(''reasons'', JArr (map JStr (vr_Reasons vr)))])
       @ [(''matched'', JNum (nat_str (vr_Matched vr))), (''required'', JNum (nat_str (vr_Required vr)))]))"

section \<open>Lemmas\<close>

definition satisfies :: "eth_lib \<Rightarrow> attestation \<Rightarrow> credential_requirement \<Rightarrow> bool" where
  "satisfies L att req \<longleftrightarrow>
     norm (cre_Domain att) = norm (crq_Domain req)
     \<and> norm ` set (crq_Capabilities req) \<subseteq> norm ` set (cre_Capabilities att)
     \<and> (crq_TrustedIssuers req = []
        \<or> (\<exists>t \<in> set (crq_TrustedIssuers req). HexToAddress L t = HexToAddress L (cre_IssuerAddress att)))"

definition attests :: "eth_lib \<Rightarrow> int \<Rightarrow> string \<Rightarrow> attestation \<Rightarrow> bool" where
  "attests L now bidder att \<longleftrightarrow>
     cre_Profile att = attestationV1Profile \<and> \<not> blank (cre_Domain att)
     \<and> (\<exists>c \<in> set (cre_Capabilities att). \<not> blank c) \<and> \<not> blank (cre_Nonce att)
     \<and> cre_IssuedAt att \<le> now \<and> now < cre_ExpiresAt att
     \<and> HexToAddress L (cre_SubjectAddress att) = HexToAddress L bidder
     \<and> IsHexAddress L (cre_IssuerAddress att) \<and> IsHexAddress L (cre_SubjectAddress att)
     \<and> signed_by L (CanonicalAttestationMessage L att) (cre_Signature att)
          (HexToAddress L (cre_IssuerAddress att))"

lemma attests_iff: "ValidateAttestation L a bidder now = None \<longleftrightarrow> attests L now bidder a"
  unfolding ValidateAttestation_def VerifyAttestationSignature_def attests_def Let_def
  by (simp add: verify_signature_ok list_all_iff not_le not_less eq_commute [of "HexToAddress L bidder"])

lemma matchSingle_iff: "matchSingleRequirement L req atts \<longleftrightarrow> (\<exists>att \<in> set atts. satisfies L att req)"
  by (induction atts)
    (auto simp: satisfies_def capabilitiesCovered_def issuerTrusted_def list_all_iff list_ex_iff image_subset_iff)

lemma match_loop_result:
  "vr_Required (match_loop L atts reqs r) = vr_Required r"
  "vr_Matched (match_loop L atts reqs r)
     = vr_Matched r + length (filter (\<lambda>q. matchSingleRequirement L q atts) reqs)"
  "vr_Reasons (match_loop L atts reqs r)
     = vr_Reasons r @ map unmet (filter (\<lambda>q. \<not> matchSingleRequirement L q atts) reqs)"
  by (induction reqs arbitrary: r) simp_all

lemma Match_fields:
  "vr_Required (MatchRequirements L reqs atts) = length reqs"
  "vr_Matched (MatchRequirements L reqs atts) = length (filter (\<lambda>q. matchSingleRequirement L q atts) reqs)"
  "vr_Reasons (MatchRequirements L reqs atts)
     = map unmet (filter (\<lambda>q. \<not> matchSingleRequirement L q atts) reqs)"
  "vr_Verified (MatchRequirements L reqs atts) \<longleftrightarrow> (\<forall>q \<in> set reqs. matchSingleRequirement L q atts)"
proof -
  have "length (filter (\<lambda>q. matchSingleRequirement L q atts) reqs) = length reqs
      \<longleftrightarrow> (\<forall>q \<in> set reqs. matchSingleRequirement L q atts)"
    by (metis (mono_tags, lifting) filter_True length_filter_less nat_less_le)
  then show "vr_Verified (MatchRequirements L reqs atts) \<longleftrightarrow> (\<forall>q \<in> set reqs. matchSingleRequirement L q atts)"
    by (auto simp: MatchRequirements_def Let_def match_loop_result)
qed (simp_all add: MatchRequirements_def Let_def match_loop_result)

definition requirement_ok :: "eth_lib \<Rightarrow> credential_requirement \<Rightarrow> bool" where
  "requirement_ok L req \<longleftrightarrow>
     \<not> blank (crq_Domain req) \<and> (\<exists>c \<in> set (crq_Capabilities req). \<not> blank c)
     \<and> (\<forall>t \<in> set (crq_TrustedIssuers req). IsHexAddress L t)"

lemma bad_issuer_None: "bad_issuer L i j ts = None \<longleftrightarrow> (\<forall>t \<in> set ts. IsHexAddress L t)"
  by (induction ts arbitrary: j) auto

lemma bad_requirement_None: "bad_requirement L i reqs = None \<longleftrightarrow> (\<forall>q \<in> set reqs. requirement_ok L q)"
proof (induction reqs arbitrary: i)
  case (Cons q reqs)
  show ?case
    by (cases "bad_issuer L i 0 (crq_TrustedIssuers q)")
      (use bad_issuer_None [of L i 0 "crq_TrustedIssuers q"] Cons in \<open>auto simp: requirement_ok_def list_all_iff\<close>)
qed simp

lemma blank_norm: "blank s \<longleftrightarrow> norm s = []"
  by (simp add: blank_def norm_def)

text \<open>A separator inside a capability is a separator of the list.\<close>

lemma Join_append: "xs \<noteq> [] \<Longrightarrow> ys \<noteq> [] \<Longrightarrow> Join (xs @ ys) sep = Join xs sep @ sep @ Join ys sep"
  by (induction xs sep rule: Join.induct) (auto simp: neq_Nil_conv)

section \<open>Properties\<close>

definition sample_att :: attestation where
  "sample_att = \<lparr>cre_Profile = attestationV1Profile, cre_IssuerAddress = ''0xa'', cre_IssuerDID = [],
     cre_SubjectAddress = ''0xB'', cre_Domain = ''Go'', cre_Capabilities = ['' Lint'', ''test''], cre_IssuedAt = 1,
     cre_ExpiresAt = 50, cre_Nonce = ''n'', cre_Signature = ''0xa''\<rparr>"

definition sample_req :: credential_requirement where
  "sample_req = \<lparr>crq_Domain = ''go '', crq_Capabilities = [''LINT''], crq_TrustedIssuers = [''0xA'']\<rparr>"

text \<open>C19: When every attestation of a bid validates for the bidder, the requirements count as verified
  exactly when each of them is met by a current attestation that its issuer, a trusted one where the
  requirement names any, signed for this bidder, in the domain and with all the capabilities asked for.\<close>

theorem verified_credentials:
  assumes "list_all (\<lambda>a. ValidateAttestation L a bidder now = None) atts"
  shows "vr_Verified (MatchRequirements L reqs atts) \<longleftrightarrow>
    (\<forall>req \<in> set reqs. \<exists>att \<in> set atts. attests L now bidder att \<and> satisfies L att req)"
  using assms by (auto simp: Match_fields matchSingle_iff attests_iff list_all_iff)

lemma sample_att_ok: "ValidateAttestation sample_eth sample_att ''0xb'' 10 = None"
proof -
  have k: "takeWhile (\<lambda>b. b \<noteq> 46) (take 64 (adjust_v (bytes_of (take 64 (''0xa'' @ replicate 64 CHR ''.'')) @ [27])))
      = bytes_of (ToLower ''0xa'')"
    "length (bytes_of (take 64 (''0xa'' @ replicate 64 CHR ''.'')) @ [27]) = 65"
    by code_simp+
  have "signed_by sample_eth m ''0xa'' (bytes_of (ToLower ''0xa''))" for m
    unfolding signed_by_def using k by (simp add: sample_eth_def del: take_append append_take_drop_id)
  moreover have "\<not> blank ''Go''" "\<not> blank ''test''" "\<not> blank ''n''"
      "HasPrefix ''0xa'' ''0x''" "HasPrefix ''0xB'' ''0x''" "ToLower ''0xB'' = ToLower ''0xb''"
    by code_simp+
  ultimately show ?thesis unfolding attests_iff by (simp add: attests_def sample_att_def)
qed

lemma sample_req_met: "satisfies sample_eth sample_att sample_req"
proof -
  have "norm ''Go'' = norm ''go ''" "norm '' Lint'' = norm ''LINT''" "ToLower ''0xA'' = ToLower ''0xa''"
    by code_simp+
  then show ?thesis by (simp add: satisfies_def sample_att_def sample_req_def)
qed

theorem verified_credentials_witness:
  "vr_Verified (MatchRequirements sample_eth [sample_req] [sample_att])"
  using verified_credentials [of sample_eth "''0xb''" 10 "[sample_att]" "[sample_req]"]
    sample_att_ok sample_req_met by (simp add: attests_iff)

text \<open>The matched and the reported unmet requirements are all of them, verification is monotone in
  the attestations presented, and requirements the parser accepts are well formed.\<close>

theorem MatchRequirements_counts:
  "vr_Matched (MatchRequirements L reqs atts) + length (vr_Reasons (MatchRequirements L reqs atts)) = length reqs
   \<and> (vr_Verified (MatchRequirements L reqs atts) \<longleftrightarrow> vr_Reasons (MatchRequirements L reqs atts) = [])
   \<and> (vr_Verified (MatchRequirements L reqs atts) \<longrightarrow> vr_Verified (MatchRequirements L reqs (atts @ extra)))
   \<and> (ParseCredentialRequirements L raw = Inr reqs \<longrightarrow> list_all (requirement_ok L) reqs)"
proof (intro conjI impI)
  show "vr_Matched (MatchRequirements L reqs atts) + length (vr_Reasons (MatchRequirements L reqs atts)) = length reqs"
    by (simp add: Match_fields sum_length_filter_compl)
  show "vr_Verified (MatchRequirements L reqs atts) \<longleftrightarrow> vr_Reasons (MatchRequirements L reqs atts) = []"
    by (simp add: Match_fields filter_empty_conv)
  show "vr_Verified (MatchRequirements L reqs atts) \<Longrightarrow> vr_Verified (MatchRequirements L reqs (atts @ extra))"
    by (auto simp: Match_fields matchSingle_iff)
  show "ParseCredentialRequirements L raw = Inr reqs \<Longrightarrow> list_all (requirement_ok L) reqs"
    by (auto simp: ParseCredentialRequirements_def Let_def list_all_iff bad_requirement_None
        split: if_splits option.splits)
qed

theorem MatchRequirements_counts_witness:
  "vr_Verified (MatchRequirements sample_eth [sample_req] ([sample_att] @ [sample_att\<lparr>cre_Domain := ''other''\<rparr>]))"
  using MatchRequirements_counts [of sample_eth "[sample_req]" "[sample_att]" "[sample_att\<lparr>cre_Domain := ''other''\<rparr>]"] sample_req_met
  by (simp add: Match_fields matchSingle_iff)

text \<open>The issuer's signature does not fix the list of capabilities: one capability with a comma in
  it and its two parts, in order, have the same signed message, although the two parts satisfy
  requirements the single capability does not.\<close>

theorem capability_split:
  assumes "norm c = norm d @ '','' @ norm e" "norm d \<le> norm e" "norm d \<noteq> norm c"
  shows "VerifyAttestationSignature L (a\<lparr>cre_Capabilities := [c]\<rparr>)
      = VerifyAttestationSignature L (a\<lparr>cre_Capabilities := [d, e]\<rparr>)
    \<and> capabilitiesCovered [d] [d, e] \<and> \<not> capabilitiesCovered [d] [c]"
proof -
  have "CanonicalAttestationMessage L (a\<lparr>cre_Capabilities := [c]\<rparr>)
      = CanonicalAttestationMessage L (a\<lparr>cre_Capabilities := [d, e]\<rparr>)"
    using assms by (simp add: CanonicalAttestationMessage_def)
  then show ?thesis
    using assms(3) by (simp add: VerifyAttestationSignature_def capabilitiesCovered_def)
qed

theorem capability_split_witness:
  "VerifyAttestationSignature sample_eth (sample_att\<lparr>cre_Capabilities := [''audit,deploy'']\<rparr>)
     = VerifyAttestationSignature sample_eth (sample_att\<lparr>cre_Capabilities := [''audit'', ''deploy'']\<rparr>)"
proof -
  have "norm ''audit,deploy'' = norm ''audit'' @ '','' @ norm ''deploy''" "norm ''audit'' \<le> norm ''deploy''"
      "norm ''audit'' \<noteq> norm ''audit,deploy''"
    by code_simp+
  then show ?thesis using capability_split by blast
qed

end
