(* ===== verification/Bidding.thy ===== *)
theory Bidding
  imports BidStore Chain Credentials "HOL-Library.Product_Lexorder" "HOL-Library.AList"
begin

text \<open>
  \<open>internal/bidding/bidding.go\<close>: requests for quotes and sealed bidding. A bidder commits to the hash
  of a bid before the commit deadline, reveals it before the reveal deadline, the RFQ is finalized
  (the best revealed bid is fixed, bidders who did not reveal get a strike and a cooldown), and
  the buyer accepts the best bid, which creates an escrow on the chain and in the database.
  \<open>bid_env\<close> holds what an operation reads besides the database: the clock (read once, in seconds),
  the chain node, the Ethereum library, the configuration, the text Go writes for a float64
  (\<open>be_FloatText\<close>, for the numbers of \<open>requirements_json\<close>) and the indexer pass that follows an
  acceptance. Times in error texts are Unix seconds.
\<close>

record bid_env =
  be_L :: eth_lib
  be_Node :: node
  be_Now :: int
  be_FloatText :: "string \<Rightarrow> string option"
  be_RebidCooldownSeconds :: int
  be_FactoryAddress :: string
  be_ChainID :: int
  be_RunOnce :: "db \<Rightarrow> db"

definition maxCommitRequestsPerMinute :: nat where
  "maxCommitRequestsPerMinute = 10"

definition commitRateLimitWindowSeconds :: int where
  "commitRateLimitWindowSeconds = 60"

definition sealedBidSelectionRule :: string where
  "sealedBidSelectionRule = ''lowest_amount_then_duration_then_commit_time_then_bid_id''"

section \<open>Cooldowns and phases\<close>

text \<open>A duration in nanoseconds, as whole seconds rounded up, at least one.\<close>

definition RetryAfterSeconds :: "int \<Rightarrow> int" where
  "RetryAfterSeconds ns =
     (let seconds = ns div 1000000000 + (if ns mod 1000000000 \<noteq> 0 then 1 else 0) in
      if seconds < 1 then 1 else seconds)"

definition SealedBidCooldownError :: "string \<Rightarrow> int \<Rightarrow> int \<Rightarrow> int \<Rightarrow> gerr" where
  "SealedBidCooldownError bidder retryAt retryAfter strikes =
     Sentinel ''bidding.SealedBidCooldownError''
       (''sealed-bid cooldown active for '' @ bidder @ '': retry in ''
        @ int_str (RetryAfterSeconds (retryAfter * 1000000000)) @ '' seconds (at '' @ int_str retryAt
        @ '', strikes='' @ int_str strikes @ '')'')"

definition RebidCooldownError :: "int \<Rightarrow> int \<Rightarrow> int \<Rightarrow> gerr" where
  "RebidCooldownError parent retryAt retryAfter =
     Sentinel ''bidding.RebidCooldownError''
       (''re-bid cooldown active for parent_escrow_id '' @ int_str parent @ '': retry in ''
        @ int_str (RetryAfterSeconds (retryAfter * 1000000000)) @ '' seconds (at '' @ int_str retryAt @ '')'')"

definition sealedBidCooldownDuration :: "int \<Rightarrow> int" where
  "sealedBidCooldownDuration strikeCount =
     (if strikeCount \<le> 1 then 15 * 60 else if strikeCount = 2 then 6 * 3600 else 24 * 3600)"

definition sealedBidPhase :: "int \<Rightarrow> rfq \<Rightarrow> string" where
  "sealedBidPhase now r =
     (if rfq_BiddingMode r \<noteq> ''sealed'' then []
      else if now < rfq_CommitDeadline r then ''commit_open''
      else if now \<le> rfq_RevealDeadline r then ''reveal_open''
      else rfq_SealedBidStatus r)"

definition NormalizeRFQ :: "int \<Rightarrow> rfq \<Rightarrow> rfq" where
  "NormalizeRFQ now r =
     (if rfq_BiddingMode r = ''sealed'' then r\<lparr>rfq_SealedBidStatus := sealedBidPhase now r\<rparr> else r)"

definition NormalizeRFQs :: "int \<Rightarrow> rfq list \<Rightarrow> rfq list" where
  "NormalizeRFQs now rs = map (NormalizeRFQ now) rs"

section \<open>Milestones\<close>

record milestone_json =
  mj_Amount :: string
  mj_SubmissionDeadline :: string

definition decode_milestone :: "(string \<times> json) list \<Rightarrow> milestone_json option" where
  "decode_milestone kvs =
     (case (str_field ''amount'' kvs [], str_field ''submission_deadline'' kvs []) of
        (Some a, Some s) \<Rightarrow> Some \<lparr>mj_Amount = a, mj_SubmissionDeadline = s\<rparr>
      | _ \<Rightarrow> None)"

definition encode_milestone :: "milestone_json \<Rightarrow> json" where
  "encode_milestone m =
     JObj [(''amount'', JStr (mj_Amount m)), (''submission_deadline'', JStr (mj_SubmissionDeadline m))]"

fun milestone_params :: "nat \<Rightarrow> milestone_json list \<Rightarrow> gerr + milestone_param list" where
  "milestone_params i [] = Inr []"
| "milestone_params i (m # ms) =
     (case SetString10 (mj_Amount m) of
        None \<Rightarrow> Inl (errors_New (''invalid milestone['' @ nat_str i @ ''] amount: '' @ Quote (mj_Amount m)))
      | Some amt \<Rightarrow>
          if amt \<le> 0 then Inl (errors_New (''invalid milestone['' @ nat_str i @ ''] amount: '' @ Quote (mj_Amount m)))
          else (case ParseUint64 (mj_SubmissionDeadline m) of
                  None \<Rightarrow> Inl (errors_New (''invalid milestone['' @ nat_str i @ ''] submission_deadline: ''
                             @ mj_SubmissionDeadline m))
                | Some dl \<Rightarrow>
                    (case milestone_params (Suc i) ms of
                       Inl e \<Rightarrow> Inl e
                     | Inr ps \<Rightarrow> Inr (\<lparr>mp_Amount = amt, mp_SubmissionDeadline = word_of_nat dl\<rparr> # ps))))"

definition parseMilestonesJSON :: "string \<Rightarrow> gerr + milestone_param list" where
  "parseMilestonesJSON raw =
     (if raw = [] \<or> raw = ''[]'' then Inr []
      else case unmarshal_structs decode_milestone raw of
        None \<Rightarrow> Inl (wrap ''parse milestones_json'' json_err)
      | Some None \<Rightarrow> Inr []
      | Some (Some items) \<Rightarrow> milestone_params 0 items)"

definition canonicalMilestonesJSON :: "string \<Rightarrow> gerr + string" where
  "canonicalMilestonesJSON raw =
     (if raw = [] then Inr ''[]''
      else case unmarshal_structs decode_milestone raw of
        None \<Rightarrow> Inl (wrap ''invalid milestones_json'' json_err)
      | Some None \<Rightarrow> Inr (render JNull)
      | Some (Some items) \<Rightarrow> Inr (render (JArr (map encode_milestone items))))"

definition canonicalUintString :: "string \<Rightarrow> string \<Rightarrow> bool \<Rightarrow> gerr + string" where
  "canonicalUintString raw fieldName allowZero =
     (if raw = [] then Inl (errors_New (fieldName @ '' is required''))
      else case SetString10 raw of
        None \<Rightarrow> Inl (errors_New (''invalid '' @ fieldName))
      | Some n \<Rightarrow>
          if allowZero \<and> n < 0 then Inl (errors_New (''invalid '' @ fieldName @ '': negative value''))
          else if \<not> allowZero \<and> n \<le> 0 then Inl (errors_New (''invalid '' @ fieldName))
          else Inr (int_str n))"

section \<open>Requirements\<close>

text \<open>What \<open>json.Unmarshal\<close> into \<open>map[string]any\<close> and \<open>json.Marshal\<close> make of a document: the last of
  equal keys, keys in order, numbers as float64.\<close>

definition go_map :: "(string \<times> json) list \<Rightarrow> (string \<times> json) list" where
  "go_map kvs = map (\<lambda>k. (k, the (map_of (rev kvs) k))) (sort (remdups (map fst kvs)))"

fun go_any :: "(string \<Rightarrow> string option) \<Rightarrow> json \<Rightarrow> json option" where
  "go_any F (JNum s) = map_option JNum (F s)"
| "go_any F (JArr vs) = map_option JArr (those (map (go_any F) vs))"
| "go_any F (JObj kvs) =
     map_option (\<lambda>l. JObj (go_map l)) (those (map (\<lambda>(k, v). map_option (Pair k) (go_any F v)) kvs))"
| "go_any F v = Some v"

definition unmarshal_map :: "(string \<Rightarrow> string option) \<Rightarrow> string \<Rightarrow> (string \<times> json) list option" where
  "unmarshal_map F raw =
     (case parse_json raw of
        None \<Rightarrow> None
      | Some v \<Rightarrow>
          (case go_any F v of
             Some JNull \<Rightarrow> Some []
           | Some (JObj kvs) \<Rightarrow> Some kvs
           | _ \<Rightarrow> None))"

definition proof_key :: string where
  "proof_key = ''required_proof_protocol''"

definition normalize_requirements ::
    "(string \<Rightarrow> string option) \<Rightarrow> string \<Rightarrow> string \<Rightarrow> gerr + string" where
  "normalize_requirements F raw protocol =
     (case unmarshal_map F (if raw = [] then ''{}'' else raw) of
        None \<Rightarrow> Inl (wrap ''invalid requirements_json'' json_err)
      | Some req \<Rightarrow>
          (case map_of req proof_key of
             Some (JStr s) \<Rightarrow>
               if s \<noteq> ''groth16''
               then Inl (errors_New ''required_proof_protocol must be 'groth16' when set'')
               else if protocol = [] then Inr (render (JObj req))
               else if protocol \<noteq> ''groth16''
               then Inl (errors_New ''required_proof_protocol must be 'groth16' when set'')
               else if s \<noteq> protocol
               then Inl (errors_New ''required_proof_protocol mismatch between field and requirements_json'')
               else Inr (render (JObj (go_map (req @ [(proof_key, JStr protocol)]))))
           | Some _ \<Rightarrow> Inl (errors_New ''requirements_json.required_proof_protocol must be a string'')
           | None \<Rightarrow>
               if protocol = [] then Inr (render (JObj req))
               else if protocol \<noteq> ''groth16''
               then Inl (errors_New ''required_proof_protocol must be 'groth16' when set'')
               else Inr (render (JObj (go_map (req @ [(proof_key, JStr protocol)]))))))"

section \<open>Creating RFQs\<close>

record create_rfq_params =
  crp_Title :: string
  crp_Description :: string
  crp_Buyer :: string
  crp_Token :: string
  crp_BudgetMin :: string
  crp_BudgetMax :: string
  crp_Deadline :: int
  crp_ReviewPeriodSeconds :: int
  crp_DisputePeriodSeconds :: int
  crp_ArbitratorTimeoutSeconds :: int
  crp_Verifier :: string
  crp_Arbitrator :: string
  crp_WorkerStake :: string
  crp_MilestonesJSON :: string
  crp_RequirementsJSON :: string
  crp_RequiredCredentialsJSON :: string
  crp_RequiredProofProtocol :: string
  crp_ServiceTier :: int
  crp_BiddingMode :: string
  crp_CommitDeadline :: int
  crp_RevealDeadline :: int
  crp_ExpiresAt :: int
  crp_ParentEscrowID :: "int option"

definition check_budget :: "create_rfq_params \<Rightarrow> gerr option" where
  "check_budget p =
     (case SetString10 (crp_BudgetMin p) of
        None \<Rightarrow> Some (errors_New ''invalid budget_min'')
      | Some lo \<Rightarrow>
          if lo < 0 then Some (errors_New ''invalid budget_min'')
          else (case SetString10 (crp_BudgetMax p) of
                  None \<Rightarrow> Some (errors_New ''invalid budget_max'')
                | Some hi \<Rightarrow>
                    if hi \<le> 0 then Some (errors_New ''invalid budget_max'')
                    else if lo > hi then Some (errors_New ''budget_min must be <= budget_max'')
                    else None))"

definition check_times :: "int \<Rightarrow> create_rfq_params \<Rightarrow> gerr option" where
  "check_times now p =
     (if crp_ExpiresAt p \<le> now then Some (errors_New ''expires_at must be in the future'')
      else if crp_Deadline p \<le> now then Some (errors_New ''deadline must be in the future'')
      else if crp_CommitDeadline p = 0 then Some (errors_New ''commit_deadline is required'')
      else if crp_RevealDeadline p = 0 then Some (errors_New ''reveal_deadline is required'')
      else if crp_CommitDeadline p \<le> now then Some (errors_New ''commit_deadline must be in the future'')
      else if crp_RevealDeadline p < crp_CommitDeadline p
      then Some (errors_New ''reveal_deadline must be >= commit_deadline'')
      else if crp_ExpiresAt p < crp_RevealDeadline p
      then Some (errors_New ''expires_at must be >= reveal_deadline'')
      else if crp_RevealDeadline p > crp_Deadline p
      then Some (errors_New ''reveal_deadline must be <= deadline'')
      else None)"

definition bidding_mode :: "create_rfq_params \<Rightarrow> string" where
  "bidding_mode p = (if TrimSpace (crp_BiddingMode p) = [] then ''sealed'' else TrimSpace (crp_BiddingMode p))"

definition check_parties :: "eth_lib \<Rightarrow> create_rfq_params \<Rightarrow> gerr option" where
  "check_parties L p =
     (if \<not> IsHexAddress L (crp_Buyer p) then Some (errors_New ''invalid buyer address'')
      else if crp_Token p \<noteq> [] \<and> crp_Token p \<noteq> zero_address \<and> \<not> IsHexAddress L (crp_Token p)
      then Some (errors_New ''invalid token address'')
      else if bidding_mode p \<notin> {''sealed'', ''open''}
      then Some (errors_New (''invalid bidding_mode: must be '' @ CHR 0x27 # ''sealed'' @ CHR 0x27 # '' or '' @ CHR 0x27 # ''open'' @ [CHR 0x27]))
      else if crp_Verifier p \<noteq> [] \<and> \<not> IsHexAddress L (crp_Verifier p)
      then Some (errors_New ''invalid verifier address'')
      else if crp_Arbitrator p \<noteq> [] \<and> \<not> IsHexAddress L (crp_Arbitrator p)
      then Some (errors_New ''invalid arbitrator address'')
      else if crp_ServiceTier p \<notin> {0, 1}
      then Some (errors_New ''invalid service_tier: must be 0 (low_assurance) or 1 (high_assurance)'')
      else None)"

definition worker_stake :: "create_rfq_params \<Rightarrow> string" where
  "worker_stake p = (if crp_WorkerStake p = [] then ''0'' else crp_WorkerStake p)"

definition check_stake :: "create_rfq_params \<Rightarrow> gerr option" where
  "check_stake p =
     (case SetString10 (worker_stake p) of
        None \<Rightarrow> Some (errors_New ''invalid worker_stake'')
      | Some n \<Rightarrow> if n < 0 then Some (errors_New ''invalid worker_stake'') else None)"

definition same_address :: "eth_lib \<Rightarrow> string \<Rightarrow> string \<Rightarrow> bool" where
  "same_address L a b \<longleftrightarrow> EqualFold (AddressHex L (HexToAddress L a)) (AddressHex L (HexToAddress L b))"

definition active_worker :: "escrow \<Rightarrow> string" where
  "active_worker e = (if esc_ActiveWorker e = [] then esc_Worker e else esc_ActiveWorker e)"

definition check_parent :: "eth_lib \<Rightarrow> create_rfq_params \<Rightarrow> db \<Rightarrow> gerr option" where
  "check_parent L p d =
     (case crp_ParentEscrowID p of
        None \<Rightarrow> None
      | Some i \<Rightarrow>
          (case GetEscrow d i of
             Inl e \<Rightarrow> Some (wrap (''parent_escrow_id '' @ int_str i @ '' not found'') e)
           | Inr parent \<Rightarrow>
               if \<not> same_address L (crp_Buyer p) (active_worker parent)
               then Some (errors_New (''sub-delegation RFQ buyer ('' @ crp_Buyer p
                      @ '') must be the active worker of parent escrow '' @ int_str i @ '' ('' @ active_worker parent @ '')''))
               else None))"

definition required_credentials :: "create_rfq_params \<Rightarrow> string" where
  "required_credentials p =
     (if crp_RequiredCredentialsJSON p = [] then ''[]'' else crp_RequiredCredentialsJSON p)"

definition rfq_record :: "bid_env \<Rightarrow> create_rfq_params \<Rightarrow> string \<Rightarrow> rfq" where
  "rfq_record E p requirements =
     \<lparr>rfq_ID = 0, rfq_Title = crp_Title p, rfq_Description = crp_Description p,
      rfq_SpecHash = HashHex (be_L E) (Keccak256Hash (be_L E) (crp_Title p @ crp_Description p)),
      rfq_Buyer = crp_Buyer p, rfq_Token = crp_Token p, rfq_BudgetMin = crp_BudgetMin p,
      rfq_BudgetMax = crp_BudgetMax p, rfq_Deadline = crp_Deadline p,
      rfq_ReviewPeriodSeconds = crp_ReviewPeriodSeconds p, rfq_DisputePeriodSeconds = crp_DisputePeriodSeconds p,
      rfq_ArbitratorTimeoutSeconds = crp_ArbitratorTimeoutSeconds p, rfq_Verifier = crp_Verifier p,
      rfq_Arbitrator = crp_Arbitrator p, rfq_WorkerStake = worker_stake p,
      rfq_MilestonesJSON = (if crp_MilestonesJSON p = [] then ''[]'' else crp_MilestonesJSON p),
      rfq_RequirementsJSON = requirements, rfq_RequiredCredentialsJSON = required_credentials p,
      rfq_BiddingMode = bidding_mode p, rfq_CommitDeadline = crp_CommitDeadline p,
      rfq_RevealDeadline = crp_RevealDeadline p,
      rfq_SealedBidStatus =
        (if bidding_mode p \<noteq> ''sealed'' then []
         else if be_Now E < crp_CommitDeadline p then ''commit_open''
         else if be_Now E \<le> crp_RevealDeadline p then ''reveal_open'' else []),
      rfq_SealedBidSelectionRule = (if bidding_mode p = ''sealed'' then sealedBidSelectionRule else []),
      rfq_BestBidID = None, rfq_SealedBidFinalizedAt = 0, rfq_ServiceTier = crp_ServiceTier p,
      rfq_ParentEscrowID = crp_ParentEscrowID p, rfq_Status = ''open'', rfq_ExpiresAt = crp_ExpiresAt p,
      rfq_CreatedAt = 0, rfq_UpdatedAt = 0\<rparr>"

definition prepareRFQRecord :: "bid_env \<Rightarrow> create_rfq_params \<Rightarrow> db \<Rightarrow> gerr + rfq" where
  "prepareRFQRecord E p d =
     (case check_budget p of Some e \<Rightarrow> Inl e | None \<Rightarrow>
      case check_times (be_Now E) p of Some e \<Rightarrow> Inl e | None \<Rightarrow>
      case check_parties (be_L E) p of Some e \<Rightarrow> Inl e | None \<Rightarrow>
      case check_stake p of Some e \<Rightarrow> Inl e | None \<Rightarrow>
      case normalize_requirements (be_FloatText E) (crp_RequirementsJSON p) (crp_RequiredProofProtocol p) of
        Inl e \<Rightarrow> Inl e
      | Inr requirements \<Rightarrow>
          (case ParseCredentialRequirements (be_L E) (required_credentials p) of
             Inl e \<Rightarrow> Inl (wrap ''invalid required_credentials_json'' e)
           | Inr _ \<Rightarrow>
               (case check_parent (be_L E) p d of Some e \<Rightarrow> Inl e
                | None \<Rightarrow> Inr (rfq_record E p requirements))))"

definition rebid_error :: "bid_env \<Rightarrow> int \<Rightarrow> db \<Rightarrow> gerr \<Rightarrow> gerr" where
  "rebid_error E parent d e =
     (case (e, GetLatestRFQByParentEscrow d parent) of
        (Sentinel kind m, Some latest) \<Rightarrow>
          if kind = ''storage.ParentRFQCooldownError''
          then (let retryAt = rfq_CreatedAt latest + be_RebidCooldownSeconds E in
                RebidCooldownError parent retryAt (max 0 (retryAt - be_Now E)))
          else wrap ''create rfq'' e
      | _ \<Rightarrow> wrap ''create rfq'' e)"

definition CreateRFQ :: "bid_env \<Rightarrow> create_rfq_params \<Rightarrow> db \<Rightarrow> rfq result" where
  "CreateRFQ E p d =
     orFail d id (prepareRFQRecord E p d) (\<lambda>r.
       case rfq_ParentEscrowID r of
         Some parent \<Rightarrow>
           if be_RebidCooldownSeconds E > 0
           then mapErr (rebid_error E parent d)
                  (CreateRFQWithParentCooldown (be_Now E) r (be_RebidCooldownSeconds E) d)
           else mapErr (wrap ''create rfq'') (createRFQOn (be_Now E) r d)
       | None \<Rightarrow> mapErr (wrap ''create rfq'') (createRFQOn (be_Now E) r d))"

definition CreateRFQTx :: "bid_env \<Rightarrow> create_rfq_params \<Rightarrow> db \<Rightarrow> rfq result" where
  "CreateRFQTx E p d =
     orFail d id (prepareRFQRecord E p d) (\<lambda>r. mapErr (wrap ''create rfq'') (createRFQOn (be_Now E) r d))"

section \<open>Finalization\<close>

record sealed_bid_summary =
  sbs_RFQID :: int
  sbs_Finalized :: bool
  sbs_SealedBidStatus :: string
  sbs_SealedBidSelectionRule :: string
  sbs_BestBidID :: "int option"
  sbs_EligibleBidIDs :: "int list"
  sbs_UnrevealedCommitCount :: nat
  sbs_FinalizedAt :: int

record candidate =
  cand_bid :: bid
  cand_commit :: bid_commit
  cand_amount :: int
  cand_commitTime :: int

definition cand_key :: "candidate \<Rightarrow> int \<times> int \<times> int \<times> int" where
  "cand_key c = (cand_amount c, bid_EstimatedDuration (cand_bid c), cand_commitTime c, bid_ID (cand_bid c))"

definition sortSealedBidCandidates :: "candidate list \<Rightarrow> candidate list" where
  "sortSealedBidCandidates cs = sort_key cand_key cs"

definition activeSealedBidCooldown :: "db \<Rightarrow> string \<Rightarrow> int \<Rightarrow> gerr + gerr option" where
  "activeSealedBidCooldown d bidder now =
     (case GetSealedBidderDiscipline d bidder of
        Inl e \<Rightarrow> if errors_is e ErrNoRows then Inr None else Inl e
      | Inr r \<Rightarrow>
          if dis_CooldownUntil r \<le> now then Inr None
          else Inr (Some (SealedBidCooldownError bidder (dis_CooldownUntil r) (dis_CooldownUntil r - now)
                            (dis_NonRevealCount r))))"

definition finalized_status :: "string \<Rightarrow> bool" where
  "finalized_status s \<longleftrightarrow> s = ''finalized'' \<or> s = ''no_valid_reveals''"

definition buildSealedBidSummary :: "rfq \<Rightarrow> int list \<Rightarrow> nat \<Rightarrow> sealed_bid_summary" where
  "buildSealedBidSummary r eligible unrevealed =
     \<lparr>sbs_RFQID = rfq_ID r, sbs_Finalized = finalized_status (rfq_SealedBidStatus r),
      sbs_SealedBidStatus = rfq_SealedBidStatus r, sbs_SealedBidSelectionRule = rfq_SealedBidSelectionRule r,
      sbs_BestBidID = rfq_BestBidID r, sbs_EligibleBidIDs = eligible,
      sbs_UnrevealedCommitCount = unrevealed, sbs_FinalizedAt = rfq_SealedBidFinalizedAt r\<rparr>"

definition candidate_of :: "db \<Rightarrow> bool \<Rightarrow> int \<Rightarrow> bid \<Rightarrow> gerr + candidate option" where
  "candidate_of d requireVerified now b =
     (if bid_Status b \<noteq> ''pending'' then Inr None
      else if bid_ExpiresAt b \<le> now then Inr None
      else if requireVerified \<and> \<not> bid_CredentialVerified b then Inr None
      else case GetBidCommitByRevealedBidID d (bid_ID b) of
        Inl e \<Rightarrow> if errors_is e ErrNoRows then Inr None
                 else Inl (wrap ''get bid commit by revealed bid id'' e)
      | Inr c \<Rightarrow>
          if bc_Status c \<noteq> ''revealed'' then Inr None
          else (case SetString10 (bid_Amount b) of
                  None \<Rightarrow> Inr None
                | Some amount \<Rightarrow>
                    if amount \<le> 0 then Inr None
                    else Inr (Some \<lparr>cand_bid = b, cand_commit = c, cand_amount = amount,
                                    cand_commitTime = bc_CreatedAt c\<rparr>)))"

fun collect_candidates :: "db \<Rightarrow> bool \<Rightarrow> int \<Rightarrow> bid list \<Rightarrow> gerr + candidate list" where
  "collect_candidates d req now [] = Inr []"
| "collect_candidates d req now (b # bs) =
     (case candidate_of d req now b of
        Inl e \<Rightarrow> Inl e
      | Inr oc \<Rightarrow>
          (case collect_candidates d req now bs of
             Inl e \<Rightarrow> Inl e
           | Inr cs \<Rightarrow> Inr (case oc of None \<Rightarrow> cs | Some c \<Rightarrow> c # cs)))"

definition eligibleSealedBidCandidatesOn :: "bid_env \<Rightarrow> db \<Rightarrow> rfq \<Rightarrow> gerr + candidate list" where
  "eligibleSealedBidCandidatesOn E d r =
     (case ParseCredentialRequirements (be_L E) (rfq_RequiredCredentialsJSON r) of
        Inl e \<Rightarrow> Inl (wrap ''parse rfq credential requirements'' e)
      | Inr reqs \<Rightarrow>
          (case collect_candidates d (reqs \<noteq> []) (be_Now E) (ListBidsByRFQ d (rfq_ID r)) of
             Inl e \<Rightarrow> Inl e
           | Inr cs \<Rightarrow> Inr (sortSealedBidCandidates cs)))"

definition raise_cooldown :: "string \<Rightarrow> int \<Rightarrow> (string \<times> int) list \<Rightarrow> (string \<times> int) list" where
  "raise_cooldown bidder until m =
     (case map_of m bidder of
        None \<Rightarrow> m @ [(bidder, until)]
      | Some old \<Rightarrow> if until > old then AList.update bidder until m else m)"

fun cooldown_loop :: "int \<Rightarrow> db \<Rightarrow> bid_commit list \<Rightarrow> (string \<times> int) list \<Rightarrow> gerr + (string \<times> int) list" where
  "cooldown_loop now d [] m = Inr m"
| "cooldown_loop now d (c # cs) m =
     (case GetSealedBidderDiscipline d (bc_Bidder c) of
        Inl e \<Rightarrow>
          if errors_is e ErrNoRows
          then cooldown_loop now d cs (raise_cooldown (bc_Bidder c) (now + sealedBidCooldownDuration 1) m)
          else Inl e
      | Inr r \<Rightarrow>
          cooldown_loop now d cs
            (raise_cooldown (bc_Bidder c) (now + sealedBidCooldownDuration (dis_NonRevealCount r + 1)) m))"

definition finalize_update :: "bid_env \<Rightarrow> rfq \<Rightarrow> candidate list \<Rightarrow> rfq" where
  "finalize_update E r cs =
     r\<lparr>rfq_SealedBidStatus := (if cs = [] then ''no_valid_reveals'' else ''finalized''),
       rfq_SealedBidSelectionRule := sealedBidSelectionRule,
       rfq_BestBidID := (case cs of [] \<Rightarrow> None | c # _ \<Rightarrow> Some (bid_ID (cand_bid c))),
       rfq_SealedBidFinalizedAt := be_Now E\<rparr>"

definition strike_bidders :: "int \<Rightarrow> (string \<times> int) list \<Rightarrow> db \<Rightarrow> db" where
  "strike_bidders now m d = foldl (\<lambda>d (b, until). UpsertSealedBidderDiscipline now b until d) d m"

text \<open>The immediate transaction, which reads the RFQ again.\<close>

definition finalize_tx :: "bid_env \<Rightarrow> int \<Rightarrow> db \<Rightarrow> sealed_bid_summary result" where
  "finalize_tx E rfqID d =
     orFail d (wrap ''get rfq in tx'') (GetRFQ d rfqID) (\<lambda>r.
       if finalized_status (rfq_SealedBidStatus r) then (d, Inr (buildSealedBidSummary r [] 0))
       else if rfq_Status r \<noteq> ''open'' then (d, Inr (buildSealedBidSummary r [] 0))
       else if be_Now E \<le> rfq_RevealDeadline r
       then (d, Inl (errors_New ''cannot finalize sealed bidding before reveal phase ends''))
       else orFail d id (eligibleSealedBidCandidatesOn E d r) (\<lambda>cs.
         let committed = ListCommittedBidCommitsByRFQ d rfqID; r' = finalize_update E r cs in
         orFail d id (cooldown_loop (be_Now E) d committed []) (\<lambda>m.
           let d1 = ExpireCommittedBidCommits (be_Now E) rfqID (strike_bidders (be_Now E) m d) in
           in_tx d (andThen
             (UpdateRFQSealedBiddingState (be_Now E) rfqID (rfq_SealedBidStatus r') sealedBidSelectionRule
                (rfq_BestBidID r') (be_Now E) d1)
             (\<lambda>d2 _. (d2, Inr (buildSealedBidSummary r' (map (\<lambda>c. bid_ID (cand_bid c)) cs)
                              (length committed))))))))"

definition FinalizeSealedBidding :: "bid_env \<Rightarrow> int \<Rightarrow> db \<Rightarrow> sealed_bid_summary result" where
  "FinalizeSealedBidding E rfqID d =
     orFail d (wrap ''rfq not found'') (GetRFQ d rfqID) (\<lambda>r.
       if rfq_BiddingMode r \<noteq> ''sealed'' then (d, Inr (buildSealedBidSummary r [] 0))
       else if rfq_Status r \<noteq> ''open'' then (d, Inr (buildSealedBidSummary r [] 0))
       else if finalized_status (rfq_SealedBidStatus r) then (d, Inr (buildSealedBidSummary r [] 0))
       else if be_Now E \<le> rfq_RevealDeadline r
       then (d, Inl (errors_New ''cannot finalize sealed bidding before reveal phase ends''))
       else finalize_tx E rfqID d)"

section \<open>Commitments\<close>

record reveal_bid_params =
  rvp_RFQID :: int
  rvp_Bidder :: string
  rvp_Nonce :: string
  rvp_Salt :: string
  rvp_Amount :: string
  rvp_EstimatedDuration :: int
  rvp_ReputationBond :: string
  rvp_MilestonesJSON :: string
  rvp_Message :: string
  rvp_ExpiresAt :: int
  rvp_StakeMandateID :: string
  rvp_CredentialsJSON :: string

definition hash_hex :: "eth_lib \<Rightarrow> string \<Rightarrow> string" where
  "hash_hex L s = HashHex L (Keccak256Hash L s)"

definition commitment_payload :: "eth_lib \<Rightarrow> int \<Rightarrow> reveal_bid_params \<Rightarrow> string \<Rightarrow> string \<Rightarrow> string \<Rightarrow> string" where
  "commitment_payload L rfqID p amount bond milestonesJSON =
     Join [''agent-escrow:sealed-bid:v1'', int_str rfqID,
           ToLower (AddressHex L (HexToAddress L (rvp_Bidder p))),
           amount, int_str (rvp_EstimatedDuration p), bond,
           hash_hex L milestonesJSON, hash_hex L (rvp_Message p), int_str (rvp_ExpiresAt p),
           hash_hex L (TrimSpace (rvp_StakeMandateID p)), rvp_Nonce p, rvp_Salt p] ''|''"

definition computeBidCommitment :: "eth_lib \<Rightarrow> int \<Rightarrow> reveal_bid_params \<Rightarrow> gerr + string" where
  "computeBidCommitment L rfqID p =
     (if rfqID \<le> 0 then Inl (errors_New ''invalid rfq_id'')
      else if \<not> IsHexAddress L (rvp_Bidder p) then Inl (errors_New ''invalid bidder address'')
      else if blank (rvp_Nonce p) then Inl (errors_New ''nonce is required'')
      else if blank (rvp_Salt p) then Inl (errors_New ''salt is required'')
      else if rvp_EstimatedDuration p < 0 then Inl (errors_New ''estimated_duration must be >= 0'')
      else if rvp_ExpiresAt p \<le> 0 then Inl (errors_New ''expires_at must be > 0'')
      else case canonicalUintString (rvp_Amount p) ''amount'' False of
        Inl e \<Rightarrow> Inl e
      | Inr amount \<Rightarrow>
          (case canonicalUintString (rvp_ReputationBond p) ''reputation_bond'' True of
             Inl e \<Rightarrow> Inl e
           | Inr bond \<Rightarrow>
               (case canonicalMilestonesJSON (rvp_MilestonesJSON p) of
                  Inl e \<Rightarrow> Inl e
                | Inr ms \<Rightarrow> Inr (hash_hex L (commitment_payload L rfqID p amount bond ms)))))"

section \<open>Committing a bid\<close>

record commit_bid_params =
  cbp_RFQID :: int
  cbp_Bidder :: string
  cbp_Commitment :: string
  cbp_Nonce :: string

definition canonical_address :: "eth_lib \<Rightarrow> string \<Rightarrow> string" where
  "canonical_address L s = AddressHex L (HexToAddress L s)"

definition duplicate_nonce_err :: "bid_commit \<Rightarrow> gerr" where
  "duplicate_nonce_err c = errors_New (''duplicate nonce for bidder in rfq (existing_commit_id=''
     @ int_str (bc_ID c) @ ''); replacements require a new nonce'')"

definition duplicate_commitment_err :: "bid_commit \<Rightarrow> gerr" where
  "duplicate_commitment_err c =
     errors_New (''duplicate commitment for bidder in rfq (existing_commit_id='' @ int_str (bc_ID c) @ '')'')"

definition commit_error :: "db \<Rightarrow> int \<Rightarrow> string \<Rightarrow> string \<Rightarrow> string \<Rightarrow> gerr \<Rightarrow> gerr" where
  "commit_error d rfqID bidder nonce commitment e =
     (if errors_is e ErrDuplicateBidCommitNonce
      then (case GetBidCommitByRFQBidderNonce d rfqID bidder nonce of
              Inr c \<Rightarrow> duplicate_nonce_err c
            | Inl _ \<Rightarrow> errors_New ''duplicate nonce for bidder in rfq; replacements require a new nonce'')
      else if errors_is e ErrDuplicateBidCommitCommitment
      then (case GetBidCommitByRFQBidderCommitment d rfqID bidder commitment of
              Inr c \<Rightarrow> duplicate_commitment_err c
            | Inl _ \<Rightarrow> errors_New ''duplicate commitment for bidder in rfq'')
      else wrap ''create bid_commit'' e)"

definition new_commit :: "int \<Rightarrow> string \<Rightarrow> string \<Rightarrow> string \<Rightarrow> bid_commit" where
  "new_commit rfqID bidder commitment nonce =
     \<lparr>bc_ID = 0, bc_RFQID = rfqID, bc_Bidder = bidder, bc_Commitment = commitment, bc_Nonce = nonce,
      bc_Status = ''committed'', bc_RevealedBidID = None, bc_CreatedAt = 0, bc_UpdatedAt = 0\<rparr>"

text \<open>The transaction: the commits of the bidder for this RFQ that are still outstanding are superseded.\<close>

definition commit_tx :: "int \<Rightarrow> int \<Rightarrow> string \<Rightarrow> string \<Rightarrow> string \<Rightarrow> db \<Rightarrow> bid_commit result" where
  "commit_tx now rfqID bidder commitment nonce d =
     in_tx d (mapErr (commit_error d rfqID bidder nonce commitment)
       (createBidCommitOn now (new_commit rfqID bidder commitment nonce)
          (SupersedeCommittedBidCommits now rfqID bidder d)))"

definition check_commit :: "bid_env \<Rightarrow> commit_bid_params \<Rightarrow> rfq \<Rightarrow> gerr option" where
  "check_commit E p r =
     (if rfq_Status r \<noteq> ''open'' then Some (errors_New (''rfq is not open (status: '' @ rfq_Status r @ '')''))
      else if rfq_CommitDeadline r \<le> be_Now E then Some (errors_New ''commit phase has ended'')
      else if \<not> IsHexAddress (be_L E) (cbp_Bidder p) then Some (errors_New ''invalid bidder address'')
      else if canonical_address (be_L E) (cbp_Bidder p) = canonical_address (be_L E) (rfq_Buyer r)
      then Some (errors_New ''bidder cannot be the same as the rfq buyer'')
      else if cbp_Nonce p = [] then Some (errors_New ''nonce is required'')
      else if \<not> HasPrefix (cbp_Commitment p) ''0x'' \<or> length (cbp_Commitment p) \<noteq> 66
      then Some (errors_New ''invalid commitment: must be 0x-prefixed 32-byte hex'')
      else case DecodeString (drop 2 (cbp_Commitment p)) of
        Inl _ \<Rightarrow> Some (errors_New ''invalid commitment: must be valid hex'')
      | Inr _ \<Rightarrow> None)"

definition check_duplicates :: "db \<Rightarrow> int \<Rightarrow> string \<Rightarrow> string \<Rightarrow> string \<Rightarrow> gerr option" where
  "check_duplicates d rfqID bidder nonce commitment =
     (case GetBidCommitByRFQBidderNonce d rfqID bidder nonce of
        Inr c \<Rightarrow> Some (duplicate_nonce_err c)
      | Inl e \<Rightarrow>
          if \<not> errors_is e ErrNoRows then Some e
          else (case GetBidCommitByRFQBidderCommitment d rfqID bidder commitment of
                  Inr c \<Rightarrow> Some (duplicate_commitment_err c)
                | Inl e \<Rightarrow> if \<not> errors_is e ErrNoRows then Some e else None))"

definition CommitBid :: "bid_env \<Rightarrow> commit_bid_params \<Rightarrow> db \<Rightarrow> bid_commit result" where
  "CommitBid E p d =
     orFail d (wrap ''rfq not found'') (GetRFQ d (cbp_RFQID p)) (\<lambda>r.
       case check_commit E p r of
         Some e \<Rightarrow> (d, Inl e)
       | None \<Rightarrow>
           let bidder = canonical_address (be_L E) (cbp_Bidder p); commitment = ToLower (cbp_Commitment p) in
           orFail d id (CountRecentBidCommitsByRFQBidder d (cbp_RFQID p) bidder commitRateLimitWindowSeconds (be_Now E))
             (\<lambda>recent.
               if maxCommitRequestsPerMinute \<le> recent
               then (d, Inl (errors_New (''rate limit exceeded: max '' @ nat_str maxCommitRequestsPerMinute
                      @ '' commits per bidder per '' @ int_str commitRateLimitWindowSeconds @ '' seconds'')))
               else case check_duplicates d (cbp_RFQID p) bidder (cbp_Nonce p) commitment of
                 Some e \<Rightarrow> (d, Inl e)
               | None \<Rightarrow>
                   if rfq_BiddingMode r = ''sealed''
                   then orFail d id (activeSealedBidCooldown d bidder (be_Now E)) (\<lambda>cooldown.
                     case cooldown of
                       Some e \<Rightarrow> (d, Inl (errors_Join ErrSealedBidCooldownActive e))
                     | None \<Rightarrow> commit_tx (be_Now E) (cbp_RFQID p) bidder commitment (cbp_Nonce p) d)
                   else commit_tx (be_Now E) (cbp_RFQID p) bidder commitment (cbp_Nonce p) d))"

section \<open>Revealing a bid\<close>

fun check_attestations :: "eth_lib \<Rightarrow> string \<Rightarrow> int \<Rightarrow> nat \<Rightarrow> attestation list \<Rightarrow> gerr option" where
  "check_attestations L bidder now i [] = None"
| "check_attestations L bidder now i (a # as) =
     (case ValidateAttestation L a bidder now of
        Some e \<Rightarrow> Some (wrap (''credential['' @ nat_str i @ ''] validation failed'') e)
      | None \<Rightarrow> check_attestations L bidder now (Suc i) as)"

definition check_reveal :: "bid_env \<Rightarrow> reveal_bid_params \<Rightarrow> rfq \<Rightarrow> gerr option" where
  "check_reveal E p r =
     (if \<not> IsHexAddress (be_L E) (rvp_Bidder p) then Some (errors_New ''invalid bidder address'')
      else if canonical_address (be_L E) (rvp_Bidder p) = canonical_address (be_L E) (rfq_Buyer r)
      then Some (errors_New ''bidder cannot be the same as the rfq buyer'')
      else if rvp_Amount p = [] then Some (errors_New ''amount is required'')
      else if rvp_Nonce p = [] then Some (errors_New ''nonce is required'')
      else if rvp_Salt p = [] then Some (errors_New ''salt is required'')
      else if rvp_EstimatedDuration p < 0 then Some (errors_New ''estimated_duration must be >= 0'')
      else None)"

text \<open>The parameters after the defaults: the canonical bidder, the deadline of the RFQ, no bond.\<close>

definition reveal_defaults :: "bid_env \<Rightarrow> rfq \<Rightarrow> reveal_bid_params \<Rightarrow> reveal_bid_params" where
  "reveal_defaults E r p =
     p\<lparr>rvp_Bidder := canonical_address (be_L E) (rvp_Bidder p),
       rvp_ExpiresAt := (if rvp_ExpiresAt p = 0 then rfq_Deadline r else rvp_ExpiresAt p),
       rvp_ReputationBond := (if rvp_ReputationBond p = [] then ''0'' else rvp_ReputationBond p)\<rparr>"

definition check_terms :: "int \<Rightarrow> reveal_bid_params \<Rightarrow> rfq \<Rightarrow> gerr option" where
  "check_terms now p r =
     (case SetString10 (rvp_Amount p) of
        None \<Rightarrow> Some (errors_New ''invalid amount'')
      | Some amount \<Rightarrow>
          if amount \<le> 0 then Some (errors_New ''invalid amount'')
          else case SetString10 (rfq_BudgetMin r) of
            None \<Rightarrow> Some (errors_New (''invalid rfq budget_min: '' @ rfq_BudgetMin r))
          | Some lo \<Rightarrow>
              (case SetString10 (rfq_BudgetMax r) of
                 None \<Rightarrow> Some (errors_New (''invalid rfq budget_max: '' @ rfq_BudgetMax r))
               | Some hi \<Rightarrow>
                   if amount < lo \<or> amount > hi
                   then Some (errors_New (''amount must be between budget_min ('' @ rfq_BudgetMin r
                          @ '') and budget_max ('' @ rfq_BudgetMax r @ '')''))
                   else if rvp_ExpiresAt p \<le> now then Some (errors_New ''bid expires_at must be in the future'')
                   else if rvp_ExpiresAt p > rfq_Deadline r
                   then Some (errors_New ''bid expires_at must not exceed rfq deadline'')
                   else (case SetString10 (rvp_ReputationBond p) of
                           None \<Rightarrow> Some (errors_New ''invalid reputation_bond'')
                         | Some b \<Rightarrow>
                             if b < 0 then Some (errors_New ''invalid reputation_bond: negative value'') else None)))"

definition credentials_json :: "reveal_bid_params \<Rightarrow> string" where
  "credentials_json p = (if rvp_CredentialsJSON p = [] then ''[]'' else rvp_CredentialsJSON p)"

definition match_credentials :: "bid_env \<Rightarrow> reveal_bid_params \<Rightarrow> rfq \<Rightarrow> gerr + verification_result" where
  "match_credentials E p r =
     (case ParseAttestations (credentials_json p) of
        Inl e \<Rightarrow> Inl (wrap ''invalid credentials_json'' e)
      | Inr atts \<Rightarrow>
          (case check_attestations (be_L E) (rvp_Bidder p) (be_Now E) 0 atts of
             Some e \<Rightarrow> Inl e
           | None \<Rightarrow>
               (case ParseCredentialRequirements (be_L E) (rfq_RequiredCredentialsJSON r) of
                  Inl e \<Rightarrow> Inl (wrap ''parse rfq credential requirements'' e)
                | Inr reqs \<Rightarrow> Inr (MatchRequirements (be_L E) reqs atts))))"

definition revealed_bid :: "reveal_bid_params \<Rightarrow> verification_result \<Rightarrow> bid" where
  "revealed_bid p vr =
     \<lparr>bid_ID = 0, bid_RFQID = rvp_RFQID p, bid_Bidder = rvp_Bidder p, bid_Amount = rvp_Amount p,
      bid_EstimatedDuration = rvp_EstimatedDuration p, bid_ReputationBond = rvp_ReputationBond p,
      bid_MilestonesJSON = rvp_MilestonesJSON p, bid_Message = rvp_Message p, bid_Status = ''pending'',
      bid_EscrowID = None, bid_ExpiresAt = rvp_ExpiresAt p, bid_StakeMandateID = rvp_StakeMandateID p,
      bid_CredentialsJSON = credentials_json p, bid_CredentialVerified = vr_Verified vr,
      bid_CredentialMatchSummary = MarshalVerificationResult vr, bid_CreatedAt = 0, bid_UpdatedAt = 0\<rparr>"

definition reveal_tx :: "int \<Rightarrow> int \<Rightarrow> bid \<Rightarrow> db \<Rightarrow> bid result" where
  "reveal_tx now commitID b d =
     in_tx d (andThen (mapErr (wrap ''create bid'') (createBidOn now b d)) (\<lambda>d1 row.
       andThen (mapErr (wrap ''update bid commit reveal'') (UpdateBidCommitReveal now commitID (bid_ID row) d1))
         (\<lambda>d2 _. (d2, Inr row))))"

definition RevealBid :: "bid_env \<Rightarrow> reveal_bid_params \<Rightarrow> db \<Rightarrow> bid result" where
  "RevealBid E p0 d =
     orFail d (wrap ''rfq not found'') (GetRFQ d (rvp_RFQID p0)) (\<lambda>r.
       if rfq_Status r \<noteq> ''open''
       then (d, Inl (errors_New (''rfq is not open (status: '' @ rfq_Status r @ '')'')))
       else if be_Now E < rfq_CommitDeadline r then (d, Inl (errors_New ''reveal phase has not started''))
       else if be_Now E > rfq_RevealDeadline r
       then (ExpireCommittedBidCommits (be_Now E) (rvp_RFQID p0) d, Inl (errors_New ''reveal phase has ended''))
       else case check_reveal E p0 r of
         Some e \<Rightarrow> (d, Inl e)
       | None \<Rightarrow>
           orFail d id (canonicalMilestonesJSON (rvp_MilestonesJSON p0)) (\<lambda>ms.
             let p = (reveal_defaults E r p0)\<lparr>rvp_MilestonesJSON := ms\<rparr> in
             case GetBidCommitByRFQBidderNonce d (rvp_RFQID p) (rvp_Bidder p) (rvp_Nonce p) of
               Inl e \<Rightarrow> (d, Inl (if errors_is e ErrNoRows then errors_New ''commit not found for bidder+nonce'' else e))
             | Inr commit \<Rightarrow>
                 if bc_Status commit \<noteq> ''committed''
                 then (d, Inl (errors_New (''commit is not revealable (status: '' @ bc_Status commit @ '')'')))
                 else orFail d id (computeBidCommitment (be_L E) (rvp_RFQID p) p) (\<lambda>expected.
                   if \<not> EqualFold expected (bc_Commitment commit)
                   then (d, Inl (errors_New ''invalid reveal: commitment mismatch''))
                   else case check_terms (be_Now E) p r of
                     Some e \<Rightarrow> (d, Inl e)
                   | None \<Rightarrow>
                       orFail d id (match_credentials E p r) (\<lambda>vr.
                         reveal_tx (be_Now E) (bc_ID commit) (revealed_bid p vr) d))))"

section \<open>Accepting a bid\<close>

record accept_bid_params =
  abp_RFQID :: int
  abp_BidID :: int
  abp_Caller :: string

record accept_bid_result =
  abr_Bid :: bid
  abr_Escrow :: escrow
  abr_Task :: task
  abr_TxHash :: string

definition check_best :: "sealed_bid_summary option \<Rightarrow> bid \<Rightarrow> gerr option" where
  "check_best summary b =
     (case summary of
        None \<Rightarrow> None
      | Some s \<Rightarrow>
          if sbs_SealedBidStatus s = ''no_valid_reveals''
          then Some (errors_New ''no valid revealed bids are available for acceptance'')
          else if sbs_BestBidID s \<noteq> Some (bid_ID b)
          then Some (errors_New ''bid is not the selected best bid for this sealed RFQ'')
          else None)"

definition check_acceptance ::
    "bid_env \<Rightarrow> accept_bid_params \<Rightarrow> sealed_bid_summary option \<Rightarrow> rfq \<Rightarrow> bid \<Rightarrow> db \<Rightarrow> gerr option" where
  "check_acceptance E p summary r b d =
     (if bid_RFQID b \<noteq> abp_RFQID p then Some (errors_New ''bid does not belong to this rfq'')
      else if bid_Status b \<noteq> ''pending''
      then Some (errors_New (''bid is not pending (status: '' @ bid_Status b @ '')''))
      else if bid_ExpiresAt b \<le> be_Now E then Some (errors_New ''bid has expired'')
      else case check_best summary b of
        Some e \<Rightarrow> Some e
      | None \<Rightarrow>
          (case ParseCredentialRequirements (be_L E) (rfq_RequiredCredentialsJSON r) of
             Inl e \<Rightarrow> Some (wrap ''parse rfq credential requirements'' e)
           | Inr reqs \<Rightarrow>
               if reqs \<noteq> [] \<and> \<not> bid_CredentialVerified b
               then Some (errors_New ''bid does not satisfy rfq credential requirements'')
               else (case GetBidCommitByRevealedBidID d (bid_ID b) of
                       Inl e \<Rightarrow> if errors_is e ErrNoRows
                                then Some (errors_New ''bid is missing sealed commit reveal linkage'') else Some e
                     | Inr c \<Rightarrow>
                         if bc_Status c \<noteq> ''revealed''
                         then Some (errors_New (''bid commit is not revealable (status: '' @ bc_Status c @ '')''))
                         else None)))"

definition rfq_stake :: "rfq \<Rightarrow> gerr + int" where
  "rfq_stake r =
     (if rfq_WorkerStake r = [] \<or> rfq_WorkerStake r = ''0'' then Inr 0
      else case SetString10 (rfq_WorkerStake r) of
        None \<Rightarrow> Inl (errors_New ''invalid rfq worker_stake'') | Some n \<Rightarrow> Inr n)"

definition rfq_token :: "eth_lib \<Rightarrow> rfq \<Rightarrow> addr" where
  "rfq_token L r =
     (if rfq_Token r \<noteq> [] \<and> rfq_Token r \<noteq> zero_address then HexToAddress L (rfq_Token r) else zero_addr)"

definition parent_address :: "eth_lib \<Rightarrow> rfq \<Rightarrow> db \<Rightarrow> gerr + addr" where
  "parent_address L r d =
     (case rfq_ParentEscrowID r of
        None \<Rightarrow> Inr zero_addr
      | Some i \<Rightarrow>
          (case GetEscrow d i of
             Inl e \<Rightarrow> Inl (wrap ''parent escrow lookup failed'' e)
           | Inr parent \<Rightarrow>
               if \<not> IsHexAddress L (esc_EscrowAddress parent)
               then Inl (errors_New (''parent escrow '' @ int_str i @ '' has invalid on-chain address ''
                           @ Quote (esc_EscrowAddress parent)))
               else Inr (HexToAddress L (esc_EscrowAddress parent))))"

definition accepted_milestones :: "rfq \<Rightarrow> bid \<Rightarrow> gerr + milestone_param list" where
  "accepted_milestones r b =
     parseMilestonesJSON
       (if bid_MilestonesJSON b = [] \<or> bid_MilestonesJSON b = ''[]'' then rfq_MilestonesJSON r
        else bid_MilestonesJSON b)"

definition escrow_params ::
    "eth_lib \<Rightarrow> rfq \<Rightarrow> bid \<Rightarrow> int \<Rightarrow> int \<Rightarrow> addr \<Rightarrow> milestone_param list \<Rightarrow> gerr + create_escrow_params" where
  "escrow_params L r b amount stake parent ms =
     (case Int64ToUint64 (word_of_int (rfq_Deadline r)) ''rfq.deadline'' of Inl e \<Rightarrow> Inl e | Inr dl \<Rightarrow>
      case Int64ToUint64 (word_of_int (rfq_ReviewPeriodSeconds r)) ''rfq.review_period_seconds'' of
        Inl e \<Rightarrow> Inl e | Inr review \<Rightarrow>
      case Int64ToUint64 (word_of_int (rfq_DisputePeriodSeconds r)) ''rfq.dispute_period_seconds'' of
        Inl e \<Rightarrow> Inl e | Inr disp \<Rightarrow>
      case Int64ToUint64 (word_of_int (rfq_ArbitratorTimeoutSeconds r)) ''rfq.arbitrator_timeout_seconds'' of
        Inl e \<Rightarrow> Inl e
      | Inr arb \<Rightarrow>
          Inr \<lparr>ce_Buyer = HexToAddress L (rfq_Buyer r), ce_Worker = HexToAddress L (bid_Bidder b),
               ce_VerifierPanel = HexToAddress L (rfq_Verifier r) # replicate 6 zero_addr,
               ce_QuorumThreshold = 1, ce_QuorumVerifierCount = 1, ce_VerifierStakePerVerifier = 0,
               ce_Arbitrator = HexToAddress L (rfq_Arbitrator r), ce_Amount = amount, ce_WorkerStake = stake,
               ce_SubmissionDeadline = dl, ce_ReviewPeriodSeconds = review, ce_DisputePeriodSeconds = disp,
               ce_TaskSpecHash = Keccak256Hash L (rfq_Title r @ rfq_Description r),
               ce_ArbitratorTimeoutSeconds = arb, ce_Token = rfq_token L r,
               ce_ServiceTier = word_of_int (rfq_ServiceTier r), ce_Milestones = ms,
               ce_BackupWorker = zero_addr, ce_BackupDeadlineExtension = 0, ce_ZKVerifier = zero_addr,
               ce_CircuitID = zero_bytes32, ce_ParentEscrow = parent\<rparr>)"

definition escrow_record ::
    "bid_env \<Rightarrow> rfq \<Rightarrow> bid \<Rightarrow> int \<Rightarrow> int \<Rightarrow> create_escrow_result \<Rightarrow> milestone_param list \<Rightarrow> escrow" where
  "escrow_record E r b taskID stake res ms =
     blank_escrow\<lparr>esc_TaskID := taskID, esc_ChainID := be_ChainID E, esc_FactoryAddress := be_FactoryAddress E,
      esc_EscrowAddress := AddressHex (be_L E) (cer_EscrowAddress res), esc_EscrowID := cer_EscrowID res,
      esc_Buyer := rfq_Buyer r, esc_Worker := bid_Bidder b, esc_Verifier := rfq_Verifier r,
      esc_VerifierPanelJSON := ''['' @ Quote (ToLower (rfq_Verifier r)) @ '']'',
      esc_QuorumThreshold := 1, esc_QuorumVerifierCount := 1, esc_VerifierStakePerVerifier := ''0'',
      esc_Arbitrator := rfq_Arbitrator r, esc_Amount := bid_Amount b, esc_WorkerStake := int_str stake,
      esc_Token := AddressHex (be_L E) (rfq_token (be_L E) r), esc_Status := ''created'',
      esc_SubmissionDeadline := rfq_Deadline r, esc_ReviewPeriodSeconds := rfq_ReviewPeriodSeconds r,
      esc_DisputePeriodSeconds := rfq_DisputePeriodSeconds r,
      esc_ArbitratorTimeoutSeconds := rfq_ArbitratorTimeoutSeconds r,
      esc_MilestoneCount := (if ms = [] then 1 else int (length ms)), esc_CurrentMilestone := 0,
      esc_ActiveWorker := bid_Bidder b, esc_ServiceTier := rfq_ServiceTier r,
      esc_ParentEscrowID := rfq_ParentEscrowID r\<rparr>"

fun create_milestones :: "int \<Rightarrow> int \<Rightarrow> nat \<Rightarrow> milestone_param list \<Rightarrow> db \<Rightarrow> unit result" where
  "create_milestones now escrowID i [] d = (d, Inr ())"
| "create_milestones now escrowID i (m # ms) d =
     orFail d id (Uint64ToInt64 (mp_SubmissionDeadline m) (''milestones['' @ nat_str i @ ''].submission_deadline''))
       (\<lambda>dl. andThen
          (mapErr (wrap (''db CreateMilestone['' @ nat_str i @ '']''))
             (createMilestoneOn now
                (blank_milestone\<lparr>ms_EscrowID := escrowID, ms_MilestoneIndex := int i,
                   ms_Amount := int_str (mp_Amount m), ms_SubmissionDeadline := sint dl,
                   ms_Status := ''pending''\<rparr>) d))
          (\<lambda>d1 _. create_milestones now escrowID (Suc i) ms d1))"

text \<open>The transaction that records the acceptance.\<close>

definition accept_tx ::
    "bid_env \<Rightarrow> rfq \<Rightarrow> bid \<Rightarrow> int \<Rightarrow> create_escrow_result \<Rightarrow> milestone_param list \<Rightarrow> db \<Rightarrow> (task \<times> escrow) result" where
  "accept_tx E r b stake res ms d =
     in_tx d (andThen
       (mapErr (wrap ''db CreateTask'')
          (createTaskOn (be_Now E) (rfq_Title r) (rfq_Description r) (hash_hex (be_L E) (rfq_Title r @ rfq_Description r)) d))
       (\<lambda>d1 t. andThen
          (mapErr (wrap ''db CreateEscrow'') (createEscrowOn (be_Now E) (escrow_record E r b (tsk_ID t) stake res ms) d1))
          (\<lambda>d2 e. andThen (create_milestones (be_Now E) (esc_ID e) 0 ms d2) (\<lambda>d3 _.
             andThen (mapErr (wrap ''db AcceptBid'') (acceptBidOn (be_Now E) (bid_ID b) (esc_ID e) d3)) (\<lambda>d4 _.
             andThen (mapErr (wrap ''db UpdateRFQStatus'') (UpdateRFQStatus (be_Now E) (rfq_ID r) ''closed'' d4)) (\<lambda>d5 _.
               (RejectUnacceptedBidCommits (be_Now E) (rfq_ID r) (bid_ID b)
                  (UpdateBidCommitStatusByRevealedBid (be_Now E) (bid_ID b) ''accepted''
                     (RejectPendingBids (be_Now E) (rfq_ID r) (bid_ID b) d5)),
                Inr (t, e))))))))"

text \<open>All of \<open>AcceptBid\<close> up to the commit of the transaction; the finalization it may start with is
  kept when a later step fails.\<close>

definition accept_checked ::
    "bid_env \<Rightarrow> accept_bid_params \<Rightarrow> sealed_bid_summary option \<Rightarrow> rfq \<Rightarrow> db \<Rightarrow> (bid \<times> task \<times> escrow \<times> hash) result" where
  "accept_checked E p summary r d =
     (if rfq_BiddingMode r = ''sealed'' \<and> be_Now E \<le> rfq_RevealDeadline r
      then (d, Inl (errors_New ''cannot accept before reveal phase ends''))
      else if rfq_Deadline r \<le> be_Now E then (d, Inl (errors_New ''rfq deadline has passed''))
      else if abp_Caller p = [] \<or> abp_Caller p \<noteq> rfq_Buyer r
      then (d, Inl (errors_New ''only the rfq buyer can accept bids''))
      else orFail d (wrap ''bid not found'') (GetBid d (abp_BidID p)) (\<lambda>b.
        case check_acceptance E p summary r b d of
          Some e \<Rightarrow> (d, Inl e)
        | None \<Rightarrow>
            case SetString10 (bid_Amount b) of
              None \<Rightarrow> (d, Inl (errors_New ''invalid bid amount''))
            | Some amount \<Rightarrow>
                orFail d id (rfq_stake r) (\<lambda>stake.
                if rfq_Verifier r = [] \<or> \<not> IsHexAddress (be_L E) (rfq_Verifier r)
                then (d, Inl (errors_New ''rfq verifier is required to create escrow''))
                else orFail d id (parent_address (be_L E) r d) (\<lambda>parent.
                orFail d (wrap ''milestones'') (accepted_milestones r b) (\<lambda>ms.
                orFail d id (escrow_params (be_L E) r b amount stake parent ms) (\<lambda>params.
                orFail d (wrap ''chain CreateEscrow'')
                  (node_CreateEscrow (be_Node E) (HexToAddress (be_L E) (be_FactoryAddress E)) params) (\<lambda>tx.
                orFail d (wrap ''receipt error'') (WaitMinedAndParseEscrow (be_L E) (be_Node E) tx) (\<lambda>res.
                andThen (accept_tx E r b stake res ms d) (\<lambda>d1 (t, e). (d1, Inr (b, t, e, tx)))))))))))"

definition AcceptBidCommitted ::
    "bid_env \<Rightarrow> accept_bid_params \<Rightarrow> db \<Rightarrow> (bid \<times> task \<times> escrow \<times> hash) result" where
  "AcceptBidCommitted E p d =
     orFail d (wrap ''rfq not found'') (GetRFQ d (abp_RFQID p)) (\<lambda>r.
       if rfq_Status r \<noteq> ''open''
       then (d, Inl (errors_New (''rfq is not open (status: '' @ rfq_Status r @ '')'')))
       else if rfq_BiddingMode r = ''sealed'' \<and> be_Now E > rfq_RevealDeadline r
       then andThen (FinalizeSealedBidding E (abp_RFQID p) d) (\<lambda>d1 summary.
         orFail d1 (wrap ''rfq not found after finalization'') (GetRFQ d1 (abp_RFQID p)) (\<lambda>r1.
           accept_checked E p (Some summary) r1 d1))
       else accept_checked E p None r d)"

text \<open>\<open>AcceptBid\<close>: after the commit the indexer runs once (its failure is only logged) and the bid is
  read back.\<close>

definition AcceptBid :: "bid_env \<Rightarrow> accept_bid_params \<Rightarrow> db \<Rightarrow> accept_bid_result result" where
  "AcceptBid E p d =
     andThen (AcceptBidCommitted E p d) (\<lambda>d1 (b, t, e, tx).
       let d2 = be_RunOnce E d1 in
       orFail d2 (wrap ''db GetBid after accept'') (GetBid d2 (bid_ID b)) (\<lambda>b'.
         (d2, Inr \<lparr>abr_Bid = b', abr_Escrow = e, abr_Task = t, abr_TxHash = HashHex (be_L E) tx\<rparr>)))"

end
