(* ===== verification/BidLife.thy ===== *)
theory BidLife
  imports Bidding
begin

text \<open>
  The life of a bid commit: over any sequence of the operations of \<open>Bidding\<close> its status only moves
  forward, its content stays, at most one commit per bidder and RFQ is outstanding, and a bid
  belongs to one commit. The commit table is the instance of \<open>terminal_machine\<close>.
\<close>

section \<open>Well-formed commit tables\<close>

definition commit_le :: "string \<Rightarrow> string \<Rightarrow> bool" where
  "commit_le s s' \<longleftrightarrow> s = s'
     \<or> s = ''committed'' \<and> s' \<in> {''revealed'', ''accepted'', ''rejected'', ''expired'', ''superseded''}
     \<or> s = ''revealed'' \<and> s' \<in> {''accepted'', ''rejected''}"

definition commit_done :: "string \<Rightarrow> bool" where
  "commit_done s \<longleftrightarrow> s \<in> {''accepted'', ''rejected'', ''expired'', ''superseded'', ''withdrawn''}"

lemma commit_le_refl [simp]: "commit_le s s"
  by (simp add: commit_le_def)

lemma commit_le_trans: "commit_le a b \<Longrightarrow> commit_le b c \<Longrightarrow> commit_le a c"
  unfolding commit_le_def by (elim disjE conjE) auto

lemma commit_le_done: "commit_le s s' \<Longrightarrow> commit_done s \<Longrightarrow> s' = s"
  unfolding commit_le_def commit_done_def by auto

text \<open>Two commits that may not both be in the table: of one revealed bid, or outstanding for one bidder.\<close>

definition clash :: "bid_commit \<Rightarrow> bid_commit \<Rightarrow> bool" where
  "clash c c' \<longleftrightarrow>
     bc_RevealedBidID c \<noteq> None \<and> bc_RevealedBidID c = bc_RevealedBidID c'
     \<or> bc_Status c = ''committed'' \<and> bc_Status c' = ''committed''
       \<and> bc_RFQID c = bc_RFQID c' \<and> bc_Bidder c = bc_Bidder c'"

definition commits_ok :: "bid_commit list \<Rightarrow> bool" where
  "commits_ok cs \<longleftrightarrow>
     distinct (map bc_ID cs)
     \<and> (\<forall>c \<in> set cs. bc_Status c = ''committed'' \<longrightarrow> bc_RevealedBidID c = None)
     \<and> (\<forall>c \<in> set cs. \<forall>c' \<in> set cs. clash c c' \<longrightarrow> bc_ID c = bc_ID c')"

lemma clash_sym: "clash c c' \<Longrightarrow> clash c' c"
  unfolding clash_def by metis

lemma ok_update:
  assumes "commits_ok cs" "\<And>c. bc_ID (f c) = bc_ID c"
    "\<And>c. c \<in> set cs \<Longrightarrow> bc_Status (f c) = ''committed'' \<Longrightarrow> bc_RevealedBidID (f c) = None"
    "\<And>c c'. c \<in> set cs \<Longrightarrow> c' \<in> set cs \<Longrightarrow> clash (f c) (f c') \<Longrightarrow> bc_ID c = bc_ID c'"
  shows "commits_ok (map f cs)"
  using assms unfolding commits_ok_def by (simp add: comp_def)

definition same_commit :: "bid_commit \<Rightarrow> bid_commit \<Rightarrow> bool" where
  "same_commit c c' \<longleftrightarrow>
     bc_ID c' = bc_ID c \<and> bc_RFQID c' = bc_RFQID c \<and> bc_Bidder c' = bc_Bidder c
     \<and> bc_Commitment c' = bc_Commitment c \<and> bc_Nonce c' = bc_Nonce c \<and> bc_CreatedAt c' = bc_CreatedAt c
     \<and> commit_le (bc_Status c) (bc_Status c')"

text \<open>What every operation does to the table: it stays well formed, and each row stays with its content.\<close>

definition commits_step :: "bid_commit list \<Rightarrow> bid_commit list \<Rightarrow> bool" where
  "commits_step cs cs' \<longleftrightarrow>
     (commits_ok cs \<longrightarrow> commits_ok cs'
        \<and> (\<forall>k c. row_get bc_ID cs k = Some c \<longrightarrow> (\<exists>c'. row_get bc_ID cs' k = Some c' \<and> same_commit c c')))"

lemma commits_step_refl [simp]: "commits_step cs cs"
  by (simp add: commits_step_def same_commit_def)

lemma same_commit_trans: "same_commit a b \<Longrightarrow> same_commit b c \<Longrightarrow> same_commit a c"
  using commit_le_trans by (auto simp: same_commit_def)

lemma commits_step_trans: "commits_step a b \<Longrightarrow> commits_step b c \<Longrightarrow> commits_step a c"
  unfolding commits_step_def by (meson same_commit_trans)

lemma ok_set_status:
  assumes ok: "commits_ok cs" and ne: "status \<noteq> ''committed''"
  shows "commits_ok (row_upd p (\<lambda>c. c\<lparr>bc_Status := status, bc_UpdatedAt := now\<rparr>) cs)"
  unfolding row_upd_def
proof (rule ok_update [OF ok])
  fix c c' assume c: "c \<in> set cs" "c' \<in> set cs"
    "clash (if p c then c\<lparr>bc_Status := status, bc_UpdatedAt := now\<rparr> else c)
       (if p c' then c'\<lparr>bc_Status := status, bc_UpdatedAt := now\<rparr> else c')"
  then have "clash c c'" using ne by (cases "p c"; cases "p c'") (simp_all add: clash_def)
  then show "bc_ID c = bc_ID c'" using ok c(1,2) by (simp add: commits_ok_def)
qed (use ok ne in \<open>auto simp: commits_ok_def split: if_splits\<close>)

lemma step_set_status:
  assumes "\<And>c. c \<in> set (bid_commits d) \<Longrightarrow> p c \<Longrightarrow> commit_le (bc_Status c) status" "status \<noteq> ''committed''"
  shows "commits_step (bid_commits d) (bid_commits (set_commit_status now status p d))"
proof -
  have "same_commit c (if p c then c\<lparr>bc_Status := status, bc_UpdatedAt := now\<rparr> else c)"
    if "row_get bc_ID (bid_commits d) k = Some c" for k c
    using assms(1) row_get_Some [OF that] by (auto simp: same_commit_def)
  then show ?thesis
    using ok_set_status [of "bid_commits d" status p now] assms(2)
    by (simp add: commits_step_def set_commit_status_def row_get_upd)
qed

lemma step_supersede: "commits_step (bid_commits d) (bid_commits (SupersedeCommittedBidCommits now i b d))"
  unfolding SupersedeCommittedBidCommits_def
  by (rule step_set_status) (auto simp: outstanding_def commit_le_def)

lemma step_expire: "commits_step (bid_commits d) (bid_commits (ExpireCommittedBidCommits now i d))"
  unfolding ExpireCommittedBidCommits_def
  by (rule step_set_status) (auto simp: outstanding_def commit_le_def)

lemma step_reject: "commits_step (bid_commits d) (bid_commits (RejectUnacceptedBidCommits now i b d))"
  unfolding RejectUnacceptedBidCommits_def
  by (rule step_set_status) (auto simp: commit_le_def)

lemma step_accept:
  assumes "\<forall>c \<in> set (bid_commits d). bc_RevealedBidID c = Some b \<longrightarrow> bc_Status c = ''revealed''"
  shows "commits_step (bid_commits d) (bid_commits (UpdateBidCommitStatusByRevealedBid now b ''accepted'' d))"
  unfolding UpdateBidCommitStatusByRevealedBid_def
  by (rule step_set_status) (use assms in \<open>auto simp: commit_le_def\<close>)

text \<open>A new outstanding commit after the older ones of the bidder are superseded.\<close>

definition no_outstanding :: "int \<Rightarrow> string \<Rightarrow> bid_commit list \<Rightarrow> bool" where
  "no_outstanding i b cs \<longleftrightarrow> (\<forall>c \<in> set cs. \<not> (outstanding i c \<and> bc_Bidder c = b))"

lemma supersede_no_outstanding: "no_outstanding i b (bid_commits (SupersedeCommittedBidCommits now i b d))"
proof -
  define f where "f c = (if outstanding i c \<and> bc_Bidder c = b
      then c\<lparr>bc_Status := ''superseded'', bc_UpdatedAt := now\<rparr> else c)" for c
  have "\<not> (outstanding i (f c) \<and> bc_Bidder (f c) = b)" for c
    by (simp add: f_def outstanding_def)
  moreover have "bid_commits (SupersedeCommittedBidCommits now i b d) = map f (bid_commits d)"
    by (simp add: SupersedeCommittedBidCommits_def set_commit_status_def row_upd_def f_def fun_eq_iff)
  ultimately show ?thesis by (simp add: no_outstanding_def)
qed

lemma ok_add:
  assumes "commits_ok cs" "bc_ID x \<notin> bc_ID ` set cs" "bc_RevealedBidID x = None"
    "no_outstanding (bc_RFQID x) (bc_Bidder x) cs"
  shows "commits_ok (cs @ [x])"
proof -
  have "\<not> clash x c" if "c \<in> set cs" for c
    using assms(3,4) that by (auto simp: clash_def no_outstanding_def outstanding_def)
  then have "bc_ID c = bc_ID c'" if "clash c c'" "c \<in> insert x (set cs)" "c' \<in> insert x (set cs)" for c c'
    using that assms(1) clash_sym unfolding commits_ok_def by blast
  moreover have "distinct (map bc_ID (cs @ [x]))" using assms(1,2) by (simp add: commits_ok_def)
  moreover have "bc_Status c = ''committed'' \<longrightarrow> bc_RevealedBidID c = None" if "c \<in> insert x (set cs)" for c
    using that assms(1,3) unfolding commits_ok_def by blast
  ultimately show ?thesis unfolding commits_ok_def by simp
qed

lemma step_create:
  assumes "createBidCommitOn now c d = (d', Inr row)" "bc_RevealedBidID c = None"
    "no_outstanding (bc_RFQID c) (bc_Bidder c) (bid_commits d)"
  shows "commits_step (bid_commits d) (bid_commits d')"
proof -
  have d': "bid_commits d' = bid_commits d @ [commit_row now c d]"
    using assms(1) unfolding createBidCommitOn_def Let_def by (elim if_resultE) (clarsimp simp: row_add_def)+
  have new: "bc_ID (commit_row now c d) = next_id bc_ID (bid_commits d)"
      "bc_RFQID (commit_row now c d) = bc_RFQID c" "bc_Bidder (commit_row now c d) = bc_Bidder c"
      "bc_RevealedBidID (commit_row now c d) = None"
    using assms(2) by (simp_all add: commit_row_def)
  have fresh: "bc_ID (commit_row now c d) \<notin> bc_ID ` set (bid_commits d)"
    using next_id_fresh [of bc_ID "bid_commits d"] new by (simp add: row_get_None)
  have "commits_ok (bid_commits d')" if "commits_ok (bid_commits d)"
    unfolding d' using that fresh new assms(3) by (intro ok_add) simp_all
  moreover have "row_get bc_ID (bid_commits d') k = Some q" if "row_get bc_ID (bid_commits d) k = Some q" for k q
    using that d' by (simp add: row_get_append)
  ultimately show ?thesis unfolding commits_step_def same_commit_def by (metis commit_le_refl)
qed

definition reveal_row :: "int \<Rightarrow> int \<Rightarrow> bid_commit \<Rightarrow> bid_commit" where
  "reveal_row now b c = c\<lparr>bc_Status := ''revealed'', bc_RevealedBidID := Some b, bc_UpdatedAt := now\<rparr>"

lemma reveal_result:
  assumes "UpdateBidCommitReveal now i b d = (d', Inr u)"
  shows "d' = d\<lparr>bid_commits := row_upd (revealable i) (reveal_row now b) (bid_commits d)\<rparr>"
    and "\<And>c. c \<in> set (bid_commits d) \<Longrightarrow> bc_RevealedBidID c = Some b \<Longrightarrow> revealable i c"
    and "\<exists>c \<in> set (bid_commits d). revealable i c"
proof -
  have a: "d' = d\<lparr>bid_commits := row_upd (revealable i)
        (\<lambda>c. c\<lparr>bc_Status := ''revealed'', bc_RevealedBidID := Some b, bc_UpdatedAt := now\<rparr>) (bid_commits d)\<rparr>
      \<and> \<not> list_ex (\<lambda>c. bc_RevealedBidID c = Some b \<and> \<not> revealable i c) (bid_commits d)
      \<and> rows_affected (revealable i) (bid_commits d) \<noteq> 0"
    using assms unfolding UpdateBidCommitReveal_def by (elim if_resultE) simp_all
  have f: "(\<lambda>c. c\<lparr>bc_Status := ''revealed'', bc_RevealedBidID := Some b, bc_UpdatedAt := now\<rparr>) = reveal_row now b"
    by (simp add: reveal_row_def fun_eq_iff)
  show "d' = d\<lparr>bid_commits := row_upd (revealable i) (reveal_row now b) (bid_commits d)\<rparr>" using a f by simp
  show "\<And>c. c \<in> set (bid_commits d) \<Longrightarrow> bc_RevealedBidID c = Some b \<Longrightarrow> revealable i c"
    using a by (auto simp: list_ex_iff)
  show "\<exists>c \<in> set (bid_commits d). revealable i c" using a by (simp add: rows_affected_0)
qed

lemma step_reveal:
  assumes "UpdateBidCommitReveal now i b d = (d', Inr u)"
  shows "commits_step (bid_commits d) (bid_commits d')"
proof -
  note r = reveal_result [OF assms]
  have "commits_ok (bid_commits d')" if ok: "commits_ok (bid_commits d)"
  proof -
    have "commits_ok (map (\<lambda>c. if revealable i c then reveal_row now b c else c) (bid_commits d))"
    proof (rule ok_update [OF ok])
      fix c c' assume c: "c \<in> set (bid_commits d)" "c' \<in> set (bid_commits d)"
        "clash (if revealable i c then reveal_row now b c else c) (if revealable i c' then reveal_row now b c' else c')"
      have "clash c c'" if "\<not> revealable i c" "\<not> revealable i c'" using c(3) that by simp
      moreover have "\<not> revealable i c \<longrightarrow> bc_RevealedBidID c \<noteq> Some b" "\<not> revealable i c' \<longrightarrow> bc_RevealedBidID c' \<noteq> Some b"
        using r(2) c by blast+
      then have "revealable i c = revealable i c'"
        using c(3) by (auto simp: clash_def reveal_row_def split: if_splits)
      moreover have "bc_ID c = bc_ID c'" if "revealable i c" "revealable i c'"
        using that by (simp add: revealable_def)
      ultimately show "bc_ID c = bc_ID c'" using ok c(1,2) by (metis commits_ok_def)
    qed (use ok in \<open>auto simp: commits_ok_def reveal_row_def\<close>)
    then show ?thesis by (simp add: r(1) row_upd_def)
  qed
  moreover have "same_commit c (if revealable i c then reveal_row now b c else c)" for c
    by (auto simp: same_commit_def revealable_def commit_le_def reveal_row_def)
  ultimately show ?thesis
    by (simp add: commits_step_def r(1) row_get_upd reveal_row_def)
qed

section \<open>The operations\<close>

text \<open>The writes to other tables.\<close>

lemma frame_commits [simp]:
  "bid_commits (fst (createRFQOn now r d)) = bid_commits d"
  "bid_commits (fst (UpdateRFQSealedBiddingState now i s rule best f d)) = bid_commits d"
  "bid_commits (fst (UpdateRFQStatus now i s d)) = bid_commits d"
  "bid_commits (fst (createBidOn now b d)) = bid_commits d"
  "bid_commits (fst (acceptBidOn now i e d)) = bid_commits d"
  "bid_commits (RejectPendingBids now i j d) = bid_commits d"
  "bid_commits (UpsertSealedBidderDiscipline now x u d) = bid_commits d"
  "bid_commits (fst (createTaskOn now t desc h d)) = bid_commits d"
  "bid_commits (fst (createEscrowOn now e0 d)) = bid_commits d"
  "bid_commits (fst (createMilestoneOn now m d)) = bid_commits d"
  by (simp_all add: createRFQOn_def UpdateRFQSealedBiddingState_def UpdateRFQStatus_def createBidOn_def
      acceptBidOn_def RejectPendingBids_def UpsertSealedBidderDiscipline_def createTaskOn_def
      createEscrowOn_def createMilestoneOn_def Let_def)

lemma strike_commits [simp]: "bid_commits (strike_bidders now m d) = bid_commits d"
  unfolding strike_bidders_def by (induction m arbitrary: d) auto

lemma in_tx_step: "commits_step (bid_commits d) (bid_commits (fst r)) \<Longrightarrow>
    commits_step (bid_commits d) (bid_commits (fst (in_tx d r)))"
  by (cases r; cases "snd r") (auto simp: in_tx_def)

lemma orFail_step: "(\<And>x. r = Inr x \<Longrightarrow> commits_step (bid_commits d) (bid_commits (fst (k x)))) \<Longrightarrow>
    commits_step (bid_commits d) (bid_commits (fst (orFail d w r k)))"
  by (cases r) auto

lemma andThen_step:
  assumes "commits_step cs (bid_commits (fst m))"
    "\<And>d x. m = (d, Inr x) \<Longrightarrow> commits_step cs (bid_commits (fst (k d x)))"
  shows "commits_step cs (bid_commits (fst (andThen m k)))"
proof (cases m)
  case (Pair d r)
  then show ?thesis using assms by (cases r) auto
qed

lemma fst_mapErr [simp]: "fst (mapErr w m) = fst m"
  by (auto simp: mapErr_def split: prod.splits sum.splits)

lemma finalize_tx_step: "commits_step (bid_commits d) (bid_commits (fst (finalize_tx E i d)))"
proof -
  have "commits_step (bid_commits d) (bid_commits (ExpireCommittedBidCommits now i (strike_bidders now m d)))"
    for now m using step_expire [of "strike_bidders now m d" now i] by simp
  then show ?thesis
    unfolding finalize_tx_def Let_def
    by (auto intro!: orFail_step in_tx_step andThen_step simp: prod_eq_iff)
qed

lemma finalize_step: "commits_step (bid_commits d) (bid_commits (fst (FinalizeSealedBidding E i d)))"
  unfolding FinalizeSealedBidding_def by (rule orFail_step) (simp add: finalize_tx_step)

lemma commit_tx_step: "commits_step (bid_commits d) (bid_commits (fst (commit_tx now i b h n d)))"
  unfolding commit_tx_def
proof (rule in_tx_step)
  let ?d = "SupersedeCommittedBidCommits now i b d"
  obtain d' r where r: "createBidCommitOn now (new_commit i b h n) ?d = (d', r)" by fastforce
  have "commits_step (bid_commits ?d) (bid_commits d')"
  proof (cases r)
    case (Inl e)
    then have "d' = ?d" using r unfolding createBidCommitOn_def Let_def by (elim if_resultE) simp_all
    then show ?thesis by simp
  next
    case (Inr row)
    then show ?thesis
      using step_create [of now "new_commit i b h n" ?d d' row] r supersede_no_outstanding [of i b now d]
      by (simp add: new_commit_def)
  qed
  then show "commits_step (bid_commits d)
      (bid_commits (fst (mapErr (commit_error d i b n h) (createBidCommitOn now (new_commit i b h n) ?d))))"
    using step_supersede commits_step_trans r by (metis fst_conv fst_mapErr)
qed

lemma commit_step: "commits_step (bid_commits d) (bid_commits (fst (CommitBid E p d)))"
  unfolding CommitBid_def Let_def
  by (intro orFail_step) (auto split: option.split intro!: orFail_step commit_tx_step)

lemma reveal_tx_step: "commits_step (bid_commits d) (bid_commits (fst (reveal_tx now i b d)))"
  unfolding reveal_tx_def
proof (intro in_tx_step andThen_step)
  fix d1 row assume "mapErr (wrap ''create bid'') (createBidOn now b d) = (d1, Inr row)"
  then have d1: "bid_commits d1 = bid_commits d" by (metis frame_commits(4) fst_conv fst_mapErr)
  obtain d2 r where r: "UpdateBidCommitReveal now i (bid_ID row) d1 = (d2, r)" by fastforce
  have "commits_step (bid_commits d) (bid_commits d2)"
  proof (cases r)
    case (Inl e)
    then have "d2 = d1" using r unfolding UpdateBidCommitReveal_def by (elim if_resultE) simp_all
    then show ?thesis using d1 by simp
  qed (use step_reveal r d1 in \<open>metis\<close>)
  then show s: "commits_step (bid_commits d) (bid_commits (fst (mapErr (wrap ''update bid commit reveal'')
      (UpdateBidCommitReveal now i (bid_ID row) d1))))"
    by (simp add: r)
  fix d3 x assume "mapErr (wrap ''update bid commit reveal'') (UpdateBidCommitReveal now i (bid_ID row) d1) = (d3, Inr x)"
  then show "commits_step (bid_commits d) (bid_commits (fst (d3, Inr row)))" using s by simp
qed simp

lemma reveal_step: "commits_step (bid_commits d) (bid_commits (fst (RevealBid E p d)))"
  unfolding RevealBid_def Let_def
  by (intro orFail_step) (auto split: option.split sum.split intro!: orFail_step reveal_tx_step simp: step_expire)

lemma create_milestones_frame:
  "(\<And>m d. g (fst (createMilestoneOn now m d)) = g d) \<Longrightarrow> g (fst (create_milestones now e i ms d)) = g d"
  by (induction ms arbitrary: i d) (simp_all add: orFail_frame [of g] andThen_frame [of g])

lemma create_milestones_commits [simp]: "bid_commits (fst (create_milestones now e i ms d)) = bid_commits d"
  by (rule create_milestones_frame) simp

text \<open>The steps of the transaction of an acceptance.\<close>

lemma accept_txE:
  assumes "accept_tx E r b stake res ms d = (d', Inr (t, e))"
  obtains d1 d2 d3 d4 d5 where
    "createTaskOn (be_Now E) (rfq_Title r) (rfq_Description r) (hash_hex (be_L E) (rfq_Title r @ rfq_Description r)) d
       = (d1, Inr t)"
    "createEscrowOn (be_Now E) (escrow_record E r b (tsk_ID t) stake res ms) d1 = (d2, Inr e)"
    "create_milestones (be_Now E) (esc_ID e) 0 ms d2 = (d3, Inr ())"
    "acceptBidOn (be_Now E) (bid_ID b) (esc_ID e) d3 = (d4, Inr ())"
    "UpdateRFQStatus (be_Now E) (rfq_ID r) ''closed'' d4 = (d5, Inr ())"
    "d' = RejectUnacceptedBidCommits (be_Now E) (rfq_ID r) (bid_ID b)
            (UpdateBidCommitStatusByRevealedBid (be_Now E) (bid_ID b) ''accepted''
               (RejectPendingBids (be_Now E) (rfq_ID r) (bid_ID b) d5))"
  using assms unfolding accept_tx_def by (auto simp: err_iff)

lemma accept_tx_before:
  assumes "accept_tx E r b stake res ms d = (d', Inr (t, e))"
  shows "\<exists>d5. d' = RejectUnacceptedBidCommits (be_Now E) (rfq_ID r) (bid_ID b)
            (UpdateBidCommitStatusByRevealedBid (be_Now E) (bid_ID b) ''accepted'' d5)
          \<and> bid_commits d5 = bid_commits d"
  using assms
proof (rule accept_txE)
  fix d1 d2 d3 d4 d5
  assume s: "createTaskOn (be_Now E) (rfq_Title r) (rfq_Description r)
        (hash_hex (be_L E) (rfq_Title r @ rfq_Description r)) d = (d1, Inr t)"
    "createEscrowOn (be_Now E) (escrow_record E r b (tsk_ID t) stake res ms) d1 = (d2, Inr e)"
    "create_milestones (be_Now E) (esc_ID e) 0 ms d2 = (d3, Inr ())"
    "acceptBidOn (be_Now E) (bid_ID b) (esc_ID e) d3 = (d4, Inr ())"
    "UpdateRFQStatus (be_Now E) (rfq_ID r) ''closed'' d4 = (d5, Inr ())"
    "d' = RejectUnacceptedBidCommits (be_Now E) (rfq_ID r) (bid_ID b)
            (UpdateBidCommitStatusByRevealedBid (be_Now E) (bid_ID b) ''accepted''
               (RejectPendingBids (be_Now E) (rfq_ID r) (bid_ID b) d5))"
  have "bid_commits d1 = bid_commits d" using s(1) by (metis frame_commits(8) fst_conv)
  moreover have "bid_commits d2 = bid_commits d1" using s(2) by (metis frame_commits(9) fst_conv)
  moreover have "bid_commits d3 = bid_commits d2" using s(3) by (metis create_milestones_commits fst_conv)
  moreover have "bid_commits d4 = bid_commits d3" using s(4) by (metis frame_commits(5) fst_conv)
  moreover have "bid_commits d5 = bid_commits d4" using s(5) by (metis frame_commits(3) fst_conv)
  ultimately have "bid_commits (RejectPendingBids (be_Now E) (rfq_ID r) (bid_ID b) d5) = bid_commits d" by simp
  then show ?thesis using s(6) by blast
qed

lemma accept_tx_step:
  assumes c: "GetBidCommitByRevealedBidID d (bid_ID b) = Inr c" "bc_Status c = ''revealed''"
  shows "commits_step (bid_commits d) (bid_commits (fst (accept_tx E r b stake res ms d)))"
proof (cases "accept_tx E r b stake res ms d")
  case (Pair d' q)
  show ?thesis
  proof (cases q)
    case (Inl x)
    then show ?thesis using Pair by (auto simp: accept_tx_def in_tx_def split: prod.splits sum.splits)
  next
    case (Inr te)
    then obtain t e d5 where d': "d' = RejectUnacceptedBidCommits (be_Now E) (rfq_ID r) (bid_ID b)
            (UpdateBidCommitStatusByRevealedBid (be_Now E) (bid_ID b) ''accepted'' d5)"
        "bid_commits d5 = bid_commits d"
      using accept_tx_before [of E r b stake res ms d d'] Pair by (cases te) blast
    have "commits_step (bid_commits d) (bid_commits d')" if ok: "commits_ok (bid_commits d)"
    proof -
      have c1: "c \<in> set (bid_commits d)" "bc_RevealedBidID c = Some (bid_ID b)"
        using c(1) by (auto simp: GetBidCommitByRevealedBidID_def first_where_def find_Some_iff)
      have "q = c" if "q \<in> set (bid_commits d)" "bc_RevealedBidID q = Some (bid_ID b)" for q
      proof -
        have "clash q c" using that c1 by (simp add: clash_def)
        then have "bc_ID q = bc_ID c" using ok that c1 by (auto simp: commits_ok_def)
        then show ?thesis using ok that c1 unfolding commits_ok_def by (metis distinct_map inj_onD)
      qed
      then have "\<forall>q \<in> set (bid_commits d5). bc_RevealedBidID q = Some (bid_ID b) \<longrightarrow> bc_Status q = ''revealed''"
        using c(2) d'(2) by metis
      then have "commits_step (bid_commits d5) (bid_commits (UpdateBidCommitStatusByRevealedBid (be_Now E) (bid_ID b) ''accepted'' d5))"
        by (rule step_accept)
      then show ?thesis
        unfolding d'(1) d'(2) [symmetric] using step_reject by (rule commits_step_trans)
    qed
    then have "commits_step (bid_commits d) (bid_commits d')" by (auto simp: commits_step_def)
    then show ?thesis using Pair by simp
  qed
qed

lemma accept_checked_step:
  "commits_step (bid_commits d) (bid_commits (fst (accept_checked E p summary r d)))"
proof -
  have "commits_step (bid_commits d) (bid_commits (fst (accept_tx E r b stake res ms d)))"
    if "check_acceptance E p summary r b d = None" for b stake res ms
    using that accept_tx_step [of d b _ E r stake res ms]
    by (auto simp: check_acceptance_def split: if_splits option.splits sum.splits)
  then show ?thesis
    unfolding accept_checked_def
    by (auto split: option.split intro!: orFail_step andThen_step) (metis fst_conv)+
qed

lemma accept_step: "commits_step (bid_commits d) (bid_commits (fst (AcceptBidCommitted E p d)))"
  unfolding AcceptBidCommitted_def
proof (rule orFail_step)
  fix r
  have "commits_step (bid_commits d) (bid_commits (fst (andThen (FinalizeSealedBidding E (abp_RFQID p) d) (\<lambda>d1 summary.
         orFail d1 (wrap ''rfq not found after finalization'') (GetRFQ d1 (abp_RFQID p)) (\<lambda>r1.
           accept_checked E p (Some summary) r1 d1)))))"
  proof (rule andThen_step)
    fix d1 x assume "FinalizeSealedBidding E (abp_RFQID p) d = (d1, Inr x)"
    then have "commits_step (bid_commits d) (bid_commits d1)" using finalize_step by (metis fst_conv)
    moreover have "commits_step (bid_commits d1) (bid_commits (fst (orFail d1 (wrap ''rfq not found after finalization'')
        (GetRFQ d1 (abp_RFQID p)) (\<lambda>r1. accept_checked E p (Some x) r1 d1))))"
      by (intro orFail_step accept_checked_step)
    ultimately show "commits_step (bid_commits d) (bid_commits (fst (orFail d1 (wrap ''rfq not found after finalization'')
        (GetRFQ d1 (abp_RFQID p)) (\<lambda>r1. accept_checked E p (Some x) r1 d1))))"
      using commits_step_trans by blast
  qed (rule finalize_step)
  then show "commits_step (bid_commits d) (bid_commits (fst (if rfq_Status r \<noteq> ''open''
       then (d, Inl (errors_New (''rfq is not open (status: '' @ rfq_Status r @ '')'')))
       else if rfq_BiddingMode r = ''sealed'' \<and> be_Now E > rfq_RevealDeadline r
       then andThen (FinalizeSealedBidding E (abp_RFQID p) d) (\<lambda>d1 summary.
         orFail d1 (wrap ''rfq not found after finalization'') (GetRFQ d1 (abp_RFQID p)) (\<lambda>r1.
           accept_checked E p (Some summary) r1 d1))
       else accept_checked E p None r d)))"
    by (simp add: accept_checked_step)
qed

lemma create_rfq_commits [simp]: "bid_commits (fst (CreateRFQ E p d)) = bid_commits d"
  unfolding CreateRFQ_def
  by (rule orFail_frame) (auto simp: CreateRFQWithParentCooldown_def Let_def in_tx_def split: option.split prod.split sum.split;
    metis frame_commits(1) fst_conv)

section \<open>The machine\<close>

datatype bidding_event =
    NewRFQ bid_env create_rfq_params
  | Commit bid_env commit_bid_params
  | Reveal bid_env reveal_bid_params
  | Finalize bid_env int
  | Accept bid_env accept_bid_params

fun bidding_step :: "db \<Rightarrow> bidding_event \<Rightarrow> db" where
  "bidding_step d (NewRFQ E p) = fst (CreateRFQ E p d)"
| "bidding_step d (Commit E p) = fst (CommitBid E p d)"
| "bidding_step d (Reveal E p) = fst (RevealBid E p d)"
| "bidding_step d (Finalize E i) = fst (FinalizeSealedBidding E i d)"
| "bidding_step d (Accept E p) = fst (AcceptBidCommitted E p d)"

lemma bidding_step_commits: "commits_step (bid_commits d) (bid_commits (bidding_step d e))"
  by (cases e) (simp_all add: commit_step reveal_step finalize_step accept_step)

lemma bidding_run_commits: "commits_step (bid_commits d) (bid_commits (foldl bidding_step d es))"
proof (induction es arbitrary: d)
  case (Cons e es)
  then show ?case using bidding_step_commits commits_step_trans by (metis foldl_Cons)
qed simp

text \<open>The status of the commit with a given id, over the runs of the machine.\<close>

definition commit_status :: "int \<Rightarrow> db \<Rightarrow> string option" where
  "commit_status k d = map_option bc_Status (row_get bc_ID (bid_commits d) k)"

lemma commit_status_step:
  assumes "commits_ok (bid_commits d)" "pred_option commit_done (commit_status k d)" "commit_status k d \<noteq> None"
  shows "commit_status k (bidding_step d e) = commit_status k d"
proof -
  obtain c where c: "row_get bc_ID (bid_commits d) k = Some c" "commit_done (bc_Status c)"
    using assms(2,3) by (auto simp: commit_status_def)
  then obtain c' where "row_get bc_ID (bid_commits (bidding_step d e)) k = Some c'" "same_commit c c'"
    using bidding_step_commits [of d e] assms(1) by (auto simp: commits_step_def)
  then show ?thesis using c commit_le_done by (simp add: commit_status_def same_commit_def)
qed

interpretation commit_life: terminal_machine bidding_step "\<lambda>d. commits_ok (bid_commits d)" "commit_status k"
    "\<lambda>s. s \<noteq> None \<and> pred_option commit_done s" for k
  using bidding_step_commits commit_status_step by unfold_locales (auto simp: commits_step_def)

section \<open>Property\<close>

definition sample_commit :: bid_commit where
  "sample_commit = \<lparr>bc_ID = 1, bc_RFQID = 1, bc_Bidder = ''0xb'', bc_Commitment = ''0x1'', bc_Nonce = ''n'',
     bc_Status = ''rejected'', bc_RevealedBidID = None, bc_CreatedAt = 0, bc_UpdatedAt = 0\<rparr>"

text \<open>C7: Whatever RFQs are created and bids committed, revealed, finalized and accepted, with success or
  not, a commit never disappears or changes its content, its status only moves forward, one that
  is accepted, rejected, expired or superseded stays so, no bid belongs to two commits and no
  bidder has two outstanding commits for an RFQ.\<close>

theorem commit_lifecycle:
  assumes "commits_ok (bid_commits d)" and "row_get bc_ID (bid_commits d) k = Some c"
  shows "commits_ok (bid_commits (foldl bidding_step d es))
    \<and> (\<exists>c'. row_get bc_ID (bid_commits (foldl bidding_step d es)) k = Some c' \<and> same_commit c c')
    \<and> (commit_done (bc_Status c) \<longrightarrow> commit_status k (foldl bidding_step d es) = Some (bc_Status c))"
proof (intro conjI impI)
  show "commits_ok (bid_commits (foldl bidding_step d es))" using assms(1) by (rule commit_life.inv_run)
  show "\<exists>c'. row_get bc_ID (bid_commits (foldl bidding_step d es)) k = Some c' \<and> same_commit c c'"
    using bidding_run_commits [of d es] assms by (auto simp: commits_step_def)
  assume "commit_done (bc_Status c)"
  then show "commit_status k (foldl bidding_step d es) = Some (bc_Status c)"
    using commit_life.terminal_run [of d k es] assms by (simp add: commit_status_def)
qed

theorem commit_lifecycle_witness:
  "\<forall>es. commit_status 1 (foldl bidding_step (empty_db\<lparr>bid_commits := [sample_commit]\<rparr>) es) = Some ''rejected''"
proof
  fix es
  show "commit_status 1 (foldl bidding_step (empty_db\<lparr>bid_commits := [sample_commit]\<rparr>) es) = Some ''rejected''"
    using commit_lifecycle [of "empty_db\<lparr>bid_commits := [sample_commit]\<rparr>" 1 sample_commit es]
    by (simp add: commits_ok_def sample_commit_def clash_def commit_done_def)
qed

end
