(* ===== verification/BidFinalize.thy ===== *)
theory BidFinalize
  imports BidLife
begin

text \<open>
  Finalization of sealed bidding: it fixes the best of the eligible revealed bids, gives one strike
  and a cooldown to each bidder with an outstanding commit, expires these commits, and happens
  once. A late reveal expires the commits first, and with them the strikes.
\<close>

lemma no_rows [simp]: "errors_is ErrNoRows ErrNoRows"
  by (simp add: ErrNoRows_def)

section \<open>Eligible bids\<close>

definition linked_commit :: "db \<Rightarrow> bid \<Rightarrow> bid_commit option" where
  "linked_commit d b = first_where (\<lambda>c. bc_RevealedBidID c = Some (bid_ID b)) (bid_commits d)"

definition eligible_bid :: "db \<Rightarrow> bool \<Rightarrow> int \<Rightarrow> bid \<Rightarrow> bool" where
  "eligible_bid d req now b \<longleftrightarrow>
     bid_Status b = ''pending'' \<and> now < bid_ExpiresAt b \<and> (req \<longrightarrow> bid_CredentialVerified b)
     \<and> (\<exists>c. linked_commit d b = Some c \<and> bc_Status c = ''revealed'')
     \<and> (\<exists>n. SetString10 (bid_Amount b) = Some n \<and> 0 < n)"

definition bid_rank :: "db \<Rightarrow> bid \<Rightarrow> int \<times> int \<times> int \<times> int" where
  "bid_rank d b = (the (SetString10 (bid_Amount b)), bid_EstimatedDuration b,
     bc_CreatedAt (the (linked_commit d b)), bid_ID b)"

definition candidate_for :: "db \<Rightarrow> bid \<Rightarrow> candidate" where
  "candidate_for d b = \<lparr>cand_bid = b, cand_commit = the (linked_commit d b),
     cand_amount = the (SetString10 (bid_Amount b)), cand_commitTime = bc_CreatedAt (the (linked_commit d b))\<rparr>"

lemma candidate_of_eq:
  "candidate_of d req now b = Inr (if eligible_bid d req now b then Some (candidate_for d b) else None)"
  by (auto simp: candidate_of_def eligible_bid_def candidate_for_def linked_commit_def
      GetBidCommitByRevealedBidID_def found_def split: option.splits)

lemma collect_candidates_eq:
  "collect_candidates d req now bs = Inr (map (candidate_for d) (filter (eligible_bid d req now) bs))"
  by (induction bs) (simp_all add: candidate_of_eq)

lemma cand_key_for [simp]: "cand_key (candidate_for d b) = bid_rank d b" "cand_bid (candidate_for d b) = b"
  by (simp_all add: cand_key_def candidate_for_def bid_rank_def)

definition rfq_requires :: "bid_env \<Rightarrow> rfq \<Rightarrow> bool" where
  "rfq_requires E r \<longleftrightarrow> ParseCredentialRequirements (be_L E) (rfq_RequiredCredentialsJSON r) \<noteq> Inr []"

definition eligible_bids :: "bid_env \<Rightarrow> db \<Rightarrow> rfq \<Rightarrow> bid set" where
  "eligible_bids E d r =
     {b \<in> set (bids d). bid_RFQID b = rfq_ID r \<and> eligible_bid d (rfq_requires E r) (be_Now E) b}"

lemma eligibleOn_Inr:
  assumes "eligibleSealedBidCandidatesOn E d r = Inr cs"
  shows "cand_bid ` set cs = eligible_bids E d r"
    and "cs = c # cs' \<Longrightarrow> b \<in> eligible_bids E d r \<Longrightarrow> bid_rank d (cand_bid c) \<le> bid_rank d b"
proof -
  obtain reqs where p: "ParseCredentialRequirements (be_L E) (rfq_RequiredCredentialsJSON r) = Inr reqs"
    and cs: "cs = sort_key cand_key (map (candidate_for d)
        (filter (eligible_bid d (reqs \<noteq> []) (be_Now E)) (ListBidsByRFQ d (rfq_ID r))))"
    using assms by (auto simp: eligibleSealedBidCandidatesOn_def collect_candidates_eq sortSealedBidCandidates_def
        split: sum.splits)
  have "(reqs \<noteq> []) = rfq_requires E r" using p by (simp add: rfq_requires_def)
  then have set_cs: "set cs = candidate_for d ` eligible_bids E d r"
    unfolding cs eligible_bids_def by (auto simp: ListBidsByRFQ_def)
  then show "cand_bid ` set cs = eligible_bids E d r" by (simp add: image_image)
  assume c: "cs = c # cs'" and b: "b \<in> eligible_bids E d r"
  have "sorted (map cand_key cs)" by (simp add: cs)
  moreover have "candidate_for d b \<in> set cs" using b set_cs by simp
  ultimately have "cand_key c \<le> cand_key (candidate_for d b)" using c by auto
  moreover have "cand_key c = bid_rank d (cand_bid c)" using c set_cs by force
  ultimately show "bid_rank d (cand_bid c) \<le> bid_rank d b" by simp
qed

section \<open>Strikes\<close>

definition strikes :: "db \<Rightarrow> string \<Rightarrow> int" where
  "strikes d x = (case row_get dis_Bidder (disciplines d) x of None \<Rightarrow> 0 | Some r \<Rightarrow> dis_NonRevealCount r)"

definition next_cooldown :: "int \<Rightarrow> db \<Rightarrow> string \<Rightarrow> int" where
  "next_cooldown now d x = now + sealedBidCooldownDuration (strikes d x + 1)"

definition cooldowns_ok :: "int \<Rightarrow> db \<Rightarrow> (string \<times> int) list \<Rightarrow> bool" where
  "cooldowns_ok now d m \<longleftrightarrow> distinct (map fst m) \<and> (\<forall>(x, u) \<in> set m. u = next_cooldown now d x)"

lemma raise_cooldown_ok:
  "cooldowns_ok now d m \<Longrightarrow> cooldowns_ok now d (raise_cooldown x (next_cooldown now d x) m)
     \<and> fst ` set (raise_cooldown x (next_cooldown now d x) m) = insert x (fst ` set m)"
proof (cases "map_of m x")
  case None
  then have "x \<notin> fst ` set m" by (simp add: map_of_eq_None_iff)
  moreover have "raise_cooldown x (next_cooldown now d x) m = m @ [(x, next_cooldown now d x)]"
    by (simp add: raise_cooldown_def None)
  ultimately show "cooldowns_ok now d m \<Longrightarrow> ?thesis"
    by (auto simp: cooldowns_ok_def)
next
  case (Some u)
  assume ok: "cooldowns_ok now d m"
  have "(x, u) \<in> set m" using Some by (rule map_of_SomeD)
  then have "u = next_cooldown now d x" "x \<in> fst ` set m" using ok by (force simp: cooldowns_ok_def)+
  then show ?thesis using Some ok by (auto simp: raise_cooldown_def)
qed

lemma cooldown_loop_ok:
  "cooldowns_ok now d m \<Longrightarrow>
     \<exists>m'. cooldown_loop now d cs m = Inr m' \<and> cooldowns_ok now d m' \<and> fst ` set m' = fst ` set m \<union> bc_Bidder ` set cs"
proof (induction cs arbitrary: m)
  case (Cons c cs)
  have *: "cooldown_loop now d (c # cs) m
      = cooldown_loop now d cs (raise_cooldown (bc_Bidder c) (next_cooldown now d (bc_Bidder c)) m)"
    by (simp add: GetSealedBidderDiscipline_def found_def next_cooldown_def strikes_def split: option.split)
  show ?case
    using Cons.IH [of "raise_cooldown (bc_Bidder c) (next_cooldown now d (bc_Bidder c)) m"]
      raise_cooldown_ok [OF Cons.prems, of "bc_Bidder c"] unfolding * by auto
qed simp

definition struck :: "int \<Rightarrow> db \<Rightarrow> string \<Rightarrow> discipline option \<Rightarrow> bool" where
  "struck now d x q \<longleftrightarrow>
     (\<exists>r. q = Some r \<and> dis_NonRevealCount r = strikes d x + 1 \<and> next_cooldown now d x \<le> dis_CooldownUntil r
          \<and> (\<forall>old. row_get dis_Bidder (disciplines d) x = Some old \<longrightarrow> dis_CooldownUntil old \<le> dis_CooldownUntil r))"

lemma strike_bidders_result:
  "distinct (map fst m) \<Longrightarrow>
     row_get dis_Bidder (disciplines (strike_bidders now m d)) x =
       (case map_of m x of None \<Rightarrow> row_get dis_Bidder (disciplines d) x
        | Some u \<Rightarrow> row_get dis_Bidder (disciplines (UpsertSealedBidderDiscipline now x u d)) x)"
proof (induction m arbitrary: d)
  case (Cons p m)
  obtain y u where p: "p = (y, u)" by (cases p)
  have "strike_bidders now (p # m) d = strike_bidders now m (UpsertSealedBidderDiscipline now y u d)"
    by (simp add: strike_bidders_def p)
  moreover have "map_of m y = None" "distinct (map fst m)"
    using Cons.prems p by (simp_all add: map_of_eq_None_iff)
  ultimately show ?case
    using Cons.IH [of "UpsertSealedBidderDiscipline now y u d"] p
    by (cases "x = y") (simp_all add: strikes_after_upsert split: option.split)
qed (simp add: strike_bidders_def)

lemma strike_bidders_struck:
  assumes "cooldowns_ok now d m"
  shows "x \<in> fst ` set m \<Longrightarrow> struck now d x (row_get dis_Bidder (disciplines (strike_bidders now m d)) x)"
    and "x \<notin> fst ` set m \<Longrightarrow> row_get dis_Bidder (disciplines (strike_bidders now m d)) x
           = row_get dis_Bidder (disciplines d) x"
proof -
  have m: "distinct (map fst m)" using assms by (simp add: cooldowns_ok_def)
  show "row_get dis_Bidder (disciplines (strike_bidders now m d)) x = row_get dis_Bidder (disciplines d) x"
    if "x \<notin> fst ` set m"
    using that strike_bidders_result [OF m] by (metis map_of_eq_None_iff option.simps(4))
  assume "x \<in> fst ` set m"
  then obtain u where u: "map_of m x = Some u" by (metis map_of_eq_None_iff not_None_eq)
  then have "u = next_cooldown now d x" using assms map_of_SomeD [OF u] by (auto simp: cooldowns_ok_def)
  then show "struck now d x (row_get dis_Bidder (disciplines (strike_bidders now m d)) x)"
    using u by (auto simp: strike_bidders_result [OF m] struck_def strikes_after_upsert strikes_def split: option.split)
qed

section \<open>The transaction\<close>

lemma strike_frame [simp]: "rfqs (strike_bidders now m d) = rfqs d" "bids (strike_bidders now m d) = bids d"
proof -
  have "rfqs (UpsertSealedBidderDiscipline now x u d) = rfqs d" "bids (UpsertSealedBidderDiscipline now x u d) = bids d" for x u d
    by (simp_all add: UpsertSealedBidderDiscipline_def)
  then show "rfqs (strike_bidders now m d) = rfqs d" "bids (strike_bidders now m d) = bids d"
    unfolding strike_bidders_def by (induction m arbitrary: d) auto
qed

lemma expire_frame [simp]:
  "rfqs (ExpireCommittedBidCommits now i d) = rfqs d" "bids (ExpireCommittedBidCommits now i d) = bids d"
  "disciplines (ExpireCommittedBidCommits now i d) = disciplines d"
  by (simp_all add: ExpireCommittedBidCommits_def set_commit_status_def)

definition due :: "bid_env \<Rightarrow> rfq \<Rightarrow> bool" where
  "due E r \<longleftrightarrow> rfq_BiddingMode r = ''sealed'' \<and> rfq_Status r = ''open''
     \<and> \<not> finalized_status (rfq_SealedBidStatus r) \<and> rfq_RevealDeadline r < be_Now E"

lemma finalize_due:
  assumes "FinalizeSealedBidding E i d = (d', Inr s)" "GetRFQ d i = Inr r" "due E r"
  shows "\<exists>cs m. eligibleSealedBidCandidatesOn E d r = Inr cs
    \<and> cooldowns_ok (be_Now E) d m \<and> fst ` set m = bc_Bidder ` {c \<in> set (bid_commits d). outstanding i c}
    \<and> d' = (ExpireCommittedBidCommits (be_Now E) i (strike_bidders (be_Now E) m d))
             \<lparr>rfqs := row_upd (\<lambda>r. rfq_ID r = i) (\<lambda>q. (finalize_update E q cs)\<lparr>rfq_UpdatedAt := be_Now E\<rparr>) (rfqs d)\<rparr>
    \<and> s = buildSealedBidSummary (finalize_update E r cs) (map (\<lambda>c. bid_ID (cand_bid c)) cs)
            (length (ListCommittedBidCommitsByRFQ d i))"
proof -
  have tx: "finalize_tx E i d = (d', Inr s)"
    using assms by (simp add: FinalizeSealedBidding_def due_def)
  obtain cs where cs: "eligibleSealedBidCandidatesOn E d r = Inr cs"
    using tx assms(2,3) by (auto simp: finalize_tx_def due_def err_iff)
  obtain m where m: "cooldown_loop (be_Now E) d (ListCommittedBidCommitsByRFQ d i) [] = Inr m"
      "cooldowns_ok (be_Now E) d m" "fst ` set m = bc_Bidder ` set (ListCommittedBidCommitsByRFQ d i)"
    using cooldown_loop_ok [of "be_Now E" d "[]" "ListCommittedBidCommitsByRFQ d i"] by (auto simp: cooldowns_ok_def)
  have set: "set (ListCommittedBidCommitsByRFQ d i) = {c \<in> set (bid_commits d). outstanding i c}"
    by (simp add: ListCommittedBidCommitsByRFQ_def)
  have f: "(\<lambda>q. q\<lparr>rfq_SealedBidStatus := rfq_SealedBidStatus (finalize_update E r cs),
        rfq_SealedBidSelectionRule := sealedBidSelectionRule, rfq_BestBidID := rfq_BestBidID (finalize_update E r cs),
        rfq_SealedBidFinalizedAt := be_Now E, rfq_UpdatedAt := be_Now E\<rparr>)
      = (\<lambda>q. (finalize_update E q cs)\<lparr>rfq_UpdatedAt := be_Now E\<rparr>)"
    by (simp add: finalize_update_def fun_eq_iff)
  show ?thesis
    using tx assms(2,3) cs m set f
    by (auto simp: finalize_tx_def due_def err_iff UpdateRFQSealedBiddingState_def Let_def)
qed

lemma GetRFQ_finalized:
  assumes "GetRFQ d i = Inr r"
    "d' = (ExpireCommittedBidCommits now i (strike_bidders now m d))
        \<lparr>rfqs := row_upd (\<lambda>r. rfq_ID r = i) (\<lambda>q. (finalize_update E q cs)\<lparr>rfq_UpdatedAt := now\<rparr>) (rfqs d)\<rparr>"
  shows "GetRFQ d' i = Inr ((finalize_update E r cs)\<lparr>rfq_UpdatedAt := now\<rparr>)"
proof -
  have "row_get rfq_ID (rfqs d) i = Some r" using assms(1) by (simp add: GetRFQ_def)
  then show ?thesis
    using row_get_Some [of rfq_ID "rfqs d" i r]
    by (simp add: GetRFQ_def assms(2) row_get_upd finalize_update_def)
qed

lemma expire_no_outstanding:
  "c \<in> set (bid_commits (ExpireCommittedBidCommits now i d)) \<Longrightarrow> \<not> outstanding i c"
proof -
  define f where "f c = (if outstanding i c then c\<lparr>bc_Status := ''expired'', bc_UpdatedAt := now\<rparr> else c)" for c
  have "\<not> outstanding i (f c)" for c by (simp add: f_def outstanding_def)
  moreover have "bid_commits (ExpireCommittedBidCommits now i d) = map f (bid_commits d)"
    by (simp add: ExpireCommittedBidCommits_def set_commit_status_def row_upd_def f_def fun_eq_iff)
  ultimately show "c \<in> set (bid_commits (ExpireCommittedBidCommits now i d)) \<Longrightarrow> \<not> outstanding i c" by auto
qed

lemma finalize_effect:
  assumes fin: "FinalizeSealedBidding E i d = (d', Inr s)" and r: "GetRFQ d i = Inr r" and due: "due E r"
  shows "\<exists>r'. GetRFQ d' i = Inr r' \<and> finalized_status (rfq_SealedBidStatus r')
      \<and> rfq_Status r' = ''open'' \<and> rfq_BiddingMode r' = ''sealed''
      \<and> rfq_BestBidID r' = sbs_BestBidID s \<and> rfq_SealedBidStatus r' = sbs_SealedBidStatus s
      \<and> (case rfq_BestBidID r' of
           None \<Rightarrow> eligible_bids E d r = {}
         | Some k \<Rightarrow> \<exists>b \<in> eligible_bids E d r. bid_ID b = k \<and> (\<forall>b' \<in> eligible_bids E d r. bid_rank d b \<le> bid_rank d b'))"
    and "\<And>x. (\<exists>c \<in> set (bid_commits d). outstanding i c \<and> bc_Bidder c = x) \<Longrightarrow>
           struck (be_Now E) d x (row_get dis_Bidder (disciplines d') x)"
    and "\<And>x. \<not> (\<exists>c \<in> set (bid_commits d). outstanding i c \<and> bc_Bidder c = x) \<Longrightarrow>
           row_get dis_Bidder (disciplines d') x = row_get dis_Bidder (disciplines d) x"
    and "\<forall>c \<in> set (bid_commits d'). \<not> outstanding i c"
    and "bids d' = bids d"
proof -
  obtain cs m where cs: "eligibleSealedBidCandidatesOn E d r = Inr cs"
    and m: "cooldowns_ok (be_Now E) d m" "fst ` set m = bc_Bidder ` {c \<in> set (bid_commits d). outstanding i c}"
    and d': "d' = (ExpireCommittedBidCommits (be_Now E) i (strike_bidders (be_Now E) m d))
        \<lparr>rfqs := row_upd (\<lambda>r. rfq_ID r = i) (\<lambda>q. (finalize_update E q cs)\<lparr>rfq_UpdatedAt := be_Now E\<rparr>) (rfqs d)\<rparr>"
    and s: "s = buildSealedBidSummary (finalize_update E r cs) (map (\<lambda>c. bid_ID (cand_bid c)) cs)
            (length (ListCommittedBidCommitsByRFQ d i))"
    using finalize_due [OF fin r due] by blast
  let ?r = "(finalize_update E r cs)\<lparr>rfq_UpdatedAt := be_Now E\<rparr>"
  have g: "GetRFQ d' i = Inr ?r" using GetRFQ_finalized [OF r d'] .
  have best: "case rfq_BestBidID ?r of
           None \<Rightarrow> eligible_bids E d r = {}
         | Some k \<Rightarrow> \<exists>b \<in> eligible_bids E d r. bid_ID b = k \<and> (\<forall>b' \<in> eligible_bids E d r. bid_rank d b \<le> bid_rank d b')"
  proof (cases cs)
    case Nil
    then show ?thesis using eligibleOn_Inr(1) [OF cs] by (simp add: finalize_update_def)
  next
    case (Cons c cs')
    then have "cand_bid c \<in> eligible_bids E d r" using eligibleOn_Inr(1) [OF cs] by auto
    then show ?thesis using eligibleOn_Inr(2) [OF cs Cons] Cons by (auto simp: finalize_update_def)
  qed
  show "\<exists>r'. GetRFQ d' i = Inr r' \<and> finalized_status (rfq_SealedBidStatus r')
      \<and> rfq_Status r' = ''open'' \<and> rfq_BiddingMode r' = ''sealed''
      \<and> rfq_BestBidID r' = sbs_BestBidID s \<and> rfq_SealedBidStatus r' = sbs_SealedBidStatus s
      \<and> (case rfq_BestBidID r' of
           None \<Rightarrow> eligible_bids E d r = {}
         | Some k \<Rightarrow> \<exists>b \<in> eligible_bids E d r. bid_ID b = k \<and> (\<forall>b' \<in> eligible_bids E d r. bid_rank d b \<le> bid_rank d b'))"
    using g best due s
    by (intro exI [of _ ?r]) (simp add: finalize_update_def finalized_status_def due_def buildSealedBidSummary_def)
  have disc: "disciplines d' = disciplines (strike_bidders (be_Now E) m d)" by (simp add: d')
  show "struck (be_Now E) d x (row_get dis_Bidder (disciplines d') x)"
    if "\<exists>c \<in> set (bid_commits d). outstanding i c \<and> bc_Bidder c = x" for x
    unfolding disc using that m by (intro strike_bidders_struck(1)) auto
  show "row_get dis_Bidder (disciplines d') x = row_get dis_Bidder (disciplines d) x"
    if "\<not> (\<exists>c \<in> set (bid_commits d). outstanding i c \<and> bc_Bidder c = x)" for x
    unfolding disc using that m by (intro strike_bidders_struck(2)) auto
  show "\<forall>c \<in> set (bid_commits d'). \<not> outstanding i c"
    using expire_no_outstanding by (simp add: d')
  show "bids d' = bids d" by (simp add: d')
qed

lemma finalize_again:
  assumes "GetRFQ d i = Inr r" "finalized_status (rfq_SealedBidStatus r)"
  shows "FinalizeSealedBidding E i d = (d, Inr (buildSealedBidSummary r [] 0))"
  using assms by (simp add: FinalizeSealedBidding_def)

lemma finalize_error: "FinalizeSealedBidding E i d = (d', Inl e) \<Longrightarrow> d' = d"
  by (auto simp: FinalizeSealedBidding_def finalize_tx_def err_iff Let_def split: if_splits)

lemma finalize_not_due:
  assumes "GetRFQ d i = Inr r" "\<not> due E r"
  shows "fst (FinalizeSealedBidding E i d) = d"
  using assms by (auto simp: FinalizeSealedBidding_def due_def)

section \<open>A sample auction\<close>

text \<open>Three bidders; the first two revealed, the third did not. The second is dearer and faster.\<close>

definition sample_rfq :: rfq where
  "sample_rfq = \<lparr>rfq_ID = 1, rfq_Title = [], rfq_Description = [], rfq_SpecHash = [], rfq_Buyer = ''0xbuyer'',
     rfq_Token = [], rfq_BudgetMin = ''1'', rfq_BudgetMax = ''9'', rfq_Deadline = 90, rfq_ReviewPeriodSeconds = 1,
     rfq_DisputePeriodSeconds = 1, rfq_ArbitratorTimeoutSeconds = 1, rfq_Verifier = ''0xv'', rfq_Arbitrator = [],
     rfq_WorkerStake = ''0'', rfq_MilestonesJSON = ''[]'', rfq_RequirementsJSON = ''{}'',
     rfq_RequiredCredentialsJSON = ''[]'', rfq_BiddingMode = ''sealed'', rfq_CommitDeadline = 10,
     rfq_RevealDeadline = 20, rfq_SealedBidStatus = ''commit_open'', rfq_SealedBidSelectionRule = [],
     rfq_BestBidID = None, rfq_SealedBidFinalizedAt = 0, rfq_ServiceTier = 0, rfq_ParentEscrowID = None,
     rfq_Status = ''open'', rfq_ExpiresAt = 95, rfq_CreatedAt = 0, rfq_UpdatedAt = 0\<rparr>"

definition sample_bid :: "int \<Rightarrow> string \<Rightarrow> string \<Rightarrow> bid" where
  "sample_bid i who amount =
     \<lparr>bid_ID = i, bid_RFQID = 1, bid_Bidder = who, bid_Amount = amount, bid_EstimatedDuration = 5 - i,
      bid_ReputationBond = ''0'', bid_MilestonesJSON = ''[]'', bid_Message = [], bid_Status = ''pending'',
      bid_EscrowID = None, bid_ExpiresAt = 80, bid_StakeMandateID = [], bid_CredentialsJSON = ''[]'',
      bid_CredentialVerified = True, bid_CredentialMatchSummary = ''{}'', bid_CreatedAt = 15, bid_UpdatedAt = 15\<rparr>"

definition sample_bid_commit :: "int \<Rightarrow> string \<Rightarrow> int option \<Rightarrow> bid_commit" where
  "sample_bid_commit i who revealed =
     \<lparr>bc_ID = i, bc_RFQID = 1, bc_Bidder = who, bc_Commitment = who, bc_Nonce = ''n'',
      bc_Status = (if revealed = None then ''committed'' else ''revealed''), bc_RevealedBidID = revealed,
      bc_CreatedAt = 5, bc_UpdatedAt = 5\<rparr>"

definition sample_auction :: db where
  "sample_auction = empty_db\<lparr>rfqs := [sample_rfq], bids := [sample_bid 1 ''b1'' ''4'', sample_bid 2 ''b2'' ''7''],
     bid_commits := [sample_bid_commit 1 ''b1'' (Some 1), sample_bid_commit 2 ''b2'' (Some 2),
                     sample_bid_commit 3 ''b3'' None]\<rparr>"

definition sample_env :: "int \<Rightarrow> bid_env" where
  "sample_env now =
     \<lparr>be_L = sample_eth, be_Node = \<lparr>node_CreateEscrow = (\<lambda>_ _. Inr [1]),
        node_Receipt = (\<lambda>h n. if n < 2 then None else Some \<lparr>rc_Status = 1,
           rc_Logs = [\<lparr>lg_Address = [], lg_Topics = [[7], [5], [48, 120]], lg_Data = []\<rparr>], rc_TxHash = h\<rparr>),
        node_EscrowCreatedID = [7]\<rparr>,
      be_Now = now, be_FloatText = Some, be_RebidCooldownSeconds = 0, be_FactoryAddress = ''0xf'',
      be_ChainID = 1, be_RunOnce = id\<rparr>"

definition late_reveal :: reveal_bid_params where
  "late_reveal = \<lparr>rvp_RFQID = 1, rvp_Bidder = [], rvp_Nonce = [], rvp_Salt = [], rvp_Amount = [],
     rvp_EstimatedDuration = 0, rvp_ReputationBond = [], rvp_MilestonesJSON = [], rvp_Message = [],
     rvp_ExpiresAt = 0, rvp_StakeMandateID = [], rvp_CredentialsJSON = []\<rparr>"

lemma sample_finalized:
  "FinalizeSealedBidding (sample_env 30) 1 sample_auction
     = (fst (FinalizeSealedBidding (sample_env 30) 1 sample_auction),
        Inr (projr (snd (FinalizeSealedBidding (sample_env 30) 1 sample_auction))))"
proof -
  have "\<not> isl (snd (FinalizeSealedBidding (sample_env 30) 1 sample_auction))" by code_simp
  then show ?thesis by (metis prod.collapse sum.collapse(2))
qed

lemma sample_rfq_found: "GetRFQ sample_auction 1 = Inr sample_rfq"
  by (simp add: GetRFQ_def sample_auction_def sample_rfq_def)

lemma sample_due: "due (sample_env 30) sample_rfq"
  by code_simp

section \<open>Properties\<close>

text \<open>C10: Finalizing an open sealed RFQ after the reveal deadline fixes its best bid: one that is eligible
  (of this RFQ, pending, unexpired, with the required credentials verified, its commit revealed and
  its amount positive) and minimal in amount, then duration, then commit time, then id; there is
  none exactly when no bid is eligible.\<close>

theorem finalize_best_bid:
  assumes "FinalizeSealedBidding E i d = (d', Inr s)" and "GetRFQ d i = Inr r" and "due E r"
  shows "\<exists>r'. GetRFQ d' i = Inr r' \<and> finalized_status (rfq_SealedBidStatus r')
      \<and> (case rfq_BestBidID r' of
           None \<Rightarrow> eligible_bids E d r = {}
         | Some k \<Rightarrow> \<exists>b \<in> eligible_bids E d r. bid_ID b = k
             \<and> (\<forall>b' \<in> eligible_bids E d r. bid_rank d b \<le> bid_rank d b'))"
  using finalize_effect(1) [OF assms] by blast

theorem finalize_best_bid_witness:
  "\<exists>r'. GetRFQ (fst (FinalizeSealedBidding (sample_env 30) 1 sample_auction)) 1 = Inr r'
     \<and> finalized_status (rfq_SealedBidStatus r')"
  using finalize_best_bid [OF sample_finalized sample_rfq_found sample_due] by blast

text \<open>Finalization gives each bidder with an outstanding commit for the RFQ exactly one more strike
  and a cooldown at least as long as the strikes call for, leaves everybody else alone, leaves no
  commit outstanding, and happens once: finalizing again, at any time, changes nothing.\<close>

theorem finalize_strikes_once:
  assumes "FinalizeSealedBidding E i d = (d', Inr s)" and "GetRFQ d i = Inr r" and "due E r"
  shows "(\<forall>x. if \<exists>c \<in> set (bid_commits d). outstanding i c \<and> bc_Bidder c = x
             then struck (be_Now E) d x (row_get dis_Bidder (disciplines d') x)
             else row_get dis_Bidder (disciplines d') x = row_get dis_Bidder (disciplines d) x)
    \<and> (\<forall>c \<in> set (bid_commits d'). \<not> outstanding i c)
    \<and> (\<forall>E'. fst (FinalizeSealedBidding E' i d') = d')"
proof (intro conjI allI)
  obtain r' where "GetRFQ d' i = Inr r'" "finalized_status (rfq_SealedBidStatus r')"
    using finalize_effect(1) [OF assms] by blast
  then show "fst (FinalizeSealedBidding E' i d') = d'" for E' by (simp add: finalize_again)
qed (use finalize_effect(2-4) [OF assms] in auto)

theorem finalize_strikes_once_witness:
  "struck 30 sample_auction ''b3''
     (row_get dis_Bidder (disciplines (fst (FinalizeSealedBidding (sample_env 30) 1 sample_auction))) ''b3'')"
proof -
  have "\<exists>c \<in> set (bid_commits sample_auction). outstanding 1 c \<and> bc_Bidder c = ''b3''" by code_simp
  moreover have "be_Now (sample_env 30) = 30" by (simp add: sample_env_def)
  ultimately show ?thesis
    using finalize_strikes_once [OF sample_finalized sample_rfq_found sample_due] by metis
qed

text \<open>A reveal after the deadline, by anybody, undoes the discipline: it expires all outstanding commits,
  so that whenever the RFQ is finalized afterwards nobody gets a strike for it.\<close>

theorem late_reveal_amnesty:
  assumes "GetRFQ d (rvp_RFQID p) = Inr r" and "rfq_Status r = ''open''"
    and "rfq_CommitDeadline r \<le> be_Now E" and "rfq_RevealDeadline r < be_Now E"
  shows "snd (RevealBid E p d) = Inl (errors_New ''reveal phase has ended'')
    \<and> row_get dis_Bidder (disciplines (fst (FinalizeSealedBidding E' (rvp_RFQID p) (fst (RevealBid E p d))))) x
        = row_get dis_Bidder (disciplines d) x"
proof -
  let ?i = "rvp_RFQID p" and ?d = "ExpireCommittedBidCommits (be_Now E) (rvp_RFQID p) d"
  have r: "RevealBid E p d = (?d, Inl (errors_New ''reveal phase has ended''))"
    using assms by (simp add: RevealBid_def)
  have g: "GetRFQ ?d ?i = Inr r" using assms(1) by (simp add: GetRFQ_def)
  have "row_get dis_Bidder (disciplines (fst (FinalizeSealedBidding E' ?i ?d))) x = row_get dis_Bidder (disciplines ?d) x"
  proof (cases "due E' r")
    case True
    obtain d2 q where f: "FinalizeSealedBidding E' ?i ?d = (d2, q)" by fastforce
    show ?thesis
    proof (cases q)
      case (Inl e)
      then show ?thesis using f finalize_error by fastforce
    next
      case (Inr s)
      then show ?thesis
        using finalize_effect(3) [of E' ?i ?d d2 s r x] f g True expire_no_outstanding [of _ "be_Now E" ?i d] by auto
    qed
  qed (simp add: finalize_not_due [OF g])
  then show ?thesis by (simp add: r)
qed

theorem late_reveal_amnesty_witness:
  "strikes (fst (FinalizeSealedBidding (sample_env 30) 1 sample_auction)) ''b3'' = 1
   \<and> strikes (fst (FinalizeSealedBidding (sample_env 30) 1 (fst (RevealBid (sample_env 30) late_reveal sample_auction)))) ''b3'' = 0"
proof (rule conjI)
  show "strikes (fst (FinalizeSealedBidding (sample_env 30) 1 sample_auction)) ''b3'' = 1" by code_simp
  have "rvp_RFQID late_reveal = 1" by (simp add: late_reveal_def)
  moreover have "rfq_Status sample_rfq = ''open''" "rfq_CommitDeadline sample_rfq \<le> be_Now (sample_env 30)"
      "rfq_RevealDeadline sample_rfq < be_Now (sample_env 30)"
    by code_simp+
  ultimately have "row_get dis_Bidder (disciplines (fst (FinalizeSealedBidding (sample_env 30) 1
      (fst (RevealBid (sample_env 30) late_reveal sample_auction))))) ''b3'' = row_get dis_Bidder (disciplines sample_auction) ''b3''"
    using late_reveal_amnesty [of sample_auction late_reveal sample_rfq "sample_env 30" "sample_env 30" "''b3''"]
      sample_rfq_found by simp
  moreover have "disciplines sample_auction = []" by (simp add: sample_auction_def empty_db_def)
  ultimately show "strikes (fst (FinalizeSealedBidding (sample_env 30) 1
      (fst (RevealBid (sample_env 30) late_reveal sample_auction)))) ''b3'' = 0"
    by (simp add: strikes_def)
qed

end
