(* ===== verification/BidProps.thy ===== *)
theory BidProps
  imports BidFinalize
begin

text \<open>
  What a successful commit, reveal and acceptance of a bid means, the binding of a commitment to the
  terms of the bid, and the effect of an acceptance on the whole RFQ.
\<close>

lemma opt_fail_Inr: "(case x of None \<Rightarrow> k | Some e \<Rightarrow> (d, Inl (f e))) = (d', Inr y) \<longleftrightarrow> x = None \<and> k = (d', Inr y)"
  by (cases x) simp_all

lemma opt_none_Inr: "(case x of None \<Rightarrow> (d, Inl e) | Some a \<Rightarrow> k a) = (d', Inr y) \<longleftrightarrow> (\<exists>a. x = Some a \<and> k a = (d', Inr y))"
  by (cases x) simp_all

lemma sum_fail_Inr: "(case x of Inl e \<Rightarrow> (d, Inl (f e)) | Inr c \<Rightarrow> k c) = (d', Inr y) \<longleftrightarrow>
    (\<exists>c. x = Inr c \<and> k c = (d', Inr y))"
  by (cases x) simp_all

text \<open>The branches of an operation that succeeds.\<close>

lemmas step_iff = err_iff opt_fail_Inr opt_none_Inr sum_fail_Inr

section \<open>Commits\<close>

lemma commit_txE:
  assumes "commit_tx now i b h n d = (d', Inr c)"
  shows "bid_commits d' = bid_commits (SupersedeCommittedBidCommits now i b d) @ [c]"
    and "bc_RFQID c = i \<and> bc_Bidder c = b \<and> bc_Commitment c = h \<and> bc_Nonce c = n
      \<and> bc_Status c = ''committed'' \<and> bc_CreatedAt c = now"
proof -
  have *: "createBidCommitOn now (new_commit i b h n) (SupersedeCommittedBidCommits now i b d) = (d', Inr c)"
    using assms by (auto simp: commit_tx_def err_iff)
  then have "c = commit_row now (new_commit i b h n) (SupersedeCommittedBidCommits now i b d)
      \<and> bid_commits d' = bid_commits (SupersedeCommittedBidCommits now i b d) @ [c]"
    unfolding createBidCommitOn_def Let_def by (elim if_resultE) (clarsimp simp: row_add_def)+
  then show "bid_commits d' = bid_commits (SupersedeCommittedBidCommits now i b d) @ [c]"
    and "bc_RFQID c = i \<and> bc_Bidder c = b \<and> bc_Commitment c = h \<and> bc_Nonce c = n
      \<and> bc_Status c = ''committed'' \<and> bc_CreatedAt c = now"
    by (simp_all add: commit_row_def new_commit_def)
qed

lemma commit_tx_outstanding:
  assumes "commit_tx now i b h n d = (d', Inr c)"
  shows "{q \<in> set (bid_commits d'). outstanding i q \<and> bc_Bidder q = b} = {c}"
proof -
  have "outstanding i c \<and> bc_Bidder c = b"
    using commit_txE(2) [OF assms] by (simp add: outstanding_def)
  then show ?thesis
    using supersede_no_outstanding [of i b now d] unfolding commit_txE(1) [OF assms] no_outstanding_def by auto
qed

definition recent_commits :: "int \<Rightarrow> int \<Rightarrow> string \<Rightarrow> db \<Rightarrow> bid_commit list" where
  "recent_commits now i b d = filter (\<lambda>q. bc_RFQID q = i \<and> bc_Bidder q = b
     \<and> now - commitRateLimitWindowSeconds \<le> bc_CreatedAt q) (bid_commits d)"

lemma first_where_None: "first_where p rows = None \<longleftrightarrow> (\<forall>r \<in> set rows. \<not> p r)"
  by (auto simp: first_where_def find_None_iff)

lemma first_where_Some: "first_where p rows = Some r \<Longrightarrow> r \<in> set rows \<and> p r"
  by (auto simp: first_where_def find_Some_iff)

lemma check_duplicates_None:
  "check_duplicates d i b n h = None \<longleftrightarrow>
     (\<forall>q \<in> set (bid_commits d). \<not> commit_by_nonce i b n q \<and> \<not> commit_by_commitment i b h q)"
proof (cases "first_where (commit_by_nonce i b n) (bid_commits d)")
  case None
  then show ?thesis
    using first_where_None [of "commit_by_nonce i b n" "bid_commits d"]
      first_where_None [of "commit_by_commitment i b h" "bid_commits d"]
    by (cases "first_where (commit_by_commitment i b h) (bid_commits d)")
      (auto simp: check_duplicates_def GetBidCommitByRFQBidderNonce_def GetBidCommitByRFQBidderCommitment_def
        dest: first_where_Some)
next
  case (Some q)
  then show ?thesis
    using first_where_Some [OF Some] by (auto simp: check_duplicates_def GetBidCommitByRFQBidderNonce_def)
qed

lemma activeSealedBidCooldown_None:
  "activeSealedBidCooldown d b now = Inr None \<longleftrightarrow>
     (\<forall>q. row_get dis_Bidder (disciplines d) b = Some q \<longrightarrow> dis_CooldownUntil q \<le> now)"
  by (auto simp: activeSealedBidCooldown_def GetSealedBidderDiscipline_def found_def split: option.split)

lemma commit_tx_error: "commit_tx now i b h n d = (d', Inl e) \<Longrightarrow> d' = d"
  by (auto simp: commit_tx_def err_iff)

lemma CommitBid_error: "CommitBid E p d = (d', Inl e) \<Longrightarrow> d' = d"
  unfolding CommitBid_def Let_def
  by (auto simp: err_iff commit_tx_error split: option.splits if_splits)

lemma CommitBid_ok:
  assumes "CommitBid E p d = (d', Inr c)"
  shows "\<exists>r. GetRFQ d (cbp_RFQID p) = Inr r \<and> check_commit E p r = None
    \<and> length (recent_commits (be_Now E) (cbp_RFQID p) (canonical_address (be_L E) (cbp_Bidder p)) d) < maxCommitRequestsPerMinute
    \<and> check_duplicates d (cbp_RFQID p) (canonical_address (be_L E) (cbp_Bidder p)) (cbp_Nonce p)
        (ToLower (cbp_Commitment p)) = None
    \<and> (rfq_BiddingMode r = ''sealed'' \<longrightarrow>
         activeSealedBidCooldown d (canonical_address (be_L E) (cbp_Bidder p)) (be_Now E) = Inr None)
    \<and> commit_tx (be_Now E) (cbp_RFQID p) (canonical_address (be_L E) (cbp_Bidder p))
        (ToLower (cbp_Commitment p)) (cbp_Nonce p) d = (d', Inr c)"
  using assms unfolding CommitBid_def Let_def
  by (auto simp: err_iff CountRecentBidCommitsByRFQBidder_def recent_commits_def commitRateLimitWindowSeconds_def
      not_le split: option.splits if_splits)

section \<open>Reveals\<close>

lemma reveal_txE:
  assumes "reveal_tx now i b0 d = (d', Inr b)"
  shows "b = bid_row now b0 d \<and> bids d' = bids d @ [b]
    \<and> bid_commits d' = row_upd (revealable i) (reveal_row now (bid_ID b)) (bid_commits d)"
proof -
  obtain d1 where 1: "createBidOn now b0 d = (d1, Inr b)" "UpdateBidCommitReveal now i (bid_ID b) d1 = (d', Inr ())"
    using assms by (auto simp: reveal_tx_def err_iff)
  have 2: "b = bid_row now b0 d \<and> bids d1 = bids d @ [b] \<and> bid_commits d1 = bid_commits d"
    using 1(1) unfolding createBidOn_def Let_def by (elim if_resultE) (clarsimp simp: row_add_def)+
  show ?thesis using reveal_result(1) [OF 1(2)] 2 by simp
qed

lemma check_attestations_None:
  "check_attestations L b now i atts = None \<longleftrightarrow> list_all (\<lambda>a. ValidateAttestation L a b now = None) atts"
  by (induction atts arbitrary: i) (auto split: option.splits)

definition reveal_terms :: "bid_env \<Rightarrow> rfq \<Rightarrow> reveal_bid_params \<Rightarrow> string \<Rightarrow> reveal_bid_params" where
  "reveal_terms E r p ms = (reveal_defaults E r p)\<lparr>rvp_MilestonesJSON := ms\<rparr>"

lemma RevealBid_ok:
  assumes "RevealBid E p d = (d', Inr b)"
  shows "\<exists>r ms c h vr. GetRFQ d (rvp_RFQID p) = Inr r \<and> rfq_Status r = ''open''
    \<and> rfq_CommitDeadline r \<le> be_Now E \<and> be_Now E \<le> rfq_RevealDeadline r
    \<and> check_reveal E p r = None \<and> canonicalMilestonesJSON (rvp_MilestonesJSON p) = Inr ms
    \<and> GetBidCommitByRFQBidderNonce d (rvp_RFQID p) (canonical_address (be_L E) (rvp_Bidder p)) (rvp_Nonce p) = Inr c
    \<and> bc_Status c = ''committed''
    \<and> computeBidCommitment (be_L E) (rvp_RFQID p) (reveal_terms E r p ms) = Inr h \<and> EqualFold h (bc_Commitment c)
    \<and> check_terms (be_Now E) (reveal_terms E r p ms) r = None
    \<and> match_credentials E (reveal_terms E r p ms) r = Inr vr
    \<and> reveal_tx (be_Now E) (bc_ID c) (revealed_bid (reveal_terms E r p ms) vr) d = (d', Inr b)"
proof -
  have sel: "rvp_RFQID (reveal_terms E r p ms) = rvp_RFQID p" "rvp_Nonce (reveal_terms E r p ms) = rvp_Nonce p"
    "rvp_Bidder (reveal_terms E r p ms) = canonical_address (be_L E) (rvp_Bidder p)" for r ms
    by (simp_all add: reveal_terms_def reveal_defaults_def)
  show ?thesis
    using assms unfolding RevealBid_def Let_def reveal_terms_def [symmetric] sel
    by (simp only: step_iff) (auto simp: not_less)
qed

lemma match_credentials_verified:
  assumes "match_credentials E p r = Inr vr"
  shows "\<exists>reqs atts. ParseCredentialRequirements (be_L E) (rfq_RequiredCredentialsJSON r) = Inr reqs
    \<and> ParseAttestations (credentials_json p) = Inr atts
    \<and> (\<forall>a \<in> set atts. attests (be_L E) (be_Now E) (rvp_Bidder p) a)
    \<and> (vr_Verified vr \<longleftrightarrow> (\<forall>q \<in> set reqs. \<exists>a \<in> set atts. satisfies (be_L E) a q))"
proof -
  obtain atts reqs where p: "ParseAttestations (credentials_json p) = Inr atts"
      "check_attestations (be_L E) (rvp_Bidder p) (be_Now E) 0 atts = None"
      "ParseCredentialRequirements (be_L E) (rfq_RequiredCredentialsJSON r) = Inr reqs"
      "vr = MatchRequirements (be_L E) reqs atts"
    using assms by (auto simp: match_credentials_def split: sum.splits option.splits)
  then have "\<forall>a \<in> set atts. attests (be_L E) (be_Now E) (rvp_Bidder p) a"
    by (simp add: check_attestations_None list_all_iff attests_iff)
  moreover have "vr_Verified vr \<longleftrightarrow> (\<forall>q \<in> set reqs. \<exists>a \<in> set atts. satisfies (be_L E) a q)"
    using p(4) by (simp add: Match_fields matchSingle_iff)
  ultimately show ?thesis using p by blast
qed

lemma check_terms_None:
  "check_terms now p r = None \<longleftrightarrow>
     (\<exists>n lo hi b. SetString10 (rvp_Amount p) = Some n \<and> SetString10 (rfq_BudgetMin r) = Some lo
        \<and> SetString10 (rfq_BudgetMax r) = Some hi \<and> SetString10 (rvp_ReputationBond p) = Some b
        \<and> 0 < n \<and> lo \<le> n \<and> n \<le> hi \<and> 0 \<le> b \<and> now < rvp_ExpiresAt p \<and> rvp_ExpiresAt p \<le> rfq_Deadline r)"
  by (auto simp: check_terms_def not_le not_less split: option.splits)

lemma check_reveal_bidder:
  "check_reveal E p r = None \<Longrightarrow> canonical_address (be_L E) (rvp_Bidder p) \<noteq> canonical_address (be_L E) (rfq_Buyer r)"
  by (auto simp: check_reveal_def split: if_splits)

lemma check_commit_None:
  "check_commit E p r = None \<Longrightarrow>
     rfq_Status r = ''open'' \<and> be_Now E < rfq_CommitDeadline r
     \<and> canonical_address (be_L E) (cbp_Bidder p) \<noteq> canonical_address (be_L E) (rfq_Buyer r)
     \<and> (\<exists>bs. DecodeString (drop 2 (cbp_Commitment p)) = Inr bs \<and> length bs = 32)"
  unfolding check_commit_def
  by (auto dest: length_decode split: if_splits sum.splits)

section \<open>Binding\<close>

text \<open>The idealisation of Keccak-256 and its printing: no collisions, and texts of lower-case
  characters other than the separator.\<close>

definition hash_ok :: "eth_lib \<Rightarrow> bool" where
  "hash_ok L \<longleftrightarrow> inj (Keccak256Hash L) \<and> inj (HashHex L)
     \<and> (\<forall>h. ToLower (HashHex L h) = HashHex L h \<and> CHR ''|'' \<notin> set (HashHex L h))
     \<and> (\<forall>a. CHR ''|'' \<notin> set (AddressHex L a))"

lemma hash_hex_inject: "hash_ok L \<Longrightarrow> hash_hex L x = hash_hex L y \<longleftrightarrow> x = y"
  by (auto simp: hash_ok_def hash_hex_def inj_def)

lemma bar_cut: "CHR ''|'' \<notin> set x \<Longrightarrow> CHR ''|'' \<notin> set y \<Longrightarrow>
    x @ CHR ''|'' # r = y @ CHR ''|'' # s \<longleftrightarrow> x = y \<and> r = s"
proof -
  have t: "takeWhile (\<lambda>d. d \<noteq> c) (z @ c # t) = z" if "c \<notin> set z" for c :: char and z t
    using that by (induction z) auto
  assume *: "CHR ''|'' \<notin> set x" "CHR ''|'' \<notin> set y"
  show "x @ CHR ''|'' # r = y @ CHR ''|'' # s \<longleftrightarrow> x = y \<and> r = s"
  proof
    assume "x @ CHR ''|'' # r = y @ CHR ''|'' # s"
    moreover from this have "x = y" using t [OF *(1), of r] t [OF *(2), of s] by simp
    ultimately show "x = y \<and> r = s" by simp
  qed simp
qed

lemma bar_nat_str: "CHR ''|'' \<notin> set (nat_str n) \<and> CHR ''-'' \<notin> set (nat_str n)"
proof (induction n rule: nat_str.induct)
  case (1 n)
  have d: "digit_char k \<noteq> CHR ''|'' \<and> digit_char k \<noteq> CHR ''-''" if "k < 10" for k
    using that by (simp add: digit_char_def char_eq_of_char of_char_of)
  show ?case
    using 1 d [of n] d [of "n mod 10"] by (subst (1 2) nat_str.simps) auto
qed

lemma bar_int_str: "CHR ''|'' \<notin> set (int_str i)"
  using bar_nat_str by (auto simp: int_str_def)

lemma int_str_inject: "int_str i = int_str j \<longleftrightarrow> i = j"
proof
  assume "int_str i = int_str j"
  moreover have "nat_str n \<noteq> CHR ''-'' # s" "CHR ''-'' # s \<noteq> nat_str n" for n s
    using bar_nat_str [of n] by (metis list.set_intros(1))+
  ultimately show "i = j" by (auto simp: int_str_def split: if_splits)
qed simp

lemma bar_ToLower: "CHR ''|'' \<notin> set s \<Longrightarrow> CHR ''|'' \<notin> set (ToLower s)"
proof -
  have "lower_char c = CHR ''|'' \<Longrightarrow> c = CHR ''|''" for c
    by (auto simp: lower_char_def char_eq_of_char of_char_of Let_def split: if_splits)
  then show "CHR ''|'' \<notin> set s \<Longrightarrow> CHR ''|'' \<notin> set (ToLower s)" by (force simp: ToLower_def)
qed

lemma payload_inject:
  assumes L: "hash_ok L"
    and eq: "commitment_payload L i p (int_str a) (int_str b) ms = commitment_payload L j q (int_str a') (int_str b') ms'"
  shows "i = j \<and> ToLower (canonical_address L (rvp_Bidder p)) = ToLower (canonical_address L (rvp_Bidder q))
    \<and> a = a' \<and> rvp_EstimatedDuration p = rvp_EstimatedDuration q \<and> b = b' \<and> ms = ms'
    \<and> rvp_Message p = rvp_Message q \<and> rvp_ExpiresAt p = rvp_ExpiresAt q
    \<and> TrimSpace (rvp_StakeMandateID p) = TrimSpace (rvp_StakeMandateID q)"
proof -
  have h: "CHR ''|'' \<notin> set (hash_hex L x)" "CHR ''|'' \<notin> set (ToLower (AddressHex L y))" for x y
    using L by (simp_all add: hash_ok_def hash_hex_def bar_ToLower)
  show ?thesis
    using eq unfolding commitment_payload_def canonical_address_def
    by (simp add: bar_cut h bar_int_str int_str_inject hash_hex_inject [OF L])
qed

lemma computeBidCommitment_Inr:
  assumes "computeBidCommitment L i p = Inr h"
  shows "\<exists>a b ms. SetString10 (rvp_Amount p) = Some a \<and> SetString10 (rvp_ReputationBond p) = Some b
    \<and> canonicalMilestonesJSON (rvp_MilestonesJSON p) = Inr ms
    \<and> h = hash_hex L (commitment_payload L i p (int_str a) (int_str b) ms)"
  using assms by (auto simp: computeBidCommitment_def canonicalUintString_def split: if_splits sum.splits option.splits)

section \<open>Properties of commits and reveals\<close>

definition sample_commit_params :: commit_bid_params where
  "sample_commit_params = \<lparr>cbp_RFQID = 1, cbp_Bidder = ''0xB4'', cbp_Commitment = ''0x'' @ replicate 64 CHR ''A'',
     cbp_Nonce = ''n''\<rparr>"

text \<open>C8: A bid is committed only before the commit deadline of an open RFQ, by another party than its buyer,
  with a fresh nonce and a fresh 32-byte commitment, below the rate limit and, for a sealed RFQ,
  outside any cooldown; then it is the bidder's only outstanding commit for the RFQ, and no other
  commit but the one it supersedes has changed. A refused commit changes nothing.\<close>

theorem CommitBid_sound:
  assumes "CommitBid E p d = (d', res)"
  shows "case res of
      Inl _ \<Rightarrow> d' = d
    | Inr c \<Rightarrow>
        (let i = cbp_RFQID p; x = canonical_address (be_L E) (cbp_Bidder p); h = ToLower (cbp_Commitment p) in
         (\<exists>r. GetRFQ d i = Inr r \<and> rfq_Status r = ''open'' \<and> be_Now E < rfq_CommitDeadline r
            \<and> x \<noteq> canonical_address (be_L E) (rfq_Buyer r)
            \<and> (rfq_BiddingMode r = ''sealed'' \<longrightarrow>
                 (\<forall>q. row_get dis_Bidder (disciplines d) x = Some q \<longrightarrow> dis_CooldownUntil q \<le> be_Now E)))
         \<and> length (recent_commits (be_Now E) i x d) < 10
         \<and> (\<forall>q \<in> set (bid_commits d). \<not> commit_by_nonce i x (cbp_Nonce p) q \<and> \<not> commit_by_commitment i x h q)
         \<and> bc_Commitment c = h \<and> bc_Nonce c = cbp_Nonce p
         \<and> {q \<in> set (bid_commits d'). outstanding i q \<and> bc_Bidder q = x} = {c}
         \<and> bid_commits d' = bid_commits (SupersedeCommittedBidCommits (be_Now E) i x d) @ [c])"
proof (cases res)
  case (Inl e)
  then show ?thesis using assms CommitBid_error by auto
next
  case (Inr c)
  let ?x = "canonical_address (be_L E) (cbp_Bidder p)"
  obtain r where r: "GetRFQ d (cbp_RFQID p) = Inr r" "check_commit E p r = None"
      "length (recent_commits (be_Now E) (cbp_RFQID p) ?x d) < maxCommitRequestsPerMinute"
      "check_duplicates d (cbp_RFQID p) ?x (cbp_Nonce p) (ToLower (cbp_Commitment p)) = None"
      "rfq_BiddingMode r = ''sealed'' \<longrightarrow> activeSealedBidCooldown d ?x (be_Now E) = Inr None"
    and tx: "commit_tx (be_Now E) (cbp_RFQID p) ?x (ToLower (cbp_Commitment p)) (cbp_Nonce p) d = (d', Inr c)"
    using CommitBid_ok [of E p d d' c] assms Inr by blast
  show ?thesis
    unfolding Inr Let_def sum.case
    using r check_commit_None [OF r(2)] commit_txE [OF tx] commit_tx_outstanding [OF tx]
    unfolding check_duplicates_None activeSealedBidCooldown_None maxCommitRequestsPerMinute_def by blast
qed

theorem CommitBid_sound_witness:
  "{q \<in> set (bid_commits (fst (CommitBid (sample_env 5) sample_commit_params sample_auction))).
      outstanding 1 q \<and> bc_Bidder q = ''0xb4''}
   = {projr (snd (CommitBid (sample_env 5) sample_commit_params sample_auction))}"
proof -
  obtain c where c: "snd (CommitBid (sample_env 5) sample_commit_params sample_auction) = Inr c"
  proof -
    have "\<not> isl (snd (CommitBid (sample_env 5) sample_commit_params sample_auction))" by code_simp
    then show ?thesis using that by (cases "snd (CommitBid (sample_env 5) sample_commit_params sample_auction)") auto
  qed
  then have r: "CommitBid (sample_env 5) sample_commit_params sample_auction
      = (fst (CommitBid (sample_env 5) sample_commit_params sample_auction), Inr c)" by (simp add: prod_eq_iff)
  have "canonical_address (be_L (sample_env 5)) (cbp_Bidder sample_commit_params) = ''0xb4''"
    "cbp_RFQID sample_commit_params = 1"
    by code_simp+
  note eqs = this
  have "{q \<in> set (bid_commits (fst (CommitBid (sample_env 5) sample_commit_params sample_auction))).
      outstanding (cbp_RFQID sample_commit_params) q
      \<and> bc_Bidder q = canonical_address (be_L (sample_env 5)) (cbp_Bidder sample_commit_params)} = {c}"
    using CommitBid_sound [OF r] unfolding Let_def sum.case by (elim conjE)
  then show ?thesis unfolding eqs c sum.sel(2) .
qed

definition sample_reveal :: reveal_bid_params where
  "sample_reveal = \<lparr>rvp_RFQID = 1, rvp_Bidder = ''0xb4'', rvp_Nonce = ''n'', rvp_Salt = ''s'', rvp_Amount = ''4'',
     rvp_EstimatedDuration = 3, rvp_ReputationBond = ''0'', rvp_MilestonesJSON = [], rvp_Message = ''m'',
     rvp_ExpiresAt = 80, rvp_StakeMandateID = [], rvp_CredentialsJSON = []\<rparr>"

text \<open>An environment whose hash function is constant, and a commit to it.\<close>

definition reveal_env :: bid_env where
  "reveal_env = (sample_env 15)\<lparr>be_L := sample_eth\<lparr>Keccak256Hash := (\<lambda>_. []), HashHex := (\<lambda>_. ''0xh'')\<rparr>\<rparr>"

definition sample_committed :: db where
  "sample_committed = sample_auction\<lparr>bid_commits := [\<lparr>bc_ID = 4, bc_RFQID = 1, bc_Bidder = ''0xb4'',
     bc_Commitment = ''0xh'', bc_Nonce = ''n'', bc_Status = ''committed'',
     bc_RevealedBidID = None, bc_CreatedAt = 5, bc_UpdatedAt = 5\<rparr>]\<rparr>"

text \<open>C9: A bid is revealed only in the reveal phase of an open RFQ and for an outstanding commit of the
  bidder whose hash is that of the terms revealed; the stored bid has these terms, an amount within
  the budget and an expiry in the future and within the deadline, the commit is linked to it, and
  the bid counts as verified exactly when each required credential is met by a presented one, all
  of which are current and signed for the bidder.\<close>

theorem RevealBid_sound:
  assumes "RevealBid E p d = (d', Inr b)"
  shows "\<exists>r c ms h n. GetRFQ d (rvp_RFQID p) = Inr r \<and> rfq_Status r = ''open''
    \<and> rfq_CommitDeadline r \<le> be_Now E \<and> be_Now E \<le> rfq_RevealDeadline r
    \<and> bid_Bidder b = canonical_address (be_L E) (rvp_Bidder p)
    \<and> bid_Bidder b \<noteq> canonical_address (be_L E) (rfq_Buyer r)
    \<and> c \<in> set (bid_commits d) \<and> commit_by_nonce (rvp_RFQID p) (bid_Bidder b) (rvp_Nonce p) c
    \<and> bc_Status c = ''committed''
    \<and> computeBidCommitment (be_L E) (rvp_RFQID p) (reveal_terms E r p ms) = Inr h \<and> EqualFold h (bc_Commitment c)
    \<and> bid_Amount b = rvp_Amount p \<and> bid_EstimatedDuration b = rvp_EstimatedDuration p
    \<and> bid_MilestonesJSON b = ms \<and> bid_Message b = rvp_Message p \<and> bid_Status b = ''pending''
    \<and> SetString10 (bid_Amount b) = Some n \<and> 0 < n \<and> the (SetString10 (rfq_BudgetMin r)) \<le> n
    \<and> n \<le> the (SetString10 (rfq_BudgetMax r))
    \<and> be_Now E < bid_ExpiresAt b \<and> bid_ExpiresAt b \<le> rfq_Deadline r
    \<and> bids d' = bids d @ [b]
    \<and> bid_commits d' = row_upd (revealable (bc_ID c)) (reveal_row (be_Now E) (bid_ID b)) (bid_commits d)
    \<and> (\<exists>reqs atts. ParseCredentialRequirements (be_L E) (rfq_RequiredCredentialsJSON r) = Inr reqs
         \<and> (\<forall>a \<in> set atts. attests (be_L E) (be_Now E) (bid_Bidder b) a)
         \<and> (bid_CredentialVerified b \<longleftrightarrow> (\<forall>q \<in> set reqs. \<exists>a \<in> set atts. satisfies (be_L E) a q)))"
proof -
  obtain r ms c h vr where k: "GetRFQ d (rvp_RFQID p) = Inr r" "rfq_Status r = ''open''"
    "rfq_CommitDeadline r \<le> be_Now E" "be_Now E \<le> rfq_RevealDeadline r" "check_reveal E p r = None"
    "canonicalMilestonesJSON (rvp_MilestonesJSON p) = Inr ms"
    "GetBidCommitByRFQBidderNonce d (rvp_RFQID p) (canonical_address (be_L E) (rvp_Bidder p)) (rvp_Nonce p) = Inr c"
    "bc_Status c = ''committed''"
    "computeBidCommitment (be_L E) (rvp_RFQID p) (reveal_terms E r p ms) = Inr h" "EqualFold h (bc_Commitment c)"
    "check_terms (be_Now E) (reveal_terms E r p ms) r = None"
    "match_credentials E (reveal_terms E r p ms) r = Inr vr"
    "reveal_tx (be_Now E) (bc_ID c) (revealed_bid (reveal_terms E r p ms) vr) d = (d', Inr b)"
    using RevealBid_ok [OF assms] by blast
  have c: "c \<in> set (bid_commits d)"
      "commit_by_nonce (rvp_RFQID p) (canonical_address (be_L E) (rvp_Bidder p)) (rvp_Nonce p) c"
    using k(7) by (auto simp: GetBidCommitByRFQBidderNonce_def dest: first_where_Some)
  have b: "b = bid_row (be_Now E) (revealed_bid (reveal_terms E r p ms) vr) d" "bids d' = bids d @ [b]"
      "bid_commits d' = row_upd (revealable (bc_ID c)) (reveal_row (be_Now E) (bid_ID b)) (bid_commits d)"
    using reveal_txE [OF k(13)] by blast+
  have f: "bid_Bidder b = canonical_address (be_L E) (rvp_Bidder p)" "bid_Amount b = rvp_Amount p"
      "bid_EstimatedDuration b = rvp_EstimatedDuration p" "bid_MilestonesJSON b = ms"
      "bid_Message b = rvp_Message p" "bid_Status b = ''pending''"
      "bid_ExpiresAt b = rvp_ExpiresAt (reveal_terms E r p ms)" "bid_CredentialVerified b = vr_Verified vr"
      "rvp_Amount (reveal_terms E r p ms) = rvp_Amount p"
      "rvp_Bidder (reveal_terms E r p ms) = canonical_address (be_L E) (rvp_Bidder p)"
    unfolding b(1) by (simp_all add: bid_row_def revealed_bid_def reveal_terms_def reveal_defaults_def)
  obtain n where n: "SetString10 (rvp_Amount p) = Some n" "0 < n" "the (SetString10 (rfq_BudgetMin r)) \<le> n"
      "n \<le> the (SetString10 (rfq_BudgetMax r))" "be_Now E < bid_ExpiresAt b" "bid_ExpiresAt b \<le> rfq_Deadline r"
    using k(11) f by (auto simp: check_terms_None)
  show ?thesis
    using k c b(2,3) f n check_reveal_bidder [OF k(5)] match_credentials_verified [OF k(12)]
    by (intro exI [of _ r] exI [of _ c] exI [of _ ms] exI [of _ h] exI [of _ n]) (simp; blast)
qed

theorem RevealBid_sound_witness:
  "\<exists>r. GetRFQ sample_committed 1 = Inr r
     \<and> bids (fst (RevealBid reveal_env sample_reveal sample_committed))
         = bids sample_committed @ [projr (snd (RevealBid reveal_env sample_reveal sample_committed))]"
proof -
  have "\<not> isl (snd (RevealBid reveal_env sample_reveal sample_committed))" by code_simp
  then obtain b where b: "snd (RevealBid reveal_env sample_reveal sample_committed) = Inr b"
    by (metis sum.collapse(2))
  then have "RevealBid reveal_env sample_reveal sample_committed
      = (fst (RevealBid reveal_env sample_reveal sample_committed), Inr b)" by (simp add: prod_eq_iff)
  from RevealBid_sound [OF this] show ?thesis using b by (auto simp: sample_reveal_def)
qed

text \<open>A commitment binds: if Keccak-256 had no collisions, two sets of terms that open the same
  commitment agree on the RFQ, the bidder, the amount, the duration, the bond, the milestones, the
  message, the expiry and the stake mandate; only nonce and salt are left open.\<close>

theorem commitment_binding:
  assumes "hash_ok L" and "computeBidCommitment L i p = Inr h" and "computeBidCommitment L j q = Inr h'"
    and "EqualFold h commitment" and "EqualFold h' commitment"
  shows "i = j \<and> ToLower (canonical_address L (rvp_Bidder p)) = ToLower (canonical_address L (rvp_Bidder q))
    \<and> SetString10 (rvp_Amount p) = SetString10 (rvp_Amount q)
    \<and> rvp_EstimatedDuration p = rvp_EstimatedDuration q
    \<and> SetString10 (rvp_ReputationBond p) = SetString10 (rvp_ReputationBond q)
    \<and> canonicalMilestonesJSON (rvp_MilestonesJSON p) = canonicalMilestonesJSON (rvp_MilestonesJSON q)
    \<and> rvp_Message p = rvp_Message q \<and> rvp_ExpiresAt p = rvp_ExpiresAt q
    \<and> TrimSpace (rvp_StakeMandateID p) = TrimSpace (rvp_StakeMandateID q)"
proof -
  obtain a b ms where p: "SetString10 (rvp_Amount p) = Some a" "SetString10 (rvp_ReputationBond p) = Some b"
      "canonicalMilestonesJSON (rvp_MilestonesJSON p) = Inr ms"
      "h = hash_hex L (commitment_payload L i p (int_str a) (int_str b) ms)"
    using computeBidCommitment_Inr [OF assms(2)] by blast
  obtain a' b' ms' where q: "SetString10 (rvp_Amount q) = Some a'" "SetString10 (rvp_ReputationBond q) = Some b'"
      "canonicalMilestonesJSON (rvp_MilestonesJSON q) = Inr ms'"
      "h' = hash_hex L (commitment_payload L j q (int_str a') (int_str b') ms')"
    using computeBidCommitment_Inr [OF assms(3)] by blast
  have "EqualFold h h'" using assms(4,5) EqualFold_sym EqualFold_trans by blast
  then have "h = h'" using assms(1) p(4) q(4) by (simp add: EqualFold_def hash_hex_def hash_ok_def)
  then have "commitment_payload L i p (int_str a) (int_str b) ms = commitment_payload L j q (int_str a') (int_str b') ms'"
    using p(4) q(4) hash_hex_inject [OF assms(1)] by blast
  from payload_inject [OF assms(1) this] show ?thesis using p q by simp
qed

definition sample_hash :: eth_lib where
  "sample_hash = sample_eth\<lparr>HashHex := EncodeToString, AddressHex := EncodeToString\<rparr>"

lemma sample_hash_ok: "hash_ok sample_hash"
proof -
  have "text_of (bytes_of s) = s" for s
    by (induction s) (simp_all add: text_of_def bytes_of_def unat_of_nat)
  then have "inj bytes_of" by (metis injI)
  moreover have "inj EncodeToString" by (metis decode_encode injI sum.inject(2))
  moreover have d: "lower_char (hex_digit_char n) = hex_digit_char n \<and> CHR ''|'' \<noteq> hex_digit_char n" if "n < 16" for n
  proof -
    define m where "m = (if n < 10 then 48 + n else 87 + n)"
    have c: "hex_digit_char n = char_of m" "m < 256" "\<not> (65 \<le> m \<and> m \<le> 90)" "m \<noteq> 124"
      using that by (simp_all add: m_def hex_digit_char_def)
    moreover have "(of_char (char_of m :: char) :: nat) = m" using c(2) by (simp add: of_char_of)
    moreover have "(of_char (CHR ''|'') :: nat) = 124" by simp
    ultimately show ?thesis unfolding lower_char_def Let_def by (metis (no_types, lifting))
  qed
  have u: "unat b div 16 < 16" "unat b mod 16 < 16" for b :: byte
    using unsigned_less [of b, where ?'a = nat] by (simp_all add: less_mult_imp_div_less)
  have "ToLower (EncodeToString bs) = EncodeToString bs \<and> CHR ''|'' \<notin> set (EncodeToString bs)" for bs
    by (induction bs) (simp_all add: ToLower_def d u)
  moreover have "Keccak256Hash sample_eth = bytes_of" by (simp add: sample_eth_def)
  ultimately show ?thesis by (simp add: hash_ok_def sample_hash_def del: sample_eth_sel)
qed

theorem commitment_binding_witness:
  "SetString10 (rvp_Amount sample_reveal) = SetString10 (rvp_Amount (sample_reveal\<lparr>rvp_Amount := ''04''\<rparr>))"
proof -
  let ?q = "sample_reveal\<lparr>rvp_Amount := ''04''\<rparr>"
  have "canonicalUintString ''04'' ''amount'' False = Inr ''4''" "canonicalUintString ''4'' ''amount'' False = Inr ''4''"
    "canonicalUintString ''0'' ''reputation_bond'' True = Inr ''0''" "\<not> blank ''n''" "\<not> blank ''s''"
    "HasPrefix ''0xb4'' ''0x''"
    by code_simp+
  then have "\<not> isl (computeBidCommitment sample_hash 1 sample_reveal)"
    "computeBidCommitment sample_hash 1 ?q = computeBidCommitment sample_hash 1 sample_reveal"
    by (simp_all add: computeBidCommitment_def commitment_payload_def sample_reveal_def sample_hash_def
        canonicalMilestonesJSON_def)
  then obtain h where h: "computeBidCommitment sample_hash 1 sample_reveal = Inr h" "computeBidCommitment sample_hash 1 ?q = Inr h"
    by (metis sum.collapse(2))
  show ?thesis using commitment_binding [OF sample_hash_ok h EqualFold_refl EqualFold_refl] by blast
qed

end
