(* ===== verification/BidAccept.thy ===== *)
theory BidAccept
  imports BidProps
begin

text \<open>
  Accepting a bid: who may accept what, the state it leaves (one accepted bid, no open bid or commit,
  a closed RFQ, the escrow of the bid), and that it happens at most once per RFQ.
\<close>

section \<open>Frames\<close>

lemma frame_bids [simp]:
  "bids (fst (createTaskOn now t desc h d)) = bids d" "rfqs (fst (createTaskOn now t desc h d)) = rfqs d"
  "escrows (fst (createTaskOn now t desc h d)) = escrows d"
  "bids (fst (createEscrowOn now e0 d)) = bids d" "rfqs (fst (createEscrowOn now e0 d)) = rfqs d"
  "bids (fst (createMilestoneOn now m d)) = bids d" "rfqs (fst (createMilestoneOn now m d)) = rfqs d"
  "escrows (fst (createMilestoneOn now m d)) = escrows d"
  "rfqs (fst (acceptBidOn now i e d)) = rfqs d" "escrows (fst (acceptBidOn now i e d)) = escrows d"
  "bids (fst (UpdateRFQStatus now i s d)) = bids d" "escrows (fst (UpdateRFQStatus now i s d)) = escrows d"
  by (simp_all add: createTaskOn_def createEscrowOn_def createMilestoneOn_def acceptBidOn_def
      UpdateRFQStatus_def Let_def)

lemma frame_bids2 [simp]:
  "rfqs (RejectPendingBids now i j d) = rfqs d" "escrows (RejectPendingBids now i j d) = escrows d"
  "bids (UpdateBidCommitStatusByRevealedBid now i s d) = bids d"
  "rfqs (UpdateBidCommitStatusByRevealedBid now i s d) = rfqs d"
  "escrows (UpdateBidCommitStatusByRevealedBid now i s d) = escrows d"
  "bids (RejectUnacceptedBidCommits now i j d) = bids d"
  "rfqs (RejectUnacceptedBidCommits now i j d) = rfqs d"
  "escrows (RejectUnacceptedBidCommits now i j d) = escrows d"
  by (simp_all add: RejectPendingBids_def UpdateBidCommitStatusByRevealedBid_def RejectUnacceptedBidCommits_def
      set_commit_status_def)

lemma milestones_frame [simp]:
  "bids (fst (create_milestones now e i ms d)) = bids d" "rfqs (fst (create_milestones now e i ms d)) = rfqs d"
  "escrows (fst (create_milestones now e i ms d)) = escrows d"
  by (rule create_milestones_frame, simp)+

section \<open>The state after an acceptance\<close>

definition accepted_row :: "int \<Rightarrow> int \<Rightarrow> bid \<Rightarrow> bid" where
  "accepted_row now e b = b\<lparr>bid_Status := ''accepted'', bid_EscrowID := Some e, bid_UpdatedAt := now\<rparr>"

lemma acceptBidOn_ok:
  assumes "acceptBidOn now i e d = (d', Inr ())"
  shows "bids d' = row_upd (acceptable i) (accepted_row now e) (bids d)"
proof -
  have "accepted_row now e = (\<lambda>b. b\<lparr>bid_Status := ''accepted'', bid_EscrowID := Some e, bid_UpdatedAt := now\<rparr>)"
    by (simp add: accepted_row_def fun_eq_iff)
  then show ?thesis using assms unfolding acceptBidOn_def by (elim if_resultE) (clarsimp)+
qed

definition all_settled :: "int \<Rightarrow> int \<Rightarrow> db \<Rightarrow> bool" where
  "all_settled i k d \<longleftrightarrow>
     (\<forall>b \<in> set (bids d). bid_RFQID b = i \<longrightarrow> bid_Status b \<noteq> ''pending'')
     \<and> (\<forall>c \<in> set (bid_commits d). bc_RFQID c = i \<longrightarrow> bc_Status c \<notin> {''committed'', ''revealed''})"

lemma settle_bids:
  assumes "bids d = row_upd (acceptable k) (accepted_row now e) bs"
  shows "\<forall>b \<in> set (bids (RejectPendingBids now i k d)). bid_RFQID b = i \<longrightarrow> bid_Status b \<noteq> ''pending''"
proof -
  define f where "f b = (if acceptable k b then accepted_row now e b else b)" for b
  define g where "g b = (if bid_RFQID b = i \<and> bid_ID b \<noteq> k \<and> bid_Status b = ''pending''
      then b\<lparr>bid_Status := ''rejected'', bid_UpdatedAt := now\<rparr> else b)" for b :: bid
  have "bid_RFQID (g (f b)) = i \<longrightarrow> bid_Status (g (f b)) \<noteq> ''pending''" for b
    by (cases "bid_ID b = k"; cases "bid_Status b = ''pending''")
      (simp_all add: f_def g_def acceptable_def accepted_row_def)
  moreover have "bids (RejectPendingBids now i k d) = map (g \<circ> f) bs"
    using assms by (simp add: RejectPendingBids_def row_upd_def f_def g_def fun_eq_iff)
  ultimately show ?thesis by simp
qed

lemma settle_commits:
  "\<forall>c \<in> set (bid_commits (RejectUnacceptedBidCommits now i k
      (UpdateBidCommitStatusByRevealedBid now k ''accepted'' d))).
     bc_RFQID c = i \<longrightarrow> bc_Status c \<notin> {''committed'', ''revealed''}"
proof -
  define f where "f c = (if bc_RevealedBidID c = Some k
      then c\<lparr>bc_Status := ''accepted'', bc_UpdatedAt := now\<rparr> else c)" for c :: bid_commit
  define g where "g c = (if bc_RFQID c = i \<and> bc_Status c \<in> {''committed'', ''revealed''} \<and> bc_RevealedBidID c \<noteq> Some k
      then c\<lparr>bc_Status := ''rejected'', bc_UpdatedAt := now\<rparr> else c)" for c :: bid_commit
  have "bc_RFQID (g (f c)) = i \<longrightarrow> bc_Status (g (f c)) \<notin> {''committed'', ''revealed''}" for c
    by (simp add: f_def g_def)
  moreover have "bid_commits (RejectUnacceptedBidCommits now i k
      (UpdateBidCommitStatusByRevealedBid now k ''accepted'' d)) = map (g \<circ> f) (bid_commits d)"
    by (simp add: RejectUnacceptedBidCommits_def UpdateBidCommitStatusByRevealedBid_def set_commit_status_def
        row_upd_def f_def g_def fun_eq_iff)
  ultimately show ?thesis by simp
qed

lemma settle_row:
  assumes "row_get bid_ID bs k = Some b" "bid_Status b = ''pending''"
    "bids d = row_upd (acceptable k) (accepted_row now e) bs"
  shows "row_get bid_ID (bids (RejectPendingBids now i k d)) k = Some (accepted_row now e b)"
proof -
  have "bid_ID b = k" using row_get_Some [OF assms(1)] by simp
  then show ?thesis
    using assms by (simp add: RejectPendingBids_def row_get_upd accepted_row_def acceptable_def)
qed

lemma closed_row:
  assumes "UpdateRFQStatus now i ''closed'' d = (d', Inr ())" "row_get rfq_ID (rfqs d) i = Some r"
  shows "row_get rfq_ID (rfqs d') i = Some (r\<lparr>rfq_Status := ''closed'', rfq_UpdatedAt := now\<rparr>)"
proof -
  have "rfqs d' = row_upd (\<lambda>r. rfq_ID r = i) (\<lambda>r. r\<lparr>rfq_Status := ''closed'', rfq_UpdatedAt := now\<rparr>) (rfqs d)"
    using assms(1) unfolding UpdateRFQStatus_def by (elim if_resultE) (clarsimp)+
  then show ?thesis using assms(2) row_get_Some [OF assms(2)] by (simp add: row_get_upd)
qed

lemma created_escrow:
  assumes "createEscrowOn now e0 d = (d', Inr e)"
  shows "e = escrow_row now e0 d \<and> row_get esc_ID (escrows d') (esc_ID e) = Some e"
proof -
  have "e = escrow_row now e0 d \<and> escrows d' = row_add e (escrows d)"
    using assms unfolding createEscrowOn_def Let_def by (elim if_resultE) (clarsimp)+
  moreover have "esc_ID (escrow_row now e0 d) = next_id esc_ID (escrows d)"
    by (simp add: escrow_row_def Let_def)
  ultimately show ?thesis using row_get_add_new [of esc_ID e "escrows d"] by simp
qed

lemma accept_tx_state:
  assumes tx: "accept_tx E r b stake res ms d = (d', Inr (t, e))"
    and r: "row_get rfq_ID (rfqs d) (rfq_ID r) = Some r"
    and b: "row_get bid_ID (bids d) (bid_ID b) = Some b" "bid_Status b = ''pending''"
  shows "row_get rfq_ID (rfqs d') (rfq_ID r) = Some (r\<lparr>rfq_Status := ''closed'', rfq_UpdatedAt := be_Now E\<rparr>)"
    and "row_get bid_ID (bids d') (bid_ID b) = Some (accepted_row (be_Now E) (esc_ID e) b)"
    and "all_settled (rfq_ID r) (bid_ID b) d'"
    and "row_get esc_ID (escrows d') (esc_ID e) = Some e"
    and "esc_Status e = ''created'' \<and> esc_Buyer e = rfq_Buyer r \<and> esc_Worker e = bid_Bidder b
       \<and> esc_Amount e = bid_Amount b \<and> esc_SubmissionDeadline e = rfq_Deadline r
       \<and> esc_ParentEscrowID e = rfq_ParentEscrowID r \<and> esc_EscrowID e = cer_EscrowID res
       \<and> esc_WorkerStake e = int_str stake"
proof -
  obtain d1 d2 d3 d4 d5 where s:
    "createTaskOn (be_Now E) (rfq_Title r) (rfq_Description r)
        (hash_hex (be_L E) (rfq_Title r @ rfq_Description r)) d = (d1, Inr t)"
    "createEscrowOn (be_Now E) (escrow_record E r b (tsk_ID t) stake res ms) d1 = (d2, Inr e)"
    "create_milestones (be_Now E) (esc_ID e) 0 ms d2 = (d3, Inr ())"
    "acceptBidOn (be_Now E) (bid_ID b) (esc_ID e) d3 = (d4, Inr ())"
    "UpdateRFQStatus (be_Now E) (rfq_ID r) ''closed'' d4 = (d5, Inr ())"
    "d' = RejectUnacceptedBidCommits (be_Now E) (rfq_ID r) (bid_ID b)
            (UpdateBidCommitStatusByRevealedBid (be_Now E) (bid_ID b) ''accepted''
               (RejectPendingBids (be_Now E) (rfq_ID r) (bid_ID b) d5))"
    using accept_txE [OF tx] by metis
  have 1: "bids d1 = bids d" "rfqs d1 = rfqs d" using s(1) frame_bids(1,2) by (metis fst_conv)+
  have 2: "bids d2 = bids d1" "rfqs d2 = rfqs d1" using s(2) frame_bids(4,5) by (metis fst_conv)+
  have 3: "bids d3 = bids d2" "rfqs d3 = rfqs d2" "escrows d3 = escrows d2"
    using s(3) milestones_frame by (metis fst_conv)+
  have 4: "rfqs d4 = rfqs d3" "escrows d4 = escrows d3" using s(4) frame_bids(9,10) by (metis fst_conv)+
  have 5: "bids d5 = bids d4" "escrows d5 = escrows d4" using s(5) frame_bids(11,12) by (metis fst_conv)+
  have b5: "bids d5 = row_upd (acceptable (bid_ID b)) (accepted_row (be_Now E) (esc_ID e)) (bids d)"
    using acceptBidOn_ok [OF s(4)] 1 2 3 5 by simp
  show "row_get rfq_ID (rfqs d') (rfq_ID r) = Some (r\<lparr>rfq_Status := ''closed'', rfq_UpdatedAt := be_Now E\<rparr>)"
    using closed_row [OF s(5)] r 1 2 3 4 by (simp add: s(6))
  show "row_get bid_ID (bids d') (bid_ID b) = Some (accepted_row (be_Now E) (esc_ID e) b)"
    using settle_row [OF b b5] by (simp add: s(6))
  show "all_settled (rfq_ID r) (bid_ID b) d'"
    unfolding all_settled_def s(6) frame_bids2 using settle_bids [OF b5] settle_commits by blast
  show "row_get esc_ID (escrows d') (esc_ID e) = Some e"
    unfolding s(6) frame_bids2 5(2) 4(2) 3(3) using created_escrow [OF s(2)] by (rule conjunct2)
  show "esc_Status e = ''created'' \<and> esc_Buyer e = rfq_Buyer r \<and> esc_Worker e = bid_Bidder b
       \<and> esc_Amount e = bid_Amount b \<and> esc_SubmissionDeadline e = rfq_Deadline r
       \<and> esc_ParentEscrowID e = rfq_ParentEscrowID r \<and> esc_EscrowID e = cer_EscrowID res
       \<and> esc_WorkerStake e = int_str stake"
    using created_escrow [OF s(2)] by (simp add: escrow_row_def escrow_record_def Let_def)
qed

section \<open>The checks\<close>

lemma accept_checked_ok:
  assumes "accept_checked E p summary r d = (d', Inr (b, t, e, tx))"
  shows "\<not> (rfq_BiddingMode r = ''sealed'' \<and> be_Now E \<le> rfq_RevealDeadline r) \<and> be_Now E < rfq_Deadline r
    \<and> abp_Caller p \<noteq> [] \<and> abp_Caller p = rfq_Buyer r
    \<and> GetBid d (abp_BidID p) = Inr b \<and> check_acceptance E p summary r b d = None
    \<and> (\<exists>amount stake parent ms params res.
         SetString10 (bid_Amount b) = Some amount \<and> rfq_stake r = Inr stake
         \<and> parent_address (be_L E) r d = Inr parent \<and> accepted_milestones r b = Inr ms
         \<and> escrow_params (be_L E) r b amount stake parent ms = Inr params
         \<and> node_CreateEscrow (be_Node E) (HexToAddress (be_L E) (be_FactoryAddress E)) params = Inr tx
         \<and> WaitMinedAndParseEscrow (be_L E) (be_Node E) tx = Inr res
         \<and> accept_tx E r b stake res ms d = (d', Inr (t, e)))"
proof -
  have *: "(case x of (t', e') \<Rightarrow> (d1, Inr (b', t', e', tx'))) = (d', Inr (b, t, e, tx))
      \<longleftrightarrow> d1 = d' \<and> b' = b \<and> x = (t, e) \<and> tx' = tx" for x d1 b' tx'
    by (cases x) auto
  show ?thesis
    using assms unfolding accept_checked_def
    by (simp only: step_iff *) (auto simp: not_le)
qed

lemma check_acceptance_None:
  assumes "check_acceptance E p summary r b d = None"
  shows "bid_RFQID b = abp_RFQID p \<and> bid_Status b = ''pending'' \<and> be_Now E < bid_ExpiresAt b
    \<and> (\<forall>s. summary = Some s \<longrightarrow> sbs_BestBidID s = Some (bid_ID b))
    \<and> (rfq_requires E r \<longrightarrow> bid_CredentialVerified b)
    \<and> (\<exists>c. linked_commit d b = Some c \<and> bc_Status c = ''revealed'')"
  using assms unfolding check_acceptance_def
  by (auto simp: check_best_def rfq_requires_def linked_commit_def GetBidCommitByRevealedBidID_def not_le
      split: if_splits option.splits sum.splits)

definition finalized_first :: "bid_env \<Rightarrow> int \<Rightarrow> rfq \<Rightarrow> db \<Rightarrow> db" where
  "finalized_first E i r d =
     (if rfq_BiddingMode r = ''sealed'' \<and> rfq_RevealDeadline r < be_Now E
      then fst (FinalizeSealedBidding E i d) else d)"

lemma AcceptBidCommitted_ok:
  assumes "AcceptBidCommitted E p d = (d', Inr (b, t, e, tx))"
  shows "\<exists>r r1 summary. GetRFQ d (abp_RFQID p) = Inr r \<and> rfq_Status r = ''open''
    \<and> GetRFQ (finalized_first E (abp_RFQID p) r d) (abp_RFQID p) = Inr r1
    \<and> accept_checked E p summary r1 (finalized_first E (abp_RFQID p) r d) = (d', Inr (b, t, e, tx))
    \<and> (if rfq_BiddingMode r = ''sealed'' \<and> rfq_RevealDeadline r < be_Now E
       then \<exists>s. summary = Some s \<and> snd (FinalizeSealedBidding E (abp_RFQID p) d) = Inr s
       else summary = None \<and> r1 = r)"
proof -
  obtain r where r: "GetRFQ d (abp_RFQID p) = Inr r" "rfq_Status r = ''open''"
    and body: "(if rfq_BiddingMode r = ''sealed'' \<and> be_Now E > rfq_RevealDeadline r
       then andThen (FinalizeSealedBidding E (abp_RFQID p) d) (\<lambda>d1 summary.
         orFail d1 (wrap ''rfq not found after finalization'') (GetRFQ d1 (abp_RFQID p)) (\<lambda>r1.
           accept_checked E p (Some summary) r1 d1))
       else accept_checked E p None r d) = (d', Inr (b, t, e, tx))"
    using assms unfolding AcceptBidCommitted_def by (auto simp: err_iff)
  show ?thesis
  proof (cases "rfq_BiddingMode r = ''sealed'' \<and> rfq_RevealDeadline r < be_Now E")
    case True
    have "andThen (FinalizeSealedBidding E (abp_RFQID p) d) (\<lambda>d1 summary.
         orFail d1 (wrap ''rfq not found after finalization'') (GetRFQ d1 (abp_RFQID p)) (\<lambda>r1.
           accept_checked E p (Some summary) r1 d1)) = (d', Inr (b, t, e, tx))"
      using body unfolding if_P [OF True] .
    then obtain d1 s r1 where *: "FinalizeSealedBidding E (abp_RFQID p) d = (d1, Inr s)" "GetRFQ d1 (abp_RFQID p) = Inr r1"
        "accept_checked E p (Some s) r1 d1 = (d', Inr (b, t, e, tx))"
      by (simp only: step_iff) blast
    have f: "finalized_first E (abp_RFQID p) r d = d1"
      unfolding finalized_first_def if_P [OF True] by (simp only: *(1) fst_conv)
    show ?thesis unfolding if_P [OF True]
      by (rule exI [of _ r], rule exI [of _ r1], rule exI [of _ "Some s"])
        (simp only: if_P [OF True] r f * snd_conv option.inject sum.inject simp_thms ex_simps)
  next
    case False
    have f: "finalized_first E (abp_RFQID p) r d = d" unfolding finalized_first_def by (rule if_not_P [OF False])
    have "accept_checked E p None r d = (d', Inr (b, t, e, tx))" using body unfolding if_not_P [OF False] .
    then show ?thesis
      by (intro exI [of _ r] exI [of _ None]) (simp only: if_not_P [OF False] r f simp_thms)
  qed
qed

lemma closed_rejects:
  assumes "GetRFQ d (abp_RFQID p) = Inr r" "rfq_Status r = ''closed''"
  shows "\<exists>err. AcceptBidCommitted E p d = (d, Inl err)"
  using assms by (simp add: AcceptBidCommitted_def)

lemma finalized_first_found:
  assumes "GetRFQ d i = Inr r" "rfq_Status r = ''open''"
    and "GetRFQ (finalized_first E i r d) i = Inr r1"
    and "if rfq_BiddingMode r = ''sealed'' \<and> rfq_RevealDeadline r < be_Now E
         then \<exists>s. summary = Some s \<and> snd (FinalizeSealedBidding E i d) = Inr s
         else summary = None \<and> r1 = r"
  shows "bids (finalized_first E i r d) = bids d"
    and "rfq_Buyer r1 = rfq_Buyer r \<and> rfq_Deadline r1 = rfq_Deadline r \<and> rfq_BiddingMode r1 = rfq_BiddingMode r
         \<and> rfq_RequiredCredentialsJSON r1 = rfq_RequiredCredentialsJSON r"
    and "\<forall>s. summary = Some s \<longrightarrow> sbs_BestBidID s = rfq_BestBidID r1"
proof -
  have "bids (finalized_first E i r d) = bids d
    \<and> rfq_Buyer r1 = rfq_Buyer r \<and> rfq_Deadline r1 = rfq_Deadline r \<and> rfq_BiddingMode r1 = rfq_BiddingMode r
    \<and> rfq_RequiredCredentialsJSON r1 = rfq_RequiredCredentialsJSON r
    \<and> (\<forall>s. summary = Some s \<longrightarrow> sbs_BestBidID s = rfq_BestBidID r1)"
  proof (cases "rfq_BiddingMode r = ''sealed'' \<and> rfq_RevealDeadline r < be_Now E")
    case False
    have "finalized_first E i r d = d" unfolding finalized_first_def by (rule if_not_P [OF False])
    moreover have "summary = None \<and> r1 = r" using assms(4) unfolding if_not_P [OF False] .
    ultimately show ?thesis by simp
  next
    case True
    obtain s where s: "summary = Some s" "snd (FinalizeSealedBidding E i d) = Inr s"
      using assms(4) unfolding if_P [OF True] by blast
    define d1 where "d1 = fst (FinalizeSealedBidding E i d)"
    have f: "FinalizeSealedBidding E i d = (d1, Inr s)" using s(2) by (simp add: prod_eq_iff d1_def)
    have d1: "finalized_first E i r d = d1" unfolding finalized_first_def if_P [OF True] d1_def ..
    show ?thesis
    proof (cases "due E r")
      case True
      obtain cs m where c: "d1 = (ExpireCommittedBidCommits (be_Now E) i (strike_bidders (be_Now E) m d))
             \<lparr>rfqs := row_upd (\<lambda>r. rfq_ID r = i) (\<lambda>q. (finalize_update E q cs)\<lparr>rfq_UpdatedAt := be_Now E\<rparr>) (rfqs d)\<rparr>"
          "s = buildSealedBidSummary (finalize_update E r cs) (map (\<lambda>c. bid_ID (cand_bid c)) cs)
            (length (ListCommittedBidCommitsByRFQ d i))"
        using finalize_due [OF f assms(1) True] by blast
      have "r1 = (finalize_update E r cs)\<lparr>rfq_UpdatedAt := be_Now E\<rparr>"
        using GetRFQ_finalized [OF assms(1) c(1)] assms(3) d1 by simp
      moreover have "bids d1 = bids d" by (simp add: c(1))
      ultimately show ?thesis
        by (simp add: d1 s(1) c(2) finalize_update_def buildSealedBidSummary_def)
    next
      case False
      then have "finalized_status (rfq_SealedBidStatus r)" "d1 = d"
        using \<open>rfq_BiddingMode r = ''sealed'' \<and> rfq_RevealDeadline r < be_Now E\<close> assms(2)
          finalize_not_due [OF assms(1) False] by (auto simp: due_def d1_def)
      then have "s = buildSealedBidSummary r [] 0" "r1 = r"
        using finalize_again [OF assms(1), of E] f assms(1,3) d1 by auto
      then show ?thesis using \<open>d1 = d\<close> by (simp add: d1 s(1) buildSealedBidSummary_def)
    qed
  qed
  then show "bids (finalized_first E i r d) = bids d"
    and "rfq_Buyer r1 = rfq_Buyer r \<and> rfq_Deadline r1 = rfq_Deadline r \<and> rfq_BiddingMode r1 = rfq_BiddingMode r
         \<and> rfq_RequiredCredentialsJSON r1 = rfq_RequiredCredentialsJSON r"
    and "\<forall>s. summary = Some s \<longrightarrow> sbs_BestBidID s = rfq_BestBidID r1"
    by blast+
qed

section \<open>Property\<close>

text \<open>C11: A bid is accepted only by the buyer of an open RFQ, before its deadline, while the bid is pending
  and unexpired, has its required credentials verified and, for a sealed RFQ, after the reveal phase
  as the best bid that finalization fixed. Afterwards the RFQ is closed and keeps that best bid, the
  bid is accepted with the new escrow between buyer and bidder over its amount, no bid of the RFQ is
  pending, no commit of it committed or revealed, and every later acceptance for the RFQ fails and
  changes nothing.\<close>

theorem AcceptBid_sound:
  assumes "AcceptBidCommitted E p d = (d', Inr (b, t, e, tx))"
  shows "\<exists>r r'. GetRFQ d (abp_RFQID p) = Inr r \<and> rfq_Status r = ''open''
    \<and> abp_Caller p = rfq_Buyer r \<and> abp_Caller p \<noteq> [] \<and> be_Now E < rfq_Deadline r
    \<and> row_get bid_ID (bids d) (abp_BidID p) = Some b \<and> bid_RFQID b = abp_RFQID p
    \<and> bid_Status b = ''pending'' \<and> be_Now E < bid_ExpiresAt b
    \<and> (rfq_requires E r \<longrightarrow> bid_CredentialVerified b)
    \<and> GetRFQ d' (abp_RFQID p) = Inr r' \<and> rfq_Status r' = ''closed''
    \<and> (rfq_BiddingMode r = ''sealed'' \<longrightarrow> rfq_RevealDeadline r < be_Now E \<and> rfq_BestBidID r' = Some (abp_BidID p))
    \<and> row_get bid_ID (bids d') (abp_BidID p) = Some (accepted_row (be_Now E) (esc_ID e) b)
    \<and> all_settled (abp_RFQID p) (abp_BidID p) d'
    \<and> row_get esc_ID (escrows d') (esc_ID e) = Some e
    \<and> esc_Status e = ''created'' \<and> esc_Buyer e = rfq_Buyer r \<and> esc_Worker e = bid_Bidder b
    \<and> esc_Amount e = bid_Amount b
    \<and> (\<forall>E' p'. abp_RFQID p' = abp_RFQID p \<longrightarrow> (\<exists>err. AcceptBidCommitted E' p' d' = (d', Inl err)))"
proof -
  obtain r r1 summary where k: "GetRFQ d (abp_RFQID p) = Inr r" "rfq_Status r = ''open''"
      "GetRFQ (finalized_first E (abp_RFQID p) r d) (abp_RFQID p) = Inr r1"
      "accept_checked E p summary r1 (finalized_first E (abp_RFQID p) r d) = (d', Inr (b, t, e, tx))"
      "if rfq_BiddingMode r = ''sealed'' \<and> rfq_RevealDeadline r < be_Now E
       then \<exists>s. summary = Some s \<and> snd (FinalizeSealedBidding E (abp_RFQID p) d) = Inr s
       else summary = None \<and> r1 = r"
    using AcceptBidCommitted_ok [OF assms] by blast
  note ff = finalized_first_found [OF k(1,2,3,5)]
  let ?d = "finalized_first E (abp_RFQID p) r d"
  obtain stake ms res where c: "\<not> (rfq_BiddingMode r1 = ''sealed'' \<and> be_Now E \<le> rfq_RevealDeadline r1)"
      "be_Now E < rfq_Deadline r1" "abp_Caller p \<noteq> []" "abp_Caller p = rfq_Buyer r1"
      "GetBid ?d (abp_BidID p) = Inr b" "check_acceptance E p summary r1 b ?d = None"
      "accept_tx E r1 b stake res ms ?d = (d', Inr (t, e))"
    using accept_checked_ok [OF k(4)] by blast
  note ca = check_acceptance_None [OF c(6)]
  have r1: "row_get rfq_ID (rfqs ?d) (abp_RFQID p) = Some r1" using k(3) by (simp add: GetRFQ_def)
  have b1: "row_get bid_ID (bids ?d) (abp_BidID p) = Some b" using c(5) by (simp add: GetBid_def)
  have ids: "rfq_ID r1 = abp_RFQID p" "bid_ID b = abp_BidID p"
    using row_get_Some [OF r1] row_get_Some [OF b1] by auto
  note st = accept_tx_state [OF c(7), unfolded ids, OF r1 b1]
  let ?r' = "r1\<lparr>rfq_Status := ''closed'', rfq_UpdatedAt := be_Now E\<rparr>"
  have g: "GetRFQ d' (abp_RFQID p) = Inr ?r'" using st(1) ca by (simp add: GetRFQ_def)
  have best: "rfq_RevealDeadline r < be_Now E \<and> rfq_BestBidID ?r' = Some (abp_BidID p)"
    if "rfq_BiddingMode r = ''sealed''"
  proof (cases "rfq_RevealDeadline r < be_Now E")
    case True
    with that have sealed: "rfq_BiddingMode r = ''sealed'' \<and> rfq_RevealDeadline r < be_Now E" by (rule conjI)
    obtain s where "summary = Some s" using k(5) unfolding if_P [OF sealed] by blast
    then show ?thesis using ca ff(3) ids True by simp
  next
    case False
    then have "r1 = r" using k(5) by simp
    then show ?thesis using c(1) that False by simp
  qed
  have later: "\<exists>err. AcceptBidCommitted E' p' d' = (d', Inl err)" if "abp_RFQID p' = abp_RFQID p" for E' p'
    using closed_rejects [of d' p' ?r'] g that by simp
  have "rfq_requires E r \<longrightarrow> bid_CredentialVerified b" using ca ff(2) by (simp add: rfq_requires_def)
  then show ?thesis
    using k(1,2) c(2,3,4) ff(1,2) b1 ca g best st later
    by (intro exI [of _ r] exI [of _ ?r']) (simp add: all_settled_def)
qed

definition sample_accept :: accept_bid_params where
  "sample_accept = \<lparr>abp_RFQID = 1, abp_BidID = 1, abp_Caller = ''0xbuyer''\<rparr>"

theorem AcceptBid_sound_witness:
  "\<exists>r'. GetRFQ (fst (AcceptBidCommitted (sample_env 30) sample_accept sample_auction)) 1 = Inr r'
     \<and> rfq_BestBidID r' = Some 1"
proof -
  have "\<not> isl (snd (AcceptBidCommitted (sample_env 30) sample_accept sample_auction))" by code_simp
  then obtain x where "snd (AcceptBidCommitted (sample_env 30) sample_accept sample_auction) = Inr x"
    by (metis sum.collapse(2))
  then obtain b t e tx where x: "AcceptBidCommitted (sample_env 30) sample_accept sample_auction
      = (fst (AcceptBidCommitted (sample_env 30) sample_accept sample_auction), Inr (b, t, e, tx))"
    by (cases x) (simp add: prod_eq_iff)
  have s: "abp_RFQID sample_accept = 1" "abp_BidID sample_accept = 1" "rfq_BiddingMode sample_rfq = ''sealed''"
    by (simp_all add: sample_accept_def sample_rfq_def)
  obtain r r' where k: "GetRFQ sample_auction 1 = Inr r"
      "GetRFQ (fst (AcceptBidCommitted (sample_env 30) sample_accept sample_auction)) 1 = Inr r'"
      "rfq_BiddingMode r = ''sealed'' \<longrightarrow> rfq_BestBidID r' = Some 1"
    using AcceptBid_sound [OF x] unfolding s(1,2) by blast
  then have "r = sample_rfq" using sample_rfq_found by simp
  then show ?thesis using k s(3) by blast
qed

end
