(* ===== verification/Events.thy ===== *)
theory Events
  imports JsonValue "HOL-Library.AList" "HOL-Library.Multiset" "HOL-Library.Word"
begin

text \<open>
  \<open>internal/events\<close>: the in-process bus. Channels are references (indices into \<open>bus_Chans\<close>), because a
  subscriber keeps its channel after it unsubscribed. \<open>None\<close> is a Go panic: an index out of range, a
  send on a closed channel, a second close. Theory \<open>BusProps\<close> interleaves publishers, subscribers and
  readers at the granularity of the lock.
\<close>

section \<open>Events and subscriptions\<close>

definition L0 :: int where "L0 = 0"
definition L1 :: int where "L1 = 1"
definition L2 :: int where "L2 = 2"
definition L3 :: int where "L3 = 3"

definition level_str :: "int \<Rightarrow> string" where
  "level_str g = (if g = L0 then ''L0'' else if g = L1 then ''L1'' else if g = L2 then ''L2''
     else if g = L3 then ''L3'' else ''unknown'')"

definition ParseGranularity :: "string \<Rightarrow> int" where
  "ParseGranularity s = (if s = ''L0'' then L0 else if s = ''L1'' then L1 else if s = ''L2'' then L2
     else if s = ''L3'' then L3 else L1)"

text \<open>A timestamp is \<open>None\<close> for Go's zero time.\<close>

record event =
  ev_Name :: string
  ev_Escrow :: string
  ev_Level :: int
  ev_Block :: nat
  ev_Timestamp :: "int option"
  ev_ID :: string
  ev_Payload :: "(string \<times> json) list"

record subscription =
  ss_ID :: string
  ss_Ch :: nat
  ss_MaxLevel :: int
  ss_Escrow :: string

record channel =
  ch_Cap :: nat
  ch_Buf :: "event list"
  ch_Closed :: bool

record event_bus =
  bus_Subs :: "(string \<times> subscription) list"
  bus_NextID :: "64 word"
  bus_BufferSize :: int
  bus_Recent :: "event list"
  bus_MaxRecent :: int
  bus_Chans :: "channel list"

definition OnChainEventName :: "string \<Rightarrow> string option" where
  "OnChainEventName = map_of
     [(''EscrowCreated'', ''escrow.created''), (''EscrowFunded'', ''escrow.funded''),
      (''SubmissionMade'', ''escrow.submitted''), (''Approved'', ''escrow.approved''),
      (''Rejected'', ''escrow.rejected''), (''Disputed'', ''escrow.disputed''),
      (''SilenceEscalated'', ''escrow.silence_escalated''), (''DisputeResolved'', ''escrow.dispute_resolved''),
      (''Settled'', ''escrow.settled''), (''Refunded'', ''escrow.refunded''), (''Cancelled'', ''escrow.cancelled''),
      (''BackupActivated'', ''escrow.backup_activated''), (''MilestoneSubmitted'', ''milestone.submitted''),
      (''MilestoneApproved'', ''milestone.approved''), (''MilestoneDisputed'', ''milestone.disputed''),
      (''MilestoneDisputeResolved'', ''milestone.dispute_resolved''), (''MilestoneSettled'', ''milestone.settled''),
      (''MilestoneCancelled'', ''milestone.cancelled''), (''RemainingMilestonesAborted'', ''milestone.aborted''),
      (''OutcomeRecorded'', ''reputation.outcome_recorded''),
      (''MarketStabilityFeeApplied'', ''market_stability.fee_applied''),
      (''WorkerStakeDeposited'', ''escrow.stake_deposited''), (''ArbitratorTimeoutClaimed'', ''escrow.refunded''),
      (''AddressFrozen'', ''emergency.address_frozen''), (''AddressUnfrozen'', ''emergency.address_unfrozen''),
      (''EscrowFrozen'', ''emergency.escrow_frozen''), (''EscrowUnfrozen'', ''emergency.escrow_unfrozen''),
      (''EmergencyResolved'', ''emergency.resolved''), (''EmergencyFrozen'', ''emergency.escrow_frozen''),
      (''EmergencyUnfrozen'', ''emergency.escrow_unfrozen'')]"

section \<open>Numbering subscriptions\<close>

text \<open>The loop fills a buffer of 20 bytes from the right; \<open>i\<close> is the next free index plus one.\<close>

fun itoa_loop :: "nat \<Rightarrow> nat \<Rightarrow> string \<Rightarrow> string option" where
  "itoa_loop 0 n acc = (if n > 0 then None else Some acc)"
| "itoa_loop (Suc i) n acc = (if n > 0 then itoa_loop i (n div 10) (digit_char (n mod 10) # acc) else Some acc)"

definition itoa :: "64 word \<Rightarrow> string option" where
  "itoa n = (if n = 0 then Some ''0'' else itoa_loop 20 (unat n) [])"

definition subID :: "64 word \<Rightarrow> string option" where
  "subID n = map_option (\<lambda>s. ''sub-'' @ s) (itoa n)"

definition normalizeEscrowFilter :: "string \<Rightarrow> string" where
  "normalizeEscrowFilter escrow = (if escrow = ''*'' \<or> escrow = [] then [] else escrow)"

definition matchesFilter :: "subscription \<Rightarrow> event \<Rightarrow> bool" where
  "matchesFilter sub ev =
     (if ev_Level ev > ss_MaxLevel sub then False
      else if ss_Escrow sub \<noteq> [] \<and> ev_Escrow ev \<noteq> [] \<and> ev_Escrow ev \<noteq> ss_Escrow sub then False
      else True)"

section \<open>Operations\<close>

definition NewEventBus :: "int \<Rightarrow> event_bus" where
  "NewEventBus bufferSize =
     \<lparr>bus_Subs = [], bus_NextID = 0, bus_BufferSize = (if bufferSize \<le> 0 then 64 else bufferSize),
      bus_Recent = [], bus_MaxRecent = 1000, bus_Chans = []\<rparr>"

text \<open>\<open>Subscribe\<close> has a part before the lock, which numbers the subscription and makes its channel, and a part under
  it, which enters it into the map.\<close>

definition newSubscription :: "int \<Rightarrow> string \<Rightarrow> event_bus \<Rightarrow> (event_bus \<times> subscription) option" where
  "newSubscription maxLevel escrow b =
     (let n = bus_NextID b + 1 in
      case subID n of
        None \<Rightarrow> None
      | Some i \<Rightarrow>
          Some (b\<lparr>bus_NextID := n,
                  bus_Chans := bus_Chans b @ [\<lparr>ch_Cap = nat (bus_BufferSize b), ch_Buf = [], ch_Closed = False\<rparr>]\<rparr>,
                \<lparr>ss_ID = i, ss_Ch = length (bus_Chans b), ss_MaxLevel = maxLevel,
                 ss_Escrow = normalizeEscrowFilter escrow\<rparr>))"

definition link :: "subscription \<Rightarrow> event_bus \<Rightarrow> event_bus" where
  "link sub b = b\<lparr>bus_Subs := AList.update (ss_ID sub) sub (bus_Subs b)\<rparr>"

definition Subscribe :: "int \<Rightarrow> string \<Rightarrow> event_bus \<Rightarrow> (event_bus \<times> subscription) option" where
  "Subscribe maxLevel escrow b = map_option (\<lambda>(b1, sub). (link sub b1, sub)) (newSubscription maxLevel escrow b)"

definition close_chan :: "nat \<Rightarrow> channel list \<Rightarrow> channel list option" where
  "close_chan c cs = (if ch_Closed (cs ! c) then None else Some (cs[c := (cs ! c)\<lparr>ch_Closed := True\<rparr>]))"

definition unlink :: "string \<Rightarrow> event_bus \<Rightarrow> event_bus" where
  "unlink i b = b\<lparr>bus_Subs := AList.delete i (bus_Subs b)\<rparr>"

definition Unsubscribe :: "string \<Rightarrow> event_bus \<Rightarrow> event_bus option" where
  "Unsubscribe i b =
     (case map_of (bus_Subs b) i of
        None \<Rightarrow> Some b
      | Some sub \<Rightarrow> map_option (\<lambda>cs. (unlink i b)\<lparr>bus_Chans := cs\<rparr>) (close_chan (ss_Ch sub) (bus_Chans b)))"

definition storeRecent :: "event \<Rightarrow> event_bus \<Rightarrow> event_bus" where
  "storeRecent ev b =
     (let recent = bus_Recent b @ [ev] in
      if int (length recent) > bus_MaxRecent b
      then b\<lparr>bus_Recent := drop (nat (int (length recent) - bus_MaxRecent b)) recent\<rparr>
      else b\<lparr>bus_Recent := recent\<rparr>)"

text \<open>The non-blocking send: a full channel drops the event, a closed one panics.\<close>

definition send_chan :: "nat \<Rightarrow> event \<Rightarrow> channel list \<Rightarrow> channel list option" where
  "send_chan c ev cs =
     (let ch = cs ! c in
      if ch_Closed ch then None
      else if length (ch_Buf ch) < ch_Cap ch then Some (cs[c := ch\<lparr>ch_Buf := ch_Buf ch @ [ev]\<rparr>])
      else Some cs)"

definition offer :: "event \<Rightarrow> subscription \<Rightarrow> channel list \<Rightarrow> channel list option" where
  "offer ev sub cs = (if \<not> matchesFilter sub ev then Some cs else send_chan (ss_Ch sub) ev cs)"

fun deliver :: "event \<Rightarrow> subscription list \<Rightarrow> channel list \<Rightarrow> channel list option" where
  "deliver ev [] cs = Some cs"
| "deliver ev (s # ss) cs = (case offer ev s cs of None \<Rightarrow> None | Some cs' \<Rightarrow> deliver ev ss cs')"

definition stamp :: "int \<Rightarrow> event \<Rightarrow> event" where
  "stamp now ev = (if ev_Timestamp ev = None then ev\<lparr>ev_Timestamp := Some now\<rparr> else ev)"

definition Publish :: "int \<Rightarrow> event \<Rightarrow> event_bus \<Rightarrow> event_bus option" where
  "Publish now ev b =
     (let e = stamp now ev; b1 = storeRecent e b in
      map_option (\<lambda>cs. b1\<lparr>bus_Chans := cs\<rparr>) (deliver e (map snd (bus_Subs b1)) (bus_Chans b1)))"

definition SubscriberCount :: "event_bus \<Rightarrow> nat" where
  "SubscriberCount b = length (bus_Subs b)"

text \<open>The loop of \<open>RecentEvents\<close>: \<open>n\<close> is how many results are still wanted.\<close>

fun recent_loop :: "string \<Rightarrow> int \<Rightarrow> string \<Rightarrow> bool \<Rightarrow> int \<Rightarrow> event list \<Rightarrow> event list \<Rightarrow> event list" where
  "recent_loop escrow maxLevel sinceID pastSince limit result [] = result"
| "recent_loop escrow maxLevel sinceID pastSince limit result (ev # evs) =
     (if \<not> pastSince then recent_loop escrow maxLevel sinceID (ev_ID ev = sinceID) limit result evs
      else if ev_Level ev > maxLevel then recent_loop escrow maxLevel sinceID True limit result evs
      else if escrow \<noteq> [] \<and> ev_Escrow ev \<noteq> [] \<and> ev_Escrow ev \<noteq> escrow
      then recent_loop escrow maxLevel sinceID True limit result evs
      else let result = result @ [ev] in
        if int (length result) \<ge> limit then result
        else recent_loop escrow maxLevel sinceID True limit result evs)"

definition RecentEvents :: "string \<Rightarrow> int \<Rightarrow> string \<Rightarrow> int \<Rightarrow> event_bus \<Rightarrow> event list" where
  "RecentEvents escrow maxLevel sinceID limit b =
     (let limit = (if limit \<le> 0 then 50 else limit);
          pastSince = (sinceID = [] \<or> \<not> list_ex (\<lambda>ev. ev_ID ev = sinceID) (bus_Recent b))
      in recent_loop (normalizeEscrowFilter escrow) maxLevel sinceID pastSince limit [] (bus_Recent b))"

definition heartbeat :: "int \<Rightarrow> string \<Rightarrow> event" where
  "heartbeat now utc = \<lparr>ev_Name = ''heartbeat'', ev_Escrow = [], ev_Level = L0, ev_Block = 0,
     ev_Timestamp = Some now, ev_ID = ''heartbeat-'' @ utc, ev_Payload = []\<rparr>"

section \<open>Numbering never runs out of digits\<close>

lemma itoa_loop_Some: "n < 10 ^ i \<Longrightarrow> itoa_loop i n acc = Some ((if n = 0 then [] else nat_str n) @ acc)"
proof (induction i n acc rule: itoa_loop.induct)
  case (2 i n acc)
  show ?case
  proof (cases "n = 0")
    case False
    have lt: "n div 10 < 10 ^ i" using 2(2) by (simp add: less_mult_imp_div_less)
    have "nat_str n = (if n div 10 = 0 then [] else nat_str (n div 10)) @ [digit_char (n mod 10)]"
      by (subst nat_str.simps) (auto simp: div_eq_0_iff)
    then show ?thesis using 2(1) [OF _ lt] False by simp
  qed simp
qed simp

lemma itoa_total: "itoa n = Some (nat_str (unat n))"
proof (cases "n = 0")
  case True
  moreover have "nat_str 0 = ''0''" by code_simp
  ultimately show ?thesis by (simp add: itoa_def)
next
  case False
  have "unat n < 2 ^ 64" using unsigned_less [of n] by simp
  then have "unat n < 10 ^ 20" by simp
  then show ?thesis using False by (simp add: itoa_def itoa_loop_Some unat_eq_zero)
qed

lemma subID_total: "subID n = Some (''sub-'' @ nat_str (unat n))"
  by (simp add: subID_def itoa_total)

lemma subID_inject: "subID m = subID n \<longleftrightarrow> m = n"
  by (simp add: subID_total word_unat_eq_iff)


section \<open>Recent events refine the history\<close>

text \<open>The history of a bus is the list of all events published on it; the buffer is its last
  \<open>bus_MaxRecent\<close> elements.\<close>

definition last_n :: "nat \<Rightarrow> 'a list \<Rightarrow> 'a list" where
  "last_n n xs = drop (length xs - n) xs"

lemma last_n_snoc: "last_n n (last_n n xs @ [x]) = last_n n (xs @ [x])"
  by (cases "n \<le> length xs") (auto simp: last_n_def Suc_diff_le)

definition holds_history :: "event_bus \<Rightarrow> event list \<Rightarrow> bool" where
  "holds_history b h \<longleftrightarrow> 0 \<le> bus_MaxRecent b \<and> bus_Recent b = last_n (nat (bus_MaxRecent b)) h"

lemma storeRecent_recent:
  assumes "0 \<le> bus_MaxRecent b"
  shows "bus_Recent (storeRecent ev b) = last_n (nat (bus_MaxRecent b)) (bus_Recent b @ [ev])"
proof -
  have "nat (int (length (bus_Recent b @ [ev])) - bus_MaxRecent b) = length (bus_Recent b @ [ev]) - nat (bus_MaxRecent b)"
    using assms by linarith
  moreover have "length (bus_Recent b @ [ev]) - nat (bus_MaxRecent b) = 0"
    if "\<not> int (length (bus_Recent b @ [ev])) > bus_MaxRecent b"
    using that assms by linarith
  ultimately show ?thesis unfolding storeRecent_def Let_def last_n_def by simp
qed

lemma storeRecent_frame [simp]:
  "bus_MaxRecent (storeRecent ev b) = bus_MaxRecent b" "bus_Subs (storeRecent ev b) = bus_Subs b"
  "bus_Chans (storeRecent ev b) = bus_Chans b" "bus_NextID (storeRecent ev b) = bus_NextID b"
  "bus_BufferSize (storeRecent ev b) = bus_BufferSize b"
  by (simp_all add: storeRecent_def Let_def)

lemma storeRecent_history: "holds_history b h \<Longrightarrow> holds_history (storeRecent ev b) (h @ [ev])"
  by (simp add: holds_history_def storeRecent_recent last_n_snoc)

definition wanted :: "string \<Rightarrow> int \<Rightarrow> event \<Rightarrow> bool" where
  "wanted escrow maxLevel ev \<longleftrightarrow>
     ev_Level ev \<le> maxLevel \<and> (escrow = [] \<or> ev_Escrow ev = [] \<or> ev_Escrow ev = escrow)"

lemma recent_loop_past:
  assumes "int (length result) < limit"
  shows "recent_loop escrow maxLevel sinceID True limit result evs
    = result @ take (nat limit - length result) (filter (wanted escrow maxLevel) evs)"
  using assms
proof (induction evs arbitrary: result)
  case (Cons ev evs)
  have n: "nat limit - length result = Suc (nat limit - Suc (length result))" using Cons.prems by linarith
  show ?case
  proof (cases "wanted escrow maxLevel ev")
    case False
    then have "recent_loop escrow maxLevel sinceID True limit result (ev # evs)
        = recent_loop escrow maxLevel sinceID True limit result evs" by (auto simp: wanted_def)
    then show ?thesis using Cons False by simp
  next
    case True
    then have w: "\<not> ev_Level ev > maxLevel" "\<not> (escrow \<noteq> [] \<and> ev_Escrow ev \<noteq> [] \<and> ev_Escrow ev \<noteq> escrow)"
      by (auto simp: wanted_def)
    show ?thesis
    proof (cases "int (length (result @ [ev])) \<ge> limit")
      case True
      then have "nat limit - Suc (length result) = 0" using Cons.prems by simp
      moreover have "recent_loop escrow maxLevel sinceID True limit result (ev # evs) = result @ [ev]"
        using True by (simp only: recent_loop.simps w Let_def if_True if_False not_True_eq_False simp_thms)
      ultimately show ?thesis using n \<open>wanted escrow maxLevel ev\<close> by simp
    next
      case False
      then have "recent_loop escrow maxLevel sinceID True limit result (ev # evs)
          = (result @ [ev]) @ take (nat limit - length (result @ [ev])) (filter (wanted escrow maxLevel) evs)"
        using Cons.IH [OF not_le_imp_less [OF False]]
        by (simp only: recent_loop.simps w Let_def if_True if_False not_True_eq_False simp_thms if_not_P [OF False])
      then show ?thesis using n \<open>wanted escrow maxLevel ev\<close> by simp
    qed
  qed
qed simp

fun after_id :: "string \<Rightarrow> event list \<Rightarrow> event list" where
  "after_id i [] = []"
| "after_id i (e # es) = (if ev_ID e = i then es else after_id i es)"

lemma recent_loop_before:
  assumes "0 < limit"
  shows "recent_loop escrow maxLevel sinceID False limit [] evs
    = take (nat limit) (filter (wanted escrow maxLevel) (after_id sinceID evs))"
  using assms by (induction evs) (auto simp: recent_loop_past)

definition effective :: "int \<Rightarrow> nat" where
  "effective limit = (if limit \<le> 0 then 50 else nat limit)"

text \<open>What a poll answers, by the events it may choose from.\<close>

lemma RecentEvents_eq:
  "RecentEvents escrow maxLevel sinceID limit b =
     take (effective limit) (filter (wanted (normalizeEscrowFilter escrow) maxLevel)
       (if sinceID \<noteq> [] \<and> sinceID \<in> ev_ID ` set (bus_Recent b) then after_id sinceID (bus_Recent b)
        else bus_Recent b))"
proof (cases "sinceID \<noteq> [] \<and> sinceID \<in> ev_ID ` set (bus_Recent b)")
  case True
  then have p: "(sinceID = [] \<or> \<not> list_ex (\<lambda>ev. ev_ID ev = sinceID) (bus_Recent b)) = False"
    by (auto simp: list_ex_iff)
  show ?thesis unfolding RecentEvents_def Let_def p if_P [OF True]
    by (simp add: recent_loop_before effective_def)
next
  case False
  then have p: "(sinceID = [] \<or> \<not> list_ex (\<lambda>ev. ev_ID ev = sinceID) (bus_Recent b)) = True"
    by (auto simp: list_ex_iff)
  show ?thesis unfolding RecentEvents_def Let_def p if_not_P [OF False]
    by (simp add: recent_loop_past effective_def)
qed

lemma after_id_drop:
  assumes "distinct (map ev_ID h)" "i \<in> ev_ID ` set (drop n h)"
  shows "after_id i (drop n h) = after_id i h"
proof -
  have "i \<notin> ev_ID ` set (take n h)"
    using assms by (metis append_take_drop_id disjoint_iff distinct_append map_append set_map)
  moreover have "after_id i (xs @ ys) = after_id i ys" if "i \<notin> ev_ID ` set xs" for xs ys
    using that by (induction xs) auto
  ultimately show ?thesis by (metis append_take_drop_id)
qed

lemma after_id_split: "distinct (map ev_ID (xs @ e # ys)) \<Longrightarrow> after_id (ev_ID e) (xs @ e # ys) = ys"
  by (induction xs) auto

end
