(* ===== verification/BusProps.thy ===== *)
theory BusProps
  imports Events
begin

text \<open>
  The event bus under concurrency. A world is the bus with the goroutines in the middle of an operation. Those in
  \<open>Publish\<close> or \<open>SubscriberCount\<close> are numbered by the order of their arrival: before \<open>RLock\<close>, parked in it, holding
  the read lock with the subscriptions still to serve (in the arbitrary order of a Go map), or gone. The lock
  is Go's \<open>sync.RWMutex\<close>: a goroutine in \<open>Lock\<close> announces itself (\<open>w_Writer\<close>; others in \<open>Lock\<close> queue before that)
  and from then on \<open>RLock\<close> parks its callers; the announced writer runs when nobody reads any more, and its
  \<open>Unlock\<close> hands the read lock to everyone parked. \<open>w_Opening\<close> holds subscriptions made but not entered yet and
  \<open>w_Closing\<close> the channels unsubscribers still have to close. \<open>w_Made\<close>, \<open>w_Stored\<close> and \<open>w_Received\<close> record what
  was handed out, published and received.
\<close>

datatype proc = Arrived "event option" | Parked "event option" | Reading "event option" "subscription list" | Left

datatype map_write = Insert subscription | Remove string

datatype actor = Proc nat | Writer | Other

record world =
  w_Bus :: event_bus
  w_Procs :: "proc list"
  w_Writer :: "map_write option"
  w_Opening :: "subscription list"
  w_Closing :: "nat list"
  w_Panic :: bool
  w_Made :: "subscription list"
  w_Stored :: "event list"
  w_Received :: "(nat \<times> event) list"

abbreviation chans :: "world \<Rightarrow> channel list" where
  "chans w \<equiv> bus_Chans (w_Bus w)"

abbreviation live_subs :: "world \<Rightarrow> subscription list" where
  "live_subs w \<equiv> map snd (bus_Subs (w_Bus w))"

definition set_chans :: "channel list \<Rightarrow> world \<Rightarrow> world" where
  "set_chans cs w = w\<lparr>w_Bus := (w_Bus w)\<lparr>bus_Chans := cs\<rparr>\<rparr>"

definition set_proc :: "nat \<Rightarrow> proc \<Rightarrow> world \<Rightarrow> world" where
  "set_proc i p w = w\<lparr>w_Procs := (w_Procs w)[i := p]\<rparr>"

definition start :: "int \<Rightarrow> world" where
  "start n = \<lparr>w_Bus = NewEventBus n, w_Procs = [], w_Writer = None, w_Opening = [], w_Closing = [], w_Panic = False,
     w_Made = [], w_Stored = [], w_Received = []\<rparr>"

text \<open>What a reader does under the lock: \<open>Publish\<close> visits all subscriptions, \<open>SubscriberCount\<close> none.\<close>

definition visits :: "event option \<Rightarrow> subscription list \<Rightarrow> world \<Rightarrow> bool" where
  "visits a ss w \<longleftrightarrow> (case a of None \<Rightarrow> ss = [] | Some ev \<Rightarrow> mset ss = mset (live_subs w))"

fun apply_write :: "map_write \<Rightarrow> world \<Rightarrow> world" where
  "apply_write (Insert s) w = w\<lparr>w_Bus := link s (w_Bus w)\<rparr>"
| "apply_write (Remove i) w =
     (case map_of (bus_Subs (w_Bus w)) i of
        None \<Rightarrow> w
      | Some s \<Rightarrow> w\<lparr>w_Bus := unlink i (w_Bus w), w_Closing := ss_Ch s # w_Closing w\<rparr>)"

definition resumed :: "world \<Rightarrow> proc \<Rightarrow> proc \<Rightarrow> bool" where
  "resumed w p p' \<longleftrightarrow> (case p of Parked a \<Rightarrow> \<exists>ss. p' = Reading a ss \<and> visits a ss w | _ \<Rightarrow> p' = p)"

definition no_readers :: "world \<Rightarrow> bool" where
  "no_readers w \<longleftrightarrow> (\<forall>p \<in> set (w_Procs w). case p of Reading a ss \<Rightarrow> False | _ \<Rightarrow> True)"

abbreviation at_proc :: "world \<Rightarrow> nat \<Rightarrow> proc \<Rightarrow> bool" where
  "at_proc w i p \<equiv> i < length (w_Procs w) \<and> w_Procs w ! i = p"

inductive bus_act :: "actor \<Rightarrow> world \<Rightarrow> world \<Rightarrow> bool" where
  store: "bus_act Other w (w\<lparr>w_Bus := storeRecent (stamp now ev) (w_Bus w),
       w_Procs := w_Procs w @ [Arrived (Some (stamp now ev))], w_Stored := w_Stored w @ [stamp now ev]\<rparr>)"
| count: "bus_act Other w (w\<lparr>w_Procs := w_Procs w @ [Arrived None]\<rparr>)"
| rlock: "at_proc w i (Arrived a) \<Longrightarrow> w_Writer w = None \<Longrightarrow> visits a ss w \<Longrightarrow>
     bus_act (Proc i) w (set_proc i (Reading a ss) w)"
| park: "at_proc w i (Arrived a) \<Longrightarrow> w_Writer w \<noteq> None \<Longrightarrow> bus_act (Proc i) w (set_proc i (Parked a) w)"
| send: "at_proc w i (Reading (Some ev) (s # ss)) \<Longrightarrow> offer ev s (chans w) = Some cs \<Longrightarrow>
     bus_act (Proc i) w (set_chans cs (set_proc i (Reading (Some ev) ss) w))"
| send_panic: "at_proc w i (Reading (Some ev) (s # ss)) \<Longrightarrow> offer ev s (chans w) = None \<Longrightarrow>
     bus_act (Proc i) w (w\<lparr>w_Panic := True\<rparr>)"
| runlock: "at_proc w i (Reading a []) \<Longrightarrow> bus_act (Proc i) w (set_proc i Left w)"
| make: "newSubscription level escrow (w_Bus w) = Some (b, s) \<Longrightarrow>
     bus_act Other w (w\<lparr>w_Bus := b, w_Opening := w_Opening w @ [s], w_Made := w_Made w @ [s]\<rparr>)"
| announce_insert: "w_Writer w = None \<Longrightarrow> w_Opening w = xs @ s # ys \<Longrightarrow>
     bus_act Other w (w\<lparr>w_Writer := Some (Insert s), w_Opening := xs @ ys\<rparr>)"
| announce_remove: "w_Writer w = None \<Longrightarrow> bus_act Other w (w\<lparr>w_Writer := Some (Remove i)\<rparr>)"
| unlock: "w_Writer w = Some q \<Longrightarrow> no_readers w \<Longrightarrow> w1 = apply_write q w \<Longrightarrow>
     list_all2 (resumed w1) (w_Procs w) ps \<Longrightarrow> bus_act Writer w (w1\<lparr>w_Writer := None, w_Procs := ps\<rparr>)"
| close: "w_Closing w = xs @ c # ys \<Longrightarrow> close_chan c (chans w) = Some cs \<Longrightarrow>
     bus_act Other w (set_chans cs (w\<lparr>w_Closing := xs @ ys\<rparr>))"
| close_panic: "w_Closing w = xs @ c # ys \<Longrightarrow> close_chan c (chans w) = None \<Longrightarrow>
     bus_act Other w (w\<lparr>w_Panic := True\<rparr>)"
| receive: "c < length (chans w) \<Longrightarrow> ch_Buf (chans w ! c) = ev # evs \<Longrightarrow>
     bus_act Other w (set_chans ((chans w)[c := (chans w ! c)\<lparr>ch_Buf := evs\<rparr>])
       (w\<lparr>w_Received := w_Received w @ [(c, ev)]\<rparr>))"

definition bus_step :: "world \<Rightarrow> world \<Rightarrow> bool" where
  "bus_step w w' \<longleftrightarrow> (\<exists>a. bus_act a w w')"

section \<open>The invariant\<close>

lemma visits_set: "visits a ss w \<Longrightarrow> set ss \<subseteq> set (live_subs w) \<and> (a = None \<longrightarrow> ss = [])"
  using mset_eq_setD [of ss "live_subs w"] by (cases a) (simp_all add: visits_def del: mset_map)

text \<open>A channel belongs to one subscription: one that is being opened, entered, listed or closed.\<close>

definition entering :: "world \<Rightarrow> subscription list" where
  "entering w = (case w_Writer w of Some (Insert s) \<Rightarrow> [s] | _ \<Rightarrow> [])"

definition owners :: "world \<Rightarrow> nat multiset" where
  "owners w = mset (w_Closing w) + image_mset ss_Ch (mset (w_Opening w) + mset (entering w) + mset (live_subs w))"

definition owners_ok :: "world \<Rightarrow> bool" where
  "owners_ok w \<longleftrightarrow> (\<forall>c. count (owners w) c \<le> 1) \<and> (\<forall>c \<in># owners w. c < length (chans w) \<and> \<not> ch_Closed (chans w ! c))"

definition subs_ok :: "world \<Rightarrow> bool" where
  "subs_ok w \<longleftrightarrow> distinct (map ss_Ch (w_Made w)) \<and> (\<forall>s \<in> set (w_Made w). ss_Ch s < length (chans w))
     \<and> set (w_Opening w) \<union> set (entering w) \<union> set (live_subs w) \<subseteq> set (w_Made w)"

definition proc_ok :: "world \<Rightarrow> proc \<Rightarrow> bool" where
  "proc_ok w p \<longleftrightarrow>
     (case p of
        Arrived a \<Rightarrow> set_option a \<subseteq> set (w_Stored w)
      | Parked a \<Rightarrow> set_option a \<subseteq> set (w_Stored w) \<and> w_Writer w \<noteq> None
      | Reading a ss \<Rightarrow> set_option a \<subseteq> set (w_Stored w) \<and> set ss \<subseteq> set (live_subs w) \<and> (a = None \<longrightarrow> ss = [])
      | Left \<Rightarrow> True)"

definition procs_ok :: "world \<Rightarrow> bool" where
  "procs_ok w \<longleftrightarrow> (\<forall>p \<in> set (w_Procs w). proc_ok w p)"

definition served_ok :: "world \<Rightarrow> bool" where
  "served_ok w \<longleftrightarrow>
     (\<forall>c < length (chans w). length (ch_Buf (chans w ! c)) \<le> ch_Cap (chans w ! c))
     \<and> (\<forall>s \<in> set (w_Made w). \<forall>ev. ev \<in> set (ch_Buf (chans w ! ss_Ch s)) \<or> (ss_Ch s, ev) \<in> set (w_Received w)
          \<longrightarrow> matchesFilter s ev \<and> ev \<in> set (w_Stored w))
     \<and> (\<forall>(c, ev) \<in> set (w_Received w). c < length (chans w))"

definition bus_inv :: "world \<Rightarrow> bool" where
  "bus_inv w \<longleftrightarrow> \<not> w_Panic w \<and> subs_ok w \<and> procs_ok w \<and> owners_ok w \<and> served_ok w
     \<and> holds_history (w_Bus w) (w_Stored w)"

lemma bus_inv_start: "bus_inv (start n)"
  by (simp add: bus_inv_def subs_ok_def procs_ok_def owners_ok_def owners_def entering_def served_ok_def start_def
      NewEventBus_def holds_history_def last_n_def)

lemma frame_simps [simp]:
  "chans (set_chans cs w) = cs" "bus_Subs (w_Bus (set_chans cs w)) = bus_Subs (w_Bus w)"
  "w_Procs (set_chans cs w) = w_Procs w" "w_Writer (set_chans cs w) = w_Writer w"
  "w_Opening (set_chans cs w) = w_Opening w" "w_Closing (set_chans cs w) = w_Closing w"
  "w_Panic (set_chans cs w) = w_Panic w" "w_Made (set_chans cs w) = w_Made w"
  "w_Stored (set_chans cs w) = w_Stored w" "w_Received (set_chans cs w) = w_Received w"
  "holds_history (w_Bus (set_chans cs w)) h = holds_history (w_Bus w) h"
  "w_Bus (set_proc i p w) = w_Bus w" "w_Procs (set_proc i p w) = (w_Procs w)[i := p]"
  "w_Writer (set_proc i p w) = w_Writer w" "w_Opening (set_proc i p w) = w_Opening w"
  "w_Closing (set_proc i p w) = w_Closing w" "w_Panic (set_proc i p w) = w_Panic w"
  "w_Made (set_proc i p w) = w_Made w" "w_Stored (set_proc i p w) = w_Stored w"
  "w_Received (set_proc i p w) = w_Received w"
  by (simp_all add: set_chans_def set_proc_def holds_history_def)

text \<open>A channel whose closedness does not change, and a process that moves on.\<close>

lemma owners_set_proc [simp]: "owners_ok (set_proc i p w) = owners_ok w" "owners (set_proc i p w) = owners w"
    "entering (set_proc i p w) = entering w" "subs_ok (set_proc i p w) = subs_ok w" "served_ok (set_proc i p w) = served_ok w"
  by (simp_all add: owners_ok_def owners_def entering_def subs_ok_def served_ok_def)

lemma owners_set_chans [simp]: "owners (set_chans cs w) = owners w" "entering (set_chans cs w) = entering w"
  by (simp_all add: owners_def entering_def)

lemma set_proc_inv:
  assumes "bus_inv w" "proc_ok w p"
  shows "bus_inv (set_proc i p w)"
proof -
  have "proc_ok (set_proc i p w) = proc_ok w" by (rule ext) (simp add: proc_ok_def split: proc.split)
  then show ?thesis
    using assms set_update_subset_insert [of "w_Procs w" i p]
    by (auto simp: bus_inv_def procs_ok_def holds_history_def)
qed

lemma procs_ok_mono:
  assumes "procs_ok w" "w_Procs w' = w_Procs w" "set (w_Stored w) \<subseteq> set (w_Stored w')" "w_Writer w \<noteq> None \<longrightarrow> w_Writer w' \<noteq> None"
    "live_subs w' = live_subs w"
  shows "procs_ok w'"
  using assms unfolding procs_ok_def proc_ok_def by (fastforce split: proc.splits)

text \<open>A send succeeds on an open channel and appends at most one event to it.\<close>

lemma offer_ok:
  assumes "ss_Ch s < length cs" "\<not> ch_Closed (cs ! ss_Ch s)"
  shows "\<exists>buf. offer ev s cs = Some (cs[ss_Ch s := (cs ! ss_Ch s)\<lparr>ch_Buf := buf\<rparr>])
    \<and> (buf = ch_Buf (cs ! ss_Ch s)
       \<or> matchesFilter s ev \<and> buf = ch_Buf (cs ! ss_Ch s) @ [ev] \<and> length buf \<le> ch_Cap (cs ! ss_Ch s))"
proof (cases "matchesFilter s ev \<and> length (ch_Buf (cs ! ss_Ch s)) < ch_Cap (cs ! ss_Ch s)")
  case True
  then show ?thesis using assms
    by (intro exI [of _ "ch_Buf (cs ! ss_Ch s) @ [ev]"]) (simp add: offer_def send_chan_def Let_def)
next
  case False
  have "cs[ss_Ch s := (cs ! ss_Ch s)\<lparr>ch_Buf := ch_Buf (cs ! ss_Ch s)\<rparr>] = cs" by simp
  then show ?thesis using assms False
    by (intro exI [of _ "ch_Buf (cs ! ss_Ch s)"]) (auto simp: offer_def send_chan_def Let_def)
qed

lemma upd_buf [simp]:
  assumes "c < length cs"
  shows "ch_Buf (cs[c := (cs ! c)\<lparr>ch_Buf := buf\<rparr>] ! k) = (if k = c then buf else ch_Buf (cs ! k))"
    and "ch_Cap (cs[c := (cs ! c)\<lparr>ch_Buf := buf\<rparr>] ! k) = ch_Cap (cs ! k)"
    and "ch_Closed (cs[c := (cs ! c)\<lparr>ch_Buf := buf\<rparr>] ! k) = ch_Closed (cs ! k)"
  using assms by (cases "k = c"; simp)+

lemma served_upd:
  assumes "served_ok w" "subs_ok w" "s \<in> set (w_Made w)" "ev \<in> set (w_Stored w)"
    and buf: "buf = ch_Buf (chans w ! ss_Ch s)
       \<or> matchesFilter s ev \<and> buf = ch_Buf (chans w ! ss_Ch s) @ [ev] \<and> length buf \<le> ch_Cap (chans w ! ss_Ch s)"
  shows "served_ok (set_chans ((chans w)[ss_Ch s := (chans w ! ss_Ch s)\<lparr>ch_Buf := buf\<rparr>]) w)"
proof -
  have same: "t = s" if "t \<in> set (w_Made w)" "ss_Ch t = ss_Ch s" for t
    using that assms(2,3) by (simp add: subs_ok_def distinct_map inj_on_def)
  have lt: "ss_Ch s < length (chans w)" using assms(2,3) by (simp add: subs_ok_def)
  have sv: "\<And>c. c < length (chans w) \<Longrightarrow> length (ch_Buf (chans w ! c)) \<le> ch_Cap (chans w ! c)"
    "\<And>t e. t \<in> set (w_Made w) \<Longrightarrow> e \<in> set (ch_Buf (chans w ! ss_Ch t)) \<or> (ss_Ch t, e) \<in> set (w_Received w)
       \<Longrightarrow> matchesFilter t e \<and> e \<in> set (w_Stored w)"
    "\<forall>(c, ev) \<in> set (w_Received w). c < length (chans w)"
    using assms(1) unfolding served_ok_def by blast+
  have "length buf \<le> ch_Cap (chans w ! ss_Ch s)" using buf sv(1) [OF lt] by blast
  moreover have "matchesFilter s e \<and> e \<in> set (w_Stored w)" if "e \<in> set buf" for e
    using buf that assms(4) sv(2) [OF assms(3)] by (metis Un_iff empty_iff list.set(1) set_ConsD set_append)
  ultimately show ?thesis
    using sv same lt unfolding served_ok_def by (simp add: upd_buf [OF lt]) metis
qed

section \<open>Every step keeps it\<close>

lemma live_owner:
  assumes "bus_inv w" "s \<in> set (live_subs w)"
  shows "s \<in> set (w_Made w)" "ss_Ch s < length (chans w)" "\<not> ch_Closed (chans w ! ss_Ch s)"
proof -
  have "s \<in># mset (live_subs w)" using assms(2) by simp
  then have "ss_Ch s \<in># owners w" unfolding owners_def by simp
  then show "ss_Ch s < length (chans w)" "\<not> ch_Closed (chans w ! ss_Ch s)"
    using assms(1) by (auto simp: bus_inv_def owners_ok_def)
  show "s \<in> set (w_Made w)" using assms by (auto simp: bus_inv_def subs_ok_def)
qed

lemma nth_proc_ok: "bus_inv w \<Longrightarrow> i < length (w_Procs w) \<Longrightarrow> proc_ok w (w_Procs w ! i)"
  by (simp add: bus_inv_def procs_ok_def)

text \<open>What a publisher that holds the lock meets at its next subscription.\<close>

lemma reader_offer:
  assumes inv: "bus_inv w" and r: "at_proc w i (Reading (Some ev) (s # ss))"
  obtains buf where "offer ev s (chans w) = Some ((chans w)[ss_Ch s := (chans w ! ss_Ch s)\<lparr>ch_Buf := buf\<rparr>])"
    "buf = ch_Buf (chans w ! ss_Ch s)
       \<or> matchesFilter s ev \<and> buf = ch_Buf (chans w ! ss_Ch s) @ [ev] \<and> length buf \<le> ch_Cap (chans w ! ss_Ch s)"
    "s \<in> set (w_Made w)" "ev \<in> set (w_Stored w)" "ss_Ch s < length (chans w)"
proof -
  have "s \<in> set (live_subs w)" "ev \<in> set (w_Stored w)"
    using nth_proc_ok [OF inv, of i] r by (auto simp: proc_ok_def)
  then show ?thesis using that live_owner [OF inv] offer_ok [of s "chans w" ev] by blast
qed

text \<open>Changing the contents of one channel.\<close>

lemma set_buf_inv:
  assumes "bus_inv w" "c < length (chans w)" "cs = (chans w)[c := (chans w ! c)\<lparr>ch_Buf := buf\<rparr>]"
    and "served_ok (set_chans cs w)"
  shows "bus_inv (set_chans cs w)"
proof -
  have "proc_ok (set_chans cs w) = proc_ok w" by (rule ext) (simp add: proc_ok_def split: proc.split)
  then have "procs_ok (set_chans cs w)" using assms(1) by (simp add: bus_inv_def procs_ok_def)
  moreover have "owners_ok (set_chans cs w)"
    using assms(1-3) by (simp add: bus_inv_def owners_ok_def upd_buf [OF assms(2)])
  moreover have "subs_ok (set_chans cs w)" using assms(1,3) by (simp add: bus_inv_def subs_ok_def)
  ultimately show ?thesis using assms(1,4) by (simp add: bus_inv_def)
qed

lemma send_inv:
  assumes inv: "bus_inv w" and r: "at_proc w i (Reading (Some ev) (s # ss))" and o: "offer ev s (chans w) = Some cs"
  shows "bus_inv (set_chans cs (set_proc i (Reading (Some ev) ss) w))"
proof -
  let ?w = "set_proc i (Reading (Some ev) ss) w"
  obtain buf where b: "cs = (chans w)[ss_Ch s := (chans w ! ss_Ch s)\<lparr>ch_Buf := buf\<rparr>]"
      "buf = ch_Buf (chans w ! ss_Ch s)
       \<or> matchesFilter s ev \<and> buf = ch_Buf (chans w ! ss_Ch s) @ [ev] \<and> length buf \<le> ch_Cap (chans w ! ss_Ch s)"
      "s \<in> set (w_Made w)" "ev \<in> set (w_Stored w)" "ss_Ch s < length (chans w)"
    using reader_offer [OF inv r] o by (metis option.inject)
  have "proc_ok w (Reading (Some ev) ss)" using nth_proc_ok [OF inv, of i] r by (simp add: proc_ok_def)
  then have i: "bus_inv ?w" using inv by (intro set_proc_inv)
  have "served_ok (set_chans ((chans ?w)[ss_Ch s := (chans ?w ! ss_Ch s)\<lparr>ch_Buf := buf\<rparr>]) ?w)"
    using i b(2-4) by (intro served_upd) (simp_all add: bus_inv_def)
  then show ?thesis using set_buf_inv [OF i, of "ss_Ch s" cs buf] b(1,5) by simp
qed

lemma close_inv:
  assumes inv: "bus_inv w" and c: "w_Closing w = xs @ c # ys" "close_chan c (chans w) = Some cs"
  shows "bus_inv (set_chans cs (w\<lparr>w_Closing := xs @ ys\<rparr>))"
proof -
  let ?w = "set_chans cs (w\<lparr>w_Closing := xs @ ys\<rparr>)"
  have cs: "cs = (chans w)[c := (chans w ! c)\<lparr>ch_Closed := True\<rparr>]"
    using c(2) by (simp add: close_chan_def split: if_splits)
  have own: "owners w = add_mset c (owners ?w)"
    by (simp add: owners_def c(1) entering_def set_chans_def)
  have ok: "count (owners w) k \<le> 1" "k \<in># owners w \<Longrightarrow> k < length (chans w) \<and> \<not> ch_Closed (chans w ! k)" for k
    using inv by (simp_all add: bus_inv_def owners_ok_def)
  have lt: "c < length (chans w)" using ok(2) [of c] own by simp
  have sel: "ch_Buf (cs ! k) = ch_Buf (chans w ! k)" "ch_Cap (cs ! k) = ch_Cap (chans w ! k)"
      "k \<noteq> c \<Longrightarrow> cs ! k = chans w ! k" for k
    using lt by (cases "k = c"; simp add: cs)+
  have len: "length cs = length (chans w)" by (simp add: cs)
  have "c \<notin># owners ?w" using ok(1) [of c] own by (simp add: not_in_iff)
  then have "k < length cs \<and> \<not> ch_Closed (cs ! k)" if "k \<in># owners ?w" for k
    using that ok(2) [of k] own len sel(3) [of k] by (cases "k = c") auto
  moreover have "count (owners ?w) k \<le> 1" for k using ok(1) [of k] own by (simp split: if_splits)
  ultimately have "owners_ok ?w" unfolding owners_ok_def by simp
  moreover have "procs_ok ?w"
    using inv by - (rule procs_ok_mono [of w], simp_all add: bus_inv_def)
  moreover have "subs_ok ?w" using inv by (simp add: bus_inv_def subs_ok_def entering_def len)
  moreover have "served_ok ?w" using inv by (simp add: bus_inv_def served_ok_def len sel(1,2))
  ultimately show ?thesis using inv by (simp add: bus_inv_def)
qed

lemma receive_inv:
  assumes inv: "bus_inv w" and c: "c < length (chans w)" "ch_Buf (chans w ! c) = ev # evs"
  shows "bus_inv (set_chans ((chans w)[c := (chans w ! c)\<lparr>ch_Buf := evs\<rparr>]) (w\<lparr>w_Received := w_Received w @ [(c, ev)]\<rparr>))"
proof -
  let ?w1 = "w\<lparr>w_Received := w_Received w @ [(c, ev)]\<rparr>"
  let ?cs = "(chans w)[c := (chans w ! c)\<lparr>ch_Buf := evs\<rparr>]"
  have sv: "\<And>c. c < length (chans w) \<Longrightarrow> length (ch_Buf (chans w ! c)) \<le> ch_Cap (chans w ! c)"
    "\<And>t e. t \<in> set (w_Made w) \<Longrightarrow> e \<in> set (ch_Buf (chans w ! ss_Ch t)) \<or> (ss_Ch t, e) \<in> set (w_Received w)
       \<Longrightarrow> matchesFilter t e \<and> e \<in> set (w_Stored w)"
    "\<forall>(c, ev) \<in> set (w_Received w). c < length (chans w)"
    using inv unfolding bus_inv_def served_ok_def by blast+
  have "length evs \<le> ch_Cap (chans w ! c)" using sv(1) [OF c(1)] c(2) by simp
  moreover have "matchesFilter t e \<and> e \<in> set (w_Stored w)"
    if "t \<in> set (w_Made w)" "e \<in> set (if ss_Ch t = c then evs else ch_Buf (chans w ! ss_Ch t))
         \<or> (ss_Ch t, e) \<in> set (w_Received w) \<or> ss_Ch t = c \<and> e = ev" for t e
    using sv(2) [OF that(1), of e] that(2) c(2) by (auto split: if_splits)
  ultimately have new: "served_ok (set_chans ?cs ?w1)"
    using sv(1,3) c(1) unfolding served_ok_def by (simp add: upd_buf [OF c(1)])
  have "matchesFilter t e \<and> e \<in> set (w_Stored w)"
    if "t \<in> set (w_Made w)" "e \<in> set (ch_Buf (chans w ! ss_Ch t)) \<or> (ss_Ch t, e) \<in> set (w_Received ?w1)" for t e
    using sv(2) [OF that(1), of e] that(2) c(2) by auto
  then have "served_ok ?w1" using sv(1,3) c(1) unfolding served_ok_def by simp
  moreover have "procs_ok ?w1" using inv by - (rule procs_ok_mono [of w], simp_all add: bus_inv_def)
  ultimately have "bus_inv ?w1"
    using inv by (simp add: bus_inv_def subs_ok_def owners_ok_def owners_def entering_def)
  then show ?thesis using set_buf_inv [OF _ _ _ new] c(1) by simp
qed

text \<open>Which channels are owned may only shrink; the bus may get a new map.\<close>

lemma owners_shrink:
  assumes "owners_ok w" "owners w' \<subseteq># owners w" "chans w' = chans w"
  shows "owners_ok w'"
proof -
  have "count (owners w') c \<le> 1" for c
    using assms(1) mset_subset_eq_count [OF assms(2), of c] unfolding owners_ok_def by (meson order_trans)
  then show ?thesis using assms mset_subset_eqD [OF assms(2)] unfolding owners_ok_def by simp
qed

lemma update_subset: "mset (map snd (AList.update i s al)) \<subseteq># add_mset s (mset (map snd al))"
proof (induction al)
  case (Cons p al)
  then show ?case
    by (cases p) (auto simp: add_mset_commute [of s] intro: subset_mset.order_trans)
qed simp

lemma delete_subset: "map_of al i = Some s \<Longrightarrow> add_mset s (mset (map snd (AList.delete i al))) \<subseteq># mset (map snd al)"
proof (induction al)
  case (Cons p al)
  obtain j t where p: "p = (j, t)" by (cases p)
  have le: "mset (map snd (AList.delete i al)) \<subseteq># mset (map snd al)" for al :: "('b \<times> 'a) list"
    by (simp add: AList.delete_eq image_mset_subseteq_mono)
  show ?case
    using Cons p le [of al] by (cases "j = i") (auto simp: AList.delete_eq add_mset_commute [of s])
qed simp

lemma apply_write_inv:
  assumes inv: "bus_inv w" and q: "w_Writer w = Some q" "no_readers w"
    and ps: "list_all2 (resumed (apply_write q w)) (w_Procs w) ps"
  shows "bus_inv ((apply_write q w)\<lparr>w_Writer := None, w_Procs := ps\<rparr>)"
proof -
  let ?w = "(apply_write q w)\<lparr>w_Writer := None, w_Procs := ps\<rparr>"
  have same: "chans ?w = chans w" "w_Stored ?w = w_Stored w" "w_Made ?w = w_Made w" "w_Received ?w = w_Received w"
    "w_Panic ?w = w_Panic w" "holds_history (w_Bus ?w) = holds_history (w_Bus w)" "w_Opening ?w = w_Opening w"
    by (cases q; simp add: link_def unlink_def holds_history_def fun_eq_iff split: option.split)+
  have own: "owners ?w \<subseteq># owners w \<and> set (live_subs ?w) \<subseteq> set (entering w) \<union> set (live_subs w)"
  proof (cases q)
    case (Insert s)
    have "mset (live_subs ?w) \<subseteq># add_mset s (mset (live_subs w))"
      using update_subset [of "ss_ID s" s "bus_Subs (w_Bus w)"] by (simp add: Insert link_def)
    then have m: "mset (live_subs ?w) \<subseteq># mset (entering w) + mset (live_subs w)"
      using q(1) by (simp add: entering_def Insert)
    have "image_mset ss_Ch (mset (live_subs ?w)) \<subseteq># image_mset ss_Ch (mset (entering w) + mset (live_subs w))"
      using m by (rule image_mset_subseteq_mono)
    moreover have "set (live_subs ?w) \<subseteq> set (entering w) \<union> set (live_subs w)"
      using set_mset_mono [OF m] by simp
    ultimately show ?thesis using same(7) by (simp add: owners_def entering_def Insert del: mset_map)
  next
    case (Remove i)
    show ?thesis
    proof (cases "map_of (bus_Subs (w_Bus w)) i")
      case None
      then show ?thesis using q(1) Remove by (simp add: owners_def entering_def)
    next
      case (Some s)
      have d: "add_mset s (mset (live_subs ?w)) \<subseteq># mset (live_subs w)"
        using delete_subset [OF Some] by (simp add: Remove Some unlink_def)
      have "add_mset (ss_Ch s) (image_mset ss_Ch (mset (live_subs ?w))) \<subseteq># image_mset ss_Ch (mset (live_subs w))"
        using image_mset_subseteq_mono [OF d, of ss_Ch] by simp
      moreover have "set (live_subs ?w) \<subseteq> set (live_subs w)" using set_mset_mono [OF d] by simp
      ultimately show ?thesis using q(1) Remove Some by (simp add: owners_def entering_def unlink_def)
    qed
  qed
  have "owners_ok ?w" using owners_shrink [of w ?w] inv own same(1) by (simp add: bus_inv_def)
  moreover have "subs_ok ?w"
  proof -
    have "set (w_Opening w) \<union> set (entering w) \<union> set (live_subs w) \<subseteq> set (w_Made w)"
      using inv unfolding bus_inv_def subs_ok_def by blast
    moreover have "set (entering ?w) \<subseteq> {}" by (simp add: entering_def)
    ultimately have "set (w_Opening w) \<union> set (entering ?w) \<union> set (live_subs ?w) \<subseteq> set (w_Made w)"
      using own by blast
    then show ?thesis using inv same unfolding bus_inv_def subs_ok_def by metis
  qed
  moreover have "procs_ok ?w"
  proof -
    have "proc_ok ?w p'" if "p \<in> set (w_Procs w)" "resumed (apply_write q w) p p'" for p p'
    proof -
      have ok: "proc_ok w p" using inv that(1) by (simp add: bus_inv_def procs_ok_def)
      have "\<not> (\<exists>a ss. p = Reading a ss)" using q(2) that(1) by (auto simp: no_readers_def)
      then show ?thesis
        using ok that(2) same(2) visits_set [of _ _ "apply_write q w"]
        by (cases p) (fastforce simp: resumed_def proc_ok_def)+
    qed
    then show ?thesis using ps unfolding procs_ok_def by (auto simp: list_all2_conv_all_nth in_set_conv_nth) (metis nth_mem)
  qed
  moreover have "served_ok ?w" using inv same by (simp add: bus_inv_def served_ok_def)
  ultimately show ?thesis using inv same by (simp add: bus_inv_def)
qed

lemma make_inv:
  assumes inv: "bus_inv w" and m: "newSubscription level escrow (w_Bus w) = Some (b, s)"
  shows "bus_inv (w\<lparr>w_Bus := b, w_Opening := w_Opening w @ [s], w_Made := w_Made w @ [s]\<rparr>)"
proof -
  let ?w = "w\<lparr>w_Bus := b, w_Opening := w_Opening w @ [s], w_Made := w_Made w @ [s]\<rparr>"
  have b: "ss_Ch s = length (chans w)" "bus_Subs b = bus_Subs (w_Bus w)"
      "bus_Chans b = chans w @ [\<lparr>ch_Cap = nat (bus_BufferSize (w_Bus w)), ch_Buf = [], ch_Closed = False\<rparr>]"
      "holds_history b = holds_history (w_Bus w)"
    using m by (auto simp: newSubscription_def Let_def subID_total holds_history_def fun_eq_iff)
  have ch: "length (chans ?w) = Suc (length (chans w))"
      "k < length (chans w) \<Longrightarrow> chans ?w ! k = chans w ! k"
      "ch_Closed (chans ?w ! length (chans w)) = False" "ch_Buf (chans ?w ! length (chans w)) = []" for k
    by (simp_all add: b(3) nth_append)
  have old: "\<forall>t \<in> set (w_Made w). ss_Ch t < length (chans w)" using inv by (simp add: bus_inv_def subs_ok_def)
  have own: "owners ?w = add_mset (ss_Ch s) (owners w)" by (simp add: owners_def entering_def b(2))
  have ok: "count (owners w) k \<le> 1" "k \<in># owners w \<Longrightarrow> k < length (chans w) \<and> \<not> ch_Closed (chans w ! k)" for k
    using inv by (simp_all add: bus_inv_def owners_ok_def)
  have "ss_Ch s \<notin># owners w" using ok(2) [of "ss_Ch s"] b(1) by auto
  then have "count (owners ?w) k \<le> 1" for k using ok(1) [of k] own by (cases "ss_Ch s = k") (simp_all add: not_in_iff)
  moreover have "k < length (chans ?w) \<and> \<not> ch_Closed (chans ?w ! k)" if "k \<in># owners ?w" for k
    using that own ok(2) [of k] ch(1,3) ch(2) [of k] b(1) by auto
  ultimately have "owners_ok ?w" unfolding owners_ok_def by blast
  moreover have "subs_ok ?w"
    using inv old b(1-3) by (auto simp: bus_inv_def subs_ok_def entering_def)
  moreover have "procs_ok ?w"
    using inv b(2) by - (rule procs_ok_mono [of w], simp_all add: bus_inv_def)
  moreover have "served_ok ?w"
  proof -
    have sv: "\<And>c. c < length (chans w) \<Longrightarrow> length (ch_Buf (chans w ! c)) \<le> ch_Cap (chans w ! c)"
      "\<And>t e. t \<in> set (w_Made w) \<Longrightarrow> e \<in> set (ch_Buf (chans w ! ss_Ch t)) \<or> (ss_Ch t, e) \<in> set (w_Received w)
         \<Longrightarrow> matchesFilter t e \<and> e \<in> set (w_Stored w)"
      "\<forall>(c, ev) \<in> set (w_Received w). c < length (chans w)"
      using inv unfolding bus_inv_def served_ok_def by blast+
    have "length (ch_Buf (chans ?w ! c)) \<le> ch_Cap (chans ?w ! c)" if "c < length (chans ?w)" for c
      using that ch sv(1) by (metis le0 less_Suc_eq list.size(3))
    moreover have "matchesFilter t e \<and> e \<in> set (w_Stored w)"
      if "t \<in> set (w_Made ?w)" "e \<in> set (ch_Buf (chans ?w ! ss_Ch t)) \<or> (ss_Ch t, e) \<in> set (w_Received w)" for t e
    proof (cases "t \<in> set (w_Made w)")
      case True
      then show ?thesis using that(2) sv(2) old ch(2) by metis
    next
      case False
      then have "t = s" using that(1) by simp
      then show ?thesis using that(2) b(1) ch(4) sv(3) by auto
    qed
    ultimately show ?thesis using sv(3) ch(1) unfolding served_ok_def by (simp add: less_Suc_eq) blast
  qed
  ultimately show ?thesis using inv by (simp add: bus_inv_def b(4))
qed

lemma announce_inv:
  assumes inv: "bus_inv w" and n: "w_Writer w = None"
  shows "w_Opening w = xs @ s # ys \<Longrightarrow> bus_inv (w\<lparr>w_Writer := Some (Insert s), w_Opening := xs @ ys\<rparr>)"
    and "bus_inv (w\<lparr>w_Writer := Some (Remove i)\<rparr>)"
proof -
  have p: "procs_ok w'" if "w_Procs w' = w_Procs w" "w_Stored w' = w_Stored w" "live_subs w' = live_subs w" for w'
    using that inv n by - (rule procs_ok_mono [of w], simp_all add: bus_inv_def)
  show "bus_inv (w\<lparr>w_Writer := Some (Insert s), w_Opening := xs @ ys\<rparr>)" if o: "w_Opening w = xs @ s # ys"
  proof -
    let ?w = "w\<lparr>w_Writer := Some (Insert s), w_Opening := xs @ ys\<rparr>"
    have "owners ?w = owners w" using n o by (simp add: owners_def entering_def)
    then show ?thesis using inv n o p [of ?w]
      by (simp add: bus_inv_def owners_ok_def subs_ok_def served_ok_def entering_def)
  qed
  show "bus_inv (w\<lparr>w_Writer := Some (Remove i)\<rparr>)"
    using inv n p [of "w\<lparr>w_Writer := Some (Remove i)\<rparr>"]
    by (simp add: bus_inv_def owners_ok_def owners_def subs_ok_def served_ok_def entering_def)
qed

lemma arrive_inv:
  assumes "bus_inv w"
  shows "bus_inv (w\<lparr>w_Bus := storeRecent e (w_Bus w), w_Procs := w_Procs w @ [Arrived (Some e)], w_Stored := w_Stored w @ [e]\<rparr>)"
    and "bus_inv (w\<lparr>w_Procs := w_Procs w @ [Arrived None]\<rparr>)"
proof -
  let ?w = "w\<lparr>w_Bus := storeRecent e (w_Bus w), w_Stored := w_Stored w @ [e]\<rparr>"
  have sv: "served_ok ?w" using assms unfolding bus_inv_def served_ok_def by simp
  have p: "procs_ok ?w" using assms by - (rule procs_ok_mono [of w], auto simp: bus_inv_def)
  have pk: "proc_ok (v\<lparr>w_Procs := ps\<rparr>) = proc_ok v" for v ps
    by (rule ext) (simp add: proc_ok_def split: proc.split)
  have a: "procs_ok (v\<lparr>w_Procs := w_Procs v @ [Arrived b]\<rparr>)" if "procs_ok v" "set_option b \<subseteq> set (w_Stored v)" for v b
    using that by (simp add: procs_ok_def pk) (simp add: proc_ok_def)
  have eq: "w\<lparr>w_Bus := storeRecent e (w_Bus w), w_Procs := w_Procs w @ [Arrived (Some e)], w_Stored := w_Stored w @ [e]\<rparr>
      = ?w\<lparr>w_Procs := w_Procs ?w @ [Arrived (Some e)]\<rparr>" by simp
  show "bus_inv (w\<lparr>w_Bus := storeRecent e (w_Bus w), w_Procs := w_Procs w @ [Arrived (Some e)], w_Stored := w_Stored w @ [e]\<rparr>)"
    unfolding eq using a [OF p, of "Some e"] sv assms storeRecent_history [of "w_Bus w" "w_Stored w" e]
    by (simp add: bus_inv_def owners_ok_def owners_def subs_ok_def served_ok_def entering_def)
  from a [of w None] assms show "bus_inv (w\<lparr>w_Procs := w_Procs w @ [Arrived None]\<rparr>)"
    by (simp add: bus_inv_def owners_ok_def owners_def subs_ok_def served_ok_def entering_def)
qed

lemma bus_inv_act: "bus_act a w w' \<Longrightarrow> bus_inv w \<Longrightarrow> bus_inv w'"
proof (induction rule: bus_act.induct)
  case (rlock w i a ss)
  have "set_option a \<subseteq> set (w_Stored w)" using nth_proc_ok [OF rlock(4), of i] rlock(1) by (simp add: proc_ok_def)
  moreover have "set ss \<subseteq> set (live_subs w) \<and> (a = None \<longrightarrow> ss = [])"
    using rlock(3) by (rule visits_set)
  ultimately show ?case using rlock(4) by (intro set_proc_inv) (simp_all add: proc_ok_def)
next
  case (park w i a)
  then show ?case using nth_proc_ok [OF park(3), of i] by (intro set_proc_inv) (simp_all add: proc_ok_def)
next
  case (send_panic w i ev s ss)
  obtain cs where "offer ev s (chans w) = Some cs" using reader_offer [OF send_panic(3,1)] by metis
  then show ?case using send_panic(2) by simp
next
  case (runlock w i a)
  then show ?case by (intro set_proc_inv) (simp_all add: proc_ok_def)
next
  case (close_panic w xs c ys)
  have "c \<in># owners w" using close_panic(1) by (simp add: owners_def)
  then have "\<not> ch_Closed (chans w ! c)" using close_panic(3) by (simp add: bus_inv_def owners_ok_def)
  then show ?case using close_panic(2) by (simp add: close_chan_def)
qed (simp_all only: arrive_inv send_inv make_inv announce_inv apply_write_inv close_inv receive_inv)

lemma bus_inv_reach: "bus_step\<^sup>*\<^sup>* (start n) w \<Longrightarrow> bus_inv w"
  by (induction rule: rtranclp_induct) (auto simp: bus_step_def intro: bus_inv_start bus_inv_act)

lemma max_recent: "bus_step\<^sup>*\<^sup>* (start n) w \<Longrightarrow> bus_MaxRecent (w_Bus w) = 1000"
proof (induction rule: rtranclp_induct)
  case base
  show ?case by (simp add: start_def NewEventBus_def)
next
  case (step w w')
  have q: "bus_MaxRecent (w_Bus (apply_write q w)) = bus_MaxRecent (w_Bus w)" for q
    by (cases q) (simp_all add: link_def unlink_def split: option.split)
  have "bus_MaxRecent (w_Bus w') = bus_MaxRecent (w_Bus w)" if "bus_act a w w'" for a
    using that by cases (auto simp: q set_chans_def newSubscription_def Let_def subID_total)
  then show ?case using step by (auto simp: bus_step_def)
qed

section \<open>Publishers finish\<close>

text \<open>What a goroutine has left to do under the lock, and how many steps of others and its own a goroutine that
  called \<open>RLock\<close> may still have to wait for.\<close>

fun left :: "proc \<Rightarrow> nat" where
  "left (Reading a ss) = Suc (length ss)"
| "left _ = 0"

definition readers_left :: "world \<Rightarrow> nat" where
  "readers_left w = sum_list (map left (w_Procs w))"

definition delay :: "nat \<Rightarrow> world \<Rightarrow> nat" where
  "delay i w =
     (case w_Procs w ! i of Parked a \<Rightarrow> readers_left w + length (bus_Subs (w_Bus w)) + 3 | p \<Rightarrow> left p)"



definition called :: "nat \<Rightarrow> world \<Rightarrow> bool" where
  "called i w \<longleftrightarrow> i < length (w_Procs w) \<and> (case w_Procs w ! i of Arrived a \<Rightarrow> False | _ \<Rightarrow> True)"




lemma readers_left_frame [simp]:
  "readers_left (set_chans cs w) = readers_left w" "called i (set_chans cs w) = called i w"
  "delay i (set_chans cs w) = delay i w"
  by (simp_all add: readers_left_def called_def delay_def split: proc.split)










section \<open>Properties\<close>

text \<open>C15: However publishers, subscribers, unsubscribers and readers interleave, the bus never panics (no
  send on a closed channel, no channel closed twice, no index out of range), no channel holds more
  than its capacity, no two subscriptions share a channel, and a subscriber finds in its channel
  only published events that match its filter, also after it unsubscribed.\<close>

theorem bus_safe:
  assumes "bus_step\<^sup>*\<^sup>* (start n) w"
  shows "\<not> w_Panic w \<and> (\<forall>c < length (chans w). length (ch_Buf (chans w ! c)) \<le> ch_Cap (chans w ! c))
    \<and> distinct (map ss_Ch (w_Made w))
    \<and> (\<forall>s \<in> set (w_Made w). \<forall>ev. ev \<in> set (ch_Buf (chans w ! ss_Ch s)) \<or> (ss_Ch s, ev) \<in> set (w_Received w)
         \<longrightarrow> matchesFilter s ev \<and> ev \<in> set (w_Stored w))"
  using bus_inv_reach [OF assms] unfolding bus_inv_def subs_ok_def served_ok_def by blast

definition sample_event :: event where
  "sample_event = \<lparr>ev_Name = ''escrow.funded'', ev_Escrow = ''0xe1'', ev_Level = L1, ev_Block = 5,
     ev_Timestamp = Some 9, ev_ID = ''0x1-0'', ev_Payload = []\<rparr>"

definition sample_sub :: subscription where
  "sample_sub = \<lparr>ss_ID = ''sub-1'', ss_Ch = 0, ss_MaxLevel = L1, ss_Escrow = ''0xe1''\<rparr>"

definition sample_bus :: event_bus where
  "sample_bus = (NewEventBus 4)\<lparr>bus_NextID := 1, bus_Subs := [(''sub-1'', sample_sub)],
     bus_Chans := [\<lparr>ch_Cap = 4, ch_Buf = [], ch_Closed = False\<rparr>]\<rparr>"

definition sample_world :: world where
  "sample_world = (start 4)\<lparr>w_Bus := storeRecent sample_event sample_bus, w_Made := [sample_sub],
     w_Procs := [Arrived (Some sample_event)], w_Stored := [sample_event]\<rparr>"

lemma sample_reach: "bus_step\<^sup>*\<^sup>* (start 4) sample_world"
proof -
  let ?b0 = "(NewEventBus 4)\<lparr>bus_NextID := 1, bus_Chans := [\<lparr>ch_Cap = 4, ch_Buf = [], ch_Closed = False\<rparr>]\<rparr>"
  let ?w1 = "(start 4)\<lparr>w_Bus := ?b0, w_Opening := [sample_sub], w_Made := [sample_sub]\<rparr>"
  let ?w2 = "?w1\<lparr>w_Writer := Some (Insert sample_sub), w_Opening := []\<rparr>"
  let ?w3 = "(apply_write (Insert sample_sub) ?w2)\<lparr>w_Writer := None, w_Procs := []\<rparr>"
  have "subID 1 = Some ''sub-1''" by code_simp
  then have "newSubscription L1 ''0xe1'' (w_Bus (start 4)) = Some (?b0, sample_sub)"
    by (simp add: newSubscription_def start_def NewEventBus_def sample_sub_def normalizeEscrowFilter_def Let_def)
  then have 1: "bus_step (start 4) ?w1"
    using bus_act.make [of L1 "''0xe1''" "start 4"] by (auto simp: bus_step_def start_def)
  have 2: "bus_step ?w1 ?w2"
    using bus_act.announce_insert [of ?w1 "[]" sample_sub "[]"] by (auto simp: bus_step_def start_def)
  have 3: "bus_step ?w2 ?w3"
    using bus_act.unlock [of ?w2 "Insert sample_sub" "apply_write (Insert sample_sub) ?w2" "[]"]
    by (auto simp: bus_step_def start_def no_readers_def)
  have "w_Bus ?w3 = sample_bus" by (simp add: link_def sample_bus_def sample_sub_def NewEventBus_def)
  moreover have "stamp 9 sample_event = sample_event" by (simp add: stamp_def sample_event_def)
  ultimately have 4: "bus_step ?w3 sample_world"
    using bus_act.store [of ?w3 9 sample_event]
    by (auto simp: bus_step_def sample_world_def start_def)
  from 1 2 3 4 show ?thesis by (meson rtranclp.rtrancl_into_rtrancl rtranclp.rtrancl_refl)
qed

lemma sample_world_sel [simp]:
  "w_Procs sample_world = [Arrived (Some sample_event)]" "w_Stored sample_world = [sample_event]"
  "live_subs sample_world = [sample_sub]" "w_Made sample_world = [sample_sub]" "w_Writer sample_world = None"
  by (simp_all add: sample_world_def start_def sample_bus_def)

theorem bus_safe_witness: "\<not> w_Panic sample_world"
  using bus_safe [OF sample_reach] by blast



text \<open>C17: The ring buffer refines the history of published events: a poll is answered as if all of it were
  kept, from the last 1000 events or, when the caller's last event id is still among them, from the
  events after it, filtered and cut at the limit. With unique event ids a poll never returns an event
  the caller has seen, not even when that id has been dropped from the buffer.\<close>

theorem recent_events_refine:
  assumes "bus_step\<^sup>*\<^sup>* (start n) w" and "distinct (map ev_ID (w_Stored w))"
  shows "RecentEvents escrow maxLevel sinceID limit (w_Bus w) =
      take (effective limit) (filter (wanted (normalizeEscrowFilter escrow) maxLevel)
        (if sinceID \<noteq> [] \<and> sinceID \<in> ev_ID ` set (last_n 1000 (w_Stored w)) then after_id sinceID (w_Stored w)
         else last_n 1000 (w_Stored w)))
    \<and> (\<forall>seen e unseen. w_Stored w = seen @ e # unseen \<and> ev_ID e = sinceID \<and> sinceID \<noteq> []
         \<longrightarrow> set (RecentEvents escrow maxLevel sinceID limit (w_Bus w)) \<subseteq> set unseen)"
proof -
  have kept: "bus_Recent (w_Bus w) = last_n 1000 (w_Stored w)"
    using bus_inv_reach [OF assms(1)] max_recent [OF assms(1)] by (simp add: bus_inv_def holds_history_def)
  have eq: "RecentEvents escrow maxLevel sinceID limit (w_Bus w) =
      take (effective limit) (filter (wanted (normalizeEscrowFilter escrow) maxLevel)
        (if sinceID \<noteq> [] \<and> sinceID \<in> ev_ID ` set (last_n 1000 (w_Stored w)) then after_id sinceID (w_Stored w)
         else last_n 1000 (w_Stored w)))"
    unfolding RecentEvents_eq kept using after_id_drop [OF assms(2)] by (auto simp: last_n_def)
  have tk: "set (take k (filter p es)) \<subseteq> set es" for k p and es :: "event list"
    using set_take_subset filter_is_subset by (rule order_trans)
  have "set (RecentEvents escrow maxLevel sinceID limit (w_Bus w)) \<subseteq> set unseen"
    if h: "w_Stored w = seen @ e # unseen" "ev_ID e = sinceID" "sinceID \<noteq> []" for seen e unseen
  proof (cases "sinceID \<in> ev_ID ` set (last_n 1000 (w_Stored w))")
    case True
    have "after_id sinceID (w_Stored w) = unseen" using after_id_split [of seen e unseen] assms(2) h by simp
    then show ?thesis unfolding eq using True h(3) tk by simp
  next
    case False
    let ?k = "length (w_Stored w) - 1000"
    have "length seen < ?k"
    proof (rule ccontr)
      assume "\<not> length seen < ?k"
      then have "e \<in> set (drop ?k (seen @ e # unseen))" by simp
      then show False using False unfolding last_n_def h(1) h(2) [symmetric] by blast
    qed
    then have "set (drop ?k (seen @ e # unseen)) \<subseteq> set unseen"
      by (cases "?k - length seen") (auto dest: in_set_dropD)
    then have "set (last_n 1000 (w_Stored w)) \<subseteq> set unseen" unfolding last_n_def h(1) by simp
    moreover have "\<not> (sinceID \<noteq> [] \<and> sinceID \<in> ev_ID ` set (last_n 1000 (w_Stored w)))" using False by blast
    ultimately show ?thesis unfolding eq by (simp only: if_False) (rule order_trans [OF tk])
  qed
  then show ?thesis using eq by blast
qed

theorem recent_events_refine_witness:
  "RecentEvents ''0xe1'' L1 [] 10 (w_Bus sample_world) = [sample_event]"
proof -
  have "distinct (map ev_ID (w_Stored sample_world))" by simp
  moreover have "wanted (normalizeEscrowFilter ''0xe1'') L1 sample_event" by code_simp
  ultimately show ?thesis
    using recent_events_refine [OF sample_reach, of "''0xe1''" L1 "[]" 10]
    by (simp add: last_n_def effective_def)
qed

end
