(* ===== verification/Indexer.thy ===== *)
theory Indexer
  imports Storage Chain Events
begin

text \<open>
  \<open>internal/indexer/indexer.go\<close>: the copy of on-chain events into the database. Decoding of event data
  (go-ethereum's ABI code on the contracts' generated ABI) and the node are parameters; \<open>None\<close> is a
  panic (the topics of a log are indexed without a check). The state is the database with the events
  handed to the bus.
\<close>

section \<open>Parameters\<close>

datatype abi_value = AAddr addr | AUint8 byte | AUint16 "16 word" | AUint64 uint64 | ABytes32 hash
  | AString string | ABig int | AAddrs "addr list"

text \<open>\<open>%T\<close> of a decoded value.\<close>

fun go_type :: "abi_value \<Rightarrow> string" where
  "go_type (AAddr a) = ''common.Address''"
| "go_type (AUint8 b) = ''uint8''"
| "go_type (AUint16 w) = ''uint16''"
| "go_type (AUint64 w) = ''uint64''"
| "go_type (ABytes32 h) = ''[32]uint8''"
| "go_type (AString s) = ''string''"
| "go_type (ABig i) = ''*big.Int''"
| "go_type (AAddrs as) = ''[]common.Address''"

text \<open>\<open>Unpack\<close> is for the arguments that are not indexed, with \<open>InputNames\<close> their names; it answers with
  one value per name. \<open>UnpackInputs\<close> is for all arguments.\<close>

record contract_abi =
  EventByID :: "hash \<Rightarrow> gerr + string"
  EventID :: "string \<Rightarrow> hash"
  Unpack :: "string \<Rightarrow> byte list \<Rightarrow> gerr + abi_value list"
  UnpackInputs :: "string \<Rightarrow> byte list \<Rightarrow> gerr + abi_value list"
  InputNames :: "string \<Rightarrow> string list"

record chain_log_entry = log_entry +
  lg_BlockNumber :: uint64
  lg_TxHash :: hash
  lg_Index :: uint64

text \<open>\<open>view_Call\<close> packs a call without arguments, makes it and unpacks what it returns.\<close>

record chain_view =
  view_BlockNumber :: "gerr + uint64"
  view_FilterLogs :: "addr list \<Rightarrow> hash list \<Rightarrow> uint64 \<Rightarrow> uint64 \<Rightarrow> gerr + chain_log_entry list"
  view_Call :: "addr \<Rightarrow> string \<Rightarrow> gerr + abi_value list"

record indexer =
  ix_L :: eth_lib
  ix_FactoryABI :: contract_abi
  ix_EscrowABI :: contract_abi
  ix_MarshalLog :: "chain_log_entry \<Rightarrow> gerr + string"
  ix_Chain :: "chain_view option"
  ix_FactoryAddress :: addr
  ix_ChainID :: int
  ix_StartBlock :: uint64
  ix_Bus :: bool
  ix_Now :: int

definition cursorKey :: string where
  "cursorKey = ''indexer''"

definition defaultLookback :: uint64 where
  "defaultLookback = 250"

definition eventStatusMap :: "string \<Rightarrow> string option" where
  "eventStatusMap = map_of
     [(''EscrowFunded'', ''funded''), (''SubmissionMade'', ''submitted''), (''Approved'', ''approved''),
      (''Rejected'', ''disputed''), (''Disputed'', ''disputed''), (''SilenceEscalated'', ''disputed''),
      (''DisputeResolved'', ''resolved''), (''Settled'', ''settled''), (''Refunded'', ''refunded''),
      (''Cancelled'', ''cancelled''), (''ArbitratorTimeoutClaimed'', ''refunded''),
      (''EmergencyResolved'', ''resolved'')]"

definition milestoneStatusMap :: "string \<Rightarrow> string option" where
  "milestoneStatusMap = map_of
     [(''MilestoneSubmitted'', ''submitted''), (''MilestoneApproved'', ''approved''),
      (''MilestoneRejected'', ''disputed''), (''MilestoneDisputed'', ''disputed''),
      (''MilestoneSilenceEscalated'', ''disputed''), (''MilestoneDisputeResolved'', ''resolved''),
      (''MilestoneSettled'', ''settled''), (''MilestoneCancelled'', ''cancelled'')]"

definition terminalStatuses :: "string \<Rightarrow> bool" where
  "terminalStatuses s \<longleftrightarrow> s \<in> {''settled'', ''refunded'', ''cancelled''}"

section \<open>Reading a log\<close>

definition no_topics :: "string \<Rightarrow> nat \<Rightarrow> nat \<Rightarrow> gerr" where
  "no_topics f got need =
     errors_New (f @ '': insufficient topics (got '' @ nat_str got @ '', need >= '' @ nat_str need @ '')'')"

definition bad_type :: "string \<Rightarrow> string \<Rightarrow> abi_value \<Rightarrow> gerr" where
  "bad_type pre field v = errors_New (pre @ ''unexpected type for '' @ field @ '': '' @ go_type v)"

definition as_addr :: "string \<Rightarrow> string \<Rightarrow> abi_value \<Rightarrow> gerr + addr" where
  "as_addr pre field v = (case v of AAddr a \<Rightarrow> Inr a | _ \<Rightarrow> Inl (bad_type pre field v))"

definition as_uint8 :: "string \<Rightarrow> string \<Rightarrow> abi_value \<Rightarrow> gerr + byte" where
  "as_uint8 pre field v = (case v of AUint8 b \<Rightarrow> Inr b | _ \<Rightarrow> Inl (bad_type pre field v))"

definition as_uint16 :: "string \<Rightarrow> string \<Rightarrow> abi_value \<Rightarrow> gerr + 16 word" where
  "as_uint16 pre field v = (case v of AUint16 b \<Rightarrow> Inr b | _ \<Rightarrow> Inl (bad_type pre field v))"

definition as_uint64 :: "string \<Rightarrow> string \<Rightarrow> abi_value \<Rightarrow> gerr + uint64" where
  "as_uint64 pre field v = (case v of AUint64 b \<Rightarrow> Inr b | _ \<Rightarrow> Inl (bad_type pre field v))"

definition as_bytes32 :: "string \<Rightarrow> string \<Rightarrow> abi_value \<Rightarrow> gerr + hash" where
  "as_bytes32 pre field v = (case v of ABytes32 b \<Rightarrow> Inr b | _ \<Rightarrow> Inl (bad_type pre field v))"

definition as_string :: "string \<Rightarrow> string \<Rightarrow> abi_value \<Rightarrow> gerr + string" where
  "as_string pre field v = (case v of AString b \<Rightarrow> Inr b | _ \<Rightarrow> Inl (bad_type pre field v))"

text \<open>The address in a topic, in its checksummed form.\<close>

definition topic_addr :: "indexer \<Rightarrow> chain_log_entry \<Rightarrow> nat \<Rightarrow> string" where
  "topic_addr X lg i = AddressHex (ix_L X) (BytesToAddress (ix_L X) (lg_Topics lg ! i))"

definition topic_int64 :: "chain_log_entry \<Rightarrow> nat \<Rightarrow> gerr + int" where
  "topic_int64 lg i =
     (let n = SetBytes (lg_Topics lg ! i) in
      if n \<ge> 2 ^ 63 then Inl (errors_New (''escrowID overflows int64: '' @ int_str n)) else Inr n)"

definition hex0x :: "hash \<Rightarrow> string" where
  "hex0x h = ''0x'' @ EncodeToString h"

definition extractMilestoneIndex :: "chain_log_entry \<Rightarrow> gerr + int" where
  "extractMilestoneIndex lg =
     (if length (lg_Topics lg) < 2
      then Inl (errors_New (''insufficient topics for milestone index (got '' @ nat_str (length (lg_Topics lg)) @ '')''))
      else let n = SetBytes (lg_Topics lg ! 1) in
        if n \<ge> 2 ^ 63 \<or> n > 255 then Inl (errors_New (''milestone index out of range: '' @ int_str n))
        else Inr n)"

text \<open>The first string argument whose name speaks of a URI or a reason; a failure to decode gives none.\<close>

definition reason_uri :: "indexer \<Rightarrow> string \<Rightarrow> chain_log_entry \<Rightarrow> string" where
  "reason_uri X eventName lg =
     (let names = InputNames (ix_EscrowABI X) eventName in
      if names = [] then []
      else case Unpack (ix_EscrowABI X) eventName (lg_Data lg) of
        Inl _ \<Rightarrow> []
      | Inr values \<Rightarrow>
          (case find (\<lambda>(n, v). (Contains (ToLower n) ''uri'' \<or> Contains (ToLower n) ''reason'')
                  \<and> (case v of AString _ \<Rightarrow> True | _ \<Rightarrow> False)) (zip names values) of
             Some (_, AString s) \<Rightarrow> s
           | _ \<Rightarrow> []))"

section \<open>Handlers of factory events\<close>

definition quorum_panel :: "indexer \<Rightarrow> chain_view \<Rightarrow> addr \<Rightarrow> string \<times> string" where
  "quorum_panel X C escrow =
     (case view_Call C escrow ''getQuorumPanel'' of
        Inr [AAddrs panel] \<Rightarrow>
          let lowerPanel = map (\<lambda>a. ToLower (AddressHex (ix_L X) a)) panel in
          (if lowerPanel \<noteq> [] then hd lowerPanel else [],
           ''['' @ Join (map json_quote lowerPanel) '','' @ '']'')
      | _ \<Rightarrow> ([], []))"

definition verifier_stake :: "chain_view \<Rightarrow> addr \<Rightarrow> string" where
  "verifier_stake C escrow =
     (case view_Call C escrow ''verifierStakePerVerifier'' of Inr [ABig stake] \<Rightarrow> int_str stake | _ \<Rightarrow> [])"

definition indexed_escrow ::
    "indexer \<Rightarrow> chain_view \<Rightarrow> chain_log_entry \<Rightarrow> int \<Rightarrow> int \<Rightarrow> addr \<Rightarrow> byte \<Rightarrow> byte \<Rightarrow> addr \<Rightarrow> addr \<Rightarrow> byte
      \<Rightarrow> addr \<Rightarrow> hash \<Rightarrow> escrow" where
  "indexed_escrow X C lg taskID escrowID worker threshold verifiers arbitrator token tier zk circuit =
     (let L = ix_L X; escrowAddr = BytesToAddress L (lg_Topics lg ! 2); panel = quorum_panel X C escrowAddr in
      blank_escrow\<lparr>esc_TaskID := taskID, esc_ChainID := ix_ChainID X,
        esc_FactoryAddress := AddressHex L (ix_FactoryAddress X), esc_EscrowAddress := AddressHex L escrowAddr,
        esc_EscrowID := escrowID, esc_Buyer := topic_addr X lg 3, esc_Worker := AddressHex L worker,
        esc_Verifier := fst panel, esc_VerifierPanelJSON := snd panel, esc_QuorumThreshold := uint threshold,
        esc_QuorumVerifierCount := uint verifiers, esc_VerifierStakePerVerifier := verifier_stake C escrowAddr,
        esc_Arbitrator := AddressHex L arbitrator, esc_Amount := ''0'', esc_Token := AddressHex L token,
        esc_Status := ''created'', esc_SubmissionDeadline := 0, esc_ServiceTier := uint tier,
        esc_ZKVerifier := AddressHex L zk, esc_CircuitID := hex0x circuit\<rparr>)"

definition handleEscrowCreated :: "indexer \<Rightarrow> chain_view \<Rightarrow> chain_log_entry \<Rightarrow> db \<Rightarrow> unit result" where
  "handleEscrowCreated X C lg d =
     (if length (lg_Topics lg) < 4 then (d, Inl (errors_New ''insufficient topics''))
      else orFail d id (topic_int64 lg 1) (\<lambda>escrowID.
      orFail d (wrap ''unpack EscrowCreated'') (Unpack (ix_FactoryABI X) ''EscrowCreated'' (lg_Data lg)) (\<lambda>values.
      if length values < 9
      then (d, Inl (errors_New (''EscrowCreated: expected 9 non-indexed values, got '' @ nat_str (length values))))
      else
        orFail d id (as_addr [] ''worker'' (values ! 0)) (\<lambda>worker.
        orFail d id (as_uint8 [] ''quorumThreshold'' (values ! 1)) (\<lambda>threshold.
        orFail d id (as_uint8 [] ''quorumVerifierCount'' (values ! 2)) (\<lambda>verifiers.
        orFail d id (as_addr [] ''arbitrator'' (values ! 3)) (\<lambda>arbitrator.
        orFail d id (as_bytes32 [] ''taskSpecHash'' (values ! 4)) (\<lambda>spec.
        orFail d id (as_addr [] ''token'' (values ! 5)) (\<lambda>token.
        orFail d id (as_uint8 [] ''serviceTier'' (values ! 6)) (\<lambda>tier.
        orFail d id (as_addr [] ''zkVerifier'' (values ! 7)) (\<lambda>zk.
        orFail d id (as_bytes32 [] ''circuitId'' (values ! 8)) (\<lambda>circuit.
          case GetEscrowByAddress d (topic_addr X lg 2) of
            Inr _ \<Rightarrow> (d, Inr ())
          | Inl e \<Rightarrow>
              if \<not> errors_is e ErrNoRows
              then (d, Inl (wrap (''check existing escrow '' @ topic_addr X lg 2) e))
              else andThen (mapErr (wrap ''create task'') (createTaskOn (ix_Now X) ''Indexed task'' [] (hex0x spec) d))
                (\<lambda>d1 t. andThen (createEscrowOn (ix_Now X)
                   (indexed_escrow X C lg (tsk_ID t) escrowID worker threshold verifiers arbitrator token tier zk circuit) d1)
                   (\<lambda>d2 _. (d2, Inr ())))))))))))))))"

definition handleOutcomeRecorded :: "indexer \<Rightarrow> chain_log_entry \<Rightarrow> db \<Rightarrow> unit result" where
  "handleOutcomeRecorded X lg d =
     (if length (lg_Topics lg) < 3 then (d, Inl (no_topics ''OutcomeRecorded'' (length (lg_Topics lg)) 3))
      else orFail d (wrap ''unpack OutcomeRecorded'') (Unpack (ix_FactoryABI X) ''OutcomeRecorded'' (lg_Data lg)) (\<lambda>values.
      if length values < 2
      then (d, Inl (errors_New (''OutcomeRecorded: expected 2 non-indexed values, got '' @ nat_str (length values))))
      else
        orFail d id (as_string ''OutcomeRecorded: '' ''role'' (values ! 0)) (\<lambda>role.
        orFail d id (as_string ''OutcomeRecorded: '' ''outcome'' (values ! 1)) (\<lambda>outcome.
        orFail d id (UintToInt (lg_Index lg) ''log index'') (\<lambda>logIndex.
        orFail d id (Uint64ToInt64 (lg_BlockNumber lg) ''block number'') (\<lambda>blockNumber.
          RecordReputationOutcome (ix_Now X) (ix_Now X)
            (Some \<lparr>rev_ID = 0, rev_Address = ToLower (topic_addr X lg 2), rev_Role = role, rev_Outcome = outcome,
                   rev_TxHash = HashHex (ix_L X) (lg_TxHash lg), rev_LogIndex = sint logIndex,
                   rev_BlockNumber = sint blockNumber, rev_OccurredAt = zero_time, rev_CreatedAt = zero_time\<rparr>) d))))))"

definition handleAddressFrozen :: "indexer \<Rightarrow> chain_log_entry \<Rightarrow> bool \<Rightarrow> db \<Rightarrow> unit result" where
  "handleAddressFrozen X lg frozen d =
     (if length (lg_Topics lg) < 2 then (d, Inl (errors_New ''AddressFrozen/Unfrozen: insufficient topics''))
      else let a = ToLower (topic_addr X lg 1); tx = HashHex (ix_L X) (lg_TxHash lg); now = ix_Now X in
        if frozen
        then (CreateEmergencyAction now ''freeze_address'' a [] [] tx (UpsertFrozenAddress now a [] ''indexer'' d), Inr ())
        else (CreateEmergencyAction now ''unfreeze_address'' a [] [] tx (DeleteFrozenAddress a d), Inr ()))"

definition handleEscrowFrozenFactory :: "indexer \<Rightarrow> chain_log_entry \<Rightarrow> bool \<Rightarrow> db \<Rightarrow> unit result" where
  "handleEscrowFrozenFactory X lg frozen d =
     (if length (lg_Topics lg) < 2 then (d, Inl (errors_New ''EscrowFrozen/Unfrozen: insufficient topics''))
      else orFail d id (topic_int64 lg 1) (\<lambda>n.
      orFail d (wrap ''lookup escrow for freeze'') (GetEscrowByOnChainID d (ix_ChainID X) n) (\<lambda>e.
        (CreateEmergencyAction (ix_Now X) (if frozen then ''freeze_escrow'' else ''unfreeze_escrow'')
           (esc_EscrowAddress e) [] [] (HashHex (ix_L X) (lg_TxHash lg))
           (UpdateEscrowFrozen (ix_Now X) (esc_ID e) frozen d), Inr ()))))"

definition resolve_and_revoke :: "int \<Rightarrow> int \<Rightarrow> db \<Rightarrow> db" where
  "resolve_and_revoke now i d =
     fst (RevokeDCTTokensByEscrow now i ''emergency_resolved'' ''indexer'' (UpdateEscrowStatus now i ''resolved'' d))"

definition handleEmergencyResolvedFactory :: "indexer \<Rightarrow> chain_log_entry \<Rightarrow> db \<Rightarrow> unit result" where
  "handleEmergencyResolvedFactory X lg d =
     (if length (lg_Topics lg) < 2 then (d, Inl (errors_New ''EmergencyResolved: insufficient topics''))
      else orFail d id (topic_int64 lg 1) (\<lambda>n.
      orFail d (wrap ''unpack EmergencyResolved'') (Unpack (ix_FactoryABI X) ''EmergencyResolved'' (lg_Data lg)) (\<lambda>values.
      if length values < 1 then (d, Inl (errors_New ''EmergencyResolved: missing workerAwardBps''))
      else orFail d id (as_uint16 ''EmergencyResolved: '' ''workerAwardBps'' (values ! 0)) (\<lambda>bps.
      orFail d (wrap ''lookup escrow for emergency resolve'') (GetEscrowByOnChainID d (ix_ChainID X) n) (\<lambda>e.
        (CreateEmergencyAction (ix_Now X) ''emergency_resolve'' (esc_EscrowAddress e) []
           (''workerAwardBps='' @ int_str (uint bps)) (HashHex (ix_L X) (lg_TxHash lg))
           (resolve_and_revoke (ix_Now X) (esc_ID e) d), Inr ()))))))"

section \<open>Handlers of escrow events\<close>

definition handleSubmission :: "indexer \<Rightarrow> chain_log_entry \<Rightarrow> int \<Rightarrow> db \<Rightarrow> unit result" where
  "handleSubmission X lg i d =
     orFail d (wrap ''unpack SubmissionMade'') (Unpack (ix_EscrowABI X) ''SubmissionMade'' (lg_Data lg)) (\<lambda>values.
     if length values < 3
     then (d, Inl (errors_New (''SubmissionMade: expected 3 values, got '' @ nat_str (length values))))
     else
       orFail d id (as_bytes32 ''SubmissionMade: '' ''submissionHash'' (values ! 0)) (\<lambda>h.
       orFail d id (as_string ''SubmissionMade: '' ''submissionURI'' (values ! 1)) (\<lambda>uri.
       orFail d id (as_bytes32 ''SubmissionMade: '' ''proofHash'' (values ! 2)) (\<lambda>pf.
         andThen (CreateSubmission (ix_Now X) i (hex0x h) uri (hex0x pf) d) (\<lambda>d1 _. (d1, Inr ()))))))"

definition handleDispute :: "indexer \<Rightarrow> chain_log_entry \<Rightarrow> int \<Rightarrow> string \<Rightarrow> db \<Rightarrow> unit result" where
  "handleDispute X lg i eventName d =
     (if length (lg_Topics lg) < 2 then (d, Inl (no_topics ''handleDispute'' (length (lg_Topics lg)) 2))
      else andThen (CreateDispute (ix_Now X) i (topic_addr X lg 1) (reason_uri X eventName lg) d)
             (\<lambda>d1 _. (d1, Inr ())))"

text \<open>The open dispute of the escrow, a new one if there is none, gets its resolution.\<close>

definition resolve_dispute :: "indexer \<Rightarrow> int \<Rightarrow> int \<Rightarrow> string \<Rightarrow> db \<Rightarrow> unit result" where
  "resolve_dispute X i bps uri d =
     (case GetDisputeByEscrowID d i of
        Inr r \<Rightarrow> (UpdateDispute (ix_Now X) (dsp_ID r) uri bps d, Inr ())
      | Inl _ \<Rightarrow>
          andThen (CreateDispute (ix_Now X) i ''arbitrator'' uri d) (\<lambda>d1 _.
            orFail d1 (wrap ''get newly created dispute'') (GetDisputeByEscrowID d1 i) (\<lambda>r.
              (UpdateDispute (ix_Now X) (dsp_ID r) uri bps d1, Inr ()))))"

definition award_and_uri :: "indexer \<Rightarrow> string \<Rightarrow> chain_log_entry \<Rightarrow> gerr + 16 word \<times> string" where
  "award_and_uri X eventName lg =
     (case Unpack (ix_EscrowABI X) eventName (lg_Data lg) of
        Inl e \<Rightarrow> Inl (wrap (''unpack '' @ eventName) e)
      | Inr values \<Rightarrow>
          if length values < 2
          then Inl (errors_New (eventName @ '': expected 2 values, got '' @ nat_str (length values)))
          else case as_uint16 (eventName @ '': '') ''workerAwardBps'' (values ! 0) of
            Inl e \<Rightarrow> Inl e
          | Inr bps \<Rightarrow>
              (case as_string (eventName @ '': '') ''resolutionURI'' (values ! 1) of
                 Inl e \<Rightarrow> Inl e | Inr uri \<Rightarrow> Inr (bps, uri)))"

definition handleDisputeResolved :: "indexer \<Rightarrow> chain_log_entry \<Rightarrow> int \<Rightarrow> db \<Rightarrow> unit result" where
  "handleDisputeResolved X lg i d =
     orFail d id (award_and_uri X ''DisputeResolved'' lg) (\<lambda>(bps, uri). resolve_dispute X i (uint bps) uri d)"

definition handleMilestoneDisputeResolved :: "indexer \<Rightarrow> chain_log_entry \<Rightarrow> int \<Rightarrow> db \<Rightarrow> unit result" where
  "handleMilestoneDisputeResolved X lg i d =
     orFail d id (extractMilestoneIndex lg) (\<lambda>_.
     orFail d id (award_and_uri X ''MilestoneDisputeResolved'' lg) (\<lambda>(bps, uri). resolve_dispute X i (uint bps) uri d))"

definition handleBackupActivated :: "indexer \<Rightarrow> chain_log_entry \<Rightarrow> int \<Rightarrow> db \<Rightarrow> unit result" where
  "handleBackupActivated X lg i d =
     (if length (lg_Topics lg) < 3 then (d, Inl (no_topics ''BackupActivated'' (length (lg_Topics lg)) 3))
      else orFail d (wrap ''BackupActivated: unpack non-indexed args'')
             (Unpack (ix_EscrowABI X) ''BackupActivated'' (lg_Data lg)) (\<lambda>vals.
      if vals = [] then (d, Inl (errors_New ''BackupActivated: missing non-indexed args''))
      else orFail d id (as_uint64 ''BackupActivated: '' ''newDeadline'' (vals ! 0)) (\<lambda>newDeadline.
        UpdateEscrowBackupActivated (ix_Now X) i (topic_addr X lg 2) (uint newDeadline) d)))"

definition handleMilestoneSubmission :: "indexer \<Rightarrow> chain_log_entry \<Rightarrow> int \<Rightarrow> db \<Rightarrow> unit result" where
  "handleMilestoneSubmission X lg i d =
     orFail d id (extractMilestoneIndex lg) (\<lambda>m.
     orFail d (wrap ''unpack MilestoneSubmitted'') (Unpack (ix_EscrowABI X) ''MilestoneSubmitted'' (lg_Data lg)) (\<lambda>values.
     if length values < 3
     then (d, Inl (errors_New (''MilestoneSubmitted: expected 3 values, got '' @ nat_str (length values))))
     else
       orFail d id (as_bytes32 ''MilestoneSubmitted: '' ''submissionHash'' (values ! 0)) (\<lambda>h.
       orFail d id (as_string ''MilestoneSubmitted: '' ''submissionURI'' (values ! 1)) (\<lambda>uri.
       orFail d id (as_bytes32 ''MilestoneSubmitted: '' ''proofHash'' (values ! 2)) (\<lambda>pf.
         UpdateMilestoneSubmission (ix_Now X) i m (hex0x h) uri (hex0x pf) d)))))"

definition handleMilestoneDispute :: "indexer \<Rightarrow> chain_log_entry \<Rightarrow> int \<Rightarrow> string \<Rightarrow> db \<Rightarrow> unit result" where
  "handleMilestoneDispute X lg i eventName d =
     orFail d id (extractMilestoneIndex lg) (\<lambda>_.
       andThen (CreateDispute (ix_Now X) i (if length (lg_Topics lg) \<ge> 3 then topic_addr X lg 2 else [])
                  (reason_uri X eventName lg) d)
         (\<lambda>d1 _. (d1, Inr ())))"

definition handleEscrowFrozenEscrow :: "indexer \<Rightarrow> int \<Rightarrow> bool \<Rightarrow> db \<Rightarrow> unit result" where
  "handleEscrowFrozenEscrow X i frozen d = (UpdateEscrowFrozen (ix_Now X) i frozen d, Inr ())"

definition handleEmergencyResolvedEscrow :: "indexer \<Rightarrow> chain_log_entry \<Rightarrow> int \<Rightarrow> db \<Rightarrow> unit result" where
  "handleEmergencyResolvedEscrow X lg i d =
     orFail d (wrap ''unpack escrow EmergencyResolved'') (Unpack (ix_EscrowABI X) ''EmergencyResolved'' (lg_Data lg)) (\<lambda>values.
     if length values < 1 then (d, Inl (errors_New ''escrow EmergencyResolved: missing workerAwardBps''))
     else orFail d id (as_uint16 ''escrow EmergencyResolved: '' ''workerAwardBps'' (values ! 0)) (\<lambda>bps.
       (resolve_and_revoke (ix_Now X) i d, Inr ())))"

text \<open>Milestones that cannot be cancelled are only logged.\<close>

fun cancel_from :: "int \<Rightarrow> int \<Rightarrow> int \<Rightarrow> milestone list \<Rightarrow> db \<Rightarrow> db" where
  "cancel_from now i fromIndex [] d = d"
| "cancel_from now i fromIndex (m # ms) d =
     cancel_from now i fromIndex ms
       (if ms_MilestoneIndex m \<ge> fromIndex then fst (UpdateMilestoneStatus now i (ms_MilestoneIndex m) ''cancelled'' d)
        else d)"

definition handleRemainingMilestonesAborted :: "indexer \<Rightarrow> chain_log_entry \<Rightarrow> int \<Rightarrow> db \<Rightarrow> unit result" where
  "handleRemainingMilestonesAborted X lg i d =
     orFail d (wrap ''unpack RemainingMilestonesAborted'')
       (UnpackInputs (ix_EscrowABI X) ''RemainingMilestonesAborted'' (lg_Data lg)) (\<lambda>values.
     if length values < 2
     then (d, Inl (errors_New (''RemainingMilestonesAborted: expected 2 values, got '' @ nat_str (length values))))
     else orFail d id (as_uint8 ''RemainingMilestonesAborted: '' ''fromIndex'' (values ! 0)) (\<lambda>fromIndex.
       (UpdateEscrowStatus (ix_Now X) i ''refunded''
          (cancel_from (ix_Now X) i (uint fromIndex) (GetMilestonesByEscrow d i) d), Inr ())))"

section \<open>Processing a log\<close>

record index_state =
  xs_DB :: db
  xs_Published :: "event list"

definition publishEvent :: "indexer \<Rightarrow> string \<Rightarrow> string \<Rightarrow> chain_log_entry \<Rightarrow> event list" where
  "publishEvent X onChainName escrowAddr lg =
     (if \<not> ix_Bus X then []
      else case OnChainEventName onChainName of
        None \<Rightarrow> []
      | Some streamName \<Rightarrow>
          [\<lparr>ev_Name = streamName, ev_Escrow = escrowAddr, ev_Level = L1, ev_Block = unat (lg_BlockNumber lg),
            ev_Timestamp = Some (ix_Now X),
            ev_ID = HashHex (ix_L X) (lg_TxHash lg) @ ''-'' @ nat_str (unat (lg_Index lg)), ev_Payload = []\<rparr>])"

text \<open>What both pipelines do first: \<open>Inl\<close> is an early return, \<open>Inr\<close> the event's name and the database with
  the log in it.\<close>

definition record_log ::
    "indexer \<Rightarrow> contract_abi \<Rightarrow> (gerr \<Rightarrow> gerr + unit) \<Rightarrow> string \<Rightarrow> chain_log_entry \<Rightarrow> db
      \<Rightarrow> (gerr + unit) + (string \<times> db)" where
  "record_log X A unknown what lg d =
     (case UintToInt (lg_Index lg) ''log index'' of
        Inl e \<Rightarrow> Inl (Inl e)
      | Inr logIndex \<Rightarrow>
          if ChainLogExists d (HashHex (ix_L X) (lg_TxHash lg)) (sint logIndex) then Inl (Inr ())
          else case EventByID A (hd (lg_Topics lg)) of
            Inl e \<Rightarrow> Inl (unknown e)
          | Inr name \<Rightarrow>
              (case ix_MarshalLog X lg of
                 Inl e \<Rightarrow> Inl (Inl (wrap (''marshal '' @ what @ '' log'') e))
               | Inr raw \<Rightarrow>
                   (case Uint64ToInt64 (lg_BlockNumber lg) ''block number'' of
                      Inl e \<Rightarrow> Inl (Inl e)
                    | Inr blockNumber \<Rightarrow>
                        Inr (name, CreateChainLog (ix_Now X) (HashHex (ix_L X) (lg_TxHash lg)) (sint logIndex)
                               (sint blockNumber) name (AddressHex (ix_L X) (lg_Address lg)) raw d))))"

text \<open>A log whose number is fine but that was not stored before is looked up by its first topic.\<close>

definition panics :: "indexer \<Rightarrow> chain_log_entry \<Rightarrow> db \<Rightarrow> bool" where
  "panics X lg d \<longleftrightarrow> lg_Topics lg = []
     \<and> (case UintToInt (lg_Index lg) ''log index'' of Inl _ \<Rightarrow> False
        | Inr logIndex \<Rightarrow> \<not> ChainLogExists d (HashHex (ix_L X) (lg_TxHash lg)) (sint logIndex))"

definition factory_handler :: "indexer \<Rightarrow> chain_view \<Rightarrow> chain_log_entry \<Rightarrow> string \<Rightarrow> db \<Rightarrow> unit result" where
  "factory_handler X C lg name d =
     (if name = ''EscrowCreated'' then handleEscrowCreated X C lg d
      else if name = ''OutcomeRecorded'' then handleOutcomeRecorded X lg d
      else if name = ''AddressFrozen'' then handleAddressFrozen X lg True d
      else if name = ''AddressUnfrozen'' then handleAddressFrozen X lg False d
      else if name = ''EscrowFrozen'' then handleEscrowFrozenFactory X lg True d
      else if name = ''EscrowUnfrozen'' then handleEscrowFrozenFactory X lg False d
      else if name = ''EmergencyResolved'' then handleEmergencyResolvedFactory X lg d
      else (d, Inr ()))"

definition ProcessFactoryLog ::
    "indexer \<Rightarrow> chain_view \<Rightarrow> chain_log_entry \<Rightarrow> index_state \<Rightarrow> (index_state \<times> (gerr + unit)) option" where
  "ProcessFactoryLog X C lg s =
     (if panics X lg (xs_DB s) then None
      else case record_log X (ix_FactoryABI X) (\<lambda>e. Inl (wrap ''unknown event'' e)) ''factory'' lg (xs_DB s) of
        Inl res \<Rightarrow> Some (s, res)
      | Inr (name, d) \<Rightarrow>
          (case factory_handler X C lg name d of
             (d1, Inl e) \<Rightarrow> Some (s\<lparr>xs_DB := d1\<rparr>, Inl e)
           | (d1, Inr _) \<Rightarrow>
               Some (s\<lparr>xs_DB := d1, xs_Published := xs_Published s @ publishEvent X name
                   (if name = ''EscrowCreated'' \<and> length (lg_Topics lg) \<ge> 3 then topic_addr X lg 2 else []) lg\<rparr>,
                 Inr ())))"

definition isTerminalStatus :: "db \<Rightarrow> int \<Rightarrow> bool" where
  "isTerminalStatus d i = (case GetEscrow d i of Inl _ \<Rightarrow> False | Inr e \<Rightarrow> terminalStatuses (esc_Status e))"

definition apply_status :: "indexer \<Rightarrow> string \<Rightarrow> int \<Rightarrow> db \<Rightarrow> db" where
  "apply_status X name i d =
     (case eventStatusMap name of
        None \<Rightarrow> d
      | Some newStatus \<Rightarrow>
          if isTerminalStatus d i then d
          else
            let d1 = UpdateEscrowStatus (ix_Now X) i newStatus d in
            if terminalStatuses newStatus
            then fst (RevokeDCTTokensByEscrow (ix_Now X) i (''escrow_terminal_state:'' @ newStatus) ''indexer'' d1)
            else d1)"

definition apply_milestone :: "indexer \<Rightarrow> chain_log_entry \<Rightarrow> string \<Rightarrow> int \<Rightarrow> db \<Rightarrow> db" where
  "apply_milestone X lg name i d =
     (case milestoneStatusMap name of
        None \<Rightarrow> d
      | Some msStatus \<Rightarrow>
          (case extractMilestoneIndex lg of
             Inl _ \<Rightarrow> d
           | Inr m \<Rightarrow>
               (case UpdateMilestoneStatus (ix_Now X) i m msStatus d of
                  (d1, Inl _) \<Rightarrow> d1
                | (d1, Inr _) \<Rightarrow>
                    if msStatus \<in> {''approved'', ''resolved'', ''settled'', ''cancelled''}
                    then fst (UpdateEscrowMilestoneProgress (ix_Now X) i (m + 1) d1) else d1)))"

definition escrow_handler :: "indexer \<Rightarrow> chain_log_entry \<Rightarrow> string \<Rightarrow> int \<Rightarrow> db \<Rightarrow> unit result" where
  "escrow_handler X lg name i d =
     (if name = ''SubmissionMade'' then handleSubmission X lg i d
      else if name \<in> {''Disputed'', ''Rejected'', ''SilenceEscalated''} then handleDispute X lg i name d
      else if name = ''DisputeResolved'' then handleDisputeResolved X lg i d
      else if name = ''MilestoneSubmitted'' then handleMilestoneSubmission X lg i d
      else if name \<in> {''MilestoneDisputed'', ''MilestoneRejected'', ''MilestoneSilenceEscalated''}
      then handleMilestoneDispute X lg i name d
      else if name = ''MilestoneDisputeResolved'' then handleMilestoneDisputeResolved X lg i d
      else if name = ''RemainingMilestonesAborted'' then handleRemainingMilestonesAborted X lg i d
      else if name = ''BackupActivated'' then handleBackupActivated X lg i d
      else if name = ''EmergencyFrozen'' then handleEscrowFrozenEscrow X i True d
      else if name = ''EmergencyUnfrozen'' then handleEscrowFrozenEscrow X i False d
      else if name = ''EmergencyResolved'' then handleEmergencyResolvedEscrow X lg i d
      else (d, Inr ()))"

definition ProcessEscrowLog ::
    "indexer \<Rightarrow> int \<Rightarrow> chain_log_entry \<Rightarrow> index_state \<Rightarrow> (index_state \<times> (gerr + unit)) option" where
  "ProcessEscrowLog X i lg s =
     (if panics X lg (xs_DB s) then None
      else case record_log X (ix_EscrowABI X) (\<lambda>_. Inr ()) ''escrow'' lg (xs_DB s) of
        Inl res \<Rightarrow> Some (s, res)
      | Inr (name, d) \<Rightarrow>
          (case escrow_handler X lg name i (apply_milestone X lg name i (apply_status X name i d)) of
             (d1, Inl e) \<Rightarrow> Some (s\<lparr>xs_DB := d1\<rparr>, Inl e)
           | (d1, Inr _) \<Rightarrow>
               Some (s\<lparr>xs_DB := d1, xs_Published := xs_Published s
                   @ publishEvent X name (AddressHex (ix_L X) (lg_Address lg)) lg\<rparr>, Inr ())))"

section \<open>A pass of the indexer\<close>

text \<open>The error of a single log is only logged.\<close>

fun process_logs ::
    "(chain_log_entry \<Rightarrow> index_state \<Rightarrow> (index_state \<times> (gerr + unit)) option)
      \<Rightarrow> chain_log_entry list \<Rightarrow> index_state \<Rightarrow> index_state option" where
  "process_logs f [] s = Some s"
| "process_logs f (lg # lgs) s = (case f lg s of None \<Rightarrow> None | Some (s1, _) \<Rightarrow> process_logs f lgs s1)"

definition factory_topics :: "contract_abi \<Rightarrow> hash list" where
  "factory_topics A = map (EventID A)
     [''EscrowCreated'', ''OutcomeRecorded'', ''MarketStabilityFeeApplied'', ''AddressFrozen'',
      ''AddressUnfrozen'', ''EscrowFrozen'', ''EscrowUnfrozen'', ''EmergencyResolved'']"

definition indexFactoryEvents ::
    "indexer \<Rightarrow> chain_view \<Rightarrow> uint64 \<Rightarrow> uint64 \<Rightarrow> index_state \<Rightarrow> (index_state \<times> (gerr + unit)) option" where
  "indexFactoryEvents X C from to s =
     (case view_FilterLogs C [ix_FactoryAddress X] (factory_topics (ix_FactoryABI X)) from to of
        Inl e \<Rightarrow> Some (s, Inl (wrap ''filter factory logs'' e))
      | Inr logs \<Rightarrow> map_option (\<lambda>s1. (s1, Inr ())) (process_logs (ProcessFactoryLog X C) logs s))"

definition indexEscrowEvents ::
    "indexer \<Rightarrow> chain_view \<Rightarrow> addr \<Rightarrow> int \<Rightarrow> uint64 \<Rightarrow> uint64 \<Rightarrow> index_state \<Rightarrow> (index_state \<times> (gerr + unit)) option" where
  "indexEscrowEvents X C escrowAddr i from to s =
     (case view_FilterLogs C [escrowAddr] [] from to of
        Inl e \<Rightarrow> Some (s, Inl (wrap ''filter escrow logs'' e))
      | Inr logs \<Rightarrow> map_option (\<lambda>s1. (s1, Inr ())) (process_logs (ProcessEscrowLog X i) logs s))"

text \<open>The error of a single escrow is only logged.\<close>

fun index_escrows ::
    "indexer \<Rightarrow> chain_view \<Rightarrow> uint64 \<Rightarrow> uint64 \<Rightarrow> escrow list \<Rightarrow> index_state \<Rightarrow> index_state option" where
  "index_escrows X C from to [] s = Some s"
| "index_escrows X C from to (e # es) s =
     (case indexEscrowEvents X C (HexToAddress (ix_L X) (esc_EscrowAddress e)) (esc_ID e) from to s of
        None \<Rightarrow> None
      | Some (s1, _) \<Rightarrow> index_escrows X C from to es s1)"

definition first_block :: "indexer \<Rightarrow> uint64 \<Rightarrow> uint64 \<Rightarrow> uint64" where
  "first_block X cursor currentBlock =
     (if cursor = 0
      then (if ix_StartBlock X > 0 then ix_StartBlock X
            else if currentBlock > defaultLookback then currentBlock - defaultLookback else 0)
      else cursor + 1)"

definition RunOnce :: "indexer \<Rightarrow> index_state \<Rightarrow> (index_state \<times> (gerr + unit)) option" where
  "RunOnce X s =
     (case ix_Chain X of
        None \<Rightarrow> Some (s, Inr ())
      | Some C \<Rightarrow>
        (case view_BlockNumber C of
           Inl e \<Rightarrow> Some (s, Inl (wrap ''get block number'' e))
         | Inr currentBlock \<Rightarrow>
           (case Int64ToUint64 (word_of_int (GetCursor (xs_DB s) (ix_ChainID X) cursorKey)) ''cursor'' of
              Inl e \<Rightarrow> Some (s, Inl (wrap ''invalid cursor value'' e))
            | Inr cursor \<Rightarrow>
                let fromBlock = first_block X cursor currentBlock in
                if fromBlock > currentBlock then Some (s, Inr ())
                else case indexFactoryEvents X C fromBlock currentBlock s of
                  None \<Rightarrow> None
                | Some (s1, Inl e) \<Rightarrow> Some (s1, Inl (wrap ''index factory events'' e))
                | Some (s1, Inr _) \<Rightarrow>
                    (case index_escrows X C fromBlock currentBlock (ListEscrowsByChainID (xs_DB s1) (ix_ChainID X)) s1 of
                       None \<Rightarrow> None
                     | Some s2 \<Rightarrow>
                         if currentBlock > MaxInt64
                         then Some (s2, Inl (errors_New (''block number '' @ nat_str (unat currentBlock) @ '' exceeds int64 max'')))
                         else Some (s2\<lparr>xs_DB := SetCursor (ix_Now X) (ix_ChainID X) cursorKey (sint currentBlock)
                                         (xs_DB s2)\<rparr>, Inr ())))))"

text \<open>The ticker loop of \<open>Run\<close>, over the outcomes of its passes: after how many of them it stops with a fatal
  error, if ever.\<close>

fun run_loop :: "int \<Rightarrow> int \<Rightarrow> (gerr + unit) list \<Rightarrow> gerr option" where
  "run_loop maxConsecFailures consecutiveFailures [] = None"
| "run_loop maxConsecFailures consecutiveFailures (r # rs) =
     (case r of
        Inl e \<Rightarrow>
          let n = consecutiveFailures + 1 in
          if maxConsecFailures > 0 \<and> n \<ge> maxConsecFailures
          then Some (Errorf (''indexer fatal: '' @ int_str n @ '' consecutive failures (last: '' @ err_msg e @ '')'') [e])
          else run_loop maxConsecFailures n rs
      | Inr _ \<Rightarrow> run_loop maxConsecFailures 0 rs)"

end
