(* ===== verification/IndexProps.thy ===== *)
theory IndexProps
  imports Indexer
begin

text \<open>
  What indexing guarantees: a log takes effect at most once however often it is delivered, the status
  of an escrow follows a table, and a pass over an answering node moves the cursor to the head.
\<close>

section \<open>Machines that consume each item once\<close>




section \<open>The log table only grows\<close>

lemma chain_logs_ops [simp]:
  "chain_logs (fst (createTaskOn now a b h d)) = chain_logs d"
  "chain_logs (fst (createEscrowOn now esc d)) = chain_logs d"
  "chain_logs (upd_escrows pe fe d) = chain_logs d"
  "chain_logs (UpdateEscrowStatus now i st d) = chain_logs d"
  "chain_logs (UpdateEscrowFrozen now i fz d) = chain_logs d"
  "chain_logs (revoke_where q now r rb d) = chain_logs d"
  "chain_logs (fst (RevokeDCTTokensByEscrow now i r rb d)) = chain_logs d"
  "chain_logs (fst (UpdateMilestoneStatus now i m st d)) = chain_logs d"
  "chain_logs (fst (UpdateMilestoneSubmission now i m x u p d)) = chain_logs d"
  "chain_logs (fst (UpdateEscrowMilestoneProgress now i m d)) = chain_logs d"
  "chain_logs (fst (UpdateEscrowBackupActivated now i w dl d)) = chain_logs d"
  "chain_logs (fst (CreateSubmission now i x u p d)) = chain_logs d"
  "chain_logs (fst (CreateDispute now i w u d)) = chain_logs d"
  "chain_logs (UpdateDispute now i u bps d) = chain_logs d"
  "chain_logs (UpsertFrozenAddress now a r w d) = chain_logs d"
  "chain_logs (DeleteFrozenAddress a d) = chain_logs d"
  "chain_logs (CreateEmergencyAction now a t w r x d) = chain_logs d"
  by (simp_all add: createTaskOn_def createEscrowOn_def upd_escrows_def UpdateEscrowStatus_def UpdateEscrowFrozen_def
      revoke_where_def RevokeDCTTokensByEscrow_def UpdateMilestoneStatus_def UpdateMilestoneSubmission_def
      UpdateEscrowMilestoneProgress_def UpdateEscrowBackupActivated_def CreateSubmission_def CreateDispute_def
      UpdateDispute_def UpsertFrozenAddress_def DeleteFrozenAddress_def CreateEmergencyAction_def Let_def)

lemma chain_logs_reputation [simp]: "chain_logs (fst (RecordReputationOutcome now t ev d)) = chain_logs d"
proof -
  have "chain_logs (fst (insertReputationEventOn now t ev d)) = chain_logs d"
    by (simp add: insertReputationEventOn_def Let_def split: option.split)
  moreover have "chain_logs (fst (upsertReputationOn now a r x d)) = chain_logs d" for a r x d
    by (simp add: upsertReputationOn_def Let_def split: option.split)
  ultimately show ?thesis
    by (auto simp: RecordReputationOutcome_def split: prod.split sum.split option.split bool.split) (metis fst_conv)+
qed

lemmas chain_logs_frames = orFail_frame [of chain_logs] andThen_frame [of chain_logs]

lemma chain_logs_mapErr [simp]: "chain_logs (fst (mapErr w m)) = chain_logs (fst m)"
  by (simp add: mapErr_def split: prod.split sum.split)

lemma chain_logs_factory [simp]: "chain_logs (fst (factory_handler X C lg name d)) = chain_logs d"
proof -
  have "chain_logs (fst (handleEscrowCreated X C lg d)) = chain_logs d"
    by (auto simp: handleEscrowCreated_def chain_logs_frames split: sum.split)
  then show ?thesis
    by (auto simp: factory_handler_def handleOutcomeRecorded_def handleAddressFrozen_def handleEscrowFrozenFactory_def
        handleEmergencyResolvedFactory_def resolve_and_revoke_def chain_logs_frames Let_def)
qed

lemma chain_logs_cancel [simp]: "chain_logs (cancel_from now i k ms d) = chain_logs d"
  by (induction ms arbitrary: d) simp_all

lemma chain_logs_resolve [simp]: "chain_logs (fst (resolve_dispute X i bps uri d)) = chain_logs d"
  by (auto simp: resolve_dispute_def chain_logs_frames split: sum.split)

lemma chain_logs_escrow [simp]: "chain_logs (fst (escrow_handler X lg name i d)) = chain_logs d"
  by (auto simp: escrow_handler_def handleSubmission_def handleDispute_def handleDisputeResolved_def
      handleMilestoneDisputeResolved_def handleBackupActivated_def handleMilestoneSubmission_def
      handleMilestoneDispute_def handleEscrowFrozenEscrow_def handleEmergencyResolvedEscrow_def
      handleRemainingMilestonesAborted_def resolve_and_revoke_def chain_logs_frames split: prod.split)

lemma chain_logs_apply [simp]:
  "chain_logs (apply_status X name i d) = chain_logs d"
  "chain_logs (apply_milestone X lg name i d) = chain_logs d"
  by (simp add: apply_status_def Let_def split: option.split)
    (auto simp: apply_milestone_def split: option.split sum.split prod.split; metis fst_conv chain_logs_ops(8))

section \<open>A log takes effect once\<close>

text \<open>A log is settled when another delivery is an early return: it is stored, or it can never be.\<close>

definition settled :: "indexer \<Rightarrow> contract_abi \<Rightarrow> chain_log_entry \<Rightarrow> db \<Rightarrow> bool" where
  "settled X A lg d \<longleftrightarrow>
     (case UintToInt (lg_Index lg) ''log index'' of
        Inl _ \<Rightarrow> True
      | Inr n \<Rightarrow> ChainLogExists d (HashHex (ix_L X) (lg_TxHash lg)) (sint n)
          \<or> lg_Topics lg \<noteq> [] \<and> (isl (EventByID A (hd (lg_Topics lg))) \<or> isl (ix_MarshalLog X lg)
               \<or> isl (Uint64ToInt64 (lg_BlockNumber lg) ''block number'')))"

lemma settled_iff: "settled X A lg d \<longleftrightarrow> \<not> panics X lg d \<and> isl (record_log X A u what lg d)"
  by (auto simp: settled_def panics_def record_log_def isl_def split: sum.split)


lemma settledI: "\<not> panics X lg d \<Longrightarrow> record_log X A u what lg d = Inl r \<Longrightarrow> settled X A lg d"
  using settled_iff [of X A lg d u what] by simp

lemma settled_mono:
  "settled X A lg d \<Longrightarrow> set (chain_logs d) \<subseteq> set (chain_logs d') \<Longrightarrow> settled X A lg d'"
  by (auto simp: settled_def ChainLogExists_def list_ex_iff split: sum.splits)

lemma record_log_Inr:
  assumes "record_log X A u what lg d = Inr (name, d')"
  shows "set (chain_logs d) \<subseteq> set (chain_logs d') \<and> settled X A lg d'"
proof -
  obtain n raw b where r: "UintToInt (lg_Index lg) ''log index'' = Inr n"
      "\<not> ChainLogExists d (HashHex (ix_L X) (lg_TxHash lg)) (sint n)"
      "d' = CreateChainLog (ix_Now X) (HashHex (ix_L X) (lg_TxHash lg)) (sint n) b name (AddressHex (ix_L X) (lg_Address lg)) raw d"
    using assms by (auto simp: record_log_def split: sum.splits if_splits)
  then show ?thesis by (auto simp: settled_def ChainLogExists_def CreateChainLog_def row_add_def list_ex_iff)
qed

lemma ProcessFactoryLog_logs:
  assumes "ProcessFactoryLog X C lg s = Some (s', res)"
  shows "set (chain_logs (xs_DB s)) \<subseteq> set (chain_logs (xs_DB s')) \<and> settled X (ix_FactoryABI X) lg (xs_DB s')"
proof (cases "record_log X (ix_FactoryABI X) (\<lambda>e. Inl (wrap ''unknown event'' e)) ''factory'' lg (xs_DB s)")
  case (Inl r)
  then have "s' = s" "settled X (ix_FactoryABI X) lg (xs_DB s)"
    using assms settledI [OF _ Inl] by (auto simp: ProcessFactoryLog_def Inl split: if_splits)
  then show ?thesis by simp
next
  case (Inr p)
  obtain name d where p: "p = (name, d)" by (cases p)
  obtain d1 r where h: "factory_handler X C lg name d = (d1, r)" by (cases "factory_handler X C lg name d")
  then have "chain_logs d1 = chain_logs d" using chain_logs_factory [of X C lg name d] by simp
  moreover have "xs_DB s' = d1"
    using assms Inr p h by (auto simp: ProcessFactoryLog_def split: if_splits sum.splits)
  moreover note record_log_Inr [OF Inr [unfolded p]]
  ultimately show ?thesis by (metis order_refl settled_mono)
qed

lemma ProcessEscrowLog_logs:
  assumes "ProcessEscrowLog X i lg s = Some (s', res)"
  shows "set (chain_logs (xs_DB s)) \<subseteq> set (chain_logs (xs_DB s')) \<and> settled X (ix_EscrowABI X) lg (xs_DB s')"
proof (cases "record_log X (ix_EscrowABI X) (\<lambda>_. Inr ()) ''escrow'' lg (xs_DB s)")
  case (Inl r)
  then have "s' = s" "settled X (ix_EscrowABI X) lg (xs_DB s)"
    using assms settledI [OF _ Inl] by (auto simp: ProcessEscrowLog_def Inl split: if_splits)
  then show ?thesis by simp
next
  case (Inr p)
  obtain name d where p: "p = (name, d)" by (cases p)
  let ?d = "apply_milestone X lg name i (apply_status X name i d)"
  obtain d1 r where h: "escrow_handler X lg name i ?d = (d1, r)" by (cases "escrow_handler X lg name i ?d")
  then have "chain_logs d1 = chain_logs d" using chain_logs_escrow [of X lg name i ?d] by simp
  moreover have "xs_DB s' = d1"
    using assms Inr p h by (auto simp: ProcessEscrowLog_def split: if_splits sum.splits)
  moreover note record_log_Inr [OF Inr [unfolded p]]
  ultimately show ?thesis by (metis order_refl settled_mono)
qed








section \<open>Status of an escrow\<close>

definition statuses :: "db \<Rightarrow> (int \<times> string) list" where
  "statuses d = map (\<lambda>e. (esc_ID e, esc_Status e)) (escrows d)"

definition status_of :: "db \<Rightarrow> int \<Rightarrow> string option" where
  "status_of d i = map_option esc_Status (row_get esc_ID (escrows d) i)"

lemma status_of_statuses: "status_of d i = map_of (statuses d) i"
proof -
  have "map_option esc_Status (row_get esc_ID es i) = map_of (map (\<lambda>e. (esc_ID e, esc_Status e)) es) i" for es
    by (induction es) auto
  then show ?thesis by (simp add: status_of_def statuses_def)
qed

lemma statuses_upd: "(\<And>e. esc_ID (f e) = esc_ID e \<and> esc_Status (f e) = esc_Status e) \<Longrightarrow> statuses (upd_escrows p f d) = statuses d"
  by (simp add: statuses_def upd_escrows_def row_upd_def)

lemma statuses_ops [simp]:
  "statuses (revoke_where q now r rb d) = statuses d"
  "statuses (fst (RevokeDCTTokensByEscrow now i r rb d)) = statuses d"
  "statuses (UpdateEscrowFrozen now i fz d) = statuses d"
  "statuses (fst (UpdateMilestoneStatus now i m st d)) = statuses d"
  "statuses (fst (UpdateMilestoneSubmission now i m x u p d)) = statuses d"
  "statuses (fst (UpdateEscrowMilestoneProgress now i m d)) = statuses d"
  "statuses (fst (UpdateEscrowBackupActivated now i w dl d)) = statuses d"
  "statuses (fst (CreateSubmission now i x u p d)) = statuses d"
  "statuses (fst (CreateDispute now i w u d)) = statuses d"
  "statuses (UpdateDispute now i u bps d) = statuses d"
  "statuses (CreateChainLog now x m bn en a raw d) = statuses d"
  by (simp_all add: UpdateEscrowFrozen_def UpdateEscrowMilestoneProgress_def UpdateEscrowBackupActivated_def statuses_upd)
    (simp_all add: statuses_def revoke_where_def RevokeDCTTokensByEscrow_def UpdateMilestoneStatus_def
      UpdateMilestoneSubmission_def CreateSubmission_def CreateDispute_def UpdateDispute_def CreateChainLog_def Let_def)

lemma statuses_cancel [simp]: "statuses (cancel_from now i k ms d) = statuses d"
  by (induction ms arbitrary: d) simp_all

lemmas statuses_frames = orFail_frame [of statuses] andThen_frame [of statuses]

lemma statuses_resolve [simp]: "statuses (fst (resolve_dispute X i bps uri d)) = statuses d"
  by (auto simp: resolve_dispute_def statuses_frames split: sum.split)

lemma status_update:
  "status_of (UpdateEscrowStatus now i st d) j = (if j = i then map_option (\<lambda>_. st) (status_of d j) else status_of d j)"
  by (cases "row_get esc_ID (escrows d) j")
    (auto simp: status_of_def UpdateEscrowStatus_def upd_escrows_def row_get_upd dest: row_get_Some)

definition next_status :: "string \<Rightarrow> bool \<Rightarrow> string \<Rightarrow> string" where
  "next_status name handled st =
     (if name = ''RemainingMilestonesAborted'' \<and> handled then ''refunded''
      else if name = ''EmergencyResolved'' \<and> handled then ''resolved''
      else if terminalStatuses st then st
      else case eventStatusMap name of None \<Rightarrow> st | Some t \<Rightarrow> t)"

lemma status_apply:
  "status_of (apply_status X name i d) j =
     (if j = i then map_option (\<lambda>st. if terminalStatuses st then st
                                     else case eventStatusMap name of None \<Rightarrow> st | Some t \<Rightarrow> t) (status_of d j)
      else status_of d j)"
proof (cases "eventStatusMap name")
  case None
  then show ?thesis by (cases "status_of d j") (auto simp: apply_status_def)
next
  case (Some t)
  have tm: "isTerminalStatus d i \<longleftrightarrow> (\<exists>st. status_of d i = Some st \<and> terminalStatuses st)"
    by (cases "row_get esc_ID (escrows d) i") (simp_all add: isTerminalStatus_def GetEscrow_def status_of_def found_def)
  have "status_of (apply_status X name i d) j =
      (if isTerminalStatus d i then status_of d j else status_of (UpdateEscrowStatus (ix_Now X) i t d) j)"
    by (simp add: apply_status_def Some status_of_statuses Let_def)
  then show ?thesis using tm by (cases "status_of d j") (auto simp: status_update Some)
qed

lemma statuses_milestone [simp]: "statuses (apply_milestone X lg name i d) = statuses d"
  by (auto simp: apply_milestone_def split: option.split sum.split prod.split; metis fst_conv statuses_ops(4))

lemma status_resolve: "status_of (resolve_and_revoke now i d) j = status_of (UpdateEscrowStatus now i ''resolved'' d) j"
  by (simp add: resolve_and_revoke_def status_of_statuses)

lemma handler_status:
  assumes "escrow_handler X lg name i d = (d', r)"
  shows "status_of d' j =
    (if \<not> isl r \<and> name = ''RemainingMilestonesAborted'' then status_of (UpdateEscrowStatus (ix_Now X) i ''refunded'' d) j
     else if \<not> isl r \<and> name = ''EmergencyResolved'' then status_of (UpdateEscrowStatus (ix_Now X) i ''resolved'' d) j
     else status_of d j)"
proof -
  consider (abort) "name = ''RemainingMilestonesAborted''" | (emergency) "name = ''EmergencyResolved''"
    | (other) "name \<noteq> ''RemainingMilestonesAborted''" "name \<noteq> ''EmergencyResolved''" by blast
  then show ?thesis
  proof cases
    case abort
    have "escrow_handler X lg name i d = handleRemainingMilestonesAborted X lg i d"
      unfolding abort by (simp add: escrow_handler_def)
    moreover have "status_of (UpdateEscrowStatus now i st (cancel_from now i k ms d)) j
        = status_of (UpdateEscrowStatus now i st d) j" for now st k ms
    proof -
      have "status_of (cancel_from now i k ms d) = status_of d" by (simp add: fun_eq_iff status_of_statuses)
      then show ?thesis by (simp add: status_update)
    qed
    ultimately show ?thesis using assms abort
      by (auto simp: handleRemainingMilestonesAborted_def orFail_def split: sum.splits if_splits)
  next
    case emergency
    have "escrow_handler X lg name i d = handleEmergencyResolvedEscrow X lg i d"
      unfolding emergency by (simp add: escrow_handler_def)
    then show ?thesis using assms emergency status_resolve
      by (auto simp: handleEmergencyResolvedEscrow_def orFail_def split: sum.splits if_splits)
  next
    case other
    have "statuses (fst (escrow_handler X lg name i d)) = statuses d"
      unfolding escrow_handler_def if_not_P [OF other(1)] if_not_P [OF other(2)]
      by (auto simp: handleSubmission_def handleDispute_def handleDisputeResolved_def
          handleMilestoneDisputeResolved_def handleBackupActivated_def handleMilestoneSubmission_def
          handleMilestoneDispute_def handleEscrowFrozenEscrow_def statuses_frames split: prod.split)
    then show ?thesis using assms other by (simp add: status_of_statuses)
  qed
qed

lemma revoked_after_terminal:
  assumes "eventStatusMap name = Some st" "terminalStatuses st" "\<not> isTerminalStatus d i"
    "t \<in> set (dct_tokens (fst (escrow_handler X lg name i (apply_milestone X lg name i (apply_status X name i d)))))"
    "dct_EscrowID t = i"
  shows "dct_RevokedAt t \<noteq> None"
proof -
  have "name \<in> {''Settled'', ''Refunded'', ''Cancelled'', ''ArbitratorTimeoutClaimed''}"
    using assms(1,2) by (auto simp: eventStatusMap_def terminalStatuses_def split: if_splits)
  then have "milestoneStatusMap name = None \<and> (\<forall>d. escrow_handler X lg name i d = (d, Inr ()))"
    by (elim insertE emptyE) (simp_all add: milestoneStatusMap_def escrow_handler_def)
  then have "fst (escrow_handler X lg name i (apply_milestone X lg name i (apply_status X name i d))) = apply_status X name i d"
    by (simp add: apply_milestone_def)
  moreover have "apply_status X name i d =
      revoke_where (\<lambda>t. dct_EscrowID t = i) (ix_Now X) (''escrow_terminal_state:'' @ st) ''indexer''
        (UpdateEscrowStatus (ix_Now X) i st d)"
    using assms(1-3) by (simp add: apply_status_def RevokeDCTTokensByEscrow_def Let_def)
  ultimately have "t \<in> set (row_upd (\<lambda>t. dct_EscrowID t = i \<and> dct_RevokedAt t = None)
      (mark_revoked (ix_Now X) (''escrow_terminal_state:'' @ st) ''indexer'') (dct_tokens d))"
    using assms(4) by (simp add: revoke_where_def)
  then obtain q where "q \<in> set (dct_tokens d)" "t = (if dct_EscrowID q = i \<and> dct_RevokedAt q = None
      then mark_revoked (ix_Now X) (''escrow_terminal_state:'' @ st) ''indexer'' q else q)"
    unfolding set_row_upd by blast
  then show ?thesis using assms(5) by (cases "dct_EscrowID q = i \<and> dct_RevokedAt q = None") auto
qed

section \<open>A pass over an answering node\<close>

lemma process_Some:
  assumes "lg_Topics lg \<noteq> []"
  shows "\<exists>s' r. ProcessFactoryLog X C lg s = Some (s', r)" "\<exists>s' r. ProcessEscrowLog X i lg s = Some (s', r)"
  using assms by (auto simp: ProcessFactoryLog_def ProcessEscrowLog_def panics_def split: sum.split prod.split)

definition logs_grow :: "index_state \<Rightarrow> index_state \<Rightarrow> bool" where
  "logs_grow s s' \<longleftrightarrow> set (chain_logs (xs_DB s)) \<subseteq> set (chain_logs (xs_DB s'))"

lemma logs_grow_trans: "logs_grow s s1 \<Longrightarrow> logs_grow s1 s2 \<Longrightarrow> logs_grow s s2"
  by (auto simp: logs_grow_def)

lemma process_logs_Some:
  assumes "\<forall>lg \<in> set lgs. \<forall>s. \<exists>s' r. f lg s = Some (s', r) \<and> logs_grow s s'
    \<and> settled X A lg (xs_DB s')"
  shows "\<exists>s'. process_logs f lgs s = Some s' \<and> logs_grow s s' \<and> (\<forall>lg \<in> set lgs. settled X A lg (xs_DB s'))"
  using assms
proof (induction lgs arbitrary: s)
  case Nil
  then show ?case by (simp add: logs_grow_def)
next
  case (Cons lg lgs)
  obtain s1 r where 1: "f lg s = Some (s1, r)" "logs_grow s s1" "settled X A lg (xs_DB s1)"
    using Cons.prems by (meson list.set_intros(1))
  obtain s2 where 2: "process_logs f lgs s1 = Some s2" "logs_grow s1 s2" "\<forall>lg \<in> set lgs. settled X A lg (xs_DB s2)"
    using Cons by (meson list.set_intros(2))
  have "settled X A lg (xs_DB s2)" using 1(3) 2(2) settled_mono by (auto simp: logs_grow_def)
  then show ?case using 1 2 logs_grow_trans by auto
qed

definition with_topics :: "chain_view \<Rightarrow> bool" where
  "with_topics C \<longleftrightarrow> (\<forall>addrs tops f t logs. view_FilterLogs C addrs tops f t = Inr logs \<longrightarrow> (\<forall>lg \<in> set logs. lg_Topics lg \<noteq> []))"

lemma process_ok:
  assumes "lg_Topics lg \<noteq> []"
  shows "\<exists>s' r. ProcessFactoryLog X C lg s = Some (s', r) \<and> logs_grow s s' \<and> settled X (ix_FactoryABI X) lg (xs_DB s')"
    and "\<exists>s' r. ProcessEscrowLog X i lg s = Some (s', r) \<and> logs_grow s s' \<and> settled X (ix_EscrowABI X) lg (xs_DB s')"
  using process_Some [OF assms] ProcessFactoryLog_logs ProcessEscrowLog_logs unfolding logs_grow_def by meson+

lemma factory_pass:
  assumes "with_topics C" "view_FilterLogs C [ix_FactoryAddress X] (factory_topics (ix_FactoryABI X)) f t = Inr logs"
  shows "\<exists>s'. indexFactoryEvents X C f t s = Some (s', Inr ()) \<and> logs_grow s s'
    \<and> (\<forall>lg \<in> set logs. settled X (ix_FactoryABI X) lg (xs_DB s'))"
proof -
  have "\<forall>lg \<in> set logs. \<forall>s. \<exists>s' r. ProcessFactoryLog X C lg s = Some (s', r) \<and> logs_grow s s'
      \<and> settled X (ix_FactoryABI X) lg (xs_DB s')"
    using assms process_ok(1) unfolding with_topics_def by meson
  from process_logs_Some [OF this, of s] show ?thesis by (auto simp: indexFactoryEvents_def assms(2))
qed

lemma escrow_pass:
  assumes "with_topics C"
  shows "\<exists>s'. index_escrows X C f t es s = Some s' \<and> logs_grow s s'"
proof (induction es arbitrary: s)
  case Nil
  then show ?case by (simp add: logs_grow_def)
next
  case (Cons e es)
  let ?a = "HexToAddress (ix_L X) (esc_EscrowAddress e)"
  have "\<exists>s1 r. indexEscrowEvents X C ?a (esc_ID e) f t s = Some (s1, r) \<and> logs_grow s s1"
  proof (cases "view_FilterLogs C [?a] [] f t")
    case (Inl err)
    then show ?thesis by (simp add: indexEscrowEvents_def logs_grow_def)
  next
    case (Inr logs)
    have "\<forall>lg \<in> set logs. \<forall>s. \<exists>s' r. ProcessEscrowLog X (esc_ID e) lg s = Some (s', r) \<and> logs_grow s s'
        \<and> settled X (ix_EscrowABI X) lg (xs_DB s')"
      using assms Inr process_ok(2) unfolding with_topics_def by meson
    from process_logs_Some [OF this, of s] show ?thesis by (auto simp: indexEscrowEvents_def Inr)
  qed
  then show ?case using Cons logs_grow_trans by fastforce
qed

lemma cursor_set: "GetCursor (SetCursor now c k v d) c k = v"
proof -
  have f: "first_where (is_cursor c k) (row_upd (is_cursor c k) (\<lambda>r. r\<lparr>cc_BlockNumber := v, cc_UpdatedAt := now\<rparr>) cs)
      = map_option (\<lambda>r. r\<lparr>cc_BlockNumber := v, cc_UpdatedAt := now\<rparr>) (first_where (is_cursor c k) cs)" for cs
    by (induction cs) (auto simp: first_where_def row_upd_def is_cursor_def)
  have n: "rows_affected (is_cursor c k) cs = 0 \<longleftrightarrow> first_where (is_cursor c k) cs = None" for cs
    by (auto simp: rows_affected_0 first_where_def find_None_iff)
  have a: "first_where (is_cursor c k) cs = None \<Longrightarrow> first_where (is_cursor c k) (row_add r cs)
      = (if is_cursor c k r then Some r else None)" for cs r
    by (induction cs) (auto simp: first_where_def row_add_def split: if_splits)
  show ?thesis by (auto simp: SetCursor_def GetCursor_def n f a is_cursor_def split: option.splits)
qed

section \<open>A sample chain\<close>

text \<open>One escrow on the chain; its log says that it settled.\<close>

definition settled_log :: chain_log_entry where
  "settled_log = \<lparr>lg_Address = [5], lg_Topics = [[1]], lg_Data = [], lg_BlockNumber = 7, lg_TxHash = [9], lg_Index = 0\<rparr>"

definition sample_abi :: contract_abi where
  "sample_abi = \<lparr>EventByID = (\<lambda>h. if h = [1] then Inr ''Settled'' else Inl (errors_New ''no event'')),
     EventID = (\<lambda>_. [1]), Unpack = (\<lambda>_ _. Inr []), UnpackInputs = (\<lambda>_ _. Inr []), InputNames = (\<lambda>_. [])\<rparr>"

definition sample_view :: chain_view where
  "sample_view = \<lparr>view_BlockNumber = Inr 7,
     view_FilterLogs = (\<lambda>addrs topics f t. Inr (if topics = [] then [settled_log] else [])),
     view_Call = (\<lambda>_ _. Inr [])\<rparr>"

definition sample_indexer :: indexer where
  "sample_indexer = \<lparr>ix_L = sample_eth, ix_FactoryABI = sample_abi, ix_EscrowABI = sample_abi,
     ix_MarshalLog = (\<lambda>_. Inr ''{}''), ix_Chain = Some sample_view, ix_FactoryAddress = [4], ix_ChainID = 1,
     ix_StartBlock = 0, ix_Bus = True, ix_Now = 50\<rparr>"

definition sample_index_state :: index_state where
  "sample_index_state = \<lparr>xs_DB = empty_db\<lparr>escrows := [blank_escrow\<lparr>esc_ID := 1, esc_ChainID := 1,
     esc_EscrowAddress := ''0x'', esc_Status := ''submitted''\<rparr>]\<rparr>, xs_Published = []\<rparr>"

section \<open>Properties\<close>


text \<open>C13: Processing a new log of an escrow moves the status of this escrow only, and by the table: an
  aborted rest of milestones makes it refunded and an emergency resolution resolved, whatever it
  was; otherwise a settled, refunded or cancelled escrow keeps its status. When the status becomes
  one of these three by another event than the abort, all capability tokens of the escrow are
  revoked.\<close>

theorem index_status:
  assumes "record_log X (ix_EscrowABI X) (\<lambda>_. Inr ()) ''escrow'' lg (xs_DB s) = Inr (name, d)"
    and "ProcessEscrowLog X i lg s = Some (s', res)"
  shows "status_of (xs_DB s') j = (if j = i then map_option (next_status name (\<not> isl res)) (status_of (xs_DB s) j)
      else status_of (xs_DB s) j)
    \<and> (\<forall>st. status_of (xs_DB s) i \<noteq> Some st \<and> status_of (xs_DB s') i = Some st \<and> terminalStatuses st
          \<and> name \<noteq> ''RemainingMilestonesAborted''
        \<longrightarrow> (\<forall>t \<in> set (dct_tokens (xs_DB s')). dct_EscrowID t = i \<longrightarrow> dct_RevokedAt t \<noteq> None))"
proof -
  let ?d = "apply_milestone X lg name i (apply_status X name i d)"
  obtain d1 r where h: "escrow_handler X lg name i ?d = (d1, r)" by (cases "escrow_handler X lg name i ?d")
  have s': "xs_DB s' = d1" "isl res = isl r"
    using assms h by (auto simp: ProcessEscrowLog_def split: if_splits sum.splits)
  have d: "status_of d k = status_of (xs_DB s) k" for k
    using assms(1) by (auto simp: record_log_def status_of_statuses split: sum.splits if_splits)
  have ms: "status_of ?d k = status_of (apply_status X name i d) k" for k
    by (simp add: status_of_statuses)
  have first: "status_of d1 k = (if k = i then map_option (next_status name (\<not> isl res)) (status_of (xs_DB s) k)
      else status_of (xs_DB s) k)" for k
  proof -
    define a where "a \<longleftrightarrow> name = ''RemainingMilestonesAborted''"
    define b where "b \<longleftrightarrow> name = ''EmergencyResolved''"
    show ?thesis
      unfolding handler_status [OF h] s'(2) next_status_def a_def [symmetric] b_def [symmetric] status_update ms status_apply d
      by (cases "status_of (xs_DB s) k"; cases a; cases b; cases "isl r"; cases "k = i") simp_all
  qed
  have "dct_RevokedAt t \<noteq> None"
    if st: "status_of (xs_DB s) i \<noteq> Some st" "status_of d1 i = Some st" "terminalStatuses st"
      "name \<noteq> ''RemainingMilestonesAborted''" and t: "t \<in> set (dct_tokens d1)" "dct_EscrowID t = i" for st t
  proof -
    obtain st0 where st0: "status_of (xs_DB s) i = Some st0" "next_status name (\<not> isl res) st0 = st" "st0 \<noteq> st"
      using first [of i] st(1,2) by (cases "status_of (xs_DB s) i") auto
    have "\<not> terminalStatuses ''resolved''" by (simp add: terminalStatuses_def)
    then have "eventStatusMap name = Some st" "\<not> terminalStatuses st0"
      using st0(2,3) st(3,4) unfolding next_status_def by (auto split: if_splits option.splits)
    moreover have "\<not> isTerminalStatus d i"
      using st0(1) d [of i] \<open>\<not> terminalStatuses st0\<close>
      by (auto simp: isTerminalStatus_def GetEscrow_def found_def status_of_def split: option.splits)
    ultimately show ?thesis using revoked_after_terminal [of name st d i t X lg] st(3) t h by simp
  qed
  then show ?thesis using first unfolding s'(1) by blast
qed

theorem index_status_witness:
  "\<exists>s' res. ProcessEscrowLog sample_indexer 1 settled_log sample_index_state = Some (s', res)
     \<and> status_of (xs_DB s') 1 = Some ''settled''"
proof -
  let ?r = "record_log sample_indexer (ix_EscrowABI sample_indexer) (\<lambda>_. Inr ()) ''escrow'' settled_log (xs_DB sample_index_state)"
  have "\<not> isl ?r \<and> fst (projr ?r) = ''Settled''" by code_simp
  then obtain d where d: "?r = Inr (''Settled'', d)" by (metis prod.collapse sum.collapse(2))
  have "lg_Topics settled_log \<noteq> []" by (simp add: settled_log_def)
  then obtain s' res where s': "ProcessEscrowLog sample_indexer 1 settled_log sample_index_state = Some (s', res)"
    using process_Some(2) by blast
  have "status_of (xs_DB sample_index_state) 1 = Some ''submitted''" by code_simp
  moreover have "next_status ''Settled'' b ''submitted'' = ''settled''" for b by (cases b) code_simp+
  ultimately show ?thesis using index_status [OF d s', of 1] s' by simp
qed

text \<open>C14: While the node answers, a pass of the indexer succeeds: either the head is before the first block
  to index and nothing changes, or the cursor moves to the head and every factory log the node
  returned for the blocks since is settled, stored or never to be. The cursor of a chain that has
  one never goes back.\<close>

theorem RunOnce_progress:
  assumes C: "ix_Chain X = Some C" "with_topics C" "view_BlockNumber C = Inr n" "n \<le> MaxInt64"
    and c: "GetCursor (xs_DB s) (ix_ChainID X) cursorKey = c" "0 \<le> c" "c < 2 ^ 63"
    and f: "view_FilterLogs C [ix_FactoryAddress X] (factory_topics (ix_FactoryABI X))
              (first_block X (word_of_int c) n) n = Inr logs"
  shows "\<exists>s'. RunOnce X s = Some (s', Inr ())
    \<and> (if first_block X (word_of_int c) n > n then s' = s
       else GetCursor (xs_DB s') (ix_ChainID X) cursorKey = uint n
         \<and> (\<forall>lg \<in> set logs. settled X (ix_FactoryABI X) lg (xs_DB s')))
    \<and> (c \<noteq> 0 \<longrightarrow> GetCursor (xs_DB s') (ix_ChainID X) cursorKey = max c (uint n))"
proof -
  have uc: "uint (word_of_int c :: 64 word) = c" using c(2,3) by (simp add: uint_word_of_int)
  have conv: "Int64ToUint64 (word_of_int c) ''cursor'' = Inr (word_of_int c)"
  proof -
    have "sint (word_of_int c :: 64 word) = c" using c(2,3) by (simp add: sint_uint uc signed_take_bit_int_eq_self)
    then show ?thesis using c(2) by (simp add: Int64ToUint64_def word_sless_alt)
  qed
  have nn: "sint n = uint n"
  proof -
    have "uint n < 2 ^ 63" using C(4) by (simp add: MaxInt64_def word_le_def)
    then have "signed_take_bit 63 (uint n) = uint n"
      using uint_ge_0 [of n] by (intro signed_take_bit_int_eq_self) linarith+
    then show ?thesis by (simp add: sint_uint)
  qed
  let ?f = "first_block X (word_of_int c) n"
  show ?thesis
  proof (cases "?f > n")
    case True
    then have "RunOnce X s = Some (s, Inr ())" using C c(1) conv by (simp add: RunOnce_def Let_def)
    moreover have "c \<ge> uint n" if "c \<noteq> 0"
    proof -
      have "(word_of_int c :: 64 word) \<noteq> 0" using uc that by (metis unsigned_0)
      then have "word_of_int c + 1 > n" using True by (simp add: first_block_def)
      moreover have "uint (word_of_int c + 1 :: 64 word) = c + 1"
        using c(2,3) by (simp add: uint_word_ariths uc)
      ultimately show ?thesis by (simp add: word_less_def)
    qed
    ultimately show ?thesis using True c(1) by auto
  next
    case False
    obtain s1 where 1: "indexFactoryEvents X C ?f n s = Some (s1, Inr ())" "logs_grow s s1"
        "\<forall>lg \<in> set logs. settled X (ix_FactoryABI X) lg (xs_DB s1)"
      using factory_pass [OF C(2) f] by blast
    obtain s2 where 2: "index_escrows X C ?f n (ListEscrowsByChainID (xs_DB s1) (ix_ChainID X)) s1 = Some s2"
        "logs_grow s1 s2"
      using escrow_pass [OF C(2)] by blast
    let ?d = "SetCursor (ix_Now X) (ix_ChainID X) cursorKey (sint n) (xs_DB s2)"
    have r: "RunOnce X s = Some (s2\<lparr>xs_DB := ?d\<rparr>, Inr ())"
      using C c(1) conv False 1(1) 2(1) by (simp add: RunOnce_def Let_def not_less)
    have "chain_logs ?d = chain_logs (xs_DB s2)" by (simp add: SetCursor_def)
    then have "\<forall>lg \<in> set logs. settled X (ix_FactoryABI X) lg ?d"
      using 1(3) 2(2) settled_mono unfolding logs_grow_def by (metis order_refl)
    moreover have "c \<le> uint n" if "c \<noteq> 0"
    proof -
      have "(word_of_int c :: 64 word) \<noteq> 0" using uc that by (metis unsigned_0)
      then have "word_of_int c + 1 \<le> n" using False by (simp add: first_block_def)
      moreover have "uint (word_of_int c + 1 :: 64 word) = c + 1"
        using c(2,3) by (simp add: uint_word_ariths uc)
      ultimately show ?thesis by (simp add: word_le_def)
    qed
    ultimately show ?thesis using False r cursor_set nn by auto
  qed
qed

theorem RunOnce_progress_witness:
  "\<exists>s'. RunOnce sample_indexer sample_index_state = Some (s', Inr ()) \<and> GetCursor (xs_DB s') 1 ''indexer'' = 7"
proof -
  have "with_topics sample_view" by (auto simp: with_topics_def sample_view_def settled_log_def)
  moreover have "view_FilterLogs sample_view [ix_FactoryAddress sample_indexer]
      (factory_topics (ix_FactoryABI sample_indexer)) (first_block sample_indexer (word_of_int 0) 7) 7 = Inr []"
    by (simp add: sample_view_def factory_topics_def)
  moreover have "(7::uint64) \<le> MaxInt64" "\<not> first_block sample_indexer (word_of_int 0) 7 > 7"
      "GetCursor (xs_DB sample_index_state) (ix_ChainID sample_indexer) cursorKey = 0" by code_simp+
  moreover have "ix_Chain sample_indexer = Some sample_view" "view_BlockNumber sample_view = Inr 7"
      "ix_ChainID sample_indexer = 1" "cursorKey = ''indexer''"
    by (simp_all add: sample_indexer_def sample_view_def cursorKey_def)
  ultimately show ?thesis
    using RunOnce_progress [of sample_indexer sample_view 7 sample_index_state 0 "[]"] by auto
qed

end
