(* ===== verification/AttestStore.thy ===== *)
theory AttestStore
  imports Storage JsonValue
begin

text \<open>
  The queries of \<open>internal/storage/queries.go\<close> on attestation chains and their links, in the style
  of theory \<open>Storage\<close>: \<open>json_valid\<close> is \<open>json.Valid\<close>, a pair of chain and link id is unique, and a
  link refers to a stored chain and, if it names one, to a stored child escrow.
\<close>

definition json_valid :: "string \<Rightarrow> bool" where
  "json_valid s \<longleftrightarrow> parse_json s \<noteq> None"

lemma json_valid_render [simp]: "int_numbers v \<Longrightarrow> json_valid (render v)"
  by (simp add: json_valid_def parse_render)

definition json_default :: "string \<Rightarrow> string" where
  "json_default s = (if s = [] then ''{}'' else s)"

definition chain_row :: "int \<Rightarrow> attestation_chain \<Rightarrow> db \<Rightarrow> attestation_chain" where
  "chain_row now c d =
     c\<lparr>ac_ID := next_id ac_ID (attestation_chains d),
       ac_VerificationSummaryJSON := json_default (ac_VerificationSummaryJSON c),
       ac_CreatedAt := now, ac_UpdatedAt := now\<rparr>"

definition createAttestationChainOn :: "int \<Rightarrow> attestation_chain \<Rightarrow> db \<Rightarrow> attestation_chain result" where
  "createAttestationChainOn now c d =
     (let row = chain_row now c d in
      if \<not> json_valid (ac_VerificationSummaryJSON row)
      then (d, Inl (errors_New ''invalid verification_summary_json''))
      else if row_get esc_ID (escrows d) (ac_EscrowID c) = None
      then (d, Inl (wrap ''insert attestation_chain'' foreign_key_err))
      else (d\<lparr>attestation_chains := row_add row (attestation_chains d)\<rparr>, Inr row))"

definition GetAttestationChain :: "db \<Rightarrow> int \<Rightarrow> gerr + attestation_chain" where
  "GetAttestationChain d i = found ''get attestation_chain'' (row_get ac_ID (attestation_chains d) i)"

definition GetAttestationChainsByEscrow :: "db \<Rightarrow> int \<Rightarrow> attestation_chain list" where
  "GetAttestationChainsByEscrow d escrowID =
     rev (filter (\<lambda>c. ac_EscrowID c = escrowID) (attestation_chains d))"

definition UpdateAttestationChainVerification ::
    "int \<Rightarrow> int \<Rightarrow> bool \<Rightarrow> string \<Rightarrow> string \<Rightarrow> db \<Rightarrow> unit result" where
  "UpdateAttestationChainVerification now i verified rootHash summaryJSON d =
     (let summary = json_default summaryJSON in
      if \<not> json_valid summary then (d, Inl (errors_New ''invalid verification_summary_json''))
      else if row_get ac_ID (attestation_chains d) i = None
      then (d, Inl (wrap (''update attestation_chain id='' @ int_str i) ErrNoRows))
      else (d\<lparr>attestation_chains := row_upd (\<lambda>c. ac_ID c = i)
                 (\<lambda>c. c\<lparr>ac_Verified := verified, ac_RootHash := rootHash, ac_VerificationSummaryJSON := summary,
                        ac_UpdatedAt := now\<rparr>) (attestation_chains d)\<rparr>, Inr ()))"

definition link_row :: "int \<Rightarrow> attestation_link \<Rightarrow> db \<Rightarrow> attestation_link" where
  "link_row now l d =
     l\<lparr>al_ID := next_id al_ID (attestation_links d), al_PayloadJSON := json_default (al_PayloadJSON l),
       al_CreatedAt := now\<rparr>"

definition createAttestationLinkOn :: "int \<Rightarrow> attestation_link \<Rightarrow> db \<Rightarrow> attestation_link result" where
  "createAttestationLinkOn now l d =
     (let row = link_row now l d in
      if \<not> json_valid (al_PayloadJSON row) then (d, Inl (errors_New ''invalid payload_json''))
      else if list_ex (\<lambda>r. al_ChainID r = al_ChainID l \<and> al_LinkID r = al_LinkID l) (attestation_links d)
      then (d, Inl (wrap ''insert attestation_link'' (unique_err ''attestation_links.chain_id, attestation_links.link_id'')))
      else if row_get ac_ID (attestation_chains d) (al_ChainID l) = None
              \<or> (case al_ChildEscrowID l of None \<Rightarrow> False | Some i \<Rightarrow> row_get esc_ID (escrows d) i = None)
      then (d, Inl (wrap ''insert attestation_link'' foreign_key_err))
      else (d\<lparr>attestation_links := row_add row (attestation_links d)\<rparr>, Inr row))"

definition GetAttestationLink :: "db \<Rightarrow> int \<Rightarrow> gerr + attestation_link" where
  "GetAttestationLink d i = found ''get attestation_link'' (row_get al_ID (attestation_links d) i)"

definition GetAttestationLinksByChain :: "db \<Rightarrow> int \<Rightarrow> attestation_link list" where
  "GetAttestationLinksByChain d chainID = filter (\<lambda>l. al_ChainID l = chainID) (attestation_links d)"

end
