(* ===== verification/Escrow.thy ===== *)
theory Escrow
  imports BidStore Attestation Chain AttestStore
begin

text \<open>
  \<open>internal/escrow/service.go\<close>, first part: the state of the service and the creation of an escrow.
  A request is validated into a plan, which carries the parameters of the factory and the intent id,
  a hash of everything the request asks for. Creation then runs through the phases of
  \<open>create_phase\<close>, one per database statement, transaction or call to the chain, because two requests
  with one intent may interleave between any two of them; \<open>CreateEscrow\<close> runs the phases of one
  request to their end. The chain answers a call with a transaction hash or an error, which may
  depend on every call before (\<open>ee_Chain\<close>); the cancellation of a request's context is not modelled.
\<close>

section \<open>State\<close>

text \<open>The calls of \<open>ChainClient\<close> that send a transaction; an amount is \<open>None\<close> where the code passes \<open>nil\<close>.\<close>

datatype chain_call =
    CallCreateEscrow addr create_escrow_params
  | CallFund addr "int option"
  | CallApproveERC20 addr addr int
  | CallDepositStake addr "int option"
  | CallDepositVerifierStake addr "int option"
  | CallWithdrawStake addr
  | CallSubmit addr hash string hash
  | CallSubmitMilestone addr byte hash string hash
  | CallApproveByBuyer addr
  | CallApproveMilestoneByBuyer addr byte
  | CallCastVerifierVote addr bool string
  | CallCastMilestoneVerifierVote addr byte bool string
  | CallVerifyAndApprove addr "byte list"
  | CallVerifyAndApproveMilestone addr byte "byte list"
  | CallDispute addr string
  | CallDisputeMilestone addr byte string
  | CallEscalateSilence addr string
  | CallEscalateMilestoneSilence addr byte string
  | CallResolveDispute addr "16 word" string
  | CallResolveMilestoneDispute addr byte "16 word" string
  | CallClaimTimeoutRefund addr
  | CallClaimMilestoneTimeoutRefund addr byte
  | CallClaimArbitratorTimeout addr
  | CallClaimMilestoneArbitratorTimeout addr byte
  | CallCancelBeforeFunding addr
  | CallAbortRemainingMilestones addr
  | CallActivateBackup addr

type_synonym call_log = "(chain_call \<times> (gerr + hash)) list"

record escrow_env =
  ee_L :: eth_lib
  ee_HasConfig :: bool
  ee_FactoryAddress :: string
  ee_ChainID :: int
  ee_Now :: int
  ee_Node :: node
  ee_Chain :: "call_log \<Rightarrow> chain_call \<Rightarrow> gerr + hash"
  ee_RunOnce :: "db \<Rightarrow> db"

record escrow_world =
  ew_DB :: db
  ew_Calls :: call_log

definition on_db :: "(db \<Rightarrow> db \<times> 'a) \<Rightarrow> escrow_world \<Rightarrow> escrow_world \<times> 'a" where
  "on_db f w = (case f (ew_DB w) of (d, x) \<Rightarrow> (w\<lparr>ew_DB := d\<rparr>, x))"

definition send :: "escrow_env \<Rightarrow> chain_call \<Rightarrow> escrow_world \<Rightarrow> escrow_world \<times> (gerr + hash)" where
  "send E c w = (let r = ee_Chain E (ew_Calls w) c in (w\<lparr>ew_Calls := ew_Calls w @ [(c, r)]\<rparr>, r))"

definition ErrValidation :: gerr where
  "ErrValidation = Sentinel ''escrow.ErrValidation'' ''validation error''"

definition invalid :: "string \<Rightarrow> gerr" where
  "invalid msg = detail ErrValidation msg"

definition IsValidation :: "gerr \<Rightarrow> bool" where
  "IsValidation e = errors_is e ErrValidation"

definition IsERC20Token :: "string \<Rightarrow> bool" where
  "IsERC20Token token \<longleftrightarrow> token \<noteq> [] \<and> token \<noteq> zero_address"

definition NormalizeToken :: "string \<Rightarrow> string" where
  "NormalizeToken token = (if token = [] \<or> token = zero_address then [] else token)"

definition parseAddress :: "eth_lib \<Rightarrow> string \<Rightarrow> string \<Rightarrow> gerr + addr" where
  "parseAddress L field raw =
     (if \<not> IsHexAddress L raw then Inl (invalid (field @ '' '' @ Quote raw @ '' is not a valid hex address''))
      else let addr = HexToAddress L raw in
        if addr = zero_addr then Inl (invalid (field @ '' must not be the zero address'')) else Inr addr)"

definition HasStake :: "escrow \<Rightarrow> bool" where
  "HasStake e = (case SetString10 (esc_WorkerStake e) of None \<Rightarrow> False | Some amt \<Rightarrow> 0 < amt)"

definition ResolveEscrowID :: "eth_lib \<Rightarrow> string \<Rightarrow> db \<Rightarrow> gerr + escrow" where
  "ResolveEscrowID L raw d =
     (if IsHexAddress L raw then GetEscrowByAddress d (AddressHex L (HexToAddress L raw))
      else case ParseInt64 raw of
        None \<Rightarrow> Inl (errors_New (''invalid escrow_id: expected numeric id or 0x address, got '' @ Quote raw))
      | Some i \<Rightarrow> GetEscrow d i)"

definition ParseProofHashHex :: "string \<Rightarrow> gerr + hash" where
  "ParseProofHashHex raw0 =
     (let raw = TrimSpace raw0; normalized = drop 2 raw in
      if raw = [] then Inr zero_bytes32
      else if \<not> HasPrefix raw ''0x'' then Inl (errors_New ''expected 0x-prefixed hex'')
      else if length normalized \<noteq> 64
      then Inl (errors_New (''expected 32-byte hex (64 chars), got '' @ nat_str (length normalized)))
      else DecodeString normalized)"

definition ParseProofHexBytes :: "string \<Rightarrow> gerr + byte list" where
  "ParseProofHexBytes raw0 =
     (let raw = TrimSpace raw0; normalized = drop 2 raw in
      if raw = [] then Inl (errors_New ''proof is required'')
      else if \<not> HasPrefix raw ''0x'' then Inl (errors_New ''expected 0x-prefixed hex'')
      else if length normalized mod 2 \<noteq> 0 then Inl (errors_New ''hex length must be even'')
      else case DecodeString normalized of
        Inl e \<Rightarrow> Inl e
      | Inr b \<Rightarrow> if b = [] then Inl (errors_New ''proof is empty'') else Inr b)"

section \<open>The request\<close>

record input_milestone =
  im_Amount :: "int option"
  im_SubmissionDeadline :: uint64

record create_input =
  ci_Title :: string
  ci_Description :: string
  ci_Buyer :: string
  ci_Worker :: string
  ci_Arbitrator :: string
  ci_VerifierPanel :: "string list"
  ci_QuorumThreshold :: byte
  ci_QuorumVerifierCount :: byte
  ci_VerifierStakePerVerifier :: "int option"
  ci_Amount :: "int option"
  ci_WorkerStake :: "int option"
  ci_SubmissionDeadline :: uint64
  ci_ReviewPeriodSeconds :: uint64
  ci_DisputePeriodSeconds :: uint64
  ci_ArbitratorTimeoutSeconds :: uint64
  ci_SubmissionDeadlineDB :: int
  ci_ReviewPeriodSecondsDB :: int
  ci_DisputePeriodSecondsDB :: int
  ci_ArbitratorTimeoutSecondsDB :: int
  ci_Token :: addr
  ci_ServiceTier :: byte
  ci_Milestones :: "input_milestone list"
  ci_MilestoneDeadlines :: "int list"
  ci_BackupWorker :: addr
  ci_BackupDeadlineExtension :: uint64
  ci_BackupDeadlineDB :: int
  ci_ZKVerifier :: addr
  ci_CircuitID :: hash
  ci_ParentEscrowID :: "int option"
  ci_ParentEscrow :: addr
  ci_TaskSpecHash :: hash

record create_result =
  crs_EscrowID :: int
  crs_TxHash :: string
  crs_TaskID :: int
  crs_EscrowAddress :: string
  crs_ChainEscrowID :: int
  crs_MilestoneCount :: int

text \<open>The checks before the panel, in the order of the code: first those that need no address.\<close>

definition check_request :: "escrow_env \<Rightarrow> create_input \<Rightarrow> gerr option" where
  "check_request E i =
     (let qc = uint (ci_QuorumVerifierCount i); qt = uint (ci_QuorumThreshold i) in
      if \<not> ee_HasConfig E then Some (errors_New ''escrow service misconfigured: missing config'')
      else if ci_VerifierPanel i = [] then Some (invalid ''verifier panel is required'')
      else if qc = 0 then Some (invalid ''quorum verifier count must be > 0'')
      else if qc > 7 then Some (invalid (''quorum verifier count '' @ int_str qc @ '' exceeds maximum of 7''))
      else if qt = 0 \<or> qt > qc
      then Some (invalid (''quorum threshold must be > 0 and <= quorum verifier count (threshold='' @ int_str qt
                   @ '', quorum_verifier_count='' @ int_str qc @ '')''))
      else if int (length (ci_VerifierPanel i)) < qc
      then Some (invalid (''verifier panel length '' @ nat_str (length (ci_VerifierPanel i))
                   @ '' is smaller than quorum verifier count '' @ int_str qc))
      else if length (ci_Milestones i) \<noteq> length (ci_MilestoneDeadlines i)
      then Some (invalid (''milestone metadata mismatch: '' @ nat_str (length (ci_Milestones i))
                   @ '' milestones vs '' @ nat_str (length (ci_MilestoneDeadlines i)) @ '' deadlines''))
      else case ci_Amount i of
        None \<Rightarrow> Some (invalid ''amount is required'')
      | Some a \<Rightarrow> if a < 0 then Some (invalid ''amount must not be negative'') else None)"

definition negative :: "int option \<Rightarrow> bool" where
  "negative a = (case a of None \<Rightarrow> False | Some n \<Rightarrow> n < 0)"

text \<open>The buyer, the worker, the arbitrator and the factory.\<close>

definition check_participants :: "escrow_env \<Rightarrow> create_input \<Rightarrow> gerr + addr \<times> addr \<times> addr \<times> addr" where
  "check_participants E i =
     (case parseAddress (ee_L E) ''input.Buyer'' (ci_Buyer i) of Inl e \<Rightarrow> Inl e | Inr buyer \<Rightarrow>
      case parseAddress (ee_L E) ''input.Worker'' (ci_Worker i) of Inl e \<Rightarrow> Inl e | Inr worker \<Rightarrow>
      case parseAddress (ee_L E) ''input.Arbitrator'' (ci_Arbitrator i) of Inl e \<Rightarrow> Inl e | Inr arbitrator \<Rightarrow>
        if buyer = worker then Inl (invalid ''buyer and worker must be distinct addresses'')
        else if buyer = arbitrator then Inl (invalid ''buyer and arbitrator must be distinct addresses'')
        else if worker = arbitrator then Inl (invalid ''worker and arbitrator must be distinct addresses'')
        else case parseAddress (ee_L E) ''s.Cfg.FactoryAddress'' (ee_FactoryAddress E) of
          Inl e \<Rightarrow> Inl e
        | Inr factory \<Rightarrow>
            if negative (ci_VerifierStakePerVerifier i)
            then Inl (invalid ''verifier_stake_per_verifier must not be negative'')
            else if negative (ci_WorkerStake i) then Inl (invalid ''worker_stake must not be negative'')
            else Inr (buyer, worker, arbitrator, factory))"

text \<open>The loop over the panel; \<open>seen\<close> holds the verifiers so far, each at its index.\<close>

fun check_panel ::
    "eth_lib \<Rightarrow> addr \<Rightarrow> addr \<Rightarrow> addr \<Rightarrow> addr list \<Rightarrow> string list \<Rightarrow> gerr + addr list" where
  "check_panel L buyer worker arbitrator seen [] = Inr seen"
| "check_panel L buyer worker arbitrator seen (v # vs) =
     (let k = nat_str (length seen); addr = HexToAddress L v in
      if \<not> IsHexAddress L v
      then Inl (invalid (''verifier_panel['' @ k @ ''] '' @ Quote v @ '' is not a valid hex address''))
      else if addr = zero_addr then Inl (invalid (''input.VerifierPanel['' @ k @ ''] must not be the zero address''))
      else if addr = buyer then Inl (invalid (''verifier_panel['' @ k @ ''] must not match buyer''))
      else if addr = worker then Inl (invalid (''verifier_panel['' @ k @ ''] must not match worker''))
      else if addr = arbitrator then Inl (invalid (''verifier_panel['' @ k @ ''] must not match arbitrator''))
      else if addr \<in> set seen
      then Inl (invalid (''verifier_panel['' @ k @ ''] duplicates verifier_panel[''
                  @ nat_str (length (takeWhile (\<lambda>a. a \<noteq> addr) seen)) @ '']''))
      else check_panel L buyer worker arbitrator (seen @ [addr]) vs)"

fun check_milestones :: "nat \<Rightarrow> input_milestone list \<Rightarrow> gerr + milestone_param list" where
  "check_milestones i [] = Inr []"
| "check_milestones i (m # ms) =
     (case im_Amount m of
        None \<Rightarrow> Inl (invalid (''milestone '' @ nat_str i @ '': amount is required''))
      | Some a \<Rightarrow>
          if a < 0 then Inl (invalid (''milestone '' @ nat_str i @ '': amount must not be negative''))
          else case check_milestones (Suc i) ms of
            Inl e \<Rightarrow> Inl e
          | Inr ps \<Rightarrow> Inr (\<lparr>mp_Amount = a, mp_SubmissionDeadline = im_SubmissionDeadline m\<rparr> # ps))"

section \<open>The intent\<close>

definition lower_addr :: "eth_lib \<Rightarrow> addr \<Rightarrow> string" where
  "lower_addr L a = ToLower (AddressHex L a)"

definition hex32 :: "hash \<Rightarrow> string" where
  "hex32 h = ''0x'' @ EncodeToString h"

definition intent_milestone :: "milestone_param \<times> int \<Rightarrow> json" where
  "intent_milestone = (\<lambda>(m, deadline).
     JObj [(''amount'', JStr (int_str (mp_Amount m))), (''submission_deadline'', JNum (int_str deadline))])"

definition intent_payload ::
    "eth_lib \<Rightarrow> int \<Rightarrow> addr \<Rightarrow> create_escrow_params \<Rightarrow> string list \<Rightarrow> create_input \<Rightarrow> json" where
  "intent_payload L chainID factory p panel i =
     JObj [(''chain_id'', JNum (int_str chainID)),
       (''factory_address'', JStr (lower_addr L factory)),
       (''task_spec_hash'', JStr (ToLower (HashHex L (ci_TaskSpecHash i)))),
       (''buyer'', JStr (lower_addr L (ce_Buyer p))),
       (''worker'', JStr (lower_addr L (ce_Worker p))),
       (''arbitrator'', JStr (lower_addr L (ce_Arbitrator p))),
       (''verifier_panel'', JArr (map JStr panel)),
       (''quorum_threshold'', JNum (int_str (uint (ci_QuorumThreshold i)))),
       (''quorum_verifier_count'', JNum (int_str (uint (ci_QuorumVerifierCount i)))),
       (''verifier_stake_per_verifier'', JStr (int_str (ce_VerifierStakePerVerifier p))),
       (''amount'', JStr (int_str (ce_Amount p))),
       (''worker_stake'', JStr (int_str (ce_WorkerStake p))),
       (''submission_deadline'', JNum (int_str (uint (ci_SubmissionDeadline i)))),
       (''review_period_seconds'', JNum (int_str (uint (ci_ReviewPeriodSeconds i)))),
       (''dispute_period_seconds'', JNum (int_str (uint (ci_DisputePeriodSeconds i)))),
       (''arbitrator_timeout_seconds'', JNum (int_str (uint (ci_ArbitratorTimeoutSeconds i)))),
       (''token'', JStr (lower_addr L (ci_Token i))),
       (''service_tier'', JNum (int_str (uint (ci_ServiceTier i)))),
       (''milestones'', JArr (map intent_milestone (zip (ce_Milestones p) (ci_MilestoneDeadlines i)))),
       (''backup_worker'', JStr (lower_addr L (ci_BackupWorker i))),
       (''backup_deadline_extension'', JNum (int_str (uint (ci_BackupDeadlineExtension i)))),
       (''zk_verifier'', JStr (lower_addr L (ci_ZKVerifier i))),
       (''circuit_id'', JStr (ToLower (hex32 (ci_CircuitID i)))),
       (''parent_escrow_id'', JNum (int_str (case ci_ParentEscrowID i of None \<Rightarrow> 0 | Some k \<Rightarrow> k))),
       (''parent_escrow'', JStr (lower_addr L (ci_ParentEscrow i)))]"

definition buildCreateEscrowIntentID ::
    "eth_lib \<Rightarrow> int \<Rightarrow> addr \<Rightarrow> create_escrow_params \<Rightarrow> string list \<Rightarrow> create_input \<Rightarrow> string" where
  "buildCreateEscrowIntentID L chainID factory p panel i =
     HashHex L (Keccak256Hash L (render (intent_payload L chainID factory p panel i)))"

definition pendingEscrowAddress :: "string \<Rightarrow> string" where
  "pendingEscrowAddress intent = ''pending:'' @ (if HasPrefix intent ''0x'' then drop 2 intent else intent)"

section \<open>The plan\<close>

record create_plan =
  cp_Input :: create_input
  cp_Factory :: addr
  cp_Params :: create_escrow_params
  cp_Panel :: "string list"
  cp_Intent :: string

definition create_params ::
    "create_input \<Rightarrow> addr \<Rightarrow> addr \<Rightarrow> addr \<Rightarrow> addr list \<Rightarrow> milestone_param list \<Rightarrow> create_escrow_params" where
  "create_params i buyer worker arbitrator panel ms =
     \<lparr>ce_Buyer = buyer, ce_Worker = worker,
      ce_VerifierPanel = panel @ replicate (7 - length panel) zero_addr,
      ce_QuorumThreshold = ci_QuorumThreshold i, ce_QuorumVerifierCount = ci_QuorumVerifierCount i,
      ce_VerifierStakePerVerifier = (case ci_VerifierStakePerVerifier i of None \<Rightarrow> 0 | Some n \<Rightarrow> n),
      ce_Arbitrator = arbitrator, ce_Amount = (case ci_Amount i of None \<Rightarrow> 0 | Some n \<Rightarrow> n),
      ce_WorkerStake = (case ci_WorkerStake i of None \<Rightarrow> 0 | Some n \<Rightarrow> n),
      ce_SubmissionDeadline = ci_SubmissionDeadline i, ce_ReviewPeriodSeconds = ci_ReviewPeriodSeconds i,
      ce_DisputePeriodSeconds = ci_DisputePeriodSeconds i, ce_TaskSpecHash = ci_TaskSpecHash i,
      ce_ArbitratorTimeoutSeconds = ci_ArbitratorTimeoutSeconds i, ce_Token = ci_Token i,
      ce_ServiceTier = ci_ServiceTier i, ce_Milestones = ms, ce_BackupWorker = ci_BackupWorker i,
      ce_BackupDeadlineExtension = ci_BackupDeadlineExtension i, ce_ZKVerifier = ci_ZKVerifier i,
      ce_CircuitID = ci_CircuitID i, ce_ParentEscrow = ci_ParentEscrow i\<rparr>"

definition plan_create :: "escrow_env \<Rightarrow> create_input \<Rightarrow> gerr + create_plan" where
  "plan_create E i =
     (case check_request E i of Some e \<Rightarrow> Inl e | None \<Rightarrow>
      case check_participants E i of Inl e \<Rightarrow> Inl e | Inr (buyer, worker, arbitrator, factory) \<Rightarrow>
      case check_panel (ee_L E) buyer worker arbitrator []
             (take (nat (uint (ci_QuorumVerifierCount i))) (ci_VerifierPanel i)) of
        Inl e \<Rightarrow> Inl e
      | Inr panel \<Rightarrow>
          (case check_milestones 0 (ci_Milestones i) of
             Inl e \<Rightarrow> Inl e
           | Inr ms \<Rightarrow>
               let params = create_params i buyer worker arbitrator panel ms;
                   texts = map (lower_addr (ee_L E)) panel in
               Inr \<lparr>cp_Input = i, cp_Factory = factory, cp_Params = params, cp_Panel = texts,
                    cp_Intent = buildCreateEscrowIntentID (ee_L E) (ee_ChainID E) factory params texts i\<rparr>))"

section \<open>Creation\<close>

definition create_row :: "escrow_env \<Rightarrow> create_plan \<Rightarrow> int \<Rightarrow> escrow" where
  "create_row E p taskID =
     (let i = cp_Input p; cps = cp_Params p in
      \<lparr>esc_ID = 0, esc_TaskID = taskID, esc_ChainID = ee_ChainID E, esc_FactoryAddress = ee_FactoryAddress E,
       esc_EscrowAddress = pendingEscrowAddress (cp_Intent p), esc_EscrowID = 0,
       esc_CreateIntentID = cp_Intent p, esc_CreateTxHash = [],
       esc_Buyer = ci_Buyer i, esc_Worker = ci_Worker i, esc_Verifier = hd (cp_Panel p),
       esc_VerifierPanelJSON = marshal_strings (cp_Panel p),
       esc_QuorumThreshold = uint (ci_QuorumThreshold i),
       esc_QuorumVerifierCount = uint (ci_QuorumVerifierCount i),
       esc_VerifierStakePerVerifier = int_str (ce_VerifierStakePerVerifier cps),
       esc_Arbitrator = ci_Arbitrator i, esc_Amount = int_str (ce_Amount cps),
       esc_WorkerStake = int_str (ce_WorkerStake cps), esc_Token = AddressHex (ee_L E) (ci_Token i),
       esc_Status = ''pending'',
       esc_SubmissionDeadline = ci_SubmissionDeadlineDB i,
       esc_ReviewPeriodSeconds = ci_ReviewPeriodSecondsDB i,
       esc_DisputePeriodSeconds = ci_DisputePeriodSecondsDB i,
       esc_ArbitratorTimeoutSeconds = ci_ArbitratorTimeoutSecondsDB i,
       esc_MilestoneCount = (if ci_Milestones i = [] then 1 else int (length (ci_Milestones i))),
       esc_CurrentMilestone = 0,
       esc_BackupWorker = AddressHex (ee_L E) (ci_BackupWorker i),
       esc_BackupDeadlineExtension = ci_BackupDeadlineDB i,
       esc_ActiveWorker = ci_Worker i, esc_BackupActivated = False, esc_Frozen = False,
       esc_ServiceTier = uint (ci_ServiceTier i),
       esc_ZKVerifier = AddressHex (ee_L E) (ci_ZKVerifier i), esc_CircuitID = hex32 (ci_CircuitID i),
       esc_ParentEscrowID = ci_ParentEscrowID i, esc_CreatedAt = 0, esc_UpdatedAt = 0\<rparr>)"

text \<open>The transaction that inserts the task and the pending escrow.\<close>

definition insert_create :: "escrow_env \<Rightarrow> create_plan \<Rightarrow> db \<Rightarrow> escrow result" where
  "insert_create E p d =
     in_tx d (andThen
       (mapErr (wrap ''create task'')
         (createTaskOn (ee_Now E) (ci_Title (cp_Input p)) (ci_Description (cp_Input p))
            (HashHex (ee_L E) (ci_TaskSpecHash (cp_Input p))) d))
       (\<lambda>d1 t. mapErr (\<lambda>e. if errors_is e ErrDuplicateEscrowCreateIntent then e
                            else wrap ''create escrow db record'' e)
                  (createEscrowOn (ee_Now E) (create_row E p (tsk_ID t)) d1)))"

definition created_already :: "eth_lib \<Rightarrow> escrow \<Rightarrow> bool" where
  "created_already L r \<longleftrightarrow> esc_Status r = ''created'' \<and> IsHexAddress L (esc_EscrowAddress r) \<and> 0 < esc_EscrowID r"

definition stored_result :: "escrow \<Rightarrow> string \<Rightarrow> create_result" where
  "stored_result r txHash =
     \<lparr>crs_EscrowID = esc_ID r, crs_TxHash = txHash, crs_TaskID = esc_TaskID r,
      crs_EscrowAddress = esc_EscrowAddress r, crs_ChainEscrowID = esc_EscrowID r,
      crs_MilestoneCount = esc_MilestoneCount r\<rparr>"

fun escrow_milestones ::
    "int \<Rightarrow> int \<Rightarrow> nat \<Rightarrow> (milestone_param \<times> int) list \<Rightarrow> db \<Rightarrow> unit result" where
  "escrow_milestones now escrowID i [] d = (d, Inr ())"
| "escrow_milestones now escrowID i ((m, deadline) # ms) d =
     andThen (mapErr (wrap (''create milestone '' @ nat_str i))
                (createMilestoneOn now
                   (blank_milestone\<lparr>ms_EscrowID := escrowID, ms_MilestoneIndex := int i,
                      ms_Amount := int_str (mp_Amount m), ms_SubmissionDeadline := deadline,
                      ms_Status := ''pending''\<rparr>) d))
       (\<lambda>d1 _. escrow_milestones now escrowID (Suc i) ms d1)"

text \<open>The transaction that records the confirmed escrow with its milestones: \<open>Inl\<close> is the failure of
  the first update, which the caller looks into, \<open>Inr\<close> that of a milestone.\<close>

definition finalize_create ::
    "escrow_env \<Rightarrow> create_plan \<Rightarrow> escrow \<Rightarrow> create_escrow_result \<Rightarrow> db \<Rightarrow> db \<times> (gerr + (gerr + unit))" where
  "finalize_create E p r x d =
     (case FinalizeEscrowCreateTx (ee_Now E) (esc_ID r) (AddressHex (ee_L E) (cer_EscrowAddress x))
             (cer_EscrowID x) ''created'' d of
        (_, Inl e) \<Rightarrow> (d, Inl e)
      | (d1, Inr _) \<Rightarrow>
          (case in_tx d (escrow_milestones (ee_Now E) (esc_ID r) 0
                  (zip (ce_Milestones (cp_Params p)) (ci_MilestoneDeadlines (cp_Input p))) d1) of
             (d2, res) \<Rightarrow> (d2, Inr res)))"

datatype create_phase =
    PLookup
  | PInsert
  | PRelookup
  | PHave escrow
  | PClaim escrow
  | PReread escrow
  | PSend escrow
  | PReset escrow gerr
  | PPersist escrow string nat
  | PLost escrow string gerr
  | PReceipt escrow string
  | PFinalize escrow string create_escrow_result
  | PRefetch escrow gerr
  | PIndex create_result
  | PDone "gerr + create_result"

definition maxPersistAttempts :: nat where
  "maxPersistAttempts = 3"

definition lost_err :: "create_plan \<Rightarrow> string \<Rightarrow> string \<Rightarrow> gerr \<Rightarrow> gerr" where
  "lost_err p status txHash e =
     wrap (''on-chain create submitted but tx-hash persistence failed (create_intent_id='' @ cp_Intent p
           @ '', status='' @ status @ '', tx_hash='' @ txHash @ '')'') e"

text \<open>One step of a creation: a database statement, a transaction, or a call to the chain.\<close>

fun create_step ::
    "escrow_env \<Rightarrow> create_plan \<Rightarrow> create_phase \<Rightarrow> escrow_world \<Rightarrow> escrow_world \<times> create_phase" where
  "create_step E p PLookup w =
     (w, case GetEscrowByCreateIntentID (ew_DB w) (cp_Intent p) of
           Inr r \<Rightarrow> PHave r
         | Inl e \<Rightarrow> if errors_is e ErrNoRows then PInsert
                    else PDone (Inl (wrap ''get escrow by create intent'' e)))"
| "create_step E p PInsert w =
     (case on_db (insert_create E p) w of
        (w1, Inr r) \<Rightarrow> (w1, PHave r)
      | (w1, Inl e) \<Rightarrow> (w1, if errors_is e ErrDuplicateEscrowCreateIntent then PRelookup else PDone (Inl e)))"
| "create_step E p PRelookup w =
     (w, case GetEscrowByCreateIntentID (ew_DB w) (cp_Intent p) of
           Inr r \<Rightarrow> PHave r
         | Inl e \<Rightarrow> PDone (Inl (wrap ''get escrow by create intent after duplicate'' e)))"
| "create_step E p (PHave r) w =
     (w, if created_already (ee_L E) r then PDone (Inr (stored_result r (esc_CreateTxHash r)))
         else let txHash = TrimSpace (esc_CreateTxHash r) in
           if txHash = [] then PClaim r else PReceipt r txHash)"
| "create_step E p (PClaim r) w =
     (case on_db (TransitionEscrowStatus (ee_Now E) (esc_ID r) ''pending'' ''submitting'') w of
        (w1, transitioned) \<Rightarrow> (w1, if transitioned then PSend r else PReread r))"
| "create_step E p (PReread r) w =
     (w, case GetEscrow (ew_DB w) (esc_ID r) of
           Inl e \<Rightarrow> PDone (Inl (wrap ''get escrow after status transition conflict'' e))
         | Inr latest \<Rightarrow>
             (let txHash = TrimSpace (esc_CreateTxHash latest) in
              if txHash = []
              then PDone (Inl (errors_New (''escrow create request '' @ cp_Intent p @ '' is already ''
                     @ esc_Status latest @ ''; retry after the in-flight attempt completes'')))
              else PReceipt latest txHash))"
| "create_step E p (PSend r) w =
     (case send E (CallCreateEscrow (cp_Factory p) (cp_Params p)) w of
        (w1, Inl e) \<Rightarrow> (w1, PReset r e)
      | (w1, Inr h) \<Rightarrow> (w1, PPersist r (HashHex (ee_L E) h) 1))"
| "create_step E p (PReset r e) w =
     (w\<lparr>ew_DB := UpdateEscrowStatus (ee_Now E) (esc_ID r) ''pending'' (ew_DB w)\<rparr>,
      PDone (Inl (wrap ''chain create escrow'' e)))"
| "create_step E p (PPersist r txHash attempt) w =
     (case on_db (SetEscrowCreateTxHash (ee_Now E) (esc_ID r) txHash ''submitting'' ''pending_confirmation'') w of
        (w1, Inr _) \<Rightarrow> (w1, PReceipt r txHash)
      | (w1, Inl e) \<Rightarrow> (w1, if attempt < maxPersistAttempts then PPersist r txHash (Suc attempt)
                           else PLost r txHash e))"
| "create_step E p (PLost r txHash e) w =
     (w, PDone (Inl (lost_err p
           (case GetEscrow (ew_DB w) (esc_ID r) of
              Inl _ \<Rightarrow> ''submitting''
            | Inr latest \<Rightarrow> if blank (esc_Status latest) then ''submitting'' else esc_Status latest)
           txHash e)))"
| "create_step E p (PReceipt r txHash) w =
     (w, if txHash = []
         then PDone (Inl (errors_New (''escrow create request '' @ cp_Intent p @ '' has no transaction hash to resume'')))
         else case WaitMinedAndParseEscrow (ee_L E) (ee_Node E) (HexToHash (ee_L E) txHash) of
           Inl e \<Rightarrow> PDone (Inl (wrap ''wait escrow receipt'' e))
         | Inr x \<Rightarrow> PFinalize r txHash x)"
| "create_step E p (PFinalize r txHash x) w =
     (case on_db (finalize_create E p r x) w of
        (w1, Inl e) \<Rightarrow> (w1, if errors_is e ErrNoRows then PRefetch r e
                           else PDone (Inl (wrap ''finalize escrow create record'' e)))
      | (w1, Inr (Inl e)) \<Rightarrow> (w1, PDone (Inl e))
      | (w1, Inr (Inr _)) \<Rightarrow>
          (w1, PIndex \<lparr>crs_EscrowID = esc_ID r, crs_TxHash = txHash, crs_TaskID = esc_TaskID r,
                 crs_EscrowAddress = AddressHex (ee_L E) (cer_EscrowAddress x),
                 crs_ChainEscrowID = cer_EscrowID x,
                 crs_MilestoneCount = (if ci_Milestones (cp_Input p) = [] then 1
                                       else int (length (ci_Milestones (cp_Input p))))\<rparr>))"
| "create_step E p (PRefetch r e) w =
     (w, PDone (case GetEscrow (ew_DB w) (esc_ID r) of
            Inl _ \<Rightarrow> Inl (wrap ''finalize escrow create record'' e)
          | Inr latest \<Rightarrow>
              if created_already (ee_L E) latest
              then Inr (stored_result latest (TrimSpace (esc_CreateTxHash latest)))
              else Inl (wrap ''finalize escrow create record'' e)))"
| "create_step E p (PIndex res) w = (w\<lparr>ew_DB := ee_RunOnce E (ew_DB w)\<rparr>, PDone (Inr res))"
| "create_step E p (PDone res) w = (w, PDone res)"

text \<open>Every step lowers the rank of the phase, so a request comes to its end.\<close>

fun rank :: "create_phase \<Rightarrow> nat" where
  "rank PLookup = 20"
| "rank PInsert = 19"
| "rank PRelookup = 18"
| "rank (PHave r) = 17"
| "rank (PClaim r) = 16"
| "rank (PReread r) = 15"
| "rank (PSend r) = 14"
| "rank (PReset r e) = 1"
| "rank (PPersist r h n) = 9 + (maxPersistAttempts - n)"
| "rank (PLost r h e) = 8"
| "rank (PReceipt r h) = 7"
| "rank (PFinalize r h x) = 6"
| "rank (PRefetch r e) = 5"
| "rank (PIndex res) = 4"
| "rank (PDone res) = 0"

lemma rank_0 [simp]: "rank ph = 0 \<longleftrightarrow> (\<exists>res. ph = PDone res)"
  by (cases ph) auto

lemma step_rank:
  "create_step E p ph w = (w1, ph1) \<Longrightarrow> rank ph \<noteq> 0 \<Longrightarrow> rank ph1 < rank ph"
  by (cases ph) (auto simp: maxPersistAttempts_def Let_def split: sum.splits prod.splits if_splits)

function run_create ::
    "escrow_env \<Rightarrow> create_plan \<Rightarrow> create_phase \<Rightarrow> escrow_world \<Rightarrow> escrow_world \<times> (gerr + create_result)" where
  "run_create E p ph w =
     (case ph of PDone res \<Rightarrow> (w, res)
      | _ \<Rightarrow> (case create_step E p ph w of (w1, ph1) \<Rightarrow> run_create E p ph1 w1))"
  by pat_completeness auto

termination run_create
  by (relation "measure (\<lambda>(E, p, ph, w). rank ph)")
    (simp_all only: wf_measure in_measure prod.case, (erule step_rank [OF sym] step_rank, simp)+)

declare run_create.simps [simp del]

lemma run_create_done [simp]: "run_create E p (PDone res) w = (w, res)"
  by (simp add: run_create.simps)

lemma run_create_step:
  "rank ph \<noteq> 0 \<Longrightarrow> create_step E p ph w = (w1, ph1) \<Longrightarrow> run_create E p ph w = run_create E p ph1 w1"
  by (subst run_create.simps) (cases ph; simp del: create_step.simps)

definition CreateEscrow :: "escrow_env \<Rightarrow> create_input \<Rightarrow> escrow_world \<Rightarrow> escrow_world \<times> (gerr + create_result)" where
  "CreateEscrow E i w = (case plan_create E i of Inl e \<Rightarrow> (w, Inl e) | Inr p \<Rightarrow> run_create E p PLookup w)"

end
