(* ===== verification/EscrowOps.thy ===== *)
theory EscrowOps
  imports Escrow
begin

text \<open>
  \<open>internal/escrow/service.go\<close>, second part: the operations on an existing escrow. Each validates its
  request against the stored escrow, makes one call to the chain (two when an ERC-20 token has to be
  approved first), lets the indexer run once and returns the hash of the transaction. A submission
  also validates and stores the attestation chain of sub-delegated work.
\<close>

type_synonym 'a esc_result = "escrow_world \<times> (gerr + 'a)"

text \<open>\<open>fmt.Errorf("%w: msg: %w", ErrValidation, err)\<close>\<close>

definition invalid_because :: "string \<Rightarrow> gerr \<Rightarrow> gerr" where
  "invalid_because msg e =
     Errorf (err_msg ErrValidation @ '': '' @ msg @ '': '' @ err_msg e) [ErrValidation, e]"

section \<open>Validation\<close>

definition out_of_range :: "int64 \<Rightarrow> int \<Rightarrow> gerr" where
  "out_of_range m n = invalid (''milestone_index '' @ int_str (sint m) @ '' out of range [0, '' @ int_str n @ '')'')"

definition validateMilestoneIndex :: "int \<Rightarrow> int64 option \<Rightarrow> gerr + int64 option" where
  "validateMilestoneIndex n milestoneIndex =
     (if n > 1 then
        (case milestoneIndex of
           None \<Rightarrow> Inl (invalid ''milestone_index required for multi-milestone escrow'')
         | Some m \<Rightarrow> if sint m < 0 \<or> sint m \<ge> n then Inl (out_of_range m n) else Inr (Some m))
      else if milestoneIndex \<noteq> None
      then Inl (invalid ''milestone_index is not valid for single-milestone escrows'')
      else Inr None)"

definition validateOptionalMilestoneIndex :: "int \<Rightarrow> int64 option \<Rightarrow> gerr + int64 option" where
  "validateOptionalMilestoneIndex n milestoneIndex =
     (case milestoneIndex of
        None \<Rightarrow> Inr None
      | Some m \<Rightarrow>
          if n \<le> 1 then Inl (invalid ''milestone_index is not valid for single-milestone escrows'')
          else if sint m < 0 \<or> sint m \<ge> n then Inl (out_of_range m n)
          else Inr (Some m))"

definition checked_chain ::
    "escrow_env \<Rightarrow> completion_attestation list \<Rightarrow> int list \<Rightarrow> gerr + (chain_result \<times> completion_attestation list) option" where
  "checked_chain E atts kids =
     (let v = ValidateChain (ee_L E) atts kids (ee_Now E) in
      if \<not> cr_Valid v
      then Inl (invalid (''attestation chain validation failed: '' @ Join (cr_Reasons v) ''; ''))
      else Inr (Some (v, atts)))"

definition validateAttestationChain ::
    "escrow_env \<Rightarrow> int \<Rightarrow> string \<Rightarrow> db \<Rightarrow> gerr + (chain_result \<times> completion_attestation list) option" where
  "validateAttestationChain E escrowID chainJSON d =
     (let childEscrows = ListChildEscrows d escrowID in
      if childEscrows \<noteq> [] then
        (case ParseCompletionAttestations chainJSON of
           Inl e \<Rightarrow> Inl (invalid_because ''invalid attestation_chain_json'' e)
         | Inr atts \<Rightarrow>
             if atts = []
             then Inl (invalid ''attestation_chain_json required when escrow has sub-delegated child escrows'')
             else checked_chain E atts (map esc_ID childEscrows))
      else if chainJSON \<noteq> [] \<and> chainJSON \<noteq> ''[]'' then
        (case ParseCompletionAttestations chainJSON of
           Inl e \<Rightarrow> Inl (invalid_because ''invalid attestation_chain_json'' e)
         | Inr atts \<Rightarrow> if atts \<noteq> [] then checked_chain E atts [] else Inr None)
      else Inr None)"

definition link_of :: "int \<Rightarrow> completion_attestation \<Rightarrow> attestation_link" where
  "link_of chainID a =
     \<lparr>al_ID = 0, al_ChainID = chainID, al_LinkID = at_LinkID a, al_ParentLinkID = at_ParentLinkID a,
      al_FromAddress = at_FromAddress a, al_ToAddress = at_ToAddress a, al_ChildEscrowID = at_ChildEscrowID a,
      al_TaskSpecHash = at_TaskSpecHash a, al_OutcomeHash = at_OutcomeHash a, al_IssuedAt = at_IssuedAt a,
      al_ExpiresAt = at_ExpiresAt a, al_Nonce = at_Nonce a, al_Signature = at_Signature a,
      al_PayloadJSON = [], al_CreatedAt = 0\<rparr>"

fun create_links :: "int \<Rightarrow> int \<Rightarrow> completion_attestation list \<Rightarrow> db \<Rightarrow> unit result" where
  "create_links now chainID [] d = (d, Inr ())"
| "create_links now chainID (a # as) d =
     andThen (mapErr (wrap (''create attestation link '' @ at_LinkID a))
                (createAttestationLinkOn now (link_of chainID a) d))
       (\<lambda>d1 _. create_links now chainID as d1)"

definition persistAttestationChain ::
    "int \<Rightarrow> int \<Rightarrow> int64 option \<Rightarrow> chain_result \<Rightarrow> completion_attestation list \<Rightarrow> db \<Rightarrow> unit result" where
  "persistAttestationChain now escrowID milestoneIndex v atts d =
     in_tx d (andThen
       (mapErr (wrap ''create attestation chain'')
         (createAttestationChainOn now
            \<lparr>ac_ID = 0, ac_EscrowID = escrowID, ac_MilestoneIndex = map_option sint milestoneIndex,
             ac_RootHash = cr_RootHash v, ac_Verified = cr_Valid v,
             ac_VerificationSummaryJSON = MarshalChainValidationResult v, ac_CreatedAt = 0, ac_UpdatedAt = 0\<rparr> d))
       (\<lambda>d1 record. create_links now (ac_ID record) atts d1))"

section \<open>Calls\<close>

definition run_indexer :: "escrow_env \<Rightarrow> escrow_world \<Rightarrow> escrow_world" where
  "run_indexer E w = w\<lparr>ew_DB := ee_RunOnce E (ew_DB w)\<rparr>"

text \<open>Send a transaction, run the indexer once, return the hash.\<close>

definition send_and_index :: "escrow_env \<Rightarrow> string \<Rightarrow> chain_call \<Rightarrow> escrow_world \<Rightarrow> string esc_result" where
  "send_and_index E what c w =
     andThen (mapErr (wrap what) (send E c w)) (\<lambda>w1 h. (run_indexer E w1, Inr (HashHex (ee_L E) h)))"

definition refuse :: "string \<Rightarrow> escrow_world \<Rightarrow> string esc_result" where
  "refuse msg w = (w, Inl (invalid msg))"

text \<open>What most operations share: the escrow's address, and the milestone as a \<open>uint8\<close> if there is one.\<close>

definition on_target ::
    "escrow_env \<Rightarrow> (gerr + int64 option) \<Rightarrow> escrow \<Rightarrow> (addr \<Rightarrow> byte \<Rightarrow> escrow_world \<Rightarrow> string esc_result)
      \<Rightarrow> (addr \<Rightarrow> escrow_world \<Rightarrow> string esc_result) \<Rightarrow> escrow_world \<Rightarrow> string esc_result" where
  "on_target E resolved e milestoneOp wholeOp w =
     orFail w id resolved (\<lambda>m.
     orFail w id (parseAddress (ee_L E) ''escrow_address'' (esc_EscrowAddress e)) (\<lambda>addr.
       case m of
         Some i \<Rightarrow> orFail w id (IntToUint8 i ''milestone_index'') (\<lambda>b. milestoneOp addr b w)
       | None \<Rightarrow> wholeOp addr w))"

text \<open>Paying an amount into the escrow: a token is approved first, and the approval must be mined with
  success; the native currency goes along with the call.\<close>

definition pay ::
    "escrow_env \<Rightarrow> string \<Rightarrow> (addr \<Rightarrow> int option \<Rightarrow> chain_call) \<Rightarrow> addr \<Rightarrow> string \<Rightarrow> int \<Rightarrow> escrow_world
      \<Rightarrow> string esc_result" where
  "pay E what call escrowAddr token amount w =
     (if IsERC20Token token then
        orFail w id (parseAddress (ee_L E) ''token'' token) (\<lambda>tokenAddr.
        andThen (mapErr (wrap ''approve erc20'') (send E (CallApproveERC20 tokenAddr escrowAddr amount) w))
          (\<lambda>w1 approveTx.
            orFail w1 (wrap ''wait approve receipt'') (WaitMined (ee_L E) (ee_Node E) approveTx) (\<lambda>r.
              if rc_Status r \<noteq> 1 then (w1, Inl (errors_New ''approve transaction reverted''))
              else send_and_index E what (call escrowAddr None) w1)))
      else send_and_index E what (call escrowAddr (Some amount)) w)"

section \<open>Operations\<close>

definition FundEscrow :: "escrow_env \<Rightarrow> escrow \<Rightarrow> escrow_world \<Rightarrow> string esc_result" where
  "FundEscrow E e w =
     (case SetString10 (esc_Amount e) of
        None \<Rightarrow> (w, Inl (errors_New (''malformed escrow amount in database: '' @ Quote (esc_Amount e))))
      | Some amount \<Rightarrow>
          orFail w id (parseAddress (ee_L E) ''escrow_address'' (esc_EscrowAddress e)) (\<lambda>escrowAddr.
            pay E ''fund escrow'' CallFund escrowAddr (esc_Token e) amount w))"

definition processStakeDeposit ::
    "escrow_env \<Rightarrow> addr \<Rightarrow> string \<Rightarrow> int \<Rightarrow> (addr \<Rightarrow> int option \<Rightarrow> chain_call) \<Rightarrow> escrow_world \<Rightarrow> string esc_result" where
  "processStakeDeposit E escrowAddr token amount deposit w = pay E ''deposit stake'' deposit escrowAddr token amount w"

definition deposit_stake ::
    "escrow_env \<Rightarrow> string \<Rightarrow> string \<Rightarrow> (addr \<Rightarrow> int option \<Rightarrow> chain_call) \<Rightarrow> escrow \<Rightarrow> escrow_world \<Rightarrow> string esc_result" where
  "deposit_stake E stake msg deposit e w =
     (case SetString10 stake of
        None \<Rightarrow> refuse msg w
      | Some amount \<Rightarrow>
          if amount \<le> 0 then refuse msg w
          else orFail w id (parseAddress (ee_L E) ''escrow_address'' (esc_EscrowAddress e)) (\<lambda>escrowAddr.
            processStakeDeposit E escrowAddr (esc_Token e) amount deposit w))"

definition DepositWorkerStake :: "escrow_env \<Rightarrow> escrow \<Rightarrow> escrow_world \<Rightarrow> string esc_result" where
  "DepositWorkerStake E e w =
     deposit_stake E (esc_WorkerStake e) ''this escrow does not require a worker stake'' CallDepositStake e w"

definition DepositVerifierStake :: "escrow_env \<Rightarrow> escrow \<Rightarrow> escrow_world \<Rightarrow> string esc_result" where
  "DepositVerifierStake E e w =
     deposit_stake E (esc_VerifierStakePerVerifier e) ''this escrow does not require verifier stake''
       CallDepositVerifierStake e w"

definition WithdrawStake :: "escrow_env \<Rightarrow> escrow \<Rightarrow> escrow_world \<Rightarrow> string esc_result" where
  "WithdrawStake E e w =
     orFail w id (parseAddress (ee_L E) ''escrow_address'' (esc_EscrowAddress e)) (\<lambda>addr.
       send_and_index E ''withdraw stake'' (CallWithdrawStake addr) w)"

record submit_request =
  sq_SubmissionURI :: string
  sq_ProofHash :: string
  sq_MilestoneIndex :: "int64 option"
  sq_AttestationChainJSON :: string

definition submit_call ::
    "escrow_env \<Rightarrow> addr \<Rightarrow> int64 option \<Rightarrow> string \<Rightarrow> hash \<Rightarrow> escrow_world \<Rightarrow> hash esc_result" where
  "submit_call E addr m uri proofHash w =
     (let h = Keccak256Hash (ee_L E) uri in
      case m of
        Some i \<Rightarrow>
          orFail w id (IntToUint8 i ''milestone_index'') (\<lambda>b.
            mapErr (wrap ''submit milestone'') (send E (CallSubmitMilestone addr b h uri proofHash) w))
      | None \<Rightarrow> mapErr (wrap ''submit'') (send E (CallSubmit addr h uri proofHash) w))"

definition SubmitWork :: "escrow_env \<Rightarrow> escrow \<Rightarrow> submit_request \<Rightarrow> escrow_world \<Rightarrow> string esc_result" where
  "SubmitWork E e q w =
     orFail w id (validateMilestoneIndex (esc_MilestoneCount e) (sq_MilestoneIndex q)) (\<lambda>m.
     orFail w (invalid_because ''invalid proof_hash'') (ParseProofHashHex (sq_ProofHash q)) (\<lambda>proofHash.
     orFail w id (validateAttestationChain E (esc_ID e) (sq_AttestationChainJSON q) (ew_DB w)) (\<lambda>validated.
     orFail w id (parseAddress (ee_L E) ''escrow_address'' (esc_EscrowAddress e)) (\<lambda>addr.
     andThen (submit_call E addr m (sq_SubmissionURI q) proofHash w) (\<lambda>w1 tx.
     andThen
       (case validated of
          None \<Rightarrow> (w1, Inr ())
        | Some (v, atts) \<Rightarrow>
            mapErr (wrap ''persist attestation chain'')
              (on_db (persistAttestationChain (ee_Now E) (esc_ID e) m v atts) w1))
       (\<lambda>w2 _. (run_indexer E w2, Inr (HashHex (ee_L E) tx))))))))"

definition ApproveWork ::
    "escrow_env \<Rightarrow> escrow \<Rightarrow> string \<Rightarrow> int64 option \<Rightarrow> escrow_world \<Rightarrow> string esc_result" where
  "ApproveWork E e role milestoneIndex =
     on_target E (validateMilestoneIndex (esc_MilestoneCount e) milestoneIndex) e
       (\<lambda>addr m. if role = ''buyer''
                 then send_and_index E ''approve milestone by buyer'' (CallApproveMilestoneByBuyer addr m)
                 else if role = ''verifier''
                 then send_and_index E ''approve milestone by verifier vote''
                        (CallCastMilestoneVerifierVote addr m True [])
                 else refuse (''role must be '' @ [CHR 0x27] @ ''buyer'' @ [CHR 0x27] @ '' or ''
                        @ [CHR 0x27] @ ''verifier'' @ [CHR 0x27]))
       (\<lambda>addr. if role = ''buyer'' then send_and_index E ''approve by buyer'' (CallApproveByBuyer addr)
               else if role = ''verifier''
               then send_and_index E ''approve by verifier vote'' (CallCastVerifierVote addr True [])
               else refuse (''role must be '' @ [CHR 0x27] @ ''buyer'' @ [CHR 0x27] @ '' or ''
                      @ [CHR 0x27] @ ''verifier'' @ [CHR 0x27]))"

definition VerifyAndApprove ::
    "escrow_env \<Rightarrow> escrow \<Rightarrow> byte list \<Rightarrow> int64 option \<Rightarrow> escrow_world \<Rightarrow> string esc_result" where
  "VerifyAndApprove E e proof milestoneIndex =
     on_target E (validateMilestoneIndex (esc_MilestoneCount e) milestoneIndex) e
       (\<lambda>addr m. send_and_index E ''verify and approve milestone'' (CallVerifyAndApproveMilestone addr m proof))
       (\<lambda>addr. send_and_index E ''verify and approve'' (CallVerifyAndApprove addr proof))"

definition CastVerifierVote ::
    "escrow_env \<Rightarrow> escrow \<Rightarrow> bool \<Rightarrow> string \<Rightarrow> int64 option \<Rightarrow> escrow_world \<Rightarrow> string esc_result" where
  "CastVerifierVote E e approve reasonURI milestoneIndex =
     on_target E (validateMilestoneIndex (esc_MilestoneCount e) milestoneIndex) e
       (\<lambda>addr m. send_and_index E ''cast milestone verifier vote''
                   (CallCastMilestoneVerifierVote addr m approve reasonURI))
       (\<lambda>addr. send_and_index E ''cast verifier vote'' (CallCastVerifierVote addr approve reasonURI))"

definition dispute_role_msg :: string where
  "dispute_role_msg = ''role must be '' @ [CHR 0x27] @ ''buyer'' @ [CHR 0x27] @ '', '' @ [CHR 0x27]
     @ ''verifier'' @ [CHR 0x27] @ '', or '' @ [CHR 0x27] @ ''worker'' @ [CHR 0x27]"

definition DisputeWork ::
    "escrow_env \<Rightarrow> escrow \<Rightarrow> string \<Rightarrow> string \<Rightarrow> int64 option \<Rightarrow> escrow_world \<Rightarrow> string esc_result" where
  "DisputeWork E e role reasonURI milestoneIndex =
     on_target E (validateMilestoneIndex (esc_MilestoneCount e) milestoneIndex) e
       (\<lambda>addr m. if role = ''buyer''
                 then send_and_index E ''dispute milestone'' (CallDisputeMilestone addr m reasonURI)
                 else if role = ''verifier''
                 then send_and_index E ''reject milestone via verifier vote''
                        (CallCastMilestoneVerifierVote addr m False reasonURI)
                 else if role = ''worker''
                 then send_and_index E ''escalate milestone silence'' (CallEscalateMilestoneSilence addr m reasonURI)
                 else refuse dispute_role_msg)
       (\<lambda>addr. if role = ''buyer'' then send_and_index E ''dispute'' (CallDispute addr reasonURI)
               else if role = ''verifier''
               then send_and_index E ''reject via verifier vote'' (CallCastVerifierVote addr False reasonURI)
               else if role = ''worker''
               then send_and_index E ''escalate silence'' (CallEscalateSilence addr reasonURI)
               else refuse dispute_role_msg)"

definition ResolveDispute ::
    "escrow_env \<Rightarrow> escrow \<Rightarrow> 16 word \<Rightarrow> string \<Rightarrow> int64 option \<Rightarrow> escrow_world \<Rightarrow> string esc_result" where
  "ResolveDispute E e bps resolutionURI milestoneIndex w =
     (if bps > 10000 then refuse ''worker_award_bps must be between 0 and 10000'' w
      else on_target E (validateMilestoneIndex (esc_MilestoneCount e) milestoneIndex) e
        (\<lambda>addr m. send_and_index E ''resolve milestone dispute''
                    (CallResolveMilestoneDispute addr m bps resolutionURI))
        (\<lambda>addr. send_and_index E ''resolve dispute'' (CallResolveDispute addr bps resolutionURI)) w)"

definition ClaimTimeoutRefund ::
    "escrow_env \<Rightarrow> escrow \<Rightarrow> int64 option \<Rightarrow> escrow_world \<Rightarrow> string esc_result" where
  "ClaimTimeoutRefund E e milestoneIndex =
     on_target E (validateOptionalMilestoneIndex (esc_MilestoneCount e) milestoneIndex) e
       (\<lambda>addr m. send_and_index E ''claim milestone timeout refund'' (CallClaimMilestoneTimeoutRefund addr m))
       (\<lambda>addr. send_and_index E ''claim timeout refund'' (CallClaimTimeoutRefund addr))"

definition ClaimArbitratorTimeout ::
    "escrow_env \<Rightarrow> escrow \<Rightarrow> int64 option \<Rightarrow> escrow_world \<Rightarrow> string esc_result" where
  "ClaimArbitratorTimeout E e milestoneIndex =
     on_target E (validateOptionalMilestoneIndex (esc_MilestoneCount e) milestoneIndex) e
       (\<lambda>addr m. send_and_index E ''claim milestone arbitrator timeout'' (CallClaimMilestoneArbitratorTimeout addr m))
       (\<lambda>addr. send_and_index E ''claim arbitrator timeout'' (CallClaimArbitratorTimeout addr))"

definition CancelBeforeFunding :: "escrow_env \<Rightarrow> escrow \<Rightarrow> escrow_world \<Rightarrow> string esc_result" where
  "CancelBeforeFunding E e w =
     orFail w id (parseAddress (ee_L E) ''escrow_address'' (esc_EscrowAddress e)) (\<lambda>addr.
       send_and_index E ''cancel before funding'' (CallCancelBeforeFunding addr) w)"

definition AbortRemainingMilestones :: "escrow_env \<Rightarrow> escrow \<Rightarrow> escrow_world \<Rightarrow> string esc_result" where
  "AbortRemainingMilestones E e w =
     (if esc_MilestoneCount e \<le> 1
      then refuse ''abort_remaining_milestones is only available for multi-milestone escrows'' w
      else orFail w id (parseAddress (ee_L E) ''escrow_address'' (esc_EscrowAddress e)) (\<lambda>addr.
        send_and_index E ''abort remaining milestones'' (CallAbortRemainingMilestones addr) w))"

definition ActivateBackup :: "escrow_env \<Rightarrow> escrow \<Rightarrow> escrow_world \<Rightarrow> string esc_result" where
  "ActivateBackup E e w =
     (if esc_BackupWorker e = [] \<or> esc_BackupWorker e = zero_address
      then refuse ''this escrow has no backup worker designated'' w
      else if esc_BackupActivated e then refuse ''backup already activated'' w
      else orFail w id (parseAddress (ee_L E) ''escrow_address'' (esc_EscrowAddress e)) (\<lambda>addr.
        send_and_index E ''activate backup'' (CallActivateBackup addr) w))"

end
