(* ===== verification/EscrowCreate.thy ===== *)
theory EscrowCreate
  imports Escrow
begin

text \<open>
  Creation under interleaving: any number of requests run the phases of theory \<open>Escrow\<close> against one
  database, may stop anywhere, and the rest of the server may change the database between any two
  steps. What it may not do is delete an escrow, change an intent id, give two escrows one intent, or
  set an escrow back to \<open>pending\<close>. Under this discipline the guarded update of the status from
  \<open>pending\<close> to \<open>submitting\<close> makes the requests of one intent send at most one creation.
\<close>

section \<open>The database\<close>

definition intents_ok :: "db \<Rightarrow> bool" where
  "intents_ok d \<longleftrightarrow> distinct (map esc_ID (escrows d))
     \<and> (\<forall>e \<in> set (escrows d). \<forall>e' \<in> set (escrows d).
          esc_CreateIntentID e = esc_CreateIntentID e' \<and> esc_CreateIntentID e \<noteq> [] \<longrightarrow> e = e')"

definition keeps_creations :: "db \<Rightarrow> db \<Rightarrow> bool" where
  "keeps_creations d d' \<longleftrightarrow> intents_ok d'
     \<and> (\<forall>e \<in> set (escrows d). \<exists>e' \<in> set (escrows d'). esc_ID e' = esc_ID e
          \<and> esc_CreateIntentID e' = esc_CreateIntentID e
          \<and> (esc_Status e \<noteq> ''pending'' \<longrightarrow> esc_Status e' \<noteq> ''pending''))"

definition row_stored :: "db \<Rightarrow> int \<Rightarrow> string \<Rightarrow> bool" where
  "row_stored d i k \<longleftrightarrow> (\<exists>e \<in> set (escrows d). esc_ID e = i \<and> esc_CreateIntentID e = k)"

lemma intents_id: "intents_ok d \<Longrightarrow> e \<in> set (escrows d) \<Longrightarrow> e' \<in> set (escrows d) \<Longrightarrow> esc_ID e = esc_ID e' \<Longrightarrow> e = e'"
  by (auto simp: intents_ok_def distinct_map inj_on_def)

lemma intents_intent:
  "intents_ok d \<Longrightarrow> e \<in> set (escrows d) \<Longrightarrow> e' \<in> set (escrows d) \<Longrightarrow>
     esc_CreateIntentID e = esc_CreateIntentID e' \<Longrightarrow> esc_CreateIntentID e \<noteq> [] \<Longrightarrow> e = e'"
  by (auto simp: intents_ok_def)

lemma keeps_refl: "intents_ok d \<Longrightarrow> keeps_creations d d"
  by (auto simp: keeps_creations_def)

lemma keeps_same: "intents_ok d \<Longrightarrow> escrows d' = escrows d \<Longrightarrow> keeps_creations d d'"
  by (auto simp: keeps_creations_def intents_ok_def)

lemma keeps_stored: "keeps_creations d d' \<Longrightarrow> row_stored d i k \<Longrightarrow> row_stored d' i k"
  by (fastforce simp: keeps_creations_def row_stored_def)

text \<open>An update that keeps ids and intents keeps the intents apart.\<close>

lemma intents_upd:
  assumes "intents_ok d" and f: "\<And>e. esc_ID (f e) = esc_ID e" "\<And>e. esc_CreateIntentID (f e) = esc_CreateIntentID e"
  shows "intents_ok (upd_escrows p f d)"
proof -
  have ids: "map esc_ID (escrows (upd_escrows p f d)) = map esc_ID (escrows d)"
    by (simp add: upd_escrows_def row_upd_def f)
  have same: "(if p e then f e else e) = (if p e' then f e' else e')"
    if "e \<in> set (escrows d)" "e' \<in> set (escrows d)"
      "esc_CreateIntentID e = esc_CreateIntentID e'" "esc_CreateIntentID e \<noteq> []" for e e'
    using intents_intent [OF assms(1) that] by simp
  show ?thesis unfolding intents_ok_def
  proof (intro conjI ballI impI)
    show "distinct (map esc_ID (escrows (upd_escrows p f d)))"
      using assms(1) unfolding ids by (simp add: intents_ok_def)
    fix e e' assume *: "e \<in> set (escrows (upd_escrows p f d))" "e' \<in> set (escrows (upd_escrows p f d))"
      "esc_CreateIntentID e = esc_CreateIntentID e' \<and> esc_CreateIntentID e \<noteq> []"
    obtain x x' where x: "x \<in> set (escrows d)" "e = (if p x then f x else x)"
        "x' \<in> set (escrows d)" "e' = (if p x' then f x' else x')"
      using *(1,2) by (auto simp: upd_escrows_def set_row_upd)
    then have "esc_CreateIntentID x = esc_CreateIntentID x'" "esc_CreateIntentID x \<noteq> []"
      using *(3) f by (auto split: if_splits)
    then show "e = e'" using same [OF x(1,3)] x(2,4) by simp
  qed
qed

lemma keeps_upd:
  assumes "intents_ok d" "\<And>e. esc_ID (f e) = esc_ID e" "\<And>e. esc_CreateIntentID (f e) = esc_CreateIntentID e"
    "\<And>e. p e \<Longrightarrow> esc_Status e \<noteq> ''pending'' \<Longrightarrow> esc_Status (f e) \<noteq> ''pending''"
  shows "keeps_creations d (upd_escrows p f d)"
  unfolding keeps_creations_def
proof (intro conjI ballI)
  show "intents_ok (upd_escrows p f d)" using assms by (intro intents_upd)
  fix e assume "e \<in> set (escrows d)"
  then have "(if p e then f e else e) \<in> set (escrows (upd_escrows p f d))"
    by (simp add: upd_escrows_def set_row_upd)
  then show "\<exists>e' \<in> set (escrows (upd_escrows p f d)). esc_ID e' = esc_ID e
      \<and> esc_CreateIntentID e' = esc_CreateIntentID e \<and> (esc_Status e \<noteq> ''pending'' \<longrightarrow> esc_Status e' \<noteq> ''pending'')"
    using assms(2-4) by (intro bexI [of _ "if p e then f e else e"]) auto
qed

lemma stored_upd:
  assumes "\<And>e. esc_ID (f e) = esc_ID e" "\<And>e. esc_CreateIntentID (f e) = esc_CreateIntentID e" "row_stored d i k"
  shows "row_stored (upd_escrows p f d) i k"
proof -
  obtain e where "e \<in> set (escrows d)" "esc_ID e = i" "esc_CreateIntentID e = k"
    using assms(3) by (auto simp: row_stored_def)
  moreover have "(if p e then f e else e) \<in> set (escrows (upd_escrows p f d))"
    using calculation(1) by (simp add: upd_escrows_def set_row_upd)
  ultimately show ?thesis using assms(1,2) unfolding row_stored_def by (metis (full_types))
qed

lemma keeps_insert:
  assumes "intents_ok d" "createEscrowOn now e d = (d', Inr r)" "esc_CreateIntentID e \<noteq> []"
  shows "keeps_creations d d' \<and> r \<in> set (escrows d') \<and> esc_CreateIntentID r = esc_CreateIntentID e"
proof -
  have fresh: "esc_CreateIntentID e \<notin> esc_CreateIntentID ` set (escrows d)"
    using assms(2) unfolding createEscrowOn_def Let_def
    by (elim if_resultE) (simp_all only: sum.distinct list_ex_iff image_iff assms(3), metis)
  have r: "escrows d' = escrows d @ [r]" "r = escrow_row now e d"
    using createEscrowOn_cases [OF assms(2)] by (auto simp: row_add_def)
  have i: "esc_CreateIntentID r = esc_CreateIntentID e" by (simp add: r(2) escrow_row_def Let_def)
  have "esc_ID r \<notin> esc_ID ` set (escrows d)"
    using r(2) next_id_fresh [of esc_ID "escrows d"] by (simp add: row_get_None)
  then have "distinct (map esc_ID (escrows d'))" using assms(1) by (simp add: r(1) intents_ok_def)
  moreover have "x = y" if "x \<in> set (escrows d')" "y \<in> set (escrows d')"
      "esc_CreateIntentID x = esc_CreateIntentID y" "esc_CreateIntentID x \<noteq> []" for x y
    using that fresh i intents_intent [OF assms(1), of x y] unfolding r(1) set_append
    by (metis Un_iff empty_set image_eqI insertE list.simps(15) empty_iff)
  ultimately have "intents_ok d'" unfolding intents_ok_def by blast
  then show ?thesis using r(1) i by (auto simp: keeps_creations_def)
qed

section \<open>What a step does\<close>

text \<open>The row a phase works on, and the phases in which a request holds the right to send.\<close>

fun phase_row :: "create_phase \<Rightarrow> int option" where
  "phase_row (PHave r) = Some (esc_ID r)"
| "phase_row (PClaim r) = Some (esc_ID r)"
| "phase_row (PReread r) = Some (esc_ID r)"
| "phase_row (PSend r) = Some (esc_ID r)"
| "phase_row (PReset r e) = Some (esc_ID r)"
| "phase_row (PPersist r h n) = Some (esc_ID r)"
| "phase_row (PLost r h e) = Some (esc_ID r)"
| "phase_row (PReceipt r h) = Some (esc_ID r)"
| "phase_row (PFinalize r h x) = Some (esc_ID r)"
| "phase_row (PRefetch r e) = Some (esc_ID r)"
| "phase_row (PIndex res) = Some (crs_EscrowID res)"
| "phase_row (PDone (Inr res)) = Some (crs_EscrowID res)"
| "phase_row _ = None"

fun holding :: "create_phase \<Rightarrow> bool" where
  "holding (PSend r) = True"
| "holding (PReset r e) = True"
| "holding _ = False"

fun accepted :: "create_phase \<Rightarrow> create_phase \<Rightarrow> bool" where
  "accepted (PSend r) (PPersist r' h n) = True"
| "accepted _ _ = False"

fun is_reset :: "create_phase \<Rightarrow> bool" where
  "is_reset (PReset r e) = True"
| "is_reset _ = False"

definition row_ok :: "db \<Rightarrow> create_plan \<Rightarrow> create_phase \<Rightarrow> bool" where
  "row_ok d p ph \<longleftrightarrow> cp_Intent p \<noteq> [] \<and> (\<forall>i. phase_row ph = Some i \<longrightarrow> row_stored d i (cp_Intent p))"

lemma on_db_sel [simp]:
  "ew_Calls (fst (on_db f w)) = ew_Calls w" "ew_DB (fst (on_db f w)) = fst (f (ew_DB w))"
  "snd (on_db f w) = snd (f (ew_DB w))"
  by (simp_all add: on_db_def split: prod.splits)

lemma on_db_iff: "on_db f w = (w1, x) \<longleftrightarrow> f (ew_DB w) = (ew_DB w1, x) \<and> w1 = w\<lparr>ew_DB := ew_DB w1\<rparr>"
  by (auto simp: on_db_def split: prod.splits)

lemma send_sel [simp]:
  "ew_DB (fst (send E c w)) = ew_DB w"
  "ew_Calls (fst (send E c w)) = ew_Calls w @ [(c, snd (send E c w))]"
  by (simp_all add: send_def Let_def)

lemma transition_keeps:
  "intents_ok d \<Longrightarrow> t \<noteq> ''pending'' \<Longrightarrow> keeps_creations d (fst (TransitionEscrowStatus now i s t d))"
  unfolding TransitionEscrowStatus_def Let_def fst_conv by (rule keeps_upd) auto

lemma set_hash_keeps:
  "intents_ok d \<Longrightarrow> t \<noteq> ''pending'' \<Longrightarrow> keeps_creations d (fst (SetEscrowCreateTxHash now i h s t d))"
  unfolding SetEscrowCreateTxHash_def Let_def by (auto intro!: keeps_upd keeps_refl)

lemma finalize_tx_keeps:
  "intents_ok d \<Longrightarrow> t \<noteq> ''pending'' \<Longrightarrow> keeps_creations d (fst (FinalizeEscrowCreateTx now i a k t d))"
  unfolding FinalizeEscrowCreateTx_def Let_def by (auto intro!: keeps_upd keeps_refl)

lemma createMilestoneOn_escrows: "escrows (fst (createMilestoneOn now m d)) = escrows d"
  by (simp add: createMilestoneOn_def Let_def)

lemma escrow_milestones_escrows: "escrows (fst (escrow_milestones now i k ms d)) = escrows d"
proof (induction now i k ms d rule: escrow_milestones.induct)
  case (2 now i k m deadline ms d)
  show ?case
    unfolding escrow_milestones.simps andThen_def mapErr_def
    using createMilestoneOn_escrows [of now "blank_milestone\<lparr>ms_EscrowID := i, ms_MilestoneIndex := int k,
      ms_Amount := int_str (mp_Amount m), ms_SubmissionDeadline := deadline, ms_Status := ''pending''\<rparr>" d]
    by (auto simp: 2 split: prod.splits sum.splits)
qed simp

lemma in_tx_fst: "fst (in_tx d m) = (if isl (snd m) then d else fst m)"
  by (simp add: in_tx_def split: prod.splits sum.splits)

lemma finalize_keeps:
  assumes "intents_ok d"
  shows "keeps_creations d (fst (finalize_create E p r x d))"
proof (cases "FinalizeEscrowCreateTx (ee_Now E) (esc_ID r) (AddressHex (ee_L E) (cer_EscrowAddress x))
             (cer_EscrowID x) ''created'' d")
  case (Pair d1 res)
  then have k: "keeps_creations d d1"
    using finalize_tx_keeps [OF assms, of "''created''" "ee_Now E" "esc_ID r"
        "AddressHex (ee_L E) (cer_EscrowAddress x)" "cer_EscrowID x"] by simp
  have "keeps_creations d d2" if "escrows d2 = escrows d1" for d2
    using k that by (auto simp: keeps_creations_def intents_ok_def)
  then have "keeps_creations d (fst (in_tx d (escrow_milestones (ee_Now E) (esc_ID r) 0 ms d1)))" for ms
    using assms by (simp add: in_tx_fst escrow_milestones_escrows keeps_refl)
  then show ?thesis
    unfolding finalize_create_def Pair using assms
    by (simp add: keeps_refl split: sum.split prod.split) (metis fst_conv)
qed

text \<open>Inserting the pending row.\<close>

lemma insert_keeps:
  assumes "intents_ok d" "insert_create E p d = (d', res)" "cp_Intent p \<noteq> []"
  shows "keeps_creations d d' \<and> (\<forall>r. res = Inr r \<longrightarrow> row_stored d' (esc_ID r) (cp_Intent p))"
proof (cases res)
  case (Inl e)
  then have "d' = d" using assms(2) by (simp add: insert_create_def err_iff)
  then show ?thesis using Inl assms(1) by (simp add: keeps_refl)
next
  case (Inr r)
  then obtain d1 t where t: "createTaskOn (ee_Now E) (ci_Title (cp_Input p)) (ci_Description (cp_Input p))
        (HashHex (ee_L E) (ci_TaskSpecHash (cp_Input p))) d = (d1, Inr t)"
    and e: "createEscrowOn (ee_Now E) (create_row E p (tsk_ID t)) d1 = (d', Inr r)"
    using assms(2) by (auto simp: insert_create_def err_iff)
  have d1: "escrows d1 = escrows d" using t by (auto simp: createTaskOn_def Let_def)
  have "intents_ok d1" using assms(1) unfolding intents_ok_def d1 .
  moreover have "esc_CreateIntentID (create_row E p (tsk_ID t)) = cp_Intent p"
    by (simp add: create_row_def Let_def)
  ultimately have "keeps_creations d1 d' \<and> r \<in> set (escrows d') \<and> esc_CreateIntentID r = cp_Intent p"
    using keeps_insert [OF _ e] assms(3) by simp
  then show ?thesis using Inr d1 by (auto simp: keeps_creations_def row_stored_def)
qed

lemma row_ok_keep:
  "row_ok d p ph \<Longrightarrow> keeps_creations d d' \<Longrightarrow> phase_row ph1 = None \<or> phase_row ph1 = phase_row ph \<Longrightarrow>
     row_ok d' p ph1"
  by (auto simp: row_ok_def keeps_stored)

lemma row_ok_stored: "row_ok d p ph \<Longrightarrow> row_stored d' i (cp_Intent p) \<Longrightarrow> phase_row ph1 = Some i \<Longrightarrow> row_ok d' p ph1"
  by (simp add: row_ok_def)

lemma lookup_stored:
  "GetEscrowByCreateIntentID d k = Inr r \<Longrightarrow> row_stored d (esc_ID r) k"
  by (auto simp: GetEscrowByCreateIntentID_def row_stored_def dest!: row_get_Some)

lemma GetEscrow_ID: "GetEscrow d i = Inr r \<Longrightarrow> esc_ID r = i"
  by (auto simp: GetEscrow_def dest: row_get_Some)

lemma step_ok:
  assumes ok: "intents_ok (ew_DB w)" and row: "row_ok (ew_DB w) p ph"
    and step: "create_step E p ph w = (w1, ph1)" and "\<not> is_reset ph"
    and index: "\<And>d. intents_ok d \<Longrightarrow> keeps_creations d (ee_RunOnce E d)"
  shows "keeps_creations (ew_DB w) (ew_DB w1) \<and> row_ok (ew_DB w1) p ph1"
proof -
  note keep = row_ok_keep [OF row]
  have same: "keeps_creations (ew_DB w) (ew_DB w1) \<and> row_ok (ew_DB w1) p ph1"
    if "ew_DB w1 = ew_DB w" "phase_row ph1 = None \<or> phase_row ph1 = phase_row ph"
    using that ok keep by (simp add: keeps_refl)
  have moved: "keeps_creations (ew_DB w) (ew_DB w1) \<and> row_ok (ew_DB w1) p ph1"
    if "keeps_creations (ew_DB w) (ew_DB w1)" "phase_row ph1 = None \<or> phase_row ph1 = phase_row ph"
    using that keep by simp
  have new: "keeps_creations (ew_DB w) (ew_DB w1) \<and> row_ok (ew_DB w1) p ph1"
    if "ew_DB w1 = ew_DB w" "row_stored (ew_DB w) i (cp_Intent p)" "phase_row ph1 = Some i" for i
    using that ok row by (simp add: keeps_refl row_ok_def)
  show ?thesis
  proof (cases ph)
    case PLookup
    then show ?thesis using step
      by (cases "GetEscrowByCreateIntentID (ew_DB w) (cp_Intent p)")
        (use same in \<open>auto split: if_splits\<close>, use new lookup_stored in auto)
  next
    case PInsert
    have i: "cp_Intent p \<noteq> []" using row by (simp add: row_ok_def)
    obtain d' res where r: "insert_create E p (ew_DB w) = (d', res)" by (cases "insert_create E p (ew_DB w)")
    then show ?thesis using insert_keeps [OF ok r i] step PInsert i
      by (auto simp: on_db_def row_ok_def split: sum.splits if_splits)
  next
    case PRelookup
    then show ?thesis using step
      by (cases "GetEscrowByCreateIntentID (ew_DB w) (cp_Intent p)")
        (use same in auto, use new lookup_stored in auto)
  next
    case (PHave r)
    then show ?thesis using step by (intro same) (auto simp: Let_def stored_result_def split: if_splits)
  next
    case (PClaim r)
    then show ?thesis using step transition_keeps [OF ok, of "''submitting''" "ee_Now E" "esc_ID r" "''pending''"]
      by (intro moved) (auto simp: on_db_def split: prod.splits sum.splits if_splits)
  next
    case (PReread r)
    then show ?thesis using step
      by (cases "GetEscrow (ew_DB w) (esc_ID r)"; intro same) (auto simp: Let_def GetEscrow_ID split: if_splits)
  next
    case (PSend r)
    then show ?thesis using step
      by (intro same) (auto simp: send_def Let_def split: prod.splits sum.splits)
  next
    case (PPersist r h n)
    then show ?thesis
      using step set_hash_keeps [OF ok, of "''pending_confirmation''" "ee_Now E" "esc_ID r" h "''submitting''"]
      by (intro moved) (auto simp: on_db_def split: prod.splits sum.splits if_splits)
  next
    case (PLost r h e)
    then show ?thesis using step by (intro same) (auto split: prod.splits sum.splits if_splits)
  next
    case (PReceipt r h)
    then show ?thesis using step by (intro same) (auto split: prod.splits sum.splits if_splits)
  next
    case (PFinalize r h x)
    then show ?thesis using step finalize_keeps [OF ok, of E p r x]
      by (intro moved) (auto simp: on_db_def split: prod.splits sum.splits if_splits)
  next
    case (PRefetch r e)
    then show ?thesis using step
      by (cases "GetEscrow (ew_DB w) (esc_ID r)"; intro same) (auto simp: stored_result_def GetEscrow_ID split: if_splits)
  next
    case (PIndex res)
    then show ?thesis using step index [OF ok] by (intro moved) (auto split: prod.splits sum.splits if_splits)
  next
    case (PDone res)
    then show ?thesis using step by (intro same) (auto split: prod.splits sum.splits if_splits)
  qed (use assms in simp)
qed

text \<open>The right to send is gained by claiming a pending row, and given up by sending or resetting.\<close>

lemma step_holding:
  "create_step E p ph w = (w1, ph1) \<Longrightarrow> holding ph1 \<Longrightarrow> holding ph \<or> (\<exists>r. ph = PClaim r \<and> ph1 = PSend r)"
  by (cases ph) (auto simp: Let_def split: prod.splits sum.splits if_splits)

lemma step_accepted:
  "create_step E p ph w = (w1, ph1) \<Longrightarrow> accepted ph ph1 \<Longrightarrow> holding ph \<and> \<not> holding ph1"
  by (cases ph) (auto split: prod.splits sum.splits)

lemma claim_row:
  assumes "create_step E p (PClaim r) w = (w1, PSend r)"
  shows "\<exists>e \<in> set (escrows (ew_DB w)). esc_ID e = esc_ID r \<and> esc_Status e = ''pending''
    \<and> escrows (ew_DB w1) = row_upd (\<lambda>x. esc_ID x = esc_ID r \<and> esc_Status x = ''pending'')
         (\<lambda>x. x\<lparr>esc_Status := ''submitting'', esc_UpdatedAt := ee_Now E\<rparr>) (escrows (ew_DB w))"
proof -
  let ?p = "\<lambda>x. esc_ID x = esc_ID r \<and> esc_Status x = ''pending''"
  have "rows_affected ?p (escrows (ew_DB w)) = 1"
    and "ew_DB w1 = fst (TransitionEscrowStatus (ee_Now E) (esc_ID r) ''pending'' ''submitting'' (ew_DB w))"
    using assms by (auto simp: on_db_def TransitionEscrowStatus_def Let_def split: if_splits)
  then show ?thesis
    using rows_affected_0 [of ?p "escrows (ew_DB w)"]
    by (auto simp: TransitionEscrowStatus_def Let_def upd_escrows_def)
qed

section \<open>Schedules\<close>

text \<open>The requests with their phases, and the intents whose creation the chain has accepted.\<close>

type_synonym create_state = "escrow_world \<times> (create_plan \<times> create_phase) list \<times> string list"

fun is_create :: "chain_call \<Rightarrow> bool" where
  "is_create (CallCreateEscrow f p) = True"
| "is_create _ = False"

definition accepted_creates :: "call_log \<Rightarrow> nat" where
  "accepted_creates calls = length (filter (\<lambda>(c, r). is_create c \<and> \<not> isl r) calls)"

definition accept_log :: "create_plan \<Rightarrow> create_phase \<Rightarrow> create_phase \<Rightarrow> string list" where
  "accept_log p ph ph1 = (if accepted ph ph1 then [cp_Intent p] else [])"

inductive create_next :: "escrow_env \<Rightarrow> create_state \<Rightarrow> create_state \<Rightarrow> bool" for E where
  arrive: "plan_create E i = Inr p \<Longrightarrow> create_next E (w, cs, sent) (w, cs @ [(p, PLookup)], sent)"
| client: "k < length cs \<Longrightarrow> cs ! k = (p, ph) \<Longrightarrow> create_step E p ph w = (w1, ph1) \<Longrightarrow>
    create_next E (w, cs, sent) (w1, cs[k := (p, ph1)], sent @ accept_log p ph ph1)"
| crash: "k < length cs \<Longrightarrow> cs ! k = (p, ph) \<Longrightarrow>
    create_next E (w, cs, sent) (w, cs[k := (p, PDone (Inl e))], sent)"
| others: "keeps_creations (ew_DB w) d \<Longrightarrow> \<forall>(c, r) \<in> set calls. \<not> is_create c \<Longrightarrow>
    create_next E (w, cs, sent) (w\<lparr>ew_DB := d, ew_Calls := ew_Calls w @ calls\<rparr>, cs, sent)"

inductive_cases create_nextE: "create_next E s s'"

text \<open>The load of an intent: the requests with the right to send, and the creations sent.\<close>

definition holders :: "string \<Rightarrow> (create_plan \<times> create_phase) list \<Rightarrow> nat" where
  "holders k cs = length (filter (\<lambda>(p, ph). cp_Intent p = k \<and> holding ph) cs)"

definition load :: "string \<Rightarrow> (create_plan \<times> create_phase) list \<Rightarrow> string list \<Rightarrow> nat" where
  "load k cs sent = holders k cs + length (filter (\<lambda>x. x = k) sent)"

fun create_inv :: "create_state \<Rightarrow> bool" where
  "create_inv (w, cs, sent) \<longleftrightarrow>
     intents_ok (ew_DB w) \<and> (\<forall>(p, ph) \<in> set cs. row_ok (ew_DB w) p ph) \<and> (\<forall>k. load k cs sent \<le> 1)
     \<and> (\<forall>k. (\<forall>e \<in> set (escrows (ew_DB w)). esc_CreateIntentID e = k \<and> k \<noteq> [] \<longrightarrow> esc_Status e = ''pending'')
          \<longrightarrow> load k cs sent = 0)"

lemma length_filter_upd:
  "k < length xs \<Longrightarrow>
     length (filter P (xs[k := x])) + (if P (xs ! k) then 1 else 0) = length (filter P xs) + (if P x then 1 else 0)"
proof (induction xs arbitrary: k)
  case (Cons a xs)
  then show ?case by (cases k) (fastforce split: if_splits)+
qed simp

text \<open>How the load of the intents moves with one request.\<close>

definition weight :: "create_phase \<Rightarrow> nat" where
  "weight ph = (if holding ph then 1 else 0)"

lemma load_upd:
  assumes "k < length cs" "cs ! k = (p, ph)"
  shows "load i (cs[k := (p, ph1)]) sent + (if cp_Intent p = i then weight ph else 0)
    = load i cs sent + (if cp_Intent p = i then weight ph1 else 0)"
  using length_filter_upd [OF assms(1), of "\<lambda>(p, ph). cp_Intent p = i \<and> holding ph" "(p, ph1)"] assms(2)
  by (auto simp: load_def holders_def weight_def split: if_splits)

lemma load_sent: "load i cs (sent @ accept_log p ph ph1)
    = load i cs sent + (if cp_Intent p = i \<and> accepted ph ph1 then 1 else 0)"
  by (auto simp: load_def accept_log_def)

lemma load_client:
  assumes "k < length cs" "cs ! k = (p, ph)" "create_step E p ph w = (w1, ph1)"
    "\<not> (\<exists>r. ph = PClaim r \<and> ph1 = PSend r)"
  shows "load i (cs[k := (p, ph1)]) (sent @ accept_log p ph ph1) \<le> load i cs sent"
  using load_upd [OF assms(1,2), of i ph1 sent] step_holding [OF assms(3)] step_accepted [OF assms(3)] assms(4)
  unfolding load_sent weight_def by (auto split: if_splits)

text \<open>A step that gives nobody the right to send and keeps the escrows keeps the invariant.\<close>

lemma inv_keep:
  assumes inv: "create_inv (w, cs, sent)" and keeps: "keeps_creations (ew_DB w) (ew_DB w1)"
    and rows: "\<And>p ph. (p, ph) \<in> set cs' \<Longrightarrow> row_ok (ew_DB w1) p ph"
    and less: "\<And>i. load i cs' sent' \<le> load i cs sent"
  shows "create_inv (w1, cs', sent')"
proof -
  have "load i cs' sent' \<le> 1" for i using inv less [of i] by (simp add: order_trans)
  moreover have "load i cs' sent' = 0"
    if pend: "\<forall>e \<in> set (escrows (ew_DB w1)). esc_CreateIntentID e = i \<and> i \<noteq> [] \<longrightarrow> esc_Status e = ''pending''" for i
  proof -
    have "esc_Status e = ''pending''"
      if e: "e \<in> set (escrows (ew_DB w))" "esc_CreateIntentID e = i \<and> i \<noteq> []" for e
    proof -
      obtain e' where "e' \<in> set (escrows (ew_DB w1))" "esc_CreateIntentID e' = i"
          "esc_Status e \<noteq> ''pending'' \<longrightarrow> esc_Status e' \<noteq> ''pending''"
        using keeps e unfolding keeps_creations_def by blast
      then show ?thesis using pend e(2) by blast
    qed
    then have "load i cs sent = 0" using inv by simp
    then show ?thesis using less [of i] by simp
  qed
  moreover have "intents_ok (ew_DB w1)" using keeps by (simp add: keeps_creations_def)
  ultimately show ?thesis using rows unfolding create_inv.simps by blast
qed

lemma stored_status:
  "intents_ok d \<Longrightarrow> row_stored d i k \<Longrightarrow> k \<noteq> [] \<Longrightarrow> e \<in> set (escrows d) \<Longrightarrow> esc_CreateIntentID e = k \<longleftrightarrow> esc_ID e = i"
  by (metis intents_id intents_intent row_stored_def)

lemma inv_row:
  "create_inv (w, cs, sent) \<Longrightarrow> k < length cs \<Longrightarrow> cs ! k = (p, ph) \<Longrightarrow>
     intents_ok (ew_DB w) \<and> row_ok (ew_DB w) p ph"
  using nth_mem [of k cs] by fastforce

lemma inv_mem: "create_inv (w, cs, sent) \<Longrightarrow> (q, ph) \<in> set cs \<Longrightarrow> row_ok (ew_DB w) q ph"
  by fastforce

lemma inv_load: "create_inv (w, cs, sent) \<Longrightarrow> load k cs sent \<le> 1"
  by simp

lemma upd_mem: "x \<in> set (cs[k := y]) \<Longrightarrow> x = y \<or> x \<in> set cs"
  using set_update_subset_insert [of cs k y] by auto

text \<open>Claiming a pending row.\<close>

lemma inv_claim:
  assumes inv: "create_inv (w, cs, sent)" and k: "k < length cs" "cs ! k = (p, PClaim r)"
    and step: "create_step E p (PClaim r) w = (w1, PSend r)"
    and index: "\<And>d. intents_ok d \<Longrightarrow> keeps_creations d (ee_RunOnce E d)"
  shows "create_inv (w1, cs[k := (p, PSend r)], sent)"
proof -
  have ok: "intents_ok (ew_DB w)" and row: "row_ok (ew_DB w) p (PClaim r)"
    using inv_row [OF inv k] by auto
  have keeps: "keeps_creations (ew_DB w) (ew_DB w1)" "row_ok (ew_DB w1) p (PSend r)"
    using step_ok [OF ok row step _ index] by auto
  obtain e where e: "e \<in> set (escrows (ew_DB w))" "esc_ID e = esc_ID r" "esc_Status e = ''pending''"
    and rows: "escrows (ew_DB w1) = row_upd (\<lambda>x. esc_ID x = esc_ID r \<and> esc_Status x = ''pending'')
         (\<lambda>x. x\<lparr>esc_Status := ''submitting'', esc_UpdatedAt := ee_Now E\<rparr>) (escrows (ew_DB w))"
    using claim_row [OF step] by blast
  have st: "row_stored (ew_DB w) (esc_ID r) (cp_Intent p)" and ne: "cp_Intent p \<noteq> []"
    using row by (auto simp: row_ok_def)
  have "esc_Status x = ''pending''" if "x \<in> set (escrows (ew_DB w))" "esc_CreateIntentID x = cp_Intent p" for x
    using intents_id [OF ok that(1) e(1)] stored_status [OF ok st ne that(1)] that(2) e(2,3) by simp
  then have zero: "load (cp_Intent p) cs sent = 0" using inv ne by simp
  have l: "load i (cs[k := (p, PSend r)]) sent = load i cs sent + (if cp_Intent p = i then 1 else 0)" for i
    using load_upd [OF k, of i "PSend r" sent] by (auto simp: weight_def split: if_splits)
  have other: "load i cs sent = 0"
    if "cp_Intent p \<noteq> i" "\<forall>e \<in> set (escrows (ew_DB w1)). esc_CreateIntentID e = i \<and> i \<noteq> [] \<longrightarrow> esc_Status e = ''pending''" for i
  proof -
    have "esc_Status x = ''pending''" if "x \<in> set (escrows (ew_DB w))" "esc_CreateIntentID x = i" "i \<noteq> []" for x
    proof -
      have "esc_ID x \<noteq> esc_ID r" using stored_status [OF ok st ne that(1)] that(2) \<open>cp_Intent p \<noteq> i\<close> by simp
      then have "x \<in> set (escrows (ew_DB w1))" using that(1) unfolding rows set_row_upd by force
      then show ?thesis using \<open>\<forall>e \<in> set (escrows (ew_DB w1)). _ e\<close> that by blast
    qed
    then show ?thesis using inv by simp
  qed
  have mine: "\<not> (\<forall>x \<in> set (escrows (ew_DB w1)). esc_CreateIntentID x = cp_Intent p \<and> cp_Intent p \<noteq> []
      \<longrightarrow> esc_Status x = ''pending'')"
  proof -
    have "e\<lparr>esc_Status := ''submitting'', esc_UpdatedAt := ee_Now E\<rparr> \<in> set (escrows (ew_DB w1))"
      using e unfolding rows set_row_upd by force
    moreover have "esc_CreateIntentID e = cp_Intent p" using stored_status [OF ok st ne e(1)] e(2) by simp
    ultimately show ?thesis using ne by fastforce
  qed
  have "\<forall>(q, ph) \<in> set (cs[k := (p, PSend r)]). row_ok (ew_DB w1) q ph"
    using inv keeps by (auto dest!: set_update_subset_insert [THEN subsetD] intro: row_ok_keep)
  moreover have "load i (cs[k := (p, PSend r)]) sent \<le> 1" for i
    using l [of i] inv_load [OF inv, of i] zero by (simp split: if_splits)
  moreover have "load i (cs[k := (p, PSend r)]) sent = 0"
    if "\<forall>e \<in> set (escrows (ew_DB w1)). esc_CreateIntentID e = i \<and> i \<noteq> [] \<longrightarrow> esc_Status e = ''pending''" for i
  proof -
    have "cp_Intent p \<noteq> i" using mine that by blast
    then show ?thesis using l [of i] other [OF _ that] by simp
  qed
  ultimately show ?thesis using keeps(1) unfolding create_inv.simps keeps_creations_def by blast
qed

text \<open>Resetting a row whose creation the chain refused: nobody else had the right to send.\<close>

lemma inv_reset:
  assumes inv: "create_inv (w, cs, sent)" and k: "k < length cs" "cs ! k = (p, PReset r e)"
    and step: "create_step E p (PReset r e) w = (w1, ph1)"
  shows "create_inv (w1, cs[k := (p, ph1)], sent)"
proof -
  have ok: "intents_ok (ew_DB w)" and row: "row_ok (ew_DB w) p (PReset r e)"
    using inv_row [OF inv k] by auto
  have st: "row_stored (ew_DB w) (esc_ID r) (cp_Intent p)" and ne: "cp_Intent p \<noteq> []"
    using row by (auto simp: row_ok_def)
  have ph1: "\<not> holding ph1" "phase_row ph1 = None" using step by auto
  have d1: "ew_DB w1 = upd_escrows (\<lambda>x. esc_ID x = esc_ID r)
      (\<lambda>x. x\<lparr>esc_Status := ''pending'', esc_UpdatedAt := ee_Now E\<rparr>) (ew_DB w)"
    using step by (auto simp: UpdateEscrowStatus_def)
  have ok1: "intents_ok (ew_DB w1)" unfolding d1 by (rule intents_upd [OF ok]) auto
  have keep: "row_stored (ew_DB w) i j \<Longrightarrow> row_stored (ew_DB w1) i j" for i j
    unfolding d1 by (rule stored_upd) auto
  have l: "load i (cs[k := (p, ph1)]) sent + (if cp_Intent p = i then 1 else 0) = load i cs sent" for i
    using load_upd [OF k, of i ph1 sent] ph1(1) by (auto simp: weight_def split: if_splits)
  have mine: "load (cp_Intent p) (cs[k := (p, ph1)]) sent = 0"
    using l [of "cp_Intent p"] inv_load [OF inv, of "cp_Intent p"] by simp
  have other: "load i cs sent = 0"
    if "cp_Intent p \<noteq> i" "\<forall>e \<in> set (escrows (ew_DB w1)). esc_CreateIntentID e = i \<and> i \<noteq> [] \<longrightarrow> esc_Status e = ''pending''" for i
  proof -
    have "esc_Status x = ''pending''" if "x \<in> set (escrows (ew_DB w))" "esc_CreateIntentID x = i" "i \<noteq> []" for x
    proof -
      have "esc_ID x \<noteq> esc_ID r" using stored_status [OF ok st ne that(1)] that(2) \<open>cp_Intent p \<noteq> i\<close> by simp
      then have "x \<in> set (escrows (ew_DB w1))" using that(1) unfolding d1 upd_escrows_def by (force simp: set_row_upd)
      then show ?thesis using \<open>\<forall>e \<in> set (escrows (ew_DB w1)). _ e\<close> that by blast
    qed
    then show ?thesis using inv by simp
  qed
  have "row_ok (ew_DB w1) q ph" if "(q, ph) \<in> set (cs[k := (p, ph1)])" for q ph
    using that inv ne ph1(2) keep
    by (auto simp: row_ok_def dest!: set_update_subset_insert [THEN subsetD])
  moreover have "load i (cs[k := (p, ph1)]) sent \<le> 1" for i
    using l [of i] inv by (metis create_inv.simps le_add1 order_trans)
  moreover have "load i (cs[k := (p, ph1)]) sent = 0"
    if "\<forall>e \<in> set (escrows (ew_DB w1)). esc_CreateIntentID e = i \<and> i \<noteq> [] \<longrightarrow> esc_Status e = ''pending''" for i
    using mine other [OF _ that] l [of i] by (cases "cp_Intent p = i") auto
  ultimately show ?thesis using ok1 unfolding create_inv.simps by blast
qed

lemma accepted_creates_append:
  "accepted_creates (xs @ ys) = accepted_creates xs + accepted_creates ys"
  by (simp add: accepted_creates_def)

lemma step_log:
  "create_step E p ph w = (w1, ph1) \<Longrightarrow>
     accepted_creates (ew_Calls w1) = accepted_creates (ew_Calls w) + length (accept_log p ph ph1)"
  by (cases ph)
    (auto simp: send_def Let_def on_db_def accept_log_def accepted_creates_append accepted_creates_def
      split: prod.splits sum.splits if_splits)

lemma inv_next:
  assumes "create_next E s s'" "create_inv s" and index: "\<And>d. intents_ok d \<Longrightarrow> keeps_creations d (ee_RunOnce E d)"
    and hex: "\<forall>h. HashHex (ee_L E) h \<noteq> []"
  shows "create_inv s'"
  using assms(1)
proof cases
  case (arrive i p w cs sent)
  have "cp_Intent p \<noteq> []"
    using arrive(3) hex by (auto simp: plan_create_def buildCreateEscrowIntentID_def Let_def split: option.splits sum.splits)
  then have "row_ok (ew_DB w) p PLookup" by (simp add: row_ok_def)
  then show ?thesis unfolding arrive(2)
    using assms(2) unfolding arrive(1)
    by (simp add: load_def holders_def)
next
  case (client k cs p ph w w1 ph1 sent)
  have inv: "create_inv (w, cs, sent)" using assms(2) client(1) by simp
  note row = inv_row [OF inv client(3,4)]
  show ?thesis
  proof (cases "is_reset ph")
    case True
    then obtain r e where ph: "ph = PReset r e" by (cases ph) auto
    show ?thesis unfolding client(2)
      using inv_reset [OF inv client(3) client(4) [unfolded ph] client(5) [unfolded ph]] client(5)
      by (auto simp: ph accept_log_def)
  next
    case False
    show ?thesis
    proof (cases "\<exists>r. ph = PClaim r \<and> ph1 = PSend r")
      case True
      then obtain r where ph: "ph = PClaim r" "ph1 = PSend r" by blast
      show ?thesis unfolding client(2)
        using inv_claim [OF inv client(3) client(4) [unfolded ph] client(5) [unfolded ph] index]
        by (simp add: ph accept_log_def)
    next
      case False
      have "keeps_creations (ew_DB w) (ew_DB w1)" "row_ok (ew_DB w1) p ph1"
        using step_ok [OF conjunct1 [OF row] conjunct2 [OF row] client(5) \<open>\<not> is_reset ph\<close> index] by auto
      then have "row_ok (ew_DB w1) q ph'" if "(q, ph') \<in> set (cs[k := (p, ph1)])" for q ph'
        using upd_mem [OF that] inv_mem [OF inv, of q ph'] row_ok_keep by blast
      then show ?thesis unfolding client(2)
        using inv_keep [OF inv \<open>keeps_creations (ew_DB w) (ew_DB w1)\<close> _ load_client [OF client(3,4,5) False]]
        by blast
    qed
  qed
next
  case (crash k cs p ph w sent e)
  have inv: "create_inv (w, cs, sent)" using assms(2) crash(1) by simp
  note row = inv_row [OF inv crash(3,4)]
  have "load i (cs[k := (p, PDone (Inl e))]) sent \<le> load i cs sent" for i
    using load_upd [OF crash(3,4), of i "PDone (Inl e)" sent] by (auto simp: weight_def split: if_splits)
  moreover have "row_ok (ew_DB w) q ph'" if "(q, ph') \<in> set (cs[k := (p, PDone (Inl e))])" for q ph'
    using upd_mem [OF that] inv_mem [OF inv, of q ph'] row by (auto simp: row_ok_def)
  ultimately show ?thesis unfolding crash(2)
    using row by (intro inv_keep [OF inv keeps_refl]) auto
next
  case (others w d calls cs sent)
  have inv: "create_inv (w, cs, sent)" using assms(2) unfolding others(1) .
  have "row_ok d q ph" if "(q, ph) \<in> set cs" for q ph
    using row_ok_keep [OF inv_mem [OF inv that] others(3)] by simp
  then show ?thesis unfolding others(2)
    using others(3) by (intro inv_keep [OF inv]) simp_all
qed

lemma accepted_creates_none: "\<forall>(c, r) \<in> set calls. \<not> is_create c \<Longrightarrow> accepted_creates calls = 0"
  by (auto simp: accepted_creates_def filter_empty_conv)

lemma log_next:
  "create_next E (w, cs, sent) (w', cs', sent') \<Longrightarrow>
     accepted_creates (ew_Calls w') + length sent = accepted_creates (ew_Calls w) + length sent'"
  by (erule create_nextE)
    (auto simp: step_log accepted_creates_append accepted_creates_none)

section \<open>At most one creation\<close>

lemma reach_inv:
  assumes "(create_next E)\<^sup>*\<^sup>* (w0, [], []) (w, cs, sent)" "intents_ok (ew_DB w0)"
    and index: "\<And>d. intents_ok d \<Longrightarrow> keeps_creations d (ee_RunOnce E d)" and hex: "\<forall>h. HashHex (ee_L E) h \<noteq> []"
  shows "create_inv (w, cs, sent) \<and> accepted_creates (ew_Calls w) = accepted_creates (ew_Calls w0) + length sent"
  using assms(1)
proof (induction "(w, cs, sent)" arbitrary: w cs sent rule: rtranclp_induct)
  case base
  then show ?case using assms(2) by (simp add: load_def holders_def)
next
  case (step s)
  obtain w1 cs1 sent1 where s: "s = (w1, cs1, sent1)" by (cases s)
  then have "create_inv s \<and> accepted_creates (ew_Calls w1) = accepted_creates (ew_Calls w0) + length sent1"
    using step(3) by simp
  then show ?case using inv_next [OF step(2) _ index hex] log_next [OF step(2) [unfolded s]] by simp
qed

lemma distinct_load: "(\<And>k. length (filter (\<lambda>x. x = k) xs) \<le> 1) \<Longrightarrow> distinct xs"
proof (induction xs)
  case (Cons a xs)
  have "length (filter (\<lambda>x. x = k) xs) \<le> 1" for k using Cons(2) [of k] by (simp split: if_splits)
  moreover have "a \<notin> set xs"
    using Cons(2) [of a] by (auto simp: filter_empty_conv)
  ultimately show ?case using Cons(1) by simp
qed simp

text \<open>C20: An intent is created on chain at most once. However many requests run at the same time, in
  whatever order their database statements and calls to the chain interleave, whichever of them stop
  half-way, and whatever the rest of the server does to the database short of resetting escrows: the
  creations the chain accepted belong to different intents, so there are no more of them than intents,
  and requests of the same intent that succeed all name the same escrow.\<close>

theorem create_at_most_once:
  assumes "(create_next E)\<^sup>*\<^sup>* (w0, [], []) (w, cs, sent)" and "intents_ok (ew_DB w0)"
    and "\<forall>d. intents_ok d \<longrightarrow> keeps_creations d (ee_RunOnce E d)" and "\<forall>h. HashHex (ee_L E) h \<noteq> []"
  shows "distinct sent
    \<and> accepted_creates (ew_Calls w) = accepted_creates (ew_Calls w0) + length sent
    \<and> (\<forall>p q res res'. (p, PDone (Inr res)) \<in> set cs \<longrightarrow> (q, PDone (Inr res')) \<in> set cs \<longrightarrow>
         cp_Intent p = cp_Intent q \<longrightarrow> crs_EscrowID res = crs_EscrowID res')"
proof -
  have inv: "create_inv (w, cs, sent)"
    and log: "accepted_creates (ew_Calls w) = accepted_creates (ew_Calls w0) + length sent"
    using reach_inv [OF assms(1,2) _ assms(4)] assms(3) by auto
  have "length (filter (\<lambda>x. x = k) sent) \<le> 1" for k
    using inv_load [OF inv, of k] by (simp add: load_def)
  moreover have "crs_EscrowID res = crs_EscrowID res'"
    if m: "(p, PDone (Inr res)) \<in> set cs" "(q, PDone (Inr res')) \<in> set cs" "cp_Intent p = cp_Intent q" for p q res res'
  proof -
    have "row_stored (ew_DB w) (crs_EscrowID res) (cp_Intent p)" "row_stored (ew_DB w) (crs_EscrowID res') (cp_Intent p)"
      "cp_Intent p \<noteq> []" "intents_ok (ew_DB w)"
      using inv_mem [OF inv m(1)] inv_mem [OF inv m(2)] m(3) inv by (auto simp: row_ok_def)
    then show ?thesis by (metis intents_intent row_stored_def)
  qed
  ultimately show ?thesis using log distinct_load [of sent] by blast
qed

text \<open>Two requests for the same escrow, interleaved: the second arrives while the first has claimed the row.\<close>

datatype sched_event = Arrive create_input | Run nat

fun sched_do :: "escrow_env \<Rightarrow> create_state \<Rightarrow> sched_event \<Rightarrow> create_state" where
  "sched_do E (w, cs, sent) (Arrive i) =
     (case plan_create E i of Inl e \<Rightarrow> (w, cs, sent) | Inr p \<Rightarrow> (w, cs @ [(p, PLookup)], sent))"
| "sched_do E (w, cs, sent) (Run k) =
     (if k < length cs
      then (case cs ! k of (p, ph) \<Rightarrow>
              (case create_step E p ph w of (w1, ph1) \<Rightarrow> (w1, cs[k := (p, ph1)], sent @ accept_log p ph ph1)))
      else (w, cs, sent))"

lemma sched_next: "(create_next E)\<^sup>*\<^sup>* s (sched_do E s ev)"
proof (cases s; cases ev)
  fix w cs sent i assume s: "s = (w, cs, sent)" "ev = Arrive i"
  show ?thesis
    by (cases "plan_create E i") (auto simp: s intro: create_next.arrive)
next
  fix w cs sent k assume s: "s = (w, cs, sent)" "ev = Run k"
  show ?thesis
    by (cases "cs ! k"; cases "create_step E (fst (cs ! k)) (snd (cs ! k)) w")
      (auto simp: s intro: create_next.client)
qed

lemma sched_reach: "(create_next E)\<^sup>*\<^sup>* s (foldl (sched_do E) s evs)"
proof (induction evs arbitrary: s)
  case (Cons ev evs)
  show ?case using rtranclp_trans [OF sched_next Cons [of "sched_do E s ev"]] by simp
qed simp

definition sample_escrow_env :: escrow_env where
  "sample_escrow_env =
     \<lparr>ee_L = sample_eth\<lparr>IsHexAddress := \<lambda>s. True,
        HexToAddress := \<lambda>s. [word_of_nat (length s)], HashHex := \<lambda>h. ''0x'' @ text_of h, HexToHash := \<lambda>s. bytes_of (drop 2 s),
        Keccak256Hash := \<lambda>s. []\<rparr>,
      ee_HasConfig = True, ee_FactoryAddress = ''0x'', ee_ChainID = 1, ee_Now = 5,
      ee_Node = \<lparr>node_CreateEscrow = \<lambda>_ _. Inr (bytes_of ''7''),
        node_Receipt = \<lambda>h n. Some \<lparr>rc_Status = 1, rc_Logs =
          [\<lparr>lg_Address = bytes_of ''0xfa'', lg_Topics = [[7], [9], bytes_of ''0xe9''], lg_Data = []\<rparr>], rc_TxHash = h\<rparr>,
        node_EscrowCreatedID = [7]\<rparr>,
      ee_Chain = \<lambda>calls c. Inr (bytes_of (''tx'' @ nat_str (length calls))), ee_RunOnce = \<lambda>d. d\<rparr>"

definition sample_input :: create_input where
  "sample_input =
     \<lparr>ci_Title = ''t'', ci_Description = ''d'', ci_Buyer = ''0xb'', ci_Worker = ''0xwo'', ci_Arbitrator = ''0xarb'',
      ci_VerifierPanel = [''0xveri''], ci_QuorumThreshold = 1, ci_QuorumVerifierCount = 1,
      ci_VerifierStakePerVerifier = None, ci_Amount = Some 10, ci_WorkerStake = None,
      ci_SubmissionDeadline = 100, ci_ReviewPeriodSeconds = 1, ci_DisputePeriodSeconds = 1,
      ci_ArbitratorTimeoutSeconds = 1, ci_SubmissionDeadlineDB = 100, ci_ReviewPeriodSecondsDB = 1,
      ci_DisputePeriodSecondsDB = 1, ci_ArbitratorTimeoutSecondsDB = 1, ci_Token = bytes_of zero_address,
      ci_ServiceTier = 0, ci_Milestones = [], ci_MilestoneDeadlines = [], ci_BackupWorker = bytes_of zero_address,
      ci_BackupDeadlineExtension = 0, ci_BackupDeadlineDB = 0, ci_ZKVerifier = bytes_of zero_address,
      ci_CircuitID = zero_bytes32, ci_ParentEscrowID = None, ci_ParentEscrow = zero_addr,
      ci_TaskSpecHash = bytes_of ''s''\<rparr>"

lemma sample_plan: "\<exists>p. plan_create sample_escrow_env sample_input = Inr p \<and> cp_Intent p = ''0x''"
proof -
  have "[a] \<noteq> zero_addr" for a by (simp add: zero_addr_def numeral_eq_Suc)
  then show ?thesis
    by (simp add: plan_create_def check_request_def check_participants_def parseAddress_def sample_escrow_env_def
        sample_input_def Let_def buildCreateEscrowIntentID_def negative_def text_of_def)
qed

definition sample_escrow_world :: escrow_world where
  "sample_escrow_world = \<lparr>ew_DB = empty_db\<lparr>escrows := [blank_escrow\<lparr>esc_ID := 1, esc_CreateIntentID := ''0x'',
     esc_Status := ''pending''\<rparr>]\<rparr>, ew_Calls = []\<rparr>"

definition sample_events :: "sched_event list" where
  "sample_events = [Arrive sample_input, Arrive sample_input, Run 0, Run 1, Run 0, Run 1, Run 1, Run 0, Run 1, Run 0]"

lemma sample_schedule:
  "snd (snd (foldl (sched_do sample_escrow_env) (sample_escrow_world, [], []) sample_events)) = [''0x'']"
proof -
  obtain p where "plan_create sample_escrow_env sample_input = Inr p" "cp_Intent p = ''0x''"
    using sample_plan by blast
  then show ?thesis
    by (simp add: sample_events_def sample_escrow_world_def blank_escrow_def empty_db_def GetEscrowByCreateIntentID_def
        GetEscrow_def created_already_def
        TransitionEscrowStatus_def on_db_def rows_affected_def upd_escrows_def row_upd_def accept_log_def Let_def
        send_def sample_escrow_env_def)
qed
theorem create_at_most_once_witness:
  "case foldl (sched_do sample_escrow_env) (sample_escrow_world, [], []) sample_events of (w, cs, sent) \<Rightarrow>
     distinct sent \<and> accepted_creates (ew_Calls w) = 1"
proof -
  obtain w cs sent where s: "foldl (sched_do sample_escrow_env) (sample_escrow_world, [], []) sample_events = (w, cs, sent)"
    by (cases "foldl (sched_do sample_escrow_env) (sample_escrow_world, [], []) sample_events")
  have "(create_next sample_escrow_env)\<^sup>*\<^sup>* (sample_escrow_world, [], []) (w, cs, sent)"
    using sched_reach [of sample_escrow_env "(sample_escrow_world, [], [])" sample_events] by (simp add: s)
  moreover have "intents_ok (ew_DB sample_escrow_world)" by (simp add: sample_escrow_world_def intents_ok_def)
  moreover have "\<forall>d. intents_ok d \<longrightarrow> keeps_creations d (ee_RunOnce sample_escrow_env d)"
    by (simp add: sample_escrow_env_def keeps_refl)
  moreover have "\<forall>h. HashHex (ee_L sample_escrow_env) h \<noteq> []" by (simp add: sample_escrow_env_def)
  ultimately have "distinct sent \<and> accepted_creates (ew_Calls w) = accepted_creates (ew_Calls sample_escrow_world) + length sent"
    using create_at_most_once by blast
  moreover have "sent = [''0x'']" using sample_schedule by (simp add: s)
  moreover have "accepted_creates (ew_Calls sample_escrow_world) = 0" by (simp add: sample_escrow_world_def accepted_creates_def)
  ultimately show ?thesis by (simp add: s)
qed

end
