(* ===== verification/EscrowProps.thy ===== *)
theory EscrowProps
  imports EscrowOps EscrowCreate
begin

text \<open>
  Properties of the escrow service on its own: what a request may send to the chain, what a creation
  is made of and that it ends, and that sub-delegated work is submitted with a valid chain of
  attestations, which is stored.
\<close>

section \<open>Requests\<close>

text \<open>The operations of theory \<open>EscrowOps\<close> as requests, and what a call is about.\<close>

datatype escrow_request =
    ReqFund
  | ReqDepositWorkerStake
  | ReqDepositVerifierStake
  | ReqWithdrawStake
  | ReqSubmit submit_request
  | ReqApprove string "int64 option"
  | ReqVerify "byte list" "int64 option"
  | ReqVote bool string "int64 option"
  | ReqDispute string string "int64 option"
  | ReqResolve "16 word" string "int64 option"
  | ReqClaimTimeout "int64 option"
  | ReqClaimArbitrator "int64 option"
  | ReqCancel
  | ReqAbort
  | ReqActivateBackup

fun serve :: "escrow_env \<Rightarrow> escrow \<Rightarrow> escrow_request \<Rightarrow> escrow_world \<Rightarrow> string esc_result" where
  "serve E e ReqFund w = FundEscrow E e w"
| "serve E e ReqDepositWorkerStake w = DepositWorkerStake E e w"
| "serve E e ReqDepositVerifierStake w = DepositVerifierStake E e w"
| "serve E e ReqWithdrawStake w = WithdrawStake E e w"
| "serve E e (ReqSubmit q) w = SubmitWork E e q w"
| "serve E e (ReqApprove role m) w = ApproveWork E e role m w"
| "serve E e (ReqVerify proof m) w = VerifyAndApprove E e proof m w"
| "serve E e (ReqVote approve reason m) w = CastVerifierVote E e approve reason m w"
| "serve E e (ReqDispute role reason m) w = DisputeWork E e role reason m w"
| "serve E e (ReqResolve bps uri m) w = ResolveDispute E e bps uri m w"
| "serve E e (ReqClaimTimeout m) w = ClaimTimeoutRefund E e m w"
| "serve E e (ReqClaimArbitrator m) w = ClaimArbitratorTimeout E e m w"
| "serve E e ReqCancel w = CancelBeforeFunding E e w"
| "serve E e ReqAbort w = AbortRemainingMilestones E e w"
| "serve E e ReqActivateBackup w = ActivateBackup E e w"

fun request_milestone :: "escrow_request \<Rightarrow> int64 option" where
  "request_milestone (ReqSubmit q) = sq_MilestoneIndex q"
| "request_milestone (ReqApprove role m) = m"
| "request_milestone (ReqVerify proof m) = m"
| "request_milestone (ReqVote approve reason m) = m"
| "request_milestone (ReqDispute role reason m) = m"
| "request_milestone (ReqResolve bps uri m) = m"
| "request_milestone (ReqClaimTimeout m) = m"
| "request_milestone (ReqClaimArbitrator m) = m"
| "request_milestone _ = None"

text \<open>Requests that act on one milestone of an escrow that has several.\<close>

fun per_milestone :: "escrow_request \<Rightarrow> bool" where
  "per_milestone (ReqSubmit q) = True"
| "per_milestone (ReqApprove role m) = True"
| "per_milestone (ReqVerify proof m) = True"
| "per_milestone (ReqVote approve reason m) = True"
| "per_milestone (ReqDispute role reason m) = True"
| "per_milestone (ReqResolve bps uri m) = True"
| "per_milestone _ = False"

text \<open>The milestone a request may act on (\<open>None\<close> if it may not), and the escrow's address.\<close>

definition target_milestone :: "escrow \<Rightarrow> escrow_request \<Rightarrow> byte option option" where
  "target_milestone e q =
     (case request_milestone q of
        None \<Rightarrow> if per_milestone q \<and> 1 < esc_MilestoneCount e then None else Some None
      | Some m \<Rightarrow>
          if 1 < esc_MilestoneCount e \<and> 0 \<le> sint m \<and> sint m < esc_MilestoneCount e \<and> sint m \<le> 255
          then Some (Some (word_of_int (sint m))) else None)"

definition checked_address :: "eth_lib \<Rightarrow> string \<Rightarrow> addr option" where
  "checked_address L raw =
     (if IsHexAddress L raw \<and> HexToAddress L raw \<noteq> zero_addr then Some (HexToAddress L raw) else None)"

text \<open>What a request means: the one call to the contract it asks for. An amount goes along in the native currency
  only.\<close>

definition amount_of :: "escrow \<Rightarrow> escrow_request \<Rightarrow> int option" where
  "amount_of e q =
     (case q of
        ReqFund \<Rightarrow> SetString10 (esc_Amount e)
      | ReqDepositWorkerStake \<Rightarrow> (case SetString10 (esc_WorkerStake e) of Some v \<Rightarrow> if 0 < v then Some v else None | None \<Rightarrow> None)
      | ReqDepositVerifierStake \<Rightarrow>
          (case SetString10 (esc_VerifierStakePerVerifier e) of Some v \<Rightarrow> if 0 < v then Some v else None | None \<Rightarrow> None)
      | _ \<Rightarrow> None)"

definition pays_with :: "escrow \<Rightarrow> escrow_request \<Rightarrow> (int option \<Rightarrow> chain_call) \<Rightarrow> chain_call option" where
  "pays_with e q call = map_option (\<lambda>v. call (if IsERC20Token (esc_Token e) then None else Some v)) (amount_of e q)"

fun intended :: "eth_lib \<Rightarrow> escrow \<Rightarrow> addr \<Rightarrow> escrow_request \<Rightarrow> byte option \<Rightarrow> chain_call option" where
  "intended L e a ReqFund m = pays_with e ReqFund (CallFund a)"
| "intended L e a ReqDepositWorkerStake m = pays_with e ReqDepositWorkerStake (CallDepositStake a)"
| "intended L e a ReqDepositVerifierStake m = pays_with e ReqDepositVerifierStake (CallDepositVerifierStake a)"
| "intended L e a ReqWithdrawStake m = Some (CallWithdrawStake a)"
| "intended L e a (ReqSubmit s) m =
     (case ParseProofHashHex (sq_ProofHash s) of
        Inl _ \<Rightarrow> None
      | Inr p \<Rightarrow> let uri = sq_SubmissionURI s; h = Keccak256Hash L uri in
          Some (case m of None \<Rightarrow> CallSubmit a h uri p | Some b \<Rightarrow> CallSubmitMilestone a b h uri p))"
| "intended L e a (ReqApprove role _) m =
     (if role = ''buyer'' then Some (case m of None \<Rightarrow> CallApproveByBuyer a | Some b \<Rightarrow> CallApproveMilestoneByBuyer a b)
      else if role = ''verifier''
      then Some (case m of None \<Rightarrow> CallCastVerifierVote a True [] | Some b \<Rightarrow> CallCastMilestoneVerifierVote a b True [])
      else None)"
| "intended L e a (ReqVerify proof _) m =
     Some (case m of None \<Rightarrow> CallVerifyAndApprove a proof | Some b \<Rightarrow> CallVerifyAndApproveMilestone a b proof)"
| "intended L e a (ReqVote ok uri _) m =
     Some (case m of None \<Rightarrow> CallCastVerifierVote a ok uri | Some b \<Rightarrow> CallCastMilestoneVerifierVote a b ok uri)"
| "intended L e a (ReqDispute role uri _) m =
     (if role = ''buyer'' then Some (case m of None \<Rightarrow> CallDispute a uri | Some b \<Rightarrow> CallDisputeMilestone a b uri)
      else if role = ''verifier''
      then Some (case m of None \<Rightarrow> CallCastVerifierVote a False uri | Some b \<Rightarrow> CallCastMilestoneVerifierVote a b False uri)
      else if role = ''worker''
      then Some (case m of None \<Rightarrow> CallEscalateSilence a uri | Some b \<Rightarrow> CallEscalateMilestoneSilence a b uri)
      else None)"
| "intended L e a (ReqResolve bps uri _) m =
     (if bps \<le> 10000
      then Some (case m of None \<Rightarrow> CallResolveDispute a bps uri | Some b \<Rightarrow> CallResolveMilestoneDispute a b bps uri)
      else None)"
| "intended L e a (ReqClaimTimeout _) m =
     Some (case m of None \<Rightarrow> CallClaimTimeoutRefund a | Some b \<Rightarrow> CallClaimMilestoneTimeoutRefund a b)"
| "intended L e a (ReqClaimArbitrator _) m =
     Some (case m of None \<Rightarrow> CallClaimArbitratorTimeout a | Some b \<Rightarrow> CallClaimMilestoneArbitratorTimeout a b)"
| "intended L e a ReqCancel m = Some (CallCancelBeforeFunding a)"
| "intended L e a ReqAbort m = (if 1 < esc_MilestoneCount e then Some (CallAbortRemainingMilestones a) else None)"
| "intended L e a ReqActivateBackup m =
     (if esc_BackupWorker e \<noteq> [] \<and> esc_BackupWorker e \<noteq> zero_address \<and> \<not> esc_BackupActivated e
      then Some (CallActivateBackup a) else None)"

definition request_call :: "escrow_env \<Rightarrow> escrow \<Rightarrow> escrow_request \<Rightarrow> chain_call option" where
  "request_call E e q =
     (case (checked_address (ee_L E) (esc_EscrowAddress e), target_milestone e q) of
        (Some a, Some m) \<Rightarrow> intended (ee_L E) e a q m
      | _ \<Rightarrow> None)"

text \<open>The allowance a payment in a token needs first. A payment in a token without a proper address, and a
  submission whose attestation chain is not accepted, are refused although they mean a call.\<close>

definition allowance :: "escrow_env \<Rightarrow> escrow \<Rightarrow> escrow_request \<Rightarrow> chain_call option" where
  "allowance E e q =
     (if IsERC20Token (esc_Token e)
      then map_option (CallApproveERC20 (HexToAddress (ee_L E) (esc_Token e)) (HexToAddress (ee_L E) (esc_EscrowAddress e)))
             (amount_of e q)
      else None)"

definition refused :: "escrow_env \<Rightarrow> escrow \<Rightarrow> escrow_request \<Rightarrow> db \<Rightarrow> bool" where
  "refused E e q d \<longleftrightarrow>
     (amount_of e q \<noteq> None \<and> IsERC20Token (esc_Token e) \<and> checked_address (ee_L E) (esc_Token e) = None)
     \<or> (case q of ReqSubmit s \<Rightarrow> isl (validateAttestationChain E (esc_ID e) (sq_AttestationChainJSON s) d) | _ \<Rightarrow> False)"

definition mined :: "escrow_env \<Rightarrow> hash \<Rightarrow> bool" where
  "mined E h \<longleftrightarrow> (\<exists>r. WaitMined (ee_L E) (ee_Node E) h = Inr r \<and> rc_Status r = 1)"

text \<open>The result of a request, given the answer to its call: only a submission may still fail after it.\<close>

definition result_of :: "escrow_env \<Rightarrow> escrow_request \<Rightarrow> gerr + hash \<Rightarrow> gerr + string \<Rightarrow> bool" where
  "result_of E q r res \<longleftrightarrow>
     (case r of
        Inl _ \<Rightarrow> isl res
      | Inr h \<Rightarrow> res = Inr (HashHex (ee_L E) h) \<or> isl res \<and> (\<exists>s. q = ReqSubmit s))"

definition calls_ok :: "escrow_env \<Rightarrow> escrow \<Rightarrow> escrow_request \<Rightarrow> db \<Rightarrow> call_log \<Rightarrow> gerr + string \<Rightarrow> bool" where
  "calls_ok E e q d cs res \<longleftrightarrow>
     (case request_call E e q of
        None \<Rightarrow> cs = [] \<and> isl res
      | Some c \<Rightarrow>
          if refused E e q d then cs = [] \<and> isl res
          else case allowance E e q of
            None \<Rightarrow> \<exists>r. cs = [(c, r)] \<and> result_of E q r res
          | Some ap \<Rightarrow>
              (\<exists>r. cs = [(ap, r)] \<and> isl res \<and> (\<forall>h. r = Inr h \<longrightarrow> \<not> mined E h))
              \<or> (\<exists>h r. cs = [(ap, Inr h), (c, r)] \<and> mined E h \<and> result_of E q r res))"

definition served :: "escrow_env \<Rightarrow> escrow \<Rightarrow> escrow_request \<Rightarrow> escrow_world \<Rightarrow> string esc_result \<Rightarrow> bool" where
  "served E e q w out \<longleftrightarrow> (\<exists>cs. ew_Calls (fst out) = ew_Calls w @ cs \<and> calls_ok E e q (ew_DB w) cs (snd out))"

section \<open>Lemmas\<close>

lemma served_none: "request_call E e q = None \<or> refused E e q (ew_DB w) \<Longrightarrow> served E e q w (w, Inl x)"
  by (auto simp: served_def calls_ok_def split: option.split)

lemma served_refuse: "request_call E e q = None \<or> refused E e q (ew_DB w) \<Longrightarrow> served E e q w (refuse msg w)"
  by (simp add: refuse_def served_none)

lemma request_none: "(\<And>a m. intended (ee_L E) e a q m = None) \<Longrightarrow> request_call E e q = None"
  by (simp add: request_call_def split: option.split)

lemma send_and_index_log:
  "\<exists>r. ew_Calls (fst (send_and_index E what c w)) = ew_Calls w @ [(c, r)]
     \<and> result_of E q r (snd (send_and_index E what c w))"
proof (cases "ee_Chain E (ew_Calls w) c")
  case (Inl x)
  then show ?thesis by (auto simp: send_and_index_def send_def Let_def result_of_def)
next
  case (Inr h)
  then show ?thesis by (auto simp: send_and_index_def send_def Let_def run_indexer_def result_of_def)
qed

lemma served_send:
  "request_call E e q = Some c \<Longrightarrow> \<not> refused E e q (ew_DB w) \<Longrightarrow> allowance E e q = None \<Longrightarrow>
     served E e q w (send_and_index E what c w)"
  using send_and_index_log [of E what c w q] by (auto simp: served_def calls_ok_def)

lemma parseAddress_ok:
  "parseAddress L field raw = Inr a \<longleftrightarrow> checked_address L raw = Some a"
  "isl (parseAddress L field raw) \<longleftrightarrow> checked_address L raw = None"
  by (auto simp: parseAddress_def checked_address_def Let_def)

lemma IntToUint8_cases:
  "isl (IntToUint8 v f) \<longleftrightarrow> \<not> (0 \<le> sint v \<and> sint v \<le> 255)"
  "0 \<le> sint v \<Longrightarrow> sint v \<le> 255 \<Longrightarrow> IntToUint8 v f = Inr (scast v)"
proof -
  show l: "isl (IntToUint8 v f) \<longleftrightarrow> \<not> (0 \<le> sint v \<and> sint v \<le> 255)"
    by (auto simp: IntToUint8_def sless_zero word_sless_alt)
  assume "0 \<le> sint v" "sint v \<le> 255"
  then obtain b where b: "IntToUint8 v f = Inr b" using l by (cases "IntToUint8 v f") auto
  have "word_of_int (uint b) = (word_of_int (sint v) :: byte)" unfolding conjunct2 [OF conjunct2 [OF IntToUint8_ok [OF b]]] ..
  then have "b = scast v" by simp
  then show "IntToUint8 v f = Inr (scast v)" using b by simp
qed

lemma validateMilestoneIndex_ok: "validateMilestoneIndex n m = Inr r \<Longrightarrow> r = m"
  by (auto simp: validateMilestoneIndex_def split: if_splits option.splits)

lemma not_submission: "(\<And>s. q \<noteq> ReqSubmit s) \<Longrightarrow>
    refused E e q d \<longleftrightarrow> amount_of e q \<noteq> None \<and> IsERC20Token (esc_Token e) \<and> checked_address (ee_L E) (esc_Token e) = None"
  by (cases "\<exists>s. q = ReqSubmit s") (auto simp: refused_def split: escrow_request.split)

lemma validated_milestone:
  assumes "resolved = validateMilestoneIndex (esc_MilestoneCount e) (request_milestone q) \<and> per_milestone q
      \<or> resolved = validateOptionalMilestoneIndex (esc_MilestoneCount e) (request_milestone q) \<and> \<not> per_milestone q"
  shows "resolved = Inr (request_milestone q)
        \<and> target_milestone e q = (case request_milestone q of None \<Rightarrow> Some None
             | Some m \<Rightarrow> if isl (IntToUint8 m f) then None else Some (Some (projr (IntToUint8 m f))))
    \<or> isl resolved \<and> target_milestone e q = None"
  using assms IntToUint8_cases
  by (auto simp: validateMilestoneIndex_def validateOptionalMilestoneIndex_def target_milestone_def not_less
      split: option.split if_splits)

lemma served_target:
  assumes "resolved = validateMilestoneIndex (esc_MilestoneCount e) (request_milestone q) \<and> per_milestone q
      \<or> resolved = validateOptionalMilestoneIndex (esc_MilestoneCount e) (request_milestone q) \<and> \<not> per_milestone q"
    and "\<And>a b. request_call E e q = intended (ee_L E) e a q (Some b) \<Longrightarrow> served E e q w (f a b w)"
    and "\<And>a. request_call E e q = intended (ee_L E) e a q None \<Longrightarrow> served E e q w (g a w)"
  shows "served E e q w (on_target E resolved e f g w)"
  using validated_milestone [OF assms(1), of "''milestone_index''"]
proof (elim disjE conjE)
  assume "isl resolved" "target_milestone e q = None"
  then show ?thesis by (auto simp: on_target_def isl_def request_call_def intro!: served_none split: option.split)
next
  assume r: "resolved = Inr (request_milestone q)"
    and t: "target_milestone e q = (case request_milestone q of None \<Rightarrow> Some None
             | Some m \<Rightarrow> if isl (IntToUint8 m ''milestone_index'') then None
                 else Some (Some (projr (IntToUint8 m ''milestone_index''))))"
  show ?thesis
  proof (cases "checked_address (ee_L E) (esc_EscrowAddress e)")
    case None
    then have "isl (parseAddress (ee_L E) ''escrow_address'' (esc_EscrowAddress e))" by (simp add: parseAddress_ok)
    then show ?thesis using None r by (auto simp: on_target_def isl_def request_call_def intro!: served_none)
  next
    case (Some a)
    then have p: "parseAddress (ee_L E) ''escrow_address'' (esc_EscrowAddress e) = Inr a" by (simp add: parseAddress_ok)
    show ?thesis
    proof (cases "request_milestone q")
      case None
      then have "request_call E e q = intended (ee_L E) e a q None" using Some t by (simp add: request_call_def)
      then show ?thesis using assms(3) r p None by (simp add: on_target_def)
    next
      case (Some m)
      show ?thesis
      proof (cases "IntToUint8 m ''milestone_index''")
        case (Inl x)
        then show ?thesis using r p Some t by (auto simp: on_target_def request_call_def intro!: served_none split: option.split)
      next
        case (Inr b)
        then have "request_call E e q = intended (ee_L E) e a q (Some b)"
          using \<open>checked_address _ _ = Some a\<close> Some t by (simp add: request_call_def)
        then show ?thesis using assms(2) r p Some Inr by (simp add: on_target_def)
      qed
    qed
  qed
qed

lemma served_escrow:
  assumes "request_milestone q = None" "\<not> per_milestone q"
    and "\<And>a. checked_address (ee_L E) (esc_EscrowAddress e) = Some a \<Longrightarrow> request_call E e q = intended (ee_L E) e a q None
      \<Longrightarrow> served E e q w (k a)"
  shows "served E e q w (orFail w id (parseAddress (ee_L E) ''escrow_address'' (esc_EscrowAddress e)) k)"
proof (cases "checked_address (ee_L E) (esc_EscrowAddress e)")
  case None
  then have "isl (parseAddress (ee_L E) ''escrow_address'' (esc_EscrowAddress e))" by (simp add: parseAddress_ok)
  then show ?thesis using None by (auto simp: isl_def request_call_def intro!: served_none)
next
  case (Some a)
  then have "parseAddress (ee_L E) ''escrow_address'' (esc_EscrowAddress e) = Inr a" by (simp add: parseAddress_ok)
  moreover have "request_call E e q = intended (ee_L E) e a q None"
    using Some assms(1,2) by (simp add: request_call_def target_milestone_def)
  ultimately show ?thesis using assms(3) Some by simp
qed

lemma served_pay:
  assumes a: "checked_address (ee_L E) (esc_EscrowAddress e) = Some a"
    and q: "amount_of e q = Some v" "\<And>s. q \<noteq> ReqSubmit s"
    and c: "request_call E e q = pays_with e q (call a)"
  shows "served E e q w (pay E what call a (esc_Token e) v w)"
proof (cases "IsERC20Token (esc_Token e)")
  case False
  then show ?thesis using c q
    by (auto simp: pay_def pays_with_def allowance_def not_submission intro!: served_send)
next
  case True
  let ?L = "ee_L E"
  have a': "a = HexToAddress ?L (esc_EscrowAddress e)" using a by (simp add: checked_address_def split: if_splits)
  have c': "request_call E e q = Some (call a None)" using c q True by (simp add: pays_with_def)
  show ?thesis
  proof (cases "checked_address ?L (esc_Token e)")
    case None
    then have "isl (parseAddress ?L ''token'' (esc_Token e))" by (simp add: parseAddress_ok)
    moreover have "refused E e q (ew_DB w)" using None True q(1) by (simp add: refused_def)
    ultimately show ?thesis using True by (auto simp: pay_def isl_def intro!: served_none)
  next
    case (Some t)
    let ?c = "CallApproveERC20 t a v"
    have p: "parseAddress ?L ''token'' (esc_Token e) = Inr t" using Some by (simp add: parseAddress_ok)
    have r: "\<not> refused E e q (ew_DB w)" using Some q by (simp add: not_submission)
    have al: "allowance E e q = Some ?c"
      using True q(1) a' Some by (auto simp: allowance_def checked_address_def split: if_splits)
    have ok: "calls_ok E e q (ew_DB w) cs res \<longleftrightarrow>
        (\<exists>r. cs = [(?c, r)] \<and> isl res \<and> (\<forall>h. r = Inr h \<longrightarrow> \<not> mined E h))
        \<or> (\<exists>h r. cs = [(?c, Inr h), (call a None, r)] \<and> mined E h \<and> result_of E q r res)" for cs res
      using c' r al by (simp add: calls_ok_def)
    obtain w1 x where s: "send E ?c w = (w1, x)" "ew_Calls w1 = ew_Calls w @ [(?c, x)]"
      by (simp add: send_def Let_def)
    have fail: "served E e q w (w1, Inl err)" if "\<forall>h. x = Inr h \<longrightarrow> \<not> mined E h" for err
      using s that by (auto simp: served_def ok)
    show ?thesis
    proof (cases x)
      case (Inl err)
      then show ?thesis using s p True fail by (simp add: pay_def)
    next
      case (Inr h)
      show ?thesis
      proof (cases "mined E h")
        case False
        then have "served E e q w (w1, Inl err)" for err using fail Inr by simp
        then show ?thesis using False s p True Inr
          by (cases "WaitMined ?L (ee_Node E) h") (auto simp: pay_def mined_def)
      next
        case True
        then obtain rc where rc: "WaitMined ?L (ee_Node E) h = Inr rc" "rc_Status rc = 1" by (auto simp: mined_def)
        obtain y where y: "ew_Calls (fst (send_and_index E what (call a None) w1)) = ew_Calls w1 @ [(call a None, y)]"
          "result_of E q y (snd (send_and_index E what (call a None) w1))"
          using send_and_index_log [of E what "call a None" w1 q] by blast
        then show ?thesis
          using s p Inr rc True \<open>IsERC20Token (esc_Token e)\<close> by (auto simp: pay_def served_def ok)
      qed
    qed
  qed
qed

lemma send_map:
  "mapErr f (send E c w) = (w\<lparr>ew_Calls := ew_Calls w @ [(c, ee_Chain E (ew_Calls w) c)]\<rparr>,
     map_sum f id (ee_Chain E (ew_Calls w) c))"
  by (cases "ee_Chain E (ew_Calls w) c") (simp_all add: send_def Let_def)

text \<open>A submission: whatever happens after the call, there was just the one.\<close>

lemma submitted:
  assumes "submit_call E a m (sq_SubmissionURI s) p w =
      mapErr f (send E c w)" "request_call E e (ReqSubmit s) = Some c" "\<not> refused E e (ReqSubmit s) (ew_DB w)"
  shows "served E e (ReqSubmit s) w
    (andThen (submit_call E a m (sq_SubmissionURI s) p w) (\<lambda>w1 tx.
     andThen
       (case validated of
          None \<Rightarrow> (w1, Inr ())
        | Some (v, atts) \<Rightarrow>
            mapErr (wrap ''persist attestation chain'')
              (on_db (persistAttestationChain (ee_Now E) (esc_ID e) n v atts) w1))
       (\<lambda>w2 _. (run_indexer E w2, Inr (HashHex (ee_L E) tx)))))"
proof -
  let ?w1 = "w\<lparr>ew_Calls := ew_Calls w @ [(c, ee_Chain E (ew_Calls w) c)]\<rparr>"
  have al: "allowance E e (ReqSubmit s) = None" by (simp add: allowance_def amount_of_def)
  have ok: "served E e (ReqSubmit s) w (w2, res)"
    if "ew_Calls w2 = ew_Calls ?w1" "result_of E (ReqSubmit s) (ee_Chain E (ew_Calls w) c) res" for w2 res
    using that assms(2,3) al by (auto simp: served_def calls_ok_def)
  show ?thesis
  proof (cases "ee_Chain E (ew_Calls w) c")
    case (Inl x)
    then show ?thesis unfolding assms(1) send_map by (auto intro!: ok simp: result_of_def)
  next
    case (Inr h)
    have r: "result_of E (ReqSubmit s) (ee_Chain E (ew_Calls w) c) (Inr (HashHex (ee_L E) h))"
        "result_of E (ReqSubmit s) (ee_Chain E (ew_Calls w) c) (Inl err)" for err
      using Inr by (simp_all add: result_of_def)
    show ?thesis
    proof (cases validated)
      case None
      then show ?thesis unfolding assms(1) send_map using Inr r by (auto intro!: ok simp: run_indexer_def)
    next
      case (Some va)
      obtain v atts where va: "va = (v, atts)" by (cases va)
      obtain w2 y where p: "on_db (persistAttestationChain (ee_Now E) (esc_ID e) n v atts) ?w1 = (w2, y)"
        by (cases "on_db (persistAttestationChain (ee_Now E) (esc_ID e) n v atts) ?w1")
      have "ew_Calls w2 = ew_Calls ?w1"
        using on_db_sel(1) [of "persistAttestationChain (ee_Now E) (esc_ID e) n v atts" ?w1] unfolding p by simp
      then show ?thesis unfolding assms(1) send_map Some va using Inr p r
        by (cases y) (auto intro!: ok simp: run_indexer_def)
    qed
  qed
qed

lemma served_SubmitWork: "served E e (ReqSubmit s) w (SubmitWork E e s w)"
proof -
  let ?q = "ReqSubmit s"
  note m = validated_milestone [of "validateMilestoneIndex (esc_MilestoneCount e) (request_milestone ?q)" e ?q
      "''milestone_index''", simplified]
  have no: "request_call E e ?q = None" if "isl (validateMilestoneIndex (esc_MilestoneCount e) (sq_MilestoneIndex s))"
    using m that by (auto simp: request_call_def split: option.split)
  show ?thesis
  proof (cases "validateMilestoneIndex (esc_MilestoneCount e) (sq_MilestoneIndex s)")
    case (Inl x)
    then show ?thesis using no by (auto simp: SubmitWork_def intro!: served_none)
  next
    case (Inr i)
    note m = Inr m
    then have i: "sq_MilestoneIndex s = i" by simp
    show ?thesis
    proof (cases "ParseProofHashHex (sq_ProofHash s)")
      case (Inl x)
      then show ?thesis using m by (auto simp: SubmitWork_def request_call_def intro!: served_none split: option.split)
    next
      case (Inr p)
      note p = Inr
      show ?thesis
      proof (cases "validateAttestationChain E (esc_ID e) (sq_AttestationChainJSON s) (ew_DB w)")
        case (Inl x)
        then show ?thesis using m p by (auto simp: SubmitWork_def refused_def intro!: served_none)
      next
        case (Inr v)
        have nr: "\<not> refused E e ?q (ew_DB w)" using Inr by (simp add: refused_def amount_of_def)
        show ?thesis
        proof (cases "checked_address (ee_L E) (esc_EscrowAddress e)")
          case None
          then have "isl (parseAddress (ee_L E) ''escrow_address'' (esc_EscrowAddress e))" by (simp add: parseAddress_ok)
          then show ?thesis using None m(1) p Inr
            by (auto simp: SubmitWork_def isl_def request_call_def intro!: served_none)
        next
          case (Some a)
          then have a: "parseAddress (ee_L E) ''escrow_address'' (esc_EscrowAddress e) = Inr a" by (simp add: parseAddress_ok)
          have run: "SubmitWork E e s w = andThen (submit_call E a i (sq_SubmissionURI s) p w) (\<lambda>w1 tx.
             andThen
               (case v of
                  None \<Rightarrow> (w1, Inr ())
                | Some (v, atts) \<Rightarrow>
                    mapErr (wrap ''persist attestation chain'')
                      (on_db (persistAttestationChain (ee_Now E) (esc_ID e) i v atts) w1))
               (\<lambda>w2 _. (run_indexer E w2, Inr (HashHex (ee_L E) tx))))"
            by (simp add: SubmitWork_def m(1) p Inr a)
          show ?thesis
          proof (cases i)
            case None
            then show ?thesis unfolding run using m i Some p nr
              by (intro submitted) (auto simp: submit_call_def Let_def request_call_def)
          next
            case (Some n)
            show ?thesis
            proof (cases "IntToUint8 n ''milestone_index''")
              case (Inl x)
              then have "request_call E e ?q = None" using m(2) i Some by (auto simp: request_call_def split: option.split)
              then show ?thesis unfolding run using Inl Some by (simp add: submit_call_def Let_def served_none)
            next
              case (Inr b)
              then show ?thesis unfolding run using m i Some \<open>checked_address _ _ = Some a\<close> p nr
                by (intro submitted) (auto simp: submit_call_def Let_def request_call_def)
            qed
          qed
        qed
      qed
    qed
  qed
qed

text \<open>C22: What a request sends to the chain, exactly. A request means one call (\<open>request_call\<close>): which method of
  the contract it is, with which arguments, on the escrow's address, which must be valid and not zero, on the
  milestone the request names, which must exist and fit the contract's \<open>uint8\<close>, or on the whole escrow, which for
  the operations that work milestone by milestone must not have several. A request that means no call, or is
  refused, calls nothing and fails. Otherwise exactly that call is made; for a payment in a token it comes
  without value, and after an approval of exactly the stored amount for the escrow that was mined with
  success, or else only the approval is sent. The request succeeds with the hash of that call when the chain
  accepted it, except that a submission may still fail to store its attestations.\<close>

theorem requests_send_what_they_say:
  "\<exists>cs. ew_Calls (fst (serve E e q w)) = ew_Calls w @ cs \<and> calls_ok E e q (ew_DB w) cs (snd (serve E e q w))"
proof -
  have plain: "\<not> refused E e q (ew_DB w) \<and> allowance E e q = None" if "amount_of e q = None" "\<And>s. q \<noteq> ReqSubmit s"
    using that by (simp add: not_submission allowance_def)
  have "served E e q w (serve E e q w)"
  proof (cases q)
    case ReqFund
    show ?thesis
    proof (cases "SetString10 (esc_Amount e)")
      case None
      then have "request_call E e q = None"
        using ReqFund by (auto simp: request_call_def pays_with_def amount_of_def split: option.split)
      then show ?thesis using ReqFund None by (simp add: FundEscrow_def served_none)
    next
      case (Some v)
      then show ?thesis using ReqFund
        by (auto simp: FundEscrow_def amount_of_def intro!: served_escrow served_pay)
    qed
  next
    case ReqDepositWorkerStake
    then show ?thesis
      by (auto simp: DepositWorkerStake_def deposit_stake_def processStakeDeposit_def amount_of_def request_call_def pays_with_def
          intro!: served_escrow served_refuse served_pay split: option.split)
  next
    case ReqDepositVerifierStake
    then show ?thesis
      by (auto simp: DepositVerifierStake_def deposit_stake_def processStakeDeposit_def amount_of_def request_call_def pays_with_def
          intro!: served_escrow served_refuse served_pay split: option.split)
  next
    case (ReqSubmit x)
    then show ?thesis by (simp add: served_SubmitWork)
  next
    case (ReqResolve bps uri m)
    have "request_call E e q = None" if "bps > 10000"
      using that ReqResolve by (auto simp: request_call_def split: option.split)
    then show ?thesis using plain ReqResolve
      by (auto simp: ResolveDispute_def amount_of_def not_less intro!: served_refuse served_target served_send)
  qed (insert plain, auto simp: WithdrawStake_def ApproveWork_def VerifyAndApprove_def CastVerifierVote_def DisputeWork_def
      ClaimTimeoutRefund_def ClaimArbitratorTimeout_def CancelBeforeFunding_def AbortRemainingMilestones_def
      ActivateBackup_def amount_of_def intro!: served_refuse served_target served_escrow served_send request_none)
  then show ?thesis by (simp add: served_def)
qed

section \<open>Submissions\<close>

definition stored_link :: "int \<Rightarrow> completion_attestation \<Rightarrow> attestation_link \<Rightarrow> bool" where
  "stored_link chainID a l \<longleftrightarrow>
     (link_of chainID a)\<lparr>al_ID := al_ID l, al_PayloadJSON := ''{}'', al_CreatedAt := al_CreatedAt l\<rparr> = l"

lemma create_link_ok:
  "createAttestationLinkOn now (link_of i a) d = (d', Inr r) \<Longrightarrow>
     d' = d\<lparr>attestation_links := attestation_links d @ [r]\<rparr> \<and> stored_link i a r"
  by (auto simp: createAttestationLinkOn_def Let_def row_add_def stored_link_def link_row_def link_of_def
      json_default_def split: if_splits)

lemma create_links_ok:
  "create_links now i as d = (d', Inr ()) \<Longrightarrow>
     \<exists>ls. d' = d\<lparr>attestation_links := attestation_links d @ ls\<rparr> \<and> list_all2 (stored_link i) as ls"
proof (induction now i as d arbitrary: d' rule: create_links.induct)
  case (1 now i d)
  then show ?case by (auto intro: exI [of _ "[]"])
next
  case (2 now i a as d)
  then obtain d1 r where r: "createAttestationLinkOn now (link_of i a) d = (d1, Inr r)"
      "create_links now i as d1 = (d', Inr ())"
    by (auto simp: err_iff)
  note l = create_link_ok [OF r(1)]
  obtain ls where "d' = d1\<lparr>attestation_links := attestation_links d1 @ ls\<rparr>" "list_all2 (stored_link i) as ls"
    using 2(1) [OF r(2)] by blast
  then show ?case using l by (intro exI [of _ "r # ls"]) simp
qed

definition attested :: "escrow_env \<Rightarrow> escrow \<Rightarrow> submit_request \<Rightarrow> db \<Rightarrow> db \<Rightarrow> completion_attestation list \<Rightarrow> bool" where
  "attested E e q d d' atts \<longleftrightarrow>
     ParseCompletionAttestations (sq_AttestationChainJSON q) = Inr atts \<and> atts \<noteq> []
     \<and> chain_ok (ee_L E) atts (map esc_ID (ListChildEscrows d (esc_ID e))) (ee_Now E)
     \<and> (\<exists>row links. d' = d\<lparr>attestation_chains := attestation_chains d @ [row],
             attestation_links := attestation_links d @ links\<rparr>
         \<and> ac_EscrowID row = esc_ID e \<and> ac_Verified row \<and> ac_RootHash row = root_hash (ee_L E) atts
         \<and> ac_MilestoneIndex row = map_option sint (sq_MilestoneIndex q)
         \<and> list_all2 (stored_link (ac_ID row)) atts links)"

lemma checked_chain_ok:
  "checked_chain E atts kids = Inr x \<Longrightarrow> atts \<noteq> [] \<Longrightarrow>
     chain_ok (ee_L E) atts kids (ee_Now E)
     \<and> (\<exists>v. x = Some (v, atts) \<and> cr_Valid v \<and> cr_RootHash v = root_hash (ee_L E) atts)"
  by (auto simp: checked_chain_def Let_def ValidateChain_cases split: if_splits)

lemma validateAttestationChain_ok:
  assumes "validateAttestationChain E i raw d = Inr x"
  shows "(x = None \<and> ListChildEscrows d i = [])
    \<or> (\<exists>v atts. x = Some (v, atts) \<and> ParseCompletionAttestations raw = Inr atts \<and> atts \<noteq> [] \<and> cr_Valid v
         \<and> cr_RootHash v = root_hash (ee_L E) atts
         \<and> chain_ok (ee_L E) atts (map esc_ID (ListChildEscrows d i)) (ee_Now E))"
  using assms
  by (auto simp: validateAttestationChain_def Let_def split: if_splits sum.splits dest!: checked_chain_ok)

lemma persist_ok:
  assumes "persistAttestationChain now i m v atts d = (d', Inr u)" "cr_Valid v"
  shows "\<exists>row links. d' = d\<lparr>attestation_chains := attestation_chains d @ [row],
             attestation_links := attestation_links d @ links\<rparr>
         \<and> ac_EscrowID row = i \<and> ac_Verified row \<and> ac_RootHash row = cr_RootHash v
         \<and> ac_MilestoneIndex row = map_option sint m \<and> list_all2 (stored_link (ac_ID row)) atts links"
proof -
  let ?c = "\<lparr>ac_ID = 0, ac_EscrowID = i, ac_MilestoneIndex = map_option sint m,
             ac_RootHash = cr_RootHash v, ac_Verified = cr_Valid v,
             ac_VerificationSummaryJSON = MarshalChainValidationResult v, ac_CreatedAt = 0, ac_UpdatedAt = 0\<rparr>"
  obtain d1 row where c: "createAttestationChainOn now ?c d = (d1, Inr row)"
      "create_links now (ac_ID row) atts d1 = (d', Inr ())"
    using assms(1) by (auto simp: persistAttestationChain_def err_iff)
  have "d1 = d\<lparr>attestation_chains := attestation_chains d @ [row]\<rparr>" "row = chain_row now ?c d"
    using c(1) by (auto simp: createAttestationChainOn_def Let_def row_add_def split: if_splits)
  moreover obtain ls where "d' = d1\<lparr>attestation_links := attestation_links d1 @ ls\<rparr>"
      "list_all2 (stored_link (ac_ID row)) atts ls"
    using create_links_ok [OF c(2)] by blast
  ultimately show ?thesis using assms(2)
    by (intro exI [of _ row] exI [of _ ls]) (simp add: chain_row_def)
qed

text \<open>C23: Work that was sub-delegated is submitted with proof. A submission for an escrow with child escrows
  succeeds only with a non-empty chain of attestations that is valid and covers exactly the children, and
  then the chain and each of its links are stored with the escrow, marked as verified; without children a
  chain is optional, and checked and stored all the same. A submission that fails, before or after its call
  to the chain, leaves the database as it was.\<close>

theorem SubmitWork_attested:
  "case SubmitWork E e q w of
     (w', Inl x) \<Rightarrow> ew_DB w' = ew_DB w
   | (w', Inr tx) \<Rightarrow> (\<exists>d. ew_DB w' = ee_RunOnce E d
        \<and> (ListChildEscrows (ew_DB w) (esc_ID e) = [] \<and> d = ew_DB w \<or> (\<exists>atts. attested E e q (ew_DB w) d atts)))"
proof -
  obtain w' res where s: "SubmitWork E e q w = (w', res)" by (cases "SubmitWork E e q w")
  have call: "ew_DB w1 = ew_DB w" if "submit_call E a m uri ph w = (w1, r)" for a m uri ph w1 r
    using that by (auto simp: submit_call_def Let_def send_map orFail_def split: option.splits sum.splits)
  have keep: "ew_DB w2 = ew_DB w1" if "on_db (persistAttestationChain n i m v as) w1 = (w2, Inl x)" for n i m v as w1 w2 x
    using that by (auto simp: on_db_iff persistAttestationChain_def err_iff)
  show ?thesis
  proof (cases res)
    case (Inl x)
    have "ew_DB w' = ew_DB w"
      using s unfolding Inl SubmitWork_def
      by (auto simp: err_iff split: option.splits dest!: call keep)
    then show ?thesis using s Inl by simp
  next
    case (Inr tx)
    obtain m v a w1 h ph where k: "validateMilestoneIndex (esc_MilestoneCount e) (sq_MilestoneIndex q) = Inr m"
      "validateAttestationChain E (esc_ID e) (sq_AttestationChainJSON q) (ew_DB w) = Inr v"
      "submit_call E a m (sq_SubmissionURI q) ph w = (w1, Inr h)"
      and rest: "\<exists>w2 u. (case v of
          None \<Rightarrow> (w1, Inr ())
        | Some (v, atts) \<Rightarrow>
            mapErr (wrap ''persist attestation chain'')
              (on_db (persistAttestationChain (ee_Now E) (esc_ID e) m v atts) w1)) = (w2, Inr u)
          \<and> (run_indexer E w2, Inr (HashHex (ee_L E) h)) = (w', Inr tx :: gerr + string)"
      using s unfolding Inr SubmitWork_def orFail_Inr andThen_Inr by (elim exE conjE) (rule that; blast)
    have m: "m = sq_MilestoneIndex q" using validateMilestoneIndex_ok [OF k(1)] by simp
    show ?thesis
    proof (cases v)
      case None
      then show ?thesis
        using rest validateAttestationChain_ok [OF k(2)] call [OF k(3)] s Inr by (auto simp: run_indexer_def)
    next
      case (Some va)
      obtain c atts where va: "va = (c, atts)" by (cases va)
      obtain w2 u where p: "persistAttestationChain (ee_Now E) (esc_ID e) m c atts (ew_DB w1) = (ew_DB w2, Inr u)"
          "w' = run_indexer E w2"
        using rest by (auto simp: Some va err_iff on_db_iff)
      have "cr_Valid c" "attested E e q (ew_DB w) (ew_DB w2) atts"
        using validateAttestationChain_ok [OF k(2)] persist_ok [OF p(1)] call [OF k(3)]
        by (auto simp: Some va attested_def m)
      then show ?thesis using s Inr p(2) by (auto simp: run_indexer_def)
    qed
  qed
qed

section \<open>Creations\<close>

text \<open>A creation ends. Whatever the database holds and the chain and the node answer, twenty steps bring
  a request from its start to its end, and what it ends with is the result of \<open>run_create\<close>, the
  function the sequential \<open>CreateEscrow\<close> is defined by.\<close>

theorem create_terminates:
  "((\<lambda>(w, ph). create_step E p ph w) ^^ 20) (w, PLookup)
     = (fst (run_create E p PLookup w), PDone (snd (run_create E p PLookup w)))"
proof -
  have "rank ph \<le> n \<Longrightarrow> ((\<lambda>(w, ph). create_step E p ph w) ^^ n) (w, ph)
      = (fst (run_create E p ph w), PDone (snd (run_create E p ph w)))" for n ph w
  proof (induction n arbitrary: ph w)
    case (Suc n)
    obtain w1 ph1 where st: "create_step E p ph w = (w1, ph1)" by (cases "create_step E p ph w")
    show ?case
    proof (cases "rank ph = 0")
      case True
      then obtain res where "ph = PDone res" by auto
      then show ?thesis using Suc.IH [of ph w] by (simp add: funpow_swap1)
    next
      case False
      then have "rank ph1 \<le> n" using step_rank [OF st] Suc.prems by simp
      then show ?thesis using Suc.IH [of ph1 w1] run_create_step [OF False st] st
        by (simp add: funpow_swap1)
    qed
  qed auto
  then show ?thesis by simp
qed

text \<open>What a plan guarantees of the parameters that go to the factory.\<close>

definition sound_params :: "create_escrow_params \<Rightarrow> bool" where
  "sound_params p \<longleftrightarrow>
     (let n = nat (uint (ce_QuorumVerifierCount p)); panel = take n (ce_VerifierPanel p) in
      distinct [ce_Buyer p, ce_Worker p, ce_Arbitrator p]
      \<and> zero_addr \<notin> {ce_Buyer p, ce_Worker p, ce_Arbitrator p}
      \<and> 1 \<le> n \<and> n \<le> 7 \<and> 1 \<le> uint (ce_QuorumThreshold p) \<and> uint (ce_QuorumThreshold p) \<le> int n
      \<and> length (ce_VerifierPanel p) = 7 \<and> drop n (ce_VerifierPanel p) = replicate (7 - n) zero_addr
      \<and> distinct panel \<and> set panel \<inter> {zero_addr, ce_Buyer p, ce_Worker p, ce_Arbitrator p} = {}
      \<and> 0 \<le> ce_Amount p \<and> 0 \<le> ce_WorkerStake p \<and> 0 \<le> ce_VerifierStakePerVerifier p
      \<and> (\<forall>m \<in> set (ce_Milestones p). 0 \<le> mp_Amount m))"

lemma check_panel_ok:
  "check_panel L b w a seen vs = Inr panel \<Longrightarrow> distinct seen \<Longrightarrow> set seen \<inter> {zero_addr, b, w, a} = {} \<Longrightarrow>
     distinct panel \<and> set panel \<inter> {zero_addr, b, w, a} = {} \<and> length panel = length seen + length vs"
proof (induction L b w a seen vs rule: check_panel.induct)
  case (2 L b w a seen v vs)
  then show ?case by (auto simp: Let_def split: if_splits)
qed simp

lemma check_milestones_ok: "check_milestones i ms = Inr ps \<Longrightarrow> \<forall>m \<in> set ps. 0 \<le> mp_Amount m"
  by (induction i ms arbitrary: ps rule: check_milestones.induct) (auto split: option.splits if_splits sum.splits)

lemma check_participants_ok:
  "check_participants E i = Inr (b, w, a, f) \<Longrightarrow>
     distinct [b, w, a] \<and> zero_addr \<notin> {b, w, a, f} \<and> f = HexToAddress (ee_L E) (ee_FactoryAddress E)
     \<and> \<not> negative (ci_VerifierStakePerVerifier i) \<and> \<not> negative (ci_WorkerStake i)"
  by (auto simp: check_participants_def parseAddress_ok checked_address_def split: sum.splits if_splits)

lemma check_request_ok:
  "check_request E i = None \<Longrightarrow>
     0 < uint (ci_QuorumVerifierCount i) \<and> uint (ci_QuorumVerifierCount i) \<le> 7
     \<and> 0 < uint (ci_QuorumThreshold i) \<and> uint (ci_QuorumThreshold i) \<le> uint (ci_QuorumVerifierCount i)
     \<and> uint (ci_QuorumVerifierCount i) \<le> int (length (ci_VerifierPanel i))
     \<and> \<not> negative (ci_Amount i)"
  by (auto simp: check_request_def Let_def negative_def uint_lt_0 less_le split: if_splits option.splits)

lemma plan_sound:
  assumes "plan_create E i = Inr p"
  shows "sound_params (cp_Params p) \<and> cp_Factory p = HexToAddress (ee_L E) (ee_FactoryAddress E)"
proof -
  let ?n = "nat (uint (ci_QuorumVerifierCount i))"
  obtain b w a f panel ms where k: "check_request E i = None" "check_participants E i = Inr (b, w, a, f)"
    "check_panel (ee_L E) b w a [] (take ?n (ci_VerifierPanel i)) = Inr panel"
    "check_milestones 0 (ci_Milestones i) = Inr ms"
    and p: "cp_Params p = create_params i b w a panel ms" "cp_Factory p = f"
    using assms by (auto simp: plan_create_def Let_def split: option.splits sum.splits)
  note q = check_request_ok [OF k(1)] and parties = check_participants_ok [OF k(2)]
  have "?n \<le> length (ci_VerifierPanel i)" using q by (simp only: nat_le_iff)
  then have len: "length panel = ?n" and panel: "distinct panel" "set panel \<inter> {zero_addr, b, w, a} = {}"
    using check_panel_ok [OF k(3)] by (auto simp: min_absorb2)
  have nums: "1 \<le> ?n" "?n \<le> 7" "1 \<le> uint (ci_QuorumThreshold i)" "uint (ci_QuorumThreshold i) \<le> int ?n"
    using q by (simp_all only: nat_le_iff nat_0_le) linarith+
  have "sound_params (create_params i b w a panel ms)"
    unfolding sound_params_def create_params_def Let_def
    using len panel nums q parties check_milestones_ok [OF k(4)]
    by (auto simp: negative_def split: option.splits)
  then show ?thesis using p parties by simp
qed

text \<open>A creation calls the chain once at most, with the parameters of its plan.\<close>

definition create_calls :: "create_plan \<Rightarrow> call_log \<Rightarrow> bool" where
  "create_calls p cs \<longleftrightarrow> length cs \<le> 1 \<and> (\<forall>(c, r) \<in> set cs. c = CallCreateEscrow (cp_Factory p) (cp_Params p))"

lemma step_calls:
  assumes "create_step E p ph w = (w1, ph1)"
  shows "(\<exists>cs. ew_Calls w1 = ew_Calls w @ cs \<and> create_calls p cs
      \<and> (cs \<noteq> [] \<longrightarrow> (\<exists>r. ph = PSend r) \<and> rank ph1 < rank (PSend undefined)))"
  using assms
  by (cases ph) (auto simp: create_calls_def on_db_def send_def Let_def maxPersistAttempts_def
      split: prod.splits sum.splits)

lemma run_calls:
  "run_create E p ph w = (w', res) \<Longrightarrow>
     \<exists>cs. ew_Calls w' = ew_Calls w @ cs \<and> create_calls p cs \<and> (rank ph < 14 \<longrightarrow> cs = [])"
proof (induction "rank ph" arbitrary: ph w rule: less_induct)
  case less
  obtain w1 ph1 where st: "create_step E p ph w = (w1, ph1)" by (cases "create_step E p ph w")
  show ?case
  proof (cases "rank ph = 0")
    case True
    then show ?thesis using less(2) by (auto simp: create_calls_def)
  next
    case False
    note r = step_rank [OF st False]
    obtain cs where cs: "ew_Calls w' = ew_Calls w1 @ cs" "create_calls p cs" "rank ph1 < 14 \<longrightarrow> cs = []"
      using less(1) [OF r] less(2) run_create_step [OF False st] by auto
    obtain cs1 where c1: "ew_Calls w1 = ew_Calls w @ cs1" "create_calls p cs1"
        "cs1 \<noteq> [] \<longrightarrow> (\<exists>r. ph = PSend r) \<and> rank ph1 < rank (PSend undefined)"
      using step_calls [OF st] by blast
    show ?thesis
    proof (cases "cs1 = []")
      case True
      then show ?thesis using cs c1 r by (intro exI [of _ cs]) auto
    next
      case False
      then have "cs = []" "\<exists>r. ph = PSend r" using cs c1 by auto
      then show ?thesis using cs(1) c1 by (intro exI [of _ cs1]) auto
    qed
  qed
qed

text \<open>C21: Only sound escrows are created. Whatever is asked for, \<open>CreateEscrow\<close> calls the chain at most once;
  the call goes to the configured factory, with three distinct non-zero parties, a quorum of one to seven
  verifiers who are distinct, non-zero and none of the parties, a threshold within the quorum, and no
  negative amount. A request that fails its validation calls nothing and leaves the database alone.\<close>

theorem CreateEscrow_sound:
  "case CreateEscrow E i w of
     (w', res) \<Rightarrow> (\<exists>cs. ew_Calls w' = ew_Calls w @ cs \<and> length cs \<le> 1
        \<and> list_all (\<lambda>(c, r). case c of CallCreateEscrow f p \<Rightarrow> sound_params p
                          \<and> f = HexToAddress (ee_L E) (ee_FactoryAddress E) | _ \<Rightarrow> False) cs)
      \<and> (case plan_create E i of Inl e \<Rightarrow> w' = w \<and> res = Inl e | Inr p \<Rightarrow> True)"
proof (cases "plan_create E i")
  case (Inl e)
  then show ?thesis by (simp add: CreateEscrow_def)
next
  case (Inr p)
  obtain w' res where r: "run_create E p PLookup w = (w', res)" by (cases "run_create E p PLookup w")
  obtain cs where cs: "ew_Calls w' = ew_Calls w @ cs" "create_calls p cs" using run_calls [OF r] by auto
  then have "list_all (\<lambda>(c, r). case c of CallCreateEscrow f p \<Rightarrow> sound_params p
                          \<and> f = HexToAddress (ee_L E) (ee_FactoryAddress E) | _ \<Rightarrow> False) cs"
    using plan_sound [OF Inr] by (auto simp: create_calls_def list_all_iff)
  then show ?thesis using cs r Inr by (auto simp: CreateEscrow_def create_calls_def)
qed

end
