(* ===== verification/DecompStore.thy ===== *)
theory DecompStore
  imports AttestStore "HOL-Library.Product_Lexorder"
begin

text \<open>
  The queries of \<open>internal/storage/queries.go\<close> on decompositions and their nodes, in the style of
  theory \<open>Storage\<close>: the CHECK constraints are those of the migrations 023 and 024, the foreign keys
  are those of the node table.
\<close>

section \<open>Decompositions\<close>

definition or_empty_list :: "string \<Rightarrow> string" where
  "or_empty_list s = (if s = [] then ''[]'' else s)"

definition decomposition_row :: "int \<Rightarrow> decomposition \<Rightarrow> db \<Rightarrow> decomposition" where
  "decomposition_row now dc d =
     dc\<lparr>dcp_ID := next_id dcp_ID (decompositions d),
        dcp_Status := (if blank (dcp_Status dc) then ''draft'' else TrimSpace (dcp_Status dc)),
        dcp_ValidationErrorsJSON := or_empty_list (TrimSpace (dcp_ValidationErrorsJSON dc)),
        dcp_RFQIDsJSON := or_empty_list (TrimSpace (dcp_RFQIDsJSON dc)),
        dcp_CreatedAt := now, dcp_UpdatedAt := now\<rparr>"

definition decomposition_statuses :: "string set" where
  "decomposition_statuses = {''draft'', ''valid'', ''finalized''}"

definition createDecompositionOn :: "int \<Rightarrow> decomposition \<Rightarrow> db \<Rightarrow> decomposition result" where
  "createDecompositionOn now dc d =
     (let row = decomposition_row now dc d in
      if \<not> json_valid (dcp_ValidationErrorsJSON row)
      then (d, Inl (errors_New ''invalid validation_errors_json''))
      else if \<not> json_valid (dcp_RFQIDsJSON row) then (d, Inl (errors_New ''invalid rfq_ids_json''))
      else if dcp_Status row \<notin> decomposition_statuses
      then (d, Inl (wrap ''insert decomposition'' (check_err ''status'')))
      else (d\<lparr>decompositions := row_add row (decompositions d)\<rparr>, Inr row))"

definition set_decomposition ::
    "int \<Rightarrow> string \<Rightarrow> string \<Rightarrow> string \<Rightarrow> decomposition \<Rightarrow> decomposition" where
  "set_decomposition now status validationErrorsJSON rfqIDsJSON dc =
     dc\<lparr>dcp_Status := status, dcp_ValidationErrorsJSON := or_empty_list validationErrorsJSON,
        dcp_RFQIDsJSON := or_empty_list rfqIDsJSON, dcp_UpdatedAt := now\<rparr>"

text \<open>The part the two updates share: the checks of the arguments and the UPDATE on the rows \<open>p\<close>.\<close>

definition update_decomposition ::
    "(decomposition \<Rightarrow> bool) \<Rightarrow> string \<Rightarrow> string \<Rightarrow> int \<Rightarrow> string \<Rightarrow> string \<Rightarrow> string \<Rightarrow> db \<Rightarrow> unit result" where
  "update_decomposition p what missing now status validationErrorsJSON rfqIDsJSON d =
     (if status = [] then (d, Inl (errors_New ''status is required''))
      else if \<not> json_valid (or_empty_list validationErrorsJSON)
      then (d, Inl (errors_New ''invalid validation_errors_json''))
      else if \<not> json_valid (or_empty_list rfqIDsJSON) then (d, Inl (errors_New ''invalid rfq_ids_json''))
      else if rows_affected p (decompositions d) = 0 then (d, Inl (wrap missing ErrNoRows))
      else if status \<notin> decomposition_statuses then (d, Inl (wrap what (check_err ''status'')))
      else (d\<lparr>decompositions := row_upd p (set_decomposition now status validationErrorsJSON rfqIDsJSON)
                (decompositions d)\<rparr>, Inr ()))"

definition updateDecompositionStatusOn ::
    "int \<Rightarrow> int \<Rightarrow> string \<Rightarrow> string \<Rightarrow> string \<Rightarrow> db \<Rightarrow> unit result" where
  "updateDecompositionStatusOn now i status validationErrorsJSON rfqIDsJSON d =
     update_decomposition (\<lambda>dc. dcp_ID dc = i) ''update decomposition status''
       (''update decomposition status id='' @ int_str i) now status validationErrorsJSON rfqIDsJSON d"

definition updateDecompositionStatusIfCurrentOn ::
    "int \<Rightarrow> int \<Rightarrow> string \<Rightarrow> string \<Rightarrow> string \<Rightarrow> string \<Rightarrow> db \<Rightarrow> unit result" where
  "updateDecompositionStatusIfCurrentOn now i expectedStatus status validationErrorsJSON rfqIDsJSON d =
     (if blank expectedStatus then (d, Inl (errors_New ''expectedStatus is required''))
      else update_decomposition (\<lambda>dc. dcp_ID dc = i \<and> dcp_Status dc = expectedStatus)
             ''update decomposition status conditionally''
             (''update decomposition status id='' @ int_str i @ '' expected_status='' @ expectedStatus)
             now status validationErrorsJSON rfqIDsJSON d)"

definition GetDecompositionRow :: "db \<Rightarrow> int \<Rightarrow> gerr + decomposition" where
  "GetDecompositionRow d i = found ''get decomposition'' (row_get dcp_ID (decompositions d) i)"

definition ListDecompositions :: "db \<Rightarrow> string \<Rightarrow> string \<Rightarrow> decomposition list" where
  "ListDecompositions d buyer status =
     rev (filter (\<lambda>dc. (blank buyer \<or> EqualFold (dcp_Buyer dc) (TrimSpace buyer))
                       \<and> (blank status \<or> dcp_Status dc = TrimSpace status)) (decompositions d))"

section \<open>Nodes\<close>

definition node_row :: "int \<Rightarrow> decomposition_node \<Rightarrow> db \<Rightarrow> decomposition_node" where
  "node_row now n d =
     n\<lparr>nd_ID := next_id nd_ID (decomposition_nodes d),
       nd_VerificationDetailsJSON := json_default (TrimSpace (nd_VerificationDetailsJSON n)), nd_CreatedAt := now\<rparr>"

definition verification_types :: "string set" where
  "verification_types = {[], ''optimistic'', ''quorum'', ''zk_proof'', ''unit_test''}"

definition delegate_preferences :: "string set" where
  "delegate_preferences = {[], ''human'', ''ai'', ''any''}"

definition createDecompositionNodeOn :: "int \<Rightarrow> decomposition_node \<Rightarrow> db \<Rightarrow> decomposition_node result" where
  "createDecompositionNodeOn now n d =
     (let row = node_row now n d in
      if \<not> json_valid (nd_VerificationDetailsJSON row)
      then (d, Inl (errors_New ''invalid verification_details_json''))
      else if nd_VerificationType n \<notin> verification_types
      then (d, Inl (wrap ''insert decomposition_node'' (check_err ''verification_type'')))
      else if nd_Depth n < 0 then (d, Inl (wrap ''insert decomposition_node'' (check_err ''depth'')))
      else if nd_DelegatePreference n \<notin> delegate_preferences
      then (d, Inl (wrap ''insert decomposition_node'' (check_err ''delegate_preference'')))
      else if row_get dcp_ID (decompositions d) (nd_DecompositionID n) = None
              \<or> (case nd_ParentNodeID n of None \<Rightarrow> False
                  | Some i \<Rightarrow> row_get nd_ID (decomposition_nodes d) i = None \<and> i \<noteq> nd_ID row)
              \<or> (case nd_RFQID n of None \<Rightarrow> False | Some i \<Rightarrow> row_get rfq_ID (rfqs d) i = None)
      then (d, Inl (wrap ''insert decomposition_node'' foreign_key_err))
      else (d\<lparr>decomposition_nodes := row_add row (decomposition_nodes d)\<rparr>, Inr row))"

definition ListDecompositionNodes :: "db \<Rightarrow> int \<Rightarrow> decomposition_node list" where
  "ListDecompositionNodes d decompositionID =
     sort_key (\<lambda>n. (nd_Depth n, nd_ID n))
       (filter (\<lambda>n. nd_DecompositionID n = decompositionID) (decomposition_nodes d))"

definition updateDecompositionNodeRFQOn :: "int \<Rightarrow> int \<Rightarrow> db \<Rightarrow> unit result" where
  "updateDecompositionNodeRFQOn nodeID rfqID d =
     (let p = (\<lambda>n. nd_ID n = nodeID \<and> nd_RFQID n = None) in
      if rows_affected p (decomposition_nodes d) = 0
      then (d, Inl (errors_New (''update decomposition_node rfq_id id='' @ int_str nodeID
                      @ '': already linked or not found'')))
      else if row_get rfq_ID (rfqs d) rfqID = None
      then (d, Inl (wrap ''update decomposition_node rfq_id'' foreign_key_err))
      else (d\<lparr>decomposition_nodes := row_upd p (\<lambda>n. n\<lparr>nd_RFQID := Some rfqID\<rparr>) (decomposition_nodes d)\<rparr>,
            Inr ()))"

section \<open>What a successful write is\<close>

lemma createDecompositionOn_ok:
  "createDecompositionOn now dc d = (d', Inr row) \<Longrightarrow>
     d' = d\<lparr>decompositions := row_add row (decompositions d)\<rparr> \<and> row = decomposition_row now dc d"
  by (auto simp: createDecompositionOn_def Let_def split: if_splits)

lemma update_decomposition_ok:
  "update_decomposition p what missing now status errs ids d = (d', Inr x) \<Longrightarrow>
     d' = d\<lparr>decompositions := row_upd p (set_decomposition now status errs ids) (decompositions d)\<rparr>
     \<and> (\<exists>dc \<in> set (decompositions d). p dc)"
  by (auto simp: update_decomposition_def rows_affected_0 split: if_splits)

lemma createDecompositionNodeOn_ok:
  "createDecompositionNodeOn now n d = (d', Inr row) \<Longrightarrow>
     d' = d\<lparr>decomposition_nodes := row_add row (decomposition_nodes d)\<rparr> \<and> row = node_row now n d"
  by (auto simp: createDecompositionNodeOn_def Let_def split: if_splits)

lemma updateDecompositionNodeRFQOn_ok:
  "updateDecompositionNodeRFQOn nodeID rfqID d = (d', Inr x) \<Longrightarrow>
     d' = d\<lparr>decomposition_nodes := row_upd (\<lambda>n. nd_ID n = nodeID \<and> nd_RFQID n = None)
              (\<lambda>n. n\<lparr>nd_RFQID := Some rfqID\<rparr>) (decomposition_nodes d)\<rparr>
     \<and> (\<exists>n \<in> set (decomposition_nodes d). nd_ID n = nodeID \<and> nd_RFQID n = None)"
  by (auto simp: updateDecompositionNodeRFQOn_def Let_def rows_affected_0 split: if_splits)

lemma set_ListDecompositionNodes:
  "set (ListDecompositionNodes d i) = {n \<in> set (decomposition_nodes d). nd_DecompositionID n = i}"
  by (auto simp: ListDecompositionNodes_def)

end
