(* ===== verification/Decomposition.thy ===== *)
theory Decomposition
  imports DecompStore Bidding
begin

text \<open>
  \<open>internal/decomposition/decomposition.go\<close>: a buyer proposes sub-tasks that name their parents by
  temporary ids; the service stores them as a forest of nodes, reports what keeps its leaves from
  being settled, and turns a valid decomposition into one RFQ per leaf. \<open>decomp_env\<close> holds what an
  operation reads besides the database: the clock, the text \<open>encoding/json\<close> and \<open>fmt\<close> write for a
  float64, and the environment of the bidding service, which may be absent. Where the code iterates
  over a Go map (the check for unknown parents), the model takes the order of the request.
\<close>

record decomp_env =
  de_Now :: int
  de_FloatText :: "string \<Rightarrow> string option"
  de_FloatFmt :: "string \<Rightarrow> string"
  de_Bidding :: "bid_env option"

record sub_task =
  st_TempID :: string
  st_ParentTempID :: string
  st_Title :: string
  st_Description :: string
  st_VerificationType :: string
  st_DelegatePreference :: string
  st_VerificationDetails :: "(string \<times> json) list option"
  st_RequiresFurtherDecomposition :: bool

record structural_issue =
  si_NodeID :: int
  si_TempID :: string
  si_Title :: string
  si_Reason :: string

record market_context =
  mc_NodeID :: int
  mc_TempID :: string
  mc_VerificationType :: string
  mc_MarketDepth :: nat
  mc_VerifierCount :: nat
  mc_Signal :: string
  mc_Evidence :: string

record decomp_params =
  dpp_Buyer :: string
  dpp_Title :: string
  dpp_Description :: string
  dpp_SpecHash :: string
  dpp_SubTasks :: "sub_task list"

record decomp_result =
  dr_Decomposition :: decomposition
  dr_Nodes :: "decomposition_node list"
  dr_Issues :: "structural_issue list"
  dr_MarketContext :: "market_context list"
  dr_Valid :: bool

record finalize_params =
  fip_DecompositionID :: int
  fip_Buyer :: string
  fip_Token :: string
  fip_Deadline :: int
  fip_ReviewPeriodSeconds :: int
  fip_DisputePeriodSeconds :: int
  fip_ArbitratorTimeoutSeconds :: int
  fip_Arbitrator :: string
  fip_VerifierPanel :: "string list"
  fip_QuorumCount :: int
  fip_BudgetMin :: string
  fip_BudgetMax :: string
  fip_CommitDeadline :: int
  fip_RevealDeadline :: int
  fip_ExpiresAt :: int

section \<open>Checking the sub-tasks\<close>

definition child_count :: "sub_task list \<Rightarrow> string \<Rightarrow> nat" where
  "child_count subs t = length (filter (\<lambda>s. t \<noteq> [] \<and> TrimSpace (st_ParentTempID s) = t) subs)"

definition normalize_subtask :: "sub_task \<Rightarrow> sub_task" where
  "normalize_subtask s =
     s\<lparr>st_TempID := TrimSpace (st_TempID s), st_ParentTempID := TrimSpace (st_ParentTempID s),
       st_VerificationType := TrimSpace (st_VerificationType s),
       st_DelegatePreference := ToLower (TrimSpace (st_DelegatePreference s))\<rparr>"

definition check_subtask :: "sub_task list \<Rightarrow> nat \<Rightarrow> string list \<Rightarrow> sub_task \<Rightarrow> gerr option" where
  "check_subtask subs i seen s =
     (let at = ''sub_tasks['' @ nat_str i @ '']'' in
      if st_TempID s = [] then Some (errors_New (at @ ''.temp_id is required''))
      else if st_TempID s \<in> set seen then Some (errors_New (''duplicate temp_id '' @ Quote (st_TempID s)))
      else if st_VerificationType s \<notin> verification_types
      then Some (errors_New (at @ '' has unsupported verification_type '' @ Quote (st_VerificationType s)))
      else if st_DelegatePreference s \<notin> delegate_preferences
      then Some (errors_New (at @ '' has unsupported delegate_preference '' @ Quote (st_DelegatePreference s)))
      else if st_DelegatePreference s \<noteq> [] \<and> child_count subs (st_TempID s) > 0
      then Some (errors_New (at @ '' non-empty delegate_preference only allowed on leaf nodes''))
      else None)"

fun normalize_subtasks ::
    "sub_task list \<Rightarrow> nat \<Rightarrow> string list \<Rightarrow> sub_task list \<Rightarrow> gerr + sub_task list" where
  "normalize_subtasks subs i seen [] = Inr []"
| "normalize_subtasks subs i seen (s # ss) =
     (let n = normalize_subtask s in
      case check_subtask subs i seen n of
        Some e \<Rightarrow> Inl e
      | None \<Rightarrow>
          (case normalize_subtasks subs (Suc i) (seen @ [st_TempID n]) ss of
             Inl e \<Rightarrow> Inl e
           | Inr ns \<Rightarrow> Inr (n # ns)))"

definition unknown_parent :: "sub_task list \<Rightarrow> gerr option" where
  "unknown_parent ns =
     (case find (\<lambda>n. st_ParentTempID n \<noteq> [] \<and> st_ParentTempID n \<notin> st_TempID ` set ns) ns of
        None \<Rightarrow> None
      | Some n \<Rightarrow> Some (errors_New (''sub_task '' @ Quote (st_TempID n) @ '' references unknown parent_temp_id ''
                          @ Quote (st_ParentTempID n))))"

definition check_subtasks :: "decomp_params \<Rightarrow> gerr + sub_task list" where
  "check_subtasks p =
     (if blank (dpp_Buyer p) then Inl (errors_New ''buyer is required'')
      else if blank (dpp_Title p) then Inl (errors_New ''title is required'')
      else if dpp_SubTasks p = [] then Inl (errors_New ''sub_tasks is required'')
      else case normalize_subtasks (dpp_SubTasks p) 0 [] (dpp_SubTasks p) of
        Inl e \<Rightarrow> Inl e
      | Inr ns \<Rightarrow> (case unknown_parent ns of Some e \<Rightarrow> Inl e | None \<Rightarrow> Inr ns))"

section \<open>Placing the nodes\<close>

text \<open>\<open>nodeByTempID\<close>, in the order in which the nodes were created.\<close>

type_synonym placed = "(string \<times> decomposition_node) list"

text \<open>The parent node and the depth of a sub-task, once its parent has been placed.\<close>

definition ready_parent :: "placed \<Rightarrow> sub_task \<Rightarrow> (int option \<times> int) option" where
  "ready_parent pl s =
     (if st_ParentTempID s = [] then Some (None, 0)
      else case map_of pl (st_ParentTempID s) of
        None \<Rightarrow> None
      | Some n \<Rightarrow> Some (Some (nd_ID n), nd_Depth n + 1))"

definition marshal_err :: gerr where
  "marshal_err = Sentinel ''json.UnsupportedValueError'' ''json: unsupported value''"

definition details_json :: "(string \<Rightarrow> string option) \<Rightarrow> sub_task \<Rightarrow> gerr + string" where
  "details_json F s =
     (case st_VerificationDetails s of
        None \<Rightarrow> Inr ''{}''
      | Some kvs \<Rightarrow>
          (case go_any F (JObj kvs) of
             None \<Rightarrow> Inl (wrap (''marshal verification_details for temp_id '' @ Quote (st_TempID s)) marshal_err)
           | Some v \<Rightarrow> Inr (render v)))"

definition node_of :: "int \<Rightarrow> int option \<Rightarrow> int \<Rightarrow> string \<Rightarrow> sub_task \<Rightarrow> decomposition_node" where
  "node_of did parent depth details s =
     \<lparr>nd_ID = 0, nd_DecompositionID = did, nd_ParentNodeID = parent, nd_Title = st_Title s,
      nd_Description = st_Description s, nd_VerificationType = st_VerificationType s,
      nd_DelegatePreference = st_DelegatePreference s, nd_VerificationDetailsJSON = details,
      nd_Depth = depth, nd_RequiresFurtherDecomposition = st_RequiresFurtherDecomposition s,
      nd_RFQID = None, nd_CreatedAt = 0\<rparr>"

text \<open>One pass over the sub-tasks that are left; those whose parent is not placed yet stay.\<close>

fun place_round :: "decomp_env \<Rightarrow> int \<Rightarrow> placed \<Rightarrow> sub_task list \<Rightarrow> db \<Rightarrow> (placed \<times> sub_task list) result" where
  "place_round E did pl [] d = (d, Inr (pl, []))"
| "place_round E did pl (s # ss) d =
     (case ready_parent pl s of
        None \<Rightarrow> andThen (place_round E did pl ss d) (\<lambda>d' r. (d', Inr (fst r, s # snd r)))
      | Some (parent, depth) \<Rightarrow>
          orFail d id (details_json (de_FloatText E) s) (\<lambda>details.
          andThen (createDecompositionNodeOn (de_Now E) (node_of did parent depth details s) d) (\<lambda>d' n.
            place_round E did (pl @ [(st_TempID s, n)]) ss d')))"

definition cycle_err :: gerr where
  "cycle_err = errors_New ''unable to resolve parent linkage (cycle detected)''"

function place_all :: "decomp_env \<Rightarrow> int \<Rightarrow> placed \<Rightarrow> sub_task list \<Rightarrow> db \<Rightarrow> placed result" where
  "place_all E did pl ss d =
     (if ss = [] then (d, Inr pl)
      else case place_round E did pl ss d of
        (d', Inl e) \<Rightarrow> (d', Inl e)
      | (d', Inr (pl', rest)) \<Rightarrow>
          if length rest < length ss then place_all E did pl' rest d' else (d', Inl cycle_err))"
  by pat_completeness auto
termination by (relation "measure (\<lambda>(E, did, pl, ss, d). length ss)") auto

declare place_all.simps [simp del]

section \<open>Leaves and their issues\<close>

definition leafNodes :: "decomposition_node list \<Rightarrow> decomposition_node list" where
  "leafNodes nodes = filter (\<lambda>n. Some (nd_ID n) \<notin> nd_ParentNodeID ` set nodes) nodes"

text \<open>\<open>fmt.Sprintf("%v", v)\<close> on a decoded JSON value.\<close>

fun sprint_v :: "(string \<Rightarrow> string) \<Rightarrow> json \<Rightarrow> string" where
  "sprint_v G JNull = ''<nil>''"
| "sprint_v G (JBool b) = (if b then ''true'' else ''false'')"
| "sprint_v G (JNum s) = G s"
| "sprint_v G (JStr s) = s"
| "sprint_v G (JArr vs) = ''['' @ Join (map (sprint_v G) vs) '' '' @ '']''"
| "sprint_v G (JObj kvs) = ''map['' @ Join (map (\<lambda>(k, v). k @ '':'' @ sprint_v G v) kvs) '' '' @ '']''"

definition parseVerificationDetails :: "decomp_env \<Rightarrow> string \<Rightarrow> gerr + (string \<times> string) list" where
  "parseVerificationDetails E raw =
     (if blank raw then Inr []
      else case unmarshal_map (de_FloatText E) raw of
        None \<Rightarrow> Inl (wrap ''invalid verification_details_json'' json_err)
      | Some kvs \<Rightarrow> Inr (map (\<lambda>(k, v). (k, sprint_v (de_FloatFmt E) v)) kvs))"

definition detail_text :: "(string \<times> string) list \<Rightarrow> string \<Rightarrow> string" where
  "detail_text kvs k = (case map_of kvs k of None \<Rightarrow> [] | Some s \<Rightarrow> TrimSpace s)"

definition lacks_circuit :: "decomp_env \<Rightarrow> decomposition_node \<Rightarrow> bool" where
  "lacks_circuit E n =
     (case parseVerificationDetails E (nd_VerificationDetailsJSON n) of
        Inl e \<Rightarrow> True
      | Inr kvs \<Rightarrow> detail_text kvs ''circuit_id'' = [])"

definition temp_id_of :: "placed \<Rightarrow> int \<Rightarrow> string" where
  "temp_id_of pl i = (case find (\<lambda>(t, n). nd_ID n = i) pl of None \<Rightarrow> [] | Some (t, n) \<Rightarrow> t)"

definition leaf_reasons :: "decomp_env \<Rightarrow> decomposition_node \<Rightarrow> string list" where
  "leaf_reasons E n =
     (if nd_VerificationType n = [] then [''verification_type required for leaf nodes''] else [])
     @ (if nd_RequiresFurtherDecomposition n then [''node flagged as requiring further decomposition''] else [])
     @ (if nd_VerificationType n = ''zk_proof'' \<and> lacks_circuit E n
        then [''zk_proof requires circuit_id in verification_details''] else [])"

definition validateLeafNodes :: "decomp_env \<Rightarrow> placed \<Rightarrow> structural_issue list" where
  "validateLeafNodes E pl =
     concat (map (\<lambda>n. map (\<lambda>reason. \<lparr>si_NodeID = nd_ID n, si_TempID = temp_id_of pl (nd_ID n),
                                     si_Title = nd_Title n, si_Reason = reason\<rparr>) (leaf_reasons E n))
                (leafNodes (map snd pl)))"

definition issue_json :: "structural_issue \<Rightarrow> json" where
  "issue_json i =
     JObj [(''node_id'', JNum (int_str (si_NodeID i))), (''temp_id'', JStr (si_TempID i)),
           (''title'', JStr (si_Title i)), (''reason'', JStr (si_Reason i))]"

section \<open>Market context\<close>

definition count_where :: "('r \<Rightarrow> bool) \<Rightarrow> 'r list \<Rightarrow> nat" where
  "count_where p rows = length (filter p rows)"

definition marketDepthByVerificationType :: "db \<Rightarrow> string \<Rightarrow> nat" where
  "marketDepthByVerificationType d verificationType =
     (let settled = (\<lambda>e. ToLower (esc_Status e) = ''settled'') in
      if verificationType = ''zk_proof''
      then count_where (\<lambda>e. settled e \<and> ToLower (esc_ZKVerifier e) \<noteq> ToLower zero_address) (escrows d)
      else if verificationType = ''quorum''
      then count_where (\<lambda>e. settled e \<and> esc_VerifierPanelJSON e \<noteq> ''[]'') (escrows d)
      else if verificationType = ''optimistic'' \<or> verificationType = ''unit_test''
      then count_where (\<lambda>e. settled e \<and> esc_ServiceTier e = 0) (escrows d)
      else 0)"

definition verifierPoolCount :: "db \<Rightarrow> nat" where
  "verifierPoolCount d =
     length (remdups (map (\<lambda>r. ToLower (rep_Address r))
       (filter (\<lambda>r. rep_Role r = ''worker'' \<and> rep_Completed r > 0) (reputations d))))"

definition marketEvidence :: "string \<Rightarrow> nat \<Rightarrow> nat \<Rightarrow> string" where
  "marketEvidence verificationType marketDepth verifierCount =
     (if verificationType = ''zk_proof'' then
        (if marketDepth = 0 then ''no settled escrows with ZK verification found - you may be the first''
         else nat_str marketDepth @ '' settled escrows with ZK verification found'')
      else if verificationType = ''quorum'' then
        (if marketDepth = 0 \<and> verifierCount = 0
         then ''no settled quorum escrows found and no verifier history available''
         else if marketDepth = 0 then ''no settled escrows with quorum verification found''
         else if verifierCount = 0
         then nat_str marketDepth @ '' settled quorum escrows found, but no verifier history available''
         else nat_str marketDepth @ '' settled quorum escrows found with '' @ nat_str verifierCount @ '' active verifiers'')
      else if verificationType = ''unit_test'' then
        (if marketDepth = 0 then ''no settled unit_test escrows observed yet''
         else nat_str marketDepth @ '' settled tier-0 escrows provide analogous unit_test market signal'')
      else if verificationType = ''optimistic'' then
        (if marketDepth = 0 then ''no settled optimistic escrows observed yet''
         else nat_str marketDepth @ '' settled optimistic escrows found'')
      else ''market context unavailable for this verification type'')"

definition marketContextForLeaf :: "db \<Rightarrow> placed \<Rightarrow> decomposition_node \<Rightarrow> market_context" where
  "marketContextForLeaf d pl n =
     (let verificationType = TrimSpace (nd_VerificationType n);
          marketDepth = marketDepthByVerificationType d verificationType;
          verifierCount = verifierPoolCount d
      in \<lparr>mc_NodeID = nd_ID n, mc_TempID = temp_id_of pl (nd_ID n), mc_VerificationType = verificationType,
          mc_MarketDepth = marketDepth, mc_VerifierCount = verifierCount,
          mc_Signal = (if marketDepth > 5 then ''proven'' else if marketDepth \<ge> 1 then ''emerging'' else ''untested''),
          mc_Evidence = marketEvidence verificationType marketDepth verifierCount\<rparr>)"

section \<open>Creating a decomposition\<close>

definition GetDecomposition :: "db \<Rightarrow> int \<Rightarrow> gerr + (decomposition \<times> decomposition_node list)" where
  "GetDecomposition d i =
     (case GetDecompositionRow d i of Inl e \<Rightarrow> Inl e | Inr dc \<Rightarrow> Inr (dc, ListDecompositionNodes d i))"

definition new_decomposition :: "decomp_params \<Rightarrow> decomposition" where
  "new_decomposition p =
     \<lparr>dcp_ID = 0, dcp_Buyer = dpp_Buyer p, dcp_Title = dpp_Title p, dcp_Description = dpp_Description p,
      dcp_SpecHash = dpp_SpecHash p, dcp_Status = ''draft'', dcp_ValidationErrorsJSON = ''[]'',
      dcp_RFQIDsJSON = ''[]'', dcp_CreatedAt = 0, dcp_UpdatedAt = 0\<rparr>"

text \<open>The transaction: the decomposition, its nodes, its status.\<close>

definition create_tx ::
    "decomp_env \<Rightarrow> decomp_params \<Rightarrow> sub_task list \<Rightarrow> db \<Rightarrow> (int \<times> placed) result" where
  "create_tx E p ns d =
     andThen (createDecompositionOn (de_Now E) (new_decomposition p) d) (\<lambda>d1 dc.
     andThen (place_all E (dcp_ID dc) [] ns d1) (\<lambda>d2 pl.
       let issues = validateLeafNodes E pl in
       andThen (updateDecompositionStatusOn (de_Now E) (dcp_ID dc) (if issues = [] then ''valid'' else ''draft'')
                  (render (JArr (map issue_json issues))) ''[]'' d2) (\<lambda>d3 _.
         (d3, Inr (dcp_ID dc, pl)))))"

definition CreateDecomposition :: "decomp_env \<Rightarrow> decomp_params \<Rightarrow> db \<Rightarrow> decomp_result result" where
  "CreateDecomposition E p d =
     orFail d id (check_subtasks p) (\<lambda>ns.
     andThen (in_tx d (create_tx E p ns d)) (\<lambda>d1 (i, pl).
     orFail d1 (wrap (''decomposition '' @ int_str i @ '' created but subsequent read failed''))
       (GetDecomposition d1 i) (\<lambda>(dc, nodes).
       let issues = validateLeafNodes E pl in
       (d1, Inr \<lparr>dr_Decomposition = dc, dr_Nodes = nodes, dr_Issues = issues,
                 dr_MarketContext = sort_key mc_NodeID (map (marketContextForLeaf d1 pl) (leafNodes nodes)),
                 dr_Valid = (issues = [])\<rparr>))))"

section \<open>Finalizing a decomposition\<close>

definition normalizeToken :: "string \<Rightarrow> string" where
  "normalizeToken token =
     (let t = TrimSpace token in if t = [] \<or> EqualFold t zero_address then [] else t)"

definition panel_types :: "string set" where
  "panel_types = {''quorum'', ''zk_proof''}"

definition leaf_requirements ::
    "decomp_env \<Rightarrow> finalize_params \<Rightarrow> decomposition_node \<Rightarrow> string \<Rightarrow> gerr + (string \<times> json) list" where
  "leaf_requirements E p n verificationType =
     (let base = (''verification_type'', JStr verificationType) in
      if verificationType = ''optimistic'' then Inr [base]
      else if verificationType = ''unit_test''
      then Inr [base, (''required_artifacts'', JArr [JStr ''unit_test_log''])]
      else if verificationType = ''quorum'' then
        (if fip_QuorumCount p \<le> 0
         then Inl (errors_New ''quorum_count must be > 0 for quorum verification_type'')
         else if fip_QuorumCount p > int (length (fip_VerifierPanel p))
         then Inl (errors_New ''quorum_count must be <= verifier_panel size'')
         else Inr [base, (''verifier_panel'', JArr (map JStr (fip_VerifierPanel p))),
                   (''quorum_count'', JNum (int_str (fip_QuorumCount p)))])
      else if verificationType = ''zk_proof'' then
        (case parseVerificationDetails E (nd_VerificationDetailsJSON n) of
           Inl e \<Rightarrow> Inl e
         | Inr details \<Rightarrow>
             let circuitID = detail_text details ''circuit_id'';
                 zkVerifier = detail_text details ''zk_verifier'' in
             if circuitID = []
             then Inl (errors_New (''leaf node '' @ int_str (nd_ID n) @ '' zk_proof requires circuit_id''))
             else Inr (base # (if zkVerifier \<noteq> [] then [(''zk_verifier'', JStr zkVerifier)] else [])
                       @ [(''circuit_id'', JStr circuitID)]))
      else Inl (errors_New (''unsupported verification_type '' @ Quote verificationType)))"

definition buildRFQParamsForLeaf ::
    "decomp_env \<Rightarrow> finalize_params \<Rightarrow> decomposition_node \<Rightarrow> gerr + create_rfq_params" where
  "buildRFQParamsForLeaf E p n =
     (let verificationType = TrimSpace (nd_VerificationType n) in
      if verificationType = []
      then Inl (errors_New (''leaf node '' @ int_str (nd_ID n) @ '' missing verification_type''))
      else if verificationType \<in> panel_types \<and> fip_VerifierPanel p = []
      then Inl (errors_New (''verification_type '' @ verificationType @ '' requires verifier_panel''))
      else case leaf_requirements E p n verificationType of
        Inl e \<Rightarrow> Inl e
      | Inr requirements \<Rightarrow>
          Inr \<lparr>crp_Title = nd_Title n, crp_Description = nd_Description n, crp_Buyer = fip_Buyer p,
               crp_Token = normalizeToken (fip_Token p), crp_BudgetMin = fip_BudgetMin p,
               crp_BudgetMax = fip_BudgetMax p, crp_Deadline = fip_Deadline p,
               crp_ReviewPeriodSeconds = fip_ReviewPeriodSeconds p,
               crp_DisputePeriodSeconds = fip_DisputePeriodSeconds p,
               crp_ArbitratorTimeoutSeconds = fip_ArbitratorTimeoutSeconds p,
               crp_Verifier = (if verificationType \<in> panel_types then hd (fip_VerifierPanel p) else []),
               crp_Arbitrator = fip_Arbitrator p, crp_WorkerStake = ''0'', crp_MilestonesJSON = ''[]'',
               crp_RequirementsJSON = render (JObj (go_map requirements)),
               crp_RequiredCredentialsJSON = ''[]'', crp_RequiredProofProtocol = [],
               crp_ServiceTier = (if verificationType \<in> panel_types then 1 else 0),
               crp_BiddingMode = (if verificationType \<in> panel_types then ''sealed'' else ''open''),
               crp_CommitDeadline = fip_CommitDeadline p, crp_RevealDeadline = fip_RevealDeadline p,
               crp_ExpiresAt = fip_ExpiresAt p, crp_ParentEscrowID = None\<rparr>)"

text \<open>What is read and checked before the transaction begins: the decomposition, and its leaves by
  depth, each with the parameters of its RFQ.\<close>

fun leaf_params ::
    "decomp_env \<Rightarrow> finalize_params \<Rightarrow> decomposition_node list \<Rightarrow> gerr + (decomposition_node \<times> create_rfq_params) list" where
  "leaf_params E p [] = Inr []"
| "leaf_params E p (n # ns) =
     (case buildRFQParamsForLeaf E p n of
        Inl e \<Rightarrow> Inl e
      | Inr c \<Rightarrow> (case leaf_params E p ns of Inl e \<Rightarrow> Inl e | Inr cs \<Rightarrow> Inr ((n, c) # cs)))"

definition sorted_leaves :: "decomposition_node list \<Rightarrow> decomposition_node list" where
  "sorted_leaves nodes = sort_key (\<lambda>n. (nd_Depth n, nd_ID n)) (leafNodes nodes)"

record finalize_plan =
  fpl_Bidding :: bid_env
  fpl_Decomposition :: decomposition
  fpl_Leaves :: "(decomposition_node \<times> create_rfq_params) list"

definition not_valid_err :: gerr where
  "not_valid_err = errors_New ''decomposition must be valid before finalization''"

definition plan_finalize :: "decomp_env \<Rightarrow> finalize_params \<Rightarrow> db \<Rightarrow> gerr + finalize_plan" where
  "plan_finalize E p d =
     (case de_Bidding E of
        None \<Rightarrow> Inl (errors_New ''bidding service is required'')
      | Some B \<Rightarrow>
          (case GetDecomposition d (fip_DecompositionID p) of
             Inl e \<Rightarrow> Inl e
           | Inr (dc, nodes) \<Rightarrow>
               if dcp_Status dc \<noteq> ''valid'' then Inl not_valid_err
               else if blank (fip_Buyer p) then Inl (errors_New ''buyer is required'')
               else if \<not> EqualFold (dcp_Buyer dc) (fip_Buyer p)
               then Inl (errors_New ''buyer does not match decomposition buyer'')
               else if leafNodes nodes = [] then Inl (errors_New ''decomposition has no leaf nodes'')
               else (case leaf_params E p (sorted_leaves nodes) of
                       Inl e \<Rightarrow> Inl e
                     | Inr leaves \<Rightarrow>
                         Inr \<lparr>fpl_Bidding = B, fpl_Decomposition = dc, fpl_Leaves = leaves\<rparr>)))"

fun create_rfqs :: "bid_env \<Rightarrow> (decomposition_node \<times> create_rfq_params) list \<Rightarrow> db \<Rightarrow> int list result" where
  "create_rfqs B [] d = (d, Inr [])"
| "create_rfqs B ((n, c) # ls) d =
     andThen (CreateRFQTx B c d) (\<lambda>d1 r.
     andThen (updateDecompositionNodeRFQOn (nd_ID n) (rfq_ID r) d1) (\<lambda>d2 _.
     andThen (create_rfqs B ls d2) (\<lambda>d3 ids. (d3, Inr (rfq_ID r # ids)))))"

definition ids_json :: "int list \<Rightarrow> string" where
  "ids_json ids = render (JArr (map (\<lambda>i. JNum (int_str i)) ids))"

text \<open>The transaction, which may find another database than the one the plan was made on.\<close>

definition finalize_tx :: "decomp_env \<Rightarrow> finalize_plan \<Rightarrow> db \<Rightarrow> int list result" where
  "finalize_tx E f d =
     (let dc = fpl_Decomposition f in
      andThen (mapErr (\<lambda>e. if errors_is e ErrNoRows then not_valid_err else e)
                 (updateDecompositionStatusIfCurrentOn (de_Now E) (dcp_ID dc) ''valid'' ''finalized''
                    (dcp_ValidationErrorsJSON dc) ''[]'' d)) (\<lambda>d1 _.
      andThen (create_rfqs (fpl_Bidding f) (fpl_Leaves f) d1) (\<lambda>d2 ids.
      andThen (updateDecompositionStatusIfCurrentOn (de_Now E) (dcp_ID dc) ''finalized'' ''finalized''
                 (dcp_ValidationErrorsJSON dc) (ids_json ids) d2) (\<lambda>d3 _.
        (d3, Inr ids)))))"

definition commit_finalize ::
    "decomp_env \<Rightarrow> finalize_plan \<Rightarrow> db \<Rightarrow> (decomposition \<times> int list) result" where
  "commit_finalize E f d =
     andThen (in_tx d (finalize_tx E f d)) (\<lambda>d1 ids.
       let i = dcp_ID (fpl_Decomposition f) in
       orFail d1 (wrap (''decomposition '' @ int_str i @ '' committed but subsequent read failed''))
         (GetDecompositionRow d1 i) (\<lambda>dc. (d1, Inr (dc, ids))))"

definition FinalizeDecomposition ::
    "decomp_env \<Rightarrow> finalize_params \<Rightarrow> db \<Rightarrow> (decomposition \<times> int list) result" where
  "FinalizeDecomposition E p d = orFail d id (plan_finalize E p d) (\<lambda>f. commit_finalize E f d)"

end
