(* ===== verification/DecompProps.thy ===== *)
theory DecompProps
  imports Decomposition
begin

text \<open>
  What holds of decompositions: the stored nodes are the forest the request describes, a request is
  refused for a cycle exactly when its parent links have one, and a decomposition is finalized at
  most once, with one RFQ for each leaf.
\<close>

section \<open>The forest of a request\<close>

text \<open>The node \<open>n\<close> is the sub-task \<open>s\<close>, linked to the node of its parent.\<close>

definition mirrors_node :: "decomp_env \<Rightarrow> int \<Rightarrow> placed \<Rightarrow> sub_task \<Rightarrow> decomposition_node \<Rightarrow> bool" where
  "mirrors_node E did pl s n \<longleftrightarrow>
     nd_DecompositionID n = did \<and> nd_Title n = st_Title s \<and> nd_Description n = st_Description s
     \<and> nd_VerificationType n = st_VerificationType s \<and> nd_DelegatePreference n = st_DelegatePreference s
     \<and> nd_RequiresFurtherDecomposition n = st_RequiresFurtherDecomposition s \<and> nd_RFQID n = None
     \<and> (\<exists>raw. details_json (de_FloatText E) s = Inr raw
              \<and> nd_VerificationDetailsJSON n = json_default (TrimSpace raw))
     \<and> (if st_ParentTempID s = [] then nd_ParentNodeID n = None \<and> nd_Depth n = 0
        else \<exists>q. map_of pl (st_ParentTempID s) = Some q \<and> nd_ParentNodeID n = Some (nd_ID q)
                 \<and> nd_Depth n = nd_Depth q + 1)"

text \<open>Every sub-task has one node, and no node is without a sub-task.\<close>

definition mirrors :: "decomp_env \<Rightarrow> int \<Rightarrow> sub_task list \<Rightarrow> placed \<Rightarrow> bool" where
  "mirrors E did ns pl \<longleftrightarrow>
     distinct (map fst pl) \<and> distinct (map (nd_ID \<circ> snd) pl)
     \<and> set (map fst pl) = set (map st_TempID ns)
     \<and> list_all (\<lambda>s. \<exists>n. map_of pl (st_TempID s) = Some n \<and> mirrors_node E did pl s n) ns"

definition parent_rel :: "sub_task list \<Rightarrow> (string \<times> string) set" where
  "parent_rel ns = {(st_TempID s, st_ParentTempID s) | s. s \<in> set ns \<and> st_ParentTempID s \<noteq> []}"

definition with_nodes :: "db \<Rightarrow> placed \<Rightarrow> db" where
  "with_nodes d pl = d\<lparr>decomposition_nodes := decomposition_nodes d @ map snd pl\<rparr>"

lemma with_nodes_sel [simp]:
  "with_nodes d [] = d"
  "decompositions (with_nodes d pl) = decompositions d"
  "decomposition_nodes (with_nodes d pl) = decomposition_nodes d @ map snd pl"
  by (simp_all add: with_nodes_def)

text \<open>What has been placed so far mirrors its part of the request.\<close>

definition placing :: "decomp_env \<Rightarrow> int \<Rightarrow> sub_task list \<Rightarrow> db \<Rightarrow> placed \<Rightarrow> db \<Rightarrow> bool" where
  "placing E did ns d0 pl d \<longleftrightarrow>
     d = with_nodes d0 pl \<and> distinct (map fst pl) \<and> distinct (map (nd_ID \<circ> snd) pl)
     \<and> (\<forall>x \<in> set pl. \<exists>s \<in> set ns. st_TempID s = fst x \<and> mirrors_node E did pl s (snd x) \<and> 0 \<le> nd_Depth (snd x))"

lemma mirrors_node_append:
  "mirrors_node E did pl s n \<Longrightarrow> mirrors_node E did (pl @ xs) s n"
  by (auto simp: mirrors_node_def map_add_def split: if_splits)

lemma ready_parent_iff:
  "ready_parent pl s = Some (parent, depth) \<longleftrightarrow>
     (if st_ParentTempID s = [] then parent = None \<and> depth = 0
      else \<exists>q. map_of pl (st_ParentTempID s) = Some q \<and> parent = Some (nd_ID q) \<and> depth = nd_Depth q + 1)"
  by (auto simp: ready_parent_def split: option.splits)

lemma ready_parent_None:
  "ready_parent pl s = None \<longleftrightarrow> st_ParentTempID s \<noteq> [] \<and> st_ParentTempID s \<notin> fst ` set pl"
  using map_of_eq_None_iff [of pl "st_ParentTempID s"] by (auto simp: ready_parent_def split: option.splits)

lemma node_row_sel [simp]:
  "nd_ID (node_row now n d) = next_id nd_ID (decomposition_nodes d)"
  by (simp add: node_row_def)

lemma place_one:
  assumes "placing E did ns d0 pl d" and "s \<in> set ns" and "st_TempID s \<notin> fst ` set pl"
    and "ready_parent pl s = Some (parent, depth)" and "details_json (de_FloatText E) s = Inr raw"
    and "createDecompositionNodeOn (de_Now E) (node_of did parent depth raw s) d = (d', Inr n)"
  shows "placing E did ns d0 (pl @ [(st_TempID s, n)]) d'"
proof -
  from createDecompositionNodeOn_ok [OF assms(6)]
  have d': "d' = d\<lparr>decomposition_nodes := row_add n (decomposition_nodes d)\<rparr>"
    and n: "n = node_row (de_Now E) (node_of did parent depth raw s) d" by auto
  have fresh: "nd_ID n \<notin> nd_ID ` snd ` set pl"
    using next_id_above [of _ "decomposition_nodes d" nd_ID] assms(1) by (force simp: n placing_def)
  have depth: "0 \<le> depth"
    using assms(1, 4) by (fastforce simp: ready_parent_iff placing_def dest: map_of_SomeD split: if_splits)
  have "mirrors_node E did pl s n"
    using assms(4, 5) unfolding n mirrors_node_def ready_parent_iff
    by (auto simp: node_row_def node_of_def split: if_splits)
  then have "mirrors_node E did (pl @ [(st_TempID s, n)]) s n" by (rule mirrors_node_append)
  moreover have "nd_Depth n = depth" by (simp add: n node_row_def node_of_def)
  moreover have "d' = with_nodes d0 (pl @ [(st_TempID s, n)])"
    using assms(1) by (simp add: d' placing_def with_nodes_def row_add_def)
  ultimately show ?thesis
    using assms(1, 2, 3) fresh depth unfolding placing_def
    by (auto 0 3 simp: image_image intro: mirrors_node_append)
qed

text \<open>One pass: what it places, what it leaves.\<close>

lemma place_round_ok:
  "place_round E did pl ss d = (d', Inr (pl', rest)) \<Longrightarrow> placing E did ns d0 pl d \<Longrightarrow>
     set ss \<subseteq> set ns \<Longrightarrow> distinct (map fst pl @ map st_TempID ss) \<Longrightarrow>
     placing E did ns d0 pl' d' \<and> distinct (map fst pl' @ map st_TempID rest) \<and> set rest \<subseteq> set ss
     \<and> fst ` set pl' \<union> st_TempID ` set rest = fst ` set pl \<union> st_TempID ` set ss"
proof (induction ss arbitrary: pl d d' pl' rest)
  case (Cons s ss)
  show ?case
  proof (cases "ready_parent pl s")
    case None
    with Cons.prems obtain rest0 where "place_round E did pl ss d = (d', Inr (pl', rest0))" "rest = s # rest0"
      by (auto simp: err_iff)
    moreover from this have "placing E did ns d0 pl' d' \<and> distinct (map fst pl' @ map st_TempID rest0)
        \<and> set rest0 \<subseteq> set ss \<and> fst ` set pl' \<union> st_TempID ` set rest0 = fst ` set pl \<union> st_TempID ` set ss"
      using Cons.prems by (intro Cons.IH) auto
    ultimately show ?thesis using Cons.prems by auto
  next
    case (Some pd)
    with Cons.prems obtain raw d1 n where
      raw: "details_json (de_FloatText E) s = Inr raw"
      and n: "createDecompositionNodeOn (de_Now E) (node_of did (fst pd) (snd pd) raw s) d = (d1, Inr n)"
      and rec: "place_round E did (pl @ [(st_TempID s, n)]) ss d1 = (d', Inr (pl', rest))"
      by (auto simp: err_iff split: prod.splits)
    have "placing E did ns d0 (pl @ [(st_TempID s, n)]) d1"
      using Cons.prems Some by (intro place_one [OF _ _ _ _ raw n]) auto
    from Cons.IH [OF rec this] Cons.prems show ?thesis by auto
  qed
qed simp

lemma place_round_stuck:
  "place_round E did pl ss d = (d', Inr (pl', rest)) \<Longrightarrow>
     length rest \<le> length ss
     \<and> (length rest = length ss \<longrightarrow> pl' = pl \<and> rest = ss \<and> (\<forall>s \<in> set ss. ready_parent pl s = None))"
proof (induction ss arbitrary: pl d d' pl' rest)
  case (Cons s ss)
  show ?case
  proof (cases "ready_parent pl s")
    case None
    with Cons.prems obtain rest0 where "place_round E did pl ss d = (d', Inr (pl', rest0))" "rest = s # rest0"
      by (auto simp: err_iff)
    with Cons.IH [OF this(1)] None show ?thesis by auto
  next
    case (Some pd)
    with Cons.prems obtain d1 n where "place_round E did (pl @ [(st_TempID s, n)]) ss d1 = (d', Inr (pl', rest))"
      by (auto simp: err_iff split: prod.splits)
    from Cons.IH [OF this] show ?thesis by auto
  qed
qed simp

lemma place_all_ok:
  "place_all E did pl ss d = (d', Inr pl') \<Longrightarrow> placing E did ns d0 pl d \<Longrightarrow> set ss \<subseteq> set ns \<Longrightarrow>
     distinct (map fst pl @ map st_TempID ss) \<Longrightarrow>
     placing E did ns d0 pl' d' \<and> fst ` set pl' = fst ` set pl \<union> st_TempID ` set ss"
proof (induction E did pl ss d rule: place_all.induct)
  case (1 E did pl ss d)
  show ?case
  proof (cases "ss = []")
    case True
    with "1.prems" show ?thesis by (simp add: place_all.simps [of E did pl "[]" d])
  next
    case False
    with "1.prems"(1) obtain d1 pl1 rest where round: "place_round E did pl ss d = (d1, Inr (pl1, rest))"
      and less: "length rest < length ss" and rec: "place_all E did pl1 rest d1 = (d', Inr pl')"
      by (auto simp: place_all.simps [of E did pl ss d] split: prod.splits sum.splits if_splits)
    from place_round_ok [OF round "1.prems"(2-4)]
    have step: "placing E did ns d0 pl1 d1" "distinct (map fst pl1 @ map st_TempID rest)" "set rest \<subseteq> set ss"
      and union: "fst ` set pl1 \<union> st_TempID ` set rest = fst ` set pl \<union> st_TempID ` set ss" by auto
    have "placing E did ns d0 pl' d' \<and> fst ` set pl' = fst ` set pl1 \<union> st_TempID ` set rest"
      using "1.IH" [OF False round [symmetric] refl refl less rec step(1) _ step(2)] step(3) "1.prems"(3) by blast
    with union show ?thesis by simp
  qed
qed

lemma placed_mirrors:
  assumes "placing E did ns d0 pl d" and "fst ` set pl = st_TempID ` set ns" and "distinct (map st_TempID ns)"
  shows "mirrors E did ns pl"
proof -
  have "\<exists>n. map_of pl (st_TempID s) = Some n \<and> mirrors_node E did pl s n" if s: "s \<in> set ns" for s
  proof -
    from s assms(2) obtain n where n: "(st_TempID s, n) \<in> set pl" by force
    with assms(1) obtain s' where "s' \<in> set ns" "st_TempID s' = st_TempID s" "mirrors_node E did pl s' n"
      unfolding placing_def by fastforce
    moreover from this s assms(3) have "s' = s" by (metis distinct_map inj_onD)
    ultimately show ?thesis using n assms(1) by (auto simp: placing_def)
  qed
  with assms show ?thesis by (simp add: mirrors_def placing_def list_all_iff)
qed

section \<open>Cycles\<close>

text \<open>The depth falls along the parent links of a forest, so none of them lies on a cycle.\<close>

lemma depth_falls:
  assumes "mirrors E did ns pl" and "(t, u) \<in> (parent_rel ns)\<^sup>+"
  shows "nd_Depth (the (map_of pl u)) < nd_Depth (the (map_of pl t))"
proof -
  have step: "nd_Depth (the (map_of pl b)) < nd_Depth (the (map_of pl a))" if "(a, b) \<in> parent_rel ns" for a b
    using that assms(1) by (fastforce simp: parent_rel_def mirrors_def list_all_iff mirrors_node_def)
  from assms(2) show ?thesis by (induction rule: trancl_induct) (auto dest: step)
qed

lemma mirrors_acyclic: "mirrors E did ns pl \<Longrightarrow> acyclic (parent_rel ns)"
  using depth_falls by (fastforce simp: acyclic_def)

text \<open>Sub-tasks that wait for one another contain a cycle.\<close>

lemma waiting_cycle:
  assumes "rest \<noteq> []" and "set rest \<subseteq> set ns"
    and wait: "\<And>s. s \<in> set rest \<Longrightarrow> st_ParentTempID s \<noteq> [] \<and> st_ParentTempID s \<in> st_TempID ` set rest"
  shows "\<not> acyclic (parent_rel ns)"
proof
  assume "acyclic (parent_rel ns)"
  moreover have "finite (parent_rel ns)" by (simp add: parent_rel_def)
  ultimately have "wf ((parent_rel ns)\<inverse>)" by (simp add: finite_acyclic_wf_converse)
  from wfE_min' [OF this, of "st_TempID ` set rest"] assms(1) obtain s where s: "s \<in> set rest"
    and last: "\<And>y. (st_TempID s, y) \<in> parent_rel ns \<Longrightarrow> y \<notin> st_TempID ` set rest" by auto
  from s assms(2) wait [OF s] have "(st_TempID s, st_ParentTempID s) \<in> parent_rel ns"
    by (auto simp: parent_rel_def)
  with last wait [OF s] show False by blast
qed

text \<open>A checked request whose details can be written.\<close>

definition details_ok :: "decomp_env \<Rightarrow> sub_task \<Rightarrow> bool" where
  "details_ok E s = (case details_json (de_FloatText E) s of
     Inl e \<Rightarrow> False | Inr raw \<Rightarrow> json_valid (json_default (TrimSpace raw)))"

definition well_typed :: "sub_task \<Rightarrow> bool" where
  "well_typed s \<longleftrightarrow> st_TempID s \<noteq> [] \<and> st_VerificationType s \<in> verification_types
     \<and> st_DelegatePreference s \<in> delegate_preferences"

lemma check_subtask_None:
  "check_subtask subs i seen s = None \<Longrightarrow> well_typed s \<and> st_TempID s \<notin> set seen"
  by (auto simp: check_subtask_def Let_def well_typed_def split: if_splits)

lemma normalize_subtasks_ok:
  "normalize_subtasks subs i seen ss = Inr ns \<Longrightarrow> distinct seen \<Longrightarrow>
     distinct (seen @ map st_TempID ns) \<and> list_all well_typed ns"
proof (induction ss arbitrary: i seen ns)
  case (Cons s ss)
  then obtain ns' where "check_subtask subs i seen (normalize_subtask s) = None"
    and rec: "normalize_subtasks subs (Suc i) (seen @ [st_TempID (normalize_subtask s)]) ss = Inr ns'"
    and ns: "ns = normalize_subtask s # ns'"
    by (auto simp: Let_def split: option.splits sum.splits)
  from check_subtask_None [OF this(1)] Cons.IH [OF rec] Cons.prems(2) show ?case by (simp add: ns)
qed simp

lemma unknown_parent_None:
  "unknown_parent ns = None \<longleftrightarrow>
     (\<forall>n \<in> set ns. st_ParentTempID n \<noteq> [] \<longrightarrow> st_ParentTempID n \<in> st_TempID ` set ns)"
  by (auto simp: unknown_parent_def find_None_iff find_Some_iff split: option.splits)

lemma check_subtasks_ok:
  assumes "check_subtasks p = Inr ns"
  shows "distinct (map st_TempID ns)" and "\<And>s. s \<in> set ns \<Longrightarrow> well_typed s"
    and "\<And>s. s \<in> set ns \<Longrightarrow> st_ParentTempID s \<noteq> [] \<Longrightarrow> st_ParentTempID s \<in> st_TempID ` set ns"
proof -
  from assms have norm: "normalize_subtasks (dpp_SubTasks p) 0 [] (dpp_SubTasks p) = Inr ns"
    and "unknown_parent ns = None"
    by (auto simp: check_subtasks_def split: if_splits sum.splits option.splits)
  with normalize_subtasks_ok [OF norm] show "distinct (map st_TempID ns)" and "\<And>s. s \<in> set ns \<Longrightarrow> well_typed s"
    and "\<And>s. s \<in> set ns \<Longrightarrow> st_ParentTempID s \<noteq> [] \<Longrightarrow> st_ParentTempID s \<in> st_TempID ` set ns"
    by (auto simp: list_all_iff unknown_parent_None)
qed

text \<open>Creating a node cannot fail then.\<close>

lemma node_created:
  assumes "well_typed s" and "json_valid (json_default (TrimSpace raw))" and "placing E did ns d0 pl d"
    and "row_get dcp_ID (decompositions d0) did \<noteq> None" and "ready_parent pl s = Some (parent, depth)"
  shows "\<exists>d' n. createDecompositionNodeOn now (node_of did parent depth raw s) d = (d', Inr n)"
proof -
  have "case parent of None \<Rightarrow> True | Some i \<Rightarrow> row_get nd_ID (decomposition_nodes d) i \<noteq> None"
    using assms(3, 5)
    by (cases parent) (force simp: ready_parent_iff row_get_None placing_def split: if_splits dest!: map_of_SomeD)+
  moreover have "0 \<le> depth"
    using assms(3, 5) by (fastforce simp: ready_parent_iff placing_def split: if_splits dest: map_of_SomeD)
  moreover have "decompositions d = decompositions d0" using assms(3) by (simp add: placing_def)
  ultimately show ?thesis using assms(1, 2, 4)
    by (simp add: createDecompositionNodeOn_def Let_def node_row_def node_of_def well_typed_def split: option.splits)
qed

lemma place_round_total:
  "placing E did ns d0 pl d \<Longrightarrow> row_get dcp_ID (decompositions d0) did \<noteq> None \<Longrightarrow> set ss \<subseteq> set ns \<Longrightarrow>
     distinct (map fst pl @ map st_TempID ss) \<Longrightarrow> list_all (\<lambda>s. well_typed s \<and> details_ok E s) ss \<Longrightarrow>
     \<exists>d' r. place_round E did pl ss d = (d', Inr r)"
proof (induction ss arbitrary: pl d)
  case (Cons s ss)
  show ?case
  proof (cases "ready_parent pl s")
    case None
    with Cons.IH [of pl d] Cons.prems show ?thesis by fastforce
  next
    case (Some pd)
    then obtain parent depth where ready: "ready_parent pl s = Some (parent, depth)" by (cases pd) auto
    from Cons.prems obtain raw where raw: "details_json (de_FloatText E) s = Inr raw"
      and valid: "json_valid (json_default (TrimSpace raw))" and s: "well_typed s"
      by (auto simp: details_ok_def split: sum.splits)
    from node_created [OF s valid Cons.prems(1, 2) ready] obtain d1 n where
      n: "createDecompositionNodeOn (de_Now E) (node_of did parent depth raw s) d = (d1, Inr n)" by blast
    have "placing E did ns d0 (pl @ [(st_TempID s, n)]) d1"
      using Cons.prems by (intro place_one [OF _ _ _ ready raw n]) auto
    from Cons.IH [OF this Cons.prems(2)] Cons.prems obtain d' r where
      "place_round E did (pl @ [(st_TempID s, n)]) ss d1 = (d', Inr r)" by auto
    with raw n ready show ?thesis by simp
  qed
qed simp

lemma place_all_total:
  "placing E did ns d0 pl d \<Longrightarrow> row_get dcp_ID (decompositions d0) did \<noteq> None \<Longrightarrow> set ss \<subseteq> set ns \<Longrightarrow>
     distinct (map fst pl @ map st_TempID ss) \<Longrightarrow> list_all (\<lambda>s. well_typed s \<and> details_ok E s) ss \<Longrightarrow>
     fst ` set pl \<union> st_TempID ` set ss = st_TempID ` set ns \<Longrightarrow> unknown_parent ns = None \<Longrightarrow>
     (\<exists>d' pl'. place_all E did pl ss d = (d', Inr pl'))
     \<or> snd (place_all E did pl ss d) = Inl cycle_err \<and> \<not> acyclic (parent_rel ns)"
proof (induction E did pl ss d rule: place_all.induct)
  case (1 E did pl ss d)
  show ?case
  proof (cases "ss = []")
    case True
    then show ?thesis by (simp add: place_all.simps [of E did pl "[]" d])
  next
    case False
    from place_round_total [OF "1.prems"(1-5)] obtain d1 pl1 rest where
      round: "place_round E did pl ss d = (d1, Inr (pl1, rest))" by fastforce
    from place_round_ok [OF round "1.prems"(1, 3, 4)]
    have step: "placing E did ns d0 pl1 d1" "distinct (map fst pl1 @ map st_TempID rest)" "set rest \<subseteq> set ss"
      and union: "fst ` set pl1 \<union> st_TempID ` set rest = fst ` set pl \<union> st_TempID ` set ss" by auto
    show ?thesis
    proof (cases "length rest < length ss")
      case True
      have ok: "list_all (\<lambda>s. well_typed s \<and> details_ok E s) rest"
        using "1.prems"(5) step(3) by (auto simp: list_all_iff)
      have sub: "set rest \<subseteq> set ns" and all: "fst ` set pl1 \<union> st_TempID ` set rest = st_TempID ` set ns"
        using step(3) "1.prems"(3, 6) union by auto
      have "place_all E did pl ss d = place_all E did pl1 rest d1"
        by (simp add: place_all.simps [of E did pl ss d] False round True)
      with "1.IH" [OF False round [symmetric] refl refl True step(1) "1.prems"(2) sub step(2) ok all "1.prems"(7)]
      show ?thesis by simp
    next
      case stuck: False
      with place_round_stuck [OF round] have "rest = ss" and wait: "\<forall>s \<in> set ss. ready_parent pl s = None" by auto
      have "st_ParentTempID s \<noteq> [] \<and> st_ParentTempID s \<in> st_TempID ` set ss" if s: "s \<in> set ss" for s
      proof -
        from wait s have "st_ParentTempID s \<noteq> []" "st_ParentTempID s \<notin> fst ` set pl"
          by (simp_all add: ready_parent_None)
        moreover from this(1) s "1.prems"(3, 7) have "st_ParentTempID s \<in> fst ` set pl \<union> st_TempID ` set ss"
          unfolding "1.prems"(6) unknown_parent_None by blast
        ultimately show ?thesis by blast
      qed
      with False "1.prems"(3) have "\<not> acyclic (parent_rel ns)" by (rule waiting_cycle)
      then show ?thesis by (simp add: place_all.simps [of E did pl ss d] False round stuck)
    qed
  qed
qed

section \<open>Creating\<close>

definition settleable :: "decomp_env \<Rightarrow> decomposition_node \<Rightarrow> bool" where
  "settleable E n \<longleftrightarrow> nd_VerificationType n \<noteq> [] \<and> \<not> nd_RequiresFurtherDecomposition n
     \<and> (nd_VerificationType n = ''zk_proof'' \<longrightarrow> \<not> lacks_circuit E n)"

lemma leaf_reasons_Nil: "leaf_reasons E n = [] \<longleftrightarrow> settleable E n"
  by (auto simp: leaf_reasons_def settleable_def)

lemma nodeE:
  assumes "mirrors E did ns pl" and "(t, n) \<in> set pl"
  obtains s where "s \<in> set ns" and "st_TempID s = t" and "mirrors_node E did pl s n"
proof -
  from assms have "t \<in> st_TempID ` set ns" by (force simp: mirrors_def)
  then obtain s where s: "s \<in> set ns" "st_TempID s = t" by auto
  with assms obtain n' where "map_of pl t = Some n'" "mirrors_node E did pl s n'"
    by (auto simp: mirrors_def list_all_iff)
  moreover from assms have "map_of pl t = Some n" by (simp add: mirrors_def)
  ultimately show thesis using s that by auto
qed

text \<open>A node is a leaf of the stored forest when no sub-task names it as its parent.\<close>

lemma leaf_iff:
  assumes "mirrors E did ns pl" and "(t, n) \<in> set pl" and "t \<noteq> []"
  shows "Some (nd_ID n) \<in> nd_ParentNodeID ` snd ` set pl \<longleftrightarrow> t \<in> st_ParentTempID ` set ns"
proof
  assume "Some (nd_ID n) \<in> nd_ParentNodeID ` snd ` set pl"
  then obtain u m where m: "(u, m) \<in> set pl" and par: "nd_ParentNodeID m = Some (nd_ID n)" by force
  from nodeE [OF assms(1) m] obtain s where s: "s \<in> set ns" and mir: "mirrors_node E did pl s m" by blast
  from mir par obtain q where q: "map_of pl (st_ParentTempID s) = Some q" "nd_ID q = nd_ID n"
    by (auto simp: mirrors_node_def split: if_splits)
  have "inj_on (nd_ID \<circ> snd) (set pl)" using assms(1) by (simp add: mirrors_def distinct_map)
  from inj_onD [OF this, of "(st_ParentTempID s, q)" "(t, n)"] q assms(2) have "st_ParentTempID s = t"
    by (auto dest: map_of_SomeD)
  with s show "t \<in> st_ParentTempID ` set ns" by auto
next
  assume "t \<in> st_ParentTempID ` set ns"
  then obtain s where s: "s \<in> set ns" "st_ParentTempID s = t" by auto
  with assms(1) obtain m where m: "map_of pl (st_TempID s) = Some m" "mirrors_node E did pl s m"
    by (auto simp: mirrors_def list_all_iff)
  with s assms have "nd_ParentNodeID m = Some (nd_ID n)"
    by (auto simp: mirrors_node_def mirrors_def split: if_splits)
  with m(1) show "Some (nd_ID n) \<in> nd_ParentNodeID ` snd ` set pl" by (force dest: map_of_SomeD)
qed

definition forest_valid :: "decomp_env \<Rightarrow> sub_task list \<Rightarrow> placed \<Rightarrow> bool" where
  "forest_valid E ns pl \<longleftrightarrow> list_all (\<lambda>(t, n). t \<in> st_ParentTempID ` set ns \<or> settleable E n) pl"

lemma no_issues_iff:
  assumes "mirrors E did ns pl" and "list_all (\<lambda>s. st_TempID s \<noteq> []) ns"
  shows "validateLeafNodes E pl = [] \<longleftrightarrow> forest_valid E ns pl"
proof -
  have nonempty: "t \<noteq> []" if "(t, n) \<in> set pl" for t n
    using nodeE [OF assms(1) that] assms(2) by (auto simp: list_all_iff)
  define inner where "inner n \<longleftrightarrow> Some (nd_ID n) \<in> nd_ParentNodeID ` snd ` set pl" for n :: decomposition_node
  have "inner n \<longleftrightarrow> t \<in> st_ParentTempID ` set ns" if "(t, n) \<in> set pl" for t n
    using leaf_iff [OF assms(1) that] nonempty [OF that] by (simp add: inner_def)
  moreover have "leafNodes (map snd pl) = filter (\<lambda>n. \<not> inner n) (map snd pl)"
    by (simp add: leafNodes_def inner_def)
  ultimately show ?thesis
    by (fastforce simp: validateLeafNodes_def forest_valid_def list_all_iff leaf_reasons_Nil)
qed

definition decomposition_status :: "bool \<Rightarrow> string" where
  "decomposition_status valid = (if valid then ''valid'' else ''draft'')"

text \<open>The row of the new decomposition, before and after its status is set.\<close>

lemma row_upd_new:
  "row_upd (\<lambda>dc. dcp_ID dc = next_id dcp_ID rows) f (row_add r rows) =
     rows @ [if dcp_ID r = next_id dcp_ID rows then f r else r]"
proof -
  have "row_upd (\<lambda>dc. dcp_ID dc = next_id dcp_ID rows) f rows = rows"
    using next_id_above [of _ rows dcp_ID] by (force simp: row_upd_def intro: map_idI)
  then show ?thesis by (simp add: row_upd_def row_add_def)
qed

lemma create_tx_ok:
  assumes "check_subtasks p = Inr ns" and "create_tx E p ns d = (d', Inr (i, pl))"
  obtains dc where "mirrors E i ns pl" and "dcp_ID dc = i" and "i = next_id dcp_ID (decompositions d)"
    and "d' = d\<lparr>decompositions := decompositions d @ [dc],
               decomposition_nodes := decomposition_nodes d @ map snd pl\<rparr>"
    and "dcp_Status dc = decomposition_status (validateLeafNodes E pl = [])"
    and "dcp_Buyer dc = dpp_Buyer p" and "dcp_Title dc = dpp_Title p"
proof -
  from assms(2) obtain d1 dc d2 x where dc: "createDecompositionOn (de_Now E) (new_decomposition p) d = (d1, Inr dc)"
    and pl: "place_all E (dcp_ID dc) [] ns d1 = (d2, Inr pl)"
    and upd: "updateDecompositionStatusOn (de_Now E) (dcp_ID dc) (if validateLeafNodes E pl = [] then ''valid'' else ''draft'')
                (render (JArr (map issue_json (validateLeafNodes E pl)))) ''[]'' d2 = (d', Inr x)" and i: "dcp_ID dc = i"
    by (auto simp: create_tx_def Let_def err_iff split: if_splits)
  from createDecompositionOn_ok [OF dc] have d1: "d1 = d\<lparr>decompositions := row_add dc (decompositions d)\<rparr>"
    and row: "dc = decomposition_row (de_Now E) (new_decomposition p) d" by auto
  then have i': "i = next_id dcp_ID (decompositions d)" using i by (simp add: decomposition_row_def)
  note ns = check_subtasks_ok [OF assms(1)]
  have "placing E i ns d1 pl d2 \<and> fst ` set pl = fst ` set [] \<union> st_TempID ` set ns"
    using place_all_ok [OF pl, of ns d1] ns(1) by (simp add: i placing_def)
  then have placed: "placing E i ns d1 pl d2" and "fst ` set pl = st_TempID ` set ns" by simp_all
  then have "mirrors E i ns pl" using ns(1) by (rule placed_mirrors)
  moreover define dc' where "dc' = set_decomposition (de_Now E) (decomposition_status (validateLeafNodes E pl = []))
      (render (JArr (map issue_json (validateLeafNodes E pl)))) ''[]'' dc"
  have "d' = d\<lparr>decompositions := decompositions d @ [dc'],
               decomposition_nodes := decomposition_nodes d @ map snd pl\<rparr>"
    using update_decomposition_ok [OF upd [unfolded updateDecompositionStatusOn_def]] placed i i'
    by (simp add: d1 placing_def with_nodes_def row_upd_new dc'_def decomposition_status_def)
  moreover have "dcp_Status dc' = decomposition_status (validateLeafNodes E pl = [])"
    "dcp_Buyer dc' = dpp_Buyer p" "dcp_Title dc' = dpp_Title p"
    by (simp_all add: dc'_def set_decomposition_def row decomposition_row_def new_decomposition_def)
  moreover have "dcp_ID dc' = i" by (simp add: dc'_def set_decomposition_def i)
  ultimately show thesis using i' that by blast
qed

lemma row_get_last:
  "k \<notin> key ` set rows \<Longrightarrow> key r = k \<Longrightarrow> row_get key (rows @ [r]) k = Some r"
  by (induction rows) auto

lemma next_id_new: "next_id key rows \<notin> key ` set rows"
  using next_id_fresh [of key rows] by (simp add: row_get_None)

text \<open>C24: Creating a decomposition either changes nothing and returns an error, or appends one
  decomposition and, for every sub-task of the request, one node: the nodes carry what the
  sub-tasks say, a root has depth 0 and no parent, and every other node is linked to the node of the
  sub-task its parent id names, one level deeper. The decomposition is \<open>valid\<close> exactly if every
  sub-task that is nobody's parent can be settled: it has a verification type, is not marked for
  further decomposition, and names a circuit if it is to be proved in zero knowledge.\<close>

theorem CreateDecomposition_forest:
  "case CreateDecomposition E p d of
     (d', Inl e) \<Rightarrow> d' = d
   | (d', Inr r) \<Rightarrow>
       \<exists>ns pl. let dc = dr_Decomposition r in
         check_subtasks p = Inr ns \<and> mirrors E (dcp_ID dc) ns pl
         \<and> d' = d\<lparr>decompositions := decompositions d @ [dc],
                  decomposition_nodes := decomposition_nodes d @ map snd pl\<rparr>
         \<and> dcp_ID dc = next_id dcp_ID (decompositions d) \<and> dcp_Buyer dc = dpp_Buyer p
         \<and> dr_Nodes r = ListDecompositionNodes d' (dcp_ID dc)
         \<and> dr_Valid r = forest_valid E ns pl
         \<and> dcp_Status dc = (if dr_Valid r then ''valid'' else ''draft'')"
proof (cases "CreateDecomposition E p d")
  case (Pair d' res)
  show ?thesis
  proof (cases "\<exists>ns d1 i pl. check_subtasks p = Inr ns \<and> create_tx E p ns d = (d1, Inr (i, pl))")
    case True
    then obtain ns d1 i pl where ns: "check_subtasks p = Inr ns" and tx: "create_tx E p ns d = (d1, Inr (i, pl))"
      by blast
    from create_tx_ok [OF this] obtain dc where dc: "mirrors E i ns pl" "dcp_ID dc = i"
      "i = next_id dcp_ID (decompositions d)" "dcp_Buyer dc = dpp_Buyer p"
      "d1 = d\<lparr>decompositions := decompositions d @ [dc], decomposition_nodes := decomposition_nodes d @ map snd pl\<rparr>"
      "dcp_Status dc = decomposition_status (validateLeafNodes E pl = [])" by blast
    have "row_get dcp_ID (decompositions d1) i = Some dc"
      using row_get_last [OF next_id_new, of dcp_ID dc "decompositions d"] dc(2, 3) by (simp add: dc(5))
    with tx have res: "d' = d1" "res = Inr \<lparr>dr_Decomposition = dc, dr_Nodes = ListDecompositionNodes d1 i,
        dr_Issues = validateLeafNodes E pl, dr_MarketContext =
          sort_key mc_NodeID (map (marketContextForLeaf d1 pl) (leafNodes (ListDecompositionNodes d1 i))),
        dr_Valid = (validateLeafNodes E pl = [])\<rparr>"
      using Pair by (auto simp: CreateDecomposition_def ns in_tx_def GetDecomposition_def GetDecompositionRow_def Let_def)
    have "list_all (\<lambda>s. st_TempID s \<noteq> []) ns"
      using check_subtasks_ok(2) [OF ns] by (simp add: list_all_iff well_typed_def)
    from no_issues_iff [OF dc(1) this] dc show ?thesis
      by (auto simp: Pair res decomposition_status_def Let_def intro!: exI [of _ ns] exI [of _ pl] ns)
  next
    case False
    then have "\<exists>e. res = Inl e \<and> d' = d"
      using Pair by (auto simp: CreateDecomposition_def in_tx_def orFail_def andThen_def split: sum.splits prod.splits)
    with Pair show ?thesis by auto
  qed
qed

section \<open>Refusing cycles\<close>

lemma json_valid_empty: "json_valid ''[]''" "json_valid ''{}''"
  by code_simp+

lemma wrap_not_New [simp]: "wrap m e \<noteq> errors_New m'" "errors_New m' \<noteq> wrap m e"
  by (simp_all add: wrap_def errors_New_def)

lemma errors_New_eq [simp]: "errors_New a = errors_New b \<longleftrightarrow> a = b"
  by (simp add: errors_New_def)

lemma draft_created:
  obtains d1 dc where "createDecompositionOn now (new_decomposition p) d = (d1, Inr dc)"
  by (simp add: createDecompositionOn_def Let_def decomposition_row_def new_decomposition_def or_empty_list_def
      TrimSpace_def is_space_def json_valid_empty blank_def decomposition_statuses_def)

lemma create_place:
  assumes "check_subtasks p = Inr ns" and "list_all (details_ok E) ns"
    and "createDecompositionOn (de_Now E) (new_decomposition p) d = (d1, Inr dc)"
  shows "(\<exists>d2 pl. place_all E (dcp_ID dc) [] ns d1 = (d2, Inr pl) \<and> acyclic (parent_rel ns))
         \<or> snd (place_all E (dcp_ID dc) [] ns d1) = Inl cycle_err \<and> \<not> acyclic (parent_rel ns)"
proof -
  note ns = check_subtasks_ok [OF assms(1)]
  from createDecompositionOn_ok [OF assms(3)] have d1: "d1 = d\<lparr>decompositions := row_add dc (decompositions d)\<rparr>"
    and i: "dcp_ID dc = next_id dcp_ID (decompositions d)" by (auto simp: decomposition_row_def)
  have start: "placing E (dcp_ID dc) ns d1 [] d1" by (simp add: placing_def)
  have row: "row_get dcp_ID (decompositions d1) (dcp_ID dc) \<noteq> None"
    by (simp add: d1 row_get_None row_add_def)
  have "unknown_parent ns = None" using ns(3) by (simp add: unknown_parent_None)
  then have "(\<exists>d2 pl. place_all E (dcp_ID dc) [] ns d1 = (d2, Inr pl))
      \<or> snd (place_all E (dcp_ID dc) [] ns d1) = Inl cycle_err \<and> \<not> acyclic (parent_rel ns)"
    using ns(1, 2) assms(2) by (intro place_all_total [OF start row]) (auto simp: list_all_iff)
  moreover have "acyclic (parent_rel ns)" if "place_all E (dcp_ID dc) [] ns d1 = (d2, Inr pl)" for d2 pl
    using place_all_ok [OF that start] ns(1) placed_mirrors [of E "dcp_ID dc" ns d1 pl d2] mirrors_acyclic
    by auto
  ultimately show ?thesis by blast
qed

lemma issues_render: "render (JArr (map issue_json is)) \<noteq> []" "json_valid (render (JArr (map issue_json is)))"
  by simp (intro json_valid_render, simp add: issue_json_def list_all_iff)

lemma update_status_total:
  assumes "\<exists>dc \<in> set (decompositions d). dcp_ID dc = i"
  shows "\<exists>d'. updateDecompositionStatusOn now i (if c then ''valid'' else ''draft'')
                (render (JArr (map issue_json is))) ''[]'' d = (d', Inr ())"
  using assms
  by (auto simp: updateDecompositionStatusOn_def update_decomposition_def rows_affected_0 or_empty_list_def
      json_valid_empty decomposition_statuses_def issues_render simp del: render.simps)

lemma create_tx_total:
  assumes "check_subtasks p = Inr ns" and "list_all (details_ok E) ns" and "acyclic (parent_rel ns)"
  shows "\<exists>d' x. create_tx E p ns d = (d', Inr x)"
proof -
  obtain d1 dc where dc: "createDecompositionOn (de_Now E) (new_decomposition p) d = (d1, Inr dc)"
    by (rule draft_created)
  with create_place [OF assms(1, 2) dc] assms(3) obtain d2 pl where
    pl: "place_all E (dcp_ID dc) [] ns d1 = (d2, Inr pl)" by blast
  have "placing E (dcp_ID dc) ns d1 pl d2"
    using place_all_ok [OF pl, of ns d1] check_subtasks_ok(1) [OF assms(1)] by (simp add: placing_def)
  then have "\<exists>x \<in> set (decompositions d2). dcp_ID x = dcp_ID dc"
    using createDecompositionOn_ok [OF dc] by (auto simp: placing_def row_add_def)
  from update_status_total [OF this] obtain d3 where
    "updateDecompositionStatusOn (de_Now E) (dcp_ID dc) (if validateLeafNodes E pl = [] then ''valid'' else ''draft'')
       (render (JArr (map issue_json (validateLeafNodes E pl)))) ''[]'' d2 = (d3, Inr ())" by blast
  then show ?thesis by (simp add: create_tx_def dc pl Let_def)
qed

lemma create_after_tx:
  assumes "check_subtasks p = Inr ns" and "create_tx E p ns d = (d1, Inr (i, pl))"
  shows "\<exists>r. CreateDecomposition E p d = (d1, Inr r) \<and> dcp_ID (dr_Decomposition r) = i
     \<and> dr_Nodes r = ListDecompositionNodes d1 i \<and> dr_Valid r = (validateLeafNodes E pl = [])
     \<and> decompositions d1 = decompositions d @ [dr_Decomposition r]"
proof -
  from create_tx_ok [OF assms] obtain dc where dc: "dcp_ID dc = i" "i = next_id dcp_ID (decompositions d)"
    "d1 = d\<lparr>decompositions := decompositions d @ [dc], decomposition_nodes := decomposition_nodes d @ map snd pl\<rparr>"
    by blast
  have "row_get dcp_ID (decompositions d1) i = Some dc"
    using row_get_last [OF next_id_new, of dcp_ID dc "decompositions d"] dc(1, 2) by (simp add: dc(3))
  then show ?thesis
    using assms dc(1) by (simp add: CreateDecomposition_def in_tx_def GetDecomposition_def GetDecompositionRow_def Let_def)
      (simp add: dc(3))
qed

text \<open>For a request that passes the checks and whose verification details can be written as
  JSON, creating a decomposition succeeds exactly if no sub-task is its own ancestor by the parent
  ids, and reports the cycle otherwise; so placing the sub-tasks in passes over the request never
  gives up on a forest, in whatever order it lists them.\<close>

theorem CreateDecomposition_complete:
  assumes "check_subtasks p = Inr ns" and "list_all (details_ok E) ns"
  shows "if acyclic (parent_rel ns) then \<exists>r. snd (CreateDecomposition E p d) = Inr r
         else CreateDecomposition E p d = (d, Inl cycle_err)"
proof (cases "acyclic (parent_rel ns)")
  case True
  from create_tx_total [OF assms True] obtain d1 i pl where "create_tx E p ns d = (d1, Inr (i, pl))" by fastforce
  from create_after_tx [OF assms(1) this] True show ?thesis by auto
next
  case False
  obtain d1 dc where dc: "createDecompositionOn (de_Now E) (new_decomposition p) d = (d1, Inr dc)"
    by (rule draft_created)
  from create_place [OF assms dc] False show ?thesis
    by (cases "place_all E (dcp_ID dc) [] ns d1")
      (auto simp: CreateDecomposition_def create_tx_def assms(1) dc in_tx_def)
qed

definition sample_task :: "string \<Rightarrow> string \<Rightarrow> sub_task" where
  "sample_task t parent =
     \<lparr>st_TempID = t, st_ParentTempID = parent, st_Title = t, st_Description = [],
      st_VerificationType = ''optimistic'', st_DelegatePreference = [], st_VerificationDetails = None,
      st_RequiresFurtherDecomposition = False\<rparr>"

definition sample_request :: "sub_task list \<Rightarrow> decomp_params" where
  "sample_request ts =
     \<lparr>dpp_Buyer = ''b'', dpp_Title = ''t'', dpp_Description = [], dpp_SpecHash = [], dpp_SubTasks = ts\<rparr>"

definition sample_decomp_env :: decomp_env where
  "sample_decomp_env = \<lparr>de_Now = 0, de_FloatText = Some, de_FloatFmt = id, de_Bidding = None\<rparr>"

lemma parent_rel_set:
  "parent_rel ns = set (map (\<lambda>s. (st_TempID s, st_ParentTempID s)) (filter (\<lambda>s. st_ParentTempID s \<noteq> []) ns))"
  by (auto simp: parent_rel_def)

lemma sample_details: "details_ok sample_decomp_env (sample_task t parent)"
  by (simp add: details_ok_def details_json_def sample_task_def json_default_def TrimSpace_def is_space_def
      json_valid_empty)

lemma CreateDecomposition_complete_witness:
  "CreateDecomposition sample_decomp_env
     (sample_request [sample_task ''a'' ''b'', sample_task ''b'' ''a'']) empty_db = (empty_db, Inl cycle_err)
   \<and> (\<exists>r. snd (CreateDecomposition sample_decomp_env
          (sample_request [sample_task ''a'' ''b'', sample_task ''b'' []]) empty_db) = Inr r)"
proof -
  let ?ns = "[sample_task ''a'' ''b'', sample_task ''b'' ''a'']"
  let ?ok = "[sample_task ''a'' ''b'', sample_task ''b'' []]"
  have checks: "check_subtasks (sample_request ?ns) = Inr ?ns" "check_subtasks (sample_request ?ok) = Inr ?ok"
    by code_simp+
  have details: "list_all (details_ok sample_decomp_env) ?ns" "list_all (details_ok sample_decomp_env) ?ok"
    by (simp_all add: sample_details)
  have "(''a'', ''a'') \<in> (parent_rel ?ns)\<^sup>+"
    by (rule trancl_into_trancl [OF r_into_trancl, of _ "''b''"]) (simp_all add: parent_rel_set sample_task_def)
  then have "\<not> acyclic (parent_rel ?ns)" by (auto simp: acyclic_def)
  moreover have "acyclic (parent_rel ?ok)"
    by (rule acyclicI) (auto simp: parent_rel_set sample_task_def elim: tranclE converse_tranclE)
  ultimately show ?thesis
    using CreateDecomposition_complete [OF checks(1) details(1), of empty_db]
      CreateDecomposition_complete [OF checks(2) details(2), of empty_db] by simp
qed

section \<open>Finalizing\<close>

lemma createRFQOn_ok:
  "createRFQOn now r d = (d', Inr row) \<Longrightarrow> d' = d\<lparr>rfqs := row_add row (rfqs d)\<rparr> \<and> row = rfq_row now r d"
  by (auto simp: createRFQOn_def Let_def split: if_splits)

lemma prepareRFQRecord_ok: "prepareRFQRecord B c d = Inr r \<Longrightarrow> \<exists>requirements. r = rfq_record B c requirements"
  by (auto simp: prepareRFQRecord_def split: option.splits sum.splits)

text \<open>The RFQ of a leaf.\<close>

definition rfq_for :: "finalize_params \<Rightarrow> decomposition_node \<Rightarrow> rfq \<Rightarrow> bool" where
  "rfq_for p n r \<longleftrightarrow>
     rfq_Title r = nd_Title n \<and> rfq_Description r = nd_Description n \<and> rfq_Buyer r = fip_Buyer p
     \<and> rfq_Status r = ''open'' \<and> rfq_BestBidID r = None \<and> rfq_ParentEscrowID r = None
     \<and> rfq_BudgetMin r = fip_BudgetMin p \<and> rfq_BudgetMax r = fip_BudgetMax p
     \<and> rfq_Deadline r = fip_Deadline p \<and> rfq_CommitDeadline r = fip_CommitDeadline p
     \<and> rfq_RevealDeadline r = fip_RevealDeadline p \<and> rfq_ExpiresAt r = fip_ExpiresAt p
     \<and> rfq_WorkerStake r = ''0''
     \<and> (if TrimSpace (nd_VerificationType n) \<in> panel_types
        then rfq_ServiceTier r = 1 \<and> rfq_BiddingMode r = ''sealed'' \<and> rfq_Verifier r = hd (fip_VerifierPanel p)
        else rfq_ServiceTier r = 0 \<and> rfq_BiddingMode r = ''open'' \<and> rfq_Verifier r = [])"

definition linked :: "db \<Rightarrow> decomposition_node \<Rightarrow> rfq \<Rightarrow> bool" where
  "linked d n r \<longleftrightarrow> list_ex (\<lambda>m. nd_ID m = nd_ID n \<and> nd_RFQID m = Some (rfq_ID r)) (decomposition_nodes d)"

lemma mode_texts: "TrimSpace ''sealed'' = ''sealed''" "TrimSpace ''open'' = ''open''"
  by code_simp+

lemma rfq_for_leaf:
  assumes "buildRFQParamsForLeaf E p n = Inr c" and "CreateRFQTx B c d = (d', Inr r)"
  shows "rfq_for p n r" and "d' = d\<lparr>rfqs := row_add r (rfqs d)\<rparr>" and "rfq_ID r = next_id rfq_ID (rfqs d)"
proof -
  from assms(2) obtain x where x: "prepareRFQRecord B c d = Inr x" and row: "createRFQOn (be_Now B) x d = (d', Inr r)"
    by (auto simp: CreateRFQTx_def err_iff)
  from prepareRFQRecord_ok [OF x] obtain req where "x = rfq_record B c req" ..
  with createRFQOn_ok [OF row] have r: "r = rfq_row (be_Now B) (rfq_record B c req) d"
    and "d' = d\<lparr>rfqs := row_add r (rfqs d)\<rparr>" by auto
  then show "d' = d\<lparr>rfqs := row_add r (rfqs d)\<rparr>" and "rfq_ID r = next_id rfq_ID (rfqs d)"
    by (simp_all add: rfq_row_def)
  from assms(1) show "rfq_for p n r"
    by (auto simp: buildRFQParamsForLeaf_def Let_def r rfq_row_def rfq_record_def rfq_for_def worker_stake_def
        bidding_mode_def mode_texts split: if_splits sum.splits)
qed

lemma leaf_params_ok:
  "leaf_params E p ns = Inr ls \<Longrightarrow> list_all2 (\<lambda>n l. fst l = n \<and> buildRFQParamsForLeaf E p n = Inr (snd l)) ns ls"
  by (induction ns arbitrary: ls) (auto split: sum.splits)

text \<open>A link stays, because only a node without one is given one.\<close>

lemma linked_stays:
  "linked d n r \<Longrightarrow> updateDecompositionNodeRFQOn i j d = (d', Inr x) \<Longrightarrow> linked d' n r"
  by (auto dest!: updateDecompositionNodeRFQOn_ok simp: linked_def list_ex_iff row_upd_def)

lemma linked_new:
  assumes "updateDecompositionNodeRFQOn (nd_ID m) (rfq_ID q) d = (d', Inr x)"
  shows "linked d' m q"
proof -
  from updateDecompositionNodeRFQOn_ok [OF assms] obtain n where
    d': "d' = d\<lparr>decomposition_nodes := row_upd (\<lambda>n. nd_ID n = nd_ID m \<and> nd_RFQID n = None)
                  (\<lambda>n. n\<lparr>nd_RFQID := Some (rfq_ID q)\<rparr>) (decomposition_nodes d)\<rparr>"
    and n: "n \<in> set (decomposition_nodes d)" "nd_ID n = nd_ID m" "nd_RFQID n = None" by blast
  from imageI [OF n(1), of "\<lambda>r. if nd_ID r = nd_ID m \<and> nd_RFQID r = None then r\<lparr>nd_RFQID := Some (rfq_ID q)\<rparr> else r"] n(2, 3)
  have "n\<lparr>nd_RFQID := Some (rfq_ID q)\<rparr> \<in> set (decomposition_nodes d')" by (simp add: d' set_row_upd)
  from bexI [OF _ this, of "\<lambda>r. nd_ID r = nd_ID m \<and> nd_RFQID r = Some (rfq_ID q)"] n(2) show ?thesis
    by (simp add: linked_def list_ex_iff)
qed

lemma linked_run: "create_rfqs B ls d = (d', Inr ids) \<Longrightarrow> linked d n r \<Longrightarrow> linked d' n r"
proof (induction B ls d arbitrary: d' ids rule: create_rfqs.induct)
  case (2 B m c ls d)
  from "2.prems"(1) obtain d1 q d2 x js where q: "CreateRFQTx B c d = (d1, Inr q)"
    and upd: "updateDecompositionNodeRFQOn (nd_ID m) (rfq_ID q) d1 = (d2, Inr x)"
    and rec: "create_rfqs B ls d2 = (d', Inr js)" by (auto simp: err_iff)
  have "linked d1 n r"
    using q "2.prems"(2) by (auto simp: CreateRFQTx_def err_iff linked_def dest!: createRFQOn_ok)
  then have "linked d2 n r" using upd by (rule linked_stays)
  with "2.IH" [OF rec] show ?case by blast
qed simp

lemma create_rfqs_ok:
  "create_rfqs B ls d = (d', Inr ids) \<Longrightarrow> list_all (\<lambda>l. buildRFQParamsForLeaf E p (fst l) = Inr (snd l)) ls \<Longrightarrow>
     \<exists>rs nodes. d' = d\<lparr>rfqs := rfqs d @ rs, decomposition_nodes := nodes\<rparr> \<and> map rfq_ID rs = ids
       \<and> list_all2 (\<lambda>l r. rfq_for p (fst l) r \<and> linked d' (fst l) r) ls rs
       \<and> distinct ids \<and> (\<forall>r \<in> set rs. next_id rfq_ID (rfqs d) \<le> rfq_ID r)"
proof (induction B ls d arbitrary: d' ids rule: create_rfqs.induct)
  case (1 B d)
  then show ?case by (intro exI [of _ "[]"] exI [of _ "decomposition_nodes d"]) simp
next
  case (2 B m c ls d)
  from "2.prems"(1) obtain d1 q d2 x js where q: "CreateRFQTx B c d = (d1, Inr q)"
    and upd: "updateDecompositionNodeRFQOn (nd_ID m) (rfq_ID q) d1 = (d2, Inr x)"
    and rec: "create_rfqs B ls d2 = (d', Inr js)" and ids: "ids = rfq_ID q # js" by (auto simp: err_iff)
  from "2.prems"(2) have build: "buildRFQParamsForLeaf E p m = Inr c"
    and rest: "list_all (\<lambda>l. buildRFQParamsForLeaf E p (fst l) = Inr (snd l)) ls" by simp_all
  note leaf = rfq_for_leaf [OF build q]
  from updateDecompositionNodeRFQOn_ok [OF upd] obtain nodes2 where
    d2: "d2 = d1\<lparr>decomposition_nodes := nodes2\<rparr>" by blast
  from linked_run [OF rec linked_new [OF upd]] have link: "linked d' m q" .
  from "2.IH" [OF rec rest] obtain rs nodes where
    d': "d' = d2\<lparr>rfqs := rfqs d2 @ rs, decomposition_nodes := nodes\<rparr>" and rs: "map rfq_ID rs = js"
    "list_all2 (\<lambda>l r. rfq_for p (fst l) r \<and> linked d' (fst l) r) ls rs" "distinct js"
    and above: "\<forall>r \<in> set rs. next_id rfq_ID (rfqs d2) \<le> rfq_ID r" by blast
  have rows: "rfqs d2 = rfqs d @ [q]" by (simp add: d2 leaf(2) row_add_def)
  then have "rfq_ID q < next_id rfq_ID (rfqs d2)" by (intro next_id_above) simp
  with above have later: "\<forall>r \<in> set rs. rfq_ID q < rfq_ID r" by fastforce
  have "d' = d\<lparr>rfqs := rfqs d @ q # rs, decomposition_nodes := nodes\<rparr>"
    by (simp add: d' d2 leaf(2) row_add_def)
  moreover have "distinct ids" using later rs(1, 3) unfolding ids rs(1) [symmetric] by fastforce
  moreover have "\<forall>r \<in> set (q # rs). next_id rfq_ID (rfqs d) \<le> rfq_ID r" using later leaf(3) by auto
  ultimately show ?case
    using rs link leaf(1) ids by (intro exI [of _ "q # rs"] exI [of _ nodes]) simp
qed

definition finalized_row :: "decomp_env \<Rightarrow> finalize_plan \<Rightarrow> int list \<Rightarrow> decomposition \<Rightarrow> decomposition" where
  "finalized_row E f ids =
     set_decomposition (de_Now E) ''finalized'' (dcp_ValidationErrorsJSON (fpl_Decomposition f)) (ids_json ids)"

text \<open>What a committed transaction did to the decompositions and to the other tables.\<close>

lemma finalize_txE:
  assumes "finalize_tx E f d = (d', Inr ids)"
  obtains d1 d2 where
    "d1 = d\<lparr>decompositions := row_upd (\<lambda>dc. dcp_ID dc = dcp_ID (fpl_Decomposition f) \<and> dcp_Status dc = ''valid'')
              (set_decomposition (de_Now E) ''finalized'' (dcp_ValidationErrorsJSON (fpl_Decomposition f)) ''[]'')
              (decompositions d)\<rparr>"
    and "create_rfqs (fpl_Bidding f) (fpl_Leaves f) d1 = (d2, Inr ids)"
    and "d' = d2\<lparr>decompositions := row_upd (\<lambda>dc. dcp_ID dc = dcp_ID (fpl_Decomposition f) \<and> dcp_Status dc = ''finalized'')
              (finalized_row E f ids) (decompositions d2)\<rparr>"
    and "\<exists>dc \<in> set (decompositions d). dcp_ID dc = dcp_ID (fpl_Decomposition f) \<and> dcp_Status dc = ''valid''"
  using assms
  by (auto simp: finalize_tx_def Let_def err_iff updateDecompositionStatusIfCurrentOn_def finalized_row_def
      dest!: update_decomposition_ok split: if_splits)

lemma create_rfqs_decompositions:
  "create_rfqs B ls d = (d', Inr ids) \<Longrightarrow> decompositions d' = decompositions d"
proof (induction B ls d arbitrary: d' ids rule: create_rfqs.induct)
  case (2 B m c ls d)
  then obtain d1 q d2 x js where q: "CreateRFQTx B c d = (d1, Inr q)"
    and upd: "updateDecompositionNodeRFQOn (nd_ID m) (rfq_ID q) d1 = (d2, Inr x)"
    and rec: "create_rfqs B ls d2 = (d', Inr js)" by (auto simp: err_iff)
  have "decompositions d1 = decompositions d"
    using q by (auto simp: CreateRFQTx_def err_iff dest!: createRFQOn_ok)
  moreover have "decompositions d2 = decompositions d1" using upd by (auto dest!: updateDecompositionNodeRFQOn_ok)
  ultimately show ?case using "2.IH" [OF rec] by simp
qed simp

lemma set_decomposition_sel [simp]:
  "dcp_ID (set_decomposition now s e i dc) = dcp_ID dc"
  "dcp_Status (set_decomposition now s e i dc) = s"
  "dcp_Buyer (set_decomposition now s e i dc) = dcp_Buyer dc"
  "dcp_RFQIDsJSON (set_decomposition now s e i dc) = or_empty_list i"
  by (simp_all add: set_decomposition_def)

lemma finalized_row_sel [simp]:
  "dcp_ID (finalized_row E f ids dc) = dcp_ID dc"
  "dcp_Status (finalized_row E f ids dc) = ''finalized''"
  "dcp_Buyer (finalized_row E f ids dc) = dcp_Buyer dc"
  "dcp_RFQIDsJSON (finalized_row E f ids dc) = ids_json ids"
  by (simp_all add: finalized_row_def or_empty_list_def ids_json_def)

lemma finalize_tx_row:
  assumes "finalize_tx E f d = (d', Inr ids)" and "dcp_ID (fpl_Decomposition f) = i"
    and "row_get dcp_ID (decompositions d) i = Some old" and "dcp_Status old = ''valid''"
  obtains dc where "row_get dcp_ID (decompositions d') i = Some dc" and "dcp_Status dc = ''finalized''"
    and "dcp_RFQIDsJSON dc = ids_json ids" and "dcp_Buyer dc = dcp_Buyer old"
proof -
  have "dcp_ID old = i" using row_get_Some [OF assms(3)] by simp
  from finalize_txE [OF assms(1)] assms this create_rfqs_decompositions that show thesis
    by (fastforce simp: row_get_upd)
qed

lemma plan_finalize_ok:
  assumes "plan_finalize E p d = Inr f"
  shows "row_get dcp_ID (decompositions d) (fip_DecompositionID p) = Some (fpl_Decomposition f)"
    and "dcp_Status (fpl_Decomposition f) = ''valid''"
    and "EqualFold (dcp_Buyer (fpl_Decomposition f)) (fip_Buyer p)"
    and "leaf_params E p (sorted_leaves (ListDecompositionNodes d (fip_DecompositionID p))) = Inr (fpl_Leaves f)"
    and "leafNodes (ListDecompositionNodes d (fip_DecompositionID p)) \<noteq> []"
  using assms
  by (auto simp: plan_finalize_def GetDecomposition_def GetDecompositionRow_def split: option.splits sum.splits if_splits)

text \<open>C25: Finalizing a decomposition either changes nothing and returns an error, or was asked for
  by its buyer while it was valid, and then, in one step, makes it finalized and appends exactly one
  open RFQ per leaf, in order of depth, with the buyer's budget and deadlines: a sealed RFQ of the high tier
  with the first verifier of the panel for a leaf verified by a quorum or a proof, an open one of the
  low tier otherwise. Each leaf is linked to its RFQ, and the decomposition lists the RFQs.\<close>

theorem FinalizeDecomposition_sound:
  "case FinalizeDecomposition E p d of
     (d', Inl e) \<Rightarrow> d' = d
   | (d', Inr (dc, ids)) \<Rightarrow>
       \<exists>old rs. row_get dcp_ID (decompositions d) (fip_DecompositionID p) = Some old
         \<and> dcp_Status old = ''valid'' \<and> EqualFold (dcp_Buyer old) (fip_Buyer p)
         \<and> row_get dcp_ID (decompositions d') (fip_DecompositionID p) = Some dc
         \<and> dcp_Status dc = ''finalized'' \<and> dcp_RFQIDsJSON dc = ids_json ids \<and> dcp_Buyer dc = dcp_Buyer old
         \<and> rfqs d' = rfqs d @ rs \<and> map rfq_ID rs = ids \<and> distinct ids \<and> rs \<noteq> []
         \<and> list_all2 (\<lambda>n r. rfq_for p n r \<and> linked d' n r)
             (sorted_leaves (ListDecompositionNodes d (fip_DecompositionID p))) rs"
proof (cases "\<exists>f d' ids. plan_finalize E p d = Inr f \<and> finalize_tx E f d = (d', Inr ids)")
  case False
  then have "case FinalizeDecomposition E p d of (d', Inl e) \<Rightarrow> d' = d | (d', Inr r) \<Rightarrow> False"
    by (auto simp: FinalizeDecomposition_def commit_finalize_def in_tx_def orFail_def andThen_def
        split: sum.splits prod.splits)
  then show ?thesis by (auto split: prod.splits sum.splits)
next
  case True
  then obtain f d' ids where f: "plan_finalize E p d = Inr f" and tx: "finalize_tx E f d = (d', Inr ids)" by blast
  note plan = plan_finalize_ok [OF f]
  have i: "dcp_ID (fpl_Decomposition f) = fip_DecompositionID p" using row_get_Some [OF plan(1)] by simp
  from finalize_tx_row [OF tx i plan(1, 2)] obtain dc where
    dc: "row_get dcp_ID (decompositions d') (fip_DecompositionID p) = Some dc" "dcp_Status dc = ''finalized''"
      "dcp_RFQIDsJSON dc = ids_json ids" "dcp_Buyer dc = dcp_Buyer (fpl_Decomposition f)" by blast
  then have run: "FinalizeDecomposition E p d = (d', Inr (dc, ids))"
    by (simp add: FinalizeDecomposition_def f commit_finalize_def tx in_tx_def GetDecompositionRow_def i Let_def)
  note leaves = leaf_params_ok [OF plan(4)]
  then have "list_all (\<lambda>l. buildRFQParamsForLeaf E p (fst l) = Inr (snd l)) (fpl_Leaves f)"
    by (auto simp: list_all2_conv_all_nth list_all_length)
  then obtain rs where "rfqs d' = rfqs d @ rs" and ids: "map rfq_ID rs = ids" "distinct ids"
    and rs: "list_all2 (\<lambda>l r. rfq_for p (fst l) r \<and> linked d' (fst l) r) (fpl_Leaves f) rs"
    using tx by (elim finalize_txE) (fastforce simp: linked_def dest!: create_rfqs_ok)
  moreover from leaves rs have all: "list_all2 (\<lambda>n r. rfq_for p n r \<and> linked d' n r)
      (sorted_leaves (ListDecompositionNodes d (fip_DecompositionID p))) rs"
    by (auto simp: list_all2_conv_all_nth)
  moreover have "sorted_leaves (ListDecompositionNodes d (fip_DecompositionID p)) \<noteq> []"
    using plan(5) unfolding sorted_leaves_def by (metis length_0_conv length_sort)
  with all have "rs \<noteq> []" by auto
  ultimately show ?thesis using dc plan(1-3) unfolding run by simp
qed

section \<open>At most once\<close>

text \<open>What happens to decompositions: requests that create them, transactions that finalize one on a
  plan made at any earlier time, and whatever the rest of the server does to other tables.\<close>

datatype decomp_op = OpCreate decomp_env decomp_params | OpFinalize decomp_env finalize_plan | OpElsewhere "db \<Rightarrow> db"

fun decomp_step :: "db \<Rightarrow> decomp_op \<Rightarrow> db" where
  "decomp_step d (OpCreate E p) = fst (CreateDecomposition E p d)"
| "decomp_step d (OpFinalize E f) = fst (commit_finalize E f d)"
| "decomp_step d (OpElsewhere g) = (g d)\<lparr>decompositions := decompositions d\<rparr>"

definition spent :: "int \<Rightarrow> db \<Rightarrow> bool" where
  "spent i d \<longleftrightarrow> i \<in> dcp_ID ` set (decompositions d)
     \<and> (\<forall>dc \<in> set (decompositions d). dcp_ID dc = i \<longrightarrow> dcp_Status dc \<noteq> ''valid'')"

lemma commit_finalize_fst:
  "fst (commit_finalize E f d) = d \<or> (\<exists>ids. finalize_tx E f d = (fst (commit_finalize E f d), Inr ids))"
  by (auto simp: commit_finalize_def in_tx_def andThen_def orFail_def Let_def split: prod.splits sum.splits)

lemma finalize_tx_rows:
  assumes "finalize_tx E f d = (d', Inr ids)"
  shows "decompositions d' = map (\<lambda>dc. if dcp_ID dc = dcp_ID (fpl_Decomposition f) \<and> dcp_Status dc \<in> {''valid'', ''finalized''}
           then finalized_row E f ids dc else dc) (decompositions d)"
  using assms
  by (elim finalize_txE) (auto simp: create_rfqs_decompositions row_upd_def finalized_row_def set_decomposition_def)

lemma finalize_tx_ids:
  assumes "finalize_tx E f d = (d', Inr ids)"
  shows "dcp_ID ` set (decompositions d') = dcp_ID ` set (decompositions d)"
proof -
  have "dcp_ID (if c then finalized_row E f ids dc else dc) = dcp_ID dc" for c dc by simp
  then show ?thesis by (simp only: finalize_tx_rows [OF assms] set_map image_image)
qed

lemma spent_finalized:
  assumes "finalize_tx E f d = (d', Inr ids)" and "i = dcp_ID (fpl_Decomposition f) \<or> spent i d"
  shows "spent i d'"
proof -
  from assms(1) obtain dc where "dc \<in> set (decompositions d)" "dcp_ID dc = dcp_ID (fpl_Decomposition f)"
    by (elim finalize_txE) blast
  then have "dcp_ID (fpl_Decomposition f) \<in> dcp_ID ` set (decompositions d)" by (metis imageI)
  with assms(2) have "i \<in> dcp_ID ` set (decompositions d)" by (auto simp: spent_def)
  moreover have "dcp_Status dc \<noteq> ''valid''" if dc: "dc \<in> set (decompositions d')" "dcp_ID dc = i" for dc
    using dc assms(2) by (auto simp: finalize_tx_rows [OF assms(1)] spent_def split: if_splits)
  ultimately show ?thesis by (simp add: spent_def finalize_tx_ids [OF assms(1)])
qed

lemma CreateDecomposition_fst:
  "fst (CreateDecomposition E p d) = d
   \<or> (\<exists>ns x. check_subtasks p = Inr ns \<and> create_tx E p ns d = (fst (CreateDecomposition E p d), Inr x))"
  by (auto simp: CreateDecomposition_def in_tx_def andThen_def orFail_def Let_def split: prod.splits sum.splits)

lemma CreateDecomposition_rows:
  "decompositions (fst (CreateDecomposition E p d)) = decompositions d
   \<or> (\<exists>dc. dcp_ID dc = next_id dcp_ID (decompositions d)
        \<and> decompositions (fst (CreateDecomposition E p d)) = decompositions d @ [dc])"
  using CreateDecomposition_fst [of E p d] by (fastforce elim: create_tx_ok)

lemma spent_step:
  assumes "spent i d"
  shows "spent i (decomp_step d x)"
proof (cases x)
  case (OpCreate E p)
  have "i \<noteq> next_id dcp_ID (decompositions d)"
    using assms next_id_new [of dcp_ID "decompositions d"] unfolding spent_def by metis
  with assms CreateDecomposition_rows [of E p d] show ?thesis by (auto simp: OpCreate spent_def)
next
  case (OpFinalize E f)
  from commit_finalize_fst [of E f d] show ?thesis
    using assms by (auto simp: OpFinalize intro: spent_finalized)
next
  case (OpElsewhere g)
  with assms show ?thesis by (simp add: spent_def)
qed

interpretation decomposition_life: terminal_machine decomp_step "\<lambda>_. True" "spent i" "\<lambda>b. b" for i
  by unfold_locales (simp_all add: spent_step)

lemma spent_refuses:
  assumes "spent (dcp_ID (fpl_Decomposition f)) d"
  shows "\<exists>e. commit_finalize E f d = (d, Inl e)"
proof -
  have "\<exists>d1 e. finalize_tx E f d = (d1, Inl e)"
  proof (cases "finalize_tx E f d")
    case (Pair d1 r)
    with assms show ?thesis by (cases r) (auto elim!: finalize_txE simp: spent_def)
  qed
  then show ?thesis by (auto simp: commit_finalize_def in_tx_def)
qed

definition of_decomposition :: "finalize_plan \<Rightarrow> finalize_plan \<Rightarrow> finalize_plan" where
  "of_decomposition f g = g\<lparr>fpl_Decomposition := (fpl_Decomposition g)\<lparr>dcp_ID := dcp_ID (fpl_Decomposition f)\<rparr>\<rparr>"

text \<open>C26: A decomposition is finalized at most once: after one finalization has been committed, and
  whatever the server does next, no plan made for that decomposition, also one made before, on the
  still valid decomposition, can be committed: it fails and changes nothing.\<close>

theorem finalize_once:
  "case commit_finalize E f d of
     (d1, Inl e) \<Rightarrow> d1 = d
   | (d1, Inr x) \<Rightarrow> \<exists>e. commit_finalize E' (of_decomposition f g) (foldl decomp_step d1 ops)
                      = (foldl decomp_step d1 ops, Inl e)"
proof (cases "\<exists>d' ids. finalize_tx E f d = (d', Inr ids)")
  case True
  then obtain d' ids where tx: "finalize_tx E f d = (d', Inr ids)" by blast
  have "dcp_ID (fpl_Decomposition f) \<in> dcp_ID ` set (decompositions d')"
    using spent_finalized [OF tx, of "dcp_ID (fpl_Decomposition f)"] by (simp add: spent_def)
  then obtain dc where "row_get dcp_ID (decompositions d') (dcp_ID (fpl_Decomposition f)) = Some dc"
    using row_get_None [of dcp_ID] by (metis not_None_eq)
  then have run: "commit_finalize E f d = (d', Inr (dc, ids))"
    by (simp add: commit_finalize_def tx in_tx_def GetDecompositionRow_def Let_def)
  have "spent (dcp_ID (fpl_Decomposition f)) (foldl decomp_step d' ops)"
    using decomposition_life.terminal_run [of "dcp_ID (fpl_Decomposition f)" d' ops] spent_finalized [OF tx, of "dcp_ID (fpl_Decomposition f)"] by simp
  then have "spent (dcp_ID (fpl_Decomposition (of_decomposition f g))) (foldl decomp_step d' ops)"
    by (simp add: of_decomposition_def)
  from spent_refuses [OF this] show ?thesis by (simp add: run)
next
  case False
  then show ?thesis
    by (auto simp: commit_finalize_def in_tx_def andThen_def split: sum.splits prod.splits)
qed

end
