(* ===== verification/Authz.thy ===== *)
theory Authz
  imports Storage Json
begin

text \<open>
  \<open>internal/authz\<close>: the default-deny decision function for capability-token operations, the
  caller's role and the append-only audit table. \<open>Operation\<close> and \<open>DenyReason\<close> are string
  types in Go and stay strings here.
\<close>

section \<open>Vocabulary\<close>

type_synonym operation = string

definition OpMint :: operation where "OpMint = ''mint''"
definition OpDelegate :: operation where "OpDelegate = ''delegate''"
definition OpRevoke :: operation where "OpRevoke = ''revoke''"
definition OpIntrospect :: operation where "OpIntrospect = ''introspect''"

lemmas op_defs = OpMint_def OpDelegate_def OpRevoke_def OpIntrospect_def

datatype deny_reason = ReasonAllowed | ReasonNotAuthenticated | ReasonCallerFrozen
  | ReasonEscrowFrozen | ReasonEscrowTerminal | ReasonCallerNotBuyer
  | ReasonCallerNotTokenHolder | ReasonNotAuthorizedToRevoke | ReasonEmergencyOverride

fun reason_str :: "deny_reason \<Rightarrow> string" where
  "reason_str ReasonAllowed = ''allowed''"
| "reason_str ReasonNotAuthenticated = ''caller_not_authenticated''"
| "reason_str ReasonCallerFrozen = ''caller_frozen''"
| "reason_str ReasonEscrowFrozen = ''escrow_frozen''"
| "reason_str ReasonEscrowTerminal = ''escrow_terminal''"
| "reason_str ReasonCallerNotBuyer = ''caller_not_buyer''"
| "reason_str ReasonCallerNotTokenHolder = ''caller_not_token_holder''"
| "reason_str ReasonNotAuthorizedToRevoke = ''caller_not_authorized_to_revoke''"
| "reason_str ReasonEmergencyOverride = ''emergency_override''"

datatype role = RoleBuyer | RoleWorker | RoleVerifier | RoleArbitrator | RoleBackup | RoleNone

fun role_str :: "role \<Rightarrow> string" where
  "role_str RoleBuyer = ''buyer''"
| "role_str RoleWorker = ''worker''"
| "role_str RoleVerifier = ''verifier''"
| "role_str RoleArbitrator = ''arbitrator''"
| "role_str RoleBackup = ''backup''"
| "role_str RoleNone = ''none''"

record principal =
  p_Address :: string
  p_Authenticated :: bool
  p_Frozen :: bool

record escrow_context =
  ec_EscrowID :: int
  ec_Buyer :: string
  ec_Worker :: string
  ec_Verifier :: string
  ec_Status :: string
  ec_Frozen :: bool

record token_context =
  tc_TokenID :: string
  tc_Issuer :: string
  tc_Subject :: string
  tc_EscrowID :: int

record authz_result =
  r_Allowed :: bool
  r_Reason :: deny_reason

definition Allow :: authz_result where
  "Allow = \<lparr>r_Allowed = True, r_Reason = ReasonAllowed\<rparr>"

definition Deny :: "deny_reason \<Rightarrow> authz_result" where
  "Deny r = \<lparr>r_Allowed = False, r_Reason = r\<rparr>"

text \<open>A context without a caller gives the zero principal.\<close>

definition CallerFrom :: "principal option \<Rightarrow> principal" where
  "CallerFrom c = (case c of Some p \<Rightarrow> p
     | None \<Rightarrow> \<lparr>p_Address = [], p_Authenticated = False, p_Frozen = False\<rparr>)"

definition RequestIDFrom :: "string option \<Rightarrow> string" where
  "RequestIDFrom r = (case r of Some s \<Rightarrow> s | None \<Rightarrow> [])"

section \<open>Decisions\<close>

definition isTerminal :: "string \<Rightarrow> bool" where
  "isTerminal status \<longleftrightarrow>
     ToLower (TrimSpace status) \<in> {''settled'', ''refunded'', ''cancelled'', ''resolved''}"

definition addressEq :: "string \<Rightarrow> string \<Rightarrow> bool" where
  "addressEq a b \<longleftrightarrow> EqualFold (TrimSpace a) (TrimSpace b)"

definition Authorize ::
    "operation \<Rightarrow> principal \<Rightarrow> escrow_context option \<Rightarrow> token_context option \<Rightarrow> authz_result" where
  "Authorize op p escrow token =
     (if op = OpIntrospect then Allow
      else if \<not> p_Authenticated p then Deny ReasonNotAuthenticated
      else if p_Frozen p then Deny ReasonCallerFrozen
      else case (case escrow of
                   None \<Rightarrow> None
                 | Some e \<Rightarrow>
                     if ec_Frozen e then Some (Deny ReasonEscrowFrozen)
                     else if isTerminal (ec_Status e) then Some (Deny ReasonEscrowTerminal)
                     else None) of
             Some r \<Rightarrow> r
           | None \<Rightarrow>
               if op = OpMint then
                 (case escrow of
                    None \<Rightarrow> Deny ReasonCallerNotBuyer
                  | Some e \<Rightarrow> if \<not> addressEq (p_Address p) (ec_Buyer e)
                             then Deny ReasonCallerNotBuyer else Allow)
               else if op = OpDelegate then
                 (case token of
                    None \<Rightarrow> Deny ReasonCallerNotTokenHolder
                  | Some t \<Rightarrow> if \<not> addressEq (p_Address p) (tc_Subject t)
                             then Deny ReasonCallerNotTokenHolder else Allow)
               else if op = OpRevoke then
                 (case token of
                    None \<Rightarrow> Deny ReasonNotAuthorizedToRevoke
                  | Some t \<Rightarrow>
                      if addressEq (p_Address p) (tc_Issuer t) then Allow
                      else case escrow of
                        None \<Rightarrow> Deny ReasonNotAuthorizedToRevoke
                      | Some e \<Rightarrow>
                          if addressEq (p_Address p) (ec_Buyer e) \<and> tc_EscrowID t = ec_EscrowID e
                          then Allow else Deny ReasonNotAuthorizedToRevoke)
               else Deny ReasonNotAuthenticated)"

definition ResolveRole :: "string \<Rightarrow> escrow_context option \<Rightarrow> role" where
  "ResolveRole address escrow =
     (case escrow of
        None \<Rightarrow> RoleNone
      | Some e \<Rightarrow>
          let addr = ToLower (TrimSpace address) in
          if addressEq addr (ec_Buyer e) then RoleBuyer
          else if addressEq addr (ec_Worker e) then RoleWorker
          else if addressEq addr (ec_Verifier e) then RoleVerifier
          else RoleNone)"

section \<open>Audit\<close>

record audit_entry =
  ae_Operation :: operation
  ae_Allowed :: bool
  ae_CallerAddress :: string
  ae_EscrowID :: int
  ae_TokenID :: string
  ae_ParentTokenID :: string
  ae_Reason :: deny_reason
  ae_RequestID :: string
  ae_Metadata :: "(string \<times> string) list"

definition LogAuthzDecision :: "int \<Rightarrow> audit_entry \<Rightarrow> db \<Rightarrow> db" where
  "LogAuthzDecision now e d =
     d\<lparr>dct_audit := row_add
         \<lparr>aud_ID = next_id aud_ID (dct_audit d), aud_Timestamp = now,
          aud_Operation = ae_Operation e, aud_Allowed = ae_Allowed e,
          aud_CallerAddress = ae_CallerAddress e, aud_EscrowID = ae_EscrowID e,
          aud_TokenID = ae_TokenID e, aud_ParentTokenID = ae_ParentTokenID e,
          aud_Reason = reason_str (ae_Reason e), aud_RequestID = ae_RequestID e,
          aud_Metadata = (if ae_Metadata e = [] then [] else marshal_object (ae_Metadata e))\<rparr>
         (dct_audit d)\<rparr>"

definition defaultAuditLimit :: int where "defaultAuditLimit = 50"
definition maxAuditLimit :: int where "maxAuditLimit = 1000"

definition ListAuthzAudit :: "db \<Rightarrow> int \<Rightarrow> int \<Rightarrow> int \<Rightarrow> audit_record list" where
  "ListAuthzAudit d escrowID limit offset =
     (let limit = (if limit \<le> 0 then defaultAuditLimit else limit);
          limit = (if limit > maxAuditLimit then maxAuditLimit else limit);
          offset = (if offset < 0 then 0 else offset);
          rows = rev (if escrowID > 0 then filter (\<lambda>r. aud_EscrowID r = escrowID) (dct_audit d)
                      else dct_audit d)
      in take (nat limit) (drop (nat offset) rows))"

section \<open>Lemmas\<close>

lemma result_simps [simp]:
  "r_Allowed Allow" "r_Reason Allow = ReasonAllowed"
  "\<not> r_Allowed (Deny r)" "r_Reason (Deny r) = r"
  by (simp_all add: Allow_def Deny_def)

lemma addressEq_refl [simp]: "addressEq a a"
  by (simp add: addressEq_def)

lemma addressEq_sym: "addressEq a b \<Longrightarrow> addressEq b a"
  by (simp add: addressEq_def EqualFold_sym)

lemma addressEq_trans: "addressEq a b \<Longrightarrow> addressEq b c \<Longrightarrow> addressEq a c"
  by (auto simp: addressEq_def intro: EqualFold_trans)

lemma op_distinct [simp]:
  "OpMint \<noteq> OpDelegate" "OpMint \<noteq> OpRevoke" "OpMint \<noteq> OpIntrospect"
  "OpDelegate \<noteq> OpMint" "OpDelegate \<noteq> OpRevoke" "OpDelegate \<noteq> OpIntrospect"
  "OpRevoke \<noteq> OpMint" "OpRevoke \<noteq> OpDelegate" "OpRevoke \<noteq> OpIntrospect"
  "OpIntrospect \<noteq> OpMint" "OpIntrospect \<noteq> OpDelegate" "OpIntrospect \<noteq> OpRevoke"
  by (simp_all add: op_defs)

definition live_context :: "escrow_context \<Rightarrow> bool" where
  "live_context e \<longleftrightarrow> \<not> ec_Frozen e \<and> \<not> isTerminal (ec_Status e)"

lemma Authorize_mint:
  "r_Allowed (Authorize OpMint p escrow token) \<longleftrightarrow>
     p_Authenticated p \<and> \<not> p_Frozen p
     \<and> (\<exists>e. escrow = Some e \<and> live_context e \<and> addressEq (p_Address p) (ec_Buyer e))"
  by (auto simp: Authorize_def live_context_def split: option.splits)

lemma Authorize_delegate:
  "r_Allowed (Authorize OpDelegate p escrow token) \<longleftrightarrow>
     p_Authenticated p \<and> \<not> p_Frozen p \<and> (\<forall>e. escrow = Some e \<longrightarrow> live_context e)
     \<and> (\<exists>t. token = Some t \<and> addressEq (p_Address p) (tc_Subject t))"
  by (auto simp: Authorize_def live_context_def split: option.splits)

lemma Authorize_revoke:
  "r_Allowed (Authorize OpRevoke p escrow token) \<longleftrightarrow>
     p_Authenticated p \<and> \<not> p_Frozen p \<and> (\<forall>e. escrow = Some e \<longrightarrow> live_context e)
     \<and> (\<exists>t. token = Some t
          \<and> (addressEq (p_Address p) (tc_Issuer t)
             \<or> (\<exists>e. escrow = Some e \<and> addressEq (p_Address p) (ec_Buyer e)
                  \<and> tc_EscrowID t = ec_EscrowID e)))"
  by (auto simp: Authorize_def live_context_def split: option.splits)

lemmas authorize_iff = Authorize_mint Authorize_delegate Authorize_revoke

lemma Authorize_introspect [simp]: "Authorize OpIntrospect p escrow token = Allow"
  by (simp add: Authorize_def)

lemma Authorize_other:
  "op \<notin> {OpMint, OpDelegate, OpRevoke, OpIntrospect} \<Longrightarrow> \<not> r_Allowed (Authorize op p escrow token)"
  by (auto simp: Authorize_def split: option.splits)

lemma LogAuthzDecision_frame [simp, frame]:
  "escrows (LogAuthzDecision now e d) = escrows d"
  "dct_tokens (LogAuthzDecision now e d) = dct_tokens d"
  by (simp_all add: LogAuthzDecision_def)

lemmas audit_limits = defaultAuditLimit_def maxAuditLimit_def

section \<open>Properties\<close>

text \<open>C6: \<open>Authorize\<close> is default-deny. It allows introspection for anyone, and otherwise only
  an authenticated, unfrozen caller: minting to the buyer of a live escrow, delegation to the
  subject of the token, revocation to the issuer of the token or to the buyer of the escrow
  the token is scoped to, the last two unless the escrow is frozen or terminal; every other
  operation name is denied. It allows with the reason \<open>allowed\<close> and never denies with it.\<close>

theorem Authorize_policy:
  "(r_Allowed (Authorize op p escrow token) \<longleftrightarrow>
      op = OpIntrospect
      \<or> p_Authenticated p \<and> \<not> p_Frozen p \<and> (case escrow of None \<Rightarrow> True | Some e \<Rightarrow> live_context e)
        \<and> (op = OpMint \<and> (case escrow of None \<Rightarrow> False
                                        | Some e \<Rightarrow> addressEq (p_Address p) (ec_Buyer e))
           \<or> op = OpDelegate \<and> (case token of None \<Rightarrow> False
                                        | Some t \<Rightarrow> addressEq (p_Address p) (tc_Subject t))
           \<or> op = OpRevoke \<and> (case token of None \<Rightarrow> False
                 | Some t \<Rightarrow> addressEq (p_Address p) (tc_Issuer t)
                     \<or> (case escrow of None \<Rightarrow> False
                        | Some e \<Rightarrow> addressEq (p_Address p) (ec_Buyer e)
                                    \<and> tc_EscrowID t = ec_EscrowID e))))
   \<and> (r_Allowed (Authorize op p escrow token) \<longleftrightarrow>
        r_Reason (Authorize op p escrow token) = ReasonAllowed)"
  unfolding Authorize_def live_context_def
  by (simp split: option.splits)

text \<open>The audit listing is a page of the table, newest decision first: its length never
  exceeds the page limit of 1000, it holds only decisions of the table (on the escrow asked
  for, when one is), and a decision just logged for that escrow is the first row of the first
  page.\<close>

theorem ListAuthzAudit_page:
  "length (ListAuthzAudit d i limit offset) \<le> 1000
   \<and> set (ListAuthzAudit d i limit offset) \<subseteq> {r \<in> set (dct_audit d). i \<le> 0 \<or> aud_EscrowID r = i}
   \<and> (\<exists>r rest. ListAuthzAudit (LogAuthzDecision now e d) (ae_EscrowID e) limit 0 = r # rest
        \<and> aud_Operation r = ae_Operation e \<and> aud_Allowed r = ae_Allowed e
        \<and> aud_CallerAddress r = ae_CallerAddress e \<and> aud_EscrowID r = ae_EscrowID e)"
proof (intro conjI)
  show "length (ListAuthzAudit d i limit offset) \<le> 1000"
    by (simp add: ListAuthzAudit_def Let_def audit_limits min.coboundedI2)
  show "set (ListAuthzAudit d i limit offset) \<subseteq> {r \<in> set (dct_audit d). i \<le> 0 \<or> aud_EscrowID r = i}"
    by (auto simp: ListAuthzAudit_def Let_def dest!: in_set_takeD in_set_dropD split: if_splits)
  show "\<exists>r rest. ListAuthzAudit (LogAuthzDecision now e d) (ae_EscrowID e) limit 0 = r # rest
        \<and> aud_Operation r = ae_Operation e \<and> aud_Allowed r = ae_Allowed e
        \<and> aud_CallerAddress r = ae_CallerAddress e \<and> aud_EscrowID r = ae_EscrowID e"
    unfolding ListAuthzAudit_def LogAuthzDecision_def Let_def audit_limits
    by (simp add: row_add_def take_Cons')
qed

end
