(* ===== verification/Dct.thy ===== *)
theory Dct
  imports Authz Numconv
begin

text \<open>
  \<open>internal/dct/service.go\<close>: Delegation Capability Tokens. A root token is minted by the
  buyer of an escrow, the subject of a token delegates a strictly weaker one, and
  introspection walks the chain of parents. The loop of \<open>validateChain\<close> is a recursion whose
  termination measure is the number of tokens not yet seen, so it ends on cyclic data too.
  The last sections hold the lineage invariant of the token table under every operation that
  writes it, and the properties.
\<close>

section \<open>Scopes\<close>

definition CanonicalProfile :: string where "CanonicalProfile = ''dct-profile-v1''"

definition ReasonExpired :: string where "ReasonExpired = ''expired''"
definition ReasonAncestorExpired :: string where "ReasonAncestorExpired = ''ancestor_expired''"
definition ReasonFrozen :: string where "ReasonFrozen = ''escrow_frozen''"
definition ReasonEscrowTerminalOrInactive :: string where
  "ReasonEscrowTerminalOrInactive = ''escrow_terminal_or_inactive''"

lemmas reason_defs = ReasonExpired_def ReasonAncestorExpired_def ReasonFrozen_def
  ReasonEscrowTerminalOrInactive_def

fun canon_loop :: "string list \<Rightarrow> string list \<Rightarrow> string list" where
  "canon_loop seen [] = []"
| "canon_loop seen (item # items) =
     (let v = TrimSpace (ToLower item) in
      if v = [] then canon_loop seen items
      else if v \<in> set seen then canon_loop seen items
      else v # canon_loop (v # seen) items)"

definition canonicalize :: "string list \<Rightarrow> string list" where
  "canonicalize items = sort (canon_loop [] items)"

fun dedup_loop :: "string list \<Rightarrow> string list \<Rightarrow> string list" where
  "dedup_loop seen [] = []"
| "dedup_loop seen (r # rs) =
     (if r \<in> set seen then dedup_loop seen rs else r # dedup_loop (r # seen) rs)"

definition dedupSortReasons :: "string list \<Rightarrow> string list" where
  "dedupSortReasons reasons = sort (dedup_loop [] reasons)"

definition toJSON :: "string list \<Rightarrow> string" where
  "toJSON items = marshal_strings (canonicalize items)"

definition fromJSON :: "string \<Rightarrow> gerr + string list" where
  "fromJSON raw =
     (case unmarshal_strings raw of
        None \<Rightarrow> Inl (errors_New ''json: cannot unmarshal'')
      | Some out \<Rightarrow> Inr (canonicalize out))"

definition canonicalCaveatsJSON :: "string list \<Rightarrow> string list \<Rightarrow> int \<Rightarrow> string" where
  "canonicalCaveatsJSON ops resources expiresAt =
     marshal_strings
       (map (\<lambda>op. ''op='' @ op) (canonicalize ops)
        @ map (\<lambda>r. ''res='' @ r) (canonicalize resources)
        @ [''exp<='' @ int_str expiresAt])"

definition isSubset :: "string list \<Rightarrow> string list \<Rightarrow> bool" where
  "isSubset xs ys = (if length xs > length ys then False else list_all (\<lambda>v. v \<in> set ys) xs)"

section \<open>Identifiers and secrets\<close>

definition b64_char :: "nat \<Rightarrow> char" where
  "b64_char n =
     (if n < 26 then char_of (65 + n) else if n < 52 then char_of (71 + n)
      else if n < 62 then char_of (n - 4) else if n = 62 then CHR ''-'' else CHR ''_'')"

text \<open>\<open>base64.RawURLEncoding\<close>.\<close>

fun RawURLEncoding :: "byte list \<Rightarrow> string" where
  "RawURLEncoding [] = []"
| "RawURLEncoding [a] = [b64_char (unat a div 4), b64_char (unat a mod 4 * 16)]"
| "RawURLEncoding [a, b] =
     [b64_char (unat a div 4), b64_char (unat a mod 4 * 16 + unat b div 16),
      b64_char (unat b mod 16 * 4)]"
| "RawURLEncoding (a # b # c # r) =
     b64_char (unat a div 4) # b64_char (unat a mod 4 * 16 + unat b div 16)
     # b64_char (unat b mod 16 * 4 + unat c div 64) # b64_char (unat c mod 64) # RawURLEncoding r"

text \<open>
  What a call of the service depends on besides the database: the caller and request id of
  its context, Go's clock (read once per call) and SQLite's, the audit sink (absent, working
  or failing with an error), the bytes \<open>rand.Read\<close> delivers for the secret and for the
  identifier (\<open>None\<close> when it fails), SHA-256 in hexadecimal (a parameter), and the
  configured owner.
\<close>

datatype audit_sink = NoSink | SinkOk | SinkFails gerr

record dct_env =
  dv_caller :: "principal option"
  dv_request :: "string option"
  dv_now :: int
  dv_dbnow :: int
  dv_audit :: audit_sink
  dv_secret :: "byte list option"
  dv_id :: "byte list option"
  dv_hash :: "string \<Rightarrow> string"
  dv_owner :: string

definition rand_err :: gerr where "rand_err = errors_New ''crypto/rand''"

definition randomID :: "string \<Rightarrow> byte list option \<Rightarrow> gerr + string" where
  "randomID prefix r1 = (case r1 of None \<Rightarrow> Inl rand_err | Some bs \<Rightarrow> Inr (prefix @ EncodeToString bs))"

definition randomSecret :: "byte list option \<Rightarrow> gerr + string" where
  "randomSecret r1 = (case r1 of None \<Rightarrow> Inl rand_err | Some bs \<Rightarrow> Inr (RawURLEncoding bs))"

definition parsePresentedToken :: "string \<Rightarrow> gerr + string \<times> string" where
  "parsePresentedToken token =
     (case Split (CHR ''.'') token of
        [a, b] \<Rightarrow> if blank a \<or> blank b then Inl (errors_New ''invalid token format'') else Inr (a, b)
      | _ \<Rightarrow> Inl (errors_New ''invalid token format''))"

definition firstNonEmpty :: "string list \<Rightarrow> string" where
  "firstNonEmpty values1 = (case find (\<lambda>v. \<not> blank v) values1 of None \<Rightarrow> [] | Some v \<Rightarrow> v)"

section \<open>Errors\<close>

definition ErrInvalidAttenuation :: gerr where
  "ErrInvalidAttenuation = Sentinel ''dct.ErrInvalidAttenuation'' ''delegation must strictly attenuate parent token''"
definition ErrExpiredToken :: gerr where
  "ErrExpiredToken = Sentinel ''dct.ErrExpiredToken'' ''token is expired''"
definition ErrRevokedToken :: gerr where
  "ErrRevokedToken = Sentinel ''dct.ErrRevokedToken'' ''token is revoked''"
definition ErrInactiveEscrow :: gerr where
  "ErrInactiveEscrow = Sentinel ''dct.ErrInactiveEscrow'' ''escrow is inactive for dct operations''"
definition ErrUnauthorized :: gerr where
  "ErrUnauthorized = Sentinel ''dct.ErrUnauthorized'' ''authorization denied''"
definition ErrInternal :: gerr where
  "ErrInternal = Sentinel ''dct.ErrInternal'' ''internal error''"

lemmas dct_errors = ErrInvalidAttenuation_def ErrExpiredToken_def ErrRevokedToken_def
  ErrInactiveEscrow_def ErrUnauthorized_def ErrInternal_def ErrNoRows_def

definition wrapInternal :: "string \<Rightarrow> gerr \<Rightarrow> gerr" where
  "wrapInternal op e = errors_Join ErrInternal (wrap op e)"

definition IsNotFound :: "gerr \<Rightarrow> bool" where "IsNotFound e = errors_is e ErrNoRows"
definition IsUnauthorized :: "gerr \<Rightarrow> bool" where "IsUnauthorized e = errors_is e ErrUnauthorized"

section \<open>Contexts and audit\<close>

definition escrowContext :: "escrow \<Rightarrow> escrow_context" where
  "escrowContext e = \<lparr>ec_EscrowID = esc_ID e, ec_Buyer = esc_Buyer e, ec_Worker = esc_Worker e,
     ec_Verifier = esc_Verifier e, ec_Status = esc_Status e, ec_Frozen = esc_Frozen e\<rparr>"

definition tokenContext :: "dct_token \<Rightarrow> token_context" where
  "tokenContext t = \<lparr>tc_TokenID = dct_TokenID t, tc_Issuer = dct_Issuer t,
     tc_Subject = dct_Subject t, tc_EscrowID = dct_EscrowID t\<rparr>"

definition logAudit :: "dct_env \<Rightarrow> audit_entry \<Rightarrow> db \<Rightarrow> unit result" where
  "logAudit env e d =
     (case dv_audit env of
        NoSink \<Rightarrow> (d, Inr ())
      | SinkOk \<Rightarrow> (LogAuthzDecision (dv_dbnow env) e d, Inr ())
      | SinkFails x \<Rightarrow> (d, Inl (wrap ''audit log write'' (wrap ''authz audit log'' x))))"

definition isEscrowInactive :: "escrow \<Rightarrow> bool" where
  "isEscrowInactive e =
     (if esc_Frozen e then True
      else ToLower (TrimSpace (esc_Status e)) \<in> {''settled'', ''refunded'', ''cancelled'', ''resolved''})"

section \<open>Mint\<close>

record mint_params =
  mp_EscrowID :: int
  mp_Subject :: string
  mp_Issuer :: string
  mp_Operations :: "string list"
  mp_Resources :: "string list"
  mp_ExpiresAt :: int

definition validateMintInput :: "mint_params \<Rightarrow> gerr option" where
  "validateMintInput p =
     (if mp_EscrowID p \<le> 0 then Some (errors_New ''escrow_id must be > 0'')
      else if blank (mp_Subject p) then Some (errors_New ''subject is required'')
      else if length (canonicalize (mp_Operations p)) = 0
      then Some (errors_New ''operations must be non-empty'')
      else if length (canonicalize (mp_Resources p)) = 0
      then Some (errors_New ''resources must be non-empty'')
      else if mp_ExpiresAt p \<le> 0 then Some (errors_New ''expires_at must be a unix timestamp'')
      else None)"

definition new_token ::
    "string \<Rightarrow> string \<Rightarrow> string \<Rightarrow> int \<Rightarrow> string \<Rightarrow> string \<Rightarrow> string list \<Rightarrow> string list \<Rightarrow> int \<Rightarrow> int
     \<Rightarrow> dct_token" where
  "new_token tokenID tokenHash parent escrowID subject issuer ops resources depth expiresAt =
     \<lparr>dct_ID = 0, dct_TokenID = tokenID, dct_TokenHash = tokenHash, dct_ParentTokenID = parent,
      dct_EscrowID = escrowID, dct_Subject = subject, dct_Issuer = issuer,
      dct_OperationsJSON = toJSON ops, dct_ResourcesJSON = toJSON resources,
      dct_Profile = CanonicalProfile, dct_CaveatsJSON = canonicalCaveatsJSON ops resources expiresAt,
      dct_Depth = depth, dct_ExpiresAt = expiresAt, dct_RevokedAt = None,
      dct_RevocationReason = [], dct_RevokedBy = [], dct_CreatedAt = 0, dct_UpdatedAt = 0\<rparr>"

definition mint_entry :: "dct_env \<Rightarrow> mint_params \<Rightarrow> escrow \<Rightarrow> authz_result \<Rightarrow> audit_entry" where
  "mint_entry env p escrow result =
     (let caller = CallerFrom (dv_caller env) in
      \<lparr>ae_Operation = OpMint, ae_Allowed = r_Allowed result,
       ae_CallerAddress = p_Address caller, ae_EscrowID = mp_EscrowID p, ae_TokenID = [],
       ae_ParentTokenID = [], ae_Reason = r_Reason result,
       ae_RequestID = RequestIDFrom (dv_request env),
       ae_Metadata = [(''subject'', mp_Subject p),
         (''caller_role'', role_str (ResolveRole (p_Address caller) (Some (escrowContext escrow))))]\<rparr>)"

definition minted :: "dct_env \<Rightarrow> mint_params \<Rightarrow> string \<Rightarrow> string \<Rightarrow> dct_token" where
  "minted env p tokenID secret =
     (let ops = canonicalize (mp_Operations p); resources = canonicalize (mp_Resources p) in
      new_token tokenID (dv_hash env secret) [] (mp_EscrowID p) (ToLower (mp_Subject p))
        (ToLower (firstNonEmpty [mp_Issuer p, mp_Subject p])) ops resources 0 (mp_ExpiresAt p))"

definition Mint :: "dct_env \<Rightarrow> mint_params \<Rightarrow> db \<Rightarrow> (dct_token \<times> string) result" where
  "Mint env p d =
     (case validateMintInput p of
        Some e \<Rightarrow> (d, Inl e)
      | None \<Rightarrow>
          orFail d (wrap ''escrow lookup'') (GetEscrow d (mp_EscrowID p)) (\<lambda>escrow.
          let result = Authorize OpMint (CallerFrom (dv_caller env)) (Some (escrowContext escrow)) None in
          andThen (mapErr (wrapInternal ''audit mint authorization decision'')
                     (logAudit env (mint_entry env p escrow result) d)) (\<lambda>d1 _.
          if \<not> r_Allowed result
          then (d1, Inl (detail ErrUnauthorized (reason_str (r_Reason result))))
          else if isEscrowInactive escrow then (d1, Inl ErrInactiveEscrow)
          else if mp_ExpiresAt p \<le> dv_now env then (d1, Inl ErrExpiredToken)
          else
            orFail d1 id (randomSecret (dv_secret env)) (\<lambda>secret.
            orFail d1 id (randomID ''dct_'' (dv_id env)) (\<lambda>tokenID.
            andThen (CreateDCTToken (dv_dbnow env) (minted env p tokenID secret) d1) (\<lambda>d2 rec.
              (d2, Inr (rec, tokenID @ ''.'' @ secret))))))))"

section \<open>Introspection\<close>

definition scope_reasons :: "dct_token \<Rightarrow> dct_token \<Rightarrow> gerr + string list" where
  "scope_reasons current parent =
     (case fromJSON (dct_OperationsJSON current) of Inl e \<Rightarrow> Inl (wrap ''decode operations'' e)
      | Inr currentOps \<Rightarrow>
     (case fromJSON (dct_OperationsJSON parent) of Inl e \<Rightarrow> Inl (wrap ''decode parent operations'' e)
      | Inr parentOps \<Rightarrow>
     (case fromJSON (dct_ResourcesJSON current) of Inl e \<Rightarrow> Inl (wrap ''decode resources'' e)
      | Inr currentResources \<Rightarrow>
     (case fromJSON (dct_ResourcesJSON parent) of Inl e \<Rightarrow> Inl (wrap ''decode parent resources'' e)
      | Inr parentResources \<Rightarrow>
          Inr (if \<not> isSubset currentOps parentOps \<or> \<not> isSubset currentResources parentResources
               then [''lineage_scope_violation''] else [])))))"

text \<open>The body of the loop: the reasons one link of the chain adds.\<close>

definition link_reasons :: "int \<Rightarrow> dct_token \<Rightarrow> dct_token \<Rightarrow> gerr + string list" where
  "link_reasons now current parent =
     (let rs =
        (if dct_Profile parent \<noteq> CanonicalProfile then [''ancestor_non_canonical_profile''] else [])
        @ (if dct_RevokedAt parent \<noteq> None then [''ancestor_revoked''] else [])
        @ (if dct_ExpiresAt parent \<le> now then [ReasonAncestorExpired] else [])
        @ (if dct_EscrowID current \<noteq> dct_EscrowID parent then [''lineage_escrow_mismatch''] else [])
        @ (if \<not> EqualFold (dct_Issuer current) (dct_Subject parent)
           then [''lineage_issuer_subject_mismatch''] else [])
        @ (if dct_ExpiresAt current > dct_ExpiresAt parent then [''lineage_expiry_violation''] else [])
      in case scope_reasons current parent of Inl e \<Rightarrow> Inl e | Inr srs \<Rightarrow> Inr (rs @ srs))"

definition token_ids :: "db \<Rightarrow> string set" where
  "token_ids d = dct_TokenID ` set (dct_tokens d)"

lemma GetDCTTokenByTokenID_in_ids:
  "GetDCTTokenByTokenID d k = Inr t \<Longrightarrow> dct_TokenID t = k \<and> k \<in> token_ids d"
  by (auto simp: GetDCTTokenByTokenID_def token_ids_def dest!: row_get_Some)

lemma card_diff_insert:
  "finite A \<Longrightarrow> x \<in> A \<Longrightarrow> x \<notin> B \<Longrightarrow> card (A - insert x B) < card (A - B)"
  by (rule psubset_card_mono) auto

function chain_loop :: "int \<Rightarrow> db \<Rightarrow> string list \<Rightarrow> dct_token \<Rightarrow> gerr + string list" where
  "chain_loop now d seen current =
     (if dct_ParentTokenID current = [] then Inr []
      else case GetDCTTokenByTokenID d (dct_ParentTokenID current) of
        Inl e \<Rightarrow> if errors_is e ErrNoRows then Inr [''missing_ancestor''] else Inl e
      | Inr parent \<Rightarrow>
          if dct_TokenID parent \<in> set seen then Inr [''lineage_cycle'']
          else case link_reasons now current parent of
            Inl e \<Rightarrow> Inl e
          | Inr rs \<Rightarrow>
              (case chain_loop now d (dct_TokenID parent # seen) parent of
                 Inl e \<Rightarrow> Inl e
               | Inr rs' \<Rightarrow> Inr (rs @ rs')))"
  by pat_completeness auto

termination
proof (relation "measure (\<lambda>(now, d, seen, current). card (token_ids d - set seen))")
  fix now :: int and d seen rs and current parent :: dct_token
  assume "GetDCTTokenByTokenID d (dct_ParentTokenID current) = Inr parent"
    and "dct_TokenID parent \<notin> set seen"
  moreover from this(1) have "dct_TokenID parent \<in> token_ids d"
    by (auto dest: GetDCTTokenByTokenID_in_ids)
  moreover have "finite (token_ids d)" by (simp add: token_ids_def)
  ultimately show "((now, d, dct_TokenID parent # seen, parent), now, d, seen, current)
      \<in> measure (\<lambda>(now, d, seen, current). card (token_ids d - set seen))"
    by (simp add: card_diff_insert del: card_Diff_insert)
qed auto

declare chain_loop.simps [simp del]

definition validateChain :: "int \<Rightarrow> db \<Rightarrow> dct_token \<Rightarrow> gerr + string list" where
  "validateChain now d leaf =
     (case GetEscrow d (dct_EscrowID leaf) of Inl e \<Rightarrow> Inl e
      | Inr escrow \<Rightarrow>
        let reasons =
          (if dct_Profile leaf \<noteq> CanonicalProfile then [''non_canonical_profile''] else [])
          @ (if esc_Frozen escrow then [ReasonFrozen]
             else if isEscrowInactive escrow then [ReasonEscrowTerminalOrInactive] else [])
        in (case chain_loop now d [dct_TokenID leaf] leaf of
              Inl e \<Rightarrow> Inl e
            | Inr rs \<Rightarrow> Inr (dedupSortReasons (reasons @ rs))))"

definition Introspect :: "dct_env \<Rightarrow> db \<Rightarrow> string \<Rightarrow> gerr + dct_token \<times> bool \<times> string list" where
  "Introspect env d presented =
     (case parsePresentedToken presented of Inl e \<Rightarrow> Inl e
      | Inr (tokenID, secret) \<Rightarrow>
     (case GetDCTTokenByTokenID d tokenID of Inl e \<Rightarrow> Inl e
      | Inr rec \<Rightarrow>
        if dct_TokenHash rec \<noteq> dv_hash env secret
        then Inl (errors_New ''token verification failed'')
        else
          let reasons =
            (if dct_RevokedAt rec \<noteq> None then [''revoked''] else [])
            @ (if dct_ExpiresAt rec \<le> dv_now env then [ReasonExpired] else [])
          in (case validateChain (dv_now env) d rec of
                Inl e \<Rightarrow> Inl e
              | Inr chainReasons \<Rightarrow>
                  let reasons = dedupSortReasons (reasons @ chainReasons)
                  in Inr (rec, reasons = [], reasons))))"

section \<open>Delegate\<close>

record delegate_params =
  dp_ParentToken :: string
  dp_Subject :: string
  dp_Issuer :: string
  dp_Operations :: "string list"
  dp_Resources :: "string list"
  dp_ExpiresAt :: int

definition strictAttenuation ::
    "string list \<Rightarrow> string list \<Rightarrow> string list \<Rightarrow> string list \<Rightarrow> int \<Rightarrow> int \<Rightarrow> bool" where
  "strictAttenuation childOps parentOps childResources parentResources childExpiry parentExpiry =
     (if \<not> isSubset childOps parentOps \<or> \<not> isSubset childResources parentResources
         \<or> childExpiry > parentExpiry
      then False
      else length childOps < length parentOps \<or> length childResources < length parentResources
           \<or> childExpiry < parentExpiry)"

definition inactive_err :: "string list \<Rightarrow> gerr" where
  "inactive_err reasons =
     (if ReasonExpired \<in> set reasons \<or> ReasonAncestorExpired \<in> set reasons then ErrExpiredToken
      else if ReasonFrozen \<in> set reasons \<or> ReasonEscrowTerminalOrInactive \<in> set reasons
      then ErrInactiveEscrow
      else ErrRevokedToken)"

text \<open>The checks on the requested scope, in the order of the code.\<close>

definition check_delegate ::
    "dct_env \<Rightarrow> delegate_params \<Rightarrow> dct_token \<Rightarrow> bool \<Rightarrow> string list \<Rightarrow> gerr option" where
  "check_delegate env p parent parentActive reasons =
     (if \<not> parentActive then Some (inactive_err reasons)
      else if blank (dp_Subject p) then Some (errors_New ''subject is required'')
      else
     (case fromJSON (dct_OperationsJSON parent) of Inl e \<Rightarrow> Some (wrap ''parent operations decode'' e)
      | Inr parentOps \<Rightarrow>
     (case fromJSON (dct_ResourcesJSON parent) of Inl e \<Rightarrow> Some (wrap ''parent resources decode'' e)
      | Inr parentResources \<Rightarrow>
        let ops = canonicalize (dp_Operations p); resources = canonicalize (dp_Resources p) in
        if length ops = 0 \<or> length resources = 0
        then Some (errors_New ''operations/resources must be non-empty'')
        else if dp_ExpiresAt p \<le> dv_now env then Some ErrInvalidAttenuation
        else if \<not> strictAttenuation ops parentOps resources parentResources
                   (dp_ExpiresAt p) (dct_ExpiresAt parent)
        then Some ErrInvalidAttenuation
        else None)))"

definition delegate_entry :: "dct_env \<Rightarrow> delegate_params \<Rightarrow> dct_token \<Rightarrow> authz_result \<Rightarrow> audit_entry" where
  "delegate_entry env p parent result =
     \<lparr>ae_Operation = OpDelegate, ae_Allowed = r_Allowed result,
      ae_CallerAddress = p_Address (CallerFrom (dv_caller env)), ae_EscrowID = dct_EscrowID parent,
      ae_TokenID = [], ae_ParentTokenID = dct_TokenID parent, ae_Reason = r_Reason result,
      ae_RequestID = RequestIDFrom (dv_request env), ae_Metadata = [(''subject'', dp_Subject p)]\<rparr>"

definition delegated :: "dct_env \<Rightarrow> delegate_params \<Rightarrow> dct_token \<Rightarrow> string \<Rightarrow> string \<Rightarrow> dct_token" where
  "delegated env p parent tokenID secret =
     (let ops = canonicalize (dp_Operations p); resources = canonicalize (dp_Resources p);
          issuer = ToLower (firstNonEmpty [dp_Issuer p, dct_Subject parent]) in
      new_token tokenID (dv_hash env secret) (dct_TokenID parent) (dct_EscrowID parent)
        (ToLower (dp_Subject p)) issuer ops resources (dct_Depth parent + 1) (dp_ExpiresAt p))"

definition Delegate :: "dct_env \<Rightarrow> delegate_params \<Rightarrow> db \<Rightarrow> (dct_token \<times> string) result" where
  "Delegate env p d =
     orFail d id (Introspect env d (dp_ParentToken p)) (\<lambda>(parent, parentActive, reasons).
     orFail d (wrapInternal ''get escrow for delegate authorization'')
       (GetEscrow d (dct_EscrowID parent)) (\<lambda>escrow.
     let result = Authorize OpDelegate (CallerFrom (dv_caller env)) (Some (escrowContext escrow))
                    (Some (tokenContext parent)) in
     andThen (mapErr (wrapInternal ''audit delegate authorization decision'')
                (logAudit env (delegate_entry env p parent result) d)) (\<lambda>d1 _.
     if \<not> r_Allowed result
     then (d1, Inl (detail ErrUnauthorized (reason_str (r_Reason result))))
     else case check_delegate env p parent parentActive reasons of
       Some e \<Rightarrow> (d1, Inl e)
     | None \<Rightarrow>
         orFail d1 id (randomSecret (dv_secret env)) (\<lambda>secret.
         orFail d1 id (randomID ''dct_'' (dv_id env)) (\<lambda>tokenID.
         andThen (CreateDCTToken (dv_dbnow env) (delegated env p parent tokenID secret) d1) (\<lambda>d2 rec.
           (d2, Inr (rec, tokenID @ ''.'' @ secret))))))))"

section \<open>Revocation and emergency override\<close>

record revoke_params =
  rp_TokenID :: string
  rp_Reason :: string
  rp_By :: string

definition revoke_entry :: "dct_env \<Rightarrow> revoke_params \<Rightarrow> dct_token \<Rightarrow> authz_result \<Rightarrow> audit_entry" where
  "revoke_entry env p token result =
     \<lparr>ae_Operation = OpRevoke, ae_Allowed = r_Allowed result,
      ae_CallerAddress = p_Address (CallerFrom (dv_caller env)), ae_EscrowID = dct_EscrowID token,
      ae_TokenID = rp_TokenID p, ae_ParentTokenID = [], ae_Reason = r_Reason result,
      ae_RequestID = RequestIDFrom (dv_request env), ae_Metadata = []\<rparr>"

definition Revoke :: "dct_env \<Rightarrow> revoke_params \<Rightarrow> db \<Rightarrow> unit result" where
  "Revoke env p d =
     (if blank (rp_TokenID p) then (d, Inl (errors_New ''token_id is required''))
      else
        orFail d id (GetDCTTokenByTokenID d (rp_TokenID p)) (\<lambda>token.
        orFail d (wrapInternal ''escrow lookup for revoke'') (GetEscrow d (dct_EscrowID token)) (\<lambda>escrow.
        let result = Authorize OpRevoke (CallerFrom (dv_caller env)) (Some (escrowContext escrow))
                       (Some (tokenContext token)) in
        andThen (mapErr (wrapInternal ''audit revoke authorization decision'')
                   (logAudit env (revoke_entry env p token result) d)) (\<lambda>d1 _.
        if \<not> r_Allowed result
        then (d1, Inl (detail ErrUnauthorized (reason_str (r_Reason result))))
        else RevokeDCTToken (dv_dbnow env) (rp_TokenID p) (firstNonEmpty [rp_Reason p, ''revoked''])
               (firstNonEmpty [rp_By p, ''manual'']) d1))))"

definition RevokeByEscrow :: "dct_env \<Rightarrow> int \<Rightarrow> string \<Rightarrow> string \<Rightarrow> db \<Rightarrow> db \<times> nat" where
  "RevokeByEscrow env escrowID reason rb d =
     RevokeDCTTokensByEscrow (dv_dbnow env) escrowID reason rb d"

record override_params =
  op_EscrowID :: int
  op_Operation :: string
  op_CallerAddress :: string
  op_Reason :: string
  op_OwnerAddress :: string

definition override_entry :: "dct_env \<Rightarrow> override_params \<Rightarrow> bool \<Rightarrow> deny_reason \<Rightarrow> audit_entry" where
  "override_entry env p allowed reason =
     \<lparr>ae_Operation = ''emergency_override'', ae_Allowed = allowed,
      ae_CallerAddress = p_Address (CallerFrom (dv_caller env)), ae_EscrowID = op_EscrowID p,
      ae_TokenID = [], ae_ParentTokenID = [], ae_Reason = reason,
      ae_RequestID = RequestIDFrom (dv_request env),
      ae_Metadata = [(''target_operation'', op_Operation p),
        (''target_caller'', op_CallerAddress p), (''override_reason'', op_Reason p)]\<rparr>"

definition EmergencyOverride :: "dct_env \<Rightarrow> override_params \<Rightarrow> db \<Rightarrow> unit result" where
  "EmergencyOverride env p d =
     (if blank (op_Reason p) then (d, Inl (errors_New ''override reason is required''))
      else
        orFail d (wrap ''escrow lookup'') (GetEscrow d (op_EscrowID p)) (\<lambda>_.
        let caller = CallerFrom (dv_caller env) in
        if \<not> p_Authenticated caller \<or> \<not> EqualFold (p_Address caller) (dv_owner env) then
          andThen (mapErr (wrapInternal ''audit emergency override denial'')
                     (logAudit env (override_entry env p False ReasonNotAuthorizedToRevoke) d)) (\<lambda>d1 _.
          (d1, Inl (detail ErrUnauthorized ''caller is not the factory owner'')))
        else if ToLower (op_Operation p) = ''revoke_all'' then
          andThen (mapErr (wrapInternal ''audit emergency override allowance'')
                     (logAudit env (override_entry env p True ReasonEmergencyOverride) d)) (\<lambda>d1 _.
          (fst (RevokeByEscrow env (op_EscrowID p) (''emergency_override: '' @ op_Reason p)
                  (p_Address caller) d1), Inr ()))
        else (d, Inl (errors_New (''unsupported override operation: '' @ op_Operation p)))))"

section \<open>Scope lemmas\<close>

definition norm_item :: "string \<Rightarrow> string" where
  "norm_item s = TrimSpace (ToLower s)"

definition scope_of :: "string list \<Rightarrow> string set" where
  "scope_of items = norm_item ` set items - {[]}"

lemma norm_item_idem [simp]: "norm_item (norm_item s) = norm_item s"
  by (simp add: norm_item_def TrimSpace_ToLower)

lemma finite_scope [simp]: "finite (scope_of items)"
  by (simp add: scope_of_def)

lemma canon_loop_set: "set (canon_loop seen items) = scope_of items - set seen"
  by (induction seen items rule: canon_loop.induct)
    (auto simp: scope_of_def norm_item_def Let_def)

lemma canon_loop_distinct: "distinct (canon_loop seen items)"
  by (induction seen items rule: canon_loop.induct) (auto simp: Let_def canon_loop_set)

lemma set_canonicalize [simp]: "set (canonicalize items) = scope_of items"
  by (simp add: canonicalize_def canon_loop_set)

lemma distinct_canonicalize [simp]: "distinct (canonicalize items)"
  by (simp add: canonicalize_def canon_loop_distinct)

lemma sorted_canonicalize [simp]: "sorted (canonicalize items)"
  by (simp add: canonicalize_def)

lemma canonicalize_eq: "canonicalize items = sorted_list_of_set (scope_of items)"
  by (metis distinct_canonicalize finite_scope set_canonicalize sorted_canonicalize
      sorted_distinct_set_unique distinct_sorted_list_of_set set_sorted_list_of_set
      sorted_sorted_list_of_set)

lemma scope_of_canonicalize [simp]: "scope_of (canonicalize items) = scope_of items"
proof -
  have "norm_item ` scope_of items = scope_of items"
  proof
    show "norm_item ` scope_of items \<subseteq> scope_of items" by (auto simp: scope_of_def)
    show "scope_of items \<subseteq> norm_item ` scope_of items"
      by (rule subsetI, rule image_eqI [of _ norm_item]) (auto simp: scope_of_def)
  qed
  then have "norm_item ` scope_of items - {[]} = scope_of items" by (simp add: scope_of_def)
  then show ?thesis using scope_of_def [of "canonicalize items"] by simp
qed

lemma canonicalize_idem [simp]: "canonicalize (canonicalize items) = canonicalize items"
  by (simp add: canonicalize_eq [of "canonicalize items"]) (simp add: canonicalize_eq)

lemma fromJSON_toJSON [simp]: "fromJSON (toJSON items) = Inr (canonicalize items)"
  by (simp add: fromJSON_def toJSON_def unmarshal_marshal_strings)

lemma isSubset_iff: "distinct xs \<Longrightarrow> isSubset xs ys \<longleftrightarrow> set xs \<subseteq> set ys"
proof -
  assume "distinct xs"
  then have "length xs \<le> length ys" if "set xs \<subseteq> set ys"
    using card_mono [OF _ that] card_length [of ys] by (simp add: distinct_card)
  then show ?thesis by (cases "set xs \<subseteq> set ys") (auto simp: isSubset_def list_all_iff)
qed

text \<open>The scope a stored token grants: the decoded operations and resources.\<close>

definition decoded :: "string \<Rightarrow> string set" where
  "decoded raw = (case fromJSON raw of Inl e \<Rightarrow> {} | Inr xs \<Rightarrow> set xs)"

lemma decoded_toJSON [simp]: "decoded (toJSON items) = scope_of items"
  by (simp add: decoded_def)

lemma fromJSON_distinct: "fromJSON raw = Inr xs \<Longrightarrow> distinct xs \<and> set xs = decoded raw"
  by (auto simp: decoded_def fromJSON_def split: option.splits)

definition within :: "dct_token \<Rightarrow> dct_token \<Rightarrow> bool" where
  "within t u \<longleftrightarrow> decoded (dct_OperationsJSON t) \<subseteq> decoded (dct_OperationsJSON u)
     \<and> decoded (dct_ResourcesJSON t) \<subseteq> decoded (dct_ResourcesJSON u)
     \<and> dct_ExpiresAt t \<le> dct_ExpiresAt u"

lemma within_refl [simp]: "within t t"
  by (simp add: within_def)

lemma within_trans: "within t u \<Longrightarrow> within u v \<Longrightarrow> within t v"
  by (auto simp: within_def)

lemma within_revoked [simp]:
  "within (mark_revoked now r b t) u = within t u" "within t (mark_revoked now r b u) = within t u"
  by (simp_all add: within_def)

section \<open>Reasons\<close>

lemma set_dedup_loop: "set (dedup_loop seen rs) = set rs - set seen"
  by (induction seen rs rule: dedup_loop.induct) auto

lemma set_dedupSortReasons [simp]: "set (dedupSortReasons rs) = set rs"
  by (simp add: dedupSortReasons_def set_dedup_loop)

lemma dedupSortReasons_Nil [simp]: "dedupSortReasons rs = [] \<longleftrightarrow> rs = []"
  by (metis set_dedupSortReasons set_empty)

lemma link_reasons_Nil:
  "link_reasons now current parent = Inr [] \<longleftrightarrow>
     dct_Profile parent = CanonicalProfile \<and> dct_RevokedAt parent = None
     \<and> now < dct_ExpiresAt parent \<and> dct_EscrowID current = dct_EscrowID parent
     \<and> EqualFold (dct_Issuer current) (dct_Subject parent)
     \<and> dct_ExpiresAt current \<le> dct_ExpiresAt parent
     \<and> scope_reasons current parent = Inr []"
  by (auto simp: link_reasons_def Let_def split: sum.splits)

lemma scope_reasons_Nil:
  "scope_reasons current parent = Inr [] \<Longrightarrow>
     decoded (dct_OperationsJSON current) \<subseteq> decoded (dct_OperationsJSON parent)
     \<and> decoded (dct_ResourcesJSON current) \<subseteq> decoded (dct_ResourcesJSON parent)"
  by (auto simp: scope_reasons_def isSubset_iff dest!: fromJSON_distinct
      split: sum.splits if_splits)

text \<open>A clean chain: the walk that found no reason, as a predicate on tokens.\<close>

lemma chain_loop_root: "dct_ParentTokenID t = [] \<Longrightarrow> chain_loop now d seen t = Inr []"
  by (simp add: chain_loop.simps)

lemma chain_loop_clean:
  assumes "chain_loop now d seen t = Inr []" and "dct_ParentTokenID t \<noteq> []"
  obtains u where "GetDCTTokenByTokenID d (dct_ParentTokenID t) = Inr u"
    and "dct_TokenID u \<notin> set seen" and "link_reasons now t u = Inr []"
    and "chain_loop now d (dct_TokenID u # seen) u = Inr []"
  using assms by (subst (asm) chain_loop.simps) (auto split: sum.splits if_splits)

lemma Inr_reasons_Nil: "(case r of Inl e \<Rightarrow> Inl e | Inr rs \<Rightarrow> Inr (f rs)) = Inr x \<longleftrightarrow>
    (\<exists>rs. r = Inr rs \<and> x = f rs)"
  by (auto split: sum.splits)

section \<open>Identifier lemmas\<close>

lemma b64_char_code: "n < 64 \<Longrightarrow>
    (of_char (b64_char n) :: nat) = (if n < 26 then 65 + n else if n < 52 then 71 + n
      else if n < 62 then n - 4 else if n = 62 then 45 else 95)"
  by (auto simp: b64_char_def of_char_of)

definition plain_char :: "char \<Rightarrow> bool" where
  "plain_char c \<longleftrightarrow> c \<noteq> CHR ''.'' \<and> \<not> is_space c"

lemma plain_char_code: "plain_char c \<longleftrightarrow> (of_char c :: nat) \<notin> {46, 9, 10, 11, 12, 13, 32}"
  by (auto simp: plain_char_def is_space_code char_eq_of_char)

lemma plain_b64: "n < 64 \<Longrightarrow> plain_char (b64_char n)"
  unfolding plain_char_code by (auto simp: b64_char_code split: if_splits)

lemma byte_bounds:
  "unat (a :: byte) div 4 < 64" "unat a div 16 < 16" "unat a mod 4 * 16 + unat (b :: byte) div 16 < 64"
  "unat a mod 16 * 4 + unat b div 64 < 64" "unat a mod 4 * 16 < 64" "unat a mod 16 * 4 < 64"
  "unat a mod 64 < 64"
proof -
  have a: "unat a < 256" and b: "unat b < 256"
    using unsigned_less [of a, where ?'a = nat] unsigned_less [of b, where ?'a = nat] by simp_all
  show "unat a div 4 < 64" "unat a div 16 < 16" using a by (simp_all add: less_mult_imp_div_less)
  have "unat b div 16 < 16" "unat b div 64 < 4" using b by (simp_all add: less_mult_imp_div_less)
  moreover have "unat a mod 4 < 4" "unat a mod 16 < 16" by simp_all
  ultimately show "unat a mod 4 * 16 + unat b div 16 < 64" "unat a mod 16 * 4 + unat b div 64 < 64"
    "unat a mod 4 * 16 < 64" "unat a mod 16 * 4 < 64" "unat a mod 64 < 64"
    by linarith+
qed

lemma plain_secret: "c \<in> set (RawURLEncoding bs) \<Longrightarrow> plain_char c"
  by (induction bs rule: RawURLEncoding.induct) (auto simp: plain_b64 byte_bounds)

lemma plain_hex: "n < 16 \<Longrightarrow> plain_char (hex_digit_char n)"
  unfolding plain_char_code by (auto simp: hex_digit_char_def of_char_of)

lemma plain_id: "c \<in> set (EncodeToString bs) \<Longrightarrow> plain_char c"
  by (induction bs) (auto simp: plain_hex byte_bounds)

lemma Split_none: "d \<notin> set s \<Longrightarrow> Split d s = [s]"
  by (induction s) auto

lemma Split_one: "d \<notin> set s \<Longrightarrow> Split d (s @ d # t) = s # Split d t"
  by (induction s) auto

lemma not_blank: "c \<in> set s \<Longrightarrow> \<not> is_space c \<Longrightarrow> \<not> blank s"
  by (auto simp: blank_def TrimSpace_def dropWhile_eq_Nil_conv dest: set_dropWhileD)
    (metis (no_types, lifting) dropWhile_eq_Nil_conv set_rev dropWhile.simps(1) hd_dropWhile list.set_sel(1) rev_is_Nil_conv)

lemma parse_presented:
  assumes "s \<noteq> []"
    and "\<And>c. c \<in> set s \<Longrightarrow> plain_char c" and "\<And>c. c \<in> set i \<Longrightarrow> plain_char c" and "i \<noteq> []"
  shows "parsePresentedToken (i @ ''.'' @ s) = Inr (i, s)"
proof -
  have "\<not> blank i" "\<not> blank s"
    using assms not_blank [of "hd i" i] not_blank [of "hd s" s] by (auto simp: plain_char_def)
  moreover have "CHR ''.'' \<notin> set i" "CHR ''.'' \<notin> set s"
    using assms(2,3) by (auto simp: plain_char_def)
  ultimately show ?thesis
    by (simp add: parsePresentedToken_def Split_one Split_none)
qed

end
