(* ===== verification/Lineage.thy ===== *)
theory Lineage
  imports Dct
begin

text \<open>
  What the operations of the capability-token service do to the token table, and the
  properties of the service. The step relation \<open>dct_step\<close> has every operation that writes the
  token table or the escrow state a token depends on; the lineage invariant \<open>lineage_ok\<close>
  holds in every state reachable from a database without tokens.
\<close>

section \<open>Operations\<close>

lemma logAudit_frame [frame]:
  "logAudit env e d = (d1, r) \<Longrightarrow> escrows d1 = escrows d \<and> dct_tokens d1 = dct_tokens d"
  by (auto simp: logAudit_def split: audit_sink.splits)

lemma isEscrowInactive_iff:
  "isEscrowInactive e \<longleftrightarrow> esc_Frozen e \<or> isTerminal (esc_Status e)"
  by (simp add: isEscrowInactive_def isTerminal_def)

lemma live_escrowContext: "live_context (escrowContext e) \<longleftrightarrow> \<not> isEscrowInactive e"
  by (simp add: live_context_def escrowContext_def isEscrowInactive_iff)

lemma escrowContext_sel [simp]:
  "ec_Buyer (escrowContext e) = esc_Buyer e" "ec_EscrowID (escrowContext e) = esc_ID e"
  "tc_Subject (tokenContext t) = dct_Subject t" "tc_Issuer (tokenContext t) = dct_Issuer t"
  "tc_EscrowID (tokenContext t) = dct_EscrowID t"
  by (simp_all add: escrowContext_def tokenContext_def)

definition stored :: "dct_token list \<Rightarrow> dct_env \<Rightarrow> dct_token \<Rightarrow> dct_token" where
  "stored ts env t = t\<lparr>dct_ID := next_id dct_ID ts, dct_CreatedAt := dv_dbnow env,
                     dct_UpdatedAt := dv_dbnow env\<rparr>"

lemma stored_sel [simp]:
  "dct_TokenID (stored ts env t) = dct_TokenID t" "dct_TokenHash (stored ts env t) = dct_TokenHash t"
  "dct_ParentTokenID (stored ts env t) = dct_ParentTokenID t"
  "dct_EscrowID (stored ts env t) = dct_EscrowID t" "dct_Subject (stored ts env t) = dct_Subject t"
  "dct_Issuer (stored ts env t) = dct_Issuer t" "dct_Profile (stored ts env t) = dct_Profile t"
  "dct_OperationsJSON (stored ts env t) = dct_OperationsJSON t"
  "dct_ResourcesJSON (stored ts env t) = dct_ResourcesJSON t"
  "dct_ExpiresAt (stored ts env t) = dct_ExpiresAt t" "dct_Depth (stored ts env t) = dct_Depth t"
  "dct_RevokedAt (stored ts env t) = dct_RevokedAt t"
  by (simp_all add: stored_def)

lemma new_token_sel [simp]:
  "dct_TokenID (new_token i h par eid s iss ops res dep ex) = i"
  "dct_TokenHash (new_token i h par eid s iss ops res dep ex) = h"
  "dct_ParentTokenID (new_token i h par eid s iss ops res dep ex) = par"
  "dct_EscrowID (new_token i h par eid s iss ops res dep ex) = eid"
  "dct_Subject (new_token i h par eid s iss ops res dep ex) = s"
  "dct_Issuer (new_token i h par eid s iss ops res dep ex) = iss"
  "dct_Profile (new_token i h par eid s iss ops res dep ex) = CanonicalProfile"
  "dct_OperationsJSON (new_token i h par eid s iss ops res dep ex) = toJSON ops"
  "dct_ResourcesJSON (new_token i h par eid s iss ops res dep ex) = toJSON res"
  "dct_ExpiresAt (new_token i h par eid s iss ops res dep ex) = ex"
  "dct_Depth (new_token i h par eid s iss ops res dep ex) = dep"
  "dct_RevokedAt (new_token i h par eid s iss ops res dep ex) = None"
  by (simp_all add: new_token_def)

lemma create_new_token:
  assumes "CreateDCTToken (dv_dbnow env) (new_token i h par eid s iss ops res dep ex) d = (d', Inr row)"
  shows "dct_tokens d' = row_add row (dct_tokens d)" "escrows d' = escrows d"
    and "row = stored (dct_tokens d) env (new_token i h par eid s iss ops res dep ex)"
    and "row_get dct_TokenID (dct_tokens d) i = None"
  using CreateDCTToken_ok [OF assms] by (auto simp: new_token_def stored_def)

lemma create_minted:
  "CreateDCTToken (dv_dbnow env) (minted env p i s) d = (d', Inr row) \<Longrightarrow>
     dct_tokens d' = row_add row (dct_tokens d) \<and> escrows d' = escrows d
     \<and> row = stored (dct_tokens d) env (minted env p i s) \<and> row_get dct_TokenID (dct_tokens d) i = None"
  by (auto simp: minted_def Let_def dest: create_new_token)

lemma Mint_ok:
  assumes "Mint env p d = (d', Inr (t, tok))"
  obtains escrow secret tokenID where "validateMintInput p = None"
    and "GetEscrow d (mp_EscrowID p) = Inr escrow"
    and "r_Allowed (Authorize OpMint (CallerFrom (dv_caller env)) (Some (escrowContext escrow)) None)"
    and "\<not> isEscrowInactive escrow" and "dv_now env < mp_ExpiresAt p"
    and "randomSecret (dv_secret env) = Inr secret" and "randomID ''dct_'' (dv_id env) = Inr tokenID"
    and "tok = tokenID @ ''.'' @ secret" and "t = stored (dct_tokens d) env (minted env p tokenID secret)"
    and "row_get dct_TokenID (dct_tokens d) tokenID = None"
    and "dct_tokens d' = row_add t (dct_tokens d)" and "escrows d' = escrows d"
  using assms unfolding Mint_def
  by (auto simp: err_iff Let_def not_le split: option.splits if_splits
      dest!: logAudit_frame create_minted)

lemma create_delegated:
  "CreateDCTToken (dv_dbnow env) (delegated env p u i s) d = (d', Inr row) \<Longrightarrow>
     dct_tokens d' = row_add row (dct_tokens d) \<and> escrows d' = escrows d
     \<and> row = stored (dct_tokens d) env (delegated env p u i s) \<and> row_get dct_TokenID (dct_tokens d) i = None"
  by (auto simp: delegated_def Let_def dest: create_new_token)

lemma Delegate_ok:
  assumes "Delegate env p d = (d', Inr (t, tok))"
  obtains u active reasons escrow secret tokenID
  where "Introspect env d (dp_ParentToken p) = Inr (u, active, reasons)"
    and "GetEscrow d (dct_EscrowID u) = Inr escrow"
    and "r_Allowed (Authorize OpDelegate (CallerFrom (dv_caller env))
           (Some (escrowContext escrow)) (Some (tokenContext u)))"
    and "check_delegate env p u active reasons = None"
    and "randomSecret (dv_secret env) = Inr secret" and "randomID ''dct_'' (dv_id env) = Inr tokenID"
    and "tok = tokenID @ ''.'' @ secret" and "t = stored (dct_tokens d) env (delegated env p u tokenID secret)"
    and "row_get dct_TokenID (dct_tokens d) tokenID = None"
    and "dct_tokens d' = row_add t (dct_tokens d)" and "escrows d' = escrows d"
  using assms unfolding Delegate_def
  by (auto simp: err_iff Let_def not_le split: option.splits if_splits prod.splits
      dest!: logAudit_frame create_delegated)

text \<open>An operation that fails leaves tokens and escrows alone, whatever the error.\<close>

lemma Mint_err [frame]:
  "Mint env p d = (d', Inl e) \<Longrightarrow> dct_tokens d' = dct_tokens d \<and> escrows d' = escrows d"
  unfolding Mint_def
  by (auto simp: err_iff Let_def split: option.splits prod.splits if_splits
      dest!: logAudit_frame CreateDCTToken_err)

lemma Delegate_err [frame]:
  "Delegate env p d = (d', Inl e) \<Longrightarrow> dct_tokens d' = dct_tokens d \<and> escrows d' = escrows d"
  unfolding Delegate_def
  by (auto simp: err_iff Let_def split: option.splits prod.splits if_splits
      dest!: logAudit_frame CreateDCTToken_err)

lemma RevokeDCTToken_cases:
  "RevokeDCTToken now k r b d = (d', res) \<Longrightarrow>
     (res = Inr () \<and> d' = revoke_where (\<lambda>t. dct_TokenID t = k) now r b d)
     \<or> (res = Inr () \<and> d' = d \<and> (\<exists>t. row_get dct_TokenID (dct_tokens d) k = Some t \<and> dct_RevokedAt t \<noteq> None))
     \<or> (\<exists>e. res = Inl e \<and> d' = d)"
  by (auto simp: RevokeDCTToken_def split: if_splits option.splits)

lemma Revoke_err [frame]:
  "Revoke env p d = (d', Inl e) \<Longrightarrow> dct_tokens d' = dct_tokens d \<and> escrows d' = escrows d"
  unfolding Revoke_def
  by (auto simp: err_iff Let_def split: option.splits prod.splits if_splits
      dest!: logAudit_frame RevokeDCTToken_cases)

lemma Revoke_ok:
  assumes "Revoke env p d = (d', Inr ())"
  obtains t escrow d1 where "\<not> blank (rp_TokenID p)"
    and "GetDCTTokenByTokenID d (rp_TokenID p) = Inr t" and "GetEscrow d (dct_EscrowID t) = Inr escrow"
    and "r_Allowed (Authorize OpRevoke (CallerFrom (dv_caller env))
           (Some (escrowContext escrow)) (Some (tokenContext t)))"
    and "dct_tokens d1 = dct_tokens d" and "escrows d1 = escrows d"
    and "d' = revoke_where (\<lambda>t. dct_TokenID t = rp_TokenID p) (dv_dbnow env)
           (firstNonEmpty [rp_Reason p, ''revoked'']) (firstNonEmpty [rp_By p, ''manual'']) d1
         \<or> d' = d1 \<and> dct_RevokedAt t \<noteq> None"
  using assms unfolding Revoke_def
  by (auto simp: err_iff Let_def GetDCTTokenByTokenID_def split: if_splits
      dest!: logAudit_frame RevokeDCTToken_cases)

lemma EmergencyOverride_err [frame]:
  "EmergencyOverride env p d = (d', Inl e) \<Longrightarrow> dct_tokens d' = dct_tokens d \<and> escrows d' = escrows d"
  unfolding EmergencyOverride_def
  by (auto simp: err_iff Let_def split: option.splits prod.splits if_splits dest!: logAudit_frame)

lemma EmergencyOverride_ok:
  assumes "EmergencyOverride env p d = (d', Inr ())"
  obtains escrow d1 where "\<not> blank (op_Reason p)" and "GetEscrow d (op_EscrowID p) = Inr escrow"
    and "p_Authenticated (CallerFrom (dv_caller env))"
    and "EqualFold (p_Address (CallerFrom (dv_caller env))) (dv_owner env)"
    and "ToLower (op_Operation p) = ''revoke_all''"
    and "logAudit env (override_entry env p True ReasonEmergencyOverride) d = (d1, Inr ())"
    and "d' = revoke_where (\<lambda>t. dct_EscrowID t = op_EscrowID p) (dv_dbnow env)
           (''emergency_override: '' @ op_Reason p) (p_Address (CallerFrom (dv_caller env))) d1"
  using assms unfolding EmergencyOverride_def
  by (auto simp: err_iff Let_def RevokeByEscrow_def RevokeDCTTokensByEscrow_def split: if_splits)

section \<open>Steps\<close>

text \<open>Every operation that writes the token table, and the escrow writes introspection reads.\<close>

inductive dct_step :: "db \<Rightarrow> db \<Rightarrow> bool" where
  mint: "Mint env p d = (d', r) \<Longrightarrow> dct_step d d'"
| delegate: "Delegate env p d = (d', r) \<Longrightarrow> dct_step d d'"
| revoke: "Revoke env p d = (d', r) \<Longrightarrow> dct_step d d'"
| override: "EmergencyOverride env p d = (d', r) \<Longrightarrow> dct_step d d'"
| revoke_escrow: "RevokeByEscrow env i reason rb d = (d', n) \<Longrightarrow> dct_step d d'"
| freeze: "dct_step d (RecordFreezeEscrowAndRevokeDCT now i addr tx d)"
| resolve: "dct_step d (RecordEmergencyResolveAndRevokeDCT now i addr bps tx d)"
| status: "dct_step d (UpdateEscrowStatus now i st d)"
| frozen: "dct_step d (UpdateEscrowFrozen now i b d)"
| task: "createTaskOn now a b c d = (d', r) \<Longrightarrow> dct_step d d'"
| escrow: "createEscrowOn now e d = (d', r) \<Longrightarrow> dct_step d d'"

inductive reachable :: "db \<Rightarrow> bool" where
  init: "dct_tokens d = [] \<Longrightarrow> reachable d"
| step: "reachable d \<Longrightarrow> dct_step d d' \<Longrightarrow> reachable d'"

inductive steps :: "db \<Rightarrow> db \<Rightarrow> bool" where
  steps_none: "steps d d"
| steps_more: "steps d d' \<Longrightarrow> dct_step d' d'' \<Longrightarrow> steps d d''"

text \<open>A new token as the two issuing operations make it.\<close>

definition fresh_child :: "db \<Rightarrow> dct_token \<Rightarrow> bool" where
  "fresh_child d t \<longleftrightarrow>
     dct_TokenID t \<noteq> [] \<and> row_get dct_TokenID (dct_tokens d) (dct_TokenID t) = None
     \<and> dct_Profile t = CanonicalProfile \<and> dct_RevokedAt t = None
     \<and> (\<exists>ops res. dct_OperationsJSON t = toJSON ops \<and> dct_ResourcesJSON t = toJSON res)
     \<and> (\<exists>e. row_get esc_ID (escrows d) (dct_EscrowID t) = Some e)
     \<and> (if dct_ParentTokenID t = [] then dct_Depth t = 0
        else \<exists>u. row_get dct_TokenID (dct_tokens d) (dct_ParentTokenID t) = Some u
               \<and> dct_Depth t = dct_Depth u + 1 \<and> dct_EscrowID t = dct_EscrowID u \<and> within t u)"

lemma GetEscrow_iff: "GetEscrow d i = Inr e \<longleftrightarrow> row_get esc_ID (escrows d) i = Some e"
  by (simp add: GetEscrow_def)

lemma GetToken_iff:
  "GetDCTTokenByTokenID d k = Inr t \<longleftrightarrow> row_get dct_TokenID (dct_tokens d) k = Some t"
  by (simp add: GetDCTTokenByTokenID_def)

lemma randomID_nonempty: "randomID ''dct_'' r = Inr i \<Longrightarrow> i \<noteq> []"
  by (auto simp: randomID_def split: option.splits)

lemma minted_sel [simp]:
  "dct_TokenID (minted env p i s) = i" "dct_ParentTokenID (minted env p i s) = []"
  "dct_Profile (minted env p i s) = CanonicalProfile" "dct_RevokedAt (minted env p i s) = None"
  "dct_OperationsJSON (minted env p i s) = toJSON (canonicalize (mp_Operations p))"
  "dct_ResourcesJSON (minted env p i s) = toJSON (canonicalize (mp_Resources p))"
  "dct_EscrowID (minted env p i s) = mp_EscrowID p" "dct_Depth (minted env p i s) = 0"
  "dct_ExpiresAt (minted env p i s) = mp_ExpiresAt p"
  "dct_TokenHash (minted env p i s) = dv_hash env s"
  "dct_Subject (minted env p i s) = ToLower (mp_Subject p)"
  by (simp_all add: minted_def Let_def)

lemma delegated_sel [simp]:
  "dct_TokenID (delegated env p u i s) = i" "dct_ParentTokenID (delegated env p u i s) = dct_TokenID u"
  "dct_Profile (delegated env p u i s) = CanonicalProfile" "dct_RevokedAt (delegated env p u i s) = None"
  "dct_OperationsJSON (delegated env p u i s) = toJSON (canonicalize (dp_Operations p))"
  "dct_ResourcesJSON (delegated env p u i s) = toJSON (canonicalize (dp_Resources p))"
  "dct_EscrowID (delegated env p u i s) = dct_EscrowID u"
  "dct_Depth (delegated env p u i s) = dct_Depth u + 1"
  "dct_ExpiresAt (delegated env p u i s) = dp_ExpiresAt p"
  "dct_TokenHash (delegated env p u i s) = dv_hash env s"
  "dct_Issuer (delegated env p u i s) = ToLower (firstNonEmpty [dp_Issuer p, dct_Subject u])"
  "dct_Subject (delegated env p u i s) = ToLower (dp_Subject p)"
  by (simp_all add: delegated_def Let_def)

lemma Mint_fresh: "Mint env p d = (d', Inr (t, tok)) \<Longrightarrow>
    fresh_child d t \<and> dct_tokens d' = row_add t (dct_tokens d) \<and> escrows d' = escrows d"
  by (erule Mint_ok) (auto simp: fresh_child_def GetEscrow_iff dest: randomID_nonempty)

lemma strictAttenuation_within:
  "strictAttenuation (canonicalize ops) pops (canonicalize res) pres x y \<longleftrightarrow>
     scope_of ops \<subseteq> set pops \<and> scope_of res \<subseteq> set pres \<and> x \<le> y
     \<and> (length (canonicalize ops) < length pops \<or> length (canonicalize res) < length pres \<or> x < y)"
  by (auto simp: strictAttenuation_def isSubset_iff)

lemma check_delegate_ok:
  assumes "check_delegate env p u active reasons = None"
  obtains pops pres where "active" and "\<not> blank (dp_Subject p)"
    and "fromJSON (dct_OperationsJSON u) = Inr pops" and "fromJSON (dct_ResourcesJSON u) = Inr pres"
    and "canonicalize (dp_Operations p) \<noteq> []" and "canonicalize (dp_Resources p) \<noteq> []"
    and "dv_now env < dp_ExpiresAt p"
    and "strictAttenuation (canonicalize (dp_Operations p)) pops (canonicalize (dp_Resources p)) pres
           (dp_ExpiresAt p) (dct_ExpiresAt u)"
  using assms by (auto simp: check_delegate_def Let_def not_le split: if_splits sum.splits)

lemma check_delegate_within:
  "check_delegate env p u active reasons = None \<Longrightarrow> within (stored ts env (delegated env p u i s)) u"
  by (erule check_delegate_ok)
    (auto simp: within_def strictAttenuation_within dest!: fromJSON_distinct)

lemma parse_nonblank: "parsePresentedToken tok = Inr (i, s) \<Longrightarrow> i \<noteq> []"
  by (auto simp: parsePresentedToken_def blank_def split: list.splits if_splits)

lemma Introspect_ok:
  assumes "Introspect env d tok = Inr (t, active, reasons)"
  obtains secret rs where "parsePresentedToken tok = Inr (dct_TokenID t, secret)"
    and "row_get dct_TokenID (dct_tokens d) (dct_TokenID t) = Some t"
    and "dct_TokenHash t = dv_hash env secret" and "dct_TokenID t \<noteq> []"
    and "validateChain (dv_now env) d t = Inr rs" and "active = (reasons = [])"
    and "reasons = dedupSortReasons ((if dct_RevokedAt t \<noteq> None then [''revoked''] else [])
            @ (if dct_ExpiresAt t \<le> dv_now env then [ReasonExpired] else []) @ rs)"
proof -
  from assms obtain i secret where p: "parsePresentedToken tok = Inr (i, secret)"
    and t: "row_get dct_TokenID (dct_tokens d) i = Some t" and h: "dct_TokenHash t = dv_hash env secret"
    by (auto simp: Introspect_def GetToken_iff Let_def split: sum.splits if_splits)
  from t have i: "i = dct_TokenID t" by (auto dest: row_get_Some)
  have g: "GetDCTTokenByTokenID d i = Inr t" using t by (simp add: GetToken_iff)
  from assms p h obtain rs where v: "validateChain (dv_now env) d t = Inr rs"
    by (auto simp: Introspect_def g Let_def split: sum.splits)
  show ?thesis
    by (rule that [of secret rs]) (use assms p t h v i parse_nonblank [OF p] in
      \<open>auto simp: Introspect_def g [unfolded i] Let_def\<close>)
qed

lemma Delegate_fresh:
  assumes "Delegate env p d = (d', Inr (t, tok))"
  shows "fresh_child d t \<and> dct_tokens d' = row_add t (dct_tokens d) \<and> escrows d' = escrows d"
proof -
  from assms obtain u active reasons escrow secret i
    where I: "Introspect env d (dp_ParentToken p) = Inr (u, active, reasons)"
      and e: "GetEscrow d (dct_EscrowID u) = Inr escrow"
      and c: "check_delegate env p u active reasons = None"
      and i: "randomID ''dct_'' (dv_id env) = Inr i"
      and t: "t = stored (dct_tokens d) env (delegated env p u i secret)"
      and f: "row_get dct_TokenID (dct_tokens d) i = None"
      and d': "dct_tokens d' = row_add t (dct_tokens d)" "escrows d' = escrows d"
    by (rule Delegate_ok)
  from I have u: "row_get dct_TokenID (dct_tokens d) (dct_TokenID u) = Some u" "dct_TokenID u \<noteq> []"
    by (auto elim: Introspect_ok)
  have "within t u" unfolding t using c by (rule check_delegate_within)
  then have "fresh_child d t"
    using u e f randomID_nonempty [OF i] unfolding fresh_child_def by (auto simp: t GetEscrow_iff)
  with d' show ?thesis by simp
qed

lemma createEscrowOn_frame [frame]:
  "createEscrowOn now e d = (d', r) \<Longrightarrow>
     dct_tokens d' = dct_tokens d
     \<and> (\<forall>k x. row_get esc_ID (escrows d) k = Some x \<longrightarrow> row_get esc_ID (escrows d') k = Some x)"
  by (drule createEscrowOn_cases) (auto simp: next_id_fresh intro!: row_get_add_kept)

lemma createTaskOn_frame [frame]:
  "createTaskOn now a b c d = (d', r) \<Longrightarrow> dct_tokens d' = dct_tokens d \<and> escrows d' = escrows d"
  by (auto simp: createTaskOn_def Let_def)

definition same_or_revoked :: "db \<Rightarrow> db \<Rightarrow> bool" where
  "same_or_revoked d d' \<longleftrightarrow>
     dct_tokens d' = dct_tokens d \<or> (\<exists>q now r b. dct_tokens d' = dct_tokens (revoke_where q now r b d))"

definition escrows_kept :: "db \<Rightarrow> db \<Rightarrow> bool" where
  "escrows_kept d d' \<longleftrightarrow>
     (\<forall>k x. row_get esc_ID (escrows d) k = Some x \<longrightarrow> (\<exists>y. row_get esc_ID (escrows d') k = Some y))"

lemma same_or_revoked_same: "dct_tokens d' = dct_tokens d \<Longrightarrow> same_or_revoked d d'"
  by (simp add: same_or_revoked_def)

lemma same_or_revoked_where:
  "dct_tokens d1 = dct_tokens d \<Longrightarrow> dct_tokens d' = dct_tokens (revoke_where q now r b d1) \<Longrightarrow>
     same_or_revoked d d'"
  unfolding same_or_revoked_def
  by (intro disjI2 exI [of _ q] exI [of _ now] exI [of _ r] exI [of _ b]) (simp add: revoke_where_def)

lemma escrows_kept_same: "escrows d' = escrows d \<Longrightarrow> escrows_kept d d'"
  by (simp add: escrows_kept_def)

lemmas shape_intros = same_or_revoked_same same_or_revoked_where escrows_kept_same

text \<open>A step adds one token made by an issuing operation, or revokes tokens, or leaves them.\<close>

lemma step_shape:
  assumes "dct_step d d'"
  shows "(\<exists>t. fresh_child d t \<and> dct_tokens d' = row_add t (dct_tokens d)) \<or> same_or_revoked d d'"
    and "escrows_kept d d'"
proof -
  have "((\<exists>t. fresh_child d t \<and> dct_tokens d' = row_add t (dct_tokens d)) \<or> same_or_revoked d d')
        \<and> escrows_kept d d'"
    using assms
  proof cases
    case (mint env p r)
    then show ?thesis
      by (cases r) (auto intro: shape_intros dest: Mint_err Mint_fresh)
  next
    case (delegate env p r)
    then show ?thesis
      by (cases r) (auto intro: shape_intros dest: Delegate_err Delegate_fresh)
  next
    case (revoke env p r)
    then show ?thesis
      by (cases r) (auto intro: shape_intros dest: Revoke_err elim!: Revoke_ok)
  next
    case (override env p r)
    then show ?thesis
      by (cases r) (auto intro: shape_intros dest!: EmergencyOverride_err logAudit_frame
          elim!: EmergencyOverride_ok)
  next
    case (revoke_escrow env i reason rb n)
    then show ?thesis
      by (auto simp: RevokeByEscrow_def RevokeDCTTokensByEscrow_def intro: shape_intros)
  next
    case (freeze now i addr tx)
    then show ?thesis
      by (auto simp: RecordFreezeEscrowAndRevokeDCT_def escrows_kept_def
          intro!: disjI2 same_or_revoked_where [of "UpdateEscrowFrozen now i True d"])
  next
    case (resolve now i addr bps tx)
    then show ?thesis
      by (auto simp: RecordEmergencyResolveAndRevokeDCT_def escrows_kept_def
          intro!: disjI2 same_or_revoked_where [of "UpdateEscrowStatus now i ''resolved'' d"])
  next
    case (escrow now e r)
    then show ?thesis by (auto simp: escrows_kept_def intro: shape_intros dest: createEscrowOn_frame)
  next
    case (task now a b c r)
    then show ?thesis by (auto intro: shape_intros dest: createTaskOn_frame)
  qed (auto simp: escrows_kept_def intro: shape_intros)
  then show "(\<exists>t. fresh_child d t \<and> dct_tokens d' = row_add t (dct_tokens d)) \<or> same_or_revoked d d'"
    and "escrows_kept d d'" by simp_all
qed

section \<open>The lineage invariant\<close>

abbreviation tok :: "db \<Rightarrow> string \<Rightarrow> dct_token option" where
  "tok d k \<equiv> row_get dct_TokenID (dct_tokens d) k"

lemma tok_id: "tok d k = Some t \<Longrightarrow> tok d (dct_TokenID t) = Some t"
  by (frule row_get_Some) simp

text \<open>The part of a token no operation changes.\<close>

definition static :: "dct_token \<Rightarrow> dct_token" where
  "static t = t\<lparr>dct_RevokedAt := None, dct_RevocationReason := [], dct_RevokedBy := [],
                dct_UpdatedAt := 0\<rparr>"

definition evolves :: "dct_token \<Rightarrow> dct_token \<Rightarrow> bool" where
  "evolves t t' \<longleftrightarrow> static t' = static t \<and> (dct_RevokedAt t \<noteq> None \<longrightarrow> t' = t)"

lemma static_sel:
  assumes "static t' = static t"
  shows "dct_TokenID t' = dct_TokenID t" "dct_ParentTokenID t' = dct_ParentTokenID t"
    "dct_EscrowID t' = dct_EscrowID t" "dct_Depth t' = dct_Depth t" "dct_Profile t' = dct_Profile t"
    "dct_OperationsJSON t' = dct_OperationsJSON t" "dct_ResourcesJSON t' = dct_ResourcesJSON t"
    "dct_ExpiresAt t' = dct_ExpiresAt t" "dct_Issuer t' = dct_Issuer t" "dct_Subject t' = dct_Subject t"
    "dct_TokenHash t' = dct_TokenHash t"
  using assms by (cases t; cases t'; simp add: static_def)+

lemma evolves_refl [simp]: "evolves t t"
  by (simp add: evolves_def)

lemma evolves_trans: "evolves t u \<Longrightarrow> evolves u v \<Longrightarrow> evolves t v"
  by (auto simp: evolves_def)

lemma evolves_revoked: "dct_RevokedAt t = None \<Longrightarrow> evolves t (mark_revoked now r b t)"
  by (simp add: evolves_def static_def mark_revoked_def)

lemma step_evolves:
  assumes "dct_step d d'" and "tok d k = Some t"
  shows "\<exists>t'. tok d' k = Some t' \<and> evolves t t'"
  using step_shape(1) [OF assms(1)]
proof
  assume "\<exists>n. fresh_child d n \<and> dct_tokens d' = row_add n (dct_tokens d)"
  then obtain n where "fresh_child d n" and d': "dct_tokens d' = row_add n (dct_tokens d)" by blast
  then have "tok d (dct_TokenID n) = None" by (simp add: fresh_child_def)
  with assms(2) show ?thesis by (auto simp: d' intro: row_get_add_kept)
next
  assume "same_or_revoked d d'"
  with assms(2) show ?thesis
    by (auto simp: same_or_revoked_def evolves_revoked)
qed

lemma steps_evolves: "steps d d' \<Longrightarrow> tok d k = Some t \<Longrightarrow> \<exists>t'. tok d' k = Some t' \<and> evolves t t'"
  by (induction rule: steps.induct) (auto dest: step_evolves intro: evolves_trans)

definition token_ok :: "db \<Rightarrow> dct_token \<Rightarrow> bool" where
  "token_ok d t \<longleftrightarrow>
     dct_Profile t = CanonicalProfile \<and> 0 \<le> dct_Depth t
     \<and> (\<exists>ops res. dct_OperationsJSON t = toJSON ops \<and> dct_ResourcesJSON t = toJSON res)
     \<and> (\<exists>e. row_get esc_ID (escrows d) (dct_EscrowID t) = Some e)
     \<and> (dct_ParentTokenID t \<noteq> [] \<longrightarrow>
         (\<exists>u. tok d (dct_ParentTokenID t) = Some u \<and> dct_Depth t = dct_Depth u + 1
              \<and> dct_EscrowID t = dct_EscrowID u \<and> within t u))"

definition lineage_ok :: "db \<Rightarrow> bool" where
  "lineage_ok d \<longleftrightarrow> (\<forall>k t. tok d k = Some t \<longrightarrow> token_ok d t)"

lemma within_static: "static t' = static t \<Longrightarrow> static u' = static u \<Longrightarrow> within t u \<Longrightarrow> within t' u'"
  by (simp add: within_def static_sel [of t' t] static_sel [of u' u])

lemma token_ok_step:
  assumes "token_ok d t" and "dct_step d d'" and "evolves t t'"
  shows "token_ok d' t'"
proof -
  have s: "static t' = static t" using assms(3) by (simp add: evolves_def)
  have "\<exists>u'. tok d' (dct_ParentTokenID t) = Some u' \<and> dct_Depth t = dct_Depth u' + 1
      \<and> dct_EscrowID t = dct_EscrowID u' \<and> within t' u'" if np: "dct_ParentTokenID t \<noteq> []"
  proof -
    from assms(1) np obtain u where u: "tok d (dct_ParentTokenID t) = Some u"
      and r: "dct_Depth t = dct_Depth u + 1" "dct_EscrowID t = dct_EscrowID u" "within t u"
      by (auto simp: token_ok_def)
    from step_evolves [OF assms(2) u] obtain u' where "tok d' (dct_ParentTokenID t) = Some u'"
      and "static u' = static u" by (auto simp: evolves_def)
    with r s show ?thesis using within_static [OF s] by (auto simp: static_sel [of u' u])
  qed
  with assms(1) step_shape(2) [OF assms(2)] show ?thesis
    by (auto simp: token_ok_def static_sel [OF s] escrows_kept_def)
qed

lemma fresh_child_token_ok:
  assumes "fresh_child d t" and "lineage_ok d" shows "token_ok d t"
  using assms by (fastforce simp: fresh_child_def lineage_ok_def token_ok_def split: if_splits)

lemma lineage_step:
  assumes "lineage_ok d" and step: "dct_step d d'"
  shows "lineage_ok d'"
  unfolding lineage_ok_def
proof (intro allI impI)
  fix k t assume t: "tok d' k = Some t"
  show "token_ok d' t"
  proof (cases "tok d k")
    case (Some t0)
    with step_evolves [OF step Some] t have "evolves t0 t" by auto
    with Some assms show ?thesis by (auto simp: lineage_ok_def intro: token_ok_step)
  next
    case None
    with t have "\<not> same_or_revoked d d'" by (auto simp: same_or_revoked_def)
    with step_shape(1) [OF step] obtain n where n: "fresh_child d n"
      and d': "dct_tokens d' = row_add n (dct_tokens d)" by blast
    with None t have "t = n"
      by (auto simp: d' row_add_def row_get_append split: option.splits if_splits)
    with token_ok_step [OF fresh_child_token_ok [OF n assms(1)] step evolves_refl]
    show ?thesis by simp
  qed
qed

lemma reachable_lineage: "reachable d \<Longrightarrow> lineage_ok d"
proof (induction rule: reachable.induct)
  case (init d)
  then show ?case by (simp add: lineage_ok_def)
qed (rule lineage_step)

section \<open>Walking a well-formed chain\<close>

definition soft_reasons :: "string set" where
  "soft_reasons = {''ancestor_revoked'', ReasonAncestorExpired, ''lineage_issuer_subject_mismatch''}"

lemma link_reasons_soft:
  assumes "token_ok d t" and "token_ok d u" and "dct_EscrowID t = dct_EscrowID u" and "within t u"
  obtains rs where "link_reasons now t u = Inr rs" and "set rs \<subseteq> soft_reasons"
proof -
  from assms obtain o1 r1 o2 r2 where j: "dct_OperationsJSON t = toJSON o1" "dct_ResourcesJSON t = toJSON r1"
      "dct_OperationsJSON u = toJSON o2" "dct_ResourcesJSON u = toJSON r2"
    by (auto simp: token_ok_def)
  with assms(4) have "isSubset (canonicalize o1) (canonicalize o2)"
    and "isSubset (canonicalize r1) (canonicalize r2)"
    by (auto simp: within_def isSubset_iff)
  with j have "scope_reasons t u = Inr []" by (simp add: scope_reasons_def)
  with assms show ?thesis
    by (intro that) (auto simp: link_reasons_def Let_def token_ok_def within_def soft_reasons_def)
qed

lemma chain_loop_soft:
  assumes "lineage_ok d" and "token_ok d t"
    and "\<And>i. i \<in> set seen \<Longrightarrow> \<exists>s. tok d i = Some s \<and> dct_Depth t \<le> dct_Depth s"
  shows "\<exists>rs. chain_loop now d seen t = Inr rs \<and> set rs \<subseteq> soft_reasons"
  using assms
proof (induction now d seen t rule: chain_loop.induct)
  case (1 now d seen t)
  show ?case
  proof (cases "dct_ParentTokenID t = []")
    case True
    then show ?thesis by (simp add: chain_loop_root)
  next
    case False
    with "1.prems" obtain u where u: "tok d (dct_ParentTokenID t) = Some u"
      and r: "dct_Depth t = dct_Depth u + 1" "dct_EscrowID t = dct_EscrowID u" "within t u"
      by (auto simp: token_ok_def)
    have g: "GetDCTTokenByTokenID d (dct_ParentTokenID t) = Inr u" using u by (simp add: GetToken_iff)
    have id: "tok d (dct_TokenID u) = Some u" using u by (rule tok_id)
    have ok: "token_ok d u" using u "1.prems"(1) by (auto simp: lineage_ok_def)
    have fresh: "dct_TokenID u \<notin> set seen"
    proof
      assume "dct_TokenID u \<in> set seen"
      from "1.prems"(3) [OF this] id have "dct_Depth t \<le> dct_Depth u" by simp
      with r show False by simp
    qed
    obtain rs where l: "link_reasons now t u = Inr rs" "set rs \<subseteq> soft_reasons"
      using link_reasons_soft [OF "1.prems"(2) ok r(2,3)] by blast
    have "\<exists>rs. chain_loop now d (dct_TokenID u # seen) u = Inr rs \<and> set rs \<subseteq> soft_reasons"
      by (rule "1.IH" [OF False g fresh l(1) "1.prems"(1) ok])
        (use id r(1) "1.prems"(3) in fastforce)
    with l show ?thesis
      by (subst chain_loop.simps) (auto simp: False g fresh)
  qed
qed

lemma validateChain_soft:
  assumes "lineage_ok d" and "tok d k = Some t"
  shows "\<exists>rs. validateChain now d t = Inr rs
           \<and> set rs \<subseteq> soft_reasons \<union> {ReasonFrozen, ReasonEscrowTerminalOrInactive}"
proof -
  from assms have ok: "token_ok d t" by (auto simp: lineage_ok_def)
  from assms(2) have "tok d (dct_TokenID t) = Some t" by (rule tok_id)
  then obtain rs where "chain_loop now d [dct_TokenID t] t = Inr rs" "set rs \<subseteq> soft_reasons"
    using chain_loop_soft [OF assms(1) ok, of "[dct_TokenID t]"] by auto
  with ok show ?thesis
    by (auto simp: validateChain_def token_ok_def GetEscrow_def split: if_splits)
qed

section \<open>Ancestors\<close>

inductive ancestor :: "db \<Rightarrow> dct_token \<Rightarrow> dct_token \<Rightarrow> bool" for d where
  self: "ancestor d t t"
| up: "dct_ParentTokenID t \<noteq> [] \<Longrightarrow> tok d (dct_ParentTokenID t) = Some u \<Longrightarrow> ancestor d u v \<Longrightarrow>
       ancestor d t v"

definition sound :: "int \<Rightarrow> dct_token \<Rightarrow> dct_token \<Rightarrow> bool" where
  "sound now t v \<longleftrightarrow> dct_RevokedAt v = None \<and> now < dct_ExpiresAt v
     \<and> dct_Profile v = CanonicalProfile \<and> dct_EscrowID v = dct_EscrowID t \<and> within t v"

lemma chain_loop_ancestors:
  assumes "ancestor d t v" and "chain_loop now d seen t = Inr []" and "v \<noteq> t"
  shows "sound now t v"
  using assms
proof (induction arbitrary: seen rule: ancestor.induct)
  case (up t u v)
  from up.prems(1) up.hyps(1) obtain u' where "GetDCTTokenByTokenID d (dct_ParentTokenID t) = Inr u'"
    and l: "link_reasons now t u' = Inr []"
    and c: "chain_loop now d (dct_TokenID u' # seen) u' = Inr []"
    by (rule chain_loop_clean)
  with up.hyps(2) have [simp]: "u' = u" by (simp add: GetToken_iff)
  from l have tu: "sound now t u"
    by (auto simp: link_reasons_Nil sound_def within_def dest: scope_reasons_Nil)
  show ?case
  proof (cases "v = u")
    case True
    with tu show ?thesis by simp
  next
    case False
    with up.IH [of "dct_TokenID u # seen"] c have "sound now u v" by simp
    with tu show ?thesis by (auto simp: sound_def intro: within_trans)
  qed
qed simp

lemma Introspect_active:
  assumes "Introspect env d presented = Inr (t, True, rs)"
  shows "dct_RevokedAt t = None" "dv_now env < dct_ExpiresAt t" "dct_Profile t = CanonicalProfile"
    and "\<exists>e. row_get esc_ID (escrows d) (dct_EscrowID t) = Some e \<and> \<not> isEscrowInactive e"
    and "chain_loop (dv_now env) d [dct_TokenID t] t = Inr []"
    and "tok d (dct_TokenID t) = Some t" and "rs = []"
proof -
  from assms obtain cs where v: "validateChain (dv_now env) d t = Inr cs" and "rs = []"
    and n: "dct_RevokedAt t = None" "dv_now env < dct_ExpiresAt t" "cs = []"
      "tok d (dct_TokenID t) = Some t"
    by (auto elim!: Introspect_ok split: if_splits)
  then show "dct_RevokedAt t = None" "dv_now env < dct_ExpiresAt t" "tok d (dct_TokenID t) = Some t" "rs = []"
    by simp_all
  from v n(3) show "dct_Profile t = CanonicalProfile"
    "\<exists>e. row_get esc_ID (escrows d) (dct_EscrowID t) = Some e \<and> \<not> isEscrowInactive e"
    "chain_loop (dv_now env) d [dct_TokenID t] t = Inr []"
    by (auto simp: validateChain_def GetEscrow_iff isEscrowInactive_def Let_def split: sum.splits if_splits)
qed

lemma active_ancestor:
  assumes "Introspect env d presented = Inr (t, True, rs)" and "ancestor d t v"
  shows "sound (dv_now env) t v"
proof (cases "v = t")
  case True
  with Introspect_active [OF assms(1)] show ?thesis by (simp add: sound_def)
next
  case False
  with chain_loop_ancestors [OF assms(2) Introspect_active(5) [OF assms(1)]] show ?thesis by simp
qed

lemma ancestor_steps:
  assumes "ancestor d t v" and "steps d d'" and "tok d (dct_TokenID v) = Some v" and "static t' = static t"
  shows "t = v \<or> (\<exists>v'. ancestor d' t' v' \<and> evolves v v')"
  using assms
proof (induction arbitrary: t' rule: ancestor.induct)
  case (up t u v)
  from steps_evolves [OF up.prems(1) up.hyps(2)] obtain u'
    where u': "tok d' (dct_ParentTokenID t) = Some u'" and ev: "evolves u u'" by blast
  then have "static u' = static u" by (simp add: evolves_def)
  from up.IH [OF up.prems(1,2) this] have "\<exists>v'. ancestor d' u' v' \<and> evolves v v'"
    using ev by (auto intro: self)
  moreover have "dct_ParentTokenID t' = dct_ParentTokenID t" using up.prems(3) by (rule static_sel)
  ultimately show ?case using u' up.hyps(1) ancestor.up [of t' d' u'] by auto
qed auto

lemma ancestor_tok: "ancestor d t v \<Longrightarrow> tok d (dct_TokenID t) = Some t \<Longrightarrow> tok d (dct_TokenID v) = Some v"
  by (induction rule: ancestor.induct) (auto dest: tok_id)

lemma steps_prepend: "steps d1 d2 \<Longrightarrow> dct_step d d1 \<Longrightarrow> steps d d2"
  by (induction rule: steps.induct) (auto intro: steps.intros)

text \<open>A revoked token deactivates every descendant, in every later state.\<close>

lemma revoked_later:
  assumes "steps d1 d2" and "tok d1 k = Some w" and "dct_RevokedAt w \<noteq> None"
  shows "tok d2 k = Some w"
  using steps_evolves [OF assms(1,2)] assms(3) by (auto simp: evolves_def)

lemma revoked_ancestor_inactive:
  assumes anc: "ancestor d t v" and t: "tok d (dct_TokenID t) = Some t"
    and step: "dct_step d d1" and w: "tok d1 (dct_TokenID v) = Some w" "dct_RevokedAt w \<noteq> None"
    and steps: "steps d1 d2" and I: "Introspect env d2 presented = Inr (t', active, rs)"
    and same: "dct_TokenID t' = dct_TokenID t"
  shows "\<not> active"
proof
  assume active
  with I have I: "Introspect env d2 presented = Inr (t', True, rs)" by simp
  have w2: "tok d2 (dct_TokenID v) = Some w" using steps w by (rule revoked_later)
  have t': "tok d2 (dct_TokenID t') = Some t'" by (rule Introspect_active(6) [OF I])
  have dd2: "steps d d2" using steps step by (rule steps_prepend)
  from steps_evolves [OF dd2 t] t' same have st: "static t' = static t" by (auto simp: evolves_def)
  have "\<exists>v'. ancestor d2 t' v' \<and> dct_TokenID v' = dct_TokenID v"
  proof (cases "t = v")
    case True
    with same show ?thesis by (auto intro: ancestor.self)
  next
    case False
    with ancestor_steps [OF anc dd2 ancestor_tok [OF anc t] st]
    show ?thesis by (auto simp: evolves_def dest: static_sel(1))
  qed
  then obtain v' where v': "ancestor d2 t' v'" "dct_TokenID v' = dct_TokenID v" by blast
  with ancestor_tok [OF v'(1) t'] w2 have "v' = w" by simp
  with active_ancestor [OF I v'(1)] w(2) show False by (simp add: sound_def)
qed

end
