(* ===== verification/DctProps.thy ===== *)
theory DctProps
  imports Lineage
begin

text \<open>
  The properties of the capability-token service, with concrete runs of the service as their
  witnesses. The sample database has one task and one escrow (buyer \<open>0xb0\<close>).
\<close>

section \<open>Sample data\<close>

definition sample_escrow :: escrow where
  "sample_escrow =
     \<lparr>esc_ID = 1, esc_TaskID = 1, esc_ChainID = 1, esc_FactoryAddress = ''0xfa'',
      esc_EscrowAddress = ''0xe1'', esc_EscrowID = 7, esc_CreateIntentID = [], esc_CreateTxHash = [],
      esc_Buyer = ''0xb0'', esc_Worker = ''0xc0'', esc_Verifier = ''0xd0'', esc_VerifierPanelJSON = ''[]'',
      esc_QuorumThreshold = 1, esc_QuorumVerifierCount = 1, esc_VerifierStakePerVerifier = ''0'',
      esc_Arbitrator = ''0xa0'', esc_Amount = ''100'', esc_WorkerStake = ''0'', esc_Token = [],
      esc_Status = ''funded'', esc_SubmissionDeadline = 900, esc_ReviewPeriodSeconds = 10,
      esc_DisputePeriodSeconds = 10, esc_ArbitratorTimeoutSeconds = 10, esc_MilestoneCount = 1,
      esc_CurrentMilestone = 0, esc_BackupWorker = [], esc_BackupDeadlineExtension = 0,
      esc_ActiveWorker = ''0xc0'', esc_BackupActivated = False, esc_Frozen = False,
      esc_ServiceTier = 0, esc_ZKVerifier = [], esc_CircuitID = [], esc_ParentEscrowID = None,
      esc_CreatedAt = 0, esc_UpdatedAt = 0\<rparr>"

definition sample_db :: db where
  "sample_db = empty_db\<lparr>escrows := [sample_escrow]\<rparr>"

definition sample_bytes :: "nat \<Rightarrow> byte \<Rightarrow> byte list" where
  "sample_bytes n b = replicate n b"

definition sample_env :: dct_env where
  "sample_env =
     \<lparr>dv_caller = Some \<lparr>p_Address = ''0xb0'', p_Authenticated = True, p_Frozen = False\<rparr>,
      dv_request = None, dv_now = 100, dv_dbnow = 100, dv_audit = SinkOk,
      dv_secret = Some (sample_bytes 24 7), dv_id = Some (sample_bytes 12 9),
      dv_hash = (\<lambda>s. CHR ''h'' # s), dv_owner = ''0x0f''\<rparr>"

definition sample_mint :: mint_params where
  "sample_mint = \<lparr>mp_EscrowID = 1, mp_Subject = ''0xC0'', mp_Issuer = [],
     mp_Operations = [''submit'', '' Read''], mp_Resources = [''escrow/1''], mp_ExpiresAt = 500\<rparr>"

lemma sample_escrow_sel [simp]:
  "esc_ID sample_escrow = 1" "esc_Buyer sample_escrow = ''0xb0''" "esc_Frozen sample_escrow = False"
  "esc_Status sample_escrow = ''funded''"
  by (simp_all add: sample_escrow_def)

lemma sample_db_sel [simp]:
  "escrows sample_db = [sample_escrow]" "dct_tokens sample_db = []"
  by (simp_all add: sample_db_def empty_db_def)

lemma sample_live: "\<not> isEscrowInactive sample_escrow"
  by (simp add: isEscrowInactive_def) code_simp

lemma sample_validate: "validateMintInput sample_mint = None"
  unfolding sample_mint_def by code_simp

lemma GetEscrow_sample: "GetEscrow sample_db 1 = Inr sample_escrow"
  by (simp add: GetEscrow_def)

text \<open>The sample mint succeeds.\<close>

definition sample_token :: dct_token where
  "sample_token = stored [] sample_env
     (minted sample_env sample_mint (''dct_'' @ EncodeToString (sample_bytes 12 9))
        (RawURLEncoding (sample_bytes 24 7)))"

lemma sample_mint_run:
  "\<exists>d'. Mint sample_env sample_mint sample_db =
     (d', Inr (sample_token, (''dct_'' @ EncodeToString (sample_bytes 12 9)) @ ''.'' @ RawURLEncoding (sample_bytes 24 7)))"
proof -
  have m: "mp_EscrowID sample_mint = 1" "mp_ExpiresAt sample_mint = 500" by (simp_all add: sample_mint_def)
  have e: "dv_now sample_env = 100" "dv_audit sample_env = SinkOk"
    "dv_secret sample_env = Some (sample_bytes 24 7)" "dv_id sample_env = Some (sample_bytes 12 9)"
    "CallerFrom (dv_caller sample_env) = \<lparr>p_Address = ''0xb0'', p_Authenticated = True, p_Frozen = False\<rparr>"
    by (simp_all add: sample_env_def CallerFrom_def)
  have a: "r_Allowed (Authorize OpMint (CallerFrom (dv_caller sample_env))
      (Some (escrowContext sample_escrow)) None)"
    by (simp add: Authorize_mint e live_escrowContext sample_live)
  show ?thesis
    using a by (simp add: Mint_def m e sample_validate GetEscrow_sample sample_live logAudit_def
        randomSecret_def randomID_def CreateDCTToken_def Let_def sample_token_def stored_def
        minted_def new_token_def)
qed

definition sample_tok :: string where
  "sample_tok = (''dct_'' @ EncodeToString (sample_bytes 12 9)) @ ''.'' @ RawURLEncoding (sample_bytes 24 7)"

definition minted_db :: db where
  "minted_db = fst (Mint sample_env sample_mint sample_db)"

lemma sample_minted: "Mint sample_env sample_mint sample_db = (minted_db, Inr (sample_token, sample_tok))"
  using sample_mint_run by (auto simp: minted_db_def sample_tok_def)

section \<open>Scopes\<close>

text \<open>Scope lists have one canonical form: \<open>canonicalize\<close> returns the sorted, duplicate-free
  list of the trimmed lower-case non-empty items, it is idempotent, and a scope written to a
  token row and read back is exactly its canonical form.\<close>

theorem canonicalize_spec:
  "canonicalize items = sorted_list_of_set ((\<lambda>s. TrimSpace (ToLower s)) ` set items - {[]})
   \<and> canonicalize (canonicalize items) = canonicalize items
   \<and> fromJSON (toJSON items) = Inr (canonicalize items)"
proof -
  have "(\<lambda>s. TrimSpace (ToLower s)) ` set items - {[]} = scope_of items"
    by (simp add: scope_of_def norm_item_def)
  then show ?thesis by (simp add: canonicalize_eq [of items, symmetric])
qed

section \<open>Issuing tokens\<close>

text \<open>Minting is authorised and exact. When \<open>Mint\<close> succeeds, the caller was authenticated,
  not frozen and the buyer of the escrow, the escrow was neither frozen nor terminal, the
  expiry lies in the future, and the token table is the old one with one row added: an
  unrevoked root token of depth 0 whose id was unused, scoped to that escrow, granting exactly
  the canonical operations and resources asked for, both non-empty. Escrows are unchanged.\<close>

theorem Mint_sound:
  assumes "Mint env p d = (d', Inr (t, presented))"
  shows "(\<exists>e. GetEscrow d (mp_EscrowID p) = Inr e \<and> \<not> isEscrowInactive e
        \<and> p_Authenticated (CallerFrom (dv_caller env)) \<and> \<not> p_Frozen (CallerFrom (dv_caller env))
        \<and> addressEq (p_Address (CallerFrom (dv_caller env))) (esc_Buyer e))
     \<and> dv_now env < dct_ExpiresAt t \<and> dct_tokens d' = dct_tokens d @ [t] \<and> escrows d' = escrows d
     \<and> dct_TokenID t \<notin> dct_TokenID ` set (dct_tokens d)
     \<and> dct_ParentTokenID t = [] \<and> dct_Depth t = 0 \<and> dct_RevokedAt t = None
     \<and> dct_EscrowID t = mp_EscrowID p
     \<and> fromJSON (dct_OperationsJSON t) = Inr (canonicalize (mp_Operations p))
     \<and> fromJSON (dct_ResourcesJSON t) = Inr (canonicalize (mp_Resources p))
     \<and> canonicalize (mp_Operations p) \<noteq> [] \<and> canonicalize (mp_Resources p) \<noteq> []"
  using assms
  by (auto elim!: Mint_ok simp: Authorize_mint row_add_def row_get_None validateMintInput_def
      split: if_splits)

theorem Mint_sound_witness:
  "dct_tokens minted_db = dct_tokens sample_db @ [sample_token]"
  using Mint_sound [OF sample_minted] by simp

text \<open>C4: The service fails closed. Whenever minting, delegation, revocation or the emergency
  override returns an error, the token and escrow tables are what they were; and when the
  audit sink cannot record the decision, none of the four returns success.\<close>

theorem fail_closed:
  "(case Mint env p d of (d1, Inl x) \<Rightarrow> dct_tokens d1 = dct_tokens d \<and> escrows d1 = escrows d
      | (d1, Inr y) \<Rightarrow> \<not> (\<exists>x. dv_audit env = SinkFails x))
   \<and> (case Delegate env q d of (d1, Inl x) \<Rightarrow> dct_tokens d1 = dct_tokens d \<and> escrows d1 = escrows d
      | (d1, Inr y) \<Rightarrow> \<not> (\<exists>x. dv_audit env = SinkFails x))
   \<and> (case Revoke env r d of (d1, Inl x) \<Rightarrow> dct_tokens d1 = dct_tokens d \<and> escrows d1 = escrows d
      | (d1, Inr y) \<Rightarrow> \<not> (\<exists>x. dv_audit env = SinkFails x))
   \<and> (case EmergencyOverride env v d of (d1, Inl x) \<Rightarrow> dct_tokens d1 = dct_tokens d \<and> escrows d1 = escrows d
      | (d1, Inr y) \<Rightarrow> \<not> (\<exists>x. dv_audit env = SinkFails x))"
proof -
  have no_audit: "\<not> (\<exists>x. dv_audit env = SinkFails x)" if "logAudit env ae d0 = (d1, Inr u)" for ae d0 d1 u
    using that by (auto simp: logAudit_def)
  have "\<not> (\<exists>x. dv_audit env = SinkFails x)" if "Mint env p d = (d1, Inr y)" for d1 y
    using that by (auto simp: Mint_def err_iff Let_def split: option.splits if_splits dest: no_audit)
  moreover have "\<not> (\<exists>x. dv_audit env = SinkFails x)" if "Delegate env q d = (d1, Inr y)" for d1 y
    using that by (auto simp: Delegate_def err_iff Let_def split: option.splits if_splits prod.splits dest: no_audit)
  moreover have "\<not> (\<exists>x. dv_audit env = SinkFails x)" if "Revoke env r d = (d1, Inr y)" for d1 y
    using that by (auto simp: Revoke_def err_iff Let_def split: if_splits dest: no_audit)
  moreover have "\<not> (\<exists>x. dv_audit env = SinkFails x)" if "EmergencyOverride env v d = (d1, Inr y)" for d1 y
    using that by (auto simp: EmergencyOverride_def err_iff Let_def split: if_splits dest: no_audit)
  ultimately show ?thesis
    by (auto split: prod.splits sum.splits
        dest: Mint_err Delegate_err Revoke_err EmergencyOverride_err)
qed

lemma token_chars:
  "randomID ''dct_'' r = Inr i \<Longrightarrow> c \<in> set i \<Longrightarrow> plain_char c"
  by (auto simp: randomID_def dest!: plain_id split: option.splits) (code_simp)+

lemma secret_nonempty: "bs \<noteq> [] \<Longrightarrow> RawURLEncoding bs \<noteq> []"
  by (cases bs rule: RawURLEncoding.cases) auto

lemma mint_introspect:
  assumes "Mint env p d = (d', Inr (t, presented))"
    and "dv_secret env = Some bytes" and "length bytes = 24"
    and "dv_hash env' = dv_hash env" and "dv_now env' < mp_ExpiresAt p"
  shows "Introspect env' d' presented = Inr (t, True, [])"
  using assms(1)
proof (rule Mint_ok)
  fix e secret i
  assume e: "GetEscrow d (mp_EscrowID p) = Inr e" "\<not> isEscrowInactive e"
    and s: "randomSecret (dv_secret env) = Inr secret" and i: "randomID ''dct_'' (dv_id env) = Inr i"
    and pr: "presented = i @ ''.'' @ secret" and t: "t = stored (dct_tokens d) env (minted env p i secret)"
    and f: "tok d i = None" and d': "dct_tokens d' = row_add t (dct_tokens d)" "escrows d' = escrows d"
  from s assms(2) have sec: "secret = RawURLEncoding bytes" by (simp add: randomSecret_def)
  have "parsePresentedToken presented = Inr (i, secret)"
    unfolding pr
  proof (rule parse_presented)
    have "bytes \<noteq> []" using assms(3) by auto
    then show "secret \<noteq> []" unfolding sec by (rule secret_nonempty)
  qed (use i sec in \<open>auto dest: token_chars plain_secret randomID_nonempty\<close>)
  moreover have "GetDCTTokenByTokenID d' i = Inr t"
    using f by (simp add: GetToken_iff d' t rows.get_add)
  moreover have "validateChain (dv_now env') d' t = Inr []"
    using e by (simp add: validateChain_def t GetEscrow_def d' chain_loop_root isEscrowInactive_iff
        dedupSortReasons_def)
  ultimately show ?thesis
    using assms(4,5) by (simp add: Introspect_def t dedupSortReasons_def)
qed

text \<open>C5: A freshly minted token is active. The string \<open>Mint\<close> hands out introspects, on the
  database it leaves and at any time before the expiry, to the stored row, active and with no
  reasons: it parses back to the id and the secret, the hash matches, and the chain is clean.\<close>

theorem minted_token_active:
  assumes "Mint env p d = (d', Inr (t, presented))"
    and "dv_secret env = Some bytes" and "length bytes = 24"
    and "dv_hash env' = dv_hash env" and "dv_now env' < mp_ExpiresAt p"
  shows "Introspect env' d' presented = Inr (t, True, [])"
  using assms by (rule mint_introspect)

theorem minted_token_active_witness:
  "Introspect (sample_env\<lparr>dv_now := 499\<rparr>) minted_db sample_tok = Inr (sample_token, True, [])"
  by (rule minted_token_active [OF sample_minted, of "sample_bytes 24 7"])
    (simp_all add: sample_env_def sample_mint_def sample_bytes_def)

section \<open>Delegation\<close>

definition holder_env :: dct_env where
  "holder_env = sample_env\<lparr>dv_caller := Some \<lparr>p_Address = ''0xc0'', p_Authenticated = True, p_Frozen = False\<rparr>,
     dv_secret := Some (sample_bytes 24 8), dv_id := Some (sample_bytes 12 10)\<rparr>"

definition sample_delegate :: "string \<Rightarrow> delegate_params" where
  "sample_delegate issuer = \<lparr>dp_ParentToken = sample_tok, dp_Subject = ''0xdd'', dp_Issuer = issuer,
     dp_Operations = [''SUBMIT''], dp_Resources = [''escrow/1''], dp_ExpiresAt = 500\<rparr>"

definition delegated_db :: "string \<Rightarrow> db" where
  "delegated_db issuer = fst (Delegate holder_env (sample_delegate issuer) minted_db)"

definition sample_child :: "string \<Rightarrow> dct_token" where
  "sample_child issuer = stored (dct_tokens minted_db) holder_env
     (delegated holder_env (sample_delegate issuer) sample_token
        (''dct_'' @ EncodeToString (sample_bytes 12 10)) (RawURLEncoding (sample_bytes 24 8)))"

definition child_tok :: string where
  "child_tok = (''dct_'' @ EncodeToString (sample_bytes 12 10)) @ ''.'' @ RawURLEncoding (sample_bytes 24 8)"

lemma minted_db_sel:
  "dct_tokens minted_db = [sample_token]" "escrows minted_db = [sample_escrow]"
  using Mint_fresh [OF sample_minted] by (simp_all add: row_add_def)

lemma sample_token_sel [simp]:
  "dct_TokenID sample_token = ''dct_'' @ EncodeToString (sample_bytes 12 9)"
  "dct_EscrowID sample_token = 1" "dct_ParentTokenID sample_token = []" "dct_ExpiresAt sample_token = 500"
  "dct_OperationsJSON sample_token = toJSON (canonicalize [''submit'', '' Read''])"
  "dct_ResourcesJSON sample_token = toJSON (canonicalize [''escrow/1''])"
  "dct_TokenHash sample_token = CHR ''h'' # RawURLEncoding (sample_bytes 24 7)"
  "dct_Subject sample_token = ToLower ''0xC0''" "dct_Depth sample_token = 0"
  by (simp_all add: sample_token_def sample_mint_def sample_env_def)

lemma sample_introspect: "Introspect holder_env minted_db sample_tok = Inr (sample_token, True, [])"
  by (rule mint_introspect [OF sample_minted, of "sample_bytes 24 7"])
    (simp_all add: sample_env_def sample_mint_def holder_env_def sample_bytes_def)

lemma sample_scopes:
  "canonicalize [''submit'', '' Read''] = [''read'', ''submit'']"
  "canonicalize [''SUBMIT''] = [''submit'']" "canonicalize [''escrow/1''] = [''escrow/1'']"
  "addressEq ''0xc0'' (ToLower ''0xC0'')" "\<not> blank ''0xdd''"
  by code_simp+

lemma sample_ids:
  "EncodeToString (sample_bytes 12 9) \<noteq> EncodeToString (sample_bytes 12 10)"
  "RawURLEncoding (sample_bytes 24 7) \<noteq> RawURLEncoding (sample_bytes 24 8)"
  by code_simp+

lemma canonical_scope: "canonicalize [''read'', ''submit''] = [''read'', ''submit'']"
  by code_simp

lemma sample_decoded:
  "fromJSON (dct_OperationsJSON sample_token) = Inr [''read'', ''submit'']"
  "fromJSON (dct_ResourcesJSON sample_token) = Inr [''escrow/1'']"
  by (simp_all add: sample_scopes canonical_scope)

lemma sample_strict:
  "strictAttenuation [''submit''] [''read'', ''submit''] [''escrow/1''] [''escrow/1''] 500 500"
  by (simp add: strictAttenuation_def isSubset_def)

lemma sample_delegated:
  "Delegate holder_env (sample_delegate issuer) minted_db
     = (delegated_db issuer, Inr (sample_child issuer, child_tok))"
proof -
  have e: "dv_now holder_env = 100" "dv_audit holder_env = SinkOk"
    "dv_secret holder_env = Some (sample_bytes 24 8)" "dv_id holder_env = Some (sample_bytes 12 10)"
    "CallerFrom (dv_caller holder_env) = \<lparr>p_Address = ''0xc0'', p_Authenticated = True, p_Frozen = False\<rparr>"
    "dv_hash holder_env s = CHR ''h'' # s" for s
    by (simp_all add: holder_env_def sample_env_def CallerFrom_def)
  have p: "dp_ParentToken (sample_delegate issuer) = sample_tok" "dp_Subject (sample_delegate issuer) = ''0xdd''"
    "dp_Operations (sample_delegate issuer) = [''SUBMIT'']"
    "dp_Resources (sample_delegate issuer) = [''escrow/1'']" "dp_ExpiresAt (sample_delegate issuer) = 500"
    by (simp_all add: sample_delegate_def)
  have g: "GetEscrow minted_db 1 = Inr sample_escrow" by (simp add: GetEscrow_def minted_db_sel)
  have a: "r_Allowed (Authorize OpDelegate (CallerFrom (dv_caller holder_env))
      (Some (escrowContext sample_escrow)) (Some (tokenContext sample_token)))"
    by (simp add: Authorize_delegate e live_escrowContext sample_live sample_scopes)
  have c: "check_delegate holder_env (sample_delegate issuer) sample_token True [] = None"
    unfolding check_delegate_def p sample_decoded sum.case
    by (simp add: e sample_scopes sample_strict)
  have n: "(\<exists>d'. Delegate holder_env (sample_delegate issuer) minted_db =
     (d', Inr (sample_child issuer, child_tok)))"
    using a by (simp add: Delegate_def p e sample_introspect g c logAudit_def randomSecret_def
        randomID_def CreateDCTToken_def Let_def minted_db_sel sample_child_def stored_def
        delegated_def new_token_def sample_ids child_tok_def)
  then show ?thesis by (auto simp: delegated_db_def)
qed

text \<open>C3: Delegation only attenuates. When \<open>Delegate\<close> succeeds, the presented parent is active
  and the authenticated caller is its subject; the new row is the only change of the token
  table, has an unused id, is unrevoked and unexpired, names the parent, is one level deeper and
  in the parent's escrow; its operations, resources and expiry lie within the parent's, and
  at least one of the three strictly.\<close>

theorem Delegate_attenuates:
  assumes "Delegate env p d = (d', Inr (t, presented))"
  shows "\<exists>u. Introspect env d (dp_ParentToken p) = Inr (u, True, [])
      \<and> p_Authenticated (CallerFrom (dv_caller env)) \<and> \<not> p_Frozen (CallerFrom (dv_caller env))
      \<and> addressEq (p_Address (CallerFrom (dv_caller env))) (dct_Subject u)
      \<and> dct_tokens d' = dct_tokens d @ [t] \<and> dct_TokenID t \<notin> dct_TokenID ` set (dct_tokens d)
      \<and> dct_RevokedAt t = None \<and> dv_now env < dct_ExpiresAt t
      \<and> dct_ParentTokenID t = dct_TokenID u \<and> dct_Depth t = dct_Depth u + 1
      \<and> dct_EscrowID t = dct_EscrowID u \<and> within t u \<and> \<not> within u t"
  using assms
proof (rule Delegate_ok)
  fix u active reasons e secret i
  assume I: "Introspect env d (dp_ParentToken p) = Inr (u, active, reasons)"
    and a: "r_Allowed (Authorize OpDelegate (CallerFrom (dv_caller env)) (Some (escrowContext e)) (Some (tokenContext u)))"
    and c: "check_delegate env p u active reasons = None"
    and t: "t = stored (dct_tokens d) env (delegated env p u i secret)"
    and f: "tok d i = None" and d': "dct_tokens d' = row_add t (dct_tokens d)"
  from c have active by (rule check_delegate_ok)
  with I have I: "Introspect env d (dp_ParentToken p) = Inr (u, True, [])"
    using Introspect_active(7) by fastforce
  from c obtain pops pres where o: "fromJSON (dct_OperationsJSON u) = Inr pops"
    and r: "fromJSON (dct_ResourcesJSON u) = Inr pres" and x: "dv_now env < dp_ExpiresAt p"
    and s: "strictAttenuation (canonicalize (dp_Operations p)) pops (canonicalize (dp_Resources p)) pres
           (dp_ExpiresAt p) (dct_ExpiresAt u)"
    by (rule check_delegate_ok)
  have lt: "\<not> set ys \<subseteq> scope_of xs" if "length (canonicalize xs) < length ys" "distinct ys" for xs ys
  proof
    assume "set ys \<subseteq> scope_of xs"
    then have "card (set ys) \<le> card (set (canonicalize xs))" by (simp add: card_mono)
    with that show False by (simp add: distinct_card [OF distinct_canonicalize, symmetric] distinct_card)
  qed
  have "\<not> within u t"
    using s fromJSON_distinct [OF o] fromJSON_distinct [OF r] lt [of "dp_Operations p" pops]
      lt [of "dp_Resources p" pres]
    by (auto simp: strictAttenuation_within within_def t)
  moreover have "within t u" unfolding t by (rule check_delegate_within [OF c])
  ultimately show ?thesis
    using I a x f by (auto simp: d' row_add_def Authorize_delegate t row_get_None)
qed

theorem Delegate_attenuates_witness:
  "dct_tokens (delegated_db []) = dct_tokens minted_db @ [sample_child []]"
  using Delegate_attenuates [OF sample_delegated] by blast

text \<open>A delegation that names an issuer other than the parent's subject succeeds, stores and
  returns a token, but that token is never active: introspection right after reports it
  inactive, whatever the clock. (\<open>Delegate\<close> takes the issuer from the caller, while
  \<open>validateChain\<close> demands the parent's subject.)\<close>

theorem foreign_issuer_inactive:
  assumes "Delegate env p d = (d', Inr (t, presented))"
    and "Introspect env d (dp_ParentToken p) = Inr (u, a, rs0)"
    and "\<not> blank (dp_Issuer p)" and "\<not> EqualFold (dp_Issuer p) (dct_Subject u)"
    and "Introspect env' d' other = Inr (t', active, rs)" and "dct_TokenID t' = dct_TokenID t"
  shows "\<not> active"
  using assms(1)
proof (rule Delegate_ok)
  fix u1 a1 rs1 e secret i
  assume I: "Introspect env d (dp_ParentToken p) = Inr (u1, a1, rs1)"
    and t: "t = stored (dct_tokens d) env (delegated env p u1 i secret)"
    and f: "tok d i = None" and d': "dct_tokens d' = row_add t (dct_tokens d)"
  from I assms(2) have [simp]: "u1 = u" by simp
  have sel: "dct_TokenID t = i" "dct_ParentTokenID t = dct_TokenID u"
    "dct_Issuer t = ToLower (firstNonEmpty [dp_Issuer p, dct_Subject u])"
    by (simp_all add: t)
  from assms(2) have u: "tok d (dct_TokenID u) = Some u" "dct_TokenID u \<noteq> []" by (auto elim: Introspect_ok)
  with f have u': "tok d' (dct_TokenID u) = Some u" by (auto simp: d' sel intro: row_get_add_kept)
  have t2: "tok d' i = Some t" using rows.get_add_same [of dct_TokenID "dct_tokens d" t] f by (simp add: d' sel)
  show "\<not> active"
  proof
    assume active
    with assms(5) have J: "Introspect env' d' other = Inr (t', True, rs)" by simp
    from Introspect_active(6) [OF J] t2 assms(6) have "t' = t" by (simp add: sel)
    with Introspect_active(5) [OF J] have "chain_loop (dv_now env') d' [dct_TokenID t] t = Inr []" by simp
    moreover have "dct_ParentTokenID t \<noteq> []" using u sel by simp
    ultimately obtain w where w: "GetDCTTokenByTokenID d' (dct_ParentTokenID t) = Inr w"
      and l: "link_reasons (dv_now env') t w = Inr []"
      by (rule chain_loop_clean)
    from u' w have "w = u" by (simp add: GetToken_iff sel)
    with l have "EqualFold (dct_Issuer t) (dct_Subject u)" by (simp add: link_reasons_Nil)
    with assms(3,4) show False by (simp add: sel firstNonEmpty_def)
  qed
qed

definition child_introspection :: "string \<Rightarrow> gerr + dct_token \<times> bool \<times> string list" where
  "child_introspection issuer = Introspect holder_env (delegated_db issuer) child_tok"

text \<open>The sample child introspects in the sample run, with one reason when its issuer is foreign.\<close>

lemma sample_child_sel [simp]:
  "dct_TokenID (sample_child issuer) = ''dct_'' @ EncodeToString (sample_bytes 12 10)"
  "dct_ParentTokenID (sample_child issuer) = dct_TokenID sample_token"
  "dct_EscrowID (sample_child issuer) = 1" "dct_RevokedAt (sample_child issuer) = None"
  "dct_Profile (sample_child issuer) = CanonicalProfile" "dct_ExpiresAt (sample_child issuer) = 500"
  "dct_TokenHash (sample_child issuer) = CHR ''h'' # RawURLEncoding (sample_bytes 24 8)"
  by (simp_all add: sample_child_def holder_env_def sample_env_def sample_delegate_def)

lemma reachable_delegated: "reachable (delegated_db issuer)"
  by (meson reachable.intros dct_step.intros sample_minted sample_delegated sample_db_sel(2))

lemma delegated_db_sel:
  "dct_tokens (delegated_db issuer) = [sample_token, sample_child issuer]"
  "escrows (delegated_db issuer) = [sample_escrow]"
  using Delegate_fresh [OF sample_delegated [of issuer]] by (simp_all add: row_add_def minted_db_sel)

lemma child_parsed:
  "parsePresentedToken child_tok = Inr (dct_TokenID (sample_child issuer), RawURLEncoding (sample_bytes 24 8))"
  unfolding child_tok_def sample_child_sel
  by (rule parse_presented)
    (auto simp: sample_bytes_def dest: plain_secret plain_id token_chars [of "Some bs" for bs]
      intro: secret_nonempty split: if_splits, code_simp+)

lemma child_introspects:
  "\<exists>active rs. child_introspection issuer = Inr (sample_child issuer, active, rs)"
proof -
  have g: "tok (delegated_db issuer) (dct_TokenID (sample_child issuer)) = Some (sample_child issuer)"
    by (simp add: delegated_db_sel sample_ids)
  with validateChain_soft [OF reachable_lineage [OF reachable_delegated] g]
  obtain rs where "validateChain (dv_now holder_env) (delegated_db issuer) (sample_child issuer) = Inr rs"
    by blast
  moreover have "dct_TokenHash (sample_child issuer) = dv_hash holder_env (RawURLEncoding (sample_bytes 24 8))"
    by (simp add: holder_env_def sample_env_def)
  ultimately show ?thesis
    unfolding child_introspection_def Introspect_def child_parsed [of issuer] sum.case prod.case
      GetToken_iff [THEN iffD2, OF g]
    by (simp add: Let_def)
qed

theorem foreign_issuer_inactive_witness:
  "\<exists>rs. child_introspection ''0xee'' = Inr (sample_child ''0xee'', False, rs)"
proof -
  from child_introspects obtain a rs
    where c: "child_introspection ''0xee'' = Inr (sample_child ''0xee'', a, rs)" by blast
  have "\<not> a"
    by (rule foreign_issuer_inactive [OF sample_delegated [of "''0xee''"] _ _ _ c [unfolded child_introspection_def]])
      (simp_all add: sample_delegate_def sample_introspect, code_simp+)
  with c show ?thesis by simp
qed

section \<open>Chains\<close>

text \<open>C1: An active token has a sound chain. If introspection says active, then the token and
  every ancestor of it up to the root are unrevoked, unexpired, canonical and scoped to one
  escrow, each of them grants at least the token's operations and resources and expires no
  earlier, and that escrow exists and is neither frozen nor terminal.\<close>

theorem active_token_chain:
  assumes "Introspect env d presented = Inr (t, True, rs)" and "ancestor d t v"
  shows "dct_RevokedAt v = None \<and> dv_now env < dct_ExpiresAt v \<and> dct_Profile v = CanonicalProfile
     \<and> dct_EscrowID v = dct_EscrowID t \<and> within t v
     \<and> (\<exists>e. GetEscrow d (dct_EscrowID t) = Inr e \<and> \<not> isEscrowInactive e)"
  using active_ancestor [OF assms] Introspect_active(4) [OF assms(1)]
  by (auto simp: sound_def GetEscrow_iff)

theorem active_token_chain_witness:
  "ancestor minted_db sample_token sample_token
   \<and> Introspect holder_env minted_db sample_tok = Inr (sample_token, True, [])
   \<and> dct_RevokedAt sample_token = None"
  using active_token_chain [OF sample_introspect ancestor.self] sample_introspect
  by (simp add: ancestor.self)

text \<open>C2: Revocation is final and reaches the descendants. Once \<open>Revoke\<close> succeeds on a token,
  then after any further operations on the database, with any clock and caller, no
  introspection of that token or of a token delegated (directly or not) from it is active.\<close>

theorem revocation_cascades:
  assumes "Revoke env p d = (d1, Inr ())" and "rp_TokenID p = dct_TokenID v"
    and "ancestor d t v" and "GetDCTTokenByTokenID d (dct_TokenID t) = Inr t"
    and "steps d1 d2" and "Introspect env' d2 presented = Inr (t', active, rs)"
    and "dct_TokenID t' = dct_TokenID t"
  shows "\<not> active"
proof -
  have t: "tok d (dct_TokenID t) = Some t" using assms(4) by (simp add: GetToken_iff)
  note v = ancestor_tok [OF assms(3) t]
  have "\<exists>w. tok d1 (dct_TokenID v) = Some w \<and> dct_RevokedAt w \<noteq> None"
    using assms(1)
  proof (rule Revoke_ok)
    fix t0 d0
    assume "GetDCTTokenByTokenID d (rp_TokenID p) = Inr t0" and d0: "dct_tokens d0 = dct_tokens d"
      and d1: "d1 = revoke_where (\<lambda>t. dct_TokenID t = rp_TokenID p) (dv_dbnow env)
           (firstNonEmpty [rp_Reason p, ''revoked'']) (firstNonEmpty [rp_By p, ''manual'']) d0
         \<or> d1 = d0 \<and> dct_RevokedAt t0 \<noteq> None"
    then have "t0 = v" using v assms(2) by (simp add: GetToken_iff)
    with d1 v d0 assms(2) show ?thesis by auto
  qed
  then show ?thesis
    using revoked_ancestor_inactive [OF assms(3) t dct_step.revoke [OF assms(1)] _ _ assms(5-7)] by blast
qed

definition owner_revoke :: revoke_params where
  "owner_revoke = \<lparr>rp_TokenID = dct_TokenID sample_token, rp_Reason = [], rp_By = []\<rparr>"

lemma sample_revoked: "\<exists>d1. Revoke sample_env owner_revoke (delegated_db []) = (d1, Inr ())"
proof -
  have e: "CallerFrom (dv_caller sample_env) = \<lparr>p_Address = ''0xb0'', p_Authenticated = True, p_Frozen = False\<rparr>"
    "dv_audit sample_env = SinkOk"
    by (simp_all add: sample_env_def CallerFrom_def)
  have b: "\<not> blank (rp_TokenID owner_revoke)"
    unfolding owner_revoke_def by (rule not_blank [of "CHR ''d''"]) (simp_all add: is_space_def)
  have g: "GetDCTTokenByTokenID (delegated_db []) (rp_TokenID owner_revoke) = Inr sample_token"
    by (simp add: GetToken_iff delegated_db_sel owner_revoke_def)
  have x: "GetEscrow (delegated_db []) 1 = Inr sample_escrow" by (simp add: GetEscrow_iff delegated_db_sel)
  have a: "r_Allowed (Authorize OpRevoke (CallerFrom (dv_caller sample_env))
      (Some (escrowContext sample_escrow)) (Some (tokenContext sample_token)))"
    by (simp add: Authorize_revoke e live_escrowContext sample_live)
  have n: "rows_affected (\<lambda>t. dct_TokenID t = rp_TokenID owner_revoke \<and> dct_RevokedAt t = None)
      (dct_tokens (delegated_db [])) > 0"
    by (simp add: rows_affected_def delegated_db_sel owner_revoke_def sample_token_def)
  from b a n show ?thesis
    by (simp add: Revoke_def g x e logAudit_def RevokeDCTToken_def Let_def)
qed

theorem revocation_cascades_witness:
  "\<exists>d1. Revoke sample_env owner_revoke (delegated_db []) = (d1, Inr ())
     \<and> (\<forall>t' active rs. \<not> (Introspect holder_env d1 child_tok = Inr (t', active, rs)
          \<and> dct_TokenID t' = dct_TokenID (sample_child []) \<and> active))"
proof -
  from sample_revoked obtain d1 where r: "Revoke sample_env owner_revoke (delegated_db []) = (d1, Inr ())"
    by blast
  have rp: "rp_TokenID owner_revoke = dct_TokenID sample_token" by (simp add: owner_revoke_def)
  have anc: "ancestor (delegated_db []) (sample_child []) sample_token"
    by (rule ancestor.up [OF _ _ ancestor.self]) (simp_all add: delegated_db_sel)
  have g: "GetDCTTokenByTokenID (delegated_db []) (dct_TokenID (sample_child [])) = Inr (sample_child [])"
    by (simp add: GetToken_iff delegated_db_sel sample_ids)
  show ?thesis
    using revocation_cascades [OF r rp anc g steps_none] r by blast
qed

text \<open>Escrow-wide kill switches. After an escrow is frozen on chain, resolved by emergency,
  or \<open>revoke_all\<close> is run by the owner, every token of that escrow that existed is inactive in
  every later state, even when the escrow is later unfrozen or its status is overwritten.\<close>

theorem escrow_kill_switch:
  assumes "d1 = RecordFreezeEscrowAndRevokeDCT now i addr tx d
         \<or> d1 = RecordEmergencyResolveAndRevokeDCT now i addr bps tx d
         \<or> EmergencyOverride env p d = (d1, Inr ()) \<and> op_EscrowID p = i"
    and "GetDCTTokenByTokenID d k = Inr t" and "dct_EscrowID t = i"
    and "steps d1 d2" and "Introspect env' d2 presented = Inr (t', active, rs)"
    and "dct_TokenID t' = k"
  shows "\<not> active"
proof -
  have t: "tok d k = Some t" and k: "dct_TokenID t = k"
    using assms(2) by (auto simp: GetToken_iff dest: row_get_Some)
  have step: "dct_step d d1" using assms(1) by (auto intro: dct_step.intros)
  have "\<exists>w. tok d1 k = Some w \<and> dct_RevokedAt w \<noteq> None"
    using assms(1) t assms(3)
    by (auto simp: RecordFreezeEscrowAndRevokeDCT_def RecordEmergencyResolveAndRevokeDCT_def
        elim!: EmergencyOverride_ok dest!: logAudit_frame)
  then show ?thesis
    using revoked_ancestor_inactive [OF ancestor.self _ step _ _ assms(4,5)] t k assms(6) by blast
qed

theorem escrow_kill_switch_witness:
  "\<not> (\<exists>active rs. Introspect holder_env (UpdateEscrowFrozen 120 1 False
          (RecordFreezeEscrowAndRevokeDCT 110 1 ''0xe1'' ''0x1'' minted_db)) sample_tok
        = Inr (sample_token, active, rs) \<and> active)"
proof -
  have g: "GetDCTTokenByTokenID minted_db (dct_TokenID sample_token) = Inr sample_token"
    by (simp add: GetToken_iff minted_db_sel)
  have s: "steps (RecordFreezeEscrowAndRevokeDCT 110 1 ''0xe1'' ''0x1'' minted_db)
      (UpdateEscrowFrozen 120 1 False (RecordFreezeEscrowAndRevokeDCT 110 1 ''0xe1'' ''0x1'' minted_db))"
    by (rule steps_more [OF steps_none dct_step.frozen])
  show ?thesis
    using escrow_kill_switch [OF disjI1 [OF refl] g sample_token_sel(2) s _ refl] by blast
qed

text \<open>The lineage stored in the database stays well-formed. In every state reached from a
  database without tokens by minting, delegation, revocation, overrides and escrow updates,
  walking the chain of any stored token succeeds and can only report revoked or expired
  ancestors, a foreign issuer, or an inactive escrow: never a missing ancestor, a cycle, a
  profile, escrow, expiry or scope violation.\<close>

theorem reachable_lineage_sound:
  assumes "reachable d" and "GetDCTTokenByTokenID d k = Inr t"
  shows "\<exists>rs. validateChain now d t = Inr rs
     \<and> set rs \<subseteq> {''ancestor_revoked'', ''ancestor_expired'', ''lineage_issuer_subject_mismatch'',
                 ''escrow_frozen'', ''escrow_terminal_or_inactive''}"
  using validateChain_soft [OF reachable_lineage [OF assms(1)]] assms(2)
  by (fastforce simp: GetToken_iff soft_reasons_def reason_defs)

theorem reachable_lineage_sound_witness:
  "\<exists>rs. validateChain 50 (delegated_db ''0xee'') (sample_child ''0xee'') = Inr rs
     \<and> ''lineage_cycle'' \<notin> set rs"
proof -
  have g: "GetDCTTokenByTokenID (delegated_db ''0xee'') (dct_TokenID (sample_child ''0xee''))
      = Inr (sample_child ''0xee'')"
    by (simp add: GetToken_iff delegated_db_sel sample_ids)
  from reachable_lineage_sound [OF reachable_delegated g, of 50] obtain rs
    where "validateChain 50 (delegated_db ''0xee'') (sample_child ''0xee'') = Inr rs"
      and "set rs \<subseteq> {''ancestor_revoked'', ''ancestor_expired'', ''lineage_issuer_subject_mismatch'',
                 ''escrow_frozen'', ''escrow_terminal_or_inactive''}" by blast
  moreover from this(2) have "''lineage_cycle'' \<notin> set rs" by auto
  ultimately show ?thesis by blast
qed

section \<open>Emergency override\<close>

lemma row_upd_ids: "map dct_TokenID (row_upd q (mark_revoked now r b) ts) = map dct_TokenID ts"
  by (simp add: row_upd_def)

lemma filter_other_escrow:
  "filter (\<lambda>t. dct_EscrowID t \<noteq> i) (row_upd (\<lambda>t. dct_EscrowID t = i \<and> q t) (mark_revoked now r b) ts)
     = filter (\<lambda>t. dct_EscrowID t \<noteq> i) ts"
  by (induction ts) (auto simp: row_upd_def)

text \<open>The emergency override is the owner's alone. When it succeeds, a reason was given, the
  escrow exists, the caller was authenticated with the configured owner address, the operation
  was \<open>revoke_all\<close>, an allowing decision was appended to the audit table if there is one, every
  token of that escrow is revoked and every other token is untouched.\<close>

theorem EmergencyOverride_sound:
  assumes "EmergencyOverride env p d = (d', Inr ())"
  shows "\<not> blank (op_Reason p) \<and> (\<exists>e. GetEscrow d (op_EscrowID p) = Inr e)
     \<and> p_Authenticated (CallerFrom (dv_caller env))
     \<and> EqualFold (p_Address (CallerFrom (dv_caller env))) (dv_owner env)
     \<and> EqualFold (op_Operation p) ''revoke_all''
     \<and> (case dv_audit env of SinkOk \<Rightarrow> \<exists>r. dct_audit d' = dct_audit d @ [r] \<and> aud_Allowed r
            \<and> aud_Operation r = ''emergency_override'' \<and> aud_EscrowID r = op_EscrowID p
            \<and> aud_CallerAddress r = p_Address (CallerFrom (dv_caller env))
        | _ \<Rightarrow> dct_audit d' = dct_audit d)
     \<and> map dct_TokenID (dct_tokens d') = map dct_TokenID (dct_tokens d)
     \<and> list_all (\<lambda>t. dct_EscrowID t = op_EscrowID p --> dct_RevokedAt t \<noteq> None) (dct_tokens d')
     \<and> filter (\<lambda>t. dct_EscrowID t \<noteq> op_EscrowID p) (dct_tokens d')
        = filter (\<lambda>t. dct_EscrowID t \<noteq> op_EscrowID p) (dct_tokens d)"
  using assms
proof (rule EmergencyOverride_ok)
  fix e d1
  assume b: "\<not> blank (op_Reason p)" and g: "GetEscrow d (op_EscrowID p) = Inr e"
    and c: "p_Authenticated (CallerFrom (dv_caller env))"
      "EqualFold (p_Address (CallerFrom (dv_caller env))) (dv_owner env)"
    and o: "ToLower (op_Operation p) = ''revoke_all''"
    and l: "logAudit env (override_entry env p True ReasonEmergencyOverride) d = (d1, Inr ())"
    and d': "d' = revoke_where (\<lambda>t. dct_EscrowID t = op_EscrowID p) (dv_dbnow env)
           (''emergency_override: '' @ op_Reason p) (p_Address (CallerFrom (dv_caller env))) d1"
  have lower: "ToLower ''revoke_all'' = ''revoke_all''" by code_simp
  have t1: "dct_tokens d1 = dct_tokens d" using l by (auto dest: logAudit_frame)
  have audit: "case dv_audit env of SinkOk \<Rightarrow> \<exists>r. dct_audit d1 = dct_audit d @ [r] \<and> aud_Allowed r
            \<and> aud_Operation r = ''emergency_override'' \<and> aud_EscrowID r = op_EscrowID p
            \<and> aud_CallerAddress r = p_Address (CallerFrom (dv_caller env))
        | _ \<Rightarrow> dct_audit d1 = dct_audit d"
    using l by (auto simp: logAudit_def LogAuthzDecision_def row_add_def override_entry_def
        split: audit_sink.splits)
  have toks: "map dct_TokenID (dct_tokens d') = map dct_TokenID (dct_tokens d)"
    "list_all (\<lambda>t. dct_EscrowID t = op_EscrowID p --> dct_RevokedAt t \<noteq> None) (dct_tokens d')"
    "filter (\<lambda>t. dct_EscrowID t \<noteq> op_EscrowID p) (dct_tokens d')
        = filter (\<lambda>t. dct_EscrowID t \<noteq> op_EscrowID p) (dct_tokens d)"
    by (auto simp: d' revoke_where_def t1 list_all_iff set_row_upd row_upd_ids filter_other_escrow)
  have eo: "EqualFold (op_Operation p) ''revoke_all''" using o lower by (simp add: EqualFold_def)
  have da: "dct_audit d' = dct_audit d1" by (simp add: d')
  show ?thesis unfolding da using b g c eo audit toks by blast
qed

definition owner_env :: dct_env where
  "owner_env = sample_env\<lparr>dv_caller := Some \<lparr>p_Address = ''0x0F'', p_Authenticated = True, p_Frozen = False\<rparr>\<rparr>"

definition sample_override :: "string \<Rightarrow> override_params" where
  "sample_override oper = \<lparr>op_EscrowID = 1, op_Operation = oper, op_CallerAddress = [],
     op_Reason = ''leak'', op_OwnerAddress = []\<rparr>"

lemma sample_override_run:
  "\<exists>d'. EmergencyOverride owner_env (sample_override ''REVOKE_ALL'') minted_db = (d', Inr ())"
proof -
  have e: "CallerFrom (dv_caller owner_env) = \<lparr>p_Address = ''0x0F'', p_Authenticated = True, p_Frozen = False\<rparr>"
    "dv_audit owner_env = SinkOk" "dv_owner owner_env = ''0x0f''"
    by (simp_all add: owner_env_def sample_env_def CallerFrom_def)
  have s: "EqualFold ''0x0F'' ''0x0f''" "ToLower ''REVOKE_ALL'' = ''revoke_all''" "\<not> blank ''leak''"
    by code_simp+
  have p: "op_Reason (sample_override ''REVOKE_ALL'') = ''leak''"
    "op_Operation (sample_override ''REVOKE_ALL'') = ''REVOKE_ALL''"
    "op_EscrowID (sample_override ''REVOKE_ALL'') = 1"
    by (simp_all add: sample_override_def)
  show ?thesis
    by (simp add: EmergencyOverride_def p s e GetEscrow_def minted_db_sel logAudit_def Let_def)
qed

theorem EmergencyOverride_sound_witness:
  "\<exists>d'. EmergencyOverride owner_env (sample_override ''REVOKE_ALL'') minted_db = (d', Inr ())
     \<and> map dct_TokenID (dct_tokens d') = map dct_TokenID (dct_tokens minted_db)"
  using sample_override_run EmergencyOverride_sound by blast

end
