(* ===== verification/ApiDct.thy ===== *)
theory ApiDct
  imports DctProps
begin

text \<open>
  The two front ends of the capability-token service: the HTTP handlers of
  \<open>internal/api/dct.go\<close> and the caller context of \<open>internal/mcpserver/tools.go\<close>. A request
  body is given decoded (\<open>None\<close> when it is not valid JSON) and a reply is its status code
  with the error text or the payload.
\<close>

datatype 'a http = HttpError nat string | HttpOk nat 'a

section \<open>Error mapping\<close>

definition ErrInvalidProfile :: gerr where
  "ErrInvalidProfile = Sentinel ''dct.ErrInvalidProfile'' ''token profile is not canonical dct-profile-v1''"
definition ErrInvalidChain :: gerr where
  "ErrInvalidChain = Sentinel ''dct.ErrInvalidChain'' ''invalid delegation chain''"

definition mapDCTError :: "gerr option \<Rightarrow> nat \<times> string" where
  "mapDCTError err =
     (case err of
        None \<Rightarrow> (200, [])
      | Some e \<Rightarrow>
          if errors_is e ErrUnauthorized then (403, err_msg e)
          else if errors_is e ErrNoRows then (404, ''not found'')
          else if errors_is e ErrInvalidAttenuation \<or> errors_is e ErrExpiredToken
            \<or> errors_is e ErrInvalidProfile \<or> errors_is e ErrInvalidChain
            \<or> errors_is e ErrInactiveEscrow
            \<or> Contains (err_msg e) ''invalid token format''
            \<or> Contains (err_msg e) ''token verification failed''
            \<or> Contains (err_msg e) ''subject is required''
            \<or> Contains (err_msg e) ''operations/resources must be non-empty''
            \<or> Contains (err_msg e) ''escrow_id must be > 0''
            \<or> Contains (err_msg e) ''expires_at must be''
            \<or> Contains (err_msg e) ''operations must be non-empty''
            \<or> Contains (err_msg e) ''resources must be non-empty''
          then (400, err_msg e)
          else if errors_is e ErrRevokedToken then (401, ''token is inactive'')
          else (500, ''internal error''))"

definition mapEmergencyOverrideError :: "gerr option \<Rightarrow> nat \<times> string" where
  "mapEmergencyOverrideError err =
     (case err of
        None \<Rightarrow> (200, [])
      | Some e \<Rightarrow>
          if errors_is e ErrInternal then (500, ''internal error'')
          else if errors_is e ErrUnauthorized then (403, err_msg e)
          else if errors_is e ErrNoRows
            \<or> Contains (err_msg e) ''owner address is required''
            \<or> Contains (err_msg e) ''override reason is required''
            \<or> Contains (err_msg e) ''unsupported override operation''
          then (400, err_msg e)
          else (500, ''internal error''))"

section \<open>Callers\<close>

text \<open>HTTP: a verified principal of the context is kept, otherwise the address of the payload
  is recorded without authentication.\<close>

definition httpCallerCtx :: "dct_env \<Rightarrow> string \<Rightarrow> dct_env" where
  "httpCallerCtx env callerAddr =
     (if p_Authenticated (CallerFrom (dv_caller env)) then env
      else env\<lparr>dv_caller := Some \<lparr>p_Address = ToLower (TrimSpace callerAddr),
                 p_Authenticated = False, p_Frozen = False\<rparr>\<rparr>)"

text \<open>MCP: the address of the tool arguments becomes an authenticated principal.\<close>

definition withCallerCtx :: "dct_env \<Rightarrow> string \<Rightarrow> dct_env" where
  "withCallerCtx env callerAddr =
     (let a = TrimSpace callerAddr in
      env\<lparr>dv_caller := Some \<lparr>p_Address = ToLower a, p_Authenticated = (a \<noteq> []), p_Frozen = False\<rparr>\<rparr>)"

section \<open>Handlers\<close>

definition http_error :: "(gerr option \<Rightarrow> nat \<times> string) \<Rightarrow> gerr \<Rightarrow> 'a http" where
  "http_error m e = (case m (Some e) of (code, msg) \<Rightarrow> HttpError code msg)"

definition http_of :: "(gerr option \<Rightarrow> nat \<times> string) \<Rightarrow> nat \<Rightarrow> db \<times> (gerr + 'a) \<Rightarrow> db \<times> 'a http" where
  "http_of m code r = (case r of (d, Inl e) \<Rightarrow> (d, http_error m e) | (d, Inr x) \<Rightarrow> (d, HttpOk code x))"

definition MintDCT ::
    "dct_env \<Rightarrow> (mint_params \<times> string) option \<Rightarrow> db \<Rightarrow> db \<times> (dct_token \<times> string) http" where
  "MintDCT env req d =
     (case req of None \<Rightarrow> (d, HttpError 400 ''invalid json'')
      | Some (p, caller) \<Rightarrow> http_of mapDCTError 201 (Mint (httpCallerCtx env caller) p d))"

definition DelegateDCT ::
    "dct_env \<Rightarrow> (delegate_params \<times> string) option \<Rightarrow> db \<Rightarrow> db \<times> (dct_token \<times> string) http" where
  "DelegateDCT env req d =
     (case req of None \<Rightarrow> (d, HttpError 400 ''invalid json'')
      | Some (p, caller) \<Rightarrow> http_of mapDCTError 201 (Delegate (httpCallerCtx env caller) p d))"

definition IntrospectDCT ::
    "dct_env \<Rightarrow> string option \<Rightarrow> db \<Rightarrow> (dct_token \<times> bool \<times> string list) http" where
  "IntrospectDCT env req d =
     (case req of None \<Rightarrow> HttpError 400 ''invalid json''
      | Some token \<Rightarrow> snd (http_of mapDCTError 200 (d, Introspect env d token)))"

definition RevokeDCT :: "dct_env \<Rightarrow> (revoke_params \<times> string) option \<Rightarrow> db \<Rightarrow> db \<times> unit http" where
  "RevokeDCT env req d =
     (case req of None \<Rightarrow> (d, HttpError 400 ''invalid json'')
      | Some (p, caller) \<Rightarrow> http_of mapDCTError 200 (Revoke (httpCallerCtx env caller) p d))"

definition EmergencyOverrideDCT :: "dct_env \<Rightarrow> override_params option \<Rightarrow> db \<Rightarrow> db \<times> unit http" where
  "EmergencyOverrideDCT env req d =
     (case req of None \<Rightarrow> (d, HttpError 400 ''invalid json'')
      | Some p \<Rightarrow> http_of mapEmergencyOverrideError 200
                   (EmergencyOverride (httpCallerCtx env (op_OwnerAddress p)) p d))"

definition maxAuditListLimit :: int where "maxAuditListLimit = 1000"

text \<open>The audit listing: query parameters are strings, empty when absent.\<close>

definition ListDCTAudit :: "dct_env \<Rightarrow> string \<Rightarrow> string \<Rightarrow> string \<Rightarrow> db \<Rightarrow> audit_record list http" where
  "ListDCTAudit env escrowID limit offset d =
     (let caller = CallerFrom (dv_caller env);
          off = (if offset = [] then 0
                 else case ParseInt64 offset of Some n \<Rightarrow> if n \<ge> 0 then n else 0 | None \<Rightarrow> 0) in
      if \<not> p_Authenticated caller \<or> \<not> EqualFold (p_Address caller) (dv_owner env)
      then HttpError 403 ''forbidden''
      else case (if escrowID = [] then Some 0 else ParseInt64 escrowID) of
        None \<Rightarrow> HttpError 400 ''invalid escrow_id''
      | Some i \<Rightarrow>
          if limit = [] then HttpOk 200 (ListAuthzAudit d i 50 off)
          else case ParseInt64 limit of
            None \<Rightarrow> HttpError 400 ''limit must be a positive integer''
          | Some n \<Rightarrow>
              if n \<le> 0 then HttpError 400 ''limit must be a positive integer''
              else if n > maxAuditListLimit then HttpError 400 ''limit exceeds maximum of 1000''
              else HttpOk 200 (ListAuthzAudit d i n off))"

definition ListEscrowDCTs :: "string \<Rightarrow> db \<Rightarrow> dct_token list http" where
  "ListEscrowDCTs idStr d =
     (case ParseInt64 idStr of
        None \<Rightarrow> HttpError 400 ''invalid id''
      | Some i \<Rightarrow>
          (case GetEscrow d i of
             Inl e \<Rightarrow> if errors_is e ErrNoRows then HttpError 404 ''not found''
                      else HttpError 500 ''internal error''
           | Inr _ \<Rightarrow> HttpOk 200 (map (\<lambda>t. t\<lparr>dct_TokenHash := [], dct_Subject := ToLower (dct_Subject t)\<rparr>)
                                   (ListDCTTokensByEscrow d i))))"

section \<open>Properties\<close>

fun is_error :: "'a http \<Rightarrow> bool" where
  "is_error (HttpError c m) = (c \<ge> 400)"
| "is_error (HttpOk c x) = False"

lemma http_of_Inl: "r = (d, Inl e) \<Longrightarrow> http_of m c r = (d, http_error m e)"
  by (simp add: http_of_def)

lemma http_error_mapped: "is_error (http_error mapDCTError e)"
  "is_error (http_error mapEmergencyOverrideError e)"
  by (simp_all add: http_error_def mapDCTError_def mapEmergencyOverrideError_def)

lemma unauthenticated_fails:
  assumes "\<not> p_Authenticated (CallerFrom (dv_caller env))"
  shows "\<exists>d1 e. Mint env p d = (d1, Inl e)" "\<exists>d1 e. Delegate env q d = (d1, Inl e)"
    "\<exists>d1 e. Revoke env r d = (d1, Inl e)" "\<exists>d1 e. EmergencyOverride env v d = (d1, Inl e)"
proof -
  show "\<exists>d1 e. Mint env p d = (d1, Inl e)"
  proof (cases "Mint env p d")
    case (Pair d1 res)
    with assms show ?thesis by (cases res) (auto elim!: Mint_ok simp: Authorize_mint)
  qed
  show "\<exists>d1 e. Delegate env q d = (d1, Inl e)"
  proof (cases "Delegate env q d")
    case (Pair d1 res)
    with assms show ?thesis by (cases res) (auto elim!: Delegate_ok simp: Authorize_delegate)
  qed
  show "\<exists>d1 e. Revoke env r d = (d1, Inl e)"
  proof (cases "Revoke env r d")
    case (Pair d1 res)
    with assms show ?thesis by (cases res) (auto elim!: Revoke_ok simp: Authorize_revoke)
  qed
  show "\<exists>d1 e. EmergencyOverride env v d = (d1, Inl e)"
  proof (cases "EmergencyOverride env v d")
    case (Pair d1 res)
    with assms show ?thesis by (cases res) (auto elim!: EmergencyOverride_ok)
  qed
qed

lemma httpCallerCtx_auth [simp]:
  "p_Authenticated (CallerFrom (dv_caller (httpCallerCtx env c))) = p_Authenticated (CallerFrom (dv_caller env))"
  by (simp add: httpCallerCtx_def CallerFrom_def)

text \<open>Over HTTP, the address in a request is never proof of identity. Unless the request
  context already carries an authenticated principal, minting, delegation, revocation, the
  emergency override and the audit listing all reply with an error status, whatever address
  the payload claims, and none of them changes the token or escrow tables. (No middleware of
  the server sets such a principal.)\<close>

theorem http_needs_authentication:
  assumes "\<not> p_Authenticated (CallerFrom (dv_caller env))"
  shows "is_error (snd (MintDCT env m d)) \<and> dct_tokens (fst (MintDCT env m d)) = dct_tokens d
     \<and> is_error (snd (DelegateDCT env g d)) \<and> dct_tokens (fst (DelegateDCT env g d)) = dct_tokens d
     \<and> is_error (snd (RevokeDCT env r d)) \<and> dct_tokens (fst (RevokeDCT env r d)) = dct_tokens d
     \<and> is_error (snd (EmergencyOverrideDCT env v d))
     \<and> dct_tokens (fst (EmergencyOverrideDCT env v d)) = dct_tokens d
     \<and> is_error (ListDCTAudit env i l off d)"
proof -
  have a: "\<not> p_Authenticated (CallerFrom (dv_caller (httpCallerCtx env c)))" for c
    using assms by simp
  have "is_error (snd (MintDCT env m d)) \<and> dct_tokens (fst (MintDCT env m d)) = dct_tokens d"
  proof (cases m)
    case (Some x)
    with unauthenticated_fails(1) [OF a, of "snd x" "fst x" d] show ?thesis
      by (auto simp: MintDCT_def http_of_Inl http_error_mapped split: prod.splits dest: Mint_err)
  qed (simp add: MintDCT_def)
  moreover have "is_error (snd (DelegateDCT env g d)) \<and> dct_tokens (fst (DelegateDCT env g d)) = dct_tokens d"
  proof (cases g)
    case (Some x)
    with unauthenticated_fails(2) [OF a, of "snd x" "fst x" d] show ?thesis
      by (auto simp: DelegateDCT_def http_of_Inl http_error_mapped split: prod.splits dest: Delegate_err)
  qed (simp add: DelegateDCT_def)
  moreover have "is_error (snd (RevokeDCT env r d)) \<and> dct_tokens (fst (RevokeDCT env r d)) = dct_tokens d"
  proof (cases r)
    case (Some x)
    with unauthenticated_fails(3) [OF a, of "snd x" "fst x" d] show ?thesis
      by (auto simp: RevokeDCT_def http_of_Inl http_error_mapped split: prod.splits dest: Revoke_err)
  qed (simp add: RevokeDCT_def)
  moreover have "is_error (snd (EmergencyOverrideDCT env v d))
     \<and> dct_tokens (fst (EmergencyOverrideDCT env v d)) = dct_tokens d"
  proof (cases v)
    case (Some x)
    with unauthenticated_fails(4) [OF a, of "op_OwnerAddress x" x d] show ?thesis
      by (auto simp: EmergencyOverrideDCT_def http_of_Inl http_error_mapped dest: EmergencyOverride_err)
  qed (simp add: EmergencyOverrideDCT_def)
  moreover have "is_error (ListDCTAudit env i l off d)"
    using assms by (simp add: ListDCTAudit_def)
  ultimately show ?thesis by blast
qed

theorem http_needs_authentication_witness:
  "is_error (snd (MintDCT (sample_env\<lparr>dv_caller := None\<rparr>) (Some (sample_mint, ''0xb0'')) sample_db))"
  using http_needs_authentication [of "sample_env\<lparr>dv_caller := None\<rparr>"] by (simp add: CallerFrom_def)

text \<open>The MCP front end takes the same address as proof: a tool call that names an escrow's
  buyer as its caller is authorised to mint there (the escrow being live), so whoever can reach
  the tool acts as any buyer.\<close>

theorem mcp_trusts_the_payload:
  assumes "addressEq callerAddr (esc_Buyer e)" and "\<not> blank callerAddr" and "\<not> isEscrowInactive e"
  shows "r_Allowed (Authorize OpMint (CallerFrom (dv_caller (withCallerCtx env callerAddr)))
           (Some (escrowContext e)) None)"
  using assms
  by (simp add: Authorize_mint live_escrowContext withCallerCtx_def CallerFrom_def blank_def Let_def
      addressEq_def TrimSpace_ToLower)

theorem mcp_trusts_the_payload_witness:
  "r_Allowed (Authorize OpMint (CallerFrom (dv_caller (withCallerCtx (sample_env\<lparr>dv_caller := None\<rparr>) '' 0XB0 '')))
     (Some (escrowContext sample_escrow)) None)"
  by (rule mcp_trusts_the_payload) (simp_all add: sample_live, code_simp+)

end
