(* ===== verification/SessionStore.thy ===== *)
theory SessionStore
  imports AttestStore
begin

text \<open>
  The queries of \<open>internal/storage/queries.go\<close> on A2A tasks, AP2 mandates, UCP sessions and their
  idempotency records, and checkpoints, in the style of theory \<open>Storage\<close>. A nullable text column is
  the empty string when it is NULL, which is what \<open>nilIfEmpty\<close> writes for one.
\<close>

section \<open>A2A tasks\<close>

definition CreateA2ATask :: "int \<Rightarrow> a2a_task \<Rightarrow> db \<Rightarrow> a2a_task result" where
  "CreateA2ATask now t d =
     (let row = t\<lparr>a2a_ID := next_id a2a_ID (a2a_tasks d), a2a_CreatedAt := now, a2a_UpdatedAt := now\<rparr> in
      if row_get a2a_A2ATaskID (a2a_tasks d) (a2a_A2ATaskID t) \<noteq> None
      then (d, Inl (wrap ''insert a2a_task'' (unique_err ''a2a_tasks.a2a_task_id'')))
      else if (case a2a_EscrowID t of None \<Rightarrow> False | Some i \<Rightarrow> row_get esc_ID (escrows d) i = None)
      then (d, Inl (wrap ''insert a2a_task'' foreign_key_err))
      else (d\<lparr>a2a_tasks := row_add row (a2a_tasks d)\<rparr>, Inr row))"

definition GetA2ATask :: "db \<Rightarrow> int \<Rightarrow> gerr + a2a_task" where
  "GetA2ATask d i = found ''get a2a_task'' (row_get a2a_ID (a2a_tasks d) i)"

definition GetA2ATaskByTaskID :: "db \<Rightarrow> string \<Rightarrow> gerr + a2a_task" where
  "GetA2ATaskByTaskID d taskID = found ''get a2a_task by task_id'' (row_get a2a_A2ATaskID (a2a_tasks d) taskID)"

definition UpdateA2ATaskStatus :: "int \<Rightarrow> int \<Rightarrow> string \<Rightarrow> db \<Rightarrow> unit result" where
  "UpdateA2ATaskStatus now i status d =
     (if row_get a2a_ID (a2a_tasks d) i = None
      then (d, Inl (wrap (''UpdateA2ATaskStatus id='' @ int_str i) ErrNoRows))
      else (d\<lparr>a2a_tasks := row_upd (\<lambda>t. a2a_ID t = i)
                 (\<lambda>t. t\<lparr>a2a_A2AStatus := status, a2a_UpdatedAt := now\<rparr>) (a2a_tasks d)\<rparr>, Inr ()))"

definition UpdateA2ATaskEscrow :: "int \<Rightarrow> int \<Rightarrow> int \<Rightarrow> db \<Rightarrow> unit result" where
  "UpdateA2ATaskEscrow now i escrowID d =
     (if row_get a2a_ID (a2a_tasks d) i = None
      then (d, Inl (wrap (''UpdateA2ATaskEscrow id='' @ int_str i) ErrNoRows))
      else if row_get esc_ID (escrows d) escrowID = None
      then (d, Inl (wrap ''UpdateA2ATaskEscrow'' foreign_key_err))
      else (d\<lparr>a2a_tasks := row_upd (\<lambda>t. a2a_ID t = i)
                 (\<lambda>t. t\<lparr>a2a_EscrowID := Some escrowID, a2a_UpdatedAt := now\<rparr>) (a2a_tasks d)\<rparr>, Inr ()))"

definition ListA2ATasksBySession :: "db \<Rightarrow> string \<Rightarrow> a2a_task list" where
  "ListA2ATasksBySession d sessionID = rev (filter (\<lambda>t. a2a_SessionID t = sessionID) (a2a_tasks d))"

section \<open>AP2 mandates\<close>

definition CreateAP2Mandate ::
    "int \<Rightarrow> string \<Rightarrow> string \<Rightarrow> string \<Rightarrow> string \<Rightarrow> string \<Rightarrow> string \<Rightarrow> string option \<Rightarrow> int option \<Rightarrow> string
      \<Rightarrow> db \<Rightarrow> unit result" where
  "CreateAP2Mandate now mandateID mandateType mandateHash signerAddress budgetAmount budgetCurrency expiresAt
       escrowID rawPayload d =
     (if row_get man_MandateHash (ap2_mandates d) mandateHash \<noteq> None
      then (d, Inl (wrap ''insert ap2_mandate'' (unique_err ''ap2_mandates.mandate_hash'')))
      else if row_get man_ID (ap2_mandates d) mandateID \<noteq> None
      then (d, Inl (wrap ''insert ap2_mandate'' (unique_err ''ap2_mandates.id'')))
      else if (case escrowID of None \<Rightarrow> False | Some i \<Rightarrow> row_get esc_ID (escrows d) i = None)
      then (d, Inl (wrap ''insert ap2_mandate'' foreign_key_err))
      else (d\<lparr>ap2_mandates := row_add
                \<lparr>man_ID = mandateID, man_MandateType = mandateType, man_MandateHash = mandateHash,
                 man_SignerAddress = signerAddress, man_BudgetAmount = budgetAmount,
                 man_BudgetCurrency = budgetCurrency,
                 man_ExpiresAt = (case expiresAt of None \<Rightarrow> [] | Some t \<Rightarrow> t), man_EscrowID = escrowID,
                 man_FundingTxHash = [], man_Status = (if escrowID = None then ''pending'' else ''bound''),
                 man_RawPayload = rawPayload, man_CreatedAt = now\<rparr> (ap2_mandates d)\<rparr>, Inr ()))"

definition UpdateAP2MandateFunding :: "string \<Rightarrow> string \<Rightarrow> db \<Rightarrow> unit result" where
  "UpdateAP2MandateFunding mandateID txHash d =
     (if row_get man_ID (ap2_mandates d) mandateID = None
      then (d, Inl (wrap (''UpdateAP2MandateFunding id='' @ mandateID) ErrNoRows))
      else (d\<lparr>ap2_mandates := row_upd (\<lambda>m. man_ID m = mandateID)
                 (\<lambda>m. m\<lparr>man_FundingTxHash := txHash, man_Status := ''funded''\<rparr>) (ap2_mandates d)\<rparr>, Inr ()))"

definition GetAP2Mandate :: "db \<Rightarrow> string \<Rightarrow> gerr + ap2_mandate" where
  "GetAP2Mandate d i = found ''get ap2 mandate'' (row_get man_ID (ap2_mandates d) i)"

section \<open>UCP sessions and idempotency records\<close>

definition CreateUCPSession :: "int \<Rightarrow> ucp_session \<Rightarrow> db \<Rightarrow> ucp_session result" where
  "CreateUCPSession now s d =
     (let row = s\<lparr>ucp_ID := next_id ucp_ID (ucp_sessions d), ucp_CreatedAt := now, ucp_UpdatedAt := now\<rparr> in
      if ucp_IdempotencyKey s \<noteq> []
         \<and> row_get ucp_IdempotencyKey (ucp_sessions d) (ucp_IdempotencyKey s) \<noteq> None
      then (d, Inl (wrap ''insert ucp_session'' (unique_err ''ucp_sessions.idempotency_key'')))
      else if row_get ucp_CheckoutID (ucp_sessions d) (ucp_CheckoutID s) \<noteq> None
      then (d, Inl (wrap ''insert ucp_session'' (unique_err ''ucp_sessions.checkout_id'')))
      else if row_get esc_ID (escrows d) (ucp_EscrowID s) = None
      then (d, Inl (wrap ''insert ucp_session'' foreign_key_err))
      else (d\<lparr>ucp_sessions := row_add row (ucp_sessions d)\<rparr>, Inr row))"

definition GetUCPSession :: "db \<Rightarrow> int \<Rightarrow> gerr + ucp_session" where
  "GetUCPSession d i = found ''get ucp_session'' (row_get ucp_ID (ucp_sessions d) i)"

definition GetUCPSessionByCheckoutID :: "db \<Rightarrow> string \<Rightarrow> gerr + ucp_session" where
  "GetUCPSessionByCheckoutID d checkoutID =
     found ''get ucp_session by checkout_id'' (row_get ucp_CheckoutID (ucp_sessions d) checkoutID)"

definition UpdateUCPSessionProjection ::
    "int \<Rightarrow> string \<Rightarrow> string \<Rightarrow> string \<Rightarrow> string \<Rightarrow> string \<Rightarrow> string \<Rightarrow> db \<Rightarrow> unit result" where
  "UpdateUCPSessionProjection now checkoutID ucpStatus idempotencyKey lastOperation lastRequestHash lastTxHash d =
     (if row_get ucp_CheckoutID (ucp_sessions d) checkoutID = None
      then (d, Inl (wrap (''UpdateUCPSessionProjection checkout_id='' @ checkoutID) ErrNoRows))
      else if idempotencyKey \<noteq> []
              \<and> list_ex (\<lambda>s. ucp_CheckoutID s \<noteq> checkoutID \<and> ucp_IdempotencyKey s = idempotencyKey) (ucp_sessions d)
      then (d, Inl (wrap ''UpdateUCPSessionProjection'' (unique_err ''ucp_sessions.idempotency_key'')))
      else (d\<lparr>ucp_sessions := row_upd (\<lambda>s. ucp_CheckoutID s = checkoutID)
                 (\<lambda>s. s\<lparr>ucp_UCPStatus := ucpStatus, ucp_IdempotencyKey := idempotencyKey,
                        ucp_LastOperation := lastOperation, ucp_LastRequestHash := lastRequestHash,
                        ucp_LastTxHash := lastTxHash, ucp_UpdatedAt := now\<rparr>) (ucp_sessions d)\<rparr>, Inr ()))"

definition ErrDuplicateUCPIdempotencyKey :: gerr where
  "ErrDuplicateUCPIdempotencyKey =
     Sentinel ''storage.ErrDuplicateUCPIdempotencyKey'' ''duplicate ucp idempotency key''"

definition CreateUCPIdempotency :: "int \<Rightarrow> ucp_idempotency \<Rightarrow> db \<Rightarrow> unit result" where
  "CreateUCPIdempotency now r d =
     (if row_get idem_IdempotencyKey (ucp_idempotencies d) (idem_IdempotencyKey r) \<noteq> None
      then (d, Inl (wrap ''insert ucp_idempotency'' ErrDuplicateUCPIdempotencyKey))
      else (d\<lparr>ucp_idempotencies := row_add
                (r\<lparr>idem_ID := next_id idem_ID (ucp_idempotencies d), idem_CreatedAt := now\<rparr>)
                (ucp_idempotencies d)\<rparr>, Inr ()))"

definition GetUCPIdempotency :: "db \<Rightarrow> string \<Rightarrow> gerr + ucp_idempotency" where
  "GetUCPIdempotency d key =
     found ''get ucp_idempotency'' (row_get idem_IdempotencyKey (ucp_idempotencies d) key)"

section \<open>Checkpoints\<close>

definition checkpoint_row :: "int \<Rightarrow> checkpoint \<Rightarrow> db \<Rightarrow> checkpoint" where
  "checkpoint_row now c d =
     c\<lparr>cp_ID := next_id cp_ID (checkpoints d),
       cp_SchemaVersion := (if cp_SchemaVersion c = [] then ''checkpoint-v1'' else cp_SchemaVersion c),
       cp_MetadataJSON := json_default (cp_MetadataJSON c), cp_CreatedAt := now\<rparr>"

definition createCheckpointOn :: "int \<Rightarrow> checkpoint \<Rightarrow> db \<Rightarrow> checkpoint result" where
  "createCheckpointOn now c d =
     (let row = checkpoint_row now c d in
      if cp_EscrowID c \<le> 0 then (d, Inl (errors_New ''escrow_id must be > 0''))
      else if cp_StateSnapshotURI c = [] then (d, Inl (errors_New ''state_snapshot_uri is required''))
      else if cp_CommittedBy c = [] then (d, Inl (errors_New ''committed_by is required''))
      else if \<not> json_valid (cp_MetadataJSON row) then (d, Inl (errors_New ''invalid metadata_json''))
      else if (case cp_MilestoneIndex c of None \<Rightarrow> False | Some i \<Rightarrow> i < 0)
      then (d, Inl (errors_New ''milestone_index must be >= 0''))
      else if (case cp_CompletionPct c of None \<Rightarrow> False | Some v \<Rightarrow> v < 0 \<or> v > 100)
      then (d, Inl (errors_New ''completion_pct must be 0-100''))
      else if row_get esc_ID (escrows d) (cp_EscrowID c) = None
      then (d, Inl (wrap ''insert checkpoint'' foreign_key_err))
      else (d\<lparr>checkpoints := row_add row (checkpoints d)\<rparr>, Inr row))"

definition checkpoint_of :: "int \<Rightarrow> int option \<Rightarrow> checkpoint \<Rightarrow> bool" where
  "checkpoint_of escrowID milestoneIndex c \<longleftrightarrow>
     cp_EscrowID c = escrowID \<and> (milestoneIndex = None \<or> cp_MilestoneIndex c = milestoneIndex)"

definition ListCheckpointsByEscrow :: "db \<Rightarrow> int \<Rightarrow> int option \<Rightarrow> checkpoint list" where
  "ListCheckpointsByEscrow d escrowID milestoneIndex =
     rev (filter (checkpoint_of escrowID milestoneIndex) (checkpoints d))"

definition GetLatestCheckpoint :: "db \<Rightarrow> int \<Rightarrow> int option \<Rightarrow> gerr + checkpoint" where
  "GetLatestCheckpoint d escrowID milestoneIndex =
     found ''get latest checkpoint'' (last_where (checkpoint_of escrowID milestoneIndex) (checkpoints d))"

end
