(* ===== verification/Ap2.thy ===== *)
theory Ap2
  imports SessionStore Bidding
begin

text \<open>
  \<open>internal/ap2/service.go\<close>: mandates, signed spending permissions with an EIP-3009 authorization,
  which are validated, bound to an escrow and used to fund it. The call to the chain, the indexer
  pass, SHA-256 and the expiry a \<open>ttl_seconds\<close> stands for (float64 and clock arithmetic) are
  parameters. The payload is a decoded JSON object: keys in order, each number as Go prints it.
\<close>

section \<open>Mandates\<close>

record eip3009_authorization =
  au_From :: string
  au_To :: string
  au_Value :: string
  au_ValidAfter :: string
  au_ValidBefore :: string
  au_Nonce :: string
  au_V :: byte
  au_R :: string
  au_S :: string

record mandate_envelope =
  me_Type :: string
  me_Payload :: "(string \<times> json) list option"
  me_Signature :: string
  me_SignerAddress :: string
  me_Authorization :: eip3009_authorization

record escrow_binding =
  eb_MandateID :: string
  eb_MandateHash :: string
  eb_EscrowID :: int
  eb_Status :: string

record fund_response =
  fr_TxHash :: string
  fr_EscrowID :: int
  fr_MandateID :: string
  fr_Status :: string

text \<open>The arguments of \<open>FundWithAuthorization\<close>.\<close>

record fund_call =
  fc_Escrow :: addr
  fc_From :: addr
  fc_ValidAfter :: int
  fc_ValidBefore :: int
  fc_Nonce :: "byte list"
  fc_V :: byte
  fc_R :: "byte list"
  fc_S :: "byte list"

type_synonym fund_log = "(fund_call \<times> (gerr + hash)) list"

record mandate_env =
  mv_L :: eth_lib
  mv_Now :: int
  mv_Sha256 :: "string \<Rightarrow> byte list"
  mv_Expiry :: "string \<Rightarrow> string option"
  mv_Fund :: "fund_log \<Rightarrow> fund_call \<Rightarrow> gerr + hash"
  mv_RunOnce :: "db \<Rightarrow> db"

record mandate_world =
  mw_DB :: db
  mw_Calls :: fund_log

definition ErrInvalidMandate :: gerr where
  "ErrInvalidMandate = Sentinel ''ap2.ErrInvalidMandate'' ''invalid mandate''"

definition ErrBindValidation :: gerr where
  "ErrBindValidation = Sentinel ''ap2.ErrBindValidation'' ''bind validation failed''"

section \<open>Texts\<close>

text \<open>At most 32 bytes, right-aligned.\<close>

definition hexToBytes32 :: "string \<Rightarrow> gerr + byte list" where
  "hexToBytes32 s =
     (case DecodeString (if HasPrefix s ''0x'' then drop 2 s else s) of
        Inl e \<Rightarrow> Inl e
      | Inr b \<Rightarrow> if length b > 32 then Inl (errors_New ''value exceeds 32 bytes'')
                else Inr (replicate (32 - length b) 0 @ b))"

definition norm_address :: "eth_lib \<Rightarrow> string \<Rightarrow> string" where
  "norm_address L a = ToLower (AddressHex L (HexToAddress L a))"

definition authorization_json :: "eip3009_authorization \<Rightarrow> json" where
  "authorization_json a =
     JObj [(''from'', JStr (au_From a)), (''to'', JStr (au_To a)), (''value'', JStr (au_Value a)),
       (''valid_after'', JStr (au_ValidAfter a)), (''valid_before'', JStr (au_ValidBefore a)),
       (''nonce'', JStr (au_Nonce a)), (''v'', JNum (int_str (uint (au_V a)))),
       (''r'', JStr (au_R a)), (''s'', JStr (au_S a))]"

definition payload_value :: "mandate_envelope \<Rightarrow> json" where
  "payload_value env = (case me_Payload env of None \<Rightarrow> JNull | Some kvs \<Rightarrow> JObj kvs)"

definition envelope_json :: "mandate_envelope \<Rightarrow> json" where
  "envelope_json env =
     JObj [(''type'', JStr (me_Type env)), (''payload'', payload_value env),
       (''signature'', JStr (me_Signature env)), (''signer_address'', JStr (me_SignerAddress env)),
       (''authorization'', authorization_json (me_Authorization env))]"

definition hashMandate :: "mandate_env \<Rightarrow> mandate_envelope \<Rightarrow> string" where
  "hashMandate M env = EncodeToString (mv_Sha256 M (render (envelope_json env)))"

section \<open>Validation\<close>

definition check_bytes32 :: "string \<Rightarrow> string \<Rightarrow> gerr option" where
  "check_bytes32 what s =
     (if s = [] then Some (errors_New (''authorization.'' @ what @ '' is required''))
      else case hexToBytes32 s of
        Inl e \<Rightarrow> Some (wrap (''invalid authorization.'' @ what) e)
      | Inr _ \<Rightarrow> None)"

definition check_window :: "eip3009_authorization \<Rightarrow> gerr option" where
  "check_window a =
     (case (if au_ValidAfter a = [] then Some 0 else SetString10 (au_ValidAfter a)) of
        None \<Rightarrow> Some (errors_New (''invalid authorization.valid_after: '' @ au_ValidAfter a))
      | Some validAfter \<Rightarrow>
          if validAfter < 0 then Some (errors_New (''invalid authorization.valid_after: '' @ au_ValidAfter a))
          else if au_ValidBefore a = [] then Some (errors_New ''authorization.valid_before is required'')
          else case SetString10 (au_ValidBefore a) of
            None \<Rightarrow> Some (errors_New (''invalid authorization.valid_before: '' @ au_ValidBefore a))
          | Some validBefore \<Rightarrow>
              if validBefore < 0
              then Some (errors_New (''invalid authorization.valid_before: '' @ au_ValidBefore a))
              else if validBefore < validAfter
              then Some (errors_New (''authorization.valid_before ('' @ int_str validBefore
                     @ '') must be >= valid_after ('' @ int_str validAfter @ '')''))
              else None)"

definition ValidateMandate :: "eth_lib \<Rightarrow> mandate_envelope \<Rightarrow> gerr option" where
  "ValidateMandate L env =
     (let a = me_Authorization env in
      if me_Type env = [] then Some (errors_New ''mandate type is required'')
      else if me_Type env \<noteq> ''intent'' \<and> me_Type env \<noteq> ''cart'' \<and> me_Type env \<noteq> ''payment''
      then Some (errors_New (''unsupported mandate type: '' @ me_Type env))
      else if me_SignerAddress env = [] then Some (errors_New ''signer_address is required'')
      else if \<not> IsHexAddress L (me_SignerAddress env)
      then Some (errors_New (''invalid signer_address: '' @ me_SignerAddress env))
      else if me_Signature env = [] then Some (errors_New ''signature is required'')
      else if au_From a = [] then Some (errors_New ''authorization.from is required'')
      else if \<not> IsHexAddress L (au_From a) then Some (errors_New (''invalid authorization.from: '' @ au_From a))
      else if norm_address L (me_SignerAddress env) \<noteq> norm_address L (au_From a)
      then Some (errors_New ''signer_address and authorization.from must match'')
      else if au_Value a = [] then Some (errors_New ''authorization.value is required'')
      else if SetString10 (au_Value a) = None
      then Some (errors_New (''invalid authorization.value: '' @ au_Value a))
      else case check_window a of Some e \<Rightarrow> Some e
      | None \<Rightarrow> (case check_bytes32 ''nonce'' (au_Nonce a) of Some e \<Rightarrow> Some e
      | None \<Rightarrow> (case check_bytes32 ''r'' (au_R a) of Some e \<Rightarrow> Some e
      | None \<Rightarrow> check_bytes32 ''s'' (au_S a))))"

section \<open>Binding\<close>

definition bind_error :: "string \<Rightarrow> gerr" where
  "bind_error msg = detail ErrBindValidation msg"

definition check_binding :: "eth_lib \<Rightarrow> mandate_envelope \<Rightarrow> escrow \<Rightarrow> gerr option" where
  "check_binding L env e =
     (let a = me_Authorization env; authTo = norm_address L (au_To a);
          escrowAddr = norm_address L (esc_EscrowAddress e) in
      if norm_address L (me_SignerAddress env) \<noteq> norm_address L (esc_Buyer e)
      then Some (bind_error ''mandate signer must be the escrow buyer'')
      else if authTo \<noteq> escrowAddr
      then Some (bind_error (''authorization.to ('' @ authTo @ '') does not match escrow address (''
                   @ escrowAddr @ '')''))
      else case SetString10 (au_Value a) of
        None \<Rightarrow> Some (bind_error ''invalid authorization value'')
      | Some authValue \<Rightarrow>
          (case SetString10 (esc_Amount e) of
             None \<Rightarrow> Some (errors_New ''invalid escrow amount'')
           | Some amount \<Rightarrow>
               if authValue < amount
               then Some (bind_error (''authorization value ('' @ int_str authValue
                            @ '') is less than escrow amount ('' @ int_str amount @ '')''))
               else None))"

text \<open>The optional fields of an intent.\<close>

definition payload_field :: "mandate_envelope \<Rightarrow> string \<Rightarrow> json option" where
  "payload_field env k = (case me_Payload env of None \<Rightarrow> None | Some kvs \<Rightarrow> map_of kvs k)"

definition payload_text :: "mandate_envelope \<Rightarrow> string \<Rightarrow> string" where
  "payload_text env k =
     (if me_Type env \<noteq> ''intent'' then []
      else case payload_field env k of Some (JStr s) \<Rightarrow> s | _ \<Rightarrow> [])"

definition mandate_expiry :: "mandate_env \<Rightarrow> mandate_envelope \<Rightarrow> string option" where
  "mandate_expiry M env =
     (if me_Type env \<noteq> ''intent'' then None
      else case payload_field env ''ttl_seconds'' of
        Some (JNum t) \<Rightarrow> mv_Expiry M t
      | _ \<Rightarrow> None)"

definition store_mandate :: "mandate_env \<Rightarrow> mandate_envelope \<Rightarrow> int \<Rightarrow> db \<Rightarrow> unit result" where
  "store_mandate M env escrowID d =
     (let mandateHash = hashMandate M env in
      CreateAP2Mandate (mv_Now M) (take 16 mandateHash) (me_Type env) mandateHash
        (norm_address (mv_L M) (me_SignerAddress env)) (payload_text env ''budget_amount'')
        (payload_text env ''budget_currency'') (mandate_expiry M env) (Some escrowID) (render (payload_value env)) d)"

definition BindToEscrow :: "mandate_env \<Rightarrow> mandate_envelope \<Rightarrow> int \<Rightarrow> db \<Rightarrow> escrow_binding result" where
  "BindToEscrow M env escrowID d =
     (case GetEscrow d escrowID of
        Inl e \<Rightarrow> (d, Inl (wrap ''get escrow'' e))
      | Inr e \<Rightarrow>
          (case check_binding (mv_L M) env e of
             Some err \<Rightarrow> (d, Inl err)
           | None \<Rightarrow>
               andThen (mapErr (wrap ''store mandate'') (store_mandate M env escrowID d)) (\<lambda>d1 _.
                 (d1, Inr \<lparr>eb_MandateID = take 16 (hashMandate M env), eb_MandateHash = hashMandate M env,
                          eb_EscrowID = escrowID, eb_Status = ''bound''\<rparr>))))"

section \<open>Funding\<close>

definition invalid_mandate :: "gerr \<Rightarrow> gerr" where
  "invalid_mandate e = Errorf (err_msg ErrInvalidMandate @ '': '' @ err_msg e) [ErrInvalidMandate, e]"

definition bind_failure :: "gerr \<Rightarrow> gerr" where
  "bind_failure e = (if errors_is e ErrBindValidation then invalid_mandate e else e)"

definition funding_call :: "eth_lib \<Rightarrow> mandate_envelope \<Rightarrow> escrow \<Rightarrow> gerr + fund_call" where
  "funding_call L env e =
     (let a = me_Authorization env in
      case SetString10 (au_ValidBefore a) of
        None \<Rightarrow> Inl (errors_New ''invalid authorization.valid_before'')
      | Some validBefore \<Rightarrow>
      (case hexToBytes32 (au_Nonce a) of Inl x \<Rightarrow> Inl (wrap ''invalid authorization.nonce'' x)
      | Inr nonceBytes \<Rightarrow>
      (case hexToBytes32 (au_R a) of Inl x \<Rightarrow> Inl (wrap ''invalid authorization.r'' x)
      | Inr rBytes \<Rightarrow>
      (case hexToBytes32 (au_S a) of Inl x \<Rightarrow> Inl (wrap ''invalid authorization.s'' x)
      | Inr sBytes \<Rightarrow>
          Inr \<lparr>fc_Escrow = HexToAddress L (esc_EscrowAddress e), fc_From = HexToAddress L (au_From a),
               fc_ValidAfter = (case SetString10 (au_ValidAfter a) of None \<Rightarrow> 0 | Some t \<Rightarrow> t), fc_ValidBefore = validBefore,
               fc_Nonce = nonceBytes, fc_V = au_V a, fc_R = rBytes, fc_S = sBytes\<rparr>))))"

definition send_funding :: "mandate_env \<Rightarrow> fund_call \<Rightarrow> mandate_world \<Rightarrow> mandate_world \<times> (gerr + hash)" where
  "send_funding M c w =
     (let r = mv_Fund M (mw_Calls w) c in (w\<lparr>mw_Calls := mw_Calls w @ [(c, r)]\<rparr>, r))"

text \<open>A status that cannot be stored and an indexer pass that fails are only logged.\<close>

definition settle_funding :: "mandate_env \<Rightarrow> string \<Rightarrow> string \<Rightarrow> db \<Rightarrow> db" where
  "settle_funding M mandateID txHash d = mv_RunOnce M (fst (UpdateAP2MandateFunding mandateID txHash d))"

definition FundViaMandate ::
    "mandate_env \<Rightarrow> int \<Rightarrow> mandate_envelope \<Rightarrow> mandate_world \<Rightarrow> mandate_world \<times> (gerr + fund_response)" where
  "FundViaMandate M escrowID env w =
     (case ValidateMandate (mv_L M) env of
        Some e \<Rightarrow> (w, Inl (invalid_mandate e))
      | None \<Rightarrow>
     (case BindToEscrow M env escrowID (mw_DB w) of
        (d1, Inl e) \<Rightarrow> (w\<lparr>mw_DB := d1\<rparr>, Inl (bind_failure e))
      | (d1, Inr binding) \<Rightarrow>
     (case GetEscrow d1 escrowID of
        Inl e \<Rightarrow> (w\<lparr>mw_DB := d1\<rparr>, Inl (wrap ''get escrow'' e))
      | Inr e \<Rightarrow>
     (case funding_call (mv_L M) env e of
        Inl x \<Rightarrow> (w\<lparr>mw_DB := d1\<rparr>, Inl x)
      | Inr c \<Rightarrow>
     (case send_funding M c (w\<lparr>mw_DB := d1\<rparr>) of
        (w2, Inl x) \<Rightarrow> (w2, Inl (wrap ''fund with authorization'' x))
      | (w2, Inr tx) \<Rightarrow>
          (let txHash = HashHex (mv_L M) tx in
           (w2\<lparr>mw_DB := settle_funding M (eb_MandateID binding) txHash (mw_DB w2)\<rparr>,
            Inr \<lparr>fr_TxHash = txHash, fr_EscrowID = escrowID, fr_MandateID = eb_MandateID binding,
                 fr_Status = ''funded''\<rparr>)))))))"

end
