(* ===== verification/Ap2Props.thy ===== *)
theory Ap2Props
  imports Ap2 EscrowCreate
begin

text \<open>
  What holds of mandates: a funding call spends only what its mandate allows for the escrow it names,
  and however requests interleave a mandate is used for at most one call.
\<close>

section \<open>One request\<close>

text \<open>What makes a mandate good for an escrow.\<close>

definition mandate_for :: "eth_lib \<Rightarrow> mandate_envelope \<Rightarrow> escrow \<Rightarrow> bool" where
  "mandate_for L env e \<longleftrightarrow>
     (let a = me_Authorization env in
      IsHexAddress L (me_SignerAddress env) \<and> IsHexAddress L (au_From a)
      \<and> norm_address L (au_From a) = norm_address L (me_SignerAddress env)
      \<and> norm_address L (me_SignerAddress env) = norm_address L (esc_Buyer e)
      \<and> norm_address L (au_To a) = norm_address L (esc_EscrowAddress e)
      \<and> (\<exists>v n. SetString10 (au_Value a) = Some v \<and> SetString10 (esc_Amount e) = Some n \<and> n \<le> v))"

text \<open>What a call has to say for a mandate and an escrow.\<close>

definition call_for :: "eth_lib \<Rightarrow> mandate_envelope \<Rightarrow> escrow \<Rightarrow> fund_call \<Rightarrow> bool" where
  "call_for L env e c \<longleftrightarrow>
     (let a = me_Authorization env in
      fc_Escrow c = HexToAddress L (esc_EscrowAddress e) \<and> fc_From c = HexToAddress L (au_From a)
      \<and> 0 \<le> fc_ValidAfter c \<and> fc_ValidAfter c \<le> fc_ValidBefore c
      \<and> SetString10 (au_ValidBefore a) = Some (fc_ValidBefore c)
      \<and> (au_ValidAfter a \<noteq> [] \<longrightarrow> SetString10 (au_ValidAfter a) = Some (fc_ValidAfter c))
      \<and> hexToBytes32 (au_Nonce a) = Inr (fc_Nonce c) \<and> fc_V c = au_V a
      \<and> hexToBytes32 (au_R a) = Inr (fc_R c) \<and> hexToBytes32 (au_S a) = Inr (fc_S c))"

lemma SetString10_Nil [simp]: "SetString10 [] = None"
  by (simp add: SetString10_def)

lemma check_bytes32_None: "check_bytes32 what s = None \<longleftrightarrow> s \<noteq> [] \<and> (\<exists>b. hexToBytes32 s = Inr b)"
  by (auto simp: check_bytes32_def split: sum.split)

lemma check_window_None:
  "check_window a = None \<longleftrightarrow>
     (\<exists>x y. (if au_ValidAfter a = [] then x = 0 else SetString10 (au_ValidAfter a) = Some x)
        \<and> SetString10 (au_ValidBefore a) = Some y \<and> 0 \<le> x \<and> x \<le> y)"
  by (auto simp: check_window_def split: option.split if_splits)

lemma ValidateMandate_None:
  "ValidateMandate L env = None \<longleftrightarrow>
     (let a = me_Authorization env in
      me_Type env \<in> {''intent'', ''cart'', ''payment''} \<and> me_SignerAddress env \<noteq> []
      \<and> IsHexAddress L (me_SignerAddress env) \<and> me_Signature env \<noteq> [] \<and> au_From a \<noteq> []
      \<and> IsHexAddress L (au_From a) \<and> norm_address L (me_SignerAddress env) = norm_address L (au_From a)
      \<and> SetString10 (au_Value a) \<noteq> None \<and> check_window a = None
      \<and> check_bytes32 ''nonce'' (au_Nonce a) = None \<and> check_bytes32 ''r'' (au_R a) = None
      \<and> check_bytes32 ''s'' (au_S a) = None)"
  by (auto simp: ValidateMandate_def Let_def split: option.splits)

lemma check_binding_None:
  "check_binding L env e = None \<longleftrightarrow>
     norm_address L (me_SignerAddress env) = norm_address L (esc_Buyer e)
     \<and> norm_address L (au_To (me_Authorization env)) = norm_address L (esc_EscrowAddress e)
     \<and> (\<exists>v n. SetString10 (au_Value (me_Authorization env)) = Some v \<and> SetString10 (esc_Amount e) = Some n \<and> n \<le> v)"
  by (auto simp: check_binding_def Let_def split: option.splits)

text \<open>A validated mandate can always be turned into a call.\<close>

lemma funding_call_total:
  assumes "ValidateMandate L env = None"
  shows "\<exists>c. funding_call L env e = Inr c \<and> call_for L env e c"
  using assms unfolding ValidateMandate_None Let_def check_bytes32_None check_window_None
  by (elim conjE exE) (simp add: funding_call_def call_for_def Let_def split: if_splits)

definition bound_row :: "mandate_env \<Rightarrow> mandate_envelope \<Rightarrow> int \<Rightarrow> string \<Rightarrow> string \<Rightarrow> ap2_mandate" where
  "bound_row M env i st tx =
     \<lparr>man_ID = take 16 (hashMandate M env), man_MandateType = me_Type env, man_MandateHash = hashMandate M env,
      man_SignerAddress = norm_address (mv_L M) (me_SignerAddress env),
      man_BudgetAmount = payload_text env ''budget_amount'', man_BudgetCurrency = payload_text env ''budget_currency'',
      man_ExpiresAt = (case mandate_expiry M env of None \<Rightarrow> [] | Some t \<Rightarrow> t), man_EscrowID = Some i,
      man_FundingTxHash = tx, man_Status = st, man_RawPayload = render (payload_value env), man_CreatedAt = mv_Now M\<rparr>"

definition mandate_hashes :: "db \<Rightarrow> string set" where
  "mandate_hashes d = man_MandateHash ` set (ap2_mandates d)"

lemma store_mandate_ok:
  "store_mandate M env i d = (d1, Inr u) \<longleftrightarrow>
     hashMandate M env \<notin> mandate_hashes d \<and> row_get man_ID (ap2_mandates d) (take 16 (hashMandate M env)) = None
     \<and> row_get esc_ID (escrows d) i \<noteq> None
     \<and> d1 = d\<lparr>ap2_mandates := row_add (bound_row M env i ''bound'' []) (ap2_mandates d)\<rparr>"
  by (auto simp: store_mandate_def CreateAP2Mandate_def Let_def bound_row_def mandate_hashes_def row_get_None)

lemma store_mandate_err: "store_mandate M env i d = (d1, Inl e) \<Longrightarrow> d1 = d"
  by (auto simp: store_mandate_def CreateAP2Mandate_def Let_def split: if_splits)


lemma row_upd_absent: "row_get key rows k = None \<Longrightarrow> row_upd (\<lambda>r. key r = k) f rows = rows"
  unfolding row_get_None by (induction rows) (auto simp: row_upd_def)

lemma fund_bound:
  assumes "row_get man_ID (ap2_mandates d) (take 16 (hashMandate M env)) = None"
  shows "fst (UpdateAP2MandateFunding (take 16 (hashMandate M env)) tx
             (d\<lparr>ap2_mandates := row_add (bound_row M env i ''bound'' []) (ap2_mandates d)\<rparr>))
    = d\<lparr>ap2_mandates := ap2_mandates d @ [bound_row M env i ''funded'' tx]\<rparr>"
proof -
  have "man_ID (bound_row M env i st t) = take 16 (hashMandate M env)" for st t by (simp add: bound_row_def)
  moreover have "(bound_row M env i ''bound'' [])\<lparr>man_FundingTxHash := tx, man_Status := ''funded''\<rparr>
      = bound_row M env i ''funded'' tx"
    by (simp add: bound_row_def)
  moreover have "row_upd (\<lambda>m. man_ID m = take 16 (hashMandate M env)) f (ap2_mandates d) = ap2_mandates d" for f
    using row_upd_absent [OF assms] .
  ultimately show ?thesis
    by (simp add: UpdateAP2MandateFunding_def row_add_def row_get_append row_upd_def)
qed

definition funded_response :: "mandate_env \<Rightarrow> mandate_envelope \<Rightarrow> int \<Rightarrow> hash \<Rightarrow> fund_response" where
  "funded_response M env i tx =
     \<lparr>fr_TxHash = HashHex (mv_L M) tx, fr_EscrowID = i, fr_MandateID = take 16 (hashMandate M env),
      fr_Status = ''funded''\<rparr>"

text \<open>C28: Funding by mandate either fails and changes nothing at all, or makes exactly one call to the
  chain. The call is for the escrow that was asked for, with the parameters of the authorization and a
  window that is not empty; the mandate was not used before, it is signed by and drawn on the buyer of
  the escrow, made out to the contract of the escrow, and of at least its amount. If the call succeeds
  the mandate is stored as funded with its transaction; if it fails the mandate stays stored as bound,
  so it is spent.\<close>

theorem FundViaMandate_sound:
  "case FundViaMandate M i env w of (w', r) \<Rightarrow>
     (w' = w \<and> isl r)
     \<or> (\<exists>e c. GetEscrow (mw_DB w) i = Inr e \<and> mandate_for (mv_L M) env e \<and> call_for (mv_L M) env e c
         \<and> hashMandate M env \<notin> mandate_hashes (mw_DB w)
         \<and> mw_Calls w' = mw_Calls w @ [(c, mv_Fund M (mw_Calls w) c)]
         \<and> (case mv_Fund M (mw_Calls w) c of
              Inl x \<Rightarrow> r = Inl (wrap ''fund with authorization'' x)
                \<and> mw_DB w' = (mw_DB w)\<lparr>ap2_mandates := ap2_mandates (mw_DB w) @ [bound_row M env i ''bound'' []]\<rparr>
            | Inr tx \<Rightarrow> r = Inr (funded_response M env i tx)
                \<and> mw_DB w' = mv_RunOnce M ((mw_DB w)\<lparr>ap2_mandates :=
                     ap2_mandates (mw_DB w) @ [bound_row M env i ''funded'' (HashHex (mv_L M) tx)]\<rparr>)))"
proof (cases "ValidateMandate (mv_L M) env")
  case None
  note valid = this
  show ?thesis
  proof (cases "GetEscrow (mw_DB w) i")
    case (Inr e)
    note escrow = this
    show ?thesis
    proof (cases "check_binding (mv_L M) env e")
      case None
      obtain d1 x where s: "store_mandate M env i (mw_DB w) = (d1, x)" by fastforce
      show ?thesis
      proof (cases x)
        case (Inl y)
        then have "d1 = mw_DB w" using s store_mandate_err by blast
        then show ?thesis using s Inl valid escrow None by (simp add: FundViaMandate_def BindToEscrow_def)
      next
        case (Inr u)
        then have st: "hashMandate M env \<notin> mandate_hashes (mw_DB w)"
          "row_get man_ID (ap2_mandates (mw_DB w)) (take 16 (hashMandate M env)) = None"
          "d1 = (mw_DB w)\<lparr>ap2_mandates := row_add (bound_row M env i ''bound'' []) (ap2_mandates (mw_DB w))\<rparr>"
          using s store_mandate_ok by blast+
        obtain c where c: "funding_call (mv_L M) env e = Inr c" "call_for (mv_L M) env e c"
          using funding_call_total [OF valid] by blast
        have "mandate_for (mv_L M) env e"
          using valid None by (auto simp: mandate_for_def ValidateMandate_None check_binding_None Let_def)
        moreover have "GetEscrow d1 i = Inr e" using escrow st(3) by (simp add: GetEscrow_def)
        ultimately show ?thesis
          using s Inr valid escrow None st c fund_bound [OF st(2)]
          by (cases "mv_Fund M (mw_Calls w) c")
            (auto simp: FundViaMandate_def BindToEscrow_def send_funding_def settle_funding_def Let_def
              funded_response_def row_add_def)
      qed
    qed (use valid escrow in \<open>simp add: FundViaMandate_def BindToEscrow_def\<close>)
  qed (use valid in \<open>simp add: FundViaMandate_def BindToEscrow_def\<close>)
qed (simp add: FundViaMandate_def)

section \<open>Concurrent requests\<close>

text \<open>The statements and calls of a request, between which any other may run.\<close>

datatype mandate_phase =
    MStart
  | MInsert
  | MReread
  | MSend fund_call
  | MMark hash
  | MIndex hash
  | MDone "gerr + fund_response"

record mandate_request =
  mr_EscrowID :: int
  mr_Envelope :: mandate_envelope

fun mandate_step ::
    "mandate_env \<Rightarrow> mandate_request \<Rightarrow> mandate_phase \<Rightarrow> mandate_world \<Rightarrow> mandate_world \<times> mandate_phase" where
  "mandate_step M q MStart w =
     (w, case ValidateMandate (mv_L M) (mr_Envelope q) of
           Some e \<Rightarrow> MDone (Inl (invalid_mandate e))
         | None \<Rightarrow>
             (case GetEscrow (mw_DB w) (mr_EscrowID q) of
                Inl e \<Rightarrow> MDone (Inl (bind_failure (wrap ''get escrow'' e)))
              | Inr e \<Rightarrow>
                  (case check_binding (mv_L M) (mr_Envelope q) e of
                     Some err \<Rightarrow> MDone (Inl (bind_failure err))
                   | None \<Rightarrow> MInsert)))"
| "mandate_step M q MInsert w =
     (case store_mandate M (mr_Envelope q) (mr_EscrowID q) (mw_DB w) of
        (d1, Inl e) \<Rightarrow> (w\<lparr>mw_DB := d1\<rparr>, MDone (Inl (bind_failure (wrap ''store mandate'' e))))
      | (d1, Inr _) \<Rightarrow> (w\<lparr>mw_DB := d1\<rparr>, MReread))"
| "mandate_step M q MReread w =
     (w, case GetEscrow (mw_DB w) (mr_EscrowID q) of
           Inl e \<Rightarrow> MDone (Inl (wrap ''get escrow'' e))
         | Inr e \<Rightarrow>
             (case funding_call (mv_L M) (mr_Envelope q) e of
                Inl x \<Rightarrow> MDone (Inl x)
              | Inr c \<Rightarrow> MSend c))"
| "mandate_step M q (MSend c) w =
     (case send_funding M c w of
        (w1, Inl x) \<Rightarrow> (w1, MDone (Inl (wrap ''fund with authorization'' x)))
      | (w1, Inr tx) \<Rightarrow> (w1, MMark tx))"
| "mandate_step M q (MMark tx) w =
     (w\<lparr>mw_DB := fst (UpdateAP2MandateFunding (take 16 (hashMandate M (mr_Envelope q))) (HashHex (mv_L M) tx) (mw_DB w))\<rparr>,
      MIndex tx)"
| "mandate_step M q (MIndex tx) w =
     (w\<lparr>mw_DB := mv_RunOnce M (mw_DB w)\<rparr>, MDone (Inr (funded_response M (mr_Envelope q) (mr_EscrowID q) tx)))"
| "mandate_step M q (MDone r) w = (w, MDone r)"

text \<open>Alone, the steps of a request are the function.\<close>

lemma mandate_steps:
  "((\<lambda>(w, ph). mandate_step M q ph w) ^^ 6) (w, MStart)
     = (case FundViaMandate M (mr_EscrowID q) (mr_Envelope q) w of (w', r) \<Rightarrow> (w', MDone r))"
proof (cases "ValidateMandate (mv_L M) (mr_Envelope q)")
  case None
  note valid = this and six = eval_nat_numeral FundViaMandate_def BindToEscrow_def
  show ?thesis
  proof (cases "GetEscrow (mw_DB w) (mr_EscrowID q)")
    case (Inr e)
    note escrow = this
    show ?thesis
    proof (cases "check_binding (mv_L M) (mr_Envelope q) e")
      case None
      obtain d1 x where s: "store_mandate M (mr_Envelope q) (mr_EscrowID q) (mw_DB w) = (d1, x)" by fastforce
      show ?thesis
      proof (cases x)
        case (Inr u)
        then have "GetEscrow d1 (mr_EscrowID q) = Inr e" using s escrow by (auto simp: store_mandate_ok GetEscrow_def)
        then show ?thesis
          using valid escrow None s Inr
          by (cases "funding_call (mv_L M) (mr_Envelope q) e")
            (simp_all add: six send_funding_def Let_def settle_funding_def funded_response_def split: sum.split)
      qed (use valid escrow None s in \<open>simp add: six\<close>)
    qed (use valid escrow in \<open>simp add: six\<close>)
  qed (use valid in \<open>simp add: six\<close>)
qed (simp add: eval_nat_numeral FundViaMandate_def)


text \<open>Any number of requests, each for any envelope; the rest of the server may change anything but
  take mandates away. What was sent is kept with the hash of its mandate as a ghost.\<close>

record mandate_state =
  ms_World :: mandate_world
  ms_Requests :: "(mandate_request \<times> mandate_phase) list"
  ms_Sent :: "(string \<times> fund_call) list"

definition mandate_key :: "mandate_env \<Rightarrow> mandate_request \<Rightarrow> string" where
  "mandate_key M q = hashMandate M (mr_Envelope q)"

definition sent_by :: "mandate_env \<Rightarrow> mandate_request \<Rightarrow> mandate_phase \<Rightarrow> (string \<times> fund_call) list" where
  "sent_by M q ph = (case ph of MSend c \<Rightarrow> [(mandate_key M q, c)] | _ \<Rightarrow> [])"

inductive mandate_next :: "mandate_env \<Rightarrow> mandate_state \<Rightarrow> mandate_state \<Rightarrow> bool" for M where
  m_arrive: "mandate_next M s (s\<lparr>ms_Requests := ms_Requests s @ [(q, MStart)]\<rparr>)"
| m_request: "i < length (ms_Requests s) \<Longrightarrow> ms_Requests s ! i = (q, ph) \<Longrightarrow>
    mandate_step M q ph (ms_World s) = (w1, ph1) \<Longrightarrow>
    mandate_next M s (s\<lparr>ms_World := w1, ms_Requests := (ms_Requests s)[i := (q, ph1)],
                       ms_Sent := ms_Sent s @ sent_by M q ph\<rparr>)"
| m_elsewhere: "mandate_hashes (mw_DB (ms_World s)) \<subseteq> mandate_hashes d \<Longrightarrow>
    mandate_next M s (s\<lparr>ms_World := (ms_World s)\<lparr>mw_DB := d\<rparr>\<rparr>)"

definition mandate_reach :: "mandate_env \<Rightarrow> mandate_state \<Rightarrow> mandate_state \<Rightarrow> bool" where
  "mandate_reach M s s' \<longleftrightarrow> ms_Requests s = [] \<and> ms_Sent s = [] \<and> (mandate_next M)\<^sup>*\<^sup>* s s'"

text \<open>A request that has stored its mandate and not used it yet, and what a mandate has cost so far.\<close>

fun entitled :: "mandate_phase \<Rightarrow> bool" where
  "entitled MReread = True"
| "entitled (MSend c) = True"
| "entitled _ = False"

definition spending :: "mandate_env \<Rightarrow> string \<Rightarrow> mandate_state \<Rightarrow> nat" where
  "spending M h s = length (filter (\<lambda>(q, ph). mandate_key M q = h \<and> entitled ph) (ms_Requests s))
     + length (filter (\<lambda>(k, c). k = h) (ms_Sent s))"

definition mandate_inv :: "mandate_env \<Rightarrow> mandate_state \<Rightarrow> bool" where
  "mandate_inv M s \<longleftrightarrow>
     (\<forall>h. spending M h s \<le> (if h \<in> mandate_hashes (mw_DB (ms_World s)) then 1 else 0))"

definition keeps_mandates :: "mandate_env \<Rightarrow> bool" where
  "keeps_mandates M \<longleftrightarrow> (\<forall>d. mandate_hashes d \<subseteq> mandate_hashes (mv_RunOnce M d))"

lemma mark_hashes: "mandate_hashes (fst (UpdateAP2MandateFunding i tx d)) = mandate_hashes d"
proof -
  have "man_MandateHash ` set (row_upd (\<lambda>m. man_ID m = i) (\<lambda>m. m\<lparr>man_FundingTxHash := tx, man_Status := ''funded''\<rparr>) rows)
      = man_MandateHash ` set rows" for rows :: "ap2_mandate list"
    by (induction rows) (auto simp: row_upd_def)
  then show ?thesis unfolding UpdateAP2MandateFunding_def mandate_hashes_def by simp
qed

lemma store_hashes:
  "store_mandate M env i d = (d1, Inr u) \<Longrightarrow>
     hashMandate M env \<notin> mandate_hashes d \<and> mandate_hashes d1 = insert (hashMandate M env) (mandate_hashes d)"
  by (auto simp: store_mandate_ok mandate_hashes_def row_add_def bound_row_def)

text \<open>The effect of a step on the mandates stored and on what its request may still do.\<close>

lemma mandate_step_effect:
  assumes "keeps_mandates M" "mandate_step M q ph w = (w1, ph1)"
  shows "mandate_hashes (mw_DB w) \<subseteq> mandate_hashes (mw_DB w1)
    \<and> (entitled ph1 \<longrightarrow> entitled ph
       \<or> (mandate_key M q \<notin> mandate_hashes (mw_DB w) \<and> mandate_key M q \<in> mandate_hashes (mw_DB w1)))
    \<and> (sent_by M q ph \<noteq> [] \<longrightarrow> entitled ph \<and> \<not> entitled ph1)
    \<and> (\<exists>c. sent_by M q ph = [(mandate_key M q, c)] \<or> sent_by M q ph = [])"
proof (cases ph)
  case MInsert
  obtain d1 x where s: "store_mandate M (mr_Envelope q) (mr_EscrowID q) (mw_DB w) = (d1, x)" by fastforce
  then show ?thesis
    using assms(2) MInsert store_mandate_err store_hashes
    by (cases x) (fastforce simp: sent_by_def mandate_key_def)+
next
  case (MSend c)
  obtain x where "send_funding M c w = (w\<lparr>mw_Calls := mw_Calls w @ [(c, x)]\<rparr>, x)"
    by (simp add: send_funding_def Let_def)
  then show ?thesis using assms(2) MSend by (cases x) (auto simp: sent_by_def)
next
  case (MIndex tx)
  moreover have "mandate_hashes (mw_DB w) \<subseteq> mandate_hashes (mv_RunOnce M (mw_DB w))"
    using assms(1) by (simp add: keeps_mandates_def)
  ultimately show ?thesis using assms(2) by (auto simp: sent_by_def)
qed (use assms(2) in \<open>auto simp: sent_by_def mark_hashes split: option.splits sum.splits if_splits\<close>)

lemma spending_upd:
  assumes "i < length (ms_Requests s)" "ms_Requests s ! i = (q, ph)"
  shows "spending M h (s\<lparr>ms_World := w1, ms_Requests := (ms_Requests s)[i := (q, ph1)], ms_Sent := ms_Sent s @ cs\<rparr>)
      + (if mandate_key M q = h \<and> entitled ph then 1 else 0)
    = spending M h s + (if mandate_key M q = h \<and> entitled ph1 then 1 else 0) + length (filter (\<lambda>(k, c). k = h) cs)"
  using length_filter_upd [OF assms(1), of "\<lambda>(q, ph). mandate_key M q = h \<and> entitled ph" "(q, ph1)"] assms(2)
  by (auto simp: spending_def)

lemma mandate_next_inv:
  assumes keep: "keeps_mandates M" and inv: "mandate_inv M s" and "mandate_next M s s'"
  shows "mandate_inv M s'"
  using assms(3)
proof (cases rule: mandate_next.cases)
  case (m_arrive q)
  then show ?thesis using inv by (simp add: mandate_inv_def spending_def)
next
  case (m_elsewhere d)
  then show ?thesis using inv unfolding mandate_inv_def spending_def
    by (auto intro: order_trans split: if_splits)
next
  case (m_request i q ph w1 ph1)
  note effect = mandate_step_effect [OF keep m_request(4)]
  show ?thesis unfolding mandate_inv_def
  proof
    fix h
    have "spending M h s \<le> (if h \<in> mandate_hashes (mw_DB (ms_World s)) then 1 else 0)"
      using inv by (simp add: mandate_inv_def)
    with spending_upd [OF m_request(2,3), where M = M and h = h and ?w1.0 = w1 and ?ph1.0 = ph1 and cs = "sent_by M q ph"] effect
    show "spending M h s' \<le> (if h \<in> mandate_hashes (mw_DB (ms_World s')) then 1 else 0)"
      unfolding m_request(1) by (cases "mandate_key M q = h") (auto split: if_splits)
  qed
qed

text \<open>Every call that was sent is one its mandate allows.\<close>

fun call_ready :: "mandate_env \<Rightarrow> mandate_request \<Rightarrow> mandate_phase \<Rightarrow> bool" where
  "call_ready M q MInsert = (ValidateMandate (mv_L M) (mr_Envelope q) = None)"
| "call_ready M q MReread = (ValidateMandate (mv_L M) (mr_Envelope q) = None)"
| "call_ready M q (MSend c) = (\<exists>e. call_for (mv_L M) (mr_Envelope q) e c)"
| "call_ready M q ph = True"

lemma call_ready_step:
  "call_ready M q ph \<Longrightarrow> mandate_step M q ph w = (w1, ph1) \<Longrightarrow> call_ready M q ph1"
  using funding_call_total [of "mv_L M" "mr_Envelope q"]
  by (cases ph) (auto simp: send_funding_def Let_def split: option.splits sum.splits prod.splits; metis sum.inject(2))+

definition allowed :: "mandate_env \<Rightarrow> string \<times> fund_call \<Rightarrow> bool" where
  "allowed M = (\<lambda>(h, c). \<exists>env e. hashMandate M env = h \<and> call_for (mv_L M) env e c)"

definition calls_inv :: "mandate_env \<Rightarrow> fund_log \<Rightarrow> mandate_state \<Rightarrow> bool" where
  "calls_inv M l s \<longleftrightarrow> map fst (mw_Calls (ms_World s)) = map fst l @ map snd (ms_Sent s)
     \<and> list_all (allowed M) (ms_Sent s) \<and> list_all (\<lambda>(q, ph). call_ready M q ph) (ms_Requests s)"

lemma step_calls_sent:
  "mandate_step M q ph w = (w1, ph1) \<Longrightarrow> map fst (mw_Calls w1) = map fst (mw_Calls w) @ map snd (sent_by M q ph)"
  by (cases ph) (auto simp: send_funding_def Let_def sent_by_def split: sum.splits prod.splits)

lemma sent_allowed: "call_ready M q ph \<Longrightarrow> list_all (allowed M) (sent_by M q ph)"
  by (cases ph) (auto simp: sent_by_def allowed_def mandate_key_def)

lemma calls_next:
  assumes "calls_inv M l s" "mandate_next M s s'"
  shows "calls_inv M l s'"
  using assms(2)
proof (cases rule: mandate_next.cases)
  case (m_request i q ph w1 ph1)
  have "call_ready M q ph" using assms(1) m_request(2,3) by (force simp: calls_inv_def list_all_length)
  with call_ready_step [OF this m_request(4)] sent_allowed [OF this] step_calls_sent [OF m_request(4)] assms(1) m_request
  show ?thesis by (auto simp: calls_inv_def list_all_iff dest!: subsetD [OF set_update_subset_insert])
qed (use assms(1) in \<open>auto simp: calls_inv_def\<close>)

lemma spending_distinct:
  assumes "\<And>h. spending M h s \<le> 1"
  shows "distinct (map fst (ms_Sent s))"
proof -
  have "length (filter (\<lambda>(k, c). k = h) (ms_Sent s)) \<le> 1" for h using assms [of h] by (simp add: spending_def)
  then show ?thesis
  proof (induction "ms_Sent s" arbitrary: s)
    case (Cons a l)
    have "length (filter (\<lambda>(k, c). k = h) l) \<le> 1" for h using Cons(3) [of h] Cons(2) [symmetric] by (simp split: if_splits)
    then have "distinct (map fst l)" using Cons(1) [of "s\<lparr>ms_Sent := l\<rparr>"] by simp
    moreover have "filter (\<lambda>(k, c). k = fst a) l = []" using Cons(3) [of "fst a"] Cons(2) [symmetric] by (simp split: prod.splits)
    ultimately show ?case using Cons(2) [symmetric] by (auto simp: filter_empty_conv)
  qed simp
qed

text \<open>C29: However requests to fund by mandate interleave with each other and with the rest of the server,
  the calls to the chain are, in order, the calls the requests sent, no two of them for one mandate, and
  each with the parameters of its mandate's authorization.\<close>

theorem mandate_once:
  assumes "keeps_mandates M" and "mandate_reach M s s'"
  shows "distinct (map fst (ms_Sent s')) \<and> list_all (allowed M) (ms_Sent s')
    \<and> map fst (mw_Calls (ms_World s')) = map fst (mw_Calls (ms_World s)) @ map snd (ms_Sent s')"
proof -
  have run: "(mandate_next M)\<^sup>*\<^sup>* s s'" "ms_Requests s = []" "ms_Sent s = []"
    using assms(2) by (simp_all add: mandate_reach_def)
  have "mandate_inv M s' \<and> calls_inv M (mw_Calls (ms_World s)) s'"
    using run(1)
  proof (induction rule: rtranclp_induct)
    case base
    then show ?case using run(2,3) by (simp add: mandate_inv_def spending_def calls_inv_def)
  qed (use mandate_next_inv [OF assms(1)] calls_next in blast)
  moreover from this have "spending M h s' \<le> 1" for h
    unfolding mandate_inv_def by (metis (full_types) le_zero_eq zero_le_one)
  ultimately show ?thesis using spending_distinct by (auto simp: calls_inv_def)
qed


text \<open>A mandate for an escrow, used by one request.\<close>

definition sample_mandate :: mandate_envelope where
  "sample_mandate =
     \<lparr>me_Type = ''cart'', me_Payload = None, me_Signature = ''s'', me_SignerAddress = ''0xb'',
      me_Authorization =
        \<lparr>au_From = ''0xb'', au_To = ''0xe'', au_Value = ''7'', au_ValidAfter = [], au_ValidBefore = ''9'',
         au_Nonce = ''0x01'', au_V = 27, au_R = ''02'', au_S = ''03''\<rparr>\<rparr>"

definition sample_mandate_env :: mandate_env where
  "sample_mandate_env =
     \<lparr>mv_L = sample_eth, mv_Now = 0, mv_Sha256 = bytes_of, mv_Expiry = (\<lambda>_. None),
      mv_Fund = (\<lambda>calls c. Inr (bytes_of ''tx'')), mv_RunOnce = id\<rparr>"

definition sample_mandate_world :: mandate_world where
  "sample_mandate_world =
     \<lparr>mw_DB = empty_db\<lparr>escrows := [blank_escrow\<lparr>esc_ID := 1, esc_Buyer := ''0xb'', esc_EscrowAddress := ''0xe'',
                                              esc_Amount := ''7''\<rparr>]\<rparr>, mw_Calls = []\<rparr>"

definition sample_mandate_start :: mandate_state where
  "sample_mandate_start = \<lparr>ms_World = sample_mandate_world, ms_Requests = [], ms_Sent = []\<rparr>"

lemma sample_mandate_texts:
  "SetString10 ''7'' = Some 7" "SetString10 ''9'' = Some 9" "hexToBytes32 ''0x01'' = Inr (replicate 31 0 @ [1])"
  "hexToBytes32 ''02'' = Inr (replicate 31 0 @ [2])" "hexToBytes32 ''03'' = Inr (replicate 31 0 @ [3])"
  by code_simp+

lemma sample_fund_run:
  "\<exists>w1 r. FundViaMandate sample_mandate_env 1 sample_mandate sample_mandate_world = (w1, r) \<and> length (mw_Calls w1) = 1"
proof -
  let ?M = sample_mandate_env and ?d = "mw_DB sample_mandate_world"
  have valid: "ValidateMandate (mv_L ?M) sample_mandate = None"
    by (simp add: ValidateMandate_None sample_mandate_def sample_mandate_env_def check_window_None check_bytes32_None
        sample_mandate_texts HasPrefix_def)
  obtain e where e: "GetEscrow ?d 1 = Inr e" "esc_Buyer e = ''0xb''" "esc_EscrowAddress e = ''0xe''" "esc_Amount e = ''7''"
    by (simp add: sample_mandate_world_def GetEscrow_def)
  then have fits: "check_binding (mv_L ?M) sample_mandate e = None"
    by (simp add: check_binding_None sample_mandate_def sample_mandate_texts)
  obtain d1 where s: "store_mandate ?M sample_mandate 1 ?d = (d1, Inr ())" "escrows d1 = escrows ?d"
    using store_mandate_ok [of ?M sample_mandate 1 ?d _ "()"]
    by (simp add: sample_mandate_world_def empty_db_def mandate_hashes_def)
  then have "GetEscrow d1 1 = Inr e" using e(1) by (simp add: GetEscrow_def)
  moreover obtain c where "funding_call (mv_L ?M) sample_mandate e = Inr c" using funding_call_total [OF valid] by blast
  ultimately show ?thesis
    using valid e(1) fits s(1)
    by (simp add: FundViaMandate_def BindToEscrow_def send_funding_def Let_def)
      (simp add: sample_mandate_env_def sample_mandate_world_def)
qed

lemma solo_run:
  assumes "ms_Requests s = [(q, ph)]" "((\<lambda>(w, ph). mandate_step M q ph w) ^^ n) (ms_World s, ph) = (w1, ph1)"
  shows "\<exists>s1. (mandate_next M)\<^sup>*\<^sup>* s s1 \<and> ms_World s1 = w1"
  using assms
proof (induction n arbitrary: s ph)
  case (Suc n)
  obtain w2 ph2 where step: "mandate_step M q ph (ms_World s) = (w2, ph2)" by fastforce
  let ?s = "s\<lparr>ms_World := w2, ms_Requests := (ms_Requests s)[0 := (q, ph2)], ms_Sent := ms_Sent s @ sent_by M q ph\<rparr>"
  have "mandate_next M s ?s" using mandate_next.m_request [of 0 s q ph M w2 ph2] Suc.prems(1) step by simp
  moreover from Suc.IH [of ?s ph2] Suc.prems step obtain s1 where "(mandate_next M)\<^sup>*\<^sup>* ?s s1" "ms_World s1 = w1"
    by (auto simp: funpow_swap1)
  ultimately show ?case using converse_rtranclp_into_rtranclp [of "mandate_next M" s ?s s1] by blast
qed auto

lemma mandate_once_witness:
  "\<exists>s'. mandate_reach sample_mandate_env sample_mandate_start s' \<and> length (ms_Sent s') = 1
     \<and> distinct (map fst (ms_Sent s')) \<and> list_all (allowed sample_mandate_env) (ms_Sent s')"
proof -
  let ?M = sample_mandate_env and ?q = "\<lparr>mr_EscrowID = 1, mr_Envelope = sample_mandate\<rparr>"
  let ?s = "sample_mandate_start\<lparr>ms_Requests := [(?q, MStart)]\<rparr>"
  obtain w1 r where run: "FundViaMandate ?M 1 sample_mandate sample_mandate_world = (w1, r)" "length (mw_Calls w1) = 1"
    using sample_fund_run by blast
  have "((\<lambda>(w, ph). mandate_step ?M ?q ph w) ^^ 6) (ms_World ?s, MStart) = (w1, MDone r)"
    using mandate_steps [of ?M ?q sample_mandate_world] run(1) by (simp add: sample_mandate_start_def)
  then obtain s1 where s1: "(mandate_next ?M)\<^sup>*\<^sup>* ?s s1" "ms_World s1 = w1" using solo_run [of ?s] by fastforce
  have "mandate_next ?M sample_mandate_start ?s"
    using mandate_next.m_arrive [of ?M sample_mandate_start ?q] by (simp add: sample_mandate_start_def)
  then have reach: "mandate_reach ?M sample_mandate_start s1"
    using s1(1) by (simp add: mandate_reach_def sample_mandate_start_def converse_rtranclp_into_rtranclp)
  have "keeps_mandates ?M" by (simp add: keeps_mandates_def sample_mandate_env_def)
  from mandate_once [OF this reach] have
    "distinct (map fst (ms_Sent s1))" "list_all (allowed ?M) (ms_Sent s1)"
    "map fst (mw_Calls w1) = map snd (ms_Sent s1)"
    using s1(2) by (simp_all add: sample_mandate_start_def sample_mandate_world_def)
  moreover from this(3) run(2) have "length (ms_Sent s1) = 1" by (metis length_map)
  ultimately show ?thesis using reach by blast
qed

end
