(* ===== verification/Ucp.thy ===== *)
theory Ucp
  imports EscrowOps SessionStore Bidding
begin

text \<open>
  \<open>internal/ucp/service.go\<close>: checkouts, which are sessions on top of escrows. A checkout projects the
  status of its escrow; its operations are those of the escrow service. A request with an
  idempotency key is answered from the record of the first request with that key. \<open>ucp_env\<close> holds
  what an operation reads besides the database and the chain: the environment of the escrow service,
  the complexity floor of the configuration, SQLite's clock, the identifiers \<open>uuid.NewString\<close> would
  return, SHA-256 in hexadecimal, and the texts \<open>encoding/json\<close> writes for times and for float64.
  The locks of \<open>idempotencyGuard\<close> are in theory \<open>UcpGuard\<close>.
\<close>

record ucp_env =
  uv_Escrow :: escrow_env
  uv_ComplexityFloor :: string
  uv_ProviderName :: string
  uv_ProviderURL :: string
  uv_Now :: int
  uv_NewCheckoutID :: string
  uv_NewSessionID :: string
  uv_Sha256 :: "string \<Rightarrow> string"
  uv_TimeText :: "int \<Rightarrow> string"
  uv_FloatText :: "string \<Rightarrow> string option"

definition ErrInvalidRequest :: gerr where
  "ErrInvalidRequest = Sentinel ''ucp.ErrInvalidRequest'' ''invalid ucp request''"

definition ErrIdempotencyConflict :: gerr where
  "ErrIdempotencyConflict = Sentinel ''ucp.ErrIdempotencyConflict'' ''ucp idempotency conflict''"

definition bad :: "string \<Rightarrow> gerr" where
  "bad msg = detail ErrInvalidRequest msg"

definition bad_err :: "gerr \<Rightarrow> gerr" where
  "bad_err e = Errorf (err_msg ErrInvalidRequest @ '': '' @ err_msg e) [ErrInvalidRequest, e]"

definition bad_because :: "string \<Rightarrow> gerr \<Rightarrow> gerr" where
  "bad_because msg e =
     Errorf (err_msg ErrInvalidRequest @ '': '' @ msg @ '': '' @ err_msg e) [ErrInvalidRequest, e]"

text \<open>Go's \<open>if err != nil { return nil, err }\<close> after a pure call.\<close>

definition okThen :: "gerr + 'a \<Rightarrow> ('a \<Rightarrow> gerr + 'b) \<Rightarrow> gerr + 'b" where
  "okThen r k = (case r of Inl e \<Rightarrow> Inl e | Inr x \<Rightarrow> k x)"

lemma okThen_simps [simp]:
  "okThen (Inl e) k = Inl e"
  "okThen (Inr x) k = k x"
  by (simp_all add: okThen_def)

lemma okThen_Inr [err_iff]: "okThen r k = Inr y \<longleftrightarrow> (\<exists>x. r = Inr x \<and> k x = Inr y)"
  by (auto simp: okThen_def split: sum.splits)

section \<open>Requests and checkouts\<close>

record milestone_payload =
  mpl_Amount :: string
  mpl_SubmissionDeadline :: string

record escrow_payload =
  epl_Title :: string
  epl_Description :: string
  epl_Buyer :: string
  epl_Worker :: string
  epl_VerifierPanel :: "string list"
  epl_QuorumThreshold :: int64
  epl_QuorumVerifierCount :: int64
  epl_VerifierStakePerVerifier :: string
  epl_Arbitrator :: string
  epl_Amount :: string
  epl_WorkerStake :: string
  epl_SubmissionDeadline :: string
  epl_ReviewPeriodSeconds :: string
  epl_DisputePeriodSeconds :: string
  epl_ArbitratorTimeoutSeconds :: string
  epl_Token :: string
  epl_ServiceTier :: int64
  epl_Milestones :: "milestone_payload list"
  epl_BackupWorker :: string
  epl_BackupDeadlineExtension :: string
  epl_ZKVerifier :: string
  epl_CircuitID :: string
  epl_ParentEscrowID :: "int option"

record create_checkout_request =
  ccr_CheckoutID :: string
  ccr_SessionID :: string
  ccr_IdempotencyKey :: string
  ccr_EscrowID :: "int option"
  ccr_CreateEscrow :: "escrow_payload option"
  ccr_AutoFund :: bool

record update_checkout_request =
  ucr_IdempotencyKey :: string
  ucr_Operation :: string
  ucr_Role :: string
  ucr_SubmissionURI :: string
  ucr_ProofHash :: string
  ucr_Proof :: string
  ucr_MilestoneIndex :: "int64 option"
  ucr_Approve :: "bool option"
  ucr_ReasonURI :: string
  ucr_WorkerAwardBps :: "16 word option"
  ucr_ResolutionURI :: string

record complete_checkout_request =
  cmr_IdempotencyKey :: string
  cmr_Role :: string
  cmr_Proof :: string
  cmr_MilestoneIndex :: "int64 option"

record cancel_checkout_request =
  xcr_IdempotencyKey :: string
  xcr_MilestoneIndex :: "int64 option"

text \<open>The escrow of a checkout is an \<open>any\<close>: the row itself, or what decoding its JSON gives; both are
  modelled by the JSON value.\<close>

record checkout =
  ck_CheckoutID :: string
  ck_SessionID :: string
  ck_EscrowID :: int
  ck_UCPStatus :: string
  ck_EscrowStatus :: string
  ck_LastOperation :: string
  ck_LastTxHash :: string
  ck_NextAction :: string
  ck_Escrow :: "json option"

section \<open>JSON\<close>

text \<open>Struct fields with \<open>omitempty\<close>.\<close>

definition opt_str :: "string \<Rightarrow> string \<Rightarrow> (string \<times> json) list" where
  "opt_str k s = (if s = [] then [] else [(k, JStr s)])"

definition opt_val :: "string \<Rightarrow> ('a \<Rightarrow> json) \<Rightarrow> 'a option \<Rightarrow> (string \<times> json) list" where
  "opt_val k f o1 = (case o1 of None \<Rightarrow> [] | Some x \<Rightarrow> [(k, f x)])"

definition int_json :: "int \<Rightarrow> json" where
  "int_json i = JNum (int_str i)"

definition milestone_payload_json :: "milestone_payload \<Rightarrow> json" where
  "milestone_payload_json m =
     JObj [(''amount'', JStr (mpl_Amount m)), (''submission_deadline'', JStr (mpl_SubmissionDeadline m))]"

definition payload_json :: "escrow_payload \<Rightarrow> json" where
  "payload_json p =
     JObj ([(''title'', JStr (epl_Title p)), (''description'', JStr (epl_Description p)),
       (''buyer'', JStr (epl_Buyer p)), (''worker'', JStr (epl_Worker p)),
       (''verifier_panel'', if epl_VerifierPanel p = [] then JNull else JArr (map JStr (epl_VerifierPanel p))),
       (''quorum_threshold'', int_json (sint (epl_QuorumThreshold p))),
       (''quorum_verifier_count'', int_json (sint (epl_QuorumVerifierCount p)))]
      @ opt_str ''verifier_stake_per_verifier'' (epl_VerifierStakePerVerifier p)
      @ [(''arbitrator'', JStr (epl_Arbitrator p)), (''amount'', JStr (epl_Amount p))]
      @ opt_str ''worker_stake'' (epl_WorkerStake p)
      @ [(''submission_deadline'', JStr (epl_SubmissionDeadline p)),
         (''review_period_seconds'', JStr (epl_ReviewPeriodSeconds p)),
         (''dispute_period_seconds'', JStr (epl_DisputePeriodSeconds p)),
         (''arbitrator_timeout_seconds'', JStr (epl_ArbitratorTimeoutSeconds p))]
      @ opt_str ''token'' (epl_Token p)
      @ (if epl_ServiceTier p = 0 then [] else [(''service_tier'', int_json (sint (epl_ServiceTier p)))])
      @ (if epl_Milestones p = [] then []
         else [(''milestones'', JArr (map milestone_payload_json (epl_Milestones p)))])
      @ opt_str ''backup_worker'' (epl_BackupWorker p)
      @ opt_str ''backup_deadline_extension'' (epl_BackupDeadlineExtension p)
      @ opt_str ''zk_verifier'' (epl_ZKVerifier p) @ opt_str ''circuit_id'' (epl_CircuitID p)
      @ opt_val ''parent_escrow_id'' int_json (epl_ParentEscrowID p))"

definition create_request_json :: "create_checkout_request \<Rightarrow> json" where
  "create_request_json q =
     JObj (opt_str ''checkout_id'' (ccr_CheckoutID q) @ opt_str ''session_id'' (ccr_SessionID q)
      @ opt_str ''idempotency_key'' (ccr_IdempotencyKey q)
      @ opt_val ''escrow_id'' int_json (ccr_EscrowID q)
      @ opt_val ''create_escrow'' payload_json (ccr_CreateEscrow q)
      @ (if ccr_AutoFund q then [(''auto_fund'', JBool True)] else []))"

definition update_request_json :: "update_checkout_request \<Rightarrow> json" where
  "update_request_json q =
     JObj (opt_str ''idempotency_key'' (ucr_IdempotencyKey q)
      @ [(''operation'', JStr (ucr_Operation q))]
      @ opt_str ''role'' (ucr_Role q) @ opt_str ''submission_uri'' (ucr_SubmissionURI q)
      @ opt_str ''proof_hash'' (ucr_ProofHash q) @ opt_str ''proof'' (ucr_Proof q)
      @ opt_val ''milestone_index'' (\<lambda>m. int_json (sint m)) (ucr_MilestoneIndex q)
      @ opt_val ''approve'' JBool (ucr_Approve q) @ opt_str ''reason_uri'' (ucr_ReasonURI q)
      @ opt_val ''worker_award_bps'' (\<lambda>b. int_json (uint b)) (ucr_WorkerAwardBps q)
      @ opt_str ''resolution_uri'' (ucr_ResolutionURI q))"

definition complete_request_json :: "complete_checkout_request \<Rightarrow> json" where
  "complete_request_json q =
     JObj (opt_str ''idempotency_key'' (cmr_IdempotencyKey q) @ opt_str ''role'' (cmr_Role q)
      @ opt_str ''proof'' (cmr_Proof q)
      @ opt_val ''milestone_index'' (\<lambda>m. int_json (sint m)) (cmr_MilestoneIndex q))"

definition cancel_request_json :: "cancel_checkout_request \<Rightarrow> json" where
  "cancel_request_json q =
     JObj (opt_str ''idempotency_key'' (xcr_IdempotencyKey q)
      @ opt_val ''milestone_index'' (\<lambda>m. int_json (sint m)) (xcr_MilestoneIndex q))"

definition hashRequest :: "ucp_env \<Rightarrow> string \<Rightarrow> json \<Rightarrow> string" where
  "hashRequest E operation request = uv_Sha256 E (operation @ ''|'' @ render request)"

definition escrow_json :: "(int \<Rightarrow> string) \<Rightarrow> escrow \<Rightarrow> json" where
  "escrow_json T e =
     JObj ([(''ID'', int_json (esc_ID e)), (''TaskID'', int_json (esc_TaskID e)),
       (''ChainID'', int_json (esc_ChainID e)), (''FactoryAddress'', JStr (esc_FactoryAddress e)),
       (''EscrowAddress'', JStr (esc_EscrowAddress e)), (''EscrowID'', int_json (esc_EscrowID e)),
       (''Buyer'', JStr (esc_Buyer e)), (''Worker'', JStr (esc_Worker e)),
       (''Verifier'', JStr (esc_Verifier e)), (''verifier_panel_json'', JStr (esc_VerifierPanelJSON e)),
       (''quorum_threshold'', int_json (esc_QuorumThreshold e)),
       (''quorum_verifier_count'', int_json (esc_QuorumVerifierCount e)),
       (''verifier_stake_per_verifier'', JStr (esc_VerifierStakePerVerifier e)),
       (''Arbitrator'', JStr (esc_Arbitrator e)), (''Amount'', JStr (esc_Amount e)),
       (''WorkerStake'', JStr (esc_WorkerStake e)), (''Token'', JStr (esc_Token e)),
       (''Status'', JStr (esc_Status e)), (''SubmissionDeadline'', int_json (esc_SubmissionDeadline e)),
       (''ReviewPeriodSeconds'', int_json (esc_ReviewPeriodSeconds e)),
       (''DisputePeriodSeconds'', int_json (esc_DisputePeriodSeconds e)),
       (''ArbitratorTimeoutSeconds'', int_json (esc_ArbitratorTimeoutSeconds e)),
       (''milestone_count'', int_json (esc_MilestoneCount e)),
       (''current_milestone'', int_json (esc_CurrentMilestone e)),
       (''backup_worker'', JStr (esc_BackupWorker e)),
       (''backup_deadline_extension'', int_json (esc_BackupDeadlineExtension e)),
       (''active_worker'', JStr (esc_ActiveWorker e)),
       (''backup_activated'', JBool (esc_BackupActivated e)), (''frozen'', JBool (esc_Frozen e)),
       (''service_tier'', int_json (esc_ServiceTier e)), (''zk_verifier'', JStr (esc_ZKVerifier e)),
       (''circuit_id'', JStr (esc_CircuitID e))]
      @ opt_val ''parent_escrow_id'' int_json (esc_ParentEscrowID e)
      @ [(''CreatedAt'', JStr (T (esc_CreatedAt e))), (''UpdatedAt'', JStr (T (esc_UpdatedAt e)))])"

definition checkout_json :: "checkout \<Rightarrow> json" where
  "checkout_json c =
     JObj ([(''checkout_id'', JStr (ck_CheckoutID c)), (''session_id'', JStr (ck_SessionID c)),
       (''escrow_id'', int_json (ck_EscrowID c)), (''ucp_status'', JStr (ck_UCPStatus c)),
       (''escrow_status'', JStr (ck_EscrowStatus c))]
      @ opt_str ''last_operation'' (ck_LastOperation c) @ opt_str ''last_tx_hash'' (ck_LastTxHash c)
      @ opt_str ''next_action'' (ck_NextAction c) @ opt_val ''escrow'' id (ck_Escrow c))"

text \<open>A field of type \<open>any\<close>: a later key overrides an earlier one, \<open>null\<close> is \<open>nil\<close>.\<close>

fun any_field ::
    "(string \<Rightarrow> string option) \<Rightarrow> string \<Rightarrow> (string \<times> json) list \<Rightarrow> json option \<Rightarrow> json option option" where
  "any_field F name [] acc = Some acc"
| "any_field F name ((k, v) # kvs) acc =
     (if EqualFold k name then
        (if v = JNull then any_field F name kvs None
         else case go_any F v of None \<Rightarrow> None | Some x \<Rightarrow> any_field F name kvs (Some x))
      else any_field F name kvs acc)"

definition decode_checkout :: "(string \<Rightarrow> string option) \<Rightarrow> (string \<times> json) list \<Rightarrow> checkout option" where
  "decode_checkout F kvs =
     (case (str_field ''checkout_id'' kvs [], str_field ''session_id'' kvs [], int_field ''escrow_id'' kvs 0,
            str_field ''ucp_status'' kvs [], str_field ''escrow_status'' kvs [], str_field ''last_operation'' kvs [],
            str_field ''last_tx_hash'' kvs [], str_field ''next_action'' kvs [], any_field F ''escrow'' kvs None) of
        (Some a, Some b, Some c, Some d, Some e, Some f, Some g, Some h, Some i) \<Rightarrow>
          Some \<lparr>ck_CheckoutID = a, ck_SessionID = b, ck_EscrowID = c, ck_UCPStatus = d, ck_EscrowStatus = e,
                ck_LastOperation = f, ck_LastTxHash = g, ck_NextAction = h, ck_Escrow = i\<rparr>
      | _ \<Rightarrow> None)"

definition unmarshal_checkout :: "(string \<Rightarrow> string option) \<Rightarrow> string \<Rightarrow> checkout option" where
  "unmarshal_checkout F raw =
     (case parse_json raw of
        Some (JObj kvs) \<Rightarrow> decode_checkout F kvs
      | Some JNull \<Rightarrow> decode_checkout F []
      | _ \<Rightarrow> None)"

section \<open>Projection\<close>

definition ProjectStatus :: "string \<Rightarrow> string" where
  "ProjectStatus s =
     (if s = ''settled'' then ''completed''
      else if s = ''cancelled'' \<or> s = ''refunded'' then ''canceled''
      else if s = ''disputed'' then ''requires_escalation''
      else if s = ''submitted'' then ''ready_for_complete''
      else if s = ''approved'' \<or> s = ''resolved'' then ''complete_in_progress''
      else ''incomplete'')"

definition nextActionForEscrow :: "escrow \<Rightarrow> string" where
  "nextActionForEscrow e =
     (let s = esc_Status e in
      if s = ''created'' then ''fund''
      else if s = ''funded'' then (if HasStake e then ''deposit_stake'' else ''submit'')
      else if s = ''submitted'' then ''approve or dispute''
      else if s = ''approved'' \<or> s = ''resolved'' then ''wait for settlement indexing''
      else if s = ''disputed'' then ''resolve or timeout refund path''
      else if s = ''settled'' then ''completed''
      else if s = ''cancelled'' \<or> s = ''refunded'' then ''canceled''
      else ''inspect escrow status'')"

definition composeCheckout :: "ucp_env \<Rightarrow> ucp_session \<Rightarrow> escrow \<Rightarrow> checkout" where
  "composeCheckout E s e =
     \<lparr>ck_CheckoutID = ucp_CheckoutID s, ck_SessionID = ucp_SessionID s, ck_EscrowID = ucp_EscrowID s,
      ck_UCPStatus = ucp_UCPStatus s, ck_EscrowStatus = esc_Status e, ck_LastOperation = ucp_LastOperation s,
      ck_LastTxHash = ucp_LastTxHash s, ck_NextAction = nextActionForEscrow e,
      ck_Escrow = Some (escrow_json (uv_TimeText E) e)\<rparr>"

section \<open>Idempotency\<close>

text \<open>What a request with a key finds: the answer to give, or nothing, and then it has to be executed.\<close>

record keyed_request =
  kr_Key :: string
  kr_Operation :: string
  kr_RequestHash :: string

definition conflict_err :: "string \<Rightarrow> gerr" where
  "conflict_err key =
     detail ErrIdempotencyConflict (''key '' @ Quote key @ '' was already used for a different request'')"

definition find_answer :: "ucp_env \<Rightarrow> keyed_request \<Rightarrow> db \<Rightarrow> (gerr + checkout) option" where
  "find_answer E k d =
     (case GetUCPIdempotency d (kr_Key k) of
        Inr existing \<Rightarrow>
          if idem_Operation existing \<noteq> kr_Operation k \<or> idem_RequestHash existing \<noteq> kr_RequestHash k
          then Some (Inl (conflict_err (kr_Key k)))
          else (case unmarshal_checkout (uv_FloatText E) (idem_ResponseJSON existing) of
                  None \<Rightarrow> Some (Inl (wrap ''decode cached idempotent response'' json_err))
                | Some cached \<Rightarrow> Some (Inr cached))
      | Inl e \<Rightarrow> if errors_is e ErrNoRows then None else Some (Inl e))"

definition record_answer :: "ucp_env \<Rightarrow> keyed_request \<Rightarrow> checkout \<Rightarrow> escrow_world \<Rightarrow> checkout esc_result" where
  "record_answer E k resp w =
     andThen (on_db (CreateUCPIdempotency (uv_Now E)
                \<lparr>idem_ID = 0, idem_IdempotencyKey = kr_Key k, idem_Operation = kr_Operation k,
                 idem_RequestHash = kr_RequestHash k, idem_ResponseJSON = render (checkout_json resp),
                 idem_CheckoutID = ck_CheckoutID resp, idem_CreatedAt = 0\<rparr>) w)
       (\<lambda>w2 _. (w2, Inr resp))"

definition withIdempotency ::
    "ucp_env \<Rightarrow> string \<Rightarrow> string \<Rightarrow> json \<Rightarrow> (escrow_world \<Rightarrow> checkout esc_result) \<Rightarrow> escrow_world
      \<Rightarrow> checkout esc_result" where
  "withIdempotency E idempotencyKey operation request fn w =
     (let key = TrimSpace idempotencyKey;
          k = \<lparr>kr_Key = key, kr_Operation = operation, kr_RequestHash = hashRequest E operation request\<rparr> in
      if key = [] then fn w
      else case find_answer E k (ew_DB w) of
        Some answer \<Rightarrow> (w, answer)
      | None \<Rightarrow> andThen (fn w) (\<lambda>w1 resp. record_answer E k resp w1))"

section \<open>Creating an escrow from a payload\<close>

definition isValidAddress :: "eth_lib \<Rightarrow> string \<Rightarrow> bool" where
  "isValidAddress L a \<longleftrightarrow> IsHexAddress L a \<and> a \<noteq> zero_address"

text \<open>The amount and the four periods.\<close>

record payload_times =
  pt_Deadline :: uint64
  pt_Review :: uint64
  pt_Dispute :: uint64
  pt_ArbTimeout :: uint64

definition parse_times :: "escrow_payload \<Rightarrow> gerr + payload_times" where
  "parse_times p =
     (case ParseUint64 (epl_SubmissionDeadline p) of None \<Rightarrow> Inl (bad ''invalid submission_deadline'') | Some a \<Rightarrow>
      case ParseUint64 (epl_ReviewPeriodSeconds p) of None \<Rightarrow> Inl (bad ''invalid review_period_seconds'') | Some b \<Rightarrow>
      case ParseUint64 (epl_DisputePeriodSeconds p) of None \<Rightarrow> Inl (bad ''invalid dispute_period_seconds'') | Some c \<Rightarrow>
      case ParseUint64 (epl_ArbitratorTimeoutSeconds p) of None \<Rightarrow> Inl (bad ''invalid arbitrator_timeout_seconds'') | Some d \<Rightarrow>
        Inr \<lparr>pt_Deadline = word_of_nat a, pt_Review = word_of_nat b, pt_Dispute = word_of_nat c,
             pt_ArbTimeout = word_of_nat d\<rparr>)"

text \<open>The amount with the complexity floor.\<close>

definition parse_amount :: "ucp_env \<Rightarrow> escrow_payload \<Rightarrow> gerr + int" where
  "parse_amount E p =
     (case SetString10 (epl_Amount p) of
        None \<Rightarrow> Inl (bad ''invalid amount'')
      | Some n \<Rightarrow>
          if n < 0 then Inl (bad ''invalid amount'')
          else (case ValidateComplexityFloor (Some n) (uv_ComplexityFloor E) of
                  Some e \<Rightarrow> Inl (bad_err e) | None \<Rightarrow> Inr n))"

definition check_parties_payload :: "eth_lib \<Rightarrow> escrow_payload \<Rightarrow> gerr option" where
  "check_parties_payload L p =
     (let n = int (length (epl_VerifierPanel p)); qc = sint (epl_QuorumVerifierCount p);
          qt = sint (epl_QuorumThreshold p); buyer = HexToAddress L (epl_Buyer p);
          worker = HexToAddress L (epl_Worker p); arbitrator = HexToAddress L (epl_Arbitrator p) in
      if \<not> isValidAddress L (epl_Buyer p) then Some (bad ''invalid buyer address'')
      else if \<not> isValidAddress L (epl_Worker p) then Some (bad ''invalid worker address'')
      else if \<not> isValidAddress L (epl_Arbitrator p) then Some (bad ''invalid arbitrator address'')
      else if n = 0 \<or> n > 7 then Some (bad ''verifier_panel must include between 1 and 7 addresses'')
      else if qc \<le> 0 \<or> qc > 7 then Some (bad ''quorum_verifier_count must be between 1 and 7'')
      else if n < qc then Some (bad ''verifier_panel length must be at least quorum_verifier_count'')
      else if qt \<le> 0 \<or> qt > qc then Some (bad ''quorum_threshold must be between 1 and quorum_verifier_count'')
      else if buyer = worker then Some (bad ''buyer must not equal worker'')
      else if buyer = arbitrator then Some (bad ''buyer must not equal arbitrator'')
      else if worker = arbitrator then Some (bad ''worker must not equal arbitrator'')
      else None)"

fun panel_texts :: "eth_lib \<Rightarrow> addr list \<Rightarrow> addr list \<Rightarrow> string list \<Rightarrow> gerr + string list" where
  "panel_texts L parties seen [] = Inr (map (lower_addr L) seen)"
| "panel_texts L parties seen (v # vs) =
     (let k = ''['' @ nat_str (length seen) @ '']''; addr = HexToAddress L v in
      if \<not> isValidAddress L v then Inl (bad (''invalid verifier_panel'' @ k @ '' address''))
      else if addr \<in> set seen then Inl (bad (''duplicate verifier_panel'' @ k @ '' address''))
      else if addr \<in> set parties
      then Inl (bad (''verifier_panel'' @ k @ '' must not overlap buyer, worker, or arbitrator''))
      else panel_texts L parties (seen @ [addr]) vs)"

definition parse_stake :: "string \<Rightarrow> string \<Rightarrow> gerr + int" where
  "parse_stake field raw =
     (if raw = [] then Inr 0
      else case SetString10 raw of
        None \<Rightarrow> Inl (bad (''invalid '' @ field))
      | Some n \<Rightarrow> if n < 0 then Inl (bad (''invalid '' @ field)) else Inr n)"

definition parse_optional_address :: "(string \<Rightarrow> bool) \<Rightarrow> eth_lib \<Rightarrow> string \<Rightarrow> string \<Rightarrow> gerr + addr" where
  "parse_optional_address valid L field raw =
     (if raw = [] then Inr zero_addr
      else if \<not> valid raw then Inl (bad (''invalid '' @ field @ '' address''))
      else Inr (HexToAddress L raw))"

definition to_int64 :: "uint64 \<Rightarrow> string \<Rightarrow> gerr + int" where
  "to_int64 v field = (case Uint64ToInt64 v field of Inl e \<Rightarrow> Inl (bad_err e) | Inr n \<Rightarrow> Inr (sint n))"

fun parse_milestones :: "milestone_payload list \<Rightarrow> gerr + (input_milestone \<times> int) list" where
  "parse_milestones [] = Inr []"
| "parse_milestones (m # ms) =
     (case SetString10 (mpl_Amount m) of
        None \<Rightarrow> Inl (bad ''invalid milestone amount'')
      | Some a \<Rightarrow>
          if a < 0 then Inl (bad ''negative milestone amount'')
          else (case ParseUint64 (mpl_SubmissionDeadline m) of
                  None \<Rightarrow> Inl (bad ''invalid milestone submission_deadline'')
                | Some n \<Rightarrow>
                    (case to_int64 (word_of_nat n) ''milestones.submission_deadline'' of
                       Inl e \<Rightarrow> Inl e
                     | Inr i \<Rightarrow>
                         (case parse_milestones ms of
                            Inl e \<Rightarrow> Inl e
                          | Inr r \<Rightarrow> Inr ((\<lparr>im_Amount = Some a, im_SubmissionDeadline = word_of_nat n\<rparr>, i) # r)))))"

definition parse_backup_extension :: "addr \<Rightarrow> string \<Rightarrow> gerr + uint64" where
  "parse_backup_extension backupWorker raw =
     (if raw = [] then Inr 0
      else if backupWorker = zero_addr
      then Inl (bad ''backup_deadline_extension set without backup_worker'')
      else case ParseUint64 raw of
        None \<Rightarrow> Inl (bad ''invalid backup_deadline_extension'')
      | Some n \<Rightarrow> Inr (word_of_nat n))"

definition check_proof :: "escrow_payload \<Rightarrow> addr \<Rightarrow> gerr + hash" where
  "check_proof p zkVerifier =
     (case ParseProofHashHex (epl_CircuitID p) of
        Inl e \<Rightarrow> Inl (bad_because ''invalid circuit_id'' e)
      | Inr circuitID \<Rightarrow>
          if (zkVerifier = zero_addr) \<noteq> (epl_CircuitID p = [])
          then Inl (bad ''zk_verifier and circuit_id must either both be set or both omitted'')
          else if epl_ServiceTier p <s 0 \<or> 1 <s epl_ServiceTier p
          then Inl (bad ''invalid service_tier: must be 0 or 1'')
          else Inr circuitID)"

text \<open>The parent escrow, if there is one: a known escrow of the same factory, whose active worker is
  the buyer.\<close>

definition parent_of :: "ucp_env \<Rightarrow> escrow_payload \<Rightarrow> db \<Rightarrow> gerr + (int option \<times> addr)" where
  "parent_of E p d =
     (let L = ee_L (uv_Escrow E) in
      case epl_ParentEscrowID p of
        None \<Rightarrow> Inr (None, zero_addr)
      | Some i \<Rightarrow>
          (case GetEscrow d i of
             Inl e \<Rightarrow> Inl (bad_because ''invalid parent_escrow_id'' e)
           | Inr parent \<Rightarrow>
               let parsed = HexToAddress L (esc_EscrowAddress parent) in
               if \<not> IsHexAddress L (esc_EscrowAddress parent) \<or> parsed = zero_addr
               then Inl (bad ''parent escrow has invalid on-chain address'')
               else if esc_ChainID parent \<noteq> ee_ChainID (uv_Escrow E)
                       \<or> HexToAddress L (esc_FactoryAddress parent) \<noteq> HexToAddress L (ee_FactoryAddress (uv_Escrow E))
               then Inl (bad ''parent escrow is from different chain/factory'')
               else if \<not> same_address L (epl_Buyer p) (active_worker parent)
               then Inl (bad ''sub-delegation buyer must be active worker of parent escrow'')
               else Inr (Some i, parsed)))"

definition quorum_byte :: "int64 \<Rightarrow> string \<Rightarrow> gerr + byte" where
  "quorum_byte v field = (case IntToUint8 v field of Inl e \<Rightarrow> Inl (bad_err e) | Inr b \<Rightarrow> Inr b)"

text \<open>The whole translation of a payload into the input of \<open>CreateEscrow\<close>, in the order of the code.\<close>

definition payload_input :: "ucp_env \<Rightarrow> escrow_payload \<Rightarrow> db \<Rightarrow> gerr + create_input" where
  "payload_input E p d =
     (let L = ee_L (uv_Escrow E) in
      if \<not> ee_HasConfig (uv_Escrow E)
      then Inl (errors_New ''ucp service misconfigured: escrow service/config missing'')
      else okThen (parse_amount E p) (\<lambda>amount.
      okThen (parse_times p) (\<lambda>t.
      okThen (case check_parties_payload L p of Some e \<Rightarrow> Inl e | None \<Rightarrow> Inr ()) (\<lambda>_.
      okThen (panel_texts L [HexToAddress L (epl_Buyer p), HexToAddress L (epl_Worker p), HexToAddress L (epl_Arbitrator p)]
             [] (take (nat (sint (epl_QuorumVerifierCount p))) (epl_VerifierPanel p))) (\<lambda>panel.
      okThen (parse_stake ''worker_stake'' (epl_WorkerStake p)) (\<lambda>workerStake.
      okThen (parse_stake ''verifier_stake_per_verifier'' (epl_VerifierStakePerVerifier p)) (\<lambda>verifierStake.
      okThen (parse_optional_address (IsHexAddress L) L ''token'' (epl_Token p)) (\<lambda>tok.
      okThen (parse_milestones (epl_Milestones p)) (\<lambda>ms.
      okThen (parse_optional_address (isValidAddress L) L ''backup_worker'' (epl_BackupWorker p)) (\<lambda>backup.
      okThen (parse_backup_extension backup (epl_BackupDeadlineExtension p)) (\<lambda>extension.
      okThen (parse_optional_address (IsHexAddress L) L ''zk_verifier'' (epl_ZKVerifier p)) (\<lambda>zk.
      okThen (check_proof p zk) (\<lambda>circuitID.
      okThen (parent_of E p d) (\<lambda>parent.
      okThen (to_int64 (pt_Deadline t) ''submission_deadline'') (\<lambda>deadlineDB.
      okThen (to_int64 (pt_Review t) ''review_period_seconds'') (\<lambda>reviewDB.
      okThen (to_int64 (pt_Dispute t) ''dispute_period_seconds'') (\<lambda>disputeDB.
      okThen (to_int64 (pt_ArbTimeout t) ''arbitrator_timeout_seconds'') (\<lambda>arbDB.
      okThen (to_int64 extension ''backup_deadline_extension'') (\<lambda>extensionDB.
      okThen (quorum_byte (epl_QuorumThreshold p) ''quorum_threshold'') (\<lambda>threshold.
      okThen (quorum_byte (epl_QuorumVerifierCount p) ''quorum_verifier_count'') (\<lambda>quorum.
        Inr \<lparr>ci_Title = epl_Title p, ci_Description = epl_Description p, ci_Buyer = epl_Buyer p,
             ci_Worker = epl_Worker p, ci_Arbitrator = epl_Arbitrator p, ci_VerifierPanel = panel,
             ci_QuorumThreshold = threshold, ci_QuorumVerifierCount = quorum,
             ci_VerifierStakePerVerifier = Some verifierStake, ci_Amount = Some amount,
             ci_WorkerStake = Some workerStake, ci_SubmissionDeadline = pt_Deadline t,
             ci_ReviewPeriodSeconds = pt_Review t, ci_DisputePeriodSeconds = pt_Dispute t,
             ci_ArbitratorTimeoutSeconds = pt_ArbTimeout t, ci_SubmissionDeadlineDB = deadlineDB,
             ci_ReviewPeriodSecondsDB = reviewDB, ci_DisputePeriodSecondsDB = disputeDB,
             ci_ArbitratorTimeoutSecondsDB = arbDB, ci_Token = tok, ci_ServiceTier = ucast (epl_ServiceTier p),
             ci_Milestones = map fst ms, ci_MilestoneDeadlines = map snd ms, ci_BackupWorker = backup,
             ci_BackupDeadlineExtension = extension, ci_BackupDeadlineDB = extensionDB, ci_ZKVerifier = zk,
             ci_CircuitID = circuitID, ci_ParentEscrowID = fst parent, ci_ParentEscrow = snd parent,
             ci_TaskSpecHash = Keccak256Hash L (epl_Title p @ epl_Description p)\<rparr>)))))))))))))))))))))"

definition reread :: "int \<Rightarrow> escrow_world \<Rightarrow> escrow esc_result" where
  "reread i w = (w, GetEscrow (ew_DB w) i)"

definition createEscrowFromPayload :: "ucp_env \<Rightarrow> escrow_payload \<Rightarrow> escrow_world \<Rightarrow> escrow esc_result" where
  "createEscrowFromPayload E p w =
     orFail w id (payload_input E p (ew_DB w)) (\<lambda>i.
     andThen (CreateEscrow (uv_Escrow E) i w) (\<lambda>w1 r. reread (crs_EscrowID r) w1))"

section \<open>Operations\<close>

text \<open>The session and the escrow of a checkout.\<close>

definition with_checkout ::
    "string \<Rightarrow> (ucp_session \<Rightarrow> escrow \<Rightarrow> escrow_world \<Rightarrow> checkout esc_result) \<Rightarrow> escrow_world \<Rightarrow> checkout esc_result" where
  "with_checkout checkoutID k w =
     orFail w id (GetUCPSessionByCheckoutID (ew_DB w) checkoutID) (\<lambda>s.
     orFail w id (GetEscrow (ew_DB w) (ucp_EscrowID s)) (\<lambda>e. k s e w))"

text \<open>Storing the projected status with the last operation, and the answer.\<close>

definition projected :: "string \<Rightarrow> string \<Rightarrow> string \<Rightarrow> string \<Rightarrow> escrow \<Rightarrow> ucp_session \<Rightarrow> ucp_session" where
  "projected key operation requestHash txHash e s =
     s\<lparr>ucp_UCPStatus := ProjectStatus (esc_Status e), ucp_IdempotencyKey := key, ucp_LastOperation := operation,
       ucp_LastRequestHash := requestHash, ucp_LastTxHash := txHash\<rparr>"

definition store_projection ::
    "ucp_env \<Rightarrow> ucp_session \<Rightarrow> string \<Rightarrow> string \<Rightarrow> string \<Rightarrow> string \<Rightarrow> escrow \<Rightarrow> escrow_world \<Rightarrow> checkout esc_result" where
  "store_projection E s key operation requestHash txHash e w =
     andThen (on_db (UpdateUCPSessionProjection (uv_Now E) (ucp_CheckoutID s) (ProjectStatus (esc_Status e)) key
                operation requestHash txHash) w)
       (\<lambda>w1 _. (w1, Inr (composeCheckout E (projected key operation requestHash txHash e s) e)))"

definition checkout_escrow :: "ucp_env \<Rightarrow> create_checkout_request \<Rightarrow> escrow_world \<Rightarrow> escrow esc_result" where
  "checkout_escrow E q w =
     (case (ccr_EscrowID q, ccr_CreateEscrow q) of
        (Some i, None) \<Rightarrow> mapErr (wrap ''get escrow'') (reread i w)
      | (None, Some p) \<Rightarrow> createEscrowFromPayload E p w
      | _ \<Rightarrow> (w, Inl (bad ''provide exactly one of escrow_id or create_escrow'')))"

definition new_session :: "ucp_env \<Rightarrow> create_checkout_request \<Rightarrow> escrow \<Rightarrow> ucp_session" where
  "new_session E q e =
     \<lparr>ucp_ID = 0,
      ucp_CheckoutID = (if blank (ccr_CheckoutID q) then uv_NewCheckoutID E else TrimSpace (ccr_CheckoutID q)),
      ucp_SessionID = (if blank (ccr_SessionID q) then uv_NewSessionID E else TrimSpace (ccr_SessionID q)),
      ucp_EscrowID = esc_ID e, ucp_UCPStatus = ProjectStatus (esc_Status e),
      ucp_IdempotencyKey = ccr_IdempotencyKey q, ucp_LastOperation = ''create_checkout'',
      ucp_LastRequestHash = hashRequest E ''create_checkout'' (create_request_json q), ucp_LastTxHash = [],
      ucp_CreatedAt = 0, ucp_UpdatedAt = 0\<rparr>"

definition fund_request :: update_checkout_request where
  "fund_request =
     \<lparr>ucr_IdempotencyKey = [], ucr_Operation = ''fund'', ucr_Role = [], ucr_SubmissionURI = [], ucr_ProofHash = [],
      ucr_Proof = [], ucr_MilestoneIndex = None, ucr_Approve = None, ucr_ReasonURI = [],
      ucr_WorkerAwardBps = None, ucr_ResolutionURI = []\<rparr>"

definition auto_fund ::
    "ucp_env \<Rightarrow> create_checkout_request \<Rightarrow> ucp_session \<Rightarrow> escrow \<Rightarrow> escrow_world \<Rightarrow> checkout esc_result" where
  "auto_fund E q s e w =
     andThen (mapErr (wrap ''auto fund escrow'') (FundEscrow (uv_Escrow E) e w)) (\<lambda>w1 txHash.
     andThen (mapErr (wrap ''refresh escrow after auto fund'') (reread (esc_ID e) w1)) (\<lambda>w2 e2.
     andThen (mapErr (wrap ''update ucp session projection'')
                (on_db (UpdateUCPSessionProjection (uv_Now E) (ucp_CheckoutID s) (ProjectStatus (esc_Status e2))
                   (ccr_IdempotencyKey q) ''fund''
                   (hashRequest E ''update_checkout'' (update_request_json fund_request)) txHash) w2)) (\<lambda>w3 _.
       (w3, Inr (composeCheckout E (s\<lparr>ucp_LastOperation := ''fund'', ucp_LastTxHash := txHash,
                                     ucp_UCPStatus := ProjectStatus (esc_Status e2)\<rparr>) e2)))))"

definition create_checkout :: "ucp_env \<Rightarrow> create_checkout_request \<Rightarrow> escrow_world \<Rightarrow> checkout esc_result" where
  "create_checkout E q w =
     andThen (checkout_escrow E q w) (\<lambda>w1 e.
     andThen (mapErr (wrap ''create ucp session'') (on_db (CreateUCPSession (uv_Now E) (new_session E q e)) w1)) (\<lambda>w2 s.
       if ccr_AutoFund q \<and> esc_Status e = ''created'' then auto_fund E q s e w2
       else (w2, Inr (composeCheckout E s e))))"

definition CreateCheckout :: "ucp_env \<Rightarrow> create_checkout_request \<Rightarrow> escrow_world \<Rightarrow> checkout esc_result" where
  "CreateCheckout E q =
     withIdempotency E (ccr_IdempotencyKey q) ''create_checkout'' (create_request_json q) (create_checkout E q)"

text \<open>A status that cannot be stored is only logged.\<close>

definition GetCheckout :: "ucp_env \<Rightarrow> string \<Rightarrow> escrow_world \<Rightarrow> checkout esc_result" where
  "GetCheckout E checkoutID =
     with_checkout checkoutID (\<lambda>s e w.
       let status = ProjectStatus (esc_Status e) in
       if ucp_UCPStatus s = status then (w, Inr (composeCheckout E s e))
       else (fst (on_db (UpdateUCPSessionProjection (uv_Now E) (ucp_CheckoutID s) status (ucp_IdempotencyKey s)
                    (ucp_LastOperation s) (ucp_LastRequestHash s) (ucp_LastTxHash s)) w),
             Inr (composeCheckout E (s\<lparr>ucp_UCPStatus := status\<rparr>) e)))"

definition update_call ::
    "escrow_env \<Rightarrow> string \<Rightarrow> update_checkout_request \<Rightarrow> escrow \<Rightarrow> escrow_world \<Rightarrow> string esc_result" where
  "update_call X op q e w =
     (let m = ucr_MilestoneIndex q in
      if op = ''fund'' then FundEscrow X e w
      else if op = ''deposit_stake'' then DepositWorkerStake X e w
      else if op = ''deposit_verifier_stake'' then DepositVerifierStake X e w
      else if op = ''withdraw_stake'' then WithdrawStake X e w
      else if op = ''submit'' then
        (if blank (ucr_SubmissionURI q) then (w, Inl (bad ''submission_uri is required for submit''))
         else SubmitWork X e \<lparr>sq_SubmissionURI = ucr_SubmissionURI q, sq_ProofHash = ucr_ProofHash q,
                sq_MilestoneIndex = m, sq_AttestationChainJSON = []\<rparr> w)
      else if op = ''approve'' then
        (if blank (ucr_Role q) then (w, Inl (bad ''role is required for approve''))
         else ApproveWork X e (ucr_Role q) m w)
      else if op = ''verify_and_approve'' then
        orFail w (bad_because ''invalid proof'') (ParseProofHexBytes (ucr_Proof q)) (\<lambda>proof.
          VerifyAndApprove X e proof m w)
      else if op = ''cast_verifier_vote'' then
        (case ucr_Approve q of
           None \<Rightarrow> (w, Inl (bad ''approve is required for cast_verifier_vote''))
         | Some approve \<Rightarrow> CastVerifierVote X e approve (ucr_ReasonURI q) m w)
      else if op = ''dispute'' then
        (if blank (ucr_Role q) then (w, Inl (bad ''role is required for dispute''))
         else DisputeWork X e (ucr_Role q) (ucr_ReasonURI q) m w)
      else if op = ''resolve'' then
        (case ucr_WorkerAwardBps q of
           None \<Rightarrow> (w, Inl (bad ''worker_award_bps is required for resolve''))
         | Some bps \<Rightarrow>
             if bps > 10000 then (w, Inl (bad ''worker_award_bps must be between 0 and 10000''))
             else ResolveDispute X e bps (ucr_ResolutionURI q) m w)
      else if op = ''claim_timeout_refund'' then ClaimTimeoutRefund X e m w
      else if op = ''claim_arbitrator_timeout'' then ClaimArbitratorTimeout X e m w
      else if op = ''abort_remaining_milestones'' then AbortRemainingMilestones X e w
      else if op = ''activate_backup'' then ActivateBackup X e w
      else (w, Inl (bad (''unsupported operation '' @ Quote op))))"

definition update_checkout ::
    "ucp_env \<Rightarrow> string \<Rightarrow> update_checkout_request \<Rightarrow> escrow_world \<Rightarrow> checkout esc_result" where
  "update_checkout E checkoutID q =
     with_checkout checkoutID (\<lambda>s e w.
       let op = TrimSpace (ucr_Operation q) in
       if op = [] then (w, Inl (bad ''operation is required''))
       else andThen (update_call (uv_Escrow E) op q e w) (\<lambda>w1 txHash.
         andThen (reread (esc_ID e) w1) (\<lambda>w2 e2.
           store_projection E s (ucr_IdempotencyKey q) op (hashRequest E ''update_checkout'' (update_request_json q))
             txHash e2 w2)))"

definition UpdateCheckout ::
    "ucp_env \<Rightarrow> string \<Rightarrow> update_checkout_request \<Rightarrow> escrow_world \<Rightarrow> checkout esc_result" where
  "UpdateCheckout E checkoutID q =
     withIdempotency E (ucr_IdempotencyKey q) ''update_checkout'' (update_request_json q) (update_checkout E checkoutID q)"

text \<open>The operation of a completion and its call, for a checkout that is ready.\<close>

definition complete_call ::
    "escrow_env \<Rightarrow> complete_checkout_request \<Rightarrow> escrow \<Rightarrow> escrow_world \<Rightarrow> (string \<times> string) esc_result" where
  "complete_call X q e w =
     (if cmr_Proof q \<noteq> [] then
        orFail w (bad_because ''invalid proof'') (ParseProofHexBytes (cmr_Proof q)) (\<lambda>proof.
          andThen (VerifyAndApprove X e proof (cmr_MilestoneIndex q) w)
            (\<lambda>w1 txHash. (w1, Inr (''verify_and_approve'', txHash))))
      else if cmr_Role q \<noteq> [] then
        andThen (ApproveWork X e (cmr_Role q) (cmr_MilestoneIndex q) w)
          (\<lambda>w1 txHash. (w1, Inr (''approve'', txHash)))
      else (w, Inr (''complete_checkout'', [])))"

definition complete_checkout ::
    "ucp_env \<Rightarrow> string \<Rightarrow> complete_checkout_request \<Rightarrow> escrow_world \<Rightarrow> checkout esc_result" where
  "complete_checkout E checkoutID q =
     with_checkout checkoutID (\<lambda>s e w.
       let requestHash = hashRequest E ''complete_checkout'' (complete_request_json q) in
       if ProjectStatus (esc_Status e) = ''ready_for_complete'' then
         andThen (complete_call (uv_Escrow E) q e w) (\<lambda>w1 (op, txHash).
         andThen (reread (esc_ID e) w1) (\<lambda>w2 e2.
           store_projection E s (cmr_IdempotencyKey q) op requestHash txHash e2 w2))
       else store_projection E s (cmr_IdempotencyKey q) ''complete_checkout'' requestHash [] e w)"

definition CompleteCheckout ::
    "ucp_env \<Rightarrow> string \<Rightarrow> complete_checkout_request \<Rightarrow> escrow_world \<Rightarrow> checkout esc_result" where
  "CompleteCheckout E checkoutID q =
     withIdempotency E (cmr_IdempotencyKey q) ''complete_checkout'' (complete_request_json q)
       (complete_checkout E checkoutID q)"

definition cancel_call ::
    "escrow_env \<Rightarrow> cancel_checkout_request \<Rightarrow> escrow \<Rightarrow> escrow_world \<Rightarrow> (string \<times> string) esc_result" where
  "cancel_call X q e w =
     (let st = esc_Status e; named = (\<lambda>op m. andThen m (\<lambda>w1 txHash. (w1, Inr (op, txHash)))) in
      if st = ''settled'' then (w, Inl (bad ''cannot cancel a settled checkout''))
      else if st = ''cancelled'' \<or> st = ''refunded'' then (w, Inr (''cancel_checkout'', []))
      else if st = ''created'' then named ''cancel_before_funding'' (CancelBeforeFunding X e w)
      else if st = ''disputed''
      then named ''claim_arbitrator_timeout'' (ClaimArbitratorTimeout X e (xcr_MilestoneIndex q) w)
      else named ''claim_timeout_refund'' (ClaimTimeoutRefund X e (xcr_MilestoneIndex q) w))"

definition cancel_checkout ::
    "ucp_env \<Rightarrow> string \<Rightarrow> cancel_checkout_request \<Rightarrow> escrow_world \<Rightarrow> checkout esc_result" where
  "cancel_checkout E checkoutID q =
     with_checkout checkoutID (\<lambda>s e w.
       andThen (cancel_call (uv_Escrow E) q e w) (\<lambda>w1 (op, txHash).
       andThen (reread (esc_ID e) w1) (\<lambda>w2 e2.
         store_projection E s (xcr_IdempotencyKey q) op (hashRequest E ''cancel_checkout'' (cancel_request_json q))
           txHash e2 w2)))"

definition CancelCheckout ::
    "ucp_env \<Rightarrow> string \<Rightarrow> cancel_checkout_request \<Rightarrow> escrow_world \<Rightarrow> checkout esc_result" where
  "CancelCheckout E checkoutID q =
     withIdempotency E (xcr_IdempotencyKey q) ''cancel_checkout'' (cancel_request_json q)
       (cancel_checkout E checkoutID q)"

end
