(* ===== verification/UcpProps.thy ===== *)
theory UcpProps
  imports Ucp EscrowCreate
begin

text \<open>
  What holds of checkouts: the record of an answered request decodes to the answer, so a request with
  a used idempotency key is answered from it and does nothing.
\<close>

section \<open>Reading a recorded answer\<close>

definition replayed :: "ucp_env \<Rightarrow> checkout \<Rightarrow> checkout" where
  "replayed E c = c\<lparr>ck_Escrow := map_option (\<lambda>v. the (go_any (uv_FloatText E) v)) (ck_Escrow c)\<rparr>"

definition in_int64 :: "int \<Rightarrow> bool" where
  "in_int64 i \<longleftrightarrow> - (2 ^ 63) \<le> i \<and> i < 2 ^ 63"

definition recordable :: "checkout \<Rightarrow> bool" where
  "recordable c \<longleftrightarrow> in_int64 (ck_EscrowID c)
     \<and> (case ck_Escrow c of None \<Rightarrow> True | Some v \<Rightarrow> int_numbers v \<and> v \<noteq> JNull)"

lemma ParseInt64_int_str: "in_int64 i \<Longrightarrow> ParseInt64 (int_str i) = Some i"
  by (simp add: ParseInt64_def SetString10_int_str in_int64_def)

lemma those_map_Some: "(\<And>x. x \<in> set xs \<Longrightarrow> f x \<noteq> None) \<Longrightarrow> those (map f xs) \<noteq> None"
  by (induction xs) (auto split: option.splits)

lemma go_any_total:
  assumes "\<And>i. F (int_str i) \<noteq> None"
  shows "int_numbers v \<Longrightarrow> go_any F v \<noteq> None"
proof (induction v)
  case (JNum s)
  then obtain i where "s = int_str i" by (auto elim: int_textE)
  with assms [of i] show ?case by auto
next
  case (JArr vs)
  then have "those (map (go_any F) vs) \<noteq> None" by (intro those_map_Some) (auto simp: list_all_iff)
  then show ?case by auto
next
  case (JObj kvs)
  then have "those (map (\<lambda>(k, v). map_option (Pair k) (go_any F v)) kvs) \<noteq> None"
    by (intro those_map_Some) (fastforce simp: list_all_iff)
  then show ?case by auto
qed simp_all

text \<open>The keys of a checkout are lower case, so comparing them is comparing the strings.\<close>

lemma EqualFold_lower: "ToLower a = a \<Longrightarrow> ToLower b = b \<Longrightarrow> EqualFold a b \<longleftrightarrow> a = b"
  by (simp add: EqualFold_def)

lemma checkout_keys:
  "ToLower ''checkout_id'' = ''checkout_id''" "ToLower ''session_id'' = ''session_id''"
  "ToLower ''escrow_id'' = ''escrow_id''" "ToLower ''ucp_status'' = ''ucp_status''"
  "ToLower ''escrow_status'' = ''escrow_status''" "ToLower ''last_operation'' = ''last_operation''"
  "ToLower ''last_tx_hash'' = ''last_tx_hash''" "ToLower ''next_action'' = ''next_action''"
  "ToLower ''escrow'' = ''escrow''"
  by code_simp+

lemma decode_encode_checkout:
  assumes "\<And>i. uv_FloatText E (int_str i) \<noteq> None" and "recordable c"
  shows "unmarshal_checkout (uv_FloatText E) (render (checkout_json c)) = Some (replayed E c)"
proof -
  have esc: "ck_Escrow c = Some v \<Longrightarrow> v \<noteq> JNull \<and> int_numbers v \<and> go_any (uv_FloatText E) v \<noteq> None" for v
    using assms go_any_total [of "uv_FloatText E" v] by (auto simp: recordable_def)
  have "int_numbers (checkout_json c)"
    using esc by (auto simp: checkout_json_def opt_str_def opt_val_def int_json_def split: option.splits)
  then have "parse_json (render (checkout_json c)) = Some (checkout_json c)" by (rule parse_render)
  moreover have "ParseInt64 (int_str (ck_EscrowID c)) = Some (ck_EscrowID c)"
    using assms(2) by (simp add: ParseInt64_int_str recordable_def)
  ultimately show ?thesis
    using esc
    by (cases "ck_Escrow c")
      (auto simp: unmarshal_checkout_def checkout_json_def decode_checkout_def opt_str_def opt_val_def int_json_def
        EqualFold_lower checkout_keys replayed_def)
qed

section \<open>The requests of the protocol\<close>

text \<open>A request that changes something, with the checkout id of its path.\<close>

datatype ucp_request =
    ReqCreate create_checkout_request
  | ReqUpdate string update_checkout_request
  | ReqComplete string complete_checkout_request
  | ReqCancel string cancel_checkout_request

fun raw_key :: "ucp_request \<Rightarrow> string" where
  "raw_key (ReqCreate q) = ccr_IdempotencyKey q"
| "raw_key (ReqUpdate i q) = ucr_IdempotencyKey q"
| "raw_key (ReqComplete i q) = cmr_IdempotencyKey q"
| "raw_key (ReqCancel i q) = xcr_IdempotencyKey q"

fun operation_of :: "ucp_request \<Rightarrow> string" where
  "operation_of (ReqCreate q) = ''create_checkout''"
| "operation_of (ReqUpdate i q) = ''update_checkout''"
| "operation_of (ReqComplete i q) = ''complete_checkout''"
| "operation_of (ReqCancel i q) = ''cancel_checkout''"

fun body_of :: "ucp_request \<Rightarrow> json" where
  "body_of (ReqCreate q) = create_request_json q"
| "body_of (ReqUpdate i q) = update_request_json q"
| "body_of (ReqComplete i q) = complete_request_json q"
| "body_of (ReqCancel i q) = cancel_request_json q"

fun execute :: "ucp_env \<Rightarrow> ucp_request \<Rightarrow> escrow_world \<Rightarrow> checkout esc_result" where
  "execute E (ReqCreate q) = create_checkout E q"
| "execute E (ReqUpdate i q) = update_checkout E i q"
| "execute E (ReqComplete i q) = complete_checkout E i q"
| "execute E (ReqCancel i q) = cancel_checkout E i q"

fun serve_ucp :: "ucp_env \<Rightarrow> ucp_request \<Rightarrow> escrow_world \<Rightarrow> checkout esc_result" where
  "serve_ucp E (ReqCreate q) = CreateCheckout E q"
| "serve_ucp E (ReqUpdate i q) = UpdateCheckout E i q"
| "serve_ucp E (ReqComplete i q) = CompleteCheckout E i q"
| "serve_ucp E (ReqCancel i q) = CancelCheckout E i q"

definition keyed :: "ucp_env \<Rightarrow> ucp_request \<Rightarrow> keyed_request" where
  "keyed E q = \<lparr>kr_Key = TrimSpace (raw_key q), kr_Operation = operation_of q,
                kr_RequestHash = hashRequest E (operation_of q) (body_of q)\<rparr>"

lemma keyed_sel [simp]:
  "kr_Key (keyed E q) = TrimSpace (raw_key q)"
  "kr_Operation (keyed E q) = operation_of q"
  "kr_RequestHash (keyed E q) = hashRequest E (operation_of q) (body_of q)"
  by (simp_all add: keyed_def)

text \<open>Every request is an execution under its key.\<close>

lemma serve_ucp_eq:
  "serve_ucp E q w =
     (if blank (raw_key q) then execute E q w
      else case find_answer E (keyed E q) (ew_DB w) of
        Some answer \<Rightarrow> (w, answer)
      | None \<Rightarrow> andThen (execute E q w) (\<lambda>w1 resp. record_answer E (keyed E q) resp w1))"
  by (cases q) (auto simp: CreateCheckout_def UpdateCheckout_def CompleteCheckout_def CancelCheckout_def
    withIdempotency_def keyed_def blank_def Let_def split: option.splits)

section \<open>Replaying a request\<close>

lemma escrow_json_ints: "int_numbers (escrow_json T e) \<and> escrow_json T e \<noteq> JNull"
  by (simp add: escrow_json_def opt_val_def int_json_def split: option.splits)

lemma composed_recordable: "in_int64 (ucp_EscrowID s) \<Longrightarrow> recordable (composeCheckout E s e)"
  using escrow_json_ints by (simp add: recordable_def composeCheckout_def)

lemma store_projection_composed:
  "store_projection E s key op h tx e w = (w', Inr r) \<Longrightarrow> \<exists>s' e'. r = composeCheckout E s' e'"
  by (auto simp: store_projection_def err_iff)

text \<open>Every answer is composed of a session and an escrow.\<close>

lemma execute_composed: "execute E q w = (w', Inr r) \<Longrightarrow> \<exists>s e. r = composeCheckout E s e"
  by (cases q) (auto simp: create_checkout_def auto_fund_def update_checkout_def complete_checkout_def
    cancel_checkout_def with_checkout_def err_iff Let_def split: if_splits prod.splits dest!: store_projection_composed)

lemma execute_recordable:
  assumes "execute E q w = (w', Inr r)" and "in_int64 (ck_EscrowID r)"
  shows "recordable r"
proof -
  from execute_composed [OF assms(1)] obtain s e where "r = composeCheckout E s e" by blast
  with assms(2) composed_recordable [of s E e] show ?thesis by (simp add: composeCheckout_def)
qed

definition idem_row :: "string \<Rightarrow> db \<Rightarrow> ucp_idempotency option" where
  "idem_row key d = row_get idem_IdempotencyKey (ucp_idempotencies d) key"

lemma record_answer_row:
  assumes "record_answer E k r w = (w', Inr r')"
  shows "r' = r \<and> (\<exists>row. idem_row (kr_Key k) (ew_DB w') = Some row \<and> idem_Operation row = kr_Operation k
     \<and> idem_RequestHash row = kr_RequestHash k \<and> idem_ResponseJSON row = render (checkout_json r))"
  using assms
  by (auto simp: record_answer_def on_db_def CreateUCPIdempotency_def idem_row_def rows.get_add err_iff
      split: prod.splits if_splits)

lemma find_answer_row:
  assumes "idem_row (kr_Key k) d = Some row"
  shows "find_answer E k d =
    (if idem_Operation row \<noteq> kr_Operation k \<or> idem_RequestHash row \<noteq> kr_RequestHash k
     then Some (Inl (conflict_err (kr_Key k)))
     else case unmarshal_checkout (uv_FloatText E) (idem_ResponseJSON row) of
       None \<Rightarrow> Some (Inl (wrap ''decode cached idempotent response'' json_err))
     | Some cached \<Rightarrow> Some (Inr cached))"
  using assms by (auto simp: find_answer_def GetUCPIdempotency_def found_def idem_row_def)

text \<open>Once a request with an idempotency key has been executed and answered, and as long as its
  record is kept, every later request with that key changes nothing and sends nothing to the chain:
  it gets the recorded answer, equal to the first one up to the number format and key order of the
  embedded escrow, if it is the same operation with a body of the same hash, and a conflict
  otherwise. The checkout id in the path is not part of what is compared.\<close>

theorem checkout_replay:
  assumes "\<And>i. uv_FloatText E (int_str i) \<noteq> None"
    and "\<not> blank (raw_key q)" and "idem_row (TrimSpace (raw_key q)) (ew_DB w) = None"
    and "serve_ucp E q w = (w1, Inr r)" and "in_int64 (ck_EscrowID r)"
    and "idem_row (TrimSpace (raw_key q)) (ew_DB w2) = idem_row (TrimSpace (raw_key q)) (ew_DB w1)"
    and "TrimSpace (raw_key q') = TrimSpace (raw_key q)"
  shows "serve_ucp E q' w2 =
    (w2, if operation_of q' = operation_of q
            \<and> hashRequest E (operation_of q') (body_of q') = hashRequest E (operation_of q) (body_of q)
         then Inr (replayed E r) else Inl (conflict_err (TrimSpace (raw_key q))))"
proof -
  have "find_answer E (keyed E q) (ew_DB w) = None"
    using assms(3) by (simp add: find_answer_def GetUCPIdempotency_def found_def idem_row_def ErrNoRows_def)
  with assms(2, 4) obtain w0 where exec: "execute E q w = (w0, Inr r)"
    and rec: "record_answer E (keyed E q) r w0 = (w1, Inr r)"
    by (auto simp: serve_ucp_eq err_iff dest: record_answer_row)
  from execute_recordable [OF exec assms(5)] have decode:
    "unmarshal_checkout (uv_FloatText E) (render (checkout_json r)) = Some (replayed E r)"
    using decode_encode_checkout assms(1) by blast
  from record_answer_row [OF rec] assms(6) obtain row where
    row: "idem_row (TrimSpace (raw_key q)) (ew_DB w2) = Some row" "idem_Operation row = operation_of q"
      "idem_RequestHash row = hashRequest E (operation_of q) (body_of q)"
      "idem_ResponseJSON row = render (checkout_json r)" by auto
  have "\<not> blank (raw_key q')" using assms(2, 7) by (simp add: blank_def)
  with find_answer_row [of "keyed E q'" "ew_DB w2" row E] row assms(7) show ?thesis
    by (auto simp: serve_ucp_eq decode)
qed

definition sample_ucp :: ucp_env where
  "sample_ucp =
     \<lparr>uv_Escrow = sample_escrow_env, uv_ComplexityFloor = [], uv_ProviderName = [], uv_ProviderURL = [], uv_Now = 0,
      uv_NewCheckoutID = ''x'', uv_NewSessionID = ''y'', uv_Sha256 = id, uv_TimeText = int_str, uv_FloatText = Some\<rparr>"

definition sample_session :: ucp_session where
  "sample_session =
     \<lparr>ucp_ID = 1, ucp_CheckoutID = ''c'', ucp_SessionID = ''s'', ucp_EscrowID = 1, ucp_UCPStatus = ''canceled'',
      ucp_IdempotencyKey = [], ucp_LastOperation = [], ucp_LastRequestHash = [], ucp_LastTxHash = [],
      ucp_CreatedAt = 0, ucp_UpdatedAt = 0\<rparr>"

definition sample_ucp_world :: escrow_world where
  "sample_ucp_world =
     \<lparr>ew_DB = empty_db\<lparr>escrows := [blank_escrow\<lparr>esc_ID := 1, esc_Status := ''cancelled''\<rparr>],
                      ucp_sessions := [sample_session]\<rparr>, ew_Calls = []\<rparr>"

definition sample_cancel :: cancel_checkout_request where
  "sample_cancel = \<lparr>xcr_IdempotencyKey = ''k'', xcr_MilestoneIndex = None\<rparr>"

text \<open>A cancellation, and the same request for another checkout, which does not even exist.\<close>

lemma checkout_replay_witness:
  "\<exists>w1 r. serve_ucp sample_ucp (ReqCancel ''c'' sample_cancel) sample_ucp_world = (w1, Inr r)
     \<and> ck_CheckoutID r = ''c''
     \<and> serve_ucp sample_ucp (ReqCancel ''other'' sample_cancel) w1 = (w1, Inr (replayed sample_ucp r))"
proof -
  have key: "TrimSpace ''k'' = ''k''" by code_simp
  obtain w1 r where run: "serve_ucp sample_ucp (ReqCancel ''c'' sample_cancel) sample_ucp_world = (w1, Inr r)"
    and r: "ck_CheckoutID r = ''c''" "ck_EscrowID r = 1"
    by (simp del: serve_ucp.simps add: serve_ucp_eq blank_def key sample_cancel_def find_answer_def GetUCPIdempotency_def found_def
        sample_ucp_world_def empty_db_def ErrNoRows_def wrap_def with_checkout_def cancel_checkout_def
        GetUCPSessionByCheckoutID_def sample_session_def GetEscrow_def cancel_call_def reread_def
        store_projection_def on_db_def UpdateUCPSessionProjection_def record_answer_def CreateUCPIdempotency_def
        composeCheckout_def projected_def Let_def sample_ucp_def keyed_def)
  have "idem_row (TrimSpace (raw_key (ReqCancel ''c'' sample_cancel))) (ew_DB sample_ucp_world) = None"
    by (simp add: idem_row_def sample_ucp_world_def empty_db_def)
  from checkout_replay [OF _ _ this run _ refl, of "ReqCancel ''other'' sample_cancel"] run r show ?thesis
    by (auto simp: sample_ucp_def sample_cancel_def blank_def key in_int64_def simp del: serve_ucp.simps)
qed

end
