(* ===== verification/UcpGuard.thy ===== *)
theory UcpGuard
  imports UcpProps "HOL-Library.Multiset"
begin

text \<open>
  The locks of \<open>idempotencyGuard\<close> in \<open>internal/ucp/service.go\<close>, and the requests with idempotency
  keys that run under them concurrently. An entry is a reference, as the Go pointer is; the map from
  keys to entries is only touched under \<open>g.mu\<close>, so \<open>acquire\<close> and the release are one step each up to
  and after the entry's own mutex. A request takes a step per critical section, per statement of
  \<open>withIdempotency\<close> and for its execution, and any other request may step in between; the rest of
  the server may change anything but the idempotency records at any time.
\<close>

section \<open>The guard\<close>

record guard_entry =
  ge_Locked :: bool
  ge_Refs :: nat

record guard =
  gu_Locks :: "string \<rightharpoonup> nat"
  gu_Entries :: "nat \<Rightarrow> guard_entry"
  gu_Fresh :: nat

definition new_guard :: guard where
  "new_guard = \<lparr>gu_Locks = Map.empty, gu_Entries = (\<lambda>_. \<lparr>ge_Locked = False, ge_Refs = 0\<rparr>), gu_Fresh = 0\<rparr>"

definition upd_entry :: "nat \<Rightarrow> (guard_entry \<Rightarrow> guard_entry) \<Rightarrow> guard \<Rightarrow> guard" where
  "upd_entry n f g = g\<lparr>gu_Entries := (gu_Entries g)(n := f (gu_Entries g n))\<rparr>"

text \<open>The first section of \<open>acquire\<close>: find or make the entry, count the reference.\<close>

definition acquire :: "string \<Rightarrow> guard \<Rightarrow> guard \<times> nat" where
  "acquire key g =
     (let n = (case gu_Locks g key of Some n \<Rightarrow> n | None \<Rightarrow> gu_Fresh g);
          g1 = (case gu_Locks g key of
                  Some _ \<Rightarrow> g
                | None \<Rightarrow> g\<lparr>gu_Locks := (gu_Locks g)(key \<mapsto> gu_Fresh g), gu_Fresh := Suc (gu_Fresh g),
                            gu_Entries := (gu_Entries g)(gu_Fresh g := \<lparr>ge_Locked = False, ge_Refs = 0\<rparr>)\<rparr>) in
      (upd_entry n (\<lambda>e. e\<lparr>ge_Refs := Suc (ge_Refs e)\<rparr>) g1, n))"

definition lock_entry :: "nat \<Rightarrow> guard \<Rightarrow> guard" where
  "lock_entry n = upd_entry n (\<lambda>e. e\<lparr>ge_Locked := True\<rparr>)"

definition unlock_entry :: "nat \<Rightarrow> guard \<Rightarrow> guard" where
  "unlock_entry n = upd_entry n (\<lambda>e. e\<lparr>ge_Locked := False\<rparr>)"

text \<open>The last section of the release: the last reference removes the entry.\<close>

definition drop_ref :: "string \<Rightarrow> nat \<Rightarrow> guard \<Rightarrow> guard" where
  "drop_ref key n g =
     (let g1 = upd_entry n (\<lambda>e. e\<lparr>ge_Refs := ge_Refs e - 1\<rparr>) g in
      if ge_Refs (gu_Entries g1 n) = 0 then g1\<lparr>gu_Locks := (gu_Locks g1)(key := None)\<rparr> else g1)"

section \<open>Requests under the guard\<close>

datatype guard_phase =
    GStart
  | GWait nat
  | GCheck nat
  | GRun nat
  | GStore nat checkout
  | GUnlock nat "gerr + checkout"
  | GDrop nat "gerr + checkout"
  | GDone "gerr + checkout"

text \<open>The executions that succeeded, by their keys, are kept as a ghost.\<close>

record guard_state =
  gs_World :: escrow_world
  gs_Guard :: guard
  gs_Requests :: "(ucp_request \<times> guard_phase) list"
  gs_Executed :: "string list"

definition key_of :: "ucp_request \<Rightarrow> string" where
  "key_of q = TrimSpace (raw_key q)"

text \<open>One step of a request; a request that waits for the entry's mutex can only step when it is free.\<close>

fun guard_step ::
    "ucp_env \<Rightarrow> ucp_request \<Rightarrow> guard_phase \<Rightarrow> escrow_world \<Rightarrow> guard \<Rightarrow> (escrow_world \<times> guard \<times> guard_phase) option" where
  "guard_step E q GStart w g = (case acquire (key_of q) g of (g1, n) \<Rightarrow> Some (w, g1, GWait n))"
| "guard_step E q (GWait n) w g =
     (if ge_Locked (gu_Entries g n) then None else Some (w, lock_entry n g, GCheck n))"
| "guard_step E q (GCheck n) w g =
     Some (w, g, case find_answer E (keyed E q) (ew_DB w) of Some answer \<Rightarrow> GUnlock n answer | None \<Rightarrow> GRun n)"
| "guard_step E q (GRun n) w g =
     (case execute E q w of
        (w1, Inl e) \<Rightarrow> Some (w1, g, GUnlock n (Inl e))
      | (w1, Inr r) \<Rightarrow> Some (w1, g, GStore n r))"
| "guard_step E q (GStore n r) w g =
     (case record_answer E (keyed E q) r w of (w1, answer) \<Rightarrow> Some (w1, g, GUnlock n answer))"
| "guard_step E q (GUnlock n answer) w g = Some (w, unlock_entry n g, GDrop n answer)"
| "guard_step E q (GDrop n answer) w g = Some (w, drop_ref (key_of q) n g, GDone answer)"
| "guard_step E q (GDone answer) w g = None"

definition executed_by :: "ucp_request \<Rightarrow> guard_phase \<Rightarrow> guard_phase \<Rightarrow> string list" where
  "executed_by q ph ph1 = (case (ph, ph1) of (GRun n, GStore m r) \<Rightarrow> [key_of q] | _ \<Rightarrow> [])"

inductive guard_next :: "ucp_env \<Rightarrow> guard_state \<Rightarrow> guard_state \<Rightarrow> bool" for E where
  arrive: "key_of q \<noteq> [] \<Longrightarrow> guard_next E s (s\<lparr>gs_Requests := gs_Requests s @ [(q, GStart)]\<rparr>)"
| request: "i < length (gs_Requests s) \<Longrightarrow> gs_Requests s ! i = (q, ph) \<Longrightarrow>
    guard_step E q ph (gs_World s) (gs_Guard s) = Some (w1, g1, ph1) \<Longrightarrow>
    guard_next E s (s\<lparr>gs_World := w1, gs_Guard := g1, gs_Requests := (gs_Requests s)[i := (q, ph1)],
                     gs_Executed := gs_Executed s @ executed_by q ph ph1\<rparr>)"
| elsewhere: "ucp_idempotencies (ew_DB w1) = ucp_idempotencies (ew_DB (gs_World s)) \<Longrightarrow>
    guard_next E s (s\<lparr>gs_World := w1\<rparr>)"

inductive_cases guard_nextE: "guard_next E s s'"

definition guard_start :: "guard_state \<Rightarrow> bool" where
  "guard_start s \<longleftrightarrow> gs_Guard s = new_guard \<and> gs_Requests s = [] \<and> gs_Executed s = []"

definition guard_reach :: "ucp_env \<Rightarrow> guard_state \<Rightarrow> guard_state \<Rightarrow> bool" where
  "guard_reach E s s' \<longleftrightarrow> guard_start s \<and> (guard_next E)\<^sup>*\<^sup>* s s'"

section \<open>Executions leave the idempotency records alone\<close>

definition idems :: "escrow_world \<Rightarrow> ucp_idempotency list" where
  "idems w = ucp_idempotencies (ew_DB w)"

lemma idems_upd_escrows [simp]: "ucp_idempotencies (upd_escrows p f d) = ucp_idempotencies d"
  by (simp add: upd_escrows_def)

text \<open>What is asked of the indexer pass, which is a parameter here.\<close>

definition quiet_indexer :: "escrow_env \<Rightarrow> bool" where
  "quiet_indexer X \<longleftrightarrow> (\<forall>d. ucp_idempotencies (ee_RunOnce X d) = ucp_idempotencies d)"

lemma idems_on_db: "(\<And>d. ucp_idempotencies (fst (f d)) = ucp_idempotencies d) \<Longrightarrow> idems (fst (on_db f w)) = idems w"
  by (simp add: idems_def on_db_def split: prod.splits) (metis fst_conv)

lemma idems_send [simp]: "idems (fst (send X c w)) = idems w"
  by (simp add: idems_def send_def Let_def)

lemma fst_mapErr_any [simp]: "fst (mapErr w m) = fst m"
  by (cases m; cases "snd m") auto

lemma idems_then:
  "idems (fst m) = idems v \<Longrightarrow> (\<And>w x. idems w = idems v \<Longrightarrow> idems (fst (k w x)) = idems v) \<Longrightarrow>
     idems (fst (andThen m k)) = idems v"
  by (cases m; cases "snd m") auto

lemma idems_or:
  "idems w = idems v \<Longrightarrow> (\<And>x. idems (fst (k x)) = idems v) \<Longrightarrow> idems (fst (orFail w f r k)) = idems v"
  by (cases r) simp_all

lemma idems_run: "quiet_indexer X \<Longrightarrow> idems (run_indexer X w) = idems w"
  by (simp add: run_indexer_def idems_def quiet_indexer_def)

lemma idems_send_and_index: "quiet_indexer X \<Longrightarrow> idems (fst (send_and_index X what c w)) = idems w"
  unfolding send_and_index_def by (rule idems_then) (simp_all add: idems_run)

lemma idems_on_target:
  assumes "\<And>a b w. idems (fst (m a b w)) = idems w" and "\<And>a w. idems (fst (n a w)) = idems w"
  shows "idems (fst (on_target X r e m n w)) = idems w"
  using assms by (auto simp: on_target_def intro!: idems_or split: option.splits)

lemma idems_refuse [simp]: "idems (fst (refuse msg w)) = idems w"
  by (simp add: refuse_def)

lemma idems_pay: "quiet_indexer X \<Longrightarrow> idems (fst (pay X what call a t n w)) = idems w"
  by (auto simp: pay_def idems_send_and_index intro!: idems_or idems_then)

lemma idems_links: "ucp_idempotencies (fst (create_links now i as d)) = ucp_idempotencies d"
proof (induction as arbitrary: d)
  case (Cons a as)
  have "ucp_idempotencies (fst (createAttestationLinkOn now l d)) = ucp_idempotencies d" for l d
    by (simp add: createAttestationLinkOn_def Let_def)
  with Cons show ?case by (simp add: andThen_frame)
qed simp

lemma idems_in_tx:
  "ucp_idempotencies (fst r) = ucp_idempotencies d \<Longrightarrow> ucp_idempotencies (fst (in_tx d r)) = ucp_idempotencies d"
  by (auto simp: in_tx_def split: prod.splits sum.splits)

lemma idems_persist: "ucp_idempotencies (fst (persistAttestationChain now i m v as d)) = ucp_idempotencies d"
proof -
  have "ucp_idempotencies (fst (createAttestationChainOn now c d)) = ucp_idempotencies d" for c
    by (simp add: createAttestationChainOn_def Let_def)
  then show ?thesis
    unfolding persistAttestationChain_def by (intro idems_in_tx) (simp add: andThen_frame idems_links)
qed

lemma idems_submit_call [simp]: "idems (fst (submit_call X a m u p w)) = idems w"
  by (auto simp: submit_call_def Let_def intro!: idems_or split: option.splits)

lemma idems_SubmitWork: "quiet_indexer X \<Longrightarrow> idems (fst (SubmitWork X e q w)) = idems w"
  unfolding SubmitWork_def
  by (intro idems_or idems_then) (auto simp: idems_run idems_on_db idems_persist split: option.splits)

lemma idems_whole:
  assumes "quiet_indexer X"
  shows "idems (fst (FundEscrow X e w)) = idems w" "idems (fst (DepositWorkerStake X e w)) = idems w"
    "idems (fst (DepositVerifierStake X e w)) = idems w" "idems (fst (WithdrawStake X e w)) = idems w"
    "idems (fst (CancelBeforeFunding X e w)) = idems w" "idems (fst (AbortRemainingMilestones X e w)) = idems w"
    "idems (fst (ActivateBackup X e w)) = idems w"
  using idems_pay [OF assms] idems_send_and_index [OF assms]
  by (auto simp: FundEscrow_def DepositWorkerStake_def DepositVerifierStake_def deposit_stake_def
      processStakeDeposit_def WithdrawStake_def CancelBeforeFunding_def AbortRemainingMilestones_def ActivateBackup_def
      intro!: idems_or split: option.splits)

lemma idems_targeted:
  assumes "quiet_indexer X"
  shows "idems (fst (ApproveWork X e role m w)) = idems w" "idems (fst (VerifyAndApprove X e proof m w)) = idems w"
    "idems (fst (CastVerifierVote X e ok uri m w)) = idems w" "idems (fst (DisputeWork X e role uri m w)) = idems w"
    "idems (fst (ResolveDispute X e bps uri m w)) = idems w" "idems (fst (ClaimTimeoutRefund X e m w)) = idems w"
    "idems (fst (ClaimArbitratorTimeout X e m w)) = idems w"
  using idems_send_and_index [OF assms]
  by (auto simp: ApproveWork_def VerifyAndApprove_def CastVerifierVote_def DisputeWork_def ResolveDispute_def
      ClaimTimeoutRefund_def ClaimArbitratorTimeout_def intro!: idems_on_target)

text \<open>Creation, statement by statement.\<close>

lemma idems_insert: "ucp_idempotencies (fst (insert_create X p d)) = ucp_idempotencies d"
proof -
  have "ucp_idempotencies (fst (createTaskOn now a b c d)) = ucp_idempotencies d" for now a b c d
    by (simp add: createTaskOn_def Let_def)
  moreover have "ucp_idempotencies (fst (createEscrowOn now e d)) = ucp_idempotencies d" for now e d
    by (simp add: createEscrowOn_def Let_def)
  ultimately show ?thesis
    unfolding insert_create_def by (auto intro!: idems_in_tx simp: andThen_frame)
qed

lemma idems_milestones: "ucp_idempotencies (fst (escrow_milestones now i k ms d)) = ucp_idempotencies d"
proof (induction now i k ms d rule: escrow_milestones.induct)
  case (2 now i k m deadline ms d)
  have "ucp_idempotencies (fst (createMilestoneOn now m d)) = ucp_idempotencies d" for m
    by (simp add: createMilestoneOn_def Let_def)
  then show ?case using 2 by (simp add: andThen_frame [where g = ucp_idempotencies])
qed simp

lemma idems_finalize: "ucp_idempotencies (fst (finalize_create X p r x d)) = ucp_idempotencies d"
proof -
  have "ucp_idempotencies (fst (FinalizeEscrowCreateTx now i a k st d)) = ucp_idempotencies d" for now i a k st
    by (simp add: FinalizeEscrowCreateTx_def Let_def)
  then have "FinalizeEscrowCreateTx now i a k st d = (d1, y) \<Longrightarrow> ucp_idempotencies d1 = ucp_idempotencies d"
    for now i a k st d1 y by (metis fst_conv)
  moreover have "in_tx d (escrow_milestones now i k ms d1) = (d2, y) \<Longrightarrow> ucp_idempotencies d1 = ucp_idempotencies d \<Longrightarrow>
      ucp_idempotencies d2 = ucp_idempotencies d" for now i k ms d1 d2 y
    using idems_in_tx [of "escrow_milestones now i k ms d1" d] by (simp add: idems_milestones)
  ultimately show ?thesis
    by (auto simp: finalize_create_def split: prod.split sum.split)
qed

lemma idems_onD:
  "on_db f w = (w1, x) \<Longrightarrow> (\<And>d. ucp_idempotencies (fst (f d)) = ucp_idempotencies d) \<Longrightarrow> idems w1 = idems w"
  using idems_on_db [of f w] by simp

lemma idems_sendD: "send X c w = (w1, x) \<Longrightarrow> idems w1 = idems w"
  using idems_send [of X c w] by simp

lemma idems_create_step:
  assumes "quiet_indexer X"
  shows "idems (fst (create_step X p ph w)) = idems w"
proof -
  have 1: "ucp_idempotencies (fst (TransitionEscrowStatus now i s t d)) = ucp_idempotencies d" for now i s t d
    by (simp add: TransitionEscrowStatus_def Let_def)
  have 2: "ucp_idempotencies (fst (SetEscrowCreateTxHash now i h s t d)) = ucp_idempotencies d" for now i h s t d
    by (simp add: SetEscrowCreateTxHash_def Let_def)
  have moved: "on_db (TransitionEscrowStatus now i s t) w = (w1, x) \<Longrightarrow> idems w1 = idems w"
      "on_db (SetEscrowCreateTxHash now i h s t) w = (w1, y) \<Longrightarrow> idems w1 = idems w"
      "idems (w\<lparr>ew_DB := UpdateEscrowStatus now i s (ew_DB w)\<rparr>) = idems w" for now i s t h w1 x y
    using 1 2 by (auto elim: idems_onD [unfolded idems_def] simp: idems_def UpdateEscrowStatus_def)
  have created: "on_db (insert_create X p) w = (w1, x) \<Longrightarrow> idems w1 = idems w"
      "on_db (finalize_create X p r res) w = (w1, y) \<Longrightarrow> idems w1 = idems w" for w1 x y r res
    by (auto elim: idems_onD simp: idems_insert idems_finalize)
  have "idems (w\<lparr>ew_DB := ee_RunOnce X (ew_DB w)\<rparr>) = idems w"
    using assms by (simp add: idems_def quiet_indexer_def)
  with moved created idems_sendD show ?thesis
    by (cases ph) (simp_all add: Let_def split: prod.split sum.split)
qed

lemma idems_run_create: "quiet_indexer X \<Longrightarrow> idems (fst (run_create X p ph w)) = idems w"
proof (induction X p ph w rule: run_create.induct)
  case (1 X p ph w)
  show ?case
  proof (cases "\<exists>res. ph = PDone res")
    case False
    obtain w1 ph1 where step: "create_step X p ph w = (w1, ph1)" by (cases "create_step X p ph w")
    have "rank ph \<noteq> 0" using False by (cases ph) auto
    note run = run_create_step [OF this step]
    have "idems w1 = idems w" using idems_create_step [OF "1.prems", of p ph w] step by simp
    moreover have "idems (fst (run_create X p ph1 w1)) = idems w1"
      using "1.IH" "1.prems" False step by (cases ph) (simp_all del: create_step.simps)
    ultimately show ?thesis by (simp add: run)
  qed auto
qed

lemma idems_CreateEscrow: "quiet_indexer X \<Longrightarrow> idems (fst (CreateEscrow X i w)) = idems w"
  using idems_run_create by (auto simp: CreateEscrow_def split: sum.split)

text \<open>The operations on checkouts.\<close>

lemma idems_sessions:
  "ucp_idempotencies (fst (CreateUCPSession now s d)) = ucp_idempotencies d"
  "ucp_idempotencies (fst (UpdateUCPSessionProjection now c st k op h tx d)) = ucp_idempotencies d"
  by (simp_all add: CreateUCPSession_def UpdateUCPSessionProjection_def Let_def)

lemma idems_mapErr_or [simp]: "idems (fst (reread i w)) = idems w"
  by (simp add: reread_def)

lemmas idems_ops = idems_whole idems_targeted idems_SubmitWork idems_CreateEscrow

lemma idems_if: "idems (fst a) = v \<Longrightarrow> idems (fst b) = v \<Longrightarrow> idems (fst (if P then a else b)) = v"
  by simp

lemma idems_update_call: "quiet_indexer X \<Longrightarrow> idems (fst (update_call X op q e w)) = idems w"
  unfolding update_call_def Let_def
  by (intro idems_if idems_or) (simp_all add: idems_ops split: option.split)

lemma idems_store [simp]: "idems (fst (store_projection E s k op h tx e w)) = idems w"
  unfolding store_projection_def by (rule idems_then) (simp_all add: idems_on_db idems_sessions)

lemma idems_with: "(\<And>s e. idems (fst (k s e w)) = idems w) \<Longrightarrow> idems (fst (with_checkout c k w)) = idems w"
  unfolding with_checkout_def by (intro idems_or) auto

lemma idems_complete_call: "quiet_indexer X \<Longrightarrow> idems (fst (complete_call X q e w)) = idems w"
  by (auto simp: complete_call_def idems_ops intro!: idems_or idems_then)

lemma idems_cancel_call: "quiet_indexer X \<Longrightarrow> idems (fst (cancel_call X q e w)) = idems w"
  by (auto simp: cancel_call_def idems_ops Let_def intro!: idems_then)

lemma idems_checkout_escrow: "quiet_indexer (uv_Escrow E) \<Longrightarrow> idems (fst (checkout_escrow E q w)) = idems w"
  by (auto simp: checkout_escrow_def createEscrowFromPayload_def idems_ops intro!: idems_or idems_then split: option.split)

lemma idems_auto_fund: "quiet_indexer (uv_Escrow E) \<Longrightarrow> idems (fst (auto_fund E q s e w)) = idems w"
  unfolding auto_fund_def by (intro idems_then) (simp_all add: idems_ops idems_on_db idems_sessions)

lemma idems_execute:
  assumes "quiet_indexer (uv_Escrow E)"
  shows "idems (fst (execute E q w)) = idems w"
proof (cases q)
  case (ReqCreate c)
  show ?thesis unfolding ReqCreate execute.simps create_checkout_def
    by (intro idems_then) (auto simp: assms idems_checkout_escrow idems_on_db idems_sessions idems_auto_fund)
next
  case (ReqUpdate i u)
  show ?thesis unfolding ReqUpdate execute.simps update_checkout_def Let_def
    by (intro idems_with) (auto intro!: idems_then simp: assms idems_update_call)
next
  case (ReqComplete i c)
  show ?thesis unfolding ReqComplete execute.simps complete_checkout_def Let_def
    by (intro idems_with) (auto intro!: idems_then simp: assms idems_complete_call split: prod.split)
next
  case (ReqCancel i c)
  show ?thesis unfolding ReqCancel execute.simps cancel_checkout_def
    by (intro idems_with idems_then) (auto intro!: idems_then simp: assms idems_cancel_call split: prod.split)
qed


section \<open>The invariant\<close>

fun ref_of :: "guard_phase \<Rightarrow> nat option" where
  "ref_of GStart = None"
| "ref_of (GWait n) = Some n"
| "ref_of (GCheck n) = Some n"
| "ref_of (GRun n) = Some n"
| "ref_of (GStore n r) = Some n"
| "ref_of (GUnlock n a) = Some n"
| "ref_of (GDrop n a) = Some n"
| "ref_of (GDone a) = None"

fun holds_entry :: "guard_phase \<Rightarrow> bool" where
  "holds_entry (GCheck n) = True"
| "holds_entry (GRun n) = True"
| "holds_entry (GStore n r) = True"
| "holds_entry (GUnlock n a) = True"
| "holds_entry _ = False"

fun executing :: "guard_phase \<Rightarrow> bool" where
  "executing (GRun n) = True"
| "executing (GStore n r) = True"
| "executing _ = False"

fun storing :: "guard_phase \<Rightarrow> bool" where
  "storing (GStore n r) = True"
| "storing _ = False"

lemma phase_facts:
  "storing ph \<Longrightarrow> executing ph" "executing ph \<Longrightarrow> holds_entry ph" "holds_entry ph \<Longrightarrow> ref_of ph \<noteq> None"
  by (cases ph; simp)+

text \<open>The phases of the requests of one key, and what holds of them: the entry of the key counts them,
  is locked by at most one, which is the only one that may be executing, and then only as long as the
  key has no record.\<close>

definition phases :: "string \<Rightarrow> (ucp_request \<times> guard_phase) list \<Rightarrow> guard_phase multiset" where
  "phases k rs = mset (map snd (filter (\<lambda>(q, ph). key_of q = k) rs))"

definition holders_of :: "guard_phase multiset \<Rightarrow> nat" where
  "holders_of M = size (filter_mset holds_entry M)"

definition refs_of :: "guard_phase multiset \<Rightarrow> nat" where
  "refs_of M = size (filter_mset (\<lambda>ph. ref_of ph \<noteq> None) M)"

definition lock_ok :: "guard \<Rightarrow> string \<Rightarrow> guard_phase multiset \<Rightarrow> bool" where
  "lock_ok g k M \<longleftrightarrow> (\<forall>ph. ph \<in># M \<longrightarrow> ref_of ph = None \<or> ref_of ph = gu_Locks g k)
     \<and> (\<forall>n. gu_Locks g k = Some n \<longrightarrow> n < gu_Fresh g \<and> 0 < refs_of M
          \<and> ge_Refs (gu_Entries g n) = refs_of M
          \<and> holders_of M = (if ge_Locked (gu_Entries g n) then 1 else 0))"

definition executions :: "string \<Rightarrow> string list \<Rightarrow> nat" where
  "executions k ks = length (filter ((=) k) ks)"

definition once_ok :: "db \<Rightarrow> string \<Rightarrow> guard_phase multiset \<Rightarrow> string list \<Rightarrow> bool" where
  "once_ok d k M ks \<longleftrightarrow> (\<forall>ph. ph \<in># M \<longrightarrow> executing ph \<longrightarrow> idem_row k d = None)
     \<and> executions k ks \<le> 1 \<and> (0 < executions k ks \<longrightarrow> idem_row k d \<noteq> None \<or> (\<exists>ph. ph \<in># M \<and> storing ph))"

definition guard_ok :: "guard_state \<Rightarrow> bool" where
  "guard_ok s \<longleftrightarrow> (\<forall>k. lock_ok (gs_Guard s) k (phases k (gs_Requests s))
        \<and> once_ok (ew_DB (gs_World s)) k (phases k (gs_Requests s)) (gs_Executed s))
     \<and> (\<forall>k k' n. gu_Locks (gs_Guard s) k = Some n \<longrightarrow> gu_Locks (gs_Guard s) k' = Some n \<longrightarrow> k = k')"

lemma counts_add [simp]:
  "holders_of (add_mset ph M) = (if holds_entry ph then 1 else 0) + holders_of M"
  "refs_of (add_mset ph M) = (if ref_of ph \<noteq> None then 1 else 0) + refs_of M"
  by (simp_all add: holders_of_def refs_of_def)

lemma no_holder: "holders_of M = 0 \<Longrightarrow> ph \<in># M \<Longrightarrow> \<not> holds_entry ph"
  by (auto simp: holders_of_def)

lemma no_ref: "refs_of M = 0 \<Longrightarrow> ph \<in># M \<Longrightarrow> ref_of ph = None"
  by (auto simp: refs_of_def)

lemma no_refs: "(\<And>ph. ph \<in># M \<Longrightarrow> ref_of ph = None) \<Longrightarrow> refs_of M = 0 \<and> holders_of M = 0"
  using phase_facts(3) by (fastforce simp: refs_of_def holders_of_def filter_mset_eq_mempty_iff)

lemma phases_upd:
  assumes "i < length rs" "rs ! i = (q, ph)"
  obtains M where "phases (key_of q) rs = add_mset ph M" "phases (key_of q) (rs[i := (q, ph1)]) = add_mset ph1 M"
    and "\<And>k. k \<noteq> key_of q \<Longrightarrow> phases k (rs[i := (q, ph1)]) = phases k rs"
proof -
  have rs: "rs = take i rs @ (q, ph) # drop (Suc i) rs" using assms id_take_nth_drop [of i rs] by simp
  have upd: "rs[i := (q, ph1)] = take i rs @ (q, ph1) # drop (Suc i) rs" using assms(1) by (rule upd_conv_take_nth_drop)
  let ?M = "phases (key_of q) (take i rs) + phases (key_of q) (drop (Suc i) rs)"
  have "phases (key_of q) rs = add_mset ph ?M" by (subst rs) (simp add: phases_def)
  moreover have "phases (key_of q) (rs[i := (q, ph1)]) = add_mset ph1 ?M" unfolding upd by (simp add: phases_def)
  moreover have "phases k (rs[i := (q, ph1)]) = phases k rs" if "k \<noteq> key_of q" for k
    using that unfolding upd by (subst (3) rs) (simp add: phases_def)
  ultimately show ?thesis by (rule that)
qed

lemma phases_arrive: "phases k (rs @ [(q, GStart)]) = (if key_of q = k then add_mset GStart (phases k rs) else phases k rs)"
  by (simp add: phases_def)

section \<open>The locks of one key\<close>

lemma lock_acquire:
  assumes "lock_ok g k (add_mset GStart M)" "acquire k g = (g1, n)"
  shows "lock_ok g1 k (add_mset (GWait n) M)"
proof (cases "gu_Locks g k")
  case None
  with assms have "refs_of M = 0 \<and> holders_of M = 0" "\<And>ph. ph \<in># M \<Longrightarrow> ref_of ph = None"
    using no_refs [of M] by (auto simp: lock_ok_def)
  with None assms show ?thesis by (auto simp: acquire_def lock_ok_def upd_entry_def Let_def)
next
  case (Some m)
  with assms show ?thesis by (auto simp: acquire_def lock_ok_def upd_entry_def Let_def)
qed

lemma lock_take:
  assumes "lock_ok g k (add_mset (GWait n) M)" "\<not> ge_Locked (gu_Entries g n)"
  shows "lock_ok (lock_entry n g) k (add_mset (GCheck n) M)"
  using assms by (auto simp: lock_entry_def lock_ok_def upd_entry_def)

lemma lock_stay:
  assumes "lock_ok g k (add_mset ph M)" "ref_of ph1 = ref_of ph" "holds_entry ph1 = holds_entry ph"
  shows "lock_ok g k (add_mset ph1 M)"
  using assms by (auto simp: lock_ok_def)

lemma lock_release:
  assumes "lock_ok g k (add_mset (GUnlock n a) M)"
  shows "lock_ok (unlock_entry n g) k (add_mset (GDrop n a) M)"
proof -
  have "gu_Locks g k = Some n" using assms by (auto simp: lock_ok_def)
  then show ?thesis using assms by (auto simp: unlock_entry_def lock_ok_def upd_entry_def split: if_splits)
qed

lemma lock_drop:
  assumes "lock_ok g k (add_mset (GDrop n a) M)"
  shows "lock_ok (drop_ref k n g) k (add_mset (GDone a) M)"
proof -
  have "gu_Locks g k = Some n" "ge_Refs (gu_Entries g n) = Suc (refs_of M)" using assms by (auto simp: lock_ok_def)
  then show ?thesis using assms no_ref [of M] by (auto simp: drop_ref_def lock_ok_def upd_entry_def Let_def split: if_splits)
qed

text \<open>The other keys.\<close>

definition guard_frame :: "string \<Rightarrow> nat \<Rightarrow> guard \<Rightarrow> guard \<Rightarrow> bool" where
  "guard_frame k n g g1 \<longleftrightarrow> gu_Fresh g \<le> gu_Fresh g1
     \<and> (\<forall>k'. k' \<noteq> k \<longrightarrow> gu_Locks g1 k' = gu_Locks g k')
     \<and> (\<forall>m. m \<noteq> n \<longrightarrow> gu_Entries g1 m = gu_Entries g m)
     \<and> (gu_Locks g1 k = None \<or> gu_Locks g1 k = Some n)"

lemma lock_frame:
  assumes "guard_frame k n g g1" "k' \<noteq> k" "gu_Locks g k' \<noteq> Some n" "lock_ok g k' M"
  shows "lock_ok g1 k' M"
  using assms by (auto simp: guard_frame_def lock_ok_def)


lemma frame_entry: "gu_Locks g k = Some n \<Longrightarrow> guard_frame k n g (upd_entry n f g)"
  by (simp add: guard_frame_def upd_entry_def)

lemma frame_drop: "gu_Locks g k = Some n \<Longrightarrow> guard_frame k n g (drop_ref k n g)"
  by (auto simp: guard_frame_def drop_ref_def upd_entry_def Let_def)

lemma frame_acquire: "acquire k g = (g1, n) \<Longrightarrow> guard_frame k n g g1"
  by (auto simp: guard_frame_def acquire_def upd_entry_def Let_def split: option.splits)

lemma acquired: "acquire k g = (g1, n) \<Longrightarrow> gu_Locks g k = Some n \<or> n = gu_Fresh g"
  by (auto simp: acquire_def Let_def split: option.splits)

text \<open>A step on the guard, for its own key and for the others.\<close>

lemma step_locks:
  assumes step: "guard_step E q ph w g = Some (w1, g1, ph1)" and own: "lock_ok g (key_of q) (add_mset ph M)"
  obtains n where "lock_ok g1 (key_of q) (add_mset ph1 M)" "guard_frame (key_of q) n g g1"
    "gu_Locks g (key_of q) = Some n \<or> n = gu_Fresh g"
proof (cases ph)
  case GStart
  then obtain n where n: "acquire (key_of q) g = (g1, n)" "ph1 = GWait n" using step by (auto split: prod.splits)
  show ?thesis
    using that [of n] lock_acquire [of g "key_of q" M g1 n] own n GStart frame_acquire acquired by metis
next
  case (GDone a)
  then show ?thesis using step by simp
next
  case (GWait n)
  then have n: "gu_Locks g (key_of q) = Some n" using own by (auto simp: lock_ok_def)
  then show ?thesis
    using that [of n] GWait step own lock_take frame_entry by (auto simp: lock_entry_def split: if_splits)
next
  case (GUnlock n a)
  then have n: "gu_Locks g (key_of q) = Some n" using own by (auto simp: lock_ok_def)
  then show ?thesis
    using that [of n] GUnlock step own lock_release frame_entry by (auto simp: unlock_entry_def)
next
  case (GDrop n a)
  then have n: "gu_Locks g (key_of q) = Some n" using own by (auto simp: lock_ok_def)
  then show ?thesis using that [of n] GDrop step own lock_drop frame_drop by auto
next
  case (GCheck n)
  then have n: "gu_Locks g (key_of q) = Some n" using own by (auto simp: lock_ok_def)
  then show ?thesis
    using that [of n] GCheck step lock_stay [OF own, of ph1] by (auto simp: guard_frame_def split: option.splits)
next
  case (GRun n)
  then have n: "gu_Locks g (key_of q) = Some n" using own by (auto simp: lock_ok_def)
  then show ?thesis
    using that [of n] GRun step lock_stay [OF own, of ph1] by (auto simp: guard_frame_def split: prod.splits sum.splits)
next
  case (GStore n r)
  then have n: "gu_Locks g (key_of q) = Some n" using own by (auto simp: lock_ok_def)
  then show ?thesis
    using that [of n] GStore step lock_stay [OF own, of ph1] by (auto simp: guard_frame_def split: prod.splits)
qed

section \<open>One execution per key\<close>

lemma executions_append: "executions k (ks @ ks') = executions k ks + executions k ks'"
  by (simp add: executions_def)

lemma idem_row_same: "ucp_idempotencies d' = ucp_idempotencies d \<Longrightarrow> idem_row k d' = idem_row k d"
  by (simp add: idem_row_def)

lemma execute_row:
  "quiet_indexer (uv_Escrow E) \<Longrightarrow> execute E q w = (w1, x) \<Longrightarrow> idem_row k (ew_DB w1) = idem_row k (ew_DB w)"
  using idems_execute [of E q w] by (simp add: idems_def idem_row_def)

lemma find_answer_None: "find_answer E k d = None \<Longrightarrow> idem_row (kr_Key k) d = None"
  by (auto simp: find_answer_def GetUCPIdempotency_def found_def idem_row_def split: option.splits if_splits sum.splits)

lemma keyed_key: "kr_Key (keyed E q) = key_of q"
  by (simp add: key_of_def)

lemma record_answer_effect:
  assumes "idem_row (kr_Key k) (ew_DB w) = None" "record_answer E k r w = (w1, answer)"
  shows "idem_row (kr_Key k) (ew_DB w1) \<noteq> None" "\<And>k'. k' \<noteq> kr_Key k \<Longrightarrow> idem_row k' (ew_DB w1) = idem_row k' (ew_DB w)"
  using assms
  by (auto simp: record_answer_def on_db_def CreateUCPIdempotency_def idem_row_def rows.get_add)

lemma only_holder:
  assumes "lock_ok g k (add_mset ph M)" "holds_entry ph" "ph' \<in># M"
  shows "\<not> holds_entry ph'"
proof -
  obtain n where "gu_Locks g k = Some n" using assms(1,2) phase_facts(3) [of ph] by (fastforce simp: lock_ok_def)
  then have "holders_of M = 0" using assms(1,2) by (auto simp: lock_ok_def split: if_splits)
  then show ?thesis using no_holder assms(3) by blast
qed

lemma step_idle:
  assumes "guard_step E q ph w g = Some (w1, g1, ph1)" "\<not> executing ph"
  shows "w1 = w \<and> executed_by q ph ph1 = [] \<and> (executing ph1 \<longrightarrow> find_answer E (keyed E q) (ew_DB w) = None)
     \<and> \<not> storing ph1"
  using assms by (cases ph) (auto simp: executed_by_def split: prod.splits if_splits option.splits)

lemma executed_by_cases: "executed_by q ph ph1 = [] \<or> executed_by q ph ph1 = [key_of q]"
  by (cases ph; cases ph1; simp add: executed_by_def)

lemma once_idle:
  assumes "once_ok d k (add_mset ph M) ks" "\<not> storing ph" "executing ph1 \<longrightarrow> idem_row k d = None"
  shows "once_ok d k (add_mset ph1 M) ks"
  using assms unfolding once_ok_def by (metis add_mset_commute insert_noteq_member union_single_eq_member insert_iff set_mset_add_mset_insert)

lemma step_once:
  assumes quiet: "quiet_indexer (uv_Escrow E)" and step: "guard_step E q ph w g = Some (w1, g1, ph1)"
    and lock: "lock_ok g (key_of q) (add_mset ph M)" and own: "once_ok (ew_DB w) (key_of q) (add_mset ph M) ks"
  shows "once_ok (ew_DB w1) (key_of q) (add_mset ph1 M) (ks @ executed_by q ph ph1)"
proof (cases ph)
  case (GRun n)
  have row: "idem_row (key_of q) (ew_DB w) = None" using own GRun by (auto simp: once_ok_def)
  have free: "\<not> storing ph'" if "ph' \<in># M" for ph'
    using only_holder [OF lock _ that] GRun phase_facts(1,2) by auto
  then have none: "executions (key_of q) ks = 0" using own row GRun by (fastforce simp: once_ok_def)
  obtain w2 x where x: "execute E q w = (w2, x)" by (cases "execute E q w")
  then have w1: "w1 = w2" using step GRun by (auto split: sum.splits)
  have "idem_row (key_of q) (ew_DB w1) = None"
    using execute_row [OF quiet x] row w1 by simp
  with step GRun x none w1 show ?thesis
    by (auto simp: once_ok_def executed_by_def executions_append split: sum.splits) (auto simp: executions_def)
next
  case (GStore n r)
  have row: "idem_row (key_of q) (ew_DB w) = None" using own GStore by (auto simp: once_ok_def)
  have free: "\<not> executing ph'" if "ph' \<in># M" for ph'
    using only_holder [OF lock _ that] GStore phase_facts(2) by auto
  obtain answer where a: "record_answer E (keyed E q) r w = (w1, answer)" "ph1 = GUnlock n answer"
    using step GStore by (auto split: prod.splits)
  then have "idem_row (key_of q) (ew_DB w1) \<noteq> None"
    using record_answer_effect(1) [of "keyed E q" w] row by (simp add: key_of_def)
  then show ?thesis using own free a GStore by (auto simp: once_ok_def executed_by_def)
qed (use step_idle [OF step] find_answer_None [of E "keyed E q" "ew_DB w"] once_idle [OF own, of ph1] in
    \<open>simp_all add: key_of_def\<close>)

lemma step_elsewhere:
  assumes quiet: "quiet_indexer (uv_Escrow E)" and step: "guard_step E q ph w g = Some (w1, g1, ph1)"
    and own: "once_ok (ew_DB w) (key_of q) (add_mset ph M) ks" and "k \<noteq> key_of q"
  shows "idem_row k (ew_DB w1) = idem_row k (ew_DB w)" "executions k (ks @ executed_by q ph ph1) = executions k ks"
proof -
  show "executions k (ks @ executed_by q ph ph1) = executions k ks"
    using assms(4) executed_by_cases [of q ph ph1] by (auto simp: executions_def)
  show "idem_row k (ew_DB w1) = idem_row k (ew_DB w)"
  proof (cases ph)
    case (GRun n)
    obtain w2 x where x: "execute E q w = (w2, x)" by (cases "execute E q w")
    then have "w1 = w2" using step GRun by (auto split: sum.splits)
    then show ?thesis using execute_row [OF quiet x] by simp
  next
    case (GStore n r)
    then obtain answer where a: "record_answer E (keyed E q) r w = (w1, answer)" using step by (auto split: prod.splits)
    have "idem_row (key_of q) (ew_DB w) = None" using own GStore by (auto simp: once_ok_def)
    then show ?thesis using record_answer_effect(2) [OF _ a, of k] assms(4) by (simp add: key_of_def)
  qed (use step_idle [OF step] in simp_all)
qed

lemma once_same:
  "once_ok d k M ks \<Longrightarrow> idem_row k d' = idem_row k d \<Longrightarrow> executions k ks' = executions k ks \<Longrightarrow> once_ok d' k M ks'"
  by (simp add: once_ok_def)

lemma locks_inject:
  assumes "guard_frame k n g g1" "gu_Locks g k = Some n \<or> n = gu_Fresh g"
    and "\<forall>k m. gu_Locks g k = Some m \<longrightarrow> m < gu_Fresh g"
    and inj: "\<forall>k k' m. gu_Locks g k = Some m \<longrightarrow> gu_Locks g k' = Some m \<longrightarrow> k = k'"
  shows "gu_Locks g1 j = Some m \<Longrightarrow> gu_Locks g1 j' = Some m \<Longrightarrow> j = j'"
    and "j \<noteq> k \<Longrightarrow> gu_Locks g j \<noteq> Some n"
proof -
  show other: "j \<noteq> k \<Longrightarrow> gu_Locks g j \<noteq> Some n" for j using assms(2-4) by blast
  show "gu_Locks g1 j = Some m \<Longrightarrow> gu_Locks g1 j' = Some m \<Longrightarrow> j = j'"
    using assms(1) other inj unfolding guard_frame_def by (metis option.distinct(1) option.inject)
qed

lemma guard_next_ok:
  assumes quiet: "quiet_indexer (uv_Escrow E)" and ok: "guard_ok s" and step: "guard_next E s s'"
  shows "guard_ok s'"
  using step
proof (cases rule: guard_next.cases)
  case (arrive q)
  have "lock_ok g k M \<Longrightarrow> lock_ok g k (add_mset GStart M)" "once_ok d k M ks \<Longrightarrow> once_ok d k (add_mset GStart M) ks"
    for g k M d ks by (auto simp: lock_ok_def once_ok_def)
  then show ?thesis using ok arrive by (simp add: guard_ok_def phases_arrive)
next
  case (request i q ph w1 g1 ph1)
  let ?g = "gs_Guard s" and ?rs = "gs_Requests s"
  from phases_upd [OF request(2,3), of ph1] obtain M where
    M: "phases (key_of q) ?rs = add_mset ph M" "phases (key_of q) (?rs[i := (q, ph1)]) = add_mset ph1 M"
      "\<And>k. k \<noteq> key_of q \<Longrightarrow> phases k (?rs[i := (q, ph1)]) = phases k ?rs" by blast
  have all: "lock_ok ?g k (phases k ?rs)" "once_ok (ew_DB (gs_World s)) k (phases k ?rs) (gs_Executed s)" for k
    using ok by (simp_all add: guard_ok_def)
  from step_locks [OF request(4)] all(1) [of "key_of q"] M(1) obtain n where
    n: "lock_ok g1 (key_of q) (add_mset ph1 M)" "guard_frame (key_of q) n ?g g1"
      "gu_Locks ?g (key_of q) = Some n \<or> n = gu_Fresh ?g" by metis
  have bound: "\<forall>k m. gu_Locks ?g k = Some m \<longrightarrow> m < gu_Fresh ?g" using all(1) by (auto simp: lock_ok_def)
  have inj: "\<forall>k k' m. gu_Locks ?g k = Some m \<longrightarrow> gu_Locks ?g k' = Some m \<longrightarrow> k = k'"
    using ok by (auto simp: guard_ok_def)
  note locks = locks_inject [OF n(2,3) bound inj]
  have "lock_ok g1 k (phases k (?rs[i := (q, ph1)]))
      \<and> once_ok (ew_DB w1) k (phases k (?rs[i := (q, ph1)])) (gs_Executed s @ executed_by q ph ph1)" for k
  proof (cases "k = key_of q")
    case True
    then show ?thesis
      using n(1) M(2) step_once [OF quiet request(4)] all [of "key_of q"] M(1) by metis
  next
    case False
    note other = step_elsewhere [OF quiet request(4) _ False, of M "gs_Executed s"]
    show ?thesis
      using lock_frame [OF n(2) False locks(2) [OF False] all(1)] once_same [OF all(2)] other all(2) [of "key_of q"]
        M(1,3) False by metis
  qed
  with locks(1) request(1) show ?thesis by (auto simp: guard_ok_def)
next
  case (elsewhere w1)
  then show ?thesis using ok by (simp add: guard_ok_def once_ok_def idem_row_def)
qed

lemma guard_reach_ok:
  assumes "quiet_indexer (uv_Escrow E)" "guard_reach E s s'"
  shows "guard_ok s'"
proof -
  from assms(2) have "(guard_next E)\<^sup>*\<^sup>* s s'" "guard_start s" by (simp_all add: guard_reach_def)
  then show ?thesis
  proof (induction rule: rtranclp_induct)
    case base
    then show ?case
      by (auto simp: guard_start_def guard_ok_def new_guard_def lock_ok_def once_ok_def phases_def executions_def)
  qed (use guard_next_ok assms(1) in blast)
qed


section \<open>What the guard gives\<close>

definition running :: "string \<Rightarrow> guard_state \<Rightarrow> nat" where
  "running k s = length (filter (\<lambda>(q, ph). key_of q = k \<and> executing ph) (gs_Requests s))"

definition finished :: "guard_phase \<Rightarrow> bool" where
  "finished ph \<longleftrightarrow> (case ph of GDone _ \<Rightarrow> True | _ \<Rightarrow> False)"

definition can_step :: "ucp_env \<Rightarrow> guard_state \<Rightarrow> bool" where
  "can_step E s \<longleftrightarrow>
     list_ex (\<lambda>(q, ph). guard_step E q ph (gs_World s) (gs_Guard s) \<noteq> None) (gs_Requests s)"

lemma executions_distinct: "(\<And>k. executions k ks \<le> 1) \<Longrightarrow> distinct ks"
proof (induction ks)
  case (Cons a ks)
  have "executions k ks \<le> 1" for k using Cons.prems [of k] by (simp add: executions_def split: if_splits)
  moreover have "executions a ks = 0" using Cons.prems [of a] by (simp add: executions_def)
  then have "a \<notin> set ks" by (auto simp: executions_def filter_empty_conv)
  ultimately show ?case using Cons.IH by simp
qed simp

lemma in_phases: "(q, ph) \<in> set rs \<Longrightarrow> ph \<in># phases (key_of q) rs"
  by (force simp: phases_def)

lemma phases_in: "ph \<in># phases k rs \<Longrightarrow> \<exists>q. (q, ph) \<in> set rs \<and> key_of q = k"
  by (auto simp: phases_def)

lemma running_le: "running k s \<le> holders_of (phases k (gs_Requests s))"
proof -
  have "length (filter (\<lambda>(q, ph). key_of q = k \<and> executing ph) rs) \<le> holders_of (phases k rs)" for rs
    using phase_facts(2) by (induction rs) (auto simp: phases_def holders_of_def)
  then show ?thesis by (simp add: running_def)
qed

lemma guard_okD:
  "guard_ok s \<Longrightarrow> lock_ok (gs_Guard s) k (phases k (gs_Requests s))"
  "guard_ok s \<Longrightarrow> executions k (gs_Executed s) \<le> 1"
  by (simp_all add: guard_ok_def once_ok_def)

lemma lock_ok_None: "lock_ok g k M \<Longrightarrow> gu_Locks g k = None \<Longrightarrow> refs_of M = 0 \<and> holders_of M = 0"
  by (intro no_refs) (auto simp: lock_ok_def)

lemma lock_ok_Some:
  "lock_ok g k M \<Longrightarrow> gu_Locks g k = Some n \<Longrightarrow> 0 < refs_of M \<and> holders_of M = (if ge_Locked (gu_Entries g n) then 1 else 0)"
  by (simp add: lock_ok_def)

lemma holders_le: "guard_ok s \<Longrightarrow> holders_of (phases k (gs_Requests s)) \<le> 1"
  using guard_okD(1) [of s k] lock_ok_None lock_ok_Some by (cases "gu_Locks (gs_Guard s) k") fastforce+

lemma idle_locks:
  assumes "guard_ok s" "\<forall>(q, ph) \<in> set (gs_Requests s). ref_of ph = None"
  shows "gu_Locks (gs_Guard s) k = None"
proof -
  have "ref_of ph = None" if ph: "ph \<in># phases k (gs_Requests s)" for ph
    using phases_in [OF ph] assms(2) by blast
  from no_refs [OF this] have "refs_of (phases k (gs_Requests s)) = 0" by simp
  then show ?thesis
    using lock_ok_Some [OF guard_okD(1) [OF assms(1)], of k] by (cases "gu_Locks (gs_Guard s) k") auto
qed

lemma step_or_wait:
  "guard_step E q ph w g \<noteq> None \<or> finished ph \<or> (\<exists>n. ph = GWait n \<and> ge_Locked (gu_Entries g n))"
  by (cases ph) (auto simp: finished_def split: prod.split sum.split)

lemma holder_steps: "holds_entry ph \<Longrightarrow> guard_step E q ph w g \<noteq> None"
  using step_or_wait [of E q ph w g] by (cases ph) (auto simp: finished_def)

lemma someone_steps:
  assumes "guard_ok s" "(q, ph) \<in> set (gs_Requests s)" "\<not> finished ph"
  shows "can_step E s"
proof (cases "guard_step E q ph (gs_World s) (gs_Guard s) = None")
  case True
  then obtain n where n: "ph = GWait n" "ge_Locked (gu_Entries (gs_Guard s) n)" using step_or_wait assms(3) by metis
  have "gu_Locks (gs_Guard s) (key_of q) = Some n"
    using in_phases [OF assms(2)] guard_okD(1) [OF assms(1), of "key_of q"] n(1) by (auto simp: lock_ok_def)
  then have "holders_of (phases (key_of q) (gs_Requests s)) = 1"
    using lock_ok_Some [OF guard_okD(1) [OF assms(1)]] n(2) by simp
  then have "filter_mset holds_entry (phases (key_of q) (gs_Requests s)) \<noteq> {#}"
    unfolding holders_of_def by (metis size_empty zero_neq_one)
  then obtain ph' where ph': "ph' \<in># phases (key_of q) (gs_Requests s)" "holds_entry ph'"
    unfolding filter_mset_eq_mempty_iff by blast
  from phases_in [OF ph'(1)] obtain q' where "(q', ph') \<in> set (gs_Requests s)" by blast
  with holder_steps [OF ph'(2)] show ?thesis by (force simp: can_step_def list_ex_iff)
qed (use assms(2) in \<open>force simp: can_step_def list_ex_iff\<close>)

text \<open>C27: However the requests with idempotency keys interleave with each other and with anything else
  the server does, an execution succeeds at most once per key; at no time do two requests of one key
  execute; some request can step unless all are answered, so the locks of the guard never block all;
  and when all are answered no lock is left, so the guard does not grow.\<close>

theorem guard_once:
  assumes "quiet_indexer (uv_Escrow E)" and "guard_reach E s s'"
  shows "distinct (gs_Executed s') \<and> (\<forall>k. running k s' \<le> 1)
    \<and> (can_step E s' \<or> (list_all (\<lambda>(q, ph). finished ph) (gs_Requests s') \<and> gu_Locks (gs_Guard s') = Map.empty))"
proof -
  note ok = guard_reach_ok [OF assms]
  have "distinct (gs_Executed s')" using guard_okD(2) [OF ok] by (rule executions_distinct)
  moreover have "running k s' \<le> 1" for k using running_le [of k s'] holders_le [OF ok, of k] by simp
  moreover have "gu_Locks (gs_Guard s') = Map.empty" if all: "list_all (\<lambda>(q, ph). finished ph) (gs_Requests s')"
  proof
    fix k
    have "\<forall>(q, ph) \<in> set (gs_Requests s'). ref_of ph = None"
      using all by (auto simp: list_all_iff finished_def split: guard_phase.splits)
    then show "gu_Locks (gs_Guard s') k = None" by (rule idle_locks [OF ok])
  qed
  moreover have "can_step E s' \<or> list_all (\<lambda>(q, ph). finished ph) (gs_Requests s')"
    using someone_steps [OF ok] unfolding list_all_iff by blast
  ultimately show ?thesis by blast
qed

definition sample_guard_start :: guard_state where
  "sample_guard_start =
     \<lparr>gs_World = sample_ucp_world, gs_Guard = new_guard, gs_Requests = [], gs_Executed = []\<rparr>"

text \<open>One request, up to the end of its execution.\<close>

lemma sample_runs:
  "\<exists>w1 r. execute sample_ucp (ReqCancel ''c'' sample_cancel) sample_ucp_world = (w1, Inr r)"
  by (simp add: sample_cancel_def sample_ucp_world_def empty_db_def with_checkout_def cancel_checkout_def
      GetUCPSessionByCheckoutID_def sample_session_def GetEscrow_def cancel_call_def reread_def found_def
      store_projection_def on_db_def UpdateUCPSessionProjection_def Let_def sample_ucp_def)

lemma sample_key: "key_of (ReqCancel ''c'' sample_cancel) = ''k''"
  unfolding key_of_def sample_cancel_def by code_simp

lemma sample_guard_reach:
  "\<exists>s'. guard_reach sample_ucp sample_guard_start s' \<and> gs_Executed s' = [''k'']"
proof -
  let ?q = "ReqCancel ''c'' sample_cancel" and ?w = sample_ucp_world
  let ?s = "\<lambda>w g ph ks. \<lparr>gs_World = w, gs_Guard = g, gs_Requests = [(?q, ph)], gs_Executed = ks\<rparr>"
  obtain w1 r where run: "execute sample_ucp ?q ?w = (w1, Inr r)" using sample_runs by blast
  obtain g1 n where acq: "acquire ''k'' new_guard = (g1, n)" by (cases "acquire ''k'' new_guard")
  then have free: "\<not> ge_Locked (gu_Entries g1 n)" by (auto simp: acquire_def new_guard_def upd_entry_def Let_def)
  have none: "find_answer sample_ucp (keyed sample_ucp ?q) (ew_DB ?w) = None"
    by (simp add: find_answer_def GetUCPIdempotency_def found_def sample_ucp_world_def empty_db_def ErrNoRows_def wrap_def)
  have move: "guard_next sample_ucp (?s w g ph ks) (?s w' g' ph' (ks @ executed_by ?q ph ph'))"
    if "guard_step sample_ucp ?q ph w g = Some (w', g', ph')" for w g ph ks w' g' ph'
    using guard_next.request [of 0 "?s w g ph ks" ?q ph sample_ucp w' g' ph'] that by simp
  have "guard_next sample_ucp sample_guard_start (?s ?w new_guard GStart [])"
    using guard_next.arrive [of ?q sample_ucp sample_guard_start] by (simp add: sample_guard_start_def sample_key)
  moreover have "guard_next sample_ucp (?s ?w new_guard GStart []) (?s ?w g1 (GWait n) [])"
    using move [of GStart ?w new_guard ?w g1 "GWait n" "[]"] acq by (simp add: sample_key executed_by_def)
  moreover have "guard_next sample_ucp (?s ?w g1 (GWait n) []) (?s ?w (lock_entry n g1) (GCheck n) [])"
    using move [of "GWait n" ?w g1 ?w "lock_entry n g1" "GCheck n" "[]"] free by (simp add: executed_by_def)
  moreover have "guard_next sample_ucp (?s ?w (lock_entry n g1) (GCheck n) []) (?s ?w (lock_entry n g1) (GRun n) [])"
    using move [of "GCheck n" ?w "lock_entry n g1" ?w "lock_entry n g1" "GRun n" "[]"] none by (simp add: executed_by_def)
  moreover have "guard_next sample_ucp (?s ?w (lock_entry n g1) (GRun n) []) (?s w1 (lock_entry n g1) (GStore n r) [''k''])"
    using move [of "GRun n" ?w "lock_entry n g1" w1 "lock_entry n g1" "GStore n r" "[]"] run
    by (simp add: executed_by_def sample_key del: execute.simps)
  ultimately have "(guard_next sample_ucp)\<^sup>*\<^sup>* sample_guard_start (?s w1 (lock_entry n g1) (GStore n r) [''k''])"
    by (meson rtranclp.rtrancl_into_rtrancl rtranclp.rtrancl_refl)
  moreover have "guard_start sample_guard_start" by (simp add: guard_start_def sample_guard_start_def)
  ultimately show ?thesis unfolding guard_reach_def by (intro exI [of _ "?s w1 (lock_entry n g1) (GStore n r) [''k'']"]) simp
qed

lemma guard_once_witness:
  "\<exists>s'. guard_reach sample_ucp sample_guard_start s' \<and> gs_Executed s' = [''k'']
     \<and> distinct (gs_Executed s') \<and> (\<forall>k. running k s' \<le> 1)"
proof -
  obtain s' where s': "guard_reach sample_ucp sample_guard_start s'" "gs_Executed s' = [''k'']" using sample_guard_reach by blast
  have "quiet_indexer (uv_Escrow sample_ucp)" by (simp add: quiet_indexer_def sample_ucp_def sample_escrow_env_def)
  from guard_once [OF this s'(1)] s' show ?thesis by blast
qed

end
