(* ===== verification/A2a.thy ===== *)
theory A2a
  imports Ucp
begin

text \<open>
  \<open>internal/a2a\<close>: the tasks of the agent-to-agent protocol and the JSON-RPC endpoint in front of them.
  A request is the body of the POST as text; whether the media type of its header is
  \<open>application/json\<close> is given. UUIDs, the clock and the text Go prints for a number are parameters;
  the wording of decoding errors is not modelled. A Go map is a list of pairs in the order of the keys,
  as it is encoded.
\<close>

section \<open>Types\<close>

record message_part =
  pt_Type :: string
  pt_Text :: string
  pt_Data :: "json option"
  pt_MimeType :: string

record a2a_message =
  am_Role :: string
  am_Parts :: "message_part list"

record task_send_params =
  tp_ID :: string
  tp_SessionID :: string
  tp_Message :: a2a_message
  tp_Metadata :: "(string \<times> string) list option"

record verification_artifact =
  va_Type :: string
  va_Validator :: string
  va_SignatureRequired :: bool
  va_CircuitHash :: string
  va_ProofProtocol :: string

record verification_policy =
  vp_Mode :: string
  vp_Artifacts :: "verification_artifact list"
  vp_EscrowTrigger :: bool

record a2a_reply =
  ar_ID :: string
  ar_SessionID :: string
  ar_State :: string
  ar_Message :: string
  ar_Metadata :: "(string \<times> string) list"

record jsonrpc_request =
  rq_JSONRPC :: string
  rq_ID :: "json option"
  rq_Method :: string
  rq_Params :: "json option"

text \<open>A response carries the id of its request and a result or an error with a code.\<close>

datatype rpc_outcome = RpcResult a2a_reply | RpcError int string

record jsonrpc_response =
  rr_ID :: "json option"
  rr_Outcome :: rpc_outcome

record a2a_env =
  ae_Now :: int
  ae_TaskUUID :: string
  ae_SessionUUID :: string
  ae_FloatText :: "string \<Rightarrow> string option"

definition ErrInvalidParams :: gerr where
  "ErrInvalidParams = Sentinel ''a2a.ErrInvalidParams'' ''invalid params''"

section \<open>Decoding\<close>

fun bool_field :: "string \<Rightarrow> (string \<times> json) list \<Rightarrow> bool \<Rightarrow> bool option" where
  "bool_field name [] acc = Some acc"
| "bool_field name ((k, v) # kvs) acc =
     (if EqualFold k name then
        (case v of JBool b \<Rightarrow> bool_field name kvs b | JNull \<Rightarrow> bool_field name kvs acc | _ \<Rightarrow> None)
      else bool_field name kvs acc)"

text \<open>A slice of structs as a field, decoded afresh for every occurrence of the key.\<close>

fun structs_field ::
    "((string \<times> json) list \<Rightarrow> 'a option) \<Rightarrow> string \<Rightarrow> (string \<times> json) list \<Rightarrow> 'a list \<Rightarrow> 'a list option" where
  "structs_field f name [] acc = Some acc"
| "structs_field f name ((k, v) # kvs) acc =
     (if EqualFold k name then
        (case v of
           JArr vs \<Rightarrow> (case struct_elems f vs of None \<Rightarrow> None | Some xs \<Rightarrow> structs_field f name kvs xs)
         | JNull \<Rightarrow> structs_field f name kvs [] | _ \<Rightarrow> None)
      else structs_field f name kvs acc)"

definition put_key :: "string \<Rightarrow> string \<Rightarrow> (string \<times> string) list \<Rightarrow> (string \<times> string) list" where
  "put_key k v m = sort_key fst ((k, v) # filter (\<lambda>(a, _). a \<noteq> k) m)"

text \<open>The entries of a \<open>map[string]string\<close>; a \<open>null\<close> value is the empty string.\<close>

fun put_entries :: "(string \<times> json) list \<Rightarrow> (string \<times> string) list \<Rightarrow> (string \<times> string) list option" where
  "put_entries [] m = Some m"
| "put_entries ((k, v) # kvs) m =
     (case v of
        JStr s \<Rightarrow> put_entries kvs (put_key k s m)
      | JNull \<Rightarrow> put_entries kvs (put_key k [] m)
      | _ \<Rightarrow> None)"

fun map_field ::
    "string \<Rightarrow> (string \<times> json) list \<Rightarrow> (string \<times> string) list option \<Rightarrow> (string \<times> string) list option option" where
  "map_field name [] acc = Some acc"
| "map_field name ((k, v) # kvs) acc =
     (if EqualFold k name then
        (case v of
           JObj es \<Rightarrow>
             (case put_entries es (case acc of None \<Rightarrow> [] | Some m \<Rightarrow> m) of
                None \<Rightarrow> None | Some m \<Rightarrow> map_field name kvs (Some m))
         | JNull \<Rightarrow> map_field name kvs None
         | _ \<Rightarrow> None)
      else map_field name kvs acc)"

definition decode_part :: "(string \<times> json) list \<Rightarrow> message_part option" where
  "decode_part kvs =
     (case (str_field ''type'' kvs [], str_field ''text'' kvs [], any_field Some ''data'' kvs None,
            str_field ''mimeType'' kvs []) of
        (Some t, Some x, Some d, Some m) \<Rightarrow> Some \<lparr>pt_Type = t, pt_Text = x, pt_Data = d, pt_MimeType = m\<rparr>
      | _ \<Rightarrow> None)"

fun message_field :: "(string \<times> json) list \<Rightarrow> a2a_message \<Rightarrow> a2a_message option" where
  "message_field [] acc = Some acc"
| "message_field ((k, v) # kvs) acc =
     (if EqualFold k ''message'' then
        (case v of
           JObj es \<Rightarrow>
             (case (str_field ''role'' es (am_Role acc), structs_field decode_part ''parts'' es (am_Parts acc)) of
                (Some r, Some ps) \<Rightarrow> message_field kvs \<lparr>am_Role = r, am_Parts = ps\<rparr>
              | _ \<Rightarrow> None)
         | JNull \<Rightarrow> message_field kvs acc
         | _ \<Rightarrow> None)
      else message_field kvs acc)"

definition members :: "json option \<Rightarrow> (string \<times> json) list option" where
  "members v = (case v of None \<Rightarrow> Some [] | Some (JObj kvs) \<Rightarrow> Some kvs | _ \<Rightarrow> None)"

definition decode_send :: "json option \<Rightarrow> task_send_params option" where
  "decode_send v =
     (case members v of None \<Rightarrow> None
      | Some kvs \<Rightarrow>
          (case (str_field ''id'' kvs [], str_field ''sessionId'' kvs [],
                 message_field kvs \<lparr>am_Role = [], am_Parts = []\<rparr>, map_field ''metadata'' kvs None) of
             (Some i, Some s, Some m, Some md) \<Rightarrow>
               Some \<lparr>tp_ID = i, tp_SessionID = s, tp_Message = m, tp_Metadata = md\<rparr>
           | _ \<Rightarrow> None))"

definition decode_query :: "json option \<Rightarrow> string option" where
  "decode_query v = (case members v of None \<Rightarrow> None | Some kvs \<Rightarrow> str_field ''id'' kvs [])"

definition decode_artifact :: "(string \<times> json) list \<Rightarrow> verification_artifact option" where
  "decode_artifact kvs =
     (case (str_field ''type'' kvs [], str_field ''validator'' kvs [], bool_field ''signature_required'' kvs False,
            str_field ''circuit_hash'' kvs [], str_field ''proof_protocol'' kvs []) of
        (Some t, Some v, Some s, Some c, Some p) \<Rightarrow>
          Some \<lparr>va_Type = t, va_Validator = v, va_SignatureRequired = s, va_CircuitHash = c, va_ProofProtocol = p\<rparr>
      | _ \<Rightarrow> None)"

definition unmarshal_policy :: "string \<Rightarrow> verification_policy option" where
  "unmarshal_policy raw =
     (case (case parse_json raw of Some (JObj kvs) \<Rightarrow> Some kvs | Some JNull \<Rightarrow> Some [] | _ \<Rightarrow> None) of
        None \<Rightarrow> None
      | Some kvs \<Rightarrow>
          (case (str_field ''mode'' kvs [], structs_field decode_artifact ''artifacts'' kvs [],
                 bool_field ''escrow_trigger'' kvs False) of
             (Some m, Some as, Some t) \<Rightarrow> Some \<lparr>vp_Mode = m, vp_Artifacts = as, vp_EscrowTrigger = t\<rparr>
           | _ \<Rightarrow> None))"

text \<open>\<open>json.NewDecoder(body).Decode\<close> reads the first value of the body and leaves the rest.\<close>

definition decode_first :: "string \<Rightarrow> json option" where
  "decode_first body =
     (case parse_value (Suc (length body)) body of None \<Rightarrow> None | Some (v, _) \<Rightarrow> Some v)"

definition decode_request :: "(string \<Rightarrow> string option) \<Rightarrow> string \<Rightarrow> jsonrpc_request option" where
  "decode_request F body =
     (case (case decode_first body of Some (JObj kvs) \<Rightarrow> Some kvs | Some JNull \<Rightarrow> Some [] | _ \<Rightarrow> None) of
        None \<Rightarrow> None
      | Some kvs \<Rightarrow>
          (case (str_field ''jsonrpc'' kvs [], any_field F ''id'' kvs None, str_field ''method'' kvs [],
                 any_field F ''params'' kvs None) of
             (Some j, Some i, Some m, Some p) \<Rightarrow>
               Some \<lparr>rq_JSONRPC = j, rq_ID = i, rq_Method = m, rq_Params = p\<rparr>
           | _ \<Rightarrow> None))"

section \<open>Service\<close>

definition artifact_types :: "string list" where
  "artifact_types = [''unit_test_log'', ''zk_snark_trace'', ''manual_review'']"

fun check_artifacts :: "nat \<Rightarrow> verification_artifact list \<Rightarrow> gerr option" where
  "check_artifacts i [] = None"
| "check_artifacts i (a # as) =
     (if va_Type a \<in> set artifact_types then check_artifacts (Suc i) as
      else Some (errors_New (''artifact['' @ nat_str i @ '']: invalid type '' @ Quote (va_Type a)
             @ '' (must be unit_test_log, zk_snark_trace, or manual_review)'')))"

definition validateVerificationPolicy :: "verification_policy \<Rightarrow> gerr option" where
  "validateVerificationPolicy vp =
     (if vp_Mode vp = [] then Some (errors_New ''mode is required'')
      else if vp_Mode vp \<noteq> ''strict'' \<and> vp_Mode vp \<noteq> ''optimistic'' \<and> vp_Mode vp \<noteq> ''manual''
      then Some (errors_New (''invalid mode: '' @ vp_Mode vp @ '' (must be strict, optimistic, or manual)''))
      else if vp_Mode vp = ''strict'' \<and> vp_Artifacts vp = []
      then Some (errors_New ''strict mode requires at least one verification artifact'')
      else check_artifacts 0 (vp_Artifacts vp))"

definition FormatBool :: "bool \<Rightarrow> string" where
  "FormatBool b = (if b then ''true'' else ''false'')"

definition stored_metadata :: "string \<Rightarrow> (string \<times> string) list" where
  "stored_metadata raw =
     (case parse_json raw of
        Some (JObj kvs) \<Rightarrow> (case put_entries kvs [] of None \<Rightarrow> [] | Some m \<Rightarrow> m)
      | _ \<Rightarrow> [])"

definition buildTaskResponse :: "a2a_task \<Rightarrow> string \<Rightarrow> a2a_reply" where
  "buildTaskResponse t message =
     \<lparr>ar_ID = a2a_A2ATaskID t, ar_SessionID = a2a_SessionID t, ar_State = a2a_A2AStatus t, ar_Message = message,
      ar_Metadata = put_key ''verification_policy'' (a2a_VerificationPolicyJSON t)
        (put_key ''escrow_trigger'' (FormatBool (a2a_EscrowTrigger t)) (stored_metadata (a2a_MetadataJSON t)))\<rparr>"

definition terminal_task :: "string \<Rightarrow> bool" where
  "terminal_task s \<longleftrightarrow> s = ''completed'' \<or> s = ''failed'' \<or> s = ''canceled''"

definition terminal_err :: "a2a_task \<Rightarrow> gerr" where
  "terminal_err t =
     errors_New (''task '' @ a2a_A2ATaskID t @ '' is in terminal state: '' @ a2a_A2AStatus t)"

definition lookup_meta :: "task_send_params \<Rightarrow> string \<Rightarrow> string option" where
  "lookup_meta p k = (case tp_Metadata p of None \<Rightarrow> None | Some m \<Rightarrow> map_of m k)"

text \<open>The policy of a task with its text, or the default.\<close>

definition task_policy :: "task_send_params \<Rightarrow> gerr + (bool \<times> string)" where
  "task_policy p =
     (case lookup_meta p ''verification_policy'' of
        None \<Rightarrow> Inr (False, ''{}'')
      | Some raw \<Rightarrow>
          (case unmarshal_policy raw of
             None \<Rightarrow> Inl (Errorf (err_msg ErrInvalidParams @ '': invalid verification_policy: '' @ err_msg json_err)
                            [ErrInvalidParams, json_err])
           | Some vp \<Rightarrow>
               (case validateVerificationPolicy vp of
                  Some e \<Rightarrow> Inl (Errorf (err_msg ErrInvalidParams @ '': verification_policy validation: ''
                                  @ err_msg e) [ErrInvalidParams, e])
                | None \<Rightarrow> Inr (vp_EscrowTrigger vp, raw))))"

definition delegator_of :: "task_send_params \<Rightarrow> string" where
  "delegator_of p =
     (let d = (case lookup_meta p ''delegator_agent'' of None \<Rightarrow> [] | Some v \<Rightarrow> v) in
      if d = [] then am_Role (tp_Message p) else d)"

definition metadata_json :: "task_send_params \<Rightarrow> json" where
  "metadata_json p =
     (case tp_Metadata p of None \<Rightarrow> JNull | Some m \<Rightarrow> JObj (map (\<lambda>(k, v). (k, JStr v)) m))"

definition new_a2a_task :: "string \<Rightarrow> string \<Rightarrow> task_send_params \<Rightarrow> bool \<Rightarrow> string \<Rightarrow> a2a_task" where
  "new_a2a_task taskID sessionID p trigger vpJSON =
     \<lparr>a2a_ID = 0, a2a_A2ATaskID = taskID, a2a_SessionID = sessionID, a2a_EscrowID = None,
      a2a_DelegatorAgent = delegator_of p, a2a_DelegateeAgent = [], a2a_VerificationPolicyJSON = vpJSON,
      a2a_EscrowTrigger = trigger, a2a_A2AStatus = ''submitted'', a2a_MetadataJSON = render (metadata_json p),
      a2a_CreatedAt = 0, a2a_UpdatedAt = 0\<rparr>"

definition createNewTask :: "a2a_env \<Rightarrow> string \<Rightarrow> string \<Rightarrow> task_send_params \<Rightarrow> db \<Rightarrow> a2a_reply result" where
  "createNewTask E taskID sessionID p d =
     (case task_policy p of
        Inl e \<Rightarrow> (d, Inl e)
      | Inr (trigger, vpJSON) \<Rightarrow>
          andThen (mapErr (wrap ''create a2a task'')
                     (CreateA2ATask (ae_Now E) (new_a2a_task taskID sessionID p trigger vpJSON) d))
            (\<lambda>d1 t. (d1, Inr (buildTaskResponse t ''Task accepted''))))"

definition updateExistingTask :: "a2a_task \<Rightarrow> gerr + a2a_reply" where
  "updateExistingTask t =
     (if terminal_task (a2a_A2AStatus t) then Inl (terminal_err t)
      else Inr (buildTaskResponse t ''Task already exists''))"

definition HandleTaskSend :: "a2a_env \<Rightarrow> task_send_params \<Rightarrow> db \<Rightarrow> a2a_reply result" where
  "HandleTaskSend E p d =
     (let taskID = (if tp_ID p = [] then ae_TaskUUID E else tp_ID p);
          sessionID = (if tp_SessionID p = [] then ae_SessionUUID E else tp_SessionID p) in
      case GetA2ATaskByTaskID d taskID of
        Inl e \<Rightarrow> if errors_is e ErrNoRows then createNewTask E taskID sessionID p d
                 else (d, Inl (wrap ''lookup a2a task'' e))
      | Inr existing \<Rightarrow> (d, updateExistingTask existing))"

definition GetTaskStatus :: "string \<Rightarrow> db \<Rightarrow> gerr + a2a_reply" where
  "GetTaskStatus taskID d =
     (case GetA2ATaskByTaskID d taskID of
        Inl e \<Rightarrow> Inl (wrap (''get task '' @ taskID) e)
      | Inr t \<Rightarrow>
          (let escrow = (case a2a_EscrowID t of None \<Rightarrow> None
                         | Some i \<Rightarrow> (case GetEscrow d i of Inl _ \<Rightarrow> None | Inr e \<Rightarrow> Some e)) in
           Inr (buildTaskResponse t
             (case escrow of
                None \<Rightarrow> ''Task status: '' @ a2a_A2AStatus t
              | Some e \<Rightarrow> ''Task status: '' @ a2a_A2AStatus t @ '', escrow status: '' @ esc_Status e
                           @ '', escrow address: '' @ esc_EscrowAddress e))))"

definition CancelTask :: "a2a_env \<Rightarrow> string \<Rightarrow> db \<Rightarrow> a2a_reply result" where
  "CancelTask E taskID d =
     (case GetA2ATaskByTaskID d taskID of
        Inl e \<Rightarrow> (d, Inl (wrap (''get task '' @ taskID) e))
      | Inr t \<Rightarrow>
          if terminal_task (a2a_A2AStatus t) then (d, Inl (terminal_err t))
          else andThen (mapErr (wrap ''cancel task'') (UpdateA2ATaskStatus (ae_Now E) (a2a_ID t) ''canceled'' d))
            (\<lambda>d1 _. (d1, Inr (buildTaskResponse (t\<lparr>a2a_A2AStatus := ''canceled''\<rparr>) ''Task canceled''))))"

section \<open>JSON-RPC\<close>

definition rpc_of :: "json option \<Rightarrow> gerr \<Rightarrow> int \<Rightarrow> a2a_reply result \<Rightarrow> db \<times> jsonrpc_response" where
  "rpc_of i special code r =
     (case r of
        (d, Inr t) \<Rightarrow> (d, \<lparr>rr_ID = i, rr_Outcome = RpcResult t\<rparr>)
      | (d, Inl e) \<Rightarrow>
          (d, \<lparr>rr_ID = i, rr_Outcome = RpcError (if errors_is e special then code else -32603) (err_msg e)\<rparr>))"

definition invalid_rpc :: "json option \<Rightarrow> int \<Rightarrow> string \<Rightarrow> db \<Rightarrow> db \<times> jsonrpc_response" where
  "invalid_rpc i code msg d = (d, \<lparr>rr_ID = i, rr_Outcome = RpcError code msg\<rparr>)"

definition bad_params :: "json option \<Rightarrow> db \<Rightarrow> db \<times> jsonrpc_response" where
  "bad_params i = invalid_rpc i (-32602) (''invalid params: '' @ err_msg json_err)"

definition handleTasksSend :: "a2a_env \<Rightarrow> jsonrpc_request \<Rightarrow> db \<Rightarrow> db \<times> jsonrpc_response" where
  "handleTasksSend E q d =
     (case decode_send (rq_Params q) of
        None \<Rightarrow> bad_params (rq_ID q) d
      | Some p \<Rightarrow>
          if am_Parts (tp_Message p) = []
          then invalid_rpc (rq_ID q) (-32602) ''message must have at least one part'' d
          else rpc_of (rq_ID q) ErrInvalidParams (-32602) (HandleTaskSend E p d))"

definition with_task_id ::
    "jsonrpc_request \<Rightarrow> (string \<Rightarrow> db \<Rightarrow> db \<times> jsonrpc_response) \<Rightarrow> db \<Rightarrow> db \<times> jsonrpc_response" where
  "with_task_id q k d =
     (case decode_query (rq_Params q) of
        None \<Rightarrow> bad_params (rq_ID q) d
      | Some i \<Rightarrow> if i = [] then invalid_rpc (rq_ID q) (-32602) ''id is required'' d else k i d)"

definition handleTasksGet :: "jsonrpc_request \<Rightarrow> db \<Rightarrow> db \<times> jsonrpc_response" where
  "handleTasksGet q = with_task_id q (\<lambda>i d. rpc_of (rq_ID q) ErrNoRows (-32001) (d, GetTaskStatus i d))"

definition handleTasksCancel :: "a2a_env \<Rightarrow> jsonrpc_request \<Rightarrow> db \<Rightarrow> db \<times> jsonrpc_response" where
  "handleTasksCancel E q = with_task_id q (\<lambda>i d. rpc_of (rq_ID q) ErrNoRows (-32001) (CancelTask E i d))"

definition HandleJSONRPC :: "a2a_env \<Rightarrow> bool \<Rightarrow> string \<Rightarrow> db \<Rightarrow> db \<times> jsonrpc_response" where
  "HandleJSONRPC E isJSON body d =
     (if \<not> isJSON then invalid_rpc None (-32600) ''Content-Type must be application/json'' d
      else case decode_request (ae_FloatText E) body of
        None \<Rightarrow> invalid_rpc None (-32700) ''failed to parse JSON-RPC request'' d
      | Some q \<Rightarrow>
          if rq_JSONRPC q \<noteq> ''2.0''
          then invalid_rpc (rq_ID q) (-32600) (''jsonrpc must be '' @ Quote ''2.0'') d
          else if rq_Method q = ''tasks/send'' then handleTasksSend E q d
          else if rq_Method q = ''tasks/get'' then handleTasksGet q d
          else if rq_Method q = ''tasks/cancel'' then handleTasksCancel E q d
          else invalid_rpc (rq_ID q) (-32601) (''method not found: '' @ rq_Method q) d)"

end
