(* ===== verification/A2aProps.thy ===== *)
theory A2aProps
  imports A2a
begin

text \<open>
  What holds of A2A tasks under any sequence of JSON-RPC requests: the endpoint creates tasks and
  cancels them, and that is all it does.
\<close>

section \<open>The effect of a request\<close>

lemma mapErr_fst [simp]: "fst (mapErr f m) = fst m"
  by (cases m; cases "snd m") auto

lemma rpc_of_fst [simp]: "fst (rpc_of i special code r) = fst r"
  by (auto simp: rpc_of_def split: prod.split sum.split)

lemma invalid_rpc_fst [simp]: "fst (invalid_rpc i code msg d) = d" "fst (bad_params i d) = d"
  by (simp_all add: invalid_rpc_def bad_params_def)

definition a2a_ok :: "db \<Rightarrow> bool" where
  "a2a_ok d \<longleftrightarrow> distinct (map a2a_ID (a2a_tasks d)) \<and> distinct (map a2a_A2ATaskID (a2a_tasks d))"

definition task_status :: "string \<Rightarrow> db \<Rightarrow> string option" where
  "task_status taskID d = map_option a2a_A2AStatus (row_get a2a_A2ATaskID (a2a_tasks d) taskID)"

definition task_created :: "db \<Rightarrow> db \<Rightarrow> bool" where
  "task_created d d' \<longleftrightarrow> (\<exists>t. d' = d\<lparr>a2a_tasks := a2a_tasks d @ [t]\<rparr> \<and> a2a_ID t = next_id a2a_ID (a2a_tasks d)
     \<and> a2a_A2ATaskID t \<notin> a2a_A2ATaskID ` set (a2a_tasks d) \<and> a2a_A2AStatus t = ''submitted'' \<and> a2a_EscrowID t = None)"

definition task_canceled :: "int \<Rightarrow> db \<Rightarrow> db \<Rightarrow> bool" where
  "task_canceled now d d' \<longleftrightarrow> (\<exists>t \<in> set (a2a_tasks d). \<not> terminal_task (a2a_A2AStatus t)
     \<and> d' = d\<lparr>a2a_tasks := row_upd (\<lambda>x. a2a_ID x = a2a_ID t)
              (\<lambda>x. x\<lparr>a2a_A2AStatus := ''canceled'', a2a_UpdatedAt := now\<rparr>) (a2a_tasks d)\<rparr>)"

lemma create_effect:
  "fst (createNewTask E i s p d) = d \<or> task_created d (fst (createNewTask E i s p d))"
proof (cases "task_policy p")
  case (Inr x)
  obtain tr vp where x: "x = (tr, vp)" by fastforce
  have "fst (andThen (mapErr f m) (\<lambda>d1 t. (d1, Inr (g t)))) = fst m" for f g and m :: "a2a_task result"
    by (cases m; cases "snd m") auto
  then show ?thesis
    using Inr x by (auto simp: createNewTask_def CreateA2ATask_def Let_def new_a2a_task_def task_created_def
      row_add_def row_get_None)
qed (simp add: createNewTask_def)

lemma send_effect: "fst (HandleTaskSend E p d) = d \<or> task_created d (fst (HandleTaskSend E p d))"
  by (cases "GetA2ATaskByTaskID d (if tp_ID p = [] then ae_TaskUUID E else tp_ID p)")
    (simp_all add: HandleTaskSend_def Let_def create_effect)

lemma cancel_effect: "fst (CancelTask E i d) = d \<or> task_canceled (ae_Now E) d (fst (CancelTask E i d))"
proof (cases "GetA2ATaskByTaskID d i")
  case (Inr t)
  then have t: "t \<in> set (a2a_tasks d)" by (auto simp: GetA2ATaskByTaskID_def dest!: row_get_Some)
  then have "row_get a2a_ID (a2a_tasks d) (a2a_ID t) \<noteq> None" unfolding row_get_None by blast
  then have "UpdateA2ATaskStatus (ae_Now E) (a2a_ID t) ''canceled'' d =
      (d\<lparr>a2a_tasks := row_upd (\<lambda>x. a2a_ID x = a2a_ID t)
         (\<lambda>x. x\<lparr>a2a_A2AStatus := ''canceled'', a2a_UpdatedAt := ae_Now E\<rparr>) (a2a_tasks d)\<rparr>, Inr ())"
    by (simp add: UpdateA2ATaskStatus_def)
  with Inr have "fst (CancelTask E i d) = (if terminal_task (a2a_A2AStatus t) then d else
      d\<lparr>a2a_tasks := row_upd (\<lambda>x. a2a_ID x = a2a_ID t)
         (\<lambda>x. x\<lparr>a2a_A2AStatus := ''canceled'', a2a_UpdatedAt := ae_Now E\<rparr>) (a2a_tasks d)\<rparr>)"
    by (simp add: CancelTask_def)
  with t show ?thesis unfolding task_canceled_def by metis
qed (simp add: CancelTask_def)

definition rpc_effect :: "db \<Rightarrow> db \<Rightarrow> bool" where
  "rpc_effect d d' \<longleftrightarrow> d' = d \<or> task_created d d' \<or> (\<exists>now. task_canceled now d d')"

lemma HandleJSONRPC_effect: "rpc_effect d (fst (HandleJSONRPC E isJSON body d))"
proof -
  have "rpc_effect d (fst (handleTasksSend E q d))" for q
    using send_effect by (auto simp: handleTasksSend_def rpc_effect_def split: option.split)
  moreover have "rpc_effect d (fst (handleTasksGet q d))" for q
    by (auto simp: handleTasksGet_def with_task_id_def rpc_effect_def split: option.split)
  moreover have "rpc_effect d (fst (handleTasksCancel E q d))" for q
    using cancel_effect by (auto simp: handleTasksCancel_def with_task_id_def rpc_effect_def split: option.split)
  moreover have "rpc_effect d d" by (simp add: rpc_effect_def)
  ultimately show ?thesis by (simp add: HandleJSONRPC_def split: option.split)
qed

section \<open>Tasks under requests\<close>

definition moves_on :: "string option \<Rightarrow> string option \<Rightarrow> bool" where
  "moves_on s s' \<longleftrightarrow> s' = s \<or> (\<exists>x. s = Some x \<and> \<not> terminal_task x \<and> s' = Some ''canceled'')
     \<or> (s = None \<and> (s' = Some ''submitted'' \<or> s' = Some ''canceled''))"

lemma moves_on_trans: "moves_on a b \<Longrightarrow> moves_on b c \<Longrightarrow> moves_on a c"
  by (auto simp: moves_on_def terminal_task_def)

definition links_kept :: "db \<Rightarrow> db \<Rightarrow> bool" where
  "links_kept d d' \<longleftrightarrow> (\<forall>t' \<in> set (a2a_tasks d'). a2a_EscrowID t' = None
     \<or> (\<exists>t \<in> set (a2a_tasks d). a2a_ID t = a2a_ID t' \<and> a2a_EscrowID t = a2a_EscrowID t'))"

lemma links_kept_trans: "links_kept a b \<Longrightarrow> links_kept b c \<Longrightarrow> links_kept a c"
  unfolding links_kept_def by metis

lemma canceled_rows:
  assumes "task_canceled now d d'"
  shows "map a2a_ID (a2a_tasks d') = map a2a_ID (a2a_tasks d)"
    "map a2a_A2ATaskID (a2a_tasks d') = map a2a_A2ATaskID (a2a_tasks d)" "links_kept d d'"
proof -
  obtain t :: a2a_task where "d' = d\<lparr>a2a_tasks := row_upd (\<lambda>x. a2a_ID x = a2a_ID t)
      (\<lambda>x. x\<lparr>a2a_A2AStatus := ''canceled'', a2a_UpdatedAt := now\<rparr>) (a2a_tasks d)\<rparr>"
    using assms unfolding task_canceled_def by blast
  then have d': "a2a_tasks d' = map (\<lambda>x. if a2a_ID x = a2a_ID t
      then x\<lparr>a2a_A2AStatus := ''canceled'', a2a_UpdatedAt := now\<rparr> else x) (a2a_tasks d)"
    by (simp add: row_upd_def)
  show "map a2a_ID (a2a_tasks d') = map a2a_ID (a2a_tasks d)"
    "map a2a_A2ATaskID (a2a_tasks d') = map a2a_A2ATaskID (a2a_tasks d)" by (simp_all add: d')
  have "\<exists>x \<in> set (a2a_tasks d). a2a_ID x = a2a_ID t' \<and> a2a_EscrowID x = a2a_EscrowID t'"
    if "t' \<in> set (a2a_tasks d')" for t' using that unfolding d' by (auto split: if_splits)
  then show "links_kept d d'" unfolding links_kept_def by blast
qed

lemma canceled_status:
  assumes "a2a_ok d" "task_canceled now d d'"
  shows "moves_on (task_status i d) (task_status i d')"
proof -
  obtain t where t: "t \<in> set (a2a_tasks d)" "\<not> terminal_task (a2a_A2AStatus t)"
    "d' = d\<lparr>a2a_tasks := row_upd (\<lambda>x. a2a_ID x = a2a_ID t)
              (\<lambda>x. x\<lparr>a2a_A2AStatus := ''canceled'', a2a_UpdatedAt := now\<rparr>) (a2a_tasks d)\<rparr>"
    using assms(2) by (auto simp: task_canceled_def)
  show ?thesis
  proof (cases "row_get a2a_A2ATaskID (a2a_tasks d) i")
    case (Some r)
    then have "r \<in> set (a2a_tasks d)" by (auto dest: row_get_Some)
    then have "a2a_ID r = a2a_ID t \<Longrightarrow> r = t" using assms(1) t(1) by (auto simp: a2a_ok_def distinct_map inj_on_def)
    then show ?thesis using Some t(2,3) by (auto simp: task_status_def row_get_upd moves_on_def)
  qed (simp add: t(3) task_status_def row_get_upd moves_on_def)
qed

lemma created_task:
  assumes "a2a_ok d" "task_created d d'"
  shows "a2a_ok d' \<and> moves_on (task_status i d) (task_status i d') \<and> links_kept d d'"
proof -
  obtain t where t: "d' = d\<lparr>a2a_tasks := a2a_tasks d @ [t]\<rparr>" "a2a_ID t = next_id a2a_ID (a2a_tasks d)"
    "a2a_A2ATaskID t \<notin> a2a_A2ATaskID ` set (a2a_tasks d)" "a2a_A2AStatus t = ''submitted''" "a2a_EscrowID t = None"
    using assms(2) by (auto simp: task_created_def)
  have "a2a_ID t \<notin> a2a_ID ` set (a2a_tasks d)"
    using next_id_fresh [of a2a_ID "a2a_tasks d"] t(2) by (simp add: row_get_None)
  then show ?thesis
    using assms(1) t by (auto simp: a2a_ok_def task_status_def row_get_append moves_on_def links_kept_def split: option.splits)
qed

lemma effect_step:
  assumes "a2a_ok d" "rpc_effect d d'"
  shows "a2a_ok d' \<and> moves_on (task_status i d) (task_status i d') \<and> links_kept d d' \<and> escrows d' = escrows d"
  using assms(2) unfolding rpc_effect_def
proof (elim disjE exE)
  assume "d' = d"
  then show ?thesis using assms(1) by (auto simp: moves_on_def links_kept_def)
next
  assume c: "task_created d d'"
  then show ?thesis using created_task [OF assms(1) c] by (auto simp: task_created_def)
next
  fix now assume c: "task_canceled now d d'"
  then show ?thesis using canceled_rows [OF c] canceled_status [OF assms(1) c] assms(1)
    by (auto simp: a2a_ok_def task_canceled_def)
qed

text \<open>A request as an event: the environment of the call, its media type and its body.\<close>

definition rpc_step :: "db \<Rightarrow> a2a_env \<times> bool \<times> string \<Rightarrow> db" where
  "rpc_step d = (\<lambda>(E, isJSON, body). fst (HandleJSONRPC E isJSON body d))"

lemma rpc_step_effect: "rpc_effect d (rpc_step d e)"
  using HandleJSONRPC_effect by (simp add: rpc_step_def split: prod.split)

definition closed_task :: "string option \<Rightarrow> bool" where
  "closed_task s = (case s of None \<Rightarrow> False | Some x \<Rightarrow> terminal_task x)"

lemma moves_on_closed: "moves_on s s' \<Longrightarrow> closed_task s \<Longrightarrow> s' = s"
  by (auto simp: moves_on_def closed_task_def)

interpretation task_life: terminal_machine rpc_step a2a_ok "task_status taskID" closed_task for taskID
  using effect_step [OF _ rpc_step_effect] moves_on_closed by unfold_locales blast+

lemma rpc_run:
  "a2a_ok d \<Longrightarrow> moves_on (task_status i d) (task_status i (foldl rpc_step d es))
     \<and> links_kept d (foldl rpc_step d es) \<and> escrows (foldl rpc_step d es) = escrows d"
proof (induction es arbitrary: d)
  case (Cons e es)
  note step = effect_step [OF Cons.prems rpc_step_effect [of d e], of i]
  with Cons.IH [of "rpc_step d e"] show ?case
    using moves_on_trans links_kept_trans by (metis foldl_Cons)
qed (auto simp: moves_on_def links_kept_def)

text \<open>C30: Whatever requests the JSON-RPC endpoint serves, in any order and with any bodies: a task that is
  completed, failed or canceled keeps its status for ever; otherwise a task only comes to be, as
  submitted, or is canceled; no escrow changes and no task is ever linked to one, whatever the
  \<open>escrow_trigger\<close> of its policy says.\<close>

theorem a2a_lifecycle:
  assumes "a2a_ok d" and "d' = foldl rpc_step d requests"
  shows "(closed_task (task_status i d) \<longrightarrow> task_status i d' = task_status i d)
    \<and> moves_on (task_status i d) (task_status i d') \<and> links_kept d d' \<and> escrows d' = escrows d"
  using assms task_life.terminal_run [of d i] rpc_run by blast

text \<open>A canceled task stays canceled under all requests.\<close>

definition sample_a2a_db :: db where
  "sample_a2a_db = empty_db\<lparr>a2a_tasks :=
     [\<lparr>a2a_ID = 1, a2a_A2ATaskID = ''t'', a2a_SessionID = ''s'', a2a_EscrowID = None, a2a_DelegatorAgent = ''u'',
       a2a_DelegateeAgent = [], a2a_VerificationPolicyJSON = ''{}'', a2a_EscrowTrigger = True,
       a2a_A2AStatus = ''canceled'', a2a_MetadataJSON = ''null'', a2a_CreatedAt = 0, a2a_UpdatedAt = 0\<rparr>]\<rparr>"

lemma a2a_lifecycle_witness:
  "a2a_ok sample_a2a_db \<and>
     (\<forall>requests. task_status ''t'' (foldl rpc_step sample_a2a_db requests) = Some ''canceled'')"
proof -
  have ok: "a2a_ok sample_a2a_db" by (simp add: a2a_ok_def sample_a2a_db_def empty_db_def)
  have "task_status ''t'' sample_a2a_db = Some ''canceled''"
    by (simp add: task_status_def sample_a2a_db_def empty_db_def)
  with ok a2a_lifecycle [OF ok refl, of "''t''"] show ?thesis by (simp add: closed_task_def terminal_task_def)
qed

end
