(* ===== verification/AdapterApi.thy ===== *)
theory AdapterApi
  imports ApiDct Ap2Props UcpGuard A2aProps
begin

text \<open>
  The HTTP handlers of the checkout and mandate adapters, \<open>internal/ucp/handler.go\<close> and
  \<open>internal/ap2/handler.go\<close>, and the service descriptions they publish. As in theory \<open>ApiDct\<close> a
  reply is its status with the error text or the payload; a body is a decoded value, or not JSON, or
  empty, which some handlers accept.
\<close>

section \<open>Checkouts\<close>

datatype 'a body = BadBody | NoBody | Body 'a

definition ucp_error :: "gerr \<Rightarrow> 'a http" where
  "ucp_error e =
     (if errors_is e ErrInvalidRequest then HttpError 400 (err_msg e)
      else if errors_is e ErrIdempotencyConflict then HttpError 409 (err_msg e)
      else if errors_is e ErrNoRows then HttpError 404 ''not found''
      else HttpError 500 ''internal server error'')"

definition ucp_reply :: "nat \<Rightarrow> checkout esc_result \<Rightarrow> escrow_world \<times> checkout http" where
  "ucp_reply code r = (case r of (w, Inl e) \<Rightarrow> (w, ucp_error e) | (w, Inr c) \<Rightarrow> (w, HttpOk code c))"

definition with_path_id ::
    "string \<Rightarrow> (string \<Rightarrow> escrow_world \<Rightarrow> escrow_world \<times> checkout http) \<Rightarrow> escrow_world \<Rightarrow> escrow_world \<times> checkout http" where
  "with_path_id path k w =
     (let checkoutID = TrimSpace path in
      if checkoutID = [] then (w, HttpError 400 ''missing checkout_id'') else k checkoutID w)"

definition httpCreateCheckout ::
    "ucp_env \<Rightarrow> create_checkout_request body \<Rightarrow> escrow_world \<Rightarrow> escrow_world \<times> checkout http" where
  "httpCreateCheckout E b w =
     (case b of Body q \<Rightarrow> ucp_reply 201 (CreateCheckout E q w) | _ \<Rightarrow> (w, HttpError 400 ''invalid json''))"

definition httpGetCheckout :: "ucp_env \<Rightarrow> string \<Rightarrow> escrow_world \<Rightarrow> escrow_world \<times> checkout http" where
  "httpGetCheckout E path = with_path_id path (\<lambda>i w. ucp_reply 200 (GetCheckout E i w))"

definition httpUpdateCheckout ::
    "ucp_env \<Rightarrow> string \<Rightarrow> update_checkout_request body \<Rightarrow> escrow_world \<Rightarrow> escrow_world \<times> checkout http" where
  "httpUpdateCheckout E path b =
     with_path_id path (\<lambda>i w.
       case b of Body q \<Rightarrow> ucp_reply 200 (UpdateCheckout E i q w) | _ \<Rightarrow> (w, HttpError 400 ''invalid json''))"

definition empty_complete :: complete_checkout_request where
  "empty_complete = \<lparr>cmr_IdempotencyKey = [], cmr_Role = [], cmr_Proof = [], cmr_MilestoneIndex = None\<rparr>"

definition httpCompleteCheckout ::
    "ucp_env \<Rightarrow> string \<Rightarrow> complete_checkout_request body \<Rightarrow> escrow_world \<Rightarrow> escrow_world \<times> checkout http" where
  "httpCompleteCheckout E path b =
     with_path_id path (\<lambda>i w.
       case b of
         BadBody \<Rightarrow> (w, HttpError 400 ''invalid json'')
       | NoBody \<Rightarrow> ucp_reply 200 (CompleteCheckout E i empty_complete w)
       | Body q \<Rightarrow> ucp_reply 200 (CompleteCheckout E i q w))"

definition empty_cancel :: cancel_checkout_request where
  "empty_cancel = \<lparr>xcr_IdempotencyKey = [], xcr_MilestoneIndex = None\<rparr>"

definition httpCancelCheckout ::
    "ucp_env \<Rightarrow> string \<Rightarrow> cancel_checkout_request body \<Rightarrow> escrow_world \<Rightarrow> escrow_world \<times> checkout http" where
  "httpCancelCheckout E path b =
     with_path_id path (\<lambda>i w.
       case b of
         BadBody \<Rightarrow> (w, HttpError 400 ''invalid json'')
       | NoBody \<Rightarrow> ucp_reply 200 (CancelCheckout E i empty_cancel w)
       | Body q \<Rightarrow> ucp_reply 200 (CancelCheckout E i q w))"

record well_known_profile =
  wk_Version :: string
  wk_ProviderName :: string
  wk_ProviderURL :: string
  wk_Operations :: "string list"
  wk_Endpoints :: "(string \<times> string) list"
  wk_StatusMap :: "(string \<times> string) list"

definition BuildWellKnownProfile :: "ucp_env \<Rightarrow> well_known_profile" where
  "BuildWellKnownProfile E =
     \<lparr>wk_Version = ''1.0.0'', wk_ProviderName = uv_ProviderName E, wk_ProviderURL = uv_ProviderURL E,
      wk_Operations = [''create_checkout'', ''get_checkout'', ''update_checkout'', ''complete_checkout'',
        ''cancel_checkout''],
      wk_Endpoints =
        [(''create_checkout'', ''/api/v1/ucp/checkouts''),
         (''get_checkout'', ''/api/v1/ucp/checkouts/{checkout_id}''),
         (''update_checkout'', ''/api/v1/ucp/checkouts/{checkout_id}''),
         (''complete_checkout'', ''/api/v1/ucp/checkouts/{checkout_id}/complete''),
         (''cancel_checkout'', ''/api/v1/ucp/checkouts/{checkout_id}/cancel'')],
      wk_StatusMap =
        [(''incomplete'', ''Escrow exists but does not yet satisfy completion conditions.''),
         (''requires_escalation'', ''Escrow is disputed and requires explicit dispute resolution.''),
         (''ready_for_complete'', ''Submission exists and is waiting for approval/verification action.''),
         (''complete_in_progress'', ''Settlement is in flight; poll for terminal state.''),
         (''completed'', ''Escrow reached terminal settled path.''),
         (''canceled'', ''Escrow reached terminal canceled/refunded path.'')]\<rparr>"

definition WellKnown :: "ucp_env \<Rightarrow> well_known_profile http" where
  "WellKnown E = HttpOk 200 (BuildWellKnownProfile E)"

text \<open>The projection of a status is always a documented status.\<close>

lemma ProjectStatus_documented: "ProjectStatus s \<in> set (map fst (wk_StatusMap (BuildWellKnownProfile E)))"
  by (simp add: ProjectStatus_def BuildWellKnownProfile_def)

section \<open>Mandates\<close>

definition httpFundViaMandate ::
    "mandate_env \<Rightarrow> (int \<times> mandate_envelope) body \<Rightarrow> mandate_world \<Rightarrow> mandate_world \<times> fund_response http" where
  "httpFundViaMandate M b w =
     (case b of
        Body (escrowID, env) \<Rightarrow>
          (case FundViaMandate M escrowID env w of
             (w1, Inr r) \<Rightarrow> (w1, HttpOk 200 r)
           | (w1, Inl e) \<Rightarrow>
               (w1, if errors_is e ErrInvalidMandate then HttpError 400 ''invalid mandate or escrow binding''
                    else HttpError 500 ''internal server error''))
      | _ \<Rightarrow> (w, HttpError 400 ''invalid request body''))"

record validate_response =
  vr_Valid :: bool
  vr_Reason :: string

definition httpValidateMandate :: "eth_lib \<Rightarrow> mandate_envelope body \<Rightarrow> validate_response http" where
  "httpValidateMandate L b =
     (case b of
        Body env \<Rightarrow>
          (case ValidateMandate L env of
             Some e \<Rightarrow> HttpOk 200 \<lparr>vr_Valid = False, vr_Reason = err_msg e\<rparr>
           | None \<Rightarrow> HttpOk 200 \<lparr>vr_Valid = True, vr_Reason = []\<rparr>)
      | _ \<Rightarrow> HttpError 400 ''invalid request body'')"

definition httpGetMandate :: "string \<Rightarrow> db \<Rightarrow> ap2_mandate http" where
  "httpGetMandate i d =
     (if i = [] then HttpError 400 ''mandate id is required''
      else case GetAP2Mandate d i of Inl e \<Rightarrow> HttpError 404 ''mandate not found'' | Inr m \<Rightarrow> HttpOk 200 m)"

end
