(* ===== verification/ApiEscrow.thy ===== *)
theory ApiEscrow
  imports AdapterApi
begin

text \<open>
  The escrow handlers of \<open>internal/api/handlers.go\<close>: creation of an escrow from a request, the
  operations on an escrow, the views of an escrow and its checkpoints. A path element, a query
  parameter and a decoded body are arguments; a reply is its status with the error text or the payload.
\<close>

record api_env =
  av_Escrow :: escrow_env
  av_ComplexityFloor :: string

abbreviation av_L :: "api_env \<Rightarrow> eth_lib" where "av_L A \<equiv> ee_L (av_Escrow A)"

section \<open>Creating an escrow\<close>

text \<open>\<open>createEscrowRequest\<close> has the fields of the payload of a checkout. The checks below are in the
  order of the code; the text of an error is the text of the reply.\<close>

definition parsed :: "string \<Rightarrow> 'a option \<Rightarrow> gerr + 'a" where
  "parsed msg r = (case r of None \<Rightarrow> Inl (errors_New msg) | Some x \<Rightarrow> Inr x)"

definition require :: "bool \<Rightarrow> string \<Rightarrow> gerr + unit" where
  "require b msg = (if b then Inr () else Inl (errors_New msg))"

lemma parsed_Inr [err_iff]: "parsed msg r = Inr x \<longleftrightarrow> r = Some x"
  by (auto simp: parsed_def split: option.splits)

lemma require_Inr [err_iff]: "require b msg = Inr u \<longleftrightarrow> b"
  by (simp add: require_def)

definition floor_ok :: "string \<Rightarrow> int \<Rightarrow> gerr + unit" where
  "floor_ok fl n = (case ValidateComplexityFloor (Some n) fl of Some e \<Rightarrow> Inl e | None \<Rightarrow> Inr ())"

lemma floor_ok_Inr [err_iff]: "floor_ok fl n = Inr u \<longleftrightarrow> ValidateComplexityFloor (Some n) fl = None"
  by (simp add: floor_ok_def split: option.splits)

definition http_amount :: "string \<Rightarrow> escrow_payload \<Rightarrow> gerr + int" where
  "http_amount fl q =
     okThen (parsed ''invalid amount'' (SetString10 (epl_Amount q))) (\<lambda>n.
     okThen (floor_ok fl n) (\<lambda>_. Inr n))"

definition http_times :: "escrow_payload \<Rightarrow> gerr + payload_times" where
  "http_times q =
     okThen (parsed ''invalid submission_deadline'' (ParseUint64 (epl_SubmissionDeadline q))) (\<lambda>a.
     okThen (parsed ''invalid review_period_seconds'' (ParseUint64 (epl_ReviewPeriodSeconds q))) (\<lambda>b.
     okThen (parsed ''invalid dispute_period_seconds'' (ParseUint64 (epl_DisputePeriodSeconds q))) (\<lambda>c.
     okThen (parsed ''invalid arbitrator_timeout_seconds'' (ParseUint64 (epl_ArbitratorTimeoutSeconds q))) (\<lambda>d.
       Inr \<lparr>pt_Deadline = word_of_nat a, pt_Review = word_of_nat b, pt_Dispute = word_of_nat c,
            pt_ArbTimeout = word_of_nat d\<rparr>))))"

definition http_parties :: "eth_lib \<Rightarrow> escrow_payload \<Rightarrow> gerr + unit" where
  "http_parties L q =
     (let n = int (length (epl_VerifierPanel q)); qc = sint (epl_QuorumVerifierCount q);
          qt = sint (epl_QuorumThreshold q) in
      okThen (require (isValidAddress L (epl_Buyer q)) ''invalid buyer address'') (\<lambda>_.
      okThen (require (isValidAddress L (epl_Worker q)) ''invalid worker address'') (\<lambda>_.
      okThen (require (isValidAddress L (epl_Arbitrator q)) ''invalid arbitrator address'') (\<lambda>_.
      okThen (require (n \<noteq> 0 \<and> n \<le> 7) ''verifier_panel must include between 1 and 7 addresses'') (\<lambda>_.
      okThen (require (0 < qc \<and> qc \<le> 7) ''quorum_verifier_count must be between 1 and 7'') (\<lambda>_.
      okThen (require (qc \<le> n) ''verifier_panel length must be at least quorum_verifier_count'') (\<lambda>_.
        require (0 < qt \<and> qt \<le> qc) ''quorum_threshold must be between 1 and quorum_verifier_count'')))))))"

definition panel_field :: "nat \<Rightarrow> string" where
  "panel_field i = ''verifier_panel['' @ nat_str i @ '']''"

text \<open>The loop over the active part of the panel; \<open>seen\<close> holds the verifiers so far.\<close>

fun http_panel :: "eth_lib \<Rightarrow> addr list \<Rightarrow> addr list \<Rightarrow> string list \<Rightarrow> gerr + unit" where
  "http_panel L parties seen [] = Inr ()"
| "http_panel L parties seen (v # vs) =
     (let f = panel_field (length seen); addr = HexToAddress L v in
      okThen (require (isValidAddress L v) (''invalid '' @ f @ '' address'')) (\<lambda>_.
      okThen (require (addr \<notin> set seen) (''duplicate '' @ f @ '' address'')) (\<lambda>_.
      okThen (require (addr \<notin> set parties) (f @ '' must not overlap buyer, worker, or arbitrator'')) (\<lambda>_.
        http_panel L parties (seen @ [addr]) vs))))"

definition http_stake :: "string \<Rightarrow> string \<Rightarrow> gerr + int" where
  "http_stake field raw =
     (if raw = [] then Inr 0
      else okThen (parsed (''invalid '' @ field) (SetString10 raw)) (\<lambda>n.
           okThen (require (0 \<le> n) (field @ '' must not be negative'')) (\<lambda>_. Inr n)))"

definition http_address :: "(string \<Rightarrow> bool) \<Rightarrow> eth_lib \<Rightarrow> string \<Rightarrow> string \<Rightarrow> gerr + addr" where
  "http_address valid L field raw =
     (if raw = [] then Inr zero_addr
      else okThen (require (valid raw) (''invalid '' @ field @ '' address'')) (\<lambda>_. Inr (HexToAddress L raw)))"

fun http_milestones :: "milestone_payload list \<Rightarrow> gerr + input_milestone list" where
  "http_milestones [] = Inr []"
| "http_milestones (m # ms) =
     okThen (parsed ''invalid milestone amount'' (SetString10 (mpl_Amount m))) (\<lambda>a.
     okThen (require (0 \<le> a) ''invalid milestone amount'') (\<lambda>_.
     okThen (parsed ''invalid milestone submission_deadline'' (ParseUint64 (mpl_SubmissionDeadline m))) (\<lambda>n.
     okThen (http_milestones ms) (\<lambda>r.
       Inr (\<lparr>im_Amount = Some a, im_SubmissionDeadline = word_of_nat n\<rparr> # r)))))"

definition http_extension :: "addr \<Rightarrow> string \<Rightarrow> gerr + uint64" where
  "http_extension backupWorker raw =
     (if raw = [] then Inr 0
      else okThen (require (backupWorker \<noteq> zero_addr) ''backup_deadline_extension set without backup_worker'') (\<lambda>_.
           okThen (parsed ''invalid backup_deadline_extension'' (ParseUint64 raw)) (\<lambda>n. Inr (word_of_nat n))))"

text \<open>\<open>fmt.Sprintf("msg: %v", err)\<close> as the text of a reply.\<close>

definition because :: "string \<Rightarrow> gerr + 'a \<Rightarrow> gerr + 'a" where
  "because msg r = (case r of Inl e \<Rightarrow> Inl (errors_New (msg @ '': '' @ err_msg e)) | Inr x \<Rightarrow> Inr x)"

lemma because_Inr [err_iff]: "because msg r = Inr x \<longleftrightarrow> r = Inr x"
  by (simp add: because_def split: sum.splits)

definition http_circuit :: "escrow_payload \<Rightarrow> addr \<Rightarrow> gerr + hash" where
  "http_circuit q zkVerifier =
     okThen (because ''invalid circuit_id'' (ParseOptionalBytes32Hex (epl_CircuitID q))) (\<lambda>circuitID.
     okThen (require ((zkVerifier = zero_addr) = (epl_CircuitID q = []))
              ''zk_verifier and circuit_id must either both be set or both omitted'') (\<lambda>_.
     okThen (require (0 \<le> sint (epl_ServiceTier q) \<and> sint (epl_ServiceTier q) \<le> 1)
              ''invalid service_tier: must be 0 or 1'') (\<lambda>_. Inr circuitID)))"

text \<open>The parent escrow, if there is one: the checks on its address, its factory and its active worker.\<close>

definition parent_address_msg :: "int \<Rightarrow> string" where
  "parent_address_msg i = ''parent escrow '' @ int_str i @ '' has invalid on-chain address''"
definition parent_factory_msg :: "int \<Rightarrow> string" where
  "parent_factory_msg i = ''parent escrow '' @ int_str i @ '' is from different chain/factory''"
definition parent_buyer_msg :: "string \<Rightarrow> int \<Rightarrow> string \<Rightarrow> string" where
  "parent_buyer_msg buyer i worker = ''sub-delegation buyer ('' @ buyer @ '') must be active worker of parent escrow ''
     @ int_str i @ '' ('' @ worker @ '')''"

definition same_factory :: "escrow_env \<Rightarrow> escrow \<Rightarrow> bool" where
  "same_factory E e \<longleftrightarrow> esc_ChainID e = ee_ChainID E
     \<and> HexToAddress (ee_L E) (esc_FactoryAddress e) = HexToAddress (ee_L E) (ee_FactoryAddress E)"

definition http_parent :: "escrow_env \<Rightarrow> escrow_payload \<Rightarrow> db \<Rightarrow> gerr + addr" where
  "http_parent E q d =
     (case epl_ParentEscrowID q of
        None \<Rightarrow> Inr zero_addr
      | Some i \<Rightarrow>
          okThen (because ''invalid parent_escrow_id'' (GetEscrow d i)) (\<lambda>parent.
            let parsedParent = HexToAddress (ee_L E) (esc_EscrowAddress parent) in
            okThen (require (IsHexAddress (ee_L E) (esc_EscrowAddress parent) \<and> parsedParent \<noteq> zero_addr)
                     (parent_address_msg i)) (\<lambda>_.
            okThen (require (same_factory E parent) (parent_factory_msg i)) (\<lambda>_.
            okThen (require (same_address (ee_L E) (epl_Buyer q) (active_worker parent))
                     (parent_buyer_msg (epl_Buyer q) i (active_worker parent))) (\<lambda>_.
              Inr parsedParent)))))"

definition db_int :: "uint64 \<Rightarrow> string \<Rightarrow> gerr + int" where
  "db_int v field = okThen (Uint64ToInt64 v field) (\<lambda>n. Inr (sint n))"

fun milestone_deadlines :: "nat \<Rightarrow> input_milestone list \<Rightarrow> gerr + int list" where
  "milestone_deadlines i [] = Inr []"
| "milestone_deadlines i (m # ms) =
     okThen (db_int (im_SubmissionDeadline m) (''milestones['' @ nat_str i @ ''].submission_deadline'')) (\<lambda>n.
     okThen (milestone_deadlines (Suc i) ms) (\<lambda>r. Inr (n # r)))"

definition http_create_input :: "api_env \<Rightarrow> escrow_payload \<Rightarrow> db \<Rightarrow> gerr + create_input" where
  "http_create_input A q d =
     (let L = av_L A in
      okThen (http_amount (av_ComplexityFloor A) q) (\<lambda>amount.
      okThen (http_times q) (\<lambda>t.
      okThen (http_parties L q) (\<lambda>_.
      okThen (http_panel L [HexToAddress L (epl_Buyer q), HexToAddress L (epl_Worker q), HexToAddress L (epl_Arbitrator q)]
                [] (take (nat (sint (epl_QuorumVerifierCount q))) (epl_VerifierPanel q))) (\<lambda>_.
      okThen (http_stake ''worker_stake'' (epl_WorkerStake q)) (\<lambda>workerStake.
      okThen (http_stake ''verifier_stake_per_verifier'' (epl_VerifierStakePerVerifier q)) (\<lambda>verifierStake.
      okThen (http_address (IsHexAddress L) L ''token'' (epl_Token q)) (\<lambda>tok.
      okThen (http_milestones (epl_Milestones q)) (\<lambda>ms.
      okThen (http_address (isValidAddress L) L ''backup_worker'' (epl_BackupWorker q)) (\<lambda>backup.
      okThen (http_extension backup (epl_BackupDeadlineExtension q)) (\<lambda>extension.
      okThen (http_address (IsHexAddress L) L ''zk_verifier'' (epl_ZKVerifier q)) (\<lambda>zk.
      okThen (http_circuit q zk) (\<lambda>circuitID.
      okThen (http_parent (av_Escrow A) q d) (\<lambda>parent.
      okThen (db_int (pt_Deadline t) ''submission_deadline'') (\<lambda>deadlineDB.
      okThen (db_int (pt_Review t) ''review_period_seconds'') (\<lambda>reviewDB.
      okThen (db_int (pt_Dispute t) ''dispute_period_seconds'') (\<lambda>disputeDB.
      okThen (db_int (pt_ArbTimeout t) ''arbitrator_timeout_seconds'') (\<lambda>arbDB.
      okThen (db_int extension ''backup_deadline_extension'') (\<lambda>extensionDB.
      okThen (milestone_deadlines 0 ms) (\<lambda>deadlines.
      okThen (IntToUint8 (epl_QuorumThreshold q) ''quorum_threshold'') (\<lambda>threshold.
      okThen (IntToUint8 (epl_QuorumVerifierCount q) ''quorum_verifier_count'') (\<lambda>quorum.
        Inr \<lparr>ci_Title = epl_Title q, ci_Description = epl_Description q, ci_Buyer = epl_Buyer q,
             ci_Worker = epl_Worker q, ci_Arbitrator = epl_Arbitrator q,
             ci_VerifierPanel = epl_VerifierPanel q,
             ci_QuorumThreshold = threshold, ci_QuorumVerifierCount = quorum,
             ci_VerifierStakePerVerifier = Some verifierStake, ci_Amount = Some amount,
             ci_WorkerStake = Some workerStake, ci_SubmissionDeadline = pt_Deadline t,
             ci_ReviewPeriodSeconds = pt_Review t, ci_DisputePeriodSeconds = pt_Dispute t,
             ci_ArbitratorTimeoutSeconds = pt_ArbTimeout t, ci_SubmissionDeadlineDB = deadlineDB,
             ci_ReviewPeriodSecondsDB = reviewDB, ci_DisputePeriodSecondsDB = disputeDB,
             ci_ArbitratorTimeoutSecondsDB = arbDB, ci_Token = tok,
             ci_ServiceTier = (if epl_ServiceTier q = 1 then 1 else 0),
             ci_Milestones = ms, ci_MilestoneDeadlines = deadlines, ci_BackupWorker = backup,
             ci_BackupDeadlineExtension = extension, ci_BackupDeadlineDB = extensionDB, ci_ZKVerifier = zk,
             ci_CircuitID = circuitID, ci_ParentEscrowID = epl_ParentEscrowID q, ci_ParentEscrow = parent,
             ci_TaskSpecHash = Keccak256Hash L (epl_Title q @ epl_Description q)\<rparr>))))))))))))))))))))))"

text \<open>Validation errors of the service are the client's, with the prefix of the sentinel removed.\<close>

definition TrimPrefix :: "string \<Rightarrow> string \<Rightarrow> string" where
  "TrimPrefix s p = (if HasPrefix s p then drop (length p) s else s)"

definition validationMessage :: "gerr \<Rightarrow> string" where
  "validationMessage e =
     (let msg = TrimSpace (TrimPrefix (TrimSpace (err_msg e)) (err_msg ErrValidation @ '':'')) in
      if msg = [] then ''invalid request'' else msg)"

definition handleEscrowServiceActionError :: "gerr \<Rightarrow> 'a http" where
  "handleEscrowServiceActionError e =
     (if IsValidation e then HttpError 400 (validationMessage e) else HttpError 500 ''internal server error'')"

definition http_service :: "nat \<Rightarrow> 'a esc_result \<Rightarrow> escrow_world \<times> 'a http" where
  "http_service code r =
     (case r of (w, Inl e) \<Rightarrow> (w, handleEscrowServiceActionError e) | (w, Inr x) \<Rightarrow> (w, HttpOk code x))"

definition httpCreateEscrow ::
    "api_env \<Rightarrow> escrow_payload body \<Rightarrow> escrow_world \<Rightarrow> escrow_world \<times> create_result http" where
  "httpCreateEscrow A b w =
     (case b of
        Body q \<Rightarrow>
          (case http_create_input A q (ew_DB w) of
             Inl e \<Rightarrow> (w, HttpError 400 (err_msg e))
           | Inr i \<Rightarrow> http_service 201 (CreateEscrow (av_Escrow A) i w))
      | _ \<Rightarrow> (w, HttpError 400 ''invalid json''))"

section \<open>Operations on an escrow\<close>

text \<open>Every operation looks up the escrow of the path, after the checks of its body (\<open>check\<close>), and
  answers with the hash of the transaction.\<close>

definition with_id :: "string \<Rightarrow> (int \<Rightarrow> 'w \<times> 'a http) \<Rightarrow> 'w \<Rightarrow> 'w \<times> 'a http" where
  "with_id path k w = (case ParseInt64 path of None \<Rightarrow> (w, HttpError 400 ''invalid id'') | Some i \<Rightarrow> k i)"

definition with_body :: "'b body \<Rightarrow> ('b \<Rightarrow> 'w \<times> 'a http) \<Rightarrow> 'w \<Rightarrow> 'w \<times> 'a http" where
  "with_body b k w = (case b of Body q \<Rightarrow> k q | _ \<Rightarrow> (w, HttpError 400 ''invalid json''))"

definition with_escrow ::
    "int \<Rightarrow> (escrow \<Rightarrow> escrow_world \<Rightarrow> string esc_result) \<Rightarrow> escrow_world \<Rightarrow> escrow_world \<times> string http" where
  "with_escrow i op w =
     (case GetEscrow (ew_DB w) i of
        Inl _ \<Rightarrow> (w, HttpError 404 ''not found'')
      | Inr e \<Rightarrow> http_service 200 (op e w))"

definition escrow_action ::
    "string \<Rightarrow> (escrow \<Rightarrow> escrow_world \<Rightarrow> string esc_result) \<Rightarrow> escrow_world \<Rightarrow> escrow_world \<times> string http" where
  "escrow_action path op w = with_id path (\<lambda>i. with_escrow i op w) w"

definition httpFundEscrow :: "api_env \<Rightarrow> string \<Rightarrow> escrow_world \<Rightarrow> escrow_world \<times> string http" where
  "httpFundEscrow A path = escrow_action path (FundEscrow (av_Escrow A))"

definition httpDepositStake :: "api_env \<Rightarrow> string \<Rightarrow> escrow_world \<Rightarrow> escrow_world \<times> string http" where
  "httpDepositStake A path = escrow_action path (DepositWorkerStake (av_Escrow A))"

definition httpDepositVerifierStake :: "api_env \<Rightarrow> string \<Rightarrow> escrow_world \<Rightarrow> escrow_world \<times> string http" where
  "httpDepositVerifierStake A path = escrow_action path (DepositVerifierStake (av_Escrow A))"

definition httpWithdrawStake :: "api_env \<Rightarrow> string \<Rightarrow> escrow_world \<Rightarrow> escrow_world \<times> string http" where
  "httpWithdrawStake A path = escrow_action path (WithdrawStake (av_Escrow A))"

definition httpAbortRemainingMilestones :: "api_env \<Rightarrow> string \<Rightarrow> escrow_world \<Rightarrow> escrow_world \<times> string http" where
  "httpAbortRemainingMilestones A path = escrow_action path (AbortRemainingMilestones (av_Escrow A))"

definition httpActivateBackup :: "api_env \<Rightarrow> string \<Rightarrow> escrow_world \<Rightarrow> escrow_world \<times> string http" where
  "httpActivateBackup A path = escrow_action path (ActivateBackup (av_Escrow A))"

definition httpSubmitWork ::
    "api_env \<Rightarrow> string \<Rightarrow> submit_request body \<Rightarrow> escrow_world \<Rightarrow> escrow_world \<times> string http" where
  "httpSubmitWork A path b w =
     with_id path (\<lambda>i. with_body b (\<lambda>q.
       with_escrow i (\<lambda>e. SubmitWork (av_Escrow A) e q) w) w) w"

record approve_request =
  apr_Role :: string
  apr_MilestoneIndex :: "int64 option"

definition httpApproveWork ::
    "api_env \<Rightarrow> string \<Rightarrow> approve_request body \<Rightarrow> escrow_world \<Rightarrow> escrow_world \<times> string http" where
  "httpApproveWork A path b w =
     with_id path (\<lambda>i. with_body b (\<lambda>q.
       with_escrow i (\<lambda>e. ApproveWork (av_Escrow A) e (apr_Role q) (apr_MilestoneIndex q)) w) w) w"

record verify_approve_request =
  var_Proof :: string
  var_MilestoneIndex :: "int64 option"

definition httpVerifyAndApprove ::
    "api_env \<Rightarrow> string \<Rightarrow> verify_approve_request body \<Rightarrow> escrow_world \<Rightarrow> escrow_world \<times> string http" where
  "httpVerifyAndApprove A path b w =
     with_id path (\<lambda>i. with_body b (\<lambda>q.
       case ParseProofHexBytes (var_Proof q) of
         Inl e \<Rightarrow> (w, HttpError 400 (''invalid proof: '' @ err_msg e))
       | Inr proof \<Rightarrow>
           with_escrow i (\<lambda>e. VerifyAndApprove (av_Escrow A) e proof (var_MilestoneIndex q)) w) w) w"

record quorum_vote_request =
  qvr_Approve :: "bool option"
  qvr_ReasonURI :: string
  qvr_MilestoneIndex :: "int64 option"

definition httpCastVerifierVote ::
    "api_env \<Rightarrow> string \<Rightarrow> quorum_vote_request body \<Rightarrow> escrow_world \<Rightarrow> escrow_world \<times> string http" where
  "httpCastVerifierVote A path b w =
     with_id path (\<lambda>i. with_body b (\<lambda>q.
       case qvr_Approve q of
         None \<Rightarrow> (w, HttpError 400 ''approve is required'')
       | Some approve \<Rightarrow>
           with_escrow i (\<lambda>e. CastVerifierVote (av_Escrow A) e approve (qvr_ReasonURI q) (qvr_MilestoneIndex q)) w) w) w"

record dispute_request =
  dsr_Role :: string
  dsr_ReasonURI :: string
  dsr_MilestoneIndex :: "int64 option"

definition httpDisputeWork ::
    "api_env \<Rightarrow> string \<Rightarrow> dispute_request body \<Rightarrow> escrow_world \<Rightarrow> escrow_world \<times> string http" where
  "httpDisputeWork A path b w =
     with_id path (\<lambda>i. with_body b (\<lambda>q.
       with_escrow i (\<lambda>e. DisputeWork (av_Escrow A) e (dsr_Role q) (dsr_ReasonURI q) (dsr_MilestoneIndex q)) w) w) w"

text \<open>\<open>strconv.ParseUint(s, 10, 16)\<close>.\<close>

definition ParseUint16 :: "string \<Rightarrow> 16 word option" where
  "ParseUint16 s =
     (case parse_nat s of None \<Rightarrow> None | Some n \<Rightarrow> if n < 2 ^ 16 then Some (word_of_nat n) else None)"

record resolve_request =
  rsr_WorkerAwardBps :: string
  rsr_ResolutionURI :: string
  rsr_MilestoneIndex :: "int64 option"

definition httpResolveDispute ::
    "api_env \<Rightarrow> string \<Rightarrow> resolve_request body \<Rightarrow> escrow_world \<Rightarrow> escrow_world \<times> string http" where
  "httpResolveDispute A path b w =
     with_id path (\<lambda>i. with_body b (\<lambda>q.
       case ParseUint16 (rsr_WorkerAwardBps q) of
         None \<Rightarrow> (w, HttpError 400 ''invalid worker_award_bps'')
       | Some bps \<Rightarrow>
           with_escrow i (\<lambda>e. ResolveDispute (av_Escrow A) e bps (rsr_ResolutionURI q) (rsr_MilestoneIndex q)) w) w) w"

text \<open>The routes of \<open>internal/api/router.go\<close> that act on an escrow.\<close>

datatype escrow_route =
    PostFund | PostDepositStake | PostDepositVerifierStake | PostWithdrawStake
  | PostSubmit "submit_request body"
  | PostApprove "approve_request body"
  | PostVerifyApprove "verify_approve_request body"
  | PostQuorumVote "quorum_vote_request body"
  | PostDispute "dispute_request body"
  | PostResolve "resolve_request body"
  | PostAbortMilestones | PostActivateBackup

fun route_escrow ::
    "api_env \<Rightarrow> escrow_route \<Rightarrow> string \<Rightarrow> escrow_world \<Rightarrow> escrow_world \<times> string http" where
  "route_escrow A PostFund path = httpFundEscrow A path"
| "route_escrow A PostDepositStake path = httpDepositStake A path"
| "route_escrow A PostDepositVerifierStake path = httpDepositVerifierStake A path"
| "route_escrow A PostWithdrawStake path = httpWithdrawStake A path"
| "route_escrow A (PostSubmit b) path = httpSubmitWork A path b"
| "route_escrow A (PostApprove b) path = httpApproveWork A path b"
| "route_escrow A (PostVerifyApprove b) path = httpVerifyAndApprove A path b"
| "route_escrow A (PostQuorumVote b) path = httpCastVerifierVote A path b"
| "route_escrow A (PostDispute b) path = httpDisputeWork A path b"
| "route_escrow A (PostResolve b) path = httpResolveDispute A path b"
| "route_escrow A PostAbortMilestones path = httpAbortRemainingMilestones A path"
| "route_escrow A PostActivateBackup path = httpActivateBackup A path"

section \<open>Views\<close>

record escrow_view =
  ev_Escrow :: escrow
  ev_Milestones :: "milestone list option"
  ev_Chains :: "attestation_chain list"
  ev_ChildEscrowIDs :: "int list"

definition http_by_id :: "string \<Rightarrow> (int \<Rightarrow> 'a http) \<Rightarrow> 'a http" where
  "http_by_id path k = (case ParseInt64 path of None \<Rightarrow> HttpError 400 ''invalid id'' | Some i \<Rightarrow> k i)"

definition httpGetEscrow :: "string \<Rightarrow> db \<Rightarrow> escrow_view http" where
  "httpGetEscrow path d =
     http_by_id path (\<lambda>i.
       case GetEscrow d i of
         Inl _ \<Rightarrow> HttpError 404 ''not found''
       | Inr e \<Rightarrow> HttpOk 200
           \<lparr>ev_Escrow = e,
            ev_Milestones = (if 1 < esc_MilestoneCount e then Some (GetMilestonesByEscrow d i) else None),
            ev_Chains = GetAttestationChainsByEscrow d i,
            ev_ChildEscrowIDs = map esc_ID (ListChildEscrows d i)\<rparr>)"

text \<open>The lookup of the handlers that tell a missing escrow from a failed query.\<close>

definition escrow_or ::
    "string \<Rightarrow> int \<Rightarrow> db \<Rightarrow> (escrow \<Rightarrow> 'a http) \<Rightarrow> 'a http" where
  "escrow_or missing i d k =
     (case GetEscrow d i of
        Inl e \<Rightarrow> if errors_is e ErrNoRows then HttpError 404 missing else HttpError 500 ''failed to fetch escrow''
      | Inr e \<Rightarrow> k e)"

definition httpGetAttestationChain ::
    "string \<Rightarrow> db \<Rightarrow> (attestation_chain \<times> attestation_link list) list http" where
  "httpGetAttestationChain path d =
     http_by_id path (\<lambda>i. escrow_or ''not found'' i d (\<lambda>_.
       HttpOk 200 (map (\<lambda>ac. (ac, GetAttestationLinksByChain d (ac_ID ac))) (GetAttestationChainsByEscrow d i))))"

definition httpListChildEscrows :: "string \<Rightarrow> db \<Rightarrow> escrow list http" where
  "httpListChildEscrows path d =
     http_by_id path (\<lambda>i. escrow_or ''not found'' i d (\<lambda>_. HttpOk 200 (ListChildEscrows d i)))"

definition httpListEscrows :: "string \<Rightarrow> string \<Rightarrow> string \<Rightarrow> db \<Rightarrow> escrow list http" where
  "httpListEscrows role address status d =
     (case ListEscrows d role address status of
        Inl _ \<Rightarrow> HttpError 500 ''internal server error'' | Inr es \<Rightarrow> HttpOk 200 es)"

section \<open>Checkpoints\<close>

record checkpoint_request =
  cpr_StateSnapshotURI :: string
  cpr_SnapshotHash :: string
  cpr_SchemaVersion :: string
  cpr_CommittedBy :: string
  cpr_MilestoneIndex :: "int option"
  cpr_CompletionPct :: "int option"
  cpr_MetadataJSON :: string

definition range_msg :: "int \<Rightarrow> int \<Rightarrow> string" where
  "range_msg i n = ''milestone_index '' @ int_str i @ '' out of range [0, '' @ int_str n @ '')''"

definition checkpoint_of_request :: "int \<Rightarrow> checkpoint_request \<Rightarrow> checkpoint" where
  "checkpoint_of_request i q =
     \<lparr>cp_ID = 0, cp_EscrowID = i, cp_MilestoneIndex = cpr_MilestoneIndex q,
      cp_StateSnapshotURI = cpr_StateSnapshotURI q, cp_SnapshotHash = cpr_SnapshotHash q,
      cp_SchemaVersion = cpr_SchemaVersion q, cp_CommittedBy = cpr_CommittedBy q,
      cp_CompletionPct = cpr_CompletionPct q, cp_MetadataJSON = cpr_MetadataJSON q, cp_CreatedAt = 0\<rparr>"

text \<open>The checks of a checkpoint against its escrow: a status and a text, if one fails.\<close>

definition checkpoint_refusal :: "escrow \<Rightarrow> checkpoint_request \<Rightarrow> (nat \<times> string) option" where
  "checkpoint_refusal e q =
     (if \<not> EqualFold (cpr_CommittedBy q) (esc_ActiveWorker e)
      then Some (403, ''only the active worker can commit checkpoints'')
      else if (case cpr_MilestoneIndex q of None \<Rightarrow> False | Some m \<Rightarrow> m < 0 \<or> m \<ge> esc_MilestoneCount e)
      then Some (400, range_msg (the (cpr_MilestoneIndex q)) (esc_MilestoneCount e))
      else if (case cpr_CompletionPct q of None \<Rightarrow> False | Some v \<Rightarrow> v < 0 \<or> v > 100)
      then Some (400, ''completion_pct must be 0-100'')
      else if cpr_MetadataJSON q \<noteq> [] \<and> \<not> json_valid (cpr_MetadataJSON q)
      then Some (400, ''metadata_json must be valid JSON'')
      else None)"

definition httpCommitCheckpoint ::
    "int \<Rightarrow> string \<Rightarrow> checkpoint_request body \<Rightarrow> db \<Rightarrow> db \<times> checkpoint http" where
  "httpCommitCheckpoint now path b d =
     with_id path (\<lambda>i. with_body b (\<lambda>q.
       if cpr_StateSnapshotURI q = [] then (d, HttpError 400 ''state_snapshot_uri is required'')
       else if cpr_CommittedBy q = [] then (d, HttpError 400 ''committed_by is required'')
       else case GetEscrow d i of
         Inl e \<Rightarrow> (d, if errors_is e ErrNoRows then HttpError 404 ''escrow not found''
                      else HttpError 500 ''failed to fetch escrow'')
       | Inr e \<Rightarrow>
           (case checkpoint_refusal e q of
              Some (code, msg) \<Rightarrow> (d, HttpError code msg)
            | None \<Rightarrow>
                (case createCheckpointOn now (checkpoint_of_request i q) d of
                   (d1, Inl _) \<Rightarrow> (d1, HttpError 500 ''failed to create checkpoint'')
                 | (d1, Inr cp) \<Rightarrow> (d1, HttpOk 201 cp)))) d) d"

text \<open>The optional query parameter \<open>milestone_index\<close>.\<close>

definition with_milestone_param :: "string \<Rightarrow> escrow \<Rightarrow> (int option \<Rightarrow> 'a http) \<Rightarrow> 'a http" where
  "with_milestone_param s e k =
     (if s = [] then k None
      else case ParseInt64 s of
        None \<Rightarrow> HttpError 400 ''invalid milestone_index''
      | Some m \<Rightarrow>
          if m < 0 \<or> m \<ge> esc_MilestoneCount e then HttpError 400 (range_msg m (esc_MilestoneCount e))
          else k (Some m))"

definition httpListCheckpoints :: "string \<Rightarrow> string \<Rightarrow> db \<Rightarrow> checkpoint list http" where
  "httpListCheckpoints path milestoneIndex d =
     http_by_id path (\<lambda>i. escrow_or ''escrow not found'' i d (\<lambda>e.
       with_milestone_param milestoneIndex e (\<lambda>m. HttpOk 200 (ListCheckpointsByEscrow d i m))))"

definition httpGetLatestCheckpoint :: "string \<Rightarrow> string \<Rightarrow> db \<Rightarrow> checkpoint http" where
  "httpGetLatestCheckpoint path milestoneIndex d =
     http_by_id path (\<lambda>i. escrow_or ''escrow not found'' i d (\<lambda>e.
       with_milestone_param milestoneIndex e (\<lambda>m.
         case GetLatestCheckpoint d i m of
           Inl err \<Rightarrow> if errors_is err ErrNoRows then HttpError 404 ''no checkpoints found''
                      else HttpError 500 ''failed to get latest checkpoint''
         | Inr cp \<Rightarrow> HttpOk 200 cp)))"

end
