(* ===== verification/McpEscrow.thy ===== *)
theory McpEscrow
  imports ApiEscrow
begin

text \<open>
  The escrow tools of \<open>internal/mcpserver/tools.go\<close>. Numbers of the arguments are \<open>FlexibleString\<close>s, so
  they arrive as text; a tool answers with a text (errors, too) or with a JSON value. The tools parse
  and check the same requests as the HTTP handlers of theory \<open>ApiEscrow\<close>, in another order and with other
  texts; theory \<open>FrontProps\<close> compares what the two pass to the escrow service.
\<close>

datatype 'a tool = ToolText string | ToolJSON 'a

record mcp_env =
  mc_Escrow :: escrow_env
  mc_ComplexityFloor :: string
  mc_Signer :: addr

abbreviation mc_L :: "mcp_env \<Rightarrow> eth_lib" where "mc_L M \<equiv> ee_L (mc_Escrow M)"

section \<open>Numbers\<close>

text \<open>\<open>strconv.ParseUint(s, 10, bits)\<close> with its \<open>NumError\<close>: the digits are read from the left, and the
  first that is not a digit or takes the value over the maximum decides.\<close>

definition num_error :: "string \<Rightarrow> string \<Rightarrow> string \<Rightarrow> gerr" where
  "num_error fn s why = errors_New (''strconv.'' @ fn @ '': parsing '' @ Quote s @ '': '' @ why)"

fun scan_uint :: "nat \<Rightarrow> nat \<Rightarrow> string \<Rightarrow> string + nat" where
  "scan_uint mx acc [] = Inr acc"
| "scan_uint mx acc (c # s) =
     (case digit_val c of
        None \<Rightarrow> Inl ''invalid syntax''
      | Some v \<Rightarrow> if mx < 10 * acc + v then Inl ''value out of range'' else scan_uint mx (10 * acc + v) s)"

definition scan_number :: "nat \<Rightarrow> string \<Rightarrow> string + nat" where
  "scan_number mx s = (if s = [] then Inl ''invalid syntax'' else scan_uint mx 0 s)"

definition ParseUint :: "nat \<Rightarrow> string \<Rightarrow> gerr + nat" where
  "ParseUint bits s =
     (case scan_number (2 ^ bits - 1) s of Inl why \<Rightarrow> Inl (num_error ''ParseUint'' s why) | Inr n \<Rightarrow> Inr n)"

text \<open>\<open>ParseInt(s, 10, 64)\<close> and \<open>Atoi\<close>, which differ in the name in the error only.\<close>

definition ParseIntAs :: "string \<Rightarrow> string \<Rightarrow> gerr + int" where
  "ParseIntAs fn s =
     (let neg = HasPrefix s ''-''; t = (if neg \<or> HasPrefix s ''+'' then tl s else s) in
      case scan_number (2 ^ 64 - 1) t of
        Inl why \<Rightarrow> Inl (num_error fn s why)
      | Inr n \<Rightarrow>
          if (if neg then 2 ^ 63 < n else 2 ^ 63 \<le> n) then Inl (num_error fn s ''value out of range'')
          else Inr (if neg then - int n else int n))"

lemma digits_val_mono: "digits_val acc s = Some n \<Longrightarrow> acc \<le> n"
proof (induction s arbitrary: acc)
  case (Cons c s)
  then obtain v where "digit_val c = Some v" "digits_val (10 * acc + v) s = Some n"
    by (auto split: option.splits)
  with Cons.IH[of "10 * acc + v"] show ?case by simp
qed simp

lemma scan_uint_Inr:
  "acc \<le> mx \<Longrightarrow> scan_uint mx acc s = Inr n \<longleftrightarrow> digits_val acc s = Some n \<and> n \<le> mx"
proof (induction s arbitrary: acc)
  case (Cons c s)
  show ?case
  proof (cases "digit_val c")
    case (Some v)
    with Cons.IH[of "10 * acc + v"] digits_val_mono[of "10 * acc + v" s n] show ?thesis by auto
  qed simp
qed auto

lemma ParseUint_Inr [err_iff]: "ParseUint b s = Inr n \<longleftrightarrow> parse_nat s = Some n \<and> n < 2 ^ b"
proof -
  have "n \<le> 2 ^ b - 1 \<longleftrightarrow> n < 2 ^ b" by (metis Nat.le_diff_conv2 One_nat_def Suc_eq_plus1 Suc_leI less_eq_Suc_le one_le_numeral one_le_power)
  with scan_uint_Inr[of 0 "2 ^ b - 1" s n] show ?thesis
    by (auto simp: ParseUint_def scan_number_def parse_nat_def split: sum.splits)
qed

section \<open>Creating an escrow\<close>

record mcp_milestone =
  mm_Amount :: string
  mm_SubmissionDeadline :: string

record create_escrow_args =
  cea_Title :: string
  cea_Description :: string
  cea_Buyer :: string
  cea_Worker :: string
  cea_VerifierPanel :: "string list"
  cea_QuorumThreshold :: string
  cea_QuorumVerifierCount :: string
  cea_VerifierStakePerVerifier :: string
  cea_Arbitrator :: string
  cea_Amount :: string
  cea_WorkerStake :: string
  cea_SubmissionDeadline :: string
  cea_ReviewPeriodSeconds :: string
  cea_DisputePeriodSeconds :: string
  cea_ArbitratorTimeoutSeconds :: string
  cea_Token :: string
  cea_ServiceTier :: string
  cea_Milestones :: "mcp_milestone list"
  cea_BackupWorker :: string
  cea_BackupDeadlineExtension :: string
  cea_ZKVerifier :: string
  cea_CircuitID :: string
  cea_ParentEscrowID :: string

definition mcp_parties :: "eth_lib \<Rightarrow> create_escrow_args \<Rightarrow> gerr + addr \<times> addr \<times> addr" where
  "mcp_parties L a =
     (let buyer = HexToAddress L (cea_Buyer a); worker = HexToAddress L (cea_Worker a);
          arbitrator = HexToAddress L (cea_Arbitrator a) in
      okThen (require (IsHexAddress L (cea_Buyer a)) ''invalid buyer address'') (\<lambda>_.
      okThen (require (IsHexAddress L (cea_Worker a)) ''invalid worker address'') (\<lambda>_.
      okThen (require (IsHexAddress L (cea_Arbitrator a)) ''invalid arbitrator address'') (\<lambda>_.
      okThen (require (buyer \<noteq> zero_addr) ''zero buyer address'') (\<lambda>_.
      okThen (require (worker \<noteq> zero_addr) ''zero worker address'') (\<lambda>_.
      okThen (require (arbitrator \<noteq> zero_addr) ''zero arbitrator address'') (\<lambda>_.
      okThen (require (buyer \<noteq> worker) ''buyer and worker must be distinct'') (\<lambda>_.
      okThen (require (buyer \<noteq> arbitrator) ''buyer and arbitrator must be distinct'') (\<lambda>_.
      okThen (require (worker \<noteq> arbitrator) ''worker and arbitrator must be distinct'') (\<lambda>_.
        Inr (buyer, worker, arbitrator)))))))))))"

definition uint_arg :: "nat \<Rightarrow> string \<Rightarrow> string \<Rightarrow> gerr + nat" where
  "uint_arg bits field s = because (''invalid '' @ field) (ParseUint bits s)"

definition mcp_times :: "create_escrow_args \<Rightarrow> gerr + payload_times" where
  "mcp_times a =
     okThen (uint_arg 64 ''submission_deadline'' (cea_SubmissionDeadline a)) (\<lambda>d.
     okThen (uint_arg 64 ''review_period_seconds'' (cea_ReviewPeriodSeconds a)) (\<lambda>r.
     okThen (uint_arg 64 ''dispute_period_seconds'' (cea_DisputePeriodSeconds a)) (\<lambda>p.
     okThen (uint_arg 64 ''arbitrator_timeout_seconds'' (cea_ArbitratorTimeoutSeconds a)) (\<lambda>t.
       Inr \<lparr>pt_Deadline = word_of_nat d, pt_Review = word_of_nat r, pt_Dispute = word_of_nat p,
            pt_ArbTimeout = word_of_nat t\<rparr>))))"

definition mcp_stake :: "string \<Rightarrow> string \<Rightarrow> gerr + int" where
  "mcp_stake field raw =
     (if raw = [] then Inr 0
      else okThen (parsed (''invalid '' @ field) (SetString10 raw)) (\<lambda>n.
           okThen (require (0 \<le> n) (''invalid '' @ field @ '': must not be negative'')) (\<lambda>_. Inr n)))"

text \<open>The size of the panel and the quorum.\<close>

definition mcp_quorum :: "create_escrow_args \<Rightarrow> gerr + nat \<times> nat" where
  "mcp_quorum a =
     (let n = length (cea_VerifierPanel a) in
      okThen (require (n \<noteq> 0 \<and> n \<le> 7) ''verifier_panel must include between 1 and 7 addresses'') (\<lambda>_.
      okThen (uint_arg 8 ''quorum_verifier_count'' (cea_QuorumVerifierCount a)) (\<lambda>qc.
      okThen (require (qc \<noteq> 0 \<and> qc \<le> 7) ''invalid quorum_verifier_count: must be 1..7'') (\<lambda>_.
      okThen (uint_arg 8 ''quorum_threshold'' (cea_QuorumThreshold a)) (\<lambda>qt.
      okThen (require (qt \<noteq> 0 \<and> qt \<le> qc) ''invalid quorum_threshold: must be 1..quorum_verifier_count'') (\<lambda>_.
      okThen (require (qc \<le> n) ''verifier_panel length must be at least quorum_verifier_count'') (\<lambda>_.
        Inr (qc, qt))))))))"

fun mcp_panel :: "eth_lib \<Rightarrow> addr list \<Rightarrow> addr list \<Rightarrow> string list \<Rightarrow> gerr + unit" where
  "mcp_panel L parties seen [] = Inr ()"
| "mcp_panel L parties seen (v # vs) =
     (let f = ''invalid '' @ panel_field (length seen); addr = HexToAddress L v in
      okThen (require (IsHexAddress L v) (f @ '' address'')) (\<lambda>_.
      okThen (require (addr \<noteq> zero_addr) (f @ '': zero address'')) (\<lambda>_.
      okThen (require (addr \<notin> set seen) (f @ '': duplicate address'')) (\<lambda>_.
      okThen (require (addr \<notin> set parties) (f @ '': overlaps with buyer, worker, or arbitrator'')) (\<lambda>_.
        mcp_panel L parties (seen @ [addr]) vs)))))"

fun mcp_milestones :: "mcp_milestone list \<Rightarrow> gerr + input_milestone list" where
  "mcp_milestones [] = Inr []"
| "mcp_milestones (m # ms) =
     (let msg = ''invalid milestone amount: '' @ mm_Amount m in
      okThen (parsed msg (SetString10 (mm_Amount m))) (\<lambda>n.
      okThen (require (0 \<le> n) msg) (\<lambda>_.
      okThen (uint_arg 64 ''milestone submission_deadline'' (mm_SubmissionDeadline m)) (\<lambda>t.
      okThen (mcp_milestones ms) (\<lambda>r.
        Inr (\<lparr>im_Amount = Some n, im_SubmissionDeadline = word_of_nat t\<rparr> # r))))))"

definition mcp_backup :: "eth_lib \<Rightarrow> create_escrow_args \<Rightarrow> gerr + addr \<times> uint64" where
  "mcp_backup L a =
     okThen (http_address (IsHexAddress L) L ''backup_worker'' (cea_BackupWorker a)) (\<lambda>backup.
     okThen (if cea_BackupDeadlineExtension a = [] then Inr 0
             else uint_arg 64 ''backup_deadline_extension'' (cea_BackupDeadlineExtension a)) (\<lambda>n.
     okThen (require (\<not> (0 < n \<and> (cea_BackupWorker a = [] \<or> HexToAddress L (cea_BackupWorker a) = zero_addr)))
              ''backup_deadline_extension set but no backup_worker provided'') (\<lambda>_.
       Inr (backup, word_of_nat n))))"

definition mcp_circuit :: "create_escrow_args \<Rightarrow> addr \<Rightarrow> gerr + hash" where
  "mcp_circuit a zkVerifier =
     okThen (because ''invalid circuit_id'' (ParseOptionalBytes32Hex (cea_CircuitID a))) (\<lambda>circuitID.
     okThen (require ((zkVerifier = zero_addr) = (cea_CircuitID a = []))
              ''zk_verifier and circuit_id must either both be set or both omitted'') (\<lambda>_. Inr circuitID))"

definition mcp_tier :: "string \<Rightarrow> gerr + byte" where
  "mcp_tier s =
     (if s = [] \<or> s = ''0'' then Inr 0
      else if s = ''1'' then Inr 1
      else Inl (errors_New ''invalid service_tier: must be 0 (low_assurance) or 1 (high_assurance)''))"

definition mcp_parent :: "escrow_env \<Rightarrow> create_escrow_args \<Rightarrow> db \<Rightarrow> gerr + int option \<times> addr" where
  "mcp_parent E a d =
     (if cea_ParentEscrowID a = [] then Inr (None, zero_addr)
      else okThen (because ''invalid parent_escrow_id'' (ParseIntAs ''ParseInt'' (cea_ParentEscrowID a))) (\<lambda>i.
           okThen (because ''invalid parent_escrow_id'' (GetEscrow d i)) (\<lambda>parent.
           okThen (require (IsHexAddress (ee_L E) (esc_EscrowAddress parent)) (parent_address_msg i)) (\<lambda>_.
           okThen (require (same_factory E parent) (parent_factory_msg i)) (\<lambda>_.
           okThen (require (same_address (ee_L E) (cea_Buyer a) (active_worker parent))
                    (parent_buyer_msg (cea_Buyer a) i (active_worker parent))) (\<lambda>_.
             Inr (Some i, HexToAddress (ee_L E) (esc_EscrowAddress parent))))))))"

definition mcp_create_input :: "mcp_env \<Rightarrow> create_escrow_args \<Rightarrow> db \<Rightarrow> gerr + create_input" where
  "mcp_create_input M a d =
     (let L = mc_L M in
      okThen (mcp_parties L a) (\<lambda>(buyer, worker, arbitrator).
      okThen (parsed ''invalid amount'' (SetString10 (cea_Amount a))) (\<lambda>amount.
      okThen (floor_ok (mc_ComplexityFloor M) amount) (\<lambda>_.
      okThen (mcp_times a) (\<lambda>t.
      okThen (mcp_stake ''worker_stake'' (cea_WorkerStake a)) (\<lambda>workerStake.
      okThen (mcp_stake ''verifier_stake_per_verifier'' (cea_VerifierStakePerVerifier a)) (\<lambda>verifierStake.
      okThen (mcp_quorum a) (\<lambda>(qc, qt).
      okThen (mcp_panel L [buyer, worker, arbitrator] [] (take qc (cea_VerifierPanel a))) (\<lambda>_.
      okThen (http_address (IsHexAddress L) L ''token'' (cea_Token a)) (\<lambda>tok.
      okThen (mcp_milestones (cea_Milestones a)) (\<lambda>ms.
      okThen (mcp_backup L a) (\<lambda>(backup, extension).
      okThen (http_address (IsHexAddress L) L ''zk_verifier'' (cea_ZKVerifier a)) (\<lambda>zk.
      okThen (mcp_circuit a zk) (\<lambda>circuitID.
      okThen (mcp_tier (cea_ServiceTier a)) (\<lambda>tier.
      okThen (mcp_parent (mc_Escrow M) a d) (\<lambda>(parentID, parent).
      okThen (db_int (pt_Deadline t) ''submission_deadline'') (\<lambda>deadlineDB.
      okThen (db_int (pt_Review t) ''review_period_seconds'') (\<lambda>reviewDB.
      okThen (db_int (pt_Dispute t) ''dispute_period_seconds'') (\<lambda>disputeDB.
      okThen (db_int (pt_ArbTimeout t) ''arbitrator_timeout_seconds'') (\<lambda>arbDB.
      okThen (db_int extension ''backup_deadline_extension'') (\<lambda>extensionDB.
      okThen (milestone_deadlines 0 ms) (\<lambda>deadlines.
        Inr \<lparr>ci_Title = cea_Title a, ci_Description = cea_Description a, ci_Buyer = cea_Buyer a,
             ci_Worker = cea_Worker a, ci_Arbitrator = cea_Arbitrator a,
             ci_VerifierPanel = cea_VerifierPanel a,
             ci_QuorumThreshold = word_of_nat qt, ci_QuorumVerifierCount = word_of_nat qc,
             ci_VerifierStakePerVerifier = Some verifierStake, ci_Amount = Some amount,
             ci_WorkerStake = Some workerStake, ci_SubmissionDeadline = pt_Deadline t,
             ci_ReviewPeriodSeconds = pt_Review t, ci_DisputePeriodSeconds = pt_Dispute t,
             ci_ArbitratorTimeoutSeconds = pt_ArbTimeout t, ci_SubmissionDeadlineDB = deadlineDB,
             ci_ReviewPeriodSecondsDB = reviewDB, ci_DisputePeriodSecondsDB = disputeDB,
             ci_ArbitratorTimeoutSecondsDB = arbDB, ci_Token = tok, ci_ServiceTier = tier,
             ci_Milestones = ms, ci_MilestoneDeadlines = deadlines, ci_BackupWorker = backup,
             ci_BackupDeadlineExtension = extension, ci_BackupDeadlineDB = extensionDB, ci_ZKVerifier = zk,
             ci_CircuitID = circuitID, ci_ParentEscrowID = parentID, ci_ParentEscrow = parent,
             ci_TaskSpecHash = Keccak256Hash L (cea_Title a @ cea_Description a)\<rparr>))))))))))))))))))))))"

text \<open>The result of a service call as the reply of a tool: \<open>txt\<close> makes the text of an error.\<close>

definition tool_result :: "(gerr \<Rightarrow> string) \<Rightarrow> ('a \<Rightarrow> 'b) \<Rightarrow> 'w \<times> (gerr + 'a) \<Rightarrow> 'w \<times> 'b tool" where
  "tool_result txt f r = (case r of (w, Inl e) \<Rightarrow> (w, ToolText (txt e)) | (w, Inr x) \<Rightarrow> (w, ToolJSON (f x)))"

definition toolCreateEscrow ::
    "mcp_env \<Rightarrow> create_escrow_args \<Rightarrow> escrow_world \<Rightarrow> escrow_world \<times> (create_result \<times> string) tool" where
  "toolCreateEscrow M a w =
     (case mcp_create_input M a (ew_DB w) of
        Inl e \<Rightarrow> (w, ToolText (err_msg e))
      | Inr i \<Rightarrow>
          tool_result (\<lambda>e. ''create escrow error: '' @ err_msg e)
            (\<lambda>r. (r, ''Call fund_escrow with escrow_id to fund this escrow. After funding, the worker can submit_work.''))
            (CreateEscrow (mc_Escrow M) i w))"

section \<open>Operations on an escrow\<close>

text \<open>The hash of the transaction, and what to do next.\<close>

type_synonym tx_reply = "string \<times> string option"

definition mcp_escrow ::
    "mcp_env \<Rightarrow> string \<Rightarrow> (escrow \<Rightarrow> escrow_world \<times> 'b tool) \<Rightarrow> escrow_world \<Rightarrow> escrow_world \<times> 'b tool" where
  "mcp_escrow M i k w =
     (case ResolveEscrowID (mc_L M) i (ew_DB w) of
        Inl e \<Rightarrow> (w, ToolText (''not found: '' @ err_msg e))
      | Inr e \<Rightarrow> k e)"

definition indexer_note :: string where
  "indexer_note = ''Check get_escrow for updated status after indexer settles (~15s).''"

definition fund_note :: "escrow \<Rightarrow> string" where
  "fund_note e =
     ''Status updates are eventually consistent (~15s indexer lag). Poll get_escrow until status=funded. ''
     @ (if HasStake e then ''Worker must call deposit_stake before submit_work (stake_required=true).''
        else ''The worker can now call submit_work.'')"

definition toolFundEscrow :: "mcp_env \<Rightarrow> string \<Rightarrow> escrow_world \<Rightarrow> escrow_world \<times> tx_reply tool" where
  "toolFundEscrow M i w =
     mcp_escrow M i (\<lambda>e. tool_result (\<lambda>err. ''fund error: '' @ err_msg err) (\<lambda>tx. (tx, Some (fund_note e)))
       (FundEscrow (mc_Escrow M) e w)) w"

definition toolDepositStake :: "mcp_env \<Rightarrow> string \<Rightarrow> escrow_world \<Rightarrow> escrow_world \<times> tx_reply tool" where
  "toolDepositStake M i w =
     mcp_escrow M i (\<lambda>e. tool_result err_msg (\<lambda>tx. (tx, Some ''Worker can now call submit_work.''))
       (DepositWorkerStake (mc_Escrow M) e w)) w"

definition toolDepositVerifierStake :: "mcp_env \<Rightarrow> string \<Rightarrow> escrow_world \<Rightarrow> escrow_world \<times> tx_reply tool" where
  "toolDepositVerifierStake M i w =
     mcp_escrow M i (\<lambda>e. tool_result err_msg (\<lambda>tx. (tx, Some ''Verifier can now cast_verifier_vote.''))
       (DepositVerifierStake (mc_Escrow M) e w)) w"

definition toolWithdrawStake :: "mcp_env \<Rightarrow> string \<Rightarrow> escrow_world \<Rightarrow> escrow_world \<times> tx_reply tool" where
  "toolWithdrawStake M i w =
     mcp_escrow M i (\<lambda>e. tool_result (\<lambda>err. ''withdraw error: '' @ err_msg err) (\<lambda>tx. (tx, None))
       (WithdrawStake (mc_Escrow M) e w)) w"

definition parseOptionalMilestoneIndex :: "string \<Rightarrow> int \<Rightarrow> gerr + int64 option" where
  "parseOptionalMilestoneIndex raw maxCount =
     (if raw = [] then Inr None
      else case ParseIntAs ''Atoi'' raw of
        Inl e \<Rightarrow> Inl (wrap ''invalid milestone_index'' e)
      | Inr v \<Rightarrow>
          if v < 0 \<or> v \<ge> maxCount then Inl (errors_New (range_msg v maxCount)) else Inr (Some (word_of_int v)))"

definition parseEscrowMilestoneIndex :: "string \<Rightarrow> escrow \<Rightarrow> gerr + int64 option" where
  "parseEscrowMilestoneIndex raw e = parseOptionalMilestoneIndex (TrimSpace raw) (esc_MilestoneCount e)"

definition mcp_milestone_op ::
    "escrow \<Rightarrow> string \<Rightarrow> (int64 option \<Rightarrow> escrow_world \<Rightarrow> escrow_world \<times> 'b tool) \<Rightarrow> escrow_world
      \<Rightarrow> escrow_world \<times> 'b tool" where
  "mcp_milestone_op e raw k w =
     (case parseEscrowMilestoneIndex raw e of
        Inl err \<Rightarrow> (w, ToolText (err_msg err))
      | Inr m \<Rightarrow> k m w)"

record submit_args =
  sba_EscrowID :: string
  sba_SubmissionURI :: string
  sba_ProofHash :: string
  sba_MilestoneIndex :: string
  sba_AttestationChainJSON :: string

definition signer_msg :: "string \<Rightarrow> string \<Rightarrow> string" where
  "signer_msg signer worker =
     ''submit_work requires the worker'' @ [CHR 0x27] @ ''s signature. The server is configured with key for ''
     @ signer @ '', but the escrow worker is '' @ worker
     @ ''. Set PRIVATE_KEY in the environment or run a server instance with the worker'' @ [CHR 0x27]
     @ ''s private key.''"

definition toolSubmitWork :: "mcp_env \<Rightarrow> submit_args \<Rightarrow> escrow_world \<Rightarrow> escrow_world \<times> tx_reply tool" where
  "toolSubmitWork M a w =
     mcp_escrow M (sba_EscrowID a) (\<lambda>e.
       let signerAddr = ToLower (AddressHex (mc_L M) (mc_Signer M)); workerAddr = ToLower (active_worker e) in
       if signerAddr \<noteq> workerAddr then (w, ToolText (signer_msg signerAddr workerAddr))
       else mcp_milestone_op e (sba_MilestoneIndex a) (\<lambda>m w.
         tool_result (\<lambda>err. ''submit error: '' @ err_msg err)
           (\<lambda>tx. (tx, Some ''Buyer/verifier should call approve_work to approve the submission.''))
           (SubmitWork (mc_Escrow M) e
             \<lparr>sq_SubmissionURI = sba_SubmissionURI a, sq_ProofHash = sba_ProofHash a, sq_MilestoneIndex = m,
              sq_AttestationChainJSON = sba_AttestationChainJSON a\<rparr> w)) w) w"

definition toolApproveWork ::
    "mcp_env \<Rightarrow> string \<Rightarrow> string \<Rightarrow> string \<Rightarrow> escrow_world \<Rightarrow> escrow_world \<times> tx_reply tool" where
  "toolApproveWork M i role milestone w =
     mcp_escrow M i (\<lambda>e. mcp_milestone_op e milestone (\<lambda>m w.
       tool_result err_msg
         (\<lambda>tx. (tx, Some ''Check get_reputation to see updated counters once the indexer settles (~15s).''))
         (ApproveWork (mc_Escrow M) e role m w)) w) w"

definition toolVerifyAndApprove ::
    "mcp_env \<Rightarrow> string \<Rightarrow> string \<Rightarrow> string \<Rightarrow> escrow_world \<Rightarrow> escrow_world \<times> tx_reply tool" where
  "toolVerifyAndApprove M i proof milestone w =
     mcp_escrow M i (\<lambda>e.
       case ParseProofHexBytes proof of
         Inl err \<Rightarrow> (w, ToolText (''invalid proof: '' @ err_msg err))
       | Inr bytes \<Rightarrow> mcp_milestone_op e milestone (\<lambda>m w.
           tool_result err_msg
             (\<lambda>tx. (tx, Some ''Verification and approval submitted. Poll get_escrow for status updates (~15s indexer lag).''))
             (VerifyAndApprove (mc_Escrow M) e bytes m w)) w) w"

definition toolCastVerifierVote ::
    "mcp_env \<Rightarrow> string \<Rightarrow> bool option \<Rightarrow> string \<Rightarrow> string \<Rightarrow> escrow_world \<Rightarrow> escrow_world \<times> tx_reply tool" where
  "toolCastVerifierVote M i approve reasonURI milestone w =
     (case approve of
        None \<Rightarrow> (w, ToolText ''approve is required'')
      | Some b \<Rightarrow> mcp_escrow M i (\<lambda>e. mcp_milestone_op e milestone (\<lambda>m w.
          tool_result err_msg
            (\<lambda>tx. (tx, Some ''Poll get_escrow for quorum status updates (~15s indexer lag).''))
            (CastVerifierVote (mc_Escrow M) e b reasonURI m w)) w) w)"

definition toolDisputeWork ::
    "mcp_env \<Rightarrow> string \<Rightarrow> string \<Rightarrow> string \<Rightarrow> string \<Rightarrow> escrow_world \<Rightarrow> escrow_world \<times> tx_reply tool" where
  "toolDisputeWork M i role reasonURI milestone w =
     mcp_escrow M i (\<lambda>e. mcp_milestone_op e milestone (\<lambda>m w.
       tool_result err_msg (\<lambda>tx. (tx, Some indexer_note)) (DisputeWork (mc_Escrow M) e role reasonURI m w)) w) w"

definition toolResolveDispute ::
    "mcp_env \<Rightarrow> string \<Rightarrow> string \<Rightarrow> string \<Rightarrow> string \<Rightarrow> escrow_world \<Rightarrow> escrow_world \<times> tx_reply tool" where
  "toolResolveDispute M i award resolutionURI milestone w =
     (case ParseUint 16 award of
        Inl e \<Rightarrow> (w, ToolText (''invalid worker_award_bps: '' @ err_msg e))
      | Inr bps \<Rightarrow>
          if 10000 < bps then (w, ToolText ''worker_award_bps must be between 0 and 10000'')
          else mcp_escrow M i (\<lambda>e. mcp_milestone_op e milestone (\<lambda>m w.
            tool_result err_msg (\<lambda>tx. (tx, Some indexer_note))
              (ResolveDispute (mc_Escrow M) e (word_of_nat bps) resolutionURI m w)) w) w)"

definition toolAbortRemainingMilestones ::
    "mcp_env \<Rightarrow> string \<Rightarrow> escrow_world \<Rightarrow> escrow_world \<times> tx_reply tool" where
  "toolAbortRemainingMilestones M i w =
     mcp_escrow M i (\<lambda>e. tool_result err_msg (\<lambda>tx. (tx, None)) (AbortRemainingMilestones (mc_Escrow M) e w)) w"

definition toolActivateBackup :: "mcp_env \<Rightarrow> string \<Rightarrow> escrow_world \<Rightarrow> escrow_world \<times> tx_reply tool" where
  "toolActivateBackup M i w =
     mcp_escrow M i (\<lambda>e. tool_result err_msg (\<lambda>tx. (tx, None)) (ActivateBackup (mc_Escrow M) e w)) w"

section \<open>Views\<close>

definition tool_view :: "(gerr \<Rightarrow> string) \<Rightarrow> gerr + 'a \<Rightarrow> ('a \<Rightarrow> 'b tool) \<Rightarrow> 'b tool" where
  "tool_view txt r k = (case r of Inl e \<Rightarrow> ToolText (txt e) | Inr x \<Rightarrow> k x)"

definition not_found :: "gerr \<Rightarrow> string" where "not_found e = ''not found: '' @ err_msg e"

text \<open>The escrow, whether its worker has a stake to deposit, and its milestones if there are several.\<close>

definition toolGetEscrow :: "mcp_env \<Rightarrow> string \<Rightarrow> db \<Rightarrow> (escrow \<times> bool \<times> milestone list option) tool" where
  "toolGetEscrow M i d =
     tool_view not_found (ResolveEscrowID (mc_L M) i d) (\<lambda>e.
       ToolJSON (e,
         HasStake e \<and> esc_Status e = ''funded'' \<and> \<not> EventExistsForContract d (esc_EscrowAddress e) ''WorkerStakeDeposited'',
         if 1 < esc_MilestoneCount e then Some (GetMilestonesByEscrow d (esc_ID e)) else None))"

definition toolListEscrows :: "string \<Rightarrow> string \<Rightarrow> string \<Rightarrow> db \<Rightarrow> escrow list tool" where
  "toolListEscrows role address status d =
     tool_view (\<lambda>e. ''error: '' @ err_msg e) (ListEscrows d role address status) ToolJSON"

end
