(* ===== verification/Emergency.thy ===== *)
theory Emergency
  imports McpEscrow
begin

text \<open>
  The emergency protocol: the handlers of \<open>internal/api/handlers.go\<close> and the tools of
  \<open>internal/mcpserver/tools.go\<close> that freeze and unfreeze addresses and escrows and force a settlement,
  with the calls of \<open>internal/chain/emergency.go\<close>. Both front ends send one transaction to the factory
  with the owner's key, record it in the database and let the indexer run; only the tools wait for the
  receipt in between.
\<close>

datatype emergency_call =
    CallFreezeAddress addr addr
  | CallUnfreezeAddress addr addr
  | CallFreezeEscrow addr int
  | CallUnfreezeEscrow addr int
  | CallEmergencyResolve addr int "16 word"

text \<open>\<open>gv_Send\<close> answers a call with the hash of its transaction or an error, given the calls before it;
  \<open>gv_RunOnce\<close> is a pass of the indexer, with its error.\<close>

type_synonym emergency_log = "(emergency_call \<times> (gerr + hash)) list"

record emergency_env =
  gv_L :: eth_lib
  gv_Node :: node
  gv_Factory :: addr
  gv_Now :: int
  gv_Send :: "emergency_log \<Rightarrow> emergency_call \<Rightarrow> gerr + hash"
  gv_RunOnce :: "db \<Rightarrow> db \<times> gerr option"

record emergency_world =
  gw_DB :: db
  gw_Sent :: emergency_log

definition send_emergency ::
    "emergency_env \<Rightarrow> emergency_call \<Rightarrow> emergency_world \<Rightarrow> emergency_world \<times> (gerr + hash)" where
  "send_emergency G c w = (let r = gv_Send G (gw_Sent w) c in (w\<lparr>gw_Sent := gw_Sent w @ [(c, r)]\<rparr>, r))"

section \<open>What is recorded\<close>

definition lower_hex :: "emergency_env \<Rightarrow> addr \<Rightarrow> string" where
  "lower_hex G a = ToLower (AddressHex (gv_L G) a)"

definition record_freeze_address :: "emergency_env \<Rightarrow> string \<Rightarrow> addr \<Rightarrow> string \<Rightarrow> db \<Rightarrow> db" where
  "record_freeze_address G by1 a tx d =
     CreateEmergencyAction (gv_Now G) ''freeze_address'' (lower_hex G a) [] [] tx
       (UpsertFrozenAddress (gv_Now G) (lower_hex G a) [] by1 d)"

definition record_unfreeze_address :: "emergency_env \<Rightarrow> addr \<Rightarrow> string \<Rightarrow> db \<Rightarrow> db" where
  "record_unfreeze_address G a tx d =
     CreateEmergencyAction (gv_Now G) ''unfreeze_address'' (lower_hex G a) [] [] tx
       (DeleteFrozenAddress (lower_hex G a) d)"

definition record_freeze_escrow :: "emergency_env \<Rightarrow> escrow \<Rightarrow> string \<Rightarrow> db \<Rightarrow> db" where
  "record_freeze_escrow G e tx d =
     RecordFreezeEscrowAndRevokeDCT (gv_Now G) (esc_ID e) (esc_EscrowAddress e) tx d"

definition record_unfreeze_escrow :: "emergency_env \<Rightarrow> escrow \<Rightarrow> string \<Rightarrow> db \<Rightarrow> db" where
  "record_unfreeze_escrow G e tx d =
     CreateEmergencyAction (gv_Now G) ''unfreeze_escrow'' (esc_EscrowAddress e) [] [] tx
       (UpdateEscrowFrozen (gv_Now G) (esc_ID e) False d)"

definition record_resolve :: "emergency_env \<Rightarrow> escrow \<Rightarrow> 16 word \<Rightarrow> string \<Rightarrow> db \<Rightarrow> db" where
  "record_resolve G e bps tx d =
     RecordEmergencyResolveAndRevokeDCT (gv_Now G) (esc_ID e) (esc_EscrowAddress e) (unat bps) tx d"

section \<open>HTTP handlers\<close>

text \<open>The indexer pass that ends every handler; a reply that reports a failure after the transaction
  also carries its hash.\<close>

definition recording_error :: "string \<Rightarrow> gerr \<Rightarrow> 'a http" where
  "recording_error operation e =
     HttpError 500 (''on-chain transaction succeeded but local '' @ operation @ '' recording failed: '' @ err_msg e)"

definition http_emergency ::
    "emergency_env \<Rightarrow> emergency_call \<Rightarrow> (string \<Rightarrow> db \<Rightarrow> db) \<Rightarrow> (string \<Rightarrow> 'a) \<Rightarrow> emergency_world
      \<Rightarrow> emergency_world \<times> 'a http" where
  "http_emergency G c rec reply w =
     (case send_emergency G c w of
        (w1, Inl e) \<Rightarrow> (w1, HttpError 500 (''chain: '' @ err_msg e))
      | (w1, Inr h) \<Rightarrow>
          let txHash = HashHex (gv_L G) h in
          (case gv_RunOnce G (rec txHash (gw_DB w1)) of
             (d, Some e) \<Rightarrow> (w1\<lparr>gw_DB := d\<rparr>, recording_error ''indexer sync'' e)
           | (d, None) \<Rightarrow> (w1\<lparr>gw_DB := d\<rparr>, HttpOk 200 (reply txHash))))"

definition with_emergency_body ::
    "'b body \<Rightarrow> ('b \<Rightarrow> emergency_world \<times> 'a http) \<Rightarrow> emergency_world \<Rightarrow> emergency_world \<times> 'a http" where
  "with_emergency_body b k w = (case b of Body q \<Rightarrow> k q | _ \<Rightarrow> (w, HttpError 400 ''invalid request body''))"

definition http_address_action ::
    "emergency_env \<Rightarrow> (addr \<Rightarrow> emergency_call) \<Rightarrow> (addr \<Rightarrow> string \<Rightarrow> db \<Rightarrow> db) \<Rightarrow> string body \<Rightarrow> emergency_world
      \<Rightarrow> emergency_world \<times> (string \<times> string) http" where
  "http_address_action G c rec b w =
     with_emergency_body b (\<lambda>address.
       if \<not> IsHexAddress (gv_L G) address then (w, HttpError 400 ''invalid address'')
       else let a = HexToAddress (gv_L G) address in
         http_emergency G (c a) (rec a) (\<lambda>tx. (tx, AddressHex (gv_L G) a)) w) w"

definition httpFreezeAddress ::
    "emergency_env \<Rightarrow> string body \<Rightarrow> emergency_world \<Rightarrow> emergency_world \<times> (string \<times> string) http" where
  "httpFreezeAddress G = http_address_action G (CallFreezeAddress (gv_Factory G)) (record_freeze_address G ''api'')"

definition httpUnfreezeAddress ::
    "emergency_env \<Rightarrow> string body \<Rightarrow> emergency_world \<Rightarrow> emergency_world \<times> (string \<times> string) http" where
  "httpUnfreezeAddress G = http_address_action G (CallUnfreezeAddress (gv_Factory G)) (record_unfreeze_address G)"

definition http_emergency_escrow ::
    "int \<Rightarrow> (escrow \<Rightarrow> emergency_world \<times> 'a http) \<Rightarrow> emergency_world \<Rightarrow> emergency_world \<times> 'a http" where
  "http_emergency_escrow i k w =
     (case GetEscrow (gw_DB w) i of Inl _ \<Rightarrow> (w, HttpError 404 ''escrow not found'') | Inr e \<Rightarrow> k e)"

definition httpFreezeEscrow ::
    "emergency_env \<Rightarrow> int body \<Rightarrow> emergency_world \<Rightarrow> emergency_world \<times> (string \<times> int) http" where
  "httpFreezeEscrow G b w =
     with_emergency_body b (\<lambda>i. http_emergency_escrow i (\<lambda>e.
       http_emergency G (CallFreezeEscrow (gv_Factory G) (esc_EscrowID e)) (record_freeze_escrow G e)
         (\<lambda>tx. (tx, i)) w) w) w"

definition httpUnfreezeEscrow ::
    "emergency_env \<Rightarrow> int body \<Rightarrow> emergency_world \<Rightarrow> emergency_world \<times> (string \<times> int) http" where
  "httpUnfreezeEscrow G b w =
     with_emergency_body b (\<lambda>i. http_emergency_escrow i (\<lambda>e.
       http_emergency G (CallUnfreezeEscrow (gv_Factory G) (esc_EscrowID e)) (record_unfreeze_escrow G e)
         (\<lambda>tx. (tx, i)) w) w) w"

definition httpEmergencyResolve ::
    "emergency_env \<Rightarrow> (int \<times> 16 word) body \<Rightarrow> emergency_world \<Rightarrow> emergency_world \<times> (string \<times> int) http" where
  "httpEmergencyResolve G b w =
     with_emergency_body b (\<lambda>(i, bps).
       if bps > 10000 then (w, HttpError 400 ''worker_award_bps must be 0-10000'')
       else http_emergency_escrow i (\<lambda>e.
         http_emergency G (CallEmergencyResolve (gv_Factory G) (esc_EscrowID e) bps) (record_resolve G e bps)
           (\<lambda>tx. (tx, i)) w) w) w"

section \<open>MCP tools\<close>

definition tool_emergency ::
    "emergency_env \<Rightarrow> emergency_call \<Rightarrow> (string \<Rightarrow> db \<Rightarrow> db) \<Rightarrow> (string \<Rightarrow> 'a) \<Rightarrow> emergency_world
      \<Rightarrow> emergency_world \<times> 'a tool" where
  "tool_emergency G c rec reply w =
     (case send_emergency G c w of
        (w1, Inl e) \<Rightarrow> (w1, ToolText (''chain error: '' @ err_msg e))
      | (w1, Inr h) \<Rightarrow>
          (case WaitMined (gv_L G) (gv_Node G) h of
             Inl e \<Rightarrow> (w1, ToolText (''tx submitted ('' @ HashHex (gv_L G) h @ '') but receipt unavailable: '' @ err_msg e))
           | Inr r \<Rightarrow>
               if rc_Status r \<noteq> 1 then (w1, ToolText (''transaction reverted: '' @ HashHex (gv_L G) h))
               else let txHash = HashHex (gv_L G) (rc_TxHash r) in
                 (case gv_RunOnce G (rec txHash (gw_DB w1)) of
                    (d, Some e) \<Rightarrow> (w1\<lparr>gw_DB := d\<rparr>,
                       ToolText (''indexer sync error after successful tx '' @ txHash @ '': '' @ err_msg e))
                  | (d, None) \<Rightarrow> (w1\<lparr>gw_DB := d\<rparr>, ToolJSON (reply txHash)))))"

definition tool_address_action ::
    "emergency_env \<Rightarrow> (addr \<Rightarrow> emergency_call) \<Rightarrow> (addr \<Rightarrow> string \<Rightarrow> db \<Rightarrow> db) \<Rightarrow> string \<Rightarrow> emergency_world
      \<Rightarrow> emergency_world \<times> (string \<times> string) tool" where
  "tool_address_action G c rec address w =
     (if \<not> IsHexAddress (gv_L G) address then (w, ToolText ''invalid address'')
      else let a = HexToAddress (gv_L G) address in
        tool_emergency G (c a) (rec a) (\<lambda>tx. (tx, AddressHex (gv_L G) a)) w)"

definition toolFreezeAddress ::
    "emergency_env \<Rightarrow> string \<Rightarrow> emergency_world \<Rightarrow> emergency_world \<times> (string \<times> string) tool" where
  "toolFreezeAddress G = tool_address_action G (CallFreezeAddress (gv_Factory G)) (record_freeze_address G ''mcp'')"

definition toolUnfreezeAddress ::
    "emergency_env \<Rightarrow> string \<Rightarrow> emergency_world \<Rightarrow> emergency_world \<times> (string \<times> string) tool" where
  "toolUnfreezeAddress G = tool_address_action G (CallUnfreezeAddress (gv_Factory G)) (record_unfreeze_address G)"

definition tool_emergency_escrow ::
    "(gerr + escrow) \<Rightarrow> (escrow \<Rightarrow> emergency_world \<times> 'a tool) \<Rightarrow> emergency_world \<Rightarrow> emergency_world \<times> 'a tool" where
  "tool_emergency_escrow r k w = (case r of Inl e \<Rightarrow> (w, ToolText (not_found e)) | Inr e \<Rightarrow> k e)"

definition toolFreezeEscrow ::
    "emergency_env \<Rightarrow> string \<Rightarrow> emergency_world \<Rightarrow> emergency_world \<times> (string \<times> int) tool" where
  "toolFreezeEscrow G i w =
     tool_emergency_escrow (ResolveEscrowID (gv_L G) i (gw_DB w)) (\<lambda>e.
       tool_emergency G (CallFreezeEscrow (gv_Factory G) (esc_EscrowID e)) (record_freeze_escrow G e)
         (\<lambda>tx. (tx, esc_ID e)) w) w"

definition toolUnfreezeEscrow ::
    "emergency_env \<Rightarrow> string \<Rightarrow> emergency_world \<Rightarrow> emergency_world \<times> (string \<times> int) tool" where
  "toolUnfreezeEscrow G i w =
     tool_emergency_escrow (ResolveEscrowID (gv_L G) i (gw_DB w)) (\<lambda>e.
       tool_emergency G (CallUnfreezeEscrow (gv_Factory G) (esc_EscrowID e)) (record_unfreeze_escrow G e)
         (\<lambda>tx. (tx, esc_ID e)) w) w"

definition toolEmergencyResolve ::
    "emergency_env \<Rightarrow> string \<Rightarrow> string \<Rightarrow> emergency_world \<Rightarrow> emergency_world \<times> (string \<times> int \<times> nat) tool" where
  "toolEmergencyResolve G escrowID award w =
     (case ParseIntAs ''ParseInt'' escrowID of
        Inl e \<Rightarrow> (w, ToolText (''invalid escrow_id: '' @ err_msg e))
      | Inr i \<Rightarrow>
          (case ParseUint 16 award of
             Inl e \<Rightarrow> (w, ToolText (''invalid worker_award_bps: '' @ err_msg e))
           | Inr bps \<Rightarrow>
               if 10000 < bps then (w, ToolText ''worker_award_bps must be 0-10000'')
               else tool_emergency_escrow (GetEscrow (gw_DB w) i) (\<lambda>e.
                 tool_emergency G (CallEmergencyResolve (gv_Factory G) (esc_EscrowID e) (word_of_nat bps))
                   (record_resolve G e (word_of_nat bps)) (\<lambda>tx. (tx, i, bps)) w) w))"

section \<open>Listings\<close>

definition ListFrozenAddresses :: "db \<Rightarrow> frozen_address list" where
  "ListFrozenAddresses d = rev (sort_key fz_FrozenAt (frozen_addresses d))"

definition page_param :: "string \<Rightarrow> (int \<Rightarrow> bool) \<Rightarrow> int \<Rightarrow> int" where
  "page_param s ok n = (case ParseInt64 s of Some v \<Rightarrow> if ok v then v else n | None \<Rightarrow> n)"

definition httpListEmergencyActions :: "string \<Rightarrow> string \<Rightarrow> db \<Rightarrow> emergency_action list http" where
  "httpListEmergencyActions limit offset d =
     HttpOk 200 (ListEmergencyActions d (page_param limit (\<lambda>n. 0 < n) 50) (page_param offset (\<lambda>n. 0 \<le> n) 0))"

definition toolListEmergencyActions :: "string \<Rightarrow> string \<Rightarrow> db \<Rightarrow> emergency_action list tool" where
  "toolListEmergencyActions limit offset d =
     ToolJSON (ListEmergencyActions d (page_param limit (\<lambda>n. 0 < n) 50) (page_param offset (\<lambda>n. 0 \<le> n) 0))"

definition httpListFrozenAddresses :: "db \<Rightarrow> frozen_address list http" where
  "httpListFrozenAddresses d = HttpOk 200 (ListFrozenAddresses d)"

definition toolListFrozenAddresses :: "db \<Rightarrow> frozen_address list tool" where
  "toolListFrozenAddresses d = ToolJSON (ListFrozenAddresses d)"

end
