(* ===== verification/DbOrder.thy ===== *)
theory DbOrder
  imports Emergency IndexProps EscrowCreate
begin

text \<open>
  What every statement of the server respects. The locale \<open>db_preorder\<close> is the interface of the storage the
  services rest on: a relation between databases that holds over each of their statements. Inside it the
  indexer, the creation of escrows and the emergency requests are shown to respect the relation as wholes;
  theory \<open>Services\<close> adds the other services, theory \<open>Server\<close> the interpretations.
\<close>

section \<open>Statuses\<close>

definition escrow_statuses :: "string set" where
  "escrow_statuses =
     {''pending'', ''submitting'', ''pending_confirmation'', ''created'', ''funded'', ''submitted'',
      ''approved'', ''disputed'', ''resolved'', ''settled'', ''refunded'', ''cancelled''}"

definition milestone_statuses :: "string set" where
  "milestone_statuses =
     {''pending'', ''submitted'', ''approved'', ''disputed'', ''resolved'', ''settled'', ''cancelled''}"

lemma eventStatusMap_typed: "eventStatusMap name = Some st \<Longrightarrow> st \<in> escrow_statuses"
  by (auto simp: eventStatusMap_def escrow_statuses_def split: if_splits)

lemma milestoneStatusMap_typed: "milestoneStatusMap name = Some st \<Longrightarrow> st \<in> milestone_statuses"
  by (auto simp: milestoneStatusMap_def milestone_statuses_def split: if_splits)

section \<open>What every statement respects\<close>

locale db_preorder =
  fixes R :: "db \<Rightarrow> db \<Rightarrow> bool"
  assumes refl: "R d d"
    and trans: "R d1 d2 \<Longrightarrow> R d2 d3 \<Longrightarrow> R d1 d3"
    and other: "escrows d' = escrows d \<Longrightarrow> milestones d' = milestones d \<Longrightarrow> dct_tokens d' = dct_tokens d \<Longrightarrow> R d d'"
    and escrow_added: "esc_Status e \<in> escrow_statuses \<Longrightarrow> R d (d\<lparr>escrows := row_add e (escrows d)\<rparr>)"
    and escrow_set: "(\<And>e. esc_Status (f e) = esc_Status e \<or> esc_Status (f e) \<in> escrow_statuses) \<Longrightarrow> R d (upd_escrows p f d)"
    and milestone_added: "ms_Status m \<in> milestone_statuses \<Longrightarrow> R d (d\<lparr>milestones := row_add m (milestones d)\<rparr>)"
    and milestone_set: "(\<And>m. ms_Status (g m) = ms_Status m \<or> ms_Status (g m) \<in> milestone_statuses)
          \<Longrightarrow> R d (d\<lparr>milestones := row_upd q g (milestones d)\<rparr>)"
    and tokens_revoked: "R d (revoke_where u now reason rb d)"
    and token_added: "row_get dct_TokenID (dct_tokens d) (dct_TokenID t) = None
          \<Longrightarrow> R d (d\<lparr>dct_tokens := row_add t (dct_tokens d)\<rparr>)"
begin

lemma thenR: "R d (fst m) \<Longrightarrow> (\<And>d1 x. R d1 (fst (k d1 x))) \<Longrightarrow> R d (fst (andThen m k))"
  by (cases m; cases "snd m") (auto intro: trans)

lemma orFailR: "(\<And>x. R d (fst (k x))) \<Longrightarrow> R d (fst (orFail d w r k))"
  by (cases r) (auto intro: refl)

lemma mapErrR: "R d (fst m) \<Longrightarrow> R d (fst (mapErr w m))"
  by (cases m; cases "snd m") auto

lemma caseR:
  "(c \<Longrightarrow> R d (fst a)) \<Longrightarrow> (\<not> c \<Longrightarrow> R d (fst b)) \<Longrightarrow> R d (fst (if c then a else b))"
  "(\<And>e. R d (fst (f e))) \<Longrightarrow> (\<And>x. R d (fst (g x))) \<Longrightarrow> R d (fst (case v of Inl e \<Rightarrow> f e | Inr x \<Rightarrow> g x))"
  "R d (fst n) \<Longrightarrow> (\<And>x. R d (fst (h x))) \<Longrightarrow> R d (fst (case q of None \<Rightarrow> n | Some x \<Rightarrow> h x))"
  "(\<And>x y. R d (fst (k x y))) \<Longrightarrow> R d (fst (case z of (x, y) \<Rightarrow> k x y))"
  by (auto split: sum.split option.split prod.split)

lemma pairR: "R d d' \<Longrightarrow> R d (fst (d', x))"
  by simp

lemmas flowR = thenR orFailR mapErrR caseR pairR refl

lemma statusR: "st \<in> escrow_statuses \<Longrightarrow> R d (UpdateEscrowStatus now i st d)"
  by (simp add: UpdateEscrowStatus_def escrow_set)

lemma frozenR: "R d (UpdateEscrowFrozen now i b d)"
  by (simp add: UpdateEscrowFrozen_def escrow_set)

lemma escrowsR:
  "R d (fst (UpdateEscrowMilestoneProgress now i m d))" "R d (fst (UpdateEscrowBackupActivated now i a dl d))"
  by (simp_all add: UpdateEscrowMilestoneProgress_def UpdateEscrowBackupActivated_def escrow_set refl)

lemma milestonesR:
  "st \<in> milestone_statuses \<Longrightarrow> R d (fst (UpdateMilestoneStatus now i m st d))"
  "R d (fst (UpdateMilestoneSubmission now i m x u p d))"
  by (simp_all add: UpdateMilestoneStatus_def UpdateMilestoneSubmission_def milestone_set milestone_statuses_def refl)

lemma recordsR:
  "R d (fst (createTaskOn now a b c d))"
  "R d (CreateEmergencyAction now act tg ei rs tx d)" "R d (UpsertFrozenAddress now a r by1 d)"
  "R d (DeleteFrozenAddress a d)" "R d (fst (CreateSubmission now i h u pf d))"
  "R d (fst (CreateDispute now i w u d))" "R d (UpdateDispute now k u bps d)"
  "R d (CreateChainLog now tx li bn en ca raw d)" "R d (SetCursor now cid key bn d)"
  by (rule other;
      simp add: createTaskOn_def CreateEmergencyAction_def UpsertFrozenAddress_def DeleteFrozenAddress_def
        CreateSubmission_def CreateDispute_def UpdateDispute_def CreateChainLog_def SetCursor_def Let_def)+

lemma actionR: "R d d' \<Longrightarrow> R d (CreateEmergencyAction now act tg ei rs tx d')"
  by (rule trans [OF _ recordsR(2)])

lemma createEscrowR: "esc_Status e \<in> escrow_statuses \<Longrightarrow> R d (fst (createEscrowOn now e d))"
  by (cases "createEscrowOn now e d")
    (auto dest!: createEscrowOn_cases intro!: escrow_added refl simp: escrow_row_def Let_def)

lemma createMilestoneR: "ms_Status m \<in> milestone_statuses \<Longrightarrow> R d (fst (createMilestoneOn now m d))"
  by (auto simp: createMilestoneOn_def Let_def intro!: milestone_added refl)

end

section \<open>The indexer\<close>

context db_preorder
begin

lemma reputationsR:
  "R d (fst (insertReputationEventOn now gonow ev d))" "R d (fst (upsertReputationOn now a ro ou d))"
  unfolding insertReputationEventOn_def upsertReputationOn_def Let_def
  by (intro flowR; rule other; simp)+

lemma reputationR: "R d (fst (RecordReputationOutcome now gonow ev d))"
proof -
  obtain d1 r where 1: "insertReputationEventOn now gonow ev d = (d1, r)" by fastforce
  then have "R d d1" using reputationsR(1) [of d now gonow ev] by simp
  moreover have "R d d2" if "upsertReputationOn now a ro ou d1 = (d2, x)" for a ro ou d2 x
    using trans [OF \<open>R d d1\<close> reputationsR(2) [of d1 now a ro ou]] that by simp
  ultimately show ?thesis
    by (simp add: RecordReputationOutcome_def 1 refl split: sum.split option.split prod.split bool.split)
qed

lemma createdR: "R d (fst (handleEscrowCreated X C lg d))"
proof -
  have created: "esc_Status (indexed_escrow X C lg t n a b c ar tk ti z ci) \<in> escrow_statuses" for t n a b c ar tk ti z ci
    by (simp add: indexed_escrow_def Let_def escrow_statuses_def)
  show ?thesis
    unfolding handleEscrowCreated_def by (intro flowR recordsR createEscrowR created)
qed

lemma resolvedR: "R d (resolve_and_revoke now i d)"
  by (simp add: resolve_and_revoke_def RevokeDCTTokensByEscrow_def Let_def)
    (rule trans [OF statusR tokens_revoked], simp add: escrow_statuses_def)

lemma factoryR: "R d (fst (factory_handler X C lg name d))"
  unfolding factory_handler_def handleOutcomeRecorded_def handleAddressFrozen_def handleEscrowFrozenFactory_def
    handleEmergencyResolvedFactory_def Let_def
  by (intro createdR flowR reputationR actionR recordsR frozenR resolvedR)

lemma disputeR: "R d (fst (resolve_dispute X i bps uri d))"
  unfolding resolve_dispute_def by (intro flowR recordsR)

lemma cancelR: "R d (cancel_from now i k ms d)"
proof (induction ms arbitrary: d)
  case (Cons m ms)
  have "R d (if ms_MilestoneIndex m \<ge> k then fst (UpdateMilestoneStatus now i (ms_MilestoneIndex m) ''cancelled'' d) else d)"
    by (simp add: milestonesR refl milestone_statuses_def)
  then show ?case using Cons.IH by (simp only: cancel_from.simps) (rule trans)
qed (simp add: refl)

lemma applyR: "R d (apply_status X name i d)" "R d (apply_milestone X lg name i d)"
proof -
  show "R d (apply_status X name i d)"
    by (auto simp: apply_status_def RevokeDCTTokensByEscrow_def Let_def refl
        intro!: statusR trans [OF statusR tokens_revoked] dest: eventStatusMap_typed split: option.split)
  have ms: "R d (fst (UpdateMilestoneStatus now i m st d))" if "milestoneStatusMap name = Some st" for now m st
    by (rule milestonesR(1) [OF milestoneStatusMap_typed [OF that]])
  show "R d (apply_milestone X lg name i d)"
  proof (cases "milestoneStatusMap name")
    case (Some st)
    have "R d d1" if "UpdateMilestoneStatus (ix_Now X) i m st d = (d1, r)" for m d1 r
      using ms [OF Some, of "ix_Now X" m] that by simp
    then show ?thesis
      by (auto simp: apply_milestone_def Some refl intro: trans [OF _ escrowsR(1)] split: sum.split prod.split)
  qed (simp add: apply_milestone_def refl)
qed

lemma handlerR: "R d (fst (escrow_handler X lg name i d))"
  unfolding escrow_handler_def handleSubmission_def handleDispute_def handleDisputeResolved_def
    handleMilestoneDisputeResolved_def handleBackupActivated_def handleMilestoneSubmission_def
    handleMilestoneDispute_def handleEscrowFrozenEscrow_def handleEmergencyResolvedEscrow_def
    handleRemainingMilestonesAborted_def
  by (intro flowR recordsR disputeR escrowsR milestonesR frozenR resolvedR trans [OF cancelR statusR])
    (simp add: escrow_statuses_def)

lemma recordR: "record_log X A u what lg d = Inr (name, d1) \<Longrightarrow> R d d1"
  by (auto simp: record_log_def split: sum.splits if_splits intro: recordsR)

lemma logR:
  "ProcessFactoryLog X C lg s = Some (s', r) \<Longrightarrow> R (xs_DB s) (xs_DB s')"
  "ProcessEscrowLog X i lg s = Some (s', r) \<Longrightarrow> R (xs_DB s) (xs_DB s')"
proof -
  have f: "R d d'" if "factory_handler X C lg name d = (d', x)" for name d d' x and X :: indexer and C lg
    using factoryR [of d X C lg name] that by simp
  show "ProcessFactoryLog X C lg s = Some (s', r) \<Longrightarrow> R (xs_DB s) (xs_DB s')"
    by (auto simp: ProcessFactoryLog_def refl split: if_splits sum.splits prod.splits
        intro: trans [OF recordR f])
  have h: "R d d'" if "escrow_handler X lg name i (apply_milestone X lg name i (apply_status X name i d)) = (d', x)"
    for name d d' x and X :: indexer and i lg
  proof -
    have "R (apply_milestone X lg name i (apply_status X name i d)) d'"
      using that handlerR [of "apply_milestone X lg name i (apply_status X name i d)" X lg name i] by simp
    with applyR(1) [of d X name i] applyR(2) [of "apply_status X name i d" X lg name i] show ?thesis
      by (blast intro: trans)
  qed
  show "ProcessEscrowLog X i lg s = Some (s', r) \<Longrightarrow> R (xs_DB s) (xs_DB s')"
    by (auto simp: ProcessEscrowLog_def refl split: if_splits sum.splits prod.splits
        intro: trans [OF recordR h])
qed

lemma logsR:
  "(\<And>lg s s' r. f lg s = Some (s', r) \<Longrightarrow> R (xs_DB s) (xs_DB s')) \<Longrightarrow> process_logs f lgs s = Some s' \<Longrightarrow>
     R (xs_DB s) (xs_DB s')"
proof (induction lgs arbitrary: s)
  case (Cons lg lgs)
  then obtain s1 r where "f lg s = Some (s1, r)" "process_logs f lgs s1 = Some s'"
    by (auto split: option.splits)
  then show ?case using Cons trans by blast
qed (simp add: refl)

lemma escrows_passR: "index_escrows X C a b es s = Some s' \<Longrightarrow> R (xs_DB s) (xs_DB s')"
proof (induction es arbitrary: s)
  case (Cons e es)
  then obtain s1 r where 1: "indexEscrowEvents X C (HexToAddress (ix_L X) (esc_EscrowAddress e)) (esc_ID e) a b s = Some (s1, r)"
    and 2: "index_escrows X C a b es s1 = Some s'"
    by (auto split: option.splits)
  have "R (xs_DB s) (xs_DB s1)"
    using 1 by (auto simp: indexEscrowEvents_def refl split: sum.splits intro: logsR logR)
  then show ?case using Cons.IH [OF 2] trans by blast
qed (simp add: refl)

lemma passR: "RunOnce X s = Some (s', r) \<Longrightarrow> R (xs_DB s) (xs_DB s')"
proof -
  have f: "R (xs_DB s) (xs_DB s1)" if "indexFactoryEvents X C a b s = Some (s1, r)" for C a b s1 r
    using that by (auto simp: indexFactoryEvents_def refl split: sum.splits intro: logsR logR)
  have two: "R (xs_DB s) (xs_DB s2)"
    if "indexFactoryEvents X C a b s = Some (s1, Inr ())" "index_escrows X C a b es s1 = Some s2" for C a b s1 s2 es
    using trans [OF f [OF that(1)] escrows_passR [OF that(2)]] .
  have done1: "R (xs_DB s) (SetCursor now cid key bn (xs_DB s2))" if "R (xs_DB s) (xs_DB s2)" for s2 now cid key bn
    using trans [OF that recordsR(9)] .
  assume run: "RunOnce X s = Some (s', r)"
  show "R (xs_DB s) (xs_DB s')"
  proof (cases "s' = s")
    case False
    then obtain C a b s1 x where 1: "indexFactoryEvents X C a b s = Some (s1, x)"
        "case x of Inl e \<Rightarrow> s' = s1
         | Inr _ \<Rightarrow> \<exists>s2. index_escrows X C a b (ListEscrowsByChainID (xs_DB s1) (ix_ChainID X)) s1 = Some s2
             \<and> (s' = s2 \<or> s' = s2\<lparr>xs_DB := SetCursor (ix_Now X) (ix_ChainID X) cursorKey (sint b) (xs_DB s2)\<rparr>)"
      using run by (auto simp: RunOnce_def Let_def split: option.splits sum.splits if_splits)
    show ?thesis
    proof (cases x)
      case (Inl e)
      with 1 f show ?thesis by simp
    next
      case (Inr u)
      with 1 two show ?thesis by (fastforce intro: done1)
    qed
  qed (simp add: refl)
qed

end

section \<open>Creations and emergencies\<close>

context db_preorder
begin

lemma txR: "R d (fst r) \<Longrightarrow> R d (fst (in_tx d r))"
  by (cases r; cases "snd r") (auto simp: in_tx_def refl)

lemma insertR: "R d (fst (insert_create E p d))"
proof -
  have pending: "esc_Status (create_row E p n) \<in> escrow_statuses" for n
    by (simp add: create_row_def Let_def escrow_statuses_def)
  show ?thesis unfolding insert_create_def by (intro txR flowR recordsR createEscrowR pending)
qed

lemma creationR:
  "to_st \<in> escrow_statuses \<Longrightarrow> R d (fst (TransitionEscrowStatus now i fr to_st d))"
  "to_st \<in> escrow_statuses \<Longrightarrow> R d (fst (SetEscrowCreateTxHash now i tx fr to_st d))"
  "to_st \<in> escrow_statuses \<Longrightarrow> R d (fst (FinalizeEscrowCreateTx now i a n to_st d))"
  by (simp_all add: TransitionEscrowStatus_def SetEscrowCreateTxHash_def FinalizeEscrowCreateTx_def Let_def
      escrow_set refl)

lemma milestone_rowsR: "R d (fst (escrow_milestones now i n ms d))"
proof (induction now i n ms d rule: escrow_milestones.induct)
  case (2 now i n m dl ms d)
  then show ?case
    by (auto intro!: thenR mapErrR createMilestoneR simp: milestone_statuses_def)
qed (simp add: refl)

lemma finalizeR: "R d (fst (finalize_create E p r x d))"
proof -
  have fin: "R d d1" if "FinalizeEscrowCreateTx n i a k ''created'' d = (d1, y)" for n i a k d1 y
    using creationR(3) [of "''created''" d n i a k] that by (simp add: escrow_statuses_def)
  have ms: "R d d2" if "in_tx d (escrow_milestones n i k ms d1) = (d2, y)" "R d d1" for n i k ms d1 d2 y
  proof -
    have "R d (fst (in_tx d (escrow_milestones n i k ms d1)))"
      by (rule txR, rule trans [OF that(2) milestone_rowsR])
    with that(1) show ?thesis by simp
  qed
  show ?thesis
    by (auto simp: finalize_create_def refl split: prod.split sum.split dest: fin intro: ms)
qed

lemma create_stepR:
  assumes "\<And>d. R d (ee_RunOnce E d)"
  shows "R (ew_DB w) (ew_DB (fst (create_step E p ph w)))"
proof (cases ph)
  case (PReset r e)
  then show ?thesis by (simp add: statusR escrow_statuses_def)
next
  case (PIndex res)
  then show ?thesis by (simp add: assms)
next
  case PInsert
  then show ?thesis using insertR [of "ew_DB w" E p] by (auto simp: on_db_def split: prod.splits sum.splits)
next
  case (PClaim r)
  then show ?thesis
    using creationR(1) [of "''submitting''" "ew_DB w" "ee_Now E" "esc_ID r" "''pending''"]
    by (auto simp: escrow_statuses_def on_db_def split: prod.splits)
next
  case (PPersist r tx n)
  then show ?thesis
    using creationR(2) [of "''pending_confirmation''" "ew_DB w" "ee_Now E" "esc_ID r" tx "''submitting''"]
    by (auto simp: escrow_statuses_def on_db_def split: prod.splits sum.splits)
next
  case (PFinalize r tx x)
  then show ?thesis using finalizeR [of "ew_DB w" E p r x] by (auto simp: on_db_def split: prod.splits sum.splits)
qed (auto simp: refl send_def Let_def split: sum.split)

lemma emergency_recordsR:
  "R d (record_freeze_address G by1 a tx d)" "R d (record_unfreeze_address G a tx d)"
  "R d (record_freeze_escrow G e tx d)" "R d (record_unfreeze_escrow G e tx d)" "R d (record_resolve G e bps tx d)"
  unfolding record_freeze_address_def record_unfreeze_address_def record_freeze_escrow_def
    record_unfreeze_escrow_def record_resolve_def RecordFreezeEscrowAndRevokeDCT_def
    RecordEmergencyResolveAndRevokeDCT_def
  by (intro actionR recordsR frozenR trans [OF frozenR tokens_revoked] trans [OF statusR tokens_revoked];
      simp add: escrow_statuses_def)+

lemma frontR:
  assumes "\<And>d. R d (fst (gv_RunOnce G d))" and "\<And>tx d. R d (rec tx d)"
  shows "R (gw_DB w) (gw_DB (fst (http_emergency G c rec reply w)))"
    "R (gw_DB w) (gw_DB (fst (tool_emergency G c rec reply w)))"
proof -
  have pass: "R d d'" if "gv_RunOnce G (rec tx d) = (d', e)" for tx d d' e
    using trans [OF assms(2) assms(1), of d tx] that by simp
  show "R (gw_DB w) (gw_DB (fst (http_emergency G c rec reply w)))"
    "R (gw_DB w) (gw_DB (fst (tool_emergency G c rec reply w)))"
    by (auto simp: http_emergency_def tool_emergency_def send_emergency_def Let_def refl
        split: prod.split sum.split option.split intro: pass)
qed

end

end
