(* ===== verification/ApiBidding.thy ===== *)
theory ApiBidding
  imports ApiEscrow Decomposition
begin

text \<open>
  The handlers of \<open>internal/api/handlers.go\<close> for decompositions, RFQs and bids, on decoded bodies: numbers
  come as texts and are parsed in the order of the code, then the service is called. A request for an RFQ or
  its bids first finalizes the sealed bidding when the reveal phase is over. Lists of an RFQ show of a commit
  neither the commitment nor the nonce.
\<close>

record bidding_api =
  ba_Bid :: bid_env
  ba_FloatFmt :: "string \<Rightarrow> string"

definition decompositionService :: "bidding_api \<Rightarrow> decomp_env" where
  "decompositionService B =
     \<lparr>de_Now = be_Now (ba_Bid B), de_FloatText = be_FloatText (ba_Bid B), de_FloatFmt = ba_FloatFmt B,
      de_Bidding = Some (ba_Bid B)\<rparr>"

text \<open>A parsed request goes to the service, whose reply or error is answered.\<close>

definition http_run ::
    "gerr + 'q \<Rightarrow> ('q \<Rightarrow> 'w \<Rightarrow> 'w \<times> (gerr + 'a)) \<Rightarrow> (gerr \<Rightarrow> 'b http) \<Rightarrow> ('a \<Rightarrow> 'b http) \<Rightarrow> 'w \<Rightarrow> 'w \<times> 'b http" where
  "http_run q op fail ok w =
     (case q of
        Inl e \<Rightarrow> (w, HttpError 400 (err_msg e))
      | Inr p \<Rightarrow> (case op p w of (w1, Inl e) \<Rightarrow> (w1, fail e) | (w1, Inr x) \<Rightarrow> (w1, ok x)))"

definition bad_request :: "gerr \<Rightarrow> 'a http" where
  "bad_request e = HttpError 400 (err_msg e)"

definition int_arg :: "string \<Rightarrow> string \<Rightarrow> gerr + int" where
  "int_arg field s = parsed (''invalid '' @ field) (ParseInt64 s)"

text \<open>A number that may be left out is 0 then.\<close>

definition optional_int_arg :: "string \<Rightarrow> string \<Rightarrow> gerr + int" where
  "optional_int_arg field s = (if s = [] then Inr 0 else int_arg field s)"

section \<open>Decompositions\<close>

definition decomposition_note :: "bool \<Rightarrow> string" where
  "decomposition_note valid =
     (if valid then ''Decomposition is valid. Call finalize to create RFQs.''
      else ''Fix structural issues and resubmit.'')"

definition httpCreateDecomposition ::
    "bidding_api \<Rightarrow> decomp_params body \<Rightarrow> db \<Rightarrow> db \<times> (decomp_result \<times> string) http" where
  "httpCreateDecomposition B b d =
     with_body b (\<lambda>q. http_run (Inr q) (CreateDecomposition (decompositionService B)) bad_request
       (\<lambda>r. HttpOk 201 (r, decomposition_note (dr_Valid r))) d) d"

definition httpListDecompositions :: "string \<Rightarrow> string \<Rightarrow> db \<Rightarrow> decomposition list http" where
  "httpListDecompositions buyer status d = HttpOk 200 (ListDecompositions d buyer status)"

text \<open>The stored issues of a decomposition; a text that is not JSON is passed over.\<close>

definition decode_issue :: "(string \<times> json) list \<Rightarrow> structural_issue option" where
  "decode_issue kvs =
     (case (int_field ''node_id'' kvs 0, str_field ''temp_id'' kvs [], str_field ''title'' kvs [],
            str_field ''reason'' kvs []) of
        (Some n, Some i, Some t, Some r) \<Rightarrow> Some \<lparr>si_NodeID = n, si_TempID = i, si_Title = t, si_Reason = r\<rparr>
      | _ \<Rightarrow> None)"

definition stored_issues :: "string \<Rightarrow> structural_issue list option" where
  "stored_issues raw =
     (if raw \<noteq> [] \<and> json_valid raw
      then map_option (\<lambda>v. case v of None \<Rightarrow> [] | Some is \<Rightarrow> is) (unmarshal_structs decode_issue raw)
      else Some [])"

definition httpGetDecomposition ::
    "string \<Rightarrow> db \<Rightarrow> (decomposition \<times> decomposition_node list \<times> structural_issue list) http" where
  "httpGetDecomposition path d =
     http_by_id path (\<lambda>i.
       case GetDecomposition d i of
         Inl e \<Rightarrow> if errors_is e ErrNoRows then HttpError 404 ''not found'' else HttpError 500 ''internal server error''
       | Inr (dc, nodes) \<Rightarrow>
           (case stored_issues (dcp_ValidationErrorsJSON dc) of
              None \<Rightarrow> HttpError 500 ''failed to decode validation errors''
            | Some is \<Rightarrow> HttpOk 200 (dc, nodes, is)))"

record finalize_request =
  fnr_Buyer :: string
  fnr_Token :: string
  fnr_Deadline :: string
  fnr_ReviewPeriodSeconds :: string
  fnr_DisputePeriodSeconds :: string
  fnr_ArbitratorTimeoutSeconds :: string
  fnr_Arbitrator :: string
  fnr_VerifierPanel :: "string list"
  fnr_QuorumCount :: string
  fnr_BudgetMin :: string
  fnr_BudgetMax :: string
  fnr_CommitDeadline :: string
  fnr_RevealDeadline :: string
  fnr_ExpiresAt :: string

definition finalize_of_request :: "int \<Rightarrow> finalize_request \<Rightarrow> gerr + finalize_params" where
  "finalize_of_request i q =
     okThen (int_arg ''deadline'' (fnr_Deadline q)) (\<lambda>deadline.
     okThen (int_arg ''review_period_seconds'' (fnr_ReviewPeriodSeconds q)) (\<lambda>review.
     okThen (int_arg ''dispute_period_seconds'' (fnr_DisputePeriodSeconds q)) (\<lambda>dispute.
     okThen (int_arg ''arbitrator_timeout_seconds'' (fnr_ArbitratorTimeoutSeconds q)) (\<lambda>arbTimeout.
     okThen (int_arg ''commit_deadline'' (fnr_CommitDeadline q)) (\<lambda>commit.
     okThen (int_arg ''reveal_deadline'' (fnr_RevealDeadline q)) (\<lambda>reveal.
     okThen (int_arg ''expires_at'' (fnr_ExpiresAt q)) (\<lambda>expires.
     okThen (if TrimSpace (fnr_QuorumCount q) \<noteq> [] then int_arg ''quorum_count'' (fnr_QuorumCount q) else Inr 0)
       (\<lambda>quorum.
       Inr \<lparr>fip_DecompositionID = i, fip_Buyer = fnr_Buyer q, fip_Token = fnr_Token q, fip_Deadline = deadline,
            fip_ReviewPeriodSeconds = review, fip_DisputePeriodSeconds = dispute,
            fip_ArbitratorTimeoutSeconds = arbTimeout, fip_Arbitrator = fnr_Arbitrator q,
            fip_VerifierPanel = fnr_VerifierPanel q, fip_QuorumCount = quorum, fip_BudgetMin = fnr_BudgetMin q,
            fip_BudgetMax = fnr_BudgetMax q, fip_CommitDeadline = commit, fip_RevealDeadline = reveal,
            fip_ExpiresAt = expires\<rparr>))))))))"

definition httpFinalizeDecomposition ::
    "bidding_api \<Rightarrow> string \<Rightarrow> finalize_request body \<Rightarrow> db \<Rightarrow> db \<times> (decomposition \<times> int list) http" where
  "httpFinalizeDecomposition B path b d =
     with_id path (\<lambda>i. with_body b (\<lambda>q.
       http_run (finalize_of_request i q) (FinalizeDecomposition (decompositionService B))
         (\<lambda>e. if errors_is e ErrNoRows then HttpError 404 ''not found'' else bad_request e) (HttpOk 200) d) d) d"

section \<open>RFQs\<close>

record rfq_request =
  rqq_Title :: string
  rqq_Description :: string
  rqq_Buyer :: string
  rqq_Token :: string
  rqq_BudgetMin :: string
  rqq_BudgetMax :: string
  rqq_Deadline :: string
  rqq_ReviewPeriodSeconds :: string
  rqq_DisputePeriodSeconds :: string
  rqq_ArbitratorTimeoutSeconds :: string
  rqq_Verifier :: string
  rqq_Arbitrator :: string
  rqq_WorkerStake :: string
  rqq_MilestonesJSON :: string
  rqq_RequirementsJSON :: string
  rqq_RequiredProofProtocol :: string
  rqq_RequiredCredentialsJSON :: string
  rqq_CommitDeadline :: string
  rqq_RevealDeadline :: string
  rqq_ServiceTier :: int64
  rqq_ExpiresAt :: string
  rqq_ParentEscrowID :: "int option"

definition rfq_of_request :: "rfq_request \<Rightarrow> gerr + create_rfq_params" where
  "rfq_of_request q =
     okThen (int_arg ''deadline'' (rqq_Deadline q)) (\<lambda>deadline.
     okThen (int_arg ''review_period_seconds'' (rqq_ReviewPeriodSeconds q)) (\<lambda>review.
     okThen (int_arg ''dispute_period_seconds'' (rqq_DisputePeriodSeconds q)) (\<lambda>dispute.
     okThen (int_arg ''arbitrator_timeout_seconds'' (rqq_ArbitratorTimeoutSeconds q)) (\<lambda>arbTimeout.
     okThen (int_arg ''expires_at'' (rqq_ExpiresAt q)) (\<lambda>expires.
     okThen (optional_int_arg ''commit_deadline'' (rqq_CommitDeadline q)) (\<lambda>commit.
     okThen (optional_int_arg ''reveal_deadline'' (rqq_RevealDeadline q)) (\<lambda>reveal.
     okThen (require (0 \<le> sint (rqq_ServiceTier q) \<and> sint (rqq_ServiceTier q) \<le> 1)
              ''invalid service_tier: must be 0 or 1'') (\<lambda>_.
       Inr \<lparr>crp_Title = rqq_Title q, crp_Description = rqq_Description q, crp_Buyer = rqq_Buyer q,
            crp_Token = rqq_Token q, crp_BudgetMin = rqq_BudgetMin q, crp_BudgetMax = rqq_BudgetMax q,
            crp_Deadline = deadline, crp_ReviewPeriodSeconds = review, crp_DisputePeriodSeconds = dispute,
            crp_ArbitratorTimeoutSeconds = arbTimeout, crp_Verifier = rqq_Verifier q,
            crp_Arbitrator = rqq_Arbitrator q, crp_WorkerStake = rqq_WorkerStake q,
            crp_MilestonesJSON = rqq_MilestonesJSON q, crp_RequirementsJSON = rqq_RequirementsJSON q,
            crp_RequiredCredentialsJSON = rqq_RequiredCredentialsJSON q,
            crp_RequiredProofProtocol = rqq_RequiredProofProtocol q,
            crp_ServiceTier = sint (rqq_ServiceTier q), crp_BiddingMode = [], crp_CommitDeadline = commit,
            crp_RevealDeadline = reveal, crp_ExpiresAt = expires,
            crp_ParentEscrowID = rqq_ParentEscrowID q\<rparr>))))))))"

text \<open>\<open>errors.As\<close> for an error type of the bidding package: the first error of that type in the tree. The
  reply to a cooldown also carries the times of its text as numbers.\<close>

fun find_first :: "'a option list \<Rightarrow> 'a option" where
  "find_first [] = None"
| "find_first (r # rs) = (case r of None \<Rightarrow> find_first rs | Some x \<Rightarrow> Some x)"

fun errors_As :: "string \<Rightarrow> gerr \<Rightarrow> gerr option" where
  "errors_As q (Sentinel p m) = (if p = q then Some (Sentinel p m) else None)"
| "errors_As q (Errorf m es) = find_first (map (errors_As q) es)"

definition http_cooldown :: "string \<Rightarrow> gerr \<Rightarrow> 'a http" where
  "http_cooldown q e =
     (case errors_As q e of Some c \<Rightarrow> HttpError 429 (err_msg c) | None \<Rightarrow> bad_request e)"

definition httpCreateRFQ :: "bidding_api \<Rightarrow> rfq_request body \<Rightarrow> db \<Rightarrow> db \<times> rfq http" where
  "httpCreateRFQ B b d =
     with_body b (\<lambda>q. http_run (rfq_of_request q) (CreateRFQ (ba_Bid B))
       (http_cooldown ''bidding.RebidCooldownError'') (HttpOk 201) d) d"

definition httpListRFQs :: "bidding_api \<Rightarrow> string \<Rightarrow> string \<Rightarrow> db \<Rightarrow> rfq list http" where
  "httpListRFQs B status buyer d = HttpOk 200 (NormalizeRFQs (be_Now (ba_Bid B)) (ListRFQs d status buyer))"

record public_bid_commit =
  pbc_ID :: int
  pbc_RFQID :: int
  pbc_Bidder :: string
  pbc_Status :: string
  pbc_RevealedBidID :: "int option"
  pbc_CreatedAt :: int
  pbc_UpdatedAt :: int

definition public_commit :: "bid_commit \<Rightarrow> public_bid_commit" where
  "public_commit c =
     \<lparr>pbc_ID = bc_ID c, pbc_RFQID = bc_RFQID c, pbc_Bidder = bc_Bidder c, pbc_Status = bc_Status c,
      pbc_RevealedBidID = bc_RevealedBidID c, pbc_CreatedAt = bc_CreatedAt c, pbc_UpdatedAt = bc_UpdatedAt c\<rparr>"

record rfq_view =
  rv_RFQ :: rfq
  rv_Bids :: "bid list"
  rv_Commits :: "public_bid_commit list"
  rv_NowUnix :: int
  rv_CommitDeadline :: int
  rv_RevealDeadline :: int

definition reveal_over :: "int \<Rightarrow> rfq \<Rightarrow> bool" where
  "reveal_over now r \<longleftrightarrow> rfq_BiddingMode r = ''sealed'' \<and> now > rfq_RevealDeadline r"

definition rfq_lookup_error :: "gerr \<Rightarrow> 'a http" where
  "rfq_lookup_error e =
     (if errors_is e ErrNoRows then HttpError 404 ''not found'' else HttpError 500 ''failed to fetch rfq'')"

definition rfq_reply :: "int \<Rightarrow> int \<Rightarrow> rfq \<Rightarrow> db \<Rightarrow> rfq_view http" where
  "rfq_reply now i r d =
     HttpOk 200 \<lparr>rv_RFQ = NormalizeRFQ now r, rv_Bids = ListBidsByRFQ d i,
        rv_Commits = map public_commit (ListBidCommitsByRFQ d i), rv_NowUnix = now,
        rv_CommitDeadline = rfq_CommitDeadline r, rv_RevealDeadline = rfq_RevealDeadline r\<rparr>"

definition httpGetRFQ :: "bidding_api \<Rightarrow> string \<Rightarrow> db \<Rightarrow> db \<times> rfq_view http" where
  "httpGetRFQ B path d =
     with_id path (\<lambda>i.
       case GetRFQ d i of
         Inl e \<Rightarrow> (d, rfq_lookup_error e)
       | Inr r \<Rightarrow>
           if reveal_over (be_Now (ba_Bid B)) r then
             (case FinalizeSealedBidding (ba_Bid B) (rfq_ID r) d of
                (d1, Inl _) \<Rightarrow> (d1, HttpError 500 ''failed to finalize sealed bidding'')
              | (d1, Inr _) \<Rightarrow>
                  (case GetRFQ d1 i of
                     Inl e \<Rightarrow> (d1, rfq_lookup_error e)
                   | Inr r1 \<Rightarrow> (d1, rfq_reply (be_Now (ba_Bid B)) i r1 d1)))
           else (d, rfq_reply (be_Now (ba_Bid B)) i r d)) d"

definition httpCancelRFQ :: "bidding_api \<Rightarrow> string \<Rightarrow> db \<Rightarrow> db \<times> rfq option http" where
  "httpCancelRFQ B path d =
     (let now = be_Now (ba_Bid B) in
      with_id path (\<lambda>i.
       case GetRFQ d i of
         Inl _ \<Rightarrow> (d, HttpError 404 ''not found'')
       | Inr r \<Rightarrow>
           if rfq_Status r \<noteq> ''open''
           then (d, HttpError 400 (''rfq is not open (status: '' @ rfq_Status r @ '')''))
           else (case UpdateRFQStatus now i ''cancelled'' d of
                   (d1, Inl _) \<Rightarrow> (d1, HttpError 500 ''internal server error'')
                 | (d1, Inr _) \<Rightarrow>
                     let d2 = RejectUnacceptedBidCommits now i 0 (RejectPendingBids now i 0 d1) in
                     (d2, HttpOk 200 (case GetRFQ d2 i of Inl _ \<Rightarrow> None | Inr r2 \<Rightarrow> Some r2)))) d)"

section \<open>Bids\<close>

definition with_rfq_id :: "string \<Rightarrow> (int \<Rightarrow> 'w \<times> 'a http) \<Rightarrow> 'w \<Rightarrow> 'w \<times> 'a http" where
  "with_rfq_id path k w = (case ParseInt64 path of None \<Rightarrow> (w, HttpError 400 ''invalid rfq id'') | Some i \<Rightarrow> k i)"

record commit_request =
  cmq_Bidder :: string
  cmq_Commitment :: string
  cmq_Nonce :: string

definition httpCommitBid :: "bidding_api \<Rightarrow> string \<Rightarrow> commit_request body \<Rightarrow> db \<Rightarrow> db \<times> bid_commit http" where
  "httpCommitBid B path b d =
     with_rfq_id path (\<lambda>i. with_body b (\<lambda>q.
       http_run (Inr \<lparr>cbp_RFQID = i, cbp_Bidder = cmq_Bidder q, cbp_Commitment = cmq_Commitment q,
                      cbp_Nonce = cmq_Nonce q\<rparr>)
         (CommitBid (ba_Bid B)) (http_cooldown ''bidding.SealedBidCooldownError'') (HttpOk 201) d) d) d"

record reveal_request =
  rvq_Bidder :: string
  rvq_Nonce :: string
  rvq_Salt :: string
  rvq_Amount :: string
  rvq_EstimatedDuration :: int
  rvq_ReputationBond :: string
  rvq_MilestonesJSON :: string
  rvq_Message :: string
  rvq_ExpiresAt :: string
  rvq_StakeMandateID :: string
  rvq_CredentialsJSON :: string

definition reveal_of_request :: "int \<Rightarrow> reveal_request \<Rightarrow> gerr + reveal_bid_params" where
  "reveal_of_request i q =
     okThen (optional_int_arg ''expires_at'' (rvq_ExpiresAt q)) (\<lambda>expires.
       Inr \<lparr>rvp_RFQID = i, rvp_Bidder = rvq_Bidder q, rvp_Nonce = rvq_Nonce q, rvp_Salt = rvq_Salt q,
            rvp_Amount = rvq_Amount q, rvp_EstimatedDuration = rvq_EstimatedDuration q,
            rvp_ReputationBond = rvq_ReputationBond q, rvp_MilestonesJSON = rvq_MilestonesJSON q,
            rvp_Message = rvq_Message q, rvp_ExpiresAt = expires, rvp_StakeMandateID = rvq_StakeMandateID q,
            rvp_CredentialsJSON = rvq_CredentialsJSON q\<rparr>)"

definition httpRevealBid :: "bidding_api \<Rightarrow> string \<Rightarrow> reveal_request body \<Rightarrow> db \<Rightarrow> db \<times> bid http" where
  "httpRevealBid B path b d =
     with_rfq_id path (\<lambda>i. with_body b (\<lambda>q.
       http_run (reveal_of_request i q) (RevealBid (ba_Bid B)) bad_request (HttpOk 201) d) d) d"

definition httpListBids :: "bidding_api \<Rightarrow> string \<Rightarrow> db \<Rightarrow> db \<times> bid list http" where
  "httpListBids B path d =
     with_rfq_id path (\<lambda>i.
       let listed = (\<lambda>d1. (d1, HttpOk 200 (ListBidsByRFQ d1 i))) in
       case GetRFQ d i of
         Inl e \<Rightarrow> if errors_is e ErrNoRows then listed d else (d, HttpError 500 ''failed to fetch rfq'')
       | Inr r \<Rightarrow>
           if reveal_over (be_Now (ba_Bid B)) r then
             (case FinalizeSealedBidding (ba_Bid B) i d of
                (d1, Inl _) \<Rightarrow> (d1, HttpError 500 ''failed to finalize sealed bidding'')
              | (d1, Inr _) \<Rightarrow> listed d1)
           else listed d) d"

definition httpAcceptBid ::
    "bidding_api \<Rightarrow> string \<Rightarrow> (int \<times> string) body \<Rightarrow> db \<Rightarrow> db \<times> accept_bid_result http" where
  "httpAcceptBid B path b d =
     with_rfq_id path (\<lambda>i. with_body b (\<lambda>(bidID, caller).
       http_run (Inr \<lparr>abp_RFQID = i, abp_BidID = bidID, abp_Caller = caller\<rparr>) (AcceptBid (ba_Bid B))
         bad_request (HttpOk 200) d) d) d"

end
