(* ===== verification/McpBidding.thy ===== *)
theory McpBidding
  imports McpEscrow ApiBidding
begin

text \<open>
  The tools of \<open>internal/mcpserver/tools.go\<close> for decompositions, RFQs and bids, with the flexible arguments of
  \<open>internal/mcpserver/flexstring.go\<close> and the readable contract errors of \<open>internal/chain/errors.go\<close>.
\<close>

section \<open>Arguments\<close>

text \<open>A number that may come as a JSON string or as a JSON number, whose text is kept.\<close>

definition FlexibleString :: "json \<Rightarrow> string option" where
  "FlexibleString v =
     (case v of JStr s \<Rightarrow> Some s | JNum s \<Rightarrow> Some s | JNull \<Rightarrow> Some [] | _ \<Rightarrow> None)"

definition mcp_int :: "string \<Rightarrow> string \<Rightarrow> gerr + int" where
  "mcp_int field s = because (''invalid '' @ field) (ParseIntAs ''ParseInt'' s)"

definition optional_mcp_int :: "string \<Rightarrow> string \<Rightarrow> gerr + int" where
  "optional_mcp_int field s = (if s = [] then Inr 0 else mcp_int field s)"

text \<open>\<open>normalizeToken\<close> of this package: the literal zero address is the native currency.\<close>

definition mcp_normalizeToken :: "string \<Rightarrow> string" where
  "mcp_normalizeToken token = (if token = [] \<or> token = zero_address then [] else token)"

definition tool_run ::
    "gerr + 'q \<Rightarrow> ('q \<Rightarrow> 'w \<Rightarrow> 'w \<times> (gerr + 'a)) \<Rightarrow> (gerr \<Rightarrow> 'b tool) \<Rightarrow> ('a \<Rightarrow> 'b tool) \<Rightarrow> 'w \<Rightarrow> 'w \<times> 'b tool" where
  "tool_run q op fail ok w =
     (case q of
        Inl e \<Rightarrow> (w, ToolText (err_msg e))
      | Inr p \<Rightarrow> (case op p w of (w1, Inl e) \<Rightarrow> (w1, fail e) | (w1, Inr x) \<Rightarrow> (w1, ok x)))"

definition text_error :: "gerr \<Rightarrow> 'a tool" where
  "text_error e = ToolText (err_msg e)"

section \<open>Contract errors\<close>

text \<open>The table is a Go map, so it is searched in an unspecified \<open>order\<close>.\<close>

definition knownSelectors :: "(string \<times> string) list" where
  "knownSelectors =
     [(''197b7dc9'', ''RolesNotDistinct: buyer, worker, verifier, and arbitrator must all be different addresses''),
      (''82b42900'', ''Unauthorized: caller is not authorized for this action''),
      (''a1b2e8d7'', ''InvalidState: the escrow is not in the required state for this operation''),
      (''e4b18d2c'', ''DeadlinePassed: the submission deadline has passed''),
      (''d4e4b9a0'', ''DeadlineNotPassed: the deadline has not yet passed''),
      (''f4d678b8'', ''InsufficientFunds: insufficient funds sent with the transaction''),
      (''8baa579f'', ''InvalidAmount: the amount is invalid (zero or mismatched)''),
      (''1f2a2005'', ''AlreadyFunded: the escrow is already funded''),
      (''b5a09db9'', ''NotFunded: the escrow has not been funded yet''),
      (''e6c4247b'', ''InvalidAddress: an invalid address was provided'')]"

definition humanError :: "gerr \<Rightarrow> string \<Rightarrow> gerr" where
  "humanError original message = Errorf message [original]"

definition nonce_hint :: string where
  "nonce_hint = '' (hint: the server'' @ [CHR 0x27] @ ''s nonce cache is stale '' @ [CHR 0xE2, CHR 0x80, CHR 0x94]
     @ '' restart the server or wait for the pending transaction to confirm)''"

text \<open>What follows the first \<open>0x\<close>.\<close>

fun after_0x :: "string \<Rightarrow> string option" where
  "after_0x [] = None"
| "after_0x (c # s) = (if HasPrefix (c # s) ''0x'' then Some (tl s) else after_0x s)"

definition HumanizeError :: "(string \<times> string) list \<Rightarrow> gerr \<Rightarrow> gerr" where
  "HumanizeError order e =
     (let msg = err_msg e; lowerMsg = ToLower msg in
      if \<not> Contains lowerMsg ''execution reverted'' then
        (if Contains lowerMsg ''nonce too low'' then humanError e (msg @ nonce_hint) else e)
      else case find (\<lambda>(selector, _). Contains lowerMsg (ToLower selector)) order of
        Some (_, description) \<Rightarrow> humanError e description
      | None \<Rightarrow>
          (case after_0x lowerMsg of
             None \<Rightarrow> e
           | Some hexPart \<Rightarrow>
               if 8 \<le> length hexPart \<and> isl (DecodeString (take 8 hexPart)) = False
               then (case map_of order (take 8 hexPart) of None \<Rightarrow> e | Some desc \<Rightarrow> humanError e desc)
               else e))"

section \<open>Decompositions\<close>

text \<open>\<open>map[string]any\<close> as a field: a repeated key adds to the map there is.\<close>

fun anymap_field ::
    "(string \<Rightarrow> string option) \<Rightarrow> string \<Rightarrow> (string \<times> json) list \<Rightarrow> (string \<times> json) list option
      \<Rightarrow> (string \<times> json) list option option" where
  "anymap_field F name [] acc = Some acc"
| "anymap_field F name ((k, v) # kvs) acc =
     (if EqualFold k name then
        (case v of
           JObj es \<Rightarrow>
             (case go_any F (JObj es) of
                Some (JObj l) \<Rightarrow> anymap_field F name kvs (Some (go_map ((case acc of None \<Rightarrow> [] | Some m \<Rightarrow> m) @ l)))
              | _ \<Rightarrow> None)
         | JNull \<Rightarrow> anymap_field F name kvs None
         | _ \<Rightarrow> None)
      else anymap_field F name kvs acc)"

definition decode_sub_task :: "(string \<Rightarrow> string option) \<Rightarrow> (string \<times> json) list \<Rightarrow> sub_task option" where
  "decode_sub_task F kvs =
     (case (str_field ''temp_id'' kvs [], str_field ''parent_temp_id'' kvs [], str_field ''title'' kvs [],
            str_field ''description'' kvs [], str_field ''verification_type'' kvs [],
            str_field ''delegate_preference'' kvs [], anymap_field F ''verification_details'' kvs None,
            bool_field ''requires_further_decomposition'' kvs False) of
        (Some t, Some p, Some ti, Some de, Some vt, Some dp, Some vd, Some r) \<Rightarrow>
          Some \<lparr>st_TempID = t, st_ParentTempID = p, st_Title = ti, st_Description = de, st_VerificationType = vt,
                st_DelegatePreference = dp, st_VerificationDetails = vd, st_RequiresFurtherDecomposition = r\<rparr>
      | _ \<Rightarrow> None)"

record create_decomposition_args =
  cda_Title :: string
  cda_Description :: string
  cda_Buyer :: string
  cda_SpecHash :: string
  cda_SubTasksJSON :: string

definition decomposition_of_args :: "bidding_api \<Rightarrow> create_decomposition_args \<Rightarrow> gerr + decomp_params" where
  "decomposition_of_args B a =
     okThen (require (TrimSpace (cda_SubTasksJSON a) \<noteq> []) ''sub_tasks_json is required'') (\<lambda>_.
     okThen (because ''invalid sub_tasks_json''
              (case unmarshal_structs (decode_sub_task (be_FloatText (ba_Bid B))) (cda_SubTasksJSON a) of
                 None \<Rightarrow> Inl json_err | Some v \<Rightarrow> Inr (case v of None \<Rightarrow> [] | Some ts \<Rightarrow> ts))) (\<lambda>tasks.
       Inr \<lparr>dpp_Buyer = cda_Buyer a, dpp_Title = cda_Title a, dpp_Description = cda_Description a,
            dpp_SpecHash = cda_SpecHash a, dpp_SubTasks = tasks\<rparr>))"

definition tool_decomposition_note :: "bool \<Rightarrow> string" where
  "tool_decomposition_note valid =
     (if valid then ''Use finalize_decomposition to create RFQs from each leaf node.''
      else ''If valid=false, fix structural issues and resubmit. If valid=true, review market_context and decide whether to finalize.'')"

definition toolCreateDecomposition ::
    "bidding_api \<Rightarrow> create_decomposition_args \<Rightarrow> db \<Rightarrow> db \<times> (decomp_result \<times> string) tool" where
  "toolCreateDecomposition B a =
     tool_run (decomposition_of_args B a) (CreateDecomposition (decompositionService B)) text_error
       (\<lambda>r. ToolJSON (r, tool_decomposition_note (dr_Valid r)))"

definition toolListDecompositions :: "string \<Rightarrow> string \<Rightarrow> db \<Rightarrow> (decomposition list \<times> nat) tool" where
  "toolListDecompositions buyer status d =
     (let ds = ListDecompositions d buyer status in ToolJSON (ds, length ds))"

definition decomposition_error :: "gerr \<Rightarrow> 'a tool" where
  "decomposition_error e = (if errors_is e ErrNoRows then ToolText ''decomposition not found'' else text_error e)"

definition tool_issues :: "string \<Rightarrow> structural_issue list option" where
  "tool_issues raw =
     (if TrimSpace raw \<noteq> [] \<and> json_valid raw
      then map_option (\<lambda>v. case v of None \<Rightarrow> [] | Some is \<Rightarrow> is) (unmarshal_structs decode_issue raw)
      else Some [])"

definition toolGetDecomposition ::
    "string \<Rightarrow> db \<Rightarrow> (decomposition \<times> decomposition_node list \<times> structural_issue list) tool" where
  "toolGetDecomposition i d =
     (case mcp_int ''decomposition_id'' i of
        Inl e \<Rightarrow> text_error e
      | Inr n \<Rightarrow>
          (case GetDecomposition d n of
             Inl e \<Rightarrow> decomposition_error e
           | Inr (dc, nodes) \<Rightarrow>
               (case tool_issues (dcp_ValidationErrorsJSON dc) of
                  None \<Rightarrow> ToolText (''failed to decode validation_errors_json: '' @ err_msg json_err)
                | Some is \<Rightarrow> ToolJSON (dc, nodes, is))))"

record finalize_args =
  fna_DecompositionID :: string
  fna_Buyer :: string
  fna_Token :: string
  fna_Deadline :: string
  fna_BudgetMin :: string
  fna_BudgetMax :: string
  fna_CommitDeadline :: string
  fna_RevealDeadline :: string
  fna_ExpiresAt :: string
  fna_ReviewPeriodSeconds :: string
  fna_DisputePeriodSeconds :: string
  fna_ArbitratorTimeoutSeconds :: string
  fna_Arbitrator :: string
  fna_VerifierPanelJSON :: string
  fna_QuorumCount :: string

definition panel_of_json :: "string \<Rightarrow> gerr + string list" where
  "panel_of_json raw =
     (if TrimSpace raw = [] then Inr []
      else because ''invalid verifier_panel_json''
             (case unmarshal_strings raw of None \<Rightarrow> Inl json_err | Some vs \<Rightarrow> Inr vs))"

definition finalize_of_args :: "finalize_args \<Rightarrow> gerr + finalize_params" where
  "finalize_of_args a =
     okThen (mcp_int ''decomposition_id'' (fna_DecompositionID a)) (\<lambda>i.
     okThen (mcp_int ''deadline'' (fna_Deadline a)) (\<lambda>deadline.
     okThen (mcp_int ''review_period_seconds'' (fna_ReviewPeriodSeconds a)) (\<lambda>review.
     okThen (mcp_int ''dispute_period_seconds'' (fna_DisputePeriodSeconds a)) (\<lambda>dispute.
     okThen (mcp_int ''arbitrator_timeout_seconds'' (fna_ArbitratorTimeoutSeconds a)) (\<lambda>arbTimeout.
     okThen (mcp_int ''commit_deadline'' (fna_CommitDeadline a)) (\<lambda>commit.
     okThen (mcp_int ''reveal_deadline'' (fna_RevealDeadline a)) (\<lambda>reveal.
     okThen (mcp_int ''expires_at'' (fna_ExpiresAt a)) (\<lambda>expires.
     okThen (if fna_QuorumCount a \<noteq> [] then because ''invalid quorum_count'' (ParseIntAs ''Atoi'' (fna_QuorumCount a))
             else Inr 0) (\<lambda>quorum.
     okThen (panel_of_json (fna_VerifierPanelJSON a)) (\<lambda>panel.
       Inr \<lparr>fip_DecompositionID = i, fip_Buyer = fna_Buyer a, fip_Token = fna_Token a, fip_Deadline = deadline,
            fip_ReviewPeriodSeconds = review, fip_DisputePeriodSeconds = dispute,
            fip_ArbitratorTimeoutSeconds = arbTimeout, fip_Arbitrator = fna_Arbitrator a,
            fip_VerifierPanel = panel, fip_QuorumCount = quorum, fip_BudgetMin = fna_BudgetMin a,
            fip_BudgetMax = fna_BudgetMax a, fip_CommitDeadline = commit, fip_RevealDeadline = reveal,
            fip_ExpiresAt = expires\<rparr>))))))))))"

definition toolFinalizeDecomposition ::
    "bidding_api \<Rightarrow> finalize_args \<Rightarrow> db \<Rightarrow> db \<times> (decomposition \<times> int list) tool" where
  "toolFinalizeDecomposition B a =
     tool_run (finalize_of_args a) (FinalizeDecomposition (decompositionService B)) decomposition_error ToolJSON"

section \<open>RFQs\<close>

record rfq_args =
  rqa_Title :: string
  rqa_Description :: string
  rqa_Buyer :: string
  rqa_Token :: string
  rqa_BudgetMin :: string
  rqa_BudgetMax :: string
  rqa_Deadline :: string
  rqa_ReviewPeriodSeconds :: string
  rqa_DisputePeriodSeconds :: string
  rqa_ArbitratorTimeoutSeconds :: string
  rqa_Verifier :: string
  rqa_Arbitrator :: string
  rqa_WorkerStake :: string
  rqa_MilestonesJSON :: string
  rqa_RequirementsJSON :: string
  rqa_RequiredProofProtocol :: string
  rqa_RequiredCredentialsJSON :: string
  rqa_CommitDeadline :: string
  rqa_RevealDeadline :: string
  rqa_ServiceTier :: string
  rqa_ExpiresAt :: string
  rqa_ParentEscrowID :: string

definition rfq_tier :: "string \<Rightarrow> gerr + int" where
  "rfq_tier s =
     (if s \<noteq> [] \<and> s \<noteq> ''0'' \<and> s \<noteq> ''1''
      then Inl (errors_New ''invalid service_tier: must be 0 (low_assurance) or 1 (high_assurance)'')
      else Inr (if s = ''1'' then 1 else 0))"

definition rfq_of_args :: "rfq_args \<Rightarrow> gerr + create_rfq_params" where
  "rfq_of_args a =
     okThen (mcp_int ''deadline'' (rqa_Deadline a)) (\<lambda>deadline.
     okThen (mcp_int ''review_period_seconds'' (rqa_ReviewPeriodSeconds a)) (\<lambda>review.
     okThen (mcp_int ''dispute_period_seconds'' (rqa_DisputePeriodSeconds a)) (\<lambda>dispute.
     okThen (mcp_int ''arbitrator_timeout_seconds'' (rqa_ArbitratorTimeoutSeconds a)) (\<lambda>arbTimeout.
     okThen (mcp_int ''expires_at'' (rqa_ExpiresAt a)) (\<lambda>expires.
     okThen (optional_mcp_int ''commit_deadline'' (rqa_CommitDeadline a)) (\<lambda>commit.
     okThen (optional_mcp_int ''reveal_deadline'' (rqa_RevealDeadline a)) (\<lambda>reveal.
     okThen (rfq_tier (rqa_ServiceTier a)) (\<lambda>tier.
     okThen (if rqa_ParentEscrowID a = [] then Inr None
             else okThen (mcp_int ''parent_escrow_id'' (rqa_ParentEscrowID a)) (\<lambda>i. Inr (Some i))) (\<lambda>parent.
       Inr \<lparr>crp_Title = rqa_Title a, crp_Description = rqa_Description a, crp_Buyer = rqa_Buyer a,
            crp_Token = mcp_normalizeToken (rqa_Token a), crp_BudgetMin = rqa_BudgetMin a,
            crp_BudgetMax = rqa_BudgetMax a,
            crp_Deadline = deadline, crp_ReviewPeriodSeconds = review, crp_DisputePeriodSeconds = dispute,
            crp_ArbitratorTimeoutSeconds = arbTimeout, crp_Verifier = rqa_Verifier a,
            crp_Arbitrator = rqa_Arbitrator a, crp_WorkerStake = rqa_WorkerStake a,
            crp_MilestonesJSON = rqa_MilestonesJSON a, crp_RequirementsJSON = rqa_RequirementsJSON a,
            crp_RequiredCredentialsJSON = rqa_RequiredCredentialsJSON a,
            crp_RequiredProofProtocol = rqa_RequiredProofProtocol a,
            crp_ServiceTier = tier, crp_BiddingMode = [], crp_CommitDeadline = commit,
            crp_RevealDeadline = reveal, crp_ExpiresAt = expires, crp_ParentEscrowID = parent\<rparr>)))))))))"

text \<open>A cooldown is answered as a document with the text of the error and its times; here by its text.\<close>

definition tool_cooldown :: "string \<Rightarrow> gerr \<Rightarrow> (string + 'a) tool" where
  "tool_cooldown q e = (case errors_As q e of Some c \<Rightarrow> ToolJSON (Inl (err_msg c)) | None \<Rightarrow> text_error e)"

definition toolCreateRFQ :: "bidding_api \<Rightarrow> rfq_args \<Rightarrow> db \<Rightarrow> db \<times> (string + int \<times> string) tool" where
  "toolCreateRFQ B a =
     tool_run (rfq_of_args a) (CreateRFQ (ba_Bid B)) (tool_cooldown ''bidding.RebidCooldownError'')
       (\<lambda>r. ToolJSON (Inr (rfq_ID r, rfq_Status r)))"

section \<open>Bids\<close>

record commit_args =
  cma_RFQID :: string
  cma_Bidder :: string
  cma_Commitment :: string
  cma_Nonce :: string

definition toolCommitBid :: "bidding_api \<Rightarrow> commit_args \<Rightarrow> db \<Rightarrow> db \<times> (string + int \<times> string) tool" where
  "toolCommitBid B a =
     tool_run
       (okThen (mcp_int ''rfq_id'' (cma_RFQID a)) (\<lambda>i.
          Inr \<lparr>cbp_RFQID = i, cbp_Bidder = cma_Bidder a, cbp_Commitment = cma_Commitment a, cbp_Nonce = cma_Nonce a\<rparr>))
       (CommitBid (ba_Bid B)) (tool_cooldown ''bidding.SealedBidCooldownError'')
       (\<lambda>c. ToolJSON (Inr (bc_ID c, bc_Status c)))"

record reveal_args =
  rva_RFQID :: string
  rva_Bidder :: string
  rva_Nonce :: string
  rva_Salt :: string
  rva_Amount :: string
  rva_EstimatedDuration :: string
  rva_ReputationBond :: string
  rva_MilestonesJSON :: string
  rva_Message :: string
  rva_ExpiresAt :: string
  rva_StakeMandateID :: string
  rva_CredentialsJSON :: string

definition reveal_of_args :: "reveal_args \<Rightarrow> gerr + reveal_bid_params" where
  "reveal_of_args a =
     okThen (mcp_int ''rfq_id'' (rva_RFQID a)) (\<lambda>i.
     okThen (optional_mcp_int ''estimated_duration'' (rva_EstimatedDuration a)) (\<lambda>duration.
     okThen (optional_mcp_int ''expires_at'' (rva_ExpiresAt a)) (\<lambda>expires.
       Inr \<lparr>rvp_RFQID = i, rvp_Bidder = rva_Bidder a, rvp_Nonce = rva_Nonce a, rvp_Salt = rva_Salt a,
            rvp_Amount = rva_Amount a, rvp_EstimatedDuration = duration,
            rvp_ReputationBond = rva_ReputationBond a, rvp_MilestonesJSON = rva_MilestonesJSON a,
            rvp_Message = rva_Message a, rvp_ExpiresAt = expires, rvp_StakeMandateID = rva_StakeMandateID a,
            rvp_CredentialsJSON = rva_CredentialsJSON a\<rparr>)))"

text \<open>The reply shows the credential match if it is a document with content.\<close>

definition credential_match :: "string \<Rightarrow> string option" where
  "credential_match summary =
     (if summary \<noteq> [] \<and> summary \<noteq> ''{}'' \<and> json_valid summary then Some summary else None)"

definition toolRevealBid ::
    "bidding_api \<Rightarrow> reveal_args \<Rightarrow> db \<Rightarrow> db \<times> (int \<times> string \<times> bool \<times> string option) tool" where
  "toolRevealBid B a =
     tool_run (reveal_of_args a) (RevealBid (ba_Bid B)) text_error
       (\<lambda>b. ToolJSON (bid_ID b, bid_Status b, bid_CredentialVerified b, credential_match (bid_CredentialMatchSummary b)))"

definition with_expiry :: "int \<Rightarrow> bid list \<Rightarrow> (bid \<times> bool) list" where
  "with_expiry now bs = map (\<lambda>b. (b, bid_ExpiresAt b \<le> now)) bs"

definition toolListBids ::
    "bidding_api \<Rightarrow> string \<Rightarrow> string \<Rightarrow> db \<Rightarrow> db \<times> (bid \<times> bool) list tool" where
  "toolListBids B rfqID bidder d =
     (let now = be_Now (ba_Bid B); listed = (\<lambda>d1 bs. (d1, ToolJSON (with_expiry now bs)));
          failed = (\<lambda>d1 e. (d1, ToolText (''error: '' @ err_msg e))) in
      if rfqID \<noteq> [] then
        (case mcp_int ''rfq_id'' rfqID of
           Inl e \<Rightarrow> (d, text_error e)
         | Inr i \<Rightarrow>
             (case GetRFQ d i of
                Inl e \<Rightarrow> if errors_is e ErrNoRows then listed d (ListBidsByRFQ d i) else failed d e
              | Inr r \<Rightarrow>
                  if reveal_over now r then
                    (case FinalizeSealedBidding (ba_Bid B) i d of
                       (d1, Inl e) \<Rightarrow> failed d1 e | (d1, Inr _) \<Rightarrow> listed d1 (ListBidsByRFQ d1 i))
                  else listed d (ListBidsByRFQ d i)))
      else if bidder \<noteq> [] then listed d (ListBidsByBidder d bidder)
      else (d, ToolText ''provide either rfq_id or bidder''))"

record accept_args =
  aca_RFQID :: string
  aca_BidID :: string
  aca_Caller :: string

definition toolAcceptBid ::
    "(string \<times> string) list \<Rightarrow> bidding_api \<Rightarrow> accept_args \<Rightarrow> db \<Rightarrow> db \<times> accept_bid_result tool" where
  "toolAcceptBid order B a =
     tool_run
       (okThen (mcp_int ''rfq_id'' (aca_RFQID a)) (\<lambda>i. okThen (mcp_int ''bid_id'' (aca_BidID a)) (\<lambda>b.
          Inr \<lparr>abp_RFQID = i, abp_BidID = b, abp_Caller = aca_Caller a\<rparr>)))
       (AcceptBid (ba_Bid B)) (\<lambda>e. ToolText (''accept_bid error: '' @ err_msg (HumanizeError order e))) ToolJSON"

end
