(* ===== verification/McpTools.thy ===== *)
theory McpTools
  imports McpBidding Emergency Events
begin

text \<open>
  The remaining tools of \<open>internal/mcpserver/tools.go\<close> that carry logic: capability tokens, checkouts, funding by
  mandate, attestation chains, checkpoints and the polling of events. A tool that commits a checkpoint also
  publishes an event on the bus, if there is one.
\<close>

section \<open>Capability tokens\<close>

definition toolMintDCT ::
    "dct_env \<Rightarrow> string \<Rightarrow> string \<Rightarrow> string \<Rightarrow> mint_params \<Rightarrow> db \<Rightarrow> db \<times> (dct_token \<times> string) tool" where
  "toolMintDCT env escrowID expiresAt caller a =
     tool_run
       (okThen (mcp_int ''escrow_id'' escrowID) (\<lambda>i. okThen (mcp_int ''expires_at'' expiresAt) (\<lambda>exp.
          Inr (a\<lparr>mp_EscrowID := i, mp_ExpiresAt := exp\<rparr>))))
       (Mint (withCallerCtx env caller)) text_error ToolJSON"

definition toolDelegateDCT ::
    "dct_env \<Rightarrow> string \<Rightarrow> string \<Rightarrow> delegate_params \<Rightarrow> db \<Rightarrow> db \<times> (dct_token \<times> string) tool" where
  "toolDelegateDCT env expiresAt caller a =
     tool_run (okThen (mcp_int ''expires_at'' expiresAt) (\<lambda>exp. Inr (a\<lparr>dp_ExpiresAt := exp\<rparr>)))
       (Delegate (withCallerCtx env caller)) text_error ToolJSON"

definition toolIntrospectDCT :: "dct_env \<Rightarrow> string \<Rightarrow> db \<Rightarrow> (dct_token \<times> bool \<times> string list) tool" where
  "toolIntrospectDCT env token d =
     (case Introspect env d token of Inl e \<Rightarrow> text_error e | Inr r \<Rightarrow> ToolJSON r)"

definition toolRevokeDCT :: "dct_env \<Rightarrow> string \<Rightarrow> revoke_params \<Rightarrow> db \<Rightarrow> db \<times> string tool" where
  "toolRevokeDCT env caller a =
     tool_run (Inr a) (Revoke (withCallerCtx env caller))
       (\<lambda>e. if errors_is e ErrNoRows then ToolText ''token not found'' else text_error e)
       (\<lambda>_. ToolJSON (rp_TokenID a))"

definition tool_override_error :: "gerr \<Rightarrow> 'a tool" where
  "tool_override_error e =
     (if errors_is e ErrUnauthorized \<or> errors_is e ErrNoRows
         \<or> Contains (err_msg e) ''owner address is required''
         \<or> Contains (err_msg e) ''override reason is required''
         \<or> Contains (err_msg e) ''unsupported override operation''
      then text_error e else ToolText ''internal error'')"

definition toolEmergencyOverrideDCT ::
    "dct_env \<Rightarrow> string \<Rightarrow> override_params \<Rightarrow> db \<Rightarrow> db \<times> (int \<times> string) tool" where
  "toolEmergencyOverrideDCT env escrowID a d =
     (case mcp_int ''escrow_id'' escrowID of
        Inl e \<Rightarrow> (d, text_error e)
      | Inr i \<Rightarrow>
          tool_run (Inr (a\<lparr>op_EscrowID := i\<rparr>)) (EmergencyOverride (withCallerCtx env (op_OwnerAddress a)))
            tool_override_error (\<lambda>_. ToolJSON (i, op_Operation a)) d)"

definition toolListDCTAudit :: "string \<Rightarrow> string \<Rightarrow> string \<Rightarrow> db \<Rightarrow> audit_record list tool" where
  "toolListDCTAudit escrowID limit offset d =
     (case optional_mcp_int ''escrow_id'' escrowID of
        Inl e \<Rightarrow> text_error e
      | Inr i \<Rightarrow> ToolJSON (ListAuthzAudit d i (page_param limit (\<lambda>n. 0 < n) 50) (page_param offset (\<lambda>n. 0 \<le> n) 0)))"

section \<open>Checkouts\<close>

definition parseOptionalFlexibleInt :: "string \<Rightarrow> string \<Rightarrow> gerr + int64 option" where
  "parseOptionalFlexibleInt v field =
     (let raw = TrimSpace v in
      if raw = [] then Inr None
      else case ParseIntAs ''Atoi'' raw of
        Inl e \<Rightarrow> Inl (wrap (''invalid '' @ field) e)
      | Inr n \<Rightarrow>
          if n < 0 then Inl (errors_New (''invalid '' @ field @ '': negative value''))
          else Inr (Some (word_of_int n)))"

definition decode_milestone_payload :: "(string \<times> json) list \<Rightarrow> milestone_payload option" where
  "decode_milestone_payload kvs =
     (case (str_field ''amount'' kvs [], str_field ''submission_deadline'' kvs []) of
        (Some a, Some s) \<Rightarrow> Some \<lparr>mpl_Amount = a, mpl_SubmissionDeadline = s\<rparr> | _ \<Rightarrow> None)"

definition decode_payload :: "(string \<times> json) list \<Rightarrow> escrow_payload option" where
  "decode_payload kvs =
     (let s = (\<lambda>name. str_field name kvs []); i = (\<lambda>name. int_field name kvs 0) in
      case (those (map s [''title'', ''description'', ''buyer'', ''worker'', ''verifier_stake_per_verifier'',
              ''arbitrator'', ''amount'', ''worker_stake'', ''submission_deadline'', ''review_period_seconds'',
              ''dispute_period_seconds'', ''arbitrator_timeout_seconds'', ''token'', ''backup_worker'',
              ''backup_deadline_extension'', ''zk_verifier'', ''circuit_id'']),
            those (map i [''quorum_threshold'', ''quorum_verifier_count'', ''service_tier'']),
            strs_field ''verifier_panel'' kvs [], structs_field decode_milestone_payload ''milestones'' kvs [],
            optint_field ''parent_escrow_id'' kvs None) of
        (Some ss, Some ns, Some panel, Some ms, Some parent) \<Rightarrow>
          Some \<lparr>epl_Title = ss ! 0, epl_Description = ss ! 1, epl_Buyer = ss ! 2, epl_Worker = ss ! 3,
                epl_VerifierPanel = panel, epl_QuorumThreshold = word_of_int (ns ! 0),
                epl_QuorumVerifierCount = word_of_int (ns ! 1), epl_VerifierStakePerVerifier = ss ! 4,
                epl_Arbitrator = ss ! 5, epl_Amount = ss ! 6, epl_WorkerStake = ss ! 7,
                epl_SubmissionDeadline = ss ! 8, epl_ReviewPeriodSeconds = ss ! 9,
                epl_DisputePeriodSeconds = ss ! 10, epl_ArbitratorTimeoutSeconds = ss ! 11, epl_Token = ss ! 12,
                epl_ServiceTier = word_of_int (ns ! 2), epl_Milestones = ms, epl_BackupWorker = ss ! 13,
                epl_BackupDeadlineExtension = ss ! 14, epl_ZKVerifier = ss ! 15, epl_CircuitID = ss ! 16,
                epl_ParentEscrowID = parent\<rparr>
      | _ \<Rightarrow> None)"

definition unmarshal_payload :: "string \<Rightarrow> gerr + escrow_payload" where
  "unmarshal_payload raw =
     (case (case parse_json raw of Some (JObj kvs) \<Rightarrow> decode_payload kvs | Some JNull \<Rightarrow> decode_payload [] | _ \<Rightarrow> None) of
        None \<Rightarrow> Inl json_err | Some p \<Rightarrow> Inr p)"

record checkout_args =
  cka_CheckoutID :: string
  cka_SessionID :: string
  cka_IdempotencyKey :: string
  cka_EscrowID :: string
  cka_AutoFund :: bool
  cka_CreateEscrowJSON :: string

definition checkout_of_args :: "ucp_env \<Rightarrow> checkout_args \<Rightarrow> db \<Rightarrow> gerr + create_checkout_request" where
  "checkout_of_args U a d =
     (let hasEscrowID = (TrimSpace (cka_EscrowID a) \<noteq> []); hasCreateJSON = (TrimSpace (cka_CreateEscrowJSON a) \<noteq> []);
          req = (\<lambda>i p. \<lparr>ccr_CheckoutID = TrimSpace (cka_CheckoutID a), ccr_SessionID = TrimSpace (cka_SessionID a),
                        ccr_IdempotencyKey = TrimSpace (cka_IdempotencyKey a), ccr_EscrowID = i,
                        ccr_CreateEscrow = p, ccr_AutoFund = cka_AutoFund a\<rparr>) in
      if hasEscrowID = hasCreateJSON
      then Inl (errors_New ''provide exactly one of escrow_id or create_escrow_json'')
      else if hasEscrowID
      then okThen (because ''invalid escrow_id'' (ResolveEscrowID (ee_L (uv_Escrow U)) (TrimSpace (cka_EscrowID a)) d))
             (\<lambda>e. Inr (req (Some (esc_ID e)) None))
      else okThen (because ''invalid create_escrow_json'' (unmarshal_payload (TrimSpace (cka_CreateEscrowJSON a))))
             (\<lambda>p. Inr (req None (Some p))))"

definition toolUCPCreateCheckout :: "ucp_env \<Rightarrow> checkout_args \<Rightarrow> escrow_world \<Rightarrow> escrow_world \<times> checkout tool" where
  "toolUCPCreateCheckout U a w = tool_run (checkout_of_args U a (ew_DB w)) (CreateCheckout U) text_error ToolJSON w"

definition toolUCPGetCheckout :: "ucp_env \<Rightarrow> string \<Rightarrow> escrow_world \<Rightarrow> escrow_world \<times> checkout tool" where
  "toolUCPGetCheckout U i = tool_run (Inr (TrimSpace i)) (GetCheckout U) text_error ToolJSON"

record update_args =
  upa_CheckoutID :: string
  upa_IdempotencyKey :: string
  upa_Operation :: string
  upa_Role :: string
  upa_SubmissionURI :: string
  upa_ProofHash :: string
  upa_Proof :: string
  upa_MilestoneIndex :: string
  upa_Approve :: "bool option"
  upa_ReasonURI :: string
  upa_WorkerAwardBps :: string
  upa_ResolutionURI :: string

definition award_arg :: "string \<Rightarrow> gerr + 16 word option" where
  "award_arg v =
     (let raw = TrimSpace v in
      if raw = [] then Inr None
      else okThen (because ''invalid worker_award_bps'' (ParseUint 16 raw)) (\<lambda>n.
        if 10000 < n then Inl (errors_New ''invalid worker_award_bps: must be between 0 and 10000'')
        else Inr (Some (word_of_nat n))))"

definition update_of_args :: "update_args \<Rightarrow> gerr + update_checkout_request" where
  "update_of_args a =
     okThen (parseOptionalFlexibleInt (upa_MilestoneIndex a) ''milestone_index'') (\<lambda>m.
     okThen (award_arg (upa_WorkerAwardBps a)) (\<lambda>bps.
       Inr \<lparr>ucr_IdempotencyKey = TrimSpace (upa_IdempotencyKey a), ucr_Operation = TrimSpace (upa_Operation a),
            ucr_Role = TrimSpace (upa_Role a), ucr_SubmissionURI = TrimSpace (upa_SubmissionURI a),
            ucr_ProofHash = TrimSpace (upa_ProofHash a), ucr_Proof = TrimSpace (upa_Proof a),
            ucr_MilestoneIndex = m, ucr_Approve = upa_Approve a, ucr_ReasonURI = TrimSpace (upa_ReasonURI a),
            ucr_WorkerAwardBps = bps, ucr_ResolutionURI = TrimSpace (upa_ResolutionURI a)\<rparr>))"

definition toolUCPUpdateCheckout :: "ucp_env \<Rightarrow> update_args \<Rightarrow> escrow_world \<Rightarrow> escrow_world \<times> checkout tool" where
  "toolUCPUpdateCheckout U a =
     tool_run (update_of_args a) (UpdateCheckout U (TrimSpace (upa_CheckoutID a))) text_error ToolJSON"

definition toolUCPCompleteCheckout ::
    "ucp_env \<Rightarrow> string \<Rightarrow> string \<Rightarrow> complete_checkout_request \<Rightarrow> escrow_world \<Rightarrow> escrow_world \<times> checkout tool" where
  "toolUCPCompleteCheckout U i milestoneIndex a =
     tool_run
       (okThen (parseOptionalFlexibleInt milestoneIndex ''milestone_index'') (\<lambda>m.
          Inr \<lparr>cmr_IdempotencyKey = TrimSpace (cmr_IdempotencyKey a), cmr_Role = TrimSpace (cmr_Role a),
               cmr_Proof = TrimSpace (cmr_Proof a), cmr_MilestoneIndex = m\<rparr>))
       (CompleteCheckout U (TrimSpace i)) text_error ToolJSON"

definition toolUCPCancelCheckout ::
    "ucp_env \<Rightarrow> string \<Rightarrow> string \<Rightarrow> string \<Rightarrow> escrow_world \<Rightarrow> escrow_world \<times> checkout tool" where
  "toolUCPCancelCheckout U i milestoneIndex key =
     tool_run
       (okThen (parseOptionalFlexibleInt milestoneIndex ''milestone_index'') (\<lambda>m.
          Inr \<lparr>xcr_IdempotencyKey = TrimSpace key, xcr_MilestoneIndex = m\<rparr>))
       (CancelCheckout U (TrimSpace i)) text_error ToolJSON"

section \<open>Funding by mandate\<close>

text \<open>\<open>F\<close> gives the text of a number decoded as a float64.\<close>

record mandate_args =
  mna_EscrowID :: string
  mna_Payload :: string
  mna_AuthV :: string
  mna_Envelope :: mandate_envelope

definition payload_arg :: "(string \<Rightarrow> string option) \<Rightarrow> string \<Rightarrow> gerr + (string \<times> json) list option" where
  "payload_arg F raw =
     (if raw = [] then Inr (Some [])
      else if parse_json raw = Some JNull then Inr None
      else case unmarshal_map F raw of None \<Rightarrow> Inl json_err | Some kvs \<Rightarrow> Inr (Some kvs))"

definition mandate_of_args ::
    "(string \<Rightarrow> string option) \<Rightarrow> mandate_args \<Rightarrow> escrow \<Rightarrow> gerr + mandate_envelope" where
  "mandate_of_args F a e =
     okThen (because ''invalid auth_v'' (ParseUint 8 (mna_AuthV a))) (\<lambda>v.
     okThen (because ''invalid payload JSON'' (payload_arg F (mna_Payload a))) (\<lambda>payload.
       let env = mna_Envelope a; au = me_Authorization env in
       Inr (env\<lparr>me_Payload := payload,
               me_Authorization := au\<lparr>au_To := (if au_To au = [] then esc_EscrowAddress e else au_To au),
                                      au_V := word_of_nat v\<rparr>\<rparr>)))"

definition toolFundViaMandate ::
    "mandate_env \<Rightarrow> (string \<Rightarrow> string option) \<Rightarrow> mandate_args \<Rightarrow> mandate_world \<Rightarrow> mandate_world \<times> fund_response tool" where
  "toolFundViaMandate M F a w =
     (case ResolveEscrowID (mv_L M) (mna_EscrowID a) (mw_DB w) of
        Inl e \<Rightarrow> (w, ToolText (not_found e))
      | Inr e \<Rightarrow>
          tool_run (mandate_of_args F a e) (FundViaMandate M (esc_ID e))
            (\<lambda>err. ToolText (''fund via mandate error: '' @ err_msg err)) ToolJSON w)"

section \<open>Attestation chains and checkpoints\<close>

definition lookup_msg :: "gerr \<Rightarrow> string" where
  "lookup_msg e =
     (if errors_is e ErrNoRows then ''escrow not found: '' @ err_msg e
      else ''failed to look up escrow: '' @ err_msg e)"

definition toolGetAttestationChain ::
    "eth_lib \<Rightarrow> string \<Rightarrow> db \<Rightarrow> (int \<times> (attestation_chain \<times> attestation_link list) list) tool" where
  "toolGetAttestationChain L i d =
     tool_view lookup_msg (ResolveEscrowID L i d) (\<lambda>e.
       ToolJSON (esc_ID e,
         map (\<lambda>ac. (ac, GetAttestationLinksByChain d (ac_ID ac))) (GetAttestationChainsByEscrow d (esc_ID e))))"

record checkpoint_args =
  cpa_EscrowID :: string
  cpa_StateSnapshotURI :: string
  cpa_SnapshotHash :: string
  cpa_SchemaVersion :: string
  cpa_CommittedBy :: string
  cpa_MilestoneIndex :: string
  cpa_CompletionPct :: string
  cpa_MetadataJSON :: string

definition completion_arg :: "string \<Rightarrow> gerr + int option" where
  "completion_arg s =
     (if s = [] then Inr None
      else okThen (because ''invalid completion_pct'' (ParseIntAs ''Atoi'' s)) (\<lambda>v.
        if v < 0 \<or> v > 100 then Inl (errors_New ''completion_pct must be 0-100'') else Inr (Some v)))"

definition checkpoint_of_args :: "checkpoint_args \<Rightarrow> escrow \<Rightarrow> gerr + checkpoint" where
  "checkpoint_of_args a e =
     okThen (require (cpa_StateSnapshotURI a \<noteq> []) ''state_snapshot_uri is required'') (\<lambda>_.
     okThen (require (cpa_CommittedBy a \<noteq> []) ''committed_by is required'') (\<lambda>_.
     okThen (require (EqualFold (cpa_CommittedBy a) (esc_ActiveWorker e))
              ''only the active worker can commit checkpoints'') (\<lambda>_.
     okThen (parseOptionalMilestoneIndex (cpa_MilestoneIndex a) (esc_MilestoneCount e)) (\<lambda>m.
     okThen (completion_arg (cpa_CompletionPct a)) (\<lambda>pct.
     okThen (require (cpa_MetadataJSON a = [] \<or> json_valid (cpa_MetadataJSON a)) ''metadata_json must be valid JSON'') (\<lambda>_.
       Inr \<lparr>cp_ID = 0, cp_EscrowID = esc_ID e, cp_MilestoneIndex = map_option sint m,
            cp_StateSnapshotURI = cpa_StateSnapshotURI a, cp_SnapshotHash = cpa_SnapshotHash a,
            cp_SchemaVersion = (if cpa_SchemaVersion a = [] then ''checkpoint-v1'' else cpa_SchemaVersion a),
            cp_CommittedBy = cpa_CommittedBy a, cp_CompletionPct = pct, cp_MetadataJSON = cpa_MetadataJSON a,
            cp_CreatedAt = 0\<rparr>))))))"

definition checkpoint_event :: "int \<Rightarrow> escrow \<Rightarrow> checkpoint \<Rightarrow> event" where
  "checkpoint_event now e cp =
     \<lparr>ev_Name = ''checkpoint.committed'', ev_Escrow = esc_EscrowAddress e, ev_Level = L1, ev_Block = 0,
      ev_Timestamp = Some now, ev_ID = ''checkpoint-'' @ int_str (cp_ID cp),
      ev_Payload = [(''checkpoint_id'', int_json (cp_ID cp)), (''committed_by'', JStr (cp_CommittedBy cp)),
                    (''escrow_id'', int_json (esc_ID e)), (''state_snapshot_uri'', JStr (cp_StateSnapshotURI cp))]\<rparr>"

text \<open>The events published along the way come with the new database.\<close>

definition toolCommitCheckpoint ::
    "eth_lib \<Rightarrow> int \<Rightarrow> bool \<Rightarrow> checkpoint_args \<Rightarrow> db \<Rightarrow> (db \<times> event list) \<times> checkpoint tool" where
  "toolCommitCheckpoint L now hasBus a d =
     (case ResolveEscrowID L (cpa_EscrowID a) d of
        Inl e \<Rightarrow> ((d, []), ToolText (lookup_msg e))
      | Inr e \<Rightarrow>
          (case checkpoint_of_args a e of
             Inl err \<Rightarrow> ((d, []), text_error err)
           | Inr c \<Rightarrow>
               (case createCheckpointOn now c d of
                  (d1, Inl err) \<Rightarrow> ((d1, []), ToolText (''failed to create checkpoint: '' @ err_msg err))
                | (d1, Inr cp) \<Rightarrow> ((d1, if hasBus then [checkpoint_event now e cp] else []), ToolJSON cp))))"

definition tool_milestone_view ::
    "eth_lib \<Rightarrow> string \<Rightarrow> string \<Rightarrow> db \<Rightarrow> (escrow \<Rightarrow> int option \<Rightarrow> 'b tool) \<Rightarrow> 'b tool" where
  "tool_milestone_view L i milestoneIndex d k =
     tool_view lookup_msg (ResolveEscrowID L i d) (\<lambda>e.
     tool_view err_msg (parseOptionalMilestoneIndex milestoneIndex (esc_MilestoneCount e)) (\<lambda>m.
       k e (map_option sint m)))"

definition toolListCheckpoints :: "eth_lib \<Rightarrow> string \<Rightarrow> string \<Rightarrow> db \<Rightarrow> (int \<times> checkpoint list) tool" where
  "toolListCheckpoints L i milestoneIndex d =
     tool_milestone_view L i milestoneIndex d (\<lambda>e m. ToolJSON (esc_ID e, ListCheckpointsByEscrow d (esc_ID e) m))"

definition toolGetLatestCheckpoint :: "eth_lib \<Rightarrow> string \<Rightarrow> string \<Rightarrow> db \<Rightarrow> checkpoint tool" where
  "toolGetLatestCheckpoint L i milestoneIndex d =
     tool_milestone_view L i milestoneIndex d (\<lambda>e m.
       tool_view (\<lambda>err. if errors_is err ErrNoRows then ''no checkpoints found for this escrow''
                       else ''failed to get latest checkpoint: '' @ err_msg err)
         (GetLatestCheckpoint d (esc_ID e) m) ToolJSON)"

section \<open>Events\<close>

definition poll_limit :: "string \<Rightarrow> gerr + int" where
  "poll_limit s =
     (if s = [] then Inr 50
      else case ParseInt64 s of
        None \<Rightarrow> Inl (errors_New ''invalid limit: must be a positive integer'')
      | Some v \<Rightarrow> if v \<le> 0 then Inl (errors_New ''invalid limit: must be a positive integer'') else Inr (min v 200))"

definition poll_cursor :: "event list \<Rightarrow> string" where
  "poll_cursor recent = (if recent = [] then [] else ev_ID (last recent))"

definition toolSubscribeEvents ::
    "event_bus \<Rightarrow> string \<Rightarrow> string \<Rightarrow> string \<Rightarrow> string \<Rightarrow> (event list \<times> string \<times> nat) tool" where
  "toolSubscribeEvents b escrowAddress sinceID granularity limit =
     (case poll_limit limit of
        Inl e \<Rightarrow> text_error e
      | Inr n \<Rightarrow>
          let recent = RecentEvents escrowAddress (ParseGranularity granularity) sinceID n b in
          ToolJSON (recent, poll_cursor recent, length recent))"

end
