(* ===== verification/Webhook.thy ===== *)
theory Webhook
  imports McpTools Indexer
begin

text \<open>
  \<open>internal/api/webhook.go\<close>: events of the factory contract delivered by a webhook of the node provider. A
  request is its body as far as it is read, whether reading succeeded, and its headers; HMAC-SHA256 and the
  clock are parameters. The events published on the bus come with the new database.
\<close>

section \<open>Payloads\<close>

record webhook_data =
  wd_SubscriptionID :: string
  wd_NetworkID :: string
  wd_BlockNumber :: string
  wd_BlockHash :: string
  wd_TransactionHash :: string
  wd_LogIndex :: string
  wd_ContractAddress :: string
  wd_EventName :: string
  wd_EscrowID :: string
  wd_Escrow :: string
  wd_Buyer :: string
  wd_Worker :: string
  wd_Verifier :: string
  wd_Arbitrator :: string
  wd_TaskSpecHash :: string
  wd_Token :: string
  wd_Participant :: string
  wd_Role :: string
  wd_Outcome :: string

record webhook_payload =
  wp_ID :: string
  wp_Type :: string
  wp_CreatedAt :: string
  wp_Data :: webhook_data

text \<open>A \<open>json.Number\<close> is a number, or a string that holds one.\<close>

definition valid_number :: "string \<Rightarrow> bool" where
  "valid_number s \<longleftrightarrow> parse_json s = Some (JNum s)"

fun number_field :: "string \<Rightarrow> (string \<times> json) list \<Rightarrow> string \<Rightarrow> string option" where
  "number_field name [] acc = Some acc"
| "number_field name ((k, v) # kvs) acc =
     (if EqualFold k name then
        (case v of
           JNum s \<Rightarrow> number_field name kvs s
         | JStr s \<Rightarrow> if valid_number s then number_field name kvs s else None
         | JNull \<Rightarrow> number_field name kvs acc
         | _ \<Rightarrow> None)
      else number_field name kvs acc)"

text \<open>The members of a struct in a field: a repeated key goes on decoding into the same struct.\<close>

fun struct_members :: "string \<Rightarrow> (string \<times> json) list \<Rightarrow> (string \<times> json) list option" where
  "struct_members name [] = Some []"
| "struct_members name ((k, v) # kvs) =
     (if EqualFold k name then
        (case v of
           JObj es \<Rightarrow> map_option ((@) es) (struct_members name kvs)
         | JNull \<Rightarrow> struct_members name kvs
         | _ \<Rightarrow> None)
      else struct_members name kvs)"

definition decode_webhook_data :: "(string \<times> json) list \<Rightarrow> webhook_data option" where
  "decode_webhook_data kvs =
     (let s = (\<lambda>name. str_field name kvs []); n = (\<lambda>name. number_field name kvs []) in
      case (those (map s [''subscriptionId'', ''networkId'', ''blockHash'', ''transactionHash'',
              ''contractAddress'', ''eventName'', ''escrowId'', ''escrow'', ''buyer'', ''worker'', ''verifier'',
              ''arbitrator'', ''taskSpecHash'', ''token'', ''participant'', ''role'', ''outcome'']),
            n ''blockNumber'', n ''logIndex'') of
        (Some ss, Some b, Some l) \<Rightarrow>
          Some \<lparr>wd_SubscriptionID = ss ! 0, wd_NetworkID = ss ! 1, wd_BlockNumber = b, wd_BlockHash = ss ! 2,
                wd_TransactionHash = ss ! 3, wd_LogIndex = l, wd_ContractAddress = ss ! 4, wd_EventName = ss ! 5,
                wd_EscrowID = ss ! 6, wd_Escrow = ss ! 7, wd_Buyer = ss ! 8, wd_Worker = ss ! 9,
                wd_Verifier = ss ! 10, wd_Arbitrator = ss ! 11, wd_TaskSpecHash = ss ! 12, wd_Token = ss ! 13,
                wd_Participant = ss ! 14, wd_Role = ss ! 15, wd_Outcome = ss ! 16\<rparr>
      | _ \<Rightarrow> None)"

definition decode_webhook :: "(string \<times> json) list \<Rightarrow> webhook_payload option" where
  "decode_webhook kvs =
     (case (str_field ''id'' kvs [], str_field ''type'' kvs [], str_field ''createdAt'' kvs [],
            struct_members ''data'' kvs) of
        (Some i, Some t, Some c, Some es) \<Rightarrow>
          (case decode_webhook_data es of
             None \<Rightarrow> None
           | Some dt \<Rightarrow> Some \<lparr>wp_ID = i, wp_Type = t, wp_CreatedAt = c, wp_Data = dt\<rparr>)
      | _ \<Rightarrow> None)"

definition unmarshal_webhook :: "string \<Rightarrow> webhook_payload option" where
  "unmarshal_webhook body =
     (case parse_json body of
        Some (JObj kvs) \<Rightarrow> decode_webhook kvs
      | Some JNull \<Rightarrow> decode_webhook []
      | _ \<Rightarrow> None)"

section \<open>Signatures\<close>

record webhook_env =
  wh_L :: eth_lib
  wh_Hmac :: "string \<Rightarrow> string \<Rightarrow> byte list"
  wh_Secret :: string
  wh_NowNanos :: int
  wh_Now :: int
  wh_Factory :: addr
  wh_ChainID :: int
  wh_Bus :: bool

record webhook_request =
  wq_Sent :: string
  wq_ReadOK :: bool
  wq_Header :: "string \<Rightarrow> string"

definition signatureHeader :: string where "signatureHeader = ''X-Hook0-Signature''"

definition maxWebhookBodySize :: nat where "maxWebhookBodySize = 1048576"

definition maxTimestampAge :: int where "maxTimestampAge = 5 * 60 * 1000000000"

text \<open>\<open>io.LimitReader\<close>\<close>

definition wq_Body :: "webhook_request \<Rightarrow> string" where
  "wq_Body q = take maxWebhookBodySize (wq_Sent q)"

record signature_parts =
  sp_Timestamp :: string
  sp_HeaderNames :: string
  sp_Provided :: string

definition add_part :: "signature_parts \<Rightarrow> string \<Rightarrow> signature_parts" where
  "add_part s raw =
     (let p = TrimSpace raw in
      if HasPrefix p ''t='' then s\<lparr>sp_Timestamp := TrimPrefix p ''t=''\<rparr>
      else if HasPrefix p ''h='' then s\<lparr>sp_HeaderNames := TrimPrefix p ''h=''\<rparr>
      else if HasPrefix p ''v1='' then s\<lparr>sp_Provided := TrimPrefix p ''v1=''\<rparr>
      else s)"

definition signature_of :: "string \<Rightarrow> signature_parts option" where
  "signature_of header =
     (let parts = Split CHR '','' header in
      if length parts < 3 then None
      else let s = foldl add_part \<lparr>sp_Timestamp = [], sp_HeaderNames = [], sp_Provided = []\<rparr> parts in
        if sp_Timestamp s = [] \<or> sp_Provided s = [] then None else Some s)"

definition signedPayload :: "(string \<Rightarrow> string) \<Rightarrow> signature_parts \<Rightarrow> string \<Rightarrow> string" where
  "signedPayload headers s body =
     sp_Timestamp s @ ''.'' @ sp_HeaderNames s @ ''.''
     @ Join (map headers (Split CHR '' '' (sp_HeaderNames s))) ''.'' @ ''.'' @ body"

definition fresh_timestamp :: "int \<Rightarrow> int \<Rightarrow> bool" where
  "fresh_timestamp nowNanos ts \<longleftrightarrow>
     (let drift = nowNanos - ts * 1000000000 in \<not> (drift > maxTimestampAge \<or> drift < - maxTimestampAge))"

definition verifyCDPSignature :: "webhook_env \<Rightarrow> string \<Rightarrow> string \<Rightarrow> (string \<Rightarrow> string) \<Rightarrow> bool" where
  "verifyCDPSignature W body header headers =
     (case signature_of header of
        None \<Rightarrow> False
      | Some s \<Rightarrow>
          (case ParseInt64 (sp_Timestamp s) of
             None \<Rightarrow> False
           | Some ts \<Rightarrow>
               if \<not> fresh_timestamp (wh_NowNanos W) ts then False
               else (case (DecodeString (sp_Provided s),
                           DecodeString (EncodeToString (wh_Hmac W (wh_Secret W) (signedPayload headers s body)))) of
                       (Inr provided, Inr expected) \<Rightarrow> provided = expected
                     | _ \<Rightarrow> False)))"

section \<open>Events\<close>

definition bad_party :: "webhook_env \<Rightarrow> webhook_data \<Rightarrow> (string \<times> string) option" where
  "bad_party W dt =
     find (\<lambda>(name, val). \<not> IsHexAddress (wh_L W) val)
       [(''buyer'', wd_Buyer dt), (''worker'', wd_Worker dt), (''verifier'', wd_Verifier dt),
        (''arbitrator'', wd_Arbitrator dt)]"

definition hex_of :: "webhook_env \<Rightarrow> string \<Rightarrow> string" where
  "hex_of W s = AddressHex (wh_L W) (HexToAddress (wh_L W) s)"

definition webhook_escrow :: "webhook_env \<Rightarrow> webhook_data \<Rightarrow> int \<Rightarrow> int \<Rightarrow> addr \<Rightarrow> escrow" where
  "webhook_escrow W dt taskID escrowID token =
     blank_escrow\<lparr>esc_TaskID := taskID, esc_ChainID := wh_ChainID W,
        esc_FactoryAddress := AddressHex (wh_L W) (wh_Factory W), esc_EscrowAddress := hex_of W (wd_Escrow dt),
        esc_EscrowID := escrowID, esc_Buyer := hex_of W (wd_Buyer dt), esc_Worker := hex_of W (wd_Worker dt),
        esc_Verifier := hex_of W (wd_Verifier dt), esc_Arbitrator := hex_of W (wd_Arbitrator dt),
        esc_Amount := ''0'', esc_Token := AddressHex (wh_L W) token, esc_Status := ''created'',
        esc_SubmissionDeadline := 0\<rparr>"

definition webhook_escrow_id :: "string \<Rightarrow> gerr + int" where
  "webhook_escrow_id s =
     (if s = [] then Inr 0
      else case ParseIntAs ''ParseInt'' s of
        Inl e \<Rightarrow> Inl (wrap (''EscrowCreated: malformed escrowId '' @ Quote s) e) | Inr i \<Rightarrow> Inr i)"

definition webhook_token :: "webhook_env \<Rightarrow> string \<Rightarrow> gerr + addr" where
  "webhook_token W s =
     (if s = [] then Inr zero_addr
      else if \<not> IsHexAddress (wh_L W) s then Inl (errors_New (''EscrowCreated: invalid token address: '' @ Quote s))
      else Inr (HexToAddress (wh_L W) s))"

definition webhookEscrowCreated :: "webhook_env \<Rightarrow> webhook_data \<Rightarrow> db \<Rightarrow> unit result" where
  "webhookEscrowCreated W dt d =
     (if \<not> IsHexAddress (wh_L W) (wd_Escrow dt)
      then (d, Inl (errors_New (''EscrowCreated: invalid escrow address: '' @ Quote (wd_Escrow dt))))
      else case GetEscrowByAddress d (hex_of W (wd_Escrow dt)) of
        Inr _ \<Rightarrow> (d, Inr ())
      | Inl e \<Rightarrow>
          if \<not> errors_is e ErrNoRows
          then (d, Inl (wrap (''check existing escrow '' @ hex_of W (wd_Escrow dt)) e))
          else (case bad_party W dt of
            Some (name, val) \<Rightarrow>
              (d, Inl (errors_New (''EscrowCreated: invalid '' @ name @ '' address: '' @ Quote val)))
          | None \<Rightarrow>
              orFail d id (webhook_escrow_id (wd_EscrowID dt)) (\<lambda>escrowID.
              orFail d id (webhook_token W (wd_Token dt)) (\<lambda>token.
              andThen (mapErr (wrap ''create task'')
                (createTaskOn (wh_Now W) ''Indexed task'' []
                   (if wd_TaskSpecHash dt = [] then ''0x0'' else wd_TaskSpecHash dt) d)) (\<lambda>d1 t.
              andThen (mapErr (wrap ''create escrow'')
                (createEscrowOn (wh_Now W) (webhook_escrow W dt (tsk_ID t) escrowID token) d1)) (\<lambda>d2 _.
                (d2, Inr ())))))))"

definition webhookOutcomeRecorded :: "webhook_env \<Rightarrow> webhook_data \<Rightarrow> int \<Rightarrow> int \<Rightarrow> db \<Rightarrow> unit result" where
  "webhookOutcomeRecorded W dt blockNum logIndex d =
     (if \<not> IsHexAddress (wh_L W) (wd_Participant dt)
      then (d, Inl (errors_New (''OutcomeRecorded: invalid participant address: '' @ Quote (wd_Participant dt))))
      else RecordReputationOutcome (wh_Now W) (wh_Now W)
        (Some \<lparr>rev_ID = 0, rev_Address = ToLower (hex_of W (wd_Participant dt)), rev_Role = wd_Role dt,
               rev_Outcome = wd_Outcome dt, rev_TxHash = wd_TransactionHash dt, rev_LogIndex = logIndex,
               rev_BlockNumber = blockNum, rev_OccurredAt = zero_time, rev_CreatedAt = zero_time\<rparr>) d)"

definition webhook_handler :: "webhook_env \<Rightarrow> webhook_data \<Rightarrow> int \<Rightarrow> int \<Rightarrow> db \<Rightarrow> unit result" where
  "webhook_handler W dt blockNum logIndex d =
     (if wd_EventName dt = ''EscrowCreated'' then webhookEscrowCreated W dt d
      else if wd_EventName dt = ''OutcomeRecorded'' then webhookOutcomeRecorded W dt blockNum logIndex d
      else (d, Inr ()))"

definition publishWebhookEvent :: "webhook_env \<Rightarrow> webhook_data \<Rightarrow> int \<Rightarrow> event list" where
  "publishWebhookEvent W dt blockNum =
     (if \<not> wh_Bus W \<or> blockNum < 0 then []
      else case OnChainEventName (wd_EventName dt) of
        None \<Rightarrow> []
      | Some name \<Rightarrow>
          [\<lparr>ev_Name = name, ev_Escrow = wd_Escrow dt, ev_Level = L1, ev_Block = nat blockNum, ev_Timestamp = None,
            ev_ID = wd_TransactionHash dt @ ''-'' @ wd_LogIndex dt, ev_Payload = []\<rparr>])"

definition number_of :: "string \<Rightarrow> string \<Rightarrow> string \<Rightarrow> gerr + int" where
  "number_of fn field s =
     (case ParseIntAs fn s of Inl e \<Rightarrow> Inl (wrap (''invalid '' @ field @ '' '' @ Quote s) e) | Inr i \<Rightarrow> Inr i)"

definition check_contract :: "webhook_env \<Rightarrow> webhook_data \<Rightarrow> gerr + unit" where
  "check_contract W dt =
     (if \<not> IsHexAddress (wh_L W) (wd_ContractAddress dt)
      then Inl (errors_New (''invalid contract address: '' @ Quote (wd_ContractAddress dt)))
      else if HexToAddress (wh_L W) (wd_ContractAddress dt) \<noteq> wh_Factory W
      then Inl (errors_New (''contract address '' @ wd_ContractAddress dt @ '' does not match factory ''
             @ AddressHex (wh_L W) (wh_Factory W)))
      else Inr ())"

definition processWebhookEvent :: "webhook_env \<Rightarrow> webhook_data \<Rightarrow> db \<Rightarrow> event list result" where
  "processWebhookEvent W dt d =
     orFail d id (check_contract W dt) (\<lambda>_.
     orFail d id (number_of ''Atoi'' ''logIndex'' (wd_LogIndex dt)) (\<lambda>logIdx.
     orFail d id (number_of ''ParseInt'' ''blockNumber'' (wd_BlockNumber dt)) (\<lambda>blockNum.
       if ChainLogExists d (wd_TransactionHash dt) logIdx then (d, Inr [])
       else andThen (webhook_handler W dt blockNum logIdx d) (\<lambda>d1 _.
         (CreateChainLog (wh_Now W) (wd_TransactionHash dt) logIdx blockNum (wd_EventName dt)
            (wd_ContractAddress dt) [] d1,
          Inr (publishWebhookEvent W dt blockNum))))))"

section \<open>The endpoint\<close>

definition HandleCDPWebhook :: "webhook_env \<Rightarrow> webhook_request \<Rightarrow> db \<Rightarrow> (db \<times> event list) \<times> string http" where
  "HandleCDPWebhook W q d =
     (let refuse = (\<lambda>code msg. ((d, []), HttpError code msg)) in
      if wh_Secret W = [] then refuse 500 ''webhook secret not configured''
      else if \<not> wq_ReadOK q then refuse 400 ''failed to read body''
      else if wq_Header q signatureHeader = [] then refuse 401 ''missing signature''
      else if \<not> verifyCDPSignature W (wq_Body q) (wq_Header q signatureHeader) (wq_Header q)
      then refuse 401 ''invalid signature''
      else case unmarshal_webhook (wq_Body q) of
        None \<Rightarrow> refuse 400 ''invalid json''
      | Some p \<Rightarrow>
          if wp_Type p \<noteq> ''onchain.activity.detected'' then ((d, []), HttpOk 200 ''ignored'')
          else (case processWebhookEvent W (wp_Data p) d of
                  (d1, Inl _) \<Rightarrow> ((d1, []), HttpError 500 ''processing failed'')
                | (d1, Inr evs) \<Rightarrow> ((d1, evs), HttpOk 200 ''ok'')))"

section \<open>Only signed events, and each once\<close>

definition signed_for :: "webhook_env \<Rightarrow> webhook_request \<Rightarrow> bool" where
  "signed_for W q \<longleftrightarrow> wh_Secret W \<noteq> [] \<and>
     (\<exists>s ts. signature_of (wq_Header q signatureHeader) = Some s \<and> ParseInt64 (sp_Timestamp s) = Some ts
        \<and> \<bar>wh_NowNanos W - ts * 1000000000\<bar> \<le> maxTimestampAge
        \<and> DecodeString (sp_Provided s)
            = Inr (wh_Hmac W (wh_Secret W) (signedPayload (wq_Header q) s (wq_Body q))))"

lemma verify_signed:
  assumes "verifyCDPSignature W (wq_Body q) (wq_Header q signatureHeader) (wq_Header q)" "wh_Secret W \<noteq> []"
  shows "signed_for W q"
proof -
  obtain s ts where s: "signature_of (wq_Header q signatureHeader) = Some s"
      "ParseInt64 (sp_Timestamp s) = Some ts" "fresh_timestamp (wh_NowNanos W) ts"
    using assms(1) by (auto simp: verifyCDPSignature_def split: option.splits if_splits)
  then have "DecodeString (sp_Provided s)
      = Inr (wh_Hmac W (wh_Secret W) (signedPayload (wq_Header q) s (wq_Body q)))"
    using assms(1) by (cases "DecodeString (sp_Provided s)") (auto simp: verifyCDPSignature_def decode_encode)
  then show ?thesis using s assms(2) by (auto simp: signed_for_def fresh_timestamp_def Let_def abs_le_iff)
qed

lemma check_contract_Inr [err_iff]:
  "check_contract W dt = Inr u \<longleftrightarrow>
     IsHexAddress (wh_L W) (wd_ContractAddress dt) \<and> HexToAddress (wh_L W) (wd_ContractAddress dt) = wh_Factory W"
  by (auto simp: check_contract_def)

lemma number_of_Inr [err_iff]: "number_of fn field s = Inr i \<longleftrightarrow> ParseIntAs fn s = Inr i"
  by (simp add: number_of_def split: sum.splits)

lemma ParseIntAs_name: "ParseIntAs fn s = Inr i \<Longrightarrow> ParseIntAs fn' s = Inr i"
  by (auto simp: ParseIntAs_def Let_def split: sum.splits if_splits)

lemma handler_logs:
  assumes "webhook_handler W dt b l d = (d', r)"
  shows "chain_logs d' = chain_logs d"
proof -
  have task: "chain_logs (fst (createTaskOn n t x s d)) = chain_logs d" for n t x s d
    by (simp add: createTaskOn_def Let_def)
  have esc: "chain_logs (fst (createEscrowOn n e d)) = chain_logs d" for n e d
    by (simp add: createEscrowOn_def Let_def)
  have "chain_logs d' = chain_logs d" if "webhookEscrowCreated W dt d = (d', r)"
    using that task esc
    by (auto simp: webhookEscrowCreated_def orFail_def andThen_def mapErr_def split: sum.splits option.splits if_splits
        prod.splits) (metis fst_conv)+
  moreover have "chain_logs d' = chain_logs d" if "webhookOutcomeRecorded W dt b l d = (d', r)"
    using that
    by (auto simp: webhookOutcomeRecorded_def RecordReputationOutcome_def insertReputationEventOn_def
        upsertReputationOn_def Let_def split: sum.splits option.splits if_splits prod.splits)
  ultimately show ?thesis using assms by (auto simp: webhook_handler_def split: if_splits)
qed

lemma ChainLogExists_mono:
  "set (chain_logs d) \<subseteq> set (chain_logs d') \<Longrightarrow> ChainLogExists d tx i \<Longrightarrow> ChainLogExists d' tx i"
  by (auto simp: ChainLogExists_def list_ex_iff)

lemma ChainLogExists_created: "ChainLogExists (CreateChainLog now tx i b n c r d) tx i"
  by (auto simp: ChainLogExists_def CreateChainLog_def row_add_def list_ex_iff)

text \<open>The entry of the log that a delivery is recorded under.\<close>

definition delivery_key :: "webhook_data \<Rightarrow> (string \<times> int) option" where
  "delivery_key dt =
     (case ParseIntAs ''Atoi'' (wd_LogIndex dt) of Inl _ \<Rightarrow> None | Inr i \<Rightarrow> Some (wd_TransactionHash dt, i))"

definition delivered :: "webhook_data \<Rightarrow> db \<Rightarrow> bool" where
  "delivered dt d \<longleftrightarrow> (\<exists>tx i. delivery_key dt = Some (tx, i) \<and> ChainLogExists d tx i)"

lemma delivered_mono: "set (chain_logs d) \<subseteq> set (chain_logs d') \<Longrightarrow> delivered dt d \<Longrightarrow> delivered dt d'"
  using ChainLogExists_mono by (auto simp: delivered_def)

lemma process_again: "delivered dt d \<Longrightarrow> processWebhookEvent W dt d = (d', r) \<Longrightarrow> d' = d \<and> r \<in> {Inr []} \<union> range Inl"
  by (auto simp: delivered_def delivery_key_def processWebhookEvent_def orFail_def number_of_def
      split: sum.splits if_splits prod.splits)

lemma processed_delivered:
  assumes "processWebhookEvent W dt d = (d', Inr evs)"
  shows "delivered dt d'"
  using assms
  by (auto simp: delivered_def delivery_key_def processWebhookEvent_def orFail_def andThen_def number_of_def
      ChainLogExists_created split: sum.splits if_splits prod.splits)

lemma process_acts:
  assumes "processWebhookEvent W dt d = (d', r)" "d' \<noteq> d \<or> (\<exists>ev evs. r = Inr (ev # evs))"
  shows "IsHexAddress (wh_L W) (wd_ContractAddress dt)" "HexToAddress (wh_L W) (wd_ContractAddress dt) = wh_Factory W"
    "delivery_key dt \<noteq> None" "\<not> delivered dt d"
proof -
  have c: "\<exists>u. check_contract W dt = Inr u" and k: "\<exists>i. number_of ''Atoi'' ''logIndex'' (wd_LogIndex dt) = Inr i"
    using assms by (auto simp: processWebhookEvent_def orFail_def split: sum.splits)
  then show "IsHexAddress (wh_L W) (wd_ContractAddress dt)" "HexToAddress (wh_L W) (wd_ContractAddress dt) = wh_Factory W"
    by (auto simp: err_iff)
  show "delivery_key dt \<noteq> None" using k by (auto simp: err_iff delivery_key_def)
  show "\<not> delivered dt d" using process_again assms by blast
qed

lemma publish_one: "length (publishWebhookEvent W dt b) \<le> 1"
  by (simp add: publishWebhookEvent_def split: option.splits)

lemma process_publishes: "processWebhookEvent W dt d = (d', Inr evs) \<Longrightarrow> length evs \<le> 1"
  by (auto simp: processWebhookEvent_def orFail_def andThen_def publish_one[simplified]
      split: sum.splits if_splits prod.splits)

lemma webhook_cases:
  assumes "HandleCDPWebhook W q d = ((d', evs), r)"
  obtains (refused) "d' = d" "evs = []" "r \<noteq> HttpOk 200 ''ok''"
  | (processed) p where "signed_for W q" "unmarshal_webhook (wq_Body q) = Some p"
      "processWebhookEvent W (wp_Data p) d = (d', Inr evs)" "r = HttpOk 200 ''ok''"
  | (failed) p e where "signed_for W q" "unmarshal_webhook (wq_Body q) = Some p"
      "processWebhookEvent W (wp_Data p) d = (d', Inl e)" "evs = []" "r = HttpError 500 ''processing failed''"
  using assms verify_signed[of W q]
  by (auto simp: HandleCDPWebhook_def Let_def split: if_splits option.splits prod.splits sum.splits)

lemma delivered_no_effect:
  assumes "unmarshal_webhook (wq_Body q) = Some p" "delivered (wp_Data p) d"
  shows "fst (HandleCDPWebhook W q d) = (d, [])"
proof -
  obtain d' evs r where run: "HandleCDPWebhook W q d = ((d', evs), r)" by (metis surj_pair)
  then have "d' = d \<and> evs = []" using assms process_again by (cases rule: webhook_cases) fastforce+
  then show ?thesis using run by simp
qed

text \<open>The event of the contract has no verifier, so the field is empty and an escrow that is not stored yet is
  refused.\<close>

lemma escrow_event_needs_verifier:
  assumes "\<not> IsHexAddress (wh_L W) (wd_Verifier dt)" "IsHexAddress (wh_L W) (wd_Escrow dt)"
    "GetEscrowByAddress d (hex_of W (wd_Escrow dt)) = Inl e"
  shows "\<exists>err. webhookEscrowCreated W dt d = (d, Inl err)"
proof -
  have "bad_party W dt \<noteq> None" using assms(1) by (simp add: bad_party_def)
  then obtain name val where "bad_party W dt = Some (name, val)" by force
  then show ?thesis using assms(2,3) by (simp add: webhookEscrowCreated_def)
qed

section \<open>A delivery\<close>

definition sample_webhook_env :: webhook_env where
  "sample_webhook_env = \<lparr>wh_L = sample_eth, wh_Hmac = (\<lambda>k m. [1]), wh_Secret = ''s'', wh_NowNanos = 5000000000,
     wh_Now = 5, wh_Factory = HexToAddress sample_eth ''0xfa'', wh_ChainID = 1, wh_Bus = True\<rparr>"

definition sample_fields :: "(string \<times> json) list" where
  "sample_fields =
     [(''contractAddress'', JStr ''0xfa''), (''eventName'', JStr ''OutcomeRecorded''), (''participant'', JStr ''0xaa''),
      (''role'', JStr ''worker''), (''outcome'', JStr ''completed''), (''transactionHash'', JStr ''0x01''),
      (''blockNumber'', JNum ''7''), (''logIndex'', JNum ''0'')]"

definition sample_event :: "json" where
  "sample_event = JObj [(''type'', JStr ''onchain.activity.detected''), (''data'', JObj sample_fields)]"

definition sample_delivery :: webhook_request where
  "sample_delivery = \<lparr>wq_Sent = render sample_event, wq_ReadOK = True, wq_Header = (\<lambda>_. ''t=4,h=a,v1=01'')\<rparr>"

definition sample_data :: webhook_data where
  "sample_data =
     \<lparr>wd_SubscriptionID = [], wd_NetworkID = [], wd_BlockNumber = ''7'', wd_BlockHash = [],
                wd_TransactionHash = ''0x01'', wd_LogIndex = ''0'', wd_ContractAddress = ''0xfa'', wd_EventName = ''OutcomeRecorded'',
                wd_EscrowID = [], wd_Escrow = [], wd_Buyer = [], wd_Worker = [],
                wd_Verifier = [], wd_Arbitrator = [], wd_TaskSpecHash = [], wd_Token = [],
                wd_Participant = ''0xaa'', wd_Role = ''worker'', wd_Outcome = ''completed''\<rparr>"

lemma webhook_names:
  "ToLower ''subscriptionId'' = ''subscriptionid''"
  "ToLower ''networkId'' = ''networkid''"
  "ToLower ''blockHash'' = ''blockhash''"
  "ToLower ''transactionHash'' = ''transactionhash''"
  "ToLower ''contractAddress'' = ''contractaddress''"
  "ToLower ''eventName'' = ''eventname''"
  "ToLower ''escrowId'' = ''escrowid''"
  "ToLower ''escrow'' = ''escrow''"
  "ToLower ''buyer'' = ''buyer''"
  "ToLower ''worker'' = ''worker''"
  "ToLower ''verifier'' = ''verifier''"
  "ToLower ''arbitrator'' = ''arbitrator''"
  "ToLower ''taskSpecHash'' = ''taskspechash''"
  "ToLower ''token'' = ''token''"
  "ToLower ''participant'' = ''participant''"
  "ToLower ''role'' = ''role''"
  "ToLower ''outcome'' = ''outcome''"
  "ToLower ''blockNumber'' = ''blocknumber''"
  "ToLower ''logIndex'' = ''logindex''"
  "ToLower ''id'' = ''id''"
  "ToLower ''type'' = ''type''"
  "ToLower ''createdAt'' = ''createdat''"
  "ToLower ''data'' = ''data''"
  by code_simp+

lemma sample_data_decoded: "decode_webhook_data sample_fields = Some sample_data"
  by (simp add: decode_webhook_data_def EqualFold_def webhook_names sample_fields_def sample_data_def)

lemma sample_event_fits: "length (render sample_event) \<le> maxWebhookBodySize" 
  by (simp add: sample_event_def sample_fields_def json_quote_def esc_char_def maxWebhookBodySize_def)

lemma sample_event_numbers: "int_numbers sample_event" by code_simp

lemma sample_signature: "signature_of ''t=4,h=a,v1=01'' = Some \<lparr>sp_Timestamp = ''4'', sp_HeaderNames = ''a'', sp_Provided = ''01''\<rparr>" by code_simp

lemma sample_timestamp: "ParseInt64 ''4'' = Some 4" by code_simp

lemma sample_mac: "DecodeString ''01'' = Inr [1]" by code_simp

lemma sample_numbers: "ParseIntAs f ''7'' = Inr 7" "ParseIntAs f ''0'' = Inr 0" 
  by (simp_all add: ParseIntAs_def HasPrefix_def scan_number_def Let_def is_digit_def digit_val_def)

lemma sample_event_decoded: "decode_webhook [(''type'', JStr ''onchain.activity.detected''), (''data'', JObj sample_fields)] =
   Some \<lparr>wp_ID = [], wp_Type = ''onchain.activity.detected'', wp_CreatedAt = [], wp_Data = sample_data\<rparr>"
  by (simp add: decode_webhook_def EqualFold_def webhook_names sample_data_decoded)

lemma sample_body: "wq_Body sample_delivery = render sample_event"
  using sample_event_fits by (simp add: wq_Body_def sample_delivery_def)

lemma sample_unmarshalled: "unmarshal_webhook (wq_Body sample_delivery) = Some \<lparr>wp_ID = [], wp_Type = ''onchain.activity.detected'', wp_CreatedAt = [], wp_Data = sample_data\<rparr>"
  unfolding sample_body unmarshal_webhook_def parse_render[OF sample_event_numbers] by (simp add: sample_event_def sample_event_decoded)

lemma sample_verified: "verifyCDPSignature sample_webhook_env (wq_Body sample_delivery) (wq_Header sample_delivery signatureHeader) (wq_Header sample_delivery)"
  by (simp add: verifyCDPSignature_def sample_delivery_def sample_signature sample_timestamp sample_mac fresh_timestamp_def maxTimestampAge_def sample_webhook_env_def decode_encode del: DecodeString.simps EncodeToString.simps)

lemma sample_participant: "\<not> blank (ToLower (text_of (bytes_of (ToLower ''0xaa''))))" by code_simp

lemma sample_tx: "\<not> blank ''0x01''" by code_simp

lemma sample_processed:
  "\<exists>d'. processWebhookEvent sample_webhook_env sample_data empty_db
     = (d', Inr (publishWebhookEvent sample_webhook_env sample_data 7))"
  by (simp add: processWebhookEvent_def orFail_def check_contract_def number_of_def sample_data_def sample_numbers
      sample_webhook_env_def HasPrefix_def ChainLogExists_def empty_db_def webhook_handler_def andThen_def)
    (simp add: webhookOutcomeRecorded_def RecordReputationOutcome_def insertReputationEventOn_def
      validateReputationRole_def validateReputationOutcome_def upsertReputationOn_def HasPrefix_def
      sample_participant sample_tx hex_of_def Let_def)

lemma sample_published: "publishWebhookEvent sample_webhook_env sample_data 7 \<noteq> []"
  by (simp add: publishWebhookEvent_def OnChainEventName_def sample_webhook_env_def sample_data_def)

lemma sample_handled:
  "\<exists>d'. HandleCDPWebhook sample_webhook_env sample_delivery empty_db
     = ((d', publishWebhookEvent sample_webhook_env sample_data 7), HttpOk 200 ''ok'')"
proof -
  have "wh_Secret sample_webhook_env \<noteq> []" "wq_ReadOK sample_delivery" "wq_Header sample_delivery signatureHeader \<noteq> []"
    by (simp_all add: sample_webhook_env_def sample_delivery_def)
  then show ?thesis
    using sample_processed by (auto simp: HandleCDPWebhook_def sample_verified sample_unmarshalled)
qed

text \<open>C36: A webhook delivery that changes the database or publishes an event carries a fresh signature over its
  body with the configured secret, is an event of the factory contract and was not delivered before; it publishes
  at most one event, and none unless it succeeds. Once a delivery has been answered with success, no delivery of
  the same body has any effect again, whatever its headers and whenever it comes.\<close>

theorem webhook_authentic_once:
  assumes "HandleCDPWebhook W q d = ((d', evs), r)"
  shows "(d' \<noteq> d \<or> evs \<noteq> [] \<longrightarrow>
        signed_for W q \<and> (\<exists>p. unmarshal_webhook (wq_Body q) = Some p
          \<and> IsHexAddress (wh_L W) (wd_ContractAddress (wp_Data p))
          \<and> HexToAddress (wh_L W) (wd_ContractAddress (wp_Data p)) = wh_Factory W
          \<and> delivery_key (wp_Data p) \<noteq> None \<and> \<not> delivered (wp_Data p) d))
    \<and> length evs \<le> 1 \<and> (evs \<noteq> [] \<longrightarrow> r = HttpOk 200 ''ok'')
    \<and> (r = HttpOk 200 ''ok'' \<longrightarrow>
        (\<forall>W2 q2 d2. wq_Body q2 = wq_Body q \<longrightarrow> set (chain_logs d') \<subseteq> set (chain_logs d2) \<longrightarrow>
          fst (HandleCDPWebhook W2 q2 d2) = (d2, [])))"
  using assms
proof (cases rule: webhook_cases)
  case refused
  then show ?thesis by simp
next
  case (processed p)
  then have "delivered (wp_Data p) d'" by (simp add: processed_delivered)
  then have "\<forall>W2 q2 d2. wq_Body q2 = wq_Body q \<longrightarrow> set (chain_logs d') \<subseteq> set (chain_logs d2) \<longrightarrow>
      fst (HandleCDPWebhook W2 q2 d2) = (d2, [])"
    using processed(2) delivered_mono delivered_no_effect by metis
  moreover have "d' \<noteq> d \<or> evs \<noteq> [] \<longrightarrow> d' \<noteq> d \<or> (\<exists>ev es. (Inr evs :: gerr + event list) = Inr (ev # es))"
    by (cases evs) auto
  ultimately show ?thesis using processed process_acts[OF processed(3)] process_publishes[OF processed(3)] by blast
next
  case (failed p e)
  then show ?thesis using process_acts[OF failed(3)] by auto
qed

lemma webhook_authentic_once_witness:
  "\<exists>d' evs. HandleCDPWebhook sample_webhook_env sample_delivery empty_db = ((d', evs), HttpOk 200 ''ok'')
     \<and> length evs = 1 \<and> signed_for sample_webhook_env sample_delivery
     \<and> \<not> delivered sample_data empty_db
     \<and> fst (HandleCDPWebhook sample_webhook_env sample_delivery d') = (d', [])"
proof -
  let ?evs = "publishWebhookEvent sample_webhook_env sample_data 7"
  obtain d' where run: "HandleCDPWebhook sample_webhook_env sample_delivery empty_db = ((d', ?evs), HttpOk 200 ''ok'')"
    using sample_handled by blast
  note once = webhook_authentic_once[OF run]
  have one: "length ?evs = 1" using once sample_published by (cases ?evs) auto
  have "signed_for sample_webhook_env sample_delivery" "\<not> delivered sample_data empty_db"
    using once sample_published sample_unmarshalled by auto
  moreover have "fst (HandleCDPWebhook sample_webhook_env sample_delivery d') = (d', [])" using once by blast
  ultimately show ?thesis using run one by blast
qed

end
