(* ===== verification/Services.thy ===== *)
theory Services
  imports DbOrder Webhook EscrowProps Decomposition BidLife UcpGuard Ap2Props A2aProps
begin

text \<open>
  The other services respect what their statements respect (locale \<open>db_preorder\<close>): webhook deliveries, the
  requests on an escrow, checkpoints, bidding with the acceptance of a bid, decompositions, checkouts,
  mandates, agent-to-agent tasks and capability tokens.
\<close>

section \<open>The webhook\<close>

context db_preorder
begin

lemma webhookR: "R d (fst (processWebhookEvent W dt d))"
proof -
  have created: "esc_Status (webhook_escrow W dt n i a) \<in> escrow_statuses" for n i a
    by (simp add: webhook_escrow_def escrow_statuses_def)
  have "R d (fst (webhookEscrowCreated W dt d))" for d
    unfolding webhookEscrowCreated_def by (intro flowR recordsR createEscrowR created)
  moreover have "R d (fst (webhookOutcomeRecorded W dt b l d))" for b l d
    unfolding webhookOutcomeRecorded_def by (intro flowR reputationR)
  ultimately have "R d (fst (webhook_handler W dt b l d))" for b l d
    by (simp add: webhook_handler_def refl)
  then show ?thesis
    unfolding processWebhookEvent_def by (intro flowR recordsR)
qed

lemma deliveryR: "R d (fst (fst (HandleCDPWebhook W q d)))"
proof -
  have "R d d'" if "processWebhookEvent W dt d = (d', x)" for dt d' x
    using webhookR [of d W dt] that by simp
  then show ?thesis
    by (auto simp: HandleCDPWebhook_def Let_def refl split: option.split sum.split prod.split)
qed

end

section \<open>Requests on an escrow\<close>

context db_preorder
begin

lemma thenW: "R (ew_DB w) (ew_DB (fst m)) \<Longrightarrow> (\<And>w1 x. R (ew_DB w1) (ew_DB (fst (k w1 x)))) \<Longrightarrow>
    R (ew_DB w) (ew_DB (fst (andThen m k)))"
  by (cases m; cases "snd m") (auto intro: trans)

lemma orFailW: "(\<And>x. R (ew_DB w) (ew_DB (fst (k x)))) \<Longrightarrow> R (ew_DB w) (ew_DB (fst (orFail w f r k)))"
  by (cases r) (auto intro: refl)

lemma mapErrW: "R (ew_DB w) (ew_DB (fst m)) \<Longrightarrow> R (ew_DB w) (ew_DB (fst (mapErr f m)))"
  by (cases m; cases "snd m") auto

lemma caseW:
  "(c \<Longrightarrow> R (ew_DB w) (ew_DB (fst a))) \<Longrightarrow> (\<not> c \<Longrightarrow> R (ew_DB w) (ew_DB (fst b))) \<Longrightarrow> R (ew_DB w) (ew_DB (fst (if c then a else b)))"
  "R (ew_DB w) (ew_DB (fst n)) \<Longrightarrow> (\<And>x. R (ew_DB w) (ew_DB (fst (h x)))) \<Longrightarrow>
     R (ew_DB w) (ew_DB (fst (case q of None \<Rightarrow> n | Some x \<Rightarrow> h x)))"
  "(\<And>x y. R (ew_DB w) (ew_DB (fst (k x y)))) \<Longrightarrow> R (ew_DB w) (ew_DB (fst (case z of (x, y) \<Rightarrow> k x y)))"
  by (auto split: option.split prod.split)

lemma on_dbW: "R (ew_DB w) (fst (f (ew_DB w))) \<Longrightarrow> R (ew_DB w) (ew_DB (fst (on_db f w)))"
  by (cases "f (ew_DB w)") (simp add: on_db_def)

lemma sameW: "R (ew_DB w) (ew_DB (fst (w, x)))"
  by (simp add: refl)

lemma sendW: "R (ew_DB w) (ew_DB (fst (send E c w)))"
  by (simp add: send_def Let_def refl)

lemmas flowW = thenW orFailW mapErrW caseW sendW sameW

lemma attestationsR: "R d (fst (persistAttestationChain now i m v atts d))"
proof -
  have l: "R d (fst (createAttestationLinkOn now l d))" for l d
    by (rule other) (simp_all add: createAttestationLinkOn_def Let_def)
  have "R d (fst (create_links now c as d))" for c as d
    by (induction as arbitrary: d) (auto simp: refl intro!: flowR l)
  moreover have "R d (fst (createAttestationChainOn now c d))" for c d
    by (rule other) (simp_all add: createAttestationChainOn_def Let_def)
  ultimately show ?thesis
    unfolding persistAttestationChain_def by (intro txR flowR)
qed

end

context db_preorder
begin

lemma indexW: "(\<And>d. R d (ee_RunOnce E d)) \<Longrightarrow> R (ew_DB w) (ew_DB (fst (send_and_index E what c w)))"
  unfolding send_and_index_def by (intro flowW) (simp add: run_indexer_def)

lemma refuseW: "R (ew_DB w) (ew_DB (fst (refuse m w)))"
  by (simp add: refuse_def refl)

lemma targetW:
  assumes "\<And>a b. R (ew_DB w) (ew_DB (fst (f a b w)))" and "\<And>a. R (ew_DB w) (ew_DB (fst (g a w)))"
  shows "R (ew_DB w) (ew_DB (fst (on_target E r e f g w)))"
  unfolding on_target_def by (intro flowW assms)

lemma payW: "(\<And>d. R d (ee_RunOnce E d)) \<Longrightarrow> R (ew_DB w) (ew_DB (fst (pay E what call a t n w)))"
  unfolding pay_def by (intro flowW indexW)

lemma submitW: "(\<And>d. R d (ee_RunOnce E d)) \<Longrightarrow> R (ew_DB w) (ew_DB (fst (SubmitWork E e q w)))"
proof -
  assume p: "\<And>d. R d (ee_RunOnce E d)"
  have "R (ew_DB w) (ew_DB (fst (submit_call E a m u h w)))" for a m u h w
    unfolding submit_call_def Let_def by (intro flowW)
  moreover have "R (ew_DB w) (ew_DB (fst (run_indexer E w, x)))" for w and x :: "gerr + string"
    by (simp add: run_indexer_def p)
  ultimately show ?thesis
    unfolding SubmitWork_def by (intro flowW on_dbW attestationsR)
qed

lemma serveR:
  assumes "\<And>d. R d (ee_RunOnce E d)"
  shows "R (ew_DB w) (ew_DB (fst (serve E e q w)))"
proof -
  note ops = indexW [OF assms] refuseW targetW payW [OF assms] submitW [OF assms]
  have applied: "R (ew_DB w) (ew_DB (fst ((if c then f else g) w)))"
    if "R (ew_DB w) (ew_DB (fst (f w)))" "R (ew_DB w) (ew_DB (fst (g w)))"
    for c w and f g :: "escrow_world \<Rightarrow> string esc_result"
    using that by simp
  show ?thesis
    by (cases q; simp only: serve.simps FundEscrow_def DepositWorkerStake_def DepositVerifierStake_def
        deposit_stake_def processStakeDeposit_def WithdrawStake_def ApproveWork_def VerifyAndApprove_def CastVerifierVote_def
        DisputeWork_def ResolveDispute_def ClaimTimeoutRefund_def ClaimArbitratorTimeout_def CancelBeforeFunding_def
        AbortRemainingMilestones_def ActivateBackup_def; intro flowW ops applied)
qed

lemma creationW:
  assumes "\<And>d. R d (ee_RunOnce E d)"
  shows "R (ew_DB w) (ew_DB (fst (CreateEscrow E i w)))"
proof -
  have "R (ew_DB w) (ew_DB (fst (run_create E p ph w)))" for p ph
    using assms
  proof (induction E p ph w rule: run_create.induct)
    case (1 E p ph w)
    obtain w1 ph1 where s: "create_step E p ph w = (w1, ph1)" by fastforce
    show ?case
    proof (cases "rank ph = 0")
      case False
      then have "R (ew_DB w1) (ew_DB (fst (run_create E p ph1 w1)))"
        using "1.IH" "1.prems" s by (cases ph) auto
      then show ?thesis
        using create_stepR [OF "1.prems", of w p ph] False s trans by (auto simp: run_create_step)
    qed (auto simp: refl)
  qed
  then show ?thesis by (simp add: CreateEscrow_def refl split: sum.split)
qed

lemma checkpointR: "R d (fst (createCheckpointOn now c d))"
  by (rule other) (simp_all add: createCheckpointOn_def Let_def)

lemma checkpointsR:
  "R d (fst (httpCommitCheckpoint now path b d))" "R d (fst (fst (toolCommitCheckpoint L now bus a d)))"
proof -
  have c: "R d d1" if "createCheckpointOn now c d = (d1, x)" for c d1 x
    using checkpointR [of d now c] that by simp
  show "R d (fst (httpCommitCheckpoint now path b d))" "R d (fst (fst (toolCommitCheckpoint L now bus a d)))"
    by (auto simp: httpCommitCheckpoint_def with_id_def with_body_def toolCommitCheckpoint_def refl
        split: body.split option.split sum.split prod.split intro: c)
qed

end

section \<open>Bidding and decompositions\<close>

context db_preorder
begin

lemma bid_storeR:
  "R d (fst (createRFQOn now r d))" "R d (fst (UpdateRFQSealedBiddingState now i st rule best at d))"
  "R d (fst (UpdateRFQStatus now i st d))" "R d (fst (createBidOn now b d))" "R d (fst (acceptBidOn now bi ei d))"
  "R d (RejectPendingBids now i x d)" "R d (fst (createBidCommitOn now c d))"
  "R d (fst (UpdateBidCommitReveal now i bi d))" "R d (set_commit_status now st p d)"
  "R d (UpsertSealedBidderDiscipline now bd un d)"
  by (rule other; simp add: createRFQOn_def UpdateRFQSealedBiddingState_def UpdateRFQStatus_def createBidOn_def acceptBidOn_def
      RejectPendingBids_def createBidCommitOn_def UpdateBidCommitReveal_def set_commit_status_def
      UpsertSealedBidderDiscipline_def Let_def)+

lemma commit_tableR:
  "R d (SupersedeCommittedBidCommits now i b d)" "R d (ExpireCommittedBidCommits now i d)"
  "R d (RejectUnacceptedBidCommits now i a d)" "R d (UpdateBidCommitStatusByRevealedBid now bi st d)"
  unfolding SupersedeCommittedBidCommits_def ExpireCommittedBidCommits_def RejectUnacceptedBidCommits_def
    UpdateBidCommitStatusByRevealedBid_def by (rule bid_storeR)+

lemma strikesR: "R d (strike_bidders now m d)"
  unfolding strike_bidders_def
proof (induction m arbitrary: d)
  case (Cons x m)
  then show ?case using trans [OF bid_storeR(10) Cons.IH] by (simp split: prod.split)
qed (simp add: refl)

lemma rfqR: "R d (fst (CreateRFQ E p d))" "R d (fst (CreateRFQTx E p d))"
  unfolding CreateRFQ_def CreateRFQTx_def CreateRFQWithParentCooldown_def Let_def
  by (intro flowR txR bid_storeR)+

lemma finalizationR: "R d (fst (FinalizeSealedBidding E i d))"
  unfolding FinalizeSealedBidding_def Bidding.finalize_tx_def Let_def
  by (intro flowR txR trans [OF trans [OF strikesR commit_tableR(2)] bid_storeR(2)])

lemma commitR: "R d (fst (CommitBid E p d))"
  unfolding CommitBid_def commit_tx_def Let_def
  by (intro flowR txR trans [OF commit_tableR(1) bid_storeR(7)])

lemma revealR: "R d (fst (RevealBid E p d))"
  unfolding RevealBid_def reveal_tx_def Let_def by (intro flowR txR bid_storeR commit_tableR)

lemma rfq_cancelR: "R d (fst (httpCancelRFQ B path d))"
proof -
  have "R d (RejectUnacceptedBidCommits now i 0 (RejectPendingBids now i 0 d1))"
    if "UpdateRFQStatus now i st d = (d1, x)" for now i st d1 x
    using trans [OF bid_storeR(3) [of d now i st] trans [OF bid_storeR(6) commit_tableR(3)]] that by simp
  moreover have "R d d1" if "UpdateRFQStatus now i st d = (d1, x)" for now i st d1 x
    using bid_storeR(3) [of d now i st] that by simp
  ultimately show ?thesis
    by (auto simp: httpCancelRFQ_def with_id_def Let_def refl split: option.split sum.split prod.split)
qed

lemma bid_milestonesR: "R d (fst (create_milestones now i k ms d))"
  by (induction ms arbitrary: k d) (auto intro!: flowR createMilestoneR simp: milestone_statuses_def)

lemma acceptR:
  "R d (fst (AcceptBidCommitted E p d))"
  "(\<And>d. R d (be_RunOnce E d)) \<Longrightarrow> R d (fst (AcceptBid E p d))"
proof -
  have st: "esc_Status (escrow_record E r b t k x ms) \<in> escrow_statuses" for E r b t k x ms
    by (simp add: escrow_record_def escrow_statuses_def)
  have tx: "R d (fst (accept_tx E r b k x ms d))" for r b k x ms d
    unfolding accept_tx_def
    by (intro flowR txR recordsR createEscrowR bid_milestonesR bid_storeR st
        trans [OF bid_storeR(6) trans [OF commit_tableR(4) commit_tableR(3)]])
  have ck: "R d (fst (accept_checked E p s r d))" for s r d
    unfolding accept_checked_def by (intro flowR tx)
  show a: "R d (fst (AcceptBidCommitted E p d))"
    unfolding AcceptBidCommitted_def by (intro flowR ck finalizationR)
  show "R d (fst (AcceptBid E p d))" if "\<And>d. R d (be_RunOnce E d)"
    unfolding AcceptBid_def Let_def
    by (intro flowR a) (use that in \<open>auto simp: orFail_def split: sum.split\<close>)
qed

lemma decomposition_storeR:
  "R d (fst (createDecompositionOn now dc d))" "R d (fst (update_decomposition p what missing now st errs ids d))"
  "R d (fst (createDecompositionNodeOn now n d))" "R d (fst (updateDecompositionNodeRFQOn ni ri d))"
  by (rule other; simp add: createDecompositionOn_def update_decomposition_def createDecompositionNodeOn_def
      updateDecompositionNodeRFQOn_def Let_def)+

lemma place_allR: "R d (fst (place_all E i pl ns d))"
proof (induction E i pl ns d rule: place_all.induct)
  case (1 E i pl ns d)
  have r: "R d (fst (place_round E i pl ns d))" for pl ns d
    by (induction E i pl ns d rule: place_round.induct)
      (auto simp: refl intro!: flowR decomposition_storeR split: option.split prod.split)
  obtain d1 x where p: "place_round E i pl ns d = (d1, x)" by fastforce
  then have "R d d1" using r [of d pl ns] by simp
  then show ?case
    using "1.IH" [OF _ p [symmetric]] p
    by (subst place_all.simps) (auto simp: refl intro: trans split: sum.split)
qed

lemma decompositionR:
  "R d (fst (CreateDecomposition E p d))" "R d (fst (FinalizeDecomposition E q d))"
proof -
  show "R d (fst (CreateDecomposition E p d))"
    unfolding CreateDecomposition_def create_tx_def updateDecompositionStatusOn_def Let_def
    by (intro flowR txR decomposition_storeR place_allR)
  have rfqs: "R d (fst (create_rfqs B ls d))" for B ls d
    by (induction B ls d rule: create_rfqs.induct) (auto intro!: flowR rfqR decomposition_storeR)
  show "R d (fst (FinalizeDecomposition E q d))"
    unfolding FinalizeDecomposition_def commit_finalize_def Decomposition.finalize_tx_def
      updateDecompositionStatusIfCurrentOn_def Let_def
    by (intro flowR txR decomposition_storeR rfqs)
qed

end

section \<open>Checkouts, mandates and tasks\<close>

context db_preorder
begin

lemma session_storeR:
  "R d (fst (CreateUCPSession now s d))" "R d (fst (UpdateUCPSessionProjection now c st k op h tx d))"
  "R d (fst (CreateUCPIdempotency now r d))" "R d (fst (CreateA2ATask now t d))"
  "R d (fst (UpdateA2ATaskStatus now i st d))"
  "R d (fst (CreateAP2Mandate now mi mt mh sa ba bc ex ei raw d))" "R d (fst (UpdateAP2MandateFunding mi tx d))"
  by (rule other; simp add: CreateUCPSession_def UpdateUCPSessionProjection_def CreateUCPIdempotency_def CreateA2ATask_def
      UpdateA2ATaskStatus_def CreateAP2Mandate_def UpdateAP2MandateFunding_def Let_def)+

lemma projectionW: "R (ew_DB w) (ew_DB (fst (store_projection U s key op h tx e w)))"
  unfolding store_projection_def by (intro flowW on_dbW session_storeR)

lemma checkoutW: "(\<And>s e w. R (ew_DB w) (ew_DB (fst (k s e w)))) \<Longrightarrow> R (ew_DB w) (ew_DB (fst (with_checkout i k w)))"
  unfolding with_checkout_def by (intro flowW)

lemma rereadW: "R (ew_DB w) (ew_DB (fst (reread i w)))"
  by (simp add: reread_def refl)

lemma requestW:
  assumes "\<And>d. R d (ee_RunOnce X d)"
  shows "R (ew_DB w) (ew_DB (fst (update_call X op q e w)))"
    "R (ew_DB w) (ew_DB (fst (complete_call X cq e w)))" "R (ew_DB w) (ew_DB (fst (cancel_call X xq e w)))"
proof -
  have ops: "R (ew_DB w) (ew_DB (fst (FundEscrow X e w)))" "R (ew_DB w) (ew_DB (fst (DepositWorkerStake X e w)))"
    "R (ew_DB w) (ew_DB (fst (DepositVerifierStake X e w)))" "R (ew_DB w) (ew_DB (fst (WithdrawStake X e w)))"
    "R (ew_DB w) (ew_DB (fst (SubmitWork X e sq w)))" "R (ew_DB w) (ew_DB (fst (ApproveWork X e role m w)))"
    "R (ew_DB w) (ew_DB (fst (VerifyAndApprove X e pf m w)))" "R (ew_DB w) (ew_DB (fst (CastVerifierVote X e ap u m w)))"
    "R (ew_DB w) (ew_DB (fst (DisputeWork X e role u m w)))" "R (ew_DB w) (ew_DB (fst (ResolveDispute X e b u m w)))"
    "R (ew_DB w) (ew_DB (fst (ClaimTimeoutRefund X e m w)))" "R (ew_DB w) (ew_DB (fst (ClaimArbitratorTimeout X e m w)))"
    "R (ew_DB w) (ew_DB (fst (CancelBeforeFunding X e w)))" "R (ew_DB w) (ew_DB (fst (AbortRemainingMilestones X e w)))"
    "R (ew_DB w) (ew_DB (fst (ActivateBackup X e w)))" for e sq role m pf ap u b w
    using serveR [OF assms, of w e] by (metis serve.simps)+
  show "R (ew_DB w) (ew_DB (fst (update_call X op q e w)))"
    unfolding update_call_def Let_def by (intro flowW ops)
  show "R (ew_DB w) (ew_DB (fst (complete_call X cq e w)))"
    unfolding complete_call_def by (intro flowW ops)
  show "R (ew_DB w) (ew_DB (fst (cancel_call X xq e w)))"
    unfolding cancel_call_def Let_def by (intro flowW ops)
qed

lemma fundW: "(\<And>d. R d (ee_RunOnce X d)) \<Longrightarrow> R (ew_DB w) (ew_DB (fst (FundEscrow X e w)))"
  using serveR [of X w e ReqFund] by simp

lemma executeR:
  assumes "\<And>d. R d (ee_RunOnce (uv_Escrow U) d)"
  shows "R (ew_DB w) (ew_DB (fst (execute U q w)))"
proof (cases q)
  case (ReqCreate c)
  then show ?thesis
    unfolding ReqCreate execute.simps create_checkout_def checkout_escrow_def createEscrowFromPayload_def auto_fund_def Let_def
    by (auto simp: refl intro!: flowW on_dbW session_storeR rereadW creationW [OF assms] fundW [OF assms] split: option.split)
next
  case (ReqUpdate i u)
  show ?thesis unfolding ReqUpdate execute.simps update_checkout_def Let_def
    by (intro checkoutW flowW rereadW projectionW requestW [OF assms])
next
  case (ReqComplete i c)
  show ?thesis unfolding ReqComplete execute.simps complete_checkout_def Let_def
    by (intro checkoutW flowW rereadW projectionW requestW [OF assms])
next
  case (ReqCancel i x)
  show ?thesis unfolding ReqCancel execute.simps cancel_checkout_def Let_def
    by (intro checkoutW flowW rereadW projectionW requestW [OF assms])
qed

text \<open>The answers to checkout requests, step by step under the locks of their keys.\<close>

lemma guardR:
  assumes "\<And>d. R d (ee_RunOnce (uv_Escrow U) d)" and "guard_step U q ph w g = Some (w1, g1, ph1)"
  shows "R (ew_DB w) (ew_DB w1)"
proof -
  have e: "R (ew_DB w) (ew_DB w1)" if "execute U q w = (w1, x)" for w1 x
    using executeR [OF assms(1), of w q] that by simp
  have r: "R (ew_DB w) (ew_DB w1)" if "record_answer U k resp w = (w1, x)" for k resp w1 x
  proof -
    have "R (ew_DB w) (ew_DB (fst (record_answer U k resp w)))"
      unfolding record_answer_def by (intro flowW on_dbW session_storeR)
    with that show ?thesis by simp
  qed
  show ?thesis
    using assms(2) by (cases ph) (auto simp: refl split: if_splits prod.splits sum.splits option.splits intro: e r)
qed

lemma checkout_viewR: "R (ew_DB w) (ew_DB (fst (GetCheckout U i w)))"
proof -
  have p: "R (ew_DB w) (ew_DB (fst (on_db (UpdateUCPSessionProjection now c st k op h tx) w)))" for now c st k op h tx w
    by (intro on_dbW session_storeR)
  show ?thesis unfolding GetCheckout_def Let_def
    by (intro checkoutW flowW) (simp only: fst_conv p)
qed

lemma store_mandateR: "R d (fst (store_mandate M env i d))"
  unfolding store_mandate_def Let_def by (rule session_storeR)

lemma bindingR: "R d (fst (BindToEscrow M env i d))"
  unfolding BindToEscrow_def by (intro flowR store_mandateR)

lemma mandateR:
  assumes "\<And>d. R d (mv_RunOnce M d)"
  shows "R (mw_DB w) (mw_DB (fst (mandate_step M q ph w)))"
proof -
  have "R d d1" if "store_mandate M env i d = (d1, x)" for env i d d1 x
    using store_mandateR [of d M env i] that by simp
  then show ?thesis
    by (cases ph) (auto simp: refl assms session_storeR send_funding_def Let_def split: prod.split sum.split)
qed

lemma rpcR: "R d (rpc_step d e)"
  using rpc_step_effect [of d e]
  by (auto simp: rpc_effect_def task_created_def task_canceled_def refl intro: other)

end

end
