(* ===== verification/Server.thy ===== *)
theory Server
  imports Services
begin

text \<open>
  The server as a whole, seen from the database: a step is any activity that writes to it, in any order.
  These are passes of the indexer and the logs they process, webhook deliveries, steps of escrow creations
  and the other requests on an escrow, checkpoints, bidding with the acceptance of a bid, decompositions,
  checkouts, mandates, agent-to-agent tasks, the capability-token service and the emergency requests of both
  front ends; the handlers in front of the services write nothing else. The locale \<open>db_preorder\<close> is
  interpreted twice: for the statuses an escrow row may have, and for the fate of a capability token.
\<close>

section \<open>Two relations the whole server respects\<close>

text \<open>No CHECK constraint of the schema limits the status of an escrow or of a milestone: that every row has
  one of the documented statuses is up to the code.\<close>

definition db_typed :: "db \<Rightarrow> bool" where
  "db_typed d \<longleftrightarrow> (\<forall>e \<in> set (escrows d). esc_Status e \<in> escrow_statuses)
     \<and> (\<forall>m \<in> set (milestones d). ms_Status m \<in> milestone_statuses)"

definition typed_kept :: "db \<Rightarrow> db \<Rightarrow> bool" where
  "typed_kept d d' \<longleftrightarrow> (db_typed d \<longrightarrow> db_typed d')"

interpretation typing: db_preorder typed_kept
proof
  show "typed_kept d (d\<lparr>milestones := row_upd q g (milestones d)\<rparr>)"
    if g: "\<And>m. ms_Status (g m) = ms_Status m \<or> ms_Status (g m) \<in> milestone_statuses" for d q g
  proof -
    have "ms_Status m \<in> milestone_statuses \<Longrightarrow> ms_Status (g m) \<in> milestone_statuses" for m
      using g [of m] by auto
    then show ?thesis by (auto simp: typed_kept_def db_typed_def set_row_upd)
  qed
  show "typed_kept d (upd_escrows p f d)"
    if f: "\<And>e. esc_Status (f e) = esc_Status e \<or> esc_Status (f e) \<in> escrow_statuses" for d p f
  proof -
    have "esc_Status e \<in> escrow_statuses \<Longrightarrow> esc_Status (f e) \<in> escrow_statuses" for e
      using f [of e] by auto
    then show ?thesis by (auto simp: typed_kept_def db_typed_def upd_escrows_def set_row_upd)
  qed
  show "typed_kept d d'" if "escrows d' = escrows d" "milestones d' = milestones d" for d d'
    unfolding typed_kept_def db_typed_def that by simp
  show "typed_kept d (d\<lparr>escrows := row_add e (escrows d)\<rparr>)" if "esc_Status e \<in> escrow_statuses" for d e
    using that by (simp add: typed_kept_def db_typed_def row_add_def)
  show "typed_kept d (d\<lparr>milestones := row_add m (milestones d)\<rparr>)" if "ms_Status m \<in> milestone_statuses" for d m
    using that by (simp add: typed_kept_def db_typed_def row_add_def)
  show "typed_kept d (d\<lparr>dct_tokens := row_add t (dct_tokens d)\<rparr>)" for d t
    by (simp add: typed_kept_def db_typed_def)
  show "typed_kept d (revoke_where u now reason rb d)" for d u now reason rb
    by (simp add: typed_kept_def db_typed_def revoke_where_def)
  show "typed_kept d1 d3" if "typed_kept d1 d2" "typed_kept d2 d3" for d1 d2 d3
    using that unfolding typed_kept_def by blast
qed (unfold typed_kept_def, rule impI)

text \<open>A capability token is never deleted, and nothing but its revocation, once, changes it.\<close>

definition tokens_evolve :: "db \<Rightarrow> db \<Rightarrow> bool" where
  "tokens_evolve d d' \<longleftrightarrow> (\<forall>k t. tok d k = Some t \<longrightarrow> (\<exists>t'. tok d' k = Some t' \<and> evolves t t'))"

lemma tokens_same: "dct_tokens d' = dct_tokens d \<Longrightarrow> tokens_evolve d d'"
  by (simp add: tokens_evolve_def)

interpretation tokens: db_preorder tokens_evolve
proof
  show "tokens_evolve d (revoke_where u now reason rb d)" for d u now reason rb
    by (auto simp: tokens_evolve_def evolves_revoked)
  show "tokens_evolve d1 d3" if "tokens_evolve d1 d2" "tokens_evolve d2 d3" for d1 d2 d3
    unfolding tokens_evolve_def
  proof (intro allI impI)
    fix k t assume "tok d1 k = Some t"
    with that(1) obtain t2 where "tok d2 k = Some t2" "evolves t t2" by (auto simp: tokens_evolve_def)
    with that(2) show "\<exists>t'. tok d3 k = Some t' \<and> evolves t t'"
      using evolves_trans unfolding tokens_evolve_def by blast
  qed
  show "tokens_evolve d (d\<lparr>dct_tokens := row_add t (dct_tokens d)\<rparr>)" if "tok d (dct_TokenID t) = None" for d t
    using that by (auto simp: tokens_evolve_def intro: row_get_add_kept)
qed (simp_all add: tokens_same)

section \<open>The server\<close>

text \<open>The requests of the emergency protocol.\<close>

datatype emergency_request =
    HttpFreezeAddress "string body"
  | HttpUnfreezeAddress "string body"
  | HttpFreezeEscrow "int body"
  | HttpUnfreezeEscrow "int body"
  | HttpResolve "(int \<times> 16 word) body"
  | ToolFreezeAddress string
  | ToolUnfreezeAddress string
  | ToolFreezeEscrow string
  | ToolUnfreezeEscrow string
  | ToolResolve string string

fun serve_emergency :: "emergency_env \<Rightarrow> emergency_request \<Rightarrow> emergency_world \<Rightarrow> emergency_world" where
  "serve_emergency G (HttpFreezeAddress b) w = fst (httpFreezeAddress G b w)"
| "serve_emergency G (HttpUnfreezeAddress b) w = fst (httpUnfreezeAddress G b w)"
| "serve_emergency G (HttpFreezeEscrow b) w = fst (httpFreezeEscrow G b w)"
| "serve_emergency G (HttpUnfreezeEscrow b) w = fst (httpUnfreezeEscrow G b w)"
| "serve_emergency G (HttpResolve b) w = fst (httpEmergencyResolve G b w)"
| "serve_emergency G (ToolFreezeAddress a) w = fst (toolFreezeAddress G a w)"
| "serve_emergency G (ToolUnfreezeAddress a) w = fst (toolUnfreezeAddress G a w)"
| "serve_emergency G (ToolFreezeEscrow i) w = fst (toolFreezeEscrow G i w)"
| "serve_emergency G (ToolUnfreezeEscrow i) w = fst (toolUnfreezeEscrow G i w)"
| "serve_emergency G (ToolResolve i b) w = fst (toolEmergencyResolve G i b w)"

text \<open>\<open>is_pass f\<close>: on any database \<open>f\<close> does what some pass of the indexer does, or nothing.\<close>

definition is_pass :: "(db \<Rightarrow> db) \<Rightarrow> bool" where
  "is_pass f \<longleftrightarrow> (\<forall>d. f d = d \<or> (\<exists>X s s' r. RunOnce X s = Some (s', r) \<and> xs_DB s = d \<and> xs_DB s' = f d))"

text \<open>Every writer of the database. Creations, mandates and keyed checkout requests go by the steps in which
  they interleave, the other requests are one step each. What a service passes to the indexer is a pass.\<close>

inductive server_step :: "db \<Rightarrow> db \<Rightarrow> bool" where
  pass: "RunOnce X s = Some (s', r) \<Longrightarrow> server_step (xs_DB s) (xs_DB s')"
| factory_log: "ProcessFactoryLog X C lg s = Some (s', r) \<Longrightarrow> server_step (xs_DB s) (xs_DB s')"
| escrow_log: "ProcessEscrowLog X i lg s = Some (s', r) \<Longrightarrow> server_step (xs_DB s) (xs_DB s')"
| webhook: "server_step d (fst (fst (HandleCDPWebhook W h d)))"
| creation: "is_pass (ee_RunOnce E) \<Longrightarrow> server_step (ew_DB w) (ew_DB (fst (create_step E p ph w)))"
| request: "is_pass (ee_RunOnce E) \<Longrightarrow> server_step (ew_DB w) (ew_DB (fst (serve E e q w)))"
| checkpoint: "server_step d (fst (httpCommitCheckpoint now path b d))"
| tool_checkpoint: "server_step d (fst (fst (toolCommitCheckpoint L now bus a d)))"
| bidding: "server_step d (bidding_step d ev)"
| acceptance: "is_pass (be_RunOnce B) \<Longrightarrow> server_step d (fst (AcceptBid B ap d))"
| rfq_cancelled: "server_step d (fst (httpCancelRFQ A path d))"
| decomposition: "server_step d (fst (CreateDecomposition D cp d))"
| finalization: "server_step d (fst (FinalizeDecomposition D fp d))"
| checkout: "is_pass (ee_RunOnce (uv_Escrow U)) \<Longrightarrow> guard_step U uq gp w g = Some (w1, g1, gp1) \<Longrightarrow>
    server_step (ew_DB w) (ew_DB w1)"
| unkeyed_checkout: "is_pass (ee_RunOnce (uv_Escrow U)) \<Longrightarrow> server_step (ew_DB w) (ew_DB (fst (execute U uq w)))"
| checkout_view: "server_step (ew_DB w) (ew_DB (fst (GetCheckout U ci w)))"
| mandate: "is_pass (mv_RunOnce M) \<Longrightarrow> server_step (mw_DB v) (mw_DB (fst (mandate_step M mq mph v)))"
| binding: "server_step d (fst (BindToEscrow M me i d))"
| agent_task: "server_step d (rpc_step d rpc)"
| emergency: "is_pass (\<lambda>d. fst (gv_RunOnce G d)) \<Longrightarrow> server_step (gw_DB gw) (gw_DB (serve_emergency G gq gw))"
| mint: "server_step d (fst (Mint env mp d))"
| delegate: "server_step d (fst (Delegate env dp d))"
| revoke: "server_step d (fst (Revoke env rp d))"
| override: "server_step d (fst (EmergencyOverride env op d))"

inductive server_run :: "db \<Rightarrow> db \<Rightarrow> bool" where
  run_none: "server_run d d"
| run_more: "server_run d d' \<Longrightarrow> server_step d' d'' \<Longrightarrow> server_run d d''"

context db_preorder
begin

lemma is_passR: "is_pass f \<Longrightarrow> R d (f d)"
  by (metis is_pass_def passR refl)

lemma auditR: "R d (fst (logAudit env e d))"
proof -
  have "R d (LogAuthzDecision now e d)" for now
    by (rule other) (simp_all add: LogAuthzDecision_def Let_def)
  then show ?thesis by (simp add: logAudit_def refl split: audit_sink.split)
qed

lemma tokenR: "R d (fst (CreateDCTToken now t d))"
  by (cases "CreateDCTToken now t d"; cases "snd (CreateDCTToken now t d)")
    (auto dest: CreateDCTToken_err simp: refl dest!: CreateDCTToken_ok intro: token_added)

lemma serviceR:
  "R d (fst (Mint env mp d))" "R d (fst (Delegate env dp d))" "R d (fst (Revoke env rp d))"
  "R d (fst (EmergencyOverride env op d))"
proof -
  show "R d (fst (Mint env mp d))" unfolding Mint_def Let_def by (intro flowR auditR tokenR)
  show "R d (fst (Delegate env dp d))" unfolding Delegate_def Let_def by (intro flowR auditR tokenR)
  have rev: "R d (fst (RevokeDCTToken now k rs rb d))" for d now k rs rb
    unfolding RevokeDCTToken_def Let_def by (intro flowR tokens_revoked)
  show "R d (fst (Revoke env rp d))" unfolding Revoke_def Let_def by (intro flowR auditR rev)
  show "R d (fst (EmergencyOverride env op d))"
    unfolding EmergencyOverride_def RevokeByEscrow_def RevokeDCTTokensByEscrow_def Let_def fst_conv
    by (intro flowR auditR tokens_revoked)
qed

lemma emergencyR:
  assumes "is_pass (\<lambda>d. fst (gv_RunOnce G d))"
  shows "R (gw_DB w) (gw_DB (serve_emergency G q w))"
proof -
  note f = frontR [OF is_passR [OF assms]]
  show ?thesis
    by (cases q)
      (auto simp: httpFreezeAddress_def httpUnfreezeAddress_def http_address_action_def httpFreezeEscrow_def
        httpUnfreezeEscrow_def httpEmergencyResolve_def http_emergency_escrow_def with_emergency_body_def
        toolFreezeAddress_def toolUnfreezeAddress_def tool_address_action_def toolFreezeEscrow_def
        toolUnfreezeEscrow_def toolEmergencyResolve_def tool_emergency_escrow_def Let_def refl
        intro!: f emergency_recordsR split: body.split sum.split prod.split)
qed

end

text \<open>Whatever every statement respects, the whole server respects.\<close>

context db_preorder
begin

lemma bidding_stepR: "R d (bidding_step d ev)"
  by (cases ev) (simp_all add: rfqR commitR revealR finalizationR acceptR)

lemma stepR: "server_step d d' \<Longrightarrow> R d d'"
  by (cases rule: server_step.cases)
    (auto simp del: create_step.simps guard_step.simps mandate_step.simps serve.simps execute.simps bidding_step.simps
      intro: passR logR deliveryR create_stepR serveR checkpointsR bidding_stepR acceptR rfq_cancelR decompositionR guardR
        executeR checkout_viewR mandateR bindingR rpcR is_passR emergencyR serviceR)

lemma runR: "server_run d d' \<Longrightarrow> R d d'"
  by (induction rule: server_run.induct) (auto intro: refl trans stepR)

end

text \<open>C32: The rows of escrows and milestones are well-typed in every state of the server: whatever runs in
  whatever order - passes of the indexer and webhook deliveries, creations and requests on escrows, the
  acceptance of bids with the rest of bidding, decompositions, checkouts, mandates, tasks, checkpoints,
  token operations and emergency requests (\<open>server_step\<close>) - no escrow and no milestone gets a status outside the documented
  ones, although the schema has no constraint on them.\<close>

theorem server_typed:
  assumes "db_typed d" and "server_run d d'"
  shows "db_typed d'"
  using typing.runR [OF assms(2)] assms(1) by (simp add: typed_kept_def)

theorem server_typed_witness:
  "db_typed (ew_DB (fst (create_step sample_escrow_env (projr (plan_create sample_escrow_env sample_input))
      (PReset blank_escrow ErrNoRows) sample_escrow_world)))"
proof -
  have "db_typed (ew_DB sample_escrow_world)"
    by (simp add: db_typed_def sample_escrow_world_def escrow_statuses_def empty_db_def)
  moreover have "server_run (ew_DB sample_escrow_world)
      (ew_DB (fst (create_step sample_escrow_env (projr (plan_create sample_escrow_env sample_input))
      (PReset blank_escrow ErrNoRows) sample_escrow_world)))"
    by (rule run_more [OF run_none server_step.creation]) (simp add: is_pass_def sample_escrow_env_def)
  ultimately show ?thesis by (rule server_typed)
qed

section \<open>The emergency stop\<close>

lemma http_emergency_ok:
  assumes "http_emergency G c rec reply w = (w', HttpOk 200 r)"
  shows "\<exists>h. gw_Sent w' = gw_Sent w @ [(c, Inr h)]
    \<and> gv_RunOnce G (rec (HashHex (gv_L G) h) (gw_DB w)) = (gw_DB w', None) \<and> r = reply (HashHex (gv_L G) h)"
  using assms
  by (auto simp: http_emergency_def send_emergency_def Let_def recording_error_def
      split: prod.splits sum.splits option.splits)

lemma tool_emergency_ok:
  assumes "tool_emergency G c rec reply w = (w', ToolJSON r)"
  shows "\<exists>h tx. gw_Sent w' = gw_Sent w @ [(c, Inr h)]
    \<and> gv_RunOnce G (rec tx (gw_DB w)) = (gw_DB w', None) \<and> r = reply tx"
  using assms
  by (auto simp: tool_emergency_def send_emergency_def Let_def
      split: prod.splits sum.splits option.splits if_splits)

lemma record_kills:
  assumes "tok d k = Some t" and "dct_EscrowID t = esc_ID e"
  shows "\<exists>t'. tok (record_freeze_escrow G e tx d) k = Some t' \<and> dct_RevokedAt t' \<noteq> None"
    and "\<exists>t'. tok (record_resolve G e bps tx d) k = Some t' \<and> dct_RevokedAt t' \<noteq> None"
  using assms
  by (auto simp: record_freeze_escrow_def record_resolve_def RecordFreezeEscrowAndRevokeDCT_def
      RecordEmergencyResolveAndRevokeDCT_def)

lemma revoked_stays_inactive:
  assumes "tok d k = Some t" "dct_RevokedAt t \<noteq> None" and "tokens_evolve d d'"
    and "Introspect env d' presented = Inr (t', active, rs)" "dct_TokenID t' = k"
  shows "\<not> active"
proof
  assume active
  with assms(4) have I: "Introspect env d' presented = Inr (t', True, rs)" by simp
  have "tok d' k = Some t"
    using assms(1-3) by (auto simp: tokens_evolve_def evolves_def)
  moreover have "tok d' k = Some t'" using Introspect_active(6) [OF I] assms(5) by simp
  ultimately show False using Introspect_active(1) [OF I] assms(2) by simp
qed

text \<open>What a request for a stop asks for, read off the request alone: the escrow, and the award in basis points
  if it is a forced settlement.\<close>

fun stop_order :: "emergency_env \<Rightarrow> db \<Rightarrow> emergency_request \<Rightarrow> (escrow \<times> nat option) option" where
  "stop_order G d (HttpFreezeEscrow (Body i)) = map_option (\<lambda>e. (e, None)) (row_get esc_ID (escrows d) i)"
| "stop_order G d (HttpResolve (Body (i, bps))) = map_option (\<lambda>e. (e, Some (unat bps))) (row_get esc_ID (escrows d) i)"
| "stop_order G d (ToolFreezeEscrow raw) =
     (case ResolveEscrowID (gv_L G) raw d of Inl _ \<Rightarrow> None | Inr e \<Rightarrow> Some (e, None))"
| "stop_order G d (ToolResolve raw award) =
     (case (ParseIntAs ''ParseInt'' raw, parse_nat award) of
        (Inr i, Some n) \<Rightarrow> map_option (\<lambda>e. (e, Some n)) (row_get esc_ID (escrows d) i)
      | _ \<Rightarrow> None)"
| "stop_order G d _ = None"

definition stop_call :: "emergency_env \<Rightarrow> escrow \<Rightarrow> nat option \<Rightarrow> emergency_call" where
  "stop_call G e award =
     (case award of
        None \<Rightarrow> CallFreezeEscrow (gv_Factory G) (esc_EscrowID e)
      | Some n \<Rightarrow> CallEmergencyResolve (gv_Factory G) (esc_EscrowID e) (word_of_nat n))"

text \<open>The order has been recorded: the escrow is frozen or resolved, every other row is as before, and the action
  is logged with its transaction.\<close>

definition stop_recorded :: "escrow \<Rightarrow> nat option \<Rightarrow> string \<Rightarrow> db \<Rightarrow> db \<Rightarrow> bool" where
  "stop_recorded e award tx d d' \<longleftrightarrow>
     (\<exists>now. escrows d' = row_upd (\<lambda>x. esc_ID x = esc_ID e)
        (\<lambda>x. if award = None then x\<lparr>esc_Frozen := True, esc_UpdatedAt := now\<rparr>
             else x\<lparr>esc_Status := ''resolved'', esc_UpdatedAt := now\<rparr>) (escrows d))
     \<and> (\<exists>a. emergency_actions d' = emergency_actions d @ [a] \<and> em_Target a = esc_EscrowAddress e \<and> em_TxHash a = tx
          \<and> em_Action a = (if award = None then ''freeze_escrow'' else ''emergency_resolve'')
          \<and> (\<forall>n. award = Some n \<longrightarrow> em_Reason a = ''workerAwardBps='' @ nat_str n))"

text \<open>The request has been answered with success and the transaction \<open>tx\<close>.\<close>

fun stop_answered :: "emergency_env \<Rightarrow> emergency_request \<Rightarrow> string \<Rightarrow> emergency_world \<Rightarrow> emergency_world \<Rightarrow> bool" where
  "stop_answered G (HttpFreezeEscrow b) tx w w' = (\<exists>i. httpFreezeEscrow G b w = (w', HttpOk 200 (tx, i)))"
| "stop_answered G (HttpResolve b) tx w w' = (\<exists>i. httpEmergencyResolve G b w = (w', HttpOk 200 (tx, i)))"
| "stop_answered G (ToolFreezeEscrow raw) tx w w' = (\<exists>i. toolFreezeEscrow G raw w = (w', ToolJSON (tx, i)))"
| "stop_answered G (ToolResolve raw award) tx w w' = (\<exists>i n. toolEmergencyResolve G raw award w = (w', ToolJSON (tx, i, n)))"
| "stop_answered G _ tx w w' = False"

lemma stop_records:
  "stop_recorded e None tx d (record_freeze_escrow G e tx d)"
  "stop_recorded e (Some (unat b)) tx d (record_resolve G e b tx d)"
proof -
  have fields: "escrows (record_freeze_escrow G e tx d) = row_upd (\<lambda>x. esc_ID x = esc_ID e)
        (\<lambda>x. x\<lparr>esc_Frozen := True, esc_UpdatedAt := gv_Now G\<rparr>) (escrows d)"
      "escrows (record_resolve G e b tx d) = row_upd (\<lambda>x. esc_ID x = esc_ID e)
        (\<lambda>x. x\<lparr>esc_Status := ''resolved'', esc_UpdatedAt := gv_Now G\<rparr>) (escrows d)"
    by (simp_all add: record_freeze_escrow_def record_resolve_def RecordFreezeEscrowAndRevokeDCT_def
        RecordEmergencyResolveAndRevokeDCT_def UpdateEscrowFrozen_def UpdateEscrowStatus_def upd_escrows_def)
  then show "stop_recorded e None tx d (record_freeze_escrow G e tx d)"
    "stop_recorded e (Some (unat b)) tx d (record_resolve G e b tx d)"
    unfolding stop_recorded_def
    by (simp_all add: record_freeze_escrow_def record_resolve_def RecordFreezeEscrowAndRevokeDCT_def row_add_def
        RecordEmergencyResolveAndRevokeDCT_def CreateEmergencyAction_def revoke_where_def UpdateEscrowFrozen_def
        UpdateEscrowStatus_def upd_escrows_def; blast)+
qed

lemma stop_effect:
  assumes "stop_answered G q tx w w'"
  shows "\<exists>e award h d. stop_order G (gw_DB w) q = Some (e, award) \<and> e \<in> set (escrows (gw_DB w))
    \<and> (\<forall>n. award = Some n \<longrightarrow> n \<le> 10000) \<and> gw_Sent w' = gw_Sent w @ [(stop_call G e award, Inr h)]
    \<and> (d = record_freeze_escrow G e tx (gw_DB w) \<or> (\<exists>b. d = record_resolve G e b tx (gw_DB w)))
    \<and> stop_recorded e award tx (gw_DB w) d \<and> gv_RunOnce G d = (gw_DB w', None)"
proof -
  have gid: "row_get esc_ID (escrows d) k = Some e \<and> e \<in> set (escrows d)" if "GetEscrow d k = Inr e" for d k e
    using that by (auto simp: GetEscrow_iff dest: row_get_Some)
  have rid: "e \<in> set (escrows d)" if "ResolveEscrowID L k d = Inr e" for L k d e
    using that by (auto simp: ResolveEscrowID_def GetEscrowByAddress_def GetEscrow_iff found_def
        split: if_splits option.splits dest: row_get_Some)
  have bps: "unat b \<le> 10000" if "\<not> 10000 < (b :: 16 word)" for b
    using that by (simp add: not_less word_le_nat_alt)
  have m: "unat (word_of_nat n :: 16 word) = n" if "n \<le> 10000" for n
    using that by (simp add: unat_of_nat)
  have http: "\<exists>h. gw_Sent w' = gw_Sent w @ [(c, Inr h)] \<and> gv_RunOnce G (rec tx (gw_DB w)) = (gw_DB w', None)"
    if "http_emergency G c rec (\<lambda>tx. (tx, k)) w = (w', HttpOk 200 (tx, i))" for c rec and k i :: int
    using http_emergency_ok [OF that] by auto
  show ?thesis
  proof (cases q)
    case (HttpFreezeEscrow b)
    with assms obtain i k e where b: "b = Body k" "GetEscrow (gw_DB w) k = Inr e"
      and "http_emergency G (CallFreezeEscrow (gv_Factory G) (esc_EscrowID e)) (record_freeze_escrow G e)
             (\<lambda>tx. (tx, k)) w = (w', HttpOk 200 (tx, i))"
      by (auto simp: httpFreezeEscrow_def with_emergency_body_def http_emergency_escrow_def split: body.splits sum.splits)
    from http [OF this(3)] obtain h where
        "gw_Sent w' = gw_Sent w @ [(CallFreezeEscrow (gv_Factory G) (esc_EscrowID e), Inr h)]"
        "gv_RunOnce G (record_freeze_escrow G e tx (gw_DB w)) = (gw_DB w', None)" by blast
    with gid [OF b(2)] HttpFreezeEscrow b(1) show ?thesis
      by (intro exI [of _ e] exI [of _ None] exI [of _ h] exI [of _ "record_freeze_escrow G e tx (gw_DB w)"])
        (simp add: stop_call_def stop_records)
  next
    case (HttpResolve b)
    with assms obtain i k bp e where b: "b = Body (k, bp)" "GetEscrow (gw_DB w) k = Inr e" "\<not> 10000 < bp"
      and "http_emergency G (CallEmergencyResolve (gv_Factory G) (esc_EscrowID e) bp) (record_resolve G e bp)
             (\<lambda>tx. (tx, k)) w = (w', HttpOk 200 (tx, i))"
      by (auto simp: httpEmergencyResolve_def with_emergency_body_def http_emergency_escrow_def
          split: body.splits sum.splits if_splits)
    from http [OF this(4)] obtain h where
        "gw_Sent w' = gw_Sent w @ [(CallEmergencyResolve (gv_Factory G) (esc_EscrowID e) bp, Inr h)]"
        "gv_RunOnce G (record_resolve G e bp tx (gw_DB w)) = (gw_DB w', None)" by blast
    with gid [OF b(2)] bps [OF b(3)] HttpResolve b(1) show ?thesis
      by (intro exI [of _ e] exI [of _ "Some (unat bp)"] exI [of _ h] exI [of _ "record_resolve G e bp tx (gw_DB w)"])
        (auto simp add: stop_call_def stop_records)
  next
    case (ToolFreezeEscrow raw)
    with assms obtain i e where e: "ResolveEscrowID (gv_L G) raw (gw_DB w) = Inr e"
      and t: "tool_emergency G (CallFreezeEscrow (gv_Factory G) (esc_EscrowID e)) (record_freeze_escrow G e)
             (\<lambda>tx. (tx, esc_ID e)) w = (w', ToolJSON (tx, i))"
      by (auto simp: toolFreezeEscrow_def tool_emergency_escrow_def split: sum.splits)
    from tool_emergency_ok [OF t] obtain h where
        "gw_Sent w' = gw_Sent w @ [(CallFreezeEscrow (gv_Factory G) (esc_EscrowID e), Inr h)]"
        "gv_RunOnce G (record_freeze_escrow G e tx (gw_DB w)) = (gw_DB w', None)" by auto
    with rid [OF e] ToolFreezeEscrow e show ?thesis
      by (intro exI [of _ e] exI [of _ None] exI [of _ h] exI [of _ "record_freeze_escrow G e tx (gw_DB w)"])
        (simp add: stop_call_def stop_records)
  next
    case (ToolResolve raw award)
    with assms obtain i n j b e where e: "ParseIntAs ''ParseInt'' raw = Inr j" "parse_nat award = Some b"
        "GetEscrow (gw_DB w) j = Inr e" and b: "b \<le> 10000"
      and t: "tool_emergency G (CallEmergencyResolve (gv_Factory G) (esc_EscrowID e) (word_of_nat b))
             (record_resolve G e (word_of_nat b)) (\<lambda>tx. (tx, j, b)) w = (w', ToolJSON (tx, i, n))"
      by (auto simp: toolEmergencyResolve_def tool_emergency_escrow_def not_less ParseUint_Inr split: sum.splits if_splits)
    let ?d = "record_resolve G e (word_of_nat b) tx (gw_DB w)"
    from tool_emergency_ok [OF t] obtain h where
        "gw_Sent w' = gw_Sent w @ [(CallEmergencyResolve (gv_Factory G) (esc_EscrowID e) (word_of_nat b), Inr h)]"
        "gv_RunOnce G ?d = (gw_DB w', None)" by auto
    moreover have "stop_recorded e (Some b) tx (gw_DB w) ?d"
      using stop_records(2) [of e "word_of_nat b" tx "gw_DB w" G] m [OF b] by simp
    ultimately show ?thesis
      using gid [OF e(3)] ToolResolve e b
      by (intro exI [of _ e] exI [of _ "Some b"] exI [of _ h] exI [of _ ?d]) (auto simp add: stop_call_def)
  qed (use assms in simp_all)
qed

text \<open>C31: The emergency stop works. When a front end answers a freeze of an escrow or a forced settlement
  with success, it has sent exactly one transaction to the factory, the freeze of that escrow by its
  on-chain number or the settlement with exactly the award requested, of at most 10000 basis points; the
  escrow's row, and no other, was frozen or set to resolved, and the action was logged with the
  transaction, before the indexer ran. And no capability token of the escrow that was stored before is ever introspected
  as active again, whatever writers of the database run afterwards (theory \<open>Server\<close> lists them), later
  unfreezing and passes of the indexer included.\<close>

theorem emergency_stop:
  assumes "stop_answered G q tx w w'" and "is_pass (\<lambda>d. fst (gv_RunOnce G d))"
  shows "\<exists>e award h d. stop_order G (gw_DB w) q = Some (e, award) \<and> (\<forall>n. award = Some n \<longrightarrow> n \<le> 10000)
    \<and> gw_Sent w' = gw_Sent w @ [(stop_call G e award, Inr h)]
    \<and> stop_recorded e award tx (gw_DB w) d \<and> gw_DB w' = fst (gv_RunOnce G d)
    \<and> (\<forall>t env d2 presented t' active rs.
         GetDCTTokenByTokenID (gw_DB w) (dct_TokenID t') = Inr t \<and> dct_EscrowID t = esc_ID e
         \<and> server_run (gw_DB w') d2 \<and> Introspect env d2 presented = Inr (t', active, rs) \<longrightarrow> \<not> active)"
proof -
  obtain e award h d where e: "stop_order G (gw_DB w) q = Some (e, award)" "\<forall>n. award = Some n \<longrightarrow> n \<le> 10000"
      "gw_Sent w' = gw_Sent w @ [(stop_call G e award, Inr h)]" "stop_recorded e award tx (gw_DB w) d"
    and d: "gv_RunOnce G d = (gw_DB w', None)"
      "d = record_freeze_escrow G e tx (gw_DB w) \<or> (\<exists>b. d = record_resolve G e b tx (gw_DB w))"
    using stop_effect [OF assms(1)] by blast
  have "\<not> active" if t: "GetDCTTokenByTokenID (gw_DB w) (dct_TokenID t') = Inr t" "dct_EscrowID t = esc_ID e"
      "server_run (gw_DB w') d2" "Introspect env d2 presented = Inr (t', active, rs)" for t env d2 presented t' active rs
  proof -
    have "tok (gw_DB w) (dct_TokenID t') = Some t" using t(1) by (simp add: GetToken_iff)
    with d(2) t(2) obtain t1 where t1: "tok d (dct_TokenID t') = Some t1" "dct_RevokedAt t1 \<noteq> None"
      using record_kills by metis
    have "tokens_evolve d (gw_DB w')" using tokens.is_passR [OF assms(2), of d] d(1) by simp
    with tokens.runR [OF t(3)] tokens.trans have "tokens_evolve d d2" by blast
    with revoked_stays_inactive [OF t1 _ t(4)] show ?thesis by simp
  qed
  with e d(1) show ?thesis by (metis fst_conv)
qed

definition sample_emergency_env :: emergency_env where
  "sample_emergency_env =
     \<lparr>gv_L = sample_eth, gv_Node = ee_Node sample_escrow_env, gv_Factory = [1], gv_Now = 110,
      gv_Send = \<lambda>_ _. Inr [7], gv_RunOnce = \<lambda>d. (d, None)\<rparr>"

definition sample_emergency_world :: emergency_world where
  "sample_emergency_world = \<lparr>gw_DB = minted_db, gw_Sent = []\<rparr>"

definition frozen_world :: emergency_world where
  "frozen_world = fst (httpFreezeEscrow sample_emergency_env (Body 1) sample_emergency_world)"

lemma sample_freeze:
  "\<exists>tx i. httpFreezeEscrow sample_emergency_env (Body 1) sample_emergency_world = (frozen_world, HttpOk 200 (tx, i))"
  by (simp add: frozen_world_def httpFreezeEscrow_def with_emergency_body_def http_emergency_escrow_def
      http_emergency_def send_emergency_def sample_emergency_env_def sample_emergency_world_def
      GetEscrow_def minted_db_sel found_def sample_escrow_def Let_def)

theorem emergency_stop_witness:
  "\<forall>env op. \<not> (\<exists>active rs. Introspect holder_env (fst (EmergencyOverride env op (gw_DB frozen_world))) sample_tok
        = Inr (sample_token, active, rs) \<and> active)"
proof -
  obtain tx where r: "stop_answered sample_emergency_env (HttpFreezeEscrow (Body 1)) tx sample_emergency_world frozen_world"
    using sample_freeze by auto
  have p: "is_pass (\<lambda>d. fst (gv_RunOnce sample_emergency_env d))"
    by (simp add: is_pass_def sample_emergency_env_def)
  have g: "GetDCTTokenByTokenID (gw_DB sample_emergency_world) (dct_TokenID sample_token) = Inr sample_token"
    by (simp add: GetToken_iff minted_db_sel sample_emergency_world_def)
  have s: "server_run (gw_DB frozen_world) (fst (EmergencyOverride env op (gw_DB frozen_world)))"
    for env op
    by (rule run_more [OF run_none server_step.override])
  have o: "\<exists>e. stop_order sample_emergency_env (gw_DB sample_emergency_world) (HttpFreezeEscrow (Body 1)) = Some (e, None) \<and> esc_ID e = 1"
    by (simp add: sample_emergency_world_def minted_db_sel sample_escrow_def)
  obtain e where e: "stop_order sample_emergency_env (gw_DB sample_emergency_world) (HttpFreezeEscrow (Body 1)) = Some (e, None)"
      "esc_ID e = 1" using o by blast
  have "\<not> active" if "Introspect holder_env (fst (EmergencyOverride env op (gw_DB frozen_world))) sample_tok
      = Inr (sample_token, active, rs)" for env op active rs
    using emergency_stop [OF r p] e g s [of env op] that sample_token_sel(2) by (metis Pair_inject option.inject)
  then show ?thesis by blast
qed

end
