(* ===== verification/FrontProps.thy ===== *)
theory FrontProps
  imports Server UcpProps
begin

text \<open>
  Properties of the front ends. The HTTP handler and the MCP tool check the same creation request with
  separate code; they hand the same input to the escrow service, up to three rules only the handler has. And a
  request that a handler answers with a client error has changed nothing.
\<close>

section \<open>One request, two front ends\<close>



lemma ParseUint64_Some [simp]: "ParseUint64 s = Some n \<longleftrightarrow> parse_nat s = Some n \<and> n < 2 ^ 64"
  by (auto simp: ParseUint64_def split: option.splits)

lemma uint_arg_Inr [err_iff]: "uint_arg b f s = Inr n \<longleftrightarrow> parse_nat s = Some n \<and> n < 2 ^ b"
  by (simp add: uint_arg_def err_iff)
































text \<open>Addresses as in \<open>sample_eth\<close>, except that the text of the zero address stands for it.\<close>

definition zero_eth :: eth_lib where
  "zero_eth = sample_eth\<lparr>HexToAddress := (\<lambda>s. if s = zero_address then zero_addr else bytes_of (ToLower s))\<rparr>"

definition sample_api_env :: api_env where
  "sample_api_env = \<lparr>av_Escrow = sample_escrow_env\<lparr>ee_L := zero_eth\<rparr>, av_ComplexityFloor = ''0''\<rparr>"



section \<open>Requests that are refused\<close>

text \<open>A failure that leaves the database alone and, if it is the client's fault, the chain as well.\<close>

definition harmless :: "escrow_world \<Rightarrow> 'a esc_result \<Rightarrow> bool" where
  "harmless w r =
     (case r of (w', Inl e) \<Rightarrow> ew_DB w' = ew_DB w \<and> (IsValidation e \<longrightarrow> w' = w) | _ \<Rightarrow> True)"

definition chain_faults :: "escrow_env \<Rightarrow> bool" where
  "chain_faults E \<longleftrightarrow> (\<forall>l c e. ee_Chain E l c = Inl e \<longrightarrow> \<not> IsValidation e)"

lemma IsValidation_simps [simp]:
  "IsValidation (wrap p e) = IsValidation e"
  "\<not> IsValidation (errors_New m)"
  by (simp_all add: IsValidation_def)

lemma harmless_Inl [simp]: "harmless w (w', Inl e) \<longleftrightarrow> ew_DB w' = ew_DB w \<and> (IsValidation e \<longrightarrow> w' = w)"
  by (simp add: harmless_def)

lemma harmless_same [simp]: "harmless w (w, r)"
  by (simp add: harmless_def split: sum.splits)

lemma harmless_refuse [simp]: "harmless w (refuse m w)"
  by (simp add: refuse_def)

lemma harmless_orFail: "(\<And>x. r = Inr x \<Longrightarrow> harmless w (k x)) \<Longrightarrow> harmless w (orFail w f r k)"
  by (simp add: orFail_def split: sum.splits)

lemma harmless_if: "(P \<Longrightarrow> harmless w a) \<Longrightarrow> (\<not> P \<Longrightarrow> harmless w b) \<Longrightarrow> harmless w (if P then a else b)"
  by simp

lemma harmless_send: "chain_faults E \<Longrightarrow> harmless w (mapErr (wrap p) (send E c w))"
  by (auto simp: harmless_def send_def mapErr_def chain_faults_def Let_def split: sum.splits)

lemma harmless_index: "chain_faults E \<Longrightarrow> harmless w (send_and_index E p c w)"
  by (auto simp: harmless_def send_and_index_def send_def andThen_def mapErr_def chain_faults_def Let_def split: sum.splits)

lemma harmless_target:
  assumes "\<And>a b. harmless w (f a b w)" and "\<And>a. harmless w (g a w)"
  shows "harmless w (on_target E r e f g w)"
  using assms by (auto simp: on_target_def intro!: harmless_orFail split: option.splits)

lemma harmless_pay: "chain_faults E \<Longrightarrow> harmless w (pay E p call a t n w)"
proof -
  assume c: "chain_faults E"
  have i: "harmless w (send_and_index E p (call a None) w1)" if "ew_DB w1 = ew_DB w" for w1
    using c that by (auto simp: harmless_def send_and_index_def send_def andThen_def mapErr_def chain_faults_def Let_def
        split: sum.splits)
  have m: "harmless w (orFail w1 (wrap q) (WaitMined (ee_L E) (ee_Node E) h) (\<lambda>r.
      if rc_Status r \<noteq> 1 then (w1, Inl (errors_New m)) else send_and_index E p (call a None) w1))"
    if "ew_DB w1 = ew_DB w" for w1 q h m
    using that i [OF that] by (auto simp: orFail_def WaitMined_def harmless_def split: option.splits sum.splits)
  have "harmless w (andThen (mapErr (wrap q) (send E x w)) (\<lambda>w1 h.
      orFail w1 (wrap q') (WaitMined (ee_L E) (ee_Node E) h) (\<lambda>r.
        if rc_Status r \<noteq> 1 then (w1, Inl (errors_New m)) else send_and_index E p (call a None) w1)))" for q x q' m
  proof (cases "send E x w")
    case (Pair w1 r)
    moreover from this have "ew_DB w1 = ew_DB w" by (auto simp: send_def Let_def)
    ultimately show ?thesis
      using harmless_send [OF c, of w q x] m by (cases r) (auto simp: andThen_def mapErr_def)
  qed
  then show ?thesis
    using harmless_index [OF c] unfolding pay_def by (intro harmless_if harmless_orFail)
qed

lemma persist_fault:
  assumes "persistAttestationChain now i m v atts d = (d', Inl e)"
  shows "d' = d \<and> \<not> IsValidation e"
proof -
  have v: "\<not> IsValidation (foreign_key_err)" "\<not> IsValidation (unique_err t)" for t
    by (auto simp: IsValidation_def foreign_key_err_def unique_err_def ErrValidation_def)
  have c: "\<not> IsValidation e" if "createAttestationChainOn now c d = (d', Inl e)" for c d d' e
    using that v by (auto simp: createAttestationChainOn_def Let_def split: if_splits)
  have l: "\<not> IsValidation e" if "createAttestationLinkOn now c d = (d', Inl e)" for c d d' e
    using that v by (auto simp: createAttestationLinkOn_def Let_def split: if_splits)
  have ls: "\<not> IsValidation e" if "create_links now c as d = (d', Inl e)" for c as d d' e
    using that by (induction as arbitrary: d) (auto simp: err_iff dest: l)
  show ?thesis using assms by (auto simp: persistAttestationChain_def err_iff dest: c ls)
qed

lemma harmless_submit:
  assumes "chain_faults E"
  shows "harmless w (SubmitWork E e q w)"
proof -
  let ?rest = "\<lambda>m p validated addr. andThen (submit_call E addr m (sq_SubmissionURI q) p w) (\<lambda>w1 tx.
     andThen
       (case validated of
          None \<Rightarrow> (w1, Inr ())
        | Some (v, atts) \<Rightarrow>
            mapErr (wrap ''persist attestation chain'')
              (on_db (persistAttestationChain (ee_Now E) (esc_ID e) m v atts) w1))
       (\<lambda>w2 _. (run_indexer E w2, Inr (HashHex (ee_L E) tx))))"
  have s: "harmless w (submit_call E addr m u p w)" for addr m u p
    using assms by (auto simp: submit_call_def Let_def harmless_send intro!: harmless_orFail split: option.splits)
  have db: "ew_DB w1 = ew_DB w" if "submit_call E addr m u p w = (w1, r)" for addr m u p w1 r
    using that by (auto simp: submit_call_def send_def orFail_def mapErr_def Let_def split: option.splits sum.splits)
  have "harmless w (?rest m p validated addr)" for m p validated addr
  proof (cases "submit_call E addr m (sq_SubmissionURI q) p w")
    case (Pair w1 r)
    then show ?thesis
      using s [of addr m "sq_SubmissionURI q" p] db [OF Pair]
      by (cases r; cases validated; auto simp: harmless_def on_db_def mapErr_def andThen_def
            split: prod.splits sum.splits dest!: persist_fault)
  qed
  then show ?thesis unfolding SubmitWork_def by (intro harmless_orFail) auto
qed

lemmas harmless_rules =
  harmless_submit harmless_pay harmless_index harmless_target harmless_refuse harmless_same
  harmless_if harmless_orFail

lemma harmless_deposit: "chain_faults E \<Longrightarrow> harmless w (deposit_stake E s m call e w)"
  unfolding deposit_stake_def processStakeDeposit_def
  by (auto split: option.splits intro!: harmless_orFail harmless_pay)

lemma harmless_service:
  assumes "harmless w r" and "http_service n r = (w', HttpError c m)"
  shows "ew_DB w' = ew_DB w \<and> (c = 400 \<and> w' = w \<or> c = 500)"
  using assms by (auto simp: harmless_def http_service_def handleEscrowServiceActionError_def split: sum.splits prod.splits if_splits)

text \<open>The answer of a handler: an error has not touched the database, a client error not the chain either, and
  only an escrow that does not exist is not found.\<close>

definition answered :: "string \<Rightarrow> escrow_world \<Rightarrow> escrow_world \<times> string http \<Rightarrow> bool" where
  "answered path w r = (\<forall>w' c m. r = (w', HttpError c m) \<longrightarrow>
     ew_DB w' = ew_DB w \<and> c \<in> {400, 404, 500} \<and> (c \<noteq> 500 \<longrightarrow> w' = w)
     \<and> (c = 404 \<longrightarrow> (\<exists>i. ParseInt64 path = Some i \<and> i \<notin> esc_ID ` set (escrows (ew_DB w)))))"

lemma answered_escrow:
  assumes "\<And>e. harmless w (op e w)" and "ParseInt64 path = Some i"
  shows "answered path w (with_escrow i op w)"
proof -
  have "i \<notin> esc_ID ` set (escrows (ew_DB w))" if "GetEscrow (ew_DB w) i = Inl e" for e
    using that by (auto simp: GetEscrow_def found_def row_get_def find_None_iff split: option.splits)
  moreover have "answered path w (http_service 200 (op e w))" for e
    unfolding answered_def using harmless_service [OF assms(1)] by force
  ultimately show ?thesis
    using assms(2) by (cases "GetEscrow (ew_DB w) i") (auto simp: answered_def with_escrow_def)
qed

lemma answered_bad: "answered path w (w, HttpError 400 m)"
  by (simp add: answered_def)

lemma answered_id: "(\<And>i. ParseInt64 path = Some i \<Longrightarrow> answered path w (k i)) \<Longrightarrow> answered path w (with_id path k w)"
  by (cases "ParseInt64 path") (simp_all add: with_id_def answered_bad)

lemma answered_body: "(\<And>q. answered path w (k q)) \<Longrightarrow> answered path w (with_body b k w)"
  by (cases b) (simp_all add: with_body_def answered_bad)

lemma answered_action: "(\<And>e. harmless w (op e w)) \<Longrightarrow> answered path w (escrow_action path op w)"
  unfolding escrow_action_def by (intro answered_id answered_escrow)

text \<open>C34: A request the API refuses has not happened. When the server answers a request on an escrow with
  an error, the database is what it was, whatever had been sent; a client error - a malformed id, body or
  field, or a validation error of the service - has not sent a transaction either; and "not found" means that
  the path names an escrow there is not. The chain client's own errors are not the service's validation
  errors.\<close>

theorem refused_request_untouched:
  assumes "route_escrow A rt path w = (w', HttpError code msg)"
    and "\<And>calls c e. ee_Chain (av_Escrow A) calls c = Inl e \<Longrightarrow> \<not> IsValidation e"
  shows "ew_DB w' = ew_DB w \<and> code \<in> {400, 404, 500} \<and> (code \<noteq> 500 \<longrightarrow> w' = w)
    \<and> (code = 404 \<longrightarrow> (\<exists>i. ParseInt64 path = Some i \<and> i \<notin> esc_ID ` set (escrows (ew_DB w))))"
proof -
  let ?E = "av_Escrow A"
  have c: "chain_faults ?E" using assms(2) by (auto simp: chain_faults_def)
  note i = harmless_index [OF c]
  have t: "harmless w (on_target ?E r e f g w)" if "\<And>a b. harmless w (f a b w)" "\<And>a. harmless w (g a w)" for r e f g
    by (rule harmless_target) (fact that)+
  have fund: "harmless w (FundEscrow ?E e w)" for e
    unfolding FundEscrow_def by (auto split: option.splits intro!: harmless_orFail harmless_pay [OF c])
  have dep: "harmless w (DepositWorkerStake ?E e w)" "harmless w (DepositVerifierStake ?E e w)" for e
    unfolding DepositWorkerStake_def DepositVerifierStake_def by (rule harmless_deposit [OF c])+
  have plain: "harmless w (WithdrawStake ?E e w)" "harmless w (AbortRemainingMilestones ?E e w)"
      "harmless w (ActivateBackup ?E e w)" for e
    unfolding WithdrawStake_def AbortRemainingMilestones_def ActivateBackup_def
    by (auto intro!: harmless_orFail i)
  have target: "harmless w (ApproveWork ?E e r m w)" "harmless w (VerifyAndApprove ?E e p m w)"
      "harmless w (CastVerifierVote ?E e ap u m w)" "harmless w (DisputeWork ?E e r u m w)"
      "harmless w (ResolveDispute ?E e b u m w)" for e r m p ap u b
    unfolding ApproveWork_def VerifyAndApprove_def CastVerifierVote_def DisputeWork_def ResolveDispute_def
    by (auto intro!: t i)
  have "answered path w (route_escrow A rt path w)"
  proof (cases rt)
    case (PostVerifyApprove b)
    then show ?thesis
      by (auto simp: httpVerifyAndApprove_def intro!: answered_id answered_body answered_bad answered_escrow target split: sum.splits)
  next
    case (PostQuorumVote b)
    then show ?thesis
      by (auto simp: httpCastVerifierVote_def intro!: answered_id answered_body answered_bad answered_escrow target split: option.splits)
  next
    case (PostResolve b)
    then show ?thesis
      by (auto simp: httpResolveDispute_def intro!: answered_id answered_body answered_bad answered_escrow target split: option.splits)
  qed (simp_all add: httpFundEscrow_def httpDepositStake_def httpDepositVerifierStake_def httpWithdrawStake_def
      httpSubmitWork_def httpApproveWork_def httpDisputeWork_def httpAbortRemainingMilestones_def httpActivateBackup_def
      answered_action answered_id answered_body answered_escrow fund dep plain target harmless_submit [OF c])
  with assms(1) show ?thesis unfolding answered_def by blast
qed

lemma refused_request_untouched_witness:
  "\<exists>w'. route_escrow sample_api_env (PostResolve (Body \<lparr>rsr_WorkerAwardBps = ''x'', rsr_ResolutionURI = [],
       rsr_MilestoneIndex = None\<rparr>)) ''1'' sample_escrow_world = (w', HttpError 400 ''invalid worker_award_bps'')
     \<and> w' = sample_escrow_world"
proof -
  let ?r = "\<lparr>rsr_WorkerAwardBps = ''x'', rsr_ResolutionURI = [], rsr_MilestoneIndex = None\<rparr>"
  have p: "ParseUint16 ''x'' = None" "ParseInt64 ''1'' = Some 1"
    by (simp_all add: ParseUint16_def ParseInt64_def SetString10_def parse_nat_def digit_val_def Let_def)
  have "route_escrow sample_api_env (PostResolve (Body ?r)) ''1'' sample_escrow_world
      = (sample_escrow_world, HttpError 400 ''invalid worker_award_bps'')"
    by (simp add: httpResolveDispute_def with_id_def with_body_def p)
  moreover have "\<not> IsValidation e" if "ee_Chain (av_Escrow sample_api_env) calls c = Inl e" for calls c e
    using that by (simp add: sample_api_env_def sample_escrow_env_def)
  ultimately show ?thesis
    using refused_request_untouched [of sample_api_env "PostResolve (Body ?r)" "''1''" sample_escrow_world] by blast
qed

end
