(* ===== verification/BidFront.thy ===== *)
theory BidFront
  imports McpBidding BidProps
begin

text \<open>
  Sealed bids behind the front ends: what the listings show of a commit does not depend on its commitment
  and its nonce, whatever is asked in whatever order, although a question may finalize the bidding.
\<close>

section \<open>Databases without secrets\<close>

definition blind_commit :: "bid_commit \<Rightarrow> bid_commit" where
  "blind_commit c = c\<lparr>bc_Commitment := [], bc_Nonce := []\<rparr>"

definition blind :: "db \<Rightarrow> db" where
  "blind d = d\<lparr>bid_commits := map blind_commit (bid_commits d)\<rparr>"

lemma blind_commit_sel [simp]:
  "bc_ID (blind_commit c) = bc_ID c" "bc_RFQID (blind_commit c) = bc_RFQID c"
  "bc_Bidder (blind_commit c) = bc_Bidder c" "bc_Status (blind_commit c) = bc_Status c"
  "bc_RevealedBidID (blind_commit c) = bc_RevealedBidID c" "bc_CreatedAt (blind_commit c) = bc_CreatedAt c"
  "bc_UpdatedAt (blind_commit c) = bc_UpdatedAt c"
  "public_commit (blind_commit c) = public_commit c" "outstanding i (blind_commit c) = outstanding i c"
  by (simp_all add: blind_commit_def public_commit_def outstanding_def)

lemma blind_sel [simp]:
  "rfqs (blind d) = rfqs d" "bids (blind d) = bids d" "disciplines (blind d) = disciplines d"
  "bid_commits (blind d) = map blind_commit (bid_commits d)"
  by (simp_all add: blind_def)

lemma insort_key_map:
  assumes "\<And>x. key (f x) = key x"
  shows "insort_key key (f x) (map f xs) = map f (insort_key key x xs)"
  by (induction xs) (simp_all add: assms)

lemma sort_key_map:
  assumes "\<And>x. key (f x) = key x"
  shows "sort_key key (map f xs) = map f (sort_key key xs)"
  by (induction xs) (simp_all add: insort_key_map [of key f, OF assms])

lemma filter_map_same: "(\<And>x. p (f x) = p x) \<Longrightarrow> filter p (map f xs) = map f (filter p xs)"
  by (induction xs) simp_all

lemma row_upd_map:
  assumes "\<And>x. p (f x) = p x" "\<And>x. u (f x) = f (u x)"
  shows "row_upd p u (map f xs) = map f (row_upd p u xs)"
  using assms by (simp add: row_upd_def)

section \<open>Finalization does not look at secrets\<close>

lemma blind_lookups [simp]:
  "GetRFQ (blind d) i = GetRFQ d i" "ListBidsByRFQ (blind d) i = ListBidsByRFQ d i"
  "ListBidsByBidder (blind d) b = ListBidsByBidder d b" "ListRFQs (blind d) s b = ListRFQs d s b"
  "GetSealedBidderDiscipline (blind d) b = GetSealedBidderDiscipline d b"
  by (simp_all add: GetRFQ_def ListBidsByRFQ_def ListBidsByBidder_def ListRFQs_def GetSealedBidderDiscipline_def)

lemma blind_lists:
  "ListBidCommitsByRFQ (blind d) i = map blind_commit (ListBidCommitsByRFQ d i)"
  "ListCommittedBidCommitsByRFQ (blind d) i = map blind_commit (ListCommittedBidCommitsByRFQ d i)"
  by (simp_all add: ListBidCommitsByRFQ_def ListCommittedBidCommitsByRFQ_def filter_map_same
      sort_key_map [of bc_ID blind_commit] rev_map)

lemma blind_revealed:
  "GetBidCommitByRevealedBidID (blind d) b = map_sum id blind_commit (GetBidCommitByRevealedBidID d b)"
proof -
  have "first_where p (map blind_commit cs) = map_option blind_commit (first_where p cs)"
    if "\<And>c. p (blind_commit c) = p c" for p cs
    using that by (induction cs) (auto simp: first_where_def)
  then show ?thesis
    by (auto simp: GetBidCommitByRevealedBidID_def found_def split: option.splits)
qed

definition blind_candidate :: "candidate \<Rightarrow> candidate" where
  "blind_candidate c = c\<lparr>cand_commit := blind_commit (cand_commit c)\<rparr>"

lemma blind_candidate_sel [simp]:
  "cand_key (blind_candidate c) = cand_key c" "cand_bid (blind_candidate c) = cand_bid c"
  by (simp_all add: blind_candidate_def cand_key_def)

lemma blind_candidate_of:
  "candidate_of (blind d) req now b = map_sum id (map_option blind_candidate) (candidate_of d req now b)"
  by (auto simp: candidate_of_def blind_revealed blind_candidate_def split: sum.splits option.splits)

lemma blind_collect:
  "collect_candidates (blind d) req now bs = map_sum id (map blind_candidate) (collect_candidates d req now bs)"
  by (induction bs) (auto simp: blind_candidate_of split: sum.splits option.splits)

lemma blind_eligible:
  "eligibleSealedBidCandidatesOn E (blind d) r = map_sum id (map blind_candidate) (eligibleSealedBidCandidatesOn E d r)"
  by (auto simp: eligibleSealedBidCandidatesOn_def blind_collect sortSealedBidCandidates_def
      sort_key_map [of cand_key blind_candidate] split: sum.splits)

lemma blind_cooldowns: "cooldown_loop now (blind d) (map blind_commit cs) m = cooldown_loop now d cs m"
  by (induction cs arbitrary: m) (auto split: sum.splits)

lemma blind_strike: "strike_bidders now m (blind d) = blind (strike_bidders now m d)"
proof -
  have "UpsertSealedBidderDiscipline now b u (blind d) = blind (UpsertSealedBidderDiscipline now b u d)" for b u d
    by (simp add: UpsertSealedBidderDiscipline_def blind_def Let_def)
  then show ?thesis by (induction m arbitrary: d) (auto simp: strike_bidders_def)
qed

lemma blind_expire: "ExpireCommittedBidCommits now i (blind d) = blind (ExpireCommittedBidCommits now i d)"
proof -
  have "row_upd (outstanding i) u (map blind_commit cs) = map blind_commit (row_upd (outstanding i) u cs)"
    if "u = (\<lambda>c. c\<lparr>bc_Status := ''expired'', bc_UpdatedAt := now\<rparr>)" for u cs
    by (rule row_upd_map) (simp_all add: that blind_commit_def outstanding_def)
  then show ?thesis by (simp add: ExpireCommittedBidCommits_def set_commit_status_def blind_def)
qed

lemma blind_update:
  "UpdateRFQSealedBiddingState now i s rule best at (blind d)
     = apfst blind (UpdateRFQSealedBiddingState now i s rule best at d)"
  by (cases best) (simp_all add: UpdateRFQSealedBiddingState_def blind_def Let_def)

lemma blind_finalize: "FinalizeSealedBidding E i (blind d) = apfst blind (FinalizeSealedBidding E i d)"
proof -
  have u: "finalize_update E r (map blind_candidate cs) = finalize_update E r cs" for r cs
    by (cases cs) (simp_all add: finalize_update_def)
  have "Bidding.finalize_tx E i (blind d) = apfst blind (Bidding.finalize_tx E i d)"
    by (auto simp: Bidding.finalize_tx_def orFail_def blind_eligible blind_lists blind_cooldowns blind_strike blind_expire
        blind_update u Let_def in_tx_def andThen_def comp_def split: sum.splits prod.splits)
  then show ?thesis by (simp add: FinalizeSealedBidding_def orFail_def split: sum.splits)
qed

section \<open>Questions\<close>

datatype bid_query =
    AskRFQ string
  | AskBids string
  | AskRFQs string string
  | AskToolBids string string

datatype bid_reply =
    ReplyRFQ "rfq_view http"
  | ReplyBids "bid list http"
  | ReplyRFQs "rfq list http"
  | ReplyToolBids "(bid \<times> bool) list tool"

fun ask :: "bidding_api \<Rightarrow> bid_query \<Rightarrow> db \<Rightarrow> db \<times> bid_reply" where
  "ask B (AskRFQ i) d = apsnd ReplyRFQ (httpGetRFQ B i d)"
| "ask B (AskBids i) d = apsnd ReplyBids (httpListBids B i d)"
| "ask B (AskRFQs status buyer) d = (d, ReplyRFQs (httpListRFQs B status buyer d))"
| "ask B (AskToolBids i bidder) d = apsnd ReplyToolBids (toolListBids B i bidder d)"

text \<open>Questions at different times: each comes with the environment it is asked in.\<close>

fun replies :: "(bidding_api \<times> bid_query) list \<Rightarrow> db \<Rightarrow> bid_reply list" where
  "replies [] d = []"
| "replies ((B, q) # qs) d = (case ask B q d of (d1, r) \<Rightarrow> r # replies qs d1)"

lemma blind_ask: "ask B q (blind d) = apfst blind (ask B q d)"
proof (cases q)
  case (AskRFQ i)
  then show ?thesis
    by (auto simp: httpGetRFQ_def with_id_def blind_finalize rfq_reply_def blind_lists comp_def
        split: option.splits sum.splits prod.splits)
next
  case (AskBids i)
  then show ?thesis
    by (auto simp: httpListBids_def with_rfq_id_def blind_finalize Let_def split: option.splits sum.splits prod.splits)
next
  case (AskToolBids i b)
  then show ?thesis
    by (auto simp: toolListBids_def blind_finalize Let_def split: sum.splits prod.splits)
qed (simp add: httpListRFQs_def)

lemma blind_replies: "replies qs (blind d) = replies qs d"
proof (induction qs d rule: replies.induct)
  case (2 B q qs d)
  then show ?case by (cases "ask B q d") (simp add: blind_ask)
qed simp

text \<open>C35: Sealed bids stay sealed. Two databases that differ in nothing but the commitments and nonces of the
  bid commits answer every sequence of questions about RFQs and bids alike, over HTTP and MCP, although a
  question asked after the reveal phase finalizes the bidding and changes the database: nobody learns from
  the listings what would let a bid be guessed or copied before it is revealed.\<close>

theorem sealed_bids_stay_sealed:
  assumes "blind d1 = blind d2"
  shows "replies qs d1 = replies qs d2"
  using blind_replies [of qs d1] blind_replies [of qs d2] assms by simp

lemma sealed_bids_stay_sealed_witness:
  "let d = sample_committed\<lparr>bid_commits := map (\<lambda>c. c\<lparr>bc_Commitment := ''0xg'', bc_Nonce := ''m''\<rparr>) (bid_commits sample_committed)\<rparr>;
       B = (\<lambda>now. \<lparr>ba_Bid = BidFinalize.sample_env now, ba_FloatFmt = id\<rparr>);
       qs = [(B 15, AskRFQ ''1''), (B 30, AskRFQ ''1''), (B 31, AskBids ''1'')] in
     d \<noteq> sample_committed \<and> replies qs sample_committed = replies qs d"
proof -
  let ?d = "sample_committed\<lparr>bid_commits := map (\<lambda>c. c\<lparr>bc_Commitment := ''0xg'', bc_Nonce := ''m''\<rparr>) (bid_commits sample_committed)\<rparr>"
  have "bid_commits ?d \<noteq> bid_commits sample_committed" by (simp add: sample_committed_def)
  moreover have "blind sample_committed = blind ?d" by (simp add: blind_def blind_commit_def sample_committed_def)
  ultimately show ?thesis unfolding Let_def using sealed_bids_stay_sealed [of sample_committed ?d] by metis
qed

end
