(* ===== verification/ChainClient.thy ===== *)
theory ChainClient
  imports Emergency Ap2
begin

text \<open>
  The real \<open>ChainClient\<close>: \<open>internal/chain/client.go\<close>, which keeps the nonce of the server's key, and the calls
  of \<open>escrow.go\<close>, \<open>factory.go\<close> and \<open>emergency.go\<close>, each a method of a contract with its arguments. Packing,
  signing and the node are parameters; the node may answer by everything it was asked before. The mutex of the
  client is held through a whole \<open>SendTx\<close>, so concurrent calls are sequences of it.
\<close>

section \<open>Calls of the contracts\<close>

text \<open>Go values with the types of the ABI they are packed as.\<close>

datatype abi_value =
    AAddress addr
  | AUint8 byte
  | AUint16 "16 word"
  | AUint64 uint64
  | AUint256 int
  | ABool bool
  | AString string
  | ABytes "byte list"
  | ABytes32 "byte list"
  | AAddresses "addr list"
  | ATuple "abi_value list"
  | ATuples "abi_value list list"

datatype contract_abi = FactoryABI | EscrowABI | ERC20ABI

record contract_call =
  ct_ABI :: contract_abi
  ct_To :: addr
  ct_Method :: string
  ct_Args :: "abi_value list"
  ct_Value :: "int option"

definition escrow_method :: "addr \<Rightarrow> string \<Rightarrow> abi_value list \<Rightarrow> int option \<Rightarrow> contract_call" where
  "escrow_method escrow name args value =
     \<lparr>ct_ABI = EscrowABI, ct_To = escrow, ct_Method = name, ct_Args = args, ct_Value = value\<rparr>"

definition factory_method :: "addr \<Rightarrow> string \<Rightarrow> abi_value list \<Rightarrow> contract_call" where
  "factory_method factory name args =
     \<lparr>ct_ABI = FactoryABI, ct_To = factory, ct_Method = name, ct_Args = args, ct_Value = None\<rparr>"

definition clientFund :: "addr \<Rightarrow> int option \<Rightarrow> contract_call" where
  "clientFund escrow amount = escrow_method escrow ''fund'' [] amount"

definition clientCancelBeforeFunding :: "addr \<Rightarrow> contract_call" where
  "clientCancelBeforeFunding escrow = escrow_method escrow ''cancelBeforeFunding'' [] None"

definition clientFundWithAuthorization :: "fund_call \<Rightarrow> contract_call" where
  "clientFundWithAuthorization f =
     escrow_method (fc_Escrow f) ''fundWithAuthorization''
       [AAddress (fc_From f), AUint256 (fc_ValidAfter f), AUint256 (fc_ValidBefore f), ABytes32 (fc_Nonce f),
        AUint8 (fc_V f), ABytes32 (fc_R f), ABytes32 (fc_S f)] None"

definition clientDepositStake :: "addr \<Rightarrow> int option \<Rightarrow> contract_call" where
  "clientDepositStake escrow stakeAmount = escrow_method escrow ''depositStake'' [] stakeAmount"

definition clientDepositVerifierStake :: "addr \<Rightarrow> int option \<Rightarrow> contract_call" where
  "clientDepositVerifierStake escrow stakeAmount = escrow_method escrow ''depositVerifierStake'' [] stakeAmount"

definition clientApproveERC20 :: "addr \<Rightarrow> addr \<Rightarrow> int \<Rightarrow> contract_call" where
  "clientApproveERC20 token spender amount =
     \<lparr>ct_ABI = ERC20ABI, ct_To = token, ct_Method = ''approve'', ct_Args = [AAddress spender, AUint256 amount],
      ct_Value = None\<rparr>"

definition clientSubmit :: "addr \<Rightarrow> hash \<Rightarrow> string \<Rightarrow> hash \<Rightarrow> contract_call" where
  "clientSubmit escrow submissionHash submissionURI proofHash =
     escrow_method escrow ''submit'' [ABytes32 submissionHash, AString submissionURI, ABytes32 proofHash] None"

definition clientVerifyAndApprove :: "addr \<Rightarrow> byte list \<Rightarrow> contract_call" where
  "clientVerifyAndApprove escrow proof = escrow_method escrow ''verifyAndApprove'' [ABytes proof] None"

definition clientApproveByBuyer :: "addr \<Rightarrow> contract_call" where
  "clientApproveByBuyer escrow = escrow_method escrow ''approveByBuyer'' [] None"

definition clientWithdrawStake :: "addr \<Rightarrow> contract_call" where
  "clientWithdrawStake escrow = escrow_method escrow ''withdrawStake'' [] None"

definition clientCastVerifierVote :: "addr \<Rightarrow> bool \<Rightarrow> string \<Rightarrow> contract_call" where
  "clientCastVerifierVote escrow approve reasonURI =
     escrow_method escrow ''castVerifierVote'' [ABool approve, AString reasonURI] None"

definition clientDispute :: "addr \<Rightarrow> string \<Rightarrow> contract_call" where
  "clientDispute escrow reasonURI = escrow_method escrow ''dispute'' [AString reasonURI] None"

definition clientEscalateSilence :: "addr \<Rightarrow> string \<Rightarrow> contract_call" where
  "clientEscalateSilence escrow reasonURI = escrow_method escrow ''escalateSilence'' [AString reasonURI] None"

definition clientResolveDispute :: "addr \<Rightarrow> 16 word \<Rightarrow> string \<Rightarrow> contract_call" where
  "clientResolveDispute escrow workerAwardBps resolutionURI =
     escrow_method escrow ''resolveDispute'' [AUint16 workerAwardBps, AString resolutionURI] None"

definition clientClaimTimeoutRefund :: "addr \<Rightarrow> contract_call" where
  "clientClaimTimeoutRefund escrow = escrow_method escrow ''claimTimeoutRefund'' [] None"

definition clientClaimArbitratorTimeout :: "addr \<Rightarrow> contract_call" where
  "clientClaimArbitratorTimeout escrow = escrow_method escrow ''claimArbitratorTimeout'' [] None"

definition clientSubmitMilestone :: "addr \<Rightarrow> byte \<Rightarrow> hash \<Rightarrow> string \<Rightarrow> hash \<Rightarrow> contract_call" where
  "clientSubmitMilestone escrow milestoneIndex submissionHash submissionURI proofHash =
     escrow_method escrow ''submitMilestone''
       [AUint8 milestoneIndex, ABytes32 submissionHash, AString submissionURI, ABytes32 proofHash] None"

definition clientVerifyAndApproveMilestone :: "addr \<Rightarrow> byte \<Rightarrow> byte list \<Rightarrow> contract_call" where
  "clientVerifyAndApproveMilestone escrow milestoneIndex proof =
     escrow_method escrow ''verifyAndApproveMilestone'' [AUint8 milestoneIndex, ABytes proof] None"

definition clientApproveMilestoneByBuyer :: "addr \<Rightarrow> byte \<Rightarrow> contract_call" where
  "clientApproveMilestoneByBuyer escrow milestoneIndex =
     escrow_method escrow ''approveMilestoneByBuyer'' [AUint8 milestoneIndex] None"

definition clientCastMilestoneVerifierVote :: "addr \<Rightarrow> byte \<Rightarrow> bool \<Rightarrow> string \<Rightarrow> contract_call" where
  "clientCastMilestoneVerifierVote escrow milestoneIndex approve reasonURI =
     escrow_method escrow ''castMilestoneVerifierVote''
       [AUint8 milestoneIndex, ABool approve, AString reasonURI] None"

definition clientDisputeMilestone :: "addr \<Rightarrow> byte \<Rightarrow> string \<Rightarrow> contract_call" where
  "clientDisputeMilestone escrow milestoneIndex reasonURI =
     escrow_method escrow ''disputeMilestone'' [AUint8 milestoneIndex, AString reasonURI] None"

definition clientEscalateMilestoneSilence :: "addr \<Rightarrow> byte \<Rightarrow> string \<Rightarrow> contract_call" where
  "clientEscalateMilestoneSilence escrow milestoneIndex reasonURI =
     escrow_method escrow ''escalateMilestoneSilence'' [AUint8 milestoneIndex, AString reasonURI] None"

definition clientResolveMilestoneDispute :: "addr \<Rightarrow> byte \<Rightarrow> 16 word \<Rightarrow> string \<Rightarrow> contract_call" where
  "clientResolveMilestoneDispute escrow milestoneIndex workerAwardBps resolutionURI =
     escrow_method escrow ''resolveMilestoneDispute''
       [AUint8 milestoneIndex, AUint16 workerAwardBps, AString resolutionURI] None"

definition clientClaimMilestoneTimeoutRefund :: "addr \<Rightarrow> byte \<Rightarrow> contract_call" where
  "clientClaimMilestoneTimeoutRefund escrow milestoneIndex =
     escrow_method escrow ''claimMilestoneTimeoutRefund'' [AUint8 milestoneIndex] None"

definition clientClaimMilestoneArbitratorTimeout :: "addr \<Rightarrow> byte \<Rightarrow> contract_call" where
  "clientClaimMilestoneArbitratorTimeout escrow milestoneIndex =
     escrow_method escrow ''claimMilestoneArbitratorTimeout'' [AUint8 milestoneIndex] None"

definition clientAbortRemainingMilestones :: "addr \<Rightarrow> contract_call" where
  "clientAbortRemainingMilestones escrow = escrow_method escrow ''abortRemainingMilestones'' [] None"

definition clientActivateBackup :: "addr \<Rightarrow> contract_call" where
  "clientActivateBackup escrow = escrow_method escrow ''activateBackup'' [] None"

text \<open>The fields in the order of the Solidity struct.\<close>

definition packCreateEscrow :: "create_escrow_params \<Rightarrow> abi_value list" where
  "packCreateEscrow p =
     [ATuple
       [AAddress (ce_Buyer p), AAddress (ce_Worker p), AAddresses (ce_VerifierPanel p), AUint8 (ce_QuorumThreshold p),
        AUint8 (ce_QuorumVerifierCount p), AUint256 (ce_VerifierStakePerVerifier p), AAddress (ce_Arbitrator p),
        AUint256 (ce_Amount p), AUint256 (ce_WorkerStake p), AUint64 (ce_SubmissionDeadline p),
        AUint64 (ce_ReviewPeriodSeconds p), AUint64 (ce_DisputePeriodSeconds p), ABytes32 (ce_TaskSpecHash p),
        AUint64 (ce_ArbitratorTimeoutSeconds p), AAddress (ce_Token p), AUint8 (ce_ServiceTier p),
        AAddress (ce_BackupWorker p), AUint64 (ce_BackupDeadlineExtension p), AAddress (ce_ZKVerifier p),
        ABytes32 (ce_CircuitID p), AAddress (ce_ParentEscrow p),
        ATuples (map (\<lambda>m. [AUint256 (mp_Amount m), AUint64 (mp_SubmissionDeadline m)]) (ce_Milestones p))]]"

definition clientCreateEscrow :: "addr \<Rightarrow> create_escrow_params \<Rightarrow> contract_call" where
  "clientCreateEscrow factory p = factory_method factory ''createEscrow'' (packCreateEscrow p)"

definition clientFreezeAddress :: "addr \<Rightarrow> addr \<Rightarrow> contract_call" where
  "clientFreezeAddress factory target = factory_method factory ''freezeAddress'' [AAddress target]"

definition clientUnfreezeAddress :: "addr \<Rightarrow> addr \<Rightarrow> contract_call" where
  "clientUnfreezeAddress factory target = factory_method factory ''unfreezeAddress'' [AAddress target]"

definition clientFreezeEscrow :: "addr \<Rightarrow> int \<Rightarrow> contract_call" where
  "clientFreezeEscrow factory escrowID = factory_method factory ''freezeEscrow'' [AUint256 escrowID]"

definition clientUnfreezeEscrow :: "addr \<Rightarrow> int \<Rightarrow> contract_call" where
  "clientUnfreezeEscrow factory escrowID = factory_method factory ''unfreezeEscrow'' [AUint256 escrowID]"

definition clientEmergencyResolve :: "addr \<Rightarrow> int \<Rightarrow> 16 word \<Rightarrow> contract_call" where
  "clientEmergencyResolve factory escrowID workerAwardBps =
     factory_method factory ''emergencyResolve'' [AUint256 escrowID, AUint16 workerAwardBps]"

text \<open>The method of the interface that each call is.\<close>

fun client_call :: "chain_call \<Rightarrow> contract_call" where
  "client_call (CallCreateEscrow f p) = clientCreateEscrow f p"
| "client_call (CallFund e a) = clientFund e a"
| "client_call (CallApproveERC20 t s a) = clientApproveERC20 t s a"
| "client_call (CallDepositStake e a) = clientDepositStake e a"
| "client_call (CallDepositVerifierStake e a) = clientDepositVerifierStake e a"
| "client_call (CallWithdrawStake e) = clientWithdrawStake e"
| "client_call (CallSubmit e h u p) = clientSubmit e h u p"
| "client_call (CallSubmitMilestone e i h u p) = clientSubmitMilestone e i h u p"
| "client_call (CallApproveByBuyer e) = clientApproveByBuyer e"
| "client_call (CallApproveMilestoneByBuyer e i) = clientApproveMilestoneByBuyer e i"
| "client_call (CallCastVerifierVote e b r) = clientCastVerifierVote e b r"
| "client_call (CallCastMilestoneVerifierVote e i b r) = clientCastMilestoneVerifierVote e i b r"
| "client_call (CallVerifyAndApprove e p) = clientVerifyAndApprove e p"
| "client_call (CallVerifyAndApproveMilestone e i p) = clientVerifyAndApproveMilestone e i p"
| "client_call (CallDispute e r) = clientDispute e r"
| "client_call (CallDisputeMilestone e i r) = clientDisputeMilestone e i r"
| "client_call (CallEscalateSilence e r) = clientEscalateSilence e r"
| "client_call (CallEscalateMilestoneSilence e i r) = clientEscalateMilestoneSilence e i r"
| "client_call (CallResolveDispute e b r) = clientResolveDispute e b r"
| "client_call (CallResolveMilestoneDispute e i b r) = clientResolveMilestoneDispute e i b r"
| "client_call (CallClaimTimeoutRefund e) = clientClaimTimeoutRefund e"
| "client_call (CallClaimMilestoneTimeoutRefund e i) = clientClaimMilestoneTimeoutRefund e i"
| "client_call (CallClaimArbitratorTimeout e) = clientClaimArbitratorTimeout e"
| "client_call (CallClaimMilestoneArbitratorTimeout e i) = clientClaimMilestoneArbitratorTimeout e i"
| "client_call (CallCancelBeforeFunding e) = clientCancelBeforeFunding e"
| "client_call (CallAbortRemainingMilestones e) = clientAbortRemainingMilestones e"
| "client_call (CallActivateBackup e) = clientActivateBackup e"

fun client_emergency :: "emergency_call \<Rightarrow> contract_call" where
  "client_emergency (CallFreezeAddress f a) = clientFreezeAddress f a"
| "client_emergency (CallUnfreezeAddress f a) = clientUnfreezeAddress f a"
| "client_emergency (CallFreezeEscrow f i) = clientFreezeEscrow f i"
| "client_emergency (CallUnfreezeEscrow f i) = clientUnfreezeEscrow f i"
| "client_emergency (CallEmergencyResolve f i b) = clientEmergencyResolve f i b"

section \<open>Sending\<close>

text \<open>A transaction before it is signed. The hash is that of the signed one.\<close>

record client_tx =
  ctx_Nonce :: uint64
  ctx_To :: addr
  ctx_Value :: int
  ctx_GasLimit :: uint64
  ctx_GasPrice :: int
  ctx_Data :: "byte list"

text \<open>What the node was asked on the way to a transaction, and its answers.\<close>

datatype rpc_event =
    AskedNonce "gerr + uint64"
  | AskedGasPrice "gerr + int"
  | AskedGasLimit "gerr + uint64"
  | SentTx client_tx hash "gerr option"

type_synonym rpc_log = "rpc_event list"

record client_env =
  cc_Connected :: bool
  cc_HasKey :: bool
  cc_Pack :: "contract_abi \<Rightarrow> string \<Rightarrow> abi_value list \<Rightarrow> gerr + byte list"
  cc_Sign :: "client_tx \<Rightarrow> gerr + hash"
  cc_PendingNonceAt :: "rpc_log \<Rightarrow> gerr + uint64"
  cc_SuggestGasPrice :: "rpc_log \<Rightarrow> gerr + int"
  cc_EstimateGas :: "rpc_log \<Rightarrow> addr \<Rightarrow> int \<Rightarrow> byte list \<Rightarrow> gerr + uint64"
  cc_SendTransaction :: "rpc_log \<Rightarrow> client_tx \<Rightarrow> hash \<Rightarrow> gerr option"

record client_world =
  cw_Nonce :: uint64
  cw_NonceOK :: bool
  cw_Log :: rpc_log

definition ask_nonce :: "client_env \<Rightarrow> client_world \<Rightarrow> client_world \<times> (gerr + uint64)" where
  "ask_nonce C w = (let r = cc_PendingNonceAt C (cw_Log w) in (w\<lparr>cw_Log := cw_Log w @ [AskedNonce r]\<rparr>, r))"

definition ask_price :: "client_env \<Rightarrow> client_world \<Rightarrow> client_world \<times> (gerr + int)" where
  "ask_price C w = (let r = cc_SuggestGasPrice C (cw_Log w) in (w\<lparr>cw_Log := cw_Log w @ [AskedGasPrice r]\<rparr>, r))"

definition ask_gas :: "client_env \<Rightarrow> addr \<Rightarrow> int \<Rightarrow> byte list \<Rightarrow> client_world \<Rightarrow> client_world \<times> (gerr + uint64)" where
  "ask_gas C a value data w =
     (let r = cc_EstimateGas C (cw_Log w) a value data in (w\<lparr>cw_Log := cw_Log w @ [AskedGasLimit r]\<rparr>, r))"

definition send_raw :: "client_env \<Rightarrow> client_tx \<Rightarrow> hash \<Rightarrow> client_world \<Rightarrow> client_world \<times> gerr option" where
  "send_raw C tx h w =
     (let r = cc_SendTransaction C (cw_Log w) tx h in (w\<lparr>cw_Log := cw_Log w @ [SentTx tx h r]\<rparr>, r))"

definition set_nonce :: "uint64 \<Rightarrow> client_world \<Rightarrow> client_world" where
  "set_nonce n w = w\<lparr>cw_Nonce := n, cw_NonceOK := True\<rparr>"

text \<open>The nonce is asked for once and then counted.\<close>

definition ensure_nonce :: "client_env \<Rightarrow> client_world \<Rightarrow> client_world \<times> (gerr + unit)" where
  "ensure_nonce C w =
     (if cw_NonceOK w then (w, Inr ())
      else case ask_nonce C w of
        (w1, Inl e) \<Rightarrow> (w1, Inl (wrap ''get nonce'' e)) | (w1, Inr n) \<Rightarrow> (set_nonce n w1, Inr ()))"

text \<open>The transaction with the nonce of the client, up to its signature.\<close>

definition prepare_tx ::
    "client_env \<Rightarrow> addr \<Rightarrow> byte list \<Rightarrow> int option \<Rightarrow> client_world \<Rightarrow> client_world \<times> (gerr + client_tx \<times> hash)" where
  "prepare_tx C a data value w =
     (let v = (case value of None \<Rightarrow> 0 | Some x \<Rightarrow> x) in
      andThen (ensure_nonce C w) (\<lambda>w1 _.
      andThen (mapErr (wrap ''suggest gas price'') (ask_price C w1)) (\<lambda>w2 gasPrice.
      andThen (mapErr (wrap ''estimate gas'') (ask_gas C a v data w2)) (\<lambda>w3 gasLimit.
        let tx = \<lparr>ctx_Nonce = cw_Nonce w3, ctx_To = a, ctx_Value = v, ctx_GasLimit = gasLimit,
                  ctx_GasPrice = gasPrice, ctx_Data = data\<rparr> in
        case cc_Sign C tx of Inl e \<Rightarrow> (w3, Inl (wrap ''sign tx'' e)) | Inr h \<Rightarrow> (w3, Inr (tx, h))))))"

text \<open>After ``nonce too low'' the nonce is asked for again and the transaction is sent once more.\<close>

function sendTxLocked ::
    "client_env \<Rightarrow> addr \<Rightarrow> byte list \<Rightarrow> int option \<Rightarrow> bool \<Rightarrow> client_world \<Rightarrow> client_world \<times> (gerr + client_tx \<times> hash)" where
  "sendTxLocked C a data value allowRetry w =
     (case prepare_tx C a data value w of
        (w1, Inl e) \<Rightarrow> (w1, Inl e)
      | (w1, Inr (tx, h)) \<Rightarrow>
          (case send_raw C tx h w1 of
             (w2, None) \<Rightarrow> (w2\<lparr>cw_Nonce := cw_Nonce w2 + 1\<rparr>, Inr (tx, h))
           | (w2, Some e) \<Rightarrow>
               if Contains (err_msg e) ''already known''
               then (set_nonce (cw_Nonce w2 + 1) w2, Inr (tx, h))
               else if allowRetry \<and> Contains (err_msg e) ''nonce too low''
               then (case ask_nonce C w2 of
                       (w3, Inl f) \<Rightarrow>
                         (w3, Inl (Errorf (''send tx: '' @ err_msg e @ '' (nonce refresh also failed: '' @ err_msg f @ '')'') [e, f]))
                     | (w3, Inr n) \<Rightarrow> sendTxLocked C a data value False (set_nonce n w3))
               else (w2, Inl (wrap ''send tx'' e))))"
  by pat_completeness auto

termination
  by (relation "measure (\<lambda>(C, a, data, value, allowRetry, w). if allowRetry then 1 else 0)") auto

declare sendTxLocked.simps [simp del]

definition offline :: gerr where
  "offline = errors_New ''chain client not connected (offline mode)''"

definition SendTx ::
    "client_env \<Rightarrow> addr \<Rightarrow> byte list \<Rightarrow> int option \<Rightarrow> client_world \<Rightarrow> client_world \<times> (gerr + client_tx \<times> hash)" where
  "SendTx C a data value w =
     (if \<not> cc_Connected C then (w, Inl offline)
      else if \<not> cc_HasKey C then (w, Inl (errors_New ''no private key configured''))
      else sendTxLocked C a data value True w)"

definition do_call :: "client_env \<Rightarrow> contract_call \<Rightarrow> client_world \<Rightarrow> client_world \<times> (gerr + client_tx \<times> hash)" where
  "do_call C c w =
     (case cc_Pack C (ct_ABI c) (ct_Method c) (ct_Args c) of
        Inl e \<Rightarrow> (w, Inl (wrap (''pack '' @ ct_Method c) e))
      | Inr data \<Rightarrow> SendTx C (ct_To c) data (ct_Value c) w)"

section \<open>One nonce per transaction\<close>

text \<open>The node has a transaction that it accepted or already knew.\<close>

definition taken :: "gerr option \<Rightarrow> bool" where
  "taken r = (case r of None \<Rightarrow> True | Some e \<Rightarrow> Contains (err_msg e) ''already known'')"

fun attempt_of :: "rpc_event \<Rightarrow> client_tx list" where
  "attempt_of (SentTx tx h r) = [tx]"
| "attempt_of _ = []"

fun taken_of :: "rpc_event \<Rightarrow> client_tx list" where
  "taken_of (SentTx tx h r) = (if taken r then [tx] else [])"
| "taken_of _ = []"

definition attempts :: "rpc_log \<Rightarrow> client_tx list" where "attempts l = concat (map attempt_of l)"

definition taken_txs :: "rpc_log \<Rightarrow> client_tx list" where "taken_txs l = concat (map taken_of l)"

lemma log_simps [simp]:
  "attempts [] = []" "attempts (l @ l') = attempts l @ attempts l'" "attempts (e # l) = attempt_of e @ attempts l"
  "taken_txs [] = []" "taken_txs (l @ l') = taken_txs l @ taken_txs l'" "taken_txs (e # l) = taken_of e @ taken_txs l"
  by (simp_all add: attempts_def taken_txs_def)

text \<open>The node counts the transactions it has, and refuses the last nonce (EIP-2681).\<close>

definition node_counts :: "client_env \<Rightarrow> bool" where
  "node_counts C \<longleftrightarrow>
     (\<forall>l n. cc_PendingNonceAt C l = Inr n \<longrightarrow> (\<forall>tx \<in> set (taken_txs l). ctx_Nonce tx < n))
     \<and> (\<forall>l tx h. taken (cc_SendTransaction C l tx h) \<longrightarrow> ctx_Nonce tx < - 1)"

definition nonce_inv :: "client_world \<Rightarrow> bool" where
  "nonce_inv w \<longleftrightarrow> sorted_wrt (<) (map ctx_Nonce (taken_txs (cw_Log w)))
     \<and> (cw_NonceOK w \<longrightarrow> (\<forall>tx \<in> set (taken_txs (cw_Log w)). ctx_Nonce tx < cw_Nonce w))"

text \<open>The events of a call: what it asked for, and how it ended.\<close>

definition call_events ::
    "addr \<Rightarrow> byte list \<Rightarrow> int option \<Rightarrow> nat \<Rightarrow> client_world \<Rightarrow> client_world \<Rightarrow> gerr + client_tx \<times> hash \<Rightarrow> bool" where
  "call_events a data value n w w' r \<longleftrightarrow>
     (\<exists>es. cw_Log w' = cw_Log w @ es \<and> length (attempts es) \<le> n
        \<and> (\<forall>tx \<in> set (attempts es). ctx_To tx = a \<and> ctx_Data tx = data
             \<and> ctx_Value tx = (case value of None \<Rightarrow> 0 | Some x \<Rightarrow> x))
        \<and> taken_txs es = (case r of Inl _ \<Rightarrow> [] | Inr (tx, h) \<Rightarrow> [tx]))"

lemma ensure_nonce_inv:
  assumes "node_counts C" "nonce_inv w" "ensure_nonce C w = (w', r)"
  shows "nonce_inv w'" "r = Inr u \<Longrightarrow> cw_NonceOK w'"
  using assms
  by (auto simp: ensure_nonce_def ask_nonce_def set_nonce_def nonce_inv_def node_counts_def Let_def split: if_splits sum.splits)

lemma ensure_nonce_log:
  "ensure_nonce C w = (w', r) \<Longrightarrow> \<exists>es. cw_Log w' = cw_Log w @ es \<and> attempts es = [] \<and> taken_txs es = []"
  by (auto simp: ensure_nonce_def ask_nonce_def set_nonce_def Let_def split: if_splits sum.splits)

lemma prepare_cases:
  assumes "prepare_tx C a data value w = (w', r)"
  obtains w1 u es where "ensure_nonce C w = (w1, u)" "cw_Nonce w' = cw_Nonce w1" "cw_NonceOK w' = cw_NonceOK w1"
      "cw_Log w' = cw_Log w1 @ es" "attempts es = []" "taken_txs es = []"
      "\<And>tx h. r = Inr (tx, h) \<Longrightarrow> u = Inr () \<and> ctx_Nonce tx = cw_Nonce w' \<and> ctx_To tx = a \<and> ctx_Data tx = data
         \<and> ctx_Value tx = (case value of None \<Rightarrow> 0 | Some x \<Rightarrow> x)"
proof -
  obtain w1 u where u: "ensure_nonce C w = (w1, u)" by force
  have "\<exists>es. cw_Nonce w' = cw_Nonce w1 \<and> cw_NonceOK w' = cw_NonceOK w1 \<and> cw_Log w' = cw_Log w1 @ es \<and> attempts es = []
      \<and> taken_txs es = [] \<and> (\<forall>tx h. r = Inr (tx, h) \<longrightarrow> u = Inr () \<and> ctx_Nonce tx = cw_Nonce w' \<and> ctx_To tx = a
         \<and> ctx_Data tx = data \<and> ctx_Value tx = (case value of None \<Rightarrow> 0 | Some x \<Rightarrow> x))"
    using assms u
    by (cases u) (auto simp: prepare_tx_def ask_price_def ask_gas_def andThen_def mapErr_def Let_def
      split: sum.splits option.splits prod.splits)
  then show ?thesis using that u by blast
qed

lemma prepare_log:
  assumes "prepare_tx C a data value w = (w', r)"
  shows "\<exists>es. cw_Log w' = cw_Log w @ es \<and> attempts es = [] \<and> taken_txs es = []"
    "r = Inr (tx, h) \<Longrightarrow> ctx_Nonce tx = cw_Nonce w' \<and> ctx_To tx = a \<and> ctx_Data tx = data
       \<and> ctx_Value tx = (case value of None \<Rightarrow> 0 | Some x \<Rightarrow> x)"
  using assms by (auto elim!: prepare_cases dest!: ensure_nonce_log)

lemma prepare_inv:
  assumes "node_counts C" "nonce_inv w" "prepare_tx C a data value w = (w', r)"
  shows "nonce_inv w'" "r = Inr (tx, h) \<Longrightarrow> cw_NonceOK w'"
proof -
  obtain w1 u es where u: "ensure_nonce C w = (w1, u)" and w': "cw_Nonce w' = cw_Nonce w1" "cw_NonceOK w' = cw_NonceOK w1"
      "cw_Log w' = cw_Log w1 @ es" "taken_txs es = []" and ok: "\<And>tx h. r = Inr (tx, h) \<Longrightarrow> u = Inr ()"
    using assms(3) by (elim prepare_cases) blast
  show "nonce_inv w'" using ensure_nonce_inv(1)[OF assms(1,2) u] w' by (simp add: nonce_inv_def)
  show "r = Inr (tx, h) \<Longrightarrow> cw_NonceOK w'" using ensure_nonce_inv(2)[OF assms(1,2) u] ok w' by auto
qed

lemma next_nonce: "n \<le> x \<Longrightarrow> x < - 1 \<Longrightarrow> n < x + (1 :: uint64)"
  by unat_arith

lemma sent_inv:
  assumes "nonce_inv w" "cw_NonceOK w" "ctx_Nonce tx = cw_Nonce w" "taken r \<Longrightarrow> ctx_Nonce tx < - 1"
  shows "taken r \<Longrightarrow> nonce_inv (set_nonce (cw_Nonce w + 1) (w\<lparr>cw_Log := cw_Log w @ [SentTx tx h r]\<rparr>))"
    "\<not> taken r \<Longrightarrow> nonce_inv (w\<lparr>cw_Log := cw_Log w @ [SentTx tx h r]\<rparr>)"
proof -
  show "\<not> taken r \<Longrightarrow> nonce_inv (w\<lparr>cw_Log := cw_Log w @ [SentTx tx h r]\<rparr>)"
    using assms(1) by (simp add: nonce_inv_def)
  assume "taken r"
  then show "nonce_inv (set_nonce (cw_Nonce w + 1) (w\<lparr>cw_Log := cw_Log w @ [SentTx tx h r]\<rparr>))"
    using assms by (auto simp: nonce_inv_def set_nonce_def sorted_wrt_append intro!: next_nonce)
qed

lemma sendTxLocked_inv:
  assumes "node_counts C" "nonce_inv w"
  shows "nonce_inv (fst (sendTxLocked C a data val retry w))"
  using assms
proof (induction C a data val retry w rule: sendTxLocked.induct)
  case (1 C a data val retry w)
  note prems = 1(2,3) and IH = 1(1)
  obtain w1 r where p: "prepare_tx C a data val w = (w1, r)" by force
  note inv1 = prepare_inv[OF prems p]
  show ?case
  proof (cases r)
    case (Inl e)
    then show ?thesis using p inv1 by (simp add: sendTxLocked.simps)
  next
    case (Inr th)
    obtain tx h where th: "th = (tx, h)" by force
    define res where "res = cc_SendTransaction C (cw_Log w1) tx h"
    define w2 where "w2 = w1\<lparr>cw_Log := cw_Log w1 @ [SentTx tx h res]\<rparr>"
    have ok: "cw_NonceOK w1" and tx: "ctx_Nonce tx = cw_Nonce w1"
      using inv1(2) prepare_log(2)[OF p] Inr th by auto
    have limit: "taken res \<Longrightarrow> ctx_Nonce tx < - 1" using prems(1) unfolding node_counts_def res_def by blast
    note sent = sent_inv[OF inv1(1) ok tx, of res h, folded w2_def]
    have raw: "send_raw C tx h w1 = (w2, res)" by (simp add: send_raw_def res_def w2_def Let_def)
    have n2: "cw_Nonce w2 = cw_Nonce w1" "cw_NonceOK w2" by (simp_all add: w2_def ok)
    have bump: "w2\<lparr>cw_Nonce := cw_Nonce w2 + 1\<rparr> = set_nonce (cw_Nonce w2 + 1) w2"
      using n2 by (cases w2) (simp add: set_nonce_def)
    have refreshed: "nonce_inv (set_nonce n w3)" "nonce_inv w3"
      if "ask_nonce C w2 = (w3, x)" "\<not> taken res" "x = Inr n" for w3 n x
      using that sent(2) limit prems(1)
      by (auto simp: ask_nonce_def nonce_inv_def set_nonce_def node_counts_def Let_def)
    have asked: "nonce_inv w3" if "ask_nonce C w2 = (w3, x)" "\<not> taken res" for w3 x
      using that sent(2) limit by (auto simp: ask_nonce_def nonce_inv_def Let_def)
    show ?thesis
      using Inr th p raw sent limit n2 bump refreshed asked IH[OF p[symmetric] Inr[unfolded th] refl raw[symmetric]] prems(1)
      by (subst sendTxLocked.simps)
        (auto simp: taken_def split: option.splits prod.splits sum.splits)
  qed
qed

lemma call_events_prefix:
  assumes "cw_Log w1 = cw_Log w @ es" "attempts es = txs" "taken_txs es = []"
    "\<forall>tx \<in> set txs. ctx_To tx = a \<and> ctx_Data tx = data \<and> ctx_Value tx = (case val of None \<Rightarrow> 0 | Some x \<Rightarrow> x)"
    "call_events a data val n w1 w' r"
  shows "call_events a data val (length txs + n) w w' r"
proof -
  obtain es1 where "cw_Log w' = cw_Log w1 @ es1" "length (attempts es1) \<le> n" "taken_txs es1 = (case r of Inl _ \<Rightarrow> [] | Inr (tx, h) \<Rightarrow> [tx])"
      "\<forall>tx \<in> set (attempts es1). ctx_To tx = a \<and> ctx_Data tx = data \<and> ctx_Value tx = (case val of None \<Rightarrow> 0 | Some x \<Rightarrow> x)"
    using assms(5) unfolding call_events_def by blast
  then show ?thesis using assms(1-4) unfolding call_events_def by (intro exI [of _ "es @ es1"]) auto
qed

lemma sendTxLocked_events:
  "sendTxLocked C a data val retry w = (w', r) \<Longrightarrow> call_events a data val (if retry then 2 else 1) w w' r"
proof (induction C a data val retry w rule: sendTxLocked.induct)
  case (1 C a data val retry w)
  note run = 1(2) and IH = 1(1)
  obtain w1 q where p: "prepare_tx C a data val w = (w1, q)" by force
  obtain es where es: "cw_Log w1 = cw_Log w @ es" "attempts es = []" "taken_txs es = []" using prepare_log(1)[OF p] by blast
  show ?case
  proof (cases q)
    case (Inl e)
    then show ?thesis using p es run by (auto simp: sendTxLocked.simps call_events_def)
  next
    case (Inr th)
    obtain tx h where th: "th = (tx, h)" by force
    have tx: "ctx_To tx = a \<and> ctx_Data tx = data \<and> ctx_Value tx = (case val of None \<Rightarrow> 0 | Some x \<Rightarrow> x)"
      using prepare_log(2)[OF p] Inr th by auto
    define res where "res = cc_SendTransaction C (cw_Log w1) tx h"
    define w2 where "w2 = w1\<lparr>cw_Log := cw_Log w1 @ [SentTx tx h res]\<rparr>"
    have raw: "send_raw C tx h w1 = (w2, res)" by (simp add: send_raw_def res_def w2_def Let_def)
    have log2: "cw_Log w2 = cw_Log w @ es @ [SentTx tx h res]" using es by (simp add: w2_def)
    have ended: "call_events a data val (if retry then 2 else 1) w w3 q3"
      if "cw_Log w3 = cw_Log w2 @ rest" "attempts rest = []" "taken_txs rest = []"
        "taken res \<longrightarrow> q3 = Inr (tx, h)" "\<not> taken res \<longrightarrow> isl q3" for w3 rest q3
      using that es tx log2 unfolding call_events_def
      by (intro exI [of _ "es @ SentTx tx h res # rest"]) (auto simp: isl_def)
    show ?thesis
    proof (cases "\<exists>e n. res = Some e \<and> \<not> taken res \<and> retry \<and> Contains (err_msg e) ''nonce too low'' \<and> cc_PendingNonceAt C (cw_Log w2) = Inr n")
      case False
      then show ?thesis
        using run p Inr th raw ended[of w' "[]" r] ended[of w' "[AskedNonce (cc_PendingNonceAt C (cw_Log w2))]" r]
        by (subst (asm) sendTxLocked.simps)
          (auto simp: taken_def set_nonce_def ask_nonce_def Let_def split: option.splits if_splits sum.splits)
    next
      case True
      then obtain e n where e: "res = Some e" "\<not> taken res" "retry" "Contains (err_msg e) ''nonce too low''"
          "cc_PendingNonceAt C (cw_Log w2) = Inr n" by blast
      define w3 where "w3 = w2\<lparr>cw_Log := cw_Log w2 @ [AskedNonce (Inr n)]\<rparr>"
      have ask: "ask_nonce C w2 = (w3, Inr n)" using e by (simp add: ask_nonce_def w3_def Let_def)
      have "sendTxLocked C a data val False (set_nonce n w3) = (w', r)"
        using run p Inr th raw e ask by (subst (asm) sendTxLocked.simps) (auto simp: taken_def)
      then have "call_events a data val 1 (set_nonce n w3) w' r"
        using IH[OF p[symmetric] Inr[unfolded th] refl raw[symmetric] e(1)] e ask by (auto simp: taken_def)
      then have "call_events a data val (length [tx] + 1) w w' r"
        using es tx log2 e(2)
        by (intro call_events_prefix[where es = "es @ [SentTx tx h res, AskedNonce (Inr n)]"]) (auto simp: w3_def set_nonce_def)
      then show ?thesis using e(3) by (simp add: numeral_2_eq_2)
    qed
  qed
qed

section \<open>Sequences of calls\<close>

fun run_all :: "('c \<Rightarrow> 'w \<Rightarrow> 'w \<times> (gerr + 't)) \<Rightarrow> 'c list \<Rightarrow> 'w \<Rightarrow> 'w \<times> (gerr + 't) list" where
  "run_all exec [] w = (w, [])"
| "run_all exec (c # cs) w =
     (case exec c w of (w1, r) \<Rightarrow> case run_all exec cs w1 of (w2, rs) \<Rightarrow> (w2, r # rs))"

fun entries :: "('c \<Rightarrow> 't \<Rightarrow> 'e) \<Rightarrow> 'c list \<Rightarrow> (gerr + 't) list \<Rightarrow> 'e list" where
  "entries entry (c # cs) (r # rs) = (case r of Inl _ \<Rightarrow> [] | Inr t \<Rightarrow> [entry c t]) @ entries entry cs rs"
| "entries entry _ _ = []"

text \<open>What the services rely on: a call that succeeds has sent one transaction, one that fails none.\<close>

locale transactor =
  fixes exec :: "'c \<Rightarrow> 'w \<Rightarrow> 'w \<times> (gerr + 't)"
    and sent :: "'w \<Rightarrow> 'e list"
    and entry :: "'c \<Rightarrow> 't \<Rightarrow> 'e"
  assumes refused: "exec c w = (w', Inl e) \<Longrightarrow> sent w' = sent w"
    and sent_once: "exec c w = (w', Inr t) \<Longrightarrow> sent w' = sent w @ [entry c t]"
begin

lemma sent_run: "run_all exec cs w = (w', rs) \<Longrightarrow> sent w' = sent w @ entries entry cs rs"
proof (induction cs arbitrary: w rs)
  case (Cons c cs)
  obtain w1 r where e: "exec c w = (w1, r)" by force
  obtain rs' where r: "run_all exec cs w1 = (w', rs')" "rs = r # rs'" using Cons.prems e by (auto split: prod.splits)
  show ?case using Cons.IH[OF r(1)] r(2) e refused sent_once by (cases r) auto
qed simp

lemma results_run: "run_all exec cs w = (w', rs) \<Longrightarrow> length rs = length cs"
  by (induction cs arbitrary: w rs) (auto split: prod.splits)

end

lemma do_call_events:
  assumes "do_call C c w = (w', r)"
  shows "case cc_Pack C (ct_ABI c) (ct_Method c) (ct_Args c) of Inl _ \<Rightarrow> w' = w \<and> isl r
    | Inr data \<Rightarrow> call_events (ct_To c) data (ct_Value c) 2 w w' r"
  using assms sendTxLocked_events[of C "ct_To c" _ "ct_Value c" True w w' r]
  by (auto simp: do_call_def SendTx_def call_events_def split: sum.splits if_splits)

lemma do_call_taken:
  assumes "do_call C c w = (w', r)"
  shows "taken_txs (cw_Log w') = taken_txs (cw_Log w) @ (case r of Inl _ \<Rightarrow> [] | Inr (tx, h) \<Rightarrow> [tx])"
  using do_call_events[OF assms] by (auto simp: call_events_def isl_def split: sum.splits)

interpretation client: transactor "do_call C" "\<lambda>w. taken_txs (cw_Log w)" "\<lambda>c. fst" for C
  by unfold_locales (auto dest: do_call_taken)

definition fresh_client :: client_world where
  "fresh_client = \<lparr>cw_Nonce = 0, cw_NonceOK = False, cw_Log = []\<rparr>"

lemma do_call_inv: "node_counts C \<Longrightarrow> nonce_inv w \<Longrightarrow> nonce_inv (fst (do_call C c w))"
  using sendTxLocked_inv by (auto simp: do_call_def SendTx_def split: sum.splits)

lemma run_all_inv:
  assumes "\<And>c w. P w \<Longrightarrow> P (fst (exec c w))" "P w" "run_all exec cs w = (w', rs)"
  shows "P w'"
  using assms(2,3)
proof (induction cs arbitrary: w rs)
  case (Cons c cs)
  then show ?case using assms(1)[of w c] by (auto split: prod.splits)
qed simp

text \<open>C37: As long as the node counts the transactions it has, the transactions that the client gets accepted have
  strictly increasing nonces, whatever calls are made in whatever order and however the node answers: none
  replaces another. The accepted transactions are exactly those the successful calls returned, in order. A call
  sends at most two transactions, each to its contract with its packed arguments and its value, and one whose
  arguments cannot be packed sends nothing and leaves the nonce alone.\<close>

theorem nonce_discipline:
  assumes "node_counts C" "run_all (do_call C) cs fresh_client = (w, rs)"
  shows "sorted_wrt (<) (map ctx_Nonce (taken_txs (cw_Log w)))
    \<and> taken_txs (cw_Log w) = entries (\<lambda>c. fst) cs rs \<and> length rs = length cs
    \<and> (\<forall>c. case do_call C c w of (w', r) \<Rightarrow>
         case cc_Pack C (ct_ABI c) (ct_Method c) (ct_Args c) of
           Inl _ \<Rightarrow> w' = w \<and> isl r
         | Inr data \<Rightarrow> call_events (ct_To c) data (ct_Value c) 2 w w' r)"
proof -
  have "nonce_inv fresh_client" by (simp add: nonce_inv_def fresh_client_def)
  then have "nonce_inv w" using run_all_inv[of nonce_inv "do_call C", OF do_call_inv[OF assms(1)] _ assms(2)] by blast
  moreover have "taken_txs (cw_Log w) = entries (\<lambda>c. fst) cs rs"
    using client.sent_run[OF assms(2)] by (simp add: fresh_client_def)
  moreover have "length rs = length cs" using client.results_run[OF assms(2)] .
  moreover have "\<forall>c. case do_call C c w of (w', r) \<Rightarrow>
         case cc_Pack C (ct_ABI c) (ct_Method c) (ct_Args c) of
           Inl _ \<Rightarrow> w' = w \<and> isl r
         | Inr data \<Rightarrow> call_events (ct_To c) data (ct_Value c) 2 w w' r"
    by (intro allI case_prodI2) (rule do_call_events, simp)
  ultimately show ?thesis unfolding nonce_inv_def by blast
qed

definition sample_client :: client_env where
  "sample_client =
     \<lparr>cc_Connected = True, cc_HasKey = True, cc_Pack = (\<lambda>_ m _. Inr (bytes_of m)), cc_Sign = (\<lambda>tx. Inr (ctx_Data tx)),
      cc_PendingNonceAt = (\<lambda>l. let n = of_nat (7 + length (taken_txs l)) in
         if list_all (\<lambda>tx. ctx_Nonce tx < n) (taken_txs l) then Inr n else Inl (errors_New ''internal error'')),
      cc_SuggestGasPrice = (\<lambda>_. Inr 1), cc_EstimateGas = (\<lambda>_ _ _ _. Inr 21000),
      cc_SendTransaction = (\<lambda>_ tx _. if ctx_Nonce tx < 1000 then None else Some (errors_New ''nonce too high''))\<rparr>"

definition sample_calls :: "contract_call list" where
  "sample_calls = map client_call [CallFund [1] (Some 5), CallApproveByBuyer [1]]"

lemma sample_client_run:
  "\<exists>w rs. run_all (do_call sample_client) sample_calls fresh_client = (w, rs)
     \<and> map ctx_Nonce (taken_txs (cw_Log w)) = [7, 8] \<and> map ctx_Value (taken_txs (cw_Log w)) = [5, 0]"
  by (simp add: sample_calls_def sample_client_def clientFund_def clientApproveByBuyer_def escrow_method_def do_call_def
      SendTx_def sendTxLocked.simps prepare_tx_def ensure_nonce_def ask_nonce_def ask_price_def ask_gas_def send_raw_def
      set_nonce_def fresh_client_def mapErr_def taken_def Let_def)

lemma nonce_discipline_witness:
  "\<exists>w rs. run_all (do_call sample_client) sample_calls fresh_client = (w, rs)
     \<and> map ctx_Nonce (taken_txs (cw_Log w)) = [7, 8] \<and> taken_txs (cw_Log w) = entries (\<lambda>c. fst) sample_calls rs
     \<and> sorted_wrt (<) (map ctx_Nonce (taken_txs (cw_Log w)))"
proof -
  have high: "\<not> taken (Some (errors_New ''nonce too high''))" unfolding taken_def by code_simp
  have small: "n < - 1" if "n < 1000" for n :: uint64 using less_le_trans[OF that] by simp
  have "node_counts sample_client"
    using high by (auto simp: node_counts_def sample_client_def Let_def list_all_iff small split: if_splits)
  then show ?thesis using sample_client_run nonce_discipline[of sample_client sample_calls] by metis
qed

section \<open>The interfaces of the contracts\<close>

text \<open>The methods that change the state of a contract, with the types of their arguments and whether they take
  native currency, from the interfaces the program embeds.\<close>

datatype abi_ty =
    TAddress
  | TUint nat
  | TBool
  | TString
  | TBytes
  | TBytes32
  | TArray nat abi_ty
  | TTuple "abi_ty list"
  | TSlice abi_ty

definition escrow_interface :: "(string \<times> abi_ty list \<times> bool) list" where
  "escrow_interface =
     [(''abortRemainingMilestones'', [], False), (''activateBackup'', [], False),
      (''approveByBuyer'', [], False), (''approveMilestoneByBuyer'', [TUint 8], False),
      (''cancelBeforeFunding'', [], False), (''castMilestoneVerifierVote'', [TUint 8, TBool, TString], False),
      (''castVerifierVote'', [TBool, TString], False), (''claimArbitratorTimeout'', [], False),
      (''claimMilestoneArbitratorTimeout'', [TUint 8], False),
      (''claimMilestoneTimeoutRefund'', [TUint 8], False), (''claimTimeoutRefund'', [], False),
      (''depositStake'', [], True), (''depositVerifierStake'', [], True), (''dispute'', [TString], False),
      (''disputeMilestone'', [TUint 8, TString], False), (''emergencyResolve'', [TUint 16], False),
      (''escalateMilestoneSilence'', [TUint 8, TString], False), (''escalateSilence'', [TString], False),
      (''expireMilestoneNoQuorum'', [TUint 8, TString], False), (''expireNoQuorum'', [TString], False),
      (''fund'', [], True),
      (''fundWithAuthorization'', [TAddress, TUint 256, TUint 256, TBytes32, TUint 8, TBytes32, TBytes32], False),
      (''resolveDispute'', [TUint 16, TString], False),
      (''resolveMilestoneDispute'', [TUint 8, TUint 16, TString], False), (''setFrozen'', [TBool], False),
      (''submit'', [TBytes32, TString, TBytes32], False),
      (''submitMilestone'', [TUint 8, TBytes32, TString, TBytes32], False),
      (''verifyAndApprove'', [TBytes], False), (''verifyAndApproveMilestone'', [TUint 8, TBytes], False),
      (''withdrawStake'', [], False)]"

definition factory_interface :: "(string \<times> abi_ty list \<times> bool) list" where
  "factory_interface =
     [(''acceptOwnership'', [], False),
      (''createEscrow'', [TTuple [TAddress, TAddress, TArray 7 TAddress, TUint 8, TUint 8, TUint 256, TAddress,
         TUint 256, TUint 256, TUint 64, TUint 64, TUint 64, TBytes32, TUint 64, TAddress, TUint 8, TAddress,
         TUint 64, TAddress, TBytes32, TAddress, TSlice (TTuple [TUint 256, TUint 64])]], False),
      (''emergencyResolve'', [TUint 256, TUint 16], False), (''freezeAddress'', [TAddress], False),
      (''freezeEscrow'', [TUint 256], False), (''recordOutcome'', [TUint 8], False),
      (''setComplexityFloor'', [TUint 256], False), (''setHighAssuranceFeeBps'', [TUint 16], False),
      (''setPaused'', [TBool], False), (''setProtocolFeeBps'', [TUint 16], False),
      (''setRedelegationSurchargePolicy'', [TUint 16, TUint 16, TUint 64], False),
      (''setTreasury'', [TAddress], False), (''transferOwnership'', [TAddress], False),
      (''unfreezeAddress'', [TAddress], False), (''unfreezeEscrow'', [TUint 256], False)]"

definition erc20_interface :: "(string \<times> abi_ty list \<times> bool) list" where
  "erc20_interface = [(''approve'', [TAddress, TUint 256], False)]"

fun interface_of :: "contract_abi \<Rightarrow> (string \<times> abi_ty list \<times> bool) list" where
  "interface_of FactoryABI = factory_interface"
| "interface_of EscrowABI = escrow_interface"
| "interface_of ERC20ABI = erc20_interface"

fun fits :: "abi_ty \<Rightarrow> abi_value \<Rightarrow> bool" where
  "fits t (AAddress _) = (t = TAddress)"
| "fits t (AUint8 _) = (t = TUint 8)"
| "fits t (AUint16 _) = (t = TUint 16)"
| "fits t (AUint64 _) = (t = TUint 64)"
| "fits t (AUint256 _) = (t = TUint 256)"
| "fits t (ABool _) = (t = TBool)"
| "fits t (AString _) = (t = TString)"
| "fits t (ABytes _) = (t = TBytes)"
| "fits t (ABytes32 _) = (t = TBytes32)"
| "fits t (AAddresses as) = (t = TArray (length as) TAddress)"
| "fits t (ATuple vs) = (case t of TTuple ts \<Rightarrow> list_all2 fits ts vs | _ \<Rightarrow> False)"
| "fits t (ATuples vss) = (case t of TSlice (TTuple ts) \<Rightarrow> list_all (list_all2 fits ts) vss | _ \<Rightarrow> False)"

definition matches_interface :: "contract_call \<Rightarrow> bool" where
  "matches_interface c =
     (case map_of (interface_of (ct_ABI c)) (ct_Method c) of
        None \<Rightarrow> False
      | Some (ts, payable) \<Rightarrow> list_all2 fits ts (ct_Args c) \<and> (ct_Value c = None \<or> payable))"

text \<open>The arguments have Go types that fix the size of the panel; the hashes of \<open>bytes32\<close> have 32 bytes.\<close>

definition go_typed :: "chain_call \<Rightarrow> bool" where
  "go_typed c = (case c of CallCreateEscrow _ p \<Rightarrow> length (ce_VerifierPanel p) = 7 | _ \<Rightarrow> True)"

lemmas client_defs = clientFund_def clientCancelBeforeFunding_def clientFundWithAuthorization_def clientDepositStake_def
  clientDepositVerifierStake_def clientApproveERC20_def clientSubmit_def clientVerifyAndApprove_def
  clientApproveByBuyer_def clientWithdrawStake_def clientCastVerifierVote_def clientDispute_def
  clientEscalateSilence_def clientResolveDispute_def clientClaimTimeoutRefund_def clientClaimArbitratorTimeout_def
  clientSubmitMilestone_def clientVerifyAndApproveMilestone_def clientApproveMilestoneByBuyer_def
  clientCastMilestoneVerifierVote_def clientDisputeMilestone_def clientEscalateMilestoneSilence_def
  clientResolveMilestoneDispute_def clientClaimMilestoneTimeoutRefund_def clientClaimMilestoneArbitratorTimeout_def
  clientAbortRemainingMilestones_def clientActivateBackup_def clientCreateEscrow_def packCreateEscrow_def
  clientFreezeAddress_def clientUnfreezeAddress_def clientFreezeEscrow_def clientUnfreezeEscrow_def
  clientEmergencyResolve_def escrow_method_def factory_method_def

text \<open>C38: Every call of the services, of the emergency protocol and of the funding by mandate is a method of its
  contract that exists in the interface, with arguments of its types in its order, and only methods that take
  native currency are sent any.\<close>

theorem calls_match_interface:
  "(go_typed c \<longrightarrow> matches_interface (client_call c)) \<and> matches_interface (client_emergency g)
    \<and> matches_interface (clientFundWithAuthorization f)"
proof (intro conjI impI)
  show "matches_interface (client_call c)" if "go_typed c"
    using that by (cases c) (auto simp: client_defs matches_interface_def escrow_interface_def factory_interface_def
      erc20_interface_def go_typed_def list_all_iff)
  show "matches_interface (client_emergency g)"
    by (cases g) (simp_all add: client_defs matches_interface_def factory_interface_def)
  show "matches_interface (clientFundWithAuthorization f)"
    by (simp add: client_defs matches_interface_def escrow_interface_def)
qed

lemma calls_match_interface_witness:
  "matches_interface (client_call (CallSubmitMilestone [1] 2 [3] ''uri'' [4]))"
  using calls_match_interface[of "CallSubmitMilestone [1] 2 [3] ''uri'' [4]"] by (simp add: go_typed_def)

end
