(* ===== verification/ChainReads.thy ===== *)
theory ChainReads
  imports ChainClient Ucp
begin

text \<open>
  The reading half of \<open>internal/chain/client.go\<close>: the setup of a client, logs in chunks of blocks, calls of view
  methods (\<open>Status\<close> of \<open>escrow.go\<close>, \<open>IsFrozenAddress\<close> of \<open>emergency.go\<close>) and receipts. Block numbers are
  \<open>uint64\<close> and wrap.
\<close>

section \<open>Setup\<close>

definition stripHexPrefix :: "string \<Rightarrow> string" where
  "stripHexPrefix s = (if 2 \<le> length s \<and> take 2 s = ''0x'' then drop 2 s else s)"

definition defaultLogChunkSize :: uint64 where "defaultLogChunkSize = 2000"

text \<open>\<open>dial\<close> and \<open>parseKey\<close> are of go-ethereum; a key comes with its address.\<close>

record client_setup =
  cs_Connected :: bool
  cs_Address :: "addr option"
  cs_ChainID :: int
  cs_LogChunkSize :: uint64

definition WithLogChunkSize :: "uint64 \<Rightarrow> client_setup \<Rightarrow> client_setup" where
  "WithLogChunkSize chunk c = (if chunk > 0 then c\<lparr>cs_LogChunkSize := chunk\<rparr> else c)"

definition NewClient ::
    "(string \<Rightarrow> gerr option) \<Rightarrow> (string \<Rightarrow> gerr + addr) \<Rightarrow> string \<Rightarrow> string \<Rightarrow> int \<Rightarrow> uint64 option
      \<Rightarrow> gerr + client_setup" where
  "NewClient dial parseKey rpcURL privateKeyHex chainID chunkOpt =
     (let c = \<lparr>cs_Connected = False, cs_Address = None, cs_ChainID = chainID, cs_LogChunkSize = defaultLogChunkSize\<rparr> in
      if rpcURL = [] then Inr c
      else case dial rpcURL of
        Some e \<Rightarrow> Inl (wrap ''dial rpc'' e)
      | None \<Rightarrow>
          let c1 = (case chunkOpt of None \<Rightarrow> id | Some chunk \<Rightarrow> WithLogChunkSize chunk) (c\<lparr>cs_Connected := True\<rparr>) in
          if privateKeyHex = [] then Inr c1
          else case parseKey (stripHexPrefix privateKeyHex) of
            Inl e \<Rightarrow> Inl (wrap ''parse private key'' e)
          | Inr a \<Rightarrow> Inr (c1\<lparr>cs_Address := Some a\<rparr>))"

section \<open>Reads\<close>

text \<open>A node to read from; \<open>rd_Unpack\<close> is the first of the values a method returns and
  \<open>rd_TypeName\<close> the name of its Go type.\<close>

record 'l read_env =
  rd_Setup :: client_setup
  rd_BlockNumber :: "gerr + uint64"
  rd_FilterLogs :: "uint64 \<Rightarrow> uint64 \<Rightarrow> gerr + 'l list"
  rd_CallContract :: "addr \<Rightarrow> byte list \<Rightarrow> gerr + byte list"
  rd_Receipt :: "hash \<Rightarrow> gerr + receipt"
  rd_Pack :: "contract_abi \<Rightarrow> string \<Rightarrow> abi_value list \<Rightarrow> gerr + byte list"
  rd_Unpack :: "contract_abi \<Rightarrow> string \<Rightarrow> byte list \<Rightarrow> gerr + abi_value"
  rd_TypeName :: "abi_value \<Rightarrow> string"

definition when_online :: "'l read_env \<Rightarrow> gerr + 'a \<Rightarrow> gerr + 'a" where
  "when_online R r = (if cs_Connected (rd_Setup R) then r else Inl offline)"

definition clientBlockNumber :: "'l read_env \<Rightarrow> gerr + uint64" where
  "clientBlockNumber R = when_online R (rd_BlockNumber R)"

definition clientCallContract :: "'l read_env \<Rightarrow> addr \<Rightarrow> byte list \<Rightarrow> gerr + byte list" where
  "clientCallContract R a data = when_online R (rd_CallContract R a data)"

definition clientTransactionReceipt :: "'l read_env \<Rightarrow> hash \<Rightarrow> gerr + receipt" where
  "clientTransactionReceipt R h = when_online R (rd_Receipt R h)"

text \<open>The loop may not end, when the next block wraps around.\<close>

partial_function (option) filter_from ::
    "(uint64 \<Rightarrow> uint64 \<Rightarrow> gerr + 'l list) \<Rightarrow> uint64 \<Rightarrow> uint64 \<Rightarrow> 'l list \<Rightarrow> uint64 \<Rightarrow> (gerr + 'l list) option" where
  "filter_from ask chunkSize toBlock all from =
     (if from \<le> toBlock then
        (case ask from (min (from + chunkSize - 1) toBlock) of
           Inl e \<Rightarrow> Some (Inl e)
         | Inr logs \<Rightarrow> filter_from ask chunkSize toBlock (all @ logs) (from + chunkSize))
      else Some (Inr all))"

definition chunk_size :: "'l read_env \<Rightarrow> uint64" where
  "chunk_size R = (if cs_LogChunkSize (rd_Setup R) = 0 then defaultLogChunkSize else cs_LogChunkSize (rd_Setup R))"

definition FilterLogs :: "'l read_env \<Rightarrow> uint64 \<Rightarrow> uint64 \<Rightarrow> (gerr + 'l list) option" where
  "FilterLogs R fromBlock toBlock =
     (if \<not> cs_Connected (rd_Setup R) then Some (Inl offline)
      else filter_from (rd_FilterLogs R) (chunk_size R) toBlock [] fromBlock)"

definition wrapErr :: "string \<Rightarrow> gerr + 'a \<Rightarrow> gerr + 'a" where
  "wrapErr prefix r = (case r of Inl e \<Rightarrow> Inl (wrap prefix e) | Inr x \<Rightarrow> Inr x)"

text \<open>A view method: its arguments are packed, the answer is unpacked and has to have the expected type.\<close>

definition view_call ::
    "'l read_env \<Rightarrow> contract_abi \<Rightarrow> addr \<Rightarrow> string \<Rightarrow> abi_value list \<Rightarrow> (abi_value \<Rightarrow> 'a option) \<Rightarrow> gerr + 'a" where
  "view_call R abi a name args read =
     okThen (wrapErr (''pack '' @ name) (rd_Pack R abi name args)) (\<lambda>data.
     okThen (wrapErr (''call '' @ name) (clientCallContract R a data)) (\<lambda>result.
     okThen (wrapErr (''unpack '' @ name) (rd_Unpack R abi name result)) (\<lambda>v.
       case read v of
         None \<Rightarrow> Inl (errors_New (''unexpected '' @ name @ '' type: '' @ rd_TypeName R v)) | Some x \<Rightarrow> Inr x)))"

definition clientStatus :: "'l read_env \<Rightarrow> addr \<Rightarrow> gerr + byte" where
  "clientStatus R escrow =
     view_call R EscrowABI escrow ''status'' [] (\<lambda>v. case v of AUint8 b \<Rightarrow> Some b | _ \<Rightarrow> None)"

definition clientIsFrozenAddress :: "'l read_env \<Rightarrow> addr \<Rightarrow> addr \<Rightarrow> gerr + bool" where
  "clientIsFrozenAddress R factory target =
     view_call R FactoryABI factory ''frozenAddresses'' [AAddress target]
       (\<lambda>v. case v of ABool b \<Rightarrow> Some b | _ \<Rightarrow> None)"

section \<open>Chunks\<close>

text \<open>What a node with these logs answers for a range of blocks.\<close>

definition logs_between :: "('l \<Rightarrow> uint64) \<Rightarrow> 'l list \<Rightarrow> uint64 \<Rightarrow> uint64 \<Rightarrow> 'l list" where
  "logs_between blk chain a b = filter (\<lambda>l. a \<le> blk l \<and> blk l \<le> b) chain"

lemma logs_between_split:
  assumes "sorted (map blk chain)" "a \<le> m" "m < m'" "\<And>x. m < x \<Longrightarrow> x \<le> b \<Longrightarrow> m' \<le> x" "m \<le> b"
  shows "logs_between blk chain a m @ logs_between blk chain m' b = logs_between blk chain a b"
  using assms(1)
proof (induction chain)
  case (Cons l chain)
  show ?case
  proof (cases "blk l \<le> m")
    case True
    then show ?thesis using Cons assms(3,5) by (auto simp: logs_between_def)
  next
    case False
    then have above: "m < blk x" if "x \<in> set (l # chain)" for x using Cons.prems that by auto
    then have "logs_between blk (l # chain) a m = []" by (fastforce simp: logs_between_def filter_empty_conv)
    moreover have "logs_between blk (l # chain) m' b = logs_between blk (l # chain) a b"
      unfolding logs_between_def using above order_le_less_trans[OF assms(2) above] assms(4)
      by (intro filter_cong) (auto intro: less_imp_le)
    ultimately show ?thesis by simp
  qed
qed (simp add: logs_between_def)

lemma logs_between_empty: "b < a \<Longrightarrow> logs_between blk chain a b = []"
  by (auto simp: logs_between_def filter_empty_conv)

text \<open>The next chunk starts after the last block of this one, if nothing wraps.\<close>

lemma chunk_bounds:
  fixes a c toBlock :: uint64
  assumes "c > 0" "unat toBlock + unat c < 2 ^ 64" "a \<le> toBlock"
  shows "unat (a + c) = unat a + unat c" "unat (a + c - 1) = unat a + unat c - 1"
    "a \<le> min (a + c - 1) toBlock" "min (a + c - 1) toBlock < a + c"
    "unat (min (a + c - 1) toBlock) - unat a < unat c"
    "min (a + c - 1) toBlock < x \<Longrightarrow> x \<le> toBlock \<Longrightarrow> a + c \<le> x"
proof -
  have c: "0 < unat c" using assms(1) by (simp add: word_less_nat_alt)
  have le: "unat a \<le> unat toBlock" using assms(3) by (simp add: word_le_nat_alt)
  show n: "unat (a + c) = unat a + unat c"
    using le assms(2) by (subst unat_add_lem[THEN iffD1]) simp_all
  have "a + c \<noteq> 0" using n c by (metis add_is_0 less_numeral_extra(3) unat_0)
  then show m: "unat (a + c - 1) = unat a + unat c - 1" using n by (simp add: unat_minus_one)
  show "a \<le> min (a + c - 1) toBlock" using m c assms(3) by (simp add: word_le_nat_alt)
  have "a + c - 1 < a + c" using m n c by (simp add: word_less_nat_alt)
  then show "min (a + c - 1) toBlock < a + c" by (rule min.strict_coboundedI1)
  show "unat (min (a + c - 1) toBlock) - unat a < unat c"
    using m c by (auto simp: min_def not_le word_le_nat_alt word_less_nat_alt)
  show "min (a + c - 1) toBlock < x \<Longrightarrow> x \<le> toBlock \<Longrightarrow> a + c \<le> x"
    using m n c by (auto simp: min_def word_le_nat_alt word_less_nat_alt split: if_splits)
qed

definition honest :: "('l \<Rightarrow> uint64) \<Rightarrow> 'l list \<Rightarrow> (uint64 \<Rightarrow> uint64 \<Rightarrow> gerr + 'l list) \<Rightarrow> bool" where
  "honest blk chain ask \<longleftrightarrow> sorted (map blk chain) \<and> (\<forall>a b. ask a b = Inr (logs_between blk chain a b))"

lemma filter_from_returns:
  fixes c toBlock :: uint64
  assumes "c > 0" "unat toBlock + unat c < 2 ^ 64"
  shows "\<exists>r. filter_from ask c toBlock sofar a = Some r
    \<and> (\<forall>e. r = Inl e \<longrightarrow>
         (\<exists>x y. a \<le> x \<and> x \<le> y \<and> y \<le> toBlock \<and> unat y - unat x < unat c \<and> ask x y = Inl e))
    \<and> (honest blk chain ask \<longrightarrow> r = Inr (sofar @ logs_between blk chain a toBlock))"
proof (induction "unat toBlock + 1 - unat a" arbitrary: a sofar rule: less_induct)
  case less
  show ?case
  proof (cases "a \<le> toBlock")
    case False
    then show ?thesis by (simp add: filter_from.simps[of _ _ _ _ a] logs_between_empty)
  next
    case True
    let ?m = "min (a + c - 1) toBlock"
    note bounds = chunk_bounds[OF assms True]
    have "a \<le> a + c" using bounds(1) by (simp add: word_le_nat_alt)
    show ?thesis
    proof (cases "ask a ?m")
      case (Inl e)
      then have "\<exists>x y. a \<le> x \<and> x \<le> y \<and> y \<le> toBlock \<and> unat y - unat x < unat c \<and> ask x y = Inl e"
        using bounds(3,5) by (intro exI [of _ a] exI [of _ ?m]) simp
      moreover have "\<not> honest blk chain ask" using Inl unfolding honest_def by (metis sum.distinct(1))
      ultimately show ?thesis using Inl True by (simp add: filter_from.simps[of _ _ _ _ a])
    next
      case (Inr logs)
      have "unat toBlock + 1 - unat (a + c) < unat toBlock + 1 - unat a"
        using True assms(1) bounds(1) by (simp add: word_le_nat_alt word_less_nat_alt)
      then obtain r where r: "filter_from ask c toBlock (sofar @ logs) (a + c) = Some r"
          "\<forall>e. r = Inl e \<longrightarrow>
            (\<exists>x y. a + c \<le> x \<and> x \<le> y \<and> y \<le> toBlock \<and> unat y - unat x < unat c \<and> ask x y = Inl e)"
          "honest blk chain ask \<longrightarrow> r = Inr ((sofar @ logs) @ logs_between blk chain (a + c) toBlock)"
        using less.hyps by blast
      have "logs @ logs_between blk chain (a + c) toBlock = logs_between blk chain a toBlock" if "honest blk chain ask"
        using that Inr logs_between_split[of blk chain a ?m "a + c" toBlock] bounds(3,4,6) by (auto simp: honest_def)
      moreover have "\<forall>e. r = Inl e \<longrightarrow>
          (\<exists>x y. a \<le> x \<and> x \<le> y \<and> y \<le> toBlock \<and> unat y - unat x < unat c \<and> ask x y = Inl e)"
        using r(2) order_trans[OF \<open>a \<le> a + c\<close>] by blast
      ultimately show ?thesis using r Inr True by (simp add: filter_from.simps[of _ _ _ _ a])
    qed
  qed
qed

text \<open>At the last block number the loop does not end, as every block is within the range; and a chunk that wraps
  asks for a range that ends before it starts.\<close>

lemma filter_from_past_end:
  fixes r :: "gerr + 'a list"
  assumes ret: "filter_from ask c t sofar a = Some r"
  shows "t = - 1 \<longrightarrow> \<not> (\<forall>x y. ask x y = Inr [])"
proof (rule filter_from.raw_induct
    [where P = "\<lambda>ask c t sofar a r. t = - 1 \<longrightarrow> \<not> (\<forall>x y. ask x y = Inr [])", OF _ ret])
  fix f :: "(uint64 \<Rightarrow> uint64 \<Rightarrow> gerr + 'a list) \<Rightarrow> uint64 \<Rightarrow> uint64 \<Rightarrow> 'a list \<Rightarrow> uint64 \<Rightarrow> (gerr + 'a list) option"
    and ask c t sofar a r
  assume IH: "\<And>ask c t sofar a r. f ask c t sofar a = Some r \<Longrightarrow> t = - 1 \<longrightarrow> \<not> (\<forall>x y. ask x y = Inr [])"
    and run: "(if a \<le> t then case ask a (min (a + c - 1) t) of Inl e \<Rightarrow> Some (Inl e)
        | Inr logs \<Rightarrow> f ask c t (sofar @ logs) (a + c) else Some (Inr sofar)) = Some r"
  show "t = - 1 \<longrightarrow> \<not> (\<forall>x y. ask x y = Inr [])"
  proof (intro impI notI)
    assume "t = - 1" and empty: "\<forall>x y. ask x y = Inr []"
    then have "f ask c t sofar (a + c) = Some r" using run word_order.extremum[of a] by simp
    then show False using IH \<open>t = - 1\<close> empty by blast
  qed
qed

lemma filter_from_wraps: "filter_from (\<lambda>_ _. Inr []) c (- 1) sofar a = None"
  using filter_from_past_end[of "\<lambda>_ _. Inr []" c "- 1" sofar a] by (cases "filter_from (\<lambda>_ _. Inr []) c (- 1) sofar a") auto

lemma chunk_wraps: "ask 5 3 = Inl e \<Longrightarrow> filter_from ask (- 1) 10 [] 5 = Some (Inl e)"
  by (subst filter_from.simps) simp

text \<open>C39: As long as the end of the range plus a chunk is a \<open>uint64\<close>, reading logs in chunks ends. An error is the
  node's answer to a request within the range, for less than a chunk of blocks. And if the node answers each request
  with the logs of those blocks in order, the result is the logs of the whole range, each once and in order, as one
  request for the range would have given, whatever the size of the chunks.\<close>

theorem FilterLogs_exact:
  assumes "cs_Connected (rd_Setup R)" "unat toBlock + unat (chunk_size R) < 2 ^ 64"
  shows "\<exists>r. FilterLogs R a toBlock = Some r
    \<and> (\<forall>e. r = Inl e \<longrightarrow> (\<exists>x y. a \<le> x \<and> x \<le> y \<and> y \<le> toBlock
         \<and> unat y - unat x < unat (chunk_size R) \<and> rd_FilterLogs R x y = Inl e))
    \<and> (honest blk chain (rd_FilterLogs R) \<longrightarrow> r = Inr (logs_between blk chain a toBlock))"
proof -
  have "chunk_size R > 0" by (auto simp: chunk_size_def defaultLogChunkSize_def word_greater_zero_iff)
  from filter_from_returns[OF this assms(2), of "rd_FilterLogs R" "[]" a] assms(1)
  show ?thesis by (simp add: FilterLogs_def)
qed

definition sample_reads :: "uint64 read_env" where
  "sample_reads =
     \<lparr>rd_Setup = \<lparr>cs_Connected = True, cs_Address = None, cs_ChainID = 1, cs_LogChunkSize = 2\<rparr>,
      rd_BlockNumber = Inr 9, rd_FilterLogs = (\<lambda>a b. Inr (logs_between id [3, 4, 4, 6, 9] a b)),
      rd_CallContract = (\<lambda>_ _. Inr []), rd_Receipt = (\<lambda>_. Inl ErrNoRows), rd_Pack = (\<lambda>_ _ _. Inr []),
      rd_Unpack = (\<lambda>_ _ _. Inr (AUint8 1)), rd_TypeName = (\<lambda>_. ''uint8'')\<rparr>"

lemma FilterLogs_exact_witness: "FilterLogs sample_reads 4 8 = Some (Inr [4, 4, 6])"
proof -
  have "honest id [3, 4, 4, 6, 9] (rd_FilterLogs sample_reads)"
    by (simp add: honest_def sample_reads_def)
  then show ?thesis
    using FilterLogs_exact[of sample_reads 8 4 id "[3, 4, 4, 6, 9]"]
    by (simp add: sample_reads_def chunk_size_def logs_between_def)
qed

end
