(* ===== verification/Config.thy ===== *)
theory Config
  imports Complex_Main McpEscrow
begin

text \<open>
  \<open>internal/config/config.go\<close>: the settings of the server, read from the environment and checked. An unset variable
  is empty. Durations are nanoseconds. Parameters: floats (\<open>ParseFloat\<close>, and the fraction of a duration, which Go
  computes in \<open>float64\<close>), and the scheme and host of a URL. Error texts quote as \<open>strconv.Quote\<close> does.
\<close>

section \<open>Parsing\<close>

datatype float_value = FNaN | FInf | FFinite rat

record config_env =
  cv_Getenv :: "string \<Rightarrow> string"
  cv_ParseFloat :: "string \<Rightarrow> gerr + float_value"
  cv_Fraction :: "nat \<Rightarrow> nat \<Rightarrow> nat \<Rightarrow> nat"
  cv_ParseURL :: "string \<Rightarrow> gerr + string \<times> string"

definition ParseBool :: "string \<Rightarrow> gerr + bool" where
  "ParseBool s =
     (if s \<in> {''1'', ''t'', ''T'', ''true'', ''TRUE'', ''True''} then Inr True
      else if s \<in> {''0'', ''f'', ''F'', ''false'', ''FALSE'', ''False''} then Inr False
      else Inl (num_error ''ParseBool'' s ''invalid syntax''))"

text \<open>The leading digits of a duration, unless they are more than \<open>2 ^ 63\<close>; those of its fraction are cut off
  where they would be, and come with their number.\<close>

fun leadingInt :: "nat \<Rightarrow> string \<Rightarrow> (nat \<times> string) option" where
  "leadingInt x [] = Some (x, [])"
| "leadingInt x (c # s) =
     (case digit_val c of
        None \<Rightarrow> Some (x, c # s)
      | Some v \<Rightarrow>
          if x > 2 ^ 63 div 10 \<or> 10 * x + v > 2 ^ 63 then None else leadingInt (10 * x + v) s)"

fun leadingFraction :: "nat \<Rightarrow> nat \<Rightarrow> bool \<Rightarrow> string \<Rightarrow> nat \<times> nat \<times> string" where
  "leadingFraction x scale overflow [] = (x, scale, [])"
| "leadingFraction x scale overflow (c # s) =
     (case digit_val c of
        None \<Rightarrow> (x, scale, c # s)
      | Some v \<Rightarrow>
          if overflow \<or> x > (2 ^ 63 - 1) div 10 \<or> 10 * x + v > 2 ^ 63
          then leadingFraction x scale True s
          else leadingFraction (10 * x + v) (Suc scale) False s)"

definition duration_units :: "(string \<times> nat) list" where
  "duration_units =
     [(''ns'', 1), (''us'', 1000), ([CHR 0xC2, CHR 0xB5, CHR ''s''], 1000), ([CHR 0xCE, CHR 0xBC, CHR ''s''], 1000),
      (''ms'', 1000000), (''s'', 1000000000), (''m'', 60000000000), (''h'', 3600000000000)]"

definition unit_end :: "char \<Rightarrow> bool" where "unit_end c \<longleftrightarrow> c = CHR ''.'' \<or> digit_val c \<noteq> None"

definition bad_duration :: "string \<Rightarrow> gerr" where
  "bad_duration orig = errors_New (''time: invalid duration '' @ Quote orig)"

text \<open>One number with its unit, and what follows.\<close>

definition duration_part :: "config_env \<Rightarrow> string \<Rightarrow> string \<Rightarrow> gerr + nat \<times> string" where
  "duration_part E orig s =
     (if s = [] \<or> \<not> unit_end (hd s) then Inl (bad_duration orig)
      else case leadingInt 0 s of
        None \<Rightarrow> Inl (bad_duration orig)
      | Some (v, s1) \<Rightarrow>
          let dot = (s1 \<noteq> [] \<and> hd s1 = CHR ''.'');
              (f, scale, s2) = (if dot then leadingFraction 0 0 False (tl s1) else (0, 0, s1));
              pre = (length s1 \<noteq> length s); post = (dot \<and> length s2 \<noteq> length (tl s1));
              u = takeWhile (\<lambda>c. \<not> unit_end c) s2; rest = dropWhile (\<lambda>c. \<not> unit_end c) s2 in
          if \<not> pre \<and> \<not> post then Inl (bad_duration orig)
          else if u = [] then Inl (errors_New (''time: missing unit in duration '' @ Quote orig))
          else case map_of duration_units u of
            None \<Rightarrow> Inl (errors_New (''time: unknown unit '' @ Quote u @ '' in duration '' @ Quote orig))
          | Some unit \<Rightarrow>
              if v > 2 ^ 63 div unit then Inl (bad_duration orig)
              else let w = v * unit + (if f > 0 then cv_Fraction E f scale unit else 0) in
                if f > 0 \<and> w > 2 ^ 63 then Inl (bad_duration orig) else Inr (w, rest))"

text \<open>Every part is not empty, so a text has at most as many parts as characters.\<close>

fun duration_parts :: "config_env \<Rightarrow> string \<Rightarrow> nat \<Rightarrow> nat \<Rightarrow> string \<Rightarrow> gerr + nat" where
  "duration_parts E orig fuel d [] = Inr d"
| "duration_parts E orig 0 d (c # s) = Inl (bad_duration orig)"
| "duration_parts E orig (Suc fuel) d (c # s) =
     (case duration_part E orig (c # s) of
        Inl e \<Rightarrow> Inl e
      | Inr (v, rest) \<Rightarrow>
          if d + v > 2 ^ 63 then Inl (bad_duration orig) else duration_parts E orig fuel (d + v) rest)"

definition ParseDuration :: "config_env \<Rightarrow> string \<Rightarrow> gerr + int" where
  "ParseDuration E orig =
     (let neg = HasPrefix orig ''-''; s = (if neg \<or> HasPrefix orig ''+'' then tl orig else orig) in
      if s = ''0'' then Inr 0
      else if s = [] then Inl (bad_duration orig)
      else case duration_parts E orig (length s) 0 s of
        Inl e \<Rightarrow> Inl e
      | Inr d \<Rightarrow>
          if neg then Inr (- int d)
          else if d > 2 ^ 63 - 1 then Inl (bad_duration orig) else Inr (int d))"

section \<open>Settings\<close>

record config =
  cfg_RPCURL :: string
  cfg_PrivateKey :: string
  cfg_ChainID :: int
  cfg_FactoryAddress :: string
  cfg_DatabaseURL :: string
  cfg_Port :: int
  cfg_MCPTransport :: string
  cfg_CORSOrigins :: "string list"
  cfg_RequestTimeout :: int
  cfg_TxTimeout :: int
  cfg_LogChunkSize :: nat
  cfg_StartBlock :: nat
  cfg_RebidCooldownSeconds :: int
  cfg_ReputationDampingFactor :: float_value
  cfg_ComplexityFloor :: string
  cfg_CDPWebhookSecret :: string
  cfg_A2AEnabled :: bool
  cfg_A2AAgentName :: string
  cfg_A2AAgentURL :: string
  cfg_UCPEnabled :: bool
  cfg_UCPBaseURL :: string
  cfg_UCPProviderName :: string
  cfg_X402Enabled :: bool
  cfg_X402FacilitatorURL :: string
  cfg_EventsEnabled :: bool
  cfg_EventsBufferSize :: int
  cfg_EventsHeartbeatInterval :: int
  cfg_EmergencyEnabled :: bool
  cfg_OwnerAddress :: string

definition WebhookMode :: "config \<Rightarrow> bool" where
  "WebhookMode c \<longleftrightarrow> TrimSpace (cfg_CDPWebhookSecret c) \<noteq> []"

definition Online :: "config \<Rightarrow> bool" where
  "Online c \<longleftrightarrow> cfg_RPCURL c \<noteq> []"

section \<open>Validation\<close>

definition validateHexKey :: "string \<Rightarrow> gerr option" where
  "validateHexKey s =
     (case DecodeString (TrimPrefix s ''0x'') of
        Inl e \<Rightarrow> Some (wrap ''not valid hex'' e)
      | Inr b \<Rightarrow>
          if length b \<noteq> 32 then Some (errors_New (''expected 32 bytes, got '' @ nat_str (length b))) else None)"

definition validateEthAddress :: "string \<Rightarrow> gerr option" where
  "validateEthAddress s =
     (if \<not> HasPrefix s ''0x'' \<and> \<not> HasPrefix s ''0X'' then Some (errors_New ''must start with 0x prefix'')
      else case DecodeString (drop 2 s) of
        Inl e \<Rightarrow> Some (wrap ''not valid hex'' e)
      | Inr b \<Rightarrow>
          if length b \<noteq> 20
          then Some (errors_New (''expected 20 bytes (40 hex chars), got '' @ nat_str (length b) @ '' bytes''))
          else None)"

text \<open>The factor is a number above 0 and at most 1.\<close>

definition damping_ok :: "float_value \<Rightarrow> bool" where
  "damping_ok v = (case v of FFinite q \<Rightarrow> 0 < q \<and> q \<le> 1 | _ \<Rightarrow> False)"

definition complain :: "bool \<Rightarrow> string \<Rightarrow> string list" where
  "complain b msg = (if b then [msg] else [])"

definition complain_of :: "string \<Rightarrow> string \<Rightarrow> gerr option \<Rightarrow> string list" where
  "complain_of field s r =
     (if s = [] then [] else case r of None \<Rightarrow> [] | Some e \<Rightarrow> [field @ '' is invalid: '' @ err_msg e])"

definition validation_errors :: "config \<Rightarrow> string list" where
  "validation_errors c =
     complain (Online c \<and> cfg_PrivateKey c = []) ''PRIVATE_KEY is required when RPC_URL is set''
     @ complain (Online c \<and> cfg_FactoryAddress c = []) ''FACTORY_ADDRESS is required when RPC_URL is set''
     @ complain_of ''PRIVATE_KEY'' (cfg_PrivateKey c) (validateHexKey (cfg_PrivateKey c))
     @ complain_of ''FACTORY_ADDRESS'' (cfg_FactoryAddress c) (validateEthAddress (cfg_FactoryAddress c))
     @ complain (cfg_Port c < 1 \<or> cfg_Port c > 65535)
         (''PORT must be between 1 and 65535, got '' @ int_str (cfg_Port c))
     @ complain (cfg_RequestTimeout c \<le> 0) ''REQUEST_TIMEOUT must be positive''
     @ complain (cfg_TxTimeout c \<le> 0) ''TX_TIMEOUT must be positive''
     @ complain (cfg_RebidCooldownSeconds c < 0) ''REBID_COOLDOWN_SECONDS must be >= 0''
     @ complain (\<not> damping_ok (cfg_ReputationDampingFactor c)) ''REPUTATION_DAMPING_FACTOR must be > 0 and <= 1''
     @ complain (cfg_EventsEnabled c \<and> cfg_EventsBufferSize c \<le> 0)
         ''EVENTS_BUFFER_SIZE must be positive when events are enabled''
     @ complain (cfg_EventsEnabled c \<and> cfg_EventsHeartbeatInterval c \<le> 0)
         ''EVENTS_HEARTBEAT_INTERVAL must be positive when events are enabled''"

definition validation_warnings :: "config \<Rightarrow> string list" where
  "validation_warnings c =
     complain (\<not> Online c) ''RPC_URL is empty: running in offline mode (chain operations will fail)''
     @ complain (cfg_EmergencyEnabled c \<and> TrimSpace (cfg_OwnerAddress c) = [])
         ''EMERGENCY_ENABLED is true but OWNER_ADDRESS is not set: emergency override authorization will always fail''"

definition Validate :: "config \<Rightarrow> string list \<times> string list" where
  "Validate c = (validation_errors c, validation_warnings c)"

section \<open>Loading\<close>

text \<open>A variable with a default, which is parsed when it is set.\<close>

definition setting :: "config_env \<Rightarrow> string \<Rightarrow> 'a \<Rightarrow> (string \<Rightarrow> gerr + 'a) \<Rightarrow> gerr + 'a" where
  "setting E name dflt parse = (let raw = cv_Getenv E name in if raw = [] then Inr dflt else parse raw)"

definition invalid_setting :: "string \<Rightarrow> gerr + 'a \<Rightarrow> gerr + 'a" where
  "invalid_setting name r = (case r of Inl e \<Rightarrow> Inl (wrap (''invalid '' @ name) e) | Inr x \<Rightarrow> Inr x)"

text \<open>Where the text of the parser's error is replaced.\<close>

definition checked_setting :: "string \<Rightarrow> string \<Rightarrow> ('a \<Rightarrow> bool) \<Rightarrow> gerr + 'a \<Rightarrow> gerr + 'a" where
  "checked_setting name rule ok r =
     (case r of
        Inl _ \<Rightarrow> Inl (errors_New (''invalid '' @ name @ '': '' @ rule))
      | Inr x \<Rightarrow> if ok x then Inr x else Inl (errors_New (''invalid '' @ name @ '': '' @ rule)))"

definition bool_setting :: "config_env \<Rightarrow> string \<Rightarrow> bool \<Rightarrow> gerr + bool" where
  "bool_setting E name dflt = setting E name dflt (\<lambda>raw. invalid_setting name (ParseBool raw))"

definition text_setting :: "config_env \<Rightarrow> string \<Rightarrow> string \<Rightarrow> string" where
  "text_setting E name dflt = (let raw = cv_Getenv E name in if raw = [] then dflt else raw)"

definition trimmed_setting :: "config_env \<Rightarrow> string \<Rightarrow> string \<Rightarrow> string" where
  "trimmed_setting E name dflt = (let raw = TrimSpace (cv_Getenv E name) in if raw = [] then dflt else raw)"

definition cors_origins :: "string \<Rightarrow> string list" where
  "cors_origins raw =
     (if raw = [] then [] else filter (\<lambda>t. t \<noteq> []) (map TrimSpace (Split CHR '','' raw)))"

definition damping_setting :: "config_env \<Rightarrow> string \<Rightarrow> gerr + float_value" where
  "damping_setting E raw =
     (let name = ''REPUTATION_DAMPING_FACTOR''; bad = (\<lambda>rule. Inl (errors_New (''invalid '' @ name @ '': '' @ rule))) in
      case cv_ParseFloat E raw of
        Inl e \<Rightarrow> Inl (wrap (''invalid '' @ name) e)
      | Inr v \<Rightarrow>
          (case v of
             FFinite q \<Rightarrow> if q \<le> 0 \<or> q > 1 then bad ''must be > 0 and <= 1'' else Inr v
           | _ \<Rightarrow> bad ''must be finite''))"

definition floor_setting :: "string \<Rightarrow> gerr + string" where
  "floor_setting raw =
     (if raw = [] then Inr []
      else case SetString10 raw of
        Some i \<Rightarrow> if i < 0 then Inl (errors_New ''invalid COMPLEXITY_FLOOR: must be a non-negative integer'') else Inr raw
      | None \<Rightarrow> Inl (errors_New ''invalid COMPLEXITY_FLOOR: must be a non-negative integer''))"

text \<open>The name of the provider is never empty here, because it has a default.\<close>

definition check_ucp :: "config_env \<Rightarrow> bool \<Rightarrow> string \<Rightarrow> string \<Rightarrow> gerr + unit" where
  "check_ucp E enabled name base =
     (if \<not> enabled then Inr ()
      else if name = [] then Inl (errors_New ''UCP_PROVIDER_NAME must be set when UCP is enabled'')
      else case cv_ParseURL E base of
        Inr (scheme, host) \<Rightarrow>
          if scheme = [] \<or> host = []
          then Inl (errors_New (''UCP_BASE_URL must be a valid URL with scheme and host, got '' @ Quote base))
          else Inr ()
      | Inl _ \<Rightarrow> Inl (errors_New (''UCP_BASE_URL must be a valid URL with scheme and host, got '' @ Quote base)))"

text \<open>The default of the factor is the \<open>float64\<close> next to 0.9.\<close>

definition default_damping :: float_value where
  "default_damping = FFinite (8106479329266893 / 9007199254740992)"

definition Load :: "config_env \<Rightarrow> gerr + config" where
  "Load E =
     (let env = cv_Getenv E in
      okThen (setting E ''PORT'' 8080 (\<lambda>raw. invalid_setting ''PORT'' (ParseIntAs ''Atoi'' raw))) (\<lambda>port.
      okThen (setting E ''CHAIN_ID'' 84532 (\<lambda>raw. invalid_setting ''CHAIN_ID'' (ParseIntAs ''ParseInt'' raw))) (\<lambda>chainID.
      okThen (setting E ''REQUEST_TIMEOUT'' 10000000000
               (\<lambda>raw. invalid_setting ''REQUEST_TIMEOUT'' (ParseDuration E raw))) (\<lambda>requestTimeout.
      okThen (setting E ''TX_TIMEOUT'' 90000000000
               (\<lambda>raw. invalid_setting ''TX_TIMEOUT'' (ParseDuration E raw))) (\<lambda>txTimeout.
      okThen (setting E ''LOG_CHUNK_SIZE'' 2000
               (\<lambda>raw. checked_setting ''LOG_CHUNK_SIZE'' ''must be a positive integer'' (\<lambda>v. v \<noteq> 0) (ParseUint 64 raw)))
        (\<lambda>logChunkSize.
      okThen (setting E ''START_BLOCK'' 0 (\<lambda>raw. invalid_setting ''START_BLOCK'' (ParseUint 64 raw))) (\<lambda>startBlock.
      okThen (setting E ''REBID_COOLDOWN_SECONDS'' 0
               (\<lambda>raw. checked_setting ''REBID_COOLDOWN_SECONDS'' ''must be a non-negative integer'' (\<lambda>v. 0 \<le> v)
                  (ParseIntAs ''ParseInt'' raw))) (\<lambda>rebid.
      okThen (setting E ''REPUTATION_DAMPING_FACTOR'' default_damping (damping_setting E)) (\<lambda>damping.
      okThen (floor_setting (env ''COMPLEXITY_FLOOR'')) (\<lambda>floor.
      okThen (bool_setting E ''A2A_ENABLED'' True) (\<lambda>a2a.
      okThen (bool_setting E ''UCP_ENABLED'' False) (\<lambda>ucp.
        let local = ''http://localhost:'' @ int_str port; base = trimmed_setting E ''UCP_BASE_URL'' local;
            provider = trimmed_setting E ''UCP_PROVIDER_NAME'' ''Agent Escrow UCP Provider'' in
      okThen (check_ucp E ucp provider base) (\<lambda>_.
      okThen (bool_setting E ''X402_ENABLED'' False) (\<lambda>x402.
      okThen (bool_setting E ''EVENTS_ENABLED'' True) (\<lambda>events.
      okThen (setting E ''EVENTS_BUFFER_SIZE'' 64
               (\<lambda>raw. checked_setting ''EVENTS_BUFFER_SIZE'' ''must be a positive integer'' (\<lambda>v. 0 < v)
                  (ParseIntAs ''Atoi'' raw))) (\<lambda>buffer.
      okThen (bool_setting E ''EMERGENCY_ENABLED'' True) (\<lambda>emergency.
      okThen (setting E ''EVENTS_HEARTBEAT_INTERVAL'' 30000000000
               (\<lambda>raw. okThen (invalid_setting ''EVENTS_HEARTBEAT_INTERVAL'' (ParseDuration E raw)) (\<lambda>v.
                  if v \<le> 0 then Inl (errors_New ''invalid EVENTS_HEARTBEAT_INTERVAL: must be positive'') else Inr v)))
        (\<lambda>heartbeat.
        let c = \<lparr>cfg_RPCURL = env ''RPC_URL'', cfg_PrivateKey = env ''PRIVATE_KEY'', cfg_ChainID = chainID,
                 cfg_FactoryAddress = env ''FACTORY_ADDRESS'',
                 cfg_DatabaseURL = text_setting E ''DATABASE_URL'' ''delegation.db'', cfg_Port = port,
                 cfg_MCPTransport = env ''MCP_TRANSPORT'', cfg_CORSOrigins = cors_origins (env ''CORS_ORIGINS''),
                 cfg_RequestTimeout = requestTimeout, cfg_TxTimeout = txTimeout, cfg_LogChunkSize = logChunkSize,
                 cfg_StartBlock = startBlock, cfg_RebidCooldownSeconds = rebid,
                 cfg_ReputationDampingFactor = damping, cfg_ComplexityFloor = floor,
                 cfg_CDPWebhookSecret = env ''CDP_WEBHOOK_SECRET'', cfg_A2AEnabled = a2a,
                 cfg_A2AAgentName = text_setting E ''A2A_AGENT_NAME'' ''Escrow Settlement Agent'',
                 cfg_A2AAgentURL = text_setting E ''A2A_AGENT_URL'' local, cfg_UCPEnabled = ucp,
                 cfg_UCPBaseURL = base, cfg_UCPProviderName = provider, cfg_X402Enabled = x402,
                 cfg_X402FacilitatorURL = text_setting E ''X402_FACILITATOR_URL'' ''https://api.developer.coinbase.com/v2/x402'',
                 cfg_EventsEnabled = events, cfg_EventsBufferSize = buffer, cfg_EventsHeartbeatInterval = heartbeat,
                 cfg_EmergencyEnabled = emergency, cfg_OwnerAddress = ToLower (TrimSpace (env ''OWNER_ADDRESS''))\<rparr> in
        case validation_errors c of
          [] \<Rightarrow> Inr c
        | es \<Rightarrow> Inl (errors_New (''config validation failed:'' @ [CHR 0x0A] @ ''  '' @ Join es (CHR 0x0A # ''  '')))))))))))))))))))))"

section \<open>What a loaded configuration satisfies\<close>

lemma setting_Inr [err_iff]:
  "setting E name dflt parse = Inr x \<longleftrightarrow> (if cv_Getenv E name = [] then x = dflt else parse (cv_Getenv E name) = Inr x)"
  by (auto simp: setting_def Let_def)

lemma invalid_setting_Inr [err_iff]: "invalid_setting name r = Inr x \<longleftrightarrow> r = Inr x"
  by (simp add: invalid_setting_def split: sum.splits)

lemma checked_setting_Inr [err_iff]: "checked_setting name rule ok r = Inr x \<longleftrightarrow> r = Inr x \<and> ok x"
  by (auto simp: checked_setting_def split: sum.splits)

lemma complain_Nil [simp]: "complain b msg = [] \<longleftrightarrow> \<not> b"
  by (simp add: complain_def)

lemma complain_of_Nil: "complain_of field s r = [] \<longleftrightarrow> s = [] \<or> r = None"
  by (simp add: complain_of_def split: option.splits)

lemma damping_setting_ok: "damping_setting E raw = Inr v \<Longrightarrow> damping_ok v"
  by (auto simp: damping_setting_def damping_ok_def Let_def split: sum.splits float_value.splits if_splits)

lemma floor_setting_ok:
  "floor_setting raw = Inr s \<Longrightarrow> s = [] \<or> (\<exists>f. SetString10 s = Some f \<and> 0 \<le> f)"
  by (auto simp: floor_setting_def split: option.splits if_splits)

lemma floor_decides:
  assumes "s = [] \<or> (\<exists>f. SetString10 s = Some f \<and> 0 \<le> f)" "0 \<le> a"
  shows "ValidateComplexityFloor (Some a) s = None \<longleftrightarrow> (\<forall>f. SetString10 s = Some f \<longrightarrow> f \<le> a)"
proof -
  have "SetString10 ''0'' = Some 0" "SetString10 [] = None" by code_simp+
  then show ?thesis using assms by (auto simp: ValidateComplexityFloor_def split: if_splits)
qed

text \<open>The checks of single settings, whatever their defaults satisfy.\<close>

lemma setting_bounds:
  "setting E name dflt (\<lambda>raw. checked_setting name rule ok (parse raw)) = Inr x \<Longrightarrow> ok dflt \<Longrightarrow> ok x"
  by (auto simp: err_iff split: if_splits)

lemma setting_uint64:
  "setting E name dflt (\<lambda>raw. checked_setting name rule ok (ParseUint 64 raw)) = Inr n \<Longrightarrow> dflt < 2 ^ 64 \<Longrightarrow> n < 2 ^ 64"
  "setting E name dflt (\<lambda>raw. invalid_setting name (ParseUint 64 raw)) = Inr n \<Longrightarrow> dflt < 2 ^ 64 \<Longrightarrow> n < 2 ^ 64"
  by (auto simp: err_iff split: if_splits)

lemma setting_damping: "setting E name default_damping (damping_setting E) = Inr v \<Longrightarrow> damping_ok v"
  using damping_setting_ok by (auto simp: err_iff default_damping_def damping_ok_def split: if_splits)

lemma setting_heartbeat:
  "setting E name dflt (\<lambda>raw. okThen (invalid_setting name (ParseDuration E raw)) (\<lambda>v.
     if v \<le> 0 then Inl err else Inr v)) = Inr x \<Longrightarrow> 0 < dflt \<Longrightarrow> 0 < x"
  by (auto simp: err_iff split: if_splits)

lemma Load_fields:
  assumes "Load E = Inr c"
  shows "validation_errors c = [] \<and> 0 < cfg_LogChunkSize c \<and> cfg_LogChunkSize c < 2 ^ 64
    \<and> cfg_StartBlock c < 2 ^ 64 \<and> damping_ok (cfg_ReputationDampingFactor c)
    \<and> (cfg_ComplexityFloor c = [] \<or> (\<exists>f. SetString10 (cfg_ComplexityFloor c) = Some f \<and> 0 \<le> f))
    \<and> check_ucp E (cfg_UCPEnabled c) (cfg_UCPProviderName c) (cfg_UCPBaseURL c) = Inr ()
    \<and> 0 < cfg_EventsBufferSize c \<and> 0 < cfg_EventsHeartbeatInterval c"
  using assms unfolding Load_def Let_def okThen_Inr
  by (elim exE conjE)
    (drule setting_heartbeat, simp, frule setting_uint64(1), simp, drule setting_uint64(2), simp,
      (drule setting_bounds, simp)+, drule setting_damping, drule floor_setting_ok, clarsimp split: list.splits)

text \<open>C40: A configuration that loads is usable. The port, the timeouts, the size of the log chunks, the damping factor
  and the settings of the event bus are within their bounds. A server that is online has a private key of 32 bytes
  and a factory address of 20. A checkout adapter that is enabled has a base URL with scheme and host. And the
  complexity floor is a number, so that an amount is refused exactly if it is below it.\<close>

theorem Load_sound:
  assumes "Load E = Inr c"
  shows "1 \<le> cfg_Port c \<and> cfg_Port c \<le> 65535 \<and> 0 < cfg_RequestTimeout c \<and> 0 < cfg_TxTimeout c
    \<and> 0 < cfg_LogChunkSize c \<and> cfg_LogChunkSize c < 2 ^ 64 \<and> cfg_StartBlock c < 2 ^ 64
    \<and> 0 \<le> cfg_RebidCooldownSeconds c
    \<and> (\<exists>q. cfg_ReputationDampingFactor c = FFinite q \<and> 0 < q \<and> q \<le> 1)
    \<and> 0 < cfg_EventsBufferSize c \<and> 0 < cfg_EventsHeartbeatInterval c
    \<and> (Online c \<longrightarrow>
         (\<exists>k a. DecodeString (TrimPrefix (cfg_PrivateKey c) ''0x'') = Inr k \<and> length k = 32
            \<and> DecodeString (drop 2 (cfg_FactoryAddress c)) = Inr a \<and> length a = 20))
    \<and> (cfg_UCPEnabled c \<longrightarrow>
         (\<exists>scheme host. cv_ParseURL E (cfg_UCPBaseURL c) = Inr (scheme, host) \<and> scheme \<noteq> [] \<and> host \<noteq> []))
    \<and> (\<forall>a. 0 \<le> a \<longrightarrow> (ValidateComplexityFloor (Some a) (cfg_ComplexityFloor c) = None
         \<longleftrightarrow> (\<forall>f. SetString10 (cfg_ComplexityFloor c) = Some f \<longrightarrow> f \<le> a)))"
proof -
  note loaded = Load_fields[OF assms]
  have valid: "validation_errors c = []" using loaded by blast
  have damp: "\<exists>q. cfg_ReputationDampingFactor c = FFinite q \<and> 0 < q \<and> q \<le> 1"
    using loaded by (auto simp: damping_ok_def split: float_value.splits)
  have key: "\<exists>k. DecodeString (TrimPrefix (cfg_PrivateKey c) ''0x'') = Inr k \<and> length k = 32" if "Online c"
    using valid that
    by (auto simp: validation_errors_def complain_of_Nil validateHexKey_def split: sum.splits if_splits)
  have factory: "\<exists>a. DecodeString (drop 2 (cfg_FactoryAddress c)) = Inr a \<and> length a = 20" if "Online c"
    using valid that
    by (auto simp: validation_errors_def complain_of_Nil validateEthAddress_def split: sum.splits if_splits)
  have url: "\<exists>scheme host. cv_ParseURL E (cfg_UCPBaseURL c) = Inr (scheme, host) \<and> scheme \<noteq> [] \<and> host \<noteq> []"
    if "cfg_UCPEnabled c"
    using loaded that by (auto simp: check_ucp_def split: sum.splits if_splits)
  have bounds: "1 \<le> cfg_Port c" "cfg_Port c \<le> 65535" "0 < cfg_RequestTimeout c" "0 < cfg_TxTimeout c"
      "0 \<le> cfg_RebidCooldownSeconds c"
    using valid by (simp_all add: validation_errors_def)
  show ?thesis using loaded damp key factory url bounds floor_decides[of "cfg_ComplexityFloor c"] by blast
qed

text \<open>A server that is offline, with a checkout adapter and a floor.\<close>

definition sample_environment :: config_env where
  "sample_environment =
     \<lparr>cv_Getenv = (\<lambda>name.
        if name = ''UCP_ENABLED'' then ''true'' else if name = ''COMPLEXITY_FLOOR'' then ''5''
        else if name = ''TX_TIMEOUT'' then ''2m30s'' else []),
      cv_ParseFloat = (\<lambda>s. Inl (errors_New ''invalid syntax'')), cv_Fraction = (\<lambda>_ _ _. 0),
      cv_ParseURL = (\<lambda>s. Inr (''http'', drop 7 s))\<rparr>"

lemma sample_texts:
  "TrimSpace [] = []" "digit_val CHR ''2'' = Some 2" "digit_val CHR ''3'' = Some 3" "digit_val CHR ''0'' = Some 0"
  "digit_val CHR ''m'' = None" "digit_val CHR ''s'' = None" "SetString10 ''5'' = Some 5"
  by code_simp+

lemma duration_parts_numeral:
  "duration_parts E orig (numeral k) d (c # s) =
     (case duration_part E orig (c # s) of
        Inl e \<Rightarrow> Inl e
      | Inr (v, rest) \<Rightarrow>
          if d + v > 2 ^ 63 then Inl (bad_duration orig) else duration_parts E orig (pred_numeral k) (d + v) rest)"
  by (simp add: numeral_eq_Suc)

lemma sample_timeout: "ParseDuration sample_environment ''2m30s'' = Inr 150000000000"
  by (simp add: ParseDuration_def HasPrefix_def duration_parts_numeral duration_part_def unit_end_def sample_texts
      duration_units_def Let_def)

lemma sample_loads:
  "\<exists>c. Load sample_environment = Inr c \<and> cfg_TxTimeout c = 150000000000 \<and> cfg_ComplexityFloor c = ''5'' \<and> cfg_UCPEnabled c"
proof -
  let ?E = sample_environment
  have env: "cv_Getenv ?E name = (if name = ''UCP_ENABLED'' then ''true'' else if name = ''COMPLEXITY_FLOOR'' then ''5''
      else if name = ''TX_TIMEOUT'' then ''2m30s'' else [])" for name
    by (simp add: sample_environment_def)
  have url: "cv_ParseURL ?E s = Inr (''http'', drop 7 s)" for s by (simp add: sample_environment_def)
  show ?thesis
    by (simp add: Load_def setting_def bool_setting_def text_setting_def trimmed_setting_def env url sample_texts
        sample_timeout invalid_setting_def ParseBool_def floor_setting_def check_ucp_def cors_origins_def
        validation_errors_def complain_of_def Online_def damping_ok_def default_damping_def Let_def complain_def)
qed

lemma Load_sound_witness:
  "\<exists>c. Load sample_environment = Inr c \<and> cfg_TxTimeout c = 150000000000 \<and> cfg_Port c \<le> 65535
     \<and> (\<exists>scheme host. cv_ParseURL sample_environment (cfg_UCPBaseURL c) = Inr (scheme, host) \<and> host \<noteq> [])
     \<and> ValidateComplexityFloor (Some 4) (cfg_ComplexityFloor c) \<noteq> None"
proof -
  obtain c where c: "Load sample_environment = Inr c" "cfg_TxTimeout c = 150000000000" "cfg_ComplexityFloor c = ''5''"
      "cfg_UCPEnabled c"
    using sample_loads by blast
  have "ValidateComplexityFloor (Some 4) (cfg_ComplexityFloor c) = None
      \<longleftrightarrow> (\<forall>f. SetString10 (cfg_ComplexityFloor c) = Some f \<longrightarrow> f \<le> 4)"
    using Load_sound[OF c(1)] by (metis zero_le_numeral)
  then have "ValidateComplexityFloor (Some 4) (cfg_ComplexityFloor c) \<noteq> None" by (simp add: c(3) sample_texts)
  then show ?thesis using Load_sound[OF c(1)] c by blast
qed

end
