(* ===== verification/Spec2Isabelle.thy ===== *)
theory Spec2Isabelle
  imports Attestation BidAccept BusProps IndexProps EscrowProps DecompProps FrontProps BidFront Webhook ChainReads Config
begin

text \<open>
  A verification library for the agent-escrow server, the Go program under \<open>src/go-server\<close>. The server lets
  agents agree on work and settle it through escrow contracts: buyers create escrows or ask for sealed bids,
  workers submit work with attestations, tokens delegate rights on an escrow, and an indexer copies the events of
  the contracts into an SQLite database. File names below are under \<open>src/go-server/internal\<close>.

  \<^bold>\<open>The program and its parts.\<close> Two front ends, HTTP handlers (\<open>api\<close>, \<open>ap2/handler.go\<close>, \<open>ucp/handler.go\<close>,
  \<open>a2a/handler.go\<close>) and MCP tools (\<open>mcpserver\<close>), decode requests and call services: escrows (\<open>escrow\<close>), sealed
  bidding (\<open>bidding\<close>), decompositions of work (\<open>decomposition\<close>), capability tokens (\<open>dct\<close>, \<open>authz\<close>), checkouts
  (\<open>ucp\<close>), spending mandates (\<open>ap2\<close>) and agent-to-agent tasks (\<open>a2a\<close>). The services keep their state in the
  tables of \<open>storage\<close> and send transactions through \<open>chain\<close>. The indexer (\<open>indexer\<close>) and the webhook
  (\<open>api/webhook.go\<close>) write what happened on the chain into the same tables and publish events on the bus
  (\<open>events\<close>). The services do not call each other, except that a decomposition creates RFQs, an accepted bid
  creates an escrow, and checkouts and mandates act on escrows: they interact through the database, the chain and
  the bus, and this is where the models are composed.

  \<^bold>\<open>Conventions.\<close> A Go struct is a record, whose field prefixes keep records apart. A table is a list of rows in the
  order of their ids, the database \<open>db\<close> one record of tables (\<open>Models\<close>). An operation maps the state to the state
  and \<open>Inl\<close> an error or \<open>Inr\<close> a value; errors (\<open>gerr\<close> in \<open>Prelude\<close>) are trees, so that \<open>errors.Is\<close> and
  \<open>errors.As\<close> are functions on them, and carry the text the program gives. A failed transaction returns the
  database from before it. A UNIQUE, CHECK or foreign-key constraint of the schema is a branch of the query. Go's
  \<open>int64\<close> database columns and block times are \<open>int\<close> where the program does no arithmetic that could wrap, and
  words of their width elsewhere (\<open>Numconv\<close>, the bus, the indexer, the chain client, checkouts).
  The clock is read once per operation.

  \<^bold>\<open>Foundations.\<close>
  \<^item> \<open>Prelude\<close>: strings, numbers in decimal, errors, and the locales \<open>row_store\<close> (a table with lookup, insertion
    and update, interpreted on the lists of rows), and \<open>terminal_machine\<close> (a machine whose final statuses stay,
    interpreted for bid commits, decompositions and A2A tasks). The collections \<open>err_iff\<close> and \<open>frame\<close> say when an
    operation succeeds and what it leaves alone.
  \<^item> \<open>Numconv\<close> (\<open>numconv/numconv.go\<close> and \<open>encoding/hex\<close>), \<open>Json\<close> and \<open>JsonValue\<close> (the parser, printer and struct
    decoding of \<open>encoding/json\<close> that the stored documents go through; the locale \<open>string_codec\<close> is the contract of
    stored lists), \<open>Eth\<close> (go-ethereum as the record \<open>eth_lib\<close> of parameters).
  \<^item> \<open>Models\<close> (\<open>storage/models.go\<close>), and the queries of \<open>storage/queries.go\<close>, \<open>dct_queries.go\<close> and
    \<open>emergency_tx.go\<close>: \<open>Storage\<close>, \<open>BidStore\<close>, \<open>AttestStore\<close>, \<open>DecompStore\<close>, \<open>SessionStore\<close>.

  \<^bold>\<open>Services.\<close>
  \<^item> Capability tokens. \<open>Authz\<close>: the decision function equals a declarative policy that denies by default. \<open>Dct\<close>,
    \<open>Lineage\<close> and \<open>DctProps\<close>: the step relation of all operations keeps the lineage of tokens sound, so that
    introspection is active only on an intact chain of live ancestors; delegation attenuates, revocation
    cascades, and what cannot be audited changes nothing. \<open>chain_loop\<close> visits each token once at most.
  \<^item> Sealed bidding. \<open>Bidding\<close>, \<open>BidLife\<close>, \<open>BidFinalize\<close>, \<open>BidProps\<close>, \<open>BidAccept\<close>: what each operation checks, the
    life of a commit over any history, the order by which finalization picks the best bid, strikes and cooldowns,
    and that a bid is accepted once, by the buyer, as the finalized best one. \<open>Credentials\<close>: requirements count as
    met exactly if signed attestations meet them.
  \<^item> Escrows. \<open>Chain\<close> (\<open>chain/receipt.go\<close>, \<open>validation.go\<close>): receipts are polled 60 times. \<open>Escrow\<close> has the creation
    as phases, one for each statement, transaction or call, which \<open>EscrowCreate\<close> interleaves with other requests,
    crashes and the rest of the server: per intent at most one creation is accepted by the chain. \<open>EscrowOps\<close> has
    the other operations, \<open>EscrowProps\<close> what they send. A creation ends within 20 steps, because it persists
    3 times at most. \<open>Attestation\<close>: the validator of completion chains accepts exactly the declaratively valid
    ones; the fuel of its depth-first search is the number of links plus one, and is shown to suffice.
  \<^item> Decompositions. \<open>Decomposition\<close>, \<open>DecompProps\<close>: the stored tree is the requested forest, a cycle is found
    exactly when there is one (rounds of placement shrink the list of tasks left), and finalization happens once.
  \<^item> Checkouts. \<open>Ucp\<close>, \<open>UcpProps\<close>, \<open>UcpGuard\<close>: an idempotent request is executed once under every interleaving of the
    per-key locks, and a repetition is answered from its record, which round-trips through JSON.
  \<^item> Mandates. \<open>Ap2\<close>, \<open>Ap2Props\<close>: a mandate funds the escrow of its signer, with its parameters, once; the six
    steps of a request interleave.
  \<^item> Tasks of agents. \<open>A2a\<close>, \<open>A2aProps\<close>: closed tasks keep their status under all JSON-RPC requests.

  \<^bold>\<open>Chain, events, front ends.\<close>
  \<^item> \<open>ChainClient\<close> (\<open>chain/client.go\<close>, \<open>escrow.go\<close>, \<open>factory.go\<close>, \<open>emergency.go\<close>): each call of the services as a
    method with its arguments, checked against the interfaces the program embeds, and the cache of the nonce with
    its one retry. The locale \<open>transactor\<close> is what the services rely on (a call that fails sent nothing, one that
    succeeds sent one transaction); the client is an instance. \<open>ChainReads\<close>: logs are read in chunks, which is a
    loop that may not end when block numbers wrap; otherwise it gives what one request would.
  \<^item> \<open>Events\<close>, \<open>BusProps\<close>: the bus at the granularity of its lock under every interleaving, with channels as
    references; it never panics nor blocks a publisher for ever, and the ring buffer refines the history.
  \<^item> \<open>Indexer\<close>, \<open>IndexProps\<close>: a log takes effect once however it is delivered (locale \<open>once_machine\<close>), statuses
    follow a table, a pass over an answering node makes progress. \<open>Webhook\<close>: deliveries take effect only when
    freshly signed, and once; bodies are read up to 1 MiB, timestamps may be 5 minutes off.
  \<^item> \<open>ApiDct\<close>, \<open>AdapterApi\<close>, \<open>ApiEscrow\<close>, \<open>ApiBidding\<close> (handlers) and \<open>McpEscrow\<close>, \<open>McpBidding\<close>, \<open>McpTools\<close> (tools), on
    decoded bodies and arguments; \<open>Emergency\<close> has both front ends of the emergency protocol. \<open>FrontProps\<close>: both front
    ends hand the same request to the service, and a refused request changes nothing. \<open>BidFront\<close>: no question tells
    anything of a sealed commitment. \<open>Server\<close> composes indexer, webhook, creations, tokens and emergency requests in
    any order over the locale \<open>db_preorder\<close>: statuses stay typed, and tokens of a frozen escrow stay dead.
  \<^item> \<open>Config\<close> (\<open>config/config.go\<close>): the settings, their parsing (durations included, which have at most as many parts
    as characters) and validation.

  \<^bold>\<open>Parameters.\<close> Code outside the repository, and what comes from the outside, is an argument of the definitions:
  go-ethereum (\<open>eth_lib\<close>, packing, signing, decoding of event data \<open>contract_abi\<close>), the node (\<open>node\<close>, \<open>chain_view\<close>,
  \<open>client_env\<close>), the answers of the chain to the services (\<open>ee_Chain\<close>, \<open>gv_Send\<close>, \<open>mv_Fund\<close>, which may depend on every
  earlier call), a pass of the indexer seen by a service (\<open>ee_RunOnce\<close>), SHA-256 and HMAC, random bytes and identifiers,
  the clock, the order in which Go visits a map, and the texts of \<open>float64\<close> and \<open>time.Time\<close>. Hypotheses on them are
  named in the statements (\<open>node_counts\<close>, collision freedom of a hash at the values in question) and have witnesses.

  \<^bold>\<open>Not modelled.\<close> The transports: mux, CORS, timeouts and recovery of HTTP (\<open>api/router.go\<close> apart from the routes of
  escrows and emergencies, \<open>api/middleware.go\<close>), server-sent events and WebSockets (\<open>api/stream.go\<close>), the registration
  and schemas of MCP tools; all are calls of libraries around the handlers. The decoding of request bodies by
  \<open>encoding/json\<close>, except where a webhook, a stored or a nested document is decoded. The reputation views, which are \<open>float64\<close>
  arithmetic. Cancellation of a request's context. The mock of the client, which is for tests. Opening the database and its migrations (\<open>storage/db.go\<close>), whose
  constraints are branches of the queries. The x402 client, which does not decide
  anything, the command line (\<open>cli\<close>) and the processes under \<open>cmd\<close>. The contracts themselves are not Go; the library
  relies on their interfaces only.
\<close>

end
